(* ===== verification/Prelude.thy ===== *)
theory Prelude
  imports Main "HOL-Library.Word" "HOL-Library.List_Lexorder" "HOL-Library.Char_ord"
begin

text \<open>
  What the components share: ordered maps and sets (Rust's \<^verbatim>\<open>BTreeMap\<close> and
  \<^verbatim>\<open>BTreeSet\<close>, kept as key-sorted lists so that the code's iteration order is the list
  order), the string operations of the standard library that the sources use on UTF-8
  bytes, decimal printing, and the outcome of a fallible computation.  Strings are lists
  of bytes (\<^typ>\<open>char\<close>), so the library's lexicographic order on them is the byte order
  of Rust's \<^verbatim>\<open>str\<close>.
\<close>

named_theorems btree_simps \<open>equations of the ordered maps and sets\<close>
named_theorems outcome_simps \<open>equations of the outcome combinators\<close>

type_synonym i64 = "64 word"
type_synonym u64 = "64 word"

text \<open>A signed 64-bit integer is read from its pattern in two's complement.\<close>

lemma sint_eq_64: "sint (i :: 64 word) = (if unat i < 2 ^ 63 then int (unat i) else int (unat i) - 2 ^ 64)"
proof -
  have u: "uint i < 2 ^ 64" "0 \<le> uint i" using unsigned_less [of i, where 'a = int] by simp_all
  have s: "sint i = signed_take_bit 63 (uint i)" by (simp add: sint_uint)
  have b: "bit (uint i) 63 \<longleftrightarrow> 2 ^ 63 \<le> uint i"
  proof -
    have "uint i div 2 ^ 63 = (if 2 ^ 63 \<le> uint i then 1 else 0)"
      using u by (auto simp: div_pos_pos_trivial) 
    then show ?thesis by (simp add: bit_iff_odd)
  qed
  have t: "take_bit 64 (uint i) = uint i" using u by (simp add: take_bit_int_eq_self)
  have n: "uint i = int (unat i)" by simp
  have "sint i = uint i - (if 2 ^ 63 \<le> uint i then 2 ^ 64 else 0)"
    using signed_take_bit_eq_take_bit_minus [of 63 "uint i"] s b t by simp
  moreover have "2 ^ 63 \<le> uint i \<longleftrightarrow> \<not> unat i < 2 ^ 63"
    unfolding n by (metis int_ops(3) linorder_not_less of_nat_le_iff of_nat_numeral of_nat_power)
  ultimately show ?thesis by simp
qed

section \<open>Ordered maps\<close>

type_synonym ('k, 'v) btree_map = "('k \<times> 'v) list"

definition bm_wf :: "('k::linorder, 'v) btree_map \<Rightarrow> bool" where
  "bm_wf m \<longleftrightarrow> sorted_wrt (<) (map fst m)"

definition bm_get :: "('k, 'v) btree_map \<Rightarrow> 'k \<Rightarrow> 'v option" where
  "bm_get m k = map_of m k"

fun bm_insert :: "'k::linorder \<Rightarrow> 'v \<Rightarrow> ('k, 'v) btree_map \<Rightarrow> ('k, 'v) btree_map" where
  "bm_insert k v [] = [(k, v)]"
| "bm_insert k v (e # m) =
     (if k < fst e then (k, v) # e # m
      else if k = fst e then (k, v) # m
      else e # bm_insert k v m)"

definition bm_remove :: "'k \<Rightarrow> ('k, 'v) btree_map \<Rightarrow> ('k, 'v) btree_map" where
  "bm_remove k m = filter (\<lambda>e. fst e \<noteq> k) m"

definition bm_retain :: "('k \<Rightarrow> 'v \<Rightarrow> bool) \<Rightarrow> ('k, 'v) btree_map \<Rightarrow> ('k, 'v) btree_map" where
  "bm_retain p m = filter (\<lambda>e. p (fst e) (snd e)) m"

definition bm_has :: "('k, 'v) btree_map \<Rightarrow> 'k \<Rightarrow> bool" where
  "bm_has m k \<longleftrightarrow> bm_get m k \<noteq> None"

abbreviation bm_keys :: "('k, 'v) btree_map \<Rightarrow> 'k list" where
  "bm_keys m \<equiv> map fst m"

abbreviation bm_values :: "('k, 'v) btree_map \<Rightarrow> 'v list" where
  "bm_values m \<equiv> map snd m"

text \<open>Collecting key-value pairs into a map: a later pair replaces an earlier one.\<close>

fun bm_of :: "('k::linorder \<times> 'v) list \<Rightarrow> ('k, 'v) btree_map \<Rightarrow> ('k, 'v) btree_map" where
  "bm_of [] m = m"
| "bm_of (e # es) m = bm_of es (bm_insert (fst e) (snd e) m)"

lemma bm_get_Nil [simp, btree_simps]: "bm_get [] k = None"
  by (simp add: bm_get_def)

lemma bm_get_Cons [simp, btree_simps]:
  "bm_get ((k', v) # m) k = (if k' = k then Some v else bm_get m k)"
  by (auto simp: bm_get_def)

lemma bm_get_insert [simp, btree_simps]:
  "bm_get (bm_insert k v m) k' = (if k' = k then Some v else bm_get m k')"
  by (induction m) (auto simp: bm_get_def)

lemma bm_get_remove [simp, btree_simps]:
  "bm_get (bm_remove k m) k' = (if k' = k then None else bm_get m k')"
  by (induction m) (auto simp: bm_get_def bm_remove_def)

lemma bm_wf_Nil [simp]: "bm_wf []"
  by (simp add: bm_wf_def)

lemma bm_wf_Cons: "bm_wf (e # m) \<longleftrightarrow> (\<forall>k \<in> set (bm_keys m). fst e < k) \<and> bm_wf m"
  by (auto simp: bm_wf_def)

lemma bm_insert_keys [simp]: "fst ` set (bm_insert k v m) = insert k (fst ` set m)"
  by (induction m) auto

lemma set_bm_insert: "set (bm_insert k v m) \<subseteq> insert (k, v) (set m)"
  by (induction m) auto

lemma bm_wf_insert [intro]: "bm_wf m \<Longrightarrow> bm_wf (bm_insert k v m)"
proof (induction m)
  case Nil
  show ?case by (simp add: bm_wf_def)
next
  case (Cons e m)
  then have wf: "bm_wf (bm_insert k v m)" by (simp add: bm_wf_Cons)
  with Cons.prems show ?case by (force simp: bm_wf_Cons)
qed

lemma bm_wf_filter [intro]: "bm_wf m \<Longrightarrow> bm_wf (filter p m)"
  by (induction m) (auto simp: bm_wf_Cons)

lemma bm_wf_remove [intro]: "bm_wf m \<Longrightarrow> bm_wf (bm_remove k m)"
  by (simp add: bm_remove_def bm_wf_filter)

lemma bm_wf_retain [intro]: "bm_wf m \<Longrightarrow> bm_wf (bm_retain p m)"
  by (simp add: bm_retain_def bm_wf_filter)

lemma bm_wf_distinct: "bm_wf m \<Longrightarrow> distinct (bm_keys m)"
  by (simp add: bm_wf_def strict_sorted_iff)

lemma bm_get_Some_iff: "bm_wf m \<Longrightarrow> bm_get m k = Some v \<longleftrightarrow> (k, v) \<in> set m"
  by (simp add: bm_get_def bm_wf_distinct)

lemma bm_get_None_iff: "bm_get m k = None \<longleftrightarrow> k \<notin> set (bm_keys m)"
  by (simp add: bm_get_def map_of_eq_None_iff)

lemma bm_has_iff: "bm_has m k \<longleftrightarrow> k \<in> set (bm_keys m)"
  using bm_get_None_iff [of m k] by (auto simp: bm_has_def)

lemma bm_get_in: "bm_get m k = Some v \<Longrightarrow> (k, v) \<in> set m"
  by (simp add: bm_get_def map_of_SomeD)

lemma bm_get_retain:
  assumes "bm_wf m"
  shows "bm_get (bm_retain p m) k =
     (case bm_get m k of None \<Rightarrow> None | Some v \<Rightarrow> if p k v then Some v else None)"
proof (cases "bm_get m k")
  case None
  then have "k \<notin> set (bm_keys m)" by (simp add: bm_get_None_iff)
  then have "k \<notin> set (bm_keys (bm_retain p m))" by (auto simp: bm_retain_def)
  with None show ?thesis using bm_get_None_iff [of "bm_retain p m" k] by simp
next
  case (Some v)
  then have in_m: "(k, v) \<in> set m" by (rule bm_get_in)
  show ?thesis
  proof (cases "p k v")
    case True
    with in_m have "(k, v) \<in> set (bm_retain p m)" by (simp add: bm_retain_def)
    then have "bm_get (bm_retain p m) k = Some v"
      using bm_get_Some_iff [OF bm_wf_retain [OF assms]] by simp
    with Some True show ?thesis by simp
  next
    case False
    have "k \<notin> set (bm_keys (bm_retain p m))"
    proof
      assume "k \<in> set (bm_keys (bm_retain p m))"
      then obtain v' where "(k, v') \<in> set m" and "p k v'" by (auto simp: bm_retain_def)
      with assms Some have "v' = v" by (simp add: bm_get_Some_iff [symmetric])
      with \<open>p k v'\<close> False show False by simp
    qed
    with Some False show ?thesis using bm_get_None_iff [of "bm_retain p m" k] by simp
  qed
qed

lemma bm_wf_of [intro]: "bm_wf m \<Longrightarrow> bm_wf (bm_of es m)"
  by (induction es arbitrary: m) auto

text \<open>Two maps with the same entries are the same list: the representation is canonical.\<close>

lemma bm_ext:
  assumes "bm_wf m" and "bm_wf m'" and eq: "\<And>k. bm_get m k = bm_get m' k"
  shows "m = m'"
proof -
  have set_eq: "set m = set m'"
  proof (rule set_eqI)
    fix e :: "'a \<times> 'b"
    show "e \<in> set m \<longleftrightarrow> e \<in> set m'"
      using eq [of "fst e"] bm_get_Some_iff [OF assms(1), of "fst e" "snd e"]
        bm_get_Some_iff [OF assms(2), of "fst e" "snd e"] by simp
  qed
  then have "set (bm_keys m) = set (bm_keys m')" by auto
  then have keys: "bm_keys m = bm_keys m'"
    using assms(1,2) by (auto simp: bm_wf_def intro: strict_sorted_equal)
  have "distinct (bm_keys m)" "distinct (bm_keys m')"
    using assms(1,2) by (simp_all add: bm_wf_distinct)
  have "map snd m = map snd m'"
  proof (rule nth_equalityI)
    show "length (map snd m) = length (map snd m')"
      using keys by (metis length_map)
  next
    fix i assume i: "i < length (map snd m)"
    then have i': "i < length m'" using keys by (metis length_map)
    have f: "fst (m ! i) = fst (m' ! i)"
      using keys i i' by (metis length_map nth_map)
    have "m ! i \<in> set m'" using i set_eq by (metis length_map nth_mem)
    then have "bm_get m' (fst (m ! i)) = Some (snd (m ! i))"
      using bm_get_Some_iff [OF assms(2)] by (metis prod.collapse)
    moreover have "bm_get m' (fst (m' ! i)) = Some (snd (m' ! i))"
      using bm_get_Some_iff [OF assms(2)] nth_mem [OF i'] by (metis prod.collapse)
    ultimately show "map snd m ! i = map snd m' ! i" using f i i' by simp
  qed
  with keys show ?thesis by (metis zip_map_fst_snd)
qed

section \<open>The interface the components use\<close>

locale ordered_map =
  fixes wf :: "'m \<Rightarrow> bool"
    and empty :: 'm
    and lookup :: "'m \<Rightarrow> 'k \<Rightarrow> 'v option"
    and update :: "'k \<Rightarrow> 'v \<Rightarrow> 'm \<Rightarrow> 'm"
    and delete :: "'k \<Rightarrow> 'm \<Rightarrow> 'm"
  assumes wf_empty: "wf empty"
    and wf_update: "wf m \<Longrightarrow> wf (update k v m)"
    and wf_delete: "wf m \<Longrightarrow> wf (delete k m)"
    and lookup_empty: "lookup empty k = None"
    and lookup_update: "lookup (update k v m) k' = (if k' = k then Some v else lookup m k')"
    and lookup_delete: "lookup (delete k m) k' = (if k' = k then None else lookup m k')"
    and extensional: "wf m \<Longrightarrow> wf m' \<Longrightarrow> (\<And>k. lookup m k = lookup m' k) \<Longrightarrow> m = m'"
begin

lemma update_update: "wf m \<Longrightarrow> update k v (update k w m) = update k v m"
  by (rule extensional) (simp_all add: wf_update lookup_update)

lemma update_commute:
  "wf m \<Longrightarrow> k \<noteq> k' \<Longrightarrow> update k v (update k' w m) = update k' w (update k v m)"
  by (rule extensional) (simp_all add: wf_update lookup_update)

lemma update_same: "wf m \<Longrightarrow> lookup m k = Some v \<Longrightarrow> update k v m = m"
  by (rule extensional) (simp_all add: wf_update lookup_update)

lemma delete_update: "wf m \<Longrightarrow> lookup m k = None \<Longrightarrow> delete k (update k v m) = m"
  by (rule extensional) (simp_all add: wf_update wf_delete lookup_update lookup_delete)

end

interpretation btree: ordered_map bm_wf "[]" bm_get bm_insert bm_remove
  by unfold_locales (auto intro: bm_ext)

section \<open>Ordered sets\<close>

type_synonym 'k btree_set = "'k list"

fun bs_insert :: "'k::linorder \<Rightarrow> 'k btree_set \<Rightarrow> 'k btree_set" where
  "bs_insert k [] = [k]"
| "bs_insert k (x # xs) =
     (if k < x then k # x # xs else if k = x then x # xs else x # bs_insert k xs)"

definition bs_remove :: "'k \<Rightarrow> 'k btree_set \<Rightarrow> 'k btree_set" where
  "bs_remove k s = filter (\<lambda>x. x \<noteq> k) s"

definition bs_wf :: "'k::linorder btree_set \<Rightarrow> bool" where
  "bs_wf s \<longleftrightarrow> sorted_wrt (<) s"

fun bs_of :: "'k::linorder list \<Rightarrow> 'k btree_set" where
  "bs_of [] = []"
| "bs_of (x # xs) = bs_insert x (bs_of xs)"

lemma set_bs_insert [simp, btree_simps]: "set (bs_insert k s) = insert k (set s)"
  by (induction s) auto

lemma set_bs_remove [simp, btree_simps]: "set (bs_remove k s) = set s - {k}"
  by (auto simp: bs_remove_def)

lemma set_bs_of [simp, btree_simps]: "set (bs_of xs) = set xs"
  by (induction xs) auto

lemma bs_wf_insert [intro]: "bs_wf s \<Longrightarrow> bs_wf (bs_insert k s)"
proof (induction s)
  case Nil
  show ?case by (simp add: bs_wf_def)
next
  case (Cons x s)
  then have "bs_wf (bs_insert k s)" by (simp add: bs_wf_def)
  with Cons.prems show ?case by (force simp: bs_wf_def)
qed

lemma bs_wf_remove [intro]: "bs_wf s \<Longrightarrow> bs_wf (bs_remove k s)"
  by (simp add: bs_wf_def bs_remove_def sorted_wrt_filter)

lemma bs_wf_of [intro, simp]: "bs_wf (bs_of xs)"
  by (induction xs) (auto simp: bs_wf_def [of "[]"])

lemma bs_ext: "bs_wf s \<Longrightarrow> bs_wf t \<Longrightarrow> set s = set t \<Longrightarrow> s = t"
  by (simp add: bs_wf_def strict_sorted_equal)

section \<open>Outcomes\<close>

text \<open>
  What a call of the code can do: return (\<open>Ok\<close>), return an \<^verbatim>\<open>Err\<close> (\<open>Err\<close>), panic
  (\<open>Panic\<close>: an \<^verbatim>\<open>expect\<close> on \<^verbatim>\<open>None\<close>, a map index with an absent key), or still be
  running when the fuel of the model is used up (\<open>OutOfFuel\<close>).
\<close>

datatype ('a, 'e) outcome = Ok 'a | Err 'e | Panic | OutOfFuel

fun obind :: "('a, 'e) outcome \<Rightarrow> ('a \<Rightarrow> ('b, 'e) outcome) \<Rightarrow> ('b, 'e) outcome" where
  "obind (Ok a) f = f a"
| "obind (Err e) f = Err e"
| "obind Panic f = Panic"
| "obind OutOfFuel f = OutOfFuel"

definition expect :: "'a option \<Rightarrow> ('a, 'e) outcome" where
  "expect x = (case x of None \<Rightarrow> Panic | Some a \<Rightarrow> Ok a)"

definition ok_or :: "'e \<Rightarrow> 'a option \<Rightarrow> ('a, 'e) outcome" where
  "ok_or e x = (case x of None \<Rightarrow> Err e | Some a \<Rightarrow> Ok a)"

lemma obind_Ok_iff: "obind m f = Ok b \<longleftrightarrow> (\<exists>a. m = Ok a \<and> f a = Ok b)"
  by (cases m) auto

lemma obind_assoc [simp]: "obind (obind m f) g = obind m (\<lambda>a. obind (f a) g)"
  by (cases m) auto

lemma expect_simps [simp, outcome_simps]: "expect (Some a) = Ok a" "expect None = Panic"
  by (simp_all add: expect_def)

lemma ok_or_simps [simp, outcome_simps]: "ok_or e (Some a) = Ok a" "ok_or e None = Err e"
  by (simp_all add: ok_or_def)

lemma expect_Ok_iff [simp]: "expect x = Ok a \<longleftrightarrow> x = Some a"
  by (cases x) auto

lemma ok_or_Ok_iff [simp]: "ok_or e x = Ok a \<longleftrightarrow> x = Some a"
  by (cases x) auto

text \<open>\<^verbatim>\<open>iter().map(f).collect::<Result<Vec<_>, _>>()\<close>: all results, or the first error.\<close>

fun collect_outcome :: "('a, 'e) outcome list \<Rightarrow> ('a list, 'e) outcome" where
  "collect_outcome [] = Ok []"
| "collect_outcome (x # xs) = obind x (\<lambda>a. obind (collect_outcome xs) (\<lambda>as. Ok (a # as)))"

lemma collect_outcome_Ok: "collect_outcome xs = Ok ys \<longleftrightarrow> xs = map Ok ys"
proof (induction xs arbitrary: ys)
  case (Cons x xs)
  then show ?case by (cases ys) (auto simp: obind_Ok_iff)
qed auto

text \<open>\<^verbatim>\<open>iter().map(f).collect::<Option<Vec<_>>>()\<close>: all results, or nothing.\<close>

fun collect_option :: "'a option list \<Rightarrow> 'a list option" where
  "collect_option [] = Some []"
| "collect_option (x # xs) =
     (case x of None \<Rightarrow> None
      | Some a \<Rightarrow> (case collect_option xs of None \<Rightarrow> None | Some as \<Rightarrow> Some (a # as)))"

lemma collect_option_map_Some [simp]: "collect_option (map Some ys) = Some ys"
  by (induction ys) auto

lemma collect_option_Some_iff: "collect_option xs = Some ys \<longleftrightarrow> xs = map Some ys"
proof
  show "collect_option xs = Some ys \<Longrightarrow> xs = map Some ys"
    by (induction xs arbitrary: ys) (auto split: option.splits)
qed simp

text \<open>\<^verbatim>\<open>iter().find_map(f)\<close>.\<close>

fun find_map :: "('a \<Rightarrow> 'b option) \<Rightarrow> 'a list \<Rightarrow> 'b option" where
  "find_map f [] = None"
| "find_map f (x # xs) = (case f x of None \<Rightarrow> find_map f xs | Some b \<Rightarrow> Some b)"

lemma find_map_cong [fundef_cong]:
  "xs = ys \<Longrightarrow> (\<And>x. x \<in> set ys \<Longrightarrow> f x = g x) \<Longrightarrow> find_map f xs = find_map g ys"
  by (induction xs arbitrary: ys) (auto split: option.splits)

lemma find_map_SomeD: "find_map f xs = Some b \<Longrightarrow> \<exists>x \<in> set xs. f x = Some b"
  by (induction xs) (auto split: option.splits)

lemma find_map_None_iff: "find_map f xs = None \<longleftrightarrow> (\<forall>x \<in> set xs. f x = None)"
  by (induction xs) (auto split: option.splits)

text \<open>\<^verbatim>\<open>iter().position(p)\<close>.\<close>

fun position :: "('a \<Rightarrow> bool) \<Rightarrow> 'a list \<Rightarrow> nat option" where
  "position p [] = None"
| "position p (x # xs) = (if p x then Some 0 else map_option Suc (position p xs))"

lemma position_SomeD: "position p xs = Some i \<Longrightarrow> i < length xs \<and> p (xs ! i)"
  by (induction xs arbitrary: i) (auto split: if_splits)

text \<open>Updating the first element that satisfies a predicate (\<^verbatim>\<open>iter_mut().find\<close>).\<close>

fun update_first :: "('a \<Rightarrow> bool) \<Rightarrow> ('a \<Rightarrow> 'a) \<Rightarrow> 'a list \<Rightarrow> 'a list" where
  "update_first p f [] = []"
| "update_first p f (x # xs) = (if p x then f x # xs else x # update_first p f xs)"

lemma update_first_cong [fundef_cong]:
  "p = q \<Longrightarrow> xs = ys \<Longrightarrow> (\<And>x. x \<in> set ys \<Longrightarrow> f x = g x) \<Longrightarrow>
   update_first p f xs = update_first q g ys"
  by (induction xs arbitrary: ys) auto

lemma find_update_first:
  "(\<And>x. p x \<Longrightarrow> p (f x)) \<Longrightarrow> find p (update_first p f xs) = map_option f (find p xs)"
  by (induction xs) auto

lemma find_update_first_other:
  "(\<And>x. p x \<Longrightarrow> \<not> q x) \<Longrightarrow> (\<And>x. p x \<Longrightarrow> \<not> q (f x)) \<Longrightarrow>
   find q (update_first p f xs) = find q xs"
  by (induction xs) auto

lemma update_first_None: "find p xs = None \<Longrightarrow> update_first p f xs = xs"
  by (induction xs) (auto split: if_splits)

lemma length_update_first [simp]: "length (update_first p f xs) = length xs"
  by (induction xs) auto

section \<open>Text\<close>

fun split_on :: "char \<Rightarrow> string \<Rightarrow> string list" where
  "split_on c [] = [[]]"
| "split_on c (x # xs) =
     (if x = c then [] # split_on c xs
      else (case split_on c xs of [] \<Rightarrow> [[x]] | w # ws \<Rightarrow> (x # w) # ws))"

lemma split_on_not_Nil [simp]: "split_on c s \<noteq> []"
  by (induction s) (auto split: list.splits)

fun strip_prefix :: "string \<Rightarrow> string \<Rightarrow> string option" where
  "strip_prefix [] s = Some s"
| "strip_prefix (p # ps) [] = None"
| "strip_prefix (p # ps) (x # xs) = (if p = x then strip_prefix ps xs else None)"

lemma strip_prefix_Some_iff: "strip_prefix p s = Some r \<longleftrightarrow> s = p @ r"
  by (induction p s rule: strip_prefix.induct) auto

fun intercalate :: "string \<Rightarrow> string list \<Rightarrow> string" where
  "intercalate sep [] = []"
| "intercalate sep [w] = w"
| "intercalate sep (w # ws) = w @ sep @ intercalate sep ws"

definition digit_char :: "nat \<Rightarrow> char" where
  "digit_char d = char_of (48 + d)"

definition digit_value :: "char \<Rightarrow> nat" where
  "digit_value c = of_char c - 48"

definition is_digit :: "char \<Rightarrow> bool" where
  "is_digit c \<longleftrightarrow> 48 \<le> (of_char c :: nat) \<and> (of_char c :: nat) \<le> 57"

definition is_alpha :: "char \<Rightarrow> bool" where
  "is_alpha c \<longleftrightarrow> (let n = of_char c :: nat in 65 \<le> n \<and> n \<le> 90 \<or> 97 \<le> n \<and> n \<le> 122)"

fun decimal :: "nat \<Rightarrow> string" where
  "decimal n = (if n < 10 then [digit_char n] else decimal (n div 10) @ [digit_char (n mod 10)])"

declare decimal.simps [simp del]

fun decimal_value :: "nat \<Rightarrow> string \<Rightarrow> nat" where
  "decimal_value acc [] = acc"
| "decimal_value acc (c # cs) = decimal_value (10 * acc + digit_value c) cs"

definition signed_decimal :: "int \<Rightarrow> string" where
  "signed_decimal i = (if i < 0 then CHR ''-'' # decimal (nat (- i)) else decimal (nat i))"

lemma digit_char_value [simp]: "d < 10 \<Longrightarrow> digit_value (digit_char d) = d"
  by (simp add: digit_value_def digit_char_def)

lemma is_digit_digit_char [simp]: "d < 10 \<Longrightarrow> is_digit (digit_char d)"
  by (simp add: is_digit_def digit_char_def)

lemma digit_char_of_value: "is_digit c \<Longrightarrow> digit_char (digit_value c) = c"
  by (simp add: is_digit_def digit_char_def digit_value_def)

lemma digit_char_zero [simp]: "digit_char 0 = CHR ''0''"
  by code_simp

lemma digit_value_less: "is_digit c \<Longrightarrow> digit_value c < 10"
  unfolding is_digit_def digit_value_def by linarith

lemma decimal_value_append:
  "decimal_value acc (s @ t) = decimal_value (decimal_value acc s) t"
  by (induction s arbitrary: acc) auto

lemma decimal_value_decimal [simp]: "decimal_value 0 (decimal n) = n"
proof (induction n rule: decimal.induct)
  case (1 n)
  show ?case
  proof (cases "n < 10")
    case True
    then show ?thesis by (simp add: decimal.simps [of n])
  next
    case False
    with 1 show ?thesis by (simp add: decimal.simps [of n] decimal_value_append)
  qed
qed

lemma decimal_inj [simp]: "decimal m = decimal n \<longleftrightarrow> m = n"
  by (metis decimal_value_decimal)

lemma decimal_not_Nil [simp]: "decimal n \<noteq> []"
  by (simp add: decimal.simps [of n])

lemma decimal_digits: "c \<in> set (decimal n) \<Longrightarrow> is_digit c"
proof (induction n rule: decimal.induct)
  case (1 n)
  show ?case
  proof (cases "n < 10")
    case True
    with "1.prems" show ?thesis by (simp add: decimal.simps [of n])
  next
    case False
    with "1.prems" have "c \<in> set (decimal (n div 10)) \<or> c = digit_char (n mod 10)"
      by (auto simp add: decimal.simps [of n])
    with "1.IH" False show ?thesis by auto
  qed
qed

end
