(* ===== verification/Float64.thy ===== *)
theory Float64
  imports Complex_Main Prelude
begin

text \<open>
  The double-precision numbers of the language, as the sources use them: a value of
  \<^verbatim>\<open>f64\<close> is its 64-bit pattern.  Classification, the IEEE order, the conversion from
  \<^verbatim>\<open>i64\<close> and the arithmetic of \<^verbatim>\<open>format1/cel.rs\<close> (round to nearest, ties to even)
  are written out on the pattern and on exact rationals.
\<close>

type_synonym f64 = "64 word"

definition f64_sign :: "f64 \<Rightarrow> bool" where
  "f64_sign w \<longleftrightarrow> 2 ^ 63 \<le> unat w"

definition f64_magnitude :: "f64 \<Rightarrow> nat" where
  "f64_magnitude w = unat w mod 2 ^ 63"

definition f64_exponent :: "f64 \<Rightarrow> nat" where
  "f64_exponent w = f64_magnitude w div 2 ^ 52"

definition f64_fraction :: "f64 \<Rightarrow> nat" where
  "f64_fraction w = f64_magnitude w mod 2 ^ 52"

definition f64_is_finite :: "f64 \<Rightarrow> bool" where
  "f64_is_finite w \<longleftrightarrow> f64_exponent w \<noteq> 2047"

definition f64_is_nan :: "f64 \<Rightarrow> bool" where
  "f64_is_nan w \<longleftrightarrow> f64_exponent w = 2047 \<and> f64_fraction w \<noteq> 0"

definition f64_is_zero :: "f64 \<Rightarrow> bool" where
  "f64_is_zero w \<longleftrightarrow> f64_magnitude w = 0"

text \<open>\<^verbatim>\<open>if value == 0.0 { 0.0 } else { value }\<close>: the negative zero becomes positive.\<close>

definition f64_unsigned_zero :: "f64 \<Rightarrow> f64" where
  "f64_unsigned_zero w = (if f64_is_zero w then 0 else w)"

definition f64_key :: "f64 \<Rightarrow> int" where
  "f64_key w = (if f64_sign w then - int (f64_magnitude w) else int (f64_magnitude w))"

definition f64_eq :: "f64 \<Rightarrow> f64 \<Rightarrow> bool" where
  "f64_eq a b \<longleftrightarrow> \<not> f64_is_nan a \<and> \<not> f64_is_nan b \<and> f64_key a = f64_key b"

definition f64_less :: "f64 \<Rightarrow> f64 \<Rightarrow> bool" where
  "f64_less a b \<longleftrightarrow> \<not> f64_is_nan a \<and> \<not> f64_is_nan b \<and> f64_key a < f64_key b"

section \<open>Integers to doubles\<close>

fun bit_length :: "nat \<Rightarrow> nat" where
  "bit_length n = (if n = 0 then 0 else Suc (bit_length (n div 2)))"

declare bit_length.simps [simp del]

definition f64_mantissa_of_nat :: "nat \<Rightarrow> nat" where
  "f64_mantissa_of_nat n =
     (let l = bit_length n in
      if l \<le> 53 then n * 2 ^ (53 - l)
      else (let d = 2 ^ (l - 53); q = n div d; r = n mod d in
            if 2 * r < d then q
            else if d < 2 * r then q + 1
            else if even q then q else q + 1))"

definition f64_of_nat :: "nat \<Rightarrow> nat" where
  "f64_of_nat n = (if n = 0 then 0 else (bit_length n + 1021) * 2 ^ 52 + f64_mantissa_of_nat n)"

definition f64_of_i64 :: "i64 \<Rightarrow> f64" where
  "f64_of_i64 i =
     (if sint i < 0 then word_of_nat (2 ^ 63 + f64_of_nat (nat (- sint i)))
      else word_of_nat (f64_of_nat (nat (sint i))))"

section \<open>Exact values and rounding\<close>

definition f64_value :: "f64 \<Rightarrow> rat" where
  "f64_value w =
     (let e = f64_exponent w; f = f64_fraction w;
          m = (if e = 0 then of_nat f / 2 ^ 1074
               else if 1075 \<le> e then of_nat (2 ^ 52 + f) * 2 ^ (e - 1075)
               else of_nat (2 ^ 52 + f) / 2 ^ (1075 - e))
      in if f64_sign w then - m else m)"

definition pow2 :: "int \<Rightarrow> rat" where
  "pow2 e = (if 0 \<le> e then 2 ^ nat e else 1 / 2 ^ nat (- e))"

definition floor_log2 :: "rat \<Rightarrow> int" where
  "floor_log2 q =
     (case quotient_of q of (n, d) \<Rightarrow>
       (let e = int (bit_length (nat n)) - int (bit_length (nat d))
        in if pow2 e \<le> q then e else e - 1))"

definition round_half_even :: "rat \<Rightarrow> int" where
  "round_half_even q =
     (let n = \<lfloor>q\<rfloor>; r = q - of_int n in
      if r < 1 / 2 then n else if 1 / 2 < r then n + 1 else if even n then n else n + 1)"

definition f64_round :: "rat \<Rightarrow> f64" where
  "f64_round q =
     (if q = 0 then 0
      else (let a = \<bar>q\<bar>;
                e = max (-1022) (floor_log2 a);
                bits = (e + 1022) * 2 ^ 52 + round_half_even (a / pow2 (e - 52));
                m = min bits (2047 * 2 ^ 52)
            in word_of_int (if q < 0 then 2 ^ 63 + m else m)))"

definition f64_nan :: f64 where
  "f64_nan = word_of_nat (4095 * 2 ^ 51)"

definition f64_infinity :: "bool \<Rightarrow> f64" where
  "f64_infinity neg = word_of_nat ((if neg then 2 ^ 63 else 0) + 2047 * 2 ^ 52)"

definition f64_signed_zero :: "bool \<Rightarrow> f64" where
  "f64_signed_zero neg = (if neg then word_of_nat (2 ^ 63) else 0)"

definition f64_neg :: "f64 \<Rightarrow> f64" where
  "f64_neg w = word_of_nat (if f64_sign w then f64_magnitude w else 2 ^ 63 + f64_magnitude w)"

definition f64_add :: "f64 \<Rightarrow> f64 \<Rightarrow> f64" where
  "f64_add a b =
     (if f64_is_nan a \<or> f64_is_nan b then f64_nan
      else if \<not> f64_is_finite a then
        (if \<not> f64_is_finite b \<and> f64_sign a \<noteq> f64_sign b then f64_nan else a)
      else if \<not> f64_is_finite b then b
      else if f64_value a + f64_value b = 0 then f64_signed_zero (f64_sign a \<and> f64_sign b)
      else f64_round (f64_value a + f64_value b))"

definition f64_sub :: "f64 \<Rightarrow> f64 \<Rightarrow> f64" where
  "f64_sub a b = (if f64_is_nan b then f64_nan else f64_add a (f64_neg b))"

definition f64_mul :: "f64 \<Rightarrow> f64 \<Rightarrow> f64" where
  "f64_mul a b =
     (let neg = (f64_sign a \<noteq> f64_sign b) in
      if f64_is_nan a \<or> f64_is_nan b then f64_nan
      else if \<not> f64_is_finite a \<or> \<not> f64_is_finite b then
        (if f64_is_zero a \<or> f64_is_zero b then f64_nan else f64_infinity neg)
      else if f64_is_zero a \<or> f64_is_zero b then f64_signed_zero neg
      else (let r = f64_round (f64_value a * f64_value b)
            in if f64_is_zero r then f64_signed_zero neg else r))"

definition f64_div :: "f64 \<Rightarrow> f64 \<Rightarrow> f64" where
  "f64_div a b =
     (let neg = (f64_sign a \<noteq> f64_sign b) in
      if f64_is_nan a \<or> f64_is_nan b then f64_nan
      else if \<not> f64_is_finite a then (if \<not> f64_is_finite b then f64_nan else f64_infinity neg)
      else if \<not> f64_is_finite b then f64_signed_zero neg
      else if f64_is_zero b then (if f64_is_zero a then f64_nan else f64_infinity neg)
      else if f64_is_zero a then f64_signed_zero neg
      else (let r = f64_round (f64_value a / f64_value b)
            in if f64_is_zero r then f64_signed_zero neg else r))"

definition rat_trunc :: "rat \<Rightarrow> int" where
  "rat_trunc q = (if q < 0 then - \<lfloor>- q\<rfloor> else \<lfloor>q\<rfloor>)"

definition f64_rem :: "f64 \<Rightarrow> f64 \<Rightarrow> f64" where
  "f64_rem a b =
     (if f64_is_nan a \<or> f64_is_nan b \<or> \<not> f64_is_finite a \<or> f64_is_zero b then f64_nan
      else if \<not> f64_is_finite b then a
      else (let x = f64_value a; y = f64_value b; r = x - y * of_int (rat_trunc (x / y))
            in if r = 0 then f64_signed_zero (f64_sign a) else f64_round r))"

section \<open>Facts\<close>

lemma unat_less_64: "unat (w :: 64 word) < 2 ^ 64"
  using unsigned_less [of w] by simp

lemma unat_word_of_nat_64: "k < 2 ^ 64 \<Longrightarrow> unat (word_of_nat k :: 64 word) = k"
  by (simp add: unat_of_nat)

lemma f64_zero_simps [simp]:
  "f64_is_zero 0" "f64_is_finite 0" "\<not> f64_sign 0" "\<not> f64_is_nan 0"
  by (simp_all add: f64_is_zero_def f64_is_finite_def f64_sign_def f64_is_nan_def
      f64_exponent_def f64_fraction_def f64_magnitude_def)

lemma f64_unsigned_zero_idem [simp]:
  "f64_unsigned_zero (f64_unsigned_zero w) = f64_unsigned_zero w"
  by (simp add: f64_unsigned_zero_def)

lemma f64_unsigned_zero_finite [simp]:
  "f64_is_finite (f64_unsigned_zero w) \<longleftrightarrow> f64_is_zero w \<or> f64_is_finite w"
  by (simp add: f64_unsigned_zero_def)

lemma f64_zero_finite: "f64_is_zero w \<Longrightarrow> f64_is_finite w"
  by (simp add: f64_is_zero_def f64_is_finite_def f64_exponent_def)

lemma f64_zero_unsigned: "f64_is_zero w \<Longrightarrow> \<not> f64_sign w \<Longrightarrow> w = 0"
  using unat_less_64 [of w]
  by (simp add: f64_is_zero_def f64_sign_def f64_magnitude_def unat_eq_zero)

lemma bit_length_bound: "n < 2 ^ bit_length n"
proof (induction n rule: bit_length.induct)
  case (1 n)
  show ?case
  proof (cases "n = 0")
    case False
    with 1 have "n div 2 < 2 ^ bit_length (n div 2)" by simp
    then have "n < 2 * 2 ^ bit_length (n div 2)" by linarith
    with False show ?thesis by (simp add: bit_length.simps [of n])
  qed (simp add: bit_length.simps)
qed

lemma bit_length_le: "n < 2 ^ k \<Longrightarrow> bit_length n \<le> k"
proof (induction n arbitrary: k rule: bit_length.induct)
  case (1 n)
  show ?case
  proof (cases "n = 0")
    case False
    with "1.prems" obtain j where k: "k = Suc j" by (cases k) auto
    with "1.prems" have "n div 2 < 2 ^ j" by auto
    with "1.IH" False k show ?thesis by (simp add: bit_length.simps [of n])
  qed (simp add: bit_length.simps)
qed

lemma f64_mantissa_le: "f64_mantissa_of_nat n \<le> 2 ^ 53"
proof (cases "bit_length n \<le> 53")
  case True
  have "n * 2 ^ (53 - bit_length n) \<le> 2 ^ bit_length n * 2 ^ (53 - bit_length n)"
    using bit_length_bound [of n] by (intro mult_right_mono) auto
  also have "\<dots> = 2 ^ 53" using True by (simp flip: power_add)
  finally show ?thesis using True by (simp add: f64_mantissa_of_nat_def)
next
  case False
  define d :: nat where "d = 2 ^ (bit_length n - 53)"
  have "2 ^ 53 * d = 2 ^ bit_length n"
    unfolding d_def power_add [symmetric] using False by simp
  then have "n < 2 ^ 53 * d" using bit_length_bound [of n] by simp
  then have "n div d < 2 ^ 53" by (simp add: less_mult_imp_div_less)
  with False show ?thesis by (auto simp: f64_mantissa_of_nat_def Let_def d_def [symmetric])
qed

lemma f64_of_nat_less: "n < 2 ^ 64 \<Longrightarrow> f64_of_nat n < 2047 * 2 ^ 52"
  using f64_mantissa_le [of n] bit_length_le [of n 64]
  by (simp add: f64_of_nat_def)

lemma f64_of_nat_pos: "0 < n \<Longrightarrow> 0 < f64_of_nat n"
  by (simp add: f64_of_nat_def)

lemma f64_of_i64_cases:
  obtains (neg) m where "0 < m" "m < 2047 * 2 ^ 52" "f64_of_i64 i = word_of_nat (2 ^ 63 + m)"
  | (pos) m where "m < 2047 * 2 ^ 52" "f64_of_i64 i = word_of_nat m"
proof (cases "sint i < 0")
  case True
  have "- (2 ^ 63) \<le> sint i" using sint_greater_eq [of i] by simp
  then have "f64_of_nat (nat (- sint i)) < 2047 * 2 ^ 52"
    using True by (intro f64_of_nat_less) simp
  with True show ?thesis
    by (intro neg [of "f64_of_nat (nat (- sint i))"])
      (simp_all add: f64_of_i64_def f64_of_nat_pos)
next
  case False
  have "sint i < 2 ^ 63" using sint_lt [of i] by simp
  then have "f64_of_nat (nat (sint i)) < 2047 * 2 ^ 52"
    by (intro f64_of_nat_less) simp
  with False show ?thesis
    by (intro pos [of "f64_of_nat (nat (sint i))"]) (simp_all add: f64_of_i64_def)
qed

lemma f64_of_i64_portable:
  "f64_is_finite (f64_of_i64 i)" "f64_is_zero (f64_of_i64 i) \<Longrightarrow> \<not> f64_sign (f64_of_i64 i)"
proof -
  have "f64_is_finite (f64_of_i64 i) \<and> (f64_is_zero (f64_of_i64 i) \<longrightarrow> \<not> f64_sign (f64_of_i64 i))"
  proof (cases i rule: f64_of_i64_cases)
    case (neg m)
    then have "unat (f64_of_i64 i) = 2 ^ 63 + m"
      using unat_word_of_nat_64 [of "2 ^ 63 + m"] by simp
    moreover from neg(2) have "m div 2 ^ 52 < 2047" by (simp add: less_mult_imp_div_less)
    ultimately show ?thesis using neg(1,2)
      by (simp add: f64_is_finite_def f64_is_zero_def f64_sign_def f64_exponent_def
          f64_magnitude_def)
  next
    case (pos m)
    then have "unat (f64_of_i64 i) = m" using unat_word_of_nat_64 [of m] by simp
    moreover from pos(1) have "m div 2 ^ 52 < 2047" by (simp add: less_mult_imp_div_less)
    ultimately show ?thesis using pos(1)
      by (simp add: f64_is_finite_def f64_is_zero_def f64_sign_def f64_exponent_def
          f64_magnitude_def)
  qed
  then show "f64_is_finite (f64_of_i64 i)"
    and "f64_is_zero (f64_of_i64 i) \<Longrightarrow> \<not> f64_sign (f64_of_i64 i)" by auto
qed

end
