(* ===== verification/Values.thy ===== *)
theory Values
  imports Float64
begin

text \<open>
  \<^verbatim>\<open>src/value.rs\<close>: the values of variables and payloads, their declared types, the
  normalisation to the portable domain, and the conversion from and to JSON.  The JSON
  document type is the one of \<^verbatim>\<open>serde_json\<close> as the sources use it: a number is an
  unsigned or a negative 64-bit integer or a double, an object an ordered map.
\<close>

section \<open>JSON documents\<close>

datatype json_number = PosInt u64 | NegInt i64 | FloatNum f64

datatype json =
    JNull
  | JBool bool
  | JNumber json_number
  | JString string
  | JArray "json list"
  | JObject "(string \<times> json) list"

fun number_as_i64 :: "json_number \<Rightarrow> i64 option" where
  "number_as_i64 (PosInt n) = (if unat n < 2 ^ 63 then Some n else None)"
| "number_as_i64 (NegInt n) = Some n"
| "number_as_i64 (FloatNum _) = None"

fun number_as_u64 :: "json_number \<Rightarrow> u64 option" where
  "number_as_u64 (PosInt n) = Some n"
| "number_as_u64 _ = None"

definition number_of_i64 :: "i64 \<Rightarrow> json_number" where
  "number_of_i64 i = (if sint i < 0 then NegInt i else PosInt i)"

section \<open>Values\<close>

record instance_reference =
  ref_root_instance_id :: string
  ref_instance_id :: string
  ref_machine_id :: string
  ref_machine_version :: i64

datatype "value" =
    VNull
  | VBool bool
  | VInt i64
  | VFloat f64
  | VString string
  | VList "value list"
  | VMap "(string \<times> value) list"
  | VRef instance_reference

lemmas value_splits = "value.splits"

fun type_name :: "value \<Rightarrow> string" where
  "type_name VNull = ''null''"
| "type_name (VBool _) = ''bool''"
| "type_name (VInt _) = ''int''"
| "type_name (VFloat _) = ''float''"
| "type_name (VString _) = ''string''"
| "type_name (VList _) = ''list''"
| "type_name (VMap _) = ''map''"
| "type_name (VRef _) = ''instance_reference''"

definition matches_type :: "value \<Rightarrow> string \<Rightarrow> bool" where
  "matches_type v t \<longleftrightarrow>
     (case v of
        VNull \<Rightarrow> False
      | VBool _ \<Rightarrow> t = ''bool''
      | VInt _ \<Rightarrow> t = ''int''
      | VFloat _ \<Rightarrow> t = ''float''
      | VString _ \<Rightarrow> t = ''string''
      | VList _ \<Rightarrow> t = ''list''
      | VMap _ \<Rightarrow> t = ''map''
      | VRef _ \<Rightarrow> t = ''instance_reference'')"

fun normalize_portable :: "value \<Rightarrow> value option"
  and normalize_values :: "value list \<Rightarrow> value list option"
  and normalize_members :: "(string \<times> value) list \<Rightarrow> (string \<times> value) list option"
where
  "normalize_portable (VFloat w) =
     (if f64_is_finite w then Some (VFloat (f64_unsigned_zero w)) else None)"
| "normalize_portable (VList vs) = map_option VList (normalize_values vs)"
| "normalize_portable (VMap ms) = map_option VMap (normalize_members ms)"
| "normalize_portable v = Some v"
| "normalize_values [] = Some []"
| "normalize_values (v # vs) =
     (case normalize_portable v of None \<Rightarrow> None
      | Some w \<Rightarrow> map_option ((#) w) (normalize_values vs))"
| "normalize_members [] = Some []"
| "normalize_members ((k, v) # ms) =
     (case normalize_portable v of None \<Rightarrow> None
      | Some w \<Rightarrow> map_option ((#) (k, w)) (normalize_members ms))"

fun is_canonical_portable :: "value \<Rightarrow> bool"
  and canonical_values :: "value list \<Rightarrow> bool"
  and canonical_members :: "(string \<times> value) list \<Rightarrow> bool"
where
  "is_canonical_portable (VFloat w) \<longleftrightarrow>
     f64_is_finite w \<and> (\<not> f64_is_zero w \<or> \<not> f64_sign w)"
| "is_canonical_portable (VList vs) \<longleftrightarrow> canonical_values vs"
| "is_canonical_portable (VMap ms) \<longleftrightarrow> canonical_members ms"
| "is_canonical_portable _ \<longleftrightarrow> True"
| "canonical_values [] \<longleftrightarrow> True"
| "canonical_values (v # vs) \<longleftrightarrow> is_canonical_portable v \<and> canonical_values vs"
| "canonical_members [] \<longleftrightarrow> True"
| "canonical_members ((k, v) # ms) \<longleftrightarrow> is_canonical_portable v \<and> canonical_members ms"

definition normalize_for_type :: "value \<Rightarrow> string \<Rightarrow> value option" where
  "normalize_for_type v t =
     (case v of
        VInt i \<Rightarrow> if t = ''float'' then Some (VFloat (f64_of_i64 i))
                 else if matches_type v t then normalize_portable v else None
      | _ \<Rightarrow> if matches_type v t then normalize_portable v else None)"

text \<open>\<^verbatim>\<open>PartialEq\<close> on values: numeric equality on doubles, entry by entry on maps.\<close>

fun value_eq :: "value \<Rightarrow> value \<Rightarrow> bool"
  and values_eq :: "value list \<Rightarrow> value list \<Rightarrow> bool"
  and members_eq :: "(string \<times> value) list \<Rightarrow> (string \<times> value) list \<Rightarrow> bool"
where
  "value_eq VNull VNull \<longleftrightarrow> True"
| "value_eq (VBool a) (VBool b) \<longleftrightarrow> a = b"
| "value_eq (VInt a) (VInt b) \<longleftrightarrow> a = b"
| "value_eq (VFloat a) (VFloat b) \<longleftrightarrow> f64_eq a b"
| "value_eq (VString a) (VString b) \<longleftrightarrow> a = b"
| "value_eq (VList a) (VList b) \<longleftrightarrow> values_eq a b"
| "value_eq (VMap a) (VMap b) \<longleftrightarrow> members_eq a b"
| "value_eq (VRef a) (VRef b) \<longleftrightarrow> a = b"
| "value_eq _ _ \<longleftrightarrow> False"
| "values_eq [] [] \<longleftrightarrow> True"
| "values_eq (a # as) (b # bs) \<longleftrightarrow> value_eq a b \<and> values_eq as bs"
| "values_eq _ _ \<longleftrightarrow> False"
| "members_eq [] [] \<longleftrightarrow> True"
| "members_eq ((k, a) # as) ((l, b) # bs) \<longleftrightarrow> k = l \<and> value_eq a b \<and> members_eq as bs"
| "members_eq _ _ \<longleftrightarrow> False"

section \<open>Conversion from and to JSON\<close>

text \<open>
  The encoding of a surrogate code point, which \<^verbatim>\<open>Value::from_json\<close> refuses: a byte
  \<open>0xED\<close> followed by a byte of at least \<open>0xA0\<close>.  It never occurs in valid UTF-8.
\<close>

fun has_surrogate :: "string \<Rightarrow> bool" where
  "has_surrogate (a # b # s) \<longleftrightarrow>
     ((of_char a :: nat) = 237 \<and> 160 \<le> (of_char b :: nat)) \<or> has_surrogate (b # s)"
| "has_surrogate _ \<longleftrightarrow> False"

definition number_from_json :: "json_number \<Rightarrow> string + value" where
  "number_from_json n =
     (case number_as_i64 n of
        Some i \<Rightarrow> Inr (VInt i)
      | None \<Rightarrow>
          (case n of
             FloatNum w \<Rightarrow>
               if \<not> f64_is_finite w then Inl ''numeric value is not finite''
               else Inr (VFloat (f64_unsigned_zero w))
           | _ \<Rightarrow> Inl ''integer is outside the signed 64-bit domain''))"

fun from_json :: "json \<Rightarrow> string + value"
  and from_json_list :: "json list \<Rightarrow> string + value list"
  and from_json_members :: "(string \<times> json) list \<Rightarrow> string + (string \<times> value) list"
where
  "from_json JNull = Inr VNull"
| "from_json (JBool b) = Inr (VBool b)"
| "from_json (JNumber n) = number_from_json n"
| "from_json (JString s) =
     (if has_surrogate s then Inl ''invalid Unicode scalar'' else Inr (VString s))"
| "from_json (JArray js) =
     (case from_json_list js of Inl e \<Rightarrow> Inl e | Inr vs \<Rightarrow> Inr (VList vs))"
| "from_json (JObject ms) =
     (case from_json_members ms of Inl e \<Rightarrow> Inl e | Inr es \<Rightarrow> Inr (VMap (bm_of es [])))"
| "from_json_list [] = Inr []"
| "from_json_list (j # js) =
     (case from_json j of Inl e \<Rightarrow> Inl e
      | Inr v \<Rightarrow> (case from_json_list js of Inl e \<Rightarrow> Inl e | Inr vs \<Rightarrow> Inr (v # vs)))"
| "from_json_members [] = Inr []"
| "from_json_members ((k, j) # ms) =
     (case from_json j of Inl e \<Rightarrow> Inl e
      | Inr v \<Rightarrow> (case from_json_members ms of Inl e \<Rightarrow> Inl e | Inr es \<Rightarrow> Inr ((k, v) # es)))"

definition reference_to_json :: "instance_reference \<Rightarrow> json" where
  "reference_to_json r =
     JObject [(''instance_id'', JString (ref_instance_id r)),
              (''machine_id'', JString (ref_machine_id r)),
              (''machine_version'', JNumber (number_of_i64 (ref_machine_version r))),
              (''root_instance_id'', JString (ref_root_instance_id r))]"

fun to_json :: "value \<Rightarrow> json"
  and to_json_list :: "value list \<Rightarrow> json list"
  and to_json_members :: "(string \<times> value) list \<Rightarrow> (string \<times> json) list"
where
  "to_json VNull = JNull"
| "to_json (VBool b) = JBool b"
| "to_json (VInt i) = JNumber (number_of_i64 i)"
| "to_json (VFloat w) = (if f64_is_finite w then JNumber (FloatNum w) else JNull)"
| "to_json (VString s) = JString s"
| "to_json (VList vs) = JArray (to_json_list vs)"
| "to_json (VMap ms) = JObject (to_json_members ms)"
| "to_json (VRef r) = reference_to_json r"
| "to_json_list [] = []"
| "to_json_list (v # vs) = to_json v # to_json_list vs"
| "to_json_members [] = []"
| "to_json_members ((k, v) # ms) = (k, to_json v) # to_json_members ms"

definition as_map :: "value \<Rightarrow> (string \<times> value) list option" where
  "as_map v = (case v of VMap m \<Rightarrow> Some m | _ \<Rightarrow> None)"

definition as_string :: "value \<Rightarrow> string option" where
  "as_string v = (case v of VString s \<Rightarrow> Some s | _ \<Rightarrow> None)"

section \<open>Normalisation\<close>

lemma normalize_canonical:
  "normalize_portable v = Some w \<Longrightarrow> is_canonical_portable w"
  "normalize_values vs = Some ws \<Longrightarrow> canonical_values ws"
  "normalize_members ms = Some ns \<Longrightarrow> canonical_members ns"
  by (induction v and vs and ms arbitrary: w and ws and ns
      rule: normalize_portable_normalize_values_normalize_members.induct)
    (auto simp: f64_unsigned_zero_def split: if_splits option.splits)

lemma canonical_normalize:
  "is_canonical_portable v \<Longrightarrow> normalize_portable v = Some v"
  "canonical_values vs \<Longrightarrow> normalize_values vs = Some vs"
  "canonical_members ms \<Longrightarrow> normalize_members ms = Some ms"
  by (induction v and vs and ms
      rule: is_canonical_portable_canonical_values_canonical_members.induct)
    (auto simp: f64_unsigned_zero_def dest: f64_zero_unsigned)

lemma normalize_matches_type:
  "normalize_portable v = Some w \<Longrightarrow> matches_type w t = matches_type v t"
  by (cases v) (auto simp: matches_type_def split: if_splits)

lemma normalize_members_keys:
  "normalize_members ms = Some ns \<Longrightarrow> map fst ns = map fst ms"
  by (induction ms arbitrary: ns) (auto split: option.splits)

lemma normalize_for_type_eq:
  "normalize_for_type v t =
     (if t = ''float'' \<and> (\<exists>i. v = VInt i) then Some (VFloat (f64_of_i64 (case v of VInt i \<Rightarrow> i)))
      else if matches_type v t then normalize_portable v else None)"
  by (cases v) (auto simp: normalize_for_type_def)

lemma normalize_for_type_int_float [simp]:
  "normalize_for_type (VInt i) ''float'' = Some (VFloat (f64_of_i64 i))"
  by (simp add: normalize_for_type_def)

lemma normalize_for_type_normal:
  assumes "normalize_for_type v t = Some w"
  shows "is_canonical_portable w \<and> matches_type w t \<and> normalize_for_type w t = Some w"
proof (cases "\<exists>i. v = VInt i \<and> t = ''float''")
  case True
  then obtain i where i: "v = VInt i" "t = ''float''" by blast
  with assms have w: "w = VFloat (f64_of_i64 i)" by simp
  then have "is_canonical_portable w" using f64_of_i64_portable [of i] by auto
  moreover from this have "normalize_portable w = Some w" by (rule canonical_normalize)
  ultimately show ?thesis using w i by (simp add: normalize_for_type_def matches_type_def)
next
  case False
  with assms have m: "matches_type v t" and n: "normalize_portable v = Some w"
    by (auto simp: normalize_for_type_eq split: if_splits)
  from n have can: "is_canonical_portable w" by (rule normalize_canonical)
  from m n have mw: "matches_type w t" by (simp add: normalize_matches_type)
  have "\<not> (\<exists>i. w = VInt i \<and> t = ''float'')" using mw by (auto simp: matches_type_def)
  with mw can show ?thesis by (auto simp: normalize_for_type_eq canonical_normalize)
qed

text \<open>
  A value accepted for a declared type comes out in the portable domain (finite
  doubles, no negative zero, at any depth), has the declared type, and is a fixed point:
  normalising it again changes nothing.
\<close>

theorem normalize_for_type_portable:
  assumes "normalize_for_type v t = Some w"
  shows "is_canonical_portable w \<and> matches_type w t \<and> normalize_for_type w t = Some w"
  using assms by (rule normalize_for_type_normal)

theorem normalize_for_type_portable_witness:
  "normalize_for_type (VList [VFloat (word_of_nat (2 ^ 63)), VInt 1]) ''list''
     = Some (VList [VFloat 0, VInt 1]) \<and>
   is_canonical_portable (VList [VFloat 0, VInt 1])"
proof -
  have e: "normalize_for_type (VList [VFloat (word_of_nat (2 ^ 63)), VInt 1]) ''list''
     = Some (VList [VFloat 0, VInt 1])"
    by (simp add: normalize_for_type_def matches_type_def f64_is_finite_def f64_exponent_def
        f64_magnitude_def f64_unsigned_zero_def f64_is_zero_def)
  from normalize_for_type_portable [OF e] e show ?thesis by blast
qed

section \<open>The JSON round trip\<close>

text \<open>Values that have no instance reference and whose maps and strings are as the code builds them.\<close>

fun json_value :: "value \<Rightarrow> bool"
  and json_values :: "value list \<Rightarrow> bool"
  and json_members :: "(string \<times> value) list \<Rightarrow> bool"
where
  "json_value (VRef _) \<longleftrightarrow> False"
| "json_value (VFloat w) \<longleftrightarrow> is_canonical_portable (VFloat w)"
| "json_value (VString s) \<longleftrightarrow> \<not> has_surrogate s"
| "json_value (VList vs) \<longleftrightarrow> json_values vs"
| "json_value (VMap ms) \<longleftrightarrow> bm_wf ms \<and> json_members ms"
| "json_value _ \<longleftrightarrow> True"
| "json_values [] \<longleftrightarrow> True"
| "json_values (v # vs) \<longleftrightarrow> json_value v \<and> json_values vs"
| "json_members [] \<longleftrightarrow> True"
| "json_members ((k, v) # ms) \<longleftrightarrow> json_value v \<and> json_members ms"

lemma number_of_i64_back: "number_as_i64 (number_of_i64 i) = Some i"
  using unsigned_less [of i, where 'a = int] by (auto simp: number_of_i64_def sint_eq_64)

lemma bm_of_sorted: "bm_wf (ms @ es) \<Longrightarrow> bm_of es ms = ms @ es"
proof (induction es arbitrary: ms)
  case (Cons e es)
  have "bm_insert (fst e) (snd e) ms = ms @ [e]"
  proof -
    have "\<forall>x \<in> set ms. fst x < fst e" using Cons.prems by (auto simp: bm_wf_def sorted_wrt_append)
    then show ?thesis by (induction ms) (auto dest: less_imp_not_less)
  qed
  with Cons show ?case by simp
qed simp

lemma from_to_json:
  "json_value v \<Longrightarrow> from_json (to_json v) = Inr v"
  "json_values vs \<Longrightarrow> from_json_list (to_json_list vs) = Inr vs"
  "json_members ms \<Longrightarrow> from_json_members (to_json_members ms) = Inr ms"
proof (induction v and vs and ms rule: json_value_json_values_json_members.induct)
  case (2 w)
  then show ?case
    by (auto simp: number_from_json_def f64_unsigned_zero_def dest: f64_zero_unsigned)
next
  case (5 ms)
  then show ?case by (simp add: bm_of_sorted [of "[]", simplified])
qed (auto simp: number_from_json_def number_of_i64_back)

text \<open>
  \<^verbatim>\<open>Value::from_json\<close> inverts \<^verbatim>\<open>Value::to_json\<close> on every value without instance
  references whose doubles are canonical; in particular the integer \<open>1\<close> and the double
  \<open>1.0\<close> stay apart.
\<close>

theorem value_json_roundtrip: "json_value v \<Longrightarrow> from_json (to_json v) = Inr v"
  by (rule from_to_json)

theorem value_json_roundtrip_witness:
  "json_value (VMap [(''a'', VInt (-5)), (''b'', VList [VNull, VString ''x''])]) \<and>
   from_json (to_json (VMap [(''a'', VInt (-5)), (''b'', VList [VNull, VString ''x''])]))
     = Inr (VMap [(''a'', VInt (-5)), (''b'', VList [VNull, VString ''x''])])"
proof -
  have j: "json_value (VMap [(''a'', VInt (-5)), (''b'', VList [VNull, VString ''x''])])"
    by (simp add: bm_wf_def)
  show ?thesis using j value_json_roundtrip [OF j] by blast
qed

end
