(* ===== verification/Cel.thy ===== *)
theory Cel
  imports Values
begin

text \<open>
  \<^verbatim>\<open>src/format1/cel.rs\<close>, evaluation: the portable CEL profile over parsed expressions.
  The parser is the crate \<^verbatim>\<open>cel_parser\<close>, which is not part of the sources: the syntax
  tree it delivers is a datatype here, its operator names are symbolic constructors, and
  the parser itself is a field of the \<open>engine\<close> record that every evaluating definition
  takes.  The other fields stand for the other code outside the sources: the SHA-256
  digest (hexadecimal text of a byte string), the two number printers (ECMAScript for CEL,
  the one of \<^verbatim>\<open>serde_json\<close> for documents), and the
  installed native providers of a machine, reached through an opaque registry handle.
\<close>

section \<open>Syntax trees and the engine\<close>

datatype cel_literal =
    LNull | LBoolean bool | LInt i64 | LUInt u64 | LDouble f64 | LString string | LBytes string

datatype cel_function =
    OpConditional | OpLogicalAnd | OpLogicalOr | OpLogicalNot | OpNegate
  | OpAdd | OpSubtract | OpMultiply | OpDivide | OpModulo
  | OpEquals | OpNotEquals | OpGreater | OpGreaterEquals | OpLess | OpLessEquals
  | OpIn | OpIndex
  | Named string

datatype cel_expr =
    EUnspecified
  | ELiteral cel_literal
  | EIdent string
  | EList "cel_expr list"
  | EMap "cel_entry list"
  | ESelect cel_expr string bool
  | ECall "cel_expr option" cel_function "cel_expr list"
  | EComprehension cel_expr cel_expr cel_expr cel_expr cel_expr
  | EStruct "cel_entry list"
and cel_entry =
    MapEntry cel_expr cel_expr bool
  | StructField cel_expr

record engine =
  eng_cel_parse :: "string \<Rightarrow> cel_expr option"
  eng_format_double :: "f64 \<Rightarrow> string"
  eng_json_double :: "f64 \<Rightarrow> string"
  eng_sha256 :: "string \<Rightarrow> string"
  eng_invoke_guard :: "nat \<Rightarrow> json \<Rightarrow> json \<Rightarrow> bool option"
  eng_invoke_actions :: "nat \<Rightarrow> json \<Rightarrow> json \<Rightarrow> json list option"

type_synonym cel_environment = "(string, value) btree_map"

datatype cel_error =
    ParseError
  | StepLimitExceeded
  | UnknownName string
  | MissingField string
  | SelectOperand
  | OutsideProfile
  | ConditionNotBoolean
  | LogicalNotBoolean
  | NotRequiresBool
  | IntegerOverflow
  | DivisionByZero
  | NegateNotNumeric
  | MapMembershipKey
  | InRequiresContainer
  | IndexOutOfRange
  | KeyAbsent
  | InvalidIndex
  | SizeOperand
  | SizeOverflow
  | ConversionDomain
  | NotFinite
  | NonFiniteComparison
  | GuardNotBool string

type_synonym cel_result = "cel_error + value"

section \<open>Scalars\<close>

definition i64_in_range :: "int \<Rightarrow> bool" where
  "i64_in_range i \<longleftrightarrow> - (2 ^ 63) \<le> i \<and> i < 2 ^ 63"

definition i64_checked :: "int \<Rightarrow> i64 option" where
  "i64_checked i = (if i64_in_range i then Some (word_of_int i) else None)"

text \<open>Truncating division and remainder, as on machine integers.\<close>

definition int_quot :: "int \<Rightarrow> int \<Rightarrow> int" where
  "int_quot a b = sgn a * sgn b * (\<bar>a\<bar> div \<bar>b\<bar>)"

definition int_rem :: "int \<Rightarrow> int \<Rightarrow> int" where
  "int_rem a b = a - b * int_quot a b"

definition checked_div :: "i64 \<Rightarrow> i64 \<Rightarrow> i64 option" where
  "checked_div a b = (if b = 0 then None else i64_checked (int_quot (sint a) (sint b)))"

definition checked_rem :: "i64 \<Rightarrow> i64 \<Rightarrow> i64 option" where
  "checked_rem a b =
     (if b = 0 then None
      else if \<not> i64_in_range (int_quot (sint a) (sint b)) then None
      else i64_checked (int_rem (sint a) (sint b)))"

definition finite_float :: "f64 \<Rightarrow> cel_result" where
  "finite_float w =
     (if f64_is_finite w then Inr (VFloat (f64_unsigned_zero w)) else Inl NotFinite)"

definition checked_size :: "nat \<Rightarrow> cel_result" where
  "checked_size n = (if n < 2 ^ 63 then Inr (VInt (word_of_nat n)) else Inl SizeOverflow)"

text \<open>\<^verbatim>\<open>chars().count()\<close>: the bytes that are not UTF-8 continuation bytes.\<close>

definition scalar_count :: "string \<Rightarrow> nat" where
  "scalar_count s = length (filter (\<lambda>c. (of_char c :: nat) div 64 \<noteq> 2) s)"

definition canonical_double :: "engine \<Rightarrow> f64 \<Rightarrow> cel_error + string" where
  "canonical_double G w =
     (if \<not> f64_is_finite w then Inl NotFinite
      else if f64_is_zero w then Inr ''0''
      else Inr (eng_format_double G w))"

definition evaluate_arithmetic :: "cel_function \<Rightarrow> value \<Rightarrow> value \<Rightarrow> cel_result" where
  "evaluate_arithmetic op l r =
     (case (l, r) of
        (VInt a, VInt b) \<Rightarrow>
          (let result =
             (case op of
                OpAdd \<Rightarrow> i64_checked (sint a + sint b)
              | OpSubtract \<Rightarrow> i64_checked (sint a - sint b)
              | OpMultiply \<Rightarrow> i64_checked (sint a * sint b)
              | OpDivide \<Rightarrow> checked_div a b
              | OpModulo \<Rightarrow> checked_rem a b
              | _ \<Rightarrow> None)
           in case result of
                Some i \<Rightarrow> Inr (VInt i)
              | None \<Rightarrow> if b = 0 \<and> (op = OpDivide \<or> op = OpModulo) then Inl DivisionByZero
                       else Inl IntegerOverflow)
      | (VFloat a, VFloat b) \<Rightarrow>
          (case op of
             OpAdd \<Rightarrow> finite_float (f64_add a b)
           | OpSubtract \<Rightarrow> finite_float (f64_sub a b)
           | OpMultiply \<Rightarrow> finite_float (f64_mul a b)
           | OpDivide \<Rightarrow> finite_float (f64_div a b)
           | OpModulo \<Rightarrow> finite_float (f64_rem a b)
           | _ \<Rightarrow> Inl OutsideProfile)
      | (VString a, VString b) \<Rightarrow>
          if op = OpAdd then Inr (VString (a @ b)) else Inl OutsideProfile
      | (VList a, VList b) \<Rightarrow>
          if op = OpAdd then Inr (VList (a @ b)) else Inl OutsideProfile
      | _ \<Rightarrow> Inl OutsideProfile)"

datatype ordering = Less | Equal | Greater

definition order_of :: "'a::linorder \<Rightarrow> 'a \<Rightarrow> ordering" where
  "order_of a b = (if a < b then Less else if a = b then Equal else Greater)"

definition compare_values :: "value \<Rightarrow> value \<Rightarrow> cel_error + ordering" where
  "compare_values l r =
     (case (l, r) of
        (VInt a, VInt b) \<Rightarrow> Inr (order_of (sint a) (sint b))
      | (VFloat a, VFloat b) \<Rightarrow>
          if f64_is_nan a \<or> f64_is_nan b then Inl NonFiniteComparison
          else Inr (order_of (f64_key a) (f64_key b))
      | (VString a, VString b) \<Rightarrow> Inr (order_of a b)
      | _ \<Rightarrow> Inl OutsideProfile)"

section \<open>Operators on evaluated operands\<close>

definition apply_unary :: "engine \<Rightarrow> cel_function \<Rightarrow> value \<Rightarrow> cel_result" where
  "apply_unary G f v =
     (case f of
        OpLogicalNot \<Rightarrow> (case v of VBool b \<Rightarrow> Inr (VBool (\<not> b)) | _ \<Rightarrow> Inl NotRequiresBool)
      | OpNegate \<Rightarrow>
          (case v of
             VInt i \<Rightarrow> (case i64_checked (- sint i) of
                          Some j \<Rightarrow> Inr (VInt j) | None \<Rightarrow> Inl IntegerOverflow)
           | VFloat w \<Rightarrow> finite_float (f64_neg w)
           | _ \<Rightarrow> Inl NegateNotNumeric)
      | Named n \<Rightarrow>
          if n = ''size'' then
            (case v of
               VString s \<Rightarrow> checked_size (scalar_count s)
             | VList vs \<Rightarrow> checked_size (length vs)
             | VMap ms \<Rightarrow> checked_size (length ms)
             | _ \<Rightarrow> Inl SizeOperand)
          else if n = ''double'' then
            (case v of VInt i \<Rightarrow> finite_float (f64_of_i64 i) | _ \<Rightarrow> Inl OutsideProfile)
          else if n = ''int'' then
            (case v of
               VFloat w \<Rightarrow>
                 if f64_is_finite w \<and> - (2 ^ 63) \<le> f64_value w \<and> f64_value w < 2 ^ 63
                 then Inr (VInt (word_of_int (rat_trunc (f64_value w))))
                 else Inl ConversionDomain
             | _ \<Rightarrow> Inl OutsideProfile)
          else
            (case v of
               VBool b \<Rightarrow> Inr (VString (if b then ''true'' else ''false''))
             | VInt i \<Rightarrow> Inr (VString (signed_decimal (sint i)))
             | VFloat w \<Rightarrow> (case canonical_double G w of Inl e \<Rightarrow> Inl e | Inr s \<Rightarrow> Inr (VString s))
             | VString s \<Rightarrow> Inr (VString s)
             | _ \<Rightarrow> Inl OutsideProfile)
      | _ \<Rightarrow> Inl OutsideProfile)"

definition is_unary :: "cel_function \<Rightarrow> bool" where
  "is_unary f \<longleftrightarrow>
     f = OpLogicalNot \<or> f = OpNegate \<or>
     f \<in> {Named ''size'', Named ''double'', Named ''int'', Named ''string''}"

definition is_logical :: "cel_function \<Rightarrow> bool" where
  "is_logical f \<longleftrightarrow> f = OpLogicalAnd \<or> f = OpLogicalOr"

definition is_arithmetic :: "cel_function \<Rightarrow> bool" where
  "is_arithmetic f \<longleftrightarrow> f \<in> {OpAdd, OpSubtract, OpMultiply, OpDivide, OpModulo}"

definition is_comparison :: "cel_function \<Rightarrow> bool" where
  "is_comparison f \<longleftrightarrow> f \<in> {OpGreater, OpGreaterEquals, OpLess, OpLessEquals}"

definition is_binary :: "cel_function \<Rightarrow> bool" where
  "is_binary f \<longleftrightarrow> is_arithmetic f \<or> is_comparison f \<or>
     f \<in> {OpEquals, OpNotEquals, OpIn, OpIndex}"

definition apply_binary :: "cel_function \<Rightarrow> value \<Rightarrow> value \<Rightarrow> cel_result" where
  "apply_binary f a b =
     (if is_arithmetic f then evaluate_arithmetic f a b
      else if f = OpEquals then Inr (VBool (value_eq a b))
      else if f = OpNotEquals then Inr (VBool (\<not> value_eq a b))
      else if is_comparison f then
        (case compare_values a b of
           Inl e \<Rightarrow> Inl e
         | Inr o' \<Rightarrow>
             Inr (VBool (if f = OpGreater then o' = Greater
                         else if f = OpGreaterEquals then o' \<noteq> Less
                         else if f = OpLess then o' = Less
                         else o' \<noteq> Greater)))
      else if f = OpIn then
        (case b of
           VList vs \<Rightarrow> Inr (VBool (\<exists>v \<in> set vs. value_eq v a))
         | VMap ms \<Rightarrow> (case a of
                         VString k \<Rightarrow> Inr (VBool (bm_has ms k))
                       | _ \<Rightarrow> Inl MapMembershipKey)
         | _ \<Rightarrow> Inl InRequiresContainer)
      else
        (case (a, b) of
           (VList vs, VInt i) \<Rightarrow>
             if 0 \<le> sint i \<and> sint i < int (length vs) then Inr (vs ! nat (sint i))
             else Inl IndexOutOfRange
         | (VMap ms, VString k) \<Rightarrow>
             (case bm_get ms k of Some v \<Rightarrow> Inr v | None \<Rightarrow> Inl KeyAbsent)
         | _ \<Rightarrow> Inl InvalidIndex))"

text \<open>
  \<^verbatim>\<open>&&\<close> and \<^verbatim>\<open>||\<close>: both operands have been evaluated, and a deciding operand wins over
  an error of the other one; otherwise the left error comes first.
\<close>

definition apply_logical :: "cel_function \<Rightarrow> cel_result \<Rightarrow> cel_result \<Rightarrow> cel_result" where
  "apply_logical f l r =
     (let decides = VBool (f = OpLogicalOr); neutral = VBool (f = OpLogicalAnd) in
      if l = Inr decides \<or> r = Inr decides then Inr decides
      else if l = Inr neutral \<and> (\<exists>b. r = Inr (VBool b)) then r
      else (case l of
              Inl e \<Rightarrow> Inl e
            | Inr _ \<Rightarrow> (case r of Inl e \<Rightarrow> Inl e | Inr _ \<Rightarrow> Inl LogicalNotBoolean)))"

section \<open>Evaluation\<close>

text \<open>
  The meter counts the nodes entered (\<^verbatim>\<open>EvaluationMeter\<close>, a \<^verbatim>\<open>usize\<close> that saturates); it
  is threaded through the evaluation, errors included.
\<close>

definition usize_max :: nat where
  "usize_max = 2 ^ 64 - 1"

definition meter_enter :: "nat \<Rightarrow> nat" where
  "meter_enter steps = min (steps + 1) usize_max"

definition literal_value :: "cel_literal \<Rightarrow> cel_result" where
  "literal_value l =
     (case l of
        LNull \<Rightarrow> Inr VNull
      | LBoolean b \<Rightarrow> Inr (VBool b)
      | LInt i \<Rightarrow> Inr (VInt i)
      | LDouble w \<Rightarrow> finite_float w
      | LString s \<Rightarrow> Inr (VString s)
      | LUInt _ \<Rightarrow> Inl OutsideProfile
      | LBytes _ \<Rightarrow> Inl OutsideProfile)"

definition select_value :: "string \<Rightarrow> bool \<Rightarrow> value \<Rightarrow> cel_result" where
  "select_value name test v =
     (case v of
        VMap ms \<Rightarrow>
          if test then Inr (VBool (bm_has ms name))
          else (case bm_get ms name of Some w \<Rightarrow> Inr w | None \<Rightarrow> Inl (MissingField name))
      | _ \<Rightarrow> Inl SelectOperand)"

text \<open>The key of a map entry: only a string literal is in the profile.\<close>

definition literal_key :: "cel_expr \<Rightarrow> string option" where
  "literal_key e = (case e of ELiteral (LString k) \<Rightarrow> Some k | _ \<Rightarrow> None)"

text \<open>\<^verbatim>\<open>?\<close> on a result that carries the meter.\<close>

definition eseq :: "('e + 'a) \<times> nat \<Rightarrow> ('a \<Rightarrow> nat \<Rightarrow> ('e + 'b) \<times> nat) \<Rightarrow> ('e + 'b) \<times> nat" where
  "eseq m f = (case m of (Inl x, n) \<Rightarrow> (Inl x, n) | (Inr a, n) \<Rightarrow> f a n)"

definition ethen :: "'a \<times> nat \<Rightarrow> ('a \<Rightarrow> nat \<Rightarrow> 'b) \<Rightarrow> 'b" where
  "ethen m f = f (fst m) (snd m)"

text \<open>
  A subexpression is handed to its context as the function that evaluates it from a meter
  reading, which keeps the evaluation order of the source in the combinators below.
\<close>

type_synonym cel_thunk = "nat \<Rightarrow> cel_result \<times> nat"

definition entered :: "nat \<Rightarrow> cel_thunk \<Rightarrow> cel_thunk" where
  "entered M body steps =
     (if meter_enter steps > M then (Inl StepLimitExceeded, meter_enter steps)
      else body (meter_enter steps))"

primrec evaluate_elements :: "cel_thunk list \<Rightarrow> nat \<Rightarrow> (cel_error + value list) \<times> nat" where
  "evaluate_elements [] n = (Inr [], n)"
| "evaluate_elements (t # ts) n =
     eseq (t n) (\<lambda>v n. eseq (evaluate_elements ts n) (\<lambda>vs n. (Inr (v # vs), n)))"

primrec evaluate_entries ::
  "(string \<times> cel_thunk) option list \<Rightarrow> (string, value) btree_map \<Rightarrow> nat \<Rightarrow> cel_result \<times> nat" where
  "evaluate_entries [] acc n = (Inr (VMap acc), n)"
| "evaluate_entries (entry # entries) acc n =
     (case entry of
        None \<Rightarrow> (Inl OutsideProfile, n)
      | Some (k, t) \<Rightarrow> eseq (t n) (\<lambda>v n. evaluate_entries entries (bm_insert k v acc) n))"

definition evaluate_call :: "engine \<Rightarrow> cel_function \<Rightarrow> cel_thunk list \<Rightarrow> nat \<Rightarrow> cel_result \<times> nat" where
  "evaluate_call G f args n =
     (case args of
        [a] \<Rightarrow>
          if is_unary f then eseq (a n) (\<lambda>v n. (apply_unary G f v, n))
          else (Inl OutsideProfile, n)
      | [a, b] \<Rightarrow>
          if is_logical f then
            ethen (a n) (\<lambda>l n. ethen (b n) (\<lambda>r n. (apply_logical f l r, n)))
          else if is_binary f then
            eseq (a n) (\<lambda>v n. eseq (b n) (\<lambda>w n. (apply_binary f v w, n)))
          else (Inl OutsideProfile, n)
      | [c, a, b] \<Rightarrow>
          if f = OpConditional then
            eseq (c n) (\<lambda>v n. if v = VBool True then a n else if v = VBool False then b n
                              else (Inl ConditionNotBoolean, n))
          else (Inl OutsideProfile, n)
      | _ \<Rightarrow> (Inl OutsideProfile, n))"

primrec evaluate_ast :: "engine \<Rightarrow> nat \<Rightarrow> cel_environment \<Rightarrow> cel_expr \<Rightarrow> cel_thunk"
  and evaluate_entry :: "engine \<Rightarrow> nat \<Rightarrow> cel_environment \<Rightarrow> cel_entry \<Rightarrow> (string \<times> cel_thunk) option"
where
  "evaluate_ast G M env (ELiteral l) = entered M (\<lambda>n. (literal_value l, n))"
| "evaluate_ast G M env (EIdent name) =
     entered M (\<lambda>n. (case bm_get env name of
                       Some v \<Rightarrow> (Inr v, n) | None \<Rightarrow> (Inl (UnknownName name), n)))"
| "evaluate_ast G M env (EList es) =
     entered M (\<lambda>n. eseq (evaluate_elements (map (evaluate_ast G M env) es) n)
                       (\<lambda>vs n. (Inr (VList vs), n)))"
| "evaluate_ast G M env (EMap entries) =
     entered M (\<lambda>n. evaluate_entries (map (evaluate_entry G M env) entries) [] n)"
| "evaluate_ast G M env (ESelect operand name test) =
     entered M (\<lambda>n. eseq (evaluate_ast G M env operand n) (\<lambda>v n. (select_value name test v, n)))"
| "evaluate_ast G M env (ECall target f args) =
     entered M (\<lambda>n. if target = None then evaluate_call G f (map (evaluate_ast G M env) args) n
                     else (Inl OutsideProfile, n))"
| "evaluate_ast G M env (EComprehension a b c d e) = entered M (\<lambda>n. (Inl OutsideProfile, n))"
| "evaluate_ast G M env (EStruct entries) = entered M (\<lambda>n. (Inl OutsideProfile, n))"
| "evaluate_ast G M env EUnspecified = entered M (\<lambda>n. (Inl OutsideProfile, n))"
| "evaluate_entry G M env (MapEntry key v optional) =
     (case literal_key key of None \<Rightarrow> None | Some k \<Rightarrow> Some (k, evaluate_ast G M env v))"
| "evaluate_entry G M env (StructField v) = None"

primrec ast_nodes :: "cel_expr \<Rightarrow> nat" and entry_nodes :: "cel_entry \<Rightarrow> nat" where
  "ast_nodes (ECall target f args) =
     1 + ((case map_option ast_nodes target of None \<Rightarrow> 0 | Some n \<Rightarrow> n) + sum_list (map ast_nodes args))"
| "ast_nodes (EComprehension a b c d e) =
     1 + (ast_nodes a + ast_nodes b + ast_nodes c + ast_nodes d + ast_nodes e)"
| "ast_nodes (EList es) = 1 + sum_list (map ast_nodes es)"
| "ast_nodes (EMap entries) = 1 + sum_list (map entry_nodes entries)"
| "ast_nodes (ESelect operand name test) = 1 + ast_nodes operand"
| "ast_nodes (EStruct entries) = 1 + sum_list (map entry_nodes entries)"
| "ast_nodes EUnspecified = 1"
| "ast_nodes (EIdent name) = 1"
| "ast_nodes (ELiteral l) = 1"
| "entry_nodes (MapEntry key v optional) = 1 + (ast_nodes key + ast_nodes v)"
| "entry_nodes (StructField v) = 1 + ast_nodes v"

definition evaluate :: "engine \<Rightarrow> string \<Rightarrow> cel_environment \<Rightarrow> cel_result" where
  "evaluate G source env =
     (case eng_cel_parse G source of
        None \<Rightarrow> Inl ParseError
      | Some e \<Rightarrow> fst (evaluate_ast G usize_max env e 0))"

definition migration_expression_info :: "engine \<Rightarrow> string \<Rightarrow> cel_error + nat" where
  "migration_expression_info G source =
     (case eng_cel_parse G source of None \<Rightarrow> Inl ParseError | Some e \<Rightarrow> Inr (ast_nodes e))"

definition evaluate_migration ::
  "engine \<Rightarrow> string \<Rightarrow> cel_environment \<Rightarrow> nat \<Rightarrow> cel_error + value \<times> nat" where
  "evaluate_migration G source env maximum_steps =
     (case eng_cel_parse G source of
        None \<Rightarrow> Inl ParseError
      | Some e \<Rightarrow>
          (case evaluate_ast G maximum_steps env e 0 of
             (Inl x, n) \<Rightarrow> Inl x
           | (Inr v, n) \<Rightarrow> Inr (v, n)))"

definition evaluate_boolean :: "engine \<Rightarrow> string \<Rightarrow> cel_environment \<Rightarrow> cel_error + bool" where
  "evaluate_boolean G source env =
     (case evaluate G source env of
        Inl x \<Rightarrow> Inl x
      | Inr (VBool b) \<Rightarrow> Inr b
      | Inr v \<Rightarrow> Inl (GuardNotBool (type_name v)))"

section \<open>The meter\<close>

text \<open>
  \<open>agree M N t u\<close>: started with at least \<open>N\<close> steps left below \<open>M\<close>, the two thunks return
  the same and enter at most \<open>N\<close> nodes.
\<close>

definition agree :: "nat \<Rightarrow> nat \<Rightarrow> (nat \<Rightarrow> 'a \<times> nat) \<Rightarrow> (nat \<Rightarrow> 'a \<times> nat) \<Rightarrow> bool" where
  "agree M N t u \<longleftrightarrow> (\<forall>n. n + N \<le> M \<longrightarrow> t n = u n \<and> snd (u n) \<le> n + N)"

lemma agreeD: "agree M N t u \<Longrightarrow> n + N \<le> M \<Longrightarrow> t n = u n \<and> snd (u n) \<le> n + N"
  by (simp add: agree_def)

lemma agree_return [simp]: "agree M N (\<lambda>n. (f, n)) (\<lambda>n. (f, n))"
  by (simp add: agree_def)

lemma agree_mono:
  assumes "agree M N t u" "N \<le> K"
  shows "agree M K t u"
  unfolding agree_def
proof (intro allI impI)
  fix n assume "n + K \<le> M"
  then show "t n = u n \<and> snd (u n) \<le> n + K"
    using agreeD [OF assms(1), of n] assms(2) by linarith
qed

lemma agree_entered:
  assumes "agree M N t u" "M \<le> usize_max"
  shows "agree M (Suc N) (entered M t) (entered usize_max u)"
  unfolding agree_def
proof (intro allI impI)
  fix n assume n: "n + Suc N \<le> M"
  then have "meter_enter n = Suc n" "Suc n \<le> M" "Suc n \<le> usize_max"
    using assms(2) by (auto simp: meter_enter_def)
  then show "entered M t n = entered usize_max u n \<and> snd (entered usize_max u n) \<le> n + Suc N"
    using agreeD [OF assms(1), of "Suc n"] n by (simp add: entered_def)
qed

lemma agree_eseq:
  assumes "agree M N t u" "\<And>v. agree M K (f v) (g v)"
  shows "agree M (N + K) (\<lambda>n. eseq (t n) f) (\<lambda>n. eseq (u n) g)"
  unfolding agree_def
proof (intro allI impI)
  fix n assume n: "n + (N + K) \<le> M"
  obtain r m where u: "u n = (r, m)" by fastforce
  have "t n = (r, m)" "m \<le> n + N" using agreeD [OF assms(1), of n] n u by auto
  then show "eseq (t n) f = eseq (u n) g \<and> snd (eseq (u n) g) \<le> n + (N + K)"
  proof (cases r)
    case (Inr v)
    then show ?thesis using \<open>t n = (r, m)\<close> \<open>m \<le> n + N\<close> n u agreeD [OF assms(2) [of v], of m]
      by (simp add: eseq_def)
  qed (use \<open>t n = (r, m)\<close> \<open>m \<le> n + N\<close> u in \<open>simp add: eseq_def\<close>)
qed

lemma agree_ethen:
  assumes "agree M N t u" "\<And>v. agree M K (f v) (g v)"
  shows "agree M (N + K) (\<lambda>n. ethen (t n) f) (\<lambda>n. ethen (u n) g)"
  unfolding agree_def
proof (intro allI impI)
  fix n assume n: "n + (N + K) \<le> M"
  have t: "t n = u n" "snd (u n) \<le> n + N" using agreeD [OF assms(1), of n] n by auto
  then show "ethen (t n) f = ethen (u n) g \<and> snd (ethen (u n) g) \<le> n + (N + K)"
    using agreeD [OF assms(2) [of "fst (u n)"], of "snd (u n)"] n by (auto simp: ethen_def)
qed

lemma agree_elements:
  "list_all (\<lambda>e. agree M (N e) (t e) (u e)) es \<Longrightarrow>
   agree M (sum_list (map N es)) (evaluate_elements (map t es)) (evaluate_elements (map u es))"
proof (induction es)
  case Nil
  then show ?case by (simp add: agree_def)
next
  case (Cons e es)
  then have "agree M (N e + (sum_list (map N es) + 0))
      (\<lambda>n. eseq (t e n) (\<lambda>v n. eseq (evaluate_elements (map t es) n) (\<lambda>vs n. (Inr (v # vs), n))))
      (\<lambda>n. eseq (u e n) (\<lambda>v n. eseq (evaluate_elements (map u es) n) (\<lambda>vs n. (Inr (v # vs), n))))"
    by (intro agree_eseq) simp_all
  then show ?case by (simp add: agree_def)
qed

text \<open>Entries agree when they have the same key and their value thunks agree.\<close>

definition entry_agree ::
  "nat \<Rightarrow> nat \<Rightarrow> (string \<times> cel_thunk) option \<Rightarrow> (string \<times> cel_thunk) option \<Rightarrow> bool" where
  "entry_agree M N x y \<longleftrightarrow>
     (case (x, y) of
        (None, None) \<Rightarrow> True
      | (Some (k, t), Some (l, u)) \<Rightarrow> k = l \<and> agree M N t u
      | _ \<Rightarrow> False)"

lemma agree_entries:
  "list_all (\<lambda>e. entry_agree M (N e) (t e) (u e)) es \<Longrightarrow>
   agree M (sum_list (map N es)) (evaluate_entries (map t es) acc) (evaluate_entries (map u es) acc)"
proof (induction es arbitrary: acc)
  case Nil
  then show ?case by (simp add: agree_def)
next
  case (Cons e es)
  show ?case
  proof (cases "t e")
    case None
    then show ?thesis using Cons.prems
      by (auto simp: entry_agree_def agree_def split: option.splits)
  next
    case (Some p)
    then obtain k a b where ab: "t e = Some (k, a)" "u e = Some (k, b)" "agree M (N e) a b"
      using Cons.prems by (cases p) (auto simp: entry_agree_def split: option.splits)
    have "agree M (N e + sum_list (map N es))
        (\<lambda>n. eseq (a n) (\<lambda>v n. evaluate_entries (map t es) (bm_insert k v acc) n))
        (\<lambda>n. eseq (b n) (\<lambda>v n. evaluate_entries (map u es) (bm_insert k v acc) n))"
      using Cons ab(3) by (intro agree_eseq) simp_all
    then show ?thesis using ab by (simp add: agree_def)
  qed
qed

lemma agree_call:
  assumes "list_all (\<lambda>e. agree M (N e) (t e) (u e)) es"
  shows "agree M (sum_list (map N es)) (evaluate_call G f (map t es)) (evaluate_call G f (map u es))"
proof -
  consider (none) "es = []" | (one) a where "es = [a]" | (two) a b where "es = [a, b]"
    | (three) c a b where "es = [c, a, b]" | (more) a b c d ds where "es = a # b # c # d # ds"
    by (metis neq_Nil_conv)
  then show ?thesis
  proof cases
    case one
    have "agree M (N a + 0) (\<lambda>n. eseq (t a n) (\<lambda>v n. (apply_unary G f v, n)))
        (\<lambda>n. eseq (u a n) (\<lambda>v n. (apply_unary G f v, n)))"
      using assms one by (intro agree_eseq) simp_all
    then show ?thesis using one by (simp add: evaluate_call_def agree_def)
  next
    case two
    have log: "agree M (N a + (N b + 0))
        (\<lambda>n. ethen (t a n) (\<lambda>l n. ethen (t b n) (\<lambda>r n. (apply_logical f l r, n))))
        (\<lambda>n. ethen (u a n) (\<lambda>l n. ethen (u b n) (\<lambda>r n. (apply_logical f l r, n))))"
      using assms two by (intro agree_ethen) simp_all
    have bin: "agree M (N a + (N b + 0))
        (\<lambda>n. eseq (t a n) (\<lambda>v n. eseq (t b n) (\<lambda>w n. (apply_binary f v w, n))))
        (\<lambda>n. eseq (u a n) (\<lambda>v n. eseq (u b n) (\<lambda>w n. (apply_binary f v w, n))))"
      using assms two by (intro agree_eseq) simp_all
    from log bin show ?thesis using two by (simp add: evaluate_call_def agree_def)
  next
    case three
    have sel: "agree M (N a + N b)
        (\<lambda>n. if v = VBool True then t a n else if v = VBool False then t b n
              else (Inl ConditionNotBoolean, n))
        (\<lambda>n. if v = VBool True then u a n else if v = VBool False then u b n
              else (Inl ConditionNotBoolean, n))" for v
      using assms three agree_mono [of M "N a" "t a" "u a" "N a + N b"]
        agree_mono [of M "N b" "t b" "u b" "N a + N b"] by (simp add: agree_def)
    have "agree M (N c + (N a + N b))
        (\<lambda>n. eseq (t c n) (\<lambda>v n. if v = VBool True then t a n else if v = VBool False then t b n
                            else (Inl ConditionNotBoolean, n)))
        (\<lambda>n. eseq (u c n) (\<lambda>v n. if v = VBool True then u a n else if v = VBool False then u b n
                            else (Inl ConditionNotBoolean, n)))"
      using assms three by (intro agree_eseq sel) simp_all
    then show ?thesis using three by (simp add: evaluate_call_def agree_def)
  qed (simp_all add: evaluate_call_def agree_def)
qed

lemma evaluate_ast_agree:
  assumes M: "M \<le> usize_max"
  shows "agree M (ast_nodes e) (evaluate_ast G M env e) (evaluate_ast G usize_max env e)"
    and "entry_agree M (entry_nodes x) (evaluate_entry G M env x) (evaluate_entry G usize_max env x)"
proof (induction e and x)
  case (EIdent name)
  show ?case using M by (cases "bm_get env name") (auto intro!: agree_entered)
next
  case (EList es)
  have "agree M (sum_list (map ast_nodes es) + 0)
      (\<lambda>n. eseq (evaluate_elements (map (evaluate_ast G M env) es) n) (\<lambda>vs n. (Inr (VList vs), n)))
      (\<lambda>n. eseq (evaluate_elements (map (evaluate_ast G usize_max env) es) n)
             (\<lambda>vs n. (Inr (VList vs), n)))"
    using EList by (intro agree_eseq agree_elements agree_return) (simp add: list_all_iff)
  from agree_entered [OF this M] show ?case by simp
next
  case (EMap entries)
  have "agree M (sum_list (map entry_nodes entries))
      (evaluate_entries (map (evaluate_entry G M env) entries) [])
      (evaluate_entries (map (evaluate_entry G usize_max env) entries) [])"
    using EMap by (intro agree_entries) (simp add: list_all_iff)
  from agree_entered [OF this M] show ?case by simp
next
  case (ESelect e name test)
  have "agree M (ast_nodes e + 0)
      (\<lambda>n. eseq (evaluate_ast G M env e n) (\<lambda>v n. (select_value name test v, n)))
      (\<lambda>n. eseq (evaluate_ast G usize_max env e n) (\<lambda>v n. (select_value name test v, n)))"
    using ESelect by (intro agree_eseq agree_return)
  from agree_entered [OF this M] show ?case by simp
next
  case (ECall target f args)
  show ?case
  proof (cases "target = None")
    case True
    have "agree M (sum_list (map ast_nodes args))
        (evaluate_call G f (map (evaluate_ast G M env) args))
        (evaluate_call G f (map (evaluate_ast G usize_max env) args))"
      using ECall by (intro agree_call) (simp add: list_all_iff)
    from agree_entered [OF this M] show ?thesis using True by simp
  qed (use M in \<open>auto intro!: agree_entered\<close>)
next
  case (MapEntry key v optional)
  then show ?case
    by (auto simp: entry_agree_def split: option.splits intro: agree_mono)
qed (auto simp: entry_agree_def intro!: agree_entered M)

text \<open>
  C38: a transformation expression that is granted as many steps as its syntax tree has nodes
  evaluates exactly as without a limit, and the work it reports is at most that number.
\<close>

theorem migration_budget_sufficient:
  assumes "migration_expression_info G source = Inr nodes"
    and "nodes \<le> maximum" "maximum \<le> usize_max"
  shows "\<exists>work \<le> nodes.
     evaluate_migration G source env maximum =
       (case evaluate G source env of Inl x \<Rightarrow> Inl x | Inr v \<Rightarrow> Inr (v, work))"
proof -
  from assms obtain e where e: "eng_cel_parse G source = Some e" "nodes = ast_nodes e"
    by (auto simp: migration_expression_info_def split: option.splits)
  then have "evaluate_ast G maximum env e 0 = evaluate_ast G usize_max env e 0"
    "snd (evaluate_ast G usize_max env e 0) \<le> nodes"
    using agreeD [OF evaluate_ast_agree(1) [OF assms(3)], of 0 e G env] assms(2) by auto
  then show ?thesis using e
    by (auto simp: evaluate_migration_def evaluate_def split: prod.splits sum.splits)
qed

text \<open>An engine whose parser returns one fixed tree, for concrete evaluations.\<close>

definition parsing_engine :: "cel_expr \<Rightarrow> engine" where
  "parsing_engine e = \<lparr>eng_cel_parse = (\<lambda>_. Some e), eng_format_double = (\<lambda>_. ''1''),
     eng_json_double = (\<lambda>_. ''1''),
     eng_sha256 = (\<lambda>s. s), eng_invoke_guard = (\<lambda>_ _ _. None), eng_invoke_actions = (\<lambda>_ _ _. None)\<rparr>"

lemmas evaluation_defs =
  evaluate_def evaluate_migration_def migration_expression_info_def parsing_engine_def
  entered_def meter_enter_def usize_max_def eseq_def ethen_def literal_value_def
  evaluate_call_def is_unary_def is_logical_def is_binary_def is_arithmetic_def is_comparison_def
  apply_unary_def apply_logical_def apply_binary_def select_value_def literal_key_def

theorem migration_budget_sufficient_witness:
  "\<exists>work \<le> 3.
     evaluate_migration (parsing_engine (ECall None OpLogicalAnd [EIdent ''a'', EIdent ''b'']))
       ''a && b'' [(''a'', VBool True)] 3 =
     (case evaluate (parsing_engine (ECall None OpLogicalAnd [EIdent ''a'', EIdent ''b'']))
             ''a && b'' [(''a'', VBool True)] of
        Inl x \<Rightarrow> Inl x | Inr v \<Rightarrow> Inr (v, work))"
  by (rule migration_budget_sufficient) (simp_all add: evaluation_defs)

text \<open>
  A deciding operand of \<^verbatim>\<open>&&\<close> hides the exceeded step limit of the other one: the
  evaluation succeeds and reports more work than it was granted.
\<close>

theorem step_limit_masked:
  "evaluate_migration
     (parsing_engine (ECall None OpLogicalAnd [ELiteral (LBoolean False), EIdent ''source_0'']))
     ''false && source_0'' [(''source_0'', VBool True)] 2 = Inr (VBool False, 3)"
  by (simp add: evaluation_defs)

section \<open>Results are canonical portable values\<close>

definition result_canonical :: "cel_result \<Rightarrow> bool" where
  "result_canonical r \<longleftrightarrow> (case r of Inl _ \<Rightarrow> True | Inr v \<Rightarrow> is_canonical_portable v)"

definition env_canonical :: "cel_environment \<Rightarrow> bool" where
  "env_canonical env \<longleftrightarrow> list_all is_canonical_portable (bm_values env)"

definition thunk_canonical :: "cel_thunk \<Rightarrow> bool" where
  "thunk_canonical t \<longleftrightarrow> (\<forall>n. result_canonical (fst (t n)))"

lemma canonical_values_all [simp]: "canonical_values vs = list_all is_canonical_portable vs"
  by (induction vs) auto

lemma canonical_members_all [simp]: "canonical_members ms = list_all is_canonical_portable (bm_values ms)"
  by (induction ms) auto

lemma result_canonical_simps [simp]:
  "result_canonical (Inl x)" "result_canonical (Inr v) = is_canonical_portable v"
  by (simp_all add: result_canonical_def)

lemma finite_float_canonical [simp]: "result_canonical (finite_float w)"
  by (auto simp: finite_float_def f64_unsigned_zero_def)

lemma checked_size_canonical [simp]: "result_canonical (checked_size n)"
  by (simp add: checked_size_def)

lemma literal_canonical [simp]: "result_canonical (literal_value l)"
  by (cases l) (simp_all add: literal_value_def)

lemma bm_get_canonical: "env_canonical env \<Longrightarrow> bm_get env k = Some v \<Longrightarrow> is_canonical_portable v"
  unfolding env_canonical_def by (induction env) (auto split: if_splits)

lemma bm_insert_canonical:
  "is_canonical_portable v \<Longrightarrow> env_canonical m \<Longrightarrow> env_canonical (bm_insert k v m)"
  unfolding env_canonical_def by (induction m) auto

lemma select_canonical: "is_canonical_portable v \<Longrightarrow> result_canonical (select_value name test v)"
  by (auto simp: select_value_def env_canonical_def [symmetric] split: value_splits option.splits
      intro: bm_get_canonical)

lemma arithmetic_canonical:
  "is_canonical_portable a \<Longrightarrow> is_canonical_portable b \<Longrightarrow> result_canonical (evaluate_arithmetic f a b)"
  by (auto simp: evaluate_arithmetic_def Let_def split: value_splits option.splits cel_function.splits)

lemma unary_canonical: "is_canonical_portable a \<Longrightarrow> result_canonical (apply_unary G f a)"
  by (auto simp: apply_unary_def split: value_splits option.splits cel_function.splits sum.splits)

lemmas map_get_canonical = bm_get_canonical [unfolded env_canonical_def]

lemma list_nth_canonical:
  "list_all is_canonical_portable vs \<Longrightarrow> 0 \<le> i \<Longrightarrow> i < int (length vs) \<Longrightarrow>
   is_canonical_portable (vs ! nat i)"
  by (simp add: list_all_length)

lemma binary_canonical:
  assumes "is_canonical_portable a" "is_canonical_portable b"
  shows "result_canonical (apply_binary f a b)"
  using assms
  by (auto simp: apply_binary_def arithmetic_canonical map_get_canonical list_nth_canonical
      split: sum.splits value_splits option.splits)

lemma logical_canonical:
  "result_canonical l \<Longrightarrow> result_canonical r \<Longrightarrow> result_canonical (apply_logical f l r)"
  by (auto simp: apply_logical_def Let_def split: sum.splits)

lemma thunk_canonical_entered: "thunk_canonical t \<Longrightarrow> thunk_canonical (entered M t)"
  by (simp add: thunk_canonical_def entered_def)

lemma eseq_canonical:
  assumes "result_canonical (fst m)" "\<And>v n. is_canonical_portable v \<Longrightarrow> result_canonical (fst (f v n))"
  shows "result_canonical (fst (eseq m f))"
  using assms by (cases m) (auto simp: eseq_def split: sum.splits)

lemma elements_canonical:
  "list_all thunk_canonical ts \<Longrightarrow>
   (case fst (evaluate_elements ts n) of Inl _ \<Rightarrow> True | Inr vs \<Rightarrow> list_all is_canonical_portable vs)"
proof (induction ts arbitrary: n)
  case (Cons t ts)
  obtain r m where t: "t n = (r, m)" by fastforce
  obtain q k where q: "evaluate_elements ts m = (q, k)" by fastforce
  from t Cons.prems have "result_canonical r" by (metis fst_conv list.pred_inject(2) thunk_canonical_def)
  then show ?case using Cons.IH [of m] Cons.prems t q by (auto simp: eseq_def split: sum.splits)
qed simp

lemma entries_canonical:
  "list_all (\<lambda>x. \<forall>k t. x = Some (k, t) \<longrightarrow> thunk_canonical t) es \<Longrightarrow> env_canonical acc \<Longrightarrow>
   result_canonical (fst (evaluate_entries es acc n))"
proof (induction es arbitrary: acc n)
  case Nil
  then show ?case by (simp add: env_canonical_def)
next
  case (Cons e es)
  show ?case
  proof (cases e)
    case (Some p)
    obtain k t where p: "p = (k, t)" by fastforce
    have "result_canonical (fst (eseq (t n) (\<lambda>v n. evaluate_entries es (bm_insert k v acc) n)))"
      using Cons Some p by (intro eseq_canonical) (auto simp: thunk_canonical_def bm_insert_canonical)
    then show ?thesis using Some p by simp
  qed simp
qed

lemma call_canonical:
  assumes "list_all thunk_canonical args"
  shows "result_canonical (fst (evaluate_call G f args n))"
  using assms unfolding evaluate_call_def ethen_def
  by (auto split: list.splits simp: thunk_canonical_def
      intro!: eseq_canonical logical_canonical unary_canonical binary_canonical)

lemma evaluate_ast_canonical:
  assumes env: "env_canonical env"
  shows "thunk_canonical (evaluate_ast G M env e)"
    and "\<forall>k t. evaluate_entry G M env x = Some (k, t) \<longrightarrow> thunk_canonical t"
proof (induction e and x)
  case (EIdent name)
  show ?case using env
    by (auto simp: thunk_canonical_def entered_def bm_get_canonical split: option.splits)
next
  case (EList es)
  have "result_canonical (fst (eseq (evaluate_elements (map (evaluate_ast G M env) es) n)
           (\<lambda>vs n. (Inr (VList vs), n))))" for n
    using elements_canonical [of "map (evaluate_ast G M env) es" n] EList
    by (auto simp: eseq_def list_all_iff split: prod.splits sum.splits)
  then show ?case by (simp add: thunk_canonical_def entered_def)
next
  case (EMap entries)
  then show ?case
    by (auto simp: thunk_canonical_def entered_def list_all_iff env_canonical_def
        intro!: entries_canonical)
next
  case (ESelect e name test)
  then show ?case
    by (auto simp: thunk_canonical_def entered_def intro!: eseq_canonical select_canonical)
next
  case (ECall target f args)
  then show ?case
    by (auto simp: thunk_canonical_def entered_def list_all_iff intro!: call_canonical)
qed (auto simp: thunk_canonical_def entered_def split: option.splits)

text \<open>
  Expressions over canonical portable values only yield canonical portable values:
  no NaN, no infinity and no negative zero ever enters the variables through CEL.
\<close>

theorem evaluate_canonical:
  assumes "env_canonical env" and "evaluate G source env = Inr v"
  shows "is_canonical_portable v"
  using assms evaluate_ast_canonical(1) [OF assms(1)]
  by (fastforce simp: evaluate_def thunk_canonical_def result_canonical_def
      split: option.splits sum.splits)

theorem evaluate_canonical_witness:
  "is_canonical_portable (VList [VFloat 0])"
  by (rule evaluate_canonical [where env = "[(''x'', VFloat 0)]" and source = "''[x]''"
        and G = "parsing_engine (EList [EIdent ''x''])"])
    (simp_all add: evaluation_defs env_canonical_def)

section \<open>Exact integer arithmetic\<close>

lemma sint_word_of_int_64: "i64_in_range i \<Longrightarrow> sint (word_of_int i :: i64) = i"
  by (simp add: i64_in_range_def signed_take_bit_int_eq_self sint_sbintrunc')

lemma sint_exact_64:
  "i64_in_range (sint a + sint b) \<Longrightarrow> sint (a + b :: i64) = sint a + sint b"
  "i64_in_range (sint a - sint b) \<Longrightarrow> sint (a - b :: i64) = sint a - sint b"
  "i64_in_range (sint a * sint b) \<Longrightarrow> sint (a * b :: i64) = sint a * sint b"
  using sint_word_of_int_64 [of "sint a + sint b"] sint_word_of_int_64 [of "sint a - sint b"]
    sint_word_of_int_64 [of "sint a * sint b"] by simp_all

lemma quot_rem_law:
  assumes "y \<noteq> (0::int)"
  shows "x = y * int_quot x y + int_rem x y \<and> \<bar>int_rem x y\<bar> < \<bar>y\<bar> \<and> (int_rem x y = 0 \<or> sgn (int_rem x y) = sgn x)"
proof -
  have q: "int_rem x y = sgn x * (\<bar>x\<bar> mod \<bar>y\<bar>)"
  proof -
    have "y * int_quot x y = sgn x * (\<bar>y\<bar> * (\<bar>x\<bar> div \<bar>y\<bar>))"
      by (simp add: int_quot_def abs_sgn ac_simps)
    moreover have "x = sgn x * \<bar>x\<bar>" by (simp add: mult_sgn_abs)
    moreover have "\<bar>x\<bar> = \<bar>y\<bar> * (\<bar>x\<bar> div \<bar>y\<bar>) + \<bar>x\<bar> mod \<bar>y\<bar>" by simp
    ultimately show ?thesis unfolding int_rem_def by (metis add_diff_cancel_left' distrib_left)
  qed
  have "0 \<le> \<bar>x\<bar> mod \<bar>y\<bar>" "\<bar>x\<bar> mod \<bar>y\<bar> < \<bar>y\<bar>" using assms by simp_all
  then have "\<bar>int_rem x y\<bar> < \<bar>y\<bar>" "int_rem x y = 0 \<or> sgn (int_rem x y) = sgn x"
    by (auto simp: q abs_mult sgn_mult abs_sgn_eq)
  then show ?thesis by (simp add: int_rem_def)
qed

text \<open>The mathematical result of an integer operator, where it has one.\<close>

definition exact_integer :: "cel_function \<Rightarrow> int \<Rightarrow> int \<Rightarrow> int option" where
  "exact_integer f x y =
     (if f = OpAdd then Some (x + y)
      else if f = OpSubtract then Some (x - y)
      else if f = OpMultiply then Some (x * y)
      else if f = OpDivide \<and> y \<noteq> 0 then Some (int_quot x y)
      else if f = OpModulo \<and> y \<noteq> 0 then Some (int_rem x y)
      else None)"

lemma sint_eq_0_64: "sint (b :: i64) = 0 \<longleftrightarrow> b = 0"
  by (metis signed_0 signed_word_eqI)

text \<open>
  integer arithmetic never wraps.  A result is the mathematical one, with truncating
  division; an operation without a result in the signed 64-bit range is an error, and a
  zero divisor is reported as such.
\<close>

theorem integer_arithmetic_exact:
  assumes "is_arithmetic f"
  shows "(case evaluate_arithmetic f (VInt a) (VInt b) of
            Inr v \<Rightarrow> \<exists>c. v = VInt c \<and> exact_integer f (sint a) (sint b) = Some (sint c)
          | Inl x \<Rightarrow>
              (x = DivisionByZero \<and> exact_integer f (sint a) (sint b) = None \<and> b = 0) \<or>
              (x = IntegerOverflow \<and>
               (\<exists>i. exact_integer f (sint a) (sint b) = Some i \<and>
                    (\<not> i64_in_range i \<or>
                     f = OpModulo \<and> \<not> i64_in_range (int_quot (sint a) (sint b))))))"
  using assms
  by (auto simp: is_arithmetic_def evaluate_arithmetic_def exact_integer_def checked_div_def
      checked_rem_def i64_checked_def sint_word_of_int_64 sint_exact_64 sint_eq_0_64 Let_def)

theorem integer_arithmetic_exact_witness:
  "is_arithmetic OpDivide \<and> evaluate_arithmetic OpDivide (VInt (- 7)) (VInt 2) = Inr (VInt (- 3))"
  using integer_arithmetic_exact [of OpDivide "- 7" 2]
  by (simp add: is_arithmetic_def evaluate_arithmetic_def checked_div_def i64_checked_def
      i64_in_range_def int_quot_def)

end
