(* ===== verification/Cel_Types.thy ===== *)
theory Cel_Types
  imports Cel
begin

text \<open>
  The static checker of the CEL profile (\<^verbatim>\<open>src/format1/cel.rs\<close>, \<^verbatim>\<open>check\<close> to
  \<^verbatim>\<open>is_assignable\<close>), and that it is sound for the evaluator: an expression that passes the
  check yields values of the inferred type and fails only for reasons that depend on the values.
\<close>

section \<open>Types\<close>

datatype cel_type =
    CNull
  | CBool
  | CInt
  | CDouble
  | CString
  | CList cel_type
  | CMap cel_type
  | CRecord "(string \<times> record_field) list"
  | CReference "string option"
  | CDyn
and record_field = RecordField (rf_value_type: cel_type) (rf_optional: bool)

type_synonym type_environment = "(string, cel_type) btree_map"

datatype load_error_code =
    DuplicateKey | NonStringMapKey | UnsupportedYamlFeature | UnsupportedFormat | NonJsonValue | InvalidUnicode
  | InvalidNumericSyntax | InvalidBooleanSyntax | InvalidNullSyntax | NumericValueOutOfRange | StructuralValidation
  | SemanticValidation | CelProfileError | InvalidBinding | DestroyedVariableWrite | DestroyedReferenceBinding
  | RootReentry | RootLocalTransition | RuntimeProviderUnavailable

record semantic_error =
  sem_code :: load_error_code
  sem_path :: string

definition profile_error :: "string \<Rightarrow> semantic_error" where
  "profile_error pointer = \<lparr>sem_code = CelProfileError, sem_path = pointer\<rparr>"

definition type_error :: "string \<Rightarrow> semantic_error" where
  "type_error pointer = \<lparr>sem_code = SemanticValidation, sem_path = pointer\<rparr>"

definition declared_type :: "string \<Rightarrow> string option \<Rightarrow> cel_type" where
  "declared_type value_type machine_id =
     (if value_type = ''bool'' then CBool
      else if value_type = ''int'' then CInt
      else if value_type = ''float'' then CDouble
      else if value_type = ''string'' then CString
      else if value_type = ''list'' then CList CDyn
      else if value_type = ''map'' then CMap CDyn
      else if value_type = ''instance_reference'' then CReference machine_id
      else CDyn)"

definition common_type :: "cel_type list \<Rightarrow> cel_type" where
  "common_type types =
     (case types of
        [] \<Rightarrow> CDyn
      | first # rest \<Rightarrow> if list_all (\<lambda>t. t = first) rest then first else CDyn)"

fun value_type :: "value \<Rightarrow> cel_type"
  and value_types :: "value list \<Rightarrow> cel_type list"
  and member_types :: "(string \<times> value) list \<Rightarrow> cel_type list"
where
  "value_type VNull = CNull"
| "value_type (VBool _) = CBool"
| "value_type (VInt _) = CInt"
| "value_type (VFloat _) = CDouble"
| "value_type (VString _) = CString"
| "value_type (VList vs) = CList (common_type (value_types vs))"
| "value_type (VMap ms) = CMap (common_type (member_types ms))"
| "value_type (VRef r) = CReference (Some (ref_machine_id r))"
| "value_types [] = []"
| "value_types (v # vs) = value_type v # value_types vs"
| "member_types [] = []"
| "member_types ((k, v) # ms) = value_type v # member_types ms"

definition nominally_compatible :: "string option \<Rightarrow> string option \<Rightarrow> bool" where
  "nominally_compatible l r \<longleftrightarrow> l = None \<or> r = None \<or> l = r"

definition equality_compatible :: "cel_type \<Rightarrow> cel_type \<Rightarrow> bool" where
  "equality_compatible l r \<longleftrightarrow>
     (case (l, r) of
        (CList _, CList _) \<Rightarrow> True
      | (CMap _, CMap _) \<Rightarrow> True
      | (CRecord _, CRecord _) \<Rightarrow> True
      | (CMap _, CRecord _) \<Rightarrow> True
      | (CRecord _, CMap _) \<Rightarrow> True
      | _ \<Rightarrow> l = r \<and> l \<noteq> CDyn)"

definition merge_dynamic :: "cel_type \<Rightarrow> cel_type \<Rightarrow> cel_type" where
  "merge_dynamic l r = (if l = r then l else CDyn)"

definition merge_conditional :: "cel_type \<Rightarrow> cel_type \<Rightarrow> cel_type option" where
  "merge_conditional l r =
     (if l = r then Some l
      else (case (l, r) of
              (CReference _, CNull) \<Rightarrow> Some l
            | (CNull, CReference _) \<Rightarrow> Some r
            | _ \<Rightarrow> None))"

text \<open>Two lists or two maps are decided by their elements, two references by their machines; otherwise equal types are assignable.\<close>

primrec is_assignable :: "cel_type \<Rightarrow> cel_type \<Rightarrow> bool" and field_assignable :: "record_field \<Rightarrow> cel_type \<Rightarrow> bool" where
  "is_assignable CNull expected \<longleftrightarrow> (case expected of CNull \<Rightarrow> True | CReference _ \<Rightarrow> True | _ \<Rightarrow> False)"
| "is_assignable CBool expected \<longleftrightarrow> expected = CBool"
| "is_assignable CInt expected \<longleftrightarrow> expected = CInt \<or> expected = CDouble"
| "is_assignable CDouble expected \<longleftrightarrow> expected = CDouble"
| "is_assignable CString expected \<longleftrightarrow> expected = CString"
| "is_assignable (CList actual) expected \<longleftrightarrow>
     (case expected of CList e \<Rightarrow> e = CDyn \<or> is_assignable actual e | _ \<Rightarrow> False)"
| "is_assignable (CMap actual) expected \<longleftrightarrow>
     (case expected of CMap e \<Rightarrow> e = CDyn \<or> is_assignable actual e | _ \<Rightarrow> False)"
| "is_assignable (CRecord members) expected \<longleftrightarrow>
     (case expected of CMap e \<Rightarrow> e = CDyn | _ \<Rightarrow> expected = CRecord members)"
| "is_assignable (CReference actual) expected \<longleftrightarrow>
     (case expected of CReference e \<Rightarrow> nominally_compatible actual e | _ \<Rightarrow> False)"
| "is_assignable CDyn expected \<longleftrightarrow> expected = CDyn"
| "field_assignable (RecordField t optional) expected \<longleftrightarrow> is_assignable t expected"

section \<open>Inference\<close>

definition infer_unary :: "cel_function \<Rightarrow> cel_type \<Rightarrow> cel_type option" where
  "infer_unary f t =
     (case f of
        OpLogicalNot \<Rightarrow> if t = CBool then Some CBool else None
      | OpNegate \<Rightarrow> if t = CInt \<or> t = CDouble then Some t else None
      | Named n \<Rightarrow>
          if n = ''size'' then
            (case t of CString \<Rightarrow> Some CInt | CList _ \<Rightarrow> Some CInt | CMap _ \<Rightarrow> Some CInt | CRecord _ \<Rightarrow> Some CInt | _ \<Rightarrow> None)
          else if n = ''double'' then (if t = CInt then Some CDouble else None)
          else if n = ''int'' then (if t = CDouble then Some CInt else None)
          else if n = ''string'' then (if t \<in> {CBool, CInt, CDouble, CString} then Some CString else None)
          else None
      | _ \<Rightarrow> None)"

definition infer_arithmetic :: "cel_function \<Rightarrow> cel_type \<Rightarrow> cel_type \<Rightarrow> cel_type option" where
  "infer_arithmetic f l r =
     (case (l, r) of
        (CInt, CInt) \<Rightarrow> Some CInt
      | (CDouble, CDouble) \<Rightarrow> Some CDouble
      | (CString, CString) \<Rightarrow> if f = OpAdd then Some CString else None
      | (CList a, CList b) \<Rightarrow> if f = OpAdd then Some (CList (merge_dynamic a b)) else None
      | _ \<Rightarrow> None)"

definition infer_equality :: "cel_type \<Rightarrow> cel_type \<Rightarrow> cel_type option" where
  "infer_equality l r =
     (if (case (l, r) of
            (CReference a, CReference b) \<Rightarrow> nominally_compatible a b
          | (CReference _, CNull) \<Rightarrow> True
          | (CNull, CReference _) \<Rightarrow> True
          | _ \<Rightarrow> False) \<or> equality_compatible l r
      then Some CBool else None)"

definition infer_membership :: "cel_type \<Rightarrow> cel_type \<Rightarrow> cel_type option" where
  "infer_membership l r =
     (case r of
        CList _ \<Rightarrow> Some CBool
      | CMap _ \<Rightarrow> if l = CString then Some CBool else None
      | CRecord _ \<Rightarrow> if l = CString then Some CBool else None
      | _ \<Rightarrow> None)"

definition infer_index :: "cel_type \<Rightarrow> cel_type \<Rightarrow> cel_type option" where
  "infer_index l r =
     (case (l, r) of
        (CList t, CInt) \<Rightarrow> Some t
      | (CMap t, CString) \<Rightarrow> Some t
      | (CRecord members, CString) \<Rightarrow> Some (common_type (map (\<lambda>f. rf_value_type (snd f)) members))
      | _ \<Rightarrow> None)"

definition infer_binary :: "cel_function \<Rightarrow> cel_type \<Rightarrow> cel_type \<Rightarrow> cel_type option" where
  "infer_binary f l r =
     (if is_logical f then (if l = CBool \<and> r = CBool then Some CBool else None)
      else if is_arithmetic f then infer_arithmetic f l r
      else if f = OpEquals \<or> f = OpNotEquals then infer_equality l r
      else if is_comparison f then (if l = r \<and> l \<in> {CInt, CDouble, CString} then Some CBool else None)
      else if f = OpIn then infer_membership l r
      else if f = OpIndex then infer_index l r
      else None)"

definition infer_call :: "string \<Rightarrow> cel_function \<Rightarrow> cel_type list \<Rightarrow> (cel_type, semantic_error) outcome" where
  "infer_call pointer f args =
     (case args of
        [t] \<Rightarrow> ok_or (profile_error pointer) (infer_unary f t)
      | [l, r] \<Rightarrow> ok_or (profile_error pointer) (infer_binary f l r)
      | [c, l, r] \<Rightarrow>
          if f = OpConditional \<and> c = CBool then ok_or (type_error pointer) (merge_conditional l r)
          else Err (profile_error pointer)
      | _ \<Rightarrow> Err (profile_error pointer))"

definition is_event_payload_access :: "cel_expr \<Rightarrow> bool" where
  "is_event_payload_access e \<longleftrightarrow> e = ESelect (EIdent ''event'') ''payload'' False"

definition infer_literal :: "string \<Rightarrow> cel_literal \<Rightarrow> (cel_type, semantic_error) outcome" where
  "infer_literal pointer l =
     (case l of
        LNull \<Rightarrow> Ok CNull
      | LBoolean _ \<Rightarrow> Ok CBool
      | LInt _ \<Rightarrow> Ok CInt
      | LDouble w \<Rightarrow> if f64_is_finite w then Ok CDouble else Err (profile_error pointer)
      | LString _ \<Rightarrow> Ok CString
      | _ \<Rightarrow> Err (profile_error pointer))"

definition infer_select :: "string \<Rightarrow> cel_expr \<Rightarrow> string \<Rightarrow> bool \<Rightarrow> cel_type \<Rightarrow> (cel_type, semantic_error) outcome" where
  "infer_select pointer operand field test t =
     (if test then
        (case t of
           CMap _ \<Rightarrow> Ok CBool
         | CRecord members \<Rightarrow>
             if is_event_payload_access operand \<and> bm_has members field then Ok CBool else Err (profile_error pointer)
         | _ \<Rightarrow> Err (profile_error pointer))
      else
        (case t of
           CRecord members \<Rightarrow> ok_or (profile_error pointer) (map_option rf_value_type (bm_get members field))
         | CMap v \<Rightarrow> Ok v
         | CReference _ \<Rightarrow> Err (profile_error pointer)
         | _ \<Rightarrow> Err (type_error pointer)))"

text \<open>The entries of a map literal: what is known of an entry is its key and the type of its value.\<close>

fun infer_entries ::
  "string \<Rightarrow> (string \<times> (cel_type, semantic_error) outcome) option list \<Rightarrow> string btree_set \<Rightarrow>
   (cel_type list, semantic_error) outcome" where
  "infer_entries pointer [] keys = Ok []"
| "infer_entries pointer (None # entries) keys = Err (profile_error pointer)"
| "infer_entries pointer (Some (key, inferred) # entries) keys =
     (if key \<in> set keys then Err (type_error pointer)
      else obind inferred (\<lambda>t. obind (infer_entries pointer entries (bs_insert key keys)) (\<lambda>ts. Ok (t # ts))))"

primrec infer :: "string \<Rightarrow> type_environment \<Rightarrow> cel_expr \<Rightarrow> (cel_type, semantic_error) outcome"
  and infer_entry ::
    "string \<Rightarrow> type_environment \<Rightarrow> cel_entry \<Rightarrow> (string \<times> (cel_type, semantic_error) outcome) option"
where
  "infer p env EUnspecified = Err (profile_error p)"
| "infer p env (ELiteral l) = infer_literal p l"
| "infer p env (EIdent name) = ok_or (type_error p) (bm_get env name)"
| "infer p env (EList es) = obind (collect_outcome (map (infer p env) es)) (\<lambda>ts. Ok (CList (common_type ts)))"
| "infer p env (EMap entries) =
     obind (infer_entries p (map (infer_entry p env) entries) []) (\<lambda>ts. Ok (CMap (common_type ts)))"
| "infer p env (EStruct entries) = Err (profile_error p)"
| "infer p env (EComprehension a b c d e) = Err (profile_error p)"
| "infer p env (ESelect operand field test) = obind (infer p env operand) (infer_select p operand field test)"
| "infer p env (ECall target f args) =
     (if target \<noteq> None then Err (profile_error p)
      else obind (collect_outcome (map (infer p env) args)) (infer_call p f))"
| "infer_entry p env (MapEntry key v optional) =
     (if optional then None else (case literal_key key of None \<Rightarrow> None | Some k \<Rightarrow> Some (k, infer p env v)))"
| "infer_entry p env (StructField v) = None"

definition infer_expression ::
  "engine \<Rightarrow> string \<Rightarrow> string \<Rightarrow> type_environment \<Rightarrow> (cel_type, semantic_error) outcome" where
  "infer_expression G expression pointer env =
     obind (ok_or (type_error pointer) (eng_cel_parse G expression)) (infer pointer env)"

definition check ::
  "engine \<Rightarrow> string \<Rightarrow> string \<Rightarrow> type_environment \<Rightarrow> cel_type \<Rightarrow> (cel_type, semantic_error) outcome" where
  "check G expression pointer env expected =
     obind (infer_expression G expression pointer env) (\<lambda>inferred.
       if is_assignable inferred expected then Ok inferred else Err (type_error pointer))"

section \<open>Values of a type\<close>

text \<open>
  A reference may be empty, a record may lack members, and nothing is known of a dynamic value.
\<close>

primrec has_type :: "cel_type \<Rightarrow> value \<Rightarrow> bool" and field_has_type :: "record_field \<Rightarrow> value \<Rightarrow> bool" where
  "has_type CNull v \<longleftrightarrow> v = VNull"
| "has_type CBool v \<longleftrightarrow> (\<exists>b. v = VBool b)"
| "has_type CInt v \<longleftrightarrow> (\<exists>i. v = VInt i)"
| "has_type CDouble v \<longleftrightarrow> (\<exists>w. v = VFloat w)"
| "has_type CString v \<longleftrightarrow> (\<exists>s. v = VString s)"
| "has_type (CList t) v \<longleftrightarrow> (\<exists>vs. v = VList vs \<and> (\<forall>x \<in> set vs. has_type t x))"
| "has_type (CMap t) v \<longleftrightarrow> (\<exists>ms. v = VMap ms \<and> (\<forall>x \<in> snd ` set ms. has_type t x))"
| "has_type (CRecord members) v \<longleftrightarrow>
     (\<exists>ms. v = VMap ms \<and> (\<forall>(k, x) \<in> set ms. \<exists>P. bm_get (map (map_prod id field_has_type) members) k = Some P \<and> P x))"
| "has_type (CReference m) v \<longleftrightarrow> v = VNull \<or> (\<exists>r. v = VRef r \<and> (m = None \<or> m = Some (ref_machine_id r)))"
| "has_type CDyn v \<longleftrightarrow> True"
| "field_has_type (RecordField t optional) v \<longleftrightarrow> has_type t v"

text \<open>The failures of an evaluation that no static type excludes.\<close>

definition value_fault :: "cel_error \<Rightarrow> bool" where
  "value_fault e \<longleftrightarrow> (\<exists>name. e = MissingField name) \<or>
     e \<in> {StepLimitExceeded, IntegerOverflow, DivisionByZero, IndexOutOfRange, KeyAbsent, SizeOverflow, ConversionDomain,
          NotFinite, NonFiniteComparison}"

lemma value_fault_simps [simp]:
  "value_fault StepLimitExceeded" "value_fault IntegerOverflow" "value_fault DivisionByZero" "value_fault IndexOutOfRange"
  "value_fault KeyAbsent" "value_fault SizeOverflow" "value_fault ConversionDomain" "value_fault NotFinite"
  "value_fault NonFiniteComparison" "value_fault (MissingField name)"
  by (simp_all add: value_fault_def)

definition sound :: "cel_type \<Rightarrow> cel_result \<Rightarrow> bool" where
  "sound t r \<longleftrightarrow> (case r of Inl e \<Rightarrow> value_fault e | Inr v \<Rightarrow> has_type t v)"

lemma sound_simps [simp]: "sound t (Inl e) = value_fault e" "sound t (Inr v) = has_type t v"
  by (simp_all add: sound_def)

definition environment_has_types :: "type_environment \<Rightarrow> cel_environment \<Rightarrow> bool" where
  "environment_has_types tenv env \<longleftrightarrow> (\<forall>name t. bm_get tenv name = Some t \<longrightarrow> (\<exists>v. bm_get env name = Some v \<and> has_type t v))"

section \<open>Soundness of the operators\<close>

lemma common_type_member: "t \<in> set ts \<Longrightarrow> has_type t v \<Longrightarrow> has_type (common_type ts) v"
  by (cases ts) (auto simp: common_type_def list_all_iff)

lemma merge_dynamic_has: "has_type l v \<or> has_type r v \<Longrightarrow> has_type (merge_dynamic l r) v"
  by (auto simp: merge_dynamic_def)

lemma merge_conditional_has:
  "merge_conditional l r = Some t \<Longrightarrow> has_type l v \<or> has_type r v \<Longrightarrow> has_type t v"
  by (cases l; cases r) (auto simp: merge_conditional_def split: if_splits)

lemma finite_float_sound [simp]: "sound CDouble (finite_float w)"
  by (simp add: finite_float_def)

lemma checked_size_sound [simp]: "sound CInt (checked_size n)"
  by (simp add: checked_size_def)

lemma field_type: "field_has_type f v = has_type (rf_value_type f) v"
  by (cases f) simp

lemma bm_get_map: "bm_get (map (map_prod id f) m) k = map_option f (bm_get m k)"
  by (induction m) auto

lemma record_member:
  assumes "has_type (CRecord members) (VMap ms)" "bm_get ms k = Some v"
  shows "\<exists>f. bm_get members k = Some f \<and> has_type (rf_value_type f) v"
proof -
  from assms(2) have "(k, v) \<in> set ms" by (rule bm_get_in)
  with assms(1) show ?thesis by (auto simp: bm_get_map field_type)
qed

lemma unary_sound:
  assumes "infer_unary f t = Some u" "has_type t v"
  shows "sound u (apply_unary G f v)"
  using assms
  by (cases f) (auto simp: infer_unary_def apply_unary_def canonical_double_def split: if_splits option.splits cel_type.splits)

lemma arithmetic_sound:
  assumes "infer_arithmetic f l r = Some t" "is_arithmetic f" "has_type l a" "has_type r b"
  shows "sound t (evaluate_arithmetic f a b)"
  using assms
  by (auto simp: infer_arithmetic_def evaluate_arithmetic_def is_arithmetic_def Let_def merge_dynamic_has
      split: cel_type.splits if_splits option.splits)

lemma comparison_sound:
  "l \<in> {CInt, CDouble, CString} \<Longrightarrow> has_type l a \<Longrightarrow> has_type l b \<Longrightarrow>
     (case compare_values a b of Inl e \<Rightarrow> value_fault e | Inr _ \<Rightarrow> True)"
  by (auto simp: compare_values_def)

lemma index_sound:
  assumes "infer_index l r = Some t" "has_type l a" "has_type r b"
  shows "sound t (apply_binary OpIndex a b)"
proof (cases l)
  case (CRecord members)
  with assms(1) have r: "r = CString" "t = common_type (map (\<lambda>f. rf_value_type (snd f)) members)"
    by (auto simp: infer_index_def split: cel_type.splits)
  with assms CRecord obtain ms k where ab: "a = VMap ms" "b = VString k" by auto
  have "has_type t v" if "bm_get ms k = Some v" for v
  proof -
    from record_member [OF assms(2) [unfolded CRecord ab] that] obtain f where
      f: "bm_get members k = Some f" "has_type (rf_value_type f) v" by blast
    from bm_get_in [OF f(1)] have "rf_value_type f \<in> set (map (\<lambda>f. rf_value_type (snd f)) members)" by force
    with f(2) show ?thesis unfolding r(2) by (rule common_type_member [rotated])
  qed
  with ab show ?thesis by (auto simp: apply_binary_def is_arithmetic_def is_comparison_def split: option.splits)
next
  case (CMap u)
  with assms show ?thesis
    by (auto simp: infer_index_def apply_binary_def is_arithmetic_def is_comparison_def
        split: cel_type.splits option.splits dest!: bm_get_in) force
qed (use assms in \<open>auto simp: infer_index_def apply_binary_def is_arithmetic_def is_comparison_def split: cel_type.splits\<close>)

lemma membership_sound:
  assumes "infer_membership l r = Some t" "has_type l a" "has_type r b"
  shows "sound t (apply_binary OpIn a b)"
  using assms
  by (auto simp: infer_membership_def apply_binary_def is_arithmetic_def is_comparison_def split: cel_type.splits if_splits)

lemma binary_sound:
  assumes "infer_binary f l r = Some t" "\<not> is_logical f" "has_type l a" "has_type r b"
  shows "is_binary f \<and> sound t (apply_binary f a b)"
proof -
  consider "is_arithmetic f" | "f = OpEquals \<or> f = OpNotEquals" | "is_comparison f" "\<not> is_arithmetic f" | "f = OpIn" | "f = OpIndex"
    using assms(1,2) by (auto simp: infer_binary_def split: if_splits)
  then show ?thesis
  proof cases
    case 1
    with assms have "infer_arithmetic f l r = Some t" by (simp add: infer_binary_def)
    from arithmetic_sound [OF this 1 assms(3,4)] 1 show ?thesis by (simp add: is_binary_def apply_binary_def)
  next
    case 2
    with assms show ?thesis
      by (auto simp: infer_binary_def infer_equality_def is_binary_def apply_binary_def is_arithmetic_def split: if_splits)
  next
    case 3
    then have "f \<noteq> OpEquals" "f \<noteq> OpNotEquals" by (auto simp: is_comparison_def)
    with 3 assms have "l = r" "l \<in> {CInt, CDouble, CString}" "t = CBool" by (auto simp: infer_binary_def split: if_splits)
    with 3 comparison_sound [of l a b] assms \<open>f \<noteq> OpEquals\<close> \<open>f \<noteq> OpNotEquals\<close> show ?thesis
      by (auto simp: is_binary_def apply_binary_def split: sum.splits)
  next
    case 4
    with assms have "infer_membership l r = Some t"
      by (simp add: infer_binary_def is_arithmetic_def is_comparison_def)
    from membership_sound [OF this assms(3,4)] 4 show ?thesis by (simp add: is_binary_def)
  next
    case 5
    with assms have "infer_index l r = Some t"
      by (simp add: infer_binary_def is_arithmetic_def is_comparison_def)
    from index_sound [OF this assms(3,4)] 5 show ?thesis by (simp add: is_binary_def)
  qed
qed

lemma logical_sound: "is_logical f \<Longrightarrow> sound CBool l \<Longrightarrow> sound CBool r \<Longrightarrow> sound CBool (apply_logical f l r)"
  by (auto simp: apply_logical_def is_logical_def sound_def Let_def split: sum.splits)

lemma select_sound:
  assumes "infer_select p operand field test t = Ok u" "has_type t v"
  shows "sound u (select_value field test v)"
proof (cases t)
  case (CRecord members)
  with assms(2) obtain ms where v: "v = VMap ms" by auto
  have "has_type u x" if "\<not> test" "bm_get ms field = Some x" for x
    using record_member [OF assms(2) [unfolded CRecord v] that(2)] assms(1) that(1) CRecord by (auto simp: infer_select_def)
  with v assms(1) CRecord show ?thesis by (auto simp: select_value_def infer_select_def split: option.splits if_splits)
next
  case (CMap w)
  with assms show ?thesis
    by (auto simp: select_value_def infer_select_def split: option.splits if_splits dest!: bm_get_in)
qed (use assms in \<open>auto simp: infer_select_def split: if_splits\<close>)

section \<open>Soundness of the checker\<close>

definition thunk_sound :: "cel_type \<Rightarrow> cel_thunk \<Rightarrow> bool" where
  "thunk_sound t th \<longleftrightarrow> (\<forall>n. sound t (fst (th n)))"

lemma thunk_sound_entered: "thunk_sound t th \<Longrightarrow> thunk_sound t (entered M th)"
  by (simp add: thunk_sound_def entered_def)

lemma eseq_sound:
  assumes "sound t (fst m)" "\<And>v n. has_type t v \<Longrightarrow> sound u (fst (f v n))"
  shows "sound u (fst (eseq m f))"
proof -
  obtain r n where m: "m = (r, n)" by fastforce
  with assms show ?thesis by (cases r) (simp_all add: eseq_def)
qed

lemma elements_sound:
  "list_all2 thunk_sound ts ths \<Longrightarrow>
     (case fst (evaluate_elements ths n) of Inl e \<Rightarrow> value_fault e | Inr vs \<Rightarrow> list_all2 has_type ts vs)"
proof (induction ths arbitrary: ts n)
  case (Cons th ths)
  then obtain u us where ts: "ts = u # us" "thunk_sound u th" "list_all2 thunk_sound us ths" by (auto simp: list_all2_Cons2)
  obtain r m where r: "th n = (r, m)" by fastforce
  obtain q k where q: "evaluate_elements ths m = (q, k)" by fastforce
  from ts(2) r have "sound u r" by (metis fst_conv thunk_sound_def)
  with Cons.IH [OF ts(3), of m] r q ts(1) show ?case by (auto simp: eseq_def split: sum.splits)
qed simp

lemma list_all2_common: "list_all2 has_type ts vs \<Longrightarrow> v \<in> set vs \<Longrightarrow> has_type (common_type ts) v"
  by (metis common_type_member in_set_conv_nth list_all2_conv_all_nth nth_mem)

lemma entries_sound:
  assumes "infer_entries p es keys = Ok ts" and "set ts \<subseteq> U" and "\<forall>v \<in> snd ` set acc. \<exists>t \<in> U. has_type t v"
    and "list_all2 (\<lambda>e th. \<forall>k t. e = Some (k, Ok t) \<longrightarrow> (\<exists>th'. th = Some (k, th') \<and> thunk_sound t th')) es ths"
  shows "case fst (evaluate_entries ths acc n) of Inl e \<Rightarrow> value_fault e
     | Inr v \<Rightarrow> \<exists>ms. v = VMap ms \<and> (\<forall>x \<in> snd ` set ms. \<exists>t \<in> U. has_type t x)"
  using assms
proof (induction es arbitrary: ths keys ts acc n)
  case (Cons e es)
  from Cons.prems(1) obtain k u us where e: "e = Some (k, Ok u)" "ts = u # us" "infer_entries p es (bs_insert k keys) = Ok us"
    by (cases e) (auto simp: obind_Ok_iff split: if_splits)
  with Cons.prems(4) obtain th ths' where th: "ths = Some (k, th) # ths'" "thunk_sound u th"
      "list_all2 (\<lambda>e th. \<forall>k t. e = Some (k, Ok t) \<longrightarrow> (\<exists>th'. th = Some (k, th') \<and> thunk_sound t th')) es ths'"
    by (auto simp: list_all2_Cons1)
  obtain r m where r: "th n = (r, m)" by fastforce
  with th(2) have "sound u r" by (metis fst_conv thunk_sound_def)
  show ?case
  proof (cases r)
    case (Inl x)
    with r th(1) \<open>sound u r\<close> show ?thesis by (simp add: eseq_def)
  next
    case (Inr v)
    have "snd ` set (bm_insert k v acc) \<subseteq> insert v (snd ` set acc)" using set_bm_insert [of k v acc] by auto
    moreover have "\<forall>x \<in> insert v (snd ` set acc). \<exists>t \<in> U. has_type t x" using \<open>sound u r\<close> Inr Cons.prems(2,3) e(2) by auto
    ultimately have "\<forall>x \<in> snd ` set (bm_insert k v acc). \<exists>t \<in> U. has_type t x" by blast
    from Cons.IH [OF e(3) _ this th(3), of m] Cons.prems(2) e(2) Inr r th(1) show ?thesis by (simp add: eseq_def)
  qed
qed (auto simp: sound_def)

lemma call_sound:
  assumes "infer_call p f ts = Ok t" "list_all2 thunk_sound ts ths"
  shows "sound t (fst (evaluate_call G f ths n))"
proof -
  consider (one) a u where "ts = [u]" "ths = [a]" | (two) a b l r where "ts = [l, r]" "ths = [a, b]"
    | (three) c a b x l r where "ts = [x, l, r]" "ths = [c, a, b]"
    using assms by (auto simp: infer_call_def list_all2_Cons1 split: list.splits)
  then show ?thesis
  proof cases
    case one
    with assms have i: "infer_unary f u = Some t" "thunk_sound u a" by (auto simp: infer_call_def)
    then have "is_unary f" by (cases f) (auto simp: infer_unary_def is_unary_def split: if_splits)
    with one i show ?thesis
      by (auto simp: evaluate_call_def thunk_sound_def intro!: eseq_sound [where t = u] unary_sound)
  next
    case two
    with assms have i: "infer_binary f l r = Some t" "thunk_sound l a" "thunk_sound r b" by (auto simp: infer_call_def)
    show ?thesis
    proof (cases "is_logical f")
      case True
      with i(1) have "l = CBool" "r = CBool" "t = CBool" by (auto simp: infer_binary_def split: if_splits)
      with True two i(2,3) show ?thesis
        by (auto simp: evaluate_call_def ethen_def thunk_sound_def intro!: logical_sound)
    next
      case False
      note b = binary_sound [OF i(1) False]
      have "is_binary f" using i(1) False by (auto simp: infer_binary_def is_binary_def split: if_splits)
      have "sound t (fst (eseq (a n) (\<lambda>v n. eseq (b n) (\<lambda>w n. (apply_binary f v w, n)))))"
        using i(2,3) b by (intro eseq_sound [of l] eseq_sound [of r]) (auto simp: thunk_sound_def)
      with False two \<open>is_binary f\<close> show ?thesis by (simp add: evaluate_call_def)
    qed
  next
    case three
    with assms have i: "f = OpConditional" "x = CBool" "merge_conditional l r = Some t" "thunk_sound CBool c" "thunk_sound l a" "thunk_sound r b"
      by (auto simp: infer_call_def split: if_splits)
    have "sound t (fst (a m))" "sound t (fst (b m))" for m
      using i(3,5,6) merge_conditional_has [OF i(3)] by (auto simp: thunk_sound_def sound_def split: sum.splits)
    with three i(1,4) show ?thesis
      by (auto simp: evaluate_call_def thunk_sound_def intro!: eseq_sound [where t = CBool])
  qed
qed

lemma map_Ok_list_all2:
  assumes "map f xs = map Ok ys" "\<And>x y. x \<in> set xs \<Longrightarrow> f x = Ok y \<Longrightarrow> R y (g x)"
  shows "list_all2 R ys (map g xs)"
  using assms by (induction xs arbitrary: ys) (auto simp: Cons_eq_map_conv)

lemma infer_sound:
  assumes env: "environment_has_types tenv env"
  shows "infer p tenv e = Ok t \<Longrightarrow> thunk_sound t (evaluate_ast G M env e)"
    and "infer_entry p tenv x = Some (k, Ok t) \<Longrightarrow> \<exists>th. evaluate_entry G M env x = Some (k, th) \<and> thunk_sound t th"
proof (induction e and x arbitrary: t and k t)
  case (ELiteral l)
  then have "sound t (literal_value l)"
    by (cases l) (auto simp: infer_literal_def literal_value_def split: if_splits)
  then show ?case by (auto simp: thunk_sound_def entered_def)
next
  case (EIdent name)
  then obtain v where "bm_get env name = Some v" "has_type t v" using env by (auto simp: environment_has_types_def)
  then show ?case by (simp add: thunk_sound_def entered_def)
next
  case (EList es)
  then obtain ts where ts: "map (infer p tenv) es = map Ok ts" "t = CList (common_type ts)" by (auto simp: obind_Ok_iff collect_outcome_Ok)
  have "list_all2 thunk_sound ts (map (evaluate_ast G M env) es)" using EList.IH by (intro map_Ok_list_all2 [OF ts(1)]) blast
  note elements = elements_sound [OF this]
  have "sound t (fst (eseq (evaluate_elements (map (evaluate_ast G M env) es) n) (\<lambda>vs n. (Inr (VList vs), n))))" for n
  proof -
    obtain r k where r: "evaluate_elements (map (evaluate_ast G M env) es) n = (r, k)" by fastforce
    with elements [of n] show ?thesis by (cases r) (auto simp: eseq_def ts(2) dest: list_all2_common)
  qed
  then show ?case by (simp add: thunk_sound_def entered_def)
next
  case (EMap entries)
  then obtain ts where ts: "infer_entries p (map (infer_entry p tenv) entries) [] = Ok ts" "t = CMap (common_type ts)" by (auto simp: obind_Ok_iff)
  have all2: "list_all2 (\<lambda>e th. \<forall>k t. e = Some (k, Ok t) \<longrightarrow> (\<exists>th'. th = Some (k, th') \<and> thunk_sound t th'))
      (map (infer_entry p tenv) entries) (map (evaluate_entry G M env) entries)"
    using EMap.IH by (auto simp: list_all2_conv_all_nth)
  have "sound t (fst (evaluate_entries (map (evaluate_entry G M env) entries) [] n))" for n
    using entries_sound [OF ts(1) subset_refl _ all2, of "[]" n] common_type_member
    by (auto simp: sound_def ts(2) split: sum.splits) (metis imageI snd_conv)
  then show ?case by (simp add: thunk_sound_def entered_def)
next
  case (ESelect operand field test)
  then obtain u where "infer p tenv operand = Ok u" "infer_select p operand field test u = Ok t" by (auto simp: obind_Ok_iff)
  with ESelect.IH show ?case
    by (auto simp: thunk_sound_def entered_def intro!: eseq_sound [where t = u] select_sound)
next
  case (ECall target f args)
  then obtain ts where ts: "target = None" "map (infer p tenv) args = map Ok ts" "infer_call p f ts = Ok t"
    by (auto simp: obind_Ok_iff collect_outcome_Ok split: if_splits)
  have "list_all2 thunk_sound ts (map (evaluate_ast G M env) args)" using ECall.IH by (intro map_Ok_list_all2 [OF ts(2)]) blast
  from call_sound [OF ts(3) this] ts(1) show ?case by (auto simp: thunk_sound_def entered_def)
next
  case (MapEntry key v optional)
  then show ?case by (auto split: if_splits option.splits)
qed auto

lemma well_typed:
  assumes "infer_expression G source pointer tenv = Ok t" and "environment_has_types tenv env"
  shows "case evaluate_migration G source env maximum of Inl e \<Rightarrow> value_fault e | Inr (v, work) \<Rightarrow> has_type t v"
proof -
  from assms(1) obtain e where e: "eng_cel_parse G source = Some e" "infer pointer tenv e = Ok t"
    by (auto simp: infer_expression_def obind_Ok_iff)
  obtain r n where r: "evaluate_ast G maximum env e 0 = (r, n)" by fastforce
  from infer_sound(1) [OF assms(2) e(2), of G maximum] have "sound t (fst (evaluate_ast G maximum env e 0))"
    by (simp add: thunk_sound_def)
  with e(1) r show ?thesis by (cases r) (simp_all add: evaluate_migration_def)
qed

lemma evaluated_canonical:
  assumes "env_canonical env" "evaluate G source env = Inr v"
  shows "is_canonical_portable v"
  using assms evaluate_ast_canonical(1) [OF assms(1)]
  by (fastforce simp: evaluate_def thunk_canonical_def result_canonical_def split: option.splits sum.splits)

text \<open>
  C28: Well-typed CEL does not go wrong.  When the static check infers a type for an expression and
  every name it may use is bound to a value of its type, evaluation, however many steps it is
  granted, yields a value of the inferred type or fails for a reason that depends on the values:
  arithmetic, an absent member or index, or the step limit.
\<close>

theorem well_typed_evaluation:
  assumes "infer_expression G source pointer tenv = Ok t" and "environment_has_types tenv env"
  shows "case evaluate_migration G source env maximum of
      Inl e \<Rightarrow> value_fault e
    | Inr (v, work) \<Rightarrow> has_type t v"
  using assms by (rule well_typed)

lemma assignable_list: "is_assignable t (CList u) \<Longrightarrow> has_type t v \<Longrightarrow> \<exists>vs. v = VList vs"
  by (cases t) auto

lemma assignable_map: "is_assignable t (CMap u) \<Longrightarrow> has_type t v \<Longrightarrow> \<exists>ms. v = VMap ms"
  by (cases t) auto

lemma assignable_scalar:
  "is_assignable t CBool \<Longrightarrow> t = CBool" "is_assignable t CInt \<Longrightarrow> t = CInt" "is_assignable t CString \<Longrightarrow> t = CString"
  "is_assignable t CDouble \<Longrightarrow> t = CInt \<or> t = CDouble"
  by (cases t; simp)+

lemma declared_type_simps [simp]:
  "declared_type ''bool'' m = CBool" "declared_type ''int'' m = CInt" "declared_type ''float'' m = CDouble"
  "declared_type ''string'' m = CString" "declared_type ''list'' m = CList CDyn" "declared_type ''map'' m = CMap CDyn"
  by (simp_all add: declared_type_def)

lemma assignable_matches:
  assumes "is_assignable t (declared_type ty m)" "has_type t v"
    and "ty \<in> {''bool'', ''int'', ''float'', ''string'', ''list'', ''map''}"
  shows "matches_type v ty \<or> (\<exists>i. v = VInt i \<and> ty = ''float'')"
proof -
  from assms(3) have "ty = ''bool'' \<or> ty = ''int'' \<or> ty = ''float'' \<or> ty = ''string'' \<or> ty = ''list'' \<or> ty = ''map''"
    by (simp only: insert_iff empty_iff simp_thms)
  then show ?thesis
  proof (elim disjE)
    assume "ty = ''bool''"
    then show ?thesis using assms(1,2) assignable_scalar(1) [of t] by (auto simp: matches_type_def)
  next
    assume "ty = ''int''"
    then show ?thesis using assms(1,2) assignable_scalar(2) [of t] by (auto simp: matches_type_def)
  next
    assume "ty = ''float''"
    then show ?thesis using assms(1,2) assignable_scalar(4) [of t] by (auto simp: matches_type_def)
  next
    assume "ty = ''string''"
    then show ?thesis using assms(1,2) assignable_scalar(3) [of t] by (auto simp: matches_type_def)
  next
    assume "ty = ''list''"
    then show ?thesis using assms(1,2) assignable_list [of t CDyn v] by (auto simp: matches_type_def)
  next
    assume "ty = ''map''"
    then show ?thesis using assms(1,2) assignable_map [of t CDyn v] by (auto simp: matches_type_def)
  qed
qed

lemma assignable_normalizes:
  assumes "is_assignable t (declared_type ty m)" "has_type t v" "is_canonical_portable v"
    and "ty \<in> {''bool'', ''int'', ''float'', ''string'', ''list'', ''map''}"
  shows "\<exists>w. normalize_for_type v ty = Some w"
  using assignable_matches [OF assms(1,2,4)] canonical_normalize(1) [OF assms(3)] by (auto simp: normalize_for_type_eq)

lemma assignable_reference:
  assumes "is_assignable t (CReference m)" "has_type t v"
  shows "v = VNull \<or> (\<exists>r. v = VRef r)"
  using assms by (cases t) auto

text \<open>
  C29: The static check protects assignments.  Let an expression be checked against one of the seven
  declared types in an environment whose names are bound to canonical values of their types.  Then
  its value, when it has one, is what an assignment to a variable of that type accepts: for a
  reference, an empty one or a reference to an instance; for any other type, a value that the
  normalisation to that type accepts.
\<close>

theorem checked_value_accepted:
  assumes "check G source pointer tenv (declared_type ty m) = Ok t" and "environment_has_types tenv env" and "env_canonical env"
    and "ty \<in> {''bool'', ''int'', ''float'', ''string'', ''list'', ''map'', ''instance_reference''}"
    and "evaluate G source env = Inr v"
  shows "if ty = ''instance_reference'' then v = VNull \<or> (\<exists>r. v = VRef r)
    else (\<exists>w. normalize_for_type v ty = Some w)"
proof -
  from assms(1) have t: "infer_expression G source pointer tenv = Ok t" "is_assignable t (declared_type ty m)"
    by (auto simp: check_def obind_Ok_iff split: if_splits)
  from assms(5) have "\<exists>work. evaluate_migration G source env usize_max = Inr (v, work)"
    by (auto simp: evaluate_def evaluate_migration_def split: option.splits prod.splits sum.splits)
  with well_typed [OF t(1) assms(2), of usize_max] have v: "has_type t v" by auto
  show ?thesis
  proof (cases "ty = ''instance_reference''")
    case True
    then have "declared_type ty m = CReference m" by (simp add: declared_type_def)
    with assignable_reference [OF _ v, of m] t(2) True show ?thesis by simp
  next
    case False
    with assms(4) have "ty \<in> {''bool'', ''int'', ''float'', ''string'', ''list'', ''map''}" by (simp only: insert_iff empty_iff simp_thms)
    from assignable_normalizes [OF t(2) v evaluated_canonical [OF assms(3,5)] this] False show ?thesis by simp
  qed
qed

definition pair_engine :: engine where
  "pair_engine = parsing_engine (EList [EIdent ''a'', ELiteral (LInt 1)])"

lemma counting_types: "environment_has_types [(''a'', CInt)] [(''a'', VInt 2)]"
  by (simp add: environment_has_types_def)

theorem well_typed_evaluation_witness:
  "\<exists>v work. evaluate_migration pair_engine ''[a, 1]'' [(''a'', VInt 2)] 3 = Inr (v, work) \<and> has_type (CList CInt) v"
proof -
  have "infer_expression pair_engine ''[a, 1]'' ''/p'' [(''a'', CInt)] = Ok (CList CInt)"
    by (simp add: pair_engine_def parsing_engine_def infer_expression_def infer_literal_def common_type_def)
  from well_typed_evaluation [OF this counting_types, of 3]
  have "case evaluate_migration pair_engine ''[a, 1]'' [(''a'', VInt 2)] 3 of
      Inl e \<Rightarrow> value_fault e | Inr (v, work) \<Rightarrow> has_type (CList CInt) v" .
  moreover have "evaluate_migration pair_engine ''[a, 1]'' [(''a'', VInt 2)] 3 = Inr (VList [VInt 2, VInt 1], 3)"
    by (simp add: pair_engine_def evaluation_defs)
  ultimately show ?thesis by simp
qed

theorem checked_value_accepted_witness: "\<exists>w. normalize_for_type (VInt 2) ''float'' = Some w"
proof -
  have "check (parsing_engine (EIdent ''a'')) ''a'' ''/p'' [(''a'', CInt)] (declared_type ''float'' None) = Ok CInt"
    by (simp add: check_def infer_expression_def parsing_engine_def)
  moreover have "evaluate (parsing_engine (EIdent ''a'')) ''a'' [(''a'', VInt 2)] = Inr (VInt 2)" by (simp add: evaluation_defs)
  moreover have "env_canonical [(''a'', VInt 2)]" by (simp add: env_canonical_def)
  ultimately show ?thesis using checked_value_accepted [OF _ counting_types, of _ _ _ "''float''" None CInt "VInt 2"] by simp
qed

end
