(* ===== verification/Typed_Values.thy ===== *)
theory Typed_Values
  imports Values
begin

text \<open>
  The typed projection of values (\<^verbatim>\<open>TypedValue\<close> of \<^verbatim>\<open>src/format1/native.rs\<close>): the
  tagged arrays in which aggregates, snapshots and provider proposals carry values.
  Failures carry a message in the code and are \<^const>\<open>None\<close> here.
\<close>

datatype typed_value =
    TNull
  | TBoolean bool
  | TString string
  | TInteger i64
  | TFloat f64
  | TList "typed_value list"
  | TMap "(string \<times> typed_value) list"

fun typed_from_value :: "value \<Rightarrow> typed_value"
  and typed_from_values :: "value list \<Rightarrow> typed_value list"
  and typed_from_members :: "(string \<times> value) list \<Rightarrow> (string \<times> typed_value) list"
where
  "typed_from_value VNull = TNull"
| "typed_from_value (VBool b) = TBoolean b"
| "typed_from_value (VString s) = TString s"
| "typed_from_value (VInt i) = TInteger i"
| "typed_from_value (VFloat w) = TFloat (f64_unsigned_zero w)"
| "typed_from_value (VList vs) = TList (typed_from_values vs)"
| "typed_from_value (VMap ms) = TMap (typed_from_members ms)"
| "typed_from_value (VRef r) =
     TMap [(''instance_id'', TString (ref_instance_id r)),
           (''machine_id'', TString (ref_machine_id r)),
           (''machine_version'', TInteger (ref_machine_version r)),
           (''root_instance_id'', TString (ref_root_instance_id r))]"
| "typed_from_values [] = []"
| "typed_from_values (v # vs) = typed_from_value v # typed_from_values vs"
| "typed_from_members [] = []"
| "typed_from_members ((k, v) # ms) = (k, typed_from_value v) # typed_from_members ms"

definition non_empty_member :: "(string \<times> value) list \<Rightarrow> string \<Rightarrow> string option" where
  "non_empty_member ms name =
     (case bm_get ms name of
        Some (VString s) \<Rightarrow> if s \<noteq> [] then Some s else None
      | _ \<Rightarrow> None)"

definition instance_reference_from_value :: "value \<Rightarrow> value option" where
  "instance_reference_from_value v =
     (case v of
        VMap ms \<Rightarrow>
          (case bm_get ms ''machine_version'' of
             Some (VInt version) \<Rightarrow>
               if sint version > 0 \<and> length ms = 4 then
                 (case (non_empty_member ms ''root_instance_id'',
                        non_empty_member ms ''instance_id'', non_empty_member ms ''machine_id'') of
                    (Some rid, Some inst, Some machine) \<Rightarrow>
                      Some (VRef \<lparr>ref_root_instance_id = rid, ref_instance_id = inst,
                                  ref_machine_id = machine, ref_machine_version = version\<rparr>)
                  | _ \<Rightarrow> None)
               else None
           | _ \<Rightarrow> None)
      | _ \<Rightarrow> None)"

fun typed_to_plain :: "typed_value \<Rightarrow> value option"
  and typed_to_plains :: "typed_value list \<Rightarrow> value list option"
  and typed_to_members :: "(string \<times> typed_value) list \<Rightarrow> (string \<times> value) list option"
where
  "typed_to_plain TNull = Some VNull"
| "typed_to_plain (TBoolean b) = Some (VBool b)"
| "typed_to_plain (TString s) = Some (VString s)"
| "typed_to_plain (TInteger i) = Some (VInt i)"
| "typed_to_plain (TFloat w) =
     (if f64_is_finite w then Some (VFloat (f64_unsigned_zero w)) else None)"
| "typed_to_plain (TList ts) = map_option VList (typed_to_plains ts)"
| "typed_to_plain (TMap ms) = map_option (\<lambda>es. VMap (bm_of es [])) (typed_to_members ms)"
| "typed_to_plains [] = Some []"
| "typed_to_plains (t # ts) =
     (case typed_to_plain t of None \<Rightarrow> None
      | Some v \<Rightarrow> map_option ((#) v) (typed_to_plains ts))"
| "typed_to_members [] = Some []"
| "typed_to_members ((k, t) # ms) =
     (case typed_to_plain t of None \<Rightarrow> None
      | Some v \<Rightarrow> map_option ((#) (k, v)) (typed_to_members ms))"

text \<open>
  \<^verbatim>\<open>TypedValue::to_value\<close>; of the declaration only whether its type is
  \<^verbatim>\<open>instance_reference\<close> is read.
\<close>

definition typed_to_value :: "bool \<Rightarrow> typed_value \<Rightarrow> value option" where
  "typed_to_value is_reference t =
     (case typed_to_plain t of
        None \<Rightarrow> None
      | Some v \<Rightarrow> if is_reference \<and> v \<noteq> VNull then instance_reference_from_value v else Some v)"

text \<open>Derived equality on typed values (numeric equality on doubles).\<close>

fun typed_eq :: "typed_value \<Rightarrow> typed_value \<Rightarrow> bool"
  and typed_list_eq :: "typed_value list \<Rightarrow> typed_value list \<Rightarrow> bool"
  and typed_members_eq ::
    "(string \<times> typed_value) list \<Rightarrow> (string \<times> typed_value) list \<Rightarrow> bool"
where
  "typed_eq TNull TNull \<longleftrightarrow> True"
| "typed_eq (TBoolean a) (TBoolean b) \<longleftrightarrow> a = b"
| "typed_eq (TString a) (TString b) \<longleftrightarrow> a = b"
| "typed_eq (TInteger a) (TInteger b) \<longleftrightarrow> a = b"
| "typed_eq (TFloat a) (TFloat b) \<longleftrightarrow> f64_eq a b"
| "typed_eq (TList a) (TList b) \<longleftrightarrow> typed_list_eq a b"
| "typed_eq (TMap a) (TMap b) \<longleftrightarrow> typed_members_eq a b"
| "typed_eq _ _ \<longleftrightarrow> False"
| "typed_list_eq [] [] \<longleftrightarrow> True"
| "typed_list_eq (a # as) (b # bs) \<longleftrightarrow> typed_eq a b \<and> typed_list_eq as bs"
| "typed_list_eq _ _ \<longleftrightarrow> False"
| "typed_members_eq [] [] \<longleftrightarrow> True"
| "typed_members_eq ((k, a) # as) ((l, b) # bs) \<longleftrightarrow>
     k = l \<and> typed_eq a b \<and> typed_members_eq as bs"
| "typed_members_eq _ _ \<longleftrightarrow> False"

section \<open>The projection to tagged arrays\<close>

text \<open>\<^verbatim>\<open>format!("{:016x}", bits)\<close> and \<^verbatim>\<open>u64::from_str_radix(_, 16)\<close>.\<close>

definition hex_char :: "nat \<Rightarrow> char" where
  "hex_char d = (if d < 10 then char_of (48 + d) else char_of (87 + d))"

fun hex_digits :: "nat \<Rightarrow> nat \<Rightarrow> string" where
  "hex_digits 0 n = []"
| "hex_digits (Suc k) n = hex_digits k (n div 16) @ [hex_char (n mod 16)]"

definition hex_digit_value :: "char \<Rightarrow> nat option" where
  "hex_digit_value c =
     (let n = of_char c in
      if 48 \<le> n \<and> n \<le> 57 then Some (n - 48)
      else if 97 \<le> n \<and> n \<le> 102 then Some (n - 87)
      else if 65 \<le> n \<and> n \<le> 70 then Some (n - 55)
      else None)"

fun hex_value :: "nat \<Rightarrow> string \<Rightarrow> nat option" where
  "hex_value acc [] = Some acc"
| "hex_value acc (c # cs) =
     (case hex_digit_value c of None \<Rightarrow> None | Some d \<Rightarrow> hex_value (16 * acc + d) cs)"

definition parse_hex_u64 :: "string \<Rightarrow> u64 option" where
  "parse_hex_u64 s =
     (let digits = (case s of c # cs \<Rightarrow> if c = CHR ''+'' then cs else s | [] \<Rightarrow> [])
      in if digits = [] then None
         else (case hex_value 0 digits of
                 None \<Rightarrow> None
               | Some n \<Rightarrow> if n < 2 ^ 64 then Some (word_of_nat n) else None))"

text \<open>\<^verbatim>\<open>str::parse::<i64>\<close>: an optional sign, then decimal digits, in range.\<close>

definition parse_i64 :: "string \<Rightarrow> i64 option" where
  "parse_i64 s =
     (let neg = (case s of c # _ \<Rightarrow> c = CHR ''-'' | [] \<Rightarrow> False);
          digits = (case s of
                      c # cs \<Rightarrow> if c = CHR ''-'' \<or> c = CHR ''+'' then cs else s
                    | [] \<Rightarrow> [])
      in if digits = [] \<or> \<not> list_all is_digit digits then None
         else (let n = int (decimal_value 0 digits); i = (if neg then - n else n)
               in if - (2 ^ 63) \<le> i \<and> i < 2 ^ 63 then Some (word_of_int i) else None))"

fun projection :: "typed_value \<Rightarrow> json"
  and projections :: "typed_value list \<Rightarrow> json list"
  and member_projections :: "(string \<times> typed_value) list \<Rightarrow> json list"
where
  "projection TNull = JArray [JString ''null'']"
| "projection (TBoolean b) = JArray [JString ''boolean'', JBool b]"
| "projection (TString s) = JArray [JString ''string'', JString s]"
| "projection (TInteger i) = JArray [JString ''integer'', JString (signed_decimal (sint i))]"
| "projection (TFloat w) =
     JArray [JString ''float'', JString (hex_digits 16 (unat (f64_unsigned_zero w)))]"
| "projection (TList ts) = JArray [JString ''list'', JArray (projections ts)]"
| "projection (TMap ms) = JArray [JString ''map'', JArray (member_projections ms)]"
| "projections [] = []"
| "projections (t # ts) = projection t # projections ts"
| "member_projections [] = []"
| "member_projections ((k, t) # ms) =
     JArray [JString k, projection t] # member_projections ms"

fun from_projection :: "json \<Rightarrow> typed_value option"
  and from_projections :: "json list \<Rightarrow> typed_value list option"
  and from_member_projections ::
    "string option \<Rightarrow> json list \<Rightarrow> (string \<times> typed_value) list option"
where
  "from_projection (JArray [JString tag]) = (if tag = ''null'' then Some TNull else None)"
| "from_projection (JArray [JString tag, JBool b]) =
     (if tag = ''boolean'' then Some (TBoolean b) else None)"
| "from_projection (JArray [JString tag, JString s]) =
     (if tag = ''string'' then Some (TString s)
      else if tag = ''integer'' then map_option TInteger (parse_i64 s)
      else if tag = ''float'' then
        (case parse_hex_u64 s of
           None \<Rightarrow> None
         | Some w \<Rightarrow>
             if \<not> f64_is_finite w \<or> f64_is_zero w \<and> f64_sign w then None else Some (TFloat w))
      else None)"
| "from_projection (JArray [JString tag, JArray js]) =
     (if tag = ''list'' then map_option TList (from_projections js)
      else if tag = ''map'' then map_option TMap (from_member_projections None js)
      else None)"
| "from_projection _ = None"
| "from_projections [] = Some []"
| "from_projections (j # js) =
     (case from_projection j of None \<Rightarrow> None
      | Some t \<Rightarrow> map_option ((#) t) (from_projections js))"
| "from_member_projections previous [] = Some []"
| "from_member_projections previous (JArray [JString k, j] # js) =
     (if (case previous of None \<Rightarrow> False | Some p \<Rightarrow> p \<ge> k) then None
      else (case from_projection j of None \<Rightarrow> None
            | Some t \<Rightarrow> map_option ((#) (k, t)) (from_member_projections (Some k) js)))"
| "from_member_projections previous (_ # js) = None"

section \<open>The round trip\<close>

fun canonical_typed :: "typed_value \<Rightarrow> bool"
  and canonical_typed_list :: "typed_value list \<Rightarrow> bool"
  and canonical_typed_members :: "(string \<times> typed_value) list \<Rightarrow> bool"
where
  "canonical_typed (TFloat w) \<longleftrightarrow> f64_is_finite w \<and> (f64_is_zero w \<longrightarrow> \<not> f64_sign w)"
| "canonical_typed (TList ts) \<longleftrightarrow> canonical_typed_list ts"
| "canonical_typed (TMap ms) \<longleftrightarrow> bm_wf ms \<and> canonical_typed_members ms"
| "canonical_typed _ \<longleftrightarrow> True"
| "canonical_typed_list [] \<longleftrightarrow> True"
| "canonical_typed_list (t # ts) \<longleftrightarrow> canonical_typed t \<and> canonical_typed_list ts"
| "canonical_typed_members [] \<longleftrightarrow> True"
| "canonical_typed_members ((k, t) # ms) \<longleftrightarrow> canonical_typed t \<and> canonical_typed_members ms"

lemma hex_digit_hex_char: "d < 16 \<Longrightarrow> hex_digit_value (hex_char d) = Some d"
  by (auto simp: hex_digit_value_def hex_char_def)

lemma hex_value_append:
  "hex_value acc (s @ [c]) =
     (case hex_value acc s of None \<Rightarrow> None
      | Some n \<Rightarrow> (case hex_digit_value c of None \<Rightarrow> None | Some d \<Rightarrow> Some (16 * n + d)))"
  by (induction s arbitrary: acc) (auto split: option.splits)

lemma hex_value_digits: "n < 16 ^ k \<Longrightarrow> hex_value 0 (hex_digits k n) = Some n"
proof (induction k arbitrary: n)
  case (Suc k)
  then have "n div 16 < 16 ^ k" by auto
  with Suc.IH show ?case by (simp add: hex_value_append hex_digit_hex_char)
qed simp

lemma hex_char_not_plus: "d < 16 \<Longrightarrow> hex_char d \<noteq> CHR ''+''"
  by (drule hex_digit_hex_char) (auto simp: hex_digit_value_def)

lemma hex_digits_Nil_iff: "hex_digits k n = [] \<longleftrightarrow> k = 0"
  by (cases k) auto

lemma hd_hex_digits: "0 < k \<Longrightarrow> hd (hex_digits k n) \<noteq> CHR ''+''"
proof (induction k arbitrary: n)
  case (Suc k)
  show ?case
  proof (cases "k = 0")
    case True
    then show ?thesis by (simp add: hex_char_not_plus)
  next
    case False
    with Suc.IH [of "n div 16"] show ?thesis by (simp add: hex_digits_Nil_iff)
  qed
qed simp

lemma parse_hex_digits: "parse_hex_u64 (hex_digits 16 (unat w)) = Some w"
proof -
  obtain c cs where h: "hex_digits 16 (unat w) = c # cs"
    by (cases "hex_digits 16 (unat w)") (auto simp: hex_digits_Nil_iff)
  moreover have "c \<noteq> CHR ''+''" using hd_hex_digits [of 16 "unat w"] h by simp
  moreover have "hex_value 0 (c # cs) = Some (unat w)"
    using hex_value_digits [of "unat w" 16] unat_less_64 [of w] h by simp
  ultimately show ?thesis
    using unat_less_64 [of w] by (simp add: parse_hex_u64_def Let_def del: hex_value.simps)
qed

lemma hd_decimal_digit: "is_digit (hd (decimal n))"
  using decimal_digits [of "hd (decimal n)" n] decimal_not_Nil [of n] by simp

lemma decimal_no_sign: "decimal n = c # cs \<Longrightarrow> c \<noteq> CHR ''-'' \<and> c \<noteq> CHR ''+''"
  using hd_decimal_digit [of n] by (auto simp: is_digit_def)

lemma parse_signed_decimal: "parse_i64 (signed_decimal (sint (i :: i64))) = Some i"
proof -
  have bounds: "- (2 ^ 63) \<le> sint i" "sint i < 2 ^ 63"
    using sint_greater_eq [of i] sint_lt [of i] by simp_all
  have digits: "list_all is_digit (decimal n)" for n
    by (simp add: list_all_iff decimal_digits)
  show ?thesis
  proof (cases "sint i < 0")
    case True
    then show ?thesis using bounds digits by (simp add: parse_i64_def signed_decimal_def)
  next
    case False
    obtain c cs where d: "decimal (nat (sint i)) = c # cs" using decimal_not_Nil by (meson list.exhaust)
    with decimal_no_sign [OF d] False bounds digits [of "nat (sint i)"]
      decimal_value_decimal [of "nat (sint i)"]
    show ?thesis by (simp add: parse_i64_def signed_decimal_def)
  qed
qed

lemma from_projection_projection:
  "canonical_typed t \<Longrightarrow> from_projection (projection t) = Some t"
  "canonical_typed_list ts \<Longrightarrow> from_projections (projections ts) = Some ts"
  "canonical_typed_members ms \<Longrightarrow> bm_wf ms \<Longrightarrow>
     (\<forall>p. previous = Some p \<longrightarrow> (\<forall>k \<in> fst ` set ms. p < k)) \<Longrightarrow>
     from_member_projections previous (member_projections ms) = Some ms"
proof (induction t and ts and ms arbitrary: and and previous
    rule: canonical_typed_canonical_typed_list_canonical_typed_members.induct)
  case (1 w)
  have "f64_unsigned_zero w = w"
    using 1 by (auto simp: f64_unsigned_zero_def dest: f64_zero_unsigned)
  with 1 show ?case by (auto simp: parse_hex_digits)
qed (auto simp: parse_signed_decimal bm_wf_Cons not_le split: option.splits)

text \<open>
  Reading back the tagged-array projection of a canonical typed value gives that
  value: integers through signed decimal text, doubles through their 16 hexadecimal
  digits, maps through their strictly ascending keys.
\<close>

theorem typed_projection_roundtrip:
  "canonical_typed t \<Longrightarrow> from_projection (projection t) = Some t"
  by (rule from_projection_projection)

theorem typed_projection_roundtrip_witness:
  "canonical_typed (TMap [(''a'', TInteger (-7)), (''b'', TList [TNull, TFloat 0])]) \<and>
   from_projection (projection (TMap [(''a'', TInteger (-7)), (''b'', TList [TNull, TFloat 0])]))
     = Some (TMap [(''a'', TInteger (-7)), (''b'', TList [TNull, TFloat 0])])"
proof -
  have c: "canonical_typed (TMap [(''a'', TInteger (-7)), (''b'', TList [TNull, TFloat 0])])"
    by (simp add: bm_wf_def)
  show ?thesis using c typed_projection_roundtrip [OF c] by blast
qed

end
