(* ===== verification/Counters.thy ===== *)
theory Counters
  imports Prelude
begin

text \<open>
  \<^verbatim>\<open>src/format1/counter.rs\<close>: the unbounded sequence counters of an aggregate.  A counter
  is a \<^verbatim>\<open>BigUint\<close>, so it is a \<^typ>\<open>nat\<close>; its wire form is canonical decimal text.
\<close>

type_synonym counter = nat

definition counter_zero :: counter where
  "counter_zero = 0"

text \<open>
  \<^verbatim>\<open>Counter::from_decimal\<close>.  \<^verbatim>\<open>BigUint::from_str\<close> reads the digits that the guard
  leaves; it cannot fail on them.
\<close>

definition from_decimal :: "string \<Rightarrow> counter option" where
  "from_decimal s =
     (if s \<noteq> ''0'' \<and>
         (s = [] \<or> hd s = CHR ''0'' \<or> \<not> list_all is_digit s)
      then None
      else Some (decimal_value 0 s))"

definition canonical_decimal :: "counter \<Rightarrow> string" where
  "canonical_decimal c = decimal c"

text \<open>\<^verbatim>\<open>Counter::allocate\<close>: the value before the increment, and the incremented counter.\<close>

definition allocate :: "counter \<Rightarrow> counter \<times> counter" where
  "allocate c = (c, c + 1)"

lemma allocate_simps [simp]: "fst (allocate c) = c" "snd (allocate c) = Suc c"
  by (simp_all add: allocate_def)

lemma decimal_zero [simp]: "decimal 0 = ''0''"
  by code_simp

lemma hd_decimal: "0 < n \<Longrightarrow> hd (decimal n) \<noteq> CHR ''0''"
proof (induction n rule: decimal.induct)
  case (1 n)
  show ?case
  proof (cases "n < 10")
    case True
    have "digit_value (CHR ''0'') = 0" by (simp add: digit_value_def)
    with True "1.prems" show ?thesis
      by (metis decimal.simps digit_char_value list.sel(1) neq0_conv)
  next
    case False
    with "1.IH" show ?thesis by (simp add: decimal.simps [of n])
  qed
qed

lemma list_all_decimal [simp]: "list_all is_digit (decimal n)"
  by (simp add: list_all_iff decimal_digits)

lemma decimal_value_ge: "acc \<le> decimal_value acc s"
proof (induction s arbitrary: acc)
  case Nil
  show ?case by simp
next
  case (Cons c s)
  have "acc \<le> 10 * acc + digit_value c" by simp
  also have "\<dots> \<le> decimal_value (10 * acc + digit_value c) s" by (rule Cons.IH)
  finally show ?case by simp
qed

lemma decimal_of_value:
  assumes "list_all is_digit s"
  shows "0 < acc \<Longrightarrow> decimal (decimal_value acc s) = decimal acc @ s"
  using assms
proof (induction s arbitrary: acc)
  case Nil
  then show ?case by simp
next
  case (Cons c s)
  then have "is_digit c" by simp
  then have c: "digit_value c < 10" "digit_char (digit_value c) = c"
    by (simp_all add: digit_char_of_value digit_value_less)
  have "decimal (10 * acc + digit_value c) = decimal acc @ [c]"
    using Cons.prems(1) c by (subst decimal.simps) simp
  with Cons show ?case by simp
qed

lemma from_canonical_decimal [simp]: "from_decimal (canonical_decimal c) = Some c"
proof (cases "c = 0")
  case True
  then show ?thesis by (simp add: from_decimal_def canonical_decimal_def digit_value_def)
next
  case False
  with hd_decimal [of c] show ?thesis by (simp add: from_decimal_def canonical_decimal_def)
qed

lemma from_decimal_canonical:
  assumes s: "from_decimal s = Some c"
  shows "s = canonical_decimal c"
proof (cases "s = ''0''")
  case True
  with s show ?thesis by (auto simp: from_decimal_def canonical_decimal_def digit_value_def)
next
  case False
  with s obtain d t where st: "s = d # t" and d: "d \<noteq> CHR ''0''" "is_digit d"
    and t: "list_all is_digit t" and c: "c = decimal_value (digit_value d) t"
    by (cases s) (auto simp: from_decimal_def split: if_splits)
  from d have "digit_value d < 10" "digit_char (digit_value d) = d"
    by (simp_all add: digit_char_of_value digit_value_less)
  moreover have "0 < digit_value d"
    using d calculation(2) by (cases "digit_value d") auto
  ultimately have "decimal c = decimal (digit_value d) @ t"
    using decimal_of_value [OF t] c by simp
  with \<open>digit_value d < 10\<close> \<open>digit_char (digit_value d) = d\<close> st show ?thesis
    by (simp add: canonical_decimal_def decimal.simps [of "digit_value d"])
qed

text \<open>
  a counter is read back exactly from its canonical decimal text, and a text is
  accepted only if it is the canonical text of the counter it denotes: the wire form and
  the counter are in bijection.
\<close>

theorem counter_roundtrip:
  "from_decimal (canonical_decimal c) = Some c \<and>
   (from_decimal s = Some c \<longleftrightarrow> s = canonical_decimal c)"
  using from_decimal_canonical by auto

fun allocate_many :: "nat \<Rightarrow> counter \<Rightarrow> counter list \<times> counter" where
  "allocate_many 0 c = ([], c)"
| "allocate_many (Suc n) c =
     (case allocate c of (a, c') \<Rightarrow>
       (case allocate_many n c' of (as, c'') \<Rightarrow> (a # as, c'')))"

lemma allocate_many_eq: "allocate_many n c = ([c..<c + n], c + n)"
  by (induction n arbitrary: c) (auto simp: allocate_def upt_conv_Cons)

text \<open>
  allocation never wraps and never repeats: the sequence numbers handed out by
  \<open>n\<close> successive allocations are exactly \<open>c, c + 1, \<dots>\<close>, whatever the width of a machine
  word, and the counter is then \<open>c + n\<close>.
\<close>

theorem allocate_fresh:
  "distinct (fst (allocate_many n c)) \<and> fst (allocate_many n c) = [c..<c + n] \<and>
   snd (allocate_many n c) \<notin> set (fst (allocate_many n c))"
  by (simp add: allocate_many_eq)

end
