(* ===== verification/Definitions.thy ===== *)
theory Definitions
  imports Cel Typed_Values Counters "HOL-Library.Sublist"
begin

text \<open>
  The compiled definitions of \<^verbatim>\<open>src/format1/model.rs\<close> and \<^verbatim>\<open>src/format1/compile.rs\<close>:
  bundles, machines, states, transitions, actions and components, the identities and
  envelopes that refer to them, and the operations on state paths that the runtime shares.
  Machines, states and components contain each other (an inline component carries a whole
  machine), so these structs are datatypes whose selectors are the fields; all other structs
  are records.
\<close>

section \<open>Declarations\<close>

datatype event_direction = DirInternal | DirInput | DirOutput

record payload_field =
  pf_value_type :: string
  pf_required :: bool
  pf_default :: "value option"

record event_declaration =
  ev_direction :: event_direction
  ev_payload :: "(string, payload_field) btree_map"
  ev_correlates_to :: "string option"

record variable_declaration =
  vd_value_type :: string
  vd_init :: "value option option"
  vd_input :: bool
  vd_external :: bool
  vd_nullable :: "bool option"
  vd_machine_id :: "string option"

record binding_expressions =
  be_input :: "(string, string) btree_map"
  be_external :: "(string, string) btree_map"

record bindings =
  bi_input :: "(string, value) btree_map"
  bi_external :: "(string, value) btree_map"

definition bindings_default :: bindings where
  "bindings_default = \<lparr>bi_input = [], bi_external = []\<rparr>"

record machine_identity =
  mi_namespace :: string
  mi_machine_id :: string
  mi_machine_version :: i64
  mi_root_definition_pointer :: string

record definition_binding =
  db_validated_bundle_fingerprint :: string
  db_machine :: machine_identity

datatype identity_origin =
    OriginRoot definition_binding string
  | OriginComponent definition_binding string string counter counter
  | OriginSpawned definition_binding string string counter

section \<open>Behaviour\<close>

datatype guard = GuardCel string | GuardProvider json

datatype send_target =
    SelfTarget | OwnerTarget | ComponentTarget string | InstanceTarget string | ExternalTarget

datatype compiled_action_kind =
    Assign string string
  | Send string "send_target list" "(string, string) btree_map" "string option"
  | Refresh "string list option"
  | Spawn string binding_expressions "string option"
  | Cancel string
  | Stop
  | ProviderActions json

record compiled_action =
  ca_kind :: compiled_action_kind
  ca_pointer :: string

datatype compiled_target = TargetState string | TargetHistory string

record compiled_initial =
  ci_target :: string
  ci_action :: "compiled_action list"
  ci_pointer :: string

record compiled_choice =
  cc_target :: compiled_target
  cc_guard :: "guard option"
  cc_guard_pointer :: "string option"
  cc_action :: "compiled_action list"
  cc_pointer :: string

record compiled_transition =
  ct_target :: "compiled_target option"
  ct_guard :: "guard option"
  ct_guard_pointer :: "string option"
  ct_action :: "compiled_action list"
  ct_local :: bool
  ct_pointer :: string

datatype state_kind = KindSimple | KindComposite | KindParallel | KindFinal | KindChoice

datatype history_kind = HistoryNone | HistoryShallow | HistoryDeep

section \<open>Machines\<close>

text \<open>
  The provider registry of a machine (\<^verbatim>\<open>RuntimeProviderRegistry\<close>) is an opaque handle.
\<close>

datatype machine =
  Machine (m_machine_id: string) (m_version: i64) (m_machine_index: nat)
    (m_events: "(string \<times> event_declaration) list")
    (m_states: "(string \<times> state) list")
    (m_root_pointer: string) (m_meta: "json option") (m_runtime_providers: "nat option")
and state =
  State (s_path: string) (s_pointer: string) (s_parent: "string option") (s_kind: state_kind)
    (s_variables: "(string \<times> variable_declaration) list")
    (s_entry: "compiled_action list") (s_exit: "compiled_action list")
    (s_initial: "compiled_initial option") (s_children: "string list")
    (s_components: "component list")
    (s_handlers: "(string \<times> compiled_transition list) list")
    (s_deferred_events: "string list") (s_deferred_event_capacity: "i64 option")
    (s_history: history_kind) (s_choice: "compiled_choice list option")
and component =
  Component (c_component_id: string) (c_declaration_index: nat) (c_pointer: string)
    (c_definition: component_definition) (c_bindings: binding_expressions)
and component_definition = DefMachine string | DefInline machine

record compiled_bundle =
  b_namespace :: string
  b_events :: "(string, event_declaration) btree_map"
  b_machines :: "(string, machine) btree_map"
  b_machine_order :: "string list"
  b_fingerprint :: string
  b_normalized :: json
  b_source_compilation :: "json option"

section \<open>Targets and envelopes\<close>

datatype target =
    RootTarget string string
  | SpawnedTarget instance_reference
  | ComponentPlacement string string string string counter
  | External

record envelope =
  env_event :: string
  env_event_id :: string
  env_target :: target
  env_payload :: "(string, value) btree_map"
  env_correlation_id :: "string option"

datatype delivery = Input envelope | Internal envelope

section \<open>State paths\<close>

abbreviation root_path :: string where
  "root_path \<equiv> ''root''"

definition target_path :: "compiled_target \<Rightarrow> string" where
  "target_path t = (case t of TargetState p \<Rightarrow> p | TargetHistory p \<Rightarrow> p)"

definition is_descendant :: "string \<Rightarrow> string \<Rightarrow> bool" where
  "is_descendant path ancestor \<longleftrightarrow>
     ancestor = root_path \<and> path \<noteq> root_path \<or>
     (case strip_prefix ancestor path of
        None \<Rightarrow> False
      | Some rest \<Rightarrow> (case rest of c # _ \<Rightarrow> c = CHR ''.'' | [] \<Rightarrow> False))"

definition path_depth :: "string \<Rightarrow> nat" where
  "path_depth path = (if path = root_path then 0 else length (split_on (CHR ''.'') path))"

definition variable_key :: "string \<Rightarrow> string \<Rightarrow> string" where
  "variable_key path name = path @ [CHR 0x00] @ name"

text \<open>\<^verbatim>\<open>machine.states[path]\<close>: the code panics on an absent path.\<close>

definition state_at :: "machine \<Rightarrow> string \<Rightarrow> (state, 'e) outcome" where
  "state_at m path = expect (bm_get (m_states m) path)"

text \<open>
  The loops that walk from a state to the root take as fuel the number of states, which
  \<open>Definitions.ancestors_to_root_total\<close> shows is enough for every machine whose parent
  links lead upwards.
\<close>

definition walk_fuel :: "machine \<Rightarrow> nat" where
  "walk_fuel m = Suc (length (m_states m))"

fun ancestors_from :: "machine \<Rightarrow> nat \<Rightarrow> string \<Rightarrow> (string list, 'e) outcome" where
  "ancestors_from m 0 path = OutOfFuel"
| "ancestors_from m (Suc n) path =
     obind (state_at m path)
       (\<lambda>s. case s_parent s of
              None \<Rightarrow> Ok [path]
            | Some p \<Rightarrow> obind (ancestors_from m n p) (\<lambda>ps. Ok (path # ps)))"

definition ancestors_to_root :: "machine \<Rightarrow> string \<Rightarrow> (string list, 'e) outcome" where
  "ancestors_to_root m path = ancestors_from m (walk_fuel m) path"

definition lowest_common_ancestor :: "machine \<Rightarrow> string \<Rightarrow> string \<Rightarrow> (string, 'e) outcome" where
  "lowest_common_ancestor m left right =
     obind (ancestors_to_root m left)
       (\<lambda>ls. obind (ancestors_to_root m right)
         (\<lambda>rs. expect (find (\<lambda>p. p \<in> set ls) rs)))"

definition direct_child_path :: "string \<Rightarrow> string \<Rightarrow> string option" where
  "direct_child_path leaf parent =
     (if parent = root_path then Some (hd (split_on (CHR ''.'') leaf))
      else (case strip_prefix parent leaf of
              None \<Rightarrow> None
            | Some rest \<Rightarrow>
                (case strip_prefix ''.'' rest of
                   None \<Rightarrow> None
                 | Some below \<Rightarrow> Some (parent @ ''.'' @ hd (split_on (CHR ''.'') below)))))"

text \<open>\<^verbatim>\<open>source::escape_pointer\<close>, and a member of a JSON pointer.\<close>

definition escape_pointer :: "string \<Rightarrow> string" where
  "escape_pointer s =
     concat (map (\<lambda>c. if c = CHR ''/'' then ''~1'' else [c])
       (concat (map (\<lambda>c. if c = CHR ''~'' then ''~0'' else [c]) s)))"

definition root_input_variables ::
  "machine \<Rightarrow> ((string, variable_declaration) btree_map, 'e) outcome" where
  "root_input_variables m =
     obind (state_at m root_path) (\<lambda>s. Ok (bm_retain (\<lambda>_ d. vd_input d) (s_variables s)))"

definition root_external_variables ::
  "machine \<Rightarrow> ((string, variable_declaration) btree_map, 'e) outcome" where
  "root_external_variables m =
     obind (state_at m root_path) (\<lambda>s. Ok (bm_retain (\<lambda>_ d. vd_external d) (s_variables s)))"

text \<open>\<^verbatim>\<open>compile::scope_survives\<close>: the load-time check of a write by an outgoing transition.\<close>

definition scope_survives :: "machine \<Rightarrow> state \<Rightarrow> compiled_target \<Rightarrow> string \<Rightarrow> (bool, 'e) outcome" where
  "scope_survives m source t declaration_path =
     obind (state_at m (target_path t))
       (\<lambda>s. Ok (if s_kind s = KindFinal then False
                else if declaration_path = root_path then True
                else if s_path source = declaration_path \<and> target_path t = declaration_path then False
                else target_path t = declaration_path \<or>
                     is_descendant (target_path t) declaration_path))"

section \<open>Paths as lists of segments\<close>

definition segments :: "string \<Rightarrow> string list" where
  "segments p = (if p = root_path then [] else split_on (CHR ''.'') p)"

definition path_of :: "string list \<Rightarrow> string" where
  "path_of ss = (if ss = [] then root_path else intercalate ''.'' ss)"

definition valid_path :: "string \<Rightarrow> bool" where
  "valid_path p \<longleftrightarrow> root_path \<notin> set (segments p)"

lemma intercalate_Cons: "ws \<noteq> [] \<Longrightarrow> intercalate sep (w # ws) = w @ sep @ intercalate sep ws"
  by (cases ws) auto

lemma intercalate_append:
  "vs \<noteq> [] \<Longrightarrow> ws \<noteq> [] \<Longrightarrow> intercalate sep (vs @ ws) = intercalate sep vs @ sep @ intercalate sep ws"
  by (induction vs rule: list_nonempty_induct) (auto simp: intercalate_Cons)

lemma intercalate_split: "intercalate [c] (split_on c s) = s"
proof (induction s)
  case (Cons x xs)
  show ?case
  proof (cases "split_on c xs")
    case (Cons w ws)
    with \<open>intercalate [c] (split_on c xs) = xs\<close> show ?thesis
      by (cases ws) (auto simp: intercalate_Cons)
  qed simp
qed simp

lemma split_on_plain: "c \<notin> set w \<Longrightarrow> split_on c w = [w]"
  by (induction w) auto

lemma split_on_append: "split_on c (a @ c # b) = split_on c a @ split_on c b"
  by (induction a) (auto split: list.splits)

lemma split_intercalate:
  "ws \<noteq> [] \<Longrightarrow> \<forall>w \<in> set ws. c \<notin> set w \<Longrightarrow> split_on c (intercalate [c] ws) = ws"
proof (induction ws)
  case (Cons w ws)
  then show ?case
    by (cases "ws = []") (auto simp: intercalate_Cons split_on_append split_on_plain)
qed simp

lemma split_on_no_sep: "w \<in> set (split_on c s) \<Longrightarrow> c \<notin> set w"
proof (induction s arbitrary: w)
  case (Cons x s)
  obtain v vs where "split_on c s = v # vs" by (cases "split_on c s") auto
  with Cons show ?case by (auto split: if_splits)
qed simp

lemma path_of_segments [simp]: "path_of (segments p) = p"
  using intercalate_split [of "CHR ''.''" p] by (simp add: path_of_def segments_def)

lemma segments_inject: "segments p = segments q \<longleftrightarrow> p = q"
  by (metis path_of_segments)

lemma segments_root [simp]: "segments root_path = []" "segments p = [] \<longleftrightarrow> p = root_path"
  "[] = segments p \<longleftrightarrow> p = root_path"
  by (auto simp: segments_def) (metis split_on_not_Nil)

definition valid_segments :: "string list \<Rightarrow> bool" where
  "valid_segments ss \<longleftrightarrow> (\<forall>s \<in> set ss. CHR ''.'' \<notin> set s \<and> s \<noteq> root_path)"

lemma valid_segments_path: "valid_path p \<longleftrightarrow> valid_segments (segments p)"
  by (auto simp: valid_path_def valid_segments_def segments_def dest: split_on_no_sep)

lemma segments_path_of [simp]:
  assumes "valid_segments ss"
  shows "segments (path_of ss) = ss"
proof (cases "ss = []")
  case False
  have split: "split_on (CHR ''.'') (intercalate ''.'' ss) = ss"
    using assms False by (intro split_intercalate) (auto simp: valid_segments_def)
  have "intercalate ''.'' ss \<noteq> root_path"
  proof
    assume *: "intercalate ''.'' ss = root_path"
    have "split_on (CHR ''.'') root_path = [root_path]" by (rule split_on_plain) simp
    with * split have "ss = [root_path]" by simp
    with assms show False by (simp add: valid_segments_def)
  qed
  with split False show ?thesis by (simp add: path_of_def segments_def)
qed (simp add: path_of_def)

lemma valid_segments_butlast: "valid_segments ss \<Longrightarrow> valid_segments (butlast ss)"
  by (auto simp: valid_segments_def dest: in_set_butlastD)

lemma valid_segments_prefix: "valid_segments ss \<Longrightarrow> prefix ts ss \<Longrightarrow> valid_segments ts"
  by (auto simp: valid_segments_def prefix_def)

lemma path_depth_segments: "path_depth p = length (segments p)"
  by (simp add: path_depth_def segments_def)

lemma is_descendant_segments:
  "is_descendant a b \<longleftrightarrow> strict_prefix (segments b) (segments a)"
proof (cases "b = root_path")
  case True
  have "strict_prefix [] (segments a) \<longleftrightarrow> a \<noteq> root_path" by (simp add: strict_prefix_def)
  moreover have "is_descendant a b \<longleftrightarrow> a \<noteq> root_path"
    using True by (auto simp: is_descendant_def strip_prefix_Some_iff split: option.splits list.splits)
  ultimately show ?thesis using True by simp
next
  case False
  have strip: "strip_prefix b (b @ r) = Some r" for r by (simp add: strip_prefix_Some_iff)
  have "is_descendant a b \<longleftrightarrow> (\<exists>r. a = b @ CHR ''.'' # r)"
    using False
    by (auto simp: is_descendant_def strip_prefix_Some_iff strip split: option.splits list.splits)
  also have "\<dots> \<longleftrightarrow> strict_prefix (segments b) (segments a)"
  proof
    assume "\<exists>r. a = b @ CHR ''.'' # r"
    then obtain r where r: "a = b @ CHR ''.'' # r" by blast
    then have "CHR ''.'' \<in> set a" by simp
    then have "a \<noteq> root_path" by auto
    with False r show "strict_prefix (segments b) (segments a)"
      by (auto simp: segments_def split_on_append strict_prefix_def)
  next
    assume p: "strict_prefix (segments b) (segments a)"
    then have "a \<noteq> root_path" by auto
    from p obtain ts where ts: "segments a = segments b @ ts" "ts \<noteq> []"
      by (auto simp: strict_prefix_def prefix_def)
    have nb: "segments b \<noteq> []" using False by simp
    have "a = intercalate ''.'' (segments b @ ts)"
      using ts(1) by (metis nb path_of_segments path_of_def append_is_Nil_conv)
    also have "\<dots> = intercalate ''.'' (segments b) @ ''.'' @ intercalate ''.'' ts"
      using nb ts(2) by (rule intercalate_append)
    also have "intercalate ''.'' (segments b) = b"
      using nb by (metis path_of_segments path_of_def)
    finally show "\<exists>r. a = b @ CHR ''.'' # r" by auto
  qed
  finally show ?thesis .
qed

section \<open>Ancestors\<close>

text \<open>
  What \<^verbatim>\<open>compile_state\<close> establishes of the states of a machine: each is filed under its own
  path, its parent is the state one segment up, and the root is present.
\<close>

definition parent_path :: "string \<Rightarrow> string option" where
  "parent_path p = (if p = root_path then None else Some (path_of (butlast (segments p))))"

definition machine_paths_wf :: "machine \<Rightarrow> bool" where
  "machine_paths_wf m \<longleftrightarrow>
     bm_wf (m_states m) \<and> bm_has (m_states m) root_path \<and>
     list_all (\<lambda>(p, s). s_path s = p \<and> valid_path p \<and> s_parent s = parent_path p \<and>
                        (case parent_path p of None \<Rightarrow> True | Some q \<Rightarrow> bm_has (m_states m) q))
       (m_states m)"

definition lineage :: "string \<Rightarrow> string list" where
  "lineage p = map path_of (rev (prefixes (segments p)))"

lemma machine_paths_wfD:
  assumes "machine_paths_wf m" "bm_get (m_states m) p = Some s"
  shows "s_path s = p" "valid_path p" "s_parent s = parent_path p"
    "parent_path p = Some q \<Longrightarrow> bm_has (m_states m) q"
proof -
  have "(p, s) \<in> set (m_states m)" using assms(2) by (rule bm_get_in)
  then show "s_path s = p" "valid_path p" "s_parent s = parent_path p"
    "parent_path p = Some q \<Longrightarrow> bm_has (m_states m) q"
    using assms(1) by (auto simp: machine_paths_wf_def list_all_iff split: option.splits)
qed

lemma bm_hasE: "bm_has m k \<Longrightarrow> (\<And>v. bm_get m k = Some v \<Longrightarrow> thesis) \<Longrightarrow> thesis"
  by (auto simp: bm_has_def)

lemma lineage_root [simp]: "lineage root_path = [root_path]"
  by (simp add: lineage_def path_of_def)

lemma lineage_step:
  assumes "valid_path p" "parent_path p = Some q"
  shows "lineage p = p # lineage q" "segments q = butlast (segments p)" "Suc (path_depth q) = path_depth p"
proof -
  from assms(2) have np: "p \<noteq> root_path" and q: "q = path_of (butlast (segments p))"
    by (auto simp: parent_path_def split: if_splits)
  then show sq: "segments q = butlast (segments p)"
    using assms(1) by (simp add: valid_segments_path valid_segments_butlast)
  have "prefixes (segments p) = prefixes (butlast (segments p)) @ [segments p]"
    using np by (metis append_butlast_last_id prefixes_snoc segments_root(2))
  then show "lineage p = p # lineage q" by (simp add: lineage_def sq)
  show "Suc (path_depth q) = path_depth p" using np by (simp add: path_depth_segments sq)
qed

lemma ancestors_from_lineage:
  assumes wf: "machine_paths_wf m"
  shows "bm_has (m_states m) p \<Longrightarrow> path_depth p < n \<Longrightarrow>
    ancestors_from m n p = (Ok (lineage p) :: (string list, 'e) outcome)"
proof (induction n arbitrary: p)
  case (Suc n)
  then obtain s where s: "bm_get (m_states m) p = Some s" by (auto elim: bm_hasE)
  note w = machine_paths_wfD [OF wf s]
  show ?case
  proof (cases "parent_path p")
    case None
    then have "p = root_path" by (simp add: parent_path_def split: if_splits)
    with None s w show ?thesis by (simp add: state_at_def)
  next
    case (Some q)
    note step = lineage_step [OF w(2) Some]
    from Suc.IH [of q] w(4) [OF Some] Suc.prems(2) step(3)
    have "ancestors_from m n q = (Ok (lineage q) :: (string list, 'e) outcome)" by simp
    with Some s w step show ?thesis by (simp add: state_at_def)
  qed
qed simp

lemma depths_below:
  assumes wf: "machine_paths_wf m"
  shows "bm_has (m_states m) p \<Longrightarrow> {0..path_depth p} \<subseteq> path_depth ` set (bm_keys (m_states m))"
proof (induction "path_depth p" arbitrary: p)
  case 0
  then have "{0..path_depth p} = {path_depth p}" "p \<in> set (bm_keys (m_states m))"
    by (auto simp: bm_has_iff)
  then show ?case by (metis empty_subsetI imageI insert_subset)
next
  case (Suc d)
  then obtain s where s: "bm_get (m_states m) p = Some s" by (auto elim: bm_hasE)
  have "p \<noteq> root_path" using Suc.hyps(2) by (auto simp: path_depth_def)
  then obtain q where q: "parent_path p = Some q" by (simp add: parent_path_def)
  note w = machine_paths_wfD [OF wf s] lineage_step [OF machine_paths_wfD(2) [OF wf s] q]
  have "d = path_depth q" using Suc.hyps(2) w(7) by simp
  then have IH: "{0..path_depth q} \<subseteq> path_depth ` set (bm_keys (m_states m))"
    using Suc.hyps(1) w(4) [OF q] by blast
  have "p \<in> set (bm_keys (m_states m))" using Suc.prems by (simp add: bm_has_iff)
  moreover have "{0..path_depth p} = insert (path_depth p) {0..path_depth q}" using w(7) by auto
  ultimately show ?case using IH by auto
qed

lemma path_depth_bound:
  assumes "machine_paths_wf m" "bm_has (m_states m) p"
  shows "path_depth p < walk_fuel m"
proof -
  have "card {0..path_depth p} \<le> card (path_depth ` set (bm_keys (m_states m)))"
    by (intro card_mono depths_below assms) simp
  also have "\<dots> \<le> card (set (bm_keys (m_states m)))" by (rule card_image_le) simp
  also have "\<dots> \<le> length (m_states m)" by (metis card_length length_map)
  finally show ?thesis by (simp add: walk_fuel_def)
qed

lemma ancestors_to_root_total:
  assumes "machine_paths_wf m" "bm_has (m_states m) p"
  shows "ancestors_to_root m p = Ok (lineage p)"
  unfolding ancestors_to_root_def
  by (rule ancestors_from_lineage [OF assms]) (rule path_depth_bound [OF assms])

lemma lineage_iff:
  assumes "valid_path p"
  shows "q \<in> set (lineage p) \<longleftrightarrow> q = p \<or> is_descendant p q"
proof -
  have "q \<in> set (lineage p) \<longleftrightarrow> (\<exists>ss. prefix ss (segments p) \<and> q = path_of ss)"
    by (auto simp: lineage_def in_set_prefixes)
  also have "\<dots> \<longleftrightarrow> prefix (segments q) (segments p)"
    using assms by (metis path_of_segments segments_path_of valid_segments_path valid_segments_prefix)
  also have "\<dots> \<longleftrightarrow> q = p \<or> is_descendant p q"
    by (auto simp: is_descendant_segments strict_prefix_def segments_inject)
  finally show ?thesis .
qed

lemma find_lineage:
  assumes "valid_path r" "root_path \<in> S"
  shows "\<exists>q. find (\<lambda>p. p \<in> S) (lineage r) = Some q \<and> q \<in> S \<and> q \<in> set (lineage r) \<and>
     (\<forall>c \<in> S. c \<in> set (lineage r) \<longrightarrow> c \<in> set (lineage q))"
  using assms(1)
proof (induction "path_depth r" arbitrary: r)
  case 0
  then show ?case using assms(2) by (auto simp: path_depth_segments)
next
  case (Suc d)
  then have "r \<noteq> root_path" by (auto simp: path_depth_def)
  then obtain p where p: "parent_path r = Some p" by (simp add: parent_path_def)
  note step = lineage_step [OF Suc.prems p]
  have "valid_path p"
    using Suc.prems by (simp add: valid_segments_path step(2) valid_segments_butlast)
  with Suc.hyps(1) [of p] Suc.hyps(2) step(3)
  obtain q where "find (\<lambda>p. p \<in> S) (lineage p) = Some q" "q \<in> S" "q \<in> set (lineage p)"
    "\<forall>c \<in> S. c \<in> set (lineage p) \<longrightarrow> c \<in> set (lineage q)" by auto
  then show ?case using step(1) by (cases "r \<in> S") auto
qed

definition common_ancestor :: "string \<Rightarrow> string \<Rightarrow> string \<Rightarrow> bool" where
  "common_ancestor l r q \<longleftrightarrow>
     (q = l \<or> is_descendant l q) \<and> (q = r \<or> is_descendant r q)"

text \<open>
  C39: The lowest common ancestor of two states of a machine exists, is an ancestor or self of
  both, and every common ancestor is an ancestor or self of it.
\<close>

theorem lowest_common_ancestor_correct:
  assumes wf: "machine_paths_wf m" and l: "bm_has (m_states m) l" and r: "bm_has (m_states m) r"
  shows "\<exists>q. lowest_common_ancestor m l r = (Ok q :: (string, 'e) outcome) \<and> common_ancestor l r q \<and>
     (\<forall>c. common_ancestor l r c \<longrightarrow> c = q \<or> is_descendant q c)"
proof -
  have v: "valid_path l" "valid_path r" using wf l r by (auto elim!: bm_hasE dest: machine_paths_wfD)
  have "root_path \<in> set (lineage l)" using lineage_iff [OF v(1)] by (auto simp: is_descendant_def)
  from find_lineage [OF v(2) this] obtain q where q:
    "find (\<lambda>p. p \<in> set (lineage l)) (lineage r) = Some q" "q \<in> set (lineage l)" "q \<in> set (lineage r)"
    "\<forall>c. c \<in> set (lineage l) \<longrightarrow> c \<in> set (lineage r) \<longrightarrow> c \<in> set (lineage q)" by auto
  have "valid_path q"
    using q(3) v(2) lineage_iff [OF v(2)]
    by (auto simp: valid_segments_path is_descendant_segments intro: valid_segments_prefix)
  then have mem: "c \<in> set (lineage q) \<longleftrightarrow> c = q \<or> is_descendant q c"
    "common_ancestor l r c \<longleftrightarrow> c \<in> set (lineage l) \<and> c \<in> set (lineage r)" for c
    by (simp_all add: lineage_iff v common_ancestor_def)
  have "lowest_common_ancestor m l r = (Ok q :: (string, 'e) outcome)"
    using q(1) by (simp add: lowest_common_ancestor_def ancestors_to_root_total wf l r)
  moreover have "common_ancestor l r q" using mem(2) q(2,3) by blast
  moreover have "c = q \<or> is_descendant q c" if "common_ancestor l r c" for c
    using that mem q(4) by blast
  ultimately show ?thesis by blast
qed

text \<open>A small machine for concrete evaluations: root, \<open>a\<close>, \<open>a.b\<close>, \<open>a.d\<close> and \<open>c\<close>.\<close>

definition sample_state :: "string \<Rightarrow> state_kind \<Rightarrow> state" where
  "sample_state p k = State p (CHR ''/'' # p) (parent_path p) k [] [] [] None [] [] [] [] None HistoryNone None"

definition sample_machine :: machine where
  "sample_machine = Machine ''m'' 1 0 []
     [(''a'', sample_state ''a'' KindComposite), (''a.b'', sample_state ''a.b'' KindSimple),
      (''a.d'', sample_state ''a.d'' KindSimple), (''c'', sample_state ''c'' KindSimple),
      (''root'', sample_state ''root'' KindComposite)] ''/machines/0/root'' None None"

definition sample_bundle :: compiled_bundle where
  "sample_bundle = \<lparr>b_namespace = ''n'', b_events = [], b_machines = [(''m'', sample_machine)],
     b_machine_order = [''m''], b_fingerprint = ''f'', b_normalized = JNull, b_source_compilation = None\<rparr>"

lemma sample_machine_wf: "machine_paths_wf sample_machine"
  by code_simp

theorem lowest_common_ancestor_correct_witness:
  "\<exists>q. lowest_common_ancestor sample_machine ''a.b'' ''a.d'' = Ok q \<and> common_ancestor ''a.b'' ''a.d'' q \<and>
     (\<forall>c. common_ancestor ''a.b'' ''a.d'' c \<longrightarrow> c = q \<or> is_descendant q c)"
  by (rule lowest_common_ancestor_correct [OF sample_machine_wf]) code_simp+

end
