(* ===== verification/Runtime_State.thy ===== *)
theory Runtime_State
  imports Definitions
begin

text \<open>
  The data of \<^verbatim>\<open>src/format1/runtime.rs\<close>: status and fault codes, fault records, emissions,
  the tree of runtimes of an aggregate, and the operations that address a runtime in the
  tree.  A runtime owns its components and its spawned instances, which are runtimes again:
  the recursive structs are datatypes over the record \<open>runtime_core\<close> of the other fields.
\<close>

section \<open>Codes\<close>

datatype runtime_status = Running | Completed | Faulted

datatype disposition =
  DispHandled | DispDeferred | DispUnhandled | DispNotRunnable | DispRejected | DispFaulted

fun disposition_str :: "disposition \<Rightarrow> string" where
  "disposition_str DispHandled = ''handled''"
| "disposition_str DispDeferred = ''deferred''"
| "disposition_str DispUnhandled = ''unhandled''"
| "disposition_str DispNotRunnable = ''not_runnable''"
| "disposition_str DispRejected = ''rejected''"
| "disposition_str DispFaulted = ''faulted''"

datatype creation_rejection = CreateInvalidBinding | CreateInvalidRequest | CreateInvalidMachine

fun creation_rejection_str :: "creation_rejection \<Rightarrow> string" where
  "creation_rejection_str CreateInvalidBinding = ''invalid_binding''"
| "creation_rejection_str CreateInvalidRequest = ''invalid_creation_request''"
| "creation_rejection_str CreateInvalidMachine = ''invalid_machine_target''"

datatype dispatch_rejection =
    InactiveComponentTarget | IncompatibleBundle | InvalidCorrelation | InvalidEvent
  | InvalidInstanceTarget | InvalidPayload | InvalidPriorState

fun dispatch_rejection_str :: "dispatch_rejection \<Rightarrow> string" where
  "dispatch_rejection_str InactiveComponentTarget = ''inactive_component_target''"
| "dispatch_rejection_str IncompatibleBundle = ''incompatible_bundle''"
| "dispatch_rejection_str InvalidCorrelation = ''invalid_correlation''"
| "dispatch_rejection_str InvalidEvent = ''invalid_event''"
| "dispatch_rejection_str InvalidInstanceTarget = ''invalid_instance_target''"
| "dispatch_rejection_str InvalidPayload = ''invalid_payload''"
| "dispatch_rejection_str InvalidPriorState = ''invalid_prior_state''"

datatype engine_fault =
    ActionFault | BindingNotEmpty | CascadeFault | ContainedRuntimeFault
  | DeferredEventCapacityExceeded | GuardFault | FaultInactiveComponent | FaultInvalidInstance
  | InvariantFault

fun engine_fault_str :: "engine_fault \<Rightarrow> string" where
  "engine_fault_str ActionFault = ''action_fault''"
| "engine_fault_str BindingNotEmpty = ''binding_not_empty''"
| "engine_fault_str CascadeFault = ''cascade_fault''"
| "engine_fault_str ContainedRuntimeFault = ''contained_runtime_fault''"
| "engine_fault_str DeferredEventCapacityExceeded = ''deferred_event_capacity_exceeded''"
| "engine_fault_str GuardFault = ''guard_fault''"
| "engine_fault_str FaultInactiveComponent = ''inactive_component_target''"
| "engine_fault_str FaultInvalidInstance = ''invalid_instance_target''"
| "engine_fault_str InvariantFault = ''invariant_fault''"

datatype result_status = StatusRunning | StatusCompleted | StatusFaulted | StatusRejected

fun result_status_of :: "runtime_status \<Rightarrow> result_status" where
  "result_status_of Running = StatusRunning"
| "result_status_of Completed = StatusCompleted"
| "result_status_of Faulted = StatusFaulted"

section \<open>Records\<close>

record fault_record =
  fr_definition_fingerprint :: string
  fr_runtime_id :: string
  fr_cause_id :: string
  fr_code :: string
  fr_step_sequence :: counter
  fr_source_locator :: string

record emission =
  em_emitting_runtime_id :: string
  em_emitting_owner_runtime_id :: "string option"
  em_event :: string
  em_event_id :: "string option"
  em_target :: target
  em_payload :: "(string, value) btree_map"
  em_correlation_id :: "string option"
  em_effect_id :: "string option"
  em_sequence :: "counter option"
  em_emission_index :: nat
  em_cause_id :: "string option"
  em_system_source :: "string option"

record variable_slot =
  vs_name :: string
  vs_declaration_path :: string
  vs_declaration_pointer :: string
  vs_declaration :: variable_declaration
  vs_value :: "value"
  vs_state_activation_sequence :: counter

datatype runtime_relation =
    RelRoot
  | RelComponent (rel_owner_runtime_id: string) (rel_owner_target: target)
      (rel_owner_state_path: string) (rel_component_id: string) (rel_component_pointer: string)
      (rel_declaration_index: nat) (rel_activation_sequence: counter)
  | RelSpawned (rel_owner_runtime_id: string) (rel_owner_target: target)
      (rel_spawn_sequence: counter) (rel_spawn_pointer: string) (rel_reference: instance_reference)
      (rel_holder_path: "string option") (rel_holder_pointer: "string option")
      (rel_holder_activation_sequence: counter)

record runtime_core =
  rc_runtime_id :: string
  rc_identity_origin :: identity_origin
  rc_target_identity :: target
  rc_current_definition :: definition_binding
  rc_origin_component_id :: "string option"
  rc_machine_id :: string
  rc_machine_version :: i64
  rc_definition :: machine
  rc_status :: runtime_status
  rc_active :: "string btree_set"
  rc_variables :: "(string, variable_slot) btree_map"
  rc_history :: "(string, string list option) btree_map"
  rc_next_spawn_sequence :: counter
  rc_next_component_activation_sequence :: "(string, counter) btree_map"
  rc_next_state_activation_sequence :: "(string, counter) btree_map"
  rc_active_state_activation_sequence :: "(string, counter) btree_map"
  rc_fault :: "fault_record option"
  rc_relation :: runtime_relation
  rc_ready_mailbox :: "json list"
  rc_deferred_mailbox :: "json list"

datatype runtime_state =
  Runtime (rt_core: runtime_core) (rt_components: "component_runtime list")
    (rt_owned: "owned_runtime list")
and component_runtime =
  ComponentRuntime (cr_component_id: string) (cr_pointer: string) (cr_declaration_index: nat)
    (cr_activation_sequence: counter) (cr_runtime: runtime_state)
and owned_runtime =
  OwnedRuntime (or_spawn_sequence: counter) (or_holder_path: "string option")
    (or_holder_pointer: "string option") (or_holder_activation_sequence: counter)
    (or_reference: instance_reference) (or_runtime: runtime_state)

abbreviation rt_runtime_id :: "runtime_state \<Rightarrow> string" where
  "rt_runtime_id r \<equiv> rc_runtime_id (rt_core r)"

abbreviation rt_definition :: "runtime_state \<Rightarrow> machine" where
  "rt_definition r \<equiv> rc_definition (rt_core r)"

abbreviation rt_status :: "runtime_state \<Rightarrow> runtime_status" where
  "rt_status r \<equiv> rc_status (rt_core r)"

abbreviation rt_active :: "runtime_state \<Rightarrow> string btree_set" where
  "rt_active r \<equiv> rc_active (rt_core r)"

abbreviation rt_variables :: "runtime_state \<Rightarrow> (string, variable_slot) btree_map" where
  "rt_variables r \<equiv> rc_variables (rt_core r)"

abbreviation rt_fault :: "runtime_state \<Rightarrow> fault_record option" where
  "rt_fault r \<equiv> rc_fault (rt_core r)"

abbreviation rt_relation :: "runtime_state \<Rightarrow> runtime_relation" where
  "rt_relation r \<equiv> rc_relation (rt_core r)"

text \<open>Updating one part of a runtime.\<close>

definition with_core :: "(runtime_core \<Rightarrow> runtime_core) \<Rightarrow> runtime_state \<Rightarrow> runtime_state" where
  "with_core f r = Runtime (f (rt_core r)) (rt_components r) (rt_owned r)"

definition with_components ::
  "(component_runtime list \<Rightarrow> component_runtime list) \<Rightarrow> runtime_state \<Rightarrow> runtime_state" where
  "with_components f r = Runtime (rt_core r) (f (rt_components r)) (rt_owned r)"

definition with_owned :: "(owned_runtime list \<Rightarrow> owned_runtime list) \<Rightarrow> runtime_state \<Rightarrow> runtime_state" where
  "with_owned f r = Runtime (rt_core r) (rt_components r) (f (rt_owned r))"

definition set_cr_runtime :: "runtime_state \<Rightarrow> component_runtime \<Rightarrow> component_runtime" where
  "set_cr_runtime r c = ComponentRuntime (cr_component_id c) (cr_pointer c) (cr_declaration_index c)
     (cr_activation_sequence c) r"

definition set_or_runtime :: "runtime_state \<Rightarrow> owned_runtime \<Rightarrow> owned_runtime" where
  "set_or_runtime r w = OwnedRuntime (or_spawn_sequence w) (or_holder_path w) (or_holder_pointer w)
     (or_holder_activation_sequence w) (or_reference w) r"

record native_aggregate =
  ag_document :: json
  ag_validated_bundle_fingerprint :: string
  ag_namespace :: string
  ag_root_instance_id :: string
  ag_creation_id :: string
  ag_migration_sequence :: counter
  ag_wire_runtime_order :: "string list"
  ag_root :: runtime_state
  ag_next_logical_step_sequence :: counter
  ag_next_output_sequence :: counter
  ag_next_acceptance_sequence :: counter
  ag_next_queue_sequence :: counter

text \<open>The code of a rejection is the string of its enum value.\<close>

record core_result =
  res_status :: result_status
  res_disposition :: "disposition option"
  res_state :: "native_aggregate option"
  res_emissions :: "emission list"
  res_fault :: "fault_record option"
  res_rejection :: "string option"

record step_fault =
  sf_code :: engine_fault
  sf_source_locator :: string

section \<open>New runtimes and the active configuration\<close>

definition new_runtime ::
  "string \<Rightarrow> machine \<Rightarrow> runtime_relation \<Rightarrow> identity_origin \<Rightarrow> target \<Rightarrow> definition_binding \<Rightarrow>
   string option \<Rightarrow> runtime_state" where
  "new_runtime runtime_id m relation origin target_identity current_definition origin_component_id =
     Runtime
       \<lparr>rc_runtime_id = runtime_id, rc_identity_origin = origin,
        rc_target_identity = target_identity, rc_current_definition = current_definition,
        rc_origin_component_id = origin_component_id, rc_machine_id = m_machine_id m,
        rc_machine_version = m_version m, rc_definition = m, rc_status = Running,
        rc_active = [], rc_variables = [],
        rc_history =
          bm_of (map (\<lambda>s. (s_path s, None))
                  (filter (\<lambda>s. s_history s \<noteq> HistoryNone) (bm_values (m_states m)))) [],
        rc_next_spawn_sequence = counter_zero, rc_next_component_activation_sequence = [],
        rc_next_state_activation_sequence = [], rc_active_state_activation_sequence = [],
        rc_fault = None, rc_relation = relation, rc_ready_mailbox = [], rc_deferred_mailbox = []\<rparr>
       [] []"

definition config :: "runtime_state \<Rightarrow> string list" where
  "config r =
     sort (filter (\<lambda>path. path \<noteq> root_path)
       (filter (\<lambda>path. \<not> (\<exists>candidate \<in> set (rt_active r).
                  candidate \<noteq> path \<and> is_descendant candidate path)) (rt_active r)))"

text \<open>\<^verbatim>\<open>sort_by_key(|path| Reverse(path_depth(path)))\<close>: deepest first, stable.\<close>

definition deepest_first :: "string list \<Rightarrow> string list" where
  "deepest_first paths = sort_key (\<lambda>p. - int (path_depth p)) paths"

text \<open>The first handler candidates of a runtime: its leaves, or the root alone.\<close>

definition candidates :: "runtime_state \<Rightarrow> string list" where
  "candidates r =
     deepest_first (if config r = [] \<and> root_path \<in> set (rt_active r) then [root_path] else config r)"

section \<open>Addressing runtimes\<close>

datatype address_segment = SegComponent string counter | SegSpawn counter

type_synonym runtime_address = "address_segment list"

fun is_component :: "string \<Rightarrow> counter \<Rightarrow> component_runtime \<Rightarrow> bool" where
  "is_component cid seq c \<longleftrightarrow> cr_component_id c = cid \<and> cr_activation_sequence c = seq"

fun is_spawn :: "counter \<Rightarrow> owned_runtime \<Rightarrow> bool" where
  "is_spawn seq w \<longleftrightarrow> or_spawn_sequence w = seq"

fun runtime_at :: "runtime_state \<Rightarrow> runtime_address \<Rightarrow> runtime_state option" where
  "runtime_at r [] = Some r"
| "runtime_at r (SegComponent cid seq # tail) =
     (case find (is_component cid seq) (rt_components r) of
        None \<Rightarrow> None | Some c \<Rightarrow> runtime_at (cr_runtime c) tail)"
| "runtime_at r (SegSpawn seq # tail) =
     (case find (is_spawn seq) (rt_owned r) of
        None \<Rightarrow> None | Some w \<Rightarrow> runtime_at (or_runtime w) tail)"

text \<open>
  \<^verbatim>\<open>runtime_at_mut\<close>: a mutable reference to the runtime at an address is the function that
  applies an update there, undefined where the code returns \<^verbatim>\<open>None\<close>.
\<close>

fun runtime_at_mut ::
  "runtime_address \<Rightarrow> (runtime_state \<Rightarrow> runtime_state) \<Rightarrow> runtime_state \<Rightarrow> runtime_state option" where
  "runtime_at_mut [] f r = Some (f r)"
| "runtime_at_mut (SegComponent cid seq # tail) f r =
     (case find (is_component cid seq) (rt_components r) of
        None \<Rightarrow> None
      | Some c \<Rightarrow>
          map_option (\<lambda>r'. with_components (update_first (is_component cid seq) (set_cr_runtime r')) r)
            (runtime_at_mut tail f (cr_runtime c)))"
| "runtime_at_mut (SegSpawn seq # tail) f r =
     (case find (is_spawn seq) (rt_owned r) of
        None \<Rightarrow> None
      | Some w \<Rightarrow>
          map_option (\<lambda>r'. with_owned (update_first (is_spawn seq) (set_or_runtime r')) r)
            (runtime_at_mut tail f (or_runtime w)))"

primrec runtime_by_id :: "string \<Rightarrow> runtime_state \<Rightarrow> runtime_state option"
  and component_by_id :: "string \<Rightarrow> component_runtime \<Rightarrow> runtime_state option"
  and owned_by_id :: "string \<Rightarrow> owned_runtime \<Rightarrow> runtime_state option"
where
  "runtime_by_id rid (Runtime c cs ws) =
     (if rc_runtime_id c = rid then Some (Runtime c cs ws)
      else (case find_map (\<lambda>x. x) (map (component_by_id rid) cs) of
              Some r \<Rightarrow> Some r
            | None \<Rightarrow> find_map (\<lambda>x. x) (map (owned_by_id rid) ws)))"
| "component_by_id rid (ComponentRuntime cid p i seq r) = runtime_by_id rid r"
| "owned_by_id rid (OwnedRuntime seq hp hptr ha rf r) = runtime_by_id rid r"

primrec find_spawn_address :: "instance_reference \<Rightarrow> runtime_state \<Rightarrow> runtime_address option"
  and spawn_in_component :: "instance_reference \<Rightarrow> component_runtime \<Rightarrow> runtime_address option"
  and spawn_in_owned :: "instance_reference \<Rightarrow> owned_runtime \<Rightarrow> runtime_address option"
where
  "find_spawn_address rf (Runtime c cs ws) =
     (if rc_status c \<noteq> Running then None
      else (case find_map (\<lambda>x. x) (map (spawn_in_owned rf) ws) of
              Some a \<Rightarrow> Some a
            | None \<Rightarrow> find_map (\<lambda>x. x) (map (spawn_in_component rf) cs)))"
| "spawn_in_component rf (ComponentRuntime cid p i seq r) =
     map_option ((#) (SegComponent cid seq)) (find_spawn_address rf r)"
| "spawn_in_owned rf (OwnedRuntime seq hp hptr ha rf' r) =
     (if rf' = rf then Some [SegSpawn seq]
      else map_option ((#) (SegSpawn seq)) (find_spawn_address rf r))"

primrec find_component_address ::
    "string \<Rightarrow> string \<Rightarrow> string \<Rightarrow> counter \<Rightarrow> runtime_state \<Rightarrow> runtime_address option"
  and component_in_component ::
    "string \<Rightarrow> string \<Rightarrow> string \<Rightarrow> counter \<Rightarrow> component_runtime \<Rightarrow> runtime_address option"
  and component_in_owned ::
    "string \<Rightarrow> string \<Rightarrow> string \<Rightarrow> counter \<Rightarrow> owned_runtime \<Rightarrow> runtime_address option"
where
  "find_component_address owner cid rid seq (Runtime c cs ws) =
     (if rc_status c \<noteq> Running then None
      else if rc_runtime_id c = owner then
        map_option (\<lambda>x. [SegComponent (cr_component_id x) (cr_activation_sequence x)])
          (find (\<lambda>x. cr_component_id x = cid \<and> cr_activation_sequence x = seq \<and>
                     rt_runtime_id (cr_runtime x) = rid) cs)
      else (case find_map (\<lambda>x. x) (map (component_in_component owner cid rid seq) cs) of
              Some a \<Rightarrow> Some a
            | None \<Rightarrow> find_map (\<lambda>x. x) (map (component_in_owned owner cid rid seq) ws)))"
| "component_in_component owner cid rid seq (ComponentRuntime cid' p i seq' r) =
     map_option ((#) (SegComponent cid' seq')) (find_component_address owner cid rid seq r)"
| "component_in_owned owner cid rid seq (OwnedRuntime seq' hp hptr ha rf r) =
     map_option ((#) (SegSpawn seq')) (find_component_address owner cid rid seq r)"

definition resolve_delivery_target ::
  "native_aggregate \<Rightarrow> target \<Rightarrow> dispatch_rejection + runtime_address" where
  "resolve_delivery_target a t =
     (case t of
        RootTarget root_instance_id root_runtime_id \<Rightarrow>
          if root_instance_id = ag_root_instance_id a \<and> root_runtime_id = rt_runtime_id (ag_root a)
          then Inr [] else Inl InvalidInstanceTarget
      | SpawnedTarget rf \<Rightarrow>
          (case find_spawn_address rf (ag_root a) of
             Some addr \<Rightarrow> Inr addr | None \<Rightarrow> Inl InvalidInstanceTarget)
      | ComponentPlacement root_instance_id owner cid rid seq \<Rightarrow>
          if root_instance_id = ag_root_instance_id a then
            (case find_component_address owner cid rid seq (ag_root a) of
               Some addr \<Rightarrow> Inr addr | None \<Rightarrow> Inl InactiveComponentTarget)
          else Inl InactiveComponentTarget
      | External \<Rightarrow> Inl InvalidInstanceTarget)"

text \<open>
  \<^verbatim>\<open>structural_recall_eligible\<close>: would the event meet a handler before a deferral on the way
  from the leaves to the root?
\<close>

fun recall_from ::
  "machine \<Rightarrow> nat \<Rightarrow> string \<Rightarrow> string option \<Rightarrow> string list \<Rightarrow>
   (bool option \<times> string list, 'e) outcome" where
  "recall_from m n event None visited = Ok (None, visited)"
| "recall_from m 0 event (Some path) visited = OutOfFuel"
| "recall_from m (Suc n) event (Some path) visited =
     obind (state_at m path) (\<lambda>s.
       if path \<in> set visited then recall_from m n event (s_parent s) visited
       else if bm_has (s_handlers s) event then Ok (Some True, path # visited)
       else if event \<in> set (s_deferred_events s) then Ok (Some False, path # visited)
       else recall_from m n event (s_parent s) (path # visited))"

fun recall_leaves :: "machine \<Rightarrow> string \<Rightarrow> string list \<Rightarrow> string list \<Rightarrow> (bool, 'e) outcome" where
  "recall_leaves m event [] visited = Ok True"
| "recall_leaves m event (leaf # leaves) visited =
     obind (recall_from m (walk_fuel m) event (Some leaf) visited) (\<lambda>(decision, visited').
       case decision of Some b \<Rightarrow> Ok b | None \<Rightarrow> recall_leaves m event leaves visited')"

definition structural_recall_eligible :: "runtime_state \<Rightarrow> string \<Rightarrow> (bool, 'e) outcome" where
  "structural_recall_eligible r event = recall_leaves (rt_definition r) event (candidates r) []"

definition deferred_event_capacity :: "runtime_state \<Rightarrow> (i64 option, 'e) outcome" where
  "deferred_event_capacity r =
     obind (state_at (rt_definition r) root_path) (\<lambda>s. Ok (s_deferred_event_capacity s))"

section \<open>Addresses as lenses\<close>

text \<open>
  What the step and fault paths rely on when they change one runtime of the tree: the update
  is defined exactly at present addresses, is seen there, composes, and changes nothing at an
  address that lies on another branch.
\<close>

locale addressed_store =
  fixes read :: "'s \<Rightarrow> 'a \<Rightarrow> 'v option"
    and modify :: "'a \<Rightarrow> ('v \<Rightarrow> 'v) \<Rightarrow> 's \<Rightarrow> 's option"
    and apart :: "'a \<Rightarrow> 'a \<Rightarrow> bool"
  assumes modify_None: "modify a f s = None \<longleftrightarrow> read s a = None"
    and read_modify: "modify a f s = Some s' \<Longrightarrow> read s' a = map_option f (read s a)"
    and read_apart: "modify a f s = Some s' \<Longrightarrow> apart a b \<Longrightarrow> read s' b = read s b"
    and modify_modify: "modify a f s = Some s' \<Longrightarrow> modify a g s' = modify a (g \<circ> f) s"
    and modify_same: "read s a = Some v \<Longrightarrow> f v = v \<Longrightarrow> modify a f s = Some s"
begin

lemma modify_Some:
  assumes "read s a = Some v"
  obtains s' where "modify a f s = Some s'" "read s' a = Some (f v)"
proof -
  from assms modify_None [of a f s] obtain s' where s': "modify a f s = Some s'" by auto
  from read_modify [OF s'] assms have "read s' a = Some (f v)" by simp
  with s' show thesis by (rule that)
qed

lemma modify_read: "modify a f s = Some s' \<Longrightarrow> \<exists>v. read s a = Some v \<and> read s' a = Some (f v)"
  using modify_None [of a f s] read_modify [of a f s s'] by (cases "read s a") auto

lemma overwrite: "modify a (\<lambda>_. v) s = Some s' \<Longrightarrow> modify a (\<lambda>_. w) s' = modify a (\<lambda>_. w) s"
  using modify_modify [of a "\<lambda>_. v" s s' "\<lambda>_. w"] by (simp add: comp_def)

end

lemma with_components_simps [simp]:
  "rt_core (with_components f r) = rt_core r" "rt_components (with_components f r) = f (rt_components r)"
  "rt_owned (with_components f r) = rt_owned r"
  by (simp_all add: with_components_def)

lemma with_owned_simps [simp]:
  "rt_core (with_owned f r) = rt_core r" "rt_components (with_owned f r) = rt_components r"
  "rt_owned (with_owned f r) = f (rt_owned r)"
  by (simp_all add: with_owned_def)

lemma with_core_simps [simp]:
  "rt_core (with_core f r) = f (rt_core r)" "rt_components (with_core f r) = rt_components r"
  "rt_owned (with_core f r) = rt_owned r"
  by (simp_all add: with_core_def)

lemma set_cr_runtime_simps [simp]:
  "cr_component_id (set_cr_runtime r c) = cr_component_id c" "cr_pointer (set_cr_runtime r c) = cr_pointer c"
  "cr_declaration_index (set_cr_runtime r c) = cr_declaration_index c"
  "cr_activation_sequence (set_cr_runtime r c) = cr_activation_sequence c"
  "cr_runtime (set_cr_runtime r c) = r" "set_cr_runtime r (set_cr_runtime r' c) = set_cr_runtime r c"
  "set_cr_runtime (cr_runtime c) c = c"
  by (simp_all add: set_cr_runtime_def)

lemma set_or_runtime_simps [simp]:
  "or_spawn_sequence (set_or_runtime r w) = or_spawn_sequence w"
  "or_holder_path (set_or_runtime r w) = or_holder_path w"
  "or_holder_pointer (set_or_runtime r w) = or_holder_pointer w"
  "or_holder_activation_sequence (set_or_runtime r w) = or_holder_activation_sequence w"
  "or_reference (set_or_runtime r w) = or_reference w"
  "or_runtime (set_or_runtime r w) = r" "set_or_runtime r (set_or_runtime r' w) = set_or_runtime r w"
  "set_or_runtime (or_runtime w) w = w"
  by (simp_all add: set_or_runtime_def)

lemma find_SomeD: "find p xs = Some x \<Longrightarrow> x \<in> set xs \<and> p x"
  by (induction xs) (auto split: if_splits)

lemma update_first_update_first:
  "(\<And>x. p x \<Longrightarrow> p (f x)) \<Longrightarrow> update_first p g (update_first p f xs) = update_first p (g \<circ> f) xs"
  by (induction xs) auto

lemma update_first_same: "find p xs = Some x \<Longrightarrow> f x = x \<Longrightarrow> update_first p f xs = xs"
  by (induction xs) (auto split: if_splits)

lemma find_component_update [simp]:
  "find (is_component cid seq) (update_first (is_component cid seq) (set_cr_runtime r) cs) =
   map_option (set_cr_runtime r) (find (is_component cid seq) cs)"
  by (rule find_update_first) simp

lemma find_spawn_update [simp]:
  "find (is_spawn seq) (update_first (is_spawn seq) (set_or_runtime r) ws) =
   map_option (set_or_runtime r) (find (is_spawn seq) ws)"
  by (rule find_update_first) simp

lemma update_component_twice [simp]:
  "update_first (is_component cid seq) (set_cr_runtime r)
     (update_first (is_component cid seq) (set_cr_runtime r') cs) =
   update_first (is_component cid seq) (set_cr_runtime r) cs"
  by (subst update_first_update_first) (simp_all add: comp_def)

lemma update_spawn_twice [simp]:
  "update_first (is_spawn seq) (set_or_runtime r) (update_first (is_spawn seq) (set_or_runtime r') ws) =
   update_first (is_spawn seq) (set_or_runtime r) ws"
  by (subst update_first_update_first) (simp_all add: comp_def)

lemma runtime_at_mut_None: "runtime_at_mut a f r = None \<longleftrightarrow> runtime_at r a = None"
  by (induction a f r rule: runtime_at_mut.induct) (auto split: option.splits)

lemma runtime_at_mut_read: "runtime_at_mut a f r = Some r' \<Longrightarrow> runtime_at r' a = map_option f (runtime_at r a)"
  by (induction a f r arbitrary: r' rule: runtime_at_mut.induct) (auto split: option.splits)

lemma runtime_at_mut_twice:
  "runtime_at_mut a f r = Some r' \<Longrightarrow> runtime_at_mut a g r' = runtime_at_mut a (g \<circ> f) r"
proof (induction a f r arbitrary: r' rule: runtime_at_mut.induct)
  case (2 cid seq tail f r)
  then show ?case
    by (auto simp: with_components_def comp_def split: option.splits
        intro!: option.map_cong)
next
  case (3 seq tail f r)
  then show ?case
    by (auto simp: with_owned_def comp_def split: option.splits
        intro!: option.map_cong)
qed simp

lemma runtime_at_mut_same: "runtime_at r a = Some v \<Longrightarrow> f v = v \<Longrightarrow> runtime_at_mut a f r = Some r"
proof (induction r a rule: runtime_at.induct)
  case (2 r cid seq tail)
  then show ?case
    by (auto simp: with_components_def update_first_same split: option.splits)
next
  case (3 r seq tail)
  then show ?case
    by (auto simp: with_owned_def update_first_same split: option.splits)
qed simp

definition addresses_apart :: "runtime_address \<Rightarrow> runtime_address \<Rightarrow> bool" where
  "addresses_apart a b \<longleftrightarrow> \<not> prefix a b \<and> \<not> prefix b a"

lemma runtime_at_mut_apart:
  "runtime_at_mut a f r = Some r' \<Longrightarrow> addresses_apart a b \<Longrightarrow> runtime_at r' b = runtime_at r b"
proof (induction a f r arbitrary: r' b rule: runtime_at_mut.induct)
  case (2 cid seq tail f r)
  then obtain c r1 where c: "find (is_component cid seq) (rt_components r) = Some c"
    "runtime_at_mut tail f (cr_runtime c) = Some r1"
    "r' = with_components (update_first (is_component cid seq) (set_cr_runtime r1)) r"
    by (auto split: option.splits)
  show ?case
  proof (cases b)
    case (Cons s b')
    show ?thesis
    proof (cases "s = SegComponent cid seq")
      case True
      with "2.prems"(2) Cons have "addresses_apart tail b'" by (simp add: addresses_apart_def)
      with "2.IH" [OF c(1) c(2)] c Cons True show ?thesis by simp
    next
      case False
      then have "find (is_component cid' seq') (update_first (is_component cid seq) (set_cr_runtime r1) (rt_components r))
          = find (is_component cid' seq') (rt_components r)" if "s = SegComponent cid' seq'" for cid' seq'
        using that by (intro find_update_first_other) auto
      then show ?thesis using c(3) Cons by (cases s) simp_all
    qed
  qed (use "2.prems"(2) in \<open>simp add: addresses_apart_def\<close>)
next
  case (3 seq tail f r)
  then obtain w r1 where c: "find (is_spawn seq) (rt_owned r) = Some w"
    "runtime_at_mut tail f (or_runtime w) = Some r1"
    "r' = with_owned (update_first (is_spawn seq) (set_or_runtime r1)) r"
    by (auto split: option.splits)
  show ?case
  proof (cases b)
    case (Cons s b')
    show ?thesis
    proof (cases "s = SegSpawn seq")
      case True
      with "3.prems"(2) Cons have "addresses_apart tail b'" by (simp add: addresses_apart_def)
      with "3.IH" [OF c(1) c(2)] c Cons True show ?thesis by simp
    next
      case False
      then have "find (is_spawn seq') (update_first (is_spawn seq) (set_or_runtime r1) (rt_owned r))
          = find (is_spawn seq') (rt_owned r)" if "s = SegSpawn seq'" for seq'
        using that by (intro find_update_first_other) auto
      then show ?thesis using c(3) Cons by (cases s) simp_all
    qed
  qed (use "3.prems"(2) in \<open>simp add: addresses_apart_def\<close>)
qed (simp add: addresses_apart_def)

interpretation tree: addressed_store runtime_at runtime_at_mut addresses_apart
  by unfold_locales
    (fact runtime_at_mut_None runtime_at_mut_read runtime_at_mut_apart runtime_at_mut_twice runtime_at_mut_same)+

section \<open>Resolution finds the addressed runtime\<close>

text \<open>
  \<open>live_at r a x\<close>: the runtime \<open>x\<close> is reached from \<open>r\<close> along \<open>a\<close> through running owners.
\<close>

inductive live_at :: "runtime_state \<Rightarrow> runtime_address \<Rightarrow> runtime_state \<Rightarrow> bool" where
  live_here: "live_at r [] r"
| live_component: "rt_status r = Running \<Longrightarrow> c \<in> set (rt_components r) \<Longrightarrow> live_at (cr_runtime c) a x \<Longrightarrow>
    live_at r (SegComponent (cr_component_id c) (cr_activation_sequence c) # a) x"
| live_owned: "rt_status r = Running \<Longrightarrow> w \<in> set (rt_owned r) \<Longrightarrow> live_at (or_runtime w) a x \<Longrightarrow>
    live_at r (SegSpawn (or_spawn_sequence w) # a) x"

inductive_cases live_at_NilE: "live_at r [] x"
inductive_cases live_at_ConsE: "live_at r (s # a) x"

primrec sequences_unique :: "runtime_state \<Rightarrow> bool"
  and component_unique :: "component_runtime \<Rightarrow> bool"
  and owned_unique :: "owned_runtime \<Rightarrow> bool"
where
  "sequences_unique (Runtime c cs ws) \<longleftrightarrow>
     distinct (map (\<lambda>x. (cr_component_id x, cr_activation_sequence x)) cs) \<and>
     distinct (map or_spawn_sequence ws) \<and>
     list_all (\<lambda>x. x) (map component_unique cs) \<and> list_all (\<lambda>x. x) (map owned_unique ws)"
| "component_unique (ComponentRuntime cid p i seq r) \<longleftrightarrow> sequences_unique r"
| "owned_unique (OwnedRuntime seq hp hptr ha rf r) \<longleftrightarrow> sequences_unique r"

lemma find_map_map [simp]: "find_map (\<lambda>x. x) (map f xs) = find_map f xs"
  by (induction xs) (auto split: option.splits)

lemma find_distinct: "distinct (map f xs) \<Longrightarrow> x \<in> set xs \<Longrightarrow> find (\<lambda>y. f y = f x) xs = Some x"
  by (induction xs) auto

lemma unique_children:
  assumes "sequences_unique r"
  shows "c \<in> set (rt_components r) \<Longrightarrow> sequences_unique (cr_runtime c) \<and>
      find (is_component (cr_component_id c) (cr_activation_sequence c)) (rt_components r) = Some c"
    and "w \<in> set (rt_owned r) \<Longrightarrow> sequences_unique (or_runtime w) \<and>
      find (is_spawn (or_spawn_sequence w)) (rt_owned r) = Some w"
proof -
  obtain k cs ws where r: "r = Runtime k cs ws" by (cases r)
  have eqs: "component_unique c = sequences_unique (cr_runtime c)"
    "owned_unique w = sequences_unique (or_runtime w)" for c w by (cases c, simp) (cases w, simp)
  have preds: "is_component (cr_component_id c) (cr_activation_sequence c) =
      (\<lambda>y. (cr_component_id y, cr_activation_sequence y) = (cr_component_id c, cr_activation_sequence c))"
    "is_spawn (or_spawn_sequence w) = (\<lambda>y. or_spawn_sequence y = or_spawn_sequence w)" for c w
    by (auto intro!: ext)
  show "c \<in> set (rt_components r) \<Longrightarrow> sequences_unique (cr_runtime c) \<and>
      find (is_component (cr_component_id c) (cr_activation_sequence c)) (rt_components r) = Some c"
    using assms unfolding r preds
    by (auto simp: list_all_iff eqs intro!: find_distinct [where f = "\<lambda>x. (cr_component_id x, cr_activation_sequence x)", simplified])
  show "w \<in> set (rt_owned r) \<Longrightarrow> sequences_unique (or_runtime w) \<and>
      find (is_spawn (or_spawn_sequence w)) (rt_owned r) = Some w"
    using assms unfolding r preds by (auto simp: list_all_iff eqs intro!: find_distinct)
qed

lemma live_at_runtime_at: "live_at r a x \<Longrightarrow> sequences_unique r \<Longrightarrow> runtime_at r a = Some x"
  by (induction rule: live_at.induct) (auto simp del: is_component.simps is_spawn.simps dest: unique_children)

lemma live_at_append_owned:
  "live_at r b x \<Longrightarrow> rt_status x = Running \<Longrightarrow> w \<in> set (rt_owned x) \<Longrightarrow>
   live_at r (b @ [SegSpawn (or_spawn_sequence w)]) (or_runtime w)"
  by (induction rule: live_at.induct) (auto intro: live_at.intros)

lemma live_at_append_component:
  "live_at r b x \<Longrightarrow> rt_status x = Running \<Longrightarrow> c \<in> set (rt_components x) \<Longrightarrow>
   live_at r (b @ [SegComponent (cr_component_id c) (cr_activation_sequence c)]) (cr_runtime c)"
  by (induction rule: live_at.induct) (auto intro: live_at.intros)

definition spawn_placed :: "runtime_state \<Rightarrow> instance_reference \<Rightarrow> runtime_address \<Rightarrow> bool" where
  "spawn_placed r rf a \<longleftrightarrow>
     (\<exists>b x w. live_at r b x \<and> rt_status x = Running \<and> w \<in> set (rt_owned x) \<and>
              or_reference w = rf \<and> a = b @ [SegSpawn (or_spawn_sequence w)])"

lemma spawn_placed_component:
  "spawn_placed (cr_runtime c) rf a \<Longrightarrow> rt_status r = Running \<Longrightarrow> c \<in> set (rt_components r) \<Longrightarrow>
   spawn_placed r rf (SegComponent (cr_component_id c) (cr_activation_sequence c) # a)"
  unfolding spawn_placed_def by (metis append_Cons live_component)

lemma spawn_placed_owned:
  "spawn_placed (or_runtime w) rf a \<Longrightarrow> rt_status r = Running \<Longrightarrow> w \<in> set (rt_owned r) \<Longrightarrow>
   spawn_placed r rf (SegSpawn (or_spawn_sequence w) # a)"
  unfolding spawn_placed_def by (metis append_Cons live_owned)

lemma spawn_placed_here:
  "rt_status r = Running \<Longrightarrow> w \<in> set (rt_owned r) \<Longrightarrow> spawn_placed r (or_reference w) [SegSpawn (or_spawn_sequence w)]"
  unfolding spawn_placed_def by (metis append_Nil live_here)

lemma find_spawn_address_placed:
  "find_spawn_address rf r = Some a \<Longrightarrow> spawn_placed r rf a"
  "spawn_in_component rf c = Some a \<Longrightarrow> \<exists>b. spawn_placed (cr_runtime c) rf b \<and>
     a = SegComponent (cr_component_id c) (cr_activation_sequence c) # b"
  "spawn_in_owned rf w = Some a \<Longrightarrow> or_reference w = rf \<and> a = [SegSpawn (or_spawn_sequence w)] \<or>
     (\<exists>b. spawn_placed (or_runtime w) rf b \<and> a = SegSpawn (or_spawn_sequence w) # b)"
proof (induction r and c and w arbitrary: a and a and a)
  case (Runtime k cs ws)
  then have run: "rt_status (Runtime k cs ws) = Running" by (auto split: if_splits)
  from Runtime.prems run consider (w) w where "w \<in> set ws" "spawn_in_owned rf w = Some a"
    | (c) c where "c \<in> set cs" "spawn_in_component rf c = Some a"
    by (auto split: option.splits dest!: find_map_SomeD)
  then show ?case
  proof cases
    case w
    with Runtime.IH(2) [OF w(1) w(2)] run show ?thesis
      by (auto intro: spawn_placed_here [of "Runtime k cs ws"] spawn_placed_owned)
  next
    case c
    with Runtime.IH(1) [OF c(1) c(2)] run show ?thesis by (auto intro: spawn_placed_component)
  qed
qed (auto split: if_splits)

lemma find_spawn_address_unfold:
  "find_spawn_address rf r =
     (if rt_status r \<noteq> Running then None
      else (case find_map (spawn_in_owned rf) (rt_owned r) of
              Some a \<Rightarrow> Some a
            | None \<Rightarrow> find_map (spawn_in_component rf) (rt_components r)))"
  by (cases r) (auto split: option.splits)

lemma find_spawn_address_complete:
  "live_at r b x \<Longrightarrow> rt_status x = Running \<Longrightarrow> w \<in> set (rt_owned x) \<Longrightarrow> or_reference w = rf \<Longrightarrow>
   find_spawn_address rf r \<noteq> None"
proof (induction rule: live_at.induct)
  case (live_here r)
  moreover have "spawn_in_owned rf w \<noteq> None" using live_here by (cases w) simp
  ultimately show ?case
    by (subst find_spawn_address_unfold) (auto simp: find_map_None_iff split: option.splits)
next
  case (live_component r c a x)
  moreover have "spawn_in_component rf c \<noteq> None" using live_component by (cases c) auto
  ultimately have "find_map (spawn_in_component rf) (rt_components r) \<noteq> None"
    by (auto simp: find_map_None_iff)
  with live_component show ?case
    by (subst find_spawn_address_unfold) (auto split: option.splits)
next
  case (live_owned r w' a x)
  moreover have "spawn_in_owned rf w' \<noteq> None" using live_owned by (cases w') auto
  ultimately show ?case
    by (subst find_spawn_address_unfold) (auto simp: find_map_None_iff split: option.splits)
qed

definition component_placed ::
  "runtime_state \<Rightarrow> string \<Rightarrow> string \<Rightarrow> string \<Rightarrow> counter \<Rightarrow> runtime_address \<Rightarrow> bool" where
  "component_placed r owner cid rid seq a \<longleftrightarrow>
     (\<exists>b x c. live_at r b x \<and> rt_status x = Running \<and> rt_runtime_id x = owner \<and>
              c \<in> set (rt_components x) \<and> cr_component_id c = cid \<and>
              rt_runtime_id (cr_runtime c) = rid \<and> cr_activation_sequence c = seq \<and>
              a = b @ [SegComponent (cr_component_id c) (cr_activation_sequence c)])"

lemma component_placed_component:
  "component_placed (cr_runtime c) owner cid rid seq a \<Longrightarrow> rt_status r = Running \<Longrightarrow>
   c \<in> set (rt_components r) \<Longrightarrow>
   component_placed r owner cid rid seq (SegComponent (cr_component_id c) (cr_activation_sequence c) # a)"
  unfolding component_placed_def by (metis append_Cons live_component)

lemma component_placed_owned:
  "component_placed (or_runtime w) owner cid rid seq a \<Longrightarrow> rt_status r = Running \<Longrightarrow>
   w \<in> set (rt_owned r) \<Longrightarrow>
   component_placed r owner cid rid seq (SegSpawn (or_spawn_sequence w) # a)"
  unfolding component_placed_def by (metis append_Cons live_owned)

lemma component_placed_here:
  "rt_status r = Running \<Longrightarrow> rt_runtime_id r = owner \<Longrightarrow> c \<in> set (rt_components r) \<Longrightarrow>
   cr_component_id c = cid \<Longrightarrow> rt_runtime_id (cr_runtime c) = rid \<Longrightarrow> cr_activation_sequence c = seq \<Longrightarrow>
   component_placed r owner cid rid seq [SegComponent cid seq]"
  unfolding component_placed_def by (metis append_Nil live_here)

lemma find_component_address_placed:
  "find_component_address owner cid rid seq r = Some a \<Longrightarrow> component_placed r owner cid rid seq a"
  "component_in_component owner cid rid seq c = Some a \<Longrightarrow>
     \<exists>b. component_placed (cr_runtime c) owner cid rid seq b \<and>
         a = SegComponent (cr_component_id c) (cr_activation_sequence c) # b"
  "component_in_owned owner cid rid seq w = Some a \<Longrightarrow>
     \<exists>b. component_placed (or_runtime w) owner cid rid seq b \<and> a = SegSpawn (or_spawn_sequence w) # b"
proof (induction r and c and w arbitrary: a and a and a)
  case (Runtime k cs ws)
  then have run: "rt_status (Runtime k cs ws) = Running" by (auto split: if_splits)
  from Runtime.prems run consider
      (here) c where "rc_runtime_id k = owner" "c \<in> set cs" "cr_component_id c = cid"
        "cr_activation_sequence c = seq" "rt_runtime_id (cr_runtime c) = rid" "a = [SegComponent cid seq]"
    | (w) w where "w \<in> set ws" "component_in_owned owner cid rid seq w = Some a"
    | (c) c where "c \<in> set cs" "component_in_component owner cid rid seq c = Some a"
    by (auto split: option.splits if_splits dest!: find_map_SomeD find_SomeD)
  then show ?case
  proof cases
    case here
    with run show ?thesis by (auto intro!: component_placed_here)
  next
    case w
    with Runtime.IH(2) [OF w(1) w(2)] run show ?thesis by (auto intro: component_placed_owned)
  next
    case c
    with Runtime.IH(1) [OF c(1) c(2)] run show ?thesis by (auto intro: component_placed_component)
  qed
qed auto

lemma live_at_owner:
  "live_at r (b @ seg # c) x \<Longrightarrow> \<exists>y. live_at r b y \<and> rt_status y = Running"
proof (induction b arbitrary: r)
  case Nil
  then show ?case by (auto elim!: live_at_ConsE intro: live_at.intros)
next
  case (Cons s b)
  then show ?case by (auto elim!: live_at_ConsE dest!: Cons.IH intro: live_at.intros)
qed

text \<open>Every runtime above an address is present and running.\<close>

definition owners_running :: "runtime_state \<Rightarrow> runtime_address \<Rightarrow> bool" where
  "owners_running r addr \<longleftrightarrow> (\<forall>b. strict_prefix b addr \<longrightarrow> (\<exists>x. runtime_at r b = Some x \<and> rt_status x = Running))"

lemma live_owners_running: "live_at r addr x \<Longrightarrow> sequences_unique r \<Longrightarrow> owners_running r addr"
  unfolding owners_running_def
proof (intro allI impI)
  fix b
  assume live: "live_at r addr x" "sequences_unique r" and "strict_prefix b addr"
  then obtain seg c where "addr = b @ seg # c" by (auto elim: strict_prefixE')
  with live live_at_owner show "\<exists>x. runtime_at r b = Some x \<and> rt_status x = Running"
    by (blast dest: live_at_runtime_at)
qed

text \<open>What a target promises of the runtime it resolves to.\<close>

definition target_names :: "native_aggregate \<Rightarrow> target \<Rightarrow> runtime_address \<Rightarrow> runtime_state \<Rightarrow> bool" where
  "target_names a t addr r \<longleftrightarrow>
     (case t of
        RootTarget root_instance_id root_runtime_id \<Rightarrow>
          addr = [] \<and> root_instance_id = ag_root_instance_id a \<and> rt_runtime_id r = root_runtime_id
      | SpawnedTarget rf \<Rightarrow>
          (\<exists>b x w. addr = b @ [SegSpawn (or_spawn_sequence w)] \<and> runtime_at (ag_root a) b = Some x \<and>
             rt_status x = Running \<and> w \<in> set (rt_owned x) \<and> or_reference w = rf \<and> r = or_runtime w)
      | ComponentPlacement root_instance_id owner cid rid seq \<Rightarrow>
          root_instance_id = ag_root_instance_id a \<and>
          (\<exists>b x c. addr = b @ [SegComponent cid seq] \<and> runtime_at (ag_root a) b = Some x \<and>
             rt_status x = Running \<and> rt_runtime_id x = owner \<and> c \<in> set (rt_components x) \<and>
             cr_component_id c = cid \<and> cr_activation_sequence c = seq \<and>
             rt_runtime_id r = rid \<and> r = cr_runtime c)
      | External \<Rightarrow> False)"

text \<open>
  C36: in an aggregate whose sequence numbers are unique, a delivery target that resolves, resolves
  to an address that is present and holds the runtime the target names, and every runtime above
  it, from the root down to the direct owner, is running.
\<close>

theorem resolve_delivery_target_sound:
  assumes u: "sequences_unique (ag_root a)" and res: "resolve_delivery_target a t = Inr addr"
  shows "\<exists>r. runtime_at (ag_root a) addr = Some r \<and> target_names a t addr r \<and> owners_running (ag_root a) addr"
proof (cases t)
  case (SpawnedTarget rf)
  then have "spawn_placed (ag_root a) rf addr"
    using res by (auto simp: resolve_delivery_target_def split: option.splits intro: find_spawn_address_placed)
  then obtain b x w where p: "live_at (ag_root a) b x" "rt_status x = Running" "w \<in> set (rt_owned x)"
    "or_reference w = rf" "addr = b @ [SegSpawn (or_spawn_sequence w)]"
    by (auto simp: spawn_placed_def)
  note live = live_at_append_owned [OF p(1-3)]
  from live_at_runtime_at [OF p(1) u] live_at_runtime_at [OF live u] live_owners_running [OF live u]
  show ?thesis using p SpawnedTarget by (auto simp: target_names_def)
next
  case (ComponentPlacement i owner cid rid seq)
  then have "i = ag_root_instance_id a" "component_placed (ag_root a) owner cid rid seq addr"
    using res by (auto simp: resolve_delivery_target_def split: option.splits if_splits
        intro: find_component_address_placed)
  then obtain b x c where p: "live_at (ag_root a) b x" "rt_status x = Running" "c \<in> set (rt_components x)"
    "rt_runtime_id x = owner" "cr_component_id c = cid" "rt_runtime_id (cr_runtime c) = rid"
    "cr_activation_sequence c = seq" "addr = b @ [SegComponent (cr_component_id c) (cr_activation_sequence c)]"
    "i = ag_root_instance_id a"
    by (auto simp: component_placed_def)
  note live = live_at_append_component [OF p(1-3)]
  from live_at_runtime_at [OF p(1) u] live_at_runtime_at [OF live u] live_owners_running [OF live u]
  show ?thesis using p ComponentPlacement by (auto simp: target_names_def)
qed (use res in \<open>auto simp: resolve_delivery_target_def target_names_def owners_running_def split: if_splits\<close>)

text \<open>
  An instance reference is refused exactly when no running owner, reached through running
  owners, holds an instance under that reference.
\<close>

theorem spawned_target_refused_iff:
  "resolve_delivery_target a (SpawnedTarget rf) = Inl InvalidInstanceTarget \<longleftrightarrow>
     \<not> (\<exists>b x w. live_at (ag_root a) b x \<and> rt_status x = Running \<and> w \<in> set (rt_owned x) \<and>
                or_reference w = rf)"
proof -
  have "find_spawn_address rf (ag_root a) \<noteq> None \<longleftrightarrow>
      (\<exists>b x w. live_at (ag_root a) b x \<and> rt_status x = Running \<and> w \<in> set (rt_owned x) \<and> or_reference w = rf)"
    using find_spawn_address_complete find_spawn_address_placed(1)
    unfolding spawn_placed_def by (metis (no_types, lifting) not_None_eq)
  then show ?thesis by (auto simp: resolve_delivery_target_def split: option.splits)
qed

text \<open>An aggregate with one spawned instance, for concrete evaluations.\<close>

definition sample_binding :: definition_binding where
  "sample_binding = \<lparr>db_validated_bundle_fingerprint = ''f'',
     db_machine = \<lparr>mi_namespace = ''n'', mi_machine_id = ''m'', mi_machine_version = 1,
                   mi_root_definition_pointer = ''/machines/0/root''\<rparr>\<rparr>"

definition sample_reference :: instance_reference where
  "sample_reference = \<lparr>ref_root_instance_id = ''i'', ref_instance_id = ''s'', ref_machine_id = ''m'',
     ref_machine_version = 1\<rparr>"

definition sample_child :: runtime_state where
  "sample_child = new_runtime ''s'' sample_machine
     (RelSpawned ''r'' (RootTarget ''i'' ''r'') 0 ''/spawn'' sample_reference None None 0)
     (OriginSpawned sample_binding ''r'' ''/spawn'' 0) (SpawnedTarget sample_reference) sample_binding None"

definition sample_root :: runtime_state where
  "sample_root = with_owned (\<lambda>_. [OwnedRuntime 0 None None 0 sample_reference sample_child])
     (new_runtime ''r'' sample_machine RelRoot (OriginRoot sample_binding ''i'')
        (RootTarget ''i'' ''r'') sample_binding None)"

definition sample_aggregate :: native_aggregate where
  "sample_aggregate = \<lparr>ag_document = JNull, ag_validated_bundle_fingerprint = ''f'', ag_namespace = ''n'',
     ag_root_instance_id = ''i'', ag_creation_id = ''c'', ag_migration_sequence = 0,
     ag_wire_runtime_order = [''r''], ag_root = sample_root, ag_next_logical_step_sequence = 1,
     ag_next_output_sequence = 0, ag_next_acceptance_sequence = 0, ag_next_queue_sequence = 0\<rparr>"

lemmas sample_defs =
  sample_aggregate_def sample_root_def sample_child_def sample_reference_def sample_binding_def
  new_runtime_def with_owned_def

theorem resolve_delivery_target_sound_witness:
  "\<exists>r. runtime_at (ag_root sample_aggregate) [SegSpawn 0] = Some r \<and>
     target_names sample_aggregate (SpawnedTarget sample_reference) [SegSpawn 0] r \<and>
     owners_running (ag_root sample_aggregate) [SegSpawn 0]"
  by (rule resolve_delivery_target_sound)
    (simp_all add: sample_defs resolve_delivery_target_def)

end
