(* ===== verification/Identity.thy ===== *)
theory Identity
  imports Runtime_State
begin

text \<open>
  Identities: canonical JSON text and its hash (\<^verbatim>\<open>compile.rs\<close>), and the identities of
  runtimes, causes, events and effects that \<^verbatim>\<open>runtime.rs\<close> derives from it.  The digest is
  the SHA-256 of the engine; what is proved is that two different preimages never give the
  same text, so that equal identities of different things are collisions of the digest.
\<close>

section \<open>Canonical text\<close>

text \<open>\<^verbatim>\<open>serde_json::to_string\<close> of a string.\<close>

definition escape_char :: "char \<Rightarrow> string" where
  "escape_char c =
     (let n = of_char c :: nat in
      if c = CHR 0x22 then [CHR 0x5C, CHR 0x22]
      else if c = CHR 0x5C then [CHR 0x5C, CHR 0x5C]
      else if n = 8 then [CHR 0x5C, CHR ''b'']
      else if n = 9 then [CHR 0x5C, CHR ''t'']
      else if n = 10 then [CHR 0x5C, CHR ''n'']
      else if n = 12 then [CHR 0x5C, CHR ''f'']
      else if n = 13 then [CHR 0x5C, CHR ''r'']
      else if n < 32 then [CHR 0x5C, CHR ''u'', CHR ''0'', CHR ''0'', hex_char (n div 16), hex_char (n mod 16)]
      else [c])"

definition json_string :: "string \<Rightarrow> string" where
  "json_string s = [CHR 0x22] @ concat (map escape_char s) @ [CHR 0x22]"

definition number_text :: "engine \<Rightarrow> json_number \<Rightarrow> string" where
  "number_text G n =
     (case n of
        PosInt u \<Rightarrow> decimal (unat u)
      | NegInt i \<Rightarrow> signed_decimal (sint i)
      | FloatNum w \<Rightarrow> eng_json_double G w)"

primrec canonical_json :: "engine \<Rightarrow> json \<Rightarrow> string" where
  "canonical_json G JNull = ''null''"
| "canonical_json G (JBool b) = (if b then ''true'' else ''false'')"
| "canonical_json G (JNumber n) = number_text G n"
| "canonical_json G (JString s) = json_string s"
| "canonical_json G (JArray js) = ''['' @ intercalate '','' (map (canonical_json G) js) @ '']''"
| "canonical_json G (JObject ms) =
     ''{'' @ intercalate '',''
       (map (\<lambda>(k, t). json_string k @ '':'' @ t)
         (sort_key fst (map (\<lambda>e. map_prod id (canonical_json G) e) ms))) @ ''}''"

definition hash_json :: "engine \<Rightarrow> json \<Rightarrow> string" where
  "hash_json G j = ''sha256:'' @ eng_sha256 G (canonical_json G j)"

definition typed_hash :: "engine \<Rightarrow> json list \<Rightarrow> string" where
  "typed_hash G js = hash_json G (JArray js)"

text \<open>\<^verbatim>\<open>compile::typed_projection\<close>: a document with its number types spelled out.\<close>

definition f64_of_u64 :: "u64 \<Rightarrow> f64" where
  "f64_of_u64 u = word_of_nat (f64_of_nat (unat u))"

definition number_projection :: "json_number \<Rightarrow> json" where
  "number_projection n =
     (case number_as_i64 n of
        Some i \<Rightarrow> JArray [JString ''integer'', JString (signed_decimal (sint i))]
      | None \<Rightarrow>
          JArray [JString ''float'',
            JString (hex_digits 16 (unat (f64_unsigned_zero
              (case n of FloatNum w \<Rightarrow> w | PosInt u \<Rightarrow> f64_of_u64 u | NegInt i \<Rightarrow> f64_of_i64 i))))])"

primrec typed_projection :: "json \<Rightarrow> json" where
  "typed_projection JNull = JArray [JString ''null'']"
| "typed_projection (JBool b) = JArray [JString ''boolean'', JBool b]"
| "typed_projection (JString s) = JArray [JString ''string'', JString s]"
| "typed_projection (JNumber n) = number_projection n"
| "typed_projection (JArray js) = JArray [JString ''list'', JArray (map typed_projection js)]"
| "typed_projection (JObject ms) =
     JArray [JString ''map'',
       JArray (map (\<lambda>(k, t). JArray [JString k, t])
         (sort_key fst (map (\<lambda>e. map_prod id typed_projection e) ms)))]"

section \<open>Identities\<close>

definition root_runtime_identity_parts :: "engine \<Rightarrow> string \<Rightarrow> string \<Rightarrow> machine \<Rightarrow> string \<Rightarrow> string" where
  "root_runtime_identity_parts G fingerprint namespace m root_instance_id =
     hash_json G (JArray (map JString
       [''determa-root-runtime-identity-1'', ''1'', fingerprint, namespace, m_machine_id m,
        signed_decimal (sint (m_version m)), root_instance_id]))"

definition root_runtime_identity :: "engine \<Rightarrow> compiled_bundle \<Rightarrow> machine \<Rightarrow> string \<Rightarrow> string" where
  "root_runtime_identity G B m root_instance_id =
     root_runtime_identity_parts G (b_fingerprint B) (b_namespace B) m root_instance_id"

definition definition_binding_of :: "compiled_bundle \<Rightarrow> machine \<Rightarrow> definition_binding" where
  "definition_binding_of B m =
     \<lparr>db_validated_bundle_fingerprint = b_fingerprint B,
      db_machine = \<lparr>mi_namespace = b_namespace B, mi_machine_id = m_machine_id m,
                    mi_machine_version = m_version m, mi_root_definition_pointer = m_root_pointer m\<rparr>\<rparr>"

definition initialization_cause ::
  "engine \<Rightarrow> string \<Rightarrow> string \<Rightarrow> string \<Rightarrow> string \<Rightarrow> string \<Rightarrow> counter \<Rightarrow> string \<Rightarrow> counter \<Rightarrow> string" where
  "initialization_cause G cause_kind root_instance_id source_runtime_id target_runtime_id
     parent_provenance step_sequence source_locator ordinal =
     hash_json G (JArray (map JString
       [''determa-cause-identity-1'', ''1'', cause_kind, root_instance_id, source_runtime_id,
        target_runtime_id, parent_provenance, canonical_decimal step_sequence, source_locator,
        canonical_decimal ordinal]))"

definition internal_event_identity ::
  "engine \<Rightarrow> string \<Rightarrow> string \<Rightarrow> string \<Rightarrow> string \<Rightarrow> counter \<Rightarrow> string \<Rightarrow> nat \<Rightarrow> string" where
  "internal_event_identity G root_instance_id source_runtime_id target_runtime_id cause_id
     step_sequence locator ordinal =
     hash_json G (JArray (map JString
       [''determa-event-identity-1'', ''1'', root_instance_id, source_runtime_id, target_runtime_id,
        cause_id, canonical_decimal step_sequence, locator, decimal ordinal]))"

definition external_effect_identity ::
  "engine \<Rightarrow> compiled_bundle \<Rightarrow> runtime_state \<Rightarrow> string \<Rightarrow> string \<Rightarrow> counter \<Rightarrow> string \<Rightarrow> nat \<Rightarrow> string" where
  "external_effect_identity G B r root_instance_id cause_id step_sequence locator ordinal =
     hash_json G (JArray
       [JString ''determa-effect-identity-1'', JString ''1'',
        JArray (map JString [b_namespace B, rc_machine_id (rt_core r),
                             signed_decimal (sint (rc_machine_version (rt_core r)))]),
        JString root_instance_id, JString (rt_runtime_id r), JString cause_id,
        JString (canonical_decimal step_sequence), JString locator, JString (decimal ordinal)])"

definition component_runtime_identity_parts ::
  "engine \<Rightarrow> string \<Rightarrow> string \<Rightarrow> string \<Rightarrow> component \<Rightarrow> counter \<Rightarrow> machine \<Rightarrow> string" where
  "component_runtime_identity_parts G namespace root_instance_id owner_runtime_id c
     activation_sequence m =
     hash_json G (JArray (map JString
       [''determa-component-runtime-identity-1'', ''1'', root_instance_id, owner_runtime_id,
        c_pointer c, canonical_decimal activation_sequence, namespace, m_machine_id m,
        signed_decimal (sint (m_version m))]))"

definition component_runtime_identity ::
  "engine \<Rightarrow> compiled_bundle \<Rightarrow> string \<Rightarrow> string \<Rightarrow> component \<Rightarrow> counter \<Rightarrow> machine \<Rightarrow> string" where
  "component_runtime_identity G B root_instance_id owner_runtime_id c activation_sequence m =
     component_runtime_identity_parts G (b_namespace B) root_instance_id owner_runtime_id c
       activation_sequence m"

definition spawned_runtime_identity_parts ::
  "engine \<Rightarrow> string \<Rightarrow> string \<Rightarrow> string \<Rightarrow> string \<Rightarrow> counter \<Rightarrow> machine \<Rightarrow> string" where
  "spawned_runtime_identity_parts G namespace root_instance_id owner_runtime_id spawn_pointer
     spawn_sequence m =
     hash_json G (JArray (map JString
       [''determa-spawned-runtime-identity-1'', ''1'', root_instance_id, owner_runtime_id,
        spawn_pointer, canonical_decimal spawn_sequence, namespace, m_machine_id m,
        signed_decimal (sint (m_version m))]))"

definition spawned_runtime_identity ::
  "engine \<Rightarrow> compiled_bundle \<Rightarrow> string \<Rightarrow> string \<Rightarrow> string \<Rightarrow> counter \<Rightarrow> machine \<Rightarrow> string" where
  "spawned_runtime_identity G B root_instance_id owner_runtime_id spawn_pointer spawn_sequence m =
     spawned_runtime_identity_parts G (b_namespace B) root_instance_id owner_runtime_id spawn_pointer
       spawn_sequence m"

section \<open>Canonical text determines the document\<close>

lemma hex_char_inj: "d < 16 \<Longrightarrow> e < 16 \<Longrightarrow> hex_char d = hex_char e \<Longrightarrow> d = e"
  by (metis hex_digit_hex_char option.inject)

lemma of_char_nat_eqI: "(of_char c :: nat) = n \<Longrightarrow> of_char d = n \<Longrightarrow> c = d"
  by (metis of_char_eq_iff)

lemma of_char_digits_eqI:
  "(of_char c :: nat) < 32 \<Longrightarrow> (of_char d :: nat) < 32 \<Longrightarrow>
   hex_char (of_char c div 16) = hex_char (of_char d div 16) \<Longrightarrow>
   hex_char (of_char c mod 16) = hex_char (of_char d mod 16) \<Longrightarrow> c = d"
proof -
  assume a: "(of_char c :: nat) < 32" "(of_char d :: nat) < 32"
    "hex_char (of_char c div 16) = hex_char (of_char d div 16)"
    "hex_char (of_char c mod 16) = hex_char (of_char d mod 16)"
  have "(of_char c :: nat) div 16 = of_char d div 16" by (rule hex_char_inj) (use a in simp_all)
  moreover have "(of_char c :: nat) mod 16 = of_char d mod 16" by (rule hex_char_inj) (use a in simp_all)
  ultimately have "(of_char c :: nat) = of_char d" by (metis div_mult_mod_eq)
  then show "c = d" by simp
qed

lemma escape_char_prefix:
  assumes "escape_char c @ s = escape_char d @ t"
  shows "c = d \<and> s = t"
  using assms
  by (auto simp: escape_char_def Let_def split: if_splits intro: of_char_nat_eqI of_char_digits_eqI)

lemma escape_char_head: "\<exists>x xs. escape_char c = x # xs \<and> x \<noteq> CHR 0x22"
  by (auto simp: escape_char_def Let_def)

lemma json_string_prefix: "json_string a @ s = json_string b @ t \<Longrightarrow> a = b \<and> s = t"
proof -
  have "concat (map escape_char a) @ CHR 0x22 # s = concat (map escape_char b) @ CHR 0x22 # t \<Longrightarrow>
    a = b \<and> s = t"
  proof (induction a arbitrary: b)
    case Nil
    then show ?case using escape_char_head by (cases b) (auto, metis append_Cons list.inject)
  next
    case (Cons c a)
    show ?case
    proof (cases b)
      case Nil
      then show ?thesis using Cons.prems escape_char_head [of c] by auto
    next
      case (Cons d b')
      with Cons.prems have "escape_char c @ concat (map escape_char a) @ CHR 0x22 # s =
        escape_char d @ concat (map escape_char b') @ CHR 0x22 # t" by simp
      from escape_char_prefix [OF this] have "c = d"
        "concat (map escape_char a) @ CHR 0x22 # s = concat (map escape_char b') @ CHR 0x22 # t" by auto
      with Cons.IH [of b'] Cons show ?thesis by simp
    qed
  qed
  then show "json_string a @ s = json_string b @ t \<Longrightarrow> a = b \<and> s = t" by (simp add: json_string_def)
qed

text \<open>Documents of strings and arrays only, such as every identity preimage.\<close>

primrec textual :: "json \<Rightarrow> bool" where
  "textual JNull \<longleftrightarrow> False"
| "textual (JBool b) \<longleftrightarrow> False"
| "textual (JNumber n) \<longleftrightarrow> False"
| "textual (JString s) \<longleftrightarrow> True"
| "textual (JArray js) \<longleftrightarrow> list_all (\<lambda>x. x) (map textual js)"
| "textual (JObject ms) \<longleftrightarrow> False"

lemma canonical_head:
  "textual j \<Longrightarrow> \<exists>x xs. canonical_json G j = x # xs \<and> x \<noteq> CHR '']'' \<and> x \<noteq> CHR '','' \<and>
     (x = CHR ''['' \<longleftrightarrow> (\<exists>js. j = JArray js))"
  by (cases j) (auto simp: json_string_def)

lemma intercalate_tail: "intercalate '','' (w # ws) = w @ concat (map ((#) (CHR '','')) ws)"
  by (induction ws arbitrary: w) auto

definition self_delimiting :: "engine \<Rightarrow> json \<Rightarrow> bool" where
  "self_delimiting G j \<longleftrightarrow>
     (\<forall>k s t. textual k \<longrightarrow> canonical_json G j @ s = canonical_json G k @ t \<longrightarrow> j = k \<and> s = t)"

lemma array_tail_prefix:
  assumes "list_all (self_delimiting G) js" "list_all textual ks"
    and "concat (map ((#) (CHR '','')) (map (canonical_json G) js)) @ CHR '']'' # s =
         concat (map ((#) (CHR '','')) (map (canonical_json G) ks)) @ CHR '']'' # t"
  shows "js = ks \<and> s = t"
  using assms
proof (induction js arbitrary: ks)
  case Nil
  then show ?case by (cases ks) auto
next
  case (Cons j js)
  then obtain k ks' where ks: "ks = k # ks'" by (cases ks) auto
  let ?rest = "\<lambda>js u. concat (map ((#) (CHR '','')) (map (canonical_json G) js)) @ CHR '']'' # u"
  have "canonical_json G j @ ?rest js s = canonical_json G k @ ?rest ks' t" using Cons.prems(3) ks by simp
  then have "j = k" "?rest js s = ?rest ks' t"
    using Cons.prems(1,2) ks unfolding self_delimiting_def by auto
  with Cons.IH [of ks'] Cons.prems(1,2) ks show ?case by simp
qed

lemma array_prefix:
  assumes sd: "list_all (self_delimiting G) js" and tj: "list_all textual js" and tk: "list_all textual ks"
    and eq: "intercalate '','' (map (canonical_json G) js) @ CHR '']'' # s =
             intercalate '','' (map (canonical_json G) ks) @ CHR '']'' # t"
  shows "js = ks \<and> s = t"
proof (cases js)
  case Nil
  show ?thesis
  proof (cases ks)
    case (Cons k ks')
    with tk canonical_head [of k G] eq Nil show ?thesis by (auto simp: intercalate_tail simp del: intercalate.simps(2,3))
  qed (use Nil eq in simp)
next
  case (Cons j js')
  show ?thesis
  proof (cases ks)
    case Nil
    with tj canonical_head [of j G] eq Cons show ?thesis by (auto simp: intercalate_tail simp del: intercalate.simps(2,3))
  next
    case (Cons k ks')
    have "canonical_json G j @ concat (map ((#) (CHR '','')) (map (canonical_json G) js')) @ CHR '']'' # s =
      canonical_json G k @ concat (map ((#) (CHR '','')) (map (canonical_json G) ks')) @ CHR '']'' # t"
      using eq Cons \<open>js = j # js'\<close> by (simp add: intercalate_tail del: intercalate.simps(2,3))
    then have "j = k" and rest: "concat (map ((#) (CHR '','')) (map (canonical_json G) js')) @ CHR '']'' # s =
      concat (map ((#) (CHR '','')) (map (canonical_json G) ks')) @ CHR '']'' # t"
      using sd tk Cons \<open>js = j # js'\<close> unfolding self_delimiting_def by auto
    moreover have "js' = ks' \<and> s = t"
      using array_tail_prefix [OF _ _ rest] sd tk Cons \<open>js = j # js'\<close> by simp
    ultimately show ?thesis using Cons \<open>js = j # js'\<close> by simp
  qed
qed

lemma textual_self_delimiting: "textual j \<Longrightarrow> self_delimiting G j"
proof (induction j)
  case (JString a)
  show ?case unfolding self_delimiting_def
  proof (intro allI impI)
    fix k s t assume k: "textual k" "canonical_json G (JString a) @ s = canonical_json G k @ t"
    then obtain b where "k = JString b" by (cases k) (auto simp: json_string_def)
    with k json_string_prefix [of a s b t] show "JString a = k \<and> s = t" by simp
  qed
next
  case (JArray js)
  then have sd: "list_all (self_delimiting G) js" "list_all textual js" by (auto simp: list_all_iff)
  show ?case unfolding self_delimiting_def
  proof (intro allI impI)
    fix k s t assume k: "textual k" "canonical_json G (JArray js) @ s = canonical_json G k @ t"
    then obtain ks where ks: "k = JArray ks" by (cases k) (auto simp: json_string_def)
    with k have "list_all textual ks" by (auto simp: list_all_iff)
    with array_prefix [OF sd, of ks s t] k ks show "JArray js = k \<and> s = t" by simp
  qed
qed auto

lemma canonical_json_inject:
  assumes "textual j" "textual k" "canonical_json G j = canonical_json G k"
  shows "j = k"
  using textual_self_delimiting [OF assms(1), of G] assms(2,3) unfolding self_delimiting_def
  by (metis append_Nil2)

section \<open>Identities are unique up to collisions\<close>

lemma version_text_inject [simp]: "signed_decimal (sint (v :: i64)) = signed_decimal (sint w) \<longleftrightarrow> v = w"
  by (metis option.inject parse_signed_decimal)

text \<open>The texts an identity is the digest of, and a collision of two of them.\<close>

definition identity_text :: "engine \<Rightarrow> string list \<Rightarrow> string" where
  "identity_text G xs = canonical_json G (JArray (map JString xs))"

definition collide :: "engine \<Rightarrow> string list \<Rightarrow> string list \<Rightarrow> bool" where
  "collide G xs ys \<longleftrightarrow>
     identity_text G xs \<noteq> identity_text G ys \<and> eng_sha256 G (identity_text G xs) = eng_sha256 G (identity_text G ys)"

definition root_identity_parts :: "compiled_bundle \<Rightarrow> machine \<Rightarrow> string \<Rightarrow> string list" where
  "root_identity_parts B m i =
     [''determa-root-runtime-identity-1'', ''1'', b_fingerprint B, b_namespace B, m_machine_id m,
      signed_decimal (sint (m_version m)), i]"

definition component_identity_parts ::
  "compiled_bundle \<Rightarrow> string \<Rightarrow> string \<Rightarrow> component \<Rightarrow> counter \<Rightarrow> machine \<Rightarrow> string list" where
  "component_identity_parts B i owner c seq m =
     [''determa-component-runtime-identity-1'', ''1'', i, owner, c_pointer c, canonical_decimal seq, b_namespace B,
      m_machine_id m, signed_decimal (sint (m_version m))]"

definition spawned_identity_parts ::
  "compiled_bundle \<Rightarrow> string \<Rightarrow> string \<Rightarrow> string \<Rightarrow> counter \<Rightarrow> machine \<Rightarrow> string list" where
  "spawned_identity_parts B i owner p seq m =
     [''determa-spawned-runtime-identity-1'', ''1'', i, owner, p, canonical_decimal seq, b_namespace B,
      m_machine_id m, signed_decimal (sint (m_version m))]"

lemma identity_text_inject: "identity_text G xs = identity_text G ys \<longleftrightarrow> xs = ys"
proof
  assume "identity_text G xs = identity_text G ys"
  then have "JArray (map JString xs) = JArray (map JString ys)"
    unfolding identity_text_def by (intro canonical_json_inject) (simp_all add: list_all_iff)
  then show "xs = ys" using map_injective [of JString xs ys] by (simp add: inj_def)
qed simp

lemma texts_hash_iff:
  "hash_json G (JArray (map JString xs)) = hash_json G (JArray (map JString ys)) \<longleftrightarrow> xs = ys \<or> collide G xs ys"
  using identity_text_inject [of G xs ys] by (auto simp: hash_json_def collide_def identity_text_def)

lemma identity_hashes:
  "root_runtime_identity G B m i = hash_json G (JArray (map JString (root_identity_parts B m i)))"
  "component_runtime_identity G B i owner c seq m = hash_json G (JArray (map JString (component_identity_parts B i owner c seq m)))"
  "spawned_runtime_identity G B i owner p seq m = hash_json G (JArray (map JString (spawned_identity_parts B i owner p seq m)))"
  by (simp_all only: root_runtime_identity_def root_runtime_identity_parts_def root_identity_parts_def
      component_runtime_identity_def component_runtime_identity_parts_def component_identity_parts_def
      spawned_runtime_identity_def spawned_runtime_identity_parts_def spawned_identity_parts_def)

text \<open>
  C37: the identity of a spawned instance determines its aggregate, owner, spawn action, spawn
  sequence and machine; the identity of a component its placement; and no identity of one kind
  is one of another kind.  Every exception is a collision of SHA-256 on the two texts the
  identities are the digests of.
\<close>

theorem runtime_identity_unique:
  "(spawned_runtime_identity G B i owner p seq m = spawned_runtime_identity G B i' owner' p' seq' m' \<longleftrightarrow>
      i = i' \<and> owner = owner' \<and> p = p' \<and> seq = seq' \<and>
        m_machine_id m = m_machine_id m' \<and> m_version m = m_version m' \<or>
      collide G (spawned_identity_parts B i owner p seq m) (spawned_identity_parts B i' owner' p' seq' m')) \<and>
   (component_runtime_identity G B i owner c seq m = component_runtime_identity G B i' owner' c' seq' m' \<longleftrightarrow>
      i = i' \<and> owner = owner' \<and> c_pointer c = c_pointer c' \<and> seq = seq' \<and>
        m_machine_id m = m_machine_id m' \<and> m_version m = m_version m' \<or>
      collide G (component_identity_parts B i owner c seq m) (component_identity_parts B i' owner' c' seq' m')) \<and>
   (spawned_runtime_identity G B i owner p seq m = component_runtime_identity G B i' owner' c' seq' m' \<longleftrightarrow>
      collide G (spawned_identity_parts B i owner p seq m) (component_identity_parts B i' owner' c' seq' m')) \<and>
   (root_runtime_identity G B m i = spawned_runtime_identity G B i' owner' p' seq' m' \<longleftrightarrow>
      collide G (root_identity_parts B m i) (spawned_identity_parts B i' owner' p' seq' m')) \<and>
   (root_runtime_identity G B m i = component_runtime_identity G B i' owner' c' seq' m' \<longleftrightarrow>
      collide G (root_identity_parts B m i) (component_identity_parts B i' owner' c' seq' m'))"
  unfolding identity_hashes texts_hash_iff
  by (simp add: root_identity_parts_def component_identity_parts_def spawned_identity_parts_def canonical_decimal_def)

end
