(* ===== verification/Envelopes.thy ===== *)
theory Envelopes
  imports Runtime_State
begin

text \<open>
  Admission of one envelope (\<^verbatim>\<open>validate_envelope\<close> and its helpers in
  \<^verbatim>\<open>src/format1/runtime.rs\<close>): the checks of direction, target and correlation, and the
  normalisation of the payload that the handlers then see.
\<close>

datatype delivery_mode = ModeInput | ModeInternal

section \<open>Payloads\<close>

fun normalize_fields ::
  "(string \<times> payload_field) list \<Rightarrow> (string, value) btree_map \<Rightarrow> (string, value) btree_map \<Rightarrow>
   (string, value) btree_map option" where
  "normalize_fields [] supplied acc = Some acc"
| "normalize_fields ((name, field) # rest) supplied acc =
     (case bm_get supplied name of
        Some v \<Rightarrow>
          (case normalize_for_type v (pf_value_type field) of
             None \<Rightarrow> None
           | Some w \<Rightarrow> normalize_fields rest supplied (bm_insert name w acc))
      | None \<Rightarrow>
          (case pf_default field of
             Some d \<Rightarrow>
               (case normalize_for_type d (pf_value_type field) of
                  None \<Rightarrow> None
                | Some w \<Rightarrow> normalize_fields rest supplied (bm_insert name w acc))
           | None \<Rightarrow>
               if pf_required field then None else normalize_fields rest supplied acc))"

definition normalize_payload ::
  "event_declaration \<Rightarrow> (string, value) btree_map \<Rightarrow> (string, value) btree_map option" where
  "normalize_payload declaration supplied =
     (if \<exists>name \<in> set (bm_keys supplied). \<not> bm_has (ev_payload declaration) name then None
      else normalize_fields (ev_payload declaration) supplied [])"

text \<open>The changed external variables of an \<^verbatim>\<open>env\<close> event.\<close>

fun normalize_changed ::
  "(string, variable_declaration) btree_map \<Rightarrow> (string \<times> value) list \<Rightarrow> (string, value) btree_map \<Rightarrow>
   (string, value) btree_map option" where
  "normalize_changed external [] acc = Some acc"
| "normalize_changed external ((name, v) # changed) acc =
     (case bm_get external name of
        None \<Rightarrow> None
      | Some d \<Rightarrow>
          (case normalize_for_type v (vd_value_type d) of
             None \<Rightarrow> None
           | Some w \<Rightarrow> normalize_changed external changed (bm_insert name w acc)))"

section \<open>Reserved lifecycle payloads\<close>

definition require_exact_keys :: "(string, value) btree_map \<Rightarrow> string list \<Rightarrow> bool" where
  "require_exact_keys payload keys \<longleftrightarrow>
     length payload = length keys \<and> list_all (bm_has payload) keys"

definition require_non_empty_string :: "value option \<Rightarrow> string option" where
  "require_non_empty_string v =
     (case v of Some (VString s) \<Rightarrow> if s \<noteq> [] then Some s else None | _ \<Rightarrow> None)"

definition identifier_start :: "char \<Rightarrow> bool" where
  "identifier_start c \<longleftrightarrow> is_alpha c \<or> c = CHR ''_''"

definition is_identifier :: "string \<Rightarrow> bool" where
  "is_identifier s \<longleftrightarrow>
     (case s of
        [] \<Rightarrow> False
      | c # cs \<Rightarrow> identifier_start c \<and> list_all (\<lambda>c. identifier_start c \<or> is_digit c) cs)"

definition require_identifier :: "value option \<Rightarrow> string option" where
  "require_identifier v =
     (case require_non_empty_string v of
        None \<Rightarrow> None
      | Some s \<Rightarrow> if is_identifier s then Some s else None)"

definition require_state_path :: "value option \<Rightarrow> bool" where
  "require_state_path v \<longleftrightarrow>
     (case require_non_empty_string v of
        None \<Rightarrow> False
      | Some s \<Rightarrow> list_all is_identifier (split_on (CHR ''.'') s))"

definition require_instance_reference :: "value option \<Rightarrow> instance_reference option" where
  "require_instance_reference v =
     (case v of
        Some (VRef r) \<Rightarrow>
          if ref_root_instance_id r = [] \<or> ref_instance_id r = [] \<or>
             \<not> is_identifier (ref_machine_id r) \<or> sint (ref_machine_version r) \<le> 0
          then None else Some r
      | _ \<Rightarrow> None)"

definition validate_public_fault :: "value option \<Rightarrow> bool" where
  "validate_public_fault v \<longleftrightarrow>
     (case v of
        Some (VMap fault) \<Rightarrow>
          require_exact_keys fault
            [''runtime_id'', ''cause_id'', ''code'', ''step_sequence'', ''source_locator''] \<and>
          require_non_empty_string (bm_get fault ''runtime_id'') \<noteq> None \<and>
          require_non_empty_string (bm_get fault ''cause_id'') \<noteq> None \<and>
          require_non_empty_string (bm_get fault ''code'') \<noteq> None \<and>
          require_non_empty_string (bm_get fault ''source_locator'') \<noteq> None \<and>
          (case require_non_empty_string (bm_get fault ''step_sequence'') of
             None \<Rightarrow> False | Some s \<Rightarrow> from_decimal s \<noteq> None)
      | _ \<Rightarrow> False)"

text \<open>The members that repeat the instance reference.\<close>

definition reference_members :: "(string, value) btree_map \<Rightarrow> bool" where
  "reference_members payload \<longleftrightarrow>
     (case require_instance_reference (bm_get payload ''instance'') of
        None \<Rightarrow> False
      | Some r \<Rightarrow>
          bm_get payload ''instance_id'' = Some (VString (ref_instance_id r)) \<and>
          bm_get payload ''machine_id'' = Some (VString (ref_machine_id r)) \<and>
          bm_get payload ''machine_version'' = Some (VInt (ref_machine_version r)))"

definition validate_reserved_lifecycle_payload :: "string \<Rightarrow> (string, value) btree_map \<Rightarrow> bool" where
  "validate_reserved_lifecycle_payload event payload \<longleftrightarrow>
     (if event = ''determa.component_completed'' then
        require_exact_keys payload [''component_id'', ''component_runtime_id''] \<and>
        require_identifier (bm_get payload ''component_id'') \<noteq> None \<and>
        require_non_empty_string (bm_get payload ''component_runtime_id'') \<noteq> None
      else if event = ''determa.component_failed'' then
        require_exact_keys payload [''component_id'', ''component_runtime_id'', ''fault''] \<and>
        require_identifier (bm_get payload ''component_id'') \<noteq> None \<and>
        require_non_empty_string (bm_get payload ''component_runtime_id'') \<noteq> None \<and>
        validate_public_fault (bm_get payload ''fault'')
      else if event = ''determa.spawned_instance_failed'' then
        require_exact_keys payload
          [''instance'', ''instance_id'', ''machine_id'', ''machine_version'', ''fault''] \<and>
        reference_members payload \<and>
        validate_public_fault (bm_get payload ''fault'')
      else if event = ''done'' then
        (if bm_get payload ''relationship'' = Some (VString ''parallel'') then
           require_exact_keys payload [''relationship'', ''state_path'', ''owner_runtime_id''] \<and>
           require_state_path (bm_get payload ''state_path'') \<and>
           require_non_empty_string (bm_get payload ''owner_runtime_id'') \<noteq> None
         else if bm_get payload ''relationship'' = Some (VString ''spawned_instance'') then
           require_exact_keys payload
             [''relationship'', ''instance'', ''instance_id'', ''machine_id'', ''machine_version''] \<and>
           reference_members payload
         else False)
      else False)"

definition normalize_lifecycle_payload ::
  "(string, value) btree_map \<Rightarrow> (string, value) btree_map option" where
  "normalize_lifecycle_payload payload =
     (case bm_get payload ''instance'' of
        Some (VMap members) \<Rightarrow>
          (case instance_reference_from_value (VMap members) of
             None \<Rightarrow> None
           | Some r \<Rightarrow> Some (bm_insert ''instance'' r payload))
      | _ \<Rightarrow> Some payload)"

section \<open>Envelopes\<close>

definition is_lifecycle_event :: "string \<Rightarrow> bool" where
  "is_lifecycle_event event \<longleftrightarrow>
     event \<in> {''done'', ''determa.component_completed'', ''determa.component_failed'',
              ''determa.spawned_instance_failed''}"

fun input_target :: "target \<Rightarrow> bool" where
  "input_target (RootTarget _ _) \<longleftrightarrow> True"
| "input_target (SpawnedTarget _) \<longleftrightarrow> True"
| "input_target _ \<longleftrightarrow> False"

fun component_target :: "target \<Rightarrow> bool" where
  "component_target (ComponentPlacement _ _ _ _ _) \<longleftrightarrow> True"
| "component_target _ \<longleftrightarrow> False"

definition event_declaration_of :: "compiled_bundle \<Rightarrow> machine \<Rightarrow> string \<Rightarrow> event_declaration option" where
  "event_declaration_of B m event =
     (case bm_get (m_events m) event of Some d \<Rightarrow> Some d | None \<Rightarrow> bm_get (b_events B) event)"

definition validate_env ::
  "runtime_state \<Rightarrow> delivery_mode \<Rightarrow> envelope \<Rightarrow> (envelope, dispatch_rejection) outcome" where
  "validate_env r mode e =
     (if mode = ModeInput \<and> \<not> input_target (env_target e) then Err InvalidInstanceTarget
      else if mode = ModeInternal \<and> \<not> component_target (env_target e) then Err InvalidEvent
      else if env_correlation_id e \<noteq> None then Err InvalidCorrelation
      else (case bm_get (env_payload e) ''changed'' of
              Some (VMap changed) \<Rightarrow>
                if length (env_payload e) \<noteq> 1 \<or> changed = [] then Err InvalidPayload
                else obind (root_external_variables (rt_definition r)) (\<lambda>external.
                       case normalize_changed external changed [] of
                         None \<Rightarrow> Err InvalidPayload
                       | Some normalized \<Rightarrow> Ok (e\<lparr>env_payload := [(''changed'', VMap normalized)]\<rparr>))
            | _ \<Rightarrow> Err InvalidPayload))"

definition validate_lifecycle :: "delivery_mode \<Rightarrow> envelope \<Rightarrow> (envelope, dispatch_rejection) outcome" where
  "validate_lifecycle mode e =
     (if mode = ModeInput then Err InvalidEvent
      else if env_correlation_id e \<noteq> None then Err InvalidCorrelation
      else (case normalize_lifecycle_payload (env_payload e) of
              None \<Rightarrow> Err InvalidPayload
            | Some payload \<Rightarrow>
                if validate_reserved_lifecycle_payload (env_event e) payload
                then Ok (e\<lparr>env_payload := payload\<rparr>) else Err InvalidPayload))"

definition validate_declared ::
  "event_declaration \<Rightarrow> delivery_mode \<Rightarrow> envelope \<Rightarrow> (envelope, dispatch_rejection) outcome" where
  "validate_declared declaration mode e =
     (if \<not> (mode = ModeInput \<and> ev_direction declaration = DirInput \<and> input_target (env_target e)) \<and>
         \<not> (mode = ModeInternal \<and> ev_direction declaration = DirInternal)
      then Err InvalidEvent
      else (case normalize_payload declaration (env_payload e) of
              None \<Rightarrow> Err InvalidPayload
            | Some payload \<Rightarrow>
                if env_correlation_id e = Some [] \<or>
                   ev_correlates_to declaration \<noteq> None \<and> env_correlation_id e = None
                then Err InvalidCorrelation
                else Ok (e\<lparr>env_payload := payload\<rparr>)))"

definition validate_envelope ::
  "compiled_bundle \<Rightarrow> runtime_state \<Rightarrow> delivery_mode \<Rightarrow> envelope \<Rightarrow>
   (envelope, dispatch_rejection) outcome" where
  "validate_envelope B r mode e =
     (if env_event_id e = [] then Err InvalidEvent
      else if env_event e = ''env'' then validate_env r mode e
      else if is_lifecycle_event (env_event e) then validate_lifecycle mode e
      else (case event_declaration_of B (rt_definition r) (env_event e) of
              None \<Rightarrow> Err InvalidEvent
            | Some declaration \<Rightarrow> validate_declared declaration mode e))"

definition envelopes_wire_equivalent :: "envelope \<Rightarrow> envelope \<Rightarrow> bool" where
  "envelopes_wire_equivalent a b \<longleftrightarrow>
     env_event a = env_event b \<and> env_event_id a = env_event_id b \<and> env_target a = env_target b \<and>
     env_correlation_id a = env_correlation_id b \<and>
     typed_eq (typed_from_value (VMap (env_payload a))) (typed_from_value (VMap (env_payload b)))"

section \<open>Normalised envelopes\<close>

text \<open>
  One field of a normalised payload: supplied, defaulted or absent.
\<close>

definition field_value :: "payload_field \<Rightarrow> value option \<Rightarrow> value option option" where
  "field_value field v =
     (case v of
        Some v \<Rightarrow> map_option Some (normalize_for_type v (pf_value_type field))
      | None \<Rightarrow>
          (case pf_default field of
             Some d \<Rightarrow> map_option Some (normalize_for_type d (pf_value_type field))
           | None \<Rightarrow> if pf_required field then None else Some None))"

definition add_field :: "string \<Rightarrow> value option \<Rightarrow> (string, value) btree_map \<Rightarrow> (string, value) btree_map" where
  "add_field name w acc = (case w of None \<Rightarrow> acc | Some w \<Rightarrow> bm_insert name w acc)"

lemma normalize_fields_Cons:
  "normalize_fields ((name, field) # rest) supplied acc =
     (case field_value field (bm_get supplied name) of
        None \<Rightarrow> None | Some w \<Rightarrow> normalize_fields rest supplied (add_field name w acc))"
  by (auto simp: field_value_def add_field_def split: option.splits)

declare normalize_fields.simps(2) [simp del]
declare normalize_fields_Cons [simp]

lemma bm_get_add_field:
  "bm_get (add_field name w acc) k = (if k = name \<and> w \<noteq> None then w else bm_get acc k)"
  by (auto simp: add_field_def split: option.splits)

lemma field_value_idem: "field_value field v = Some w \<Longrightarrow> field_value field w = Some w"
  by (auto simp: field_value_def split: option.splits if_splits dest: normalize_for_type_normal)

lemma normalize_fields_get:
  assumes "distinct (map fst fs)"
  shows "normalize_fields fs supplied acc = Some out \<Longrightarrow>
    (\<forall>(name, field) \<in> set fs. \<exists>w. field_value field (bm_get supplied name) = Some w \<and>
       bm_get out name = (if w = None then bm_get acc name else w)) \<and>
    (\<forall>k. k \<notin> fst ` set fs \<longrightarrow> bm_get out k = bm_get acc k)"
  using assms
proof (induction fs arbitrary: acc)
  case (Cons f fs)
  obtain name field where f: "f = (name, field)" by (cases f)
  with Cons.prems obtain w where w: "field_value field (bm_get supplied name) = Some w"
    "normalize_fields fs supplied (add_field name w acc) = Some out" by (auto split: option.splits)
  have d: "name \<notin> fst ` set fs" "distinct (map fst fs)" using Cons.prems f by auto
  note IH = Cons.IH [OF w(2) d(2)]
  show ?case
  proof (intro conjI ballI allI impI)
    fix g assume "g \<in> set (f # fs)"
    then consider "g = f" | "g \<in> set fs" "fst g \<noteq> name" using d(1) by force
    then show "case g of (n, fld) \<Rightarrow> \<exists>w. field_value fld (bm_get supplied n) = Some w \<and>
        bm_get out n = (if w = None then bm_get acc n else w)"
    proof cases
      case 1
      with IH d(1) w(1) f show ?thesis by (auto simp: bm_get_add_field)
    next
      case 2
      obtain n fld where g: "g = (n, fld)" "n \<noteq> name" using 2(2) by (metis prod.collapse)
      from IH 2(1) g(1) obtain w' where "field_value fld (bm_get supplied n) = Some w'"
        "bm_get out n = (if w' = None then bm_get (add_field name w acc) n else w')" by blast
      with g show ?thesis by (simp add: bm_get_add_field)
    qed
  next
    fix k assume "k \<notin> fst ` set (f # fs)"
    with IH f show "bm_get out k = bm_get acc k" by (simp add: bm_get_add_field)
  qed
qed simp

lemma normalize_fields_again:
  assumes "\<forall>(name, field) \<in> set fs. \<exists>w. field_value field (bm_get supplied name) = Some w \<and> bm_get out name = w"
  shows "normalize_fields fs out acc = normalize_fields fs supplied acc"
  using assms
proof (induction fs arbitrary: acc)
  case (Cons f fs)
  obtain name field where f: "f = (name, field)" by (cases f)
  with Cons.prems have "field_value field (bm_get supplied name) = Some (bm_get out name)"
    "field_value field (bm_get out name) = Some (bm_get out name)" by (auto dest: field_value_idem)
  with Cons f show ?case by simp
qed simp

lemma normalize_payload_again:
  assumes wf: "bm_wf (ev_payload d)" and n: "normalize_payload d supplied = Some out"
  shows "normalize_payload d out = Some out"
proof -
  have fs: "normalize_fields (ev_payload d) supplied [] = Some out"
    using n by (auto simp: normalize_payload_def split: if_splits)
  have dist: "distinct (map fst (ev_payload d))" using wf by (rule bm_wf_distinct)
  note get = normalize_fields_get [OF dist fs]
  have "normalize_fields (ev_payload d) out [] = Some out"
  proof -
    have "normalize_fields (ev_payload d) out [] = normalize_fields (ev_payload d) supplied []"
      by (rule normalize_fields_again) (use get in fastforce)
    with fs show ?thesis by simp
  qed
  moreover have "bm_has (ev_payload d) name" if "name \<in> set (bm_keys out)" for name
  proof (rule ccontr)
    assume "\<not> bm_has (ev_payload d) name"
    then have "name \<notin> fst ` set (ev_payload d)" by (simp add: bm_has_iff)
    with get have "bm_get out name = None" by simp
    with that show False by (simp add: bm_get_None_iff)
  qed
  ultimately show ?thesis by (auto simp: normalize_payload_def)
qed

lemma bm_insert_last: "bm_wf (acc @ [(k, v)]) \<Longrightarrow> bm_insert k v acc = acc @ [(k, v)]"
  by (induction acc) (auto simp: bm_wf_Cons)

lemma bm_wf_append: "bm_wf (a @ b) \<longleftrightarrow> bm_wf a \<and> bm_wf b \<and> (\<forall>x \<in> set a. \<forall>y \<in> set b. fst x < fst y)"
  by (auto simp: bm_wf_def sorted_wrt_append)

lemma normalize_changed_sorted:
  "bm_wf (acc @ changed) \<Longrightarrow> normalize_changed external changed acc = Some out \<Longrightarrow>
   \<exists>vs. out = acc @ zip (map fst changed) vs \<and> length vs = length changed \<and>
        (\<forall>i < length changed. \<exists>d. bm_get external (fst (changed ! i)) = Some d \<and>
            normalize_for_type (snd (changed ! i)) (vd_value_type d) = Some (vs ! i))"
proof (induction changed arbitrary: acc)
  case (Cons c changed)
  obtain name v where c: "c = (name, v)" by (cases c)
  with Cons.prems(2) obtain d w where dw: "bm_get external name = Some d"
    "normalize_for_type v (vd_value_type d) = Some w"
    "normalize_changed external changed (bm_insert name w acc) = Some out" by (auto split: option.splits)
  have wf: "bm_wf ((acc @ [(name, w)]) @ changed)" "bm_wf (acc @ [(name, w)])"
    using Cons.prems(1) c by (auto simp: bm_wf_append bm_wf_Cons)
  have "normalize_changed external changed (acc @ [(name, w)]) = Some out"
    using dw(3) bm_insert_last [OF wf(2)] by simp
  from Cons.IH [OF wf(1) this] obtain vs where vs: "out = (acc @ [(name, w)]) @ zip (map fst changed) vs"
    "length vs = length changed" "\<forall>i < length changed. \<exists>d. bm_get external (fst (changed ! i)) = Some d \<and>
            normalize_for_type (snd (changed ! i)) (vd_value_type d) = Some (vs ! i)" by blast
  have "\<exists>d. bm_get external (fst ((c # changed) ! i)) = Some d \<and>
     normalize_for_type (snd ((c # changed) ! i)) (vd_value_type d) = Some ((w # vs) ! i)"
    if "i < length (c # changed)" for i using that vs(3) dw(1,2) c by (cases i) auto
  then show ?case using vs(1,2) c by (intro exI [of _ "w # vs"]) simp
qed simp

lemma normalize_changed_fixed:
  "bm_wf (acc @ changed) \<Longrightarrow>
   (\<forall>i < length changed. \<exists>d. bm_get external (fst (changed ! i)) = Some d \<and>
      normalize_for_type (snd (changed ! i)) (vd_value_type d) = Some (snd (changed ! i))) \<Longrightarrow>
   normalize_changed external changed acc = Some (acc @ changed)"
proof (induction changed arbitrary: acc)
  case (Cons c changed)
  obtain name v where c: "c = (name, v)" by (cases c)
  from Cons.prems(2) have "\<exists>d. bm_get external name = Some d \<and> normalize_for_type v (vd_value_type d) = Some v"
    using c by force
  then obtain d where d: "bm_get external name = Some d" "normalize_for_type v (vd_value_type d) = Some v" by blast
  have rest: "\<forall>i < length changed. \<exists>d. bm_get external (fst (changed ! i)) = Some d \<and>
      normalize_for_type (snd (changed ! i)) (vd_value_type d) = Some (snd (changed ! i))"
    using Cons.prems(2) by fastforce
  have wf: "bm_wf ((acc @ [(name, v)]) @ changed)" "bm_wf (acc @ [(name, v)])"
    using Cons.prems(1) c by (auto simp: bm_wf_append bm_wf_Cons)
  from Cons.IH [OF wf(1) rest] show ?case using d c bm_insert_last [OF wf(2)] by simp
qed simp

lemma normalize_changed_again:
  assumes wf: "bm_wf changed" and n: "normalize_changed external changed [] = Some out"
  shows "normalize_changed external out [] = Some out \<and> map fst out = map fst changed"
proof -
  from normalize_changed_sorted [of "[]", OF _ n] wf
  obtain vs where vs: "out = zip (map fst changed) vs" "length vs = length changed"
    "\<forall>i < length changed. \<exists>d. bm_get external (fst (changed ! i)) = Some d \<and>
            normalize_for_type (snd (changed ! i)) (vd_value_type d) = Some (vs ! i)" by auto
  have keys: "map fst out = map fst changed" using vs(1,2) by simp
  then have wf': "bm_wf ([] @ out)" using wf by (simp add: bm_wf_def)
  have "\<exists>d. bm_get external (fst (out ! i)) = Some d \<and>
      normalize_for_type (snd (out ! i)) (vd_value_type d) = Some (snd (out ! i))" if "i < length out" for i
    using that vs normalize_for_type_normal by fastforce
  from normalize_changed_fixed [OF wf'] this keys show ?thesis by auto
qed

text \<open>The maps that normalisation reads are ordered maps.\<close>

definition envelope_inputs_wf :: "compiled_bundle \<Rightarrow> runtime_state \<Rightarrow> envelope \<Rightarrow> bool" where
  "envelope_inputs_wf B r e \<longleftrightarrow>
     (case event_declaration_of B (rt_definition r) (env_event e) of
        None \<Rightarrow> True | Some d \<Rightarrow> bm_wf (ev_payload d)) \<and>
     (case bm_get (env_payload e) ''changed'' of Some (VMap changed) \<Rightarrow> bm_wf changed | _ \<Rightarrow> True)"

lemma validate_env_again:
  assumes v: "validate_env r mode e = Ok e'"
    and wf: "\<And>changed. bm_get (env_payload e) ''changed'' = Some (VMap changed) \<Longrightarrow> bm_wf changed"
  shows "validate_env r mode e' = Ok e'"
proof -
  from v obtain changed external out where c: "bm_get (env_payload e) ''changed'' = Some (VMap changed)"
    "changed \<noteq> []" "root_external_variables (rt_definition r) = (Ok external :: (_, dispatch_rejection) outcome)"
    "normalize_changed external changed [] = Some out" "e' = e\<lparr>env_payload := [(''changed'', VMap out)]\<rparr>"
    by (auto simp: validate_env_def obind_Ok_iff split: if_splits option.splits value_splits)
  from normalize_changed_again [OF wf [OF c(1)] c(4)]
  have "normalize_changed external out [] = Some out" "out \<noteq> []" using c(2) by auto
  with v c show ?thesis by (auto simp: validate_env_def split: if_splits)
qed

lemma validate_lifecycle_again:
  assumes v: "validate_lifecycle mode e = Ok e'"
  shows "validate_lifecycle mode e' = Ok e'"
proof -
  from v obtain payload where p: "normalize_lifecycle_payload (env_payload e) = Some payload"
    "e' = e\<lparr>env_payload := payload\<rparr>"
    by (auto simp: validate_lifecycle_def split: if_splits option.splits)
  have "normalize_lifecycle_payload payload = Some payload"
    using p(1) by (auto simp: normalize_lifecycle_payload_def instance_reference_from_value_def
        split: option.splits value_splits if_splits)
  with v p show ?thesis by (auto simp: validate_lifecycle_def split: if_splits)
qed

lemma validate_declared_again:
  assumes v: "validate_declared d mode e = Ok e'" and wf: "bm_wf (ev_payload d)"
  shows "validate_declared d mode e' = Ok e'"
proof -
  from v obtain payload where p: "normalize_payload d (env_payload e) = Some payload"
    "e' = e\<lparr>env_payload := payload\<rparr>"
    by (auto simp: validate_declared_def split: if_splits option.splits)
  from normalize_payload_again [OF wf p(1)] v p show ?thesis
    by (auto simp: validate_declared_def split: if_splits)
qed

lemma validate_env_payload: "validate_env r mode e = Ok e' \<Longrightarrow> \<exists>p. e' = e\<lparr>env_payload := p\<rparr>"
  by (auto simp: validate_env_def obind_Ok_iff split: if_splits option.splits value_splits)

lemma validate_lifecycle_payload: "validate_lifecycle mode e = Ok e' \<Longrightarrow> \<exists>p. e' = e\<lparr>env_payload := p\<rparr>"
  by (auto simp: validate_lifecycle_def split: if_splits option.splits)

lemma validate_declared_payload: "validate_declared d mode e = Ok e' \<Longrightarrow> \<exists>p. e' = e\<lparr>env_payload := p\<rparr>"
  by (auto simp: validate_declared_def split: if_splits option.splits)

text \<open>
  C40: An admitted envelope is normalised once and for all: it keeps everything but the payload,
  and validating the normalised envelope again accepts it unchanged.
\<close>

theorem validate_envelope_idempotent:
  assumes "validate_envelope B r mode e = Ok e'" and "envelope_inputs_wf B r e"
  shows "e' = e\<lparr>env_payload := env_payload e'\<rparr> \<and> validate_envelope B r mode e' = Ok e'"
proof
  from assms(1) obtain p where p: "e' = e\<lparr>env_payload := p\<rparr>"
    by (auto simp: validate_envelope_def split: if_splits option.splits
        dest!: validate_env_payload validate_lifecycle_payload validate_declared_payload)
  then show "e' = e\<lparr>env_payload := env_payload e'\<rparr>" by simp
  from p have same: "env_event e' = env_event e" "env_event_id e' = env_event_id e" by simp_all
  show "validate_envelope B r mode e' = Ok e'"
  proof (cases "env_event e = ''env''")
    case True
    have "validate_env r mode e' = Ok e'"
      using assms True
      by (intro validate_env_again [of r mode e]) (auto simp: validate_envelope_def envelope_inputs_wf_def split: if_splits)
    with assms(1) True same show ?thesis by (auto simp: validate_envelope_def split: if_splits)
  next
    case False
    with assms same validate_lifecycle_again [of mode e e'] validate_declared_again [of _ mode e e']
    show ?thesis by (auto simp: validate_envelope_def envelope_inputs_wf_def split: if_splits option.splits)
  qed
qed

text \<open>A declared event with one defaulted field, for concrete evaluations.\<close>

definition sample_event :: event_declaration where
  "sample_event = \<lparr>ev_direction = DirInput,
     ev_payload = [(''amount'', \<lparr>pf_value_type = ''int'', pf_required = False, pf_default = Some (VInt 1)\<rparr>)],
     ev_correlates_to = None\<rparr>"

definition sample_envelope :: envelope where
  "sample_envelope = \<lparr>env_event = ''tick'', env_event_id = ''e'', env_target = RootTarget ''i'' ''r'',
     env_payload = [], env_correlation_id = None\<rparr>"

theorem validate_envelope_idempotent_witness:
  "validate_envelope (sample_bundle\<lparr>b_events := [(''tick'', sample_event)]\<rparr>) sample_root ModeInput
     (sample_envelope\<lparr>env_payload := [(''amount'', VInt 1)]\<rparr>) =
   Ok (sample_envelope\<lparr>env_payload := [(''amount'', VInt 1)]\<rparr>)"
  using validate_envelope_idempotent [of "sample_bundle\<lparr>b_events := [(''tick'', sample_event)]\<rparr>"
      sample_root ModeInput sample_envelope "sample_envelope\<lparr>env_payload := [(''amount'', VInt 1)]\<rparr>"]
  by (simp add: validate_envelope_def validate_declared_def normalize_payload_def field_value_def
      add_field_def normalize_for_type_def matches_type_def event_declaration_of_def sample_event_def
      sample_envelope_def sample_bundle_def sample_machine_def sample_defs is_lifecycle_event_def
      envelope_inputs_wf_def bm_wf_def)

end
