(* ===== verification/Kernel_Monad.thy ===== *)
theory Kernel_Monad
  imports Identity Envelopes
begin

text \<open>
  The effects of the step kernel in \<^verbatim>\<open>src/format1/runtime.rs\<close>.  Its functions take
  \<^verbatim>\<open>&mut RuntimeState\<close> and \<^verbatim>\<open>&mut StepContext\<close> and return \<^verbatim>\<open>Result<_, StepFault>\<close>, so an operation
  is a function on the pair of both; an \<open>Err\<close> carries the pair as well, because callers
  continue with what a failed callee has written (\<^verbatim>\<open>provider_writes\<close>, the emissions that are
  truncated afterwards).
\<close>

section \<open>State and parameters\<close>

text \<open>The fields of \<^verbatim>\<open>StepContext\<close> that change; the others are in \<open>step_params\<close>.\<close>

record step_context =
  cx_cause_id :: string
  cx_next_output_sequence :: counter
  cx_emissions :: "emission list"
  cx_provider_writes :: "(string \<times> string \<times> string) list"

record step_params =
  sp_engine :: engine
  sp_bundle :: compiled_bundle
  sp_root_instance_id :: string
  sp_step_sequence :: counter

type_synonym kst = "runtime_state \<times> step_context"

type_synonym 'a km = "kst \<Rightarrow> ('a \<times> kst, step_fault \<times> kst) outcome"

section \<open>Operations\<close>

definition kret :: "'a \<Rightarrow> 'a km" where
  "kret a s = Ok (a, s)"

definition kbind :: "'a km \<Rightarrow> ('a \<Rightarrow> 'b km) \<Rightarrow> 'b km" where
  "kbind m f s = obind (m s) (\<lambda>(a, s'). f a s')"

definition kseq :: "'a km \<Rightarrow> 'b km \<Rightarrow> 'b km" where
  "kseq m k = kbind m (\<lambda>_. k)"

definition kfail :: "step_fault \<Rightarrow> 'a km" where
  "kfail f s = Err (f, s)"

text \<open>Reading the runtime or the context, possibly failing.\<close>

definition kreads :: "(kst \<Rightarrow> 'a) \<Rightarrow> 'a km" where
  "kreads f s = Ok (f s, s)"

definition kpure :: "(kst \<Rightarrow> ('a, step_fault) outcome) \<Rightarrow> 'a km" where
  "kpure f s =
     (case f s of
        Ok a \<Rightarrow> Ok (a, s) | Err e \<Rightarrow> Err (e, s) | Panic \<Rightarrow> Panic | OutOfFuel \<Rightarrow> OutOfFuel)"

definition kmodify_core :: "(runtime_core \<Rightarrow> runtime_core) \<Rightarrow> unit km" where
  "kmodify_core f s = Ok ((), (with_core f (fst s), snd s))"

definition kmodify_components :: "(component_runtime list \<Rightarrow> component_runtime list) \<Rightarrow> unit km" where
  "kmodify_components f s = Ok ((), (with_components f (fst s), snd s))"

definition kmodify_owned :: "(owned_runtime list \<Rightarrow> owned_runtime list) \<Rightarrow> unit km" where
  "kmodify_owned f s = Ok ((), (with_owned f (fst s), snd s))"

definition kmodify_context :: "(step_context \<Rightarrow> step_context) \<Rightarrow> unit km" where
  "kmodify_context f s = Ok ((), (fst s, f (snd s)))"

definition kmap_err :: "(step_fault \<Rightarrow> step_fault) \<Rightarrow> 'a km \<Rightarrow> 'a km" where
  "kmap_err f m s =
     (case m s of
        Ok x \<Rightarrow> Ok x | Err (e, s') \<Rightarrow> Err (f e, s') | Panic \<Rightarrow> Panic | OutOfFuel \<Rightarrow> OutOfFuel)"

primrec kfor :: "('a \<Rightarrow> unit km) \<Rightarrow> 'a list \<Rightarrow> unit km" where
  "kfor f [] = kret ()"
| "kfor f (x # xs) = kseq (f x) (kfor f xs)"

text \<open>A loop that returns from the enclosing function when its body says so.\<close>

primrec kfor_until :: "('a \<Rightarrow> bool km) \<Rightarrow> 'a list \<Rightarrow> bool km" where
  "kfor_until f [] = kret False"
| "kfor_until f (x # xs) = kbind (f x) (\<lambda>stop. if stop then kret True else kfor_until f xs)"

definition kwhen :: "bool \<Rightarrow> unit km \<Rightarrow> unit km" where
  "kwhen b m = (if b then m else kret ())"

text \<open>\<^verbatim>\<open>if runtime.status == RuntimeStatus::Completed { return Ok(()) }\<close>.\<close>

definition kunless_completed :: "unit km \<Rightarrow> unit km" where
  "kunless_completed m =
     kbind (kreads (\<lambda>s. rt_status (fst s))) (\<lambda>st. if st = Completed then kret () else m)"

text \<open>
  Working on a child through a mutable reference: the context is shared, and what the child
  became is kept whether the operation succeeds or not.
\<close>

definition kon :: "(runtime_state \<Rightarrow> runtime_state) \<Rightarrow> (runtime_state \<Rightarrow> runtime_state \<Rightarrow> runtime_state) \<Rightarrow>
    'a km \<Rightarrow> 'a km" where
  "kon get put m s =
     (case m (get (fst s), snd s) of
        Ok (a, (r, cx)) \<Rightarrow> Ok (a, (put r (fst s), cx))
      | Err (e, (r, cx)) \<Rightarrow> Err (e, (put r (fst s), cx))
      | Panic \<Rightarrow> Panic
      | OutOfFuel \<Rightarrow> OutOfFuel)"

definition get_component :: "nat \<Rightarrow> runtime_state \<Rightarrow> runtime_state" where
  "get_component i r = cr_runtime (rt_components r ! i)"

definition put_component :: "nat \<Rightarrow> runtime_state \<Rightarrow> runtime_state \<Rightarrow> runtime_state" where
  "put_component i child r =
     with_components (\<lambda>cs. cs[i := set_cr_runtime child (cs ! i)]) r"

definition get_owned :: "nat \<Rightarrow> runtime_state \<Rightarrow> runtime_state" where
  "get_owned i r = or_runtime (rt_owned r ! i)"

definition put_owned :: "nat \<Rightarrow> runtime_state \<Rightarrow> runtime_state \<Rightarrow> runtime_state" where
  "put_owned i child r = with_owned (\<lambda>ws. ws[i := set_or_runtime child (ws ! i)]) r"

definition kon_component :: "nat \<Rightarrow> 'a km \<Rightarrow> 'a km" where
  "kon_component i m s =
     (if i < length (rt_components (fst s)) then kon (get_component i) (put_component i) m s else Panic)"

definition kon_owned :: "nat \<Rightarrow> 'a km \<Rightarrow> 'a km" where
  "kon_owned i m s =
     (if i < length (rt_owned (fst s)) then kon (get_owned i) (put_owned i) m s else Panic)"

definition kout_of_fuel :: "'a km" where
  "kout_of_fuel s = OutOfFuel"

definition kpanic :: "'a km" where
  "kpanic s = Panic"

end
