(* ===== verification/Selection.thy ===== *)
theory Selection
  imports Kernel_Monad
begin

text \<open>
  The reading side of \<^verbatim>\<open>src/format1/runtime.rs\<close>: the variables an expression sees, guards
  (\<^verbatim>\<open>providers::guard\<close>), the choice of the handler for an event, the boundary of a transition,
  and the evaluation of bindings and send targets.
\<close>

section \<open>Scopes\<close>

definition or_insert :: "variable_slot \<Rightarrow> (string, value) btree_map \<Rightarrow> (string, value) btree_map" where
  "or_insert slot acc =
     (if bm_has acc (vs_name slot) then acc else bm_insert (vs_name slot) (vs_value slot) acc)"

fun visible_from ::
  "machine \<Rightarrow> nat \<Rightarrow> (string, variable_slot) btree_map \<Rightarrow> string \<Rightarrow> (string, value) btree_map \<Rightarrow>
   ((string, value) btree_map, 'e) outcome" where
  "visible_from m 0 vars path acc = OutOfFuel"
| "visible_from m (Suc n) vars path acc =
     (let acc' = fold or_insert (filter (\<lambda>slot. vs_declaration_path slot = path) (bm_values vars)) acc
      in obind (state_at m path) (\<lambda>s.
           case s_parent s of None \<Rightarrow> Ok acc' | Some p \<Rightarrow> visible_from m n vars p acc'))"

definition visible_variables :: "runtime_state \<Rightarrow> string \<Rightarrow> ((string, value) btree_map, 'e) outcome" where
  "visible_variables r scope =
     visible_from (rt_definition r) (walk_fuel (rt_definition r)) (rt_variables r) scope []"

definition action_environment ::
  "runtime_state \<Rightarrow> string \<Rightarrow> envelope option \<Rightarrow> (cel_environment, 'e) outcome" where
  "action_environment r scope e =
     obind (visible_variables r scope) (\<lambda>vs.
       Ok (case e of
             None \<Rightarrow> vs
           | Some env \<Rightarrow>
               bm_insert ''event'' (VMap [(''payload'', VMap (env_payload env))]) vs))"

fun resolve_key_from ::
  "machine \<Rightarrow> nat \<Rightarrow> (string, variable_slot) btree_map \<Rightarrow> string \<Rightarrow> string \<Rightarrow>
   (string option, 'e) outcome" where
  "resolve_key_from m 0 vars name path = OutOfFuel"
| "resolve_key_from m (Suc n) vars name path =
     (if bm_has vars (variable_key path name) then Ok (Some (variable_key path name))
      else obind (state_at m path) (\<lambda>s.
             case s_parent s of None \<Rightarrow> Ok None | Some p \<Rightarrow> resolve_key_from m n vars name p))"

definition resolve_variable_key :: "runtime_state \<Rightarrow> string \<Rightarrow> string \<Rightarrow> (string option, 'e) outcome" where
  "resolve_variable_key r scope name =
     resolve_key_from (rt_definition r) (walk_fuel (rt_definition r)) (rt_variables r) name scope"

section \<open>Documents for providers\<close>

definition jget :: "json \<Rightarrow> string \<Rightarrow> json option" where
  "jget j k = (case j of JObject ms \<Rightarrow> bm_get ms k | _ \<Rightarrow> None)"

definition jindex :: "json \<Rightarrow> string \<Rightarrow> json" where
  "jindex j k = (case jget j k of Some v \<Rightarrow> v | None \<Rightarrow> JNull)"

definition jstr :: "json \<Rightarrow> string option" where
  "jstr j = (case j of JString s \<Rightarrow> Some s | _ \<Rightarrow> None)"

definition jarray :: "json \<Rightarrow> json list option" where
  "jarray j = (case j of JArray js \<Rightarrow> Some js | _ \<Rightarrow> None)"

text \<open>\<^verbatim>\<open>v1::core_target_to_queue\<close>: a target on the wire, with the machine version as text.\<close>

fun core_target_to_queue :: "target \<Rightarrow> json" where
  "core_target_to_queue (RootTarget i r) =
     JObject [(''root'', JObject [(''root_instance_id'', JString i), (''root_runtime_id'', JString r)])]"
| "core_target_to_queue (SpawnedTarget rf) =
     JObject [(''spawned_instance'',
       JObject [(''instance_id'', JString (ref_instance_id rf)),
                (''machine_id'', JString (ref_machine_id rf)),
                (''machine_version'', JString (signed_decimal (sint (ref_machine_version rf)))),
                (''root_instance_id'', JString (ref_root_instance_id rf))])]"
| "core_target_to_queue (ComponentPlacement i owner cid rid seq) =
     JObject [(''component'',
       JObject [(''activation_sequence'', JString (canonical_decimal seq)),
                (''component_id'', JString cid), (''component_runtime_id'', JString rid),
                (''owner_runtime_id'', JString owner), (''root_instance_id'', JString i)])]"
| "core_target_to_queue External = JString ''external''"

definition queued_envelope :: "runtime_state \<Rightarrow> string \<Rightarrow> json option" where
  "queued_envelope r event_id =
     find_map (\<lambda>entry. let q = jindex entry ''envelope'' in
                 if jstr (jindex q ''event_id'') = Some event_id then Some q else None)
       (rc_ready_mailbox (rt_core r))"

definition snapshot_event :: "runtime_state \<Rightarrow> envelope \<Rightarrow> json option \<Rightarrow> json" where
  "snapshot_event r e candidate =
     (case (case candidate of Some q \<Rightarrow> Some q | None \<Rightarrow> queued_envelope r (env_event_id e)) of
        Some q \<Rightarrow> q
      | None \<Rightarrow>
          JObject (bm_of
            ([(''event'', JString (env_event e)), (''event_id'', JString (env_event_id e)),
              (''target'', core_target_to_queue (env_target e)),
              (''payload'', projection (typed_from_value (VMap (env_payload e))))] @
             (case env_correlation_id e of
                None \<Rightarrow> [] | Some c \<Rightarrow> [(''correlation_id'', JString c)])) []))"

definition provider_snapshot ::
  "runtime_state \<Rightarrow> string \<Rightarrow> envelope option \<Rightarrow> json \<Rightarrow> json option \<Rightarrow> (json, 'e) outcome" where
  "provider_snapshot r scope e binding candidate =
     obind (visible_variables r scope) (\<lambda>vs.
       let inputs = jindex binding ''input_types'';
           variables =
             (if jget inputs ''variables'' \<noteq> None
              then [(''variables'', projection (typed_from_value (VMap
                      (bm_retain (\<lambda>name _. name \<notin> {''owner'', ''env'', ''event''}) vs))))]
              else []);
           event =
             (if jget inputs ''event'' \<noteq> None
              then (case e of None \<Rightarrow> [] | Some env \<Rightarrow> [(''event'', snapshot_event r env candidate)])
              else []);
           named =
             (\<lambda>name. if jget inputs name \<noteq> None
                     then (case bm_get vs name of
                             None \<Rightarrow> [] | Some v \<Rightarrow> [(name, projection (typed_from_value v))])
                     else [])
       in Ok (JObject (bm_of (variables @ event @ named ''owner'' @ named ''env'') [])))"

section \<open>Guards\<close>

text \<open>\<^verbatim>\<open>providers::guard\<close>; \<open>None\<close> is its error, whose content the callers drop.\<close>

definition guard_holds ::
  "engine \<Rightarrow> runtime_state \<Rightarrow> string \<Rightarrow> guard \<Rightarrow> envelope option \<Rightarrow> (bool option, 'e) outcome" where
  "guard_holds G r scope g e =
     (case g of
        GuardCel source \<Rightarrow>
          obind (action_environment r scope e) (\<lambda>env.
            Ok (case evaluate_boolean G source env of Inl _ \<Rightarrow> None | Inr b \<Rightarrow> Some b))
      | GuardProvider provider \<Rightarrow>
          (case m_runtime_providers (rt_definition r) of
             None \<Rightarrow> Ok None
           | Some registry \<Rightarrow>
               obind (provider_snapshot r scope e provider None) (\<lambda>snapshot.
                 Ok (eng_invoke_guard G registry provider snapshot))))"

definition guard_fault :: "string option \<Rightarrow> ('a, step_fault) outcome" where
  "guard_fault pointer =
     obind (expect pointer) (\<lambda>p. Err \<lparr>sf_code = GuardFault, sf_source_locator = p\<rparr>)"

section \<open>Handler selection\<close>

datatype handler_selection = Handled string compiled_transition | Deferred | Unhandled

fun select_transition ::
  "engine \<Rightarrow> runtime_state \<Rightarrow> string \<Rightarrow> envelope \<Rightarrow> compiled_transition list \<Rightarrow>
   (compiled_transition option, step_fault) outcome" where
  "select_transition G r path e [] = Ok None"
| "select_transition G r path e (t # ts) =
     (case ct_guard t of
        None \<Rightarrow> Ok (Some t)
      | Some g \<Rightarrow>
          obind (guard_holds G r path g (Some e)) (\<lambda>b.
            case b of
              None \<Rightarrow> guard_fault (ct_guard_pointer t)
            | Some b \<Rightarrow> if b then Ok (Some t) else select_transition G r path e ts))"

definition select_at ::
  "engine \<Rightarrow> runtime_state \<Rightarrow> envelope \<Rightarrow> string \<Rightarrow> state \<Rightarrow> (handler_selection option, step_fault) outcome" where
  "select_at G r e path s =
     obind (case bm_get (s_handlers s) (env_event e) of
              None \<Rightarrow> Ok None | Some ts \<Rightarrow> select_transition G r path e ts)
       (\<lambda>chosen. case chosen of
          Some t \<Rightarrow> Ok (Some (Handled path t))
        | None \<Rightarrow> Ok (if env_event e \<in> set (s_deferred_events s) then Some Deferred else None))"

fun select_from ::
  "engine \<Rightarrow> runtime_state \<Rightarrow> envelope \<Rightarrow> nat \<Rightarrow> string option \<Rightarrow> string list \<Rightarrow>
   (handler_selection option \<times> string list, step_fault) outcome" where
  "select_from G r e n None visited = Ok (None, visited)"
| "select_from G r e 0 (Some path) visited = OutOfFuel"
| "select_from G r e (Suc n) (Some path) visited =
     obind (state_at (rt_definition r) path) (\<lambda>s.
       if path \<in> set visited then select_from G r e n (s_parent s) visited
       else obind (select_at G r e path s) (\<lambda>found.
              case found of
                Some h \<Rightarrow> Ok (Some h, path # visited)
              | None \<Rightarrow> select_from G r e n (s_parent s) (path # visited)))"

fun select_leaves ::
  "engine \<Rightarrow> runtime_state \<Rightarrow> envelope \<Rightarrow> string list \<Rightarrow> string list \<Rightarrow>
   (handler_selection, step_fault) outcome" where
  "select_leaves G r e [] visited = Ok Unhandled"
| "select_leaves G r e (leaf # leaves) visited =
     obind (select_from G r e (walk_fuel (rt_definition r)) (Some leaf) visited) (\<lambda>(found, visited').
       case found of Some h \<Rightarrow> Ok h | None \<Rightarrow> select_leaves G r e leaves visited')"

definition select_handler ::
  "engine \<Rightarrow> runtime_state \<Rightarrow> envelope \<Rightarrow> (handler_selection, step_fault) outcome" where
  "select_handler G r e = select_leaves G r e (candidates r) []"

definition choice_enabled ::
  "engine \<Rightarrow> runtime_state \<Rightarrow> string \<Rightarrow> compiled_choice \<Rightarrow> (bool, step_fault) outcome" where
  "choice_enabled G r scope branch =
     (case cc_guard branch of
        None \<Rightarrow> Ok True
      | Some g \<Rightarrow>
          obind (guard_holds G r scope g None) (\<lambda>b.
            case b of None \<Rightarrow> guard_fault (cc_guard_pointer branch) | Some b \<Rightarrow> Ok b))"

fun select_branch ::
  "engine \<Rightarrow> runtime_state \<Rightarrow> string \<Rightarrow> compiled_choice list \<Rightarrow> (compiled_choice, step_fault) outcome" where
  "select_branch G r scope [] = Panic"
| "select_branch G r scope (b # bs) =
     obind (choice_enabled G r scope b) (\<lambda>enabled.
       if enabled then Ok b else select_branch G r scope bs)"

section \<open>The boundary of a transition\<close>

definition transition_boundary :: "runtime_state \<Rightarrow> string \<Rightarrow> string \<Rightarrow> bool \<Rightarrow> (string, 'e) outcome" where
  "transition_boundary r source_path target local =
     (let parent = obind (state_at (rt_definition r) source_path) (\<lambda>s. expect (s_parent s)) in
      if source_path = target then parent
      else if is_descendant target source_path then
        (if source_path = root_path \<or> local then Ok source_path else parent)
      else if is_descendant source_path target then Ok target
      else lowest_common_ancestor (rt_definition r) source_path target)"

section \<open>Bindings\<close>

text \<open>
  The check that both \<^verbatim>\<open>initialize_root_variables\<close> and \<^verbatim>\<open>validate_runtime_bindings\<close> make.
\<close>

definition binding_accepted :: "bindings \<Rightarrow> string \<times> variable_declaration \<Rightarrow> bool" where
  "binding_accepted b nd =
     (case (if vd_input (snd nd) then bm_get (bi_input b) (fst nd) else bm_get (bi_external b) (fst nd)) of
        Some v \<Rightarrow> normalize_for_type v (vd_value_type (snd nd)) \<noteq> None
      | None \<Rightarrow> vd_init (snd nd) \<noteq> None)"

definition validate_runtime_bindings :: "machine \<Rightarrow> bindings \<Rightarrow> (bool, 'e) outcome" where
  "validate_runtime_bindings m b =
     obind (root_input_variables m) (\<lambda>input.
     obind (root_external_variables m) (\<lambda>external.
       Ok (list_all (bm_has input) (bm_keys (bi_input b)) \<and>
           list_all (bm_has external) (bm_keys (bi_external b)) \<and>
           list_all (binding_accepted b) (input @ external))))"

definition initialize_root_variables :: "runtime_state \<Rightarrow> bindings \<Rightarrow> (bool, 'e) outcome" where
  "initialize_root_variables r b = validate_runtime_bindings (rt_definition r) b"

definition action_fault :: "string \<Rightarrow> step_fault" where
  "action_fault locator = \<lparr>sf_code = ActionFault, sf_source_locator = locator\<rparr>"

text \<open>Evaluating the expressions of a map in order, with the locator of the failing member.\<close>

fun evaluate_members ::
  "engine \<Rightarrow> cel_environment \<Rightarrow> (string \<Rightarrow> string) \<Rightarrow> (string \<times> string) list \<Rightarrow>
   (string, value) btree_map \<Rightarrow> ((string, value) btree_map, step_fault) outcome" where
  "evaluate_members G env locator [] acc = Ok acc"
| "evaluate_members G env locator ((name, expression) # rest) acc =
     (case evaluate G expression env of
        Inl _ \<Rightarrow> Err (action_fault (locator name))
      | Inr v \<Rightarrow> evaluate_members G env locator rest (bm_insert name v acc))"

definition evaluate_bindings ::
  "engine \<Rightarrow> runtime_state \<Rightarrow> string \<Rightarrow> envelope option \<Rightarrow> binding_expressions \<Rightarrow> string \<Rightarrow>
   (bindings, step_fault) outcome" where
  "evaluate_bindings G r scope e expressions pointer =
     obind (action_environment r scope e) (\<lambda>env0.
     obind (visible_variables r scope) (\<lambda>vs.
       let env = bm_insert ''owner'' (VMap [(''variables'', VMap vs)]) env0 in
       obind (evaluate_members G env (\<lambda>name. pointer @ ''/input/'' @ escape_pointer name)
                (be_input expressions) []) (\<lambda>input.
       obind (evaluate_members G env (\<lambda>name. pointer @ ''/external/'' @ escape_pointer name)
                (be_external expressions) []) (\<lambda>external.
         Ok \<lparr>bi_input = input, bi_external = external\<rparr>))))"

section \<open>Send targets\<close>

definition runtime_target :: "runtime_state \<Rightarrow> target" where
  "runtime_target r = rc_target_identity (rt_core r)"

definition runtime_owner_runtime_id :: "runtime_state \<Rightarrow> string option" where
  "runtime_owner_runtime_id r =
     (case rt_relation r of RelRoot \<Rightarrow> None | rel \<Rightarrow> Some (rel_owner_runtime_id rel))"

definition owner_target :: "runtime_state \<Rightarrow> target option" where
  "owner_target r = (case rt_relation r of RelRoot \<Rightarrow> None | rel \<Rightarrow> Some (rel_owner_target rel))"

fun target_runtime_id :: "target \<Rightarrow> string" where
  "target_runtime_id (RootTarget _ rid) = rid"
| "target_runtime_id (SpawnedTarget rf) = ref_instance_id rf"
| "target_runtime_id (ComponentPlacement _ _ _ rid _) = rid"
| "target_runtime_id External = []"

definition send_pointer :: "compiled_action \<Rightarrow> send_target list \<Rightarrow> nat \<Rightarrow> string" where
  "send_pointer action targets index =
     (if length targets = 1 then ca_pointer action @ ''/send/to''
      else ca_pointer action @ ''/send/targets/'' @ decimal index)"

definition target_expression_pointer :: "compiled_action \<Rightarrow> send_target list \<Rightarrow> nat \<Rightarrow> string" where
  "target_expression_pointer action targets index = send_pointer action targets index @ ''/instance''"

definition resolve_author_target ::
  "runtime_state \<Rightarrow> send_target \<Rightarrow> value option \<Rightarrow> compiled_action \<Rightarrow> send_target list \<Rightarrow> nat \<Rightarrow>
   (target, step_fault) outcome" where
  "resolve_author_target r t dynamic action targets index =
     (case t of
        SelfTarget \<Rightarrow> Ok (runtime_target r)
      | OwnerTarget \<Rightarrow>
          ok_or \<lparr>sf_code = FaultInvalidInstance, sf_source_locator = send_pointer action targets index\<rparr>
            (owner_target r)
      | ComponentTarget component_id \<Rightarrow>
          (case find (\<lambda>c. cr_component_id c = component_id) (rt_components r) of
             None \<Rightarrow> Err \<lparr>sf_code = FaultInactiveComponent, sf_source_locator = send_pointer action targets index\<rparr>
           | Some c \<Rightarrow>
               if rt_status (cr_runtime c) \<noteq> Running
               then Err \<lparr>sf_code = FaultInactiveComponent, sf_source_locator = send_pointer action targets index\<rparr>
               else Ok (rc_target_identity (rt_core (cr_runtime c))))
      | InstanceTarget _ \<Rightarrow>
          (case dynamic of
             Some (VRef rf) \<Rightarrow>
               if find_spawn_address rf r = None
               then Err \<lparr>sf_code = FaultInvalidInstance,
                         sf_source_locator = target_expression_pointer action targets index\<rparr>
               else Ok (SpawnedTarget rf)
           | _ \<Rightarrow> Err \<lparr>sf_code = FaultInvalidInstance,
                       sf_source_locator = target_expression_pointer action targets index\<rparr>)
      | ExternalTarget \<Rightarrow> Ok External)"

end
