(* ===== verification/Kernel.thy ===== *)
theory Kernel
  imports Selection "HOL-Library.Product_Lexorder"
begin

text \<open>
  The step kernel of \<^verbatim>\<open>src/format1/runtime.rs\<close>: entering and leaving states, running actions,
  sending, spawning, components, history, completion and clean-up.  The functions of the code
  call each other in a cycle (an action may spawn an instance, whose initialisation runs
  actions), and a spawn cycle need not end.  The two entries of that cycle, running a list of
  actions and initialising a runtime, are fields of the record \<open>kernel\<close>; \<open>kernel_at n\<close> ties
  the knot for call depth \<open>n\<close>.  The loops of the code that follow initial transitions,
  choices and ownership take the same bound.
\<close>

record kernel =
  kn_params :: step_params
  kn_fuel :: nat
  kn_run :: "string \<Rightarrow> compiled_action list \<Rightarrow> envelope option \<Rightarrow> unit km"
  kn_init :: "bindings \<Rightarrow> unit km"

abbreviation kn_engine :: "kernel \<Rightarrow> engine" where
  "kn_engine K \<equiv> sp_engine (kn_params K)"

abbreviation kn_bundle :: "kernel \<Rightarrow> compiled_bundle" where
  "kn_bundle K \<equiv> sp_bundle (kn_params K)"

abbreviation kn_root_instance_id :: "kernel \<Rightarrow> string" where
  "kn_root_instance_id K \<equiv> sp_root_instance_id (kn_params K)"

abbreviation kn_step_sequence :: "kernel \<Rightarrow> counter" where
  "kn_step_sequence K \<equiv> sp_step_sequence (kn_params K)"

section \<open>Emissions\<close>

definition push_emission :: "emission \<Rightarrow> unit km" where
  "push_emission em = kmodify_context (\<lambda>cx. cx\<lparr>cx_emissions := cx_emissions cx @ [em]\<rparr>)"

definition system_emission ::
  "kernel \<Rightarrow> runtime_state \<Rightarrow> string \<Rightarrow> target \<Rightarrow> (string, value) btree_map \<Rightarrow> string \<Rightarrow> nat \<Rightarrow> string \<Rightarrow>
   emission" where
  "system_emission K r event t payload locator ordinal cause_id =
     \<lparr>em_emitting_runtime_id = rt_runtime_id r,
      em_emitting_owner_runtime_id = runtime_owner_runtime_id r,
      em_event = event,
      em_event_id = Some (internal_event_identity (kn_engine K) (kn_root_instance_id K)
        (rt_runtime_id r) (target_runtime_id t) cause_id (kn_step_sequence K) locator ordinal),
      em_target = t, em_payload = payload, em_correlation_id = None, em_effect_id = None,
      em_sequence = None, em_emission_index = ordinal, em_cause_id = Some cause_id,
      em_system_source = Some locator\<rparr>"

definition push_system_emission ::
  "kernel \<Rightarrow> runtime_state \<Rightarrow> string \<Rightarrow> target \<Rightarrow> (string, value) btree_map \<Rightarrow> string \<Rightarrow> nat \<Rightarrow> string \<Rightarrow>
   unit km" where
  "push_system_emission K r event t payload locator ordinal cause_id =
     push_emission (system_emission K r event t payload locator ordinal cause_id)"

definition emit_completion_notification :: "kernel \<Rightarrow> runtime_state \<Rightarrow> unit km" where
  "emit_completion_notification K r =
     kbind (kreads (\<lambda>s. cx_cause_id (snd s))) (\<lambda>cause_id.
       case rt_relation r of
         RelRoot \<Rightarrow> kret ()
       | RelComponent _ owner_target' _ component_id _ _ _ \<Rightarrow>
           push_system_emission K r ''determa.component_completed'' owner_target'
             [(''component_id'', VString component_id),
              (''component_runtime_id'', VString (rt_runtime_id r))]
             ''system:component_completion'' 0 cause_id
       | RelSpawned _ owner_target' _ _ rf _ _ _ \<Rightarrow>
           push_system_emission K r ''done'' owner_target'
             [(''instance'', VRef rf), (''instance_id'', VString (ref_instance_id rf)),
              (''machine_id'', VString (ref_machine_id rf)),
              (''machine_version'', VInt (ref_machine_version rf)),
              (''relationship'', VString ''spawned_instance'')]
             ''system:spawned_completion'' 0 cause_id)"

definition public_fault :: "fault_record \<Rightarrow> value" where
  "public_fault record =
     VMap [(''cause_id'', VString (fr_cause_id record)), (''code'', VString (fr_code record)),
           (''runtime_id'', VString (fr_runtime_id record)),
           (''source_locator'', VString (fr_source_locator record)),
           (''step_sequence'', VString (canonical_decimal (fr_step_sequence record)))]"

definition emit_failure_notification :: "kernel \<Rightarrow> runtime_state \<Rightarrow> fault_record \<Rightarrow> unit km" where
  "emit_failure_notification K r record =
     (case rt_relation r of
        RelComponent _ owner_target' _ component_id _ _ _ \<Rightarrow>
          push_system_emission K r ''determa.component_failed'' owner_target'
            [(''component_id'', VString component_id),
             (''component_runtime_id'', VString (rt_runtime_id r)),
             (''fault'', public_fault record)]
            ''system:component_failure'' 0 (fr_cause_id record)
      | RelSpawned _ owner_target' _ _ rf _ _ _ \<Rightarrow>
          push_system_emission K r ''determa.spawned_instance_failed'' owner_target'
            [(''fault'', public_fault record), (''instance'', VRef rf),
             (''instance_id'', VString (ref_instance_id rf)),
             (''machine_id'', VString (ref_machine_id rf)),
             (''machine_version'', VInt (ref_machine_version rf))]
            ''system:spawned_failure'' 0 (fr_cause_id record)
      | RelRoot \<Rightarrow> kret ())"

definition parallel_done :: "engine \<Rightarrow> runtime_state \<Rightarrow> string \<Rightarrow> string \<Rightarrow> counter \<Rightarrow> string \<Rightarrow> emission" where
  "parallel_done G owner owner_state_path cause_id step_sequence root_instance_id =
     \<lparr>em_emitting_runtime_id = rt_runtime_id owner,
      em_emitting_owner_runtime_id = runtime_owner_runtime_id owner,
      em_event = ''done'',
      em_event_id = Some (internal_event_identity G root_instance_id (rt_runtime_id owner)
        (rt_runtime_id owner) cause_id step_sequence ''system:component_completion'' 1),
      em_target = runtime_target owner,
      em_payload = [(''owner_runtime_id'', VString (rt_runtime_id owner)),
                    (''relationship'', VString ''parallel''), (''state_path'', VString owner_state_path)],
      em_correlation_id = None, em_effect_id = None, em_sequence = None, em_emission_index = 1,
      em_cause_id = Some cause_id, em_system_source = Some ''system:component_completion''\<rparr>"

definition push_parallel_done :: "kernel \<Rightarrow> runtime_state \<Rightarrow> string \<Rightarrow> string \<Rightarrow> unit km" where
  "push_parallel_done K owner owner_state_path cause_id =
     push_emission (parallel_done (kn_engine K) owner owner_state_path cause_id (kn_step_sequence K)
       (kn_root_instance_id K))"

section \<open>Leaving states\<close>

definition set_status :: "runtime_status \<Rightarrow> runtime_core \<Rightarrow> runtime_core" where
  "set_status st c = c\<lparr>rc_status := st\<rparr>"

definition drop_variables :: "string \<Rightarrow> runtime_core \<Rightarrow> runtime_core" where
  "drop_variables path c =
     c\<lparr>rc_variables := bm_retain (\<lambda>_ slot. vs_declaration_path slot \<noteq> path) (rc_variables c)\<rparr>"

definition deactivate :: "string \<Rightarrow> runtime_core \<Rightarrow> runtime_core" where
  "deactivate path c = c\<lparr>rc_active := bs_remove path (rc_active c)\<rparr>"

definition drop_activation :: "string \<Rightarrow> runtime_core \<Rightarrow> runtime_core" where
  "drop_activation path c =
     c\<lparr>rc_active_state_activation_sequence := bm_remove path (rc_active_state_activation_sequence c)\<rparr>"

definition cascade_step_fault :: step_fault where
  "cascade_step_fault = \<lparr>sf_code = CascadeFault, sf_source_locator = ''system:cascade_cleanup''\<rparr>"

definition is_component_of :: "string \<Rightarrow> component_runtime \<Rightarrow> bool" where
  "is_component_of path c \<longleftrightarrow>
     (case rt_relation (cr_runtime c) of
        RelComponent _ _ owner_state_path _ _ _ _ \<Rightarrow> owner_state_path = path | _ \<Rightarrow> False)"

text \<open>
  The order of clean-up: components by descending placement, instances by ascending holder and
  spawn sequence.  A component without a component relation, or one whose owner state is not
  active, panics in the code.
\<close>

definition component_cleanup_key ::
  "runtime_state \<Rightarrow> component_runtime \<Rightarrow> (string \<times> counter \<times> nat \<times> counter, step_fault) outcome" where
  "component_cleanup_key owner c =
     (case rt_relation (cr_runtime c) of
        RelComponent _ _ owner_state_path _ _ _ _ \<Rightarrow>
          obind (state_at (rt_definition owner) owner_state_path) (\<lambda>s.
          obind (expect (bm_get (rc_active_state_activation_sequence (rt_core owner)) owner_state_path)) (\<lambda>seq.
            Ok (s_pointer s, seq, cr_declaration_index c, cr_activation_sequence c)))
      | _ \<Rightarrow> Panic)"

definition sort_component_cleanup_indices ::
  "runtime_state \<Rightarrow> nat list \<Rightarrow> (nat list, step_fault) outcome" where
  "sort_component_cleanup_indices r indices =
     (if length indices < 2 then Ok indices
      else obind (collect_outcome (map (\<lambda>i. component_cleanup_key r (rt_components r ! i)) indices))
        (\<lambda>keys. Ok (map snd (rev (sort_key fst (rev (zip keys indices)))))))"

definition owned_cleanup_key :: "owned_runtime \<Rightarrow> nat \<times> string \<times> counter \<times> counter" where
  "owned_cleanup_key w =
     (if or_holder_path w = None then 1 else 0,
      case or_holder_pointer w of None \<Rightarrow> [] | Some p \<Rightarrow> p,
      or_holder_activation_sequence w, or_spawn_sequence w)"

definition sort_owned_cleanup_indices :: "runtime_state \<Rightarrow> nat list \<Rightarrow> nat list" where
  "sort_owned_cleanup_indices r indices =
     sort_key (\<lambda>i. owned_cleanup_key (rt_owned r ! i)) indices"

definition cleanup_components :: "unit km \<Rightarrow> (component_runtime \<Rightarrow> bool) \<Rightarrow> unit km" where
  "cleanup_components clean selected =
     kbind (kpure (\<lambda>s. sort_component_cleanup_indices (fst s)
              (filter (\<lambda>i. selected (rt_components (fst s) ! i)) [0..<length (rt_components (fst s))])))
       (\<lambda>indices.
         kseq (kfor (\<lambda>i. kon_component i clean) indices)
           (kmodify_components (filter (\<lambda>c. \<not> selected c))))"

definition cleanup_owned :: "unit km \<Rightarrow> (owned_runtime \<Rightarrow> bool) \<Rightarrow> unit km" where
  "cleanup_owned clean selected =
     kbind (kreads (\<lambda>s. sort_owned_cleanup_indices (fst s)
              (filter (\<lambda>i. selected (rt_owned (fst s) ! i)) [0..<length (rt_owned (fst s))])))
       (\<lambda>indices.
         kbind (kreads (\<lambda>s. map (\<lambda>i. or_spawn_sequence (rt_owned (fst s) ! i)) indices)) (\<lambda>sequences.
           kseq (kfor (\<lambda>i. kon_owned i clean) indices)
             (kmodify_owned (filter (\<lambda>w. or_spawn_sequence w \<notin> set sequences)))))"

definition cleanup_state_children :: "unit km \<Rightarrow> string \<Rightarrow> unit km" where
  "cleanup_state_children clean path =
     kseq (cleanup_components clean (is_component_of path))
       (cleanup_owned clean (\<lambda>w. or_holder_path w = Some path))"

definition cleanup_all_descendants :: "unit km \<Rightarrow> unit km" where
  "cleanup_all_descendants clean =
     kseq (cleanup_components clean (\<lambda>_. True)) (cleanup_owned clean (\<lambda>_. True))"

definition cleanup_exit :: "kernel \<Rightarrow> string \<Rightarrow> unit km" where
  "cleanup_exit K path =
     kbind (kpure (\<lambda>s. state_at (rt_definition (fst s)) path)) (\<lambda>st.
     kseq (kn_run K path (s_exit st) None)
     (kseq (kmodify_core (drop_variables path)) (kmodify_core (deactivate path))))"

primrec cleanup_runtime :: "kernel \<Rightarrow> nat \<Rightarrow> unit km" where
  "cleanup_runtime K 0 = kout_of_fuel"
| "cleanup_runtime K (Suc n) =
     kmap_err (\<lambda>_. cascade_step_fault)
       (kseq (cleanup_all_descendants (cleanup_runtime K n))
       (kseq (kbind (kreads fst) (\<lambda>r.
                kwhen (rt_status r = Running) (kfor (cleanup_exit K) (deepest_first (rt_active r)))))
         (kmodify_core (set_status Completed))))"

definition exit_state :: "kernel \<Rightarrow> string \<Rightarrow> unit km" where
  "exit_state K path =
     kbind (kpure (\<lambda>s. state_at (rt_definition (fst s)) path)) (\<lambda>st.
     kseq (cleanup_state_children (cleanup_runtime K (kn_fuel K)) path)
     (kseq (kn_run K path (s_exit st) None)
     (kseq (kmodify_core (drop_variables path))
     (kseq (kmodify_core (deactivate path)) (kmodify_core (drop_activation path))))))"

definition complete_runtime :: "kernel \<Rightarrow> unit km" where
  "complete_runtime K =
     kmap_err (\<lambda>_. cascade_step_fault)
       (kunless_completed
         (kseq (cleanup_all_descendants (cleanup_runtime K (kn_fuel K)))
         (kbind (kreads (\<lambda>s. deepest_first (rt_active (fst s)))) (\<lambda>exits.
          kseq (kfor (exit_state K) exits)
          (kseq (kmodify_core (set_status Completed))
          (kbind (kreads fst) (\<lambda>r. emit_completion_notification K r)))))))"

primrec cancel_owned :: "kernel \<Rightarrow> instance_reference \<Rightarrow> nat \<Rightarrow> bool km" where
  "cancel_owned K rf 0 = kout_of_fuel"
| "cancel_owned K rf (Suc n) =
     kbind (kreads fst) (\<lambda>r.
       case position (\<lambda>w. or_reference w = rf) (rt_owned r) of
         Some i \<Rightarrow>
           kseq (kon_owned i (cleanup_runtime K (kn_fuel K)))
           (kseq (kmodify_owned (\<lambda>ws. take i ws @ drop (Suc i) ws)) (kret True))
       | None \<Rightarrow> kfor_until (\<lambda>i. kon_owned i (cancel_owned K rf n)) [0..<length (rt_owned r)])"

section \<open>Children\<close>

definition allocate_component ::
  "kernel \<Rightarrow> state \<Rightarrow> component \<Rightarrow> unit km" where
  "allocate_component K st c =
     kbind (kreads (\<lambda>s. fst (allocate (case bm_get (rc_next_component_activation_sequence (rt_core (fst s)))
                                              (c_pointer c) of None \<Rightarrow> counter_zero | Some q \<Rightarrow> q)))) (\<lambda>seq.
     kseq (kmodify_core (\<lambda>k. k\<lparr>rc_next_component_activation_sequence :=
             bm_insert (c_pointer c) (snd (allocate seq)) (rc_next_component_activation_sequence k)\<rparr>))
     (kbind (kpure (\<lambda>_. case c_definition c of
                 DefMachine machine_id \<Rightarrow> expect (bm_get (b_machines (kn_bundle K)) machine_id)
               | DefInline m \<Rightarrow> Ok m)) (\<lambda>m.
      kbind (kreads fst) (\<lambda>r.
        let runtime_id = component_runtime_identity (kn_engine K) (kn_bundle K) (kn_root_instance_id K)
              (rt_runtime_id r) c seq m;
            relation = RelComponent (rt_runtime_id r) (runtime_target r) (s_path st) (c_component_id c)
              (c_pointer c) (c_declaration_index c) seq;
            binding = definition_binding_of (kn_bundle K) m;
            target_identity = ComponentPlacement (kn_root_instance_id K) (rt_runtime_id r)
              (c_component_id c) runtime_id seq;
            origin = OriginComponent binding (rt_runtime_id r) (c_pointer c) seq (c_declaration_index c)
        in kmodify_components (\<lambda>cs. cs @ [ComponentRuntime (c_component_id c) (c_pointer c)
             (c_declaration_index c) seq
             (new_runtime runtime_id m relation origin target_identity binding
                (Some (c_component_id c)))])))))"

definition allocate_components :: "kernel \<Rightarrow> state \<Rightarrow> unit km" where
  "allocate_components K st = kfor (allocate_component K st) (s_components st)"

definition fault_record_of :: "kernel \<Rightarrow> runtime_state \<Rightarrow> string \<Rightarrow> step_fault \<Rightarrow> fault_record" where
  "fault_record_of K child cause_id fault =
     \<lparr>fr_definition_fingerprint = db_validated_bundle_fingerprint (rc_current_definition (rt_core child)),
      fr_runtime_id = rt_runtime_id child, fr_cause_id = cause_id,
      fr_code = engine_fault_str (sf_code fault), fr_step_sequence = kn_step_sequence K,
      fr_source_locator = sf_source_locator fault\<rparr>"

text \<open>The diagnostic runtime that replaces one whose initialisation failed.\<close>

definition diagnostic_runtime :: "runtime_state \<Rightarrow> fault_record \<Rightarrow> runtime_state" where
  "diagnostic_runtime r record =
     with_core (\<lambda>c. c\<lparr>rc_history := [], rc_status := Faulted, rc_fault := Some record\<rparr>)
       (new_runtime (rt_runtime_id r) (rt_definition r) (rt_relation r)
          (rc_identity_origin (rt_core r)) (rc_target_identity (rt_core r))
          (rc_current_definition (rt_core r)) (rc_origin_component_id (rt_core r)))"

text \<open>
  Initialising a child with its own cause.  A fault of the child stays with the child: its
  emissions and output sequence numbers are taken back, the child becomes the diagnostic
  runtime, and the owner is notified.  The caller's runtime is not touched; the result is
  the initialised child.
\<close>

definition contain_fault :: "kernel \<Rightarrow> string \<Rightarrow> step_context \<Rightarrow> runtime_state \<Rightarrow> step_fault \<Rightarrow> runtime_state km" where
  "contain_fault K child_cause saved child fault =
     kseq (kmodify_context (\<lambda>cx. cx\<lparr>cx_emissions := take (length (cx_emissions saved)) (cx_emissions cx),
             cx_next_output_sequence := cx_next_output_sequence saved\<rparr>))
     (let record = fault_record_of K child child_cause fault;
          child' = diagnostic_runtime child record
      in kseq (emit_failure_notification K child' record) (kret child'))"

definition initialize_child :: "kernel \<Rightarrow> string \<Rightarrow> bindings \<Rightarrow> runtime_state \<Rightarrow> runtime_state km" where
  "initialize_child K child_cause b child s =
     (let saved = snd s; parent_cause = cx_cause_id saved in
      case kn_init K b (child, saved\<lparr>cx_cause_id := child_cause\<rparr>) of
        Ok (_, (child', cx)) \<Rightarrow> Ok (child', (fst s, cx\<lparr>cx_cause_id := parent_cause\<rparr>))
      | Err (fault, (child', cx)) \<Rightarrow>
          contain_fault K child_cause saved child' fault (fst s, cx\<lparr>cx_cause_id := parent_cause\<rparr>)
      | Panic \<Rightarrow> Panic
      | OutOfFuel \<Rightarrow> OutOfFuel)"

definition all_components_completed :: "runtime_state \<Rightarrow> bool" where
  "all_components_completed r \<longleftrightarrow> list_all (\<lambda>c. rt_status (cr_runtime c) = Completed) (rt_components r)"

definition initialize_component :: "kernel \<Rightarrow> state \<Rightarrow> runtime_state \<Rightarrow> component \<Rightarrow> unit km" where
  "initialize_component K st owner_snapshot c =
     kbind (kpure (\<lambda>s. expect (position (\<lambda>x. cr_pointer x = c_pointer c \<and>
              rt_active (cr_runtime x) = [] \<and> rt_status (cr_runtime x) = Running)
              (rt_components (fst s))))) (\<lambda>index.
     kbind (kpure (\<lambda>_. evaluate_bindings (kn_engine K) owner_snapshot (s_path st) None (c_bindings c)
              (c_pointer c @ ''/with''))) (\<lambda>b.
     kbind (kreads (\<lambda>s. get_component index (fst s))) (\<lambda>child.
     kbind (kpure (\<lambda>_. validate_runtime_bindings (rt_definition child) b)) (\<lambda>valid.
     if \<not> valid then kfail (action_fault (c_pointer c @ ''/with''))
     else
     kbind (kreads (\<lambda>s. initialization_cause (kn_engine K) ''component_initialization''
              (kn_root_instance_id K) (rt_runtime_id (fst s)) (rt_runtime_id child)
              (cx_cause_id (snd s)) (kn_step_sequence K) (c_pointer c) (c_declaration_index c)))
       (\<lambda>child_cause.
     kbind (initialize_child K child_cause b child) (\<lambda>child'.
     kseq (kmodify_components (\<lambda>cs. cs[index := set_cr_runtime child' (cs ! index)]))
     (kbind (kreads fst) (\<lambda>r.
       kwhen (rt_status child' = Completed \<and> all_components_completed r)
         (push_parallel_done K r (s_path st) child_cause)))))))))"

definition initialize_components :: "kernel \<Rightarrow> state \<Rightarrow> unit km" where
  "initialize_components K st =
     kbind (kreads fst) (\<lambda>owner_snapshot.
       kfor (initialize_component K st owner_snapshot) (s_components st))"

section \<open>Entering states\<close>

definition activate :: "string \<Rightarrow> runtime_core \<Rightarrow> runtime_core" where
  "activate path c =
     (let q = (case bm_get (rc_next_state_activation_sequence c) path of None \<Rightarrow> counter_zero | Some q \<Rightarrow> q)
      in c\<lparr>rc_next_state_activation_sequence :=
             bm_insert path (snd (allocate q)) (rc_next_state_activation_sequence c),
           rc_active_state_activation_sequence :=
             bm_insert path (fst (allocate q)) (rc_active_state_activation_sequence c),
           rc_active := bs_insert path (rc_active c)\<rparr>)"

definition initial_value :: "state \<Rightarrow> bindings \<Rightarrow> string \<times> variable_declaration \<Rightarrow> (value, step_fault) outcome" where
  "initial_value st b nd =
     (let name = fst nd; d = snd nd;
          locator = s_pointer st @ ''/variables/'' @ escape_pointer name;
          supplied =
            (if s_path st = root_path \<and> vd_input d then bm_get (bi_input b) name
             else if s_path st = root_path \<and> vd_external d then bm_get (bi_external b) name
             else None);
          given =
            (case supplied of
               Some v \<Rightarrow> Some v
             | None \<Rightarrow> map_option (\<lambda>i. case i of None \<Rightarrow> VNull | Some v \<Rightarrow> v) (vd_init d))
      in obind (ok_or (action_fault locator) given) (\<lambda>v.
           if vd_value_type d = ''instance_reference'' \<and> v = VNull then Ok VNull
           else ok_or (action_fault (locator @ ''/init'')) (normalize_for_type v (vd_value_type d))))"

definition insert_slot :: "state \<Rightarrow> counter \<Rightarrow> string \<times> variable_declaration \<Rightarrow> value \<Rightarrow> runtime_core \<Rightarrow> runtime_core" where
  "insert_slot st seq nd v c =
     c\<lparr>rc_variables := bm_insert (variable_key (s_path st) (fst nd))
         \<lparr>vs_name = fst nd, vs_declaration_path = s_path st,
          vs_declaration_pointer = s_pointer st @ ''/variables/'' @ escape_pointer (fst nd),
          vs_declaration = snd nd, vs_value = v, vs_state_activation_sequence = seq\<rparr>
         (rc_variables c)\<rparr>"

definition initialize_state_variables :: "state \<Rightarrow> bindings \<Rightarrow> counter \<Rightarrow> unit km" where
  "initialize_state_variables st b seq =
     kfor (\<lambda>nd. kbind (kpure (\<lambda>_. initial_value st b nd)) (\<lambda>v. kmodify_core (insert_slot st seq nd v)))
       (s_variables st)"

definition enter_state :: "kernel \<Rightarrow> string \<Rightarrow> bindings \<Rightarrow> unit km" where
  "enter_state K path b =
     kbind (kpure (\<lambda>s. state_at (rt_definition (fst s)) path)) (\<lambda>st.
     kseq (kmodify_core (activate path))
     (kbind (kreads (\<lambda>s. case bm_get (rc_active_state_activation_sequence (rt_core (fst s))) path of
                None \<Rightarrow> counter_zero | Some q \<Rightarrow> q)) (\<lambda>seq.
      kseq (kwhen (s_kind st = KindParallel) (allocate_components K st))
      (kseq (initialize_state_variables st b seq)
      (kseq (kn_run K path (s_entry st) None)
       (kunless_completed
         (kwhen (s_kind st = KindParallel) (initialize_components K st))))))))"

text \<open>
  Entering the inactive states of a chain, root first; the result says whether the runtime
  completed on the way, in which case the caller returns.
\<close>

definition enter_chain :: "kernel \<Rightarrow> (string \<Rightarrow> bool) \<Rightarrow> string \<Rightarrow> bool km" where
  "enter_chain K skip target =
     kbind (kpure (\<lambda>s. ancestors_to_root (rt_definition (fst s)) target)) (\<lambda>chain.
       kfor_until (\<lambda>path.
         if skip path then kret False
         else kbind (kreads (\<lambda>s. path \<in> set (rt_active (fst s)))) (\<lambda>active.
           if active then kret False
           else kseq (enter_state K path bindings_default)
                  (kreads (\<lambda>s. rt_status (fst s) = Completed)))) (rev chain))"

definition destroyed_write :: "runtime_state \<Rightarrow> string \<Rightarrow> string \<times> string \<times> string \<Rightarrow> bool" where
  "destroyed_write r boundary write \<longleftrightarrow>
     (case write of (runtime_id, declaration_path, locator) \<Rightarrow>
        runtime_id = rt_runtime_id r \<and> declaration_path \<noteq> root_path \<and>
        declaration_path \<noteq> boundary \<and> is_descendant declaration_path boundary)"

definition validate_provider_writes :: "string \<Rightarrow> string \<Rightarrow> bool \<Rightarrow> nat \<Rightarrow> unit km" where
  "validate_provider_writes source_path target local writes_start =
     kbind (kpure (\<lambda>s. transition_boundary (fst s) source_path target local)) (\<lambda>boundary.
     kbind (kreads (\<lambda>s. find (destroyed_write (fst s) boundary)
              (drop writes_start (cx_provider_writes (snd s))))) (\<lambda>destroyed.
       case destroyed of
         Some (_, _, locator) \<Rightarrow> kfail (action_fault locator)
       | None \<Rightarrow> kmodify_context (\<lambda>cx. cx\<lparr>cx_provider_writes := take writes_start (cx_provider_writes cx)\<rparr>)))"

primrec descend_initial :: "kernel \<Rightarrow> nat \<Rightarrow> string \<Rightarrow> unit km" where
  "descend_initial K 0 current = kout_of_fuel"
| "descend_initial K (Suc n) current =
     kbind (kpure (\<lambda>s. state_at (rt_definition (fst s)) current)) (\<lambda>st.
       if s_kind st \<noteq> KindComposite then kret ()
       else
         kbind (kpure (\<lambda>_. expect (s_initial st))) (\<lambda>initial.
         kbind (kreads (\<lambda>s. length (cx_provider_writes (snd s)))) (\<lambda>writes_start.
         kseq (kn_run K current (ci_action initial) None)
         (kunless_completed
           (kseq (validate_provider_writes current (ci_target initial) False writes_start)
           (kbind (enter_chain K (\<lambda>_. False) (ci_target initial)) (\<lambda>completed.
             if completed then kret () else descend_initial K n (ci_target initial))))))))"

definition enter_path_and_descend :: "kernel \<Rightarrow> string \<Rightarrow> unit km" where
  "enter_path_and_descend K target =
     kseq (kbind (kpure (\<lambda>s. ancestors_to_root (rt_definition (fst s)) target)) (\<lambda>chain.
             kfor (\<lambda>path. kbind (kreads (\<lambda>s. path \<in> set (rt_active (fst s)))) (\<lambda>active.
                kwhen (\<not> active) (enter_state K path bindings_default))) (rev chain)))
       (descend_initial K (kn_fuel K) target)"

definition enter_leaf :: "kernel \<Rightarrow> string \<Rightarrow> unit km" where
  "enter_leaf K leaf =
     kbind (kpure (\<lambda>s. ancestors_to_root (rt_definition (fst s)) leaf)) (\<lambda>chain.
       kfor (\<lambda>path. kbind (kreads (\<lambda>s. path \<in> set (rt_active (fst s)))) (\<lambda>active.
          kwhen (\<not> active) (enter_state K path bindings_default))) (rev chain))"

definition restore_history :: "kernel \<Rightarrow> string \<Rightarrow> unit km" where
  "restore_history K composite_path =
     kbind (kpure (\<lambda>s. state_at (rt_definition (fst s)) composite_path)) (\<lambda>st.
     kbind (kreads (\<lambda>s. case bm_get (rc_history (rt_core (fst s))) composite_path of
                          Some (Some record) \<Rightarrow> Some record | _ \<Rightarrow> None)) (\<lambda>record.
       case record of
         None \<Rightarrow> descend_initial K (kn_fuel K) composite_path
       | Some leaves \<Rightarrow>
           (case s_history st of
              HistoryShallow \<Rightarrow>
                (case leaves of
                   direct # _ \<Rightarrow> enter_path_and_descend K direct
                 | [] \<Rightarrow> descend_initial K (kn_fuel K) composite_path)
            | HistoryDeep \<Rightarrow> kfor (enter_leaf K) leaves
            | HistoryNone \<Rightarrow> descend_initial K (kn_fuel K) composite_path)))"

definition capture_history :: "runtime_state \<Rightarrow> state \<Rightarrow> runtime_core \<Rightarrow> runtime_core" where
  "capture_history r st c =
     (let leaves = filter (\<lambda>leaf. is_descendant leaf (s_path st)) (config r) in
      case s_history st of
        HistoryNone \<Rightarrow> c
      | HistoryDeep \<Rightarrow> c\<lparr>rc_history := bm_insert (s_path st) (Some leaves) (rc_history c)\<rparr>
      | HistoryShallow \<Rightarrow>
          c\<lparr>rc_history := bm_insert (s_path st)
              (Some (take 1 (List.map_filter (\<lambda>leaf. direct_child_path leaf (s_path st)) leaves)))
              (rc_history c)\<rparr>)"

section \<open>Transitions\<close>

definition perform_transition :: "kernel \<Rightarrow> string \<Rightarrow> string \<Rightarrow> bool \<Rightarrow> bool \<Rightarrow> unit km" where
  "perform_transition K source_path target history local =
     kbind (kpure (\<lambda>s. transition_boundary (fst s) source_path target local)) (\<lambda>boundary.
     kbind (kreads (\<lambda>s. filter (\<lambda>path. path \<noteq> boundary \<and> is_descendant path boundary)
                          (rt_active (fst s)))) (\<lambda>exits.
     kseq (kfor (\<lambda>path. kbind (kpure (\<lambda>s. state_at (rt_definition (fst s)) path)) (\<lambda>st.
             kbind (kreads fst) (\<lambda>r. kmodify_core (capture_history r st)))) exits)
     (kseq (kfor (exit_state K) (deepest_first exits))
     (kbind (enter_chain K (\<lambda>path. path = boundary) target) (\<lambda>completed.
        if completed then kret ()
        else if history then restore_history K target
        else descend_initial K (kn_fuel K) target)))))"

primrec resolve_choice_chain :: "kernel \<Rightarrow> envelope \<Rightarrow> nat \<Rightarrow> compiled_target \<Rightarrow> (string \<times> bool) km" where
  "resolve_choice_chain K e 0 t = kout_of_fuel"
| "resolve_choice_chain K e (Suc n) t =
     (let path = target_path t; history = (case t of TargetHistory _ \<Rightarrow> True | TargetState _ \<Rightarrow> False) in
      kbind (kpure (\<lambda>s. state_at (rt_definition (fst s)) path)) (\<lambda>st.
        case s_choice st of
          None \<Rightarrow> kret (path, history)
        | Some branches \<Rightarrow>
            kbind (kpure (\<lambda>s. select_branch (kn_engine K) (fst s) path branches)) (\<lambda>branch.
            kseq (kn_run K path (cc_action branch) (Some e))
            (kbind (kreads (\<lambda>s. rt_status (fst s))) (\<lambda>status.
               if status = Completed then kret (path, False)
               else resolve_choice_chain K e n (cc_target branch))))))"

fun any_final :: "machine \<Rightarrow> string list \<Rightarrow> (bool, 'e) outcome" where
  "any_final m [] = Ok False"
| "any_final m (p # ps) =
     obind (state_at m p) (\<lambda>st. if s_kind st = KindFinal then Ok True else any_final m ps)"

definition final_reached :: "runtime_state \<Rightarrow> (bool, step_fault) outcome" where
  "final_reached r = any_final (rt_definition r) (config r)"

definition complete_if_final :: "kernel \<Rightarrow> unit km" where
  "complete_if_final K =
     kbind (kpure (\<lambda>s. final_reached (fst s))) (\<lambda>final. kwhen final (complete_runtime K))"

definition execute_transition :: "kernel \<Rightarrow> string \<Rightarrow> compiled_transition \<Rightarrow> envelope \<Rightarrow> unit km" where
  "execute_transition K source_path t e =
     kbind (kreads (\<lambda>s. length (cx_provider_writes (snd s)))) (\<lambda>writes_start.
     kseq (kn_run K source_path (ct_action t) (Some e))
     (kunless_completed
       (case ct_target t of
          None \<Rightarrow> kret ()
        | Some target \<Rightarrow>
            kbind (resolve_choice_chain K e (kn_fuel K) target) (\<lambda>(path, history).
            kunless_completed
              (kseq (validate_provider_writes source_path path (ct_local t) writes_start)
              (kseq (perform_transition K source_path path history (ct_local t))
                (complete_if_final K)))))))"

definition initialize_runtime :: "kernel \<Rightarrow> bindings \<Rightarrow> unit km" where
  "initialize_runtime K b =
     kseq (enter_state K root_path b)
     (kunless_completed
       (kseq (descend_initial K (kn_fuel K) root_path) (complete_if_final K)))"

section \<open>Sending\<close>

text \<open>The ordinals of the sends of one provider call, internal and external.\<close>

type_synonym send_ordinals = "nat \<times> nat"

definition send_emission ::
  "kernel \<Rightarrow> runtime_state \<Rightarrow> step_context \<Rightarrow> string \<Rightarrow> (string, value) btree_map \<Rightarrow> string option \<Rightarrow> string \<Rightarrow>
   nat \<Rightarrow> target \<Rightarrow> emission" where
  "send_emission K r cx event payload correlation_id locator ordinal t =
     (if t = External
      then \<lparr>em_emitting_runtime_id = rt_runtime_id r,
            em_emitting_owner_runtime_id = runtime_owner_runtime_id r,
            em_event = event, em_event_id = None, em_target = t, em_payload = payload,
            em_correlation_id = correlation_id,
            em_effect_id = Some (external_effect_identity (kn_engine K) (kn_bundle K) r
              (kn_root_instance_id K) (cx_cause_id cx) (kn_step_sequence K) locator ordinal),
            em_sequence = Some (fst (allocate (cx_next_output_sequence cx))),
            em_emission_index = ordinal, em_cause_id = None, em_system_source = None\<rparr>
      else \<lparr>em_emitting_runtime_id = rt_runtime_id r,
            em_emitting_owner_runtime_id = runtime_owner_runtime_id r,
            em_event = event,
            em_event_id = Some (internal_event_identity (kn_engine K) (kn_root_instance_id K)
              (rt_runtime_id r) (target_runtime_id t) (cx_cause_id cx) (kn_step_sequence K) locator ordinal),
            em_target = t, em_payload = payload, em_correlation_id = correlation_id,
            em_effect_id = None, em_sequence = None, em_emission_index = ordinal,
            em_cause_id = Some (cx_cause_id cx), em_system_source = None\<rparr>)"

definition send_one ::
  "kernel \<Rightarrow> string \<Rightarrow> (string, value) btree_map \<Rightarrow> string option \<Rightarrow> string \<Rightarrow> nat \<times> target \<Rightarrow> unit km" where
  "send_one K event payload correlation_id locator ot s =
     kmodify_context (\<lambda>cx. cx\<lparr>
       cx_emissions := cx_emissions cx @
         [send_emission K (fst s) cx event payload correlation_id locator (fst ot) (snd ot)],
       cx_next_output_sequence :=
         (if snd ot = External then snd (allocate (cx_next_output_sequence cx))
          else cx_next_output_sequence cx)\<rparr>) s"

text \<open>
  The ordinal of each resolved target: its position, or for a provider the running number
  of its kind.
\<close>

fun number_targets :: "send_ordinals \<Rightarrow> target list \<Rightarrow> (nat \<times> target) list \<times> send_ordinals" where
  "number_targets o' [] = ([], o')"
| "number_targets (i, x) (t # ts) =
     (let o1 = (if t = External then (i, Suc x) else (Suc i, x));
          (rest, o2) = number_targets o1 ts
      in ((if t = External then x else i, t) # rest, o2))"

definition execute_send_values ::
  "kernel \<Rightarrow> compiled_action \<Rightarrow> string \<Rightarrow> send_target list \<Rightarrow> (string, value) btree_map \<Rightarrow> string option \<Rightarrow>
   value option list \<Rightarrow> send_ordinals option \<Rightarrow> send_ordinals option km" where
  "execute_send_values K action event targets payload correlation_id dynamic_values ordinals =
     kbind (kpure (\<lambda>s.
       let declaration = (if event = ''env'' then None
                          else event_declaration_of (kn_bundle K) (rt_definition (fst s)) event)
       in case declaration of
            None \<Rightarrow> Ok payload
          | Some d \<Rightarrow> ok_or (action_fault (ca_pointer action @ ''/send/payload'')) (normalize_payload d payload)))
       (\<lambda>payload'.
     kbind (kpure (\<lambda>s. collect_outcome (map (\<lambda>(i, t).
              resolve_author_target (fst s) t (dynamic_values ! i) action targets i)
              (enumerate 0 targets)))) (\<lambda>resolved.
       (case ordinals of
          None \<Rightarrow>
            kseq (kfor (send_one K event payload' correlation_id (ca_pointer action @ ''/send''))
                    (enumerate 0 resolved)) (kret None)
        | Some o' \<Rightarrow>
            kseq (kfor (send_one K event payload' correlation_id (ca_pointer action))
                    (fst (number_targets o' resolved))) (kret (Some (snd (number_targets o' resolved)))))))"

definition evaluate_dynamic ::
  "engine \<Rightarrow> cel_environment \<Rightarrow> compiled_action \<Rightarrow> send_target list \<Rightarrow> (value option list, step_fault) outcome" where
  "evaluate_dynamic G env action targets =
     collect_outcome (map (\<lambda>(i, t).
       case t of
         InstanceTarget expression \<Rightarrow>
           (case evaluate G expression env of
              Inl _ \<Rightarrow> Err (action_fault (target_expression_pointer action targets i))
            | Inr v \<Rightarrow> Ok (Some v))
       | _ \<Rightarrow> Ok None) (enumerate 0 targets))"

definition evaluate_correlation ::
  "engine \<Rightarrow> cel_environment \<Rightarrow> compiled_action \<Rightarrow> string option \<Rightarrow> (string option, step_fault) outcome" where
  "evaluate_correlation G env action expression =
     (case expression of
        None \<Rightarrow> Ok None
      | Some source \<Rightarrow>
          (case evaluate G source env of
             Inr (VString s) \<Rightarrow>
               if s \<noteq> [] then Ok (Some s) else Err (action_fault (ca_pointer action @ ''/send/correlation_id''))
           | _ \<Rightarrow> Err (action_fault (ca_pointer action @ ''/send/correlation_id''))))"

definition execute_send ::
  "kernel \<Rightarrow> string \<Rightarrow> envelope option \<Rightarrow> compiled_action \<Rightarrow> string \<Rightarrow> send_target list \<Rightarrow>
   (string, string) btree_map \<Rightarrow> string option \<Rightarrow> unit km" where
  "execute_send K scope e action event targets payload_expressions correlation_expression =
     kbind (kpure (\<lambda>s. action_environment (fst s) scope e)) (\<lambda>env.
     kbind (kpure (\<lambda>_. evaluate_members (kn_engine K) env
              (\<lambda>name. ca_pointer action @ ''/send/payload/'' @ escape_pointer name)
              payload_expressions [])) (\<lambda>payload.
     kbind (kpure (\<lambda>_. evaluate_correlation (kn_engine K) env action correlation_expression)) (\<lambda>correlation_id.
     kbind (kpure (\<lambda>_. evaluate_dynamic (kn_engine K) env action targets)) (\<lambda>dynamic_values.
     kseq (execute_send_values K action event targets payload correlation_id dynamic_values None)
       (kret ())))))"

section \<open>Spawning\<close>

definition set_slot_value :: "string \<Rightarrow> value \<Rightarrow> runtime_core \<Rightarrow> runtime_core" where
  "set_slot_value key v c =
     (case bm_get (rc_variables c) key of
        None \<Rightarrow> c
      | Some slot \<Rightarrow> c\<lparr>rc_variables := bm_insert key (slot\<lparr>vs_value := v\<rparr>) (rc_variables c)\<rparr>)"

text \<open>Binding the new reference to a variable; the result is the holder of the instance.\<close>

definition bind_holder ::
  "string \<Rightarrow> compiled_action \<Rightarrow> string option \<Rightarrow> instance_reference \<Rightarrow>
   (string option \<times> string option \<times> counter) km" where
  "bind_holder scope action bind_to rf =
     (case bind_to of
        None \<Rightarrow> kret (None, None, counter_zero)
      | Some variable \<Rightarrow>
          kbind (kpure (\<lambda>s. obind (resolve_variable_key (fst s) scope variable) expect)) (\<lambda>key.
          kbind (kpure (\<lambda>s. expect (bm_get (rt_variables (fst s)) key))) (\<lambda>slot.
            if vs_value slot \<noteq> VNull
            then kfail \<lparr>sf_code = BindingNotEmpty, sf_source_locator = ca_pointer action @ ''/spawn/bind_to''\<rparr>
            else kseq (kmodify_core (set_slot_value key (VRef rf)))
                   (kret (Some (vs_declaration_path slot), Some (vs_declaration_pointer slot),
                          vs_state_activation_sequence slot)))))"

definition allocate_spawn :: "counter km" where
  "allocate_spawn =
     kbind (kreads (\<lambda>s. fst (allocate (rc_next_spawn_sequence (rt_core (fst s)))))) (\<lambda>seq.
       kseq (kmodify_core (\<lambda>c. c\<lparr>rc_next_spawn_sequence := snd (allocate (rc_next_spawn_sequence c))\<rparr>))
         (kret seq))"

definition spawn_child ::
  "kernel \<Rightarrow> runtime_state \<Rightarrow> machine \<Rightarrow> string \<Rightarrow> counter \<Rightarrow> instance_reference \<Rightarrow>
   string option \<times> string option \<times> counter \<Rightarrow> runtime_state" where
  "spawn_child K r m spawn_pointer seq rf holder =
     (let relation = RelSpawned (rt_runtime_id r) (runtime_target r) seq spawn_pointer rf
            (fst holder) (fst (snd holder)) (snd (snd holder));
          binding = definition_binding_of (kn_bundle K) m
      in new_runtime (ref_instance_id rf) m relation
           (OriginSpawned binding (rt_runtime_id r) spawn_pointer seq) (SpawnedTarget rf) binding None)"

definition execute_spawn ::
  "kernel \<Rightarrow> string \<Rightarrow> envelope option \<Rightarrow> compiled_action \<Rightarrow> string \<Rightarrow> binding_expressions \<Rightarrow>
   string option \<Rightarrow> unit km" where
  "execute_spawn K scope e action machine_id expressions bind_to =
     (let locator = ca_pointer action @ ''/spawn/bindings''; pointer = ca_pointer action @ ''/spawn'' in
      kbind (kpure (\<lambda>_. expect (bm_get (b_machines (kn_bundle K)) machine_id))) (\<lambda>m.
      kbind (kpure (\<lambda>s. evaluate_bindings (kn_engine K) (fst s) scope e expressions locator)) (\<lambda>b.
      kbind (kpure (\<lambda>_. validate_runtime_bindings m b)) (\<lambda>valid.
      if \<not> valid then kfail (action_fault locator)
      else
      kbind allocate_spawn (\<lambda>seq.
      kbind (kreads (\<lambda>s. \<lparr>ref_root_instance_id = kn_root_instance_id K,
               ref_instance_id = spawned_runtime_identity (kn_engine K) (kn_bundle K) (kn_root_instance_id K)
                 (rt_runtime_id (fst s)) pointer seq m,
               ref_machine_id = m_machine_id m, ref_machine_version = m_version m\<rparr>)) (\<lambda>rf.
      kbind (bind_holder scope action bind_to rf) (\<lambda>holder.
      kbind (kreads (\<lambda>s. spawn_child K (fst s) m pointer seq rf holder)) (\<lambda>child.
      kbind (kpure (\<lambda>_. initialize_root_variables child b)) (\<lambda>valid'.
      if \<not> valid' then kfail (action_fault locator)
      else
      kbind (kreads (\<lambda>s. initialization_cause (kn_engine K) ''spawned_initialization''
               (kn_root_instance_id K) (rt_runtime_id (fst s)) (ref_instance_id rf) (cx_cause_id (snd s))
               (kn_step_sequence K) pointer seq)) (\<lambda>child_cause.
      kbind (initialize_child K child_cause b child) (\<lambda>child'.
        kwhen (rt_status child' \<noteq> Completed)
          (kmodify_owned (\<lambda>ws. ws @ [OwnedRuntime seq (fst holder) (fst (snd holder)) (snd (snd holder))
             rf child'])))))))))))))"

section \<open>Actions\<close>

definition assign_variable :: "kernel \<Rightarrow> string \<Rightarrow> envelope option \<Rightarrow> compiled_action \<Rightarrow> string \<Rightarrow> string \<Rightarrow> unit km" where
  "assign_variable K scope e action variable expression =
     (let fault = action_fault (ca_pointer action @ ''/assign/'' @ escape_pointer variable) in
      kbind (kpure (\<lambda>s. action_environment (fst s) scope e)) (\<lambda>env.
      kbind (kpure (\<lambda>_. case evaluate (kn_engine K) expression env of Inl _ \<Rightarrow> Err fault | Inr v \<Rightarrow> Ok v)) (\<lambda>v.
      kbind (kpure (\<lambda>s. obind (resolve_variable_key (fst s) scope variable) (ok_or fault))) (\<lambda>key.
      kbind (kpure (\<lambda>s. expect (bm_get (rt_variables (fst s)) key))) (\<lambda>slot.
      if vd_external (vs_declaration slot) then kfail fault
      else
      kbind (kpure (\<lambda>_.
        if vd_value_type (vs_declaration slot) = ''instance_reference''
        then (case v of VNull \<Rightarrow> Ok v | VRef _ \<Rightarrow> Ok v | _ \<Rightarrow> Err fault)
        else ok_or fault (normalize_for_type v (vd_value_type (vs_declaration slot))))) (\<lambda>normalized.
      kmodify_core (set_slot_value key normalized)))))))"

fun refresh_updates ::
  "runtime_state \<Rightarrow> string \<Rightarrow> string \<Rightarrow> (string, value) btree_map \<Rightarrow> (nat \<times> string) list \<Rightarrow>
   ((string \<times> value) list, step_fault) outcome" where
  "refresh_updates r scope pointer changed [] = Ok []"
| "refresh_updates r scope pointer changed ((index, name) # rest) =
     (let fault = action_fault (pointer @ ''/refresh/only/'' @ decimal index) in
      obind (ok_or fault (bm_get changed name)) (\<lambda>v.
      obind (obind (resolve_variable_key r scope name) (ok_or fault)) (\<lambda>key.
      obind (expect (bm_get (rt_variables r) key)) (\<lambda>slot.
      if \<not> vd_external (vs_declaration slot) then Err fault
      else
      obind (ok_or fault (normalize_for_type v (vd_value_type (vs_declaration slot)))) (\<lambda>w.
      obind (refresh_updates r scope pointer changed rest) (\<lambda>updates.
        Ok ((key, w) # updates)))))))"

definition refresh_variables :: "string \<Rightarrow> envelope option \<Rightarrow> compiled_action \<Rightarrow> string list option \<Rightarrow> unit km" where
  "refresh_variables scope e action only =
     (let fault = action_fault (ca_pointer action @ ''/refresh'') in
      case e of
        None \<Rightarrow> kfail fault
      | Some env \<Rightarrow>
          if env_event env \<noteq> ''env'' then kfail fault
          else (case bm_get (env_payload env) ''changed'' of
                  Some (VMap changed) \<Rightarrow>
                    kbind (kpure (\<lambda>s. refresh_updates (fst s) scope (ca_pointer action) changed
                       (enumerate 0 (case only of Some names \<Rightarrow> names | None \<Rightarrow> bm_keys changed))))
                      (\<lambda>updates. kfor (\<lambda>(key, v). kmodify_core (set_slot_value key v)) updates)
                | _ \<Rightarrow> kfail fault))"

definition cancel_instance :: "kernel \<Rightarrow> string \<Rightarrow> envelope option \<Rightarrow> compiled_action \<Rightarrow> string \<Rightarrow> unit km" where
  "cancel_instance K scope e action expression =
     kbind (kpure (\<lambda>s. action_environment (fst s) scope e)) (\<lambda>env.
     kbind (kpure (\<lambda>_. case evaluate (kn_engine K) expression env of
                          Inl _ \<Rightarrow> Err (action_fault (ca_pointer action @ ''/cancel/instance''))
                        | Inr v \<Rightarrow> Ok v)) (\<lambda>v.
       case v of VRef rf \<Rightarrow> kseq (cancel_owned K rf (kn_fuel K)) (kret ()) | _ \<Rightarrow> kret ()))"

section \<open>Provider actions\<close>

definition decode_typed :: "step_fault \<Rightarrow> bool \<Rightarrow> json \<Rightarrow> (value, step_fault) outcome" where
  "decode_typed fault is_reference j =
     obind (ok_or fault (from_projection j)) (\<lambda>t. ok_or fault (typed_to_value is_reference t))"

definition provider_assign :: "string \<Rightarrow> step_fault \<Rightarrow> json \<Rightarrow> unit km" where
  "provider_assign scope fault assign =
     kbind (kpure (\<lambda>s. obind (ok_or fault (jstr (jindex assign ''variable''))) (\<lambda>name.
              obind (resolve_variable_key (fst s) scope name) (ok_or fault)))) (\<lambda>key.
     kbind (kpure (\<lambda>s. ok_or fault (bm_get (rt_variables (fst s)) key))) (\<lambda>slot.
     if vd_external (vs_declaration slot) then kfail fault
     else
     (let is_reference = (vd_value_type (vs_declaration slot) = ''instance_reference'') in
      kbind (kpure (\<lambda>_. obind (decode_typed fault is_reference (jindex assign ''value'')) (\<lambda>v.
               if is_reference then Ok v
               else ok_or fault (normalize_for_type v (vd_value_type (vs_declaration slot)))))) (\<lambda>v.
      kbind (kreads fst) (\<lambda>r.
      kseq (kmodify_context (\<lambda>cx. cx\<lparr>cx_provider_writes := cx_provider_writes cx @
              [(rt_runtime_id r, vs_declaration_path slot, sf_source_locator fault)]\<rparr>))
        (kmodify_core (set_slot_value key v)))))))"

text \<open>The send targets of a proposal, with the values of instance targets.\<close>

definition provider_target :: "step_fault \<Rightarrow> json \<Rightarrow> (send_target \<times> value option, step_fault) outcome" where
  "provider_target fault t =
     (if jget t ''self'' \<noteq> None then Ok (SelfTarget, None)
      else if jget t ''owner'' \<noteq> None then Ok (OwnerTarget, None)
      else if jget t ''external'' \<noteq> None then Ok (ExternalTarget, None)
      else (case (case jget t ''component'' of None \<Rightarrow> None | Some c \<Rightarrow> jstr c) of
              Some component \<Rightarrow> Ok (ComponentTarget component, None)
            | None \<Rightarrow>
                obind (decode_typed fault True (jindex t ''instance'')) (\<lambda>v.
                  Ok (InstanceTarget [], Some v))))"

definition selected_targets :: "json \<Rightarrow> json list" where
  "selected_targets send =
     (case jget send ''to'' of
        Some t \<Rightarrow> [t]
      | None \<Rightarrow>
          (case (case jget send ''targets'' of None \<Rightarrow> None | Some ts \<Rightarrow> jarray ts) of
             Some ts \<Rightarrow> ts
           | None \<Rightarrow> [JObject [(''self'', JBool True)]]))"

text \<open>The payload of a proposed \<^verbatim>\<open>env\<close> event, normalised for the addressed component.\<close>

definition provider_env_payload ::
  "runtime_state \<Rightarrow> step_fault \<Rightarrow> json \<Rightarrow> send_target list \<Rightarrow> string option \<Rightarrow> (string, value) btree_map \<Rightarrow>
   ((string, value) btree_map, step_fault) outcome" where
  "provider_env_payload r fault send targets correlation payload =
     (case (targets, bm_get payload ''changed'') of
        ([ComponentTarget component_id], Some (VMap changed)) \<Rightarrow>
          if jget send ''targets'' \<noteq> None \<or> correlation \<noteq> None \<or> length payload \<noteq> 1 \<or> changed = []
          then Err fault
          else (case find (\<lambda>c. cr_component_id c = component_id) (rt_components r) of
                  None \<Rightarrow> Err fault
                | Some c \<Rightarrow>
                    obind (root_external_variables (rt_definition (cr_runtime c))) (\<lambda>external.
                      case normalize_changed external changed [] of
                        None \<Rightarrow> Err fault
                      | Some normalized \<Rightarrow> Ok (bm_insert ''changed'' (VMap normalized) payload)))
      | _ \<Rightarrow> Err fault)"

definition provider_send :: "kernel \<Rightarrow> compiled_action \<Rightarrow> step_fault \<Rightarrow> json \<Rightarrow> send_ordinals \<Rightarrow> send_ordinals km" where
  "provider_send K action fault send ordinals =
     kbind (kpure (\<lambda>_. obind (ok_or fault (jstr (jindex send ''event''))) (\<lambda>event.
       if event \<in> {''done'', ''component_completed'', ''component_failed'', ''spawned_instance_failed''}
       then Err fault else Ok event))) (\<lambda>event.
     kbind (kpure (\<lambda>_. obind (decode_typed fault False (jindex send ''payload'')) (\<lambda>v.
       case v of VMap payload \<Rightarrow> Ok payload | _ \<Rightarrow> Err fault))) (\<lambda>payload.
     kbind (kpure (\<lambda>_. case jget send ''correlation_id'' of
         None \<Rightarrow> Ok None
       | Some j \<Rightarrow> obind (decode_typed fault False j) (\<lambda>v.
           case v of VString c \<Rightarrow> if c \<noteq> [] then Ok (Some c) else Err fault | _ \<Rightarrow> Err fault))) (\<lambda>correlation.
     kbind (kpure (\<lambda>_. collect_outcome (map (provider_target fault) (selected_targets send)))) (\<lambda>pairs.
     let targets = map fst pairs; dynamic = map snd pairs; external = (ExternalTarget \<in> set targets) in
     if external \<and> (\<not> list_all (\<lambda>t. t = ExternalTarget) targets \<or> correlation = None) then kfail fault
     else
     kbind (kpure (\<lambda>s.
       if event = ''env'' then provider_env_payload (fst s) fault send targets correlation payload
       else (case event_declaration_of (kn_bundle K) (rt_definition (fst s)) event of
               None \<Rightarrow> Err fault
             | Some d \<Rightarrow>
                 if ev_direction d \<noteq> (if external then DirOutput else DirInternal) then Err fault
                 else Ok payload))) (\<lambda>payload'.
     kbind (kmap_err (\<lambda>_. fault)
              (execute_send_values K action event targets payload' correlation dynamic (Some ordinals)))
       (\<lambda>o'. kret (case o' of Some x \<Rightarrow> x | None \<Rightarrow> ordinals)))))))"

primrec provider_proposals :: "kernel \<Rightarrow> string \<Rightarrow> compiled_action \<Rightarrow> step_fault \<Rightarrow> json list \<Rightarrow> send_ordinals \<Rightarrow> unit km" where
  "provider_proposals K scope action fault [] ordinals = kret ()"
| "provider_proposals K scope action fault (proposal # rest) ordinals =
     (case jget proposal ''assign'' of
        Some assign \<Rightarrow>
          kseq (provider_assign scope fault assign) (provider_proposals K scope action fault rest ordinals)
      | None \<Rightarrow>
          kbind (provider_send K action fault (jindex proposal ''send'') ordinals)
            (\<lambda>o'. provider_proposals K scope action fault rest o'))"

definition execute_provider_actions :: "kernel \<Rightarrow> string \<Rightarrow> compiled_action \<Rightarrow> json \<Rightarrow> envelope option \<Rightarrow> unit km" where
  "execute_provider_actions K scope action binding e =
     (let fault = action_fault (ca_pointer action) in
      kbind (kpure (\<lambda>s. ok_or fault (m_runtime_providers (rt_definition (fst s))))) (\<lambda>registry.
      kbind (kpure (\<lambda>s. obind (provider_snapshot (fst s) scope e binding None) (\<lambda>snapshot.
               ok_or fault (eng_invoke_actions (kn_engine K) registry binding snapshot)))) (\<lambda>proposals.
        provider_proposals K scope action fault proposals (0, 0))))"

section \<open>Running actions\<close>

definition run_action :: "kernel \<Rightarrow> string \<Rightarrow> envelope option \<Rightarrow> compiled_action \<Rightarrow> unit km" where
  "run_action K scope e action =
     (case ca_kind action of
        Assign variable expression \<Rightarrow> assign_variable K scope e action variable expression
      | Send event targets payload correlation_id \<Rightarrow>
          execute_send K scope e action event targets payload correlation_id
      | Refresh only \<Rightarrow> refresh_variables scope e action only
      | Spawn machine_id expressions bind_to \<Rightarrow>
          execute_spawn K scope e action machine_id expressions bind_to
      | Cancel expression \<Rightarrow> cancel_instance K scope e action expression
      | ProviderActions binding \<Rightarrow> execute_provider_actions K scope action binding e
      | Stop \<Rightarrow> complete_runtime K)"

primrec run_actions :: "kernel \<Rightarrow> string \<Rightarrow> compiled_action list \<Rightarrow> envelope option \<Rightarrow> unit km" where
  "run_actions K scope [] e = kret ()"
| "run_actions K scope (action # actions) e =
     (if ca_kind action = Stop then run_action K scope e action
      else kseq (run_action K scope e action) (run_actions K scope actions e))"

primrec kernel_at :: "step_params \<Rightarrow> nat \<Rightarrow> kernel" where
  "kernel_at P 0 = \<lparr>kn_params = P, kn_fuel = 0, kn_run = (\<lambda>_ _ _. kout_of_fuel), kn_init = (\<lambda>_. kout_of_fuel)\<rparr>"
| "kernel_at P (Suc n) =
     \<lparr>kn_params = P, kn_fuel = Suc n, kn_run = run_actions (kernel_at P n),
      kn_init = initialize_runtime (kernel_at P n)\<rparr>"

end
