(* ===== verification/Validation.thy ===== *)
theory Validation
  imports Kernel
begin

text \<open>
  The structural validation of a prior aggregate (\<^verbatim>\<open>validate_prior_state\<close> to
  \<^verbatim>\<open>validate_runtime_bundle_binding\<close> in \<^verbatim>\<open>src/format1/runtime.rs\<close>), which every step runs
  before anything else.  The walk from an active state to the root is bounded by the number
  of states; where parent links form a cycle, which the compiler never produces, the code
  would not return and the model answers \<open>False\<close>.  Definitions are compared with logical
  equality.
\<close>

section \<open>Identities\<close>

definition identity_texts :: "engine \<Rightarrow> string list \<Rightarrow> string" where
  "identity_texts G parts = hash_json G (JArray (map JString parts))"

definition origin_runtime_id :: "engine \<Rightarrow> string \<Rightarrow> identity_origin \<Rightarrow> string" where
  "origin_runtime_id G root_instance_id origin =
     (case origin of
        OriginRoot d i \<Rightarrow>
          identity_texts G [''determa-root-runtime-identity-1'', ''1'',
            db_validated_bundle_fingerprint d, mi_namespace (db_machine d), mi_machine_id (db_machine d),
            signed_decimal (sint (mi_machine_version (db_machine d))), i]
      | OriginComponent d owner pointer seq _ \<Rightarrow>
          identity_texts G [''determa-component-runtime-identity-1'', ''1'', root_instance_id, owner,
            pointer, canonical_decimal seq, mi_namespace (db_machine d), mi_machine_id (db_machine d),
            signed_decimal (sint (mi_machine_version (db_machine d)))]
      | OriginSpawned d owner pointer seq \<Rightarrow>
          identity_texts G [''determa-spawned-runtime-identity-1'', ''1'', root_instance_id, owner,
            pointer, canonical_decimal seq, mi_namespace (db_machine d), mi_machine_id (db_machine d),
            signed_decimal (sint (mi_machine_version (db_machine d)))])"

definition validate_root_identity :: "engine \<Rightarrow> native_aggregate \<Rightarrow> bool" where
  "validate_root_identity G a \<longleftrightarrow>
     (case rc_identity_origin (rt_core (ag_root a)) of
        OriginRoot d i \<Rightarrow>
          i = ag_root_instance_id a \<and>
          rt_runtime_id (ag_root a) = origin_runtime_id G (ag_root_instance_id a) (OriginRoot d i) \<and>
          rc_target_identity (rt_core (ag_root a)) =
            RootTarget (ag_root_instance_id a) (rt_runtime_id (ag_root a))
      | _ \<Rightarrow> False)"

definition validate_runtime_identity :: "engine \<Rightarrow> native_aggregate \<Rightarrow> runtime_state \<Rightarrow> bool" where
  "validate_runtime_identity G a r \<longleftrightarrow>
     (let origin = rc_identity_origin (rt_core r);
          expected = origin_runtime_id G (ag_root_instance_id a) origin in
      case (origin, rc_target_identity (rt_core r), rt_relation r) of
        (OriginRoot d i, RootTarget ti rid, RelRoot) \<Rightarrow>
          i = ag_root_instance_id a \<and> ti = ag_root_instance_id a \<and> rid = rt_runtime_id r \<and>
          expected = rt_runtime_id r
      | (OriginComponent d owner pointer seq _, ComponentPlacement ti towner tcid trid tseq,
         RelComponent rowner _ _ _ _ _ rseq) \<Rightarrow>
          ti = ag_root_instance_id a \<and> owner = towner \<and> owner = rowner \<and>
          rc_origin_component_id (rt_core r) = Some tcid \<and> trid = rt_runtime_id r \<and>
          seq = tseq \<and> seq = rseq \<and> expected = rt_runtime_id r
      | (OriginSpawned d owner pointer seq, SpawnedTarget rf, RelSpawned rowner _ rseq _ rrf _ _ _) \<Rightarrow>
          owner = rowner \<and> seq = rseq \<and> rf = rrf \<and>
          ref_root_instance_id rf = ag_root_instance_id a \<and> ref_instance_id rf = rt_runtime_id r \<and>
          ref_machine_id rf = mi_machine_id (db_machine d) \<and>
          ref_machine_version rf = mi_machine_version (db_machine d) \<and> expected = rt_runtime_id r
      | _ \<Rightarrow> False)"

section \<open>Machines, histories and configurations\<close>

definition validate_machine_shape :: "machine \<Rightarrow> bool" where
  "validate_machine_shape m \<longleftrightarrow>
     (case bm_get (m_states m) root_path of
        None \<Rightarrow> False
      | Some root_state \<Rightarrow>
          s_parent root_state = None \<and> s_path root_state = root_path \<and>
          m_root_pointer m = s_pointer root_state \<and>
          list_all (\<lambda>(path, s).
            path = s_path s \<and> s_pointer s \<noteq> [] \<and>
            (case s_parent s of
               None \<Rightarrow> True
             | Some p \<Rightarrow> (case bm_get (m_states m) p of
                            None \<Rightarrow> False | Some q \<Rightarrow> path \<in> set (s_children q))) \<and>
            list_all (\<lambda>child. case bm_get (m_states m) child of
                                None \<Rightarrow> False | Some q \<Rightarrow> s_parent q = Some path) (s_children s))
            (m_states m))"

definition kind_at :: "machine \<Rightarrow> string \<Rightarrow> state_kind option" where
  "kind_at m path = map_option s_kind (bm_get (m_states m) path)"

definition validate_history_value :: "machine \<Rightarrow> string \<Rightarrow> string list \<Rightarrow> bool" where
  "validate_history_value m slot paths \<longleftrightarrow>
     (case bm_get (m_states m) slot of
        None \<Rightarrow> False
      | Some declaration \<Rightarrow>
          paths \<noteq> [] \<and> distinct paths \<and>
          list_all (\<lambda>path. bm_has (m_states m) path \<and> is_descendant path slot \<and>
                           kind_at m path \<noteq> Some KindChoice \<and> kind_at m path \<noteq> Some KindFinal) paths \<and>
          (case s_history declaration of
             HistoryNone \<Rightarrow> False
           | HistoryShallow \<Rightarrow>
               length paths = 1 \<and>
               (case bm_get (m_states m) (hd paths) of None \<Rightarrow> False | Some s \<Rightarrow> s_parent s = Some slot)
           | HistoryDeep \<Rightarrow> length paths = 1))"

fun ancestors_active :: "machine \<Rightarrow> string btree_set \<Rightarrow> nat \<Rightarrow> string option \<Rightarrow> bool" where
  "ancestors_active m active n None \<longleftrightarrow> True"
| "ancestors_active m active 0 (Some p) \<longleftrightarrow> False"
| "ancestors_active m active (Suc n) (Some p) \<longleftrightarrow>
     p \<in> set active \<and>
     (case bm_get (m_states m) p of None \<Rightarrow> False | Some s \<Rightarrow> ancestors_active m active n (s_parent s))"

definition active_state_ok :: "machine \<Rightarrow> string btree_set \<Rightarrow> state \<Rightarrow> bool" where
  "active_state_ok m active s \<longleftrightarrow>
     s_kind s \<noteq> KindChoice \<and> s_kind s \<noteq> KindFinal \<and>
     (let active_children = length (filter (\<lambda>child. child \<in> set active) (s_children s)) in
      if s_kind s = KindComposite then active_children = (if s_children s = [] then 0 else 1)
      else active_children = 0)"

definition validate_active_configuration :: "runtime_state \<Rightarrow> bool" where
  "validate_active_configuration r \<longleftrightarrow>
     (let m = rt_definition r; active = rt_active r in
      list_all (bm_has (m_states m)) active \<and>
      list_all (\<lambda>path. case bm_get (m_states m) path of
                         None \<Rightarrow> False
                       | Some s \<Rightarrow> ancestors_active m active (walk_fuel m) (s_parent s)) active \<and>
      (rt_status r = Running \<longrightarrow> root_path \<in> set active) \<and>
      list_all (\<lambda>path. case bm_get (m_states m) path of
                         None \<Rightarrow> False | Some s \<Rightarrow> active_state_ok m active s) active)"

definition machine_has_component_pointer :: "machine \<Rightarrow> string \<Rightarrow> bool" where
  "machine_has_component_pointer m pointer \<longleftrightarrow>
     list_ex (\<lambda>s. list_ex (\<lambda>c. c_pointer c = pointer) (s_components s)) (bm_values (m_states m))"

definition valid_slot_value :: "value \<Rightarrow> variable_declaration \<Rightarrow> bool" where
  "valid_slot_value v d \<longleftrightarrow>
     (if vd_value_type d = ''instance_reference'' then
        (case v of
           VNull \<Rightarrow> vd_nullable d = Some True
         | VRef rf \<Rightarrow>
             0 < sint (ref_machine_version rf) \<and> ref_root_instance_id rf \<noteq> [] \<and>
             ref_instance_id rf \<noteq> [] \<and> ref_machine_id rf \<noteq> [] \<and>
             (case vd_machine_id d of None \<Rightarrow> True | Some i \<Rightarrow> i = ref_machine_id rf)
         | _ \<Rightarrow> False)
      else is_canonical_portable v \<and> normalize_for_type v (vd_value_type d) \<noteq> None)"

section \<open>Declarations\<close>

definition find_component_declaration :: "machine \<Rightarrow> component_runtime \<Rightarrow> (state \<times> component) option" where
  "find_component_declaration m c =
     find_map (\<lambda>s. map_option (\<lambda>x. (s, x))
       (find (\<lambda>x. c_pointer x = cr_pointer c \<and> c_component_id x = cr_component_id c \<and>
                  c_declaration_index x = cr_declaration_index c) (s_components s)))
       (bm_values (m_states m))"

definition all_state_actions :: "state \<Rightarrow> compiled_action list" where
  "all_state_actions s =
     s_entry s @ s_exit s @ (case s_initial s of None \<Rightarrow> [] | Some i \<Rightarrow> ci_action i) @
     concat (map ct_action (concat (bm_values (s_handlers s)))) @
     (case s_choice s of None \<Rightarrow> [] | Some bs \<Rightarrow> concat (map cc_action bs))"

definition find_spawn_declaration :: "machine \<Rightarrow> string \<Rightarrow> string option" where
  "find_spawn_declaration m pointer =
     find_map (\<lambda>s. find_map (\<lambda>action. case ca_kind action of
         Spawn machine_id _ _ \<Rightarrow> if ca_pointer action @ ''/spawn'' = pointer then Some machine_id else None
       | _ \<Rightarrow> None) (all_state_actions s)) (bm_values (m_states m))"

section \<open>Fault locators\<close>

definition is_sha256 :: "string \<Rightarrow> bool" where
  "is_sha256 s \<longleftrightarrow>
     (case strip_prefix ''sha256:'' s of
        None \<Rightarrow> False
      | Some digest \<Rightarrow>
          length digest = 64 \<and>
          list_all (\<lambda>c. is_digit c \<or> (97 \<le> (of_char c :: nat) \<and> (of_char c :: nat) \<le> 102)) digest)"

definition validate_historical_fault :: "string \<Rightarrow> string \<Rightarrow> bool" where
  "validate_historical_fault code locator \<longleftrightarrow>
     code \<in> {''action_fault'', ''binding_not_empty'', ''cascade_fault'', ''contained_runtime_fault'',
             ''deferred_event_capacity_exceeded'', ''guard_fault'', ''inactive_component_target'',
             ''invalid_instance_target'', ''invariant_fault''} \<and>
     (prefix ''/'' locator \<or> prefix ''system:'' locator)"

definition member_locator :: "string \<Rightarrow> string \<Rightarrow> string list \<Rightarrow> bool" where
  "member_locator base locator names \<longleftrightarrow> list_ex (\<lambda>name. locator = base @ escape_pointer name) names"

definition component_action_locator :: "component \<Rightarrow> string \<Rightarrow> bool" where
  "component_action_locator c locator \<longleftrightarrow>
     locator = c_pointer c @ ''/with'' \<or>
     member_locator (c_pointer c @ ''/with/input/'') locator (bm_keys (be_input (c_bindings c))) \<or>
     member_locator (c_pointer c @ ''/with/external/'') locator (bm_keys (be_external (c_bindings c)))"

definition action_fault_locator :: "compiled_action \<Rightarrow> string \<Rightarrow> bool" where
  "action_fault_locator action locator \<longleftrightarrow>
     (let p = ca_pointer action in
      case ca_kind action of
        Assign variable _ \<Rightarrow> locator = p @ ''/assign/'' @ escape_pointer variable
      | Send _ targets payload correlation_id \<Rightarrow>
          member_locator (p @ ''/send/payload/'') locator (bm_keys payload) \<or>
          locator = p @ ''/send/payload'' \<or>
          correlation_id \<noteq> None \<and> locator = p @ ''/send/correlation_id'' \<or>
          list_ex (\<lambda>(i, t). (case t of InstanceTarget _ \<Rightarrow> True | _ \<Rightarrow> False) \<and>
                            locator = target_expression_pointer action targets i) (enumerate 0 targets)
      | Refresh only \<Rightarrow>
          locator = p @ ''/refresh'' \<or>
          (case only of
             None \<Rightarrow> False
           | Some names \<Rightarrow>
               list_ex (\<lambda>i. locator = p @ ''/refresh/only/'' @ decimal i) [0..<length names])
      | Spawn _ expressions _ \<Rightarrow>
          locator = p @ ''/spawn/bindings'' \<or>
          member_locator (p @ ''/spawn/bindings/input/'') locator (bm_keys (be_input expressions)) \<or>
          member_locator (p @ ''/spawn/bindings/external/'') locator (bm_keys (be_external expressions))
      | Cancel _ \<Rightarrow> locator = p @ ''/cancel/instance''
      | Stop \<Rightarrow> False
      | ProviderActions _ \<Rightarrow> locator = p)"

definition send_target_locator :: "compiled_action \<Rightarrow> string \<Rightarrow> bool" where
  "send_target_locator action locator \<longleftrightarrow>
     (case ca_kind action of
        Send _ targets _ _ \<Rightarrow>
          list_ex (\<lambda>(i, t). locator = send_pointer action targets i \<or>
             (case t of InstanceTarget _ \<Rightarrow> True | _ \<Rightarrow> False) \<and>
             locator = send_pointer action targets i @ ''/instance'') (enumerate 0 targets)
      | _ \<Rightarrow> False)"

definition variable_locator :: "state \<Rightarrow> string \<Rightarrow> bool" where
  "variable_locator s locator \<longleftrightarrow>
     list_ex (\<lambda>name. let p = s_pointer s @ ''/variables/'' @ escape_pointer name in
                     locator = p \<or> locator = p @ ''/init'') (bm_keys (s_variables s))"

definition validate_fault_locator :: "runtime_state \<Rightarrow> string \<Rightarrow> string \<Rightarrow> bool" where
  "validate_fault_locator r code locator \<longleftrightarrow>
     (let states = bm_values (m_states (rt_definition r)) in
      if code = ''contained_runtime_fault'' then locator = ''system:unhandled_contained_failure''
      else if code = ''cascade_fault'' then locator = ''system:cascade_cleanup''
      else if code = ''invariant_fault'' then locator = ''system:invariant''
      else if code = ''deferred_event_capacity_exceeded'' then locator = ''system:deferred_event_capacity''
      else if code = ''guard_fault'' then
        list_ex (\<lambda>s. list_ex (\<lambda>t. ct_guard_pointer t = Some locator) (concat (bm_values (s_handlers s))) \<or>
                     (case s_choice s of
                        None \<Rightarrow> False
                      | Some bs \<Rightarrow> list_ex (\<lambda>b. cc_guard_pointer b = Some locator) bs)) states
      else if code = ''action_fault'' then
        list_ex (\<lambda>s. variable_locator s locator \<or>
                     list_ex (\<lambda>c. component_action_locator c locator) (s_components s) \<or>
                     list_ex (\<lambda>action. action_fault_locator action locator) (all_state_actions s)) states
      else if code = ''invalid_instance_target'' \<or> code = ''inactive_component_target'' then
        list_ex (\<lambda>s. list_ex (\<lambda>action. send_target_locator action locator) (all_state_actions s)) states
      else if code = ''binding_not_empty'' then
        list_ex (\<lambda>s. list_ex (\<lambda>action. case ca_kind action of
            Spawn _ _ bind_to \<Rightarrow> bind_to \<noteq> None \<and> locator = ca_pointer action @ ''/spawn/bind_to''
          | _ \<Rightarrow> False) (all_state_actions s)) states
      else False)"

section \<open>Runtimes\<close>

definition definition_ok :: "engine \<Rightarrow> native_aggregate \<Rightarrow> runtime_state \<Rightarrow> machine \<Rightarrow> bool" where
  "definition_ok G a r expected \<longleftrightarrow>
     (let c = rt_core r; d = rc_current_definition c in
      rc_runtime_id c \<noteq> [] \<and> rc_machine_id c = m_machine_id expected \<and>
      rc_machine_version c = m_version expected \<and> rc_definition c = expected \<and>
      mi_namespace (db_machine d) = ag_namespace a \<and> mi_machine_id (db_machine d) = rc_machine_id c \<and>
      mi_machine_version (db_machine d) = rc_machine_version c \<and>
      mi_root_definition_pointer (db_machine d) = m_root_pointer (rc_definition c) \<and>
      db_validated_bundle_fingerprint d = ag_validated_bundle_fingerprint a \<and>
      0 < sint (rc_machine_version c) \<and> validate_machine_shape (rc_definition c) \<and>
      validate_runtime_identity G a r)"

definition empty_diagnostic_shape :: "runtime_state \<Rightarrow> bool" where
  "empty_diagnostic_shape r \<longleftrightarrow>
     (let c = rt_core r in
      rc_status c = Faulted \<and> rc_active c = [] \<and> rc_variables c = [] \<and> rt_components r = [] \<and>
      rt_owned r = [] \<and> rc_next_spawn_sequence c = counter_zero \<and>
      rc_next_component_activation_sequence c = [] \<and> rc_next_state_activation_sequence c = [] \<and>
      rc_active_state_activation_sequence c = [])"

definition empty_diagnostic_history :: "native_aggregate \<Rightarrow> runtime_state \<Rightarrow> bool" where
  "empty_diagnostic_history a r \<longleftrightarrow>
     empty_diagnostic_shape r \<and>
     (rt_relation r \<noteq> RelRoot \<or>
      ag_next_logical_step_sequence a = 1 \<and>
      (case rt_fault r of None \<Rightarrow> False | Some f \<Rightarrow> fr_step_sequence f = counter_zero))"

definition history_ok :: "native_aggregate \<Rightarrow> runtime_state \<Rightarrow> bool" where
  "history_ok a r \<longleftrightarrow>
     (let h = rc_history (rt_core r); m = rt_definition r in
      (if empty_diagnostic_history a r then h = []
       else set (bm_keys h) =
              set (map s_path (filter (\<lambda>s. s_history s \<noteq> HistoryNone) (bm_values (m_states m))))) \<and>
      list_all (\<lambda>(slot, v). case v of None \<Rightarrow> True | Some paths \<Rightarrow> validate_history_value m slot paths) h)"

definition sequences_ok :: "runtime_state \<Rightarrow> bool" where
  "sequences_ok r \<longleftrightarrow>
     (let c = rt_core r in
      validate_active_configuration r \<and>
      set (bm_keys (rc_active_state_activation_sequence c)) = set (rc_active c) \<and>
      list_all (\<lambda>(path, seq). case bm_get (rc_next_state_activation_sequence c) path of
                                None \<Rightarrow> False | Some next \<Rightarrow> seq < next)
        (rc_active_state_activation_sequence c) \<and>
      list_all (\<lambda>(path, next). bm_has (m_states (rc_definition c)) path \<and> next \<noteq> counter_zero)
        (rc_next_state_activation_sequence c) \<and>
      list_all (\<lambda>(pointer, next). machine_has_component_pointer (rc_definition c) pointer \<and>
                                  next \<noteq> counter_zero)
        (rc_next_component_activation_sequence c))"

definition slot_ok :: "runtime_state \<Rightarrow> string \<times> variable_slot \<Rightarrow> bool" where
  "slot_ok r ks \<longleftrightarrow>
     (let key = fst ks; slot = snd ks in
      case bm_get (m_states (rt_definition r)) (vs_declaration_path slot) of
        None \<Rightarrow> False
      | Some s \<Rightarrow>
          (case bm_get (s_variables s) (vs_name slot) of
             None \<Rightarrow> False
           | Some d \<Rightarrow>
               key = variable_key (vs_declaration_path slot) (vs_name slot) \<and> d = vs_declaration slot \<and>
               vs_declaration_pointer slot =
                 s_pointer s @ ''/variables/'' @ escape_pointer (vs_name slot) \<and>
               bm_get (rc_active_state_activation_sequence (rt_core r)) (vs_declaration_path slot) =
                 Some (vs_state_activation_sequence slot) \<and>
               valid_slot_value (vs_value slot) d))"

definition variables_ok :: "runtime_state \<Rightarrow> bool" where
  "variables_ok r \<longleftrightarrow>
     list_all (slot_ok r) (rt_variables r) \<and>
     list_all (\<lambda>path. case bm_get (m_states (rt_definition r)) path of
         None \<Rightarrow> False
       | Some s \<Rightarrow> list_all (\<lambda>name. bm_has (rt_variables r) (variable_key path name)) (bm_keys (s_variables s)))
       (rt_active r)"

definition fault_ok :: "native_aggregate \<Rightarrow> runtime_state \<Rightarrow> fault_record \<Rightarrow> bool" where
  "fault_ok a r f \<longleftrightarrow>
     fr_runtime_id f = rt_runtime_id r \<and> fr_cause_id f \<noteq> [] \<and>
     fr_step_sequence f < ag_next_logical_step_sequence a \<and>
     is_sha256 (fr_definition_fingerprint f) \<and>
     (if fr_definition_fingerprint f =
           db_validated_bundle_fingerprint (rc_current_definition (rt_core r))
      then validate_fault_locator r (fr_code f) (fr_source_locator f)
      else validate_historical_fault (fr_code f) (fr_source_locator f))"

definition status_ok :: "native_aggregate \<Rightarrow> runtime_state \<Rightarrow> bool" where
  "status_ok a r \<longleftrightarrow>
     (case rt_status r of
        Running \<Rightarrow> rt_fault r = None
      | Completed \<Rightarrow>
          rt_fault r = None \<and> rt_active r = [] \<and> rt_variables r = [] \<and>
          rt_components r = [] \<and> rt_owned r = []
      | Faulted \<Rightarrow> (case rt_fault r of None \<Rightarrow> False | Some f \<Rightarrow> fault_ok a r f))"

definition own_shape_ok :: "engine \<Rightarrow> native_aggregate \<Rightarrow> runtime_state \<Rightarrow> machine \<Rightarrow> bool" where
  "own_shape_ok G a r expected \<longleftrightarrow>
     definition_ok G a r expected \<and> history_ok a r \<and> sequences_ok r \<and> variables_ok r \<and> status_ok a r"

text \<open>One component of a runtime: its placement, and the machine its runtime must have.\<close>

definition component_ok :: "runtime_state \<Rightarrow> component_runtime \<Rightarrow> (runtime_state \<times> machine) option" where
  "component_ok r c =
     (case find_component_declaration (rt_definition r) c of
        None \<Rightarrow> None
      | Some (owner_state, declaration) \<Rightarrow>
          if s_path owner_state \<notin> set (rt_active r) \<or>
             (case bm_get (rc_next_component_activation_sequence (rt_core r)) (cr_pointer c) of
                None \<Rightarrow> True | Some next \<Rightarrow> next \<le> cr_activation_sequence c)
          then None
          else (case (c_definition declaration, rt_relation (cr_runtime c)) of
                  (d, RelComponent owner target' owner_state_path cid pointer index seq) \<Rightarrow>
                    if (case d of DefMachine i \<Rightarrow> rc_machine_id (rt_core (cr_runtime c)) \<noteq> i
                                | DefInline _ \<Rightarrow> False) \<or>
                       owner \<noteq> rt_runtime_id r \<or> target' \<noteq> runtime_target r \<or>
                       owner_state_path \<noteq> s_path owner_state \<or> cid \<noteq> cr_component_id c \<or>
                       pointer \<noteq> cr_pointer c \<or> index \<noteq> cr_declaration_index c \<or>
                       seq \<noteq> cr_activation_sequence c
                    then None
                    else Some (cr_runtime c, case d of DefMachine _ \<Rightarrow> rt_definition (cr_runtime c)
                                                    | DefInline m \<Rightarrow> m)
                | _ \<Rightarrow> None))"

definition validate_holder :: "runtime_state \<Rightarrow> owned_runtime \<Rightarrow> bool" where
  "validate_holder owner w \<longleftrightarrow>
     (case (or_holder_path w, or_holder_pointer w, rt_relation (or_runtime w)) of
        (Some path, Some pointer, RelSpawned _ _ _ _ _ _ _ seq) \<Rightarrow>
          list_ex (\<lambda>slot. vs_declaration_path slot = path \<and> vs_declaration_pointer slot = pointer \<and>
                          vs_state_activation_sequence slot = seq) (bm_values (rt_variables owner))
      | (None, None, RelSpawned _ _ _ _ _ _ _ _) \<Rightarrow> True
      | _ \<Rightarrow> False)"

definition owned_ok :: "native_aggregate \<Rightarrow> runtime_state \<Rightarrow> owned_runtime \<Rightarrow> bool" where
  "owned_ok a r w \<longleftrightarrow>
     rt_status (or_runtime w) \<noteq> Completed \<and>
     or_spawn_sequence w < rc_next_spawn_sequence (rt_core r) \<and>
     ref_root_instance_id (or_reference w) = ag_root_instance_id a \<and>
     ref_instance_id (or_reference w) = rt_runtime_id (or_runtime w) \<and>
     (case rt_relation (or_runtime w) of
        RelSpawned owner target' seq pointer rf hp hptr ha \<Rightarrow>
          owner = rt_runtime_id r \<and> target' = runtime_target r \<and> seq = or_spawn_sequence w \<and>
          rf = or_reference w \<and> hp = or_holder_path w \<and> hptr = or_holder_pointer w \<and>
          ha = or_holder_activation_sequence w \<and>
          find_spawn_declaration (rt_definition r) pointer = Some (rc_machine_id (rt_core (or_runtime w))) \<and>
          validate_holder r w
      | _ \<Rightarrow> False)"

definition placements_ok :: "runtime_state \<Rightarrow> bool" where
  "placements_ok r \<longleftrightarrow>
     distinct (map (\<lambda>c. (cr_pointer c, cr_activation_sequence c)) (rt_components r)) \<and>
     set (map cr_pointer (rt_components r)) =
       set (map c_pointer (concat (map (\<lambda>path. case bm_get (m_states (rt_definition r)) path of
              None \<Rightarrow> [] | Some s \<Rightarrow> s_components s) (rt_active r)))) \<and>
     distinct (map or_spawn_sequence (rt_owned r))"

primrec validate_runtime_shape :: "engine \<Rightarrow> native_aggregate \<Rightarrow> runtime_state \<Rightarrow> machine \<Rightarrow> bool"
  and validate_component_shape :: "engine \<Rightarrow> native_aggregate \<Rightarrow> component_runtime \<Rightarrow> machine \<Rightarrow> bool"
  and validate_owned_shape :: "engine \<Rightarrow> native_aggregate \<Rightarrow> owned_runtime \<Rightarrow> bool"
where
  "validate_runtime_shape G a (Runtime k cs ws) expected \<longleftrightarrow>
     own_shape_ok G a (Runtime k cs ws) expected \<and> placements_ok (Runtime k cs ws) \<and>
     list_all (\<lambda>(c, check). case component_ok (Runtime k cs ws) c of
                              None \<Rightarrow> False | Some (_, m) \<Rightarrow> check m)
       (zip cs (map (validate_component_shape G a) cs)) \<and>
     list_all (owned_ok a (Runtime k cs ws)) ws \<and>
     list_all (\<lambda>check. check) (map (validate_owned_shape G a) ws)"
| "validate_component_shape G a (ComponentRuntime cid p i seq r) expected \<longleftrightarrow>
     validate_runtime_shape G a r expected"
| "validate_owned_shape G a (OwnedRuntime seq hp hptr ha rf r) \<longleftrightarrow>
     validate_runtime_shape G a r (rt_definition r)"

definition validate_prior_state :: "engine \<Rightarrow> native_aggregate \<Rightarrow> bool" where
  "validate_prior_state G a \<longleftrightarrow>
     ag_validated_bundle_fingerprint a \<noteq> [] \<and> ag_namespace a \<noteq> [] \<and>
     ag_root_instance_id a \<noteq> [] \<and> ag_creation_id a \<noteq> [] \<and>
     rt_relation (ag_root a) = RelRoot \<and> validate_root_identity G a \<and>
     validate_runtime_shape G a (ag_root a) (rt_definition (ag_root a))"

section \<open>Against the bundle\<close>

primrec validate_runtime_bundle_binding :: "compiled_bundle \<Rightarrow> runtime_state \<Rightarrow> machine \<Rightarrow> bool"
  and component_bundle_binding :: "compiled_bundle \<Rightarrow> component_runtime \<Rightarrow> machine \<Rightarrow> bool"
  and owned_bundle_binding :: "compiled_bundle \<Rightarrow> owned_runtime \<Rightarrow> machine \<Rightarrow> bool"
where
  "validate_runtime_bundle_binding B (Runtime k cs ws) expected \<longleftrightarrow>
     rc_definition k = expected \<and>
     list_all (\<lambda>(c, check). case find_component_declaration expected c of
         None \<Rightarrow> False
       | Some (_, declaration) \<Rightarrow>
           (case c_definition declaration of
              DefMachine i \<Rightarrow> (case bm_get (b_machines B) i of None \<Rightarrow> False | Some m \<Rightarrow> check m)
            | DefInline m \<Rightarrow> check m))
       (zip cs (map (component_bundle_binding B) cs)) \<and>
     list_all (\<lambda>(w, check). case rt_relation (or_runtime w) of
         RelSpawned _ _ _ pointer _ _ _ _ \<Rightarrow>
           (case find_spawn_declaration expected pointer of
              None \<Rightarrow> False
            | Some i \<Rightarrow> (case bm_get (b_machines B) i of None \<Rightarrow> False | Some m \<Rightarrow> check m))
       | _ \<Rightarrow> False)
       (zip ws (map (owned_bundle_binding B) ws))"
| "component_bundle_binding B (ComponentRuntime cid p i seq r) expected \<longleftrightarrow>
     validate_runtime_bundle_binding B r expected"
| "owned_bundle_binding B (OwnedRuntime seq hp hptr ha rf r) expected \<longleftrightarrow>
     validate_runtime_bundle_binding B r expected"

definition validate_prior_state_bundle_binding :: "native_aggregate \<Rightarrow> compiled_bundle \<Rightarrow> bool" where
  "validate_prior_state_bundle_binding a B \<longleftrightarrow>
     ag_namespace a = b_namespace B \<and>
     (case bm_get (b_machines B) (rc_machine_id (rt_core (ag_root a))) of
        None \<Rightarrow> False
      | Some m \<Rightarrow> validate_runtime_bundle_binding B (ag_root a) m)"

definition aggregate_is_valid_for_bundle :: "engine \<Rightarrow> native_aggregate \<Rightarrow> compiled_bundle \<Rightarrow> bool" where
  "aggregate_is_valid_for_bundle G a B \<longleftrightarrow>
     validate_prior_state G a \<and> ag_validated_bundle_fingerprint a = b_fingerprint B \<and>
     validate_prior_state_bundle_binding a B"

end
