(* ===== verification/Dispatch.thy ===== *)
theory Dispatch
  imports Validation
begin

text \<open>
  The entry points of \<^verbatim>\<open>src/format1/runtime.rs\<close>: creating an aggregate, dispatching one
  delivery, and the admission checks of the mailbox.  A result of the code is a value of
  \<open>core_result\<close>; \<open>Panic\<close> and \<open>OutOfFuel\<close> are the runs without one.  Errors are results
  here, so the error type of these outcomes stays unused.
\<close>

section \<open>Results\<close>

definition rejected_creation :: "creation_rejection \<Rightarrow> core_result" where
  "rejected_creation code =
     \<lparr>res_status = StatusRejected, res_disposition = None, res_state = None, res_emissions = [],
      res_fault = None, res_rejection = Some (creation_rejection_str code)\<rparr>"

definition unchanged_result :: "native_aggregate \<Rightarrow> disposition option \<Rightarrow> string option \<Rightarrow> core_result" where
  "unchanged_result prior d rejection =
     \<lparr>res_status = result_status_of (rt_status (ag_root prior)), res_disposition = d,
      res_state = Some prior, res_emissions = [], res_fault = rt_fault (ag_root prior),
      res_rejection = rejection\<rparr>"

definition rejected_dispatch :: "native_aggregate \<Rightarrow> dispatch_rejection \<Rightarrow> core_result" where
  "rejected_dispatch prior code =
     unchanged_result prior (Some DispRejected) (Some (dispatch_rejection_str code))"

section \<open>Creation\<close>

definition create_native_aggregate ::
  "engine \<Rightarrow> nat \<Rightarrow> compiled_bundle \<Rightarrow> string \<Rightarrow> string \<Rightarrow> string \<Rightarrow> bindings \<Rightarrow>
   (core_result, step_fault) outcome" where
  "create_native_aggregate G n B machine_id root_instance_id creation_id b =
     (if root_instance_id = [] \<or> creation_id = [] then Ok (rejected_creation CreateInvalidRequest)
      else (case bm_get (b_machines B) machine_id of
        None \<Rightarrow> Ok (rejected_creation CreateInvalidMachine)
      | Some m \<Rightarrow>
          let root_runtime_id = root_runtime_identity G B m root_instance_id;
              root_definition = definition_binding_of B m;
              fresh = new_runtime root_runtime_id m RelRoot
                (OriginRoot root_definition root_instance_id)
                (RootTarget root_instance_id root_runtime_id) root_definition None;
              aggregate =
                \<lparr>ag_document = JNull, ag_validated_bundle_fingerprint = b_fingerprint B,
                 ag_namespace = b_namespace B, ag_root_instance_id = root_instance_id,
                 ag_creation_id = creation_id, ag_migration_sequence = counter_zero,
                 ag_wire_runtime_order = [root_runtime_id], ag_root = fresh,
                 ag_next_logical_step_sequence = counter_zero, ag_next_output_sequence = counter_zero,
                 ag_next_acceptance_sequence = counter_zero, ag_next_queue_sequence = counter_zero\<rparr>
          in obind (initialize_root_variables fresh b) (\<lambda>valid.
             if \<not> valid then Ok (rejected_creation CreateInvalidBinding)
             else
               let cause_id = initialization_cause G ''root_initialization'' root_instance_id
                     root_runtime_id root_runtime_id creation_id counter_zero (m_root_pointer m) counter_zero;
                   P = \<lparr>sp_engine = G, sp_bundle = B, sp_root_instance_id = root_instance_id,
                        sp_step_sequence = counter_zero\<rparr>;
                   cx = \<lparr>cx_cause_id = cause_id, cx_next_output_sequence = counter_zero,
                         cx_emissions = [], cx_provider_writes = []\<rparr>
               in case initialize_runtime (kernel_at P n) b (fresh, cx) of
                    Ok (_, (r, cx')) \<Rightarrow>
                      Ok \<lparr>res_status = result_status_of (rt_status r), res_disposition = None,
                          res_state = Some (aggregate\<lparr>ag_root := r, ag_next_logical_step_sequence := 1,
                            ag_next_output_sequence := cx_next_output_sequence cx'\<rparr>),
                          res_emissions = cx_emissions cx', res_fault = rt_fault r, res_rejection = None\<rparr>
                  | Err (fault, (r, cx')) \<Rightarrow>
                      let record =
                            \<lparr>fr_definition_fingerprint = b_fingerprint B, fr_runtime_id = root_runtime_id,
                             fr_cause_id = cause_id, fr_code = engine_fault_str (sf_code fault),
                             fr_step_sequence = counter_zero, fr_source_locator = sf_source_locator fault\<rparr>;
                          diagnostic =
                            with_core (\<lambda>c. c\<lparr>rc_history := [], rc_status := Faulted, rc_fault := Some record\<rparr>)
                              (new_runtime (rt_runtime_id r) m RelRoot (rc_identity_origin (rt_core r))
                                 (rc_target_identity (rt_core r)) (rc_current_definition (rt_core r))
                                 (rc_origin_component_id (rt_core r)))
                      in Ok \<lparr>res_status = StatusFaulted, res_disposition = None,
                             res_state = Some (aggregate\<lparr>ag_root := diagnostic,
                               ag_next_logical_step_sequence := 1,
                               ag_next_output_sequence := counter_zero\<rparr>),
                             res_emissions = [], res_fault = Some record, res_rejection = None\<rparr>
                  | Panic \<Rightarrow> Panic
                  | OutOfFuel \<Rightarrow> OutOfFuel)))"

section \<open>Faults\<close>

definition step_params_of :: "engine \<Rightarrow> compiled_bundle \<Rightarrow> native_aggregate \<Rightarrow> step_params" where
  "step_params_of G B prior =
     \<lparr>sp_engine = G, sp_bundle = B, sp_root_instance_id = ag_root_instance_id prior,
      sp_step_sequence = fst (allocate (ag_next_logical_step_sequence prior))\<rparr>"

definition step_context_of :: "native_aggregate \<Rightarrow> envelope \<Rightarrow> step_context" where
  "step_context_of prior e =
     \<lparr>cx_cause_id = env_event_id e, cx_next_output_sequence = ag_next_output_sequence prior,
      cx_emissions = [], cx_provider_writes = []\<rparr>"

definition mark_faulted :: "fault_record \<Rightarrow> runtime_state \<Rightarrow> runtime_state" where
  "mark_faulted record r = with_core (\<lambda>c. c\<lparr>rc_status := Faulted, rc_fault := Some record\<rparr>) r"

definition fault_dispatch ::
  "engine \<Rightarrow> compiled_bundle \<Rightarrow> native_aggregate \<Rightarrow> runtime_address \<Rightarrow> envelope \<Rightarrow> step_fault \<Rightarrow>
   (core_result, step_fault) outcome" where
  "fault_dispatch G B prior address e fault =
     obind (expect (runtime_at (ag_root prior) address)) (\<lambda>r.
       let step_sequence = fst (allocate (ag_next_logical_step_sequence prior));
           record =
             \<lparr>fr_definition_fingerprint = db_validated_bundle_fingerprint (rc_current_definition (rt_core r)),
              fr_runtime_id = rt_runtime_id r, fr_cause_id = env_event_id e,
              fr_code = engine_fault_str (sf_code fault), fr_step_sequence = step_sequence,
              fr_source_locator = sf_source_locator fault\<rparr>
       in obind (expect (runtime_at_mut address (mark_faulted record) (ag_root prior))) (\<lambda>root'.
          let aggregate = prior\<lparr>ag_root := root',
                ag_next_logical_step_sequence := snd (allocate (ag_next_logical_step_sequence prior))\<rparr>
          in obind (if address = [] then Ok (step_context_of prior e)
                    else (case emit_failure_notification (kernel_at (step_params_of G B prior) 0)
                                 (mark_faulted record r) record (mark_faulted record r, step_context_of prior e) of
                            Ok (_, (_, cx)) \<Rightarrow> Ok cx
                          | Err (f, _) \<Rightarrow> Err f | Panic \<Rightarrow> Panic | OutOfFuel \<Rightarrow> OutOfFuel)) (\<lambda>cx.
             Ok \<lparr>res_status = result_status_of (rt_status root'), res_disposition = Some DispFaulted,
                 res_state = Some (aggregate\<lparr>ag_next_output_sequence := cx_next_output_sequence cx\<rparr>),
                 res_emissions = cx_emissions cx, res_fault = Some record, res_rejection = None\<rparr>)))"

definition fault_deferred_capacity ::
  "engine \<Rightarrow> compiled_bundle \<Rightarrow> native_aggregate \<Rightarrow> envelope \<Rightarrow> (core_result, step_fault) outcome" where
  "fault_deferred_capacity G B a e =
     (case resolve_delivery_target a (env_target e) of
        Inl _ \<Rightarrow> Panic
      | Inr address \<Rightarrow>
          fault_dispatch G B a address e
            \<lparr>sf_code = DeferredEventCapacityExceeded, sf_source_locator = ''system:deferred_event_capacity''\<rparr>)"

section \<open>After a handled step\<close>

fun dispose_completed_spawned_at_path :: "runtime_address \<Rightarrow> runtime_state \<Rightarrow> runtime_state" where
  "dispose_completed_spawned_at_path [] r = r"
| "dispose_completed_spawned_at_path (SegSpawn seq # tail) r =
     (if tail = []
      then with_owned (filter (\<lambda>w. or_spawn_sequence w \<noteq> seq \<or> rt_status (or_runtime w) \<noteq> Completed)) r
      else with_owned (update_first (is_spawn seq)
             (\<lambda>w. set_or_runtime (dispose_completed_spawned_at_path tail (or_runtime w)) w)) r)"
| "dispose_completed_spawned_at_path (SegComponent cid seq # tail) r =
     with_components (update_first (is_component cid seq)
       (\<lambda>c. set_cr_runtime (dispose_completed_spawned_at_path tail (cr_runtime c)) c)) r"

definition parallel_done_emissions ::
  "engine \<Rightarrow> native_aggregate \<Rightarrow> runtime_address \<Rightarrow> string \<Rightarrow> counter \<Rightarrow> emission list" where
  "parallel_done_emissions G a address cause_id step_sequence =
     (if address = [] then []
      else (case last address of
        SegSpawn _ \<Rightarrow> []
      | SegComponent cid seq \<Rightarrow>
          (case runtime_at (ag_root a) (butlast address) of
             None \<Rightarrow> []
           | Some owner \<Rightarrow>
               (case find (is_component cid seq) (rt_components owner) of
                  None \<Rightarrow> []
                | Some completed \<Rightarrow>
                    if rt_status (cr_runtime completed) \<noteq> Completed \<or> \<not> all_components_completed owner
                    then []
                    else (case rt_relation (cr_runtime completed) of
                            RelComponent _ _ owner_state_path _ _ _ _ \<Rightarrow>
                              [parallel_done G owner owner_state_path cause_id step_sequence
                                 (ag_root_instance_id a)]
                          | _ \<Rightarrow> [])))))"

section \<open>Dispatch\<close>

fun delivery_parts :: "delivery \<Rightarrow> delivery_mode \<times> envelope" where
  "delivery_parts (Input e) = (ModeInput, e)"
| "delivery_parts (Internal e) = (ModeInternal, e)"

definition inactive_target :: "target \<Rightarrow> dispatch_rejection" where
  "inactive_target t = (if component_target t then InactiveComponentTarget else InvalidInstanceTarget)"

definition handled_result ::
  "engine \<Rightarrow> native_aggregate \<Rightarrow> runtime_address \<Rightarrow> envelope \<Rightarrow> runtime_state \<Rightarrow> step_context \<Rightarrow> core_result" where
  "handled_result G prior address e root' cx =
     (let step_sequence = fst (allocate (ag_next_logical_step_sequence prior));
          aggregate = prior\<lparr>ag_root := root',
            ag_next_logical_step_sequence := snd (allocate (ag_next_logical_step_sequence prior)),
            ag_next_output_sequence := cx_next_output_sequence cx\<rparr>;
          emissions = cx_emissions cx @
            parallel_done_emissions G aggregate address (env_event_id e) step_sequence;
          disposed = dispose_completed_spawned_at_path address root';
          fault = (case (case runtime_at disposed address of None \<Rightarrow> None | Some r \<Rightarrow> rt_fault r) of
                     Some f \<Rightarrow> Some f | None \<Rightarrow> rt_fault disposed)
      in \<lparr>res_status = result_status_of (rt_status disposed), res_disposition = Some DispHandled,
          res_state = Some (aggregate\<lparr>ag_root := disposed\<rparr>), res_emissions = emissions,
          res_fault = fault, res_rejection = None\<rparr>)"

definition run_handler ::
  "engine \<Rightarrow> nat \<Rightarrow> compiled_bundle \<Rightarrow> native_aggregate \<Rightarrow> runtime_address \<Rightarrow> runtime_state \<Rightarrow> envelope \<Rightarrow>
   string \<Rightarrow> compiled_transition \<Rightarrow> (core_result, step_fault) outcome" where
  "run_handler G n B prior address r e source_path t =
     (case execute_transition (kernel_at (step_params_of G B prior) n) source_path t e
             (r, step_context_of prior e) of
        Ok (_, (r', cx)) \<Rightarrow>
          obind (expect (runtime_at_mut address (\<lambda>_. r') (ag_root prior))) (\<lambda>root'.
            Ok (handled_result G prior address e root' cx))
      | Err (fault, _) \<Rightarrow> fault_dispatch G B prior address e fault
      | Panic \<Rightarrow> Panic
      | OutOfFuel \<Rightarrow> OutOfFuel)"

definition dispatch_selected ::
  "engine \<Rightarrow> nat \<Rightarrow> compiled_bundle \<Rightarrow> native_aggregate \<Rightarrow> runtime_address \<Rightarrow> runtime_state \<Rightarrow> envelope \<Rightarrow>
   (core_result, step_fault) outcome" where
  "dispatch_selected G n B prior address r e =
     (case select_handler G r e of
        Err fault \<Rightarrow> fault_dispatch G B prior address e fault
      | Panic \<Rightarrow> Panic
      | OutOfFuel \<Rightarrow> OutOfFuel
      | Ok (Handled source_path t) \<Rightarrow> run_handler G n B prior address r e source_path t
      | Ok Deferred \<Rightarrow> Ok (unchanged_result prior (Some DispDeferred) None)
      | Ok Unhandled \<Rightarrow>
          if env_event e \<in> {''determa.component_failed'', ''determa.spawned_instance_failed''}
          then fault_dispatch G B prior address e
                 \<lparr>sf_code = ContainedRuntimeFault, sf_source_locator = ''system:unhandled_contained_failure''\<rparr>
          else Ok (unchanged_result prior (Some DispUnhandled) None))"

text \<open>The checks between the arrival of a delivery and the selection of its handler.\<close>

definition accept_delivery ::
  "compiled_bundle \<Rightarrow> native_aggregate \<Rightarrow> delivery \<Rightarrow>
   (runtime_address \<times> runtime_state \<times> envelope, dispatch_rejection) outcome" where
  "accept_delivery B prior d =
     (let (mode, e) = delivery_parts d in
      if rt_status (ag_root prior) = Faulted then Err InvalidInstanceTarget
      else if mode = ModeInput \<and> component_target (env_target e) then Err InvalidInstanceTarget
      else (case resolve_delivery_target prior (env_target e) of
              Inl code \<Rightarrow> Err code
            | Inr address \<Rightarrow>
                (case runtime_at (ag_root prior) address of
                   None \<Rightarrow> Err (inactive_target (env_target e))
                 | Some r \<Rightarrow>
                     if rt_status r \<noteq> Running then Err (inactive_target (env_target e))
                     else obind (validate_envelope B r mode e) (\<lambda>e'. Ok (address, r, e')))))"

definition step_native_aggregate ::
  "engine \<Rightarrow> nat \<Rightarrow> compiled_bundle \<Rightarrow> native_aggregate \<Rightarrow> delivery option \<Rightarrow>
   (core_result, step_fault) outcome" where
  "step_native_aggregate G n B prior d =
     (if \<not> validate_prior_state G prior then Ok (rejected_dispatch prior InvalidPriorState)
      else if ag_validated_bundle_fingerprint prior \<noteq> b_fingerprint B
      then Ok (rejected_dispatch prior IncompatibleBundle)
      else if \<not> validate_prior_state_bundle_binding prior B
      then Ok (rejected_dispatch prior InvalidPriorState)
      else (case d of
        None \<Rightarrow> Ok (unchanged_result prior None None)
      | Some delivery \<Rightarrow>
          (case accept_delivery B prior delivery of
             Err code \<Rightarrow> Ok (rejected_dispatch prior code)
           | Panic \<Rightarrow> Panic
           | OutOfFuel \<Rightarrow> OutOfFuel
           | Ok (address, r, e) \<Rightarrow> dispatch_selected G n B prior address r e)))"

section \<open>Admission\<close>

definition validate_delivery_for_admission ::
  "compiled_bundle \<Rightarrow> native_aggregate \<Rightarrow> delivery \<Rightarrow> (string, dispatch_rejection) outcome" where
  "validate_delivery_for_admission B a d =
     (let (mode, e) = delivery_parts d in
      if rt_status (ag_root a) = Faulted then Err InvalidInstanceTarget
      else if (case env_target e of
                 ComponentPlacement _ _ _ rid _ \<Rightarrow> runtime_by_id rid (ag_root a) = None | _ \<Rightarrow> False)
      then Err InvalidInstanceTarget
      else (case resolve_delivery_target a (env_target e) of
              Inl code \<Rightarrow> Err code
            | Inr address \<Rightarrow>
                (case runtime_at (ag_root a) address of
                   None \<Rightarrow> Err (inactive_target (env_target e))
                 | Some r \<Rightarrow>
                     if rt_status r \<noteq> Running then Err (inactive_target (env_target e))
                     else if mode = ModeInput \<and> component_target (env_target e)
                     then Err InvalidInstanceTarget
                     else obind (validate_envelope B r mode e) (\<lambda>e'.
                            if envelopes_wire_equivalent e' e then Ok (rt_runtime_id r)
                            else Err InvalidPayload))))"

definition validate_queued_event_for_migration ::
  "compiled_bundle \<Rightarrow> native_aggregate \<Rightarrow> delivery \<Rightarrow> (unit, dispatch_rejection) outcome" where
  "validate_queued_event_for_migration B a d =
     (let (mode, e) = delivery_parts d in
      if env_target e = External then Err InvalidInstanceTarget
      else obind (ok_or InvalidInstanceTarget (runtime_by_id (target_runtime_id (env_target e)) (ag_root a)))
        (\<lambda>r. obind (validate_envelope B r mode e) (\<lambda>e'.
           if envelopes_wire_equivalent e' e then Ok () else Err InvalidPayload)))"

end
