(* ===== verification/Wire.thy ===== *)
theory Wire
  imports Dispatch "HOL-Library.Monad_Syntax"
begin

text \<open>
  The persisted form of an aggregate (\<^verbatim>\<open>src/format1/native.rs\<close>): the wire structs, the
  translation of a runtime tree into the flat list of wire runtimes, the canonical-order and
  decimal checks, the encoding of an aggregate, and the JSON form of the envelope.  An error
  carries its code; the human-readable messages are left out.  The canonical text of a
  document (RFC 8785, a third-party crate) and JSON-schema validation are parameters.
\<close>

section \<open>Errors and parameters\<close>

datatype persistence_error =
    UnsupportedAggregateStateFormat
  | UnsupportedAggregateStateSchemaVersion
  | UnsupportedMigrationDescriptorFormat
  | UnsupportedMigrationDescriptorSchemaVersion
  | UnsupportedAggregateStatePackageFormat
  | UnsupportedAggregateStatePackageSchemaVersion
  | InvalidAggregateState
  | InvalidAggregateStatePackage
  | AggregateStateDigestMismatch
  | SourceDefinitionUnavailable
  | DefinitionUntrusted
  | TargetDefinitionUnavailable
  | DefinitionFingerprintMismatch
  | MigrationDescriptorUntrusted
  | InvalidMigrationDescriptor
  | InvalidMigrationRequest
  | MigrationRouteMissing
  | MigrationRouteMismatch
  | MigrationTransformFault
  | MigrationTotalityFailure
  | MigrationResourceLimitExceeded
  | TerminalMigrationRequiresMaintenance
  | TerminalMigrationRejected

fun persistence_error_str :: "persistence_error \<Rightarrow> string" where
  "persistence_error_str UnsupportedAggregateStateFormat = ''unsupported_aggregate_state_format''"
| "persistence_error_str UnsupportedAggregateStateSchemaVersion = ''unsupported_aggregate_state_schema_version''"
| "persistence_error_str UnsupportedMigrationDescriptorFormat = ''unsupported_migration_descriptor_format''"
| "persistence_error_str UnsupportedMigrationDescriptorSchemaVersion = ''unsupported_migration_descriptor_schema_version''"
| "persistence_error_str UnsupportedAggregateStatePackageFormat = ''unsupported_aggregate_state_package_format''"
| "persistence_error_str UnsupportedAggregateStatePackageSchemaVersion = ''unsupported_aggregate_state_package_schema_version''"
| "persistence_error_str InvalidAggregateState = ''invalid_aggregate_state''"
| "persistence_error_str InvalidAggregateStatePackage = ''invalid_aggregate_state_package''"
| "persistence_error_str AggregateStateDigestMismatch = ''aggregate_state_digest_mismatch''"
| "persistence_error_str SourceDefinitionUnavailable = ''source_definition_unavailable''"
| "persistence_error_str DefinitionUntrusted = ''definition_untrusted''"
| "persistence_error_str TargetDefinitionUnavailable = ''target_definition_unavailable''"
| "persistence_error_str DefinitionFingerprintMismatch = ''definition_fingerprint_mismatch''"
| "persistence_error_str MigrationDescriptorUntrusted = ''migration_descriptor_untrusted''"
| "persistence_error_str InvalidMigrationDescriptor = ''invalid_migration_descriptor''"
| "persistence_error_str InvalidMigrationRequest = ''invalid_migration_request''"
| "persistence_error_str MigrationRouteMissing = ''migration_route_missing''"
| "persistence_error_str MigrationRouteMismatch = ''migration_route_mismatch''"
| "persistence_error_str MigrationTransformFault = ''migration_transform_fault''"
| "persistence_error_str MigrationTotalityFailure = ''migration_totality_failure''"
| "persistence_error_str MigrationResourceLimitExceeded = ''migration_resource_limit_exceeded''"
| "persistence_error_str TerminalMigrationRequiresMaintenance = ''terminal_migration_requires_maintenance''"
| "persistence_error_str TerminalMigrationRejected = ''terminal_migration_rejected''"

text \<open>
  The third-party functions of the host layer: the canonical text of a document, the
  JSON-schema validators of the delivery and the aggregate document, and the code with which
  the provider registry of a bundle refuses it (\<^verbatim>\<open>providers::check_bundle\<close>), if it does.
\<close>

record host =
  ho_engine :: engine
  ho_canonical_text :: "json \<Rightarrow> string option"
  ho_delivery_schema :: "json \<Rightarrow> bool"
  ho_aggregate_schema :: "json \<Rightarrow> bool"
  ho_check_bundle :: "compiled_bundle \<Rightarrow> string option"

definition jcs_hash :: "host \<Rightarrow> json \<Rightarrow> (string, persistence_error) outcome" where
  "jcs_hash H j =
     obind (ok_or InvalidAggregateState (ho_canonical_text H j)) (\<lambda>text.
       Ok (''sha256:'' @ eng_sha256 (ho_engine H) text))"

section \<open>Documents\<close>

text \<open>\<^verbatim>\<open>json!({ ... })\<close> and the object of a serialised struct: members in key order.\<close>

definition jmembers :: "(string \<times> json) list \<Rightarrow> (string \<times> json) list" where
  "jmembers ms = bm_of ms []"

definition jobj :: "(string \<times> json) list \<Rightarrow> json" where
  "jobj ms = JObject (jmembers ms)"

definition aggregate_digest :: "host \<Rightarrow> json \<Rightarrow> (string, persistence_error) outcome" where
  "aggregate_digest H v =
     (case v of
        JObject ms \<Rightarrow>
          jcs_hash H (JArray [JString ''determa-aggregate-state-digest-1'',
                              JObject (bm_remove ''aggregate_state_digest'' ms)])
      | _ \<Rightarrow> Err InvalidAggregateState)"

section \<open>Wire structs\<close>

record wire_machine_identity =
  wm_namespace :: string
  wm_machine_id :: string
  wm_machine_version :: string
  wm_root_definition_pointer :: string

record wire_definition_binding =
  wd_validated_bundle_fingerprint :: string
  wd_machine :: wire_machine_identity

datatype wire_identity_origin =
    WireOriginRoot (wo_definition: wire_definition_binding) (wo_root_instance_id: string)
  | WireOriginComponent (wo_definition: wire_definition_binding) (wo_owner_runtime_id: string)
      (wo_component_definition_pointer: string) (wo_activation_sequence: string)
      (wo_declaration_index: string)
  | WireOriginSpawned (wo_definition: wire_definition_binding) (wo_owner_runtime_id: string)
      (wo_spawn_action_pointer: string) (wo_spawn_sequence: string)

record wire_root_target =
  wrt_root_instance_id :: string
  wrt_root_runtime_id :: string

record wire_component_target =
  wct_root_instance_id :: string
  wct_owner_runtime_id :: string
  wct_component_id :: string
  wct_component_runtime_id :: string
  wct_activation_sequence :: string

record wire_instance_reference =
  wir_root_instance_id :: string
  wir_instance_id :: string
  wir_machine_id :: string
  wir_machine_version :: string

datatype wire_target =
    WireRoot wire_root_target
  | WireComponent wire_component_target
  | WireSpawned wire_instance_reference

record wire_lifetime_holder =
  wl_holder_runtime_id :: string
  wl_variable_declaration_pointer :: string
  wl_holder_state_activation_sequence :: string

datatype wire_relation =
    WireRelRoot
  | WireRelComponent (wr_owner_runtime_id: string) (wr_component_id: string)
      (wr_current_component_definition_pointer: string) (wr_activation_sequence: string)
      (wr_declaration_index: string)
  | WireRelSpawned (wr_owner_runtime_id: string) (wr_current_spawn_action_pointer: string)
      (wr_spawn_sequence: string) (wr_lifetime_holder: "wire_lifetime_holder option")

record wire_state_activation =
  wa_state_definition_pointer :: string
  wa_activation_sequence :: string

record wire_variable =
  wv_variable_declaration_pointer :: string
  wv_declaring_state_activation_sequence :: string
  wv_value :: typed_value

record wire_history =
  wh_history_declaration_pointer :: string
  wh_recorded_state_definition_pointers :: "string list option"

record wire_next_counter =
  wn_definition_pointer :: string
  wn_next_sequence :: string

record wire_fault =
  wf_definition_fingerprint :: string
  wf_runtime_id :: string
  wf_cause_id :: string
  wf_code :: string
  wf_step_sequence :: string
  wf_source_locator :: string

record wire_runtime =
  ww_runtime_id :: string
  ww_identity_origin :: wire_identity_origin
  ww_target_identity :: wire_target
  ww_current_definition :: wire_definition_binding
  ww_relation :: wire_relation
  ww_status :: runtime_status
  ww_active_leaf_state_definition_pointers :: "string list"
  ww_active_state_activations :: "wire_state_activation list"
  ww_variables :: "wire_variable list"
  ww_history :: "wire_history list"
  ww_next_spawn_sequence :: string
  ww_next_state_activation_sequences :: "wire_next_counter list"
  ww_next_component_activation_sequences :: "wire_next_counter list"
  ww_ready_mailbox :: "json list"
  ww_deferred_mailbox :: "json list"
  ww_fault :: "wire_fault option"

record aggregate_envelope =
  ae_aggregate_state_format :: string
  ae_aggregate_state_schema_version :: i64
  ae_machine_format :: i64
  ae_validated_bundle_fingerprint :: string
  ae_namespace :: string
  ae_root_machine_id :: string
  ae_root_machine_version :: string
  ae_root_instance_id :: string
  ae_creation_id :: string
  ae_root_runtime_id :: string
  ae_migration_sequence :: string
  ae_next_logical_step_sequence :: string
  ae_next_output_sequence :: string
  ae_next_acceptance_sequence :: string
  ae_next_queue_sequence :: string
  ae_runtimes :: "wire_runtime list"
  ae_aggregate_state_digest :: string

section \<open>To the wire\<close>

definition definition_to_wire :: "definition_binding \<Rightarrow> wire_definition_binding" where
  "definition_to_wire d =
     \<lparr>wd_validated_bundle_fingerprint = db_validated_bundle_fingerprint d,
      wd_machine =
        \<lparr>wm_namespace = mi_namespace (db_machine d), wm_machine_id = mi_machine_id (db_machine d),
         wm_machine_version = signed_decimal (sint (mi_machine_version (db_machine d))),
         wm_root_definition_pointer = mi_root_definition_pointer (db_machine d)\<rparr>\<rparr>"

fun origin_to_wire :: "identity_origin \<Rightarrow> wire_identity_origin" where
  "origin_to_wire (OriginRoot d i) = WireOriginRoot (definition_to_wire d) i"
| "origin_to_wire (OriginComponent d owner pointer seq index) =
     WireOriginComponent (definition_to_wire d) owner pointer (canonical_decimal seq) (canonical_decimal index)"
| "origin_to_wire (OriginSpawned d owner pointer seq) =
     WireOriginSpawned (definition_to_wire d) owner pointer (canonical_decimal seq)"

fun target_to_wire :: "target \<Rightarrow> (wire_target, persistence_error) outcome" where
  "target_to_wire (RootTarget i r) =
     Ok (WireRoot \<lparr>wrt_root_instance_id = i, wrt_root_runtime_id = r\<rparr>)"
| "target_to_wire (ComponentPlacement i owner cid rid seq) =
     Ok (WireComponent \<lparr>wct_root_instance_id = i, wct_owner_runtime_id = owner, wct_component_id = cid,
           wct_component_runtime_id = rid, wct_activation_sequence = canonical_decimal seq\<rparr>)"
| "target_to_wire (SpawnedTarget rf) =
     Ok (WireSpawned \<lparr>wir_root_instance_id = ref_root_instance_id rf, wir_instance_id = ref_instance_id rf,
           wir_machine_id = ref_machine_id rf,
           wir_machine_version = signed_decimal (sint (ref_machine_version rf))\<rparr>)"
| "target_to_wire External = Err InvalidAggregateState"

fun relation_to_wire :: "runtime_relation \<Rightarrow> wire_relation" where
  "relation_to_wire RelRoot = WireRelRoot"
| "relation_to_wire (RelComponent owner _ _ cid pointer index seq) =
     WireRelComponent owner cid pointer (canonical_decimal seq) (decimal index)"
| "relation_to_wire (RelSpawned owner _ seq pointer _ _ hptr hseq) =
     WireRelSpawned owner pointer (canonical_decimal seq)
       (map_option (\<lambda>p. \<lparr>wl_holder_runtime_id = owner, wl_variable_declaration_pointer = p,
                         wl_holder_state_activation_sequence = canonical_decimal hseq\<rparr>) hptr)"

text \<open>
  \<^verbatim>\<open>decimal_cmp\<close> orders decimal text by length and then by bytes; as a sort key it is the
  pair of both.
\<close>

definition decimal_key :: "string \<Rightarrow> nat \<times> string" where
  "decimal_key s = (length s, s)"

text \<open>\<^verbatim>\<open>runtime.definition.states[path].pointer\<close>, which panics on an unknown path.\<close>

definition state_pointer :: "machine \<Rightarrow> string \<Rightarrow> (string, 'e) outcome" where
  "state_pointer m path = obind (state_at m path) (\<lambda>st. Ok (s_pointer st))"

definition leaf_pointers :: "runtime_core \<Rightarrow> (string list, 'e) outcome" where
  "leaf_pointers c =
     obind (collect_outcome (map (state_pointer (rc_definition c))
       (filter (\<lambda>path. \<not> list_ex (\<lambda>candidate. candidate \<noteq> path \<and> is_descendant candidate path) (rc_active c))
         (rc_active c)))) (\<lambda>ps. Ok (sort ps))"

definition wire_activations :: "runtime_core \<Rightarrow> (wire_state_activation list, 'e) outcome" where
  "wire_activations c =
     obind (collect_outcome (map (\<lambda>(path, seq). obind (state_pointer (rc_definition c) path) (\<lambda>p.
        Ok \<lparr>wa_state_definition_pointer = p, wa_activation_sequence = canonical_decimal seq\<rparr>))
        (rc_active_state_activation_sequence c))) (\<lambda>as.
     Ok (sort_key (\<lambda>a. (wa_state_definition_pointer a, decimal_key (wa_activation_sequence a))) as))"

definition wire_variables :: "runtime_core \<Rightarrow> wire_variable list" where
  "wire_variables c =
     sort_key (\<lambda>v. (wv_variable_declaration_pointer v, decimal_key (wv_declaring_state_activation_sequence v)))
       (map (\<lambda>slot. \<lparr>wv_variable_declaration_pointer = vs_declaration_pointer slot,
              wv_declaring_state_activation_sequence = canonical_decimal (vs_state_activation_sequence slot),
              wv_value = typed_from_value (vs_value slot)\<rparr>) (bm_values (rc_variables c)))"

definition wire_histories :: "runtime_core \<Rightarrow> (wire_history list, 'e) outcome" where
  "wire_histories c =
     obind (collect_outcome (map (\<lambda>(path, recorded).
        obind (state_pointer (rc_definition c) path) (\<lambda>p.
        obind (case recorded of
                 None \<Rightarrow> Ok None
               | Some paths \<Rightarrow> obind (collect_outcome (map (state_pointer (rc_definition c)) paths))
                                (\<lambda>ps. Ok (Some (sort ps)))) (\<lambda>recorded'.
          Ok \<lparr>wh_history_declaration_pointer = p @ ''/history'',
              wh_recorded_state_definition_pointers = recorded'\<rparr>))) (rc_history c))) (\<lambda>hs.
     Ok (sort_key wh_history_declaration_pointer hs))"

definition wire_state_counters :: "runtime_core \<Rightarrow> (wire_next_counter list, 'e) outcome" where
  "wire_state_counters c =
     obind (collect_outcome (map (\<lambda>(path, seq). obind (state_pointer (rc_definition c) path) (\<lambda>p.
        Ok \<lparr>wn_definition_pointer = p, wn_next_sequence = canonical_decimal seq\<rparr>))
        (rc_next_state_activation_sequence c))) (\<lambda>ns.
     Ok (sort_key wn_definition_pointer ns))"

definition wire_component_counters :: "runtime_core \<Rightarrow> wire_next_counter list" where
  "wire_component_counters c =
     sort_key wn_definition_pointer
       (map (\<lambda>(pointer, seq). \<lparr>wn_definition_pointer = pointer, wn_next_sequence = canonical_decimal seq\<rparr>)
         (rc_next_component_activation_sequence c))"

definition fault_to_wire :: "fault_record \<Rightarrow> wire_fault" where
  "fault_to_wire f =
     \<lparr>wf_definition_fingerprint = fr_definition_fingerprint f, wf_runtime_id = fr_runtime_id f,
      wf_cause_id = fr_cause_id f, wf_code = fr_code f,
      wf_step_sequence = canonical_decimal (fr_step_sequence f), wf_source_locator = fr_source_locator f\<rparr>"

definition runtime_to_wire :: "runtime_core \<Rightarrow> (wire_runtime, persistence_error) outcome" where
  "runtime_to_wire c =
     obind (leaf_pointers c) (\<lambda>leaves.
     obind (wire_activations c) (\<lambda>activations.
     obind (wire_histories c) (\<lambda>history.
     obind (wire_state_counters c) (\<lambda>next_state.
     obind (target_to_wire (rc_target_identity c)) (\<lambda>t.
       Ok \<lparr>ww_runtime_id = rc_runtime_id c, ww_identity_origin = origin_to_wire (rc_identity_origin c),
           ww_target_identity = t, ww_current_definition = definition_to_wire (rc_current_definition c),
           ww_relation = relation_to_wire (rc_relation c), ww_status = rc_status c,
           ww_active_leaf_state_definition_pointers = leaves, ww_active_state_activations = activations,
           ww_variables = wire_variables c, ww_history = history,
           ww_next_spawn_sequence = canonical_decimal (rc_next_spawn_sequence c),
           ww_next_state_activation_sequences = next_state,
           ww_next_component_activation_sequences = wire_component_counters c,
           ww_ready_mailbox = rc_ready_mailbox c, ww_deferred_mailbox = rc_deferred_mailbox c,
           ww_fault = map_option fault_to_wire (rc_fault c)\<rparr>)))))"

text \<open>\<^verbatim>\<open>flatten_runtime\<close>: children before their owner, components before instances.\<close>

primrec tree_cores :: "runtime_state \<Rightarrow> runtime_core list"
  and component_cores :: "component_runtime \<Rightarrow> runtime_core list"
  and owned_cores :: "owned_runtime \<Rightarrow> runtime_core list"
where
  "tree_cores (Runtime c cs ws) = concat (map component_cores cs) @ concat (map owned_cores ws) @ [c]"
| "component_cores (ComponentRuntime cid p i seq r) = tree_cores r"
| "owned_cores (OwnedRuntime seq hp hptr ha rf r) = tree_cores r"

definition flatten_runtime :: "runtime_state \<Rightarrow> (wire_runtime list, persistence_error) outcome" where
  "flatten_runtime r = collect_outcome (map runtime_to_wire (tree_cores r))"

section \<open>Canonical form\<close>

definition require_canonical_decimal :: "string \<Rightarrow> bool \<Rightarrow> bool" where
  "require_canonical_decimal v positive \<longleftrightarrow>
     (if positive then v \<noteq> [] \<and> hd v \<noteq> CHR ''0'' \<and> list_all is_digit v
      else v = ''0'' \<or> (v \<noteq> [] \<and> hd v \<noteq> CHR ''0'' \<and> list_all is_digit v))"

definition require_ordered_by :: "('a \<Rightarrow> 'k::linorder) \<Rightarrow> 'a list \<Rightarrow> bool" where
  "require_ordered_by key xs \<longleftrightarrow> list_all (\<lambda>(a, b). key a < key b) (zip xs (tl xs))"

definition validate_wire_definition :: "wire_definition_binding \<Rightarrow> bool" where
  "validate_wire_definition d \<longleftrightarrow>
     require_canonical_decimal (wm_machine_version (wd_machine d)) True \<and>
     parse_i64 (wm_machine_version (wd_machine d)) \<noteq> None"

fun validate_wire_origin :: "wire_identity_origin \<Rightarrow> bool" where
  "validate_wire_origin (WireOriginRoot d _) \<longleftrightarrow> validate_wire_definition d"
| "validate_wire_origin (WireOriginComponent d _ _ seq index) \<longleftrightarrow>
     validate_wire_definition d \<and> require_canonical_decimal seq False \<and> require_canonical_decimal index False"
| "validate_wire_origin (WireOriginSpawned d _ _ seq) \<longleftrightarrow>
     validate_wire_definition d \<and> require_canonical_decimal seq False"

fun validate_wire_target :: "wire_target \<Rightarrow> bool" where
  "validate_wire_target (WireRoot _) \<longleftrightarrow> True"
| "validate_wire_target (WireComponent c) \<longleftrightarrow> require_canonical_decimal (wct_activation_sequence c) False"
| "validate_wire_target (WireSpawned r) \<longleftrightarrow>
     require_canonical_decimal (wir_machine_version r) True \<and> parse_i64 (wir_machine_version r) \<noteq> None"

fun validate_wire_relation :: "wire_relation \<Rightarrow> bool" where
  "validate_wire_relation WireRelRoot \<longleftrightarrow> True"
| "validate_wire_relation (WireRelComponent _ _ _ seq index) \<longleftrightarrow>
     require_canonical_decimal seq False \<and> require_canonical_decimal index False"
| "validate_wire_relation (WireRelSpawned _ _ seq holder) \<longleftrightarrow>
     require_canonical_decimal seq False \<and>
     (case holder of None \<Rightarrow> True
      | Some h \<Rightarrow> require_canonical_decimal (wl_holder_state_activation_sequence h) False)"

definition validate_wire_runtime :: "wire_runtime \<Rightarrow> bool" where
  "validate_wire_runtime w \<longleftrightarrow>
     require_canonical_decimal (ww_next_spawn_sequence w) False \<and>
     require_ordered_by id (ww_active_leaf_state_definition_pointers w) \<and>
     require_ordered_by (\<lambda>a. (wa_state_definition_pointer a, decimal_key (wa_activation_sequence a)))
       (ww_active_state_activations w) \<and>
     require_ordered_by (\<lambda>v. (wv_variable_declaration_pointer v,
         decimal_key (wv_declaring_state_activation_sequence v))) (ww_variables w) \<and>
     require_ordered_by wh_history_declaration_pointer (ww_history w) \<and>
     require_ordered_by wn_definition_pointer (ww_next_state_activation_sequences w) \<and>
     require_ordered_by wn_definition_pointer (ww_next_component_activation_sequences w) \<and>
     list_all (\<lambda>a. require_canonical_decimal (wa_activation_sequence a) False) (ww_active_state_activations w) \<and>
     list_all (\<lambda>v. require_canonical_decimal (wv_declaring_state_activation_sequence v) False) (ww_variables w) \<and>
     list_all (\<lambda>n. require_canonical_decimal (wn_next_sequence n) False)
       (ww_next_state_activation_sequences w @ ww_next_component_activation_sequences w) \<and>
     validate_wire_origin (ww_identity_origin w) \<and> validate_wire_definition (ww_current_definition w) \<and>
     validate_wire_target (ww_target_identity w) \<and> validate_wire_relation (ww_relation w) \<and>
     (case ww_fault w of None \<Rightarrow> True | Some f \<Rightarrow> require_canonical_decimal (wf_step_sequence f) False)"

definition validate_envelope_semantics :: "aggregate_envelope \<Rightarrow> bool" where
  "validate_envelope_semantics e \<longleftrightarrow>
     require_canonical_decimal (ae_root_machine_version e) True \<and>
     require_canonical_decimal (ae_migration_sequence e) False \<and>
     require_canonical_decimal (ae_next_logical_step_sequence e) False \<and>
     require_canonical_decimal (ae_next_output_sequence e) False \<and>
     require_canonical_decimal (ae_next_acceptance_sequence e) False \<and>
     require_canonical_decimal (ae_next_queue_sequence e) False \<and>
     ae_runtimes e \<noteq> [] \<and> distinct (map ww_runtime_id (ae_runtimes e)) \<and>
     ae_root_runtime_id e \<in> set (map ww_runtime_id (ae_runtimes e)) \<and>
     list_all validate_wire_runtime (ae_runtimes e)"

section \<open>The JSON form of the wire structs\<close>

definition wire_definition_json :: "wire_definition_binding \<Rightarrow> json" where
  "wire_definition_json d =
     jobj [(''validated_bundle_fingerprint'', JString (wd_validated_bundle_fingerprint d)),
           (''machine'', jobj [(''namespace'', JString (wm_namespace (wd_machine d))),
              (''machine_id'', JString (wm_machine_id (wd_machine d))),
              (''machine_version'', JString (wm_machine_version (wd_machine d))),
              (''root_definition_pointer'', JString (wm_root_definition_pointer (wd_machine d)))])]"

fun wire_origin_json :: "wire_identity_origin \<Rightarrow> json" where
  "wire_origin_json (WireOriginRoot d i) =
     jobj [(''kind'', JString ''root''), (''definition'', wire_definition_json d),
           (''root_instance_id'', JString i)]"
| "wire_origin_json (WireOriginComponent d owner pointer seq index) =
     jobj [(''kind'', JString ''component''), (''definition'', wire_definition_json d),
           (''owner_runtime_id'', JString owner), (''component_definition_pointer'', JString pointer),
           (''activation_sequence'', JString seq), (''declaration_index'', JString index)]"
| "wire_origin_json (WireOriginSpawned d owner pointer seq) =
     jobj [(''kind'', JString ''owned_spawned_instance''), (''definition'', wire_definition_json d),
           (''owner_runtime_id'', JString owner), (''spawn_action_pointer'', JString pointer),
           (''spawn_sequence'', JString seq)]"

fun wire_target_json :: "wire_target \<Rightarrow> json" where
  "wire_target_json (WireRoot t) =
     jobj [(''root'', jobj [(''root_instance_id'', JString (wrt_root_instance_id t)),
                            (''root_runtime_id'', JString (wrt_root_runtime_id t))])]"
| "wire_target_json (WireComponent t) =
     jobj [(''component'', jobj [(''root_instance_id'', JString (wct_root_instance_id t)),
        (''owner_runtime_id'', JString (wct_owner_runtime_id t)),
        (''component_id'', JString (wct_component_id t)),
        (''component_runtime_id'', JString (wct_component_runtime_id t)),
        (''activation_sequence'', JString (wct_activation_sequence t))])]"
| "wire_target_json (WireSpawned t) =
     jobj [(''spawned_instance'', jobj [(''root_instance_id'', JString (wir_root_instance_id t)),
        (''instance_id'', JString (wir_instance_id t)), (''machine_id'', JString (wir_machine_id t)),
        (''machine_version'', JString (wir_machine_version t))])]"

definition option_json :: "('a \<Rightarrow> json) \<Rightarrow> 'a option \<Rightarrow> json" where
  "option_json f x = (case x of None \<Rightarrow> JNull | Some a \<Rightarrow> f a)"

fun wire_relation_json :: "wire_relation \<Rightarrow> json" where
  "wire_relation_json WireRelRoot = jobj [(''kind'', JString ''root'')]"
| "wire_relation_json (WireRelComponent owner cid pointer seq index) =
     jobj [(''kind'', JString ''component''), (''owner_runtime_id'', JString owner),
           (''component_id'', JString cid), (''current_component_definition_pointer'', JString pointer),
           (''activation_sequence'', JString seq), (''declaration_index'', JString index)]"
| "wire_relation_json (WireRelSpawned owner pointer seq holder) =
     jobj [(''kind'', JString ''owned_spawned_instance''), (''owner_runtime_id'', JString owner),
           (''current_spawn_action_pointer'', JString pointer), (''spawn_sequence'', JString seq),
           (''lifetime_holder'', option_json (\<lambda>h. jobj
              [(''holder_runtime_id'', JString (wl_holder_runtime_id h)),
               (''variable_declaration_pointer'', JString (wl_variable_declaration_pointer h)),
               (''holder_state_activation_sequence'', JString (wl_holder_state_activation_sequence h))]) holder)]"

fun status_str :: "runtime_status \<Rightarrow> string" where
  "status_str Running = ''running''"
| "status_str Completed = ''completed''"
| "status_str Faulted = ''faulted''"

definition wire_counter_json :: "wire_next_counter \<Rightarrow> json" where
  "wire_counter_json n = jobj [(''definition_pointer'', JString (wn_definition_pointer n)),
                               (''next_sequence'', JString (wn_next_sequence n))]"

definition wire_activation_json :: "wire_state_activation \<Rightarrow> json" where
  "wire_activation_json a = jobj [(''state_definition_pointer'', JString (wa_state_definition_pointer a)),
                                  (''activation_sequence'', JString (wa_activation_sequence a))]"

definition wire_variable_json :: "wire_variable \<Rightarrow> json" where
  "wire_variable_json v =
     jobj [(''variable_declaration_pointer'', JString (wv_variable_declaration_pointer v)),
           (''declaring_state_activation_sequence'', JString (wv_declaring_state_activation_sequence v)),
           (''value'', projection (wv_value v))]"

definition wire_history_json :: "wire_history \<Rightarrow> json" where
  "wire_history_json h =
     jobj [(''history_declaration_pointer'', JString (wh_history_declaration_pointer h)),
           (''recorded_state_definition_pointers'',
              option_json (\<lambda>ps. JArray (map JString ps)) (wh_recorded_state_definition_pointers h))]"

definition wire_fault_json :: "wire_fault \<Rightarrow> json" where
  "wire_fault_json f =
     jobj [(''definition_fingerprint'', JString (wf_definition_fingerprint f)),
           (''runtime_id'', JString (wf_runtime_id f)), (''cause_id'', JString (wf_cause_id f)),
           (''code'', JString (wf_code f)), (''step_sequence'', JString (wf_step_sequence f)),
           (''source_locator'', JString (wf_source_locator f))]"

definition wire_runtime_json :: "wire_runtime \<Rightarrow> json" where
  "wire_runtime_json w =
     jobj [(''runtime_id'', JString (ww_runtime_id w)),
           (''identity_origin'', wire_origin_json (ww_identity_origin w)),
           (''target_identity'', wire_target_json (ww_target_identity w)),
           (''current_definition'', wire_definition_json (ww_current_definition w)),
           (''relation'', wire_relation_json (ww_relation w)),
           (''status'', JString (status_str (ww_status w))),
           (''active_leaf_state_definition_pointers'',
              JArray (map JString (ww_active_leaf_state_definition_pointers w))),
           (''active_state_activations'', JArray (map wire_activation_json (ww_active_state_activations w))),
           (''variables'', JArray (map wire_variable_json (ww_variables w))),
           (''history'', JArray (map wire_history_json (ww_history w))),
           (''next_spawn_sequence'', JString (ww_next_spawn_sequence w)),
           (''next_state_activation_sequences'',
              JArray (map wire_counter_json (ww_next_state_activation_sequences w))),
           (''next_component_activation_sequences'',
              JArray (map wire_counter_json (ww_next_component_activation_sequences w))),
           (''ready_mailbox'', JArray (ww_ready_mailbox w)),
           (''deferred_mailbox'', JArray (ww_deferred_mailbox w)),
           (''fault'', option_json wire_fault_json (ww_fault w))]"

definition envelope_json :: "aggregate_envelope \<Rightarrow> json" where
  "envelope_json e =
     jobj [(''aggregate_state_format'', JString (ae_aggregate_state_format e)),
           (''aggregate_state_schema_version'', JNumber (number_of_i64 (ae_aggregate_state_schema_version e))),
           (''machine_format'', JNumber (number_of_i64 (ae_machine_format e))),
           (''validated_bundle_fingerprint'', JString (ae_validated_bundle_fingerprint e)),
           (''namespace'', JString (ae_namespace e)),
           (''root_machine_id'', JString (ae_root_machine_id e)),
           (''root_machine_version'', JString (ae_root_machine_version e)),
           (''root_instance_id'', JString (ae_root_instance_id e)),
           (''creation_id'', JString (ae_creation_id e)),
           (''root_runtime_id'', JString (ae_root_runtime_id e)),
           (''migration_sequence'', JString (ae_migration_sequence e)),
           (''next_logical_step_sequence'', JString (ae_next_logical_step_sequence e)),
           (''next_output_sequence'', JString (ae_next_output_sequence e)),
           (''next_acceptance_sequence'', JString (ae_next_acceptance_sequence e)),
           (''next_queue_sequence'', JString (ae_next_queue_sequence e)),
           (''runtimes'', JArray (map wire_runtime_json (ae_runtimes e))),
           (''aggregate_state_digest'', JString (ae_aggregate_state_digest e))]"

section \<open>Encoding\<close>

definition recompute_digest :: "host \<Rightarrow> aggregate_envelope \<Rightarrow> (aggregate_envelope, persistence_error) outcome" where
  "recompute_digest H e =
     obind (aggregate_digest H (envelope_json e)) (\<lambda>d. Ok (e\<lparr>ae_aggregate_state_digest := d\<rparr>))"

text \<open>The order of the runtime records: the one of the document, or by identity.\<close>

definition order_runtimes :: "string list \<Rightarrow> wire_runtime list \<Rightarrow> (wire_runtime list, persistence_error) outcome" where
  "order_runtimes wire_order ws =
     (if length wire_order = length ws \<and> set wire_order = set (map ww_runtime_id ws)
      then (let index = bm_of (map (\<lambda>(i, rid). (rid, i)) (enumerate 0 wire_order)) [] in
            obind (collect_outcome (map (\<lambda>w. obind (expect (bm_get index (ww_runtime_id w))) (\<lambda>i. Ok (i, w))) ws))
              (\<lambda>keyed. Ok (map snd (sort_key fst keyed))))
      else Ok (sort_key ww_runtime_id ws))"

definition encode_aggregate ::
  "host \<Rightarrow> compiled_bundle \<Rightarrow> native_aggregate \<Rightarrow> (aggregate_envelope, persistence_error) outcome" where
  "encode_aggregate H B a =
     (if \<not> aggregate_is_valid_for_bundle (ho_engine H) a B then Err InvalidAggregateState
      else
      obind (flatten_runtime (ag_root a)) (\<lambda>ws.
      obind (order_runtimes (ag_wire_runtime_order a) ws) (\<lambda>ws'.
      obind (recompute_digest H
        \<lparr>ae_aggregate_state_format = ''determa.aggregate_state'', ae_aggregate_state_schema_version = 1,
         ae_machine_format = 1, ae_validated_bundle_fingerprint = ag_validated_bundle_fingerprint a,
         ae_namespace = ag_namespace a, ae_root_machine_id = rc_machine_id (rt_core (ag_root a)),
         ae_root_machine_version = signed_decimal (sint (rc_machine_version (rt_core (ag_root a)))),
         ae_root_instance_id = ag_root_instance_id a, ae_creation_id = ag_creation_id a,
         ae_root_runtime_id = rt_runtime_id (ag_root a),
         ae_migration_sequence = canonical_decimal (ag_migration_sequence a),
         ae_next_logical_step_sequence = canonical_decimal (ag_next_logical_step_sequence a),
         ae_next_output_sequence = canonical_decimal (ag_next_output_sequence a),
         ae_next_acceptance_sequence = canonical_decimal (ag_next_acceptance_sequence a),
         ae_next_queue_sequence = canonical_decimal (ag_next_queue_sequence a),
         ae_runtimes = ws', ae_aggregate_state_digest = []\<rparr>) (\<lambda>e.
      if \<not> validate_envelope_semantics e then Err InvalidAggregateState
      else obind (ok_or InvalidAggregateState (ho_canonical_text H (envelope_json e))) (\<lambda>_. Ok e)))))"

section \<open>Reading the JSON form\<close>

text \<open>
  The derived deserialisers, on the object form of a struct: every member is known, and
  every member that is not optional is present.  (The derived readers also take a struct
  from an array of its members, which no document of this program contains.)
\<close>

definition jfield :: "(string \<times> json) list \<Rightarrow> string \<Rightarrow> (json \<Rightarrow> 'a option) \<Rightarrow> 'a option" where
  "jfield ms k dec = Option.bind (bm_get ms k) dec"

definition joptional :: "(string \<times> json) list \<Rightarrow> string \<Rightarrow> (json \<Rightarrow> 'a option) \<Rightarrow> 'a option option" where
  "joptional ms k dec =
     (case bm_get ms k of None \<Rightarrow> Some None | Some JNull \<Rightarrow> Some None | Some v \<Rightarrow> map_option Some (dec v))"

definition jlist :: "(json \<Rightarrow> 'a option) \<Rightarrow> json \<Rightarrow> 'a list option" where
  "jlist dec j = (case j of JArray js \<Rightarrow> collect_option (map dec js) | _ \<Rightarrow> None)"

definition jstruct :: "string list \<Rightarrow> ((string \<times> json) list \<Rightarrow> 'a option) \<Rightarrow> json \<Rightarrow> 'a option" where
  "jstruct names build j =
     (case j of JObject ms \<Rightarrow> if list_all (\<lambda>k. k \<in> set names) (bm_keys ms) then build ms else None | _ \<Rightarrow> None)"

definition ji64 :: "json \<Rightarrow> i64 option" where
  "ji64 j = (case j of JNumber n \<Rightarrow> number_as_i64 n | _ \<Rightarrow> None)"

definition wire_definition_of :: "json \<Rightarrow> wire_definition_binding option" where
  "wire_definition_of = jstruct [''validated_bundle_fingerprint'', ''machine''] (\<lambda>ms. do {
     fingerprint \<leftarrow> jfield ms ''validated_bundle_fingerprint'' jstr;
     machine \<leftarrow> jfield ms ''machine''
       (jstruct [''namespace'', ''machine_id'', ''machine_version'', ''root_definition_pointer''] (\<lambda>ns. do {
          namespace \<leftarrow> jfield ns ''namespace'' jstr;
          mid \<leftarrow> jfield ns ''machine_id'' jstr;
          version \<leftarrow> jfield ns ''machine_version'' jstr;
          pointer \<leftarrow> jfield ns ''root_definition_pointer'' jstr;
          Some \<lparr>wm_namespace = namespace, wm_machine_id = mid, wm_machine_version = version,
                wm_root_definition_pointer = pointer\<rparr> }));
     Some \<lparr>wd_validated_bundle_fingerprint = fingerprint, wd_machine = machine\<rparr> })"

definition wire_origin_of :: "json \<Rightarrow> wire_identity_origin option" where
  "wire_origin_of j = Option.bind (jstr (jindex j ''kind'')) (\<lambda>kind.
     if kind = ''root''
     then jstruct [''kind'', ''definition'', ''root_instance_id''] (\<lambda>ms. do {
       d \<leftarrow> jfield ms ''definition'' wire_definition_of;
       i \<leftarrow> jfield ms ''root_instance_id'' jstr;
       Some (WireOriginRoot d i) }) j
     else if kind = ''component''
     then jstruct [''kind'', ''definition'', ''owner_runtime_id'', ''component_definition_pointer'',
                   ''activation_sequence'', ''declaration_index''] (\<lambda>ms. do {
       d \<leftarrow> jfield ms ''definition'' wire_definition_of;
       owner \<leftarrow> jfield ms ''owner_runtime_id'' jstr;
       pointer \<leftarrow> jfield ms ''component_definition_pointer'' jstr;
       seq \<leftarrow> jfield ms ''activation_sequence'' jstr;
       index \<leftarrow> jfield ms ''declaration_index'' jstr;
       Some (WireOriginComponent d owner pointer seq index) }) j
     else if kind = ''owned_spawned_instance''
     then jstruct [''kind'', ''definition'', ''owner_runtime_id'', ''spawn_action_pointer'',
                   ''spawn_sequence''] (\<lambda>ms. do {
       d \<leftarrow> jfield ms ''definition'' wire_definition_of;
       owner \<leftarrow> jfield ms ''owner_runtime_id'' jstr;
       pointer \<leftarrow> jfield ms ''spawn_action_pointer'' jstr;
       seq \<leftarrow> jfield ms ''spawn_sequence'' jstr;
       Some (WireOriginSpawned d owner pointer seq) }) j
     else None)"

text \<open>An untagged enum takes its first variant that fits; other members are ignored.\<close>

definition wire_target_of :: "json \<Rightarrow> wire_target option" where
  "wire_target_of j =
     (case Option.bind (jget j ''root'') (jstruct [''root_instance_id'', ''root_runtime_id''] (\<lambda>ms. do {
             i \<leftarrow> jfield ms ''root_instance_id'' jstr;
             r \<leftarrow> jfield ms ''root_runtime_id'' jstr;
             Some (WireRoot \<lparr>wrt_root_instance_id = i, wrt_root_runtime_id = r\<rparr>) })) of
        Some t \<Rightarrow> Some t
      | None \<Rightarrow>
     (case Option.bind (jget j ''component'')
             (jstruct [''root_instance_id'', ''owner_runtime_id'', ''component_id'', ''component_runtime_id'',
                       ''activation_sequence''] (\<lambda>ms. do {
             i \<leftarrow> jfield ms ''root_instance_id'' jstr;
             owner \<leftarrow> jfield ms ''owner_runtime_id'' jstr;
             cid \<leftarrow> jfield ms ''component_id'' jstr;
             rid \<leftarrow> jfield ms ''component_runtime_id'' jstr;
             seq \<leftarrow> jfield ms ''activation_sequence'' jstr;
             Some (WireComponent \<lparr>wct_root_instance_id = i, wct_owner_runtime_id = owner, wct_component_id = cid,
                     wct_component_runtime_id = rid, wct_activation_sequence = seq\<rparr>) })) of
        Some t \<Rightarrow> Some t
      | None \<Rightarrow>
          Option.bind (jget j ''spawned_instance'')
             (jstruct [''root_instance_id'', ''instance_id'', ''machine_id'', ''machine_version''] (\<lambda>ms. do {
             i \<leftarrow> jfield ms ''root_instance_id'' jstr;
             inst \<leftarrow> jfield ms ''instance_id'' jstr;
             mid \<leftarrow> jfield ms ''machine_id'' jstr;
             version \<leftarrow> jfield ms ''machine_version'' jstr;
             Some (WireSpawned \<lparr>wir_root_instance_id = i, wir_instance_id = inst, wir_machine_id = mid,
                     wir_machine_version = version\<rparr>) }))))"

definition wire_holder_of :: "json \<Rightarrow> wire_lifetime_holder option" where
  "wire_holder_of = jstruct [''holder_runtime_id'', ''variable_declaration_pointer'',
       ''holder_state_activation_sequence''] (\<lambda>ms. do {
     rid \<leftarrow> jfield ms ''holder_runtime_id'' jstr;
     pointer \<leftarrow> jfield ms ''variable_declaration_pointer'' jstr;
     seq \<leftarrow> jfield ms ''holder_state_activation_sequence'' jstr;
     Some \<lparr>wl_holder_runtime_id = rid, wl_variable_declaration_pointer = pointer,
           wl_holder_state_activation_sequence = seq\<rparr> })"

text \<open>A unit variant of a tagged enum ignores other members.\<close>

definition wire_relation_of :: "json \<Rightarrow> wire_relation option" where
  "wire_relation_of j = Option.bind (jstr (jindex j ''kind'')) (\<lambda>kind.
     if kind = ''root'' then Some WireRelRoot
     else if kind = ''component''
     then jstruct [''kind'', ''owner_runtime_id'', ''component_id'', ''current_component_definition_pointer'',
                   ''activation_sequence'', ''declaration_index''] (\<lambda>ms. do {
       owner \<leftarrow> jfield ms ''owner_runtime_id'' jstr;
       cid \<leftarrow> jfield ms ''component_id'' jstr;
       pointer \<leftarrow> jfield ms ''current_component_definition_pointer'' jstr;
       seq \<leftarrow> jfield ms ''activation_sequence'' jstr;
       index \<leftarrow> jfield ms ''declaration_index'' jstr;
       Some (WireRelComponent owner cid pointer seq index) }) j
     else if kind = ''owned_spawned_instance''
     then jstruct [''kind'', ''owner_runtime_id'', ''current_spawn_action_pointer'', ''spawn_sequence'',
                   ''lifetime_holder''] (\<lambda>ms. do {
       owner \<leftarrow> jfield ms ''owner_runtime_id'' jstr;
       pointer \<leftarrow> jfield ms ''current_spawn_action_pointer'' jstr;
       seq \<leftarrow> jfield ms ''spawn_sequence'' jstr;
       holder \<leftarrow> joptional ms ''lifetime_holder'' wire_holder_of;
       Some (WireRelSpawned owner pointer seq holder) }) j
     else None)"

definition status_of :: "json \<Rightarrow> runtime_status option" where
  "status_of j = find (\<lambda>st. j = JString (status_str st)) [Running, Completed, Faulted]"

definition wire_activation_of :: "json \<Rightarrow> wire_state_activation option" where
  "wire_activation_of = jstruct [''state_definition_pointer'', ''activation_sequence''] (\<lambda>ms. do {
     pointer \<leftarrow> jfield ms ''state_definition_pointer'' jstr;
     seq \<leftarrow> jfield ms ''activation_sequence'' jstr;
     Some \<lparr>wa_state_definition_pointer = pointer, wa_activation_sequence = seq\<rparr> })"

definition wire_variable_of :: "json \<Rightarrow> wire_variable option" where
  "wire_variable_of = jstruct [''variable_declaration_pointer'', ''declaring_state_activation_sequence'',
       ''value''] (\<lambda>ms. do {
     pointer \<leftarrow> jfield ms ''variable_declaration_pointer'' jstr;
     seq \<leftarrow> jfield ms ''declaring_state_activation_sequence'' jstr;
     v \<leftarrow> jfield ms ''value'' from_projection;
     Some \<lparr>wv_variable_declaration_pointer = pointer, wv_declaring_state_activation_sequence = seq,
           wv_value = v\<rparr> })"

definition wire_history_of :: "json \<Rightarrow> wire_history option" where
  "wire_history_of = jstruct [''history_declaration_pointer'', ''recorded_state_definition_pointers''] (\<lambda>ms. do {
     pointer \<leftarrow> jfield ms ''history_declaration_pointer'' jstr;
     recorded \<leftarrow> joptional ms ''recorded_state_definition_pointers'' (jlist jstr);
     Some \<lparr>wh_history_declaration_pointer = pointer, wh_recorded_state_definition_pointers = recorded\<rparr> })"

definition wire_counter_of :: "json \<Rightarrow> wire_next_counter option" where
  "wire_counter_of = jstruct [''definition_pointer'', ''next_sequence''] (\<lambda>ms. do {
     pointer \<leftarrow> jfield ms ''definition_pointer'' jstr;
     seq \<leftarrow> jfield ms ''next_sequence'' jstr;
     Some \<lparr>wn_definition_pointer = pointer, wn_next_sequence = seq\<rparr> })"

definition wire_fault_of :: "json \<Rightarrow> wire_fault option" where
  "wire_fault_of = jstruct [''definition_fingerprint'', ''runtime_id'', ''cause_id'', ''code'',
       ''step_sequence'', ''source_locator''] (\<lambda>ms. do {
     fingerprint \<leftarrow> jfield ms ''definition_fingerprint'' jstr;
     rid \<leftarrow> jfield ms ''runtime_id'' jstr;
     cause \<leftarrow> jfield ms ''cause_id'' jstr;
     code \<leftarrow> jfield ms ''code'' jstr;
     seq \<leftarrow> jfield ms ''step_sequence'' jstr;
     locator \<leftarrow> jfield ms ''source_locator'' jstr;
     Some \<lparr>wf_definition_fingerprint = fingerprint, wf_runtime_id = rid, wf_cause_id = cause,
           wf_code = code, wf_step_sequence = seq, wf_source_locator = locator\<rparr> })"

definition wire_runtime_of :: "json \<Rightarrow> wire_runtime option" where
  "wire_runtime_of = jstruct [''runtime_id'', ''identity_origin'', ''target_identity'', ''current_definition'',
       ''relation'', ''status'', ''active_leaf_state_definition_pointers'', ''active_state_activations'',
       ''variables'', ''history'', ''next_spawn_sequence'', ''next_state_activation_sequences'',
       ''next_component_activation_sequences'', ''ready_mailbox'', ''deferred_mailbox'', ''fault''] (\<lambda>ms. do {
     rid \<leftarrow> jfield ms ''runtime_id'' jstr;
     origin \<leftarrow> jfield ms ''identity_origin'' wire_origin_of;
     t \<leftarrow> jfield ms ''target_identity'' wire_target_of;
     d \<leftarrow> jfield ms ''current_definition'' wire_definition_of;
     relation \<leftarrow> jfield ms ''relation'' wire_relation_of;
     status \<leftarrow> jfield ms ''status'' status_of;
     leaves \<leftarrow> jfield ms ''active_leaf_state_definition_pointers'' (jlist jstr);
     activations \<leftarrow> jfield ms ''active_state_activations'' (jlist wire_activation_of);
     variables \<leftarrow> jfield ms ''variables'' (jlist wire_variable_of);
     history \<leftarrow> jfield ms ''history'' (jlist wire_history_of);
     next_spawn \<leftarrow> jfield ms ''next_spawn_sequence'' jstr;
     next_state \<leftarrow> jfield ms ''next_state_activation_sequences'' (jlist wire_counter_of);
     next_component \<leftarrow> jfield ms ''next_component_activation_sequences'' (jlist wire_counter_of);
     ready \<leftarrow> jfield ms ''ready_mailbox'' jarray;
     deferred \<leftarrow> jfield ms ''deferred_mailbox'' jarray;
     fault \<leftarrow> joptional ms ''fault'' wire_fault_of;
     Some \<lparr>ww_runtime_id = rid, ww_identity_origin = origin, ww_target_identity = t,
           ww_current_definition = d, ww_relation = relation, ww_status = status,
           ww_active_leaf_state_definition_pointers = leaves, ww_active_state_activations = activations,
           ww_variables = variables, ww_history = history, ww_next_spawn_sequence = next_spawn,
           ww_next_state_activation_sequences = next_state,
           ww_next_component_activation_sequences = next_component,
           ww_ready_mailbox = ready, ww_deferred_mailbox = deferred, ww_fault = fault\<rparr> })"

definition envelope_of :: "json \<Rightarrow> aggregate_envelope option" where
  "envelope_of = jstruct [''aggregate_state_format'', ''aggregate_state_schema_version'', ''machine_format'',
       ''validated_bundle_fingerprint'', ''namespace'', ''root_machine_id'', ''root_machine_version'',
       ''root_instance_id'', ''creation_id'', ''root_runtime_id'', ''migration_sequence'',
       ''next_logical_step_sequence'', ''next_output_sequence'', ''next_acceptance_sequence'',
       ''next_queue_sequence'', ''runtimes'', ''aggregate_state_digest''] (\<lambda>ms. do {
     format \<leftarrow> jfield ms ''aggregate_state_format'' jstr;
     schema_version \<leftarrow> jfield ms ''aggregate_state_schema_version'' ji64;
     machine_format \<leftarrow> jfield ms ''machine_format'' ji64;
     fingerprint \<leftarrow> jfield ms ''validated_bundle_fingerprint'' jstr;
     namespace \<leftarrow> jfield ms ''namespace'' jstr;
     mid \<leftarrow> jfield ms ''root_machine_id'' jstr;
     version \<leftarrow> jfield ms ''root_machine_version'' jstr;
     instance_id \<leftarrow> jfield ms ''root_instance_id'' jstr;
     creation_id \<leftarrow> jfield ms ''creation_id'' jstr;
     rid \<leftarrow> jfield ms ''root_runtime_id'' jstr;
     migration \<leftarrow> jfield ms ''migration_sequence'' jstr;
     step \<leftarrow> jfield ms ''next_logical_step_sequence'' jstr;
     output \<leftarrow> jfield ms ''next_output_sequence'' jstr;
     acceptance \<leftarrow> jfield ms ''next_acceptance_sequence'' jstr;
     queue \<leftarrow> jfield ms ''next_queue_sequence'' jstr;
     ws \<leftarrow> jfield ms ''runtimes'' (jlist wire_runtime_of);
     digest \<leftarrow> jfield ms ''aggregate_state_digest'' jstr;
     Some \<lparr>ae_aggregate_state_format = format, ae_aggregate_state_schema_version = schema_version,
           ae_machine_format = machine_format, ae_validated_bundle_fingerprint = fingerprint,
           ae_namespace = namespace, ae_root_machine_id = mid, ae_root_machine_version = version,
           ae_root_instance_id = instance_id, ae_creation_id = creation_id, ae_root_runtime_id = rid,
           ae_migration_sequence = migration, ae_next_logical_step_sequence = step,
           ae_next_output_sequence = output, ae_next_acceptance_sequence = acceptance,
           ae_next_queue_sequence = queue, ae_runtimes = ws, ae_aggregate_state_digest = digest\<rparr> })"

section \<open>The JSON round trip\<close>

lemma bm_get_bm_of: "bm_get (bm_of es m) k = (case map_of (rev es) k of None \<Rightarrow> bm_get m k | Some v \<Rightarrow> Some v)"
  by (induction es arbitrary: m) (auto simp: map_of_append split: option.splits)

lemma keys_bm_of: "set (bm_keys (bm_of es m)) = set (map fst es) \<union> set (bm_keys m)"
  by (induction es arbitrary: m) auto

lemma jstruct_jobj [simp]:
  "jstruct names build (jobj es) = (if list_all (\<lambda>k. k \<in> set names) (map fst es) then build (jmembers es) else None)"
proof -
  have "set (bm_keys (bm_of es [])) = set (map fst es)" by (simp only: keys_bm_of) simp
  then show ?thesis by (simp add: jstruct_def jobj_def jmembers_def list_all_iff)
qed

lemma jget_jobj [simp]: "jget (jobj es) k = map_of (rev es) k"
  by (simp add: jget_def jobj_def jmembers_def bm_get_bm_of split: option.splits)

lemma jfield_jmembers [simp]: "jfield (jmembers es) k dec = Option.bind (map_of (rev es) k) dec"
  by (simp add: jfield_def jmembers_def bm_get_bm_of split: option.splits)

lemma joptional_jmembers [simp]:
  "joptional (jmembers es) k dec =
     (case map_of (rev es) k of None \<Rightarrow> Some None | Some JNull \<Rightarrow> Some None | Some v \<Rightarrow> map_option Some (dec v))"
  by (simp add: joptional_def jmembers_def bm_get_bm_of split: option.splits json.splits)

lemma jlist_map [simp]: "(\<And>x. x \<in> set xs \<Longrightarrow> dec (enc x) = Some x) \<Longrightarrow> jlist dec (JArray (map enc xs)) = Some xs"
  by (induction xs) (auto simp: jlist_def)

lemma jstr_simps [simp]: "jstr (JString s) = Some s" "jarray (JArray js) = Some js" "jindex (jobj es) k = (case map_of (rev es) k of None \<Rightarrow> JNull | Some v \<Rightarrow> v)"
  by (simp_all add: jstr_def jarray_def jindex_def)

lemma optional_json [simp]:
  "(\<And>a. x = Some a \<Longrightarrow> enc a \<noteq> JNull \<and> dec (enc a) = Some a) \<Longrightarrow>
   (case option_json enc x of JNull \<Rightarrow> Some None | v \<Rightarrow> map_option Some (dec v)) = Some x"
  by (cases x) (auto simp: option_json_def split: json.splits)

lemma jobj_not_JNull [simp]: "jobj es \<noteq> JNull" "JNull \<noteq> jobj es"
  by (simp_all add: jobj_def)

lemma wire_definition_roundtrip [simp]: "wire_definition_of (wire_definition_json d) = Some d"
  by (simp add: wire_definition_of_def wire_definition_json_def)

lemma wire_origin_roundtrip [simp]: "wire_origin_of (wire_origin_json g) = Some g"
  by (cases g) (simp_all add: wire_origin_of_def)

lemma wire_target_roundtrip [simp]: "wire_target_of (wire_target_json t) = Some t"
  by (cases t) (simp_all add: wire_target_of_def)

lemma wire_relation_roundtrip [simp]: "wire_relation_of (wire_relation_json rel) = Some rel"
  by (cases rel) (simp_all add: wire_relation_of_def wire_holder_of_def)

lemma status_roundtrip [simp]: "status_of (JString (status_str st)) = Some st"
  by (cases st) (simp_all add: status_of_def)

lemma wire_small_roundtrips [simp]:
  "wire_activation_of (wire_activation_json a) = Some a"
  "wire_history_of (wire_history_json h) = Some h"
  "wire_counter_of (wire_counter_json n) = Some n"
  "wire_fault_of (wire_fault_json f) = Some f"
  by (simp_all add: wire_activation_of_def wire_activation_json_def wire_history_of_def wire_history_json_def
      wire_counter_of_def wire_counter_json_def wire_fault_of_def wire_fault_json_def)


lemma wire_variable_roundtrip: "canonical_typed (wv_value v) \<Longrightarrow> wire_variable_of (wire_variable_json v) = Some v"
  by (simp add: wire_variable_of_def wire_variable_json_def from_projection_projection)

lemma wire_runtime_roundtrip:
  assumes "list_all (\<lambda>v. canonical_typed (wv_value v)) (ww_variables w)"
  shows "wire_runtime_of (wire_runtime_json w) = Some w"
proof -
  have "jlist wire_variable_of (JArray (map wire_variable_json (ww_variables w))) = Some (ww_variables w)"
    using assms by (intro jlist_map) (simp add: list_all_iff wire_variable_roundtrip)
  moreover have "wire_fault_json f \<noteq> JNull" for f by (simp add: wire_fault_json_def)
  ultimately show ?thesis by (simp add: wire_runtime_of_def wire_runtime_json_def)
qed

lemma number_of_i64_read [simp]: "ji64 (JNumber (number_of_i64 i)) = Some i"
  by (simp add: ji64_def number_of_i64_back)

text \<open>
  C17: The document of an aggregate, read back, is the envelope it was written from: every
  wire struct survives its JSON form, with members in key order, optional members as null and
  values in their tagged form.
\<close>
theorem envelope_json_roundtrip:
  assumes "list_all (\<lambda>w. list_all (\<lambda>v. canonical_typed (wv_value v)) (ww_variables w)) (ae_runtimes e)"
  shows "envelope_of (envelope_json e) = Some e"
proof -
  have "jlist wire_runtime_of (JArray (map wire_runtime_json (ae_runtimes e))) = Some (ae_runtimes e)"
    using assms by (intro jlist_map) (simp add: list_all_iff wire_runtime_roundtrip)
  then show ?thesis by (simp add: envelope_of_def envelope_json_def)
qed


section \<open>The order of decimal text\<close>

lemma decimal_value_acc: "decimal_value acc s = acc * 10 ^ length s + decimal_value 0 s"
proof (induction s arbitrary: acc)
  case (Cons c s)
  from Cons [of "10 * acc + digit_value c"] Cons [of "digit_value c"] show ?case
    by (simp add: algebra_simps)
qed simp

lemma decimal_value_bound: "list_all is_digit s \<Longrightarrow> decimal_value 0 s < 10 ^ length s"
proof (induction s)
  case (Cons c s)
  then have "digit_value c * 10 ^ length s + decimal_value 0 s < (digit_value c + 1) * 10 ^ length s"
    by simp
  also have "\<dots> \<le> 10 * 10 ^ length s"
    using Cons.prems digit_value_less [of c] by (intro mult_le_mono1) simp
  finally show ?case using decimal_value_acc [of "digit_value c" s] by simp
qed simp

lemma digit_less: "is_digit c \<Longrightarrow> is_digit d \<Longrightarrow> c < d \<longleftrightarrow> digit_value c < digit_value d"
  by (auto simp: is_digit_def digit_value_def less_char_def)

lemma decimal_value_less_iff:
  assumes "length s = length t" "list_all is_digit s" "list_all is_digit t"
  shows "s < t \<longleftrightarrow> decimal_value 0 s < decimal_value 0 t"
  using assms
proof (induction s t rule: list_induct2)
  case (Cons c s d t)
  let ?b = "10 ^ length s :: nat"
  have s: "decimal_value 0 s < ?b" and t: "decimal_value 0 t < ?b"
    using Cons decimal_value_bound [of s] decimal_value_bound [of t] by simp_all
  have split: "x * ?b + y < x' * ?b + y' \<longleftrightarrow> x < x' \<or> x = x' \<and> y < y'" if "y < ?b" "y' < ?b" for x x' y y'
  proof (cases "x < x'")
    case True
    then have "(x + 1) * ?b \<le> x' * ?b" by (intro mult_le_mono1) simp
    with True that show ?thesis by (simp add: algebra_simps)
  next
    case False
    then have "x = x' \<or> x' + 1 \<le> x" by linarith
    then have "x = x' \<or> (x' + 1) * ?b \<le> x * ?b" using mult_le_mono1 by blast
    with False that show ?thesis by (auto simp: algebra_simps)
  qed
  have digits: "is_digit c" "is_digit d" using Cons.prems by simp_all
  then have eq: "c = d \<longleftrightarrow> digit_value c = digit_value d"
    using digit_char_of_value [of c] digit_char_of_value [of d] by metis
  have "c # s < d # t \<longleftrightarrow> digit_value c < digit_value d \<or>
      digit_value c = digit_value d \<and> decimal_value 0 s < decimal_value 0 t"
    using Cons.IH Cons.prems digit_less [OF digits] eq by simp
  also have "\<dots> \<longleftrightarrow> decimal_value 0 (c # s) < decimal_value 0 (d # t)"
    using decimal_value_acc [of "digit_value c" s] decimal_value_acc [of "digit_value d" t] Cons.hyps
      split [OF s t, of "digit_value c" "digit_value d"] by simp
  finally show ?case .
qed simp

lemma decimal_length_less: "length (decimal m) < length (decimal n) \<Longrightarrow> m < n"
proof -
  assume l: "length (decimal m) < length (decimal n)"
  obtain c s where d: "decimal n = c # s" by (cases "decimal n") auto
  have "n > 0" using l by (cases n) (auto simp: Suc_le_eq)
  have "is_digit c" using decimal_digits [of c n] d by simp
  then have "digit_value c \<noteq> 0"
    using hd_decimal [OF \<open>n > 0\<close>] d digit_char_of_value [of c] by (metis digit_char_zero list.sel(1))
  have "m < 10 ^ length (decimal m)" using decimal_value_bound [of "decimal m"] by simp
  also have "\<dots> \<le> 10 ^ length s" using l d by (intro power_increasing) simp_all
  also have "\<dots> \<le> digit_value c * 10 ^ length s" using \<open>digit_value c \<noteq> 0\<close> by simp
  also have "\<dots> \<le> n" using decimal_value_acc [of "digit_value c" s] decimal_value_decimal [of n] d by simp
  finally show ?thesis .
qed

text \<open>
  The comparison of decimal text that orders the records of a document, by length and
  then by bytes, is the numeric order of the counters it was printed from.
\<close>
theorem decimal_key_order: "decimal_key (canonical_decimal m) < decimal_key (canonical_decimal n) \<longleftrightarrow> m < n"
proof (cases "length (decimal m)" "length (decimal n)" rule: linorder_cases)
  case less
  with decimal_length_less show ?thesis by (simp add: decimal_key_def canonical_decimal_def less_prod_def)
next
  case equal
  then show ?thesis using decimal_value_less_iff [OF equal]
    by (simp add: decimal_key_def canonical_decimal_def less_prod_def)
next
  case greater
  with decimal_length_less [of n m] show ?thesis by (simp add: decimal_key_def canonical_decimal_def less_prod_def)
qed

end
