(* ===== verification/Mailbox.thy ===== *)
theory Mailbox
  imports Wire
begin

text \<open>
  The documents of the mailbox host (\<^verbatim>\<open>src/format1/v1.rs\<close>).  The host works on the JSON
  document of an aggregate, as the code does: counters are decimal text, a mailbox is an array
  of entries inside the record of a runtime.  An error is its code.  The accessors follow
  \<^verbatim>\<open>serde_json\<close>: indexing for reading gives null for what is absent; assigning to a member is
  \<open>jput\<close>, used only on documents that are known to be objects at that point.
\<close>

section \<open>Documents\<close>

abbreviation invalid_aggregate :: string where
  "invalid_aggregate \<equiv> ''invalid_aggregate_state''"

definition jput :: "string \<Rightarrow> json \<Rightarrow> json \<Rightarrow> json" where
  "jput k v j = (case j of JObject ms \<Rightarrow> JObject (bm_insert k v ms) | _ \<Rightarrow> j)"

definition jobject :: "json \<Rightarrow> (string \<times> json) list option" where
  "jobject j = (case j of JObject ms \<Rightarrow> Some ms | _ \<Rightarrow> None)"

definition runtimes :: "json \<Rightarrow> (json list, string) outcome" where
  "runtimes v = ok_or invalid_aggregate (jarray (jindex v ''runtimes''))"

definition has_runtime_id :: "string \<Rightarrow> json \<Rightarrow> bool" where
  "has_runtime_id rid r \<longleftrightarrow> jstr (jindex r ''runtime_id'') = Some rid"

text \<open>
  \<^verbatim>\<open>runtime_object_mut\<close>: the update of the first runtime record with an identity; the update
  may fail and may return something.
\<close>

definition runtime_object_mut ::
  "json \<Rightarrow> string \<Rightarrow> (json \<Rightarrow> (json \<times> 'a, string) outcome) \<Rightarrow> (json \<times> 'a, string) outcome" where
  "runtime_object_mut v rid f =
     obind (runtimes v) (\<lambda>rs.
     obind (ok_or invalid_aggregate (find (has_runtime_id rid) rs)) (\<lambda>r.
     obind (ok_or invalid_aggregate (jobject r)) (\<lambda>_.
     obind (f r) (\<lambda>(r', a).
       Ok (jput ''runtimes'' (JArray (update_first (has_runtime_id rid) (\<lambda>_. r') rs)) v, a)))))"

definition mailbox_array :: "string \<Rightarrow> json \<Rightarrow> (json list, string) outcome" where
  "mailbox_array field r = ok_or invalid_aggregate (jarray (jindex r field))"

definition aggregate_root_instance_id :: "json \<Rightarrow> (string, string) outcome" where
  "aggregate_root_instance_id v = ok_or invalid_aggregate (jstr (jindex v ''root_instance_id''))"

definition aggregate_status :: "json \<Rightarrow> (string, string) outcome" where
  "aggregate_status v =
     obind (ok_or invalid_aggregate (jstr (jindex v ''root_runtime_id''))) (\<lambda>root_id.
     obind (runtimes v) (\<lambda>rs.
       ok_or invalid_aggregate (Option.bind (find (has_runtime_id root_id) rs)
         (\<lambda>r. jstr (jindex r ''status'')))))"

definition counter_value :: "json \<Rightarrow> string \<Rightarrow> (counter, string) outcome" where
  "counter_value v field =
     obind (ok_or invalid_aggregate (jstr (jindex v field))) (\<lambda>s. ok_or invalid_aggregate (from_decimal s))"

definition allocate_counter :: "json \<Rightarrow> string \<Rightarrow> (json \<times> counter, string) outcome" where
  "allocate_counter v field =
     obind (counter_value v field) (\<lambda>c.
       Ok (jput field (JString (canonical_decimal (snd (allocate c)))) v, fst (allocate c)))"

text \<open>\<^verbatim>\<open>counter_field\<close> and \<^verbatim>\<open>string_field\<close> panic on what is not there.\<close>

definition counter_field :: "json \<Rightarrow> string \<Rightarrow> (counter, string) outcome" where
  "counter_field v field = expect (Option.bind (jstr (jindex v field)) from_decimal)"

definition string_field :: "json \<Rightarrow> string \<Rightarrow> (string, string) outcome" where
  "string_field v field = expect (jstr (jindex v field))"

text \<open>\<^verbatim>\<open>sort_by\<close> with a key that may panic: nothing is compared in a list of less than two.\<close>

definition sort_by_field :: "(json \<Rightarrow> ('k::linorder, string) outcome) \<Rightarrow> json list \<Rightarrow> (json list, string) outcome" where
  "sort_by_field key js =
     (if length js < 2 then Ok js
      else obind (collect_outcome (map (\<lambda>j. obind (key j) (\<lambda>k. Ok (k, j))) js)) (\<lambda>ks.
             Ok (map snd (sort_key fst ks))))"

definition sort_mailbox :: "string \<Rightarrow> json \<Rightarrow> (json, string) outcome" where
  "sort_mailbox field r =
     (case r of
        JObject ms \<Rightarrow>
          obind (mailbox_array field r) (\<lambda>es.
          obind (sort_by_field (\<lambda>e. counter_field e ''queue_sequence'') es) (\<lambda>es'. Ok (jput field (JArray es') r)))
      | JNull \<Rightarrow> Err invalid_aggregate
      | _ \<Rightarrow> Panic)"

definition v1_aggregate_digest :: "host \<Rightarrow> json \<Rightarrow> (string, string) outcome" where
  "v1_aggregate_digest H v =
     (case aggregate_digest H v of
        Ok d \<Rightarrow> Ok d | Err e \<Rightarrow> Err (persistence_error_str e) | Panic \<Rightarrow> Panic | OutOfFuel \<Rightarrow> OutOfFuel)"

definition seal_aggregate :: "host \<Rightarrow> json \<Rightarrow> (json, string) outcome" where
  "seal_aggregate H v =
     obind (runtimes v) (\<lambda>rs.
     obind (collect_outcome (map (\<lambda>r. obind (sort_mailbox ''ready_mailbox'' r) (sort_mailbox ''deferred_mailbox'')) rs))
       (\<lambda>rs1.
     obind (sort_by_field (\<lambda>r. string_field r ''runtime_id'') rs1) (\<lambda>rs2.
     let v2 = jput ''runtimes'' (JArray rs2) v in
     obind (v1_aggregate_digest H v2) (\<lambda>d. Ok (jput ''aggregate_state_digest'' (JString d) v2)))))"

section \<open>Deliveries\<close>

record queue_envelope =
  qe_event :: string
  qe_event_id :: string
  qe_cause_id :: string
  qe_source :: json
  qe_target :: json
  qe_payload :: typed_value
  qe_correlation_id :: "string option"

record admission_delivery =
  ad_delivery_mode :: string
  ad_envelope :: queue_envelope
  ad_envelope_digest :: string

definition queue_envelope_json :: "queue_envelope \<Rightarrow> json" where
  "queue_envelope_json q =
     jobj ([(''event'', JString (qe_event q)), (''event_id'', JString (qe_event_id q)),
            (''cause_id'', JString (qe_cause_id q)), (''source'', qe_source q), (''target'', qe_target q),
            (''payload'', projection (qe_payload q))] @
           (case qe_correlation_id q of None \<Rightarrow> [] | Some c \<Rightarrow> [(''correlation_id'', JString c)]))"

definition queue_envelope_of :: "json \<Rightarrow> queue_envelope option" where
  "queue_envelope_of = jstruct [''event'', ''event_id'', ''cause_id'', ''source'', ''target'', ''payload'',
       ''correlation_id''] (\<lambda>ms. do {
     event \<leftarrow> jfield ms ''event'' jstr;
     event_id \<leftarrow> jfield ms ''event_id'' jstr;
     cause_id \<leftarrow> jfield ms ''cause_id'' jstr;
     source \<leftarrow> jfield ms ''source'' Some;
     t \<leftarrow> jfield ms ''target'' Some;
     payload \<leftarrow> jfield ms ''payload'' from_projection;
     correlation \<leftarrow> joptional ms ''correlation_id'' jstr;
     Some \<lparr>qe_event = event, qe_event_id = event_id, qe_cause_id = cause_id, qe_source = source,
           qe_target = t, qe_payload = payload, qe_correlation_id = correlation\<rparr> })"

definition delivery_json :: "admission_delivery \<Rightarrow> json" where
  "delivery_json d =
     jobj [(''delivery_mode'', JString (ad_delivery_mode d)), (''envelope'', queue_envelope_json (ad_envelope d)),
           (''envelope_digest'', JString (ad_envelope_digest d))]"

text \<open>The delivery inside a mailbox entry.\<close>

definition entry_delivery :: "json \<Rightarrow> (admission_delivery, string) outcome" where
  "entry_delivery entry =
     ok_or invalid_aggregate (do {
       mode \<leftarrow> jstr (jindex entry ''delivery_mode'');
       q \<leftarrow> queue_envelope_of (jindex entry ''envelope'');
       digest \<leftarrow> jstr (jindex entry ''envelope_digest'');
       Some \<lparr>ad_delivery_mode = mode, ad_envelope = q, ad_envelope_digest = digest\<rparr> })"

definition envelope_digest :: "host \<Rightarrow> string \<Rightarrow> string \<Rightarrow> queue_envelope \<Rightarrow> (string, string) outcome" where
  "envelope_digest H root_instance_id mode q =
     (case jcs_hash H (JArray [JString ''determa-inbox-envelope-digest-1'', JString ''1'',
              JString root_instance_id, JString mode, queue_envelope_json q]) of
        Ok d \<Rightarrow> Ok d | Err e \<Rightarrow> Err (persistence_error_str e) | Panic \<Rightarrow> Panic | OutOfFuel \<Rightarrow> OutOfFuel)"

text \<open>
  \<^verbatim>\<open>queue_target_to_core\<close>: the version of a spawned target is text on the wire; the rest is
  the derived reader of the externally tagged enum \<^verbatim>\<open>Target\<close>, which ignores unknown members
  of its variants.
\<close>

definition core_target_of :: "json \<Rightarrow> target option" where
  "core_target_of j =
     (case j of
        JString s \<Rightarrow> if s = ''external'' then Some External else None
      | JObject [(k, v)] \<Rightarrow>
          if k = ''external'' then (if v = JNull then Some External else None)
          else (case v of
            JObject ms \<Rightarrow>
              if k = ''root'' then do {
                i \<leftarrow> jfield ms ''root_instance_id'' jstr;
                r \<leftarrow> jfield ms ''root_runtime_id'' jstr;
                Some (RootTarget i r) }
              else if k = ''component'' then do {
                i \<leftarrow> jfield ms ''root_instance_id'' jstr;
                owner \<leftarrow> jfield ms ''owner_runtime_id'' jstr;
                cid \<leftarrow> jfield ms ''component_id'' jstr;
                rid \<leftarrow> jfield ms ''component_runtime_id'' jstr;
                seq \<leftarrow> jfield ms ''activation_sequence'' (\<lambda>x. Option.bind (jstr x) from_decimal);
                Some (ComponentPlacement i owner cid rid seq) }
              else if k = ''spawned_instance'' then do {
                i \<leftarrow> jfield ms ''root_instance_id'' jstr;
                inst \<leftarrow> jfield ms ''instance_id'' jstr;
                mid \<leftarrow> jfield ms ''machine_id'' jstr;
                version \<leftarrow> jfield ms ''machine_version'' ji64;
                Some (SpawnedTarget \<lparr>ref_root_instance_id = i, ref_instance_id = inst, ref_machine_id = mid,
                        ref_machine_version = version\<rparr>) }
              else None
          | _ \<Rightarrow> None)
      | _ \<Rightarrow> None)"

definition queue_target_to_core :: "json \<Rightarrow> (target, string) outcome" where
  "queue_target_to_core j =
     obind (case Option.bind (jget j ''spawned_instance'') jobject of
              None \<Rightarrow> Ok j
            | Some ms \<Rightarrow>
                obind (ok_or invalid_aggregate (jfield ms ''machine_version'' jstr)) (\<lambda>text.
                obind (ok_or invalid_aggregate (parse_i64 text)) (\<lambda>version.
                  Ok (jput ''spawned_instance''
                        (JObject (bm_insert ''machine_version'' (JNumber (number_of_i64 version)) ms)) j))))
       (\<lambda>j'. ok_or invalid_aggregate (core_target_of j'))"

definition core_delivery :: "admission_delivery \<Rightarrow> (delivery, string) outcome" where
  "core_delivery d =
     (case typed_to_value False (qe_payload (ad_envelope d)) of
        Some (VMap payload) \<Rightarrow>
          obind (queue_target_to_core (qe_target (ad_envelope d))) (\<lambda>t.
          let e = \<lparr>env_event = qe_event (ad_envelope d), env_event_id = qe_event_id (ad_envelope d),
                   env_target = t, env_payload = payload,
                   env_correlation_id = qe_correlation_id (ad_envelope d)\<rparr> in
          if ad_delivery_mode d = ''input'' then Ok (Input e)
          else if ad_delivery_mode d = ''internal'' then Ok (Internal e)
          else Err ''invalid_delivery_mode'')
      | _ \<Rightarrow> Err ''invalid_payload'')"

definition system_locator_matches_event :: "string \<Rightarrow> string \<Rightarrow> bool" where
  "system_locator_matches_event locator event \<longleftrightarrow>
     (locator, event) \<in> set [(''system:component_completion'', ''determa.component_completed''),
        (''system:component_completion'', ''done''), (''system:spawned_completion'', ''done''),
        (''system:component_failure'', ''determa.component_failed''),
        (''system:spawned_failure'', ''determa.spawned_instance_failed'')]"

definition jtrue :: "json option \<Rightarrow> bool" where
  "jtrue j \<longleftrightarrow> j = Some (JBool True)"

text \<open>
  The shape check of \<^verbatim>\<open>valid_internal_source_shape\<close>, of a source that is one member.
\<close>

definition valid_internal_source_shape :: "(string \<times> json) list \<Rightarrow> bool" where
  "valid_internal_source_shape source \<longleftrightarrow>
     (case source of
        [(k, v)] \<Rightarrow>
          if k = ''runtime'' then jobject v \<noteq> None
          else if k = ''system''
          then (case jstr v of None \<Rightarrow> False
                | Some locator \<Rightarrow> strip_prefix ''system:'' locator \<noteq> None \<and> 7 < length locator)
          else False
      | _ \<Rightarrow> False)"

definition internal_source_known :: "(string \<times> json) list \<Rightarrow> string \<Rightarrow> json \<Rightarrow> (bool, string) outcome" where
  "internal_source_known source event aggregate =
     (if length source \<noteq> 1 then Ok False
      else (case bm_get source ''runtime'' of
              Some r \<Rightarrow> obind (runtimes aggregate) (\<lambda>rs. Ok (list_ex (\<lambda>c. jindex c ''target_identity'' = r) rs))
            | None \<Rightarrow>
                (case Option.bind (bm_get source ''system'') jstr of
                   Some locator \<Rightarrow> Ok (system_locator_matches_event locator event)
                 | None \<Rightarrow> Ok False)))"

definition validate_source :: "admission_delivery \<Rightarrow> json \<Rightarrow> (unit, string) outcome" where
  "validate_source d aggregate =
     (case jobject (qe_source (ad_envelope d)) of
        None \<Rightarrow> Err ''invalid_delivery_source''
      | Some source \<Rightarrow>
          let host = (length source = 1 \<and> jtrue (bm_get source ''host'')) in
          if ad_delivery_mode d = ''input''
          then (if \<not> host \<or> qe_cause_id (ad_envelope d) \<noteq> qe_event_id (ad_envelope d)
                then Err ''invalid_delivery_source'' else Ok ())
          else if ad_delivery_mode d = ''internal''
          then obind (internal_source_known source (qe_event (ad_envelope d)) aggregate) (\<lambda>valid.
                 if \<not> valid \<or> \<not> valid_internal_source_shape source
                 then Err ''invalid_delivery_source'' else Ok ())
          else Ok ())"

section \<open>Admission\<close>

record mailbox_location =
  ml_digest :: string
  ml_acceptance_sequence :: string
  ml_location :: string

fun collect_locations ::
  "string \<Rightarrow> json list \<Rightarrow> (string, mailbox_location) btree_map \<Rightarrow>
   ((string, mailbox_location) btree_map, string) outcome" where
  "collect_locations location [] ls = Ok ls"
| "collect_locations location (entry # entries) ls =
     obind (ok_or invalid_aggregate (jstr (jindex (jindex entry ''envelope'') ''event_id''))) (\<lambda>event_id.
     obind (ok_or invalid_aggregate (jstr (jindex entry ''envelope_digest''))) (\<lambda>digest.
     obind (ok_or invalid_aggregate (jstr (jindex entry ''acceptance_sequence''))) (\<lambda>acceptance.
       collect_locations location entries
         (bm_insert event_id \<lparr>ml_digest = digest, ml_acceptance_sequence = acceptance, ml_location = location\<rparr> ls))))"

fun runtime_locations ::
  "json list \<Rightarrow> (string, mailbox_location) btree_map \<Rightarrow> ((string, mailbox_location) btree_map, string) outcome" where
  "runtime_locations [] ls = Ok ls"
| "runtime_locations (r # rs) ls =
     obind (mailbox_array ''ready_mailbox'' r) (\<lambda>ready.
     obind (collect_locations ''ready'' ready ls) (\<lambda>ls1.
     obind (mailbox_array ''deferred_mailbox'' r) (\<lambda>deferred.
     obind (collect_locations ''deferred'' deferred ls1) (\<lambda>ls2. runtime_locations rs ls2))))"

definition mailbox_locations :: "json \<Rightarrow> ((string, mailbox_location) btree_map, string) outcome" where
  "mailbox_locations v = obind (runtimes v) (\<lambda>rs. runtime_locations rs [])"

text \<open>The first pass over a batch: what is retained already, and what is new with its digest.\<close>

fun classify_deliveries ::
  "host \<Rightarrow> json \<Rightarrow> (string, mailbox_location) btree_map \<Rightarrow> admission_delivery list \<Rightarrow>
   ((admission_delivery \<times> mailbox_location) list \<times> (admission_delivery \<times> string) list, string) outcome" where
  "classify_deliveries H v ls [] = Ok ([], [])"
| "classify_deliveries H v ls (d # ds) =
     (if \<not> ho_delivery_schema H (delivery_json d) then Err ''invalid_delivery_source''
      else
      obind (aggregate_root_instance_id v) (\<lambda>i.
      obind (envelope_digest H i (ad_delivery_mode d) (ad_envelope d)) (\<lambda>computed.
      case bm_get ls (qe_event_id (ad_envelope d)) of
        Some existing \<Rightarrow>
          if ml_digest existing \<noteq> computed then Err ''event_id_conflict''
          else obind (classify_deliveries H v ls ds) (\<lambda>(replay, fresh). Ok ((d, existing) # replay, fresh))
      | None \<Rightarrow>
          obind (classify_deliveries H v ls ds) (\<lambda>(replay, fresh). Ok (replay, (d, computed) # fresh)))))"

fun admission_failure_rank :: "dispatch_rejection \<Rightarrow> nat" where
  "admission_failure_rank InvalidInstanceTarget = 0"
| "admission_failure_rank InactiveComponentTarget = 0"
| "admission_failure_rank InvalidEvent = 1"
| "admission_failure_rank InvalidPayload = 2"
| "admission_failure_rank InvalidCorrelation = 3"
| "admission_failure_rank _ = 4"

text \<open>The validation pass keeps the failure of the least rank, the first of them.\<close>

fun validate_deliveries ::
  "compiled_bundle \<Rightarrow> native_aggregate \<Rightarrow> (admission_delivery \<times> string) list \<Rightarrow> dispatch_rejection option \<Rightarrow>
   ((admission_delivery \<times> string \<times> string) list \<times> dispatch_rejection option, string) outcome" where
  "validate_deliveries B a [] failure = Ok ([], failure)"
| "validate_deliveries B a ((d, computed) # ds) failure =
     obind (core_delivery d) (\<lambda>core.
     case validate_delivery_for_admission B a core of
       Ok runtime_id \<Rightarrow>
         obind (validate_deliveries B a ds failure) (\<lambda>(validated, failure').
           Ok ((d, computed, runtime_id) # validated, failure'))
     | Err code \<Rightarrow>
         validate_deliveries B a ds
           (case failure of
              None \<Rightarrow> Some code
            | Some prior \<Rightarrow>
                if admission_failure_rank code < admission_failure_rank prior then Some code else Some prior)
     | Panic \<Rightarrow> Panic
     | OutOfFuel \<Rightarrow> OutOfFuel)"

definition mailbox_entry :: "counter \<Rightarrow> counter \<Rightarrow> string \<Rightarrow> json \<Rightarrow> string \<Rightarrow> json" where
  "mailbox_entry acceptance queue mode envelope digest =
     jobj [(''acceptance_sequence'', JString (canonical_decimal acceptance)),
           (''queue_sequence'', JString (canonical_decimal queue)), (''delivery_mode'', JString mode),
           (''envelope'', envelope), (''envelope_digest'', JString digest), (''deferral_count'', JString ''0'')]"

definition push_entry :: "string \<Rightarrow> json \<Rightarrow> json \<Rightarrow> (json \<times> unit, string) outcome" where
  "push_entry field entry r =
     obind (mailbox_array field r) (\<lambda>es. Ok (jput field (JArray (es @ [entry])) r, ()))"

definition accept_delivery_entry ::
  "json \<Rightarrow> admission_delivery \<times> string \<times> string \<Rightarrow> (json \<times> json, string) outcome" where
  "accept_delivery_entry v dcr =
     (let (d, _, runtime_id) = dcr in
      obind (allocate_counter v ''next_acceptance_sequence'') (\<lambda>(v1, acceptance).
      obind (allocate_counter v1 ''next_queue_sequence'') (\<lambda>(v2, queue).
      let entry = mailbox_entry acceptance queue (ad_delivery_mode d) (queue_envelope_json (ad_envelope d))
            (ad_envelope_digest d) in
      obind (runtime_object_mut v2 runtime_id (push_entry ''ready_mailbox'' entry)) (\<lambda>(v3, _).
        Ok (v3, jobj [(''event_id'', JString (qe_event_id (ad_envelope d))),
                      (''acceptance_sequence'', JString (canonical_decimal acceptance)),
                      (''queue_sequence'', JString (canonical_decimal queue))])))))"

fun accept_deliveries ::
  "json \<Rightarrow> (admission_delivery \<times> string \<times> string) list \<Rightarrow> (json \<times> json list, string) outcome" where
  "accept_deliveries v [] = Ok (v, [])"
| "accept_deliveries v (d # ds) =
     obind (accept_delivery_entry v d) (\<lambda>(v', accepted).
     obind (accept_deliveries v' ds) (\<lambda>(v'', rest). Ok (v'', accepted # rest)))"

fun validate_sources :: "admission_delivery list \<Rightarrow> json \<Rightarrow> (unit, string) outcome" where
  "validate_sources [] v = Ok ()"
| "validate_sources (d # ds) v = obind (validate_source d v) (\<lambda>_. validate_sources ds v)"

text \<open>What follows for a batch that is no replay: the checks of the new deliveries and their queueing.\<close>

definition admit_fresh ::
  "host \<Rightarrow> compiled_bundle \<Rightarrow> native_aggregate \<Rightarrow> (admission_delivery \<times> string) list \<Rightarrow> (json, string) outcome" where
  "admit_fresh H B a fresh =
     (if list_ex (\<lambda>(d, _). ad_delivery_mode d \<notin> {''input'', ''internal''}) fresh
      then Err ''invalid_delivery_mode''
      else
      obind (validate_sources (map fst fresh) (ag_document a)) (\<lambda>_.
      obind (validate_deliveries B a fresh None) (\<lambda>(validated, failure).
      case failure of
        Some code \<Rightarrow> Err (dispatch_rejection_str code)
      | None \<Rightarrow>
          if list_ex (\<lambda>(d, computed, _). ad_envelope_digest d \<noteq> computed) validated
          then Err ''delivery_digest_mismatch''
          else
          obind (accept_deliveries (ag_document a) validated) (\<lambda>(v, accepted).
          obind (seal_aggregate H v) (\<lambda>v'.
          obind (aggregate_status v') (\<lambda>status.
            Ok (jobj [(''result'', JString ''accepted''), (''status'', JString status), (''state'', v'),
                      (''accepted'', JArray accepted), (''rejection'', JNull)])))))))"

definition admit_v1 ::
  "host \<Rightarrow> compiled_bundle \<Rightarrow> native_aggregate \<Rightarrow> admission_delivery list \<Rightarrow> (json, string) outcome" where
  "admit_v1 H B a deliveries =
     (case ho_check_bundle H B of
        Some code \<Rightarrow> Err code
      | None \<Rightarrow>
     if \<not> distinct (map (\<lambda>d. qe_event_id (ad_envelope d)) deliveries) then Err ''duplicate_event_id_in_batch''
     else
     obind (mailbox_locations (ag_document a)) (\<lambda>ls.
     obind (classify_deliveries H (ag_document a) ls deliveries) (\<lambda>(replay, fresh).
     if fresh = [] \<and> length replay = 1
     then obind (aggregate_status (ag_document a)) (\<lambda>status.
            Ok (jobj [(''result'', JString ''replay''), (''status'', JString status), (''state'', ag_document a),
                      (''event_id'', JString (qe_event_id (ad_envelope (fst (hd replay))))),
                      (''acceptance_sequence'', JString (ml_acceptance_sequence (snd (hd replay)))),
                      (''location'', JString (ml_location (snd (hd replay)))), (''rejection'', JNull)]))
     else admit_fresh H B a fresh)))"

end
