(* ===== verification/Restore.thy ===== *)
theory Restore
  imports Wire "HOL-Library.Multiset"
begin

text \<open>
  Reading an aggregate from its envelope (\<^verbatim>\<open>restore_envelope\<close> of
  \<^verbatim>\<open>src/format1/native.rs\<close>): resolving the definitions an envelope refers to, reading each
  wire runtime against its definition, and rebuilding the ownership tree.  The resolver is
  the host's and a parameter; the in-memory one of \<^verbatim>\<open>src/format1/persistence.rs\<close> is below.
\<close>

section \<open>Resolving definitions\<close>

record resolved_definition =
  rd_bundle :: compiled_bundle
  rd_trusted :: bool

type_synonym resolver = "string \<Rightarrow> resolved_definition option"

type_synonym in_memory_resolver = "(string, resolved_definition) btree_map"

definition insert_at :: "string \<Rightarrow> compiled_bundle \<Rightarrow> bool \<Rightarrow> in_memory_resolver \<Rightarrow> bool \<times> in_memory_resolver" where
  "insert_at fingerprint B trusted m =
     (if bm_has m fingerprint then (False, m)
      else (True, bm_insert fingerprint \<lparr>rd_bundle = B, rd_trusted = trusted\<rparr> m))"

definition insert_definition :: "compiled_bundle \<Rightarrow> bool \<Rightarrow> in_memory_resolver \<Rightarrow> bool \<times> in_memory_resolver" where
  "insert_definition B trusted m = insert_at (b_fingerprint B) B trusted m"

definition resolve_definition :: "in_memory_resolver \<Rightarrow> resolver" where
  "resolve_definition m fingerprint = bm_get m fingerprint"

primrec find_machine_recursive :: "string \<Rightarrow> machine \<Rightarrow> machine option"
  and find_machine_in_state :: "string \<Rightarrow> state \<Rightarrow> machine option"
  and find_machine_in_component :: "string \<Rightarrow> component \<Rightarrow> machine option"
  and find_machine_in_definition :: "string \<Rightarrow> component_definition \<Rightarrow> machine option"
where
  "find_machine_recursive p (Machine mid version index events states ptr meta providers) =
     (if ptr = p then Some (Machine mid version index events states ptr meta providers)
      else find_map (\<lambda>e. snd e) (map (map_prod id (find_machine_in_state p)) states))"
| "find_machine_in_state p (State path ptr parent kind vars en ex ini children components handlers
       deferred capacity history choice) =
     find_map (\<lambda>x. x) (map (find_machine_in_component p) components)"
| "find_machine_in_component p (Component cid i ptr def b) = find_machine_in_definition p def"
| "find_machine_in_definition p (DefMachine _) = None"
| "find_machine_in_definition p (DefInline m) = find_machine_recursive p m"

definition find_machine_by_root_pointer :: "compiled_bundle \<Rightarrow> string \<Rightarrow> machine option" where
  "find_machine_by_root_pointer B p = find_map (find_machine_recursive p) (bm_values (b_machines B))"

primrec find_component_recursive :: "string \<Rightarrow> machine \<Rightarrow> component option"
  and find_component_in_state :: "string \<Rightarrow> state \<Rightarrow> component option"
  and find_component_here :: "string \<Rightarrow> component \<Rightarrow> component option"
  and find_component_in_definition :: "string \<Rightarrow> component_definition \<Rightarrow> component option"
where
  "find_component_recursive p (Machine mid version index events states ptr meta providers) =
     find_map (\<lambda>e. snd e) (map (map_prod id (find_component_in_state p)) states)"
| "find_component_in_state p (State path ptr parent kind vars en ex ini children components handlers
       deferred capacity history choice) =
     find_map (\<lambda>x. x) (map (find_component_here p) components)"
| "find_component_here p (Component cid i ptr def b) =
     (if ptr = p then Some (Component cid i ptr def b) else find_component_in_definition p def)"
| "find_component_in_definition p (DefMachine _) = None"
| "find_component_in_definition p (DefInline m) = find_component_recursive p m"

definition find_component_in_bundle_by_pointer :: "compiled_bundle \<Rightarrow> string \<Rightarrow> component option" where
  "find_component_in_bundle_by_pointer B p = find_map (find_component_recursive p) (bm_values (b_machines B))"

definition find_component_by_pointer :: "machine \<Rightarrow> string \<Rightarrow> component option" where
  "find_component_by_pointer m p =
     find (\<lambda>c. c_pointer c = p) (concat (map s_components (bm_values (m_states m))))"

definition parent_state_path :: "string \<Rightarrow> machine \<Rightarrow> (string, persistence_error) outcome" where
  "parent_state_path p m =
     ok_or InvalidAggregateState (map_option s_path
       (find (\<lambda>st. case strip_prefix (s_pointer st) p of
                     None \<Rightarrow> False | Some rest \<Rightarrow> strip_prefix ''/components/'' rest \<noteq> None)
         (bm_values (m_states m))))"

definition find_variable_by_pointer :: "machine \<Rightarrow> string \<Rightarrow> (string \<times> string \<times> variable_declaration) option" where
  "find_variable_by_pointer m p =
     find_map (\<lambda>st. find_map (\<lambda>(name, d).
         if s_pointer st @ ''/variables/'' @ escape_pointer name = p then Some (s_path st, name, d) else None)
       (s_variables st)) (bm_values (m_states m))"

type_synonym definitions = "(string, compiled_bundle) btree_map"

definition collect_fingerprint ::
  "resolver \<Rightarrow> string \<Rightarrow> definitions \<Rightarrow> (definitions, persistence_error) outcome" where
  "collect_fingerprint R fingerprint ds =
     (if bm_has ds fingerprint then Ok ds
      else (case R fingerprint of
              None \<Rightarrow> Err SourceDefinitionUnavailable
            | Some rd \<Rightarrow>
                if \<not> rd_trusted rd then Err DefinitionUntrusted
                else if b_fingerprint (rd_bundle rd) \<noteq> fingerprint then Err DefinitionFingerprintMismatch
                else Ok (bm_insert fingerprint (rd_bundle rd) ds)))"

definition collect_definition ::
  "resolver \<Rightarrow> wire_definition_binding \<Rightarrow> definitions \<Rightarrow> (definitions, persistence_error) outcome" where
  "collect_definition R d ds =
     obind (collect_fingerprint R (wd_validated_bundle_fingerprint d) ds) (\<lambda>ds'.
     obind (expect (bm_get ds' (wd_validated_bundle_fingerprint d))) (\<lambda>B.
     case find_machine_by_root_pointer B (wm_root_definition_pointer (wd_machine d)) of
       None \<Rightarrow> Err DefinitionFingerprintMismatch
     | Some m \<Rightarrow>
         if wm_namespace (wd_machine d) \<noteq> b_namespace B \<or> wm_machine_id (wd_machine d) \<noteq> m_machine_id m \<or>
            wm_machine_version (wd_machine d) \<noteq> signed_decimal (sint (m_version m))
         then Err DefinitionFingerprintMismatch else Ok ds'))"

fun collect_runtimes ::
  "resolver \<Rightarrow> wire_runtime list \<Rightarrow> definitions \<Rightarrow> (definitions, persistence_error) outcome" where
  "collect_runtimes R [] ds = Ok ds"
| "collect_runtimes R (w # ws) ds =
     obind (collect_definition R (ww_current_definition w) ds) (\<lambda>ds1.
     obind (collect_definition R (wo_definition (ww_identity_origin w)) ds1) (\<lambda>ds2.
     obind (case ww_fault w of None \<Rightarrow> Ok ds2 | Some f \<Rightarrow> collect_fingerprint R (wf_definition_fingerprint f) ds2)
       (\<lambda>ds3. collect_runtimes R ws ds3)))"

section \<open>From the wire\<close>

definition parse_counter :: "string \<Rightarrow> (counter, persistence_error) outcome" where
  "parse_counter s = ok_or InvalidAggregateState (from_decimal s)"

text \<open>\<^verbatim>\<open>str::parse::<usize>\<close>: an optional plus sign, decimal digits, below \<open>2 ^ 64\<close>.\<close>

definition parse_usize :: "string \<Rightarrow> (nat, persistence_error) outcome" where
  "parse_usize s =
     (let digits = (case s of c # cs \<Rightarrow> if c = CHR ''+'' then cs else s | [] \<Rightarrow> [])
      in if digits = [] \<or> \<not> list_all is_digit digits \<or> 2 ^ 64 \<le> decimal_value 0 digits
         then Err InvalidAggregateState else Ok (decimal_value 0 digits))"

definition definition_from_wire :: "wire_definition_binding \<Rightarrow> (definition_binding, persistence_error) outcome" where
  "definition_from_wire d =
     obind (ok_or InvalidAggregateState (parse_i64 (wm_machine_version (wd_machine d)))) (\<lambda>version.
       Ok \<lparr>db_validated_bundle_fingerprint = wd_validated_bundle_fingerprint d,
           db_machine = \<lparr>mi_namespace = wm_namespace (wd_machine d), mi_machine_id = wm_machine_id (wd_machine d),
                         mi_machine_version = version,
                         mi_root_definition_pointer = wm_root_definition_pointer (wd_machine d)\<rparr>\<rparr>)"

fun origin_from_wire ::
  "definitions \<Rightarrow> wire_identity_origin \<Rightarrow> (identity_origin \<times> string option, persistence_error) outcome" where
  "origin_from_wire ds (WireOriginRoot d i) =
     obind (definition_from_wire d) (\<lambda>d'. Ok (OriginRoot d' i, None))"
| "origin_from_wire ds (WireOriginComponent d owner pointer seq index) =
     obind (ok_or InvalidAggregateState (bm_get ds (wd_validated_bundle_fingerprint d))) (\<lambda>B.
     obind (ok_or InvalidAggregateState (find_component_in_bundle_by_pointer B pointer)) (\<lambda>c.
     obind (parse_usize index) (\<lambda>i.
     if c_declaration_index c \<noteq> i then Err InvalidAggregateState
     else
     obind (definition_from_wire d) (\<lambda>d'.
     obind (parse_counter seq) (\<lambda>seq'.
     obind (parse_counter index) (\<lambda>index'.
       Ok (OriginComponent d' owner pointer seq' index', Some (c_component_id c))))))))"
| "origin_from_wire ds (WireOriginSpawned d owner pointer seq) =
     obind (definition_from_wire d) (\<lambda>d'. obind (parse_counter seq) (\<lambda>seq'.
       Ok (OriginSpawned d' owner pointer seq', None)))"

fun target_from_wire :: "wire_target \<Rightarrow> (target, persistence_error) outcome" where
  "target_from_wire (WireRoot t) = Ok (RootTarget (wrt_root_instance_id t) (wrt_root_runtime_id t))"
| "target_from_wire (WireComponent t) =
     obind (parse_counter (wct_activation_sequence t)) (\<lambda>seq.
       Ok (ComponentPlacement (wct_root_instance_id t) (wct_owner_runtime_id t) (wct_component_id t)
             (wct_component_runtime_id t) seq))"
| "target_from_wire (WireSpawned t) =
     obind (ok_or InvalidAggregateState (parse_i64 (wir_machine_version t))) (\<lambda>version.
       Ok (SpawnedTarget \<lparr>ref_root_instance_id = wir_root_instance_id t, ref_instance_id = wir_instance_id t,
             ref_machine_id = wir_machine_id t, ref_machine_version = version\<rparr>))"

fun target_root_instance_id :: "target \<Rightarrow> string" where
  "target_root_instance_id (RootTarget i _) = i"
| "target_root_instance_id (ComponentPlacement i _ _ _ _) = i"
| "target_root_instance_id (SpawnedTarget rf) = ref_root_instance_id rf"
| "target_root_instance_id External = []"

text \<open>The paths of the relation are filled in when the owner is known.\<close>

fun relation_from_wire ::
  "(string, target) btree_map \<Rightarrow> target \<Rightarrow> wire_relation \<Rightarrow> (runtime_relation, persistence_error) outcome" where
  "relation_from_wire targets t WireRelRoot = Ok RelRoot"
| "relation_from_wire targets t (WireRelComponent owner cid pointer seq index) =
     obind (ok_or InvalidAggregateState (bm_get targets owner)) (\<lambda>owner_target.
     obind (parse_usize index) (\<lambda>i. obind (parse_counter seq) (\<lambda>seq'.
       Ok (RelComponent owner owner_target [] cid pointer i seq'))))"
| "relation_from_wire targets t (WireRelSpawned owner pointer seq holder) =
     obind (ok_or InvalidAggregateState (bm_get targets owner)) (\<lambda>owner_target.
     obind (case t of SpawnedTarget rf \<Rightarrow> Ok rf | _ \<Rightarrow> Err InvalidAggregateState) (\<lambda>rf.
     obind (case holder of
              None \<Rightarrow> Ok (None, counter_zero)
            | Some h \<Rightarrow> obind (parse_counter (wl_holder_state_activation_sequence h)) (\<lambda>hseq.
                         Ok (Some (wl_variable_declaration_pointer h), hseq))) (\<lambda>(hptr, hseq).
     obind (parse_counter seq) (\<lambda>seq'.
       Ok (RelSpawned owner owner_target seq' pointer rf None hptr hseq)))))"

definition validate_restored_value :: "value \<Rightarrow> variable_declaration \<Rightarrow> bool" where
  "validate_restored_value v d \<longleftrightarrow>
     (case v of
        VNull \<Rightarrow> vd_value_type d = ''null'' \<or> vd_nullable d = Some True
      | VBool _ \<Rightarrow> vd_value_type d = ''bool''
      | VString _ \<Rightarrow> vd_value_type d = ''string''
      | VInt _ \<Rightarrow> vd_value_type d = ''int''
      | VFloat w \<Rightarrow> vd_value_type d = ''float'' \<and> f64_is_finite w
      | VList _ \<Rightarrow> vd_value_type d = ''list''
      | VMap _ \<Rightarrow> vd_value_type d = ''map''
      | VRef _ \<Rightarrow> vd_value_type d = ''instance_reference'')"

text \<open>Inserting a state and its ancestors into the active set, up to one that is there.\<close>

primrec activate_chain :: "machine \<Rightarrow> nat \<Rightarrow> string \<Rightarrow> string btree_set \<Rightarrow> (string btree_set, persistence_error) outcome" where
  "activate_chain m 0 current active = OutOfFuel"
| "activate_chain m (Suc n) current active =
     (if current \<in> set active then Ok active
      else obind (state_at m current) (\<lambda>st.
             case s_parent st of
               None \<Rightarrow> Ok (bs_insert current active)
             | Some p \<Rightarrow> activate_chain m n p (bs_insert current active)))"

fun ofold :: "('a \<Rightarrow> 'b \<Rightarrow> ('b, 'e) outcome) \<Rightarrow> 'a list \<Rightarrow> 'b \<Rightarrow> ('b, 'e) outcome" where
  "ofold f [] b = Ok b"
| "ofold f (x # xs) b = obind (f x b) (\<lambda>b'. ofold f xs b')"

definition pointer_states :: "machine \<Rightarrow> (string, state) btree_map" where
  "pointer_states m = bm_of (map (\<lambda>st. (s_pointer st, st)) (bm_values (m_states m))) []"

definition state_by_pointer :: "machine \<Rightarrow> string \<Rightarrow> (state, persistence_error) outcome" where
  "state_by_pointer m p = ok_or InvalidAggregateState (bm_get (pointer_states m) p)"

definition restore_active :: "machine \<Rightarrow> string list \<Rightarrow> (string btree_set, persistence_error) outcome" where
  "restore_active m leaves =
     ofold (\<lambda>p active. obind (state_by_pointer m p) (\<lambda>st. activate_chain m (walk_fuel m) (s_path st) active))
       leaves []"

definition restore_activations ::
  "machine \<Rightarrow> wire_state_activation list \<Rightarrow> ((string, counter) btree_map, persistence_error) outcome" where
  "restore_activations m as =
     ofold (\<lambda>a out. obind (state_by_pointer m (wa_state_definition_pointer a)) (\<lambda>st.
              obind (parse_counter (wa_activation_sequence a)) (\<lambda>seq. Ok (bm_insert (s_path st) seq out)))) as []"

definition restore_variables ::
  "machine \<Rightarrow> wire_variable list \<Rightarrow> ((string, variable_slot) btree_map, persistence_error) outcome" where
  "restore_variables m vs =
     ofold (\<lambda>v out.
       case find_variable_by_pointer m (wv_variable_declaration_pointer v) of
         None \<Rightarrow> Err InvalidAggregateState
       | Some (path, name, d) \<Rightarrow>
           obind (ok_or InvalidAggregateState (typed_to_value (vd_value_type d = ''instance_reference'') (wv_value v)))
             (\<lambda>x. if \<not> validate_restored_value x d then Err InvalidAggregateState
                  else obind (parse_counter (wv_declaring_state_activation_sequence v)) (\<lambda>seq.
                    Ok (bm_insert (variable_key path name)
                      \<lparr>vs_name = name, vs_declaration_path = path,
                       vs_declaration_pointer = wv_variable_declaration_pointer v, vs_declaration = d,
                       vs_value = x, vs_state_activation_sequence = seq\<rparr> out)))) vs []"

definition strip_end :: "string \<Rightarrow> string \<Rightarrow> string option" where
  "strip_end e s = map_option rev (strip_prefix (rev e) (rev s))"

definition restore_histories ::
  "machine \<Rightarrow> wire_history list \<Rightarrow> ((string, string list option) btree_map, persistence_error) outcome" where
  "restore_histories m hs =
     ofold (\<lambda>h out.
       obind (ok_or InvalidAggregateState (strip_end ''/history'' (wh_history_declaration_pointer h))) (\<lambda>p.
       obind (state_by_pointer m p) (\<lambda>st.
       obind (case wh_recorded_state_definition_pointers h of
                None \<Rightarrow> Ok None
              | Some ps \<Rightarrow> obind (collect_outcome (map (\<lambda>q. obind (state_by_pointer m q) (\<lambda>s. Ok (s_path s))) ps))
                            (\<lambda>paths. Ok (Some paths))) (\<lambda>recorded.
         Ok (bm_insert (s_path st) recorded out))))) hs []"

definition restore_state_counters ::
  "machine \<Rightarrow> wire_next_counter list \<Rightarrow> ((string, counter) btree_map, persistence_error) outcome" where
  "restore_state_counters m ns =
     ofold (\<lambda>n out. obind (state_by_pointer m (wn_definition_pointer n)) (\<lambda>st.
              obind (parse_counter (wn_next_sequence n)) (\<lambda>seq. Ok (bm_insert (s_path st) seq out)))) ns []"

definition restore_component_counters ::
  "machine \<Rightarrow> wire_next_counter list \<Rightarrow> ((string, counter) btree_map, persistence_error) outcome" where
  "restore_component_counters m ns =
     ofold (\<lambda>n out. obind (ok_or InvalidAggregateState (find_component_by_pointer m (wn_definition_pointer n)))
              (\<lambda>_. obind (parse_counter (wn_next_sequence n)) (\<lambda>seq.
                 Ok (bm_insert (wn_definition_pointer n) seq out)))) ns []"

definition fault_from_wire :: "wire_fault \<Rightarrow> (fault_record, persistence_error) outcome" where
  "fault_from_wire f =
     obind (parse_counter (wf_step_sequence f)) (\<lambda>seq.
       Ok \<lparr>fr_definition_fingerprint = wf_definition_fingerprint f, fr_runtime_id = wf_runtime_id f,
           fr_cause_id = wf_cause_id f, fr_code = wf_code f, fr_step_sequence = seq,
           fr_source_locator = wf_source_locator f\<rparr>)"

definition restore_runtime ::
  "definitions \<Rightarrow> (string, target) btree_map \<Rightarrow> string \<Rightarrow> wire_runtime \<Rightarrow> (runtime_core, persistence_error) outcome" where
  "restore_runtime ds targets root_instance_id w =
     obind (ok_or InvalidAggregateState (bm_get ds (wd_validated_bundle_fingerprint (ww_current_definition w)))) (\<lambda>B.
     obind (ok_or InvalidAggregateState
       (find_machine_by_root_pointer B (wm_root_definition_pointer (wd_machine (ww_current_definition w))))) (\<lambda>m.
     obind (target_from_wire (ww_target_identity w)) (\<lambda>t.
     if target_root_instance_id t \<noteq> root_instance_id then Err InvalidAggregateState
     else
     obind (origin_from_wire ds (ww_identity_origin w)) (\<lambda>(origin, origin_component_id).
     obind (relation_from_wire targets t (ww_relation w)) (\<lambda>relation.
     obind (restore_active m (ww_active_leaf_state_definition_pointers w)) (\<lambda>active.
     obind (restore_activations m (ww_active_state_activations w)) (\<lambda>activations.
     if list_ex (\<lambda>p. \<not> bm_has activations p) active \<or> list_ex (\<lambda>p. p \<notin> set active) (bm_keys activations)
     then Err InvalidAggregateState
     else
     obind (restore_variables m (ww_variables w)) (\<lambda>variables.
     obind (restore_histories m (ww_history w)) (\<lambda>history.
     obind (restore_state_counters m (ww_next_state_activation_sequences w)) (\<lambda>next_state.
     obind (restore_component_counters m (ww_next_component_activation_sequences w)) (\<lambda>next_component.
     obind (case ww_fault w of None \<Rightarrow> Ok None | Some f \<Rightarrow> obind (fault_from_wire f) (\<lambda>r. Ok (Some r))) (\<lambda>fault.
     obind (definition_from_wire (ww_current_definition w)) (\<lambda>current.
     obind (parse_counter (ww_next_spawn_sequence w)) (\<lambda>next_spawn.
       Ok \<lparr>rc_runtime_id = ww_runtime_id w, rc_identity_origin = origin, rc_target_identity = t,
           rc_current_definition = current, rc_origin_component_id = origin_component_id,
           rc_machine_id = m_machine_id m, rc_machine_version = m_version m, rc_definition = m,
           rc_status = ww_status w, rc_active = active, rc_variables = variables, rc_history = history,
           rc_next_spawn_sequence = next_spawn, rc_next_component_activation_sequence = next_component,
           rc_next_state_activation_sequence = next_state,
           rc_active_state_activation_sequence = activations, rc_fault = fault, rc_relation = relation,
           rc_ready_mailbox = ww_ready_mailbox w, rc_deferred_mailbox = ww_deferred_mailbox w\<rparr>))))))))))))))"


section \<open>The ownership tree\<close>

text \<open>
  Attaching a restored child to the children collected so far of its owner, whose core is
  \<open>c\<close>: the paths that the wire form leaves out are found in the owner's definition.
\<close>

definition attach_component ::
  "runtime_core \<Rightarrow> runtime_state \<Rightarrow> string \<Rightarrow> string \<Rightarrow> string \<Rightarrow> string \<Rightarrow> (component_runtime, persistence_error) outcome" where
  "attach_component c child cid pointer seq index =
     obind (ok_or InvalidAggregateState (find_component_by_pointer (rc_definition c) pointer)) (\<lambda>d.
     obind (parse_usize index) (\<lambda>i.
     if c_component_id d \<noteq> cid \<or> c_declaration_index d \<noteq> i then Err InvalidAggregateState
     else
     obind (parent_state_path pointer (rc_definition c)) (\<lambda>path.
     obind (parse_counter seq) (\<lambda>seq'.
     case rt_relation child of
       RelComponent owner ot _ k p j s \<Rightarrow>
         Ok (ComponentRuntime cid pointer i seq'
              (with_core (\<lambda>x. x\<lparr>rc_relation := RelComponent owner ot path k p j s\<rparr>) child))
     | _ \<Rightarrow> Err InvalidAggregateState))))"

definition attach_spawned ::
  "runtime_core \<Rightarrow> runtime_state \<Rightarrow> string \<Rightarrow> string \<Rightarrow> wire_lifetime_holder option \<Rightarrow>
   (owned_runtime, persistence_error) outcome" where
  "attach_spawned c child pointer seq holder =
     obind (case rc_target_identity (rt_core child) of SpawnedTarget rf \<Rightarrow> Ok rf | _ \<Rightarrow> Err InvalidAggregateState) (\<lambda>rf.
     obind (case holder of
              None \<Rightarrow> Ok (None, None, counter_zero)
            | Some h \<Rightarrow>
                (case find_variable_by_pointer (rc_definition c) (wl_variable_declaration_pointer h) of
                   None \<Rightarrow> Err InvalidAggregateState
                 | Some (path, _, _) \<Rightarrow>
                     obind (parse_counter (wl_holder_state_activation_sequence h)) (\<lambda>hseq.
                       Ok (Some path, Some (wl_variable_declaration_pointer h), hseq)))) (\<lambda>(hpath, hptr, hseq).
     obind (parse_counter seq) (\<lambda>seq'.
     if pointer = [] then Err InvalidAggregateState
     else (case rt_relation child of
             RelSpawned owner ot s p rf' _ _ _ \<Rightarrow>
               Ok (OwnedRuntime seq' hpath hptr hseq rf
                    (with_core (\<lambda>x. x\<lparr>rc_relation := RelSpawned owner ot s p rf' hpath hptr hseq\<rparr>) child))
           | _ \<Rightarrow> Err InvalidAggregateState))))"

type_synonym wire_records = "(string, wire_runtime) btree_map"

definition child_ids :: "string \<Rightarrow> wire_records \<Rightarrow> string list" where
  "child_ids owner records =
     bm_keys (filter (\<lambda>(_, w). case ww_relation w of
                WireRelRoot \<Rightarrow> False
              | WireRelComponent o' _ _ _ _ \<Rightarrow> o' = owner
              | WireRelSpawned o' _ _ _ \<Rightarrow> o' = owner) records)"

definition restore_child ::
  "(wire_runtime \<Rightarrow> wire_records \<Rightarrow> (runtime_state \<times> wire_records, persistence_error) outcome) \<Rightarrow> runtime_core \<Rightarrow>
   string \<Rightarrow> component_runtime list \<times> owned_runtime list \<times> wire_records \<Rightarrow>
   (component_runtime list \<times> owned_runtime list \<times> wire_records, persistence_error) outcome" where
  "restore_child restore c child_id acc =
     (let (cs, ws, rs) = acc in
      case bm_get rs child_id of
        None \<Rightarrow> Err InvalidAggregateState
      | Some record \<Rightarrow>
          obind (restore record (bm_remove child_id rs)) (\<lambda>(child, rs').
          case ww_relation record of
            WireRelComponent _ cid pointer seq index \<Rightarrow>
              obind (attach_component c child cid pointer seq index) (\<lambda>x. Ok (cs @ [x], ws, rs'))
          | WireRelSpawned _ pointer seq holder \<Rightarrow>
              obind (attach_spawned c child pointer seq holder) (\<lambda>x. Ok (cs, ws @ [x], rs'))
          | WireRelRoot \<Rightarrow> Err InvalidAggregateState))"

text \<open>The children are restored in the order of their identities, then sorted by declaration.\<close>

primrec restore_runtime_tree ::
  "definitions \<Rightarrow> (string, target) btree_map \<Rightarrow> string \<Rightarrow> nat \<Rightarrow> wire_runtime \<Rightarrow> wire_records \<Rightarrow>
   (runtime_state \<times> wire_records, persistence_error) outcome" where
  "restore_runtime_tree ds targets rid 0 = (\<lambda>w records. OutOfFuel)"
| "restore_runtime_tree ds targets rid (Suc n) = (\<lambda>w records.
     obind (restore_runtime ds targets rid w) (\<lambda>c.
     obind (ofold (restore_child (restore_runtime_tree ds targets rid n) c)
              (child_ids (ww_runtime_id w) records) ([], [], records)) (\<lambda>(cs, ws, rs).
     Ok (Runtime c (sort_key (\<lambda>x. (cr_declaration_index x, cr_activation_sequence x)) cs)
           (sort_key or_spawn_sequence ws), rs))))"

definition validate_root_header :: "aggregate_envelope \<Rightarrow> runtime_state \<Rightarrow> bool" where
  "validate_root_header e r \<longleftrightarrow>
     (case rc_target_identity (rt_core r) of
        RootTarget i rid \<Rightarrow>
          ae_root_runtime_id e = rt_runtime_id r \<and> rid = rt_runtime_id r \<and> ae_root_instance_id e = i \<and>
          ae_namespace e = mi_namespace (db_machine (rc_current_definition (rt_core r))) \<and>
          ae_root_machine_id e = mi_machine_id (db_machine (rc_current_definition (rt_core r))) \<and>
          ae_root_machine_version e =
            signed_decimal (sint (mi_machine_version (db_machine (rc_current_definition (rt_core r))))) \<and>
          ae_validated_bundle_fingerprint e =
            db_validated_bundle_fingerprint (rc_current_definition (rt_core r)) \<and>
          rc_machine_id (rt_core r) = mi_machine_id (db_machine (rc_current_definition (rt_core r))) \<and>
          rc_machine_version (rt_core r) = mi_machine_version (db_machine (rc_current_definition (rt_core r))) \<and>
          m_root_pointer (rt_definition r) =
            mi_root_definition_pointer (db_machine (rc_current_definition (rt_core r)))
      | _ \<Rightarrow> False)"

text \<open>The aggregate around the restored tree, checked against its definition.\<close>

definition restored_aggregate ::
  "engine \<Rightarrow> aggregate_envelope \<Rightarrow> definitions \<Rightarrow> runtime_state \<Rightarrow> (native_aggregate, persistence_error) outcome" where
  "restored_aggregate G e ds root' =
     obind (parse_counter (ae_migration_sequence e)) (\<lambda>migration.
     obind (parse_counter (ae_next_logical_step_sequence e)) (\<lambda>step.
     obind (parse_counter (ae_next_output_sequence e)) (\<lambda>output.
     obind (parse_counter (ae_next_acceptance_sequence e)) (\<lambda>acceptance.
     obind (parse_counter (ae_next_queue_sequence e)) (\<lambda>queue.
     let a = \<lparr>ag_document = envelope_json e,
              ag_validated_bundle_fingerprint = ae_validated_bundle_fingerprint e,
              ag_namespace = ae_namespace e, ag_root_instance_id = ae_root_instance_id e,
              ag_creation_id = ae_creation_id e, ag_migration_sequence = migration,
              ag_wire_runtime_order = map ww_runtime_id (ae_runtimes e), ag_root = root',
              ag_next_logical_step_sequence = step, ag_next_output_sequence = output,
              ag_next_acceptance_sequence = acceptance, ag_next_queue_sequence = queue\<rparr> in
     case bm_get ds (ae_validated_bundle_fingerprint e) of
       None \<Rightarrow> Err SourceDefinitionUnavailable
     | Some B \<Rightarrow> if aggregate_is_valid_for_bundle G a B then Ok a else Err InvalidAggregateState)))))"

definition restore_envelope ::
  "engine \<Rightarrow> resolver \<Rightarrow> aggregate_envelope \<Rightarrow> (native_aggregate, persistence_error) outcome" where
  "restore_envelope G R e =
     obind (collect_runtimes R (ae_runtimes e) []) (\<lambda>ds.
     obind (collect_outcome (map (\<lambda>w. obind (target_from_wire (ww_target_identity w)) (\<lambda>t.
              Ok (ww_runtime_id w, t))) (ae_runtimes e))) (\<lambda>ts.
     let targets = bm_of ts [];
         records = bm_of (map (\<lambda>w. (ww_runtime_id w, w)) (ae_runtimes e)) [] in
     case bm_get records (ae_root_runtime_id e) of
       None \<Rightarrow> Err InvalidAggregateState
     | Some root_record \<Rightarrow>
         if ww_relation root_record \<noteq> WireRelRoot then Err InvalidAggregateState
         else
         obind (restore_runtime_tree ds targets (ae_root_instance_id e) (length records) root_record
                  (bm_remove (ae_root_runtime_id e) records)) (\<lambda>(root', rest).
         if rest \<noteq> [] then Err InvalidAggregateState
         else if \<not> validate_root_header e root' then Err InvalidAggregateState
         else restored_aggregate G e ds root')))"

lemma restored_aggregate_Ok:
  "restored_aggregate G e ds r = Ok a \<Longrightarrow>
     ag_root a = r \<and> (\<exists>B. bm_get ds (ae_validated_bundle_fingerprint e) = Some B \<and> aggregate_is_valid_for_bundle G a B)"
  unfolding restored_aggregate_def Let_def by (auto simp: obind_Ok_iff split: option.split_asm if_split_asm)

section \<open>Restoring ends\<close>

text \<open>
  Every recursive call takes one record out of the map, so as many calls as there are
  records are enough: restoring never runs out of fuel, whatever the envelope claims about
  ownership.
\<close>

definition ends :: "('a, 'e) outcome \<Rightarrow> bool" where
  "ends x \<longleftrightarrow> x \<noteq> OutOfFuel"

lemma ends_simps [simp]: "ends (Ok a)" "ends (Err e)" "ends Panic" "\<not> ends OutOfFuel"
  by (simp_all add: ends_def)

lemma ofold_invariant:
  assumes "\<And>x b. x \<in> set xs \<Longrightarrow> I b \<Longrightarrow> ends (f x b) \<and> (\<forall>b'. f x b = Ok b' \<longrightarrow> I b')" and "I b"
  shows "ends (ofold f xs b) \<and> (\<forall>b'. ofold f xs b = Ok b' \<longrightarrow> I b')"
  using assms
proof (induction xs arbitrary: b)
  case (Cons x xs)
  have "ends (f x b)" "\<And>b'. f x b = Ok b' \<Longrightarrow> I b'"
    using Cons.prems(1) [of x b] Cons.prems(2) by simp_all
  moreover have "ends (ofold f xs b') \<and> (\<forall>b''. ofold f xs b' = Ok b'' \<longrightarrow> I b'')" if "I b'" for b'
    using Cons.prems(1) that by (intro Cons.IH) auto
  ultimately show ?case by (cases "f x b") simp_all
qed simp

lemma obind_not_out_of_fuel:
  "ends m \<Longrightarrow> (\<And>a. m = Ok a \<Longrightarrow> ends (f a)) \<Longrightarrow> ends (obind m f)"
  by (cases m) auto

lemma length_bm_remove: "bm_get m k = Some v \<Longrightarrow> length (bm_remove k m) < length m"
proof -
  assume "bm_get m k = Some v"
  then have "(k, v) \<in> set m" by (rule bm_get_in)
  then show ?thesis unfolding bm_remove_def by (intro length_filter_less) auto
qed

lemma collect_outcome_fuel:
  "(\<And>x. x \<in> set xs \<Longrightarrow> ends x) \<Longrightarrow> ends (collect_outcome xs)"
proof (induction xs)
  case (Cons x xs)
  then have "ends (collect_outcome xs)" "ends (x)" by simp_all
  then show ?case by (cases x; cases "collect_outcome xs") simp_all
qed simp

named_theorems no_fuel

lemmas [no_fuel] = obind_not_out_of_fuel

lemma basic_no_fuel [no_fuel, simp]:
  "ends (ok_or e x)" "ends (expect y)" "ends (parse_counter s)" "ends (parse_usize s)"
  "ends (definition_from_wire d)" "ends (target_from_wire t)" "ends (fault_from_wire f)"
  "ends (state_by_pointer m p)" "ends (parent_state_path p m)" "ends (state_at m p)"
proof -
  show "ends (ok_or e x)" by (cases x) simp_all
  show e: "ends (expect y)" by (cases y) simp_all
  show c: "ends (parse_counter s)" for s by (simp add: parse_counter_def ok_or_def split: option.splits)
  show "ends (parse_usize s)" by (simp add: parse_usize_def Let_def)
  show "ends (definition_from_wire d)" "ends (fault_from_wire f)"
    by (auto simp: definition_from_wire_def fault_from_wire_def ok_or_def intro!: obind_not_out_of_fuel c split: option.splits)
  show "ends (target_from_wire t)"
    by (cases t) (auto simp: ok_or_def intro!: obind_not_out_of_fuel c split: option.splits)
  show "ends (state_by_pointer m p)" "ends (parent_state_path p m)"
    by (auto simp: state_by_pointer_def parent_state_path_def ok_or_def split: option.splits)
  show "ends (state_at m p)" by (simp add: state_at_def expect_def split: option.splits)
qed


lemma activate_chain_ends:
  "card (set (bm_keys (m_states m)) - set active) < n \<Longrightarrow> ends (activate_chain m n current active)"
proof (induction n arbitrary: current active)
  case (Suc n)
  show ?case
  proof (cases "current \<in> set active \<or> bm_get (m_states m) current = None")
    case True
    then show ?thesis by (auto simp: state_at_def)
  next
    case False
    then have "current \<in> set (bm_keys (m_states m)) - set active"
      using bm_get_None_iff [of "m_states m" current] by simp
    then have "card (set (bm_keys (m_states m)) - set (bs_insert current active)) <
        card (set (bm_keys (m_states m)) - set active)"
      by (intro psubset_card_mono) auto
    with Suc False show ?thesis by (auto simp: state_at_def split: option.splits)
  qed
qed simp

lemma activate_chain_walk: "ends (activate_chain m (walk_fuel m) current active)"
proof (rule activate_chain_ends)
  have "card (set (bm_keys (m_states m)) - set active) \<le> card (set (bm_keys (m_states m)))"
    by (intro card_mono) auto
  also have "\<dots> \<le> length (m_states m)" using card_length [of "bm_keys (m_states m)"] by simp
  finally show "card (set (bm_keys (m_states m)) - set active) < walk_fuel m" by (simp add: walk_fuel_def)
qed

lemma ofold_not_out_of_fuel: "(\<And>x b. x \<in> set xs \<Longrightarrow> ends (f x b)) \<Longrightarrow> ends (ofold f xs b)"
  using ofold_invariant [of xs "\<lambda>_. True" f] by blast

lemma restore_parts_end [no_fuel]:
  "ends (restore_active m leaves)" "ends (restore_activations m as)"
  "ends (restore_variables m vs)" "ends (restore_histories m hs)"
  "ends (restore_state_counters m ns)" "ends (restore_component_counters m ns')"
  unfolding restore_active_def restore_activations_def restore_variables_def restore_histories_def
    restore_state_counters_def restore_component_counters_def
  by (auto intro!: ofold_not_out_of_fuel obind_not_out_of_fuel collect_outcome_fuel
      simp: activate_chain_walk split: option.splits)

lemma origin_from_wire_ends [no_fuel]: "ends (origin_from_wire ds g)"
  by (cases g) (auto intro!: obind_not_out_of_fuel)

lemma relation_from_wire_ends [no_fuel]: "ends (relation_from_wire targets t rel)"
  by (cases rel) (auto intro!: obind_not_out_of_fuel split: target.splits option.splits)

lemma restore_runtime_ends [no_fuel]: "ends (restore_runtime ds targets rid w)"
  unfolding restore_runtime_def
  by (auto intro!: no_fuel split: option.splits)

lemma attach_ends [no_fuel]:
  "ends (attach_component c child cid pointer seq index)"
  "ends (attach_spawned c child pointer' seq' holder)"
  unfolding attach_component_def attach_spawned_def
  by (auto intro!: obind_not_out_of_fuel split: runtime_relation.splits target.splits option.splits)

lemma restore_child_ends:
  assumes restore: "\<And>record rs. length rs < n \<Longrightarrow> ends (restore record rs) \<and>
      (\<forall>r rest. restore record rs = Ok (r, rest) \<longrightarrow> length rest \<le> length rs)"
    and acc: "length (snd (snd acc)) \<le> n"
  shows "ends (restore_child restore c child_id acc) \<and>
    (\<forall>acc'. restore_child restore c child_id acc = Ok acc' \<longrightarrow> length (snd (snd acc')) \<le> length (snd (snd acc)))"
proof -
  obtain cs ws rs where a: "acc = (cs, ws, rs)" by (cases acc) auto
  show ?thesis
  proof (cases "bm_get rs child_id")
    case (Some w)
    have less: "length (bm_remove child_id rs) < length rs" by (rule length_bm_remove [OF Some])
    with acc a have "length (bm_remove child_id rs) < n" by simp
    from restore [OF this, of w] less
    have below: "ends (restore w (bm_remove child_id rs))"
      "\<And>r rest. restore w (bm_remove child_id rs) = Ok (r, rest) \<Longrightarrow> length rest \<le> length rs"
      by fastforce+
    show ?thesis using Some below
      by (cases "ww_relation w")
        (fastforce simp: restore_child_def a obind_Ok_iff intro!: obind_not_out_of_fuel attach_ends)+
  qed (simp add: restore_child_def a)
qed

lemma restore_runtime_tree_ends:
  "length records < n \<Longrightarrow> ends (restore_runtime_tree ds targets rid n w records) \<and>
     (\<forall>r rest. restore_runtime_tree ds targets rid n w records = Ok (r, rest) \<longrightarrow> length rest \<le> length records)"
proof (induction n arbitrary: w records)
  case (Suc n)
  let ?f = "restore_child (restore_runtime_tree ds targets rid n)"
  have "ends (ofold (?f c) ids ([], [], records)) \<and>
      (\<forall>acc. ofold (?f c) ids ([], [], records) = Ok acc \<longrightarrow> length (snd (snd acc)) \<le> length records)" for c ids
  proof (rule ofold_invariant)
    fix x and acc :: "component_runtime list \<times> owned_runtime list \<times> wire_records"
    assume "length (snd (snd acc)) \<le> length records"
    with Suc restore_child_ends [of n "restore_runtime_tree ds targets rid n" acc c x]
    show "ends (?f c x acc) \<and>
        (\<forall>acc'. ?f c x acc = Ok acc' \<longrightarrow> length (snd (snd acc')) \<le> length records)"
      by fastforce
  qed simp
  then show ?case by (auto simp: obind_Ok_iff intro!: obind_not_out_of_fuel restore_runtime_ends)
qed simp

lemma collect_definitions_end [no_fuel]:
  "ends (collect_fingerprint R fingerprint ds)" "ends (collect_definition R d ds)"
proof -
  show f: "ends (collect_fingerprint R fingerprint ds)" for fingerprint ds
    by (simp add: collect_fingerprint_def split: option.splits)
  show "ends (collect_definition R d ds)"
    unfolding collect_definition_def by (auto intro!: obind_not_out_of_fuel f split: option.splits)
qed

lemma collect_runtimes_end [no_fuel]: "ends (collect_runtimes R ws ds)"
  by (induction ws arbitrary: ds) (auto intro!: no_fuel split: option.splits)

lemma restored_aggregate_ends: "ends (restored_aggregate G e ds r)"
  unfolding restored_aggregate_def Let_def by (auto intro!: no_fuel split: option.splits)

text \<open>
  C16: Restoring an aggregate always ends: whatever ownership the records of an envelope
  claim, cyclic or disconnected, the recursion over them stops within as many levels as there
  are records.
\<close>
theorem restore_envelope_ends: "restore_envelope G R e \<noteq> OutOfFuel"
proof -
  let ?records = "bm_of (map (\<lambda>w. (ww_runtime_id w, w)) (ae_runtimes e)) []"
  have tree: "ends (restore_runtime_tree ds targets rid (length ?records) w (bm_remove k ?records))"
    if "bm_get ?records k = Some w" for ds targets rid w k
    using restore_runtime_tree_ends length_bm_remove [OF that] by blast
  show ?thesis
    unfolding ends_def [symmetric] restore_envelope_def Let_def
    by (auto intro!: no_fuel restored_aggregate_ends collect_outcome_fuel tree split: option.splits simp del: bm_of.simps)
qed


section \<open>Round trips\<close>

lemma parse_counter_decimal [simp]: "parse_counter (canonical_decimal n) = Ok n"
  by (simp add: parse_counter_def)

text \<open>
  Every identity that can be retained survives the wire: targets, definition bindings
  and the faults recorded on a runtime are read back as they were written, and only the
  external target has no wire form.
\<close>
theorem identity_wire_roundtrip:
  "(t = External \<longleftrightarrow> target_to_wire t = Err InvalidAggregateState) \<and>
   obind (target_to_wire t) target_from_wire = (if t = External then Err InvalidAggregateState else Ok t) \<and>
   definition_from_wire (definition_to_wire d) = Ok d \<and> fault_from_wire (fault_to_wire f) = Ok f"
  by (cases t) (simp_all add: definition_from_wire_def definition_to_wire_def fault_from_wire_def fault_to_wire_def
      parse_signed_decimal)

lemma mset_bm_insert: "k \<notin> set (bm_keys m) \<Longrightarrow> mset (bm_insert k v m) = add_mset (k, v) (mset m)"
  by (induction m) auto

lemma mset_bm_of: "distinct (map fst es) \<Longrightarrow> fst ` set es \<inter> fst ` set m = {} \<Longrightarrow> mset (bm_of es m) = mset es + mset m"
proof (induction es arbitrary: m)
  case (Cons e es)
  then have "mset (bm_of es (bm_insert (fst e) (snd e) m)) = mset es + mset (bm_insert (fst e) (snd e) m)"
    by (intro Cons.IH) auto
  with Cons.prems show ?case by (simp add: mset_bm_insert)
qed simp

section \<open>Restoring keeps every record\<close>

text \<open>
  What is read from a record and not touched afterwards: a projection \<open>f\<close> of the restored core
  that agrees with the projection \<open>g\<close> of its record and does not depend on the relation.
\<close>

locale restored_projection =
  fixes f :: "runtime_core \<Rightarrow> 'x" and g :: "wire_runtime \<Rightarrow> 'x"
  assumes restored: "restore_runtime ds targets rid w = Ok c \<Longrightarrow> f c = g w"
    and relation: "f (c\<lparr>rc_relation := rel\<rparr>) = f c"
begin

definition tree_values :: "runtime_state \<Rightarrow> 'x multiset" where
  "tree_values r = mset (map f (tree_cores r))"

lemma tree_values_Runtime:
  "tree_values (Runtime c cs ws) =
     (\<Sum>x\<in>#mset cs. tree_values (cr_runtime x)) + (\<Sum>x\<in>#mset ws. tree_values (or_runtime x)) + {#f c#}"
proof -
  have "component_cores x = tree_cores (cr_runtime x)" for x by (cases x) simp
  moreover have "owned_cores x = tree_cores (or_runtime x)" for x by (cases x) simp
  ultimately show ?thesis
    by (simp add: tree_values_def mset_concat map_concat comp_def sum_mset_sum_list [symmetric])
qed

lemma tree_values_relation: "tree_values (with_core (\<lambda>c. c\<lparr>rc_relation := rel\<rparr>) r) = tree_values r"
  by (cases r) (simp add: with_core_def tree_values_Runtime relation)

lemma attach_keeps:
  "attach_component c child cid pointer seq index = Ok x \<Longrightarrow> tree_values (cr_runtime x) = tree_values child"
  "attach_spawned c child pointer seq holder = Ok y \<Longrightarrow> tree_values (or_runtime y) = tree_values child"
  by (cases "rt_relation child";
      auto simp: attach_component_def attach_spawned_def obind_Ok_iff tree_values_relation split: if_splits)+

definition records_values :: "wire_records \<Rightarrow> 'x multiset" where
  "records_values rs = mset (map (\<lambda>e. g (snd e)) rs)"

lemma records_values_remove:
  assumes "bm_wf rs" "bm_get rs k = Some w"
  shows "records_values rs = add_mset (g w) (records_values (bm_remove k rs))"
proof -
  have "filter (\<lambda>e. fst e = k) rs = [(k, w)]"
    using assms
  proof (induction rs)
    case (Cons e rs)
    have "filter (\<lambda>e. fst e = k) rs = []" if "fst e = k"
      using Cons.prems(1) that by (auto simp: bm_wf_Cons filter_empty_conv)
    with Cons show ?case by (cases e) (auto simp: bm_wf_Cons split: if_splits)
  qed simp
  then have "mset (filter (\<lambda>e. fst e = k) rs) = {#(k, w)#}" by simp
  moreover have "mset rs = filter_mset (\<lambda>e. fst e = k) (mset rs) + filter_mset (\<lambda>e. fst e \<noteq> k) (mset rs)"
    by (rule multiset_partition)
  ultimately have "mset rs = add_mset (k, w) (mset (bm_remove k rs))" by (simp add: bm_remove_def)
  then have "image_mset (\<lambda>e. g (snd e)) (mset rs) = image_mset (\<lambda>e. g (snd e)) (add_mset (k, w) (mset (bm_remove k rs)))"
    by simp
  then show ?thesis by (simp add: records_values_def)
qed

definition acc_values :: "component_runtime list \<times> owned_runtime list \<times> wire_records \<Rightarrow> 'x multiset" where
  "acc_values acc = (\<Sum>x\<in>#mset (fst acc). tree_values (cr_runtime x)) +
     (\<Sum>x\<in>#mset (fst (snd acc)). tree_values (or_runtime x)) + records_values (snd (snd acc))"

lemma restore_child_keeps:
  assumes restore: "\<And>w rs r rest. bm_wf rs \<Longrightarrow> restore w rs = Ok (r, rest) \<Longrightarrow>
      bm_wf rest \<and> tree_values r + records_values rest = add_mset (g w) (records_values rs)"
    and acc: "bm_wf (snd (snd acc))" "restore_child restore c k acc = Ok acc'"
  shows "bm_wf (snd (snd acc')) \<and> acc_values acc' = acc_values acc"
proof -
  obtain cs ws rs where a: "acc = (cs, ws, rs)" by (cases acc) auto
  obtain w r rest where w: "bm_get rs k = Some w" "restore w (bm_remove k rs) = Ok (r, rest)"
    using acc(2) by (auto simp: restore_child_def a obind_Ok_iff split: option.splits)
  from restore [OF _ w(2)] acc(1) a bm_wf_remove
  have kept: "bm_wf rest" "tree_values r + records_values rest = add_mset (g w) (records_values (bm_remove k rs))"
    by auto
  have rs: "records_values rs = tree_values r + records_values rest"
    using records_values_remove [OF _ w(1)] acc(1) a kept(2) by simp
  show ?thesis
    using acc(2) w kept(1) by (cases "ww_relation w")
      (auto simp: restore_child_def a obind_Ok_iff acc_values_def rs dest!: attach_keeps)
qed

lemma restore_children_keep:
  assumes restore: "\<And>w rs r rest. bm_wf rs \<Longrightarrow> restore w rs = Ok (r, rest) \<Longrightarrow>
      bm_wf rest \<and> tree_values r + records_values rest = add_mset (g w) (records_values rs)"
  shows "bm_wf (snd (snd acc)) \<Longrightarrow> ofold (restore_child restore c) ids acc = Ok acc' \<Longrightarrow>
    bm_wf (snd (snd acc')) \<and> acc_values acc' = acc_values acc"
proof (induction ids arbitrary: acc)
  case (Cons k ids)
  from Cons.prems(2) obtain acc1 where "restore_child restore c k acc = Ok acc1"
    "ofold (restore_child restore c) ids acc1 = Ok acc'" by (auto simp: obind_Ok_iff)
  with Cons.IH [of acc1] restore_child_keeps [OF restore Cons.prems(1)] show ?case by simp
qed simp

lemma restore_tree_keeps:
  "bm_wf records \<Longrightarrow> restore_runtime_tree ds targets rid n w records = Ok (r, rest) \<Longrightarrow>
     bm_wf rest \<and> tree_values r + records_values rest = add_mset (g w) (records_values records)"
proof (induction n arbitrary: w records r rest)
  case (Suc n)
  from Suc.prems(2) obtain c cs ws where c: "restore_runtime ds targets rid w = Ok c"
    and children: "ofold (restore_child (restore_runtime_tree ds targets rid n) c)
        (child_ids (ww_runtime_id w) records) ([], [], records) = Ok (cs, ws, rest)"
    and r: "r = Runtime c (sort_key (\<lambda>x. (cr_declaration_index x, cr_activation_sequence x)) cs)
        (sort_key or_spawn_sequence ws)"
    by (auto simp: obind_Ok_iff)
  from restore_children_keep [OF Suc.IH _ children] Suc.prems(1)
  have "bm_wf rest \<and> acc_values (cs, ws, rest) = acc_values ([], [], records)" by simp
  moreover have "tree_values r = (\<Sum>x\<in>#mset cs. tree_values (cr_runtime x)) +
      (\<Sum>x\<in>#mset ws. tree_values (or_runtime x)) + {#g w#}"
    using restored [OF c] by (simp add: r tree_values_Runtime)
  ultimately show ?case by (simp add: acc_values_def add_ac)
qed simp

lemma restore_envelope_keeps:
  assumes "restore_envelope G R e = Ok a" and "distinct (map ww_runtime_id (ae_runtimes e))"
  shows "mset (map f (tree_cores (ag_root a))) = mset (map g (ae_runtimes e))"
proof -
  define records where "records = bm_of (map (\<lambda>w. (ww_runtime_id w, w)) (ae_runtimes e)) []"
  have wf: "bm_wf records" unfolding records_def by (rule bm_wf_of) simp
  obtain ds targets rid n w where w: "bm_get records (ae_root_runtime_id e) = Some w"
    and tree: "restore_runtime_tree ds targets rid n w (bm_remove (ae_root_runtime_id e) records) = Ok (ag_root a, [])"
    using assms(1) unfolding restore_envelope_def Let_def records_def [symmetric]
    by (auto simp: obind_Ok_iff split: option.split_asm if_split_asm dest!: restored_aggregate_Ok)
  from restore_tree_keeps [OF bm_wf_remove [OF wf] tree] records_values_remove [OF wf w]
  have "tree_values (ag_root a) = records_values records" by (simp add: records_values_def)
  moreover have "mset records = mset (map (\<lambda>w. (ww_runtime_id w, w)) (ae_runtimes e))"
    unfolding records_def using assms(2) by (simp add: mset_bm_of comp_def del: bm_of.simps)
  then have "records_values records = mset (map g (ae_runtimes e))"
    unfolding records_values_def mset_map by (simp add: image_mset.compositionality comp_def)
  ultimately show ?thesis by (simp add: tree_values_def)
qed

end

interpretation restored_mailboxes: restored_projection
  "\<lambda>c. (rc_runtime_id c, rc_status c, rc_ready_mailbox c, rc_deferred_mailbox c)"
  "\<lambda>w. (ww_runtime_id w, ww_status w, ww_ready_mailbox w, ww_deferred_mailbox w)"
proof unfold_locales
  fix ds targets rid w c assume "restore_runtime ds targets rid w = Ok c"
  then show "(rc_runtime_id c, rc_status c, rc_ready_mailbox c, rc_deferred_mailbox c) =
      (ww_runtime_id w, ww_status w, ww_ready_mailbox w, ww_deferred_mailbox w)"
    unfolding restore_runtime_def by (auto simp: obind_Ok_iff split: if_splits)
qed simp

text \<open>
  C15: Restoring loses and duplicates no runtime and no queued event: when the runtime ids of the
  envelope are distinct, which every caller has checked, the restored tree holds
  one runtime for every record of the envelope, with the identity, the status and the two
  mailboxes of that record, and nothing else.
\<close>
theorem restore_keeps_records:
  assumes "restore_envelope G R e = Ok a" and "distinct (map ww_runtime_id (ae_runtimes e))"
  shows "mset (map (\<lambda>c. (rc_runtime_id c, rc_status c, rc_ready_mailbox c, rc_deferred_mailbox c)) (tree_cores (ag_root a))) =
    mset (map (\<lambda>w. (ww_runtime_id w, ww_status w, ww_ready_mailbox w, ww_deferred_mailbox w)) (ae_runtimes e))"
  using assms by (rule restored_mailboxes.restore_envelope_keeps)

end
