(* ===== verification/Mailbox_Step.thy ===== *)
theory Mailbox_Step
  imports Mailbox Restore
begin

text \<open>
  Integrity of the mailboxes of a document, and the operations of \<^verbatim>\<open>src/format1/v1.rs\<close> that
  run the runtime on it: taking the head of a ready mailbox, deferring and recalling entries,
  merging the stepped aggregate back into the document, disposing of the mailboxes of runtimes
  that are gone, and queueing what a step emitted.
\<close>

section \<open>Integrity\<close>

record mailbox_seen =
  sn_event_ids :: "string list"
  sn_acceptances :: "counter list"
  sn_queues :: "counter list"

definition integrity_entry ::
  "host \<Rightarrow> json \<Rightarrow> counter \<Rightarrow> counter \<Rightarrow> json \<Rightarrow> counter option \<times> mailbox_seen \<Rightarrow>
   (counter option \<times> mailbox_seen, string) outcome" where
  "integrity_entry H v next_acceptance next_queue entry acc =
     (let (previous, seen) = acc in
      obind (counter_value entry ''acceptance_sequence'') (\<lambda>acceptance.
      obind (counter_value entry ''queue_sequence'') (\<lambda>queue.
      if (case previous of None \<Rightarrow> False | Some prior \<Rightarrow> queue \<le> prior) \<or>
         next_acceptance \<le> acceptance \<or> next_queue \<le> queue
      then Err invalid_aggregate
      else
      obind (ok_or invalid_aggregate (jstr (jindex (jindex entry ''envelope'') ''event_id''))) (\<lambda>event_id.
      if event_id \<in> set (sn_event_ids seen) \<or> acceptance \<in> set (sn_acceptances seen) \<or> queue \<in> set (sn_queues seen)
      then Err invalid_aggregate
      else
      obind (ok_or invalid_aggregate (queue_envelope_of (jindex entry ''envelope''))) (\<lambda>q.
      obind (ok_or invalid_aggregate (jstr (jindex entry ''delivery_mode''))) (\<lambda>mode.
      obind (aggregate_root_instance_id v) (\<lambda>i.
      obind (envelope_digest H i mode q) (\<lambda>expected.
      if jstr (jindex entry ''envelope_digest'') \<noteq> Some expected then Err invalid_aggregate
      else Ok (Some queue, \<lparr>sn_event_ids = event_id # sn_event_ids seen,
                 sn_acceptances = acceptance # sn_acceptances seen, sn_queues = queue # sn_queues seen\<rparr>)))))))))"

definition integrity_mailbox ::
  "host \<Rightarrow> json \<Rightarrow> counter \<Rightarrow> counter \<Rightarrow> json \<Rightarrow> string \<Rightarrow> mailbox_seen \<Rightarrow> (mailbox_seen, string) outcome" where
  "integrity_mailbox H v next_acceptance next_queue r field seen =
     obind (mailbox_array field r) (\<lambda>entries.
     obind (ofold (integrity_entry H v next_acceptance next_queue) entries (None, seen)) (\<lambda>acc. Ok (snd acc)))"

definition integrity_runtime ::
  "host \<Rightarrow> json \<Rightarrow> counter \<Rightarrow> counter \<Rightarrow> json \<Rightarrow> string option \<times> mailbox_seen \<Rightarrow>
   (string option \<times> mailbox_seen, string) outcome" where
  "integrity_runtime H v next_acceptance next_queue r acc =
     (let (previous, seen) = acc in
      obind (ok_or invalid_aggregate (jstr (jindex r ''runtime_id''))) (\<lambda>rid.
      if (case previous of None \<Rightarrow> False | Some p \<Rightarrow> rid \<le> p) then Err invalid_aggregate
      else
      obind (integrity_mailbox H v next_acceptance next_queue r ''ready_mailbox'' seen) (\<lambda>seen1.
      obind (integrity_mailbox H v next_acceptance next_queue r ''deferred_mailbox'' seen1) (\<lambda>seen2.
        Ok (Some rid, seen2)))))"

definition validate_mailbox_integrity :: "host \<Rightarrow> json \<Rightarrow> (unit, string) outcome" where
  "validate_mailbox_integrity H v =
     obind (counter_value v ''next_acceptance_sequence'') (\<lambda>next_acceptance.
     obind (counter_value v ''next_queue_sequence'') (\<lambda>next_queue.
     obind (runtimes v) (\<lambda>rs.
     obind (ofold (integrity_runtime H v next_acceptance next_queue) rs
              (None, \<lparr>sn_event_ids = [], sn_acceptances = [], sn_queues = []\<rparr>)) (\<lambda>_. Ok ()))))"

section \<open>Queue operations\<close>

text \<open>\<^verbatim>\<open>map[field].as_array_mut()\<close> on the members of a record: an absent member panics.\<close>

definition mailbox_slot :: "string \<Rightarrow> json \<Rightarrow> (json list, string) outcome" where
  "mailbox_slot field r =
     (case jget r field of None \<Rightarrow> Panic | Some x \<Rightarrow> ok_or invalid_aggregate (jarray x))"

definition push_slot :: "string \<Rightarrow> json list \<Rightarrow> json \<Rightarrow> (json \<times> unit, string) outcome" where
  "push_slot field entries r =
     obind (mailbox_slot field r) (\<lambda>es. Ok (jput field (JArray (es @ entries)) r, ()))"

definition remove_ready_head :: "json \<Rightarrow> string \<Rightarrow> (json \<times> json, string) outcome" where
  "remove_ready_head v rid =
     runtime_object_mut v rid (\<lambda>r.
       obind (mailbox_slot ''ready_mailbox'' r) (\<lambda>es.
         case es of [] \<Rightarrow> Err invalid_aggregate
         | e # rest \<Rightarrow> Ok (jput ''ready_mailbox'' (JArray rest) r, e)))"

text \<open>
  The inner loop of \<^verbatim>\<open>recall_deferred\<close>: the entries that are eligible get a new queue
  sequence and are collected apart.
\<close>

fun recall_entries ::
  "runtime_state \<Rightarrow> json \<Rightarrow> json list \<Rightarrow> (json \<times> json list \<times> json list, string) outcome" where
  "recall_entries r v [] = Ok (v, [], [])"
| "recall_entries r v (entry # entries) =
     obind (ok_or invalid_aggregate (jstr (jindex (jindex entry ''envelope'') ''event''))) (\<lambda>event.
     obind (structural_recall_eligible r event) (\<lambda>eligible.
     if eligible
     then obind (allocate_counter v ''next_queue_sequence'') (\<lambda>(v1, queue).
          obind (recall_entries r v1 entries) (\<lambda>(v2, retained, recalled).
            Ok (v2, retained, jput ''queue_sequence'' (JString (canonical_decimal queue)) entry # recalled)))
     else obind (recall_entries r v entries) (\<lambda>(v2, retained, recalled).
            Ok (v2, entry # retained, recalled))))"

definition recall_runtime :: "native_aggregate \<Rightarrow> string \<Rightarrow> json \<Rightarrow> (json, string) outcome" where
  "recall_runtime a rid v =
     (case runtime_by_id rid (ag_root a) of
        None \<Rightarrow> Ok v
      | Some r \<Rightarrow>
          if rt_status r \<noteq> Running then Ok v
          else
          obind (runtime_object_mut v rid (\<lambda>x. obind (mailbox_slot ''deferred_mailbox'' x) (\<lambda>es.
                   Ok (jput ''deferred_mailbox'' (JArray []) x, es)))) (\<lambda>(v1, frozen).
          obind (recall_entries r v1 frozen) (\<lambda>(v2, retained, recalled).
          obind (runtime_object_mut v2 rid (\<lambda>x. Ok (jput ''deferred_mailbox'' (JArray retained) x, ()))) (\<lambda>(v3, _).
          obind (runtime_object_mut v3 rid (push_slot ''ready_mailbox'' recalled)) (\<lambda>(v4, _). Ok v4)))))"

definition recall_deferred :: "json \<Rightarrow> native_aggregate \<Rightarrow> (json, string) outcome" where
  "recall_deferred v a =
     obind (runtimes v) (\<lambda>rs.
       ofold (recall_runtime a) (List.map_filter (\<lambda>r. jstr (jindex r ''runtime_id'')) rs) v)"

definition lifecycle_disposition :: "json \<Rightarrow> string \<Rightarrow> string \<Rightarrow> json" where
  "lifecycle_disposition entry rid reason =
     jobj [(''event_id'', jindex (jindex entry ''envelope'') ''event_id''),
           (''request_digest'', jindex entry ''envelope_digest''),
           (''acceptance_sequence'', jindex entry ''acceptance_sequence''),
           (''final_queue_sequence'', jindex entry ''queue_sequence''),
           (''target_runtime_id'', JString rid), (''reason'', JString reason)]"

definition is_causal_entry :: "string \<Rightarrow> json \<Rightarrow> bool" where
  "is_causal_entry event_id entry \<longleftrightarrow> jstr (jindex (jindex entry ''envelope'') ''event_id'') = Some event_id"

definition document_runtime_ids :: "json \<Rightarrow> (string list, string) outcome" where
  "document_runtime_ids v =
     obind (runtimes v) (\<lambda>rs. Ok (List.map_filter (\<lambda>r. jstr (jindex r ''runtime_id'')) rs))"

definition dispose_runtime ::
  "string list \<Rightarrow> string list \<Rightarrow> runtime_status \<Rightarrow> string \<Rightarrow> json \<Rightarrow> json \<times> json list \<Rightarrow> (json \<times> json list, string) outcome" where
  "dispose_runtime retained_ids completed_ids root_status causal_event_id r acc =
     (let (new, dispositions) = acc in
      obind (ok_or invalid_aggregate (jstr (jindex r ''runtime_id''))) (\<lambda>rid.
      if rid \<in> set retained_ids \<and> root_status \<noteq> Completed then Ok (new, dispositions)
      else
      let reason = (if root_status = Completed then ''aggregate_completed''
                    else if rid \<in> set completed_ids then ''runtime_completed'' else ''runtime_cancelled'') in
      obind (if rid \<in> set retained_ids
             then obind (runtimes new) (\<lambda>rs. Ok (case find (has_runtime_id rid) rs of Some x \<Rightarrow> x | None \<Rightarrow> r))
             else Ok r) (\<lambda>source.
      obind (mailbox_array ''ready_mailbox'' source) (\<lambda>ready.
      obind (mailbox_array ''deferred_mailbox'' source) (\<lambda>deferred.
      let disposed = map (\<lambda>entry. lifecycle_disposition entry rid reason)
            (filter (\<lambda>entry. \<not> is_causal_entry causal_event_id entry) (ready @ deferred)) in
      if rid \<in> set retained_ids
      then obind (runtime_object_mut new rid (\<lambda>x. Ok (jput ''deferred_mailbox'' (JArray [])
                    (jput ''ready_mailbox'' (JArray []) x), ()))) (\<lambda>(new', _).
             Ok (new', dispositions @ disposed))
      else Ok (new, dispositions @ disposed))))))"

definition dispose_removed_mailboxes ::
  "json \<Rightarrow> json \<Rightarrow> emission list \<Rightarrow> runtime_status \<Rightarrow> string \<Rightarrow> (json \<times> json list, string) outcome" where
  "dispose_removed_mailboxes old new emissions root_status causal_event_id =
     obind (document_runtime_ids new) (\<lambda>retained_ids.
     let completed_ids = map em_emitting_runtime_id
           (filter (\<lambda>em. em_event em = ''determa.component_completed'') emissions) in
     obind (runtimes old) (\<lambda>rs.
       ofold (dispose_runtime retained_ids completed_ids root_status causal_event_id) rs (new, [])))"

section \<open>Emissions\<close>

definition find_runtime :: "json \<Rightarrow> string \<Rightarrow> json option" where
  "find_runtime v rid = Option.bind (jarray (jindex v ''runtimes'')) (find (has_runtime_id rid))"

definition runtime_target_of :: "json \<Rightarrow> string \<Rightarrow> json option" where
  "runtime_target_of v rid = map_option (\<lambda>r. jindex r ''target_identity'') (find_runtime v rid)"

definition runtime_status_of :: "json \<Rightarrow> string \<Rightarrow> string option" where
  "runtime_status_of v rid = Option.bind (find_runtime v rid) (\<lambda>r. jstr (jindex r ''status''))"

fun internal_target_id :: "target \<Rightarrow> string option" where
  "internal_target_id (RootTarget _ rid) = Some rid"
| "internal_target_id (ComponentPlacement _ _ _ rid _) = Some rid"
| "internal_target_id (SpawnedTarget rf) = Some (ref_instance_id rf)"
| "internal_target_id External = None"

definition emission_envelope :: "json \<Rightarrow> json \<Rightarrow> emission \<Rightarrow> (queue_envelope, string) outcome" where
  "emission_envelope v old em =
     obind (ok_or invalid_aggregate (em_event_id em)) (\<lambda>event_id.
     obind (ok_or invalid_aggregate (em_cause_id em)) (\<lambda>cause_id.
     obind (case em_system_source em of
              Some locator \<Rightarrow> Ok (jobj [(''system'', JString locator)])
            | None \<Rightarrow>
                (case (case runtime_target_of v (em_emitting_runtime_id em) of
                         Some t \<Rightarrow> Some t | None \<Rightarrow> runtime_target_of old (em_emitting_runtime_id em)) of
                   Some t \<Rightarrow> Ok (jobj [(''runtime'', t)]) | None \<Rightarrow> Err invalid_aggregate)) (\<lambda>source.
       Ok \<lparr>qe_event = em_event em, qe_event_id = event_id, qe_cause_id = cause_id, qe_source = source,
           qe_target = core_target_to_queue (em_target em),
           qe_payload = typed_from_value (VMap (em_payload em)),
           qe_correlation_id = em_correlation_id em\<rparr>)))"

definition option_string :: "string option \<Rightarrow> json" where
  "option_string = option_json JString"

definition effect_result :: "emission \<Rightarrow> json" where
  "effect_result em =
     jobj [(''effect_id'', option_string (em_effect_id em)),
           (''sequence'', option_json (\<lambda>c. JString (canonical_decimal c)) (em_sequence em)),
           (''event'', JString (em_event em)),
           (''payload'', projection (typed_from_value (VMap (em_payload em)))),
           (''correlation_id'', option_string (em_correlation_id em))]"

definition append_emission ::
  "host \<Rightarrow> json \<Rightarrow> emission \<Rightarrow> json \<times> json list \<times> json list \<Rightarrow> (json \<times> json list \<times> json list, string) outcome" where
  "append_emission H old em acc =
     (let (v, results, lifecycle) = acc in
      if em_target em = External then Ok (v, results @ [effect_result em], lifecycle)
      else
      obind (emission_envelope v old em) (\<lambda>q.
      obind (allocate_counter v ''next_acceptance_sequence'') (\<lambda>(v1, acceptance).
      obind (allocate_counter v1 ''next_queue_sequence'') (\<lambda>(v2, queue).
      obind (aggregate_root_instance_id v2) (\<lambda>i.
      obind (envelope_digest H i ''internal'' q) (\<lambda>digest.
      let entry = mailbox_entry acceptance queue ''internal'' (queue_envelope_json q) digest in
      obind (ok_or invalid_aggregate (internal_target_id (em_target em))) (\<lambda>rid.
      if runtime_status_of v2 rid \<in> {Some ''running'', Some ''faulted''} \<and> aggregate_status v2 \<noteq> Ok ''completed''
      then obind (runtime_object_mut v2 rid (push_slot ''ready_mailbox'' [entry])) (\<lambda>(v3, _).
             Ok (v3, results @ [jobj [(''kind'', JString ''internal_mailbox''),
                        (''emission_index'', JString (decimal (em_emission_index em))),
                        (''event_id'', JString (qe_event_id q)),
                        (''acceptance_sequence'', JString (canonical_decimal acceptance)),
                        (''queue_sequence'', JString (canonical_decimal queue))]], lifecycle))
      else
      obind (if jstr (jindex v2 ''root_runtime_id'') = Some rid
             then obind (aggregate_status v2) (\<lambda>st. Ok (st = ''completed'')) else Ok False) (\<lambda>root_completed.
      let reason = (if root_completed then ''aggregate_completed''
                    else if runtime_status_of v2 rid = Some ''completed'' then ''runtime_completed''
                    else ''runtime_cancelled'') in
      Ok (v2, results @ [jobj [(''kind'', JString ''internal_disposed''),
                 (''emission_index'', JString (decimal (em_emission_index em))),
                 (''event_id'', JString (qe_event_id q)),
                 (''acceptance_sequence'', JString (canonical_decimal acceptance)),
                 (''lifecycle_disposition_index'', JString (decimal (length lifecycle)))]],
          lifecycle @ [lifecycle_disposition entry rid reason])))))))))"

definition append_step_emissions ::
  "host \<Rightarrow> json \<Rightarrow> json \<Rightarrow> emission list \<Rightarrow> json list \<Rightarrow> (json \<times> json list \<times> json list, string) outcome" where
  "append_step_emissions H v old emissions lifecycle =
     ofold (append_emission H old) emissions (v, [], lifecycle)"

section \<open>Merging\<close>

text \<open>
  \<^verbatim>\<open>copy_runtime_mailboxes\<close>: every runtime takes the mailboxes of its record; a runtime
  without a record must have none.
\<close>

definition copied_core :: "wire_runtime list \<Rightarrow> runtime_core \<Rightarrow> (runtime_core, string) outcome" where
  "copied_core ws c =
     (case find (\<lambda>w. ww_runtime_id w = rc_runtime_id c) ws of
        Some w \<Rightarrow> Ok (c\<lparr>rc_ready_mailbox := ww_ready_mailbox w, rc_deferred_mailbox := ww_deferred_mailbox w\<rparr>)
      | None \<Rightarrow>
          if rc_ready_mailbox c \<noteq> [] \<or> rc_deferred_mailbox c \<noteq> [] then Err invalid_aggregate else Ok c)"

primrec copy_runtime_mailboxes :: "wire_runtime list \<Rightarrow> runtime_state \<Rightarrow> (runtime_state, string) outcome"
  and copy_component_mailboxes :: "wire_runtime list \<Rightarrow> component_runtime \<Rightarrow> (component_runtime, string) outcome"
  and copy_owned_mailboxes :: "wire_runtime list \<Rightarrow> owned_runtime \<Rightarrow> (owned_runtime, string) outcome"
where
  "copy_runtime_mailboxes wires (Runtime c cs ws) =
     obind (copied_core wires c) (\<lambda>c'.
     obind (collect_outcome (map (copy_component_mailboxes wires) cs)) (\<lambda>cs'.
     obind (collect_outcome (map (copy_owned_mailboxes wires) ws)) (\<lambda>ws'. Ok (Runtime c' cs' ws'))))"
| "copy_component_mailboxes wires (ComponentRuntime cid p i seq r) =
     obind (copy_runtime_mailboxes wires r) (\<lambda>r'. Ok (ComponentRuntime cid p i seq r'))"
| "copy_owned_mailboxes wires (OwnedRuntime seq hp hptr ha rf r) =
     obind (copy_runtime_mailboxes wires r) (\<lambda>r'. Ok (OwnedRuntime seq hp hptr ha rf r'))"

definition copy_wire_mailboxes :: "native_aggregate \<Rightarrow> aggregate_envelope \<Rightarrow> (native_aggregate, string) outcome" where
  "copy_wire_mailboxes a e =
     obind (ok_or invalid_aggregate (from_decimal (ae_next_acceptance_sequence e))) (\<lambda>acceptance.
     obind (ok_or invalid_aggregate (from_decimal (ae_next_queue_sequence e))) (\<lambda>queue.
     obind (copy_runtime_mailboxes (ae_runtimes e) (ag_root a)) (\<lambda>r.
       Ok (a\<lparr>ag_root := r, ag_next_acceptance_sequence := acceptance, ag_next_queue_sequence := queue\<rparr>))))"

definition map_persistence :: "('a, persistence_error) outcome \<Rightarrow> ('a, string) outcome" where
  "map_persistence x =
     (case x of Ok a \<Rightarrow> Ok a | Err e \<Rightarrow> Err (persistence_error_str e) | Panic \<Rightarrow> Panic | OutOfFuel \<Rightarrow> OutOfFuel)"

text \<open>
  \<^verbatim>\<open>sync_native_mailboxes\<close> and \<^verbatim>\<open>merge_native_state\<close>: both take the counters and mailboxes of
  the aggregate from a document; the second then writes the aggregate as a new document.
\<close>

definition sync_native_mailboxes :: "native_aggregate \<Rightarrow> (native_aggregate, string) outcome" where
  "sync_native_mailboxes a =
     obind (ok_or invalid_aggregate (envelope_of (ag_document a))) (\<lambda>e. copy_wire_mailboxes a e)"

definition merge_native_state ::
  "host \<Rightarrow> compiled_bundle \<Rightarrow> json \<Rightarrow> native_aggregate \<Rightarrow> (json, string) outcome" where
  "merge_native_state H B old a =
     obind (ok_or invalid_aggregate (envelope_of old)) (\<lambda>retained.
     obind (copy_wire_mailboxes a retained) (\<lambda>a'.
     obind (map_persistence (encode_aggregate H B a')) (\<lambda>e.
       seal_aggregate H (envelope_json e))))"

section \<open>Steps\<close>

definition core_step_result ::
  "json \<Rightarrow> string \<Rightarrow> json list \<Rightarrow> json list \<Rightarrow> json option \<Rightarrow> json option \<Rightarrow> (json, string) outcome" where
  "core_step_result state disposition emissions lifecycle fault rejection =
     obind (aggregate_status state) (\<lambda>status.
       Ok (jobj [(''core_step_result_format'', JString ''determa.core_step_result''),
                 (''core_step_result_schema_version'', JNumber (PosInt 1)), (''status'', JString status),
                 (''disposition'', JString disposition), (''state'', state), (''emissions'', JArray emissions),
                 (''lifecycle_dispositions'', JArray lifecycle), (''fault'', option_json id fault),
                 (''rejection'', option_json id rejection)]))"

definition core_step_rejected :: "native_aggregate \<Rightarrow> string \<Rightarrow> (json, string) outcome" where
  "core_step_rejected a code =
     core_step_result (ag_document a) ''rejected'' [] [] None (Some (jobj [(''code'', JString code)]))"

definition fault_json :: "fault_record \<Rightarrow> json" where
  "fault_json f = wire_fault_json (fault_to_wire f)"

text \<open>What follows the runtime's step: the document of the stepped aggregate.\<close>

definition settle_step ::
  "host \<Rightarrow> compiled_bundle \<Rightarrow> native_aggregate \<Rightarrow> string \<Rightarrow> string \<Rightarrow> native_aggregate \<Rightarrow> emission list \<Rightarrow>
   (json \<times> json list \<times> json list, string) outcome" where
  "settle_step H B a rid causal_event_id state emissions =
     obind (remove_ready_head (ag_document a) rid) (\<lambda>(retained, _).
     obind (merge_native_state H B retained state) (\<lambda>v.
     obind (dispose_removed_mailboxes (ag_document a) v emissions (rt_status (ag_root state)) causal_event_id)
       (\<lambda>(v1, lifecycle).
     append_step_emissions H v1 (ag_document a) emissions lifecycle)))"

definition defer_head :: "host \<Rightarrow> native_aggregate \<Rightarrow> string \<Rightarrow> (json, string) outcome" where
  "defer_head H a rid =
     obind (remove_ready_head (ag_document a) rid) (\<lambda>(v, entry).
     obind (allocate_counter v ''next_queue_sequence'') (\<lambda>(v1, queue).
     let entry1 = jput ''queue_sequence'' (JString (canonical_decimal queue)) entry in
     obind (counter_value entry1 ''deferral_count'') (\<lambda>deferrals.
     let entry2 = jput ''deferral_count'' (JString (canonical_decimal (snd (allocate deferrals)))) entry1 in
     obind (runtime_object_mut v1 rid (push_slot ''deferred_mailbox'' [entry2])) (\<lambda>(v2, _).
       seal_aggregate H v2))))"

text \<open>\<^verbatim>\<open>deferred_len >= usize::try_from(capacity).unwrap_or(0)\<close>.\<close>

definition capacity_exceeded :: "i64 option \<Rightarrow> nat \<Rightarrow> bool" where
  "capacity_exceeded capacity deferred_len \<longleftrightarrow>
     (case capacity of None \<Rightarrow> False | Some c \<Rightarrow> nat (sint c) \<le> deferred_len)"

definition lift_core :: "('a, step_fault) outcome \<Rightarrow> ('a, string) outcome" where
  "lift_core x = (case x of Ok a \<Rightarrow> Ok a | Err _ \<Rightarrow> Panic | Panic \<Rightarrow> Panic | OutOfFuel \<Rightarrow> OutOfFuel)"

definition deferred_step ::
  "host \<Rightarrow> compiled_bundle \<Rightarrow> native_aggregate \<Rightarrow> string \<Rightarrow> json \<Rightarrow> admission_delivery \<Rightarrow> envelope \<Rightarrow>
   (json \<times> string list, string) outcome" where
  "deferred_step H B a rid r d e =
     obind (ok_or invalid_aggregate (runtime_by_id rid (ag_root a))) (\<lambda>runtime_state.
     obind (mailbox_array ''deferred_mailbox'' r) (\<lambda>deferred.
     obind (deferred_event_capacity runtime_state) (\<lambda>capacity.
     if capacity_exceeded capacity (length deferred)
     then
       obind (lift_core (fault_deferred_capacity (ho_engine H) B a e)) (\<lambda>faulted.
       obind (ok_or invalid_aggregate (res_state faulted)) (\<lambda>state.
       obind (settle_step H B a rid (qe_event_id (ad_envelope d)) state (res_emissions faulted))
         (\<lambda>(v, emission_results, lifecycle).
       obind (seal_aggregate H v) (\<lambda>v'.
       obind (core_step_result v' ''faulted'' emission_results lifecycle
                (map_option fault_json (res_fault faulted)) None) (\<lambda>result.
         Ok (result, map (\<lambda>em. decimal (em_emission_index em)) (res_emissions faulted)))))))
     else
       obind (defer_head H a rid) (\<lambda>v.
       obind (core_step_result v ''deferred'' [] [] None None) (\<lambda>result. Ok (result, []))))))"

text \<open>
  \<^verbatim>\<open>step_v1_impl\<close>; the second component is what \<^verbatim>\<open>step_v1_with_emission_indexes\<close> reports.
\<close>

definition step_v1_impl ::
  "host \<Rightarrow> nat \<Rightarrow> compiled_bundle \<Rightarrow> native_aggregate \<Rightarrow> string \<Rightarrow> (json \<times> string list, string) outcome" where
  "step_v1_impl H n B a rid =
     (case ho_check_bundle H B of
        Some code \<Rightarrow> Err code
      | None \<Rightarrow>
     obind (aggregate_status (ag_document a)) (\<lambda>root_status.
     if jstr (jindex (ag_document a) ''validated_bundle_fingerprint'') \<noteq> Some (b_fingerprint B)
     then obind (core_step_rejected a ''incompatible_bundle'') (\<lambda>x. Ok (x, []))
     else
     obind (runtimes (ag_document a)) (\<lambda>rs.
     case find (has_runtime_id rid) rs of
       None \<Rightarrow> obind (core_step_rejected a ''invalid_instance_target'') (\<lambda>x. Ok (x, []))
     | Some r \<Rightarrow>
         if root_status = ''faulted'' \<or> jstr (jindex r ''status'') \<noteq> Some ''running''
         then obind (core_step_rejected a
                (if root_status \<noteq> ''faulted'' \<and> jstr (jindex (jindex r ''relation'') ''kind'') = Some ''component''
                 then ''inactive_component_target'' else ''invalid_instance_target'')) (\<lambda>x. Ok (x, []))
         else
         obind (mailbox_array ''ready_mailbox'' r) (\<lambda>ready.
         case ready of
           [] \<Rightarrow> obind (core_step_result (ag_document a) ''not_runnable'' [] [] None None) (\<lambda>x. Ok (x, []))
         | causal_entry # _ \<Rightarrow>
             obind (entry_delivery causal_entry) (\<lambda>d.
             obind (core_delivery d) (\<lambda>core.
             obind (lift_core (step_native_aggregate (ho_engine H) n B a (Some core))) (\<lambda>res.
             if res_disposition res = Some DispDeferred
             then deferred_step H B a rid r d (snd (delivery_parts core))
             else
             obind (ok_or invalid_aggregate (res_state res)) (\<lambda>state.
             obind (settle_step H B a rid (qe_event_id (ad_envelope d)) state (res_emissions res))
               (\<lambda>(v, emission_results, lifecycle).
             obind (if res_disposition res = Some DispHandled \<and> rt_status (ag_root state) = Running
                    then recall_deferred v state else Ok v) (\<lambda>v1.
             obind (seal_aggregate H v1) (\<lambda>v2.
             obind (core_step_result v2
                      (case res_disposition res of Some dp \<Rightarrow> disposition_str dp | None \<Rightarrow> ''handled'')
                      emission_results lifecycle (map_option fault_json (res_fault res))
                      (map_option (\<lambda>code. jobj [(''code'', JString code)]) (res_rejection res))) (\<lambda>result.
               Ok (result, map (\<lambda>em. decimal (em_emission_index em)) (res_emissions res))))))))))))))"

definition step_v1 :: "host \<Rightarrow> nat \<Rightarrow> compiled_bundle \<Rightarrow> native_aggregate \<Rightarrow> string \<Rightarrow> (json, string) outcome" where
  "step_v1 H n B a rid = obind (step_v1_impl H n B a rid) (\<lambda>x. Ok (fst x))"

section \<open>Creation\<close>

record create_evidence =
  ce_aggregate :: native_aggregate
  ce_status :: string
  ce_emissions :: "json list"
  ce_emission_indexes :: "string list"
  ce_lifecycle_dispositions :: "json list"
  ce_fault :: "json option"

definition create_v1_with_evidence ::
  "host \<Rightarrow> nat \<Rightarrow> compiled_bundle \<Rightarrow> string \<Rightarrow> string \<Rightarrow> string \<Rightarrow> bindings \<Rightarrow> (create_evidence, string) outcome" where
  "create_v1_with_evidence H n B machine_id root_instance_id creation_id b =
     (case ho_check_bundle H B of
        Some code \<Rightarrow> Err code
      | None \<Rightarrow>
     obind (lift_core (create_native_aggregate (ho_engine H) n B machine_id root_instance_id creation_id b)) (\<lambda>res.
     if res_status res = StatusRejected
     then Err (case res_rejection res of None \<Rightarrow> ''invalid_creation_request'' | Some code \<Rightarrow> code)
     else
     obind (ok_or invalid_aggregate (res_state res)) (\<lambda>a.
     obind (map_persistence (encode_aggregate H B a)) (\<lambda>e.
     obind (append_step_emissions H (envelope_json e) (envelope_json e) (res_emissions res) [])
       (\<lambda>(v, references, lifecycle).
     obind (seal_aggregate H v) (\<lambda>v'.
     obind (sync_native_mailboxes (a\<lparr>ag_document := v'\<rparr>)) (\<lambda>a'.
       Ok \<lparr>ce_aggregate = a',
           ce_status = (case res_status res of StatusRunning \<Rightarrow> ''running'' | StatusCompleted \<Rightarrow> ''completed''
                        | _ \<Rightarrow> ''faulted''),
           ce_emissions = references,
           ce_emission_indexes = map (\<lambda>em. decimal (em_emission_index em)) (res_emissions res),
           ce_lifecycle_dispositions = lifecycle,
           ce_fault = map_option fault_json (res_fault res)\<rparr>)))))))"

definition create_v1 ::
  "host \<Rightarrow> nat \<Rightarrow> compiled_bundle \<Rightarrow> string \<Rightarrow> string \<Rightarrow> string \<Rightarrow> bindings \<Rightarrow> (native_aggregate, string) outcome" where
  "create_v1 H n B machine_id root_instance_id creation_id b =
     obind (create_v1_with_evidence H n B machine_id root_instance_id creation_id b) (\<lambda>ev. Ok (ce_aggregate ev))"

section \<open>Restoring documents\<close>

primrec collect_bundle_fingerprints :: "json \<Rightarrow> string list" where
  "collect_bundle_fingerprints JNull = []"
| "collect_bundle_fingerprints (JBool _) = []"
| "collect_bundle_fingerprints (JNumber _) = []"
| "collect_bundle_fingerprints (JString _) = []"
| "collect_bundle_fingerprints (JArray js) = concat (map collect_bundle_fingerprints js)"
| "collect_bundle_fingerprints (JObject ms) =
     (case bm_get ms ''validated_bundle_fingerprint'' of Some (JString s) \<Rightarrow> [s] | _ \<Rightarrow> []) @
     concat (map (\<lambda>e. snd e) (map (map_prod id collect_bundle_fingerprints) ms))"


definition wire_relation_valid :: "string \<Rightarrow> string \<Rightarrow> string list \<Rightarrow> json \<Rightarrow> (unit, string) outcome" where
  "wire_relation_valid root_instance_id root_runtime_id runtime_ids r =
     obind (ok_or invalid_aggregate (jstr (jindex r ''runtime_id''))) (\<lambda>rid.
     obind (ok_or invalid_aggregate (jstr (jindex (jindex r ''relation'') ''kind''))) (\<lambda>kind.
     obind (ok_or invalid_aggregate (jobject (jindex r ''target_identity''))) (\<lambda>t.
     if kind = ''root'' then
       obind (ok_or invalid_aggregate (Option.bind (bm_get t ''root'') jobject)) (\<lambda>ms.
         if rid \<noteq> root_runtime_id \<or> jfield ms ''root_runtime_id'' jstr \<noteq> Some rid \<or>
            jfield ms ''root_instance_id'' jstr \<noteq> Some root_instance_id
         then Err invalid_aggregate else Ok ())
     else if kind = ''component'' then
       obind (ok_or invalid_aggregate (Option.bind (bm_get t ''component'') jobject)) (\<lambda>ms.
       obind (ok_or invalid_aggregate (jstr (jindex (jindex r ''relation'') ''owner_runtime_id''))) (\<lambda>owner.
         if owner \<notin> set runtime_ids \<or> jfield ms ''component_runtime_id'' jstr \<noteq> Some rid \<or>
            jfield ms ''owner_runtime_id'' jstr \<noteq> Some owner \<or>
            jfield ms ''root_instance_id'' jstr \<noteq> Some root_instance_id \<or>
            bm_get ms ''activation_sequence'' \<noteq> jget (jindex r ''relation'') ''activation_sequence''
         then Err invalid_aggregate else Ok ()))
     else if kind = ''owned_spawned_instance'' then
       obind (ok_or invalid_aggregate (Option.bind (bm_get t ''spawned_instance'') jobject)) (\<lambda>ms.
       obind (ok_or invalid_aggregate (jstr (jindex (jindex r ''relation'') ''owner_runtime_id''))) (\<lambda>owner.
         if owner \<notin> set runtime_ids \<or> jfield ms ''instance_id'' jstr \<noteq> Some rid \<or>
            jfield ms ''root_instance_id'' jstr \<noteq> Some root_instance_id
         then Err invalid_aggregate else Ok ()))
     else Err invalid_aggregate)))"

definition validate_wire_runtime_relations :: "json \<Rightarrow> (unit, string) outcome" where
  "validate_wire_runtime_relations v =
     obind (aggregate_root_instance_id v) (\<lambda>root_instance_id.
     obind (ok_or invalid_aggregate (jstr (jindex v ''root_runtime_id''))) (\<lambda>root_runtime_id.
     obind (runtimes v) (\<lambda>rs.
       ofold (\<lambda>r _. wire_relation_valid root_instance_id root_runtime_id
                (List.map_filter (\<lambda>x. jstr (jindex x ''runtime_id'')) rs) r) rs ())))"

definition validate_aggregate_artifact_value :: "host \<Rightarrow> json \<Rightarrow> (unit, string) outcome" where
  "validate_aggregate_artifact_value H v =
     (case jobject v of
        None \<Rightarrow> Err invalid_aggregate
      | Some ms \<Rightarrow>
          if jfield ms ''aggregate_state_format'' jstr \<noteq> Some ''determa.aggregate_state''
          then Err ''unsupported_aggregate_state_format''
          else if jfield ms ''aggregate_state_schema_version'' ji64 \<noteq> Some 1
          then Err ''unsupported_aggregate_state_schema_version''
          else if \<not> ho_aggregate_schema H v then Err invalid_aggregate
          else
          obind (v1_aggregate_digest H v) (\<lambda>expected.
          if jfield ms ''aggregate_state_digest'' jstr \<noteq> Some expected
          then Err ''aggregate_state_digest_mismatch''
          else obind (validate_mailbox_integrity H v) (\<lambda>_. validate_wire_runtime_relations v)))"

definition validate_restored_source :: "string \<Rightarrow> queue_envelope \<Rightarrow> json \<Rightarrow> (unit, string) outcome" where
  "validate_restored_source mode q aggregate =
     (case jobject (qe_source q) of
        None \<Rightarrow> Err invalid_aggregate
      | Some source \<Rightarrow>
          obind (if mode = ''input''
                 then Ok (length source = 1 \<and> jtrue (bm_get source ''host'') \<and> qe_cause_id q = qe_event_id q)
                 else if mode = ''internal'' then internal_source_known source (qe_event q) aggregate
                 else Ok False) (\<lambda>valid. if valid then Ok () else Err invalid_aggregate))"

definition mailbox_entry_semantics ::
  "json \<Rightarrow> native_aggregate \<Rightarrow> runtime_state \<Rightarrow> compiled_bundle \<Rightarrow> json \<Rightarrow> (unit, string) outcome" where
  "mailbox_entry_semantics v a r B entry =
     obind (ok_or invalid_aggregate (queue_envelope_of (jindex entry ''envelope''))) (\<lambda>q.
     obind (ok_or invalid_aggregate (jstr (jindex entry ''delivery_mode''))) (\<lambda>mode.
     obind (queue_target_to_core (qe_target q)) (\<lambda>t.
     if t \<noteq> rc_target_identity (rt_core r) then Err invalid_aggregate
     else
     obind (validate_restored_source mode q v) (\<lambda>_.
     obind (ok_or invalid_aggregate (jstr (jindex entry ''envelope_digest''))) (\<lambda>digest.
     obind (core_delivery \<lparr>ad_delivery_mode = mode, ad_envelope = q, ad_envelope_digest = digest\<rparr>) (\<lambda>d.
     case validate_queued_event_for_migration B a d of
       Ok _ \<Rightarrow> Ok () | Err _ \<Rightarrow> Err invalid_aggregate | Panic \<Rightarrow> Panic | OutOfFuel \<Rightarrow> OutOfFuel))))))"

definition runtime_mailbox_semantics ::
  "json \<Rightarrow> native_aggregate \<Rightarrow> resolver \<Rightarrow> json \<Rightarrow> unit \<Rightarrow> (unit, string) outcome" where
  "runtime_mailbox_semantics v a R x _ =
     obind (ok_or invalid_aggregate (jstr (jindex x ''runtime_id''))) (\<lambda>rid.
     obind (ok_or invalid_aggregate (runtime_by_id rid (ag_root a))) (\<lambda>r.
     let fingerprint = db_validated_bundle_fingerprint (rc_current_definition (rt_core r)) in
     obind (ok_or invalid_aggregate (R fingerprint)) (\<lambda>rd.
     if \<not> rd_trusted rd \<or> b_fingerprint (rd_bundle rd) \<noteq> fingerprint then Err invalid_aggregate
     else
     obind (mailbox_array ''ready_mailbox'' x) (\<lambda>ready.
     obind (ofold (\<lambda>entry _. mailbox_entry_semantics v a r (rd_bundle rd) entry) ready ()) (\<lambda>_.
     obind (mailbox_array ''deferred_mailbox'' x) (\<lambda>deferred.
       ofold (\<lambda>entry _. mailbox_entry_semantics v a r (rd_bundle rd) entry) deferred ()))))))"

definition validate_mailbox_semantics :: "json \<Rightarrow> native_aggregate \<Rightarrow> resolver \<Rightarrow> (unit, string) outcome" where
  "validate_mailbox_semantics v a R =
     obind (runtimes v) (\<lambda>rs. ofold (runtime_mailbox_semantics v a R) rs ())"

definition restore_aggregate_v1_value ::
  "host \<Rightarrow> resolver \<Rightarrow> json \<Rightarrow> (native_aggregate, string) outcome" where
  "restore_aggregate_v1_value H R v =
     obind (validate_aggregate_artifact_value H v) (\<lambda>_.
     obind (ofold (\<lambda>fingerprint _.
              case R fingerprint of
                None \<Rightarrow> Ok ()
              | Some rd \<Rightarrow>
                  if rd_trusted rd \<and> b_fingerprint (rd_bundle rd) = fingerprint
                  then (case ho_check_bundle H (rd_bundle rd) of None \<Rightarrow> Ok () | Some code \<Rightarrow> Err code)
                  else Ok ()) (bs_of (collect_bundle_fingerprints v)) ()) (\<lambda>_.
     obind (ok_or invalid_aggregate (envelope_of v)) (\<lambda>e.
     obind (map_persistence (restore_envelope (ho_engine H) R e)) (\<lambda>a.
     obind (validate_mailbox_semantics v a R) (\<lambda>_. Ok (a\<lparr>ag_document := v\<rparr>))))))"

end
