(* ===== verification/Migration.thy ===== *)
theory Migration
  imports Cel_Types Mailbox_Step
begin

text \<open>
  Migration of an aggregate to another bundle (\<^verbatim>\<open>src/format1/migration.rs\<close>): requests and
  limits, descriptors and their digests, the shape of a bundle, the static checks of a descriptor, and
  the transformation of every runtime record along a route of descriptors.
\<close>

section \<open>Requests, limits and artifacts\<close>

record resource_limits =
  maximum_aggregate_bytes :: counter
  maximum_definition_bytes :: counter
  maximum_descriptor_bytes :: counter
  maximum_transformed_output_bytes :: counter
  maximum_json_nesting_depth :: counter
  maximum_runtimes :: counter
  maximum_active_states_per_runtime :: counter
  maximum_variables_per_runtime :: counter
  maximum_map_members :: counter
  maximum_list_members :: counter
  maximum_string_utf8_bytes :: counter
  maximum_chain_length :: counter
  maximum_descriptor_rules :: counter
  maximum_cel_expression_length :: counter
  maximum_cel_ast_nodes :: counter
  maximum_cel_evaluation_steps :: counter

definition default_limits :: resource_limits where
  "default_limits = \<lparr>maximum_aggregate_bytes = 1048576, maximum_definition_bytes = 1048576,
     maximum_descriptor_bytes = 65536, maximum_transformed_output_bytes = 65536, maximum_json_nesting_depth = 64,
     maximum_runtimes = 256, maximum_active_states_per_runtime = 1024, maximum_variables_per_runtime = 4096,
     maximum_map_members = 4096, maximum_list_members = 4096, maximum_string_utf8_bytes = 65536,
     maximum_chain_length = 8, maximum_descriptor_rules = 1024, maximum_cel_expression_length = 65536,
     maximum_cel_ast_nodes = 65536, maximum_cel_evaluation_steps = 1000000\<rparr>"

record migration_request =
  mr_migration_route :: "string list"
  mr_target_fingerprint :: string
  mr_maintenance_mode :: bool

definition jbool :: "json \<Rightarrow> bool option" where
  "jbool j = (case j of JBool b \<Rightarrow> Some b | _ \<Rightarrow> None)"

definition migration_request_of :: "json \<Rightarrow> (migration_request, persistence_error) outcome" where
  "migration_request_of v =
     obind (ok_or InvalidMigrationRequest (jobject v)) (\<lambda>ms.
     if set (map fst ms) \<noteq> {''maintenance_mode'', ''migration_route'', ''target_validated_bundle_fingerprint''}
     then Err InvalidMigrationRequest
     else
     obind (ok_or InvalidMigrationRequest (jarray (jindex v ''migration_route''))) (\<lambda>route.
     obind (ok_or InvalidMigrationRequest (collect_option (map jstr route))) (\<lambda>digests.
     obind (ok_or InvalidMigrationRequest (jstr (jindex v ''target_validated_bundle_fingerprint''))) (\<lambda>target_fingerprint.
     obind (ok_or InvalidMigrationRequest (jbool (jindex v ''maintenance_mode''))) (\<lambda>maintenance.
       Ok \<lparr>mr_migration_route = digests, mr_target_fingerprint = target_fingerprint, mr_maintenance_mode = maintenance\<rparr>)))))"

record migration_audit_record =
  ma_schema_version :: i64
  ma_root_instance_id :: string
  ma_root_runtime_id :: string
  ma_migration_sequence :: string
  ma_source_fingerprint :: string
  ma_target_fingerprint :: string
  ma_descriptor_digest :: string
  ma_source_digest :: string
  ma_target_digest :: string
  ma_result_code :: string

record migration_outcome =
  mo_aggregate :: native_aggregate
  mo_envelope :: aggregate_envelope
  mo_audit_records :: "migration_audit_record list"

text \<open>
  The resolver of artifacts, with the two third-party functions that reading an artifact needs: the
  reader of JSON text and the JSON-schema validator of descriptors.
\<close>

record resolved_migration_descriptor =
  rm_bytes :: string
  rm_trusted :: bool

record artifact_resolver =
  ar_definition :: resolver
  ar_descriptor :: "string \<Rightarrow> resolved_migration_descriptor option"

record artifact_codec =
  ac_parse :: "string \<Rightarrow> json option"
  ac_descriptor_schema :: "json \<Rightarrow> bool"

type_synonym in_memory_descriptors = "(string, resolved_migration_descriptor) btree_map"

definition insert_descriptor :: "string \<Rightarrow> string \<Rightarrow> bool \<Rightarrow> in_memory_descriptors \<Rightarrow> bool \<times> in_memory_descriptors" where
  "insert_descriptor digest bytes trusted m =
     (if bm_has m digest then (False, m) else (True, bm_insert digest \<lparr>rm_bytes = bytes, rm_trusted = trusted\<rparr> m))"

definition in_memory_artifacts :: "in_memory_resolver \<Rightarrow> in_memory_descriptors \<Rightarrow> artifact_resolver" where
  "in_memory_artifacts definitions descriptors =
     \<lparr>ar_definition = resolve_definition definitions, ar_descriptor = bm_get descriptors\<rparr>"

definition require_within :: "nat \<Rightarrow> counter \<Rightarrow> (unit, persistence_error) outcome" where
  "require_within n maximum = (if n \<le> maximum then Ok () else Err MigrationResourceLimitExceeded)"

definition require_work :: "nat \<Rightarrow> counter \<Rightarrow> counter \<Rightarrow> (unit, persistence_error) outcome" where
  "require_work n configured declared = obind (require_within n configured) (\<lambda>_. require_within n declared)"

definition rule_string :: "json \<Rightarrow> string \<Rightarrow> (string, persistence_error) outcome" where
  "rule_string v name = ok_or InvalidMigrationDescriptor (Option.bind (jget v name) jstr)"

definition rule_array :: "(string \<times> json) list \<Rightarrow> string \<Rightarrow> (json list, persistence_error) outcome" where
  "rule_array mappings name = ok_or InvalidMigrationDescriptor (Option.bind (bm_get mappings name) jarray)"

definition rule_mappings :: "json \<Rightarrow> ((string \<times> json) list, persistence_error) outcome" where
  "rule_mappings descriptor = ok_or InvalidMigrationDescriptor (jobject (jindex descriptor ''mappings''))"

text \<open>The role of a definition decides how its absence is reported.\<close>

datatype definition_role = SourceRole | TargetRole

definition resolve_role :: "artifact_resolver \<Rightarrow> string \<Rightarrow> definition_role \<Rightarrow> (compiled_bundle, persistence_error) outcome" where
  "resolve_role R fingerprint role =
     obind (ok_or (case role of SourceRole \<Rightarrow> SourceDefinitionUnavailable | TargetRole \<Rightarrow> TargetDefinitionUnavailable)
              (ar_definition R fingerprint)) (\<lambda>resolved.
     if \<not> rd_trusted resolved then Err DefinitionUntrusted
     else if b_fingerprint (rd_bundle resolved) \<noteq> fingerprint then Err DefinitionFingerprintMismatch
     else Ok (rd_bundle resolved))"

definition descriptor_digest :: "host \<Rightarrow> json \<Rightarrow> (string, persistence_error) outcome" where
  "descriptor_digest H v =
     obind (expect (jobject v)) (\<lambda>ms.
       jcs_hash H (JArray [JString ''determa-migration-descriptor-1'', JObject (bm_remove ''migration_descriptor_digest'' ms)]))"

definition decode_descriptor ::
  "host \<Rightarrow> artifact_codec \<Rightarrow> string \<Rightarrow> string option \<Rightarrow> resource_limits \<Rightarrow> (json, persistence_error) outcome" where
  "decode_descriptor H A source expected limits =
     obind (require_within (length source) (maximum_descriptor_bytes limits)) (\<lambda>_.
     obind (ok_or InvalidMigrationDescriptor (ac_parse A source)) (\<lambda>v.
     obind (ok_or InvalidMigrationDescriptor (jobject v)) (\<lambda>ms.
     if jfield ms ''migration_descriptor_format'' jstr \<noteq> Some ''determa.aggregate_migration''
     then Err UnsupportedMigrationDescriptorFormat
     else if jfield ms ''migration_descriptor_schema_version'' ji64 \<noteq> Some 1
     then Err UnsupportedMigrationDescriptorSchemaVersion
     else if \<not> ac_descriptor_schema A v then Err InvalidMigrationDescriptor
     else
     obind (descriptor_digest H v) (\<lambda>computed.
     obind (rule_string v ''migration_descriptor_digest'') (\<lambda>declared.
     let wanted = (case expected of None \<Rightarrow> declared | Some e \<Rightarrow> e) in
     if computed \<noteq> wanted \<or> declared \<noteq> wanted then Err InvalidMigrationDescriptor else Ok v)))))"

definition resolve_descriptor ::
  "host \<Rightarrow> artifact_codec \<Rightarrow> artifact_resolver \<Rightarrow> string \<Rightarrow> resource_limits \<Rightarrow> (json, persistence_error) outcome" where
  "resolve_descriptor H A R digest limits =
     obind (ok_or MigrationRouteMismatch (ar_descriptor R digest)) (\<lambda>resolved.
     if \<not> rm_trusted resolved then Err MigrationDescriptorUntrusted
     else decode_descriptor H A (rm_bytes resolved) (Some digest) limits)"

section \<open>The shape of a bundle\<close>

definition variable_pointer :: "state \<Rightarrow> string \<Rightarrow> string" where
  "variable_pointer s name = s_pointer s @ ''/variables/'' @ escape_pointer name"

primrec variable_pointer_from :: "machine \<Rightarrow> nat \<Rightarrow> string \<Rightarrow> string \<Rightarrow> (string option, persistence_error) outcome" where
  "variable_pointer_from m 0 name path = OutOfFuel"
| "variable_pointer_from m (Suc n) name path =
     obind (state_at m path) (\<lambda>s.
       if bm_has (s_variables s) name then Ok (Some (variable_pointer s name))
       else (case s_parent s of None \<Rightarrow> Ok None | Some parent \<Rightarrow> variable_pointer_from m n name parent))"

definition variable_pointer_in_scope :: "machine \<Rightarrow> string \<Rightarrow> string \<Rightarrow> (string option, persistence_error) outcome" where
  "variable_pointer_in_scope m path name = variable_pointer_from m (walk_fuel m) name path"

definition state_actions :: "state \<Rightarrow> compiled_action list" where
  "state_actions s =
     s_entry s @ s_exit s @ (case s_initial s of None \<Rightarrow> [] | Some i \<Rightarrow> ci_action i) @
     concat (map ct_action (concat (bm_values (s_handlers s)))) @
     (case s_choice s of None \<Rightarrow> [] | Some cs \<Rightarrow> concat (map cc_action cs))"

definition spawn_site :: "machine \<Rightarrow> state \<Rightarrow> compiled_action \<Rightarrow> (json list, persistence_error) outcome" where
  "spawn_site m s action =
     (case ca_kind action of
        Spawn machine_id _ bind_to \<Rightarrow>
          obind (case bind_to of None \<Rightarrow> Ok None | Some name \<Rightarrow> variable_pointer_in_scope m (s_path s) name) (\<lambda>holder.
            Ok [jobj [(''action_pointer'', JString (ca_pointer action @ ''/spawn'')), (''machine_id'', JString machine_id),
                      (''holder_variable_declaration_pointer'', option_string holder)]])
      | _ \<Rightarrow> Ok [])"

definition collect_spawn_sites :: "machine \<Rightarrow> state \<Rightarrow> (json list, persistence_error) outcome" where
  "collect_spawn_sites m s = obind (collect_outcome (map (spawn_site m s) (state_actions s))) (\<lambda>sites. Ok (concat sites))"

definition text_key :: "string \<Rightarrow> json \<Rightarrow> string" where
  "text_key name v = (case jstr (jindex v name) of Some s \<Rightarrow> s | None \<Rightarrow> [])"

fun kind_str :: "state_kind \<Rightarrow> string" where
  "kind_str KindSimple = ''simple''"
| "kind_str KindComposite = ''composite''"
| "kind_str KindParallel = ''parallel''"
| "kind_str KindFinal = ''final''"
| "kind_str KindChoice = ''choice''"

fun history_str :: "history_kind \<Rightarrow> string" where
  "history_str HistoryNone = ''none''"
| "history_str HistoryShallow = ''shallow''"
| "history_str HistoryDeep = ''deep''"

definition variable_shape :: "state \<Rightarrow> string \<times> variable_declaration \<Rightarrow> json" where
  "variable_shape s nd =
     (let (name, d) = nd in
      jobj ([(''declaration_pointer'', JString (variable_pointer s name)), (''type'', JString (vd_value_type d)),
             (''nullable'', JBool (vd_value_type d = ''instance_reference'' \<and> vd_nullable d = Some True)),
             (''input'', JBool (vd_input d)), (''external'', JBool (vd_external d))] @
            (case vd_machine_id d of None \<Rightarrow> [] | Some machine_id \<Rightarrow> [(''machine_id'', JString machine_id)])))"

definition optional_array :: "string \<Rightarrow> json list \<Rightarrow> (string \<times> json) list" where
  "optional_array name items = (if items = [] then [] else [(name, JArray items)])"

primrec state_shape :: "nat \<Rightarrow> machine \<Rightarrow> state \<Rightarrow> (json, persistence_error) outcome" where
  "state_shape 0 m s = OutOfFuel"
| "state_shape (Suc n) m s =
     obind (collect_outcome (map (\<lambda>path. obind (state_at m path) (state_shape n m)) (s_children s))) (\<lambda>children.
     obind (collect_outcome (map (\<lambda>c.
         obind (case c_definition c of
                  DefMachine machine_id \<Rightarrow> Ok (''machine_id'', JString machine_id)
                | DefInline inline \<Rightarrow> obind (state_at inline root_path) (\<lambda>inner.
                    obind (state_shape n inline inner) (\<lambda>shape. Ok (''inline_root'', shape)))) (\<lambda>body.
           Ok (jobj [(''declaration_pointer'', JString (c_pointer c)),
                     (''declaration_index'', JNumber (PosInt (of_nat (c_declaration_index c)))),
                     (''component_id'', JString (c_component_id c)), body]))) (s_components s))) (\<lambda>components.
     obind (collect_spawn_sites m s) (\<lambda>sites.
       Ok (jobj ([(''definition_pointer'', JString (s_pointer s)), (''type'', JString (kind_str (s_kind s)))] @
                 (if s_kind s = KindComposite then [(''history'', JString (history_str (s_history s)))] else []) @
                 optional_array ''variables'' (sort_key (text_key ''declaration_pointer'') (map (variable_shape s) (s_variables s))) @
                 optional_array ''states'' (sort_key (text_key ''definition_pointer'') children) @
                 optional_array ''components'' components @
                 optional_array ''spawn_sites'' (sort_key (text_key ''action_pointer'') sites))))))"

text \<open>The nesting of states is bounded by their number, inline machines included.\<close>

primrec machine_states :: "machine \<Rightarrow> nat"
  and state_states :: "state \<Rightarrow> nat"
  and component_states :: "component \<Rightarrow> nat"
  and definition_states :: "component_definition \<Rightarrow> nat"
where
  "machine_states (Machine mid version index events states ptr meta providers) =
     sum_list (map snd (map (map_prod id state_states) states))"
| "state_states (State path ptr parent kind vars en ex ini children components handlers
       deferred capacity history choice) = 1 + sum_list (map component_states components)"
| "component_states (Component cid i ptr def b) = definition_states def"
| "definition_states (DefMachine _) = 0"
| "definition_states (DefInline m) = machine_states m"

definition machine_shape :: "compiled_bundle \<Rightarrow> string \<Rightarrow> (json, persistence_error) outcome" where
  "machine_shape B machine_id =
     obind (expect (bm_get (b_machines B) machine_id)) (\<lambda>m.
     obind (state_at m root_path) (\<lambda>s.
     obind (state_shape (Suc (machine_states m)) m s) (\<lambda>shape.
       Ok (jobj [(''machine_id'', JString (m_machine_id m)), (''version'', JNumber (number_of_i64 (m_version m))),
                 (''root'', shape)]))))"

definition aggregate_shape_fingerprint :: "host \<Rightarrow> compiled_bundle \<Rightarrow> (string, persistence_error) outcome" where
  "aggregate_shape_fingerprint H B =
     obind (collect_outcome (map (machine_shape B) (b_machine_order B))) (\<lambda>machines.
       jcs_hash H (JArray [JString ''determa-aggregate-shape-fingerprint-1'',
         typed_projection (jobj [(''format'', JNumber (PosInt 1)), (''namespace'', JString (b_namespace B)),
                                 (''machines'', JArray machines)])]))"

section \<open>Static checks of a descriptor\<close>

definition find_bundle_variable :: "compiled_bundle \<Rightarrow> string \<Rightarrow> variable_declaration option" where
  "find_bundle_variable B pointer =
     find_map (\<lambda>m. map_option (\<lambda>(_, _, d). d) (find_variable_by_pointer m pointer)) (bm_values (b_machines B))"

definition cel_source :: "nat \<Rightarrow> string" where
  "cel_source i = ''source_'' @ decimal i"

definition source_type :: "compiled_bundle \<Rightarrow> nat \<times> json \<Rightarrow> type_environment \<Rightarrow> (type_environment, persistence_error) outcome" where
  "source_type B ip env =
     obind (ok_or InvalidMigrationDescriptor (jstr (snd ip))) (\<lambda>pointer.
     obind (ok_or InvalidMigrationDescriptor (find_bundle_variable B pointer)) (\<lambda>d.
     if vd_value_type d = ''instance_reference'' then Err InvalidMigrationDescriptor
     else Ok (bm_insert (cel_source (fst ip)) (declared_type (vd_value_type d) (vd_machine_id d)) env)))"

definition source_environment :: "compiled_bundle \<Rightarrow> json \<Rightarrow> string \<Rightarrow> (type_environment, persistence_error) outcome" where
  "source_environment B rule operation =
     (if operation \<noteq> ''transform'' then Ok []
      else
      obind (ok_or InvalidMigrationDescriptor (jarray (jindex rule ''source_declaration_pointers''))) (\<lambda>pointers.
        ofold (source_type B) (enumerate 0 pointers) []))"

definition validate_expression ::
  "engine \<Rightarrow> compiled_bundle \<Rightarrow> compiled_bundle \<Rightarrow> nat \<times> json \<Rightarrow> unit \<Rightarrow> (unit, persistence_error) outcome" where
  "validate_expression G source_bundle target_bundle indexed _ =
     (let (index, rule) = indexed in
      obind (rule_string rule ''operation'') (\<lambda>operation.
      if operation \<noteq> ''transform'' \<and> operation \<noteq> ''initialize'' then Ok ()
      else
      obind (rule_string rule ''target_declaration_pointer'') (\<lambda>pointer.
      obind (ok_or InvalidMigrationDescriptor (find_bundle_variable target_bundle pointer)) (\<lambda>d.
      if vd_value_type d = ''instance_reference'' then Err InvalidMigrationDescriptor
      else
      obind (source_environment source_bundle rule operation) (\<lambda>env.
      obind (rule_string rule ''expression'') (\<lambda>expression.
      case check G expression (''/mappings/variables/'' @ decimal index @ ''/expression'') env
             (declared_type (vd_value_type d) (vd_machine_id d)) of
        Ok _ \<Rightarrow> Ok ()
      | Err _ \<Rightarrow> Err InvalidMigrationDescriptor
      | Panic \<Rightarrow> Panic
      | OutOfFuel \<Rightarrow> OutOfFuel))))))"

definition validate_migration_expressions ::
  "engine \<Rightarrow> json \<Rightarrow> compiled_bundle \<Rightarrow> compiled_bundle \<Rightarrow> (unit, persistence_error) outcome" where
  "validate_migration_expressions G descriptor source_bundle target_bundle =
     obind (rule_mappings descriptor) (\<lambda>mappings.
     obind (rule_array mappings ''variables'') (\<lambda>rules.
       ofold (validate_expression G source_bundle target_bundle) (enumerate 0 rules) ()))"

definition validate_descriptor_definitions ::
  "host \<Rightarrow> json \<Rightarrow> compiled_bundle \<Rightarrow> compiled_bundle \<Rightarrow> (unit, persistence_error) outcome" where
  "validate_descriptor_definitions H descriptor source_bundle target_bundle =
     obind (rule_string descriptor ''source_validated_bundle_fingerprint'') (\<lambda>sf.
     if sf \<noteq> b_fingerprint source_bundle then Err MigrationRouteMismatch
     else
     obind (rule_string descriptor ''target_validated_bundle_fingerprint'') (\<lambda>tf.
     if tf \<noteq> b_fingerprint target_bundle then Err MigrationRouteMismatch
     else
     obind (aggregate_shape_fingerprint H source_bundle) (\<lambda>source_shape.
     obind (aggregate_shape_fingerprint H target_bundle) (\<lambda>target_shape.
     obind (rule_string descriptor ''source_aggregate_shape_fingerprint'') (\<lambda>declared_source.
     if declared_source \<noteq> source_shape then Err InvalidMigrationDescriptor
     else
     obind (rule_string descriptor ''target_aggregate_shape_fingerprint'') (\<lambda>declared_target.
     if declared_target \<noteq> target_shape then Err InvalidMigrationDescriptor
     else
     obind (rule_string descriptor ''mode'') (\<lambda>mode.
     if mode = ''compatible'' \<and> source_shape \<noteq> target_shape then Err InvalidMigrationDescriptor
     else validate_migration_expressions (ho_engine H) descriptor source_bundle target_bundle)))))))"

text \<open>The dimensions of a document (\<^verbatim>\<open>strict_json::statistics\<close>).\<close>

record json_statistics =
  js_depth :: nat
  js_maximum_map_members :: nat
  js_maximum_list_members :: nat
  js_maximum_string_bytes :: nat

definition seen_depth :: "nat \<Rightarrow> json_statistics \<Rightarrow> json_statistics" where
  "seen_depth d st = js_depth_update (\<lambda>n. max n d) st"

definition seen_string :: "string \<Rightarrow> json_statistics \<Rightarrow> json_statistics" where
  "seen_string s st = js_maximum_string_bytes_update (\<lambda>n. max n (length s)) st"

primrec visit_json :: "json \<Rightarrow> nat \<Rightarrow> json_statistics \<Rightarrow> json_statistics" where
  "visit_json JNull d st = seen_depth d st"
| "visit_json (JBool b) d st = seen_depth d st"
| "visit_json (JNumber n) d st = seen_depth d st"
| "visit_json (JString s) d st = seen_string s (seen_depth d st)"
| "visit_json (JArray js) d st =
     fold (\<lambda>visit st. visit (d + 1) st) (map visit_json js)
       (js_maximum_list_members_update (\<lambda>n. max n (length js)) (seen_depth d st))"
| "visit_json (JObject ms) d st =
     fold (\<lambda>(name, visit) st. visit (d + 1) (seen_string name st)) (map (map_prod id visit_json) ms)
       (js_maximum_map_members_update (\<lambda>n. max n (length ms)) (seen_depth d st))"

definition json_statistics_of :: "json \<Rightarrow> json_statistics" where
  "json_statistics_of v =
     visit_json v 1 \<lparr>js_depth = 0, js_maximum_map_members = 0, js_maximum_list_members = 0, js_maximum_string_bytes = 0\<rparr>"

definition enforce_statistics :: "json \<Rightarrow> resource_limits \<Rightarrow> (unit, persistence_error) outcome" where
  "enforce_statistics v limits =
     (let st = json_statistics_of v in
      obind (require_within (js_depth st) (maximum_json_nesting_depth limits)) (\<lambda>_.
      obind (require_within (js_maximum_map_members st) (maximum_map_members limits)) (\<lambda>_.
      obind (require_within (js_maximum_list_members st) (maximum_list_members limits)) (\<lambda>_.
        require_within (js_maximum_string_bytes st) (maximum_string_utf8_bytes limits)))))"

definition enforce_definition_limits :: "host \<Rightarrow> compiled_bundle \<Rightarrow> resource_limits \<Rightarrow> (unit, persistence_error) outcome" where
  "enforce_definition_limits H B limits =
     obind (ok_or MigrationTotalityFailure (ho_canonical_text H (typed_projection (b_normalized B)))) (\<lambda>bytes.
     obind (require_within (length bytes) (maximum_definition_bytes limits)) (\<lambda>_.
       enforce_statistics (b_normalized B) limits))"

definition enforce_runtime_limits :: "resource_limits \<Rightarrow> wire_runtime \<Rightarrow> unit \<Rightarrow> (unit, persistence_error) outcome" where
  "enforce_runtime_limits limits w _ =
     obind (require_within (length (ww_active_state_activations w)) (maximum_active_states_per_runtime limits)) (\<lambda>_.
       require_within (length (ww_variables w)) (maximum_variables_per_runtime limits))"

definition enforce_aggregate_limits :: "aggregate_envelope \<Rightarrow> resource_limits \<Rightarrow> (unit, persistence_error) outcome" where
  "enforce_aggregate_limits e limits =
     obind (require_within (length (ae_runtimes e)) (maximum_runtimes limits)) (\<lambda>_.
     obind (ofold (enforce_runtime_limits limits) (ae_runtimes e) ()) (\<lambda>_.
       enforce_statistics (envelope_json e) limits))"

definition descriptor_rules :: "json \<Rightarrow> nat" where
  "descriptor_rules descriptor =
     (case jobject (jindex descriptor ''mappings'') of
        None \<Rightarrow> usize_max
      | Some ms \<Rightarrow> sum_list (map (\<lambda>v. case jarray v of None \<Rightarrow> 0 | Some rules \<Rightarrow> length rules) (map snd ms)))"

definition enforce_descriptor_rules :: "json \<Rightarrow> resource_limits \<Rightarrow> (unit, persistence_error) outcome" where
  "enforce_descriptor_rules descriptor limits = require_within (descriptor_rules descriptor) (maximum_descriptor_rules limits)"

definition enforce_terminal_policy :: "aggregate_envelope \<Rightarrow> json \<Rightarrow> (unit, persistence_error) outcome" where
  "enforce_terminal_policy e descriptor =
     obind (ok_or MigrationTotalityFailure
              (find (\<lambda>w. ww_runtime_id w = ae_root_runtime_id e) (ae_runtimes e))) (\<lambda>w.
     let preserved = (\<lambda>policy. jindex (jindex descriptor ''terminal_policy'') policy = JString ''preserve'') in
     case ww_status w of
       Running \<Rightarrow> Ok ()
     | Completed \<Rightarrow> if preserved ''completed'' then Ok () else Err TerminalMigrationRejected
     | Faulted \<Rightarrow> if preserved ''faulted'' then Ok () else Err TerminalMigrationRejected)"

section \<open>Mapping rules\<close>

definition matching_rules :: "json list \<Rightarrow> string \<Rightarrow> string \<Rightarrow> json list" where
  "matching_rules rules source_name pointer = filter (\<lambda>rule. Option.bind (jget rule source_name) jstr = Some pointer) rules"

definition unique_rule :: "json list \<Rightarrow> string \<Rightarrow> string \<Rightarrow> (json, persistence_error) outcome" where
  "unique_rule rules source_name pointer =
     (case matching_rules rules source_name pointer of [rule] \<Rightarrow> Ok rule | _ \<Rightarrow> Err MigrationTotalityFailure)"

definition unique_pointer_mapping :: "json list \<Rightarrow> string \<Rightarrow> string \<Rightarrow> string \<Rightarrow> (string, persistence_error) outcome" where
  "unique_pointer_mapping rules source_name target_name pointer =
     obind (unique_rule rules source_name pointer) (\<lambda>rule. rule_string rule target_name)"

definition map_machine_root :: "(string \<times> json) list \<Rightarrow> string \<Rightarrow> (string, persistence_error) outcome" where
  "map_machine_root mappings source_root =
     obind (rule_array mappings ''machines'') (\<lambda>machines.
     case matching_rules machines ''source_definition_pointer'' source_root of
       [rule] \<Rightarrow> rule_string rule ''target_definition_pointer''
     | _ \<Rightarrow>
         (case strip_end ''/root'' source_root of
            None \<Rightarrow> Err MigrationTotalityFailure
          | Some component_pointer \<Rightarrow>
              obind (rule_array mappings ''components'') (\<lambda>components.
              case matching_rules components ''source_component_definition_pointer'' component_pointer of
                [rule] \<Rightarrow> obind (rule_string rule ''target_component_definition_pointer'') (\<lambda>p. Ok (p @ ''/root''))
              | _ \<Rightarrow> Err MigrationTotalityFailure)))"

definition migrate_holder :: "json list \<Rightarrow> wire_lifetime_holder \<Rightarrow> (wire_lifetime_holder, persistence_error) outcome" where
  "migrate_holder rules holder =
     obind (unique_pointer_mapping rules ''source_variable_declaration_pointer'' ''target_variable_declaration_pointer''
              (wl_variable_declaration_pointer holder)) (\<lambda>pointer.
       Ok (holder\<lparr>wl_variable_declaration_pointer := pointer\<rparr>))"

fun migrate_relation :: "(string \<times> json) list \<Rightarrow> wire_relation \<Rightarrow> (wire_relation, persistence_error) outcome" where
  "migrate_relation mappings WireRelRoot = Ok WireRelRoot"
| "migrate_relation mappings (WireRelComponent owner component_id pointer activation index) =
     obind (rule_array mappings ''components'') (\<lambda>rules.
     obind (unique_rule rules ''source_component_definition_pointer'' pointer) (\<lambda>rule.
     obind (rule_string rule ''target_component_definition_pointer'') (\<lambda>pointer'.
     obind (rule_string rule ''target_component_id'') (\<lambda>component_id'.
       Ok (WireRelComponent owner component_id' pointer' activation index)))))"
| "migrate_relation mappings (WireRelSpawned owner pointer sequence holder) =
     obind (rule_array mappings ''owned_runtimes'') (\<lambda>rules.
     obind (unique_pointer_mapping rules ''source_spawn_action_pointer'' ''target_spawn_action_pointer'' pointer) (\<lambda>pointer'.
     case holder of
       None \<Rightarrow> Ok (WireRelSpawned owner pointer' sequence None)
     | Some h \<Rightarrow>
         obind (rule_array mappings ''lifetime_holders'') (\<lambda>holders.
         obind (migrate_holder holders h) (\<lambda>h'. Ok (WireRelSpawned owner pointer' sequence (Some h'))))))"

definition map_leaf :: "json list \<Rightarrow> string \<Rightarrow> (string list, persistence_error) outcome" where
  "map_leaf rules leaf =
     (case matching_rules rules ''source_leaf_state_definition_pointer'' leaf of
        [] \<Rightarrow> Err MigrationTotalityFailure
      | [rule] \<Rightarrow>
          obind (ok_or InvalidMigrationDescriptor (jarray (jindex rule ''target_leaf_state_definition_pointers''))) (\<lambda>leaves.
            ok_or InvalidMigrationDescriptor (collect_option (map jstr leaves)))
      | _ \<Rightarrow> Err InvalidMigrationDescriptor)"

definition map_active_leaves :: "string list \<Rightarrow> json list \<Rightarrow> (string list, persistence_error) outcome" where
  "map_active_leaves leaves rules =
     obind (collect_outcome (map (map_leaf rules) leaves)) (\<lambda>mapped.
     let output = sort (concat mapped) in
     if distinct output then Ok output else Err MigrationTotalityFailure)"

definition map_counter_pointer :: "json list \<Rightarrow> string \<Rightarrow> (string, persistence_error) outcome" where
  "map_counter_pointer rules pointer =
     (case matching_rules rules ''source_definition_pointer'' pointer of
        [rule] \<Rightarrow>
          obind (rule_string rule ''operation'') (\<lambda>operation.
          if operation \<noteq> ''map'' then Err MigrationTotalityFailure
          else rule_string rule ''target_definition_pointer'')
      | _ \<Rightarrow> Err MigrationTotalityFailure)"

definition activation_key :: "wire_state_activation \<Rightarrow> string \<times> nat \<times> string" where
  "activation_key a = (wa_state_definition_pointer a, decimal_key (wa_activation_sequence a))"

definition map_activations ::
  "json list \<Rightarrow> wire_state_activation list \<Rightarrow> (wire_state_activation list, persistence_error) outcome" where
  "map_activations rules activations =
     obind (collect_outcome (map (\<lambda>a. obind (map_counter_pointer rules (wa_state_definition_pointer a)) (\<lambda>p.
              Ok (a\<lparr>wa_state_definition_pointer := p\<rparr>))) activations)) (\<lambda>mapped.
       Ok (sort_key activation_key mapped))"

definition migrate_counter :: "json list \<Rightarrow> wire_next_counter \<Rightarrow> (wire_next_counter, persistence_error) outcome" where
  "migrate_counter rules c =
     (case matching_rules rules ''source_definition_pointer'' (wn_definition_pointer c) of
        [rule] \<Rightarrow>
          obind (rule_string rule ''operation'') (\<lambda>operation.
          if operation \<noteq> ''map'' then Err InvalidMigrationDescriptor
          else obind (rule_string rule ''target_definition_pointer'') (\<lambda>p. Ok (c\<lparr>wn_definition_pointer := p\<rparr>)))
      | _ \<Rightarrow> Err MigrationTotalityFailure)"

definition initialized_counter :: "json \<Rightarrow> (wire_next_counter list, persistence_error) outcome" where
  "initialized_counter rule =
     obind (rule_string rule ''operation'') (\<lambda>operation.
     if operation \<noteq> ''initialize_zero'' then Ok []
     else obind (rule_string rule ''target_definition_pointer'') (\<lambda>p.
       Ok [\<lparr>wn_definition_pointer = p, wn_next_sequence = ''0''\<rparr>]))"

definition migrate_counters ::
  "wire_next_counter list \<Rightarrow> json list \<Rightarrow> (wire_next_counter list, persistence_error) outcome" where
  "migrate_counters source rules =
     obind (collect_outcome (map (migrate_counter rules) source)) (\<lambda>mapped.
     obind (collect_outcome (map initialized_counter rules)) (\<lambda>initialized.
     let output = sort_key wn_definition_pointer (mapped @ concat initialized) in
     if distinct (map wn_definition_pointer output) then Ok output else Err MigrationTotalityFailure))"

definition migrate_component_counters ::
  "wire_next_counter list \<Rightarrow> json list \<Rightarrow> (wire_next_counter list, persistence_error) outcome" where
  "migrate_component_counters source rules =
     obind (collect_outcome (map (\<lambda>c. obind (unique_pointer_mapping rules ''source_component_definition_pointer''
              ''target_component_definition_pointer'' (wn_definition_pointer c)) (\<lambda>p.
                Ok (c\<lparr>wn_definition_pointer := p\<rparr>))) source)) (\<lambda>mapped.
       Ok (sort_key wn_definition_pointer mapped))"

definition migrate_history_entry :: "json list \<Rightarrow> wire_history \<Rightarrow> (wire_history list, persistence_error) outcome" where
  "migrate_history_entry rules entry =
     obind (unique_rule rules ''source_history_declaration_pointer'' (wh_history_declaration_pointer entry)) (\<lambda>rule.
     obind (rule_string rule ''operation'') (\<lambda>operation.
     if operation = ''drop'' then Ok []
     else if operation \<noteq> ''map'' then Err InvalidMigrationDescriptor
     else
     obind (case wh_recorded_state_definition_pointers entry of
              None \<Rightarrow> Ok None
            | Some pointers \<Rightarrow>
                obind (collect_outcome (map (\<lambda>pointer.
                    obind (ok_or InvalidMigrationDescriptor (jarray (jindex rule ''recorded_state_mappings''))) (\<lambda>mappings.
                      unique_pointer_mapping mappings ''source_definition_pointer'' ''target_definition_pointer'' pointer)) pointers))
                  (\<lambda>recorded. Ok (Some recorded))) (\<lambda>recorded.
     obind (rule_string rule ''target_history_declaration_pointer'') (\<lambda>pointer.
       Ok [\<lparr>wh_history_declaration_pointer = pointer, wh_recorded_state_definition_pointers = recorded\<rparr>]))))"

definition initialized_history :: "json \<Rightarrow> (wire_history list, persistence_error) outcome" where
  "initialized_history rule =
     obind (rule_string rule ''operation'') (\<lambda>operation.
     if operation \<noteq> ''initialize_null'' then Ok []
     else obind (rule_string rule ''target_history_declaration_pointer'') (\<lambda>p.
       Ok [\<lparr>wh_history_declaration_pointer = p, wh_recorded_state_definition_pointers = None\<rparr>]))"

definition migrate_history :: "wire_history list \<Rightarrow> json list \<Rightarrow> (wire_history list, persistence_error) outcome" where
  "migrate_history source rules =
     obind (collect_outcome (map (migrate_history_entry rules) source)) (\<lambda>mapped.
     obind (collect_outcome (map initialized_history rules)) (\<lambda>initialized.
       Ok (sort_key wh_history_declaration_pointer (concat mapped @ concat initialized))))"

section \<open>Variables\<close>

record resource_tracker =
  rt_transformed_output_bytes :: nat
  rt_cel_evaluation_steps :: nat

record declared_limits =
  dl_transformed_output_bytes :: counter
  dl_cel_expression_length :: counter
  dl_cel_ast_nodes :: counter
  dl_cel_evaluation_steps :: counter

definition declared_limits_of :: "json \<Rightarrow> (declared_limits, persistence_error) outcome" where
  "declared_limits_of descriptor =
     obind (ok_or InvalidMigrationDescriptor (jobject (jindex descriptor ''resource_requirements''))) (\<lambda>ms.
     let requirement = (\<lambda>name. ok_or InvalidMigrationDescriptor
           (Option.bind (Option.bind (bm_get ms name) jstr) from_decimal)) in
     obind (requirement ''maximum_transformed_output_bytes'') (\<lambda>output.
     obind (requirement ''maximum_cel_expression_length'') (\<lambda>lengths.
     obind (requirement ''maximum_cel_ast_nodes'') (\<lambda>nodes.
     obind (requirement ''maximum_cel_evaluation_steps'') (\<lambda>steps.
       Ok \<lparr>dl_transformed_output_bytes = output, dl_cel_expression_length = lengths, dl_cel_ast_nodes = nodes,
           dl_cel_evaluation_steps = steps\<rparr>)))))"

definition rule_expression :: "json \<Rightarrow> string btree_set \<Rightarrow> (string btree_set, persistence_error) outcome" where
  "rule_expression rule expressions =
     (if Option.bind (jget rule ''operation'') jstr \<in> {Some ''transform'', Some ''initialize''}
      then obind (rule_string rule ''expression'') (\<lambda>e. Ok (bs_insert e expressions))
      else Ok expressions)"

definition expression_nodes :: "engine \<Rightarrow> string \<Rightarrow> (nat, persistence_error) outcome" where
  "expression_nodes G expression =
     (case migration_expression_info G expression of Inl _ \<Rightarrow> Err InvalidMigrationDescriptor | Inr n \<Rightarrow> Ok n)"

definition validate_static_expressions ::
  "engine \<Rightarrow> json \<Rightarrow> resource_limits \<Rightarrow> declared_limits \<Rightarrow> (unit, persistence_error) outcome" where
  "validate_static_expressions G descriptor limits requirements =
     obind (rule_mappings descriptor) (\<lambda>mappings.
     obind (rule_array mappings ''variables'') (\<lambda>rules.
     obind (ofold rule_expression rules []) (\<lambda>expressions.
     obind (require_work (sum_list (map length expressions)) (maximum_cel_expression_length limits)
              (dl_cel_expression_length requirements)) (\<lambda>_.
     obind (collect_outcome (map (expression_nodes G) expressions)) (\<lambda>nodes.
       require_work (sum_list nodes) (maximum_cel_ast_nodes limits) (dl_cel_ast_nodes requirements))))))"

definition counter_as_usize :: "counter \<Rightarrow> nat" where
  "counter_as_usize c = min c usize_max"

definition remaining_evaluation_steps ::
  "resource_limits \<Rightarrow> declared_limits \<Rightarrow> resource_tracker \<Rightarrow> (nat, persistence_error) outcome" where
  "remaining_evaluation_steps limits requirements tracker =
     (let maximum = min (counter_as_usize (maximum_cel_evaluation_steps limits))
                        (counter_as_usize (dl_cel_evaluation_steps requirements)) in
      if rt_cel_evaluation_steps tracker \<le> maximum then Ok (maximum - rt_cel_evaluation_steps tracker)
      else Err MigrationResourceLimitExceeded)"

text \<open>
  The code recognises the exceeded step limit by the text of the error, which an error that names a
  member or a variable may contain as well.  An expression that is evaluated here has been parsed
  before, so the text of a parse error does not matter.
\<close>

definition step_limit_text :: string where
  "step_limit_text = ''migration CEL evaluation step limit exceeded''"

definition contains_text :: "string \<Rightarrow> string \<Rightarrow> bool" where
  "contains_text t s \<longleftrightarrow> list_ex (\<lambda>k. take (length t) (drop k s) = t) [0..<Suc (length s)]"

fun mentions_step_limit :: "cel_error \<Rightarrow> bool" where
  "mentions_step_limit StepLimitExceeded = True"
| "mentions_step_limit (UnknownName name) = contains_text step_limit_text name"
| "mentions_step_limit (MissingField name) = contains_text step_limit_text name"
| "mentions_step_limit _ = False"

definition classify_migration_evaluation :: "cel_error \<Rightarrow> persistence_error" where
  "classify_migration_evaluation e =
     (if mentions_step_limit e then MigrationResourceLimitExceeded else MigrationTransformFault)"

definition metered_value ::
  "host \<Rightarrow> resource_limits \<Rightarrow> declared_limits \<Rightarrow> json \<Rightarrow> cel_environment \<Rightarrow> resource_tracker \<Rightarrow>
   (typed_value \<times> resource_tracker, persistence_error) outcome" where
  "metered_value H limits requirements rule env tracker =
     obind (rule_string rule ''expression'') (\<lambda>expression.
     obind (remaining_evaluation_steps limits requirements tracker) (\<lambda>maximum.
     case evaluate_migration (ho_engine H) expression env maximum of
       Inl e \<Rightarrow> Err (classify_migration_evaluation e)
     | Inr (v, work) \<Rightarrow>
         Ok (typed_from_value v, tracker\<lparr>rt_cel_evaluation_steps := rt_cel_evaluation_steps tracker + work\<rparr>)))"

definition account_output ::
  "host \<Rightarrow> resource_limits \<Rightarrow> declared_limits \<Rightarrow> typed_value \<Rightarrow> resource_tracker \<Rightarrow> (resource_tracker, persistence_error) outcome" where
  "account_output H limits requirements typed tracker =
     obind (ok_or InvalidAggregateState (ho_canonical_text H (projection typed))) (\<lambda>bytes.
     let tracker' = tracker\<lparr>rt_transformed_output_bytes := rt_transformed_output_bytes tracker + length bytes\<rparr> in
     obind (require_work (rt_transformed_output_bytes tracker') (maximum_transformed_output_bytes limits)
              (dl_transformed_output_bytes requirements)) (\<lambda>_. Ok tracker'))"


record variable_migration =
  vm_consumed :: "(string \<times> string) btree_set"
  vm_produced :: "(string \<times> string) btree_set"
  vm_output :: "wire_variable list"
  vm_tracker :: resource_tracker

definition occurrence :: "wire_variable \<Rightarrow> string \<times> string" where
  "occurrence v = (wv_variable_declaration_pointer v, wv_declaring_state_activation_sequence v)"

definition consume :: "wire_variable \<Rightarrow> variable_migration \<Rightarrow> (variable_migration, persistence_error) outcome" where
  "consume v st =
     (if occurrence v \<in> set (vm_consumed st) then Err InvalidMigrationDescriptor
      else Ok (st\<lparr>vm_consumed := bs_insert (occurrence v) (vm_consumed st)\<rparr>))"

definition produce ::
  "string \<Rightarrow> string \<Rightarrow> typed_value \<Rightarrow> variable_migration \<Rightarrow> (variable_migration, persistence_error) outcome" where
  "produce pointer activation v st =
     (if (pointer, activation) \<in> set (vm_produced st) then Err InvalidMigrationDescriptor
      else Ok (st\<lparr>vm_produced := bs_insert (pointer, activation) (vm_produced st),
                  vm_output := vm_output st @ [\<lparr>wv_variable_declaration_pointer = pointer,
                    wv_declaring_state_activation_sequence = activation, wv_value = v\<rparr>]\<rparr>))"

definition occurrences :: "wire_runtime \<Rightarrow> string \<Rightarrow> wire_variable list" where
  "occurrences w pointer = filter (\<lambda>v. wv_variable_declaration_pointer v = pointer) (ww_variables w)"

definition copy_variable ::
  "json \<Rightarrow> wire_variable \<Rightarrow> variable_migration \<Rightarrow> (variable_migration, persistence_error) outcome" where
  "copy_variable rule v st =
     obind (consume v st) (\<lambda>st1.
     obind (rule_string rule ''target_declaration_pointer'') (\<lambda>pointer.
       produce pointer (wv_declaring_state_activation_sequence v) (wv_value v) st1))"

text \<open>One source of a transformation: the occurrence with the activation of the first source.\<close>

definition transform_source ::
  "wire_runtime \<Rightarrow> string \<Rightarrow> nat \<times> json \<Rightarrow> variable_migration \<times> cel_environment \<Rightarrow>
   (variable_migration \<times> cel_environment, persistence_error) outcome" where
  "transform_source w activation indexed st =
     obind (ok_or InvalidMigrationDescriptor (jstr (snd indexed))) (\<lambda>pointer.
     case filter (\<lambda>v. wv_declaring_state_activation_sequence v = activation) (occurrences w pointer) of
       [v] \<Rightarrow>
         obind (consume v (fst st)) (\<lambda>st1.
         obind (ok_or InvalidAggregateState (typed_to_value False (wv_value v))) (\<lambda>x.
           Ok (st1, bm_insert (cel_source (fst indexed)) x (snd st))))
     | _ \<Rightarrow> Err MigrationTotalityFailure)"

definition transform_variable ::
  "host \<Rightarrow> resource_limits \<Rightarrow> declared_limits \<Rightarrow> wire_runtime \<Rightarrow> json \<Rightarrow> json list \<Rightarrow> wire_variable \<Rightarrow>
   variable_migration \<Rightarrow> (variable_migration, persistence_error) outcome" where
  "transform_variable H limits requirements w rule sources first st =
     (let activation = wv_declaring_state_activation_sequence first in
      obind (ofold (transform_source w activation) (enumerate 0 sources) (st, [])) (\<lambda>(st1, env).
      obind (metered_value H limits requirements rule env (vm_tracker st1)) (\<lambda>(typed, tracker).
      obind (account_output H limits requirements typed tracker) (\<lambda>tracker'.
      obind (rule_string rule ''target_declaration_pointer'') (\<lambda>pointer.
        produce pointer activation typed (st1\<lparr>vm_tracker := tracker'\<rparr>))))))"

text \<open>The declaring state of a variable: its pointer before the first \<^verbatim>\<open>/variables/\<close>.\<close>

fun before_text :: "string \<Rightarrow> string \<Rightarrow> string" where
  "before_text pattern [] = []"
| "before_text pattern (c # s) =
     (if strip_prefix pattern (c # s) \<noteq> None then [] else c # before_text pattern s)"

definition initialize_variable ::
  "host \<Rightarrow> resource_limits \<Rightarrow> declared_limits \<Rightarrow> machine \<Rightarrow> wire_state_activation list \<Rightarrow> json \<Rightarrow>
   variable_migration \<Rightarrow> (variable_migration, persistence_error) outcome" where
  "initialize_variable H limits requirements m activations rule st =
     obind (rule_string rule ''target_declaration_pointer'') (\<lambda>pointer.
     obind (ok_or InvalidMigrationDescriptor (find_variable_by_pointer m pointer)) (\<lambda>(_, _, d).
     case filter (\<lambda>a. wa_state_definition_pointer a = before_text ''/variables/'' pointer) activations of
       [a] \<Rightarrow>
         obind (metered_value H limits requirements rule [] (vm_tracker st)) (\<lambda>(typed, tracker).
         if typed_to_value (vd_value_type d = ''instance_reference'') typed = None then Err MigrationTotalityFailure
         else
         obind (account_output H limits requirements typed tracker) (\<lambda>tracker'.
           produce pointer (wa_activation_sequence a) typed (st\<lparr>vm_tracker := tracker'\<rparr>)))
     | _ \<Rightarrow> Err MigrationTotalityFailure))"

definition apply_variable_rule ::
  "host \<Rightarrow> resource_limits \<Rightarrow> declared_limits \<Rightarrow> wire_runtime \<Rightarrow> wire_state_activation list \<Rightarrow> machine \<Rightarrow> json \<Rightarrow>
   variable_migration \<Rightarrow> (variable_migration, persistence_error) outcome" where
  "apply_variable_rule H limits requirements w activations m rule st =
     obind (rule_string rule ''operation'') (\<lambda>operation.
     if operation = ''copy'' then
       obind (rule_string rule ''source_declaration_pointer'') (\<lambda>source.
         ofold (copy_variable rule) (occurrences w source) st)
     else if operation = ''drop'' then
       obind (rule_string rule ''source_declaration_pointer'') (\<lambda>source. ofold consume (occurrences w source) st)
     else if operation = ''transform'' then
       obind (ok_or InvalidMigrationDescriptor (jarray (jindex rule ''source_declaration_pointers''))) (\<lambda>sources.
       case sources of
         [] \<Rightarrow> Panic
       | source # _ \<Rightarrow>
           obind (ok_or InvalidMigrationDescriptor (jstr source)) (\<lambda>first_pointer.
             ofold (transform_variable H limits requirements w rule sources) (occurrences w first_pointer) st))
     else if operation = ''initialize'' then initialize_variable H limits requirements m activations rule st
     else Err InvalidMigrationDescriptor)"

definition migrated_variable_ok :: "machine \<Rightarrow> wire_variable \<Rightarrow> bool" where
  "migrated_variable_ok m v \<longleftrightarrow>
     (case find_variable_by_pointer m (wv_variable_declaration_pointer v) of
        None \<Rightarrow> False
      | Some (_, _, d) \<Rightarrow> typed_to_value (vd_value_type d = ''instance_reference'') (wv_value v) \<noteq> None)"

definition occurrence_key :: "wire_variable \<Rightarrow> string \<times> nat \<times> string" where
  "occurrence_key v = (wv_variable_declaration_pointer v, decimal_key (wv_declaring_state_activation_sequence v))"

definition migrate_variables ::
  "host \<Rightarrow> resource_limits \<Rightarrow> declared_limits \<Rightarrow> wire_runtime \<Rightarrow> wire_state_activation list \<Rightarrow> machine \<Rightarrow> json list \<Rightarrow>
   resource_tracker \<Rightarrow> (wire_variable list \<times> resource_tracker, persistence_error) outcome" where
  "migrate_variables H limits requirements w activations m rules tracker =
     obind (ofold (apply_variable_rule H limits requirements w activations m) rules
              \<lparr>vm_consumed = [], vm_produced = [], vm_output = [], vm_tracker = tracker\<rparr>) (\<lambda>st.
     if length (vm_consumed st) \<noteq> length (ww_variables w) then Err MigrationTotalityFailure
     else if \<not> list_all (migrated_variable_ok m) (vm_output st) then Err MigrationTotalityFailure
     else Ok (sort_key occurrence_key (vm_output st), vm_tracker st))"

section \<open>Applying a descriptor\<close>

definition target_binding :: "compiled_bundle \<Rightarrow> machine \<Rightarrow> wire_definition_binding" where
  "target_binding B m =
     \<lparr>wd_validated_bundle_fingerprint = b_fingerprint B,
      wd_machine = \<lparr>wm_namespace = b_namespace B, wm_machine_id = m_machine_id m,
                    wm_machine_version = signed_decimal (sint (m_version m)), wm_root_definition_pointer = m_root_pointer m\<rparr>\<rparr>"

definition transform_runtime ::
  "host \<Rightarrow> resource_limits \<Rightarrow> declared_limits \<Rightarrow> (string \<times> json) list \<Rightarrow> compiled_bundle \<Rightarrow> wire_runtime \<Rightarrow>
   resource_tracker \<Rightarrow> (wire_runtime \<times> resource_tracker, persistence_error) outcome" where
  "transform_runtime H limits requirements mappings B w tracker =
     obind (map_machine_root mappings (wm_root_definition_pointer (wd_machine (ww_current_definition w)))) (\<lambda>target_root.
     obind (ok_or MigrationTotalityFailure (find_machine_by_root_pointer B target_root)) (\<lambda>m.
     obind (rule_array mappings ''active_states'') (\<lambda>leaf_rules.
     obind (map_active_leaves (ww_active_leaf_state_definition_pointers w) leaf_rules) (\<lambda>leaves.
     obind (if ww_active_state_activations w = [] then Ok []
            else obind (rule_array mappings ''counters'') (\<lambda>rules. map_activations rules (ww_active_state_activations w)))
       (\<lambda>activations.
     obind (rule_array mappings ''variables'') (\<lambda>variable_rules.
     obind (migrate_variables H limits requirements w activations m variable_rules tracker) (\<lambda>(variables, tracker').
     obind (rule_array mappings ''history'') (\<lambda>history_rules.
     obind (migrate_history (ww_history w) history_rules) (\<lambda>history.
     obind (rule_array mappings ''counters'') (\<lambda>counter_rules.
     obind (migrate_counters (ww_next_state_activation_sequences w) counter_rules) (\<lambda>state_counters.
     obind (rule_array mappings ''components'') (\<lambda>component_rules.
     obind (migrate_component_counters (ww_next_component_activation_sequences w) component_rules) (\<lambda>component_counters.
     obind (migrate_relation mappings (ww_relation w)) (\<lambda>relation.
       Ok (w\<lparr>ww_current_definition := target_binding B m, ww_relation := relation,
              ww_active_leaf_state_definition_pointers := leaves, ww_active_state_activations := activations,
              ww_variables := variables, ww_history := history, ww_next_state_activation_sequences := state_counters,
              ww_next_component_activation_sequences := component_counters\<rparr>, tracker')))))))))))))))"

definition transform_step ::
  "host \<Rightarrow> resource_limits \<Rightarrow> declared_limits \<Rightarrow> (string \<times> json) list \<Rightarrow> compiled_bundle \<Rightarrow> string \<Rightarrow> wire_runtime \<Rightarrow>
   wire_runtime list \<times> resource_tracker \<Rightarrow> (wire_runtime list \<times> resource_tracker, persistence_error) outcome" where
  "transform_step H limits requirements mappings B source_fingerprint w st =
     (if wd_validated_bundle_fingerprint (ww_current_definition w) \<noteq> source_fingerprint
      then Ok (fst st @ [w], snd st)
      else obind (transform_runtime H limits requirements mappings B w (snd st)) (\<lambda>(w', tracker). Ok (fst st @ [w'], tracker)))"

definition transform_runtimes ::
  "host \<Rightarrow> resource_limits \<Rightarrow> json \<Rightarrow> compiled_bundle \<Rightarrow> string \<Rightarrow> wire_runtime list \<Rightarrow>
   (wire_runtime list, persistence_error) outcome" where
  "transform_runtimes H limits descriptor B source_fingerprint ws =
     obind (rule_mappings descriptor) (\<lambda>mappings.
     obind (declared_limits_of descriptor) (\<lambda>requirements.
     obind (validate_static_expressions (ho_engine H) descriptor limits requirements) (\<lambda>_.
     obind (ofold (transform_step H limits requirements mappings B source_fingerprint) ws
              ([], \<lparr>rt_transformed_output_bytes = 0, rt_cel_evaluation_steps = 0\<rparr>)) (\<lambda>(ws', _). Ok ws'))))"

definition rebind_runtime :: "string \<Rightarrow> wire_runtime \<Rightarrow> wire_runtime" where
  "rebind_runtime fingerprint w =
     w\<lparr>ww_current_definition := (ww_current_definition w)\<lparr>wd_validated_bundle_fingerprint := fingerprint\<rparr>\<rparr>"

definition has_mapping_rules :: "json \<Rightarrow> bool" where
  "has_mapping_rules descriptor =
     (case jobject (jindex descriptor ''mappings'') of
        None \<Rightarrow> False
      | Some ms \<Rightarrow> list_ex (\<lambda>v. case jarray v of None \<Rightarrow> False | Some rules \<Rightarrow> rules \<noteq> []) (map snd ms))"

definition migrated_runtimes ::
  "host \<Rightarrow> resource_limits \<Rightarrow> json \<Rightarrow> compiled_bundle \<Rightarrow> aggregate_envelope \<Rightarrow> (wire_runtime list, persistence_error) outcome" where
  "migrated_runtimes H limits descriptor B e =
     obind (rule_string descriptor ''mode'') (\<lambda>mode.
     if mode = ''compatible'' then
       if has_mapping_rules descriptor then Err InvalidMigrationDescriptor
       else Ok (map (rebind_runtime (b_fingerprint B)) (ae_runtimes e))
     else transform_runtimes H limits descriptor B (ae_validated_bundle_fingerprint e) (ae_runtimes e))"

definition apply_descriptor ::
  "host \<Rightarrow> resource_limits \<Rightarrow> json \<Rightarrow> compiled_bundle \<Rightarrow> aggregate_envelope \<Rightarrow> (aggregate_envelope, persistence_error) outcome" where
  "apply_descriptor H limits descriptor B e =
     obind (migrated_runtimes H limits descriptor B e) (\<lambda>ws.
     obind (ok_or MigrationTotalityFailure (find (\<lambda>w. ww_runtime_id w = ae_root_runtime_id e) ws)) (\<lambda>w.
     obind (ok_or MigrationTotalityFailure (from_decimal (ae_migration_sequence e))) (\<lambda>sequence.
     let machine = wd_machine (ww_current_definition w) in
       Ok (e\<lparr>ae_validated_bundle_fingerprint := b_fingerprint B, ae_namespace := wm_namespace machine,
             ae_root_machine_id := wm_machine_id machine, ae_root_machine_version := wm_machine_version machine,
             ae_migration_sequence := canonical_decimal (snd (allocate sequence)), ae_runtimes := ws\<rparr>))))"


section \<open>Routes\<close>

definition parse_aggregate_envelope ::
  "host \<Rightarrow> artifact_codec \<Rightarrow> string \<Rightarrow> (aggregate_envelope \<times> json, persistence_error) outcome" where
  "parse_aggregate_envelope H A source =
     obind (ok_or InvalidAggregateState (ac_parse A source)) (\<lambda>v.
     obind (ok_or InvalidAggregateState (jobject v)) (\<lambda>ms.
     if jfield ms ''aggregate_state_format'' jstr \<noteq> Some ''determa.aggregate_state'' then Err UnsupportedAggregateStateFormat
     else if jfield ms ''aggregate_state_schema_version'' ji64 \<noteq> Some 1 then Err UnsupportedAggregateStateSchemaVersion
     else if \<not> ho_aggregate_schema H v then Err InvalidAggregateState
     else
     obind (ok_or InvalidAggregateState (envelope_of v)) (\<lambda>e.
     if \<not> validate_envelope_semantics e then Err InvalidAggregateState
     else
     obind (aggregate_digest H v) (\<lambda>computed.
     if ae_aggregate_state_digest e \<noteq> computed then Err AggregateStateDigestMismatch
     else Ok (e, v)))))"

record prepared_step =
  ps_digest :: string
  ps_descriptor :: json
  ps_target :: compiled_bundle

text \<open>
  The preparation of a route: every descriptor is resolved and checked before the first is applied.
  \<^verbatim>\<open>seen\<close> and \<^verbatim>\<open>fingerprints\<close> hold the digests and the fingerprints met so far.
\<close>

fun prepare_route ::
  "host \<Rightarrow> artifact_codec \<Rightarrow> artifact_resolver \<Rightarrow> resource_limits \<Rightarrow> aggregate_envelope \<Rightarrow> string \<Rightarrow>
   string list \<Rightarrow> string list \<Rightarrow> compiled_bundle \<Rightarrow> string list \<Rightarrow> (prepared_step list, persistence_error) outcome" where
  "prepare_route H A R limits e target_wanted seen fingerprints B [] = Ok []"
| "prepare_route H A R limits e target_wanted seen fingerprints B (digest # route) =
     (if digest \<in> set seen then Err MigrationRouteMismatch
      else
      obind (resolve_descriptor H A R digest limits) (\<lambda>descriptor.
      obind (rule_string descriptor ''source_validated_bundle_fingerprint'') (\<lambda>source.
      obind (rule_string descriptor ''target_validated_bundle_fingerprint'') (\<lambda>target.
      if source \<noteq> b_fingerprint B then Err MigrationRouteMismatch
      else if target \<in> set fingerprints then Err MigrationRouteMismatch
      else if route = [] \<and> target \<noteq> target_wanted then Err MigrationRouteMismatch
      else
      obind (resolve_role R target TargetRole) (\<lambda>B'.
      obind (enforce_definition_limits H B' limits) (\<lambda>_.
      obind (validate_descriptor_definitions H descriptor B B') (\<lambda>_.
      obind (enforce_descriptor_rules descriptor limits) (\<lambda>_.
      obind (enforce_terminal_policy e descriptor) (\<lambda>_.
      obind (prepare_route H A R limits e target_wanted (digest # seen) (target # fingerprints) B' route) (\<lambda>steps.
        Ok (\<lparr>ps_digest = digest, ps_descriptor = descriptor, ps_target = B'\<rparr> # steps)))))))))))"

text \<open>An error of the restored target becomes a failure of totality.\<close>

definition as_totality :: "('a, persistence_error) outcome \<Rightarrow> ('a, persistence_error) outcome" where
  "as_totality x = (case x of Err _ \<Rightarrow> Err MigrationTotalityFailure | _ \<Rightarrow> x)"

definition audit_of :: "aggregate_envelope \<Rightarrow> string \<Rightarrow> string \<Rightarrow> string \<Rightarrow> string \<Rightarrow> migration_audit_record" where
  "audit_of e source target digest source_digest =
     \<lparr>ma_schema_version = 1, ma_root_instance_id = ae_root_instance_id e, ma_root_runtime_id = ae_root_runtime_id e,
      ma_migration_sequence = ae_migration_sequence e, ma_source_fingerprint = source, ma_target_fingerprint = target,
      ma_descriptor_digest = digest, ma_source_digest = source_digest, ma_target_digest = ae_aggregate_state_digest e,
      ma_result_code = ''migration_applied''\<rparr>"

definition apply_step ::
  "host \<Rightarrow> artifact_resolver \<Rightarrow> resource_limits \<Rightarrow> prepared_step \<Rightarrow> aggregate_envelope \<times> migration_audit_record list \<Rightarrow>
   (aggregate_envelope \<times> migration_audit_record list, persistence_error) outcome" where
  "apply_step H R limits s st =
     obind (rule_string (ps_descriptor s) ''source_validated_bundle_fingerprint'') (\<lambda>source.
     obind (rule_string (ps_descriptor s) ''target_validated_bundle_fingerprint'') (\<lambda>target.
     obind (apply_descriptor H limits (ps_descriptor s) (ps_target s) (fst st)) (\<lambda>e1.
     obind (recompute_digest H e1) (\<lambda>e2.
     obind (enforce_aggregate_limits e2 limits) (\<lambda>_.
     obind (as_totality (restore_envelope (ho_engine H) (ar_definition R) e2)) (\<lambda>_.
     obind (ok_or InvalidAggregateState (ho_canonical_text H (envelope_json e2))) (\<lambda>bytes.
     obind (require_within (length bytes) (maximum_aggregate_bytes limits)) (\<lambda>_.
       Ok (e2, snd st @ [audit_of e2 source target (ps_digest s) (ae_aggregate_state_digest (fst st))])))))))))"

definition migrate_aggregate ::
  "host \<Rightarrow> artifact_codec \<Rightarrow> artifact_resolver \<Rightarrow> resource_limits \<Rightarrow> string \<Rightarrow> migration_request \<Rightarrow>
   (migration_outcome, persistence_error) outcome" where
  "migrate_aggregate H A R limits source request =
     obind (require_within (length source) (maximum_aggregate_bytes limits)) (\<lambda>_.
     obind (require_within (length (mr_migration_route request)) (maximum_chain_length limits)) (\<lambda>_.
     obind (parse_aggregate_envelope H A source) (\<lambda>(e, _).
     obind (enforce_aggregate_limits e limits) (\<lambda>_.
     obind (resolve_role R (ae_validated_bundle_fingerprint e) SourceRole) (\<lambda>B.
     obind (enforce_definition_limits H B limits) (\<lambda>_.
     obind (restore_envelope (ho_engine H) (ar_definition R) e) (\<lambda>restored.
     if mr_migration_route request = [] then
       if mr_target_fingerprint request \<noteq> ae_validated_bundle_fingerprint e then Err MigrationRouteMissing
       else Ok \<lparr>mo_aggregate = restored, mo_envelope = e, mo_audit_records = []\<rparr>
     else if list_ex (\<lambda>w. ww_status w \<noteq> Running) (ae_runtimes e) \<and> \<not> mr_maintenance_mode request
     then Err TerminalMigrationRequiresMaintenance
     else
     obind (prepare_route H A R limits e (mr_target_fingerprint request) [] [ae_validated_bundle_fingerprint e] B
              (mr_migration_route request)) (\<lambda>steps.
     obind (ofold (apply_step H R limits) steps (e, [])) (\<lambda>(e', audits).
     obind (restore_envelope (ho_engine H) (ar_definition R) e') (\<lambda>aggregate.
       Ok \<lparr>mo_aggregate = aggregate, mo_envelope = e', mo_audit_records = audits\<rparr>))))))))))"

end
