(* ===== verification/Mailbox_Migration.thy ===== *)
theory Mailbox_Migration
  imports Migration
begin

text \<open>
  Migration of a document with its mailboxes (the migration half of \<^verbatim>\<open>src/format1/v1.rs\<close>):
  the aggregate is migrated, its mailboxes are carried over to the new document, queued events
  are disposed of by rule or checked against the target, and deferred events are recalled.
\<close>

section \<open>Descriptors\<close>

abbreviation invalid_descriptor :: string where
  "invalid_descriptor \<equiv> ''invalid_migration_descriptor''"

definition rule_selector :: "json \<Rightarrow> (string \<times> string \<times> string, string) outcome" where
  "rule_selector rule =
     obind (string_field rule ''machine_id'') (\<lambda>machine_id.
     obind (string_field rule ''event'') (\<lambda>event.
     obind (string_field rule ''delivery_mode'') (\<lambda>mode. Ok (machine_id, event, mode))))"

fun unique_selectors :: "json list \<Rightarrow> (string \<times> string \<times> string) list \<Rightarrow> (unit, string) outcome" where
  "unique_selectors [] seen = Ok ()"
| "unique_selectors (rule # rules) seen =
     obind (rule_selector rule) (\<lambda>selector.
       if selector \<in> set seen then Err invalid_descriptor else unique_selectors rules (selector # seen))"

definition validate_migration_descriptor_v1 :: "host \<Rightarrow> artifact_codec \<Rightarrow> string \<Rightarrow> (json, string) outcome" where
  "validate_migration_descriptor_v1 H A source =
     obind (ok_or invalid_descriptor (ac_parse A source)) (\<lambda>v.
     if jstr (jindex v ''migration_descriptor_format'') \<noteq> Some ''determa.aggregate_migration''
     then Err ''unsupported_migration_descriptor_format''
     else if ji64 (jindex v ''migration_descriptor_schema_version'') \<noteq> Some 1
     then Err ''unsupported_migration_descriptor_schema_version''
     else if \<not> ac_descriptor_schema A v then Err invalid_descriptor
     else
     obind (map_persistence (descriptor_digest H v)) (\<lambda>digest.
     if jstr (jindex v ''migration_descriptor_digest'') \<noteq> Some digest then Err invalid_descriptor
     else
     obind (expect (jarray (jindex v ''queued_event_rules''))) (\<lambda>rules.
     obind (unique_selectors rules []) (\<lambda>_. Ok v))))"

definition decode_descriptor_v1 :: "host \<Rightarrow> artifact_codec \<Rightarrow> string \<Rightarrow> (json, string) outcome" where
  "decode_descriptor_v1 H A source = validate_migration_descriptor_v1 H A source"

section \<open>Identities\<close>

abbreviation totality_failure :: string where
  "totality_failure \<equiv> ''migration_totality_failure''"

text \<open>
  \<^verbatim>\<open>runtime_id_map\<close>: a runtime of the source must have its counterpart, by identity, among the
  children of its owner's counterpart.  \<^verbatim>\<open>extend\<close> lets later pairs win.
\<close>

definition extend_ids :: "(string, string) btree_map \<Rightarrow> (string, string) btree_map \<Rightarrow> (string, string) btree_map" where
  "extend_ids m m' = fold (\<lambda>(k, v). bm_insert k v) m' m"

primrec runtime_id_map :: "runtime_state \<Rightarrow> runtime_state \<Rightarrow> ((string, string) btree_map, string) outcome"
  and component_id_map :: "component_runtime \<Rightarrow> runtime_state \<Rightarrow> ((string, string) btree_map, string) outcome"
  and owned_id_map :: "owned_runtime \<Rightarrow> runtime_state \<Rightarrow> ((string, string) btree_map, string) outcome"
where
  "runtime_id_map (Runtime c cs ws) new =
     obind (collect_outcome (map (\<lambda>f. f new) (map component_id_map cs))) (\<lambda>components.
     obind (collect_outcome (map (\<lambda>f. f new) (map owned_id_map ws))) (\<lambda>owned.
       Ok (fold (\<lambda>m' m. extend_ids m m') (components @ owned) [(rc_runtime_id c, rt_runtime_id new)])))"
| "component_id_map (ComponentRuntime cid p i seq r) new =
     obind (ok_or totality_failure (find (\<lambda>x. rt_runtime_id (cr_runtime x) = rt_runtime_id r) (rt_components new)))
       (\<lambda>x. runtime_id_map r (cr_runtime x))"
| "owned_id_map (OwnedRuntime seq hp hptr ha rf r) new =
     obind (ok_or totality_failure (find (\<lambda>x. rt_runtime_id (or_runtime x) = rt_runtime_id r) (rt_owned new)))
       (\<lambda>x. runtime_id_map r (or_runtime x))"

primrec replace_runtime_ids :: "(string, string) btree_map \<Rightarrow> json \<Rightarrow> json" where
  "replace_runtime_ids m JNull = JNull"
| "replace_runtime_ids m (JBool b) = JBool b"
| "replace_runtime_ids m (JNumber n) = JNumber n"
| "replace_runtime_ids m (JString s) = JString (case bm_get m s of None \<Rightarrow> s | Some s' \<Rightarrow> s')"
| "replace_runtime_ids m (JArray js) = JArray (map (replace_runtime_ids m) js)"
| "replace_runtime_ids m (JObject ms) = JObject (map (map_prod id (replace_runtime_ids m)) ms)"

section \<open>Carrying the mailboxes over\<close>

definition carried_mailbox :: "(string, string) btree_map \<Rightarrow> json option \<Rightarrow> string \<Rightarrow> json" where
  "carried_mailbox id_map old field =
     replace_runtime_ids id_map (case old of None \<Rightarrow> JArray [] | Some r \<Rightarrow> jindex r field)"

definition carry_mailboxes :: "(string, string) btree_map \<Rightarrow> json list \<Rightarrow> json \<Rightarrow> (json, string) outcome" where
  "carry_mailboxes id_map old_runtimes r =
     obind (string_field r ''runtime_id'') (\<lambda>new_id.
     let old_id = map_option fst (find (\<lambda>(_, new). new = new_id) id_map);
         old = Option.bind old_id (\<lambda>rid. find (has_runtime_id rid) old_runtimes) in
       Ok (jput ''deferred_mailbox'' (carried_mailbox id_map old ''deferred_mailbox'')
            (jput ''ready_mailbox'' (carried_mailbox id_map old ''ready_mailbox'') r)))"

definition redigest_entry :: "host \<Rightarrow> string \<Rightarrow> json \<Rightarrow> (json, string) outcome" where
  "redigest_entry H root_instance_id entry =
     obind (ok_or invalid_aggregate (queue_envelope_of (jindex entry ''envelope''))) (\<lambda>q.
     obind (string_field entry ''delivery_mode'') (\<lambda>mode.
     obind (envelope_digest H root_instance_id mode q) (\<lambda>digest.
       Ok (jput ''envelope_digest'' (JString digest) entry))))"

definition redigest_mailbox :: "host \<Rightarrow> string \<Rightarrow> string \<Rightarrow> json \<Rightarrow> (json, string) outcome" where
  "redigest_mailbox H root_instance_id field r =
     obind (expect (jarray (jindex r field))) (\<lambda>entries.
     obind (collect_outcome (map (redigest_entry H root_instance_id) entries)) (\<lambda>entries'.
       Ok (jput field (JArray entries') r)))"

definition redigest_runtime :: "host \<Rightarrow> string \<Rightarrow> json \<Rightarrow> (json, string) outcome" where
  "redigest_runtime H root_instance_id r =
     obind (redigest_mailbox H root_instance_id ''ready_mailbox'' r) (redigest_mailbox H root_instance_id ''deferred_mailbox'')"

definition merge_migrated_state ::
  "host \<Rightarrow> compiled_bundle \<Rightarrow> json \<Rightarrow> native_aggregate \<Rightarrow> aggregate_envelope \<Rightarrow> (string, string) btree_map \<Rightarrow>
   (json, string) outcome" where
  "merge_migrated_state H B old state migrated id_map =
     obind (copy_wire_mailboxes state migrated) (\<lambda>state'.
     obind (map_persistence (encode_aggregate H B state')) (\<lambda>e.
     let v = jput ''next_queue_sequence'' (jindex old ''next_queue_sequence'')
              (jput ''next_acceptance_sequence'' (jindex old ''next_acceptance_sequence'')
                (jput ''aggregate_state_schema_version'' (JNumber (PosInt 1)) (envelope_json e))) in
     obind (runtimes old) (\<lambda>old_runtimes.
     obind (runtimes v) (\<lambda>rs.
     obind (collect_outcome (map (carry_mailboxes id_map old_runtimes) rs)) (\<lambda>carried.
     obind (aggregate_root_instance_id v) (\<lambda>root_instance_id.
     obind (collect_outcome (map (redigest_runtime H root_instance_id) carried)) (\<lambda>rs'.
       seal_aggregate H (jput ''runtimes'' (JArray rs') v))))))))"

section \<open>Queued events\<close>

definition selected_rule :: "json list \<Rightarrow> string \<Rightarrow> string \<Rightarrow> string \<Rightarrow> json option" where
  "selected_rule rules machine_id event mode =
     find (\<lambda>rule. jstr (jindex rule ''machine_id'') = Some machine_id \<and> jstr (jindex rule ''event'') = Some event \<and>
       jstr (jindex rule ''delivery_mode'') = Some mode) rules"

definition migration_disposition :: "string \<Rightarrow> string \<Rightarrow> json \<Rightarrow> json \<Rightarrow> json" where
  "migration_disposition digest rid rule entry =
     jobj [(''event_id'', jindex (jindex entry ''envelope'') ''event_id''),
           (''request_digest'', jindex entry ''envelope_digest''),
           (''acceptance_sequence'', jindex entry ''acceptance_sequence''),
           (''final_queue_sequence'', jindex entry ''queue_sequence''),
           (''target_runtime_id'', JString rid), (''disposition'', JString ''migration_disposed''),
           (''reason'', jindex rule ''reason''), (''migration_descriptor_digest'', JString digest)]"

text \<open>The verdict on a queued entry: the rule that disposes of it, or nothing when it stays.\<close>

definition queued_entry_rule ::
  "native_aggregate \<Rightarrow> compiled_bundle \<Rightarrow> json list \<Rightarrow> string \<Rightarrow> json \<Rightarrow> (json option, string) outcome" where
  "queued_entry_rule state B rules machine_id entry =
     obind (string_field (jindex entry ''envelope'') ''event'') (\<lambda>event.
     obind (string_field entry ''delivery_mode'') (\<lambda>mode.
     case selected_rule rules machine_id event mode of
       Some rule \<Rightarrow> Ok (Some rule)
     | None \<Rightarrow>
         obind (entry_delivery entry) (\<lambda>delivery.
         obind (core_delivery delivery) (\<lambda>core.
         case validate_queued_event_for_migration B state core of
           Ok _ \<Rightarrow> Ok None
         | Err _ \<Rightarrow> Err totality_failure
         | Panic \<Rightarrow> Panic
         | OutOfFuel \<Rightarrow> OutOfFuel))))"

fun apply_entry_rules ::
  "native_aggregate \<Rightarrow> compiled_bundle \<Rightarrow> json list \<Rightarrow> string \<Rightarrow> string \<Rightarrow> string \<Rightarrow> json list \<Rightarrow>
   (json list \<times> json list, string) outcome" where
  "apply_entry_rules state B rules digest rid machine_id [] = Ok ([], [])"
| "apply_entry_rules state B rules digest rid machine_id (entry # entries) =
     obind (queued_entry_rule state B rules machine_id entry) (\<lambda>verdict.
     obind (apply_entry_rules state B rules digest rid machine_id entries) (\<lambda>(retained, dispositions).
       Ok (case verdict of
             Some rule \<Rightarrow> (retained, migration_disposition digest rid rule entry # dispositions)
           | None \<Rightarrow> (entry # retained, dispositions))))"

definition apply_mailbox_rules ::
  "native_aggregate \<Rightarrow> compiled_bundle \<Rightarrow> json list \<Rightarrow> string \<Rightarrow> string \<Rightarrow> string \<Rightarrow> string \<Rightarrow> json \<times> json list \<Rightarrow>
   (json \<times> json list, string) outcome" where
  "apply_mailbox_rules state B rules digest rid machine_id field acc =
     obind (runtime_object_mut (fst acc) rid (\<lambda>r.
        obind (mailbox_slot field r) (\<lambda>entries.
        obind (apply_entry_rules state B rules digest rid machine_id entries) (\<lambda>(retained, dispositions).
          Ok (jput field (JArray retained) r, dispositions))))) (\<lambda>(v, dispositions).
       Ok (v, snd acc @ dispositions))"

definition apply_runtime_rules ::
  "native_aggregate \<Rightarrow> compiled_bundle \<Rightarrow> json list \<Rightarrow> string \<Rightarrow> string \<Rightarrow> json \<times> json list \<Rightarrow>
   (json \<times> json list, string) outcome" where
  "apply_runtime_rules state B rules digest rid acc =
     obind (ok_or invalid_aggregate (runtime_by_id rid (ag_root state))) (\<lambda>r.
     let machine_id = rc_machine_id (rt_core r) in
     obind (apply_mailbox_rules state B rules digest rid machine_id ''ready_mailbox'' acc)
       (apply_mailbox_rules state B rules digest rid machine_id ''deferred_mailbox''))"

definition apply_queued_event_rules ::
  "native_aggregate \<Rightarrow> compiled_bundle \<Rightarrow> json list \<Rightarrow> string \<Rightarrow> json \<Rightarrow> (json \<times> json list, string) outcome" where
  "apply_queued_event_rules state B rules digest v =
     obind (runtimes v) (\<lambda>rs.
     obind (collect_outcome (map (\<lambda>r. string_field r ''runtime_id'') rs)) (\<lambda>ids.
       ofold (apply_runtime_rules state B rules digest) ids (v, [])))"

definition migrated_capacity :: "native_aggregate \<Rightarrow> json \<Rightarrow> unit \<Rightarrow> (unit, string) outcome" where
  "migrated_capacity state r _ =
     obind (string_field r ''runtime_id'') (\<lambda>rid.
     obind (ok_or invalid_aggregate (runtime_by_id rid (ag_root state))) (\<lambda>x.
     obind (expect (jarray (jindex r ''deferred_mailbox''))) (\<lambda>entries.
     obind (deferred_event_capacity x) (\<lambda>capacity.
     case capacity of
       None \<Rightarrow> Ok ()
     | Some c \<Rightarrow> if nat (sint c) < length entries then Err totality_failure else Ok ()))))"

definition validate_migrated_capacity :: "native_aggregate \<Rightarrow> json \<Rightarrow> (unit, string) outcome" where
  "validate_migrated_capacity state v = obind (runtimes v) (\<lambda>rs. ofold (migrated_capacity state) rs ())"


section \<open>Migrating a document\<close>

definition audit_json :: "compiled_bundle \<Rightarrow> compiled_bundle \<Rightarrow> string \<Rightarrow> json \<Rightarrow> json \<Rightarrow> migration_audit_record \<Rightarrow> json" where
  "audit_json source_bundle target_bundle digest old new a =
     jobj [(''migration_audit_record_schema_version'', JNumber (number_of_i64 (ma_schema_version a))),
           (''root_instance_id'', JString (ma_root_instance_id a)), (''root_runtime_id'', JString (ma_root_runtime_id a)),
           (''migration_sequence'', JString (ma_migration_sequence a)),
           (''source_validated_bundle_fingerprint'', JString (b_fingerprint source_bundle)),
           (''target_validated_bundle_fingerprint'', JString (b_fingerprint target_bundle)),
           (''migration_descriptor_digest'', JString digest),
           (''source_aggregate_state_digest'', jindex old ''aggregate_state_digest''),
           (''target_aggregate_state_digest'', jindex new ''aggregate_state_digest''),
           (''result_code'', JString (ma_result_code a))]"

definition migration_result :: "json \<Rightarrow> json list \<Rightarrow> json list \<Rightarrow> json" where
  "migration_result state dispositions audits =
     jobj [(''result'', JString ''success''), (''aggregate_state'', state), (''dispositions'', JArray dispositions),
           (''audit_records'', JArray audits)]"

text \<open>The definitions a migration may need besides its own two: those the document still names.\<close>

definition retain_definition ::
  "resolver \<Rightarrow> string \<Rightarrow> in_memory_resolver \<Rightarrow> (in_memory_resolver, string) outcome" where
  "retain_definition R fingerprint m =
     obind (ok_or ''source_definition_unavailable'' (R fingerprint)) (\<lambda>resolved.
     if \<not> rd_trusted resolved \<or> b_fingerprint (rd_bundle resolved) \<noteq> fingerprint then Err ''source_definition_untrusted''
     else Ok (snd (insert_definition (rd_bundle resolved) True m)))"

definition migration_definitions ::
  "artifact_resolver option \<Rightarrow> compiled_bundle \<Rightarrow> compiled_bundle \<Rightarrow> json \<Rightarrow> (in_memory_resolver, string) outcome" where
  "migration_definitions R source_bundle target_bundle document =
     (let m = snd (insert_definition target_bundle True (snd (insert_definition source_bundle True []))) in
      case R of
        None \<Rightarrow> Ok m
      | Some R' \<Rightarrow> ofold (retain_definition (ar_definition R')) (bs_of (collect_bundle_fingerprints document)) m)"

definition migrate_aggregate_v1_with_evidence_resolved ::
  "host \<Rightarrow> artifact_codec \<Rightarrow> native_aggregate \<Rightarrow> compiled_bundle \<Rightarrow> compiled_bundle \<Rightarrow> string \<Rightarrow> bool \<Rightarrow>
   resource_limits \<Rightarrow> artifact_resolver option \<Rightarrow> (json, string) outcome" where
  "migrate_aggregate_v1_with_evidence_resolved H A a source_bundle target_bundle descriptor_source maintenance limits R =
     (if jstr (jindex (ag_document a) ''validated_bundle_fingerprint'') \<noteq> Some (b_fingerprint source_bundle)
      then Err ''definition_fingerprint_mismatch''
      else
      obind (decode_descriptor_v1 H A descriptor_source) (\<lambda>descriptor.
      obind (ok_or invalid_descriptor (jstr (jindex descriptor ''migration_descriptor_digest''))) (\<lambda>digest.
      obind (ok_or invalid_aggregate (ho_canonical_text H descriptor)) (\<lambda>descriptor_bytes.
      obind (migration_definitions R source_bundle target_bundle (ag_document a)) (\<lambda>definitions.
      obind (ok_or invalid_aggregate (ho_canonical_text H (ag_document a))) (\<lambda>source.
      obind (map_persistence (migrate_aggregate H A
               (in_memory_artifacts definitions (snd (insert_descriptor digest descriptor_bytes True []))) limits source
               \<lparr>mr_migration_route = [digest], mr_target_fingerprint = b_fingerprint target_bundle,
                mr_maintenance_mode = maintenance\<rparr>)) (\<lambda>out.
      obind (runtime_id_map (ag_root a) (ag_root (mo_aggregate out))) (\<lambda>id_map.
      obind (merge_migrated_state H target_bundle (ag_document a) (mo_aggregate out) (mo_envelope out) id_map) (\<lambda>v1.
      obind (ok_or invalid_descriptor (jarray (jindex descriptor ''queued_event_rules''))) (\<lambda>rules.
      obind (apply_queued_event_rules (mo_aggregate out) target_bundle rules digest v1) (\<lambda>(v2, dispositions).
      obind (recall_deferred v2 (mo_aggregate out)) (\<lambda>v3.
      obind (validate_migrated_capacity (mo_aggregate out) v3) (\<lambda>_.
      obind (seal_aggregate H v3) (\<lambda>v4.
        Ok (migration_result v4 dispositions
              (map (audit_json source_bundle target_bundle digest (ag_document a) v4) (mo_audit_records out)))))))))))))))))"

definition migrate_aggregate_v1_with_evidence ::
  "host \<Rightarrow> artifact_codec \<Rightarrow> native_aggregate \<Rightarrow> compiled_bundle \<Rightarrow> compiled_bundle \<Rightarrow> string \<Rightarrow> bool \<Rightarrow>
   resource_limits \<Rightarrow> (json, string) outcome" where
  "migrate_aggregate_v1_with_evidence H A a source_bundle target_bundle descriptor_source maintenance limits =
     migrate_aggregate_v1_with_evidence_resolved H A a source_bundle target_bundle descriptor_source maintenance limits None"

text \<open>The result for the public keeps of a disposition its kind, its reason and the descriptor.\<close>

definition public_migration_result :: "json \<Rightarrow> (json, string) outcome" where
  "public_migration_result result =
     obind (expect (jarray (jindex result ''dispositions''))) (\<lambda>dispositions.
       Ok (jput ''dispositions'' (JArray (map (\<lambda>d. jobj [(''disposition'', jindex d ''disposition''),
              (''reason'', jindex d ''reason''), (''migration_descriptor_digest'', jindex d ''migration_descriptor_digest'')])
            dispositions)) result))"

definition migrate_aggregate_v1 ::
  "host \<Rightarrow> artifact_codec \<Rightarrow> native_aggregate \<Rightarrow> compiled_bundle \<Rightarrow> compiled_bundle \<Rightarrow> string \<Rightarrow> bool \<Rightarrow>
   resource_limits \<Rightarrow> (json, string) outcome" where
  "migrate_aggregate_v1 H A a source_bundle target_bundle descriptor_source maintenance limits =
     obind (migrate_aggregate_v1_with_evidence H A a source_bundle target_bundle descriptor_source maintenance limits)
       public_migration_result"

section \<open>Routes\<close>

text \<open>The two definitions of one descriptor of a route.\<close>

definition route_definitions ::
  "artifact_resolver \<Rightarrow> native_aggregate \<Rightarrow> json \<Rightarrow> (compiled_bundle \<times> compiled_bundle, string) outcome" where
  "route_definitions R a descriptor =
     obind (ok_or invalid_aggregate (jstr (jindex (ag_document a) ''validated_bundle_fingerprint''))) (\<lambda>source_fingerprint.
     obind (ok_or ''source_definition_unavailable'' (ar_definition R source_fingerprint)) (\<lambda>source.
     obind (ok_or invalid_descriptor (jstr (jindex descriptor ''target_validated_bundle_fingerprint''))) (\<lambda>target_fingerprint.
     obind (ok_or ''target_definition_unavailable'' (ar_definition R target_fingerprint)) (\<lambda>target.
     if \<not> rd_trusted source \<or> b_fingerprint (rd_bundle source) \<noteq> source_fingerprint \<or> \<not> rd_trusted target \<or>
        b_fingerprint (rd_bundle target) \<noteq> target_fingerprint
     then Err ''definition_not_trusted''
     else Ok (rd_bundle source, rd_bundle target)))))"

record route_state =
  rs_aggregate :: native_aggregate
  rs_dispositions :: "json list"
  rs_audits :: "json list"

definition route_step ::
  "host \<Rightarrow> artifact_codec \<Rightarrow> artifact_resolver \<Rightarrow> resource_limits \<Rightarrow> bool \<Rightarrow> string \<Rightarrow> route_state \<Rightarrow>
   (route_state, string) outcome" where
  "route_step H A R limits maintenance digest st =
     obind (ok_or ''migration_descriptor_not_found'' (ar_descriptor R digest)) (\<lambda>resolved.
     if \<not> rm_trusted resolved then Err ''migration_descriptor_untrusted''
     else
     obind (decode_descriptor_v1 H A (rm_bytes resolved)) (\<lambda>descriptor.
     if jstr (jindex descriptor ''migration_descriptor_digest'') \<noteq> Some digest then Err invalid_descriptor
     else
     obind (route_definitions R (rs_aggregate st) descriptor) (\<lambda>(source, target).
     obind (migrate_aggregate_v1_with_evidence_resolved H A (rs_aggregate st) source target (rm_bytes resolved) maintenance
              limits (Some R)) (\<lambda>result.
     obind (expect (jarray (jindex result ''dispositions''))) (\<lambda>dispositions.
     obind (expect (jarray (jindex result ''audit_records''))) (\<lambda>audits.
     obind (restore_aggregate_v1_value H (ar_definition R) (jindex result ''aggregate_state'')) (\<lambda>a.
       Ok \<lparr>rs_aggregate = a, rs_dispositions = rs_dispositions st @ dispositions, rs_audits = rs_audits st @ audits\<rparr>)))))))"

definition migrate_aggregate_v1_route_with_evidence ::
  "host \<Rightarrow> artifact_codec \<Rightarrow> artifact_resolver \<Rightarrow> resource_limits \<Rightarrow> native_aggregate \<Rightarrow> migration_request \<Rightarrow>
   (json, string) outcome" where
  "migrate_aggregate_v1_route_with_evidence H A R limits a request =
     (if mr_migration_route request = [] then
        if jindex (ag_document a) ''validated_bundle_fingerprint'' \<noteq> JString (mr_target_fingerprint request)
        then Err ''migration_route_missing''
        else Ok (migration_result (ag_document a) [] [])
      else
      obind (ofold (route_step H A R limits (mr_maintenance_mode request)) (mr_migration_route request)
               \<lparr>rs_aggregate = a, rs_dispositions = [], rs_audits = []\<rparr>) (\<lambda>st.
      if jstr (jindex (ag_document (rs_aggregate st)) ''validated_bundle_fingerprint'') \<noteq> Some (mr_target_fingerprint request)
      then Err totality_failure
      else Ok (migration_result (ag_document (rs_aggregate st)) (rs_dispositions st) (rs_audits st))))"

definition migrate_aggregate_v1_route ::
  "host \<Rightarrow> artifact_codec \<Rightarrow> artifact_resolver \<Rightarrow> resource_limits \<Rightarrow> native_aggregate \<Rightarrow> migration_request \<Rightarrow>
   (json, string) outcome" where
  "migrate_aggregate_v1_route H A R limits a request =
     obind (migrate_aggregate_v1_route_with_evidence H A R limits a request) public_migration_result"

end
