(* ===== verification/Store.thy ===== *)
theory Store
  imports Mailbox
begin

text \<open>
  Stores of execution checkpoints (\<^verbatim>\<open>src/checkpoint/store.rs\<close>, \<^verbatim>\<open>src/checkpoint/adapters/memory.rs\<close>):
  capabilities, retention modes, records, the compare-and-swap contract with the in-memory
  adapter, the configuration text of durable adapters, the profile predicate, and the policy
  by which a durable adapter accepts the replacement of a checkpoint.
\<close>

section \<open>Capabilities and modes\<close>

datatype execution_store_capability =
    Ephemeral
  | RestartPersistent
  | DurableSingleWriter
  | DurableConcurrent
  | CapSharedApplicationTransaction
  | PermanentReceiptRetention
  | RootIdentityRetention
  | PermanentOutboxTerminalRetention
  | CompactEffectIdentityRetention

fun capability_rank :: "execution_store_capability \<Rightarrow> nat" where
  "capability_rank Ephemeral = 0"
| "capability_rank RestartPersistent = 1"
| "capability_rank DurableSingleWriter = 2"
| "capability_rank DurableConcurrent = 3"
| "capability_rank CapSharedApplicationTransaction = 4"
| "capability_rank PermanentReceiptRetention = 5"
| "capability_rank RootIdentityRetention = 6"
| "capability_rank PermanentOutboxTerminalRetention = 7"
| "capability_rank CompactEffectIdentityRetention = 8"

text \<open>The derived order of the enumeration, by declaration.\<close>

instantiation execution_store_capability :: linorder
begin

definition less_eq_execution_store_capability :: "execution_store_capability \<Rightarrow> execution_store_capability \<Rightarrow> bool" where
  "less_eq_execution_store_capability a b \<longleftrightarrow> capability_rank a \<le> capability_rank b"

definition less_execution_store_capability :: "execution_store_capability \<Rightarrow> execution_store_capability \<Rightarrow> bool" where
  "less_execution_store_capability a b \<longleftrightarrow> capability_rank a < capability_rank b"

instance
proof
  fix a b :: execution_store_capability
  show "a \<le> b \<Longrightarrow> b \<le> a \<Longrightarrow> a = b"
    by (cases a; cases b) (simp_all add: less_eq_execution_store_capability_def)
qed (auto simp: less_eq_execution_store_capability_def less_execution_store_capability_def)

end

fun capability_str :: "execution_store_capability \<Rightarrow> string" where
  "capability_str Ephemeral = ''ephemeral''"
| "capability_str RestartPersistent = ''restart_persistent''"
| "capability_str DurableSingleWriter = ''durable_single_writer''"
| "capability_str DurableConcurrent = ''durable_concurrent''"
| "capability_str CapSharedApplicationTransaction = ''shared_application_transaction''"
| "capability_str PermanentReceiptRetention = ''permanent_receipt_retention''"
| "capability_str RootIdentityRetention = ''root_identity_retention''"
| "capability_str PermanentOutboxTerminalRetention = ''permanent_outbox_terminal_retention''"
| "capability_str CompactEffectIdentityRetention = ''compact_effect_identity_retention''"

definition capability_from_name :: "string \<Rightarrow> execution_store_capability option" where
  "capability_from_name name =
     find (\<lambda>c. capability_str c = name)
       [Ephemeral, RestartPersistent, DurableSingleWriter, DurableConcurrent, CapSharedApplicationTransaction,
        PermanentReceiptRetention, RootIdentityRetention, PermanentOutboxTerminalRetention,
        CompactEffectIdentityRetention]"

datatype receipt_retention_mode = ReceiptBounded | ReceiptPermanent

datatype outbox_retention_mode = OutboxBounded | OutboxStrict | OutboxCompact

fun receipt_retention_str :: "receipt_retention_mode \<Rightarrow> string" where
  "receipt_retention_str ReceiptBounded = ''bounded''"
| "receipt_retention_str ReceiptPermanent = ''permanent''"

fun outbox_retention_str :: "outbox_retention_mode \<Rightarrow> string" where
  "outbox_retention_str OutboxBounded = ''bounded''"
| "outbox_retention_str OutboxStrict = ''strict''"
| "outbox_retention_str OutboxCompact = ''compact''"

record durable_store_mode =
  dm_receipt_retention :: receipt_retention_mode
  dm_outbox_retention :: outbox_retention_mode

definition bounded_mode :: durable_store_mode where
  "bounded_mode = \<lparr>dm_receipt_retention = ReceiptBounded, dm_outbox_retention = OutboxBounded\<rparr>"

definition add_capabilities :: "durable_store_mode \<Rightarrow> execution_store_capability btree_set \<Rightarrow> execution_store_capability btree_set" where
  "add_capabilities mode cs =
     (let cs1 = (if dm_receipt_retention mode = ReceiptPermanent then bs_insert PermanentReceiptRetention cs else cs) in
      case dm_outbox_retention mode of
        OutboxBounded \<Rightarrow> cs1
      | OutboxStrict \<Rightarrow> bs_insert PermanentOutboxTerminalRetention cs1
      | OutboxCompact \<Rightarrow> bs_insert CompactEffectIdentityRetention cs1)"

section \<open>Records, results and errors\<close>

record store_record =
  sr_root_instance_id :: string
  sr_revision :: string
  sr_execution_checkpoint_digest :: string
  sr_bytes :: string

datatype store_write_result = Committed | Conflict "store_record option"

datatype store_error_code =
    ExecutionStoreFailure
  | InjectedPreCommitFailure
  | InvalidStoreScope
  | PermanentProcessingFailure
  | ResponseLostAfterCommit
  | TransientProcessingFailure

fun store_error_str :: "store_error_code \<Rightarrow> string" where
  "store_error_str ExecutionStoreFailure = ''execution_store_failure''"
| "store_error_str InjectedPreCommitFailure = ''injected_pre_commit_failure''"
| "store_error_str InvalidStoreScope = ''invalid_store_scope''"
| "store_error_str PermanentProcessingFailure = ''permanent_processing_failure''"
| "store_error_str ResponseLostAfterCommit = ''response_lost_after_commit''"
| "store_error_str TransientProcessingFailure = ''transient_processing_failure''"

record store_error =
  se_code :: store_error_code
  se_message :: string

definition store_error_new :: "string \<Rightarrow> store_error" where
  "store_error_new message = \<lparr>se_code = ExecutionStoreFailure, se_message = message\<rparr>"

datatype adapter_error_code =
    DuplicateAdapterRegistration
  | UnknownAdapter
  | InvalidAdapterConfiguration
  | AdapterCapabilityMismatch

fun adapter_error_str :: "adapter_error_code \<Rightarrow> string" where
  "adapter_error_str DuplicateAdapterRegistration = ''duplicate_adapter_registration''"
| "adapter_error_str UnknownAdapter = ''unknown_adapter''"
| "adapter_error_str InvalidAdapterConfiguration = ''invalid_adapter_configuration''"
| "adapter_error_str AdapterCapabilityMismatch = ''adapter_capability_mismatch''"

section \<open>The in-memory adapter\<close>

text \<open>
  \<^verbatim>\<open>MemoryExecutionStore\<close> is a map behind a mutex; a call that finds the mutex poisoned by a
  panicking thread fails and changes nothing.
\<close>

record memory_execution_store =
  ms_records :: "(string, store_record) btree_map"
  ms_poisoned :: bool

definition memory_store_new :: memory_execution_store where
  "memory_store_new = \<lparr>ms_records = [], ms_poisoned = False\<rparr>"

definition memory_lock :: "memory_execution_store \<Rightarrow> ((string, store_record) btree_map, store_error) outcome" where
  "memory_lock st =
     (if ms_poisoned st then Err (store_error_new ''memory store lock is poisoned'') else Ok (ms_records st))"

definition memory_capabilities :: "execution_store_capability btree_set" where
  "memory_capabilities = [Ephemeral]"

record health_status =
  hs_healthy :: bool
  hs_detail :: string

definition memory_health :: "memory_execution_store \<Rightarrow> (health_status, store_error) outcome" where
  "memory_health st =
     obind (memory_lock st) (\<lambda>_. Ok \<lparr>hs_healthy = True, hs_detail = ''memory store is available''\<rparr>)"

definition memory_load :: "memory_execution_store \<Rightarrow> string \<Rightarrow> (store_record option, store_error) outcome" where
  "memory_load st root_instance_id = obind (memory_lock st) (\<lambda>rs. Ok (bm_get rs root_instance_id))"

definition memory_insert_if_absent ::
  "memory_execution_store \<Rightarrow> store_record \<Rightarrow> (memory_execution_store \<times> store_write_result, store_error) outcome" where
  "memory_insert_if_absent st rec =
     obind (memory_lock st) (\<lambda>rs.
     case bm_get rs (sr_root_instance_id rec) of
       Some current \<Rightarrow> Ok (st, Conflict (Some current))
     | None \<Rightarrow> Ok (st\<lparr>ms_records := bm_insert (sr_root_instance_id rec) rec rs\<rparr>, Committed))"

definition memory_compare_and_swap ::
  "memory_execution_store \<Rightarrow> string \<Rightarrow> string \<Rightarrow> string \<Rightarrow> store_record \<Rightarrow>
   (memory_execution_store \<times> store_write_result, store_error) outcome" where
  "memory_compare_and_swap st root_instance_id expected_revision expected_checkpoint_digest replacement =
     (if sr_root_instance_id replacement \<noteq> root_instance_id
      then Err (store_error_new ''replacement belongs to another root'')
      else
      obind (memory_lock st) (\<lambda>rs.
      case bm_get rs root_instance_id of
        None \<Rightarrow> Ok (st, Conflict None)
      | Some current \<Rightarrow>
          if sr_revision current \<noteq> expected_revision \<or>
             sr_execution_checkpoint_digest current \<noteq> expected_checkpoint_digest
          then Ok (st, Conflict (Some current))
          else Ok (st\<lparr>ms_records := bm_insert root_instance_id replacement rs\<rparr>, Committed)))"

definition memory_factory_create :: "string \<Rightarrow> (memory_execution_store, adapter_error_code) outcome" where
  "memory_factory_create configuration =
     (if configuration \<noteq> ''memory:'' then Err InvalidAdapterConfiguration else Ok memory_store_new)"

section \<open>The contract of a store\<close>

text \<open>
  Writers of a store interleave in some order of operations; an operation that fails leaves the
  store as it was.
\<close>

datatype store_op =
    InsertIfAbsent store_record
  | CompareAndSwap string string string store_record

type_synonym 's insert_operation = "'s \<Rightarrow> store_record \<Rightarrow> ('s \<times> store_write_result, store_error) outcome"
type_synonym 's swap_operation = "'s \<Rightarrow> string \<Rightarrow> string \<Rightarrow> string \<Rightarrow> store_record \<Rightarrow> ('s \<times> store_write_result, store_error) outcome"

definition store_apply :: "'s insert_operation \<Rightarrow> 's swap_operation \<Rightarrow> 's \<Rightarrow> store_op \<Rightarrow> 's \<times> store_write_result option" where
  "store_apply ins cas s op =
     (case (case op of InsertIfAbsent r \<Rightarrow> ins s r | CompareAndSwap i rv d r \<Rightarrow> cas s i rv d r) of
        Ok (s', w) \<Rightarrow> (s', Some w)
      | _ \<Rightarrow> (s, None))"

fun store_run :: "'s insert_operation \<Rightarrow> 's swap_operation \<Rightarrow> 's \<Rightarrow> store_op list \<Rightarrow> 's \<times> store_write_result option list" where
  "store_run ins cas s [] = (s, [])"
| "store_run ins cas s (op # ops) =
     (let (s1, w) = store_apply ins cas s op; (s2, ws) = store_run ins cas s1 ops in (s2, w # ws))"

fun op_record :: "store_op \<Rightarrow> store_record" where
  "op_record (InsertIfAbsent r) = r"
| "op_record (CompareAndSwap i rv d r) = r"

definition token :: "store_record \<Rightarrow> string \<times> string" where
  "token r = (sr_revision r, sr_execution_checkpoint_digest r)"

text \<open>What an operation must find under its root to commit: nothing, or a record with a token.\<close>

fun op_expects :: "store_op \<Rightarrow> string \<times> (string \<times> string) option" where
  "op_expects (InsertIfAbsent r) = (sr_root_instance_id r, None)"
| "op_expects (CompareAndSwap i rv d r) = (i, Some (rv, d))"

text \<open>The records that a run commits under a root, in order.\<close>

definition committed :: "string \<Rightarrow> (store_op \<times> store_write_result option) list \<Rightarrow> store_op list" where
  "committed i ows = map fst (filter (\<lambda>(op, w). w = Some Committed \<and> fst (op_expects op) = i) ows)"

fun linked :: "store_record option \<Rightarrow> store_op list \<Rightarrow> store_record option \<Rightarrow> bool" where
  "linked current [] final \<longleftrightarrow> current = final"
| "linked current (op # ops) final \<longleftrightarrow>
     snd (op_expects op) = map_option token current \<and> linked (Some (op_record op)) ops final"

locale cas_store =
  fixes view :: "'s \<Rightarrow> string \<Rightarrow> store_record option"
    and load :: "'s \<Rightarrow> string \<Rightarrow> (store_record option, store_error) outcome"
    and ins :: "'s insert_operation"
    and cas :: "'s swap_operation"
  assumes load_view: "load s i = Ok x \<Longrightarrow> x = view s i"
    and ins_law: "ins s r = Ok (s', w) \<Longrightarrow>
      (case view s (sr_root_instance_id r) of
         None \<Rightarrow> w = Committed \<and> view s' = (view s)(sr_root_instance_id r \<mapsto> r)
       | Some c \<Rightarrow> w = Conflict (Some c) \<and> s' = s)"
    and cas_law: "cas s i rv d r = Ok (s', w) \<Longrightarrow>
      (if map_option token (view s i) = Some (rv, d)
       then w = Committed \<and> view s' = (view s)(i \<mapsto> r)
       else w = Conflict (view s i) \<and> s' = s)"
begin

lemma apply_cases:
  "(s', w) = store_apply ins cas s op \<Longrightarrow>
     (w = Some Committed \<and> snd (op_expects op) = map_option token (view s (fst (op_expects op))) \<and>
        view s' = (view s)(fst (op_expects op) \<mapsto> op_record op)) \<or>
     (w \<noteq> Some Committed \<and> s' = s)"
proof (cases op)
  case (InsertIfAbsent r)
  assume "(s', w) = store_apply ins cas s op"
  with InsertIfAbsent ins_law [of s r] show ?thesis
    by (auto simp: store_apply_def split: outcome.split_asm option.split_asm prod.split_asm)
next
  case (CompareAndSwap i rv d r)
  assume "(s', w) = store_apply ins cas s op"
  with CompareAndSwap cas_law [of s i rv d r] show ?thesis
    by (auto simp: store_apply_def split: outcome.split_asm if_split_asm prod.split_asm)
qed

lemma run_linked: "store_run ins cas s ops = (s', ws) \<Longrightarrow> linked (view s i) (committed i (zip ops ws)) (view s' i)"
proof (induction ops arbitrary: s ws)
  case (Cons op ops)
  obtain s1 w where a: "store_apply ins cas s op = (s1, w)" by fastforce
  obtain ws' where ws: "store_run ins cas s1 ops = (s', ws')" "ws = w # ws'"
    using Cons.prems by (auto simp: a split: prod.split_asm)
  from Cons.IH [OF ws(1)] apply_cases [OF a [symmetric]] show ?case by (auto simp: ws(2) committed_def)
qed (simp add: committed_def)

end

lemma linked_permanent: "linked current ops final \<Longrightarrow> current \<noteq> None \<Longrightarrow> final \<noteq> None"
  by (induction ops arbitrary: current) auto

interpretation memory_store: cas_store "\<lambda>st. bm_get (ms_records st)" memory_load memory_insert_if_absent memory_compare_and_swap
proof unfold_locales
  fix s i x
  assume "memory_load s i = Ok x"
  then show "x = bm_get (ms_records s) i" by (auto simp: memory_load_def memory_lock_def split: if_split_asm)
next
  fix s r s' w
  assume "memory_insert_if_absent s r = Ok (s', w)"
  then show "case bm_get (ms_records s) (sr_root_instance_id r) of
      None \<Rightarrow> w = Committed \<and> bm_get (ms_records s') = (bm_get (ms_records s))(sr_root_instance_id r \<mapsto> r)
    | Some c \<Rightarrow> w = Conflict (Some c) \<and> s' = s"
    by (auto simp: memory_insert_if_absent_def memory_lock_def fun_eq_iff split: if_split_asm option.split_asm)
next
  fix s i rv d r s' w
  assume "memory_compare_and_swap s i rv d r = Ok (s', w)"
  then show "if map_option token (bm_get (ms_records s) i) = Some (rv, d)
      then w = Committed \<and> bm_get (ms_records s') = (bm_get (ms_records s))(i \<mapsto> r)
      else w = Conflict (bm_get (ms_records s) i) \<and> s' = s"
    by (auto simp: memory_compare_and_swap_def memory_lock_def token_def fun_eq_iff split: if_split_asm option.split_asm)
qed

text \<open>
  C30: no update of a checkpoint is lost.  In every interleaving of writers on the in-memory
  store, the writes committed under a root form a chain from the record before to the record
  after: each was committed against exactly the revision and digest of the record it
  replaced, or against the absence of one, and a root that has a record never loses it.
\<close>

theorem memory_no_lost_update:
  assumes "store_run memory_insert_if_absent memory_compare_and_swap st ops = (st', ws)"
  shows "linked (bm_get (ms_records st) i) (committed i (zip ops ws)) (bm_get (ms_records st') i) \<and>
    (bm_has (ms_records st) i \<longrightarrow> bm_has (ms_records st') i)"
proof -
  have l: "linked (bm_get (ms_records st) i) (committed i (zip ops ws)) (bm_get (ms_records st') i)"
    using assms by (rule memory_store.run_linked)
  moreover have "bm_has (ms_records st) i \<longrightarrow> bm_has (ms_records st') i"
    using linked_permanent [OF l] by (auto simp: bm_has_iff bm_get_None_iff)
  ultimately show ?thesis by blast
qed

text \<open>Two writers that read the record of revision 1 race to replace it.\<close>

definition stored :: "string \<Rightarrow> store_record" where
  "stored rv = \<lparr>sr_root_instance_id = ''i'', sr_revision = rv, sr_execution_checkpoint_digest = ''d'' @ rv, sr_bytes = []\<rparr>"

definition race :: "store_op list" where
  "race = [InsertIfAbsent (stored ''2''), CompareAndSwap ''i'' ''1'' ''d1'' (stored ''2''),
     CompareAndSwap ''i'' ''1'' ''d1'' (stored ''3''), CompareAndSwap ''i'' ''2'' ''d2'' (stored ''3'')]"

definition race_start :: memory_execution_store where
  "race_start = memory_store_new\<lparr>ms_records := [(''i'', stored ''1'')]\<rparr>"

lemma race_run:
  "store_run memory_insert_if_absent memory_compare_and_swap race_start race =
     (memory_store_new\<lparr>ms_records := [(''i'', stored ''3'')]\<rparr>,
      [Some (Conflict (Some (stored ''1''))), Some Committed, Some (Conflict (Some (stored ''2''))), Some Committed])"
  by code_simp

theorem memory_no_lost_update_witness:
  "linked (Some (stored ''1'')) [CompareAndSwap ''i'' ''1'' ''d1'' (stored ''2''), CompareAndSwap ''i'' ''2'' ''d2'' (stored ''3'')]
     (Some (stored ''3''))"
  using memory_no_lost_update [OF race_run, of "''i''"]
  by (simp add: race_def race_start_def committed_def memory_store_new_def stored_def)

end
