(* ===== verification/Store_Policy.thy ===== *)
theory Store_Policy
  imports Store Restore
begin

text \<open>
  What a durable adapter promises of its host and its checkpoints
  (\<^verbatim>\<open>src/checkpoint/store.rs\<close>, \<^verbatim>\<open>src/checkpoint/adapter_policy.rs\<close>): the profile
  predicate, the configuration text, the selection rules of the registry, and the retention
  policy under which one checkpoint may replace another.  JSON parsing of stored bytes and
  JSON-schema validators are parameters.
\<close>

section \<open>Host profiles\<close>

datatype host_profile =
    DurableEmbeddedProcessing
  | ExactlyOnceCommittedProcessing
  | BrokerIntegrated
  | StrictDurableOutbox
  | CompactDurableOutbox
  | SharedApplicationTransaction

fun host_profile_str :: "host_profile \<Rightarrow> string" where
  "host_profile_str DurableEmbeddedProcessing = ''durable_embedded_processing''"
| "host_profile_str ExactlyOnceCommittedProcessing = ''exactly_once_committed_processing''"
| "host_profile_str BrokerIntegrated = ''broker_integrated''"
| "host_profile_str StrictDurableOutbox = ''strict_durable_outbox''"
| "host_profile_str CompactDurableOutbox = ''compact_durable_outbox''"
| "host_profile_str SharedApplicationTransaction = ''shared_application_transaction''"

definition host_profile_from_name :: "string \<Rightarrow> host_profile option" where
  "host_profile_from_name name =
     find (\<lambda>p. host_profile_str p = name)
       [DurableEmbeddedProcessing, ExactlyOnceCommittedProcessing, BrokerIntegrated, StrictDurableOutbox,
        CompactDurableOutbox, SharedApplicationTransaction]"

datatype host_feature =
    AtomicCheckpointProcessing
  | AcknowledgeAfterCheckpointCommit
  | DurableRedelivery
  | OutboxWorker
  | TotalOutboxLifecycle
  | RetainUnresolvedOutbox
  | RetainReferencedEffectTombstones
  | NativeSharedApplicationTransaction

fun host_feature_str :: "host_feature \<Rightarrow> string" where
  "host_feature_str AtomicCheckpointProcessing = ''atomic_accept_process''"
| "host_feature_str AcknowledgeAfterCheckpointCommit = ''ingress_ack_after_commit''"
| "host_feature_str DurableRedelivery = ''durable_redelivery''"
| "host_feature_str OutboxWorker = ''outbox_worker''"
| "host_feature_str TotalOutboxLifecycle = ''total_outbox_lifecycle''"
| "host_feature_str RetainUnresolvedOutbox = ''retain_unresolved_outbox''"
| "host_feature_str RetainReferencedEffectTombstones = ''retain_receipt_references''"
| "host_feature_str NativeSharedApplicationTransaction = ''native_shared_transaction_used''"

definition host_feature_from_name :: "string \<Rightarrow> host_feature option" where
  "host_feature_from_name name =
     find (\<lambda>p. host_feature_str p = name)
       [AtomicCheckpointProcessing, AcknowledgeAfterCheckpointCommit, DurableRedelivery, OutboxWorker,
        TotalOutboxLifecycle, RetainUnresolvedOutbox, RetainReferencedEffectTombstones,
        NativeSharedApplicationTransaction]"

definition hypothetical_host_profile_matches ::
  "execution_store_capability list \<Rightarrow> host_feature list \<Rightarrow> host_profile \<Rightarrow> bool \<Rightarrow> bool" where
  "hypothetical_host_profile_matches capabilities features profile permanent_replay_retention \<longleftrightarrow>
     (let durable = (DurableSingleWriter \<in> set capabilities \<or> DurableConcurrent \<in> set capabilities);
          root_retained = (RootIdentityRetention \<in> set capabilities);
          atomic = (AtomicCheckpointProcessing \<in> set features) in
      case profile of
        DurableEmbeddedProcessing \<Rightarrow> durable \<and> root_retained \<and> atomic
      | ExactlyOnceCommittedProcessing \<Rightarrow>
          durable \<and> root_retained \<and> atomic \<and> permanent_replay_retention \<and> PermanentReceiptRetention \<in> set capabilities
      | BrokerIntegrated \<Rightarrow>
          durable \<and> root_retained \<and> atomic \<and> AcknowledgeAfterCheckpointCommit \<in> set features \<and>
          DurableRedelivery \<in> set features \<and> OutboxWorker \<in> set features
      | StrictDurableOutbox \<Rightarrow>
          durable \<and> root_retained \<and> PermanentOutboxTerminalRetention \<in> set capabilities \<and>
          OutboxWorker \<in> set features \<and> TotalOutboxLifecycle \<in> set features \<and> RetainUnresolvedOutbox \<in> set features
      | CompactDurableOutbox \<Rightarrow>
          durable \<and> root_retained \<and> CompactEffectIdentityRetention \<in> set capabilities \<and>
          OutboxWorker \<in> set features \<and> TotalOutboxLifecycle \<in> set features \<and>
          RetainReferencedEffectTombstones \<in> set features
      | SharedApplicationTransaction \<Rightarrow>
          durable \<and> root_retained \<and> CapSharedApplicationTransaction \<in> set capabilities \<and>
          NativeSharedApplicationTransaction \<in> set features)"

section \<open>Configuration text\<close>

text \<open>\<^verbatim>\<open>str::split_once\<close> and \<^verbatim>\<open>str::rsplit_once\<close> at a character.\<close>

fun split_once :: "char \<Rightarrow> string \<Rightarrow> (string \<times> string) option" where
  "split_once c [] = None"
| "split_once c (x # xs) =
     (if x = c then Some ([], xs) else map_option (map_prod ((#) x) id) (split_once c xs))"

definition rsplit_once :: "char \<Rightarrow> string \<Rightarrow> (string \<times> string) option" where
  "rsplit_once c s = map_option (\<lambda>(a, b). (rev b, rev a)) (split_once c (rev s))"

record durable_options =
  do_receipt_retention :: "receipt_retention_mode option"
  do_outbox_retention :: "outbox_retention_mode option"
  do_adapter_options :: "(string, string) btree_map"

definition receipt_mode_of :: "string \<Rightarrow> receipt_retention_mode option" where
  "receipt_mode_of value = find (\<lambda>m. receipt_retention_str m = value) [ReceiptBounded, ReceiptPermanent]"

definition outbox_mode_of :: "string \<Rightarrow> outbox_retention_mode option" where
  "outbox_mode_of value = find (\<lambda>m. outbox_retention_str m = value) [OutboxBounded, OutboxStrict, OutboxCompact]"

definition parse_option :: "string list \<Rightarrow> string \<Rightarrow> durable_options \<Rightarrow> (durable_options, adapter_error_code) outcome" where
  "parse_option allowed_options option os =
     (case split_once (CHR ''='') option of
        None \<Rightarrow> Err InvalidAdapterConfiguration
      | Some (name, value) \<Rightarrow>
          if name = ''receipt_retention'' then
            (if do_receipt_retention os \<noteq> None then Err InvalidAdapterConfiguration
             else obind (ok_or InvalidAdapterConfiguration (receipt_mode_of value)) (\<lambda>m.
                    Ok (os\<lparr>do_receipt_retention := Some m\<rparr>)))
          else if name = ''outbox_retention'' then
            (if do_outbox_retention os \<noteq> None then Err InvalidAdapterConfiguration
             else obind (ok_or InvalidAdapterConfiguration (outbox_mode_of value)) (\<lambda>m.
                    Ok (os\<lparr>do_outbox_retention := Some m\<rparr>)))
          else if name \<in> set allowed_options then
            (if value = [] \<or> bm_has (do_adapter_options os) name then Err InvalidAdapterConfiguration
             else Ok (os\<lparr>do_adapter_options := bm_insert name value (do_adapter_options os)\<rparr>))
          else Err InvalidAdapterConfiguration)"

definition parse_durable_store_configuration_with_options ::
  "string \<Rightarrow> string list \<Rightarrow> (string \<times> durable_store_mode \<times> (string, string) btree_map, adapter_error_code) outcome" where
  "parse_durable_store_configuration_with_options configuration allowed_options =
     (case rsplit_once (CHR ''#'') configuration of
        None \<Rightarrow> Err InvalidAdapterConfiguration
      | Some (location, options) \<Rightarrow>
          if location = [] \<or> options = [] then Err InvalidAdapterConfiguration
          else
          obind (ofold (parse_option allowed_options) (split_on (CHR ''&'') options)
                   \<lparr>do_receipt_retention = None, do_outbox_retention = None, do_adapter_options = []\<rparr>) (\<lambda>os.
          obind (ok_or InvalidAdapterConfiguration (do_receipt_retention os)) (\<lambda>receipt_retention.
          obind (ok_or InvalidAdapterConfiguration (do_outbox_retention os)) (\<lambda>outbox_retention.
            Ok (location, \<lparr>dm_receipt_retention = receipt_retention, dm_outbox_retention = outbox_retention\<rparr>,
                do_adapter_options os)))))"

definition parse_durable_store_configuration :: "string \<Rightarrow> (string \<times> durable_store_mode, adapter_error_code) outcome" where
  "parse_durable_store_configuration configuration =
     obind (parse_durable_store_configuration_with_options configuration []) (\<lambda>(location, mode, _). Ok (location, mode))"

section \<open>Registry selection rules\<close>

text \<open>
  \<^verbatim>\<open>src/checkpoint/adapter_policy.rs\<close>.  The validator crate is two parameters: whether a
  schema compiles, and whether it accepts a document.
\<close>

record schemas =
  sc_compiles :: "json \<Rightarrow> bool"
  sc_accepts :: "json \<Rightarrow> json \<Rightarrow> bool"

definition identifier_char :: "char \<Rightarrow> bool" where
  "identifier_char c \<longleftrightarrow>
     (97 \<le> (of_char c :: nat) \<and> (of_char c :: nat) \<le> 122) \<or> is_digit c \<or> c \<in> set ''+.-''"

definition is_identifier :: "json \<Rightarrow> bool" where
  "is_identifier v =
     (case jstr v of
        Some (c # cs) \<Rightarrow> 97 \<le> (of_char c :: nat) \<and> (of_char c :: nat) \<le> 122 \<and> list_all identifier_char cs
      | _ \<Rightarrow> False)"

definition capability_names :: "json \<Rightarrow> (string list, adapter_error_code) outcome" where
  "capability_names v =
     obind (ok_or InvalidAdapterConfiguration (jarray v)) (\<lambda>values.
     let names = List.map_filter jstr values in
     if length names \<noteq> length values \<or> list_ex (\<lambda>name. capability_from_name name = None) names \<or>
        length (bs_of names) \<noteq> length names
     then Err InvalidAdapterConfiguration
     else Ok names)"

definition adapter_registration_policy ::
  "schemas \<Rightarrow> json list \<Rightarrow> json \<Rightarrow> (json, adapter_error_code) outcome" where
  "adapter_registration_policy S existing proposed =
     obind (ok_or InvalidAdapterConfiguration (jobject proposed)) (\<lambda>members.
     if length members \<noteq> 5 \<or> \<not> is_identifier (jindex proposed ''adapter_identifier'') \<or>
        \<not> is_identifier (jindex proposed ''uri_scheme'') \<or>
        jstr (jindex proposed ''source'') \<notin> {Some ''bundled'', Some ''third_party''} \<or>
        jobject (jindex proposed ''configuration_schema'') = None \<or> \<not> bm_has members ''capabilities''
     then Err InvalidAdapterConfiguration
     else
     obind (capability_names (jindex proposed ''capabilities'')) (\<lambda>_.
     if \<not> sc_compiles S (jindex proposed ''configuration_schema'') then Err InvalidAdapterConfiguration
     else if list_ex (\<lambda>item. jindex item ''adapter_identifier'' = jindex proposed ''adapter_identifier'' \<or>
                jindex item ''uri_scheme'' = jindex proposed ''uri_scheme'') existing
     then Err DuplicateAdapterRegistration
     else Ok proposed))"

definition uri_scheme :: "string \<Rightarrow> string" where
  "uri_scheme uri = (case split_once (CHR '':'') uri of Some parts \<Rightarrow> fst parts | None \<Rightarrow> [])"

definition adapter_resolution_policy ::
  "schemas \<Rightarrow> json list \<Rightarrow> string \<Rightarrow> string option \<Rightarrow> json \<Rightarrow> json \<Rightarrow> (json, adapter_error_code) outcome" where
  "adapter_resolution_policy S registrations uri requested_identifier configuration requested_capabilities =
     obind (ok_or UnknownAdapter (find (\<lambda>entry. jstr (jindex entry ''uri_scheme'') = Some (uri_scheme uri) \<and>
              (case requested_identifier of None \<Rightarrow> True
               | Some name \<Rightarrow> jstr (jindex entry ''adapter_identifier'') = Some name)) registrations)) (\<lambda>registration.
     if \<not> (sc_compiles S (jindex registration ''configuration_schema'') \<and>
           sc_accepts S (jindex registration ''configuration_schema'') configuration)
     then Err InvalidAdapterConfiguration
     else
     obind (capability_names requested_capabilities) (\<lambda>requested.
     obind (capability_names (jindex registration ''capabilities'')) (\<lambda>available.
     if \<not> list_all (\<lambda>name. name \<in> set available) requested then Err AdapterCapabilityMismatch
     else Ok (jobj [(''registration'', registration), (''configuration'', configuration),
                    (''requested_capabilities'', requested_capabilities)]))))"

definition capability_report :: "json \<Rightarrow> (json, adapter_error_code) outcome" where
  "capability_report request =
     obind (capability_names (jindex request ''store_capabilities'')) (\<lambda>names.
     obind (ok_or InvalidAdapterConfiguration (jarray (jindex request ''host_guarantees''))) (\<lambda>guarantees.
     obind (ok_or InvalidAdapterConfiguration
              (collect_option (map (\<lambda>g. Option.bind (jstr g) host_feature_from_name) guarantees))) (\<lambda>features.
     obind (ok_or InvalidAdapterConfiguration
              (Option.bind (jstr (jindex request ''host_profile'')) host_profile_from_name)) (\<lambda>profile.
     if \<not> hypothetical_host_profile_matches (List.map_filter capability_from_name names) features profile
            (jindex request ''retention_mode'' = JString ''permanent'')
     then Err AdapterCapabilityMismatch
     else Ok (jobj [(''kind'', JString ''capability_report''),
        (''body'', jobj [(''adapter_identifier'', jindex request ''adapter_identifier''),
           (''host_profile'', jindex request ''host_profile''), (''host_guarantees'', jindex request ''host_guarantees''),
           (''retention_mode'', jindex request ''retention_mode''),
           (''store_capabilities'', jindex request ''store_capabilities''), (''validated'', JBool True)])])))))"

definition decide_policy :: "schemas \<Rightarrow> json \<Rightarrow> (json, adapter_error_code) outcome" where
  "decide_policy S request =
     (if jstr (jindex request ''operation'') = Some ''checkpoint_register_adapter_v1'' then
        obind (ok_or InvalidAdapterConfiguration (jarray (jindex request ''existing_registrations''))) (\<lambda>existing.
        obind (adapter_registration_policy S existing (jindex request ''registration'')) (\<lambda>body.
          Ok (jobj [(''kind'', JString ''registration''), (''body'', body)])))
      else if jstr (jindex request ''operation'') = Some ''checkpoint_resolve_adapter_v1'' then
        obind (ok_or InvalidAdapterConfiguration (jarray (jindex request ''registrations''))) (\<lambda>registrations.
        obind (ok_or InvalidAdapterConfiguration (jstr (jindex request ''uri''))) (\<lambda>uri.
        obind (adapter_resolution_policy S registrations uri (jstr (jindex request ''adapter_identifier''))
                 (jindex request ''configuration'') (jindex request ''requested_capabilities'')) (\<lambda>body.
          Ok (jobj [(''kind'', JString ''resolution''), (''body'', body)]))))
      else if jstr (jindex request ''operation'') = Some ''checkpoint_validate_capabilities_v1'' then capability_report request
      else Err InvalidAdapterConfiguration)"

definition conditional_adapter_policy :: "schemas \<Rightarrow> json \<Rightarrow> (json, adapter_error_code) outcome" where
  "conditional_adapter_policy S request =
     (case decide_policy S request of
        Err code \<Rightarrow> Ok (jobj [(''kind'', JString ''typed_failure''),
                         (''body'', jobj [(''code'', JString (adapter_error_str code))])])
      | x \<Rightarrow> x)"

section \<open>The retention policy\<close>

text \<open>
  \<^verbatim>\<open>serde_json::from_slice\<close> on the stored bytes is a parameter; the members that the code
  unwraps panic when they are not what it expects.  Errors keep their message.
\<close>

abbreviation policy_error :: "string \<Rightarrow> store_error" where
  "policy_error \<equiv> store_error_new"

definition jcounter :: "json \<Rightarrow> counter option" where
  "jcounter j = Option.bind (jstr j) from_decimal"

definition jremove :: "string \<Rightarrow> json \<Rightarrow> json" where
  "jremove k j = (case j of JObject ms \<Rightarrow> JObject (bm_remove k ms) | _ \<Rightarrow> j)"

definition jflatten :: "json \<Rightarrow> json list" where
  "jflatten j = (case jarray j of Some js \<Rightarrow> js | None \<Rightarrow> [])"

definition mailbox_reference_current :: "json \<Rightarrow> json \<Rightarrow> bool" where
  "mailbox_reference_current checkpoint nxt \<longleftrightarrow>
     length (filter (\<lambda>entry. jindex entry ''delivery_mode'' = JString ''internal'' \<and>
         jindex (jindex entry ''envelope'') ''event_id'' = jindex nxt ''event_id'' \<and>
         jindex entry ''acceptance_sequence'' = jindex nxt ''acceptance_sequence'' \<and>
         jindex entry ''queue_sequence'' = jindex nxt ''queue_sequence'')
       (concat (map (\<lambda>r. jflatten (jindex r ''ready_mailbox'') @ jflatten (jindex r ''deferred_mailbox''))
          (jflatten (jindex (jindex (jindex checkpoint ''root_record'') ''aggregate_state'') ''runtimes''))))) = 1"

definition queue_advanced :: "json \<Rightarrow> json \<Rightarrow> json \<Rightarrow> bool" where
  "queue_advanced before_state prior nxt =
     (case (jcounter (jindex prior ''queue_sequence''), jcounter (jindex nxt ''queue_sequence''),
            jcounter (jindex (jindex (jindex before_state ''root_record'') ''aggregate_state'') ''next_queue_sequence'')) of
        (Some p, Some n, Some low) \<Rightarrow> p < n \<and> low \<le> n
      | _ \<Rightarrow> False)"

definition terminal_reference_current :: "json \<Rightarrow> json \<Rightarrow> json \<Rightarrow> bool" where
  "terminal_reference_current checkpoint nxt sequence \<longleftrightarrow>
     length (filter (\<lambda>receipt. jindex receipt ''operation_kind'' = JString ''event_terminal'' \<and>
         jindex receipt ''receipt_sequence'' = sequence \<and> jindex receipt ''event_id'' = jindex nxt ''event_id'' \<and>
         jindex receipt ''acceptance_sequence'' = jindex nxt ''acceptance_sequence'')
       (jflatten (jindex checkpoint ''operation_receipts''))) = 1"

definition terminal_is_new :: "json \<Rightarrow> json \<Rightarrow> json option \<Rightarrow> bool" where
  "terminal_is_new before_state prior_body terminal =
     (case (Option.bind terminal jcounter, jcounter (jindex prior_body ''receipt_sequence''),
            jcounter (jindex before_state ''next_operation_receipt_sequence'')) of
        (Some t, Some producer, Some low) \<Rightarrow> producer < t \<and> low \<le> t
      | _ \<Rightarrow> False)"

definition reference_evolves :: "json \<Rightarrow> json \<Rightarrow> json \<Rightarrow> json \<Rightarrow> json \<Rightarrow> (bool, store_error) outcome" where
  "reference_evolves before_state checkpoint prior_body prior nxt =
     (if prior = nxt then Ok True
      else if jindex prior ''kind'' \<noteq> JString ''internal_mailbox'' then Ok False
      else
      obind (expect (jobject nxt)) (\<lambda>_.
      let old = jremove ''queue_sequence'' (jremove ''kind'' prior);
          updated = jremove ''queue_sequence'' (jremove ''kind'' nxt) in
      if jindex nxt ''kind'' = JString ''internal_mailbox'' \<and> old = updated
      then Ok (queue_advanced before_state prior nxt \<and> mailbox_reference_current checkpoint nxt)
      else if jindex nxt ''kind'' = JString ''internal_terminal''
      then
        let terminal = jget updated ''terminal_receipt_sequence'' in
        Ok (old = jremove ''terminal_receipt_sequence'' updated \<and> terminal_is_new before_state prior_body terminal \<and>
            (case terminal of None \<Rightarrow> False | Some sequence \<Rightarrow> terminal_reference_current checkpoint nxt sequence))
      else Ok False))"

fun oall :: "('a \<Rightarrow> (bool, 'e) outcome) \<Rightarrow> 'a list \<Rightarrow> (bool, 'e) outcome" where
  "oall p [] = Ok True"
| "oall p (x # xs) = obind (p x) (\<lambda>b. if b then oall p xs else Ok False)"

definition receipt_body :: "json \<Rightarrow> json" where
  "receipt_body receipt = jremove ''emission_references'' receipt"

definition retained_receipt_evolves :: "json \<Rightarrow> json \<Rightarrow> json \<Rightarrow> json \<Rightarrow> (bool, store_error) outcome" where
  "retained_receipt_evolves prior nxt before_state checkpoint =
     (if prior = nxt then Ok True
      else if receipt_body prior \<noteq> receipt_body nxt then Ok False
      else
      (case (Option.bind (jget prior ''emission_references'') jarray, Option.bind (jget nxt ''emission_references'') jarray) of
         (Some prior_refs, Some next_refs) \<Rightarrow>
           if length prior_refs \<noteq> length next_refs then Ok False
           else oall (\<lambda>(p, n). reference_evolves before_state checkpoint (receipt_body prior) p n) (zip prior_refs next_refs)
       | _ \<Rightarrow> Ok False))"

record checkpoint_codec =
  cc_parse :: "string \<Rightarrow> json option"
  cc_canonical_text :: "json \<Rightarrow> string option"
  cc_sha256 :: "string \<Rightarrow> string"

definition policy_checkpoint :: "checkpoint_codec \<Rightarrow> store_record \<Rightarrow> (json, store_error) outcome" where
  "policy_checkpoint K rec = ok_or (policy_error ''checkpoint policy validation failed'') (cc_parse K (sr_bytes rec))"

definition validate_policy_candidate :: "durable_store_mode \<Rightarrow> json \<Rightarrow> (unit, store_error) outcome" where
  "validate_policy_candidate mode checkpoint =
     (if dm_receipt_retention mode = ReceiptPermanent \<and>
         jindex (jindex checkpoint ''replay_retention'') ''mode'' \<noteq> JString ''permanent''
      then Err (policy_error ''permanent receipt retention requires permanent checkpoint replay retention'')
      else if dm_outbox_retention mode = OutboxStrict \<and> jarray (jindex checkpoint ''outbox_effect_tombstones'') \<noteq> Some []
      then Err (policy_error ''strict outbox retention forbids compact effect tombstones'')
      else Ok ())"

definition receipt_references_effect :: "json \<Rightarrow> string \<Rightarrow> (bool, store_error) outcome" where
  "receipt_references_effect checkpoint effect_id =
     obind (expect (jarray (jindex checkpoint ''operation_receipts''))) (\<lambda>receipts.
       Ok (list_ex (\<lambda>reference. jindex reference ''kind'' = JString ''external_outbox'' \<and>
             jstr (jindex reference ''effect_id'') = Some effect_id)
           (concat (List.map_filter (\<lambda>receipt. jarray (jindex receipt ''emission_references'')) receipts))))"

definition policy_intent_digest :: "checkpoint_codec \<Rightarrow> json \<Rightarrow> json \<Rightarrow> (json, store_error) outcome" where
  "policy_intent_digest K root_instance_id intent =
     obind (ok_or (policy_error ''canonicalization failed'')
              (cc_canonical_text K (JArray [JString ''determa-outbox-intent-digest-1'', JString ''1'', root_instance_id, intent])))
       (\<lambda>text. Ok (JString (''sha256:'' @ cc_sha256 K text)))"

definition compact_tombstone_matches :: "checkpoint_codec \<Rightarrow> json \<Rightarrow> json \<Rightarrow> json \<Rightarrow> (bool, store_error) outcome" where
  "compact_tombstone_matches K checkpoint terminal tombstone =
     (if jindex terminal ''terminal_sequence'' = jindex tombstone ''terminal_sequence'' \<and>
         jindex (jindex terminal ''intent'') ''effect_id'' = jindex tombstone ''effect_id'' \<and>
         jindex terminal ''committed_revision'' = jindex tombstone ''committed_revision'' \<and>
         jindex terminal ''outcome'' = jindex tombstone ''outcome''
      then obind (policy_intent_digest K (jindex checkpoint ''root_instance_id'') (jindex terminal ''intent'')) (\<lambda>d.
             Ok (d = jindex tombstone ''intent_digest''))
      else Ok False)"

definition tombstone_kept :: "json \<Rightarrow> json \<Rightarrow> (unit, store_error) outcome" where
  "tombstone_kept after_state tombstone =
     obind (expect (jstr (jindex tombstone ''effect_id''))) (\<lambda>effect_id.
     obind (receipt_references_effect after_state effect_id) (\<lambda>referenced.
     if \<not> referenced then Ok ()
     else obind (expect (jarray (jindex after_state ''outbox_effect_tombstones''))) (\<lambda>tombstones.
       if tombstone \<notin> set tombstones
       then Err (policy_error ''compact outbox retention forbids referenced tombstone removal'') else Ok ())))"

definition terminal_kept :: "checkpoint_codec \<Rightarrow> json \<Rightarrow> json \<Rightarrow> json \<Rightarrow> (unit, store_error) outcome" where
  "terminal_kept K before_state after_state terminal =
     obind (expect (jstr (jindex (jindex terminal ''intent'') ''effect_id''))) (\<lambda>effect_id.
     obind (receipt_references_effect after_state effect_id) (\<lambda>referenced.
     if \<not> referenced then Ok ()
     else
     obind (expect (jarray (jindex after_state ''terminal_outbox_records''))) (\<lambda>terminals.
     if terminal \<in> set terminals then Ok ()
     else
     obind (expect (jarray (jindex after_state ''outbox_effect_tombstones''))) (\<lambda>tombstones.
     obind (case find (\<lambda>t. jstr (jindex t ''effect_id'') = Some effect_id) tombstones of
              None \<Rightarrow> Ok False
            | Some tombstone \<Rightarrow>
                (case compact_tombstone_matches K before_state terminal tombstone of Err _ \<Rightarrow> Ok False | x \<Rightarrow> x)) (\<lambda>matches.
     if matches then Ok ()
     else Err (policy_error ''compact outbox retention requires full intent or matching tombstone evidence''))))))"

definition validate_compact_retention_transition :: "checkpoint_codec \<Rightarrow> json \<Rightarrow> json \<Rightarrow> (unit, store_error) outcome" where
  "validate_compact_retention_transition K before_state after_state =
     obind (expect (jarray (jindex before_state ''outbox_effect_tombstones''))) (\<lambda>tombstones.
     obind (ofold (\<lambda>t _. tombstone_kept after_state t) tombstones ()) (\<lambda>_.
     obind (expect (jarray (jindex before_state ''terminal_outbox_records''))) (\<lambda>terminals.
       ofold (\<lambda>t _. terminal_kept K before_state after_state t) terminals ())))"

definition strict_terminal_kept :: "json \<Rightarrow> json \<Rightarrow> (unit, store_error) outcome" where
  "strict_terminal_kept after_state terminal =
     obind (expect (jarray (jindex after_state ''terminal_outbox_records''))) (\<lambda>terminals.
       if terminal \<notin> set terminals
       then Err (policy_error ''strict outbox retention forbids terminal record removal or compaction'') else Ok ())"

definition validate_policy_insert ::
  "checkpoint_codec \<Rightarrow> durable_store_mode \<Rightarrow> store_record \<Rightarrow> (unit, store_error) outcome" where
  "validate_policy_insert K mode rec =
     (if mode = bounded_mode then Ok ()
      else obind (policy_checkpoint K rec) (validate_policy_candidate mode))"

definition validate_policy_replacement ::
  "checkpoint_codec \<Rightarrow> durable_store_mode \<Rightarrow> store_record \<Rightarrow> store_record \<Rightarrow> (unit, store_error) outcome" where
  "validate_policy_replacement K mode current replacement =
     (if mode = bounded_mode then Ok ()
      else
      obind (policy_checkpoint K current) (\<lambda>before_state.
      obind (policy_checkpoint K replacement) (\<lambda>after_state.
      obind (validate_policy_candidate mode after_state) (\<lambda>_.
      obind (expect (jarray (jindex before_state ''operation_receipts''))) (\<lambda>before_receipts.
      obind (expect (jarray (jindex after_state ''operation_receipts''))) (\<lambda>after_receipts.
      obind (if dm_receipt_retention mode \<noteq> ReceiptPermanent then Ok True
             else if length after_receipts < length before_receipts then Ok False
             else oall (\<lambda>(prior, nxt). retained_receipt_evolves prior nxt before_state after_state)
                    (zip before_receipts after_receipts)) (\<lambda>retained.
      if \<not> retained then Err (policy_error ''permanent receipt retention forbids receipt removal or replacement'')
      else
      (case dm_outbox_retention mode of
         OutboxBounded \<Rightarrow> Ok ()
       | OutboxStrict \<Rightarrow>
           obind (expect (jarray (jindex before_state ''terminal_outbox_records''))) (\<lambda>terminals.
             ofold (\<lambda>t _. strict_terminal_kept after_state t) terminals ())
       | OutboxCompact \<Rightarrow> validate_compact_retention_transition K before_state after_state))))))))"

section \<open>What the policy keeps\<close>

text \<open>The checkpoints that accepted replacements lead to.\<close>

inductive replaced :: "checkpoint_codec \<Rightarrow> durable_store_mode \<Rightarrow> store_record \<Rightarrow> store_record \<Rightarrow> bool"
  for K mode where
  replaced_refl: "replaced K mode r r"
| replaced_step: "replaced K mode r s \<Longrightarrow> validate_policy_replacement K mode s t = Ok () \<Longrightarrow> replaced K mode r t"

lemma oall_Ok_True: "oall p xs = Ok True \<longleftrightarrow> list_all (\<lambda>x. p x = Ok True) xs"
  by (induction xs) (auto simp: obind_Ok_iff split: if_splits)

lemma retained_receipt_body: "retained_receipt_evolves p n b c = Ok True \<Longrightarrow> receipt_body n = receipt_body p"
  by (auto simp: retained_receipt_evolves_def split: if_split_asm)

lemma retained_receipts_prefix:
  assumes "list_all (\<lambda>x. (\<lambda>(p, n). retained_receipt_evolves p n b c) x = Ok True) (zip rs rs')" "length rs \<le> length rs'"
  shows "map receipt_body (take (length rs) rs') = map receipt_body rs"
  using assms
proof (induction rs arbitrary: rs')
  case (Cons r rs)
  then obtain r' rs'' where "rs' = r' # rs''" by (cases rs') auto
  with Cons show ?case by (auto dest: retained_receipt_body)
qed simp

lemma replacement_receipts:
  assumes "validate_policy_replacement K mode s t = Ok ()" "dm_receipt_retention mode = ReceiptPermanent"
  obtains b a rs rs' where "policy_checkpoint K s = Ok b" "policy_checkpoint K t = Ok a"
    "jarray (jindex b ''operation_receipts'') = Some rs" "jarray (jindex a ''operation_receipts'') = Some rs'"
    "map receipt_body (take (length rs) rs') = map receipt_body rs" "length rs \<le> length rs'"
proof -
  from assms have "mode \<noteq> bounded_mode" by (auto simp: bounded_mode_def)
  with assms obtain b a rs rs' where *: "policy_checkpoint K s = Ok b" "policy_checkpoint K t = Ok a"
      "jarray (jindex b ''operation_receipts'') = Some rs" "jarray (jindex a ''operation_receipts'') = Some rs'"
      "length rs \<le> length rs'" "oall (\<lambda>(p, n). retained_receipt_evolves p n b a) (zip rs rs') = Ok True"
    by (auto simp: validate_policy_replacement_def obind_Ok_iff split: if_split_asm)
  with that retained_receipts_prefix show thesis by (metis oall_Ok_True)
qed

lemma ofold_unit: "ofold (\<lambda>x _. f x) xs () = Ok () \<longleftrightarrow> list_all (\<lambda>x. f x = Ok ()) xs"
  by (induction xs) (auto simp: obind_Ok_iff)

lemma replacement_terminals:
  assumes "validate_policy_replacement K mode s t = Ok ()" "dm_outbox_retention mode = OutboxStrict"
  obtains b a ts ts' where "policy_checkpoint K s = Ok b" "policy_checkpoint K t = Ok a"
    "jarray (jindex b ''terminal_outbox_records'') = Some ts"
    "set ts \<subseteq> set (jflatten (jindex a ''terminal_outbox_records''))"
proof -
  from assms have "mode \<noteq> bounded_mode" by (auto simp: bounded_mode_def)
  with assms obtain b a ts where *: "policy_checkpoint K s = Ok b" "policy_checkpoint K t = Ok a"
      "jarray (jindex b ''terminal_outbox_records'') = Some ts" "ofold (\<lambda>t _. strict_terminal_kept a t) ts () = Ok ()"
    by (auto simp: validate_policy_replacement_def obind_Ok_iff split: if_split_asm)
  from *(4) have "set ts \<subseteq> set (jflatten (jindex a ''terminal_outbox_records''))"
    by (auto simp: ofold_unit list_all_iff strict_terminal_kept_def obind_Ok_iff jflatten_def split: if_split_asm)
  with * that show thesis by blast
qed

text \<open>
  C32: what a store has promised to retain survives every sequence of accepted replacements.
  Under permanent receipt retention the operation receipts of a checkpoint stay at the front of
  those of every later one, unchanged but for the resolution of their emission references;
  under strict outbox retention every terminal outbox record is still there.
\<close>

theorem retention_kept:
  assumes "replaced K mode r t" "policy_checkpoint K r = Ok b" "policy_checkpoint K t = Ok a"
  shows "(dm_receipt_retention mode = ReceiptPermanent \<and> jarray (jindex b ''operation_receipts'') = Some rs \<longrightarrow>
      (\<exists>rs'. jarray (jindex a ''operation_receipts'') = Some rs' \<and> map receipt_body (take (length rs) rs') = map receipt_body rs)) \<and>
    (dm_outbox_retention mode = OutboxStrict \<and> jarray (jindex b ''terminal_outbox_records'') = Some ts \<longrightarrow>
      set ts \<subseteq> set (jflatten (jindex a ''terminal_outbox_records'')))"
  using assms
proof (induction arbitrary: a)
  case (replaced_step r s t)
  have receipts: "\<exists>rs'. jarray (jindex a ''operation_receipts'') = Some rs' \<and> map receipt_body (take (length rs) rs') = map receipt_body rs"
    if p: "dm_receipt_retention mode = ReceiptPermanent" "jarray (jindex b ''operation_receipts'') = Some rs"
  proof (rule replacement_receipts [OF replaced_step.hyps(2) p(1)])
    fix b' a' rs1 rs2
    assume s: "policy_checkpoint K s = Ok b'" "policy_checkpoint K t = Ok a'" "jarray (jindex b' ''operation_receipts'') = Some rs1"
      "jarray (jindex a' ''operation_receipts'') = Some rs2" "map receipt_body (take (length rs1) rs2) = map receipt_body rs1"
    with replaced_step.IH [OF replaced_step.prems(1), of b'] p have
      "map receipt_body (take (length rs) rs1) = map receipt_body rs" by auto
    moreover from this have "length rs \<le> length rs1" by (metis length_map length_take min.absorb_iff1 min_def nat_le_linear)
    ultimately have "map receipt_body (take (length rs) rs2) = map receipt_body rs"
      using arg_cong [OF s(5), of "take (length rs)"] by (simp add: take_map min_absorb1)
    with s replaced_step.prems(2) show ?thesis by auto
  qed
  have "set ts \<subseteq> set (jflatten (jindex a ''terminal_outbox_records''))"
    if p: "dm_outbox_retention mode = OutboxStrict" "jarray (jindex b ''terminal_outbox_records'') = Some ts"
    by (rule replacement_terminals [OF replaced_step.hyps(2) p(1)])
      (use p replaced_step.IH [OF replaced_step.prems(1)] replaced_step.prems(2) in \<open>fastforce simp: jflatten_def\<close>)
  with receipts show ?case by blast
qed (auto simp: jflatten_def)

text \<open>A checkpoint with one receipt whose mailbox reference is resolved in the next one.\<close>

definition retained_reference :: "string \<Rightarrow> string \<Rightarrow> json" where
  "retained_reference kind sequence = jobj [(''kind'', JString kind), (''event_id'', JString ''e''),
     (''acceptance_sequence'', JString ''0''),
     (if kind = ''internal_mailbox'' then ''queue_sequence'' else ''terminal_receipt_sequence'', JString sequence)]"

definition retained_receipt :: "json \<Rightarrow> json" where
  "retained_receipt reference = jobj [(''operation_kind'', JString ''creation''), (''receipt_sequence'', JString ''0''),
     (''emission_references'', JArray [reference])]"

definition terminal_receipt :: json where
  "terminal_receipt = jobj [(''operation_kind'', JString ''event_terminal''), (''receipt_sequence'', JString ''1''),
     (''event_id'', JString ''e''), (''acceptance_sequence'', JString ''0'')]"

definition retained_checkpoint :: "string \<Rightarrow> json list \<Rightarrow> json" where
  "retained_checkpoint next_sequence receipts = jobj [(''replay_retention'', jobj [(''mode'', JString ''permanent'')]),
     (''next_operation_receipt_sequence'', JString next_sequence), (''operation_receipts'', JArray receipts),
     (''outbox_effect_tombstones'', JArray []), (''terminal_outbox_records'', JArray [])]"

definition retained_codec :: checkpoint_codec where
  "retained_codec = \<lparr>cc_parse = (\<lambda>s. if s = ''a''
       then Some (retained_checkpoint ''1'' [retained_receipt (retained_reference ''internal_mailbox'' ''0'')])
       else Some (retained_checkpoint ''2'' [retained_receipt (retained_reference ''internal_terminal'' ''1''), terminal_receipt])),
     cc_canonical_text = (\<lambda>_. Some []), cc_sha256 = (\<lambda>_. [])\<rparr>"

definition retained_mode :: durable_store_mode where
  "retained_mode = \<lparr>dm_receipt_retention = ReceiptPermanent, dm_outbox_retention = OutboxStrict\<rparr>"

definition retained_record :: "string \<Rightarrow> store_record" where
  "retained_record bytes = \<lparr>sr_root_instance_id = ''i'', sr_revision = bytes, sr_execution_checkpoint_digest = bytes, sr_bytes = bytes\<rparr>"

theorem retention_kept_witness:
  "\<exists>rs'. jarray (jindex (retained_checkpoint ''2'' [retained_receipt (retained_reference ''internal_terminal'' ''1''), terminal_receipt])
       ''operation_receipts'') = Some rs' \<and>
     map receipt_body (take 1 rs') = [receipt_body (retained_receipt (retained_reference ''internal_mailbox'' ''0''))]"
proof -
  have "validate_policy_replacement retained_codec retained_mode (retained_record ''a'') (retained_record ''b'') = Ok ()" by code_simp
  then have r: "replaced retained_codec retained_mode (retained_record ''a'') (retained_record ''b'')"
    by (rule replaced_step [OF replaced_refl])
  have a: "policy_checkpoint retained_codec (retained_record ''a'') =
      Ok (retained_checkpoint ''1'' [retained_receipt (retained_reference ''internal_mailbox'' ''0'')])"
    and b: "policy_checkpoint retained_codec (retained_record ''b'') =
      Ok (retained_checkpoint ''2'' [retained_receipt (retained_reference ''internal_terminal'' ''1''), terminal_receipt])"
    by (simp_all add: policy_checkpoint_def retained_codec_def retained_record_def)
  from retention_kept [OF r a b, of "[retained_receipt (retained_reference ''internal_mailbox'' ''0'')]" "[]"]
  show ?thesis by (simp add: retained_mode_def retained_checkpoint_def)
qed

lemma split_once_append: "c \<notin> set s \<Longrightarrow> split_once c (s @ c # t) = Some (s, t)"
  by (induction s) auto

lemma rsplit_once_append: "c \<notin> set t \<Longrightarrow> rsplit_once c (s @ c # t) = Some (s, t)"
  using split_once_append [of c "rev t" "rev s"] by (simp add: rsplit_once_def)

text \<open>
  The configuration text of a durable adapter determines its location and its retention
  modes: reading the text written from a location and the two modes gives them back, whatever
  characters the location holds, the separator of the options included.
\<close>

theorem configuration_roundtrip:
  assumes "location \<noteq> []"
  shows "parse_durable_store_configuration (location @ ''#receipt_retention='' @ receipt_retention_str r @
      ''&outbox_retention='' @ outbox_retention_str ob) =
    Ok (location, \<lparr>dm_receipt_retention = r, dm_outbox_retention = ob\<rparr>)"
proof -
  let ?options = "''receipt_retention='' @ receipt_retention_str r @ ''&outbox_retention='' @ outbox_retention_str ob"
  have "CHR ''#'' \<notin> set ?options" by (cases r; cases ob) simp_all
  from rsplit_once_append [OF this, of location] have
    s: "rsplit_once (CHR ''#'') (location @ ''#receipt_retention='' @ receipt_retention_str r @
       ''&outbox_retention='' @ outbox_retention_str ob) = Some (location, ?options)"
    by simp
  have "ofold (parse_option []) (split_on (CHR ''&'') ?options)
      \<lparr>do_receipt_retention = None, do_outbox_retention = None, do_adapter_options = []\<rparr> =
    Ok \<lparr>do_receipt_retention = Some r, do_outbox_retention = Some ob, do_adapter_options = []\<rparr>"
    by (cases r; cases ob) (simp_all add: parse_option_def receipt_mode_of_def outbox_mode_of_def)
  with s assms show ?thesis
    by (simp add: parse_durable_store_configuration_def parse_durable_store_configuration_with_options_def)
qed

theorem configuration_roundtrip_witness:
  "parse_durable_store_configuration (''db#1'' @ ''#receipt_retention='' @ receipt_retention_str ReceiptPermanent @
      ''&outbox_retention='' @ outbox_retention_str OutboxCompact) =
    Ok (''db#1'', \<lparr>dm_receipt_retention = ReceiptPermanent, dm_outbox_retention = OutboxCompact\<rparr>)"
  by (rule configuration_roundtrip) simp

section \<open>Registration and resolution\<close>

inductive registered :: "schemas \<Rightarrow> json list \<Rightarrow> bool" for S where
  registered_Nil: "registered S []"
| registered_Cons: "registered S es \<Longrightarrow> adapter_registration_policy S es p = Ok e \<Longrightarrow> registered S (es @ [e])"

lemma registration_Ok:
  "adapter_registration_policy S es p = Ok e \<Longrightarrow>
     e = p \<and> jstr (jindex e ''uri_scheme'') \<noteq> None \<and> sc_compiles S (jindex e ''configuration_schema'') \<and>
     (\<exists>names. capability_names (jindex e ''capabilities'') = Ok names) \<and>
     list_all (\<lambda>x. jindex x ''uri_scheme'' \<noteq> jindex e ''uri_scheme'' \<and> jindex x ''adapter_identifier'' \<noteq> jindex e ''adapter_identifier'') es"
  by (auto simp: adapter_registration_policy_def obind_Ok_iff is_identifier_def list_ex_iff list_all_iff
      split: if_split_asm option.split_asm)

lemma registered_valid:
  "registered S es \<Longrightarrow> e \<in> set es \<Longrightarrow>
     sc_compiles S (jindex e ''configuration_schema'') \<and> (\<exists>names. capability_names (jindex e ''capabilities'') = Ok names)"
  by (induction rule: registered.induct) (auto dest: registration_Ok)

lemma registered_unique:
  "registered S es \<Longrightarrow> x \<in> set es \<Longrightarrow> y \<in> set es \<Longrightarrow> jindex x ''uri_scheme'' = jindex y ''uri_scheme'' \<Longrightarrow> x = y"
  by (induction rule: registered.induct) (auto simp: list_all_iff dest!: registration_Ok)

text \<open>
  A registered adapter is found again.  In a registry that grew by accepted registrations,
  resolving a location of the scheme of an entry, with a configuration its schema accepts and
  capabilities it declares, yields that entry and no other.
\<close>

theorem registered_adapter_resolves:
  assumes "registered S es" "e \<in> set es" "jstr (jindex e ''uri_scheme'') = Some (uri_scheme uri)"
    "sc_accepts S (jindex e ''configuration_schema'') configuration" "capability_names requested = Ok names"
    "capability_names (jindex e ''capabilities'') = Ok available" "list_all (\<lambda>n. n \<in> set available) names"
  shows "adapter_resolution_policy S es uri None configuration requested =
    Ok (jobj [(''registration'', e), (''configuration'', configuration), (''requested_capabilities'', requested)])"
proof -
  let ?p = "\<lambda>entry. jstr (jindex entry ''uri_scheme'') = Some (uri_scheme uri)"
  obtain x where x: "find ?p es = Some x" using assms(2,3) by (cases "find ?p es") (auto simp: find_None_iff)
  then have "x \<in> set es" "?p x" by (auto simp: find_Some_iff)
  then have "jindex x ''uri_scheme'' = jindex e ''uri_scheme''"
    using assms(3) by (auto simp: jstr_def split: json.splits)
  with registered_unique [OF assms(1) \<open>x \<in> set es\<close> assms(2)] have "x = e" by blast
  with x assms registered_valid [OF assms(1,2)] show ?thesis by (simp add: adapter_resolution_policy_def)
qed

definition memory_registration :: json where
  "memory_registration = jobj [(''adapter_identifier'', JString ''memory''), (''uri_scheme'', JString ''memory''),
     (''source'', JString ''bundled''), (''configuration_schema'', jobj []), (''capabilities'', JArray [JString ''ephemeral''])]"

definition any_schema :: schemas where
  "any_schema = \<lparr>sc_compiles = (\<lambda>_. True), sc_accepts = (\<lambda>_ _. True)\<rparr>"

theorem registered_adapter_resolves_witness:
  "adapter_resolution_policy any_schema [memory_registration] ''memory:'' None JNull (JArray []) =
    Ok (jobj [(''registration'', memory_registration), (''configuration'', JNull), (''requested_capabilities'', JArray [])])"
proof -
  have "adapter_registration_policy any_schema [] memory_registration = Ok memory_registration" by code_simp
  from registered_Cons [OF registered_Nil this] have r: "registered any_schema [memory_registration]" by simp
  have c: "capability_names (JArray []) = Ok []" "capability_names (jindex memory_registration ''capabilities'') = Ok [''ephemeral'']"
    by code_simp+
  have s: "jstr (jindex memory_registration ''uri_scheme'') = Some (uri_scheme ''memory:'')" by code_simp
  show ?thesis by (rule registered_adapter_resolves [OF r _ s _ c]) (simp_all add: any_schema_def)
qed

end
