(* ===== verification/Checkpoint.thy ===== *)
theory Checkpoint
  imports Mailbox_Step Store_Policy "HOL-Library.Product_Lexorder"
begin

text \<open>
  Execution checkpoints (\<^verbatim>\<open>src/checkpoint/v1.rs\<close>): the document, its digest and its guard,
  the evidence of identities it retains, and the checks of its semantics.  A checkpoint works on
  JSON as the code does; an error is its code.  Where the code unwraps, the model panics.
\<close>

section \<open>The document\<close>

abbreviation invalid_checkpoint :: string where
  "invalid_checkpoint \<equiv> ''invalid_execution_checkpoint''"

text \<open>
  Beside the parameters of the mailbox host: the JSON-schema validator of checkpoints, and the
  reader of JSON text (\<^verbatim>\<open>strict_json::parse\<close> over the deserialiser of \<^verbatim>\<open>serde_json\<close>).
\<close>

record checkpoint_host =
  ck_host :: host
  ck_schema :: "json \<Rightarrow> bool"
  ck_parse :: "string \<Rightarrow> json option"

record execution_checkpoint =
  cp_value :: json
  cp_aggregate :: "native_aggregate option"

definition cp_root_instance_id :: "execution_checkpoint \<Rightarrow> (string, string) outcome" where
  "cp_root_instance_id cp = string_field (cp_value cp) ''root_instance_id''"

definition cp_revision :: "execution_checkpoint \<Rightarrow> (string, string) outcome" where
  "cp_revision cp = string_field (cp_value cp) ''revision''"

definition cp_digest :: "execution_checkpoint \<Rightarrow> (string, string) outcome" where
  "cp_digest cp = string_field (cp_value cp) ''execution_checkpoint_digest''"

definition cp_bundle_fingerprint :: "execution_checkpoint \<Rightarrow> string option" where
  "cp_bundle_fingerprint cp =
     Option.bind (cp_aggregate cp) (\<lambda>a. jstr (jindex (ag_document a) ''validated_bundle_fingerprint''))"

text \<open>\<^verbatim>\<open>value[k].as_array().unwrap()\<close>, and the same with a push at the end.\<close>

definition need_array :: "json \<Rightarrow> string \<Rightarrow> (json list, string) outcome" where
  "need_array v k = expect (jarray (jindex v k))"

definition push_member :: "string \<Rightarrow> json \<Rightarrow> json \<Rightarrow> (json, string) outcome" where
  "push_member k x v = obind (need_array v k) (\<lambda>xs. Ok (jput k (JArray (xs @ [x])) v))"

text \<open>Conjunction and search over conditions that may panic, evaluated only as far as needed.\<close>

definition oand :: "(bool, 'e) outcome \<Rightarrow> (bool, 'e) outcome \<Rightarrow> (bool, 'e) outcome" where
  "oand x y = obind x (\<lambda>b. if b then y else Ok False)"

fun oany :: "('a \<Rightarrow> (bool, 'e) outcome) \<Rightarrow> 'a list \<Rightarrow> (bool, 'e) outcome" where
  "oany p [] = Ok False"
| "oany p (x # xs) = obind (p x) (\<lambda>b. if b then Ok True else oany p xs)"

definition valid_if :: "bool \<Rightarrow> (unit, string) outcome" where
  "valid_if b = (if b then Ok () else Err invalid_checkpoint)"

definition counter_at :: "json \<Rightarrow> string \<Rightarrow> (counter, string) outcome" where
  "counter_at v field =
     obind (ok_or invalid_checkpoint (jstr (jindex v field))) (\<lambda>s. ok_or invalid_checkpoint (from_decimal s))"

definition allocate_field :: "json \<Rightarrow> string \<Rightarrow> (json \<times> string, string) outcome" where
  "allocate_field v field =
     obind (counter_at v field) (\<lambda>c.
       Ok (jput field (JString (canonical_decimal (snd (allocate c)))) v, canonical_decimal (fst (allocate c))))"

definition incremented :: "json \<Rightarrow> (json, string) outcome" where
  "incremented j =
     obind (ok_or invalid_checkpoint (jstr j)) (\<lambda>s.
     obind (ok_or invalid_checkpoint (from_decimal s)) (\<lambda>c.
       Ok (JString (canonical_decimal (snd (allocate c))))))"

definition checkpoint_hash :: "checkpoint_host \<Rightarrow> json \<Rightarrow> (string, string) outcome" where
  "checkpoint_hash C j =
     (case jcs_hash (ck_host C) j of
        Ok d \<Rightarrow> Ok d | Err _ \<Rightarrow> Err invalid_checkpoint | Panic \<Rightarrow> Panic | OutOfFuel \<Rightarrow> OutOfFuel)"

definition checkpoint_digest :: "checkpoint_host \<Rightarrow> json \<Rightarrow> (string, string) outcome" where
  "checkpoint_digest C v =
     obind (ok_or invalid_checkpoint (jobject v)) (\<lambda>_.
       checkpoint_hash C (JArray [JString ''determa-execution-checkpoint-digest-1'',
         jremove ''execution_checkpoint_digest'' v]))"

definition seal_checkpoint :: "checkpoint_host \<Rightarrow> json \<Rightarrow> (json, string) outcome" where
  "seal_checkpoint C v =
     obind (need_array v ''operation_receipts'') (\<lambda>rs.
     obind (sort_by_field (\<lambda>r. counter_field r ''receipt_sequence'') rs) (\<lambda>rs'.
     let v' = jput ''operation_receipts'' (JArray rs') v in
     obind (checkpoint_digest C v') (\<lambda>d. Ok (jput ''execution_checkpoint_digest'' (JString d) v'))))"

definition checkpoint_guard ::
  "execution_checkpoint \<Rightarrow> string option \<Rightarrow> string option \<Rightarrow> (unit, string) outcome" where
  "checkpoint_guard cp revision digest =
     (if (case revision of None \<Rightarrow> False | Some expected \<Rightarrow> jstr (jindex (cp_value cp) ''revision'') \<noteq> Some expected) \<or>
         (case digest of None \<Rightarrow> False
          | Some expected \<Rightarrow> jstr (jindex (cp_value cp) ''execution_checkpoint_digest'') \<noteq> Some expected)
      then Err ''checkpoint_revision_conflict'' else Ok ())"

definition validate_mutation_guard :: "execution_checkpoint \<Rightarrow> string \<Rightarrow> string \<Rightarrow> (unit, string) outcome" where
  "validate_mutation_guard cp revision digest = checkpoint_guard cp (Some revision) (Some digest)"

section \<open>Targets, mailboxes and references\<close>

definition target_member :: "json \<Rightarrow> string \<times> string \<Rightarrow> string option" where
  "target_member t kf = Option.bind (jget t (fst kf)) (\<lambda>v. jstr (jindex v (snd kf)))"

definition target_runtime_id :: "json \<Rightarrow> (string, string) outcome" where
  "target_runtime_id t =
     ok_or invalid_checkpoint (find_map (target_member t)
       [(''root'', ''root_runtime_id''), (''component'', ''component_runtime_id''), (''spawned_instance'', ''instance_id'')])"

definition target_root_instance_id :: "json \<Rightarrow> string option" where
  "target_root_instance_id t =
     find_map (target_member t)
       [(''root'', ''root_instance_id''), (''component'', ''root_instance_id''), (''spawned_instance'', ''root_instance_id'')]"

definition ready_head :: "json \<Rightarrow> string \<Rightarrow> (json, string) outcome" where
  "ready_head aggregate runtime_id =
     obind (need_array aggregate ''runtimes'') (\<lambda>rs.
     obind (ok_or ''invalid_instance_target'' (find (\<lambda>r. jindex r ''runtime_id'' = JString runtime_id) rs)) (\<lambda>r.
       ok_or ''not_runnable'' (Option.bind (jarray (jindex r ''ready_mailbox''))
         (\<lambda>es. case es of [] \<Rightarrow> None | e # _ \<Rightarrow> Some e))))"

definition outbox_effect :: "json \<Rightarrow> string option" where
  "outbox_effect item = jstr (jindex (jindex item ''intent'') ''effect_id'')"

definition tombstone_effect :: "json \<Rightarrow> string option" where
  "tombstone_effect item = jstr (jindex item ''effect_id'')"

definition retained_effect_ids :: "json \<Rightarrow> string btree_set" where
  "retained_effect_ids v =
     bs_of (List.map_filter outbox_effect (jflatten (jindex v ''pending_outbox_intents'')) @
            List.map_filter outbox_effect (jflatten (jindex v ''terminal_outbox_records'')) @
            List.map_filter tombstone_effect (jflatten (jindex v ''outbox_effect_tombstones'')))"

definition emission_references :: "json \<Rightarrow> json list option" where
  "emission_references receipt = Option.bind (jget receipt ''emission_references'') jarray"

definition refers_to_event :: "string \<Rightarrow> json \<Rightarrow> bool" where
  "refers_to_event event_id reference \<longleftrightarrow>
     jindex reference ''kind'' = JString ''internal_mailbox'' \<and> jstr (jindex reference ''event_id'') = Some event_id"

definition terminal_reference :: "string \<Rightarrow> json \<Rightarrow> json" where
  "terminal_reference terminal reference =
     jobj [(''kind'', JString ''internal_terminal''), (''emission_index'', jindex reference ''emission_index''),
           (''event_id'', jindex reference ''event_id''),
           (''acceptance_sequence'', jindex reference ''acceptance_sequence''),
           (''terminal_receipt_sequence'', JString terminal)]"

definition rewrite_references :: "string \<Rightarrow> string \<Rightarrow> json \<Rightarrow> json" where
  "rewrite_references event_id terminal receipt =
     (case emission_references receipt of
        None \<Rightarrow> receipt
      | Some refs \<Rightarrow>
          jput ''emission_references''
            (JArray (map (\<lambda>ref. if refers_to_event event_id ref then terminal_reference terminal ref else ref) refs)) receipt)"

definition rewrite_producer_event_reference :: "json \<Rightarrow> string \<Rightarrow> string \<Rightarrow> (json, string) outcome" where
  "rewrite_producer_event_reference v event_id terminal =
     obind (need_array v ''operation_receipts'') (\<lambda>rs.
     let found = concat (map (\<lambda>r. case emission_references r of None \<Rightarrow> [] | Some refs \<Rightarrow> filter (refers_to_event event_id) refs) rs) in
     if 1 < length found then Err invalid_checkpoint
     else Ok (jput ''operation_receipts'' (JArray (map (rewrite_references event_id terminal) rs)) v))"

definition rewrite_producer_reference :: "json \<Rightarrow> json \<Rightarrow> string \<Rightarrow> (json, string) outcome" where
  "rewrite_producer_reference v causal terminal =
     (let source = jindex (jindex causal ''envelope'') ''source'' in
      if jget source ''runtime'' \<noteq> None \<or> jget source ''system'' \<noteq> None
      then obind (string_field (jindex causal ''envelope'') ''event_id'') (\<lambda>event_id.
             rewrite_producer_event_reference v event_id terminal)
      else Ok v)"

text \<open>\<^verbatim>\<open>synchronize_internal_mailbox_references\<close>: references follow the queue numbers of their events.\<close>

definition sync_entry ::
  "json \<Rightarrow> (string \<times> string, json) btree_map \<Rightarrow> ((string \<times> string, json) btree_map, string) outcome" where
  "sync_entry entry sequences =
     (if jindex entry ''delivery_mode'' = JString ''internal''
      then obind (string_field (jindex entry ''envelope'') ''event_id'') (\<lambda>event_id.
           obind (string_field entry ''acceptance_sequence'') (\<lambda>acceptance.
             Ok (bm_insert (event_id, acceptance) (jindex entry ''queue_sequence'') sequences)))
      else Ok sequences)"

definition sync_runtime ::
  "json \<Rightarrow> (string \<times> string, json) btree_map \<Rightarrow> ((string \<times> string, json) btree_map, string) outcome" where
  "sync_runtime r sequences =
     obind (ok_or invalid_checkpoint (jarray (jindex r ''ready_mailbox''))) (\<lambda>ready.
     obind (ofold sync_entry ready sequences) (\<lambda>sequences1.
     obind (ok_or invalid_checkpoint (jarray (jindex r ''deferred_mailbox''))) (\<lambda>deferred.
       ofold sync_entry deferred sequences1)))"

definition sync_reference :: "(string \<times> string, json) btree_map \<Rightarrow> json \<Rightarrow> (json, string) outcome" where
  "sync_reference sequences reference =
     (if jindex reference ''kind'' = JString ''internal_mailbox''
      then obind (string_field reference ''event_id'') (\<lambda>event_id.
           obind (string_field reference ''acceptance_sequence'') (\<lambda>acceptance.
             Ok (case bm_get sequences (event_id, acceptance) of
                   None \<Rightarrow> reference | Some sequence \<Rightarrow> jput ''queue_sequence'' sequence reference)))
      else Ok reference)"

definition sync_receipt :: "(string \<times> string, json) btree_map \<Rightarrow> json \<Rightarrow> (json, string) outcome" where
  "sync_receipt sequences receipt =
     (case emission_references receipt of
        None \<Rightarrow> Ok receipt
      | Some refs \<Rightarrow>
          obind (collect_outcome (map (sync_reference sequences) refs)) (\<lambda>refs'.
            Ok (jput ''emission_references'' (JArray refs') receipt)))"

definition synchronize_internal_mailbox_references :: "json \<Rightarrow> (json, string) outcome" where
  "synchronize_internal_mailbox_references v =
     obind (ok_or invalid_checkpoint (jarray (jindex (jindex (jindex v ''root_record'') ''aggregate_state'') ''runtimes''))) (\<lambda>rs.
     obind (ofold sync_runtime rs []) (\<lambda>sequences.
     obind (need_array v ''operation_receipts'') (\<lambda>receipts.
     obind (collect_outcome (map (sync_receipt sequences) receipts)) (\<lambda>receipts'.
       Ok (jput ''operation_receipts'' (JArray receipts') v)))))"

end
