(* ===== verification/Checkpoint_Semantics.thy ===== *)
theory Checkpoint_Semantics
  imports Checkpoint
begin

text \<open>
  The semantic checks of a checkpoint (\<^verbatim>\<open>validate_semantics\<close> of \<^verbatim>\<open>src/checkpoint/v1.rs\<close> and
  what it calls) and the restoring of a checkpoint.  Every refusal has the same code; where the
  code unwraps a member of the document, the model panics.
\<close>

section \<open>Receipts\<close>

record receipt_scan =
  rs_sequences :: "counter btree_set"
  rs_prior_sequence :: "counter option"
  rs_prior_revision :: counter
  rs_creation_id :: "string option"
  rs_creation_count :: nat
  rs_acceptance_by_event :: "(string, json) btree_map"
  rs_acceptance_sequences :: "counter btree_set"
  rs_terminal_by_event :: "(string, json) btree_map"

definition empty_scan :: receipt_scan where
  "empty_scan = \<lparr>rs_sequences = [], rs_prior_sequence = None, rs_prior_revision = counter_zero, rs_creation_id = None,
     rs_creation_count = 0, rs_acceptance_by_event = [], rs_acceptance_sequences = [], rs_terminal_by_event = []\<rparr>"

definition exceeds :: "counter option \<Rightarrow> counter \<Rightarrow> bool" where
  "exceeds prior sequence = (case prior of None \<Rightarrow> False | Some p \<Rightarrow> sequence \<le> p)"

text \<open>The receipt by its kind: the evidence it adds and the revision it takes effect at.\<close>

definition scan_kind :: "counter \<Rightarrow> json \<Rightarrow> receipt_scan \<Rightarrow> (receipt_scan \<times> counter, string) outcome" where
  "scan_kind revision receipt st =
     obind (string_field receipt ''operation_kind'') (\<lambda>kind.
     if kind = ''creation'' then
       obind (counter_at receipt ''committed_revision'') (\<lambda>committed.
         Ok (st\<lparr>rs_creation_count := Suc (rs_creation_count st), rs_creation_id := jstr (jindex receipt ''creation_id'')\<rparr>,
             committed))
     else if kind = ''acceptance'' then
       obind (counter_at receipt ''accepted_revision'') (\<lambda>accepted.
       obind (valid_if (accepted \<le> revision)) (\<lambda>_.
       obind (string_field receipt ''event_id'') (\<lambda>event_id.
       obind (counter_at receipt ''acceptance_sequence'') (\<lambda>acceptance.
       obind (valid_if (\<not> bm_has (rs_acceptance_by_event st) event_id \<and> acceptance \<notin> set (rs_acceptance_sequences st))) (\<lambda>_.
         Ok (st\<lparr>rs_acceptance_by_event := bm_insert event_id receipt (rs_acceptance_by_event st),
                rs_acceptance_sequences := bs_insert acceptance (rs_acceptance_sequences st)\<rparr>, accepted))))))
     else if kind = ''event_terminal'' then
       obind (string_field receipt ''event_id'') (\<lambda>event_id.
       obind (valid_if (\<not> bm_has (rs_terminal_by_event st) event_id)) (\<lambda>_.
       obind (counter_at receipt ''committed_revision'') (\<lambda>committed.
         Ok (st\<lparr>rs_terminal_by_event := bm_insert event_id receipt (rs_terminal_by_event st)\<rparr>, committed))))
     else if kind = ''maintenance_migration'' then
       obind (counter_at receipt ''committed_revision'') (\<lambda>committed. Ok (st, committed))
     else Err invalid_checkpoint)"

definition scan_receipt :: "counter \<Rightarrow> counter \<Rightarrow> json \<Rightarrow> receipt_scan \<Rightarrow> (receipt_scan, string) outcome" where
  "scan_receipt revision next_receipt receipt st =
     obind (counter_at receipt ''receipt_sequence'') (\<lambda>sequence.
     obind (valid_if (sequence < next_receipt \<and> sequence \<notin> set (rs_sequences st) \<and> \<not> exceeds (rs_prior_sequence st) sequence)) (\<lambda>_.
     obind (scan_kind revision receipt
              (st\<lparr>rs_sequences := bs_insert sequence (rs_sequences st), rs_prior_sequence := Some sequence\<rparr>)) (\<lambda>(st', effective).
     obind (valid_if (effective \<le> revision \<and> rs_prior_revision st \<le> effective \<and>
              (jstr (jindex receipt ''operation_kind'') = Some ''maintenance_migration'' \<longrightarrow> rs_prior_revision st < effective))) (\<lambda>_.
       Ok (st'\<lparr>rs_prior_revision := effective\<rparr>)))))"

definition creation_evidence_valid :: "json list \<Rightarrow> receipt_scan \<Rightarrow> bool" where
  "creation_evidence_valid receipts st \<longleftrightarrow>
     rs_creation_count st = 1 \<and>
     (case receipts of [] \<Rightarrow> False
      | r # _ \<Rightarrow> jstr (jindex r ''operation_kind'') = Some ''creation'' \<and> jindex r ''receipt_sequence'' = JString ''0'')"

definition pruned_through :: "json \<Rightarrow> (counter option, string) outcome" where
  "pruned_through v =
     (case jstr (jindex (jindex v ''replay_retention'') ''pruned_through_receipt_sequence'') of
        None \<Rightarrow> Ok None
      | Some text \<Rightarrow> obind (ok_or invalid_checkpoint (from_decimal text)) (\<lambda>c. Ok (Some c)))"

definition expect_sequence :: "json \<Rightarrow> counter \<Rightarrow> (counter, string) outcome" where
  "expect_sequence receipt expected =
     obind (counter_at receipt ''receipt_sequence'') (\<lambda>sequence.
     obind (valid_if (sequence = expected)) (\<lambda>_. Ok (snd (allocate expected))))"

definition validate_receipt_retention :: "json \<Rightarrow> json list \<Rightarrow> counter \<Rightarrow> (unit, string) outcome" where
  "validate_receipt_retention v receipts next_receipt =
     obind (pruned_through v) (\<lambda>cutoff.
     obind (valid_if (case cutoff of None \<Rightarrow> True | Some c \<Rightarrow> c < next_receipt)) (\<lambda>_.
     obind (ofold expect_sequence (drop 1 receipts)
              (snd (allocate (case cutoff of None \<Rightarrow> 0 | Some c \<Rightarrow> c)))) (\<lambda>expected.
       valid_if (expected = next_receipt))))"

section \<open>Migration evidence\<close>

definition maintenance_request_digest_matches ::
  "checkpoint_host \<Rightarrow> json \<Rightarrow> json \<Rightarrow> string \<Rightarrow> string \<Rightarrow> json list \<Rightarrow> (bool, string) outcome" where
  "maintenance_request_digest_matches C v receipt operation_id target route =
     oany (\<lambda>mode.
       obind (checkpoint_hash C (JArray [JString ''determa-maintenance-migration-request-digest-1'', JString ''1'',
                jindex v ''root_instance_id'', JString operation_id, jindex receipt ''source_aggregate_state_digest'',
                JString target, JArray route, JBool mode])) (\<lambda>expected.
         Ok (jstr (jindex receipt ''request_digest'') = Some expected))) [False, True]"

definition select_audit ::
  "(string, json) btree_map \<Rightarrow> json \<Rightarrow> string btree_set \<times> json list \<Rightarrow> (string btree_set \<times> json list, string) outcome" where
  "select_audit audits sequence st =
     obind (expect (jstr sequence)) (\<lambda>s.
     obind (valid_if (s \<notin> set (fst st))) (\<lambda>_.
     obind (ok_or invalid_checkpoint (bm_get audits s)) (\<lambda>audit.
       Ok (bs_insert s (fst st), snd st @ [audit]))))"

text \<open>\<^verbatim>\<open>windows(2)\<close>.\<close>

fun windows2 :: "'a list \<Rightarrow> ('a \<times> 'a) list" where
  "windows2 (x # y # xs) = (x, y) # windows2 (y # xs)"
| "windows2 _ = []"

definition audit_gap :: "json \<times> json \<Rightarrow> (bool, string) outcome" where
  "audit_gap pair =
     obind (string_field (fst pair) ''migration_sequence'') (\<lambda>l.
     case from_decimal l of
       None \<Rightarrow> Ok False
     | Some left \<Rightarrow>
         obind (string_field (snd pair) ''migration_sequence'') (\<lambda>r.
           Ok (case from_decimal r of None \<Rightarrow> False | Some right \<Rightarrow> right \<noteq> snd (allocate left))))"

definition audit_chain_broken :: "json \<Rightarrow> json list \<Rightarrow> (bool, string) outcome" where
  "audit_chain_broken receipt selected =
     (if selected = [] then Ok True
      else obind (oany audit_gap (windows2 selected)) (\<lambda>gap.
        Ok (gap \<or>
            jindex (hd selected) ''source_aggregate_state_digest'' \<noteq> jindex receipt ''source_aggregate_state_digest'' \<or>
            jindex (last selected) ''target_aggregate_state_digest'' \<noteq> jindex receipt ''resulting_aggregate_state_digest'' \<or>
            list_ex (\<lambda>(a, b). jindex a ''target_aggregate_state_digest'' \<noteq> jindex b ''source_aggregate_state_digest'')
              (windows2 selected))))"

definition maintenance_result_valid ::
  "checkpoint_host \<Rightarrow> json \<Rightarrow> json \<Rightarrow> string \<Rightarrow> json list \<Rightarrow> (unit, string) outcome" where
  "maintenance_result_valid C v receipt operation_id selected =
     obind (string_field receipt ''result_code'') (\<lambda>code.
     if code = ''migration_no_operation'' then
       obind (valid_if (selected = [] \<and>
                jindex receipt ''source_aggregate_state_digest'' = jindex receipt ''resulting_aggregate_state_digest'')) (\<lambda>_.
       obind (string_field receipt ''target_validated_bundle_fingerprint'') (\<lambda>target.
       obind (maintenance_request_digest_matches C v receipt operation_id target []) valid_if))
     else if code = ''migration_applied'' then
       obind (audit_chain_broken receipt selected) (\<lambda>broken.
       obind (valid_if (\<not> broken)) (\<lambda>_.
       obind (string_field (last selected) ''target_validated_bundle_fingerprint'') (\<lambda>target.
       obind (valid_if (jstr (jindex receipt ''target_validated_bundle_fingerprint'') = Some target)) (\<lambda>_.
       obind (maintenance_request_digest_matches C v receipt operation_id target
                (map (\<lambda>audit. jindex audit ''migration_descriptor_digest'') selected)) valid_if))))
     else Err invalid_checkpoint)"

definition maintenance_receipt ::
  "checkpoint_host \<Rightarrow> json \<Rightarrow> (string, json) btree_map \<Rightarrow> json \<Rightarrow> string btree_set \<times> string btree_set \<Rightarrow>
   (string btree_set \<times> string btree_set, string) outcome" where
  "maintenance_receipt C v audits receipt st =
     (if jindex receipt ''operation_kind'' \<noteq> JString ''maintenance_migration'' then Ok st
      else
      obind (string_field receipt ''operation_id'') (\<lambda>operation_id.
      obind (valid_if (operation_id \<notin> set (fst st))) (\<lambda>_.
      obind (need_array receipt ''migration_sequences'') (\<lambda>sequences.
      obind (ofold (select_audit audits) sequences (snd st, [])) (\<lambda>(referenced, selected).
      obind (maintenance_result_valid C v receipt operation_id selected) (\<lambda>_.
        Ok (bs_insert operation_id (fst st), referenced)))))))"

definition audits_by_sequence :: "json list \<Rightarrow> ((string, json) btree_map, string) outcome" where
  "audits_by_sequence audits =
     obind (collect_outcome (map (\<lambda>audit. obind (string_field audit ''migration_sequence'') (\<lambda>s. Ok (s, audit))) audits)) (\<lambda>ps.
       Ok (bm_of ps []))"

definition validate_maintenance_receipts :: "checkpoint_host \<Rightarrow> json \<Rightarrow> (unit, string) outcome" where
  "validate_maintenance_receipts C v =
     obind (need_array v ''migration_audit_records'') (\<lambda>audits.
     obind (audits_by_sequence audits) (\<lambda>by_sequence.
     obind (need_array v ''operation_receipts'') (\<lambda>receipts.
     obind (ofold (maintenance_receipt C v by_sequence) receipts ([], [])) (\<lambda>_. Ok ()))))"

text \<open>
  \<^verbatim>\<open>migration_precedes_same_revision_processing\<close>: a later event was accepted and settled in
  the present revision, after the migration.
\<close>

definition receipt_revision :: "json \<Rightarrow> string option" where
  "receipt_revision receipt =
     (case Option.bind (jget receipt ''committed_revision'') jstr of
        Some r \<Rightarrow> Some r
      | None \<Rightarrow> Option.bind (jget receipt ''accepted_revision'') jstr)"

definition matching_acceptance :: "json \<Rightarrow> json \<Rightarrow> string \<Rightarrow> counter \<Rightarrow> json \<Rightarrow> bool" where
  "matching_acceptance v terminal event_id terminal_sequence acceptance \<longleftrightarrow>
     jindex acceptance ''operation_kind'' = JString ''acceptance'' \<and>
     jstr (jindex acceptance ''event_id'') = Some event_id \<and>
     jindex acceptance ''request_digest'' = jindex terminal ''request_digest'' \<and>
     jindex acceptance ''acceptance_sequence'' = jindex terminal ''acceptance_sequence'' \<and>
     jindex acceptance ''accepted_revision'' = jindex v ''revision'' \<and>
     (case jcounter (jindex acceptance ''receipt_sequence'') of None \<Rightarrow> False | Some s \<Rightarrow> s < terminal_sequence)"

definition migration_precedes_same_revision_processing ::
  "json \<Rightarrow> string option \<Rightarrow> string \<Rightarrow> (bool, string) outcome" where
  "migration_precedes_same_revision_processing v source current =
     (case source of
        None \<Rightarrow> Ok False
      | Some digest \<Rightarrow>
          obind (need_array v ''operation_receipts'') (\<lambda>receipts.
          obind (ok_or invalid_checkpoint (collect_option (map from_decimal (List.map_filter receipt_revision
                   (filter (\<lambda>r. jstr (jindex r ''resulting_aggregate_state_digest'') = Some digest) receipts))))) (\<lambda>revisions.
          if revisions = [] then Ok False
          else
          obind (counter_at v ''revision'') (\<lambda>current_revision.
          if current_revision \<le> Max (set revisions) then Ok False
          else oany (\<lambda>terminal.
                 obind (string_field terminal ''event_id'') (\<lambda>event_id.
                 obind (counter_at terminal ''receipt_sequence'') (\<lambda>sequence.
                   Ok (list_ex (matching_acceptance v terminal event_id sequence) receipts))))
                 (filter (\<lambda>r. jindex r ''operation_kind'' = JString ''event_terminal'' \<and>
                    jstr (jindex r ''resulting_aggregate_state_digest'') = Some current \<and>
                    jindex r ''committed_revision'' = jindex v ''revision'') receipts)))))"

record audit_scan =
  as_observed :: counter
  as_target_digest :: "string option"
  as_target_fingerprint :: "string option"
  as_first_source :: "string option"

definition scan_audit :: "string \<Rightarrow> string \<Rightarrow> json \<Rightarrow> audit_scan \<Rightarrow> (audit_scan, string) outcome" where
  "scan_audit root_instance_id root_runtime_id audit st =
     obind (counter_at audit ''migration_sequence'') (\<lambda>sequence.
     let observed = snd (allocate (as_observed st)) in
     obind (valid_if (jstr (jindex audit ''root_instance_id'') = Some root_instance_id \<and>
              jstr (jindex audit ''root_runtime_id'') = Some root_runtime_id \<and> sequence = observed \<and>
              (case as_target_digest st of None \<Rightarrow> True
               | Some d \<Rightarrow> jstr (jindex audit ''source_aggregate_state_digest'') = Some d) \<and>
              (case as_target_fingerprint st of None \<Rightarrow> True
               | Some f \<Rightarrow> jstr (jindex audit ''source_validated_bundle_fingerprint'') = Some f))) (\<lambda>_.
       Ok \<lparr>as_observed = observed, as_target_digest = jstr (jindex audit ''target_aggregate_state_digest''),
           as_target_fingerprint = jstr (jindex audit ''target_validated_bundle_fingerprint''),
           as_first_source = (case as_first_source st of
              None \<Rightarrow> jstr (jindex audit ''source_aggregate_state_digest'') | Some d \<Rightarrow> Some d)\<rparr>))"

definition validate_migration_audits :: "json \<Rightarrow> json \<Rightarrow> (unit, string) outcome" where
  "validate_migration_audits v aggregate =
     obind (string_field v ''root_instance_id'') (\<lambda>root_instance_id.
     obind (string_field aggregate ''root_runtime_id'') (\<lambda>root_runtime_id.
     obind (counter_at aggregate ''migration_sequence'') (\<lambda>aggregate_sequence.
     obind (need_array v ''migration_audit_records'') (\<lambda>audits.
     obind (ofold (scan_audit root_instance_id root_runtime_id) audits
              \<lparr>as_observed = counter_zero, as_target_digest = None, as_target_fingerprint = None, as_first_source = None\<rparr>) (\<lambda>st.
     obind (if as_target_digest st = jstr (jindex aggregate ''aggregate_state_digest'') then Ok True
            else obind (string_field aggregate ''aggregate_state_digest'')
                   (migration_precedes_same_revision_processing v (as_first_source st))) (\<lambda>attested.
       valid_if (as_observed st = aggregate_sequence \<and>
         (aggregate_sequence \<noteq> counter_zero \<longrightarrow>
            as_target_fingerprint st = jstr (jindex aggregate ''validated_bundle_fingerprint'') \<and> attested))))))))"

section \<open>Mailboxes\<close>

record mailbox_scan =
  ms_events :: "(string, json) btree_map"
  ms_acceptances :: "counter btree_set"
  ms_queues :: "counter btree_set"

definition input_provenance :: "(string, json) btree_map \<Rightarrow> json \<Rightarrow> string \<Rightarrow> bool" where
  "input_provenance acceptances entry event_id \<longleftrightarrow>
     (let envelope = jindex entry ''envelope'' in
      jindex envelope ''source'' = jobj [(''host'', JBool True)] \<and>
      jindex envelope ''cause_id'' = jindex envelope ''event_id'' \<and>
      (case bm_get acceptances event_id of None \<Rightarrow> False
       | Some receipt \<Rightarrow>
           jindex receipt ''request_digest'' = jindex entry ''envelope_digest'' \<and>
           jindex receipt ''acceptance_sequence'' = jindex entry ''acceptance_sequence'' \<and>
           jindex receipt ''delivery_mode'' = JString ''input''))"

definition producer_reference :: "json \<Rightarrow> json \<Rightarrow> bool" where
  "producer_reference entry reference \<longleftrightarrow>
     jindex reference ''kind'' = JString ''internal_mailbox'' \<and>
     jindex reference ''event_id'' = jindex (jindex entry ''envelope'') ''event_id'' \<and>
     jindex reference ''acceptance_sequence'' = jindex entry ''acceptance_sequence'' \<and>
     jindex reference ''queue_sequence'' = jindex entry ''queue_sequence''"

definition system_source :: "(string \<times> json) list \<Rightarrow> json \<Rightarrow> (bool, string) outcome" where
  "system_source source envelope =
     (if length source \<noteq> 1 then Ok False
      else (case Option.bind (bm_get source ''system'') jstr of
              None \<Rightarrow> Ok False
            | Some locator \<Rightarrow>
                obind (string_field envelope ''event'') (\<lambda>event. Ok (system_locator_matches_event locator event))))"

definition internal_provenance :: "json list \<Rightarrow> json list \<Rightarrow> json \<Rightarrow> (unit, string) outcome" where
  "internal_provenance targets receipts entry =
     (let envelope = jindex entry ''envelope'' in
      obind (ok_or invalid_checkpoint (jobject (jindex envelope ''source''))) (\<lambda>source.
      obind (system_source source envelope) (\<lambda>from_system.
      let from_runtime = (length source = 1 \<and> (case bm_get source ''runtime'' of None \<Rightarrow> False | Some r \<Rightarrow> r \<in> set targets));
          produced = list_ex (\<lambda>receipt. list_ex (producer_reference entry) (jflatten (jindex receipt ''emission_references''))) receipts in
      valid_if ((from_runtime \<or> from_system) \<and> jindex envelope ''cause_id'' \<noteq> jindex envelope ''event_id'' \<and> produced))))"

definition mailbox_check_entry ::
  "checkpoint_host \<Rightarrow> string \<Rightarrow> counter \<times> counter \<Rightarrow> (string, json) btree_map \<Rightarrow> json list \<Rightarrow> json list \<Rightarrow> string \<Rightarrow> json \<Rightarrow>
   counter option \<times> mailbox_scan \<Rightarrow> (counter option \<times> mailbox_scan, string) outcome" where
  "mailbox_check_entry C root_instance_id bounds acceptances targets receipts runtime_id entry st =
     (let envelope = jindex entry ''envelope''; (prior_queue, ms) = st in
      obind (string_field envelope ''event_id'') (\<lambda>event_id.
      obind (counter_at entry ''acceptance_sequence'') (\<lambda>acceptance.
      obind (counter_at entry ''queue_sequence'') (\<lambda>queue.
      obind (valid_if (\<not> bm_has (ms_events ms) event_id \<and> acceptance \<notin> set (ms_acceptances ms) \<and> queue \<notin> set (ms_queues ms) \<and>
               acceptance < fst bounds \<and> queue < snd bounds \<and> \<not> exceeds prior_queue queue)) (\<lambda>_.
      obind (target_runtime_id (jindex envelope ''target'')) (\<lambda>rid.
      obind (valid_if (rid = runtime_id \<and> target_root_instance_id (jindex envelope ''target'') = Some root_instance_id)) (\<lambda>_.
      obind (ok_or invalid_checkpoint (queue_envelope_of envelope)) (\<lambda>parsed.
      obind (string_field entry ''delivery_mode'') (\<lambda>mode.
      obind (envelope_digest (ck_host C) root_instance_id mode parsed) (\<lambda>expected.
      obind (valid_if (jstr (jindex entry ''envelope_digest'') = Some expected)) (\<lambda>_.
      obind (if mode = ''input'' then valid_if (input_provenance acceptances entry event_id)
             else if mode = ''internal'' then internal_provenance targets receipts entry
             else Err invalid_checkpoint) (\<lambda>_.
        Ok (Some queue, \<lparr>ms_events = bm_insert event_id entry (ms_events ms),
              ms_acceptances = bs_insert acceptance (ms_acceptances ms),
              ms_queues = bs_insert queue (ms_queues ms)\<rparr>)))))))))))))"

definition mailbox_check_runtime ::
  "checkpoint_host \<Rightarrow> string \<Rightarrow> counter \<times> counter \<Rightarrow> (string, json) btree_map \<Rightarrow> json list \<Rightarrow> json list \<Rightarrow> json \<Rightarrow>
   mailbox_scan \<Rightarrow> (mailbox_scan, string) outcome" where
  "mailbox_check_runtime C root_instance_id bounds acceptances targets receipts r ms =
     obind (string_field r ''runtime_id'') (\<lambda>runtime_id.
     obind (need_array r ''ready_mailbox'') (\<lambda>ready.
     obind (ofold (mailbox_check_entry C root_instance_id bounds acceptances targets receipts runtime_id) ready (None, ms)) (\<lambda>(_, ms1).
     obind (need_array r ''deferred_mailbox'') (\<lambda>deferred.
     obind (ofold (mailbox_check_entry C root_instance_id bounds acceptances targets receipts runtime_id) deferred (None, ms1)) (\<lambda>(_, ms2).
       Ok ms2)))))"

definition runtime_targets :: "json list \<Rightarrow> (json list, string) outcome" where
  "runtime_targets rs =
     obind (collect_outcome (map (\<lambda>r. obind (string_field r ''runtime_id'') (\<lambda>i. Ok (i, jindex r ''target_identity''))) rs)) (\<lambda>ps.
       Ok (bm_values (bm_of ps [])))"

definition validate_mailboxes ::
  "checkpoint_host \<Rightarrow> json \<Rightarrow> json \<Rightarrow> (string, json) btree_map \<Rightarrow> json list \<Rightarrow> ((string, json) btree_map, string) outcome" where
  "validate_mailboxes C v aggregate acceptances receipts =
     obind (string_field v ''root_instance_id'') (\<lambda>root_instance_id.
     obind (counter_at aggregate ''next_acceptance_sequence'') (\<lambda>next_acceptance.
     obind (counter_at aggregate ''next_queue_sequence'') (\<lambda>next_queue.
     obind (need_array aggregate ''runtimes'') (\<lambda>rs.
     obind (runtime_targets rs) (\<lambda>targets.
     obind (ofold (mailbox_check_runtime C root_instance_id (next_acceptance, next_queue) acceptances targets receipts) rs
              \<lparr>ms_events = [], ms_acceptances = [], ms_queues = []\<rparr>) (\<lambda>ms.
       Ok (ms_events ms)))))))"

section \<open>Terminal events, emissions and the outbox\<close>

definition counter_less :: "json \<Rightarrow> string \<Rightarrow> json \<Rightarrow> string \<Rightarrow> (bool, string) outcome" where
  "counter_less a f b g = obind (counter_field a f) (\<lambda>x. obind (counter_field b g) (\<lambda>y. Ok (x < y)))"

definition counter_le :: "json \<Rightarrow> string \<Rightarrow> json \<Rightarrow> string \<Rightarrow> (bool, string) outcome" where
  "counter_le a f b g = obind (counter_field a f) (\<lambda>x. obind (counter_field b g) (\<lambda>y. Ok (x \<le> y)))"

definition terminal_accepted :: "(string, json) btree_map \<Rightarrow> string \<Rightarrow> json \<Rightarrow> (bool, string) outcome" where
  "terminal_accepted acceptances event_id terminal =
     (case bm_get acceptances event_id of
        None \<Rightarrow> Ok False
      | Some receipt \<Rightarrow>
          oand (Ok (jindex receipt ''request_digest'' = jindex terminal ''request_digest'' \<and>
                    jindex receipt ''acceptance_sequence'' = jindex terminal ''acceptance_sequence''))
            (oand (counter_less receipt ''receipt_sequence'' terminal ''receipt_sequence'')
               (counter_le receipt ''accepted_revision'' terminal ''committed_revision'')))"

definition terminal_produced :: "json list \<Rightarrow> string \<Rightarrow> json \<Rightarrow> bool" where
  "terminal_produced receipts event_id terminal \<longleftrightarrow>
     list_ex (\<lambda>receipt. list_ex (\<lambda>reference.
         jindex reference ''kind'' = JString ''internal_terminal'' \<and>
         jstr (jindex reference ''event_id'') = Some event_id \<and>
         jindex reference ''acceptance_sequence'' = jindex terminal ''acceptance_sequence'' \<and>
         jindex reference ''terminal_receipt_sequence'' = jindex terminal ''receipt_sequence'')
       (jflatten (jindex receipt ''emission_references''))) receipts"

definition prior_attestation :: "json \<Rightarrow> json \<Rightarrow> (bool, string) outcome" where
  "prior_attestation v terminal =
     (case jstr (jindex (jindex v ''replay_retention'') ''pruned_through_receipt_sequence'') of
        None \<Rightarrow> Ok False
      | Some text \<Rightarrow>
          obind (expect (from_decimal text)) (\<lambda>cutoff.
          obind (counter_field terminal ''receipt_sequence'') (\<lambda>s. Ok (cutoff < s))))"

definition terminal_relationship ::
  "json \<Rightarrow> json list \<Rightarrow> (string, json) btree_map \<Rightarrow> (string, json) btree_map \<Rightarrow> string \<times> json \<Rightarrow> (unit, string) outcome" where
  "terminal_relationship v receipts acceptances mailboxes et =
     (let (event_id, terminal) = et in
      obind (valid_if (\<not> bm_has mailboxes event_id)) (\<lambda>_.
      obind (terminal_accepted acceptances event_id terminal) (\<lambda>accepted.
      obind (prior_attestation v terminal) (\<lambda>attested.
      let produced = terminal_produced receipts event_id terminal in
      valid_if (\<not> (accepted \<and> produced) \<and> (accepted \<or> produced \<or> attested))))))"

definition validate_terminal_relationships ::
  "json \<Rightarrow> json list \<Rightarrow> (string, json) btree_map \<Rightarrow> (string, json) btree_map \<Rightarrow> (string, json) btree_map \<Rightarrow> (unit, string) outcome" where
  "validate_terminal_relationships v receipts acceptances terminals mailboxes =
     ofold (\<lambda>et _. terminal_relationship v receipts acceptances mailboxes et) terminals ()"

record outbox_scan =
  os_effects :: "string btree_set"
  os_outbox_sequences :: "counter btree_set"
  os_terminal_sequences :: "counter btree_set"

definition outbox_record ::
  "json \<Rightarrow> counter \<Rightarrow> bool \<Rightarrow> json \<Rightarrow> counter option \<times> counter option \<times> outbox_scan \<Rightarrow>
   (counter option \<times> counter option \<times> outbox_scan, string) outcome" where
  "outbox_record v next_terminal pending rec st =
     (let intent = jindex rec ''intent''; (prior_outbox, prior_terminal, os) = st in
      obind (counter_at intent ''sequence'') (\<lambda>sequence.
      obind (string_field intent ''effect_id'') (\<lambda>effect_id.
      obind (valid_if (effect_id \<notin> set (os_effects os) \<and> sequence \<notin> set (os_outbox_sequences os) \<and>
               \<not> (pending \<and> exceeds prior_outbox sequence))) (\<lambda>_.
      obind (counter_at rec (if jget rec ''state_revision'' \<noteq> None then ''state_revision'' else ''committed_revision'')) (\<lambda>at_revision.
      obind (counter_at v ''revision'') (\<lambda>revision.
      obind (valid_if (at_revision \<le> revision)) (\<lambda>_.
      let os1 = os\<lparr>os_effects := bs_insert effect_id (os_effects os),
                   os_outbox_sequences := bs_insert sequence (os_outbox_sequences os)\<rparr> in
      if jget rec ''terminal_sequence'' = None then Ok (Some sequence, prior_terminal, os1)
      else
      obind (counter_at rec ''terminal_sequence'') (\<lambda>terminal.
      obind (valid_if (terminal < next_terminal \<and> \<not> exceeds prior_terminal terminal \<and>
               terminal \<notin> set (os_terminal_sequences os1))) (\<lambda>_.
        Ok (Some sequence, Some terminal,
            os1\<lparr>os_terminal_sequences := bs_insert terminal (os_terminal_sequences os1)\<rparr>))))))))))"

definition outbox_tombstone ::
  "counter \<Rightarrow> json \<Rightarrow> counter option \<times> outbox_scan \<Rightarrow> (counter option \<times> outbox_scan, string) outcome" where
  "outbox_tombstone next_terminal tombstone st =
     (let (prior, os) = st in
      obind (counter_at tombstone ''terminal_sequence'') (\<lambda>sequence.
      obind (string_field tombstone ''effect_id'') (\<lambda>effect_id.
      obind (valid_if (effect_id \<notin> set (os_effects os) \<and> sequence < next_terminal \<and>
               sequence \<notin> set (os_terminal_sequences os) \<and> \<not> exceeds prior sequence)) (\<lambda>_.
        Ok (Some sequence, os\<lparr>os_effects := bs_insert effect_id (os_effects os),
              os_terminal_sequences := bs_insert sequence (os_terminal_sequences os)\<rparr>)))))"

definition reference_mailbox_valid :: "(string, json) btree_map \<Rightarrow> json \<Rightarrow> string \<Rightarrow> bool" where
  "reference_mailbox_valid mailboxes reference event_id \<longleftrightarrow>
     (case bm_get mailboxes event_id of None \<Rightarrow> False
      | Some entry \<Rightarrow> jindex entry ''delivery_mode'' = JString ''internal'' \<and>
          jindex entry ''acceptance_sequence'' = jindex reference ''acceptance_sequence'' \<and>
          jindex entry ''queue_sequence'' = jindex reference ''queue_sequence'')"

definition retained_terminal :: "(string, json) btree_map \<Rightarrow> json \<Rightarrow> json \<Rightarrow> string \<Rightarrow> (bool, string) outcome" where
  "retained_terminal terminals receipt reference event_id =
     (case bm_get terminals event_id of
        None \<Rightarrow> Ok False
      | Some terminal \<Rightarrow>
          oand (Ok (jindex terminal ''receipt_sequence'' = jindex reference ''terminal_receipt_sequence'' \<and>
                    jindex terminal ''acceptance_sequence'' = jindex reference ''acceptance_sequence''))
            (oand (counter_less receipt ''receipt_sequence'' terminal ''receipt_sequence'')
               (counter_le receipt ''committed_revision'' terminal ''committed_revision'')))"

definition pruned_terminal :: "json \<Rightarrow> json \<Rightarrow> json \<Rightarrow> string \<Rightarrow> (bool, string) outcome" where
  "pruned_terminal v receipt reference event_id =
     oany (\<lambda>tombstone.
       oand (Ok (jindex tombstone ''event_id'' = JString event_id \<and>
                 jindex tombstone ''terminal_receipt_sequence'' = jindex reference ''terminal_receipt_sequence'' \<and>
                 jindex tombstone ''acceptance_sequence'' = jindex reference ''acceptance_sequence''))
         (counter_less receipt ''receipt_sequence'' tombstone ''terminal_receipt_sequence''))
       (jflatten (jindex v ''event_identity_tombstones''))"

definition check_reference ::
  "json \<Rightarrow> (string, json) btree_map \<Rightarrow> (string, json) btree_map \<Rightarrow> string btree_set \<Rightarrow> json \<Rightarrow> json \<Rightarrow>
   string btree_set \<times> string btree_set \<Rightarrow> (string btree_set \<times> string btree_set, string) outcome" where
  "check_reference v terminals mailboxes effects receipt reference st =
     (let (internal_seen, outbox_seen) = st in
      obind (string_field reference ''kind'') (\<lambda>kind.
      if kind = ''internal_mailbox'' then
        obind (string_field reference ''event_id'') (\<lambda>event_id.
        obind (valid_if (event_id \<notin> set internal_seen \<and> reference_mailbox_valid mailboxes reference event_id)) (\<lambda>_.
          Ok (bs_insert event_id internal_seen, outbox_seen)))
      else if kind = ''internal_terminal'' then
        obind (string_field reference ''event_id'') (\<lambda>event_id.
        obind (retained_terminal terminals receipt reference event_id) (\<lambda>retained.
        obind (pruned_terminal v receipt reference event_id) (\<lambda>pruned.
        obind (valid_if (event_id \<notin> set internal_seen \<and> (retained \<or> pruned))) (\<lambda>_.
          Ok (bs_insert event_id internal_seen, outbox_seen)))))
      else if kind = ''external_outbox'' then
        obind (string_field reference ''effect_id'') (\<lambda>effect_id.
        obind (valid_if (effect_id \<in> set effects \<and> effect_id \<notin> set outbox_seen)) (\<lambda>_.
          Ok (internal_seen, bs_insert effect_id outbox_seen)))
      else if kind = ''internal_delivery'' then Ok st
      else Err invalid_checkpoint))"

definition check_receipt_references ::
  "json \<Rightarrow> (string, json) btree_map \<Rightarrow> (string, json) btree_map \<Rightarrow> string btree_set \<Rightarrow> json \<Rightarrow>
   string btree_set \<times> string btree_set \<Rightarrow> (string btree_set \<times> string btree_set, string) outcome" where
  "check_receipt_references v terminals mailboxes effects receipt st =
     (case jarray (jindex receipt ''emission_references'') of
        None \<Rightarrow> Ok st
      | Some refs \<Rightarrow> ofold (check_reference v terminals mailboxes effects receipt) refs st)"

definition scan_outbox :: "json \<Rightarrow> (outbox_scan, string) outcome" where
  "scan_outbox v =
     obind (need_array v ''pending_outbox_intents'') (\<lambda>pending.
     obind (need_array v ''terminal_outbox_records'') (\<lambda>terminal_records.
     obind (need_array v ''outbox_effect_tombstones'') (\<lambda>tombstones.
     obind (counter_at v ''next_outbox_terminal_sequence'') (\<lambda>next_terminal.
     obind (ofold (outbox_record v next_terminal True) pending
              (None, None, \<lparr>os_effects = [], os_outbox_sequences = [], os_terminal_sequences = []\<rparr>)) (\<lambda>(_, _, os1).
     obind (ofold (outbox_record v next_terminal False) terminal_records (None, None, os1)) (\<lambda>(_, _, os2).
     obind (ofold (outbox_tombstone next_terminal) tombstones (None, os2)) (\<lambda>(_, os3). Ok os3)))))))"

definition validate_emission_and_outbox_relationships ::
  "json \<Rightarrow> json list \<Rightarrow> (string, json) btree_map \<Rightarrow> (string, json) btree_map \<Rightarrow> (unit, string) outcome" where
  "validate_emission_and_outbox_relationships v receipts terminals mailboxes =
     obind (scan_outbox v) (\<lambda>os.
     obind (ofold (check_receipt_references v terminals mailboxes (os_effects os)) receipts ([], [])) (\<lambda>(_, outbox_references).
       valid_if (outbox_references = os_effects os)))"

section \<open>The whole document\<close>

definition is_retained :: "json \<Rightarrow> bool" where
  "is_retained v \<longleftrightarrow> jindex (jindex v ''root_record'') ''status'' = JString ''retained''"

definition is_tombstone :: "json \<Rightarrow> bool" where
  "is_tombstone v \<longleftrightarrow> jindex (jindex v ''root_record'') ''status'' = JString ''tombstone''"

definition checkpoint_aggregate :: "json \<Rightarrow> json" where
  "checkpoint_aggregate v = jindex (jindex v ''root_record'') ''aggregate_state''"

definition allocation_exceeded :: "receipt_scan \<Rightarrow> counter \<Rightarrow> counter \<Rightarrow> (bool, string) outcome" where
  "allocation_exceeded st next_acceptance next_queue =
     (if list_ex (\<lambda>a. next_acceptance \<le> a) (rs_acceptance_sequences st) then Ok True
      else oany (\<lambda>receipt.
             obind (counter_field receipt ''acceptance_sequence'') (\<lambda>a.
             if next_acceptance \<le> a then Ok True
             else obind (counter_field receipt ''final_queue_sequence'') (\<lambda>q. Ok (next_queue \<le> q))))
             (bm_values (rs_terminal_by_event st)))"

definition validate_retained ::
  "checkpoint_host \<Rightarrow> json \<Rightarrow> counter \<Rightarrow> json list \<Rightarrow> receipt_scan \<Rightarrow> ((string, json) btree_map, string) outcome" where
  "validate_retained C v revision receipts st =
     (let aggregate = checkpoint_aggregate v in
      obind (valid_if (jindex v ''root_instance_id'' = jindex aggregate ''root_instance_id'' \<and>
               rs_creation_id st = jstr (jindex aggregate ''creation_id''))) (\<lambda>_.
      obind (valid_if (\<not> (revision = counter_zero \<and> length receipts = 1 \<and>
               jindex (hd receipts) ''operation_kind'' = JString ''creation'' \<and>
               jindex (hd receipts) ''resulting_aggregate_state_digest'' \<noteq> jindex aggregate ''aggregate_state_digest''))) (\<lambda>_.
      obind (counter_at aggregate ''next_acceptance_sequence'') (\<lambda>next_acceptance.
      obind (counter_at aggregate ''next_queue_sequence'') (\<lambda>next_queue.
      obind (allocation_exceeded st next_acceptance next_queue) (\<lambda>exceeded.
      obind (valid_if (\<not> exceeded)) (\<lambda>_.
      obind (validate_migration_audits v aggregate) (\<lambda>_.
      obind (validate_maintenance_receipts C v) (\<lambda>_.
        validate_mailboxes C v aggregate (rs_acceptance_by_event st) receipts)))))))))"

definition audit_identity :: "json \<Rightarrow> json \<Rightarrow> json \<Rightarrow> counter option \<Rightarrow> (counter option, string) outcome" where
  "audit_identity v root_runtime_id audit prior =
     obind (counter_at audit ''migration_sequence'') (\<lambda>sequence.
     obind (valid_if (jindex audit ''root_instance_id'' = jindex v ''root_instance_id'' \<and>
              jindex audit ''root_runtime_id'' = root_runtime_id \<and> \<not> exceeds prior sequence)) (\<lambda>_.
       Ok (Some sequence)))"

definition checkpoint_root_runtime_id :: "json \<Rightarrow> json" where
  "checkpoint_root_runtime_id v =
     (if is_retained v then jindex (checkpoint_aggregate v) ''root_runtime_id''
      else jindex (jindex v ''root_record'') ''root_runtime_id'')"

definition check_tombstone ::
  "receipt_scan \<Rightarrow> (string, json) btree_map \<Rightarrow> counter \<Rightarrow> json \<Rightarrow> string btree_set \<times> counter option \<Rightarrow>
   (string btree_set \<times> counter option, string) outcome" where
  "check_tombstone st mailboxes next_receipt tombstone ids_prior =
     (let (ids, prior) = ids_prior in
      obind (string_field tombstone ''event_id'') (\<lambda>event_id.
      obind (counter_at tombstone ''terminal_receipt_sequence'') (\<lambda>sequence.
      obind (valid_if (event_id \<notin> set ids \<and> \<not> bm_has mailboxes event_id \<and> \<not> bm_has (rs_terminal_by_event st) event_id \<and>
               \<not> bm_has (rs_acceptance_by_event st) event_id \<and> sequence < next_receipt \<and>
               \<not> list_ex (\<lambda>terminal. jindex terminal ''receipt_sequence'' = jindex tombstone ''terminal_receipt_sequence'')
                   (bm_values (rs_terminal_by_event st)) \<and>
               \<not> exceeds prior sequence)) (\<lambda>_.
        Ok (bs_insert event_id ids, Some sequence)))))"

definition record_acceptance ::
  "counter option \<Rightarrow> string \<Rightarrow> counter \<Rightarrow> (counter, string) btree_map \<Rightarrow> ((counter, string) btree_map, string) outcome" where
  "record_acceptance next_acceptance event_id sequence owners =
     obind (valid_if ((case next_acceptance of None \<Rightarrow> True | Some n \<Rightarrow> sequence < n) \<and>
              (case bm_get owners sequence of None \<Rightarrow> True | Some prior \<Rightarrow> prior = event_id))) (\<lambda>_.
       Ok (bm_insert sequence event_id owners))"

definition allocate_mailbox ::
  "counter option \<Rightarrow> string \<times> json \<Rightarrow> (counter, string) btree_map \<times> counter btree_set \<Rightarrow>
   ((counter, string) btree_map \<times> counter btree_set, string) outcome" where
  "allocate_mailbox next_acceptance ee st =
     obind (counter_at (snd ee) ''acceptance_sequence'') (\<lambda>a.
     obind (record_acceptance next_acceptance (fst ee) a (fst st)) (\<lambda>owners.
     obind (counter_at (snd ee) ''queue_sequence'') (\<lambda>q. Ok (owners, bs_insert q (snd st)))))"

definition allocate_acceptance ::
  "counter option \<Rightarrow> string \<times> json \<Rightarrow> (counter, string) btree_map \<Rightarrow> ((counter, string) btree_map, string) outcome" where
  "allocate_acceptance next_acceptance er owners =
     obind (counter_at (snd er) ''acceptance_sequence'') (\<lambda>a. record_acceptance next_acceptance (fst er) a owners)"

definition allocate_terminal ::
  "counter option \<Rightarrow> counter option \<Rightarrow> string \<times> json \<Rightarrow> (counter, string) btree_map \<times> counter btree_set \<Rightarrow>
   ((counter, string) btree_map \<times> counter btree_set, string) outcome" where
  "allocate_terminal next_acceptance next_queue er st =
     obind (allocate_acceptance next_acceptance er (fst st)) (\<lambda>owners.
     obind (counter_at (snd er) ''final_queue_sequence'') (\<lambda>q.
     obind (valid_if ((case next_queue of None \<Rightarrow> True | Some n \<Rightarrow> q < n) \<and> q \<notin> set (snd st))) (\<lambda>_.
       Ok (owners, bs_insert q (snd st)))))"

definition allocate_tombstone ::
  "counter option \<Rightarrow> json \<Rightarrow> (counter, string) btree_map \<Rightarrow> ((counter, string) btree_map, string) outcome" where
  "allocate_tombstone next_acceptance tombstone owners =
     obind (string_field tombstone ''event_id'') (\<lambda>event_id.
     obind (counter_at tombstone ''acceptance_sequence'') (\<lambda>a. record_acceptance next_acceptance event_id a owners))"

definition optional_counter :: "json option \<Rightarrow> string \<Rightarrow> (counter option, string) outcome" where
  "optional_counter aggregate field =
     (case aggregate of None \<Rightarrow> Ok None | Some a \<Rightarrow> obind (counter_at a field) (\<lambda>c. Ok (Some c)))"

definition validate_allocations ::
  "json \<Rightarrow> receipt_scan \<Rightarrow> (string, json) btree_map \<Rightarrow> (unit, string) outcome" where
  "validate_allocations v st mailboxes =
     (let aggregate = jget (jindex v ''root_record'') ''aggregate_state'' in
      obind (optional_counter aggregate ''next_acceptance_sequence'') (\<lambda>next_acceptance.
      obind (optional_counter aggregate ''next_queue_sequence'') (\<lambda>next_queue.
      obind (ofold (allocate_mailbox next_acceptance) mailboxes ([], [])) (\<lambda>(owners1, queues).
      obind (ofold (allocate_acceptance next_acceptance) (rs_acceptance_by_event st) owners1) (\<lambda>owners2.
      obind (ofold (allocate_terminal next_acceptance next_queue) (rs_terminal_by_event st) (owners2, queues)) (\<lambda>(owners3, _).
      obind (need_array v ''event_identity_tombstones'') (\<lambda>tombstones.
      obind (ofold (allocate_tombstone next_acceptance) tombstones owners3) (\<lambda>_. Ok ()))))))))"

definition terminal_digest ::
  "counter \<Rightarrow> json \<Rightarrow> json \<Rightarrow> (counter, string) btree_map \<Rightarrow> ((counter, string) btree_map, string) outcome" where
  "terminal_digest revision current terminal digests =
     obind (counter_at terminal ''committed_revision'') (\<lambda>committed.
     obind (string_field terminal ''resulting_aggregate_state_digest'') (\<lambda>digest.
     obind (valid_if ((case bm_get digests committed of None \<Rightarrow> True | Some prior \<Rightarrow> prior = digest) \<and>
              \<not> (committed = revision \<and> jstr current \<noteq> Some digest))) (\<lambda>_.
       Ok (bm_insert committed digest digests))))"

definition current_digest :: "json \<Rightarrow> json" where
  "current_digest v =
     (case jget (jindex v ''root_record'') ''aggregate_state'' of
        None \<Rightarrow> jindex (jindex v ''root_record'') ''final_aggregate_state_digest''
      | Some a \<Rightarrow> jindex a ''aggregate_state_digest'')"

definition pruning_claim_valid :: "json \<Rightarrow> (unit, string) outcome" where
  "pruning_claim_valid v =
     obind (pruned_through v) (\<lambda>cutoff.
     case cutoff of
       None \<Rightarrow> Ok ()
     | Some c \<Rightarrow>
         obind (need_array v ''operation_receipts'') (\<lambda>receipts.
         obind (oany (\<lambda>r. if jindex r ''receipt_sequence'' = JString ''0'' then Ok False
                          else obind (counter_field r ''receipt_sequence'') (\<lambda>s. Ok (s \<le> c))) receipts) (\<lambda>bad.
           valid_if (\<not> bad))))"

definition validate_identities ::
  "json \<Rightarrow> counter \<Rightarrow> receipt_scan \<Rightarrow> (string, json) btree_map \<Rightarrow> (unit, string) outcome" where
  "validate_identities v next_receipt st mailboxes =
     obind (need_array v ''migration_audit_records'') (\<lambda>audits.
     obind (ofold (audit_identity v (checkpoint_root_runtime_id v)) audits None) (\<lambda>_.
     obind (valid_if (list_all (\<lambda>event_id. bm_has mailboxes event_id \<or> bm_has (rs_terminal_by_event st) event_id)
              (bm_keys (rs_acceptance_by_event st)))) (\<lambda>_.
     obind (need_array v ''event_identity_tombstones'') (\<lambda>tombstones.
     obind (ofold (check_tombstone st mailboxes next_receipt) tombstones ([], None)) (\<lambda>_. Ok ())))))"

definition validate_semantics :: "checkpoint_host \<Rightarrow> json \<Rightarrow> (unit, string) outcome" where
  "validate_semantics C v =
     obind (counter_at v ''revision'') (\<lambda>revision.
     obind (counter_at v ''next_operation_receipt_sequence'') (\<lambda>next_receipt.
     obind (need_array v ''operation_receipts'') (\<lambda>receipts.
     obind (ofold (scan_receipt revision next_receipt) receipts empty_scan) (\<lambda>st.
     obind (valid_if (creation_evidence_valid receipts st)) (\<lambda>_.
     obind (validate_receipt_retention v receipts next_receipt) (\<lambda>_.
     obind (if is_retained v then validate_retained C v revision receipts st else Ok []) (\<lambda>mailboxes.
     obind (if is_tombstone v then validate_maintenance_receipts C v else Ok ()) (\<lambda>_.
     obind (validate_identities v next_receipt st mailboxes) (\<lambda>_.
     obind (validate_allocations v st mailboxes) (\<lambda>_.
     obind (ofold (terminal_digest revision (current_digest v)) (bm_values (rs_terminal_by_event st)) []) (\<lambda>_.
     obind (valid_if (\<not> (is_tombstone v \<and> jstr (jindex (jindex v ''root_record'') ''creation_id'') \<noteq> rs_creation_id st))) (\<lambda>_.
     obind (pruning_claim_valid v) (\<lambda>_.
     obind (validate_terminal_relationships v receipts (rs_acceptance_by_event st) (rs_terminal_by_event st) mailboxes) (\<lambda>_.
       validate_emission_and_outbox_relationships v receipts (rs_terminal_by_event st) mailboxes))))))))))))))"

definition seal_and_validate_checkpoint :: "checkpoint_host \<Rightarrow> json \<Rightarrow> (json, string) outcome" where
  "seal_and_validate_checkpoint C v =
     obind (seal_checkpoint C v) (\<lambda>v'.
     obind (valid_if (ck_schema C v')) (\<lambda>_.
     obind (validate_semantics C v') (\<lambda>_. Ok v')))"

section \<open>Restoring\<close>

text \<open>
  \<^verbatim>\<open>restore_aggregate\<close> on the canonical text of a document: the text is read again before the
  document is restored.  Its errors become those of a checkpoint.
\<close>

definition reread_aggregate :: "checkpoint_host \<Rightarrow> resolver \<Rightarrow> json \<Rightarrow> (native_aggregate, string) outcome" where
  "reread_aggregate C R v =
     obind (ok_or invalid_aggregate (ho_canonical_text (ck_host C) v)) (\<lambda>text.
     obind (ok_or invalid_checkpoint (ck_parse C text)) (\<lambda>v'.
     case restore_aggregate_v1_value (ck_host C) R v' of
       Ok a \<Rightarrow> Ok a | Err _ \<Rightarrow> Err invalid_checkpoint | Panic \<Rightarrow> Panic | OutOfFuel \<Rightarrow> OutOfFuel))"

definition restore_value :: "checkpoint_host \<Rightarrow> resolver \<Rightarrow> json \<Rightarrow> (execution_checkpoint, string) outcome" where
  "restore_value C R v =
     obind (valid_if (ck_schema C v)) (\<lambda>_.
     obind (if is_retained v then obind (reread_aggregate C R (checkpoint_aggregate v)) (\<lambda>a. Ok (Some a)) else Ok None) (\<lambda>aggregate.
     obind (checkpoint_digest C v) (\<lambda>expected.
     if jstr (jindex v ''execution_checkpoint_digest'') \<noteq> Some expected then Err ''execution_checkpoint_digest_mismatch''
     else obind (validate_semantics C v) (\<lambda>_. Ok \<lparr>cp_value = v, cp_aggregate = aggregate\<rparr>))))"

definition restore_execution_checkpoint ::
  "checkpoint_host \<Rightarrow> string \<Rightarrow> resolver \<Rightarrow> (execution_checkpoint, string) outcome" where
  "restore_execution_checkpoint C source R =
     obind (ok_or invalid_checkpoint (ck_parse C source)) (restore_value C R)"

end
