(* ===== verification/Checkpoint_Outbox.thy ===== *)
theory Checkpoint_Outbox
  imports Checkpoint_Semantics
begin

text \<open>
  The operations on a checkpoint that do not run the machine (\<^verbatim>\<open>src/checkpoint/v1.rs\<close>): the
  life of an effect in the outbox, pruning of receipts, and the tombstone of a root.
\<close>

section \<open>Outbox records\<close>

record outbox_intent =
  oi_effect_id :: string
  oi_sequence :: counter
  oi_event :: string
  oi_payload :: typed_value
  oi_correlation_id :: "string option"

definition outbox_intent_of :: "json \<Rightarrow> outbox_intent option" where
  "outbox_intent_of = jstruct [''effect_id'', ''sequence'', ''event'', ''payload'', ''correlation_id''] (\<lambda>ms. do {
     effect_id \<leftarrow> jfield ms ''effect_id'' jstr;
     sequence \<leftarrow> jfield ms ''sequence'' (\<lambda>x. Option.bind (jstr x) from_decimal);
     event \<leftarrow> jfield ms ''event'' jstr;
     payload \<leftarrow> jfield ms ''payload'' from_projection;
     correlation \<leftarrow> joptional ms ''correlation_id'' jstr;
     Some \<lparr>oi_effect_id = effect_id, oi_sequence = sequence, oi_event = event, oi_payload = payload,
           oi_correlation_id = correlation\<rparr> })"

definition outbox_intent_json :: "outbox_intent \<Rightarrow> json" where
  "outbox_intent_json i =
     jobj [(''effect_id'', JString (oi_effect_id i)), (''sequence'', JString (canonical_decimal (oi_sequence i))),
           (''event'', JString (oi_event i)), (''payload'', projection (oi_payload i)),
           (''correlation_id'', option_string (oi_correlation_id i))]"

datatype pending_outbox_state = NotAttempted | RetryableFailure string | Ambiguous string

datatype terminal_outbox_outcome =
    Confirmed | PermanentlyRejected string | OperatorCancelled string | Discarded string | DeadLettered string

definition tagged_reason :: "string \<Rightarrow> string \<Rightarrow> json" where
  "tagged_reason tag reason = jobj [(''status'', JString tag), (''reason_code'', JString reason)]"

fun pending_state_json :: "pending_outbox_state \<Rightarrow> json" where
  "pending_state_json NotAttempted = jobj [(''status'', JString ''not_attempted'')]"
| "pending_state_json (RetryableFailure reason) = tagged_reason ''retryable_failure'' reason"
| "pending_state_json (Ambiguous reason) = tagged_reason ''ambiguous'' reason"

fun outcome_json :: "terminal_outbox_outcome \<Rightarrow> json" where
  "outcome_json Confirmed = jobj [(''status'', JString ''confirmed'')]"
| "outcome_json (PermanentlyRejected reason) = tagged_reason ''permanently_rejected'' reason"
| "outcome_json (OperatorCancelled reason) = tagged_reason ''operator_cancelled'' reason"
| "outcome_json (Discarded reason) = tagged_reason ''discarded'' reason"
| "outcome_json (DeadLettered reason) = tagged_reason ''dead_lettered'' reason"

definition outbox_intent_digest :: "checkpoint_host \<Rightarrow> string \<Rightarrow> outbox_intent \<Rightarrow> (string, string) outcome" where
  "outbox_intent_digest C root_instance_id intent =
     checkpoint_hash C (JArray [JString ''determa-outbox-intent-digest-1'', JString ''1'', JString root_instance_id,
       outbox_intent_json intent])"

definition has_effect :: "string \<Rightarrow> json \<Rightarrow> bool" where
  "has_effect effect_id rec \<longleftrightarrow> outbox_effect rec = Some effect_id"

definition has_tombstone_effect :: "string \<Rightarrow> json \<Rightarrow> bool" where
  "has_tombstone_effect effect_id rec \<longleftrightarrow> tombstone_effect rec = Some effect_id"

text \<open>\<^verbatim>\<open>value["revision"] = incremented(&value["revision"])?\<close>\<close>

definition next_revision :: "json \<Rightarrow> (json, string) outcome" where
  "next_revision v = obind (incremented (jindex v ''revision'')) (\<lambda>r. Ok (jput ''revision'' r v))"

section \<open>The life of an effect\<close>

definition checkpoint_update_pending_outbox ::
  "checkpoint_host \<Rightarrow> execution_checkpoint \<Rightarrow> string \<Rightarrow> pending_outbox_state \<Rightarrow> string option \<Rightarrow> string option \<Rightarrow> (json, string) outcome" where
  "checkpoint_update_pending_outbox C cp effect_id state expected_revision expected_digest =
     obind (need_array (cp_value cp) ''pending_outbox_intents'') (\<lambda>pending.
     obind (ok_or ''effect_id_conflict'' (find (has_effect effect_id) pending)) (\<lambda>existing.
     if jindex existing ''delivery_state'' = pending_state_json state then Ok (cp_value cp)
     else
     obind (checkpoint_guard cp expected_revision expected_digest) (\<lambda>_.
     obind (next_revision (cp_value cp)) (\<lambda>v.
       seal_and_validate_checkpoint C (jput ''pending_outbox_intents''
         (JArray (update_first (has_effect effect_id)
            (\<lambda>rec. jput ''state_revision'' (jindex v ''revision'') (jput ''delivery_state'' (pending_state_json state) rec))
            pending)) v)))))"

definition same_outcome :: "execution_checkpoint \<Rightarrow> json \<Rightarrow> terminal_outbox_outcome \<Rightarrow> (json, string) outcome" where
  "same_outcome cp rec out =
     (if jindex rec ''outcome'' = outcome_json out then Ok (cp_value cp) else Err ''effect_id_conflict'')"

text \<open>\<^verbatim>\<open>Vec::remove\<close> at a position.\<close>

definition remove_at :: "nat \<Rightarrow> 'a list \<Rightarrow> 'a list" where
  "remove_at i xs = take i xs @ drop (Suc i) xs"

definition terminal_record :: "string \<Rightarrow> json \<Rightarrow> json \<Rightarrow> terminal_outbox_outcome \<Rightarrow> json" where
  "terminal_record sequence intent revision out =
     jobj [(''terminal_sequence'', JString sequence), (''intent'', intent), (''committed_revision'', revision),
           (''outcome'', outcome_json out)]"

definition terminalize_pending ::
  "checkpoint_host \<Rightarrow> json \<Rightarrow> string \<Rightarrow> terminal_outbox_outcome \<Rightarrow> (json, string) outcome" where
  "terminalize_pending C v effect_id out =
     obind (need_array v ''pending_outbox_intents'') (\<lambda>pending.
     obind (ok_or ''effect_id_conflict'' (position (has_effect effect_id) pending)) (\<lambda>i.
     obind (next_revision v) (\<lambda>v1.
     let v2 = jput ''pending_outbox_intents'' (JArray (remove_at i pending)) v1 in
     obind (allocate_field v2 ''next_outbox_terminal_sequence'') (\<lambda>(v3, sequence).
     obind (push_member ''terminal_outbox_records''
              (terminal_record sequence (jindex (pending ! i) ''intent'') (jindex v3 ''revision'') out) v3)
       (seal_and_validate_checkpoint C)))))"

definition checkpoint_terminalize_outbox ::
  "checkpoint_host \<Rightarrow> execution_checkpoint \<Rightarrow> string \<Rightarrow> terminal_outbox_outcome \<Rightarrow> string option \<Rightarrow> string option \<Rightarrow> (json, string) outcome" where
  "checkpoint_terminalize_outbox C cp effect_id out expected_revision expected_digest =
     obind (need_array (cp_value cp) ''terminal_outbox_records'') (\<lambda>terminals.
     case find (has_effect effect_id) terminals of
       Some rec \<Rightarrow> same_outcome cp rec out
     | None \<Rightarrow>
         obind (need_array (cp_value cp) ''outbox_effect_tombstones'') (\<lambda>tombstones.
         case find (has_tombstone_effect effect_id) tombstones of
           Some rec \<Rightarrow> same_outcome cp rec out
         | None \<Rightarrow>
             obind (checkpoint_guard cp expected_revision expected_digest) (\<lambda>_.
               terminalize_pending C (cp_value cp) effect_id out)))"

definition effect_tombstone :: "json \<Rightarrow> string \<Rightarrow> string \<Rightarrow> json" where
  "effect_tombstone terminal effect_id intent_digest =
     jobj [(''terminal_sequence'', jindex terminal ''terminal_sequence''), (''effect_id'', JString effect_id),
           (''intent_digest'', JString intent_digest), (''committed_revision'', jindex terminal ''committed_revision''),
           (''outcome'', jindex terminal ''outcome'')]"

definition compact_terminal ::
  "checkpoint_host \<Rightarrow> execution_checkpoint \<Rightarrow> json list \<Rightarrow> string \<Rightarrow> (json, string) outcome" where
  "compact_terminal C cp tombstones effect_id =
     obind (need_array (cp_value cp) ''terminal_outbox_records'') (\<lambda>terminals.
     obind (ok_or ''effect_id_conflict'' (position (has_effect effect_id) terminals)) (\<lambda>i.
     obind (next_revision (cp_value cp)) (\<lambda>v1.
     let v2 = jput ''terminal_outbox_records'' (JArray (remove_at i terminals)) v1 in
     obind (ok_or invalid_checkpoint (outbox_intent_of (jindex (terminals ! i) ''intent''))) (\<lambda>intent.
     obind (cp_root_instance_id cp) (\<lambda>root_instance_id.
     obind (outbox_intent_digest C root_instance_id intent) (\<lambda>d.
     obind (sort_by_field (\<lambda>t. counter_field t ''terminal_sequence'') (tombstones @ [effect_tombstone (terminals ! i) effect_id d])) (\<lambda>ts.
       seal_and_validate_checkpoint C (jput ''outbox_effect_tombstones'' (JArray ts) v2))))))))"

definition checkpoint_compact_outbox ::
  "checkpoint_host \<Rightarrow> execution_checkpoint \<Rightarrow> string \<Rightarrow> string option \<Rightarrow> string option \<Rightarrow> (json, string) outcome" where
  "checkpoint_compact_outbox C cp effect_id expected_revision expected_digest =
     obind (need_array (cp_value cp) ''outbox_effect_tombstones'') (\<lambda>tombstones.
     if list_ex (has_tombstone_effect effect_id) tombstones then Ok (cp_value cp)
     else
     obind (checkpoint_guard cp expected_revision expected_digest) (\<lambda>_.
       compact_terminal C cp tombstones effect_id))"

section \<open>The tombstone of a root\<close>

definition disposal_receipt :: "json \<Rightarrow> string \<Rightarrow> json \<Rightarrow> json \<Rightarrow> json \<Rightarrow> json" where
  "disposal_receipt entry sequence revision state_digest status =
     jobj [(''operation_kind'', JString ''event_terminal''), (''receipt_sequence'', JString sequence),
           (''event_id'', jindex (jindex entry ''envelope'') ''event_id''), (''request_digest'', jindex entry ''envelope_digest''),
           (''acceptance_sequence'', jindex entry ''acceptance_sequence''),
           (''final_queue_sequence'', jindex entry ''queue_sequence''), (''committed_revision'', revision),
           (''resulting_aggregate_state_digest'', state_digest),
           (''outcome'', jobj [(''status'', status), (''disposition'', JString ''disposed''),
              (''reason'', JString ''root_tombstoned''), (''fault'', JNull), (''rejection'', JNull)]),
           (''emission_references'', JArray [])]"

definition dispose_entry :: "json \<Rightarrow> json \<Rightarrow> json \<Rightarrow> json \<Rightarrow> json \<Rightarrow> (json, string) outcome" where
  "dispose_entry revision state_digest status entry v =
     obind (allocate_field v ''next_operation_receipt_sequence'') (\<lambda>(v1, sequence).
     obind (push_member ''operation_receipts'' (disposal_receipt entry sequence revision state_digest status) v1) (\<lambda>v2.
     obind (string_field (jindex entry ''envelope'') ''event_id'') (\<lambda>event_id.
       rewrite_producer_event_reference v2 event_id sequence)))"

definition dispose_runtime_entries :: "json \<Rightarrow> json \<Rightarrow> json \<Rightarrow> json \<Rightarrow> json \<Rightarrow> (json, string) outcome" where
  "dispose_runtime_entries revision state_digest status r v =
     obind (need_array r ''ready_mailbox'') (\<lambda>ready.
     obind (ofold (dispose_entry revision state_digest status) ready v) (\<lambda>v1.
     obind (need_array r ''deferred_mailbox'') (\<lambda>deferred.
       ofold (dispose_entry revision state_digest status) deferred v1)))"

definition root_tombstone :: "json \<Rightarrow> json \<Rightarrow> string \<Rightarrow> json" where
  "root_tombstone aggregate status operation_id =
     jobj [(''status'', JString ''tombstone''), (''root_runtime_id'', jindex aggregate ''root_runtime_id''),
           (''creation_id'', jindex aggregate ''creation_id''), (''terminal_status'', status),
           (''final_aggregate_state_digest'', jindex aggregate ''aggregate_state_digest''),
           (''tombstone_operation_id'', JString operation_id)]"

definition tombstone_retained ::
  "checkpoint_host \<Rightarrow> json \<Rightarrow> string \<Rightarrow> (json, string) outcome" where
  "tombstone_retained C v operation_id =
     (let aggregate = checkpoint_aggregate v in
      obind (need_array aggregate ''runtimes'') (\<lambda>rs.
      obind (ok_or invalid_checkpoint (find (\<lambda>r. jindex r ''runtime_id'' = jindex aggregate ''root_runtime_id'') rs)) (\<lambda>root_runtime.
      obind (valid_if (jstr (jindex root_runtime ''status'') \<in> {Some ''completed'', Some ''faulted''})) (\<lambda>_.
      let status = jindex root_runtime ''status'' in
      obind (next_revision v) (\<lambda>v1.
      obind (ofold (dispose_runtime_entries (jindex v1 ''revision'') (jindex aggregate ''aggregate_state_digest'') status) rs v1) (\<lambda>v2.
        seal_and_validate_checkpoint C (jput ''root_record'' (root_tombstone aggregate status operation_id) v2)))))))"

definition checkpoint_tombstone_root ::
  "checkpoint_host \<Rightarrow> execution_checkpoint \<Rightarrow> string \<Rightarrow> string option \<Rightarrow> string option \<Rightarrow> (json, string) outcome" where
  "checkpoint_tombstone_root C cp operation_id expected_revision expected_digest =
     (if operation_id = [] then Err invalid_checkpoint
      else if is_tombstone (cp_value cp) then
        (if jstr (jindex (jindex (cp_value cp) ''root_record'') ''tombstone_operation_id'') = Some operation_id
         then Ok (cp_value cp) else Err ''operation_id_conflict'')
      else
      obind (need_array (cp_value cp) ''pending_outbox_intents'') (\<lambda>pending.
      obind (valid_if (pending = [])) (\<lambda>_.
      obind (checkpoint_guard cp expected_revision expected_digest) (\<lambda>_.
        tombstone_retained C (cp_value cp) operation_id))))"

section \<open>Pruning\<close>

record prune_request =
  pr_cutoff :: string
  pr_target_mode :: string
  pr_policy_identifier :: "string option"
  pr_dependency_receipts :: "string list"
  pr_dependency_effects :: "string list"

definition prune_request_valid :: "json \<Rightarrow> prune_request \<Rightarrow> string \<Rightarrow> bool" where
  "prune_request_valid v rq mode \<longleftrightarrow>
     pr_target_mode rq = ''bounded'' \<and> pr_policy_identifier rq \<noteq> None \<and> pr_policy_identifier rq \<noteq> Some [] \<and>
     pr_dependency_receipts rq = [] \<and> pr_dependency_effects rq = [] \<and>
     \<not> (mode = ''bounded'' \<and>
        jstr (jindex (jindex v ''replay_retention'') ''policy_identifier'') \<noteq> pr_policy_identifier rq)"

definition receipt_removable :: "counter \<Rightarrow> json \<Rightarrow> (bool, string) outcome" where
  "receipt_removable requested receipt =
     (if jindex receipt ''receipt_sequence'' = JString ''0'' then Ok False
      else obind (counter_field receipt ''receipt_sequence'') (\<lambda>s. Ok (s \<le> requested)))"

fun ofilter :: "('a \<Rightarrow> (bool, 'e) outcome) \<Rightarrow> 'a list \<Rightarrow> ('a list, 'e) outcome" where
  "ofilter p [] = Ok []"
| "ofilter p (x # xs) = obind (p x) (\<lambda>b. obind (ofilter p xs) (\<lambda>ys. Ok (if b then x # ys else ys)))"

definition left_behind :: "counter \<Rightarrow> json list \<Rightarrow> json \<Rightarrow> (bool, string) outcome" where
  "left_behind requested removable receipt =
     (if jindex receipt ''receipt_sequence'' = JString ''0'' then Ok False
      else obind (counter_field receipt ''receipt_sequence'') (\<lambda>s. Ok (s < requested \<and> receipt \<notin> set removable)))"

definition prune_dependency :: "json list \<Rightarrow> json list \<Rightarrow> counter option \<Rightarrow> json \<Rightarrow> (unit, string) outcome" where
  "prune_dependency receipts removed prior receipt =
     obind (if jindex receipt ''operation_kind'' = JString ''acceptance''
            then obind (string_field receipt ''event_id'') (\<lambda>event.
                   valid_if (list_ex (\<lambda>r. jindex r ''operation_kind'' = JString ''event_terminal'' \<and>
                               jindex r ''event_id'' = JString event) removed))
            else Ok ()) (\<lambda>_.
     obind (valid_if (\<not> list_ex (\<lambda>reference. jindex reference ''kind'' = JString ''internal_mailbox'')
              (jflatten (jindex receipt ''emission_references'')))) (\<lambda>_.
     if jindex receipt ''operation_kind'' \<noteq> JString ''event_terminal'' then Ok ()
     else
     let has_acceptance = list_ex (\<lambda>r. jindex r ''operation_kind'' = JString ''acceptance'' \<and>
           jindex r ''event_id'' = jindex receipt ''event_id'') removed;
         has_producer = list_ex (\<lambda>producer. list_ex (\<lambda>reference. jindex reference ''kind'' = JString ''internal_terminal'' \<and>
           jindex reference ''terminal_receipt_sequence'' = jindex receipt ''receipt_sequence'')
           (jflatten (jindex producer ''emission_references''))) receipts in
     obind (case prior of None \<Rightarrow> Ok False
            | Some p \<Rightarrow> obind (counter_field receipt ''receipt_sequence'') (\<lambda>s. Ok (p < s))) (\<lambda>prior_attests.
       valid_if (has_acceptance \<or> has_producer \<or> prior_attests))))"

definition validate_prune_dependencies :: "json list \<Rightarrow> json list \<Rightarrow> counter option \<Rightarrow> (unit, string) outcome" where
  "validate_prune_dependencies receipts removed prior =
     ofold (\<lambda>receipt _. prune_dependency receipts removed prior receipt) removed ()"

definition references_pending :: "json list \<Rightarrow> json \<Rightarrow> bool" where
  "references_pending pending receipt \<longleftrightarrow>
     list_ex (\<lambda>reference. jindex reference ''kind'' = JString ''external_outbox'' \<and>
       (case tombstone_effect reference of None \<Rightarrow> False | Some e \<Rightarrow> e \<in> set (List.map_filter outbox_effect pending)))
     (jflatten (jindex receipt ''emission_references''))"

definition identity_tombstone :: "json \<Rightarrow> json" where
  "identity_tombstone receipt =
     jobj [(''event_id'', jindex receipt ''event_id''), (''request_digest'', jindex receipt ''request_digest''),
           (''request_digest_domain'', JString ''determa-inbox-envelope-digest-1''),
           (''acceptance_sequence'', jindex receipt ''acceptance_sequence''),
           (''terminal_receipt_sequence'', jindex receipt ''receipt_sequence''),
           (''terminal_disposition'', jindex (jindex receipt ''outcome'') ''disposition'')]"

definition referenced_effects :: "json list \<Rightarrow> string list" where
  "referenced_effects receipts =
     List.map_filter tombstone_effect
       (filter (\<lambda>reference. jindex reference ''kind'' = JString ''external_outbox'')
          (concat (map (\<lambda>receipt. jflatten (jindex receipt ''emission_references'')) receipts)))"

definition effect_kept :: "string list \<Rightarrow> string option \<Rightarrow> bool" where
  "effect_kept kept e = (case e of None \<Rightarrow> False | Some effect_id \<Rightarrow> effect_id \<in> set kept)"

definition prune_receipts ::
  "checkpoint_host \<Rightarrow> json \<Rightarrow> prune_request \<Rightarrow> json list \<Rightarrow> json list \<Rightarrow> (json, string) outcome" where
  "prune_receipts C v rq receipts removable =
     obind (collect_outcome (map (\<lambda>r. string_field r ''receipt_sequence'') removable)) (\<lambda>removed.
     obind (need_array v ''event_identity_tombstones'') (\<lambda>tombstones.
     obind (ofilter (\<lambda>r. obind (string_field r ''receipt_sequence'') (\<lambda>s. Ok (s \<notin> set removed))) receipts) (\<lambda>kept.
     let v1 = jput ''operation_receipts'' (JArray kept) v; effects = referenced_effects kept in
     obind (need_array v1 ''terminal_outbox_records'') (\<lambda>terminals.
     let v2 = jput ''terminal_outbox_records'' (JArray (filter (\<lambda>t. effect_kept effects (outbox_effect t)) terminals)) v1 in
     obind (need_array v2 ''outbox_effect_tombstones'') (\<lambda>effect_tombstones.
     let v3 = jput ''outbox_effect_tombstones'' (JArray (filter (\<lambda>t. effect_kept effects (tombstone_effect t)) effect_tombstones)) v2 in
     obind (sort_by_field (\<lambda>t. counter_field t ''terminal_receipt_sequence'')
              (tombstones @ map identity_tombstone (filter (\<lambda>r. jindex r ''operation_kind'' = JString ''event_terminal'') removable))) (\<lambda>ts.
     let v4 = jput ''event_identity_tombstones'' (JArray ts) v3;
         v5 = jput ''replay_retention'' (jobj [(''mode'', JString ''bounded''), (''permanent_replay_eligible'', JBool False),
                (''pruned_through_receipt_sequence'', JString (pr_cutoff rq)),
                (''policy_identifier'', option_string (pr_policy_identifier rq))]) v4 in
     obind (next_revision v5) (seal_and_validate_checkpoint C)))))))"

definition checkpoint_prune_v1 ::
  "checkpoint_host \<Rightarrow> execution_checkpoint \<Rightarrow> prune_request \<Rightarrow> string option \<Rightarrow> string option \<Rightarrow> (json, string) outcome" where
  "checkpoint_prune_v1 C cp rq expected_revision expected_digest =
     (let v = cp_value cp in
      obind (ok_or invalid_checkpoint (from_decimal (pr_cutoff rq))) (\<lambda>requested.
      obind (ok_or invalid_checkpoint (jstr (jindex (jindex v ''replay_retention'') ''mode''))) (\<lambda>mode.
      obind (valid_if (prune_request_valid v rq mode)) (\<lambda>_.
      obind (pruned_through v) (\<lambda>prior.
      if prior = Some requested then Ok v
      else
      obind (checkpoint_guard cp expected_revision expected_digest) (\<lambda>_.
      obind (counter_at v ''next_operation_receipt_sequence'') (\<lambda>next_receipt.
      obind (valid_if (requested < next_receipt \<and> (case prior of None \<Rightarrow> True | Some p \<Rightarrow> p \<le> requested))) (\<lambda>_.
      obind (need_array v ''operation_receipts'') (\<lambda>receipts.
      obind (ofilter (receipt_removable requested) receipts) (\<lambda>removable.
      obind (if removable = [] then Ok True else oany (left_behind requested removable) receipts) (\<lambda>refused.
      obind (valid_if (\<not> refused)) (\<lambda>_.
      obind (validate_prune_dependencies receipts removable prior) (\<lambda>_.
      obind (need_array v ''pending_outbox_intents'') (\<lambda>pending.
      obind (valid_if (\<not> list_ex (references_pending pending) removable)) (\<lambda>_.
        prune_receipts C v rq receipts removable)))))))))))))))"

end
