(* ===== verification/Checkpoint_Step.thy ===== *)
theory Checkpoint_Step
  imports Checkpoint_Outbox
begin

text \<open>
  The operations on a checkpoint that run the machine (\<^verbatim>\<open>src/checkpoint/v1.rs\<close>): creation,
  admission, stepping, processing in one revision, and the bookkeeping of a migration.
\<close>

section \<open>Retained identities\<close>

record retained_evidence =
  re_digest :: string
  re_replay :: json

definition acceptance_receipts :: "json list \<Rightarrow> ((string, json) btree_map, string) outcome" where
  "acceptance_receipts receipts =
     obind (collect_outcome (map (\<lambda>receipt. obind (string_field receipt ''event_id'') (\<lambda>e. Ok (e, receipt)))
              (filter (\<lambda>receipt. jindex receipt ''operation_kind'' = JString ''acceptance'') receipts))) (\<lambda>ps.
       Ok (bm_of ps []))"

definition entry_evidence ::
  "(string, json) btree_map \<Rightarrow> string \<Rightarrow> json \<Rightarrow> (string, retained_evidence) btree_map \<Rightarrow>
   ((string, retained_evidence) btree_map, string) outcome" where
  "entry_evidence acceptance location entry m =
     obind (string_field (jindex entry ''envelope'') ''event_id'') (\<lambda>event_id.
     obind (string_field entry ''envelope_digest'') (\<lambda>digest.
       Ok (bm_insert event_id \<lparr>re_digest = digest,
             re_replay = (case bm_get acceptance event_id of
                Some receipt \<Rightarrow> receipt
              | None \<Rightarrow> jobj [(''result'', JString ''replay''), (''event_id'', JString event_id),
                  (''acceptance_sequence'', jindex entry ''acceptance_sequence''), (''location'', JString location)])\<rparr> m)))"

definition runtime_evidence ::
  "(string, json) btree_map \<Rightarrow> json \<Rightarrow> (string, retained_evidence) btree_map \<Rightarrow> ((string, retained_evidence) btree_map, string) outcome" where
  "runtime_evidence acceptance r m =
     obind (need_array r ''ready_mailbox'') (\<lambda>ready.
     obind (ofold (entry_evidence acceptance ''ready'') ready m) (\<lambda>m1.
     obind (need_array r ''deferred_mailbox'') (\<lambda>deferred.
       ofold (entry_evidence acceptance ''deferred'') deferred m1)))"

definition terminal_evidence ::
  "(string, json) btree_map \<Rightarrow> json \<Rightarrow> (string, retained_evidence) btree_map \<Rightarrow> ((string, retained_evidence) btree_map, string) outcome" where
  "terminal_evidence acceptance receipt m =
     (if jindex receipt ''operation_kind'' \<noteq> JString ''event_terminal'' then Ok m
      else
      obind (string_field receipt ''event_id'') (\<lambda>event_id.
      obind (string_field receipt ''acceptance_sequence'') (\<lambda>sequence.
      obind (string_field receipt ''request_digest'') (\<lambda>digest.
        Ok (bm_insert event_id \<lparr>re_digest = digest,
              re_replay = (case bm_get acceptance event_id of
                 Some accepted \<Rightarrow> if jstr (jindex accepted ''acceptance_sequence'') = Some sequence then accepted else receipt
               | None \<Rightarrow> receipt)\<rparr> m)))))"

definition tombstone_evidence ::
  "json \<Rightarrow> (string, retained_evidence) btree_map \<Rightarrow> ((string, retained_evidence) btree_map, string) outcome" where
  "tombstone_evidence item m =
     obind (string_field item ''event_id'') (\<lambda>event_id.
     obind (string_field item ''request_digest'') (\<lambda>digest.
       Ok (bm_insert event_id \<lparr>re_digest = digest, re_replay = item\<rparr> m)))"

definition retained_identity :: "json \<Rightarrow> ((string, retained_evidence) btree_map, string) outcome" where
  "retained_identity v =
     obind (need_array v ''operation_receipts'') (\<lambda>receipts.
     obind (acceptance_receipts receipts) (\<lambda>acceptance.
     obind (if is_retained v
            then obind (need_array (checkpoint_aggregate v) ''runtimes'') (\<lambda>rs. ofold (runtime_evidence acceptance) rs [])
            else Ok []) (\<lambda>m1.
     obind (ofold (terminal_evidence acceptance) receipts m1) (\<lambda>m2.
     obind (need_array v ''event_identity_tombstones'') (\<lambda>tombstones.
       ofold tombstone_evidence tombstones m2)))))"

section \<open>Admission\<close>

definition admission_delivery_of :: "json \<Rightarrow> admission_delivery option" where
  "admission_delivery_of = jstruct [''delivery_mode'', ''envelope'', ''envelope_digest''] (\<lambda>ms. do {
     mode \<leftarrow> jfield ms ''delivery_mode'' jstr;
     envelope \<leftarrow> jfield ms ''envelope'' queue_envelope_of;
     digest \<leftarrow> jfield ms ''envelope_digest'' jstr;
     Some \<lparr>ad_delivery_mode = mode, ad_envelope = envelope, ad_envelope_digest = digest\<rparr> })"

definition parse_delivery :: "checkpoint_host \<Rightarrow> json \<Rightarrow> (admission_delivery, string) outcome" where
  "parse_delivery C delivery =
     (if \<not> ho_delivery_schema (ck_host C) delivery then Err ''malformed_delivery''
      else ok_or ''malformed_delivery'' (admission_delivery_of delivery))"

definition wrong_root :: "string \<Rightarrow> json \<Rightarrow> bool" where
  "wrong_root root_instance_id delivery \<longleftrightarrow>
     (case target_root_instance_id (jindex (jindex delivery ''envelope'') ''target'') of
        None \<Rightarrow> False | Some r \<Rightarrow> r \<noteq> root_instance_id)"

definition replay_member :: "string \<Rightarrow> json \<Rightarrow> json" where
  "replay_member event_id evidence =
     jobj [(''event_id'', JString event_id), (''disposition'', JString ''replay''), (''evidence'', evidence)]"

record admission_scan =
  sc_seen :: "string btree_set"
  sc_members :: "json option list"
  sc_fresh :: "(nat \<times> admission_delivery) list"

definition classify_delivery ::
  "checkpoint_host \<Rightarrow> string \<Rightarrow> (string, retained_evidence) btree_map \<Rightarrow> nat \<times> admission_delivery \<Rightarrow> admission_scan \<Rightarrow>
   (admission_scan, string) outcome" where
  "classify_delivery C root_instance_id retained indexed sc =
     (let (index, parsed) = indexed; event_id = qe_event_id (ad_envelope parsed) in
      if event_id \<in> set (sc_seen sc) then Err ''duplicate_event_id_in_batch''
      else
      obind (envelope_digest (ck_host C) root_instance_id (ad_delivery_mode parsed) (ad_envelope parsed)) (\<lambda>candidate.
      let sc1 = sc\<lparr>sc_seen := bs_insert event_id (sc_seen sc)\<rparr> in
      case bm_get retained event_id of
        Some identity \<Rightarrow>
          if re_digest identity \<noteq> candidate then Err ''event_id_conflict''
          else Ok (sc1\<lparr>sc_members := (sc_members sc)[index := Some (replay_member event_id (re_replay identity))]\<rparr>)
      | None \<Rightarrow> Ok (sc1\<lparr>sc_fresh := sc_fresh sc @ [(index, parsed)]\<rparr>)))"

definition root_not_running :: "json \<Rightarrow> bool" where
  "root_not_running aggregate =
     (case jarray (jindex aggregate ''runtimes'') of
        None \<Rightarrow> False
      | Some rs \<Rightarrow> list_ex (\<lambda>r. jindex (jindex r ''relation'') ''kind'' = JString ''root'' \<and>
                     jindex r ''status'' \<noteq> JString ''running'') rs)"

definition put_aggregate :: "json \<Rightarrow> json \<Rightarrow> json" where
  "put_aggregate state v = jput ''root_record'' (jput ''aggregate_state'' state (jindex v ''root_record'')) v"

definition acceptance_receipt :: "string \<Rightarrow> admission_delivery \<Rightarrow> json \<Rightarrow> json \<Rightarrow> json" where
  "acceptance_receipt sequence delivery accepted revision =
     jobj [(''operation_kind'', JString ''acceptance''), (''receipt_sequence'', JString sequence),
           (''event_id'', JString (qe_event_id (ad_envelope delivery))), (''request_digest'', JString (ad_envelope_digest delivery)),
           (''acceptance_sequence'', jindex accepted ''acceptance_sequence''), (''accepted_revision'', revision),
           (''delivery_mode'', JString (ad_delivery_mode delivery))]"

definition accepted_member :: "admission_delivery \<Rightarrow> json \<Rightarrow> json" where
  "accepted_member delivery accepted =
     jobj [(''event_id'', JString (qe_event_id (ad_envelope delivery))), (''disposition'', JString ''accepted''),
           (''acceptance_sequence'', jindex accepted ''acceptance_sequence''),
           (''queue_sequence'', jindex accepted ''queue_sequence'')]"

definition record_accepted ::
  "json \<Rightarrow> (nat \<times> admission_delivery) \<times> json \<Rightarrow> json \<times> json option list \<Rightarrow> (json \<times> json option list, string) outcome" where
  "record_accepted revision fa st =
     (let ((index, delivery), accepted) = fa; (v, members) = st in
      obind (allocate_field v ''next_operation_receipt_sequence'') (\<lambda>(v1, sequence).
      obind (push_member ''operation_receipts'' (acceptance_receipt sequence delivery accepted revision) v1) (\<lambda>v2.
        Ok (v2, members[index := Some (accepted_member delivery accepted)]))))"

definition batch_result :: "json \<Rightarrow> json option list \<Rightarrow> json" where
  "batch_result v members =
     jobj [(''result'', JString ''batch''), (''checkpoint'', v), (''members'', JArray (List.map_filter id members))]"

definition admission_value ::
  "checkpoint_host \<Rightarrow> json \<Rightarrow> json option list \<Rightarrow> (nat \<times> admission_delivery) list \<Rightarrow> json \<Rightarrow> (json \<times> json option list, string) outcome" where
  "admission_value C v members fresh core =
     obind (incremented (jindex v ''revision'')) (\<lambda>revision.
     obind (ofold (record_accepted revision) (zip fresh (jflatten (jindex core ''accepted'')))
              (put_aggregate (jindex core ''state'') (jput ''revision'' revision v), members)) (\<lambda>(v1, members1).
     obind (seal_checkpoint C v1) (\<lambda>v2. Ok (v2, members1))))"

definition admission_result :: "json \<times> json option list \<Rightarrow> json" where
  "admission_result vm =
     (case snd vm of
        [Some member] \<Rightarrow>
          if jindex member ''disposition'' = JString ''accepted'' then fst vm else batch_result (fst vm) (snd vm)
      | _ \<Rightarrow> batch_result (fst vm) (snd vm))"

definition admit_new ::
  "checkpoint_host \<Rightarrow> compiled_bundle option \<Rightarrow> execution_checkpoint \<Rightarrow> admission_scan \<Rightarrow> string option \<Rightarrow> string option \<Rightarrow>
   (json, string) outcome" where
  "admit_new C B cp sc expected_revision expected_digest =
     (if is_tombstone (cp_value cp) then Err ''tombstoned_root''
      else
      obind (ok_or ''terminal_root'' (cp_aggregate cp)) (\<lambda>a.
      if root_not_running (ag_document a) then Err ''terminal_root''
      else
      obind (ok_or ''terminal_root'' B) (\<lambda>bundle.
      if jstr (jindex (ag_document a) ''validated_bundle_fingerprint'') \<noteq> Some (b_fingerprint bundle) then Err ''incompatible_bundle''
      else
      obind (checkpoint_guard cp expected_revision expected_digest) (\<lambda>_.
      obind (admit_v1 (ck_host C) bundle a (map snd (sc_fresh sc))) (\<lambda>core.
      obind (admission_value C (cp_value cp) (sc_members sc) (sc_fresh sc) core) (\<lambda>vm. Ok (admission_result vm)))))))"

definition checkpoint_admit_v1_with_optional_bundle ::
  "checkpoint_host \<Rightarrow> compiled_bundle option \<Rightarrow> execution_checkpoint \<Rightarrow> json list \<Rightarrow> string option \<Rightarrow> string option \<Rightarrow>
   (json, string) outcome" where
  "checkpoint_admit_v1_with_optional_bundle C B cp deliveries expected_revision expected_digest =
     (if deliveries = [] then Err ''malformed_delivery''
      else
      obind (cp_root_instance_id cp) (\<lambda>root_instance_id.
      obind (collect_outcome (map (parse_delivery C) deliveries)) (\<lambda>parsed.
      if list_ex (wrong_root root_instance_id) deliveries then Err ''wrong_root''
      else
      obind (retained_identity (cp_value cp)) (\<lambda>retained.
      obind (ofold (classify_delivery C root_instance_id retained) (enumerate 0 parsed)
               \<lparr>sc_seen = [], sc_members = replicate (length deliveries) None, sc_fresh = []\<rparr>) (\<lambda>sc.
      if sc_fresh sc = [] \<and> length (sc_members sc) = 1
      then obind (expect (hd (sc_members sc))) (\<lambda>member. Ok (jindex member ''evidence''))
      else if sc_fresh sc = [] then Ok (batch_result (cp_value cp) (sc_members sc))
      else admit_new C B cp sc expected_revision expected_digest)))))"

definition checkpoint_admit_v1 ::
  "checkpoint_host \<Rightarrow> compiled_bundle \<Rightarrow> execution_checkpoint \<Rightarrow> json list \<Rightarrow> string option \<Rightarrow> string option \<Rightarrow>
   (json, string) outcome" where
  "checkpoint_admit_v1 C B cp deliveries expected_revision expected_digest =
     checkpoint_admit_v1_with_optional_bundle C (Some B) cp deliveries expected_revision expected_digest"

section \<open>Emissions and lifecycle receipts\<close>

text \<open>\<^verbatim>\<open>parse::<usize>()\<close> on a 64-bit target.\<close>

definition parse_usize :: "string \<Rightarrow> nat option" where
  "parse_usize s =
     (let digits = (case strip_prefix ''+'' s of Some rest \<Rightarrow> rest | None \<Rightarrow> s) in
      if digits \<noteq> [] \<and> list_all is_digit digits \<and> decimal_value 0 digits < 2 ^ 64
      then Some (decimal_value 0 digits) else None)"

definition pending_intent :: "json \<Rightarrow> json \<Rightarrow> json" where
  "pending_intent emission revision =
     jobj [(''intent'', emission), (''state_revision'', revision), (''delivery_state'', pending_state_json NotAttempted)]"

definition checkpoint_emission ::
  "string list \<Rightarrow> json \<Rightarrow> json \<times> string \<Rightarrow> json \<times> json list \<Rightarrow> (json \<times> json list, string) outcome" where
  "checkpoint_emission lifecycle_sequences revision ei st =
     (let (emission, emission_index) = ei; (v, references) = st in
      case jstr (jindex emission ''kind'') of
        Some kind \<Rightarrow>
          if kind = ''internal_mailbox'' then Ok (v, references @ [emission])
          else if kind = ''internal_disposed'' then
            obind (ok_or invalid_checkpoint (Option.bind (jstr (jindex emission ''lifecycle_disposition_index'')) parse_usize)) (\<lambda>i.
            obind (ok_or invalid_checkpoint (if i < length lifecycle_sequences then Some (lifecycle_sequences ! i) else None)) (\<lambda>terminal.
              Ok (v, references @ [terminal_reference terminal emission])))
          else Err invalid_checkpoint
      | None \<Rightarrow>
          obind (ok_or invalid_checkpoint (jstr (jindex emission ''effect_id''))) (\<lambda>effect_id.
          obind (valid_if (effect_id \<notin> set (retained_effect_ids v))) (\<lambda>_.
          obind (push_member ''pending_outbox_intents'' (pending_intent emission revision) v) (\<lambda>v1.
            Ok (v1, references @ [jobj [(''kind'', JString ''external_outbox''), (''emission_index'', JString emission_index),
                     (''effect_id'', JString effect_id)]])))))"

definition append_checkpoint_emissions ::
  "json \<Rightarrow> json list \<Rightarrow> string list \<Rightarrow> string list \<Rightarrow> json \<Rightarrow> (json \<times> json list, string) outcome" where
  "append_checkpoint_emissions v emissions indexes lifecycle_sequences revision =
     (if length emissions \<noteq> length indexes then Err invalid_checkpoint
      else ofold (checkpoint_emission lifecycle_sequences revision) (zip emissions indexes) (v, []))"

definition lifecycle_receipt :: "json \<Rightarrow> string \<Rightarrow> json \<Rightarrow> json \<Rightarrow> json \<Rightarrow> json" where
  "lifecycle_receipt disposition sequence revision state_digest status =
     jobj [(''operation_kind'', JString ''event_terminal''), (''receipt_sequence'', JString sequence),
           (''event_id'', jindex disposition ''event_id''), (''request_digest'', jindex disposition ''request_digest''),
           (''acceptance_sequence'', jindex disposition ''acceptance_sequence''),
           (''final_queue_sequence'', jindex disposition ''final_queue_sequence''), (''committed_revision'', revision),
           (''resulting_aggregate_state_digest'', state_digest),
           (''outcome'', jobj [(''status'', status), (''disposition'', JString ''disposed''),
              (''reason'', jindex disposition ''reason''), (''fault'', JNull), (''rejection'', JNull)]),
           (''emission_references'', JArray [])]"

fun allocate_sequences :: "nat \<Rightarrow> json \<Rightarrow> (json \<times> string list, string) outcome" where
  "allocate_sequences 0 v = Ok (v, [])"
| "allocate_sequences (Suc n) v =
     obind (allocate_field v ''next_operation_receipt_sequence'') (\<lambda>(v1, s).
     obind (allocate_sequences n v1) (\<lambda>(v2, ss). Ok (v2, s # ss)))"

section \<open>Creation\<close>

definition creation_request_content ::
  "compiled_bundle \<Rightarrow> string \<Rightarrow> machine \<Rightarrow> string \<Rightarrow> string \<Rightarrow> json \<Rightarrow> json" where
  "creation_request_content B machine_id m root_instance_id creation_id bound =
     JArray [JString ''determa-creation-request-digest-1'', JString ''1'', JString (b_fingerprint B), JString (b_namespace B),
       JString machine_id, JString (signed_decimal (sint (m_version m))), JString root_instance_id, JString creation_id, bound]"

definition creation_request_digest ::
  "checkpoint_host \<Rightarrow> compiled_bundle \<Rightarrow> string \<Rightarrow> string \<Rightarrow> string \<Rightarrow> bindings \<Rightarrow> (string, string) outcome" where
  "creation_request_digest C B machine_id root_instance_id creation_id b =
     obind (ok_or ''invalid_machine'' (bm_get (b_machines B) machine_id)) (\<lambda>m.
       checkpoint_hash C (creation_request_content B machine_id m root_instance_id creation_id
         (projection (typed_from_value (VMap [(''external'', VMap (bi_external b)), (''input'', VMap (bi_input b))])))))"

definition creation_evidence_digest ::
  "checkpoint_host \<Rightarrow> compiled_bundle \<Rightarrow> string \<Rightarrow> string \<Rightarrow> string \<Rightarrow> bindings \<Rightarrow> json option \<Rightarrow> (string, string) outcome" where
  "creation_evidence_digest C B machine_id root_instance_id creation_id b normalized =
     (case normalized of
        None \<Rightarrow> creation_request_digest C B machine_id root_instance_id creation_id b
      | Some bound \<Rightarrow>
          obind (ok_or invalid_checkpoint (bm_get (b_machines B) machine_id)) (\<lambda>m.
            checkpoint_hash C (creation_request_content B machine_id m root_instance_id creation_id bound)))"

definition jnumber :: "nat \<Rightarrow> json" where
  "jnumber n = JNumber (PosInt (of_nat n))"

definition initial_checkpoint :: "string \<Rightarrow> json \<Rightarrow> json \<Rightarrow> json" where
  "initial_checkpoint root_instance_id aggregate replay_retention =
     jobj [(''execution_checkpoint_format'', JString ''determa.execution_checkpoint''),
           (''execution_checkpoint_schema_version'', jnumber 1), (''root_instance_id'', JString root_instance_id),
           (''revision'', JString ''0''),
           (''root_record'', jobj [(''status'', JString ''retained''), (''aggregate_state'', aggregate)]),
           (''replay_retention'', replay_retention), (''next_operation_receipt_sequence'', JString ''1''),
           (''operation_receipts'', JArray []), (''event_identity_tombstones'', JArray []),
           (''pending_outbox_intents'', JArray []), (''next_outbox_terminal_sequence'', JString ''0''),
           (''terminal_outbox_records'', JArray []), (''outbox_effect_tombstones'', JArray []),
           (''migration_audit_records'', JArray [])]"

definition creation_receipt :: "string \<Rightarrow> string \<Rightarrow> create_evidence \<Rightarrow> json list \<Rightarrow> json" where
  "creation_receipt creation_id request_digest created references =
     jobj [(''operation_kind'', JString ''creation''), (''receipt_sequence'', JString ''0''),
           (''creation_id'', JString creation_id), (''request_digest'', JString request_digest),
           (''committed_revision'', JString ''0''),
           (''resulting_aggregate_state_digest'', jindex (ag_document (ce_aggregate created)) ''aggregate_state_digest''),
           (''status'', JString (ce_status created)), (''fault'', option_json (\<lambda>f. f) (ce_fault created)),
           (''emission_references'', JArray references)]"

definition single_bundle_resolver :: "compiled_bundle \<Rightarrow> resolver" where
  "single_bundle_resolver B = resolve_definition (snd (insert_definition B True []))"

definition creation_value ::
  "checkpoint_host \<Rightarrow> string \<Rightarrow> string \<Rightarrow> string \<Rightarrow> json \<Rightarrow> create_evidence \<Rightarrow> (json, string) outcome" where
  "creation_value C root_instance_id creation_id request_digest replay_retention created =
     (let aggregate = ag_document (ce_aggregate created); lifecycle = ce_lifecycle_dispositions created in
      obind (allocate_sequences (length lifecycle) (initial_checkpoint root_instance_id aggregate replay_retention)) (\<lambda>(v1, sequences).
      obind (append_checkpoint_emissions v1 (ce_emissions created) (ce_emission_indexes created) sequences (JString ''0'')) (\<lambda>(v2, references).
      obind (push_member ''operation_receipts'' (creation_receipt creation_id request_digest created references) v2) (\<lambda>v3.
      obind (ofold (\<lambda>(disposition, sequence). push_member ''operation_receipts''
               (lifecycle_receipt disposition sequence (JString ''0'') (jindex aggregate ''aggregate_state_digest'')
                  (JString (ce_status created)))) (zip lifecycle sequences) v3)
        (seal_checkpoint C)))))"

definition create_with_response ::
  "checkpoint_host \<Rightarrow> nat \<Rightarrow> compiled_bundle \<Rightarrow> string \<Rightarrow> string \<Rightarrow> string \<Rightarrow> bindings \<Rightarrow> string option \<times> json option \<Rightarrow> json \<Rightarrow>
   (execution_checkpoint \<times> json, string) outcome" where
  "create_with_response C n B machine_id root_instance_id creation_id b evidence replay_retention =
     obind (creation_evidence_digest C B machine_id root_instance_id creation_id b (snd evidence)) (\<lambda>request_digest.
     if (case fst evidence of None \<Rightarrow> False | Some supplied \<Rightarrow> supplied \<noteq> request_digest) then Err invalid_checkpoint
     else
     obind (create_v1_with_evidence (ck_host C) n B machine_id root_instance_id creation_id b) (\<lambda>created.
     obind (creation_value C root_instance_id creation_id request_digest replay_retention created) (\<lambda>v.
     obind (restore_value C (single_bundle_resolver B) v) (\<lambda>cp.
       Ok (cp, jobj [(''checkpoint'', cp_value cp),
                     (''creation_receipt'', (case jflatten (jindex (cp_value cp) ''operation_receipts'') of [] \<Rightarrow> JNull | r # _ \<Rightarrow> r)),
                     (''status'', JString (ce_status created)), (''emissions'', JArray (ce_emissions created)),
                     (''lifecycle_dispositions'', JArray (ce_lifecycle_dispositions created)),
                     (''fault'', option_json (\<lambda>f. f) (ce_fault created))])))))"

definition create_execution_checkpoint_v1 ::
  "checkpoint_host \<Rightarrow> nat \<Rightarrow> compiled_bundle \<Rightarrow> string \<Rightarrow> string \<Rightarrow> string \<Rightarrow> bindings \<Rightarrow> string option \<Rightarrow> json \<Rightarrow>
   (execution_checkpoint, string) outcome" where
  "create_execution_checkpoint_v1 C n B machine_id root_instance_id creation_id b supplied replay_retention =
     obind (create_with_response C n B machine_id root_instance_id creation_id b (supplied, None) replay_retention) (\<lambda>x. Ok (fst x))"

section \<open>Stepping\<close>

record processing_request =
  pq_target_runtime_id :: string
  pq_event_id :: string
  pq_envelope_digest :: string
  pq_acceptance_sequence :: string
  pq_queue_sequence :: string
  pq_processing_mode :: string

definition is_terminal_of :: "string \<Rightarrow> json \<Rightarrow> bool" where
  "is_terminal_of event_id receipt \<longleftrightarrow>
     jindex receipt ''operation_kind'' = JString ''event_terminal'' \<and> jstr (jindex receipt ''event_id'') = Some event_id"

definition checkpoint_step_replay ::
  "execution_checkpoint \<Rightarrow> processing_request \<Rightarrow> (json option, string) outcome" where
  "checkpoint_step_replay cp rq =
     (if pq_processing_mode rq \<notin> {''delayed'', ''foreground''} then Err invalid_checkpoint
      else
      obind (need_array (cp_value cp) ''operation_receipts'') (\<lambda>receipts.
      case find (is_terminal_of (pq_event_id rq)) receipts of
        Some receipt \<Rightarrow>
          if jstr (jindex receipt ''request_digest'') = Some (pq_envelope_digest rq) \<and>
             jstr (jindex receipt ''acceptance_sequence'') = Some (pq_acceptance_sequence rq) \<and>
             jstr (jindex receipt ''final_queue_sequence'') = Some (pq_queue_sequence rq)
          then Ok (Some receipt) else Err ''event_id_conflict''
      | None \<Rightarrow>
          obind (need_array (cp_value cp) ''event_identity_tombstones'') (\<lambda>tombstones.
          case find (\<lambda>item. jstr (jindex item ''event_id'') = Some (pq_event_id rq)) tombstones of
            Some tombstone \<Rightarrow>
              if jstr (jindex tombstone ''request_digest'') = Some (pq_envelope_digest rq) \<and>
                 jstr (jindex tombstone ''acceptance_sequence'') = Some (pq_acceptance_sequence rq)
              then Ok (Some tombstone) else Err ''event_id_conflict''
          | None \<Rightarrow> Ok None)))"

definition terminal_receipt_of :: "json \<Rightarrow> json \<Rightarrow> string \<Rightarrow> json \<Rightarrow> json list \<Rightarrow> json" where
  "terminal_receipt_of causal core sequence revision references =
     jobj [(''operation_kind'', JString ''event_terminal''), (''receipt_sequence'', JString sequence),
           (''event_id'', jindex (jindex causal ''envelope'') ''event_id''), (''request_digest'', jindex causal ''envelope_digest''),
           (''acceptance_sequence'', jindex causal ''acceptance_sequence''),
           (''final_queue_sequence'', jindex causal ''queue_sequence''), (''committed_revision'', revision),
           (''resulting_aggregate_state_digest'', jindex (jindex core ''state'') ''aggregate_state_digest''),
           (''outcome'', jobj [(''status'', jindex core ''status''), (''disposition'', jindex core ''disposition''),
              (''fault'', jindex core ''fault''), (''rejection'', jindex core ''rejection'')]),
           (''emission_references'', JArray references)]"

definition settle_lifecycle :: "json \<Rightarrow> json \<Rightarrow> json \<times> string \<Rightarrow> json \<Rightarrow> (json, string) outcome" where
  "settle_lifecycle core revision ds v =
     obind (push_member ''operation_receipts'' (lifecycle_receipt (fst ds) (snd ds) revision
              (jindex (jindex core ''state'') ''aggregate_state_digest'') (jindex core ''status'')) v) (\<lambda>v1.
     obind (string_field (fst ds) ''event_id'') (\<lambda>event_id. rewrite_producer_event_reference v1 event_id (snd ds)))"

definition settle_terminal ::
  "checkpoint_host \<Rightarrow> json \<Rightarrow> json \<Rightarrow> json \<Rightarrow> string list \<Rightarrow> json \<Rightarrow> (json, string) outcome" where
  "settle_terminal C causal core revision indexes v =
     obind (allocate_field v ''next_operation_receipt_sequence'') (\<lambda>(v1, sequence).
     obind (ok_or invalid_checkpoint (jarray (jindex core ''lifecycle_dispositions''))) (\<lambda>lifecycle.
     obind (allocate_sequences (length lifecycle) v1) (\<lambda>(v2, sequences).
     obind (ok_or invalid_checkpoint (jarray (jindex core ''emissions''))) (\<lambda>emissions.
     obind (append_checkpoint_emissions v2 emissions indexes sequences revision) (\<lambda>(v3, references).
     obind (push_member ''operation_receipts'' (terminal_receipt_of causal core sequence revision references) v3) (\<lambda>v4.
     obind (rewrite_producer_reference v4 causal sequence) (\<lambda>v5.
     obind (ofold (settle_lifecycle core revision) (zip lifecycle sequences) v5) (seal_checkpoint C))))))))"

definition apply_step_result ::
  "checkpoint_host \<Rightarrow> json \<Rightarrow> json \<Rightarrow> json \<Rightarrow> string list \<Rightarrow> (json, string) outcome" where
  "apply_step_result C v causal core indexes =
     (if jindex core ''disposition'' \<in> {JString ''not_runnable'', JString ''rejected''} then Ok core
      else
      obind (incremented (jindex v ''revision'')) (\<lambda>revision.
      obind (synchronize_internal_mailbox_references (put_aggregate (jindex core ''state'') (jput ''revision'' revision v))) (\<lambda>v1.
      if jindex core ''disposition'' = JString ''deferred'' then seal_checkpoint C v1
      else settle_terminal C causal core revision indexes v1)))"

definition is_requested :: "processing_request \<Rightarrow> json \<Rightarrow> bool" where
  "is_requested rq causal \<longleftrightarrow>
     jstr (jindex (jindex causal ''envelope'') ''event_id'') = Some (pq_event_id rq) \<and>
     jstr (jindex causal ''envelope_digest'') = Some (pq_envelope_digest rq) \<and>
     jstr (jindex causal ''acceptance_sequence'') = Some (pq_acceptance_sequence rq) \<and>
     jstr (jindex causal ''queue_sequence'') = Some (pq_queue_sequence rq)"

definition checkpoint_step_v1_with_core ::
  "checkpoint_host \<Rightarrow> nat \<Rightarrow> compiled_bundle \<Rightarrow> execution_checkpoint \<Rightarrow> processing_request \<Rightarrow> string option \<Rightarrow> string option \<Rightarrow>
   (json \<times> json option, string) outcome" where
  "checkpoint_step_v1_with_core C n B cp rq expected_revision expected_digest =
     obind (checkpoint_step_replay cp rq) (\<lambda>replayed.
     case replayed of
       Some evidence \<Rightarrow> Ok (evidence, None)
     | None \<Rightarrow>
         obind (checkpoint_guard cp expected_revision expected_digest) (\<lambda>_.
         obind (ok_or ''terminal_root'' (cp_aggregate cp)) (\<lambda>a.
         if jstr (jindex (ag_document a) ''validated_bundle_fingerprint'') \<noteq> Some (b_fingerprint B) then Err ''incompatible_bundle''
         else
         obind (ready_head (ag_document a) (pq_target_runtime_id rq)) (\<lambda>causal.
         if \<not> is_requested rq causal then Err invalid_checkpoint
         else
         obind (step_v1_impl (ck_host C) n B a (pq_target_runtime_id rq)) (\<lambda>(core, indexes).
         obind (apply_step_result C (cp_value cp) causal core indexes) (\<lambda>updated. Ok (updated, Some core)))))))"

definition checkpoint_step_v1 ::
  "checkpoint_host \<Rightarrow> nat \<Rightarrow> compiled_bundle \<Rightarrow> execution_checkpoint \<Rightarrow> processing_request \<Rightarrow> string option \<Rightarrow> string option \<Rightarrow>
   (json, string) outcome" where
  "checkpoint_step_v1 C n B cp rq expected_revision expected_digest =
     obind (checkpoint_step_v1_with_core C n B cp rq expected_revision expected_digest) (\<lambda>x. Ok (fst x))"

section \<open>Accepting and processing in one revision\<close>

definition checkpoint_process_replay ::
  "checkpoint_host \<Rightarrow> execution_checkpoint \<Rightarrow> json \<Rightarrow> string \<Rightarrow> (json option, string) outcome" where
  "checkpoint_process_replay C cp delivery mode =
     (if mode \<notin> {''delayed'', ''foreground''} then Err invalid_checkpoint
      else
      obind (parse_delivery C delivery) (\<lambda>parsed.
      obind (cp_root_instance_id cp) (\<lambda>root_instance_id.
      if (case target_root_instance_id (qe_target (ad_envelope parsed)) of None \<Rightarrow> False | Some r \<Rightarrow> r \<noteq> root_instance_id)
      then Err ''wrong_root''
      else
      obind (envelope_digest (ck_host C) root_instance_id (ad_delivery_mode parsed) (ad_envelope parsed)) (\<lambda>request_digest.
      obind (retained_identity (cp_value cp)) (\<lambda>retained.
      case bm_get retained (qe_event_id (ad_envelope parsed)) of
        None \<Rightarrow> Ok None
      | Some identity \<Rightarrow>
          if re_digest identity \<noteq> request_digest \<or> re_digest identity \<noteq> ad_envelope_digest parsed then Err ''event_id_conflict''
          else
          obind (need_array (cp_value cp) ''operation_receipts'') (\<lambda>receipts.
            Ok (Some (case find (is_terminal_of (qe_event_id (ad_envelope parsed))) receipts of
                        Some receipt \<Rightarrow> receipt | None \<Rightarrow> re_replay identity)))))))) "

definition collapse_receipt :: "counter \<Rightarrow> json \<Rightarrow> json \<Rightarrow> (json, string) outcome" where
  "collapse_receipt prior_next revision receipt =
     obind (counter_at receipt ''receipt_sequence'') (\<lambda>s.
       Ok (if s < prior_next then receipt
           else if jindex receipt ''operation_kind'' = JString ''acceptance'' then jput ''accepted_revision'' revision receipt
           else if jget receipt ''committed_revision'' \<noteq> None then jput ''committed_revision'' revision receipt
           else receipt))"

definition collapse_pending :: "json \<Rightarrow> json \<Rightarrow> json \<Rightarrow> (json, string) outcome" where
  "collapse_pending prior revision pending =
     obind (expect (jstr (jindex pending ''state_revision''))) (\<lambda>text.
     obind (ok_or invalid_checkpoint (from_decimal text)) (\<lambda>s.
     obind (counter_at prior ''revision'') (\<lambda>r.
       Ok (if r < s then jput ''state_revision'' revision pending else pending))))"

definition collapse_process_revision ::
  "checkpoint_host \<Rightarrow> execution_checkpoint \<Rightarrow> json \<Rightarrow> (json, string) outcome" where
  "collapse_process_revision C cp v =
     obind (incremented (jindex (cp_value cp) ''revision'')) (\<lambda>revision.
     obind (counter_at (cp_value cp) ''next_operation_receipt_sequence'') (\<lambda>prior_next.
     let v1 = jput ''revision'' revision v in
     obind (need_array v1 ''operation_receipts'') (\<lambda>receipts.
     obind (collect_outcome (map (collapse_receipt prior_next revision) receipts)) (\<lambda>receipts'.
     let v2 = jput ''operation_receipts'' (JArray receipts') v1 in
     obind (need_array v2 ''pending_outbox_intents'') (\<lambda>pending.
     obind (collect_outcome (map (collapse_pending (cp_value cp) revision) pending)) (\<lambda>pending'.
       seal_and_validate_checkpoint C (jput ''pending_outbox_intents'' (JArray pending') v2)))))))"

definition has_event :: "string \<Rightarrow> json \<Rightarrow> bool" where
  "has_event event_id entry \<longleftrightarrow> jstr (jindex (jindex entry ''envelope'') ''event_id'') = Some event_id"

fun select_ready :: "string \<Rightarrow> json list \<Rightarrow> ((json \<times> json) option, string) outcome" where
  "select_ready event_id [] = Ok None"
| "select_ready event_id (r # rs) =
     obind (need_array r ''ready_mailbox'') (\<lambda>ready.
       if list_ex (has_event event_id) ready then Ok (Some (r, hd ready)) else select_ready event_id rs)"

definition is_checkpoint :: "json \<Rightarrow> bool" where
  "is_checkpoint v \<longleftrightarrow> jindex v ''execution_checkpoint_format'' = JString ''determa.execution_checkpoint''"

definition process_admitted ::
  "checkpoint_host \<Rightarrow> nat \<Rightarrow> compiled_bundle \<Rightarrow> execution_checkpoint \<Rightarrow> string \<Rightarrow> resolver \<Rightarrow> json \<Rightarrow>
   (json \<times> json option, string) outcome" where
  "process_admitted C n B cp event_id R admitted =
     obind (reread_aggregate C R (checkpoint_aggregate admitted)) (\<lambda>a.
     obind (need_array (ag_document a) ''runtimes'') (\<lambda>rs.
     obind (select_ready event_id rs) (\<lambda>selected.
     obind (ok_or invalid_checkpoint selected) (\<lambda>(r, causal).
     obind (string_field r ''runtime_id'') (\<lambda>runtime_id.
     obind (step_v1_impl (ck_host C) n B a runtime_id) (\<lambda>(core, indexes).
     obind (apply_step_result C admitted causal core indexes) (\<lambda>stepped.
     if \<not> is_checkpoint stepped then Ok (stepped, Some core)
     else obind (collapse_process_revision C cp stepped) (\<lambda>collapsed. Ok (collapsed, Some core)))))))))"

definition checkpoint_process_resolved ::
  "checkpoint_host \<Rightarrow> nat \<Rightarrow> compiled_bundle \<Rightarrow> execution_checkpoint \<Rightarrow> json \<Rightarrow> string \<Rightarrow> string option \<Rightarrow> string option \<Rightarrow> resolver \<Rightarrow>
   (json \<times> json option, string) outcome" where
  "checkpoint_process_resolved C n B cp delivery mode expected_revision expected_digest R =
     obind (checkpoint_process_replay C cp delivery mode) (\<lambda>replayed.
     case replayed of
       Some evidence \<Rightarrow> Ok (evidence, None)
     | None \<Rightarrow>
         obind (checkpoint_guard cp expected_revision expected_digest) (\<lambda>_.
         obind (ok_or ''malformed_delivery'' (jstr (jindex (jindex delivery ''envelope'') ''event_id''))) (\<lambda>event_id.
         obind (checkpoint_admit_v1 C B cp [delivery] expected_revision expected_digest) (\<lambda>admitted.
         if \<not> is_checkpoint admitted then Ok (admitted, None)
         else process_admitted C n B cp event_id R admitted))))"

definition checkpoint_process_with_core ::
  "checkpoint_host \<Rightarrow> nat \<Rightarrow> compiled_bundle \<Rightarrow> execution_checkpoint \<Rightarrow> json \<Rightarrow> string \<Rightarrow> string option \<Rightarrow> string option \<Rightarrow>
   (json \<times> json option, string) outcome" where
  "checkpoint_process_with_core C n B cp delivery mode expected_revision expected_digest =
     checkpoint_process_resolved C n B cp delivery mode expected_revision expected_digest (single_bundle_resolver B)"

definition checkpoint_process ::
  "checkpoint_host \<Rightarrow> nat \<Rightarrow> compiled_bundle \<Rightarrow> execution_checkpoint \<Rightarrow> json \<Rightarrow> string \<Rightarrow> string option \<Rightarrow> string option \<Rightarrow>
   (json, string) outcome" where
  "checkpoint_process C n B cp delivery mode expected_revision expected_digest =
     obind (checkpoint_process_with_core C n B cp delivery mode expected_revision expected_digest) (\<lambda>x. Ok (fst x))"

section \<open>The bookkeeping of a migration\<close>

text \<open>
  What a checkpoint records of a migrated aggregate.  The migration itself is the argument:
  the document \<^verbatim>\<open>migrate_aggregate_v1_route_with_evidence\<close> returns.
\<close>

definition migrated_root_status :: "json \<Rightarrow> (string, string) outcome" where
  "migrated_root_status aggregate =
     obind (need_array aggregate ''runtimes'') (\<lambda>rs.
       ok_or invalid_checkpoint (Option.bind
         (find (\<lambda>r. jindex r ''runtime_id'' = jindex aggregate ''root_runtime_id'') rs) (\<lambda>r. jstr (jindex r ''status''))))"

definition migration_receipt :: "json \<Rightarrow> string \<Rightarrow> json \<Rightarrow> json \<Rightarrow> string \<Rightarrow> json" where
  "migration_receipt disposition sequence revision aggregate status =
     jobj [(''operation_kind'', JString ''event_terminal''), (''receipt_sequence'', JString sequence),
           (''event_id'', jindex disposition ''event_id''), (''request_digest'', jindex disposition ''request_digest''),
           (''acceptance_sequence'', jindex disposition ''acceptance_sequence''),
           (''final_queue_sequence'', jindex disposition ''final_queue_sequence''), (''committed_revision'', revision),
           (''resulting_aggregate_state_digest'', jindex aggregate ''aggregate_state_digest''),
           (''outcome'', jobj [(''status'', JString status), (''disposition'', JString ''migration_disposed''),
              (''reason'', jindex disposition ''reason''),
              (''migration_descriptor_digest'', jindex disposition ''migration_descriptor_digest''),
              (''fault'', JNull), (''rejection'', JNull)]),
           (''emission_references'', JArray [])]"

definition dispose_migrated :: "json \<Rightarrow> json \<Rightarrow> string \<Rightarrow> json \<Rightarrow> json \<Rightarrow> (json, string) outcome" where
  "dispose_migrated revision aggregate status disposition v =
     obind (allocate_field v ''next_operation_receipt_sequence'') (\<lambda>(v1, sequence).
     obind (push_member ''operation_receipts'' (migration_receipt disposition sequence revision aggregate status) v1) (\<lambda>v2.
     obind (string_field disposition ''event_id'') (\<lambda>event_id. rewrite_producer_event_reference v2 event_id sequence)))"

definition extend_audits :: "json list \<Rightarrow> json \<Rightarrow> (json, string) outcome" where
  "extend_audits audits v =
     obind (need_array v ''migration_audit_records'') (\<lambda>prior. Ok (jput ''migration_audit_records'' (JArray (prior @ audits)) v))"

definition apply_transaction_migration ::
  "checkpoint_host \<Rightarrow> execution_checkpoint \<Rightarrow> json \<Rightarrow> (json, string) outcome" where
  "apply_transaction_migration C cp migrated =
     (let aggregate = jindex migrated ''aggregate_state'' in
      obind (next_revision (cp_value cp)) (\<lambda>v1.
      obind (migrated_root_status aggregate) (\<lambda>status.
      obind (ok_or invalid_checkpoint (jarray (jindex migrated ''dispositions''))) (\<lambda>dispositions.
      obind (ofold (dispose_migrated (jindex v1 ''revision'') aggregate status) dispositions (put_aggregate aggregate v1)) (\<lambda>v2.
      obind (ok_or invalid_checkpoint (jarray (jindex migrated ''audit_records''))) (\<lambda>audits.
      obind (extend_audits audits v2) (\<lambda>v3.
      obind (synchronize_internal_mailbox_references v3) (seal_and_validate_checkpoint C))))))))"

definition maintenance_migration_receipt :: "string \<Rightarrow> string \<Rightarrow> string \<Rightarrow> json \<Rightarrow> json \<Rightarrow> string \<Rightarrow> json \<Rightarrow> json list \<Rightarrow> json" where
  "maintenance_migration_receipt sequence operation_id request_digest revision source_digest target aggregate audits =
     jobj [(''operation_kind'', JString ''maintenance_migration''), (''receipt_sequence'', JString sequence),
           (''operation_id'', JString operation_id), (''request_digest'', JString request_digest),
           (''committed_revision'', revision), (''source_aggregate_state_digest'', source_digest),
           (''target_validated_bundle_fingerprint'', JString target),
           (''resulting_aggregate_state_digest'', jindex aggregate ''aggregate_state_digest''),
           (''migration_sequences'', JArray (map (\<lambda>audit. jindex audit ''migration_sequence'') audits)),
           (''result_code'', JString (if audits = [] then ''migration_no_operation'' else ''migration_applied''))]"

definition apply_checkpoint_migration_v1 ::
  "checkpoint_host \<Rightarrow> execution_checkpoint \<Rightarrow> json \<Rightarrow> string \<Rightarrow> string \<Rightarrow> string \<Rightarrow> (json, string) outcome" where
  "apply_checkpoint_migration_v1 C cp migrated operation_id request_digest target =
     (let aggregate = jindex migrated ''aggregate_state'' in
      obind (next_revision (cp_value cp)) (\<lambda>v1.
      obind (migrated_root_status aggregate) (\<lambda>status.
      obind (ok_or invalid_checkpoint (jarray (jindex migrated ''audit_records''))) (\<lambda>audits.
      obind (allocate_field (put_aggregate aggregate v1) ''next_operation_receipt_sequence'') (\<lambda>(v2, sequence).
      obind (push_member ''operation_receipts''
               (maintenance_migration_receipt sequence operation_id request_digest (jindex v1 ''revision'')
                  (jindex (checkpoint_aggregate (cp_value cp)) ''aggregate_state_digest'') target aggregate audits) v2) (\<lambda>v3.
      obind (need_array migrated ''dispositions'') (\<lambda>dispositions.
      obind (ofold (dispose_migrated (jindex v1 ''revision'') aggregate status) dispositions v3) (\<lambda>v4.
      obind (extend_audits audits v4) (\<lambda>v5.
      obind (synchronize_internal_mailbox_references v5) (seal_and_validate_checkpoint C))))))))))"

end
