(* ===== verification/Checkpoint_Migration.thy ===== *)
theory Checkpoint_Migration
  imports Mailbox_Migration Checkpoint_Step
begin

text \<open>
  Migration of a checkpoint (\<^verbatim>\<open>src/checkpoint/v1.rs\<close>): a delivery processed together with the
  migration it needs, in one revision, and a migration as an operation of its own.  The document
  is migrated by the functions of \<^verbatim>\<open>Mailbox_Migration\<close>, and the bookkeeping is that of
  \<^verbatim>\<open>Checkpoint_Step\<close>.
\<close>

text \<open>
  \<^verbatim>\<open>resolver\<close> stands for both halves of a migration: definitions and descriptors.  The definition
  the delivery is processed under must be trusted and carry the fingerprint asked for.
\<close>

definition trusted_target :: "artifact_resolver \<Rightarrow> string \<Rightarrow> (compiled_bundle, string) outcome" where
  "trusted_target R fingerprint =
     (case ar_definition R fingerprint of
        None \<Rightarrow> Err ''target_definition_unavailable''
      | Some resolved \<Rightarrow>
          if rd_trusted resolved \<and> b_fingerprint (rd_bundle resolved) = fingerprint then Ok (rd_bundle resolved)
          else Err ''target_definition_unavailable'')"

definition checkpoint_process_with_migration_with_core ::
  "checkpoint_host \<Rightarrow> artifact_codec \<Rightarrow> nat \<Rightarrow> execution_checkpoint \<Rightarrow> migration_request \<Rightarrow> artifact_resolver \<Rightarrow>
   resource_limits \<Rightarrow> json \<Rightarrow> string \<Rightarrow> string option \<Rightarrow> string option \<Rightarrow> (json \<times> json option, string) outcome" where
  "checkpoint_process_with_migration_with_core C A n cp request R limits delivery mode expected_revision expected_digest =
     obind (checkpoint_process_replay C cp delivery mode) (\<lambda>replayed.
     case replayed of
       Some replay \<Rightarrow> Ok (replay, None)
     | None \<Rightarrow>
         obind (checkpoint_guard cp expected_revision expected_digest) (\<lambda>_.
         obind (ok_or ''terminal_root'' (cp_aggregate cp)) (\<lambda>a.
         obind (migrate_aggregate_v1_route_with_evidence (ck_host C) A R limits a request) (\<lambda>migrated.
         obind (apply_transaction_migration C cp migrated) (\<lambda>v.
         obind (restore_value C (ar_definition R) v) (\<lambda>prepared.
         obind (trusted_target R (mr_target_fingerprint request)) (\<lambda>target.
         obind (cp_revision prepared) (\<lambda>revision.
         obind (cp_digest prepared) (\<lambda>digest.
         obind (checkpoint_process_resolved C n target prepared delivery mode (Some revision) (Some digest) (ar_definition R))
           (\<lambda>(processed, core).
         obind (collapse_process_revision C cp processed) (\<lambda>collapsed. Ok (collapsed, core))))))))))))"

definition checkpoint_process_with_migration ::
  "checkpoint_host \<Rightarrow> artifact_codec \<Rightarrow> nat \<Rightarrow> execution_checkpoint \<Rightarrow> migration_request \<Rightarrow> artifact_resolver \<Rightarrow>
   resource_limits \<Rightarrow> json \<Rightarrow> string \<Rightarrow> string option \<Rightarrow> string option \<Rightarrow> (json, string) outcome" where
  "checkpoint_process_with_migration C A n cp request R limits delivery mode expected_revision expected_digest =
     obind (checkpoint_process_with_migration_with_core C A n cp request R limits delivery mode expected_revision expected_digest)
       (\<lambda>x. Ok (fst x))"

definition checkpoint_maintenance_migration_route ::
  "checkpoint_host \<Rightarrow> artifact_codec \<Rightarrow> execution_checkpoint \<Rightarrow> migration_request \<Rightarrow> string \<Rightarrow> string \<Rightarrow> artifact_resolver \<Rightarrow>
   resource_limits \<Rightarrow> string option \<Rightarrow> string option \<Rightarrow> (json, string) outcome" where
  "checkpoint_maintenance_migration_route C A cp request operation_id request_digest R limits expected_revision expected_digest =
     obind (checkpoint_guard cp expected_revision expected_digest) (\<lambda>_.
     obind (ok_or ''terminal_root'' (cp_aggregate cp)) (\<lambda>a.
     obind (migrate_aggregate_v1_route_with_evidence (ck_host C) A R limits a request) (\<lambda>migrated.
       apply_checkpoint_migration_v1 C cp migrated operation_id request_digest (mr_target_fingerprint request))))"

end
