(* ===== verification/Checkpoint_Host.thy ===== *)
theory Checkpoint_Host
  imports Checkpoint_Migration Store Store_Policy
begin

text \<open>
  The checkpoint host (\<^verbatim>\<open>src/checkpoint/host.rs\<close>): it loads the record of a root from a store,
  restores its checkpoint, applies one operation and writes the result back with a
  compare-and-swap against what it loaded.  Every operation is a function of the store, which it
  reaches only through the three operations of a \<^verbatim>\<open>StoreAccess\<close>.
\<close>

section \<open>Calls on a store\<close>

type_synonym ('s, 'a, 'e) store_call = "'s \<Rightarrow> ('a, 'e) outcome \<times> 's"

definition hbind :: "('s, 'a, 'e) store_call \<Rightarrow> ('a \<Rightarrow> ('s, 'b, 'e) store_call) \<Rightarrow> ('s, 'b, 'e) store_call" where
  "hbind f g s = (case f s of (Ok a, s') \<Rightarrow> g a s' | (Err e, s') \<Rightarrow> (Err e, s') | (Panic, s') \<Rightarrow> (Panic, s') | (OutOfFuel, s') \<Rightarrow> (OutOfFuel, s'))"

definition hlift :: "('a, 'e) outcome \<Rightarrow> ('s, 'a, 'e) store_call" where
  "hlift x s = (x, s)"

definition hmap :: "('a \<Rightarrow> 'b) \<Rightarrow> ('s, 'a, 'e) store_call \<Rightarrow> ('s, 'b, 'e) store_call" where
  "hmap h f = hbind f (\<lambda>a. hlift (Ok (h a)))"

text \<open>\<^verbatim>\<open>StoreAccess\<close>, and \<^verbatim>\<open>DirectStoreAccess\<close> over the operations of an execution store.\<close>

record 's store_access =
  sa_load :: "string \<Rightarrow> ('s, store_record option, store_error) store_call"
  sa_insert_if_absent :: "store_record \<Rightarrow> ('s, store_write_result, store_error) store_call"
  sa_compare_and_swap :: "string \<Rightarrow> string \<Rightarrow> string \<Rightarrow> store_record \<Rightarrow> ('s, store_write_result, store_error) store_call"

definition keep_on_error :: "'s \<Rightarrow> ('s \<times> 'a, 'e) outcome \<Rightarrow> ('a, 'e) outcome \<times> 's" where
  "keep_on_error s x =
     (case x of Ok (s', a) \<Rightarrow> (Ok a, s') | Err e \<Rightarrow> (Err e, s) | Panic \<Rightarrow> (Panic, s) | OutOfFuel \<Rightarrow> (OutOfFuel, s))"

definition direct_store_access ::
  "('s \<Rightarrow> string \<Rightarrow> (store_record option, store_error) outcome) \<Rightarrow> 's insert_operation \<Rightarrow> 's swap_operation \<Rightarrow> 's store_access" where
  "direct_store_access ld ins cas =
     \<lparr>sa_load = (\<lambda>i s. (ld s i, s)),
      sa_insert_if_absent = (\<lambda>r s. keep_on_error s (ins s r)),
      sa_compare_and_swap = (\<lambda>i rv d r s. keep_on_error s (cas s i rv d r))\<rparr>"

definition v1_store_error :: "('a, store_error) outcome \<Rightarrow> ('a, string) outcome" where
  "v1_store_error x =
     (case x of Ok a \<Rightarrow> Ok a | Err e \<Rightarrow> Err (store_error_str (se_code e)) | Panic \<Rightarrow> Panic | OutOfFuel \<Rightarrow> OutOfFuel)"

definition map_store_error :: "('s, 'a, store_error) store_call \<Rightarrow> ('s, 'a, string) store_call" where
  "map_store_error f s = map_prod v1_store_error id (f s)"

section \<open>Failures, requests and results\<close>

datatype host_failure_code =
    HostExecutionStoreFailure
  | CheckpointNotFound
  | CreationRejected
  | EventIdConflict
  | CreationIdConflict
  | OperationIdConflict
  | EffectIdConflict
  | CheckpointRevisionConflict
  | InvalidExecutionCheckpoint
  | PhysicalDeletionUnsupported
  | TransactionStoreMismatch
  | TransactionRootMismatch
  | TransactionMutationAlreadyStaged
  | TransactionMutationRequired
  | HostInjectedPreCommitFailure
  | HostResponseLostAfterCommit

fun host_failure_str :: "host_failure_code \<Rightarrow> string" where
  "host_failure_str HostExecutionStoreFailure = ''execution_store_failure''"
| "host_failure_str CheckpointNotFound = ''checkpoint_not_found''"
| "host_failure_str CreationRejected = ''creation_rejected''"
| "host_failure_str EventIdConflict = ''event_id_conflict''"
| "host_failure_str CreationIdConflict = ''creation_id_conflict''"
| "host_failure_str OperationIdConflict = ''operation_id_conflict''"
| "host_failure_str EffectIdConflict = ''effect_id_conflict''"
| "host_failure_str CheckpointRevisionConflict = ''checkpoint_revision_conflict''"
| "host_failure_str InvalidExecutionCheckpoint = ''invalid_execution_checkpoint''"
| "host_failure_str PhysicalDeletionUnsupported = ''physical_deletion_unsupported''"
| "host_failure_str TransactionStoreMismatch = ''transaction_store_mismatch''"
| "host_failure_str TransactionRootMismatch = ''transaction_root_mismatch''"
| "host_failure_str TransactionMutationAlreadyStaged = ''transaction_mutation_already_staged''"
| "host_failure_str TransactionMutationRequired = ''transaction_mutation_required''"
| "host_failure_str HostInjectedPreCommitFailure = ''injected_pre_commit_failure''"
| "host_failure_str HostResponseLostAfterCommit = ''response_lost_after_commit''"

fun host_failure_of_store :: "store_error_code \<Rightarrow> host_failure_code" where
  "host_failure_of_store ExecutionStoreFailure = HostExecutionStoreFailure"
| "host_failure_of_store InjectedPreCommitFailure = HostInjectedPreCommitFailure"
| "host_failure_of_store ResponseLostAfterCommit = HostResponseLostAfterCommit"
| "host_failure_of_store InvalidStoreScope = HostExecutionStoreFailure"
| "host_failure_of_store PermanentProcessingFailure = HostExecutionStoreFailure"
| "host_failure_of_store TransientProcessingFailure = HostExecutionStoreFailure"

record mutation_guard =
  mg_expected_revision :: string
  mg_expected_checkpoint_digest :: string

record maintenance_migration_request =
  mm_root_instance_id :: string
  mm_operation_id :: string
  mm_source_aggregate_state_digest :: string
  mm_target_fingerprint :: string
  mm_route :: "string list"
  mm_maintenance_mode :: bool
  mm_supplied_request_digest :: "string option"
  mm_guard :: mutation_guard
  mm_limits :: resource_limits

datatype admission_source = Utf8Json string | JsonSource json

record transactional_process_request =
  tp_delivery :: json
  tp_processing_mode :: string
  tp_migration :: migration_request
  tp_migration_limits :: resource_limits

record durable_host_result =
  dh_result :: string
  dh_mutation :: string
  dh_core_calls :: "8 word"
  dh_broker_acknowledged :: bool
  dh_code :: "string option"

definition validated :: durable_host_result where
  "validated = \<lparr>dh_result = ''validated'', dh_mutation = ''none'', dh_core_calls = 0, dh_broker_acknowledged = False,
     dh_code = None\<rparr>"

definition validation_rejected :: "string \<Rightarrow> durable_host_result" where
  "validation_rejected code = \<lparr>dh_result = ''rejected'', dh_mutation = ''none'', dh_core_calls = 0,
     dh_broker_acknowledged = False, dh_code = Some code\<rparr>"

record durable_checkpoint_execution =
  de_result :: durable_host_result
  de_operation_response :: "json option"
  de_caller_response :: "json option"

record durable_contract_execution =
  dc_result :: durable_host_result
  dc_caller_response :: json

record store_scope =
  ss_scope_id :: string
  ss_ownership_binding :: string
  ss_authorized :: bool

record scoped_store_record =
  sc_scope_id :: string
  sc_ownership_binding :: string
  sc_portable_identity :: string
  sc_effect_id :: string

text \<open>
  \<^verbatim>\<open>CheckpointHost\<close>: the readers and hashes of a checkpoint, the artifacts, the store, its
  verified binding and the acknowledger.  The last two belong to the extensions.
\<close>

record verified_execution_store =
  vs_current_capabilities :: "(execution_store_capability btree_set, string) outcome"
  vs_current_host_features :: "string \<Rightarrow> (host_feature btree_set, string) outcome"

record 's execution_host =
  eh_checkpoint :: checkpoint_host
  eh_codec :: artifact_codec
  eh_resolver :: artifact_resolver
  eh_fuel :: nat
  eh_access :: "'s store_access"
  eh_capabilities :: "execution_store_capability btree_set"
  eh_verified :: "verified_execution_store option"
  eh_acknowledger :: "(string \<Rightarrow> string \<Rightarrow> bool) option"

definition acknowledge_ingress :: "'s execution_host \<Rightarrow> string \<Rightarrow> string \<Rightarrow> bool" where
  "acknowledge_ingress X root_instance_id operation =
     (case eh_acknowledger X of None \<Rightarrow> False | Some acknowledge \<Rightarrow> acknowledge root_instance_id operation)"

section \<open>Records and checkpoints\<close>

definition canonical_bytes :: "checkpoint_host \<Rightarrow> json \<Rightarrow> (string, string) outcome" where
  "canonical_bytes C v = ok_or invalid_aggregate (ho_canonical_text (ck_host C) v)"

definition store_record_from_checkpoint :: "checkpoint_host \<Rightarrow> execution_checkpoint \<Rightarrow> (store_record, string) outcome" where
  "store_record_from_checkpoint C cp =
     obind (cp_root_instance_id cp) (\<lambda>root_instance_id.
     obind (cp_revision cp) (\<lambda>revision.
     obind (cp_digest cp) (\<lambda>digest.
     case canonical_bytes C (cp_value cp) of
       Ok bytes \<Rightarrow> Ok \<lparr>sr_root_instance_id = root_instance_id, sr_revision = revision,
         sr_execution_checkpoint_digest = digest, sr_bytes = bytes\<rparr>
     | Err _ \<Rightarrow> Err (store_error_str ExecutionStoreFailure)
     | Panic \<Rightarrow> Panic
     | OutOfFuel \<Rightarrow> OutOfFuel)))"

definition restore_record_v1 :: "'s execution_host \<Rightarrow> store_record \<Rightarrow> (execution_checkpoint, string) outcome" where
  "restore_record_v1 X rec =
     obind (restore_execution_checkpoint (eh_checkpoint X) (sr_bytes rec) (ar_definition (eh_resolver X))) (\<lambda>cp.
     obind (oand (obind (cp_root_instance_id cp) (\<lambda>i. Ok (i = sr_root_instance_id rec)))
           (oand (obind (cp_revision cp) (\<lambda>r. Ok (r = sr_revision rec)))
                 (obind (cp_digest cp) (\<lambda>d. Ok (d = sr_execution_checkpoint_digest rec))))) (\<lambda>same.
       if same then Ok cp else Err invalid_checkpoint))"

definition require_checkpoint_v1_with_store ::
  "'s execution_host \<Rightarrow> string \<Rightarrow> ('s, store_record \<times> execution_checkpoint, string) store_call" where
  "require_checkpoint_v1_with_store X root_instance_id =
     hbind (map_store_error (sa_load (eh_access X) root_instance_id)) (\<lambda>found.
     hbind (hlift (ok_or ''checkpoint_not_found'' found)) (\<lambda>rec.
     hbind (hlift (restore_record_v1 X rec)) (\<lambda>cp. hlift (Ok (rec, cp)))))"

definition load_checkpoint :: "'s execution_host \<Rightarrow> string \<Rightarrow> ('s, execution_checkpoint option, string) store_call" where
  "load_checkpoint X root_instance_id =
     hbind (map_store_error (sa_load (eh_access X) root_instance_id)) (\<lambda>found.
     case found of
       None \<Rightarrow> hlift (Ok None)
     | Some rec \<Rightarrow> hlift (obind (restore_record_v1 X rec) (\<lambda>cp. Ok (Some cp))))"

definition checkpoint_v1_bundle :: "'s execution_host \<Rightarrow> execution_checkpoint \<Rightarrow> (compiled_bundle, string) outcome" where
  "checkpoint_v1_bundle X cp =
     obind (ok_or ''terminal_root'' (cp_bundle_fingerprint cp)) (\<lambda>fingerprint.
     obind (ok_or ''definition_not_found'' (ar_definition (eh_resolver X) fingerprint)) (\<lambda>resolved.
     if \<not> rd_trusted resolved \<or> b_fingerprint (rd_bundle resolved) \<noteq> fingerprint then Err ''definition_not_trusted''
     else Ok (rd_bundle resolved)))"

section \<open>Committing\<close>

definition commit_record_v1_with_store ::
  "'s execution_host \<Rightarrow> store_record \<Rightarrow> store_record \<Rightarrow> ('s, unit, string) store_call" where
  "commit_record_v1_with_store X current replacement =
     hbind (map_store_error (sa_compare_and_swap (eh_access X) (sr_root_instance_id current) (sr_revision current)
              (sr_execution_checkpoint_digest current) replacement)) (\<lambda>written.
       hlift (case written of Committed \<Rightarrow> Ok () | Conflict _ \<Rightarrow> Err ''checkpoint_revision_conflict''))"

text \<open>What of a result is a new checkpoint: the result itself, or that of a batch.\<close>

definition commit_candidate :: "json \<Rightarrow> json option" where
  "commit_candidate result =
     (if is_checkpoint result then Some result
      else if jindex result ''result'' = JString ''batch'' \<and> is_checkpoint (jindex result ''checkpoint'')
      then Some (jindex result ''checkpoint'')
      else None)"

definition commit_v1_result_with_store ::
  "'s execution_host \<Rightarrow> store_record \<Rightarrow> json \<Rightarrow> ('s, unit, string) store_call" where
  "commit_v1_result_with_store X current result =
     (case commit_candidate result of
        None \<Rightarrow> hlift (Ok ())
      | Some candidate \<Rightarrow>
          hbind (hlift (obind (canonical_bytes (eh_checkpoint X) candidate) (\<lambda>bytes.
             restore_execution_checkpoint (eh_checkpoint X) bytes (ar_definition (eh_resolver X))))) (\<lambda>cp.
          hbind (hlift (oand (obind (cp_revision cp) (\<lambda>r. Ok (r = sr_revision current)))
                   (obind (cp_digest cp) (\<lambda>d. Ok (d = sr_execution_checkpoint_digest current))))) (\<lambda>same.
          if same then hlift (Ok ())
          else hbind (hlift (store_record_from_checkpoint (eh_checkpoint X) cp)) (commit_record_v1_with_store X current))))"

section \<open>Operations\<close>

text \<open>Most operations load the checkpoint, apply a function of it and commit its result.\<close>

definition mutate ::
  "'s execution_host \<Rightarrow> string \<Rightarrow> (execution_checkpoint \<Rightarrow> (json, string) outcome) \<Rightarrow> ('s, json, string) store_call" where
  "mutate X root_instance_id operation =
     hbind (require_checkpoint_v1_with_store X root_instance_id) (\<lambda>(rec, cp).
     hbind (hlift (operation cp)) (\<lambda>result.
     hbind (commit_v1_result_with_store X rec result) (\<lambda>_. hlift (Ok result))))"

definition committed_response :: "string \<Rightarrow> json \<Rightarrow> json" where
  "committed_response member evidence = jobj [(''result'', JString ''committed''), (member, evidence)]"

subsection \<open>Creation\<close>

definition replay_or_reject_creation ::
  "'s execution_host \<Rightarrow> store_record \<Rightarrow> string \<Rightarrow> string \<Rightarrow> (json, string) outcome" where
  "replay_or_reject_creation X current creation_id request_digest =
     obind (restore_record_v1 X current) (\<lambda>cp.
     obind (ok_or invalid_checkpoint (Option.bind (jarray (jindex (cp_value cp) ''operation_receipts''))
              (\<lambda>receipts. case receipts of [] \<Rightarrow> None | r # _ \<Rightarrow> Some r))) (\<lambda>receipt.
     if jstr (jindex receipt ''creation_id'') = Some creation_id \<and> jstr (jindex receipt ''request_digest'') = Some request_digest
     then Ok (committed_response ''receipt'' receipt)
     else Err ''creation_id_conflict''))"

definition creation_response :: "execution_checkpoint \<Rightarrow> (json, string) outcome" where
  "creation_response cp =
     obind (ok_or invalid_checkpoint (Option.bind (jarray (jindex (cp_value cp) ''operation_receipts''))
              (\<lambda>receipts. case receipts of [] \<Rightarrow> None
                 | r # _ \<Rightarrow> if jindex r ''operation_kind'' = JString ''creation'' then Some r else None))) (\<lambda>receipt.
       Ok (committed_response ''receipt'' receipt))"

definition creation_portable_codes :: "creation_rejection list" where
  "creation_portable_codes = [CreateInvalidBinding, CreateInvalidRequest, CreateInvalidMachine]"

definition portable_creation_error :: "(execution_checkpoint, string) outcome \<Rightarrow> (execution_checkpoint, string) outcome" where
  "portable_creation_error x =
     (case x of
        Err code \<Rightarrow> Err (if code \<in> set (map creation_rejection_str creation_portable_codes) then ''creation_rejected'' else code)
      | _ \<Rightarrow> x)"

definition create_checkpoint_with_store ::
  "'s execution_host \<Rightarrow> compiled_bundle \<Rightarrow> string \<Rightarrow> string \<Rightarrow> string \<Rightarrow> bindings \<Rightarrow> string option \<Rightarrow> json \<Rightarrow>
   ('s, json, string) store_call" where
  "create_checkpoint_with_store X B machine_id root_instance_id creation_id b supplied replay_retention =
     hbind (hlift (creation_request_digest (eh_checkpoint X) B machine_id root_instance_id creation_id b)) (\<lambda>request_digest.
     hbind (map_store_error (sa_load (eh_access X) root_instance_id)) (\<lambda>found.
     case found of
       Some current \<Rightarrow> hlift (replay_or_reject_creation X current creation_id request_digest)
     | None \<Rightarrow>
         hbind (hlift (portable_creation_error (create_execution_checkpoint_v1 (eh_checkpoint X) (eh_fuel X) B machine_id root_instance_id
                  creation_id b supplied replay_retention))) (\<lambda>candidate.
         hbind (hlift (store_record_from_checkpoint (eh_checkpoint X) candidate)) (\<lambda>rec.
         hbind (map_store_error (sa_insert_if_absent (eh_access X) rec)) (\<lambda>written.
         hlift (case written of
             Committed \<Rightarrow> creation_response candidate
           | Conflict (Some current) \<Rightarrow> replay_or_reject_creation X current creation_id request_digest
           | Conflict None \<Rightarrow> Err ''checkpoint_revision_conflict''))))))"

subsection \<open>Admission and processing\<close>

definition optional_bundle :: "'s execution_host \<Rightarrow> execution_checkpoint \<Rightarrow> (compiled_bundle option, string) outcome" where
  "optional_bundle X cp =
     (case cp_bundle_fingerprint cp of
        None \<Rightarrow> Ok None
      | Some _ \<Rightarrow> obind (checkpoint_v1_bundle X cp) (\<lambda>B. Ok (Some B)))"

definition admit_checkpoint_with_store ::
  "'s execution_host \<Rightarrow> string \<Rightarrow> json list \<Rightarrow> mutation_guard \<Rightarrow> ('s, json, string) store_call" where
  "admit_checkpoint_with_store X root_instance_id deliveries g =
     mutate X root_instance_id (\<lambda>cp.
       obind (optional_bundle X cp) (\<lambda>B.
         checkpoint_admit_v1_with_optional_bundle (eh_checkpoint X) B cp deliveries (Some (mg_expected_revision g))
           (Some (mg_expected_checkpoint_digest g))))"

definition delivery_of_source :: "checkpoint_host \<Rightarrow> admission_source \<Rightarrow> (json, string) outcome" where
  "delivery_of_source C source =
     (case source of JsonSource v \<Rightarrow> Ok v | Utf8Json bytes \<Rightarrow> ok_or ''malformed_delivery'' (ck_parse C bytes))"

definition admit_checkpoint_sources ::
  "'s execution_host \<Rightarrow> string \<Rightarrow> admission_source list \<Rightarrow> mutation_guard \<Rightarrow> ('s, json, string) store_call" where
  "admit_checkpoint_sources X root_instance_id sources g =
     hbind (hlift (collect_outcome (map (delivery_of_source (eh_checkpoint X)) sources))) (\<lambda>deliveries.
       admit_checkpoint_with_store X root_instance_id deliveries g)"

definition step_checkpoint_with_core ::
  "'s execution_host \<Rightarrow> string \<Rightarrow> processing_request \<Rightarrow> mutation_guard \<Rightarrow> ('s, json \<times> json option, string) store_call" where
  "step_checkpoint_with_core X root_instance_id request g =
     hbind (require_checkpoint_v1_with_store X root_instance_id) (\<lambda>(rec, cp).
     hbind (hlift (checkpoint_step_replay cp request)) (\<lambda>replayed.
     case replayed of
       Some replay \<Rightarrow> hlift (Ok (replay, None))
     | None \<Rightarrow>
         hbind (hlift (checkpoint_v1_bundle X cp)) (\<lambda>B.
         hbind (hlift (checkpoint_step_v1_with_core (eh_checkpoint X) (eh_fuel X) B cp request (Some (mg_expected_revision g))
                  (Some (mg_expected_checkpoint_digest g)))) (\<lambda>(result, core).
         hbind (commit_v1_result_with_store X rec result) (\<lambda>_. hlift (Ok (result, core)))))))"

definition step_checkpoint_with_store ::
  "'s execution_host \<Rightarrow> string \<Rightarrow> processing_request \<Rightarrow> mutation_guard \<Rightarrow> ('s, json, string) store_call" where
  "step_checkpoint_with_store X root_instance_id request g =
     hbind (step_checkpoint_with_core X root_instance_id request g) (\<lambda>x. hlift (Ok (fst x)))"

definition process_checkpoint_with_store ::
  "'s execution_host \<Rightarrow> string \<Rightarrow> json \<Rightarrow> string \<Rightarrow> mutation_guard \<Rightarrow> ('s, json, string) store_call" where
  "process_checkpoint_with_store X root_instance_id delivery mode g =
     hbind (require_checkpoint_v1_with_store X root_instance_id) (\<lambda>(rec, cp).
     hbind (hlift (checkpoint_process_replay (eh_checkpoint X) cp delivery mode)) (\<lambda>replayed.
     case replayed of
       Some replay \<Rightarrow> hlift (Ok replay)
     | None \<Rightarrow>
         hbind (hlift (checkpoint_v1_bundle X cp)) (\<lambda>B.
         hbind (hlift (checkpoint_process (eh_checkpoint X) (eh_fuel X) B cp delivery mode (Some (mg_expected_revision g))
                  (Some (mg_expected_checkpoint_digest g)))) (\<lambda>result.
         hbind (commit_v1_result_with_store X rec result) (\<lambda>_. hlift (Ok result))))))"

definition transactional_process_with_core ::
  "'s execution_host \<Rightarrow> string \<Rightarrow> transactional_process_request \<Rightarrow> mutation_guard \<Rightarrow>
   ('s, json \<times> json option, string) store_call" where
  "transactional_process_with_core X root_instance_id request g =
     hbind (require_checkpoint_v1_with_store X root_instance_id) (\<lambda>(rec, cp).
     hbind (hlift (checkpoint_process_with_migration_with_core (eh_checkpoint X) (eh_codec X) (eh_fuel X) cp (tp_migration request)
              (eh_resolver X) (tp_migration_limits request) (tp_delivery request) (tp_processing_mode request)
              (Some (mg_expected_revision g)) (Some (mg_expected_checkpoint_digest g)))) (\<lambda>(result, core).
     hbind (commit_v1_result_with_store X rec result) (\<lambda>_. hlift (Ok (result, core)))))"

definition transactional_process_with_store ::
  "'s execution_host \<Rightarrow> string \<Rightarrow> transactional_process_request \<Rightarrow> mutation_guard \<Rightarrow> ('s, json, string) store_call" where
  "transactional_process_with_store X root_instance_id request g =
     hbind (transactional_process_with_core X root_instance_id request g) (\<lambda>x. hlift (Ok (fst x)))"

subsection \<open>Retention, outbox and removal\<close>

definition prune_checkpoint_with_store ::
  "'s execution_host \<Rightarrow> string \<Rightarrow> prune_request \<Rightarrow> mutation_guard \<Rightarrow> ('s, json, string) store_call" where
  "prune_checkpoint_with_store X root_instance_id request g =
     mutate X root_instance_id (\<lambda>cp. checkpoint_prune_v1 (eh_checkpoint X) cp request (Some (mg_expected_revision g))
       (Some (mg_expected_checkpoint_digest g)))"

definition delete_retained_record ::
  "'s execution_host \<Rightarrow> string \<Rightarrow> mutation_guard \<Rightarrow> ('s, unit, string) store_call" where
  "delete_retained_record X root_instance_id g =
     hbind (require_checkpoint_v1_with_store X root_instance_id) (\<lambda>(rec, cp).
     hbind (hlift (validate_mutation_guard cp (mg_expected_revision g) (mg_expected_checkpoint_digest g))) (\<lambda>_.
       hlift (Err invalid_checkpoint)))"

definition find_member :: "json \<Rightarrow> string \<Rightarrow> (json \<Rightarrow> bool) \<Rightarrow> json option" where
  "find_member v field p = Option.bind (jarray (jindex v field)) (find p)"

definition update_pending_outbox_with_store ::
  "'s execution_host \<Rightarrow> string \<Rightarrow> string \<Rightarrow> pending_outbox_state \<Rightarrow> mutation_guard \<Rightarrow> ('s, json, string) store_call" where
  "update_pending_outbox_with_store X root_instance_id effect_id desired g =
     hbind (mutate X root_instance_id (\<lambda>cp. checkpoint_update_pending_outbox (eh_checkpoint X) cp effect_id desired
              (Some (mg_expected_revision g)) (Some (mg_expected_checkpoint_digest g)))) (\<lambda>result.
     hbind (hlift (ok_or invalid_checkpoint (find_member result ''pending_outbox_intents'' (has_effect effect_id)))) (\<lambda>rec.
       hlift (Ok (committed_response ''record'' rec))))"

definition terminalize_outbox_with_store ::
  "'s execution_host \<Rightarrow> string \<Rightarrow> string \<Rightarrow> terminal_outbox_outcome \<Rightarrow> mutation_guard \<Rightarrow> ('s, json, string) store_call" where
  "terminalize_outbox_with_store X root_instance_id effect_id outcome g =
     hbind (mutate X root_instance_id (\<lambda>cp. checkpoint_terminalize_outbox (eh_checkpoint X) cp effect_id outcome
              (Some (mg_expected_revision g)) (Some (mg_expected_checkpoint_digest g)))) (\<lambda>result.
     hbind (hlift (ok_or invalid_checkpoint
              (case find_member result ''terminal_outbox_records'' (has_effect effect_id) of
                 Some rec \<Rightarrow> Some rec
               | None \<Rightarrow> find_member result ''outbox_effect_tombstones'' (has_tombstone_effect effect_id)))) (\<lambda>rec.
       hlift (Ok (committed_response ''record'' rec))))"

definition compact_outbox_with_store ::
  "'s execution_host \<Rightarrow> string \<Rightarrow> string \<Rightarrow> mutation_guard \<Rightarrow> ('s, json, string) store_call" where
  "compact_outbox_with_store X root_instance_id effect_id g =
     hbind (mutate X root_instance_id (\<lambda>cp. checkpoint_compact_outbox (eh_checkpoint X) cp effect_id
              (Some (mg_expected_revision g)) (Some (mg_expected_checkpoint_digest g)))) (\<lambda>result.
     hbind (hlift (ok_or invalid_checkpoint (find_member result ''outbox_effect_tombstones'' (has_tombstone_effect effect_id)))) (\<lambda>rec.
       hlift (Ok (committed_response ''record'' rec))))"

definition tombstone_root_with_store ::
  "'s execution_host \<Rightarrow> string \<Rightarrow> string \<Rightarrow> mutation_guard \<Rightarrow> ('s, json, string) store_call" where
  "tombstone_root_with_store X root_instance_id operation_id g =
     hbind (mutate X root_instance_id (\<lambda>cp. checkpoint_tombstone_root (eh_checkpoint X) cp operation_id
              (Some (mg_expected_revision g)) (Some (mg_expected_checkpoint_digest g)))) (\<lambda>result.
       hlift (Ok (jobj [(''result'', JString ''tombstoned''), (''tombstone'', jindex result ''root_record'')])))"

subsection \<open>Maintenance\<close>

definition maintenance_request_digest ::
  "checkpoint_host \<Rightarrow> string \<Rightarrow> maintenance_migration_request \<Rightarrow> (string, string) outcome" where
  "maintenance_request_digest C root_instance_id request =
     checkpoint_hash C (JArray [JString ''determa-maintenance-migration-request-digest-1'', JString ''1'', JString root_instance_id,
       JString (mm_operation_id request), JString (mm_source_aggregate_state_digest request), JString (mm_target_fingerprint request),
       JArray (map JString (mm_route request)), JBool (mm_maintenance_mode request)])"

definition is_maintenance_of :: "string \<Rightarrow> json \<Rightarrow> bool" where
  "is_maintenance_of operation_id receipt \<longleftrightarrow>
     jindex receipt ''operation_kind'' = JString ''maintenance_migration'' \<and> jstr (jindex receipt ''operation_id'') = Some operation_id"

definition maintenance_guard :: "execution_checkpoint \<Rightarrow> maintenance_migration_request \<Rightarrow> (unit, string) outcome" where
  "maintenance_guard cp request =
     obind (oand (obind (cp_revision cp) (\<lambda>r. Ok (r = mg_expected_revision (mm_guard request))))
                 (obind (cp_digest cp) (\<lambda>d. Ok (d = mg_expected_checkpoint_digest (mm_guard request))))) (\<lambda>same.
     if \<not> same then Err ''checkpoint_revision_conflict''
     else if is_tombstone (cp_value cp) then Err ''tombstoned_root''
     else if jstr (jindex (checkpoint_aggregate (cp_value cp)) ''aggregate_state_digest'') \<noteq>
             Some (mm_source_aggregate_state_digest request) then Err invalid_checkpoint
     else Ok ())"

definition migrate_and_commit ::
  "'s execution_host \<Rightarrow> maintenance_migration_request \<Rightarrow> string \<Rightarrow> store_record \<Rightarrow> execution_checkpoint \<Rightarrow>
   ('s, json, string) store_call" where
  "migrate_and_commit X request request_digest rec cp =
     hbind (hlift (maintenance_guard cp request)) (\<lambda>_.
     hbind (hlift (checkpoint_maintenance_migration_route (eh_checkpoint X) (eh_codec X) cp
              \<lparr>mr_migration_route = mm_route request, mr_target_fingerprint = mm_target_fingerprint request,
               mr_maintenance_mode = mm_maintenance_mode request\<rparr>
              (mm_operation_id request) request_digest (eh_resolver X) (mm_limits request) None None)) (\<lambda>result.
     hbind (commit_v1_result_with_store X rec result) (\<lambda>_.
     hbind (hlift (expect (jarray (jindex result ''operation_receipts'')))) (\<lambda>receipts.
     hbind (hlift (ok_or invalid_checkpoint (find (is_maintenance_of (mm_operation_id request)) receipts))) (\<lambda>receipt.
       hlift (Ok (committed_response ''receipt'' receipt)))))))"

definition maintenance_migration_with_store ::
  "'s execution_host \<Rightarrow> maintenance_migration_request \<Rightarrow> ('s, json, string) store_call" where
  "maintenance_migration_with_store X request =
     (if mm_operation_id request = [] then hlift (Err invalid_checkpoint)
      else
      hbind (hlift (maintenance_request_digest (eh_checkpoint X) (mm_root_instance_id request) request)) (\<lambda>request_digest.
      if (case mm_supplied_request_digest request of None \<Rightarrow> False | Some supplied \<Rightarrow> supplied \<noteq> request_digest)
      then hlift (Err invalid_checkpoint)
      else
      hbind (require_checkpoint_v1_with_store X (mm_root_instance_id request)) (\<lambda>(rec, cp).
      hbind (hlift (expect (jarray (jindex (cp_value cp) ''operation_receipts'')))) (\<lambda>receipts.
      case find (is_maintenance_of (mm_operation_id request)) receipts of
        Some existing \<Rightarrow>
          hlift (if jstr (jindex existing ''request_digest'') = Some request_digest
                 then Ok (committed_response ''receipt'' existing) else Err ''operation_id_conflict'')
      | None \<Rightarrow> migrate_and_commit X request request_digest rec cp))))"

section \<open>Executing an operation\<close>

datatype durable_checkpoint_operation =
    OpCreate compiled_bundle string string string bindings "string option" json
  | OpAdmit string "admission_source list" mutation_guard
  | OpStep string processing_request mutation_guard
  | OpUpdatePendingOutbox string string pending_outbox_state mutation_guard
  | OpTerminalizeOutbox string string terminal_outbox_outcome mutation_guard
  | OpCompactOutbox string string mutation_guard
  | OpPrune string prune_request mutation_guard
  | OpTombstone string string mutation_guard
  | OpDeleteRetainedRecord string mutation_guard

fun op_root_instance_id :: "durable_checkpoint_operation \<Rightarrow> string" where
  "op_root_instance_id (OpCreate B machine_id i creation_id b supplied retention) = i"
| "op_root_instance_id (OpAdmit i sources g) = i"
| "op_root_instance_id (OpStep i request g) = i"
| "op_root_instance_id (OpUpdatePendingOutbox i effect_id desired g) = i"
| "op_root_instance_id (OpTerminalizeOutbox i effect_id outcome g) = i"
| "op_root_instance_id (OpCompactOutbox i effect_id g) = i"
| "op_root_instance_id (OpPrune i request g) = i"
| "op_root_instance_id (OpTombstone i operation_id g) = i"
| "op_root_instance_id (OpDeleteRetainedRecord i g) = i"

fun is_core_operation :: "durable_checkpoint_operation \<Rightarrow> bool" where
  "is_core_operation (OpCreate B machine_id i creation_id b supplied retention) = True"
| "is_core_operation (OpAdmit i sources g) = True"
| "is_core_operation (OpStep i request g) = True"
| "is_core_operation _ = False"

fun is_creation :: "durable_checkpoint_operation \<Rightarrow> bool" where
  "is_creation (OpCreate B machine_id i creation_id b supplied retention) = True"
| "is_creation _ = False"

fun op_kind :: "durable_checkpoint_operation \<Rightarrow> string" where
  "op_kind (OpCreate B machine_id i creation_id b supplied retention) = ''creation''"
| "op_kind (OpAdmit i sources g) = ''admission''"
| "op_kind (OpStep i request g) = ''processing''"
| "op_kind (OpPrune i request g) = ''host_acknowledgement''"
| "op_kind (OpTombstone i operation_id g) = ''tombstoned''"
| "op_kind (OpUpdatePendingOutbox i effect_id desired g) = ''pending_outbox''"
| "op_kind (OpTerminalizeOutbox i effect_id outcome g) = ''terminal_outbox''"
| "op_kind (OpCompactOutbox i effect_id g) = ''host_acknowledgement''"
| "op_kind (OpDeleteRetainedRecord i g) = ''other''"

definition admission_id :: "checkpoint_host \<Rightarrow> admission_source \<Rightarrow> string option" where
  "admission_id C source =
     Option.bind (case source of JsonSource v \<Rightarrow> Some v | Utf8Json bytes \<Rightarrow> ck_parse C bytes) (\<lambda>v.
     Option.bind (Option.bind (jget v ''envelope'') (\<lambda>e. jget e ''event_id'')) jstr)"

fun op_admission_ids :: "checkpoint_host \<Rightarrow> durable_checkpoint_operation \<Rightarrow> string list" where
  "op_admission_ids C (OpAdmit i sources g) = List.map_filter (admission_id C) sources"
| "op_admission_ids C _ = []"

text \<open>The operations, with the core's own result where there is one.\<close>

definition without_core :: "('s, json, string) store_call \<Rightarrow> ('s, json \<times> json option, string) store_call" where
  "without_core f = hmap (\<lambda>v. (v, None)) f"

fun run_operation :: "'s execution_host \<Rightarrow> durable_checkpoint_operation \<Rightarrow> ('s, json \<times> json option, string) store_call" where
  "run_operation X (OpCreate B machine_id i creation_id b supplied retention) =
     without_core (create_checkpoint_with_store X B machine_id i creation_id b supplied retention)"
| "run_operation X (OpAdmit i sources g) = without_core (admit_checkpoint_sources X i sources g)"
| "run_operation X (OpStep i request g) = step_checkpoint_with_core X i request g"
| "run_operation X (OpUpdatePendingOutbox i effect_id desired g) =
     without_core (update_pending_outbox_with_store X i effect_id desired g)"
| "run_operation X (OpTerminalizeOutbox i effect_id outcome g) =
     without_core (terminalize_outbox_with_store X i effect_id outcome g)"
| "run_operation X (OpCompactOutbox i effect_id g) = without_core (compact_outbox_with_store X i effect_id g)"
| "run_operation X (OpPrune i request g) = without_core (prune_checkpoint_with_store X i request g)"
| "run_operation X (OpTombstone i operation_id g) = without_core (tombstone_root_with_store X i operation_id g)"
| "run_operation X (OpDeleteRetainedRecord i g) =
     without_core (hbind (delete_retained_record X i g) (\<lambda>_. hlift (Ok JNull)))"

definition response :: "string \<Rightarrow> json \<Rightarrow> json" where
  "response kind body = jobj [(''kind'', JString kind), (''body'', body)]"

definition typed_failure :: "string \<Rightarrow> json" where
  "typed_failure code = response ''typed_failure'' (jobj [(''code'', JString code)])"

definition find_last :: "('a \<Rightarrow> bool) \<Rightarrow> 'a list \<Rightarrow> 'a option" where
  "find_last p xs = find p (rev xs)"

definition orelse :: "'a option \<Rightarrow> 'a option \<Rightarrow> 'a option" where
  "orelse x y = (case x of None \<Rightarrow> y | Some a \<Rightarrow> Some a)"

definition admission_evidence :: "json \<Rightarrow> nat \<times> string \<Rightarrow> json option" where
  "admission_evidence returned p =
     (let checkpoint = (case jget returned ''checkpoint'' of None \<Rightarrow> returned | Some c \<Rightarrow> c);
          receipts = Option.bind (jget checkpoint ''operation_receipts'') jarray;
          members = Option.bind (jget returned ''members'') jarray;
          member = Option.bind members (\<lambda>ms. if fst p < length ms then Some (ms ! fst p) else None) in
      orelse (Option.bind member (\<lambda>m. jget m ''evidence''))
        (orelse (Option.bind receipts (find_last (\<lambda>r. jindex r ''event_id'' = JString (snd p) \<and>
                   jindex r ''operation_kind'' = JString ''acceptance'')))
          (if jindex returned ''event_id'' = JString (snd p) then Some returned else None)))"

definition json_or_null :: "json option \<Rightarrow> json" where
  "json_or_null x = (case x of None \<Rightarrow> JNull | Some v \<Rightarrow> v)"

definition is_event_terminal :: "json \<Rightarrow> bool" where
  "is_event_terminal receipt \<longleftrightarrow> jindex receipt ''operation_kind'' = JString ''event_terminal''"

definition processing_receipt :: "json \<Rightarrow> json option" where
  "processing_receipt returned =
     orelse (Option.bind (Option.bind (jget returned ''operation_receipts'') jarray) (find_last is_event_terminal))
       (if is_event_terminal returned then Some returned else None)"

definition caller_checkpoint_response ::
  "string \<Rightarrow> json \<Rightarrow> json option \<Rightarrow> string list \<Rightarrow> bool \<Rightarrow> json option" where
  "caller_checkpoint_response kind returned core admission_ids changed =
     (if kind = ''creation'' then Some (response ''creation'' returned)
      else if kind = ''admission'' then
        Some (response ''admission'' (jobj [(''evidence'',
          JArray (List.map_filter (admission_evidence returned) (List.enumerate 0 admission_ids)))]))
      else if kind = ''processing'' then
        Some (case core of
            None \<Rightarrow> response ''retained_receipt'' returned
          | Some c \<Rightarrow> response ''processing'' (jobj [(''core_result'', c), (''receipt'', json_or_null (processing_receipt returned))]))
      else if kind = ''host_acknowledgement'' then
        Some (response ''host_acknowledgement'' (jobj [(''result'', JString (if changed then ''committed'' else ''replayed''))]))
      else if kind = ''tombstoned'' then
        Some (response ''tombstoned'' (jobj [(''result'', JString ''tombstoned''),
          (''tombstone'', case jget returned ''tombstone'' of None \<Rightarrow> jindex returned ''root_record'' | Some t \<Rightarrow> t)]))
      else if kind = ''pending_outbox'' then Some (response kind returned)
      else if kind = ''terminal_outbox'' then Some (response kind (jindex returned ''record''))
      else None)"

definition store_unavailable :: "string \<Rightarrow> 8 word \<Rightarrow> json option \<Rightarrow> durable_checkpoint_execution" where
  "store_unavailable result core_calls caller_response =
     \<lparr>de_result = \<lparr>dh_result = result, dh_mutation = ''none'', dh_core_calls = core_calls, dh_broker_acknowledged = False,
        dh_code = Some ''execution_store_failure''\<rparr>,
      de_operation_response = None, de_caller_response = caller_response\<rparr>"

text \<open>What the host reports of an operation, from its result and the records before and after.\<close>

definition summarize ::
  "'s execution_host \<Rightarrow> durable_checkpoint_operation \<Rightarrow> store_record option \<Rightarrow> json \<times> json option + string \<Rightarrow>
   store_record option \<Rightarrow> durable_checkpoint_execution" where
  "summarize X operation before result after =
     (let changed = (before \<noteq> after);
          code = (case result of Inl _ \<Rightarrow> None | Inr c \<Rightarrow> Some c);
          crashed = (code = Some ''injected_pre_commit_failure'' \<or> code = Some ''response_lost_after_commit'');
          committed = (code = None \<and> changed);
          replayed = (code = None \<and> \<not> changed);
          core_calls = (is_creation operation \<and> before = None) \<or>
            (is_core_operation operation \<and>
              (committed \<or> code = Some ''injected_pre_commit_failure'' \<or> code = Some ''creation_rejected'')) in
      \<lparr>de_result = \<lparr>
         dh_result = (if crashed then ''crashed'' else if committed then ''committed'' else if replayed then ''replayed''
           else ''rejected''),
         dh_mutation = (if changed then ''atomic'' else ''none''),
         dh_core_calls = (if core_calls then 1 else 0),
         dh_broker_acknowledged = (committed \<or> (replayed \<and> op_kind operation \<noteq> ''processing'')) \<and>
           acknowledge_ingress X (op_root_instance_id operation) (op_kind operation),
         dh_code = code\<rparr>,
       de_operation_response = (case result of Inl (v, _) \<Rightarrow> Some v | Inr _ \<Rightarrow> None),
       de_caller_response =
         (if crashed then None
          else case result of
              Inr c \<Rightarrow> Some (typed_failure c)
            | Inl (v, core) \<Rightarrow> caller_checkpoint_response (op_kind operation) v core
                (op_admission_ids (eh_checkpoint X) operation) changed)\<rparr>)"

definition conclude ::
  "'s execution_host \<Rightarrow> durable_checkpoint_operation \<Rightarrow> store_record option \<Rightarrow> json \<times> json option + string \<Rightarrow>
   ('s, durable_checkpoint_execution, string) store_call" where
  "conclude X operation before result s =
     (case sa_load (eh_access X) (op_root_instance_id operation) s of
        (Ok after, s') \<Rightarrow> (Ok (summarize X operation before result after), s')
      | (Err _, s') \<Rightarrow> (Ok (store_unavailable ''crashed'' (if is_core_operation operation then 1 else 0) None), s')
      | (Panic, s') \<Rightarrow> (Panic, s')
      | (OutOfFuel, s') \<Rightarrow> (OutOfFuel, s'))"

definition execute_checkpoint_operation ::
  "'s execution_host \<Rightarrow> durable_checkpoint_operation \<Rightarrow> ('s, durable_checkpoint_execution, string) store_call" where
  "execute_checkpoint_operation X operation s =
     (case sa_load (eh_access X) (op_root_instance_id operation) s of
        (Ok before, s1) \<Rightarrow>
          (case run_operation X operation s1 of
             (Ok v, s2) \<Rightarrow> conclude X operation before (Inl v) s2
           | (Err code, s2) \<Rightarrow> conclude X operation before (Inr code) s2
           | (Panic, s2) \<Rightarrow> (Panic, s2)
           | (OutOfFuel, s2) \<Rightarrow> (OutOfFuel, s2))
      | (Err _, s1) \<Rightarrow> (Ok (store_unavailable ''rejected'' 0 (Some (typed_failure ''execution_store_failure''))), s1)
      | (Panic, s1) \<Rightarrow> (Panic, s1)
      | (OutOfFuel, s1) \<Rightarrow> (OutOfFuel, s1))"

section \<open>Host mutations\<close>

text \<open>
  \<^verbatim>\<open>PostgresqlHostMutation\<close>: the operations the host stages in a transaction of an application,
  among them the two that migrate.
\<close>

datatype host_mutation =
    MutCreate compiled_bundle string string string bindings "string option" json
  | MutAdmit string "json list" mutation_guard
  | MutStep string processing_request mutation_guard
  | MutProcess string json string mutation_guard
  | MutTransactionalProcess string transactional_process_request mutation_guard
  | MutPrune string prune_request mutation_guard
  | MutMaintenanceMigration maintenance_migration_request
  | MutUpdatePendingOutbox string string pending_outbox_state mutation_guard
  | MutTerminalizeOutbox string string terminal_outbox_outcome mutation_guard
  | MutCompactOutbox string string mutation_guard
  | MutTombstoneRoot string string mutation_guard

fun mutation_root :: "host_mutation \<Rightarrow> string" where
  "mutation_root (MutCreate B machine_id i creation_id b supplied retention) = i"
| "mutation_root (MutAdmit i deliveries g) = i"
| "mutation_root (MutStep i request g) = i"
| "mutation_root (MutProcess i delivery mode g) = i"
| "mutation_root (MutTransactionalProcess i request g) = i"
| "mutation_root (MutPrune i request g) = i"
| "mutation_root (MutMaintenanceMigration request) = mm_root_instance_id request"
| "mutation_root (MutUpdatePendingOutbox i effect_id desired g) = i"
| "mutation_root (MutTerminalizeOutbox i effect_id outcome g) = i"
| "mutation_root (MutCompactOutbox i effect_id g) = i"
| "mutation_root (MutTombstoneRoot i operation_id g) = i"

datatype host_mutation_result =
    ResultCreation json
  | ResultAdmission json
  | ResultStep json
  | ResultProcess json
  | ResultTransactionalProcess json
  | ResultPrune json
  | ResultMaintenanceMigration json
  | ResultPendingOutbox json
  | ResultOutbox json
  | ResultCompactedOutbox json
  | ResultRootTombstone json

fun run_mutation :: "'s execution_host \<Rightarrow> host_mutation \<Rightarrow> ('s, host_mutation_result, string) store_call" where
  "run_mutation X (MutCreate B machine_id i creation_id b supplied retention) =
     hmap ResultCreation (create_checkpoint_with_store X B machine_id i creation_id b supplied retention)"
| "run_mutation X (MutAdmit i deliveries g) = hmap ResultAdmission (admit_checkpoint_with_store X i deliveries g)"
| "run_mutation X (MutStep i request g) = hmap ResultStep (step_checkpoint_with_store X i request g)"
| "run_mutation X (MutProcess i delivery mode g) = hmap ResultProcess (process_checkpoint_with_store X i delivery mode g)"
| "run_mutation X (MutTransactionalProcess i request g) =
     hmap ResultTransactionalProcess (transactional_process_with_store X i request g)"
| "run_mutation X (MutPrune i request g) = hmap ResultPrune (prune_checkpoint_with_store X i request g)"
| "run_mutation X (MutMaintenanceMigration request) =
     hmap ResultMaintenanceMigration (maintenance_migration_with_store X request)"
| "run_mutation X (MutUpdatePendingOutbox i effect_id desired g) =
     hmap ResultPendingOutbox (update_pending_outbox_with_store X i effect_id desired g)"
| "run_mutation X (MutTerminalizeOutbox i effect_id outcome g) =
     hmap ResultOutbox (terminalize_outbox_with_store X i effect_id outcome g)"
| "run_mutation X (MutCompactOutbox i effect_id g) = hmap ResultCompactedOutbox (compact_outbox_with_store X i effect_id g)"
| "run_mutation X (MutTombstoneRoot i operation_id g) =
     hmap ResultRootTombstone (tombstone_root_with_store X i operation_id g)"

section \<open>Contract checks\<close>

definition contract_success :: "string \<Rightarrow> json \<Rightarrow> durable_contract_execution" where
  "contract_success kind body = \<lparr>dc_result = validated, dc_caller_response = response kind body\<rparr>"

definition contract_failure :: "string \<Rightarrow> durable_contract_execution" where
  "contract_failure code = \<lparr>dc_result = validation_rejected code, dc_caller_response = typed_failure code\<rparr>"

definition injected_store_contract :: "'s execution_host \<Rightarrow> durable_contract_execution" where
  "injected_store_contract X =
     contract_success ''adapter_reference'' (jobj [(''adapter_identifier'', JString ''injected-store''),
       (''uri'', JString ''object://injected-store''), (''configuration'', jobj [(''instance'', JString ''provided'')]),
       (''capabilities'', JArray (map (JString \<circ> capability_str) (eh_capabilities X)))])"

definition in_scope :: "store_scope \<Rightarrow> string \<Rightarrow> string \<Rightarrow> scoped_store_record \<Rightarrow> bool" where
  "in_scope scope portable_identity effect_id rec \<longleftrightarrow>
     sc_scope_id rec = ss_scope_id scope \<and> sc_ownership_binding rec = ss_ownership_binding scope \<and>
     sc_portable_identity rec = portable_identity \<and> sc_effect_id rec = effect_id"

definition validate_scope_operation :: "store_scope \<Rightarrow> scoped_store_record list \<Rightarrow> string \<Rightarrow> string \<Rightarrow> durable_host_result" where
  "validate_scope_operation scope records portable_identity effect_id =
     (if ss_authorized scope \<and> length (filter (in_scope scope portable_identity effect_id) records) = 1
      then validated else validation_rejected ''invalid_store_scope'')"

definition validate_scope_contract ::
  "store_scope \<Rightarrow> scoped_store_record list \<Rightarrow> string \<Rightarrow> string \<Rightarrow> (durable_contract_execution, string) outcome" where
  "validate_scope_contract scope records portable_identity effect_id =
     (case dh_code (validate_scope_operation scope records portable_identity effect_id) of
        Some code \<Rightarrow> Ok (contract_failure code)
      | None \<Rightarrow>
          obind (expect (find (in_scope scope portable_identity effect_id) records)) (\<lambda>matched.
            Ok (contract_success ''scope_record'' (jobj [(''scope_id'', JString (sc_scope_id matched)),
              (''ownership_binding'', JString (sc_ownership_binding matched)),
              (''portable_identity'', JString (sc_portable_identity matched)), (''effect_id'', JString (sc_effect_id matched))]))))"

definition backup_acceptable :: "string list \<Rightarrow> string list \<Rightarrow> string \<Rightarrow> execution_checkpoint \<Rightarrow> (bool, string) outcome" where
  "backup_acceptable trusted digests retention_mode cp =
     (if is_retained (cp_value cp) \<and> \<not> list_ex (\<lambda>d. Some d = cp_bundle_fingerprint cp) trusted then Ok False
      else oand (if digests = [] then Ok False else obind (cp_digest cp) (\<lambda>digest. Ok (digest \<in> set digests)))
             (Ok (jindex (jindex (cp_value cp) ''replay_retention'') ''mode'' = JString retention_mode)))"

definition validate_backup_restore ::
  "'s execution_host \<Rightarrow> string \<Rightarrow> string list \<Rightarrow> string list \<Rightarrow> string \<Rightarrow> (durable_host_result, string) outcome" where
  "validate_backup_restore X source trusted digests retention_mode =
     (case restore_execution_checkpoint (eh_checkpoint X) source (ar_definition (eh_resolver X)) of
        Ok cp \<Rightarrow> obind (backup_acceptable trusted digests retention_mode cp) (\<lambda>valid.
          Ok (if valid then validated else validation_rejected invalid_checkpoint))
      | Err _ \<Rightarrow> Ok (validation_rejected invalid_checkpoint)
      | Panic \<Rightarrow> Panic
      | OutOfFuel \<Rightarrow> OutOfFuel)"

definition validate_backup_restore_contract ::
  "'s execution_host \<Rightarrow> string \<Rightarrow> string list \<Rightarrow> string list \<Rightarrow> string \<Rightarrow> (durable_contract_execution, string) outcome" where
  "validate_backup_restore_contract X source trusted digests retention_mode =
     obind (validate_backup_restore X source trusted digests retention_mode) (\<lambda>result.
       Ok (case dh_code result of
             Some code \<Rightarrow> contract_failure code
           | None \<Rightarrow> contract_success ''host_acknowledgement'' (jobj [(''result'', JString ''validated'')])))"

definition validate_capabilities_contract ::
  "'s execution_host \<Rightarrow> string \<Rightarrow> host_profile \<Rightarrow> host_feature btree_set \<Rightarrow> string list \<Rightarrow> string list \<Rightarrow> bool \<Rightarrow>
   durable_contract_execution" where
  "validate_capabilities_contract X adapter_identifier profile features configured_capabilities configured_guarantees permanent =
     (case eh_verified X of
        None \<Rightarrow> contract_failure ''adapter_capability_mismatch''
      | Some verified \<Rightarrow>
          (case (vs_current_capabilities verified, vs_current_host_features verified ''general'') of
             (Ok proven_store, Ok proven_features) \<Rightarrow>
               if bs_of configured_capabilities \<noteq> bs_of (map capability_str proven_store) \<or>
                  bs_of configured_guarantees \<noteq> bs_of (map host_feature_str proven_features) \<or>
                  \<not> set features \<subseteq> set proven_features \<or>
                  \<not> hypothetical_host_profile_matches proven_store proven_features profile permanent
               then contract_failure ''adapter_capability_mismatch''
               else contract_success ''capability_report'' (jobj [(''adapter_identifier'', JString adapter_identifier),
                 (''host_profile'', JString (host_profile_str profile)),
                 (''host_guarantees'', JArray (map JString configured_guarantees)),
                 (''retention_mode'', JString (if permanent then ''permanent'' else ''bounded'')),
                 (''store_capabilities'', JArray (map JString configured_capabilities)), (''validated'', JBool True)])
           | _ \<Rightarrow> contract_failure ''adapter_capability_mismatch''))"

end
