(* ===== verification/Mailbox_Spec.thy ===== *)
theory Mailbox_Spec
  imports Mailbox_Step
begin

text \<open>
  The mailboxes of a document as an abstract state: the two counters and, for every runtime,
  its ready and its deferred entries.  The operations on documents are related to operations
  on this state, and the integrity check of a document to an invariant of it; what admission
  and deferral do to the queues is then shown on the abstract state.
\<close>

section \<open>The abstract state\<close>

type_synonym box = "string \<times> json list \<times> json list"

record mailboxes =
  mb_instance :: "string option"
  mb_acceptance :: counter
  mb_queue :: counter
  mb_boxes :: "box list"

definition entry_key :: "string \<Rightarrow> json \<Rightarrow> counter option" where
  "entry_key field e = Option.bind (jstr (jindex e field)) from_decimal"

abbreviation entry_acceptance :: "json \<Rightarrow> counter option" where
  "entry_acceptance \<equiv> entry_key ''acceptance_sequence''"

abbreviation entry_queue :: "json \<Rightarrow> counter option" where
  "entry_queue \<equiv> entry_key ''queue_sequence''"

definition entry_id :: "json \<Rightarrow> string option" where
  "entry_id e = jstr (jindex (jindex e ''envelope'') ''event_id'')"

definition runtime_box :: "json \<Rightarrow> box option" where
  "runtime_box r = do {
     rid \<leftarrow> jstr (jindex r ''runtime_id'');
     ready \<leftarrow> jarray (jindex r ''ready_mailbox'');
     deferred \<leftarrow> jarray (jindex r ''deferred_mailbox'');
     Some (rid, ready, deferred) }"

definition doc_mailboxes :: "json \<Rightarrow> mailboxes option" where
  "doc_mailboxes v = do {
     acceptance \<leftarrow> entry_key ''next_acceptance_sequence'' v;
     queue \<leftarrow> entry_key ''next_queue_sequence'' v;
     rs \<leftarrow> jarray (jindex v ''runtimes'');
     bs \<leftarrow> collect_option (map runtime_box rs);
     Some \<lparr>mb_instance = jstr (jindex v ''root_instance_id''), mb_acceptance = acceptance, mb_queue = queue, mb_boxes = bs\<rparr> }"

definition box_entries :: "box \<Rightarrow> json list" where
  "box_entries b = fst (snd b) @ snd (snd b)"

definition entries :: "mailboxes \<Rightarrow> json list" where
  "entries m = concat (map box_entries (mb_boxes m))"

section \<open>The invariant\<close>

definition digest_kept :: "host \<Rightarrow> string option \<Rightarrow> json \<Rightarrow> bool" where
  "digest_kept H inst e \<longleftrightarrow>
     (case (queue_envelope_of (jindex e ''envelope''), jstr (jindex e ''delivery_mode''), inst) of
        (Some q, Some mode, Some i) \<Rightarrow>
          (case envelope_digest H i mode q of Ok d \<Rightarrow> jstr (jindex e ''envelope_digest'') = Some d | _ \<Rightarrow> False)
      | _ \<Rightarrow> False)"

definition entry_kept :: "host \<Rightarrow> string option \<Rightarrow> counter \<Rightarrow> counter \<Rightarrow> json \<Rightarrow> bool" where
  "entry_kept H inst na nq e \<longleftrightarrow>
     (\<exists>a<na. entry_acceptance e = Some a) \<and> (\<exists>q<nq. entry_queue e = Some q) \<and> entry_id e \<noteq> None \<and> digest_kept H inst e"

definition ordered :: "json list \<Rightarrow> bool" where
  "ordered es \<longleftrightarrow> sorted_wrt (\<lambda>a b. the (entry_queue a) < the (entry_queue b)) es"

definition kept :: "host \<Rightarrow> mailboxes \<Rightarrow> bool" where
  "kept H m \<longleftrightarrow>
     sorted_wrt (<) (map fst (mb_boxes m)) \<and>
     list_all (entry_kept H (mb_instance m) (mb_acceptance m) (mb_queue m)) (entries m) \<and>
     list_all (\<lambda>b. ordered (fst (snd b)) \<and> ordered (snd (snd b))) (mb_boxes m) \<and>
     distinct (map (\<lambda>e. the (entry_id e)) (entries m)) \<and>
     distinct (map (\<lambda>e. the (entry_acceptance e)) (entries m)) \<and>
     distinct (map (\<lambda>e. the (entry_queue e)) (entries m))"

lemma counter_value_eq: "counter_value v field = ok_or invalid_aggregate (entry_key field v)"
  by (cases "jstr (jindex v field)") (simp_all add: counter_value_def entry_key_def)

lemma integrity_entry_Ok:
  "integrity_entry H v na nq e (prev, seen) = Ok acc \<longleftrightarrow>
     entry_kept H (jstr (jindex v ''root_instance_id'')) na nq e \<and> (\<forall>p. prev = Some p \<longrightarrow> p < the (entry_queue e)) \<and>
     the (entry_id e) \<notin> set (sn_event_ids seen) \<and> the (entry_acceptance e) \<notin> set (sn_acceptances seen) \<and>
     the (entry_queue e) \<notin> set (sn_queues seen) \<and>
     acc = (entry_queue e, \<lparr>sn_event_ids = the (entry_id e) # sn_event_ids seen,
        sn_acceptances = the (entry_acceptance e) # sn_acceptances seen,
        sn_queues = the (entry_queue e) # sn_queues seen\<rparr>)"
  by (cases "entry_acceptance e"; cases "entry_queue e"; cases "entry_id e";
      cases "queue_envelope_of (jindex e ''envelope'')"; cases "jstr (jindex e ''delivery_mode'')";
      cases "jstr (jindex v ''root_instance_id'')"; cases prev)
    (auto simp: integrity_entry_def Let_def counter_value_eq entry_kept_def digest_kept_def entry_id_def aggregate_root_instance_id_def
      obind_Ok_iff not_le not_less split: if_splits outcome.splits)

text \<open>The bookkeeping of the check: new numbers against the seen ones, ascending from the last.\<close>

definition unseen :: "'a list \<Rightarrow> 'a list \<Rightarrow> bool" where
  "unseen xs ys \<longleftrightarrow> distinct xs \<and> set xs \<inter> set ys = {}"

lemma unseen_simps [simp]:
  "unseen [] ys" "unseen (x # xs) ys \<longleftrightarrow> x \<notin> set ys \<and> unseen xs (x # ys)"
  "unseen (xs @ zs) ys \<longleftrightarrow> unseen xs ys \<and> unseen zs (rev xs @ ys)"
  by (auto simp: unseen_def)

fun ascending :: "counter option \<Rightarrow> json list \<Rightarrow> bool" where
  "ascending prev [] \<longleftrightarrow> True"
| "ascending prev (e # es) \<longleftrightarrow>
     (case prev of None \<Rightarrow> True | Some p \<Rightarrow> p < the (entry_queue e)) \<and> ascending (Some (the (entry_queue e))) es"

lemma ascending_ordered:
  "ascending prev es \<longleftrightarrow> ordered es \<and> (case prev of None \<Rightarrow> True | Some p \<Rightarrow> list_all (\<lambda>e. p < the (entry_queue e)) es)"
  by (induction prev es rule: ascending.induct)
    (auto simp: ordered_def list_all_iff split: option.splits dest: less_trans)

definition see :: "json list \<Rightarrow> mailbox_seen \<Rightarrow> mailbox_seen" where
  "see es seen =
     \<lparr>sn_event_ids = rev (map (\<lambda>e. the (entry_id e)) es) @ sn_event_ids seen,
      sn_acceptances = rev (map (\<lambda>e. the (entry_acceptance e)) es) @ sn_acceptances seen,
      sn_queues = rev (map (\<lambda>e. the (entry_queue e)) es) @ sn_queues seen\<rparr>"

definition all_unseen :: "json list \<Rightarrow> mailbox_seen \<Rightarrow> bool" where
  "all_unseen es seen \<longleftrightarrow>
     unseen (map (\<lambda>e. the (entry_id e)) es) (sn_event_ids seen) \<and>
     unseen (map (\<lambda>e. the (entry_acceptance e)) es) (sn_acceptances seen) \<and>
     unseen (map (\<lambda>e. the (entry_queue e)) es) (sn_queues seen)"

lemma see_simps [simp]:
  "see [] seen = seen" "see (es @ fs) seen = see fs (see es seen)"
  by (simp_all add: see_def)

lemma see_Cons: "see (e # es) seen = see es (see [e] seen)"
  by (simp add: see_def)

lemma all_unseen_simps [simp]:
  "all_unseen [] seen" "all_unseen (es @ fs) seen \<longleftrightarrow> all_unseen es seen \<and> all_unseen fs (see es seen)"
  by (auto simp: all_unseen_def see_def)

lemma all_unseen_Cons: "all_unseen (e # es) seen \<longleftrightarrow> all_unseen [e] seen \<and> all_unseen es (see [e] seen)"
  by (auto simp: all_unseen_def see_def)

lemma integrity_entry_iff:
  "integrity_entry H v na nq e (prev, seen) = Ok acc \<longleftrightarrow>
     entry_kept H (jstr (jindex v ''root_instance_id'')) na nq e \<and> ascending prev [e] \<and> all_unseen [e] seen \<and> acc = (entry_queue e, see [e] seen)"
  unfolding integrity_entry_Ok by (auto simp: all_unseen_def see_def split: option.splits)

lemma integrity_entries_Ok:
  "(\<exists>prev'. ofold (integrity_entry H v na nq) es (prev, seen) = Ok (prev', seen')) \<longleftrightarrow>
     list_all (entry_kept H (jstr (jindex v ''root_instance_id'')) na nq) es \<and> ascending prev es \<and> all_unseen es seen \<and> seen' = see es seen"
proof (induction es arbitrary: prev seen)
  case (Cons e es)
  show ?case
  proof (cases "entry_kept H (jstr (jindex v ''root_instance_id'')) na nq e")
    case True
    then obtain q where q: "entry_queue e = Some q" by (auto simp: entry_kept_def)
    have "(\<exists>prev'. ofold (integrity_entry H v na nq) (e # es) (prev, seen) = Ok (prev', seen')) \<longleftrightarrow>
        ascending prev [e] \<and> all_unseen [e] seen \<and>
        (\<exists>prev'. ofold (integrity_entry H v na nq) es (Some q, see [e] seen) = Ok (prev', seen'))"
      using True by (auto simp: obind_Ok_iff integrity_entry_iff q simp del: ascending.simps)
    also have "\<dots> \<longleftrightarrow> list_all (entry_kept H (jstr (jindex v ''root_instance_id'')) na nq) (e # es) \<and> ascending prev (e # es) \<and>
        all_unseen (e # es) seen \<and> seen' = see (e # es) seen"
      unfolding Cons.IH all_unseen_Cons [of e es] see_Cons [of e es] using True q by auto
    finally show ?thesis .
  qed (auto simp: obind_Ok_iff integrity_entry_iff)
qed auto

definition box_kept :: "host \<Rightarrow> string option \<Rightarrow> counter \<Rightarrow> counter \<Rightarrow> box \<Rightarrow> bool" where
  "box_kept H inst na nq b \<longleftrightarrow>
     list_all (entry_kept H inst na nq) (box_entries b) \<and> ordered (fst (snd b)) \<and> ordered (snd (snd b))"

lemma integrity_mailbox_Ok:
  "integrity_mailbox H v na nq r field seen = Ok seen' \<longleftrightarrow>
     (\<exists>es. jarray (jindex r field) = Some es \<and> list_all (entry_kept H (jstr (jindex v ''root_instance_id'')) na nq) es \<and> ordered es \<and>
        all_unseen es seen \<and> seen' = see es seen)"
proof -
  have "integrity_mailbox H v na nq r field seen = Ok seen' \<longleftrightarrow>
      (\<exists>es. jarray (jindex r field) = Some es \<and>
        (\<exists>prev'. ofold (integrity_entry H v na nq) es (None, seen) = Ok (prev', seen')))"
    by (auto simp: integrity_mailbox_def mailbox_array_def obind_Ok_iff)
  then show ?thesis unfolding integrity_entries_Ok ascending_ordered by simp
qed

lemma integrity_runtime_Ok:
  "integrity_runtime H v na nq r (prev, seen) = Ok acc \<longleftrightarrow>
     (\<exists>b. runtime_box r = Some b \<and> (\<forall>p. prev = Some p \<longrightarrow> p < fst b) \<and> box_kept H (jstr (jindex v ''root_instance_id'')) na nq b \<and>
        all_unseen (box_entries b) seen \<and> acc = (Some (fst b), see (box_entries b) seen))"
  unfolding integrity_runtime_def
  by (cases "jstr (jindex r ''runtime_id'')"; cases "jarray (jindex r ''ready_mailbox'')";
      cases "jarray (jindex r ''deferred_mailbox'')")
    (auto simp: obind_Ok_iff integrity_mailbox_Ok runtime_box_def box_kept_def box_entries_def not_le split: option.splits)

lemma integrity_runtimes_Ok:
  "(\<exists>prev' seen'. ofold (integrity_runtime H v na nq) rs (prev, seen) = Ok (prev', seen')) \<longleftrightarrow>
     (\<exists>bs. collect_option (map runtime_box rs) = Some bs \<and>
        sorted_wrt (<) (case prev of None \<Rightarrow> map fst bs | Some p \<Rightarrow> p # map fst bs) \<and>
        list_all (box_kept H (jstr (jindex v ''root_instance_id'')) na nq) bs \<and>
        all_unseen (concat (map box_entries bs)) seen)"
proof (induction rs arbitrary: prev seen)
  case Nil
  then show ?case by (simp split: option.splits)
next
  case (Cons r rs)
  show ?case
  proof (cases "runtime_box r")
    case None
    then show ?thesis by (auto simp: obind_Ok_iff integrity_runtime_Ok)
  next
    case (Some b)
    then have "(\<exists>prev' seen'. ofold (integrity_runtime H v na nq) (r # rs) (prev, seen) = Ok (prev', seen')) \<longleftrightarrow>
        (\<forall>p. prev = Some p \<longrightarrow> p < fst b) \<and> box_kept H (jstr (jindex v ''root_instance_id'')) na nq b \<and>
        all_unseen (box_entries b) seen \<and>
        (\<exists>prev' seen'. ofold (integrity_runtime H v na nq) rs (Some (fst b), see (box_entries b) seen) = Ok (prev', seen'))"
      by (auto simp: obind_Ok_iff integrity_runtime_Ok)
    then show ?thesis unfolding Cons.IH using Some by (auto split: option.splits)
  qed
qed

lemma all_unseen_start:
  "all_unseen es \<lparr>sn_event_ids = [], sn_acceptances = [], sn_queues = []\<rparr> \<longleftrightarrow>
     distinct (map (\<lambda>e. the (entry_id e)) es) \<and> distinct (map (\<lambda>e. the (entry_acceptance e)) es) \<and>
     distinct (map (\<lambda>e. the (entry_queue e)) es)"
  by (simp add: all_unseen_def unseen_def)

lemma kept_boxes:
  "kept H m \<longleftrightarrow>
     sorted_wrt (<) (map fst (mb_boxes m)) \<and>
     list_all (box_kept H (mb_instance m) (mb_acceptance m) (mb_queue m)) (mb_boxes m) \<and>
     all_unseen (entries m) \<lparr>sn_event_ids = [], sn_acceptances = [], sn_queues = []\<rparr>"
  by (auto simp: kept_def all_unseen_start entries_def box_kept_def list_all_iff)

lemma integrity_kept:
  "validate_mailbox_integrity H v = Ok () \<longleftrightarrow> (\<exists>m. doc_mailboxes v = Some m \<and> kept H m)"
  by (cases "entry_key ''next_acceptance_sequence'' v"; cases "entry_key ''next_queue_sequence'' v";
      cases "jarray (jindex v ''runtimes'')")
    (auto simp: validate_mailbox_integrity_def counter_value_eq runtimes_def doc_mailboxes_def kept_boxes entries_def
      obind_Ok_iff integrity_runtimes_Ok [where prev = None, simplified] bind_eq_Some_conv)

section \<open>Documents and their abstract state\<close>

lemma jindex_jput: "jobject v \<noteq> None \<Longrightarrow> jindex (jput k x v) k' = (if k' = k then x else jindex v k')"
  by (cases v) (auto simp: jput_def jobject_def jindex_def jget_def)

lemma jobject_jput [simp]: "jobject (jput k x v) \<noteq> None \<longleftrightarrow> jobject v \<noteq> None"
  by (cases v) (auto simp: jput_def jobject_def)

lemma jstr_JNull [simp]: "jstr JNull = None" "jarray JNull = None"
  by (simp_all add: jstr_def jarray_def)

lemma jindex_object: "jindex v k \<noteq> JNull \<Longrightarrow> jobject v \<noteq> None"
  by (cases v) (auto simp: jindex_def jget_def jobject_def)

lemma jobject_of_field: "jarray (jindex v k) = Some es \<Longrightarrow> jobject v \<noteq> None" "jstr (jindex v k) = Some s \<Longrightarrow> jobject v \<noteq> None"
  using jindex_object [of v k] by (cases "jindex v k = JNull"; simp)+

lemma entry_key_jput:
  "jobject v \<noteq> None \<Longrightarrow> entry_key k (jput k' x v) = (if k = k' then Option.bind (jstr x) from_decimal else entry_key k v)"
  by (simp add: entry_key_def jindex_jput)

lemma doc_mailboxes_object: "doc_mailboxes v = Some m \<Longrightarrow> jobject v \<noteq> None"
  by (rule jindex_object [of v "''runtimes''"])
    (auto simp: doc_mailboxes_def bind_eq_Some_conv)

lemma allocate_acceptance:
  assumes "doc_mailboxes v = Some m"
  shows "\<exists>v'. allocate_counter v ''next_acceptance_sequence'' = Ok (v', mb_acceptance m) \<and>
     doc_mailboxes v' = Some (m\<lparr>mb_acceptance := Suc (mb_acceptance m)\<rparr>)"
  using assms doc_mailboxes_object [OF assms]
  by (auto simp: allocate_counter_def counter_value_eq doc_mailboxes_def bind_eq_Some_conv entry_key_jput jindex_jput)

lemma allocate_queue:
  assumes "doc_mailboxes v = Some m"
  shows "\<exists>v'. allocate_counter v ''next_queue_sequence'' = Ok (v', mb_queue m) \<and>
     doc_mailboxes v' = Some (m\<lparr>mb_queue := Suc (mb_queue m)\<rparr>)"
  using assms doc_mailboxes_object [OF assms]
  by (auto simp: allocate_counter_def counter_value_eq doc_mailboxes_def bind_eq_Some_conv entry_key_jput jindex_jput)

lemma runtime_box_id: "runtime_box r = Some b \<Longrightarrow> has_runtime_id rid r \<longleftrightarrow> fst b = rid"
  by (auto simp: runtime_box_def has_runtime_id_def bind_eq_Some_conv)

lemma runtime_boxes_find:
  "collect_option (map runtime_box rs) = Some bs \<Longrightarrow> find (has_runtime_id rid) rs = Some r \<Longrightarrow>
   \<exists>b. runtime_box r = Some b \<and> find (\<lambda>b. fst b = rid) bs = Some b"
  by (induction rs arbitrary: bs)
    (auto simp: runtime_box_id split: option.split_asm if_split_asm)

lemma runtime_boxes_update:
  "collect_option (map runtime_box rs) = Some bs \<Longrightarrow> runtime_box r' = Some b' \<Longrightarrow>
   collect_option (map runtime_box (update_first (has_runtime_id rid) (\<lambda>_. r') rs)) =
     Some (update_first (\<lambda>b. fst b = rid) (\<lambda>_. b') bs)"
  by (induction rs arbitrary: bs)
    (auto simp: runtime_box_id split: option.split_asm if_split_asm)

text \<open>An update of one runtime record is an update of one box.\<close>

lemma runtime_object_mut_box:
  assumes "runtime_object_mut v rid f = Ok (v', x)" "doc_mailboxes v = Some m"
  obtains r r' b where "runtime_box r = Some b" "fst b = rid" "f r = Ok (r', x)" "jobject r \<noteq> None"
    "find (\<lambda>b. fst b = rid) (mb_boxes m) = Some b"
    "\<forall>b'. runtime_box r' = Some b' \<longrightarrow>
       doc_mailboxes v' = Some (m\<lparr>mb_boxes := update_first (\<lambda>b. fst b = rid) (\<lambda>_. b') (mb_boxes m)\<rparr>)"
proof -
  from assms(2) obtain rs where rs: "jarray (jindex v ''runtimes'') = Some rs"
      "collect_option (map runtime_box rs) = Some (mb_boxes m)"
    by (auto simp: doc_mailboxes_def bind_eq_Some_conv)
  with assms(1) obtain r r' where r: "find (has_runtime_id rid) rs = Some r" "jobject r \<noteq> None" "f r = Ok (r', x)"
      "v' = jput ''runtimes'' (JArray (update_first (has_runtime_id rid) (\<lambda>_. r') rs)) v"
    by (auto simp: runtime_object_mut_def runtimes_def obind_Ok_iff)
  from runtime_boxes_find [OF rs(2) r(1)] obtain b where b: "runtime_box r = Some b"
      "find (\<lambda>b. fst b = rid) (mb_boxes m) = Some b"
    by blast
  have "doc_mailboxes v' = Some (m\<lparr>mb_boxes := update_first (\<lambda>b. fst b = rid) (\<lambda>_. b') (mb_boxes m)\<rparr>)"
    if "runtime_box r' = Some b'" for b'
    using assms(2) rs runtime_boxes_update [OF rs(2) that] doc_mailboxes_object [OF assms(2)]
    by (cases m) (auto simp: r(4) doc_mailboxes_def bind_eq_Some_conv jindex_jput entry_key_jput)
  then show thesis using that b r find_SomeD [OF b(2)] by blast
qed

section \<open>Operations on the abstract state\<close>

definition on_box :: "string \<Rightarrow> (box \<Rightarrow> box) \<Rightarrow> mailboxes \<Rightarrow> mailboxes" where
  "on_box rid g m = m\<lparr>mb_boxes := update_first (\<lambda>b. fst b = rid) g (mb_boxes m)\<rparr>"

definition box_of :: "mailboxes \<Rightarrow> string \<Rightarrow> box option" where
  "box_of m rid = find (\<lambda>b. fst b = rid) (mb_boxes m)"

fun push_ready :: "json list \<Rightarrow> box \<Rightarrow> box" where
  "push_ready es (rid, ready, deferred) = (rid, ready @ es, deferred)"

fun push_deferred :: "json list \<Rightarrow> box \<Rightarrow> box" where
  "push_deferred es (rid, ready, deferred) = (rid, ready, deferred @ es)"

fun drop_head :: "box \<Rightarrow> box" where
  "drop_head (rid, ready, deferred) = (rid, tl ready, deferred)"

lemma on_box_sel [simp]:
  "mb_instance (on_box rid g m) = mb_instance m" "mb_acceptance (on_box rid g m) = mb_acceptance m"
  "mb_queue (on_box rid g m) = mb_queue m"
  by (simp_all add: on_box_def)

lemma update_first_split:
  "find p xs = Some x \<Longrightarrow> \<exists>us ws. xs = us @ x # ws \<and> update_first p g xs = us @ g x # ws"
proof (induction xs)
  case (Cons y ys)
  then show ?case
  proof (cases "p y")
    case False
    with Cons obtain us ws where "ys = us @ x # ws" "update_first p g ys = us @ g x # ws" by auto
    with False show ?thesis by (intro exI [of _ "y # us"] exI [of _ ws]) simp
  qed auto
qed simp

lemma on_box_found:
  assumes "box_of m rid = Some b"
  shows "on_box rid (\<lambda>_. g b) m = on_box rid g m"
proof -
  have "find p xs = Some x \<Longrightarrow> update_first p (\<lambda>_. g x) xs = update_first p g xs" for p x and xs :: "box list"
    by (induction xs) auto
  with assms show ?thesis by (simp add: on_box_def box_of_def)
qed

lemma entries_on_box:
  assumes "box_of m rid = Some b"
  obtains us ws where "entries m = us @ box_entries b @ ws" "entries (on_box rid g m) = us @ box_entries (g b) @ ws"
proof -
  obtain us ws where "mb_boxes m = us @ b # ws" "update_first (\<lambda>b. fst b = rid) g (mb_boxes m) = us @ g b # ws"
    using update_first_split [OF assms [unfolded box_of_def]] by blast
  then show thesis
    using that [of "concat (map box_entries us)" "concat (map box_entries ws)"] by (simp add: entries_def on_box_def)
qed

text \<open>A box may change its entries as long as their numbers are its own or new.\<close>

definition renewed :: "(json \<Rightarrow> 'k) \<Rightarrow> json list \<Rightarrow> json list \<Rightarrow> json list \<Rightarrow> bool" where
  "renewed f old new es \<longleftrightarrow> distinct (map f new) \<and> (\<forall>x \<in> set new. f x \<in> f ` set old \<or> f x \<notin> f ` set es)"

lemma distinct_on_box:
  assumes "box_of m rid = Some b" "distinct (map f (entries m))" "renewed f (box_entries b) (box_entries (g b)) (entries m)"
  shows "distinct (map f (entries (on_box rid g m)))"
proof -
  obtain us ws where e: "entries m = us @ box_entries b @ ws" "entries (on_box rid g m) = us @ box_entries (g b) @ ws"
    using entries_on_box [OF assms(1)] by metis
  let ?A = "set (map f us)" and ?O = "set (map f (box_entries b))" and ?N = "set (map f (box_entries (g b)))"
    and ?W = "set (map f ws)"
  have d: "distinct (map f us)" "distinct (map f ws)" "?A \<inter> ?O = {}" "?A \<inter> ?W = {}" "?O \<inter> ?W = {}"
    using assms(2) by (simp_all add: e(1) Int_Un_distrib del: set_map)
  have n: "distinct (map f (box_entries (g b)))" "\<forall>y \<in> ?N. y \<in> ?O \<or> y \<notin> ?A \<union> ?W"
    using assms(3) by (simp_all add: renewed_def e(1)) blast
  from n(2) d(3,5) have "?A \<inter> ?N = {}" "?N \<inter> ?W = {}" by blast+
  with d n(1) show ?thesis by (simp add: e(2) Int_Un_distrib del: set_map)
qed

lemma map_fst_update_first:
  "find p xs = Some x \<Longrightarrow> fst (g x) = fst x \<Longrightarrow> map fst (update_first p g xs) = map fst xs"
  by (induction xs) auto

lemma list_all_update_first:
  "find p xs = Some x \<Longrightarrow> list_all P xs \<Longrightarrow> P (g x) \<Longrightarrow> list_all P (update_first p g xs)"
  by (induction xs) (auto split: if_splits)

lemma entry_kept_mono: "entry_kept H i na nq e \<Longrightarrow> na \<le> na' \<Longrightarrow> nq \<le> nq' \<Longrightarrow> entry_kept H i na' nq' e"
  by (auto simp: entry_kept_def)

lemma box_kept_mono: "box_kept H i na nq b \<Longrightarrow> na \<le> na' \<Longrightarrow> nq \<le> nq' \<Longrightarrow> box_kept H i na' nq' b"
  by (auto simp: box_kept_def list_all_iff intro: entry_kept_mono)

definition with_counters :: "counter \<Rightarrow> counter \<Rightarrow> mailboxes \<Rightarrow> mailboxes" where
  "with_counters na nq m = m\<lparr>mb_acceptance := na, mb_queue := nq\<rparr>"

lemma with_counters_sel [simp]:
  "mb_instance (with_counters na nq m) = mb_instance m" "mb_acceptance (with_counters na nq m) = na"
  "mb_queue (with_counters na nq m) = nq" "mb_boxes (with_counters na nq m) = mb_boxes m"
  "entries (with_counters na nq m) = entries m" "box_of (with_counters na nq m) rid = box_of m rid"
  "on_box rid g (with_counters na nq m) = with_counters na nq (on_box rid g m)"
  by (simp_all add: with_counters_def entries_def box_of_def on_box_def)

lemma kept_on_box:
  assumes "kept H m" "box_of m rid = Some b" "fst (g b) = fst b" "mb_acceptance m \<le> na" "mb_queue m \<le> nq"
    "box_kept H (mb_instance m) na nq (g b)"
    "renewed (\<lambda>e. the (entry_id e)) (box_entries b) (box_entries (g b)) (entries m)"
    "renewed (\<lambda>e. the (entry_acceptance e)) (box_entries b) (box_entries (g b)) (entries m)"
    "renewed (\<lambda>e. the (entry_queue e)) (box_entries b) (box_entries (g b)) (entries m)"
  shows "kept H (with_counters na nq (on_box rid g m))"
proof -
  have "list_all (box_kept H (mb_instance m) na nq) (mb_boxes m)"
    using assms(1,4,5) by (auto simp: kept_boxes list_all_iff intro: box_kept_mono)
  then have "list_all (box_kept H (mb_instance m) na nq) (mb_boxes (on_box rid g m))"
    using assms(2,6) by (auto simp: on_box_def box_of_def intro: list_all_update_first)
  moreover have "map fst (mb_boxes (on_box rid g m)) = map fst (mb_boxes m)"
    using assms(2,3) by (simp add: on_box_def box_of_def map_fst_update_first)
  ultimately show ?thesis
    using assms(1) distinct_on_box [where g = g, OF assms(2) _ assms(7)] distinct_on_box [where g = g, OF assms(2) _ assms(8)]
      distinct_on_box [where g = g, OF assms(2) _ assms(9)]
    by (simp add: kept_boxes all_unseen_start)
qed

lemma kept_box: "kept H m \<Longrightarrow> box_of m rid = Some b \<Longrightarrow> box_kept H (mb_instance m) (mb_acceptance m) (mb_queue m) b"
  by (auto simp: kept_boxes box_of_def list_all_iff dest: find_SomeD)

lemma kept_entry: "kept H m \<Longrightarrow> e \<in> set (entries m) \<Longrightarrow> entry_kept H (mb_instance m) (mb_acceptance m) (mb_queue m) e"
  by (auto simp: kept_def list_all_iff)

lemma box_entries_subset: "box_of m rid = Some b \<Longrightarrow> set (box_entries b) \<subseteq> set (entries m)"
  by (auto simp: box_of_def entries_def dest: find_SomeD)

lemma kept_box_distinct:
  assumes "kept H m" "box_of m rid = Some b"
  shows "distinct (map (\<lambda>e. the (entry_id e)) (box_entries b))"
    "distinct (map (\<lambda>e. the (entry_acceptance e)) (box_entries b))"
    "distinct (map (\<lambda>e. the (entry_queue e)) (box_entries b))"
proof -
  obtain us ws where "entries m = us @ box_entries b @ ws" using entries_on_box [OF assms(2)] by metis
  with assms(1) show "distinct (map (\<lambda>e. the (entry_id e)) (box_entries b))"
    "distinct (map (\<lambda>e. the (entry_acceptance e)) (box_entries b))"
    "distinct (map (\<lambda>e. the (entry_queue e)) (box_entries b))"
    by (simp_all add: kept_def)
qed

lemma renewed_insert:
  assumes "distinct (map f old)" "set old \<subseteq> set es" "f e \<notin> f ` set es" "mset new = add_mset e (mset old)"
  shows "renewed f old new es"
proof -
  have "distinct (map f (e # old))" using assms(1-3) by auto
  moreover have "mset (map f new) = mset (map f (e # old))" using assms(4) by simp
  ultimately have "distinct (map f new)" by (metis mset_eq_imp_distinct_iff)
  moreover have "set new = insert e (set old)" using assms(4) by (metis set_mset_add_mset_insert set_mset_mset)
  ultimately show ?thesis using assms(3) by (auto simp: renewed_def)
qed

text \<open>A new entry: the next acceptance and queue numbers and a new event identity.\<close>

lemma kept_push_ready:
  assumes "kept H m" "box_of m rid = Some b" "entry_acceptance e = Some (mb_acceptance m)"
    "entry_queue e = Some (mb_queue m)" "entry_id e = Some i" "i \<notin> (\<lambda>e. the (entry_id e)) ` set (entries m)"
    "digest_kept H (mb_instance m) e"
  shows "kept H (with_counters (Suc (mb_acceptance m)) (Suc (mb_queue m)) (on_box rid (push_ready [e]) m))"
proof -
  obtain rid' ready deferred where b: "b = (rid', ready, deferred)" by (cases b) auto
  have low: "the (entry_acceptance x) < mb_acceptance m" "the (entry_queue x) < mb_queue m" if "x \<in> set (entries m)" for x
    using kept_entry [OF assms(1) that] by (auto simp: entry_kept_def)
  have sub: "set ready \<subseteq> set (entries m)" "set deferred \<subseteq> set (entries m)"
    using box_entries_subset [OF assms(2)] by (auto simp: b box_entries_def)
  have new: "entry_kept H (mb_instance m) (Suc (mb_acceptance m)) (Suc (mb_queue m)) e"
    using assms(3-7) by (auto simp: entry_kept_def)
  show ?thesis
  proof (rule kept_on_box [OF assms(1,2)])
    show "box_kept H (mb_instance m) (Suc (mb_acceptance m)) (Suc (mb_queue m)) (push_ready [e] b)"
      using box_kept_mono [OF kept_box [OF assms(1,2)], of "Suc (mb_acceptance m)" "Suc (mb_queue m)"] new low sub(1) assms(4)
      by (auto simp: b box_kept_def box_entries_def ordered_def sorted_wrt_append)
    have sub: "set (box_entries b) \<subseteq> set (entries m)" and ms: "mset (box_entries (push_ready [e] b)) = add_mset e (mset (box_entries b))"
      using box_entries_subset [OF assms(2)] by (simp_all add: b box_entries_def)
    note dist = kept_box_distinct [OF assms(1,2)]
    show "renewed (\<lambda>e. the (entry_id e)) (box_entries b) (box_entries (push_ready [e] b)) (entries m)"
      by (rule renewed_insert [OF dist(1) sub _ ms]) (use assms(5,6) in simp)
    show "renewed (\<lambda>e. the (entry_acceptance e)) (box_entries b) (box_entries (push_ready [e] b)) (entries m)"
      by (rule renewed_insert [OF dist(2) sub _ ms]) (use assms(3) low(1) in force)
    show "renewed (\<lambda>e. the (entry_queue e)) (box_entries b) (box_entries (push_ready [e] b)) (entries m)"
      by (rule renewed_insert [OF dist(3) sub _ ms]) (use assms(4) low(2) in force)
  qed (auto simp: b)
qed

section \<open>Admission\<close>

lemma queue_envelope_roundtrip:
  "canonical_typed (qe_payload q) \<Longrightarrow> queue_envelope_of (queue_envelope_json q) = Some q"
  by (cases q; cases "qe_correlation_id q")
    (simp_all add: queue_envelope_of_def queue_envelope_json_def from_projection_projection)

lemma mailbox_entry_sel [simp]:
  "jindex (mailbox_entry a q mode env d) ''acceptance_sequence'' = JString (canonical_decimal a)"
  "jindex (mailbox_entry a q mode env d) ''queue_sequence'' = JString (canonical_decimal q)"
  "jindex (mailbox_entry a q mode env d) ''delivery_mode'' = JString mode"
  "jindex (mailbox_entry a q mode env d) ''envelope'' = env"
  "jindex (mailbox_entry a q mode env d) ''envelope_digest'' = JString d"
  "jindex (mailbox_entry a q mode env d) ''deferral_count'' = JString ''0''"
  by (simp_all add: mailbox_entry_def)

lemma queue_envelope_event_id [simp]: "jindex (queue_envelope_json q) ''event_id'' = JString (qe_event_id q)"
  by (cases "qe_correlation_id q") (simp_all add: queue_envelope_json_def)

lemma mailbox_entry_keys [simp]:
  "entry_acceptance (mailbox_entry a q mode env d) = Some a" "entry_queue (mailbox_entry a q mode env d) = Some q"
  "entry_id (mailbox_entry a q mode (queue_envelope_json qe) d) = Some (qe_event_id qe)"
  by (simp_all add: entry_key_def entry_id_def)

abbreviation queued :: "counter \<Rightarrow> counter \<Rightarrow> admission_delivery \<Rightarrow> json" where
  "queued na nq d \<equiv> mailbox_entry na nq (ad_delivery_mode d) (queue_envelope_json (ad_envelope d)) (ad_envelope_digest d)"

definition admitted :: "admission_delivery \<times> string \<times> string \<Rightarrow> mailboxes \<Rightarrow> mailboxes" where
  "admitted x m =
     (case x of (d, _, rid) \<Rightarrow>
        with_counters (Suc (mb_acceptance m)) (Suc (mb_queue m))
          (on_box rid (push_ready [queued (mb_acceptance m) (mb_queue m) d]) m))"

lemma runtime_box_jput_ready:
  "runtime_box r = Some (rid, ready, deferred) \<Longrightarrow> jobject r \<noteq> None \<Longrightarrow>
   runtime_box (jput ''ready_mailbox'' (JArray es) r) = Some (rid, es, deferred)"
  by (auto simp: runtime_box_def bind_eq_Some_conv jindex_jput)

lemma runtime_box_jput_deferred:
  "runtime_box r = Some (rid, ready, deferred) \<Longrightarrow> jobject r \<noteq> None \<Longrightarrow>
   runtime_box (jput ''deferred_mailbox'' (JArray es) r) = Some (rid, ready, es)"
  by (auto simp: runtime_box_def bind_eq_Some_conv jindex_jput)

lemma runtime_box_arrays:
  "runtime_box r = Some (rid, ready, deferred) \<Longrightarrow> mailbox_array ''ready_mailbox'' r = Ok ready"
  "runtime_box r = Some (rid, ready, deferred) \<Longrightarrow> mailbox_array ''deferred_mailbox'' r = Ok deferred"
  by (auto simp: runtime_box_def bind_eq_Some_conv mailbox_array_def)

lemma runtime_object_mut_on_box:
  assumes "runtime_object_mut v rid f = Ok (v', x)" "doc_mailboxes v = Some m"
    "\<And>r r' b. runtime_box r = Some b \<Longrightarrow> jobject r \<noteq> None \<Longrightarrow> f r = Ok (r', x) \<Longrightarrow> runtime_box r' = Some (g b)"
  shows "doc_mailboxes v' = Some (on_box rid g m) \<and> box_of m rid \<noteq> None"
proof -
  obtain r r' b where r: "runtime_box r = Some b" "fst b = rid" "f r = Ok (r', x)" "jobject r \<noteq> None"
    "find (\<lambda>b. fst b = rid) (mb_boxes m) = Some b"
    "\<forall>b'. runtime_box r' = Some b' \<longrightarrow>
       doc_mailboxes v' = Some (m\<lparr>mb_boxes := update_first (\<lambda>b. fst b = rid) (\<lambda>_. b') (mb_boxes m)\<rparr>)"
    by (rule runtime_object_mut_box [OF assms(1,2)]) blast
  from assms(3) [OF r(1,4,3)] r(6) have "doc_mailboxes v' = Some (on_box rid (\<lambda>_. g b) m)"
    by (simp add: on_box_def)
  with r(5) on_box_found [of m rid b g] show ?thesis by (simp add: box_of_def)
qed

lemma push_entry_box:
  assumes "runtime_box r = Some b" "jobject r \<noteq> None" "push_entry ''ready_mailbox'' e r = Ok (r', x)"
  shows "runtime_box r' = Some (push_ready [e] b)"
proof -
  obtain rid ready deferred where b: "b = (rid, ready, deferred)" by (cases b) auto
  with assms have "r' = jput ''ready_mailbox'' (JArray (ready @ [e])) r"
    by (simp add: push_entry_def runtime_box_arrays)
  with assms b show ?thesis by (simp add: runtime_box_jput_ready)
qed

lemma push_entry_on_box:
  assumes "runtime_object_mut v rid (push_entry ''ready_mailbox'' e) = Ok (v', x)" "doc_mailboxes v = Some m"
  shows "doc_mailboxes v' = Some (on_box rid (push_ready [e]) m) \<and> box_of m rid \<noteq> None"
  by (rule runtime_object_mut_on_box [OF assms push_entry_box])

lemma accept_delivery_admitted:
  assumes "accept_delivery_entry v x = Ok (v', y)" "doc_mailboxes v = Some m"
  shows "doc_mailboxes v' = Some (admitted x m) \<and> box_of m (snd (snd x)) \<noteq> None"
proof -
  obtain d c rid where x: "x = (d, c, rid)" by (cases x) auto
  obtain v1 where v1: "allocate_counter v ''next_acceptance_sequence'' = Ok (v1, mb_acceptance m)"
      "doc_mailboxes v1 = Some (m\<lparr>mb_acceptance := Suc (mb_acceptance m)\<rparr>)"
    using allocate_acceptance [OF assms(2)] by blast
  obtain v2 where v2: "allocate_counter v1 ''next_queue_sequence'' = Ok (v2, mb_queue m)"
      "doc_mailboxes v2 = Some (with_counters (Suc (mb_acceptance m)) (Suc (mb_queue m)) m)"
    using allocate_queue [OF v1(2)] by (auto simp: with_counters_def)
  from assms(1) obtain u where "runtime_object_mut v2 rid (push_entry ''ready_mailbox''
      (queued (mb_acceptance m) (mb_queue m) d)) = Ok (v', u)"
    by (auto simp: accept_delivery_entry_def x v1(1) v2(1) obind_Ok_iff Let_def)
  from push_entry_on_box [OF this v2(2)] show ?thesis by (simp add: admitted_def x)
qed

text \<open>Sealing a document whose mailboxes and runtimes are in order changes only its digest.\<close>

lemma sort_by_field_sorted:
  assumes "\<And>j. j \<in> set js \<Longrightarrow> key j = Ok (k j)" "sorted (map k js)"
  shows "sort_by_field key js = Ok js"
proof -
  let ?pairs = "map (\<lambda>j. (k j, j)) js"
  have "collect_outcome (map Ok xs) = (Ok xs :: (_, string) outcome)" for xs :: "('a \<times> json) list"
    by (induction xs) auto
  moreover have "map (\<lambda>j. obind (key j) (\<lambda>k. Ok (k, j))) js = map Ok ?pairs"
    using assms(1) by simp
  ultimately have "collect_outcome (map (\<lambda>j. obind (key j) (\<lambda>k. Ok (k, j))) js) = Ok ?pairs" by metis
  moreover have "sort_key fst ?pairs = ?pairs"
    using assms(2) by (intro sort_key_id_if_sorted) (simp add: comp_def)
  ultimately have "obind (collect_outcome (map (\<lambda>j. obind (key j) (\<lambda>k. Ok (k, j))) js)) (\<lambda>ks. Ok (map snd (sort_key fst ks))) = Ok js"
    by (simp add: comp_def)
  then show ?thesis by (simp add: sort_by_field_def)
qed

lemma ordered_sorted: "ordered es \<Longrightarrow> sorted (map (\<lambda>e. the (entry_queue e)) es)"
  unfolding ordered_def by (induction es) (auto intro: less_imp_le)

lemma sort_mailbox_ordered:
  assumes "jarray (jindex r field) = Some es" "ordered es" "list_all (\<lambda>e. entry_queue e \<noteq> None) es"
  shows "sort_mailbox field r = Ok (jput field (JArray es) r)"
proof -
  have "jobject r \<noteq> None" using assms(1) by (rule jobject_of_field)
  moreover have "sort_by_field (\<lambda>e. counter_field e ''queue_sequence'') es = Ok es"
    by (rule sort_by_field_sorted [OF _ ordered_sorted [OF assms(2)]])
      (use assms(3) in \<open>auto simp: list_all_iff counter_field_def entry_key_def [symmetric]\<close>)
  ultimately show ?thesis
    using assms(1) by (cases r) (auto simp: sort_mailbox_def mailbox_array_def jobject_def)
qed

lemma seal_runtime:
  assumes "runtime_box r = Some b" "box_kept H inst na nq b"
  shows "\<exists>r'. obind (sort_mailbox ''ready_mailbox'' r) (sort_mailbox ''deferred_mailbox'') = Ok r' \<and> runtime_box r' = Some b"
proof -
  obtain rid ready deferred where b: "b = (rid, ready, deferred)" by (cases b) auto
  have obj: "jobject r \<noteq> None"
    using assms(1) jobject_of_field [of r] by (auto simp: runtime_box_def bind_eq_Some_conv simp del: not_None_eq)
  have q: "ordered ready" "ordered deferred" "list_all (\<lambda>e. entry_queue e \<noteq> None) ready" "list_all (\<lambda>e. entry_queue e \<noteq> None) deferred"
    using assms(2) by (auto simp: b box_kept_def box_entries_def list_all_iff entry_kept_def)
  have arrays: "jarray (jindex r ''ready_mailbox'') = Some ready" "jarray (jindex r ''deferred_mailbox'') = Some deferred"
    using assms(1) by (auto simp: b runtime_box_def bind_eq_Some_conv)
  let ?r1 = "jput ''ready_mailbox'' (JArray ready) r"
  have "jarray (jindex ?r1 ''deferred_mailbox'') = Some deferred" using obj arrays by (simp add: jindex_jput)
  moreover have "runtime_box (jput ''deferred_mailbox'' (JArray deferred) ?r1) = Some (rid, ready, deferred)"
    by (intro runtime_box_jput_deferred runtime_box_jput_ready) (use assms(1) b obj in \<open>simp_all del: not_None_eq\<close>)
  ultimately show ?thesis
    using sort_mailbox_ordered [OF arrays(1) q(1,3)] sort_mailbox_ordered [OF _ q(2,4), of ?r1] by (simp add: b)
qed

lemma seal_runtimes:
  "collect_option (map runtime_box rs) = Some bs \<Longrightarrow> list_all (box_kept H inst na nq) bs \<Longrightarrow>
   \<exists>rs'. collect_outcome (map (\<lambda>r. obind (sort_mailbox ''ready_mailbox'' r) (sort_mailbox ''deferred_mailbox'')) rs) = Ok rs' \<and>
     collect_option (map runtime_box rs') = Some bs"
proof (induction rs arbitrary: bs)
  case (Cons r rs)
  from Cons.prems obtain b bs' where bs: "bs = b # bs'" "runtime_box r = Some b" "collect_option (map runtime_box rs) = Some bs'"
    by (auto split: option.split_asm)
  with Cons seal_runtime [of r b H inst na nq] show ?case by fastforce
qed simp

lemma boxes_sorted:
  assumes "collect_option (map runtime_box rs) = Some bs" "sorted_wrt (<) (map fst bs)"
  shows "sort_by_field (\<lambda>r. string_field r ''runtime_id'') rs = Ok rs"
proof (rule sort_by_field_sorted)
  have rs: "map runtime_box rs = map Some bs" using assms(1) by (simp add: collect_option_Some_iff)
  show "string_field r ''runtime_id'' = Ok (fst (the (runtime_box r)))" if "r \<in> set rs" for r
  proof -
    from that rs obtain b where "runtime_box r = Some b" by (metis image_iff imageE list.set_map)
    then show ?thesis by (auto simp: string_field_def runtime_box_def bind_eq_Some_conv)
  qed
  have "map (\<lambda>r. fst (the (runtime_box r))) rs = map (fst \<circ> the) (map runtime_box rs)" by simp
  also have "\<dots> = map fst bs" unfolding rs by simp
  finally show "sorted (map (\<lambda>r. fst (the (runtime_box r))) rs)"
    using assms(2) by (auto intro: strict_sorted_imp_sorted)
qed

lemma seal_mailboxes:
  assumes "seal_aggregate H v = Ok v'" "doc_mailboxes v = Some m" "kept H' m"
  shows "doc_mailboxes v' = Some m"
proof -
  from assms(2) obtain rs where rs: "jarray (jindex v ''runtimes'') = Some rs"
      "collect_option (map runtime_box rs) = Some (mb_boxes m)"
    by (auto simp: doc_mailboxes_def bind_eq_Some_conv)
  from assms(3) have k: "sorted_wrt (<) (map fst (mb_boxes m))"
      "list_all (box_kept H' (mb_instance m) (mb_acceptance m) (mb_queue m)) (mb_boxes m)"
    by (simp_all add: kept_boxes)
  from seal_runtimes [OF rs(2) k(2)] obtain rs' where
    rs': "collect_outcome (map (\<lambda>r. obind (sort_mailbox ''ready_mailbox'' r) (sort_mailbox ''deferred_mailbox'')) rs) = Ok rs'"
      "collect_option (map runtime_box rs') = Some (mb_boxes m)"
    by blast
  with assms(1) rs(1) boxes_sorted [OF rs'(2) k(1)] obtain d where
    "v' = jput ''aggregate_state_digest'' (JString d) (jput ''runtimes'' (JArray rs') v)"
    by (auto simp: seal_aggregate_def runtimes_def obind_Ok_iff Let_def)
  with assms(2) rs'(2) doc_mailboxes_object [OF assms(2)] show ?thesis
    by (cases m) (auto simp: doc_mailboxes_def bind_eq_Some_conv jindex_jput entry_key_jput simp del: not_None_eq)
qed

abbreviation delivery_id :: "admission_delivery \<Rightarrow> string" where
  "delivery_id d \<equiv> qe_event_id (ad_envelope d)"

definition entry_ids :: "mailboxes \<Rightarrow> string list" where
  "entry_ids m = map (\<lambda>e. the (entry_id e)) (entries m)"

definition delivery_digest :: "host \<Rightarrow> string option \<Rightarrow> admission_delivery \<Rightarrow> (string, string) outcome" where
  "delivery_digest H inst d = obind (ok_or invalid_aggregate inst) (\<lambda>i. envelope_digest H i (ad_delivery_mode d) (ad_envelope d))"

lemma digest_kept_mailbox_entry:
  assumes "canonical_typed (qe_payload (ad_envelope d))" "delivery_digest H inst d = Ok c"
  shows "digest_kept H inst (mailbox_entry na nq (ad_delivery_mode d) (queue_envelope_json (ad_envelope d)) c)"
  using assms by (cases inst) (auto simp: digest_kept_def delivery_digest_def queue_envelope_roundtrip)

lemma admitted_entries:
  assumes "box_of m (snd (snd x)) \<noteq> None"
  shows "set (entries (admitted x m)) = insert (queued (mb_acceptance m) (mb_queue m) (fst x)) (set (entries m))"
proof -
  obtain d c rid where x: "x = (d, c, rid)" by (cases x) auto
  from assms obtain b where b: "box_of m rid = Some b" by (auto simp: x)
  obtain rid' ready deferred where b': "b = (rid', ready, deferred)" by (cases b) auto
  obtain us ws where "entries m = us @ box_entries b @ ws"
    "entries (on_box rid (push_ready [queued (mb_acceptance m) (mb_queue m) d]) m) =
     us @ box_entries (push_ready [queued (mb_acceptance m) (mb_queue m) d] b) @ ws"
    by (rule entries_on_box [OF b])
  then show ?thesis by (auto simp: x admitted_def box_entries_def b')
qed

lemma admitted_instance [simp]: "mb_instance (admitted x m) = mb_instance m"
  by (cases x) (simp add: admitted_def)

lemma admitted_names: "map fst (mb_boxes (admitted x m)) = map fst (mb_boxes m)"
proof -
  have "map fst (update_first (\<lambda>b. fst b = rid) (push_ready es) bs) = map fst bs" for rid es and bs :: "box list"
    by (induction bs) auto
  then show ?thesis by (auto simp: admitted_def on_box_def split: prod.split)
qed

lemma accept_deliveries_admitted:
  assumes "accept_deliveries v xs = Ok (v', ys)" "doc_mailboxes v = Some m" "kept H m"
    "list_all (\<lambda>(d, _, _). canonical_typed (qe_payload (ad_envelope d)) \<and>
       delivery_digest H (mb_instance m) d = Ok (ad_envelope_digest d)) xs"
    "distinct (map (\<lambda>x. delivery_id (fst x)) xs)" "set (map (\<lambda>x. delivery_id (fst x)) xs) \<inter> set (entry_ids m) = {}"
  shows "doc_mailboxes v' = Some (fold admitted xs m) \<and> kept H (fold admitted xs m) \<and>
    set (entries m) \<subseteq> set (entries (fold admitted xs m)) \<and>
    (\<forall>x \<in> set xs. \<exists>na nq. queued na nq (fst x) \<in> set (entries (fold admitted xs m))) \<and>
    (\<forall>x \<in> set xs. snd (snd x) \<in> fst ` set (mb_boxes m))"
  using assms
proof (induction xs arbitrary: v m ys)
  case (Cons x xs)
  from Cons.prems(1) obtain v1 y ys' where v1: "accept_delivery_entry v x = Ok (v1, y)" "accept_deliveries v1 xs = Ok (v', ys')"
    by (auto simp: obind_Ok_iff)
  obtain d c rid where x: "x = (d, c, rid)" by (cases x) auto
  from accept_delivery_admitted [OF v1(1) Cons.prems(2)] obtain b where
    m1: "doc_mailboxes v1 = Some (admitted x m)" and b: "box_of m rid = Some b"
    by (auto simp: x)
  have "kept H (admitted x m)"
    using kept_push_ready [OF Cons.prems(3) b, where i = "delivery_id d"] Cons.prems(4,6)
    by (auto simp: x admitted_def entry_ids_def digest_kept_mailbox_entry)
  moreover have "set (entry_ids (admitted x m)) = insert (delivery_id d) (set (entry_ids m))"
    using admitted_entries [of m x] b by (simp add: entry_ids_def x)
  moreover have "fst ` set (mb_boxes (admitted x m)) = fst ` set (mb_boxes m)"
    using arg_cong [OF admitted_names [of x m], of set] by simp
  moreover have "rid \<in> fst ` set (mb_boxes m)" using b by (auto simp: box_of_def find_Some_iff)
  ultimately show ?case
    using Cons.IH [OF v1(2) m1] Cons.prems(4-6) admitted_entries [of m x] b by (auto simp: x)
qed simp

text \<open>The locations of a document are the entries of its mailboxes by event identity.\<close>

definition located :: "json \<Rightarrow> bool" where
  "located e \<longleftrightarrow> entry_id e \<noteq> None \<and> jstr (jindex e ''envelope_digest'') \<noteq> None \<and> jstr (jindex e ''acceptance_sequence'') \<noteq> None"

definition locate :: "string \<times> json \<Rightarrow> (string, mailbox_location) btree_map \<Rightarrow> (string, mailbox_location) btree_map" where
  "locate le = bm_insert (the (entry_id (snd le)))
     \<lparr>ml_digest = the (jstr (jindex (snd le) ''envelope_digest'')),
      ml_acceptance_sequence = the (jstr (jindex (snd le) ''acceptance_sequence'')), ml_location = fst le\<rparr>"

definition box_places :: "box \<Rightarrow> (string \<times> json) list" where
  "box_places b = map (Pair ''ready'') (fst (snd b)) @ map (Pair ''deferred'') (snd (snd b))"

lemma collect_locations_iff:
  "collect_locations l es ls = Ok ls' \<longleftrightarrow> list_all located es \<and> ls' = fold locate (map (Pair l) es) ls"
proof (induction es arbitrary: ls)
  case (Cons e es)
  have "collect_locations l (e # es) ls = Ok ls' \<longleftrightarrow> located e \<and> collect_locations l es (locate (l, e) ls) = Ok ls'"
    by (auto simp: located_def locate_def entry_id_def obind_Ok_iff)
  then show ?case using Cons.IH by simp
qed auto

lemma runtime_locations_iff:
  "collect_option (map runtime_box rs) = Some bs \<Longrightarrow>
   runtime_locations rs ls = Ok ls' \<longleftrightarrow>
     list_all located (concat (map box_entries bs)) \<and> ls' = fold locate (concat (map box_places bs)) ls"
proof (induction rs arbitrary: bs ls)
  case (Cons r rs)
  from Cons.prems obtain b bs' where bs: "bs = b # bs'" "runtime_box r = Some b" "collect_option (map runtime_box rs) = Some bs'"
    by (auto split: option.split_asm)
  obtain rid ready deferred where b: "b = (rid, ready, deferred)" by (cases b) auto
  have "runtime_locations (r # rs) ls = Ok ls' \<longleftrightarrow> list_all located (box_entries b) \<and>
      runtime_locations rs (fold locate (box_places b) ls) = Ok ls'"
    using bs(2) by (auto simp: b obind_Ok_iff runtime_box_arrays collect_locations_iff box_entries_def box_places_def)
  then show ?case using Cons.IH [OF bs(3)] bs(1) by auto
qed auto

lemma mailbox_locations_iff:
  assumes "doc_mailboxes v = Some m"
  shows "mailbox_locations v = Ok ls \<longleftrightarrow>
    list_all located (entries m) \<and> ls = fold locate (concat (map box_places (mb_boxes m))) []"
proof -
  from assms obtain rs where "jarray (jindex v ''runtimes'') = Some rs" "collect_option (map runtime_box rs) = Some (mb_boxes m)"
    by (auto simp: doc_mailboxes_def bind_eq_Some_conv)
  then show ?thesis by (simp add: mailbox_locations_def runtimes_def runtime_locations_iff entries_def)
qed

lemma places_entries: "map snd (concat (map box_places bs)) = concat (map box_entries bs)"
  by (induction bs) (simp_all add: box_places_def box_entries_def comp_def)

lemma keys_fold_locate: "set (bm_keys (fold locate ps ls)) = (\<lambda>p. the (entry_id (snd p))) ` set ps \<union> set (bm_keys ls)"
  by (induction ps arbitrary: ls) (auto simp: locate_def simp del: fst_conv)

lemma get_fold_locate:
  "distinct (map (\<lambda>p. the (entry_id (snd p))) ps) \<Longrightarrow> p \<in> set ps \<Longrightarrow>
   bm_get (fold locate ps ls) (the (entry_id (snd p))) = bm_get (locate p []) (the (entry_id (snd p)))"
proof (induction ps arbitrary: ls rule: rev_induct)
  case (snoc q ps)
  show ?case
  proof (cases "p = q")
    case False
    with snoc.prems have "p \<in> set ps" "the (entry_id (snd q)) \<noteq> the (entry_id (snd p))" by auto
    with snoc show ?thesis by (simp add: locate_def)
  qed (simp add: locate_def)
qed simp

lemma entry_ids_places: "entry_ids m = map (\<lambda>p. the (entry_id (snd p))) (concat (map box_places (mb_boxes m)))"
  unfolding entry_ids_def entries_def places_entries [symmetric] by simp

lemma mailbox_locations_ids:
  assumes "mailbox_locations v = Ok ls" "doc_mailboxes v = Some m"
  shows "set (bm_keys ls) = set (entry_ids m)"
proof -
  from assms have ls: "ls = fold locate (concat (map box_places (mb_boxes m))) []"
    by (simp add: mailbox_locations_iff)
  show ?thesis unfolding ls keys_fold_locate entry_ids_places by simp
qed

lemma classify_Cons:
  assumes "classify_deliveries H v ls (d # ds) = Ok (replay, fresh)"
  obtains c replay' fresh' where "ho_delivery_schema H (delivery_json d)"
    "delivery_digest H (jstr (jindex v ''root_instance_id'')) d = Ok c" "classify_deliveries H v ls ds = Ok (replay', fresh')"
    "case bm_get ls (delivery_id d) of None \<Rightarrow> replay = replay' \<and> fresh = (d, c) # fresh'
     | Some l \<Rightarrow> ml_digest l = c \<and> replay = (d, l) # replay' \<and> fresh = fresh'"
  using assms that
  by (cases "bm_get ls (delivery_id d)")
    (auto simp: obind_Ok_iff delivery_digest_def aggregate_root_instance_id_def split: if_split_asm)

lemma classify_fresh:
  assumes "classify_deliveries H v ls ds = Ok (replay, fresh)"
  shows "map fst fresh = filter (\<lambda>d. bm_get ls (delivery_id d) = None) ds"
    "list_all (\<lambda>(d, c). delivery_digest H (jstr (jindex v ''root_instance_id'')) d = Ok c) fresh"
    "d \<in> set ds \<Longrightarrow> ho_delivery_schema H (delivery_json d)"
    "d \<in> set ds \<Longrightarrow> bm_get ls (delivery_id d) = Some l \<Longrightarrow>
       delivery_digest H (jstr (jindex v ''root_instance_id'')) d = Ok (ml_digest l)"
  using assms
proof (induction ds arbitrary: replay fresh)
  case (Cons x ds)
  {
    case 1
    then show ?case by (rule classify_Cons) (auto dest: Cons.IH(1) split: option.split_asm)
  next
    case 2
    then show ?case by (rule classify_Cons) (auto dest: Cons.IH(2) split: option.split_asm)
  next
    case 3
    from 3(2) show ?case by (rule classify_Cons) (use 3(1) Cons.IH(3) in auto)
  next
    case 4
    from 4(3) show ?case by (rule classify_Cons) (use 4(1,2) Cons.IH(4) in auto)
  }
qed simp_all

lemma validate_deliveries_Cons:
  assumes "validate_deliveries B a (d # ds) failure = Ok (validated, failure')"
  obtains core rid validated' where "core_delivery (fst d) = Ok core" "validate_delivery_for_admission B a core = Ok rid"
      "validate_deliveries B a ds failure = Ok (validated', failure')" "validated = (fst d, snd d, rid) # validated'"
  | code where "validate_deliveries B a ds (Some code) = Ok (validated, failure')"
proof (cases "core_delivery (fst d)")
  case core: (Ok core)
  show ?thesis
  proof (cases "validate_delivery_for_admission B a core")
    case (Ok rid)
    with core assms that(1) show ?thesis by (cases d) (auto simp: obind_Ok_iff)
  next
    case (Err code)
    with core assms that(2) show ?thesis by (cases d) (auto split: option.split_asm if_split_asm)
  qed (use core assms in \<open>cases d; auto\<close>)+
qed (use assms in \<open>cases d; auto\<close>)+

lemma validate_deliveries_failure:
  "validate_deliveries B a ds (Some code) = Ok (validated, failure) \<Longrightarrow> failure \<noteq> None"
proof (induction ds arbitrary: code validated)
  case (Cons d ds)
  from Cons.prems show ?case by (cases rule: validate_deliveries_Cons) (use Cons.IH in blast)+
qed auto

text \<open>The runtime a delivery is addressed to: the running one its target resolves to.\<close>

definition addressed :: "native_aggregate \<Rightarrow> admission_delivery \<Rightarrow> string \<Rightarrow> bool" where
  "addressed a d rid \<longleftrightarrow>
     (\<exists>core addr r. core_delivery d = Ok core \<and>
        resolve_delivery_target a (env_target (snd (delivery_parts core))) = Inr addr \<and>
        runtime_at (ag_root a) addr = Some r \<and> rt_status r = Running \<and> rt_runtime_id r = rid)"

lemma validated_addressed:
  "core_delivery d = Ok core \<Longrightarrow> validate_delivery_for_admission B a core = Ok rid \<Longrightarrow> addressed a d rid"
  unfolding addressed_def validate_delivery_for_admission_def
  by (auto simp: obind_Ok_iff split: prod.split_asm if_split_asm sum.split_asm option.split_asm)

lemma validate_deliveries_all:
  "validate_deliveries B a ds None = Ok (validated, None) \<Longrightarrow>
   map (\<lambda>(d, c, _). (d, c)) validated = ds \<and> list_all (\<lambda>(d, _, rid). addressed a d rid) validated"
proof (induction ds arbitrary: validated)
  case (Cons d ds)
  from Cons.prems show ?case
  proof (cases rule: validate_deliveries_Cons)
    case (1 core rid validated')
    with Cons.IH [OF 1(3)] validated_addressed [OF 1(1,2)] show ?thesis by simp
  qed (use validate_deliveries_failure in blast)
qed simp

definition fresh_deliveries :: "mailboxes \<Rightarrow> admission_delivery list \<Rightarrow> admission_delivery list" where
  "fresh_deliveries m ds = filter (\<lambda>d. delivery_id d \<notin> set (entry_ids m)) ds"

text \<open>What an accepted batch has passed before it is queued.\<close>

lemma admit_fresh_Ok:
  assumes "admit_fresh H B a fresh = Ok res"
  obtains validated v v' accepted status where "map (\<lambda>(d, c, _). (d, c)) validated = fresh"
    "list_all (\<lambda>(d, c, _). ad_envelope_digest d = c) validated"
    "accept_deliveries (ag_document a) validated = Ok (v, accepted)" "seal_aggregate H v = Ok v'"
    "aggregate_status v' = Ok status" "jindex res ''state'' = v'" "jindex res ''result'' = JString ''accepted''"
    "list_all (\<lambda>(d, _, rid). addressed a d rid) validated"
proof -
  from assms obtain validated failure where val: "validate_deliveries B a fresh None = Ok (validated, failure)"
    by (auto simp: admit_fresh_def obind_Ok_iff split: if_split_asm)
  show thesis
  proof (cases failure)
    case None
    with assms val obtain v accepted v' status where "\<not> list_ex (\<lambda>(d, computed, _). ad_envelope_digest d \<noteq> computed) validated"
        "accept_deliveries (ag_document a) validated = Ok (v, accepted)" "seal_aggregate H v = Ok v'"
        "aggregate_status v' = Ok status" "res = jobj [(''result'', JString ''accepted''), (''status'', JString status), (''state'', v'),
                      (''accepted'', JArray accepted), (''rejection'', JNull)]"
      by (auto simp: admit_fresh_def obind_Ok_iff split: if_split_asm)
    with that validate_deliveries_all [OF val [unfolded None]] show ?thesis
      by (auto simp: list_ex_iff list_all_iff case_prod_beta)
  next
    case (Some code)
    with assms val show ?thesis by (auto simp: admit_fresh_def obind_Ok_iff split: if_split_asm)
  qed
qed

lemma admit_accepted:
  assumes "admit_v1 H B a ds = Ok res" "jindex res ''result'' = JString ''accepted''"
  obtains ls replay fresh where "ho_check_bundle H B = None" "distinct (map delivery_id ds)"
    "mailbox_locations (ag_document a) = Ok ls" "classify_deliveries H (ag_document a) ls ds = Ok (replay, fresh)"
    "admit_fresh H B a fresh = Ok res"
proof (cases "ho_check_bundle H B")
  case None
  with assms(1) obtain ls replay fresh where
    *: "distinct (map delivery_id ds)" "mailbox_locations (ag_document a) = Ok ls"
      "classify_deliveries H (ag_document a) ls ds = Ok (replay, fresh)"
    by (auto simp: admit_v1_def obind_Ok_iff split: if_split_asm)
  with None assms have "admit_fresh H B a fresh = Ok res"
    by (auto simp: admit_v1_def obind_Ok_iff split: if_split_asm)
  with * None that show ?thesis by blast
qed (use assms in \<open>simp add: admit_v1_def\<close>)

lemma admit_refines:
  assumes "admit_v1 H B a ds = Ok res" "jindex res ''result'' = JString ''accepted''"
    "doc_mailboxes (ag_document a) = Some m" "kept H m"
    "list_all (\<lambda>d. canonical_typed (qe_payload (ad_envelope d))) ds"
  obtains xs status where "map fst xs = fresh_deliveries m ds" "doc_mailboxes (jindex res ''state'') = Some (fold admitted xs m)"
    "kept H (fold admitted xs m)" "list_all (\<lambda>x. delivery_digest H (mb_instance m) (fst x) = Ok (ad_envelope_digest (fst x))) xs"
    "aggregate_status (jindex res ''state'') = Ok status" "set (entries m) \<subseteq> set (entries (fold admitted xs m))"
    "\<forall>x \<in> set xs. \<exists>na nq. queued na nq (fst x) \<in> set (entries (fold admitted xs m))"
    "list_all (\<lambda>(d, _, rid). addressed a d rid \<and> rid \<in> fst ` set (mb_boxes m)) xs"
proof (rule admit_accepted [OF assms(1,2)])
  fix ls replay fresh
  assume ds: "distinct (map delivery_id ds)" and ls: "mailbox_locations (ag_document a) = Ok ls"
    and classify: "classify_deliveries H (ag_document a) ls ds = Ok (replay, fresh)" and admit: "admit_fresh H B a fresh = Ok res"
  obtain validated v v' accepted status where xs: "map (\<lambda>(d, c, _). (d, c)) validated = fresh"
    "list_all (\<lambda>(d, c, _). ad_envelope_digest d = c) validated"
    "accept_deliveries (ag_document a) validated = Ok (v, accepted)" "seal_aggregate H v = Ok v'"
    "aggregate_status v' = Ok status" "jindex res ''state'' = v'" "list_all (\<lambda>(d, _, rid). addressed a d rid) validated"
    by (rule admit_fresh_Ok [OF admit])
  have "map fst validated = map fst fresh" by (subst xs(1) [symmetric]) (simp add: case_prod_beta)
  then have fresh: "map fst validated = fresh_deliveries m ds"
    using classify_fresh(1) [OF classify] mailbox_locations_ids [OF ls assms(3)]
    by (simp add: fresh_deliveries_def bm_get_None_iff)
  have inst: "jstr (jindex (ag_document a) ''root_instance_id'') = mb_instance m"
    using assms(3) by (auto simp: doc_mailboxes_def bind_eq_Some_conv)
  have digests: "list_all (\<lambda>x. delivery_digest H (mb_instance m) (fst x) = Ok (ad_envelope_digest (fst x))) validated"
    using classify_fresh(2) [OF classify] xs(1,2) unfolding inst xs(1) [symmetric] by (fastforce simp: list_all_iff)
  have "list_all (\<lambda>x. canonical_typed (qe_payload (ad_envelope (fst x)))) validated"
    using assms(5) arg_cong [OF fresh, of set] by (auto simp: list_all_iff fresh_deliveries_def)
  with digests have payload: "list_all (\<lambda>(d, _, _). canonical_typed (qe_payload (ad_envelope d)) \<and>
      delivery_digest H (mb_instance m) d = Ok (ad_envelope_digest d)) validated"
    by (auto simp: list_all_iff)
  have "map (\<lambda>x. delivery_id (fst x)) validated = map delivery_id (fresh_deliveries m ds)"
    by (subst fresh [symmetric]) simp
  then have ids: "distinct (map (\<lambda>x. delivery_id (fst x)) validated)"
      "set (map (\<lambda>x. delivery_id (fst x)) validated) \<inter> set (entry_ids m) = {}"
    using ds by (auto simp: fresh_deliveries_def distinct_map_filter)
  have all: "doc_mailboxes v = Some (fold admitted validated m)" "kept H (fold admitted validated m)"
    "set (entries m) \<subseteq> set (entries (fold admitted validated m))"
    "\<forall>x \<in> set validated. \<exists>na nq. queued na nq (fst x) \<in> set (entries (fold admitted validated m))"
    "\<forall>x \<in> set validated. snd (snd x) \<in> fst ` set (mb_boxes m)"
    using accept_deliveries_admitted [OF xs(3) assms(3,4) payload ids] by blast+
  have "doc_mailboxes (jindex res ''state'') = Some (fold admitted validated m)"
    using seal_mailboxes [OF xs(4) all(1,2)] xs(6) by simp
  moreover have "list_all (\<lambda>(d, _, rid). addressed a d rid \<and> rid \<in> fst ` set (mb_boxes m)) validated"
    using xs(7) all(5) by (force simp: list_all_iff)
  ultimately show thesis using that [OF fresh _ all(2) digests _ all(3,4)] xs(5,6) by blast
qed

text \<open>
  C12: the integrity check of the mailboxes is exactly their invariant: it accepts a document
  if and only if its runtimes are in ascending order, every entry carries an acceptance and a
  queue number below the next ones and the digest of its content, both mailboxes of every
  runtime are in queue order, and no event identity, acceptance or queue number occurs twice
  in the whole aggregate.
\<close>

theorem mailbox_integrity_exact:
  "validate_mailbox_integrity H v = Ok () \<longleftrightarrow> (\<exists>m. doc_mailboxes v = Some m \<and> kept H m)"
  by (rule integrity_kept)



lemma push_ready_simps [simp]:
  "push_ready [] b = b" "push_ready es (push_ready es' b) = push_ready (es' @ es) b" "fst (push_ready es b) = fst b"
  by (cases b; simp)+






lemma digest_kept_iff:
  "digest_kept H inst e \<longleftrightarrow>
     (\<exists>q mode i d. queue_envelope_of (jindex e ''envelope'') = Some q \<and> jstr (jindex e ''delivery_mode'') = Some mode \<and>
        inst = Some i \<and> envelope_digest H i mode q = Ok d \<and> jstr (jindex e ''envelope_digest'') = Some d)"
  by (cases "queue_envelope_of (jindex e ''envelope'')"; cases "jstr (jindex e ''delivery_mode'')"; cases inst)
    (auto simp: digest_kept_def split: outcome.split)

lemma kept_located: "kept H m \<Longrightarrow> list_all located (entries m)"
  by (force simp: kept_def list_all_iff located_def entry_kept_def entry_key_def digest_kept_iff bind_eq_Some_conv)

lemma kept_location:
  assumes "doc_mailboxes v = Some m" "kept H m" "e \<in> set (entries m)"
  obtains ls loc where "mailbox_locations v = Ok ls" "bm_get ls (the (entry_id e)) = Some loc"
    "jstr (jindex e ''envelope_digest'') = Some (ml_digest loc)" "jstr (jindex e ''acceptance_sequence'') = Some (ml_acceptance_sequence loc)"
proof -
  let ?ps = "concat (map box_places (mb_boxes m))"
  have "e \<in> set (map snd ?ps)" using assms(3) by (simp only: places_entries entries_def)
  then obtain p where p: "p \<in> set ?ps" "e = snd p" by auto
  have "distinct (map (\<lambda>p. the (entry_id (snd p))) ?ps)"
    using assms(2) by (simp only: entry_ids_places [symmetric]) (simp add: kept_def entry_ids_def)
  from get_fold_locate [OF this p(1), of "[]"] have
    "bm_get (fold locate ?ps []) (the (entry_id e)) =
       Some \<lparr>ml_digest = the (jstr (jindex e ''envelope_digest'')),
          ml_acceptance_sequence = the (jstr (jindex e ''acceptance_sequence'')), ml_location = fst p\<rparr>"
    by (simp add: p(2) locate_def)
  moreover have "located e" using kept_located [OF assms(2)] assms(3) by (simp add: list_all_iff)
  moreover have "mailbox_locations v = Ok (fold locate ?ps [])"
    using mailbox_locations_iff [OF assms(1)] kept_located [OF assms(2)] by blast
  ultimately show thesis using that by (fastforce simp: located_def)
qed

definition replay_result :: "json \<Rightarrow> string \<Rightarrow> string \<Rightarrow> mailbox_location \<Rightarrow> json" where
  "replay_result v status event_id l =
     jobj [(''result'', JString ''replay''), (''status'', JString status), (''state'', v), (''event_id'', JString event_id),
           (''acceptance_sequence'', JString (ml_acceptance_sequence l)), (''location'', JString (ml_location l)),
           (''rejection'', JNull)]"

lemma admit_retained:
  assumes "ho_check_bundle H B = None" "doc_mailboxes (ag_document a) = Some m" "kept H m" "e \<in> set (entries m)"
    "entry_id e = Some (delivery_id d)" "ho_delivery_schema H (delivery_json d)" "delivery_digest H (mb_instance m) d = Ok c"
    "aggregate_status (ag_document a) = Ok status"
  shows "if jstr (jindex e ''envelope_digest'') = Some c
    then \<exists>l. jstr (jindex e ''acceptance_sequence'') = Some (ml_acceptance_sequence l) \<and>
      admit_v1 H B a [d] = Ok (replay_result (ag_document a) status (delivery_id d) l)
    else admit_v1 H B a [d] = Err ''event_id_conflict''"
proof -
  obtain ls l where ls: "mailbox_locations (ag_document a) = Ok ls" "bm_get ls (the (entry_id e)) = Some l"
    "jstr (jindex e ''envelope_digest'') = Some (ml_digest l)" "jstr (jindex e ''acceptance_sequence'') = Some (ml_acceptance_sequence l)"
    by (rule kept_location [OF assms(2-4)])
  have inst: "jstr (jindex (ag_document a) ''root_instance_id'') = mb_instance m"
    using assms(2) by (auto simp: doc_mailboxes_def bind_eq_Some_conv)
  then obtain i where "aggregate_root_instance_id (ag_document a) = Ok i" "envelope_digest H i (ad_delivery_mode d) (ad_envelope d) = Ok c"
    using assms(7) by (auto simp: delivery_digest_def obind_Ok_iff aggregate_root_instance_id_def)
  with assms ls show ?thesis by (auto simp: admit_v1_def replay_result_def)
qed

text \<open>
  C10: admission is idempotent.  Every delivery of an accepted batch, submitted again to the
  resulting document, is answered as a replay: with the document unchanged, whatever aggregate
  the document is now loaded into.
\<close>

theorem admission_exactly_once:
  assumes "admit_v1 H B a ds = Ok res" "jindex res ''result'' = JString ''accepted''"
    "validate_mailbox_integrity H (ag_document a) = Ok ()"
    "list_all (\<lambda>d. canonical_typed (qe_payload (ad_envelope d))) ds" "d \<in> set ds"
  shows "\<exists>status l. admit_v1 H B (a'\<lparr>ag_document := jindex res ''state''\<rparr>) [d] =
    Ok (replay_result (jindex res ''state'') status (qe_event_id (ad_envelope d)) l)"
proof -
  from assms(3) obtain m where m: "doc_mailboxes (ag_document a) = Some m" "kept H m" by (auto simp: integrity_kept)
  obtain xs status where xs: "map fst xs = fresh_deliveries m ds" "doc_mailboxes (jindex res ''state'') = Some (fold admitted xs m)"
    "kept H (fold admitted xs m)" "list_all (\<lambda>x. delivery_digest H (mb_instance m) (fst x) = Ok (ad_envelope_digest (fst x))) xs"
    "aggregate_status (jindex res ''state'') = Ok status" "set (entries m) \<subseteq> set (entries (fold admitted xs m))"
    "\<forall>x \<in> set xs. \<exists>na nq. queued na nq (fst x) \<in> set (entries (fold admitted xs m))"
    by (rule admit_refines [OF assms(1,2) m assms(4)])
  have inst: "mb_instance (fold admitted xs m) = mb_instance m" by (induction xs arbitrary: m) simp_all
  obtain ls replay fresh where c: "ho_check_bundle H B = None" "mailbox_locations (ag_document a) = Ok ls"
    "classify_deliveries H (ag_document a) ls ds = Ok (replay, fresh)"
    by (rule admit_accepted [OF assms(1,2)])
  have "\<exists>e \<in> set (entries (fold admitted xs m)). \<exists>c. entry_id e = Some (delivery_id d) \<and>
      delivery_digest H (mb_instance m) d = Ok c \<and> jstr (jindex e ''envelope_digest'') = Some c"
  proof (cases "delivery_id d \<in> set (entry_ids m)")
    case True
    then obtain e where e: "e \<in> set (entries m)" "the (entry_id e) = delivery_id d" by (auto simp: entry_ids_def)
    obtain ls' l where l: "mailbox_locations (ag_document a) = Ok ls'" "bm_get ls' (the (entry_id e)) = Some l"
      "jstr (jindex e ''envelope_digest'') = Some (ml_digest l)"
      by (rule kept_location [OF m e(1)])
    have "jstr (jindex (ag_document a) ''root_instance_id'') = mb_instance m"
      using m(1) by (auto simp: doc_mailboxes_def bind_eq_Some_conv)
    with classify_fresh(4) [OF c(3) assms(5), of l] l c(2) e kept_entry [OF m(2) e(1)] xs(6)
    show ?thesis by (intro bexI [of _ e]) (auto simp: entry_kept_def)
  next
    case False
    with assms(5) have "d \<in> set (map fst xs)" unfolding xs(1) by (simp add: fresh_deliveries_def)
    then obtain x where x: "x \<in> set xs" "d = fst x" by auto
    with xs(7) obtain na nq where "queued na nq d \<in> set (entries (fold admitted xs m))" by blast
    then show ?thesis using xs(4) x by (intro bexI [of _ "queued na nq d"]) (auto simp: list_all_iff)
  qed
  then obtain e c' where e: "e \<in> set (entries (fold admitted xs m))" "entry_id e = Some (delivery_id d)"
      "delivery_digest H (mb_instance m) d = Ok c'" "jstr (jindex e ''envelope_digest'') = Some c'"
    by blast
  from admit_retained [OF c(1) _ xs(3) e(1,2) classify_fresh(3) [OF c(3) assms(5)], of "a'\<lparr>ag_document := jindex res ''state''\<rparr>"]
  have "\<exists>l. admit_v1 H B (a'\<lparr>ag_document := jindex res ''state''\<rparr>) [d] =
      Ok (replay_result (jindex res ''state'') status (delivery_id d) l)"
    using xs(2,5) e(3,4) inst by fastforce
  then show ?thesis by blast
qed

text \<open>
  C11: a retained event identity is never overwritten.  A delivery whose event identity is
  still in a mailbox is answered as a replay, with the document unchanged, when its content
  has the digest of the retained entry, and refused as a conflict otherwise.
\<close>

theorem retained_identity_protected:
  assumes "validate_mailbox_integrity H (ag_document a) = Ok ()" "doc_mailboxes (ag_document a) = Some m"
    "e \<in> set (entries m)" "entry_id e = Some (qe_event_id (ad_envelope d))" "ho_check_bundle H B = None"
    "ho_delivery_schema H (delivery_json d)" "delivery_digest H (mb_instance m) d = Ok c"
    "aggregate_status (ag_document a) = Ok status"
  shows "if jstr (jindex e ''envelope_digest'') = Some c
    then \<exists>l. jstr (jindex e ''acceptance_sequence'') = Some (ml_acceptance_sequence l) \<and>
      admit_v1 H B a [d] = Ok (replay_result (ag_document a) status (qe_event_id (ad_envelope d)) l)
    else admit_v1 H B a [d] = Err ''event_id_conflict''"
proof -
  from assms(1,2) have "kept H m" by (auto simp: integrity_kept)
  from admit_retained [OF assms(5,2) this assms(3,4,6,7,8)] show ?thesis .
qed

end
