(* ===== verification/Checkpoint_Spec.thy ===== *)
theory Checkpoint_Spec
  imports Checkpoint_Step Mailbox_Spec
begin

text \<open>
  What the operations on a checkpoint guarantee: each commits exactly one revision or changes
  nothing, a stale writer changes nothing, an effect keeps its outcome for good, an event is
  processed at most once, and pruning forgets no identity.
\<close>

section \<open>Frames of the document operations\<close>

named_theorems frame_simps \<open>members a document operation leaves alone\<close>

definition is_object :: "json \<Rightarrow> bool" where
  "is_object v \<longleftrightarrow> jobject v \<noteq> None"

lemma is_object_jput [simp]: "is_object (jput k x v) \<longleftrightarrow> is_object v"
  unfolding is_object_def by (rule jobject_jput)

lemma jindex_put [simp]: "is_object v \<Longrightarrow> jindex (jput k x v) k' = (if k' = k then x else jindex v k')"
  unfolding is_object_def by (rule jindex_jput)

lemma jget_put [simp]: "is_object v \<Longrightarrow> jget (jput k x v) k' = (if k' = k then Some x else jget v k')"
  by (cases v) (auto simp: jput_def is_object_def jobject_def jget_def)

lemma need_array_Ok [simp]: "need_array v k = Ok xs \<longleftrightarrow> jarray (jindex v k) = Some xs"
  by (simp add: need_array_def)

lemma string_field_Ok [simp]: "string_field v k = Ok s \<longleftrightarrow> jstr (jindex v k) = Some s"
  by (simp add: string_field_def)

lemma valid_if_Ok [simp]: "valid_if b = Ok u \<longleftrightarrow> b"
  by (simp add: valid_if_def)

lemma counter_at_Ok: "counter_at v k = Ok c \<longleftrightarrow> jcounter (jindex v k) = Some c"
  by (auto simp: counter_at_def jcounter_def obind_Ok_iff bind_eq_Some_conv)

lemma counter_field_Ok: "counter_field v k = Ok c \<longleftrightarrow> jcounter (jindex v k) = Some c"
  by (simp add: counter_field_def jcounter_def)

lemma jcounter_text [simp]: "jcounter (JString (canonical_decimal c)) = Some c"
  by (simp add: jcounter_def)

lemma jcounter_object: "jcounter (jindex v k) = Some c \<Longrightarrow> is_object v"
  using jobject_of_field(2) [of v k] by (auto simp: jcounter_def bind_eq_Some_conv is_object_def)

lemma jarray_object: "jarray (jindex v k) = Some xs \<Longrightarrow> is_object v"
  unfolding is_object_def by (rule jobject_of_field(1))

lemma jstr_object: "jstr (jindex v k) = Some s \<Longrightarrow> is_object v"
  unfolding is_object_def by (rule jobject_of_field(2))

lemma jstr_Some: "jstr j = Some s \<longleftrightarrow> j = JString s"
  by (cases j) (simp_all add: jstr_def)

lemma jarray_Some: "jarray j = Some xs \<longleftrightarrow> j = JArray xs"
  by (cases j) (simp_all add: jarray_def)

lemma jcounter_decimal: "jcounter j = Some c \<longleftrightarrow> j = JString (canonical_decimal c)"
  by (auto simp: jcounter_def bind_eq_Some_conv jstr_Some dest: from_decimal_canonical)

lemma next_revision_Ok:
  "next_revision v = Ok v' \<longleftrightarrow>
     (\<exists>c. jcounter (jindex v ''revision'') = Some c \<and> v' = jput ''revision'' (JString (canonical_decimal (Suc c))) v)"
  by (auto simp: next_revision_def incremented_def obind_Ok_iff jcounter_def bind_eq_Some_conv)

lemma allocate_field_Ok:
  "allocate_field v k = Ok (v', s) \<longleftrightarrow>
     (\<exists>c. jcounter (jindex v k) = Some c \<and> v' = jput k (JString (canonical_decimal (Suc c))) v \<and> s = canonical_decimal c)"
  by (auto simp: allocate_field_def obind_Ok_iff counter_at_Ok)

lemma push_member_Ok:
  "push_member k x v = Ok v' \<longleftrightarrow> (\<exists>xs. jarray (jindex v k) = Some xs \<and> v' = jput k (JArray (xs @ [x])) v)"
  by (auto simp: push_member_def obind_Ok_iff)

lemma sort_by_field_mset: "sort_by_field key js = Ok js' \<Longrightarrow> mset js' = mset js"
proof -
  assume a: "sort_by_field key js = Ok js'"
  show ?thesis
  proof (cases "length js < 2")
    case False
    with a obtain ks where ks: "map (\<lambda>j. obind (key j) (\<lambda>k. Ok (k, j))) js = map Ok ks" and js': "js' = map snd (sort_key fst ks)"
      by (auto simp: sort_by_field_def obind_Ok_iff collect_outcome_Ok)
    from ks have "js = map snd ks"
    proof (induction js arbitrary: ks)
      case (Cons j js)
      then show ?case by (cases ks) (auto simp: obind_Ok_iff)
    qed simp
    with js' show ?thesis by simp
  qed (use a in \<open>simp add: sort_by_field_def\<close>)
qed

lemma seal_checkpoint_Ok:
  assumes "seal_checkpoint C v = Ok v'"
  shows "\<exists>rs rs' d. jarray (jindex v ''operation_receipts'') = Some rs \<and>
     sort_by_field (\<lambda>r. counter_field r ''receipt_sequence'') rs = Ok rs' \<and>
     v' = jput ''execution_checkpoint_digest'' (JString d) (jput ''operation_receipts'' (JArray rs') v)"
  using assms by (auto simp: seal_checkpoint_def obind_Ok_iff Let_def)

lemma seal_frame [frame_simps]:
  assumes "seal_checkpoint C v = Ok v'" "k \<noteq> ''operation_receipts''" "k \<noteq> ''execution_checkpoint_digest''"
  shows "jindex v' k = jindex v k"
  using seal_checkpoint_Ok [OF assms(1)] assms(2,3) by (auto simp: jarray_object)

lemma seal_receipts:
  assumes "seal_checkpoint C v = Ok v'"
  obtains rs rs' where "jarray (jindex v ''operation_receipts'') = Some rs"
    "jarray (jindex v' ''operation_receipts'') = Some rs'"
    "sort_by_field (\<lambda>r. counter_field r ''receipt_sequence'') rs = Ok rs'" "mset rs' = mset rs"
proof -
  from seal_checkpoint_Ok [OF assms] obtain rs rs' d where rs: "jarray (jindex v ''operation_receipts'') = Some rs"
      "sort_by_field (\<lambda>r. counter_field r ''receipt_sequence'') rs = Ok rs'"
      "v' = jput ''execution_checkpoint_digest'' (JString d) (jput ''operation_receipts'' (JArray rs') v)" by blast
  then have "jarray (jindex v' ''operation_receipts'') = Some rs'" by (simp add: jarray_object)
  with rs that show ?thesis by (blast dest: sort_by_field_mset)
qed

lemma seal_and_validate_Ok:
  "seal_and_validate_checkpoint C v = Ok v' \<longleftrightarrow>
     seal_checkpoint C v = Ok v' \<and> ck_schema C v' \<and> validate_semantics C v' = Ok ()"
  by (auto simp: seal_and_validate_checkpoint_def obind_Ok_iff)

lemma rewrite_producer_frame:
  assumes "rewrite_producer_event_reference v e t = Ok v'" "k \<noteq> ''operation_receipts''"
  shows "jindex v' k = jindex v k"
  using assms by (auto simp: rewrite_producer_event_reference_def obind_Ok_iff Let_def jarray_object split: if_split_asm)

lemma push_member_frame: "push_member k x v = Ok v' \<Longrightarrow> k' \<noteq> k \<Longrightarrow> jindex v' k' = jindex v k'"
  by (auto simp: push_member_Ok jarray_object)

lemma allocate_field_frame: "allocate_field v k = Ok (v', s) \<Longrightarrow> k' \<noteq> k \<Longrightarrow> jindex v' k' = jindex v k'"
  by (auto simp: allocate_field_Ok jcounter_object)

lemma next_revision_frame: "next_revision v = Ok v' \<Longrightarrow> k \<noteq> ''revision'' \<Longrightarrow> jindex v' k = jindex v k"
  by (auto simp: next_revision_Ok jcounter_object)

lemma ofold_frame:
  assumes "\<And>x v v'. f x v = Ok v' \<Longrightarrow> P v' = P v"
  shows "ofold f xs v = Ok v' \<Longrightarrow> P v' = P v"
  by (induction xs arbitrary: v) (auto simp: obind_Ok_iff dest: assms)

section \<open>Each effect is in one place\<close>

lemma ofold_keys:
  assumes step: "\<And>x s s'. f x s = Ok s' \<Longrightarrow> \<exists>k. key x = Some k \<and> k \<notin> proj s \<and> proj s' = insert k (proj s)"
  shows "ofold f xs s = Ok s' \<Longrightarrow>
     \<exists>ks. map key xs = map Some ks \<and> distinct ks \<and> set ks \<inter> proj s = {} \<and> proj s' = set ks \<union> proj s"
proof (induction xs arbitrary: s)
  case (Cons x xs)
  then obtain s1 where s1: "f x s = Ok s1" "ofold f xs s1 = Ok s'" by (auto simp: obind_Ok_iff)
  from step [OF s1(1)] obtain k where k: "key x = Some k" "k \<notin> proj s" "proj s1 = insert k (proj s)" by blast
  from Cons.IH [OF s1(2)] obtain ks where ks: "map key xs = map Some ks" "distinct ks" "set ks \<inter> proj s1 = {}" "proj s' = set ks \<union> proj s1"
    by blast
  show ?case by (rule exI [of _ "k # ks"]) (use k ks in auto)
qed auto

lemma outbox_record_effect:
  assumes "outbox_record v n pending rec st = Ok st'"
  shows "\<exists>e. outbox_effect rec = Some e \<and> e \<notin> set (os_effects (snd (snd st))) \<and>
     set (os_effects (snd (snd st'))) = insert e (set (os_effects (snd (snd st))))"
  using assms by (cases st) (auto simp: outbox_record_def Let_def obind_Ok_iff outbox_effect_def split: if_split_asm)

lemma outbox_tombstone_effect:
  assumes "outbox_tombstone n t st = Ok st'"
  shows "\<exists>e. tombstone_effect t = Some e \<and> e \<notin> set (os_effects (snd st)) \<and>
     set (os_effects (snd st')) = insert e (set (os_effects (snd st)))"
  using assms by (cases st) (auto simp: outbox_tombstone_def Let_def obind_Ok_iff tombstone_effect_def)

lemma outbox_records_effects:
  "ofold (outbox_record v n pending) xs st = Ok st' \<Longrightarrow>
     \<exists>es. map outbox_effect xs = map Some es \<and> distinct es \<and> set es \<inter> set (os_effects (snd (snd st))) = {} \<and>
       set (os_effects (snd (snd st'))) = set es \<union> set (os_effects (snd (snd st)))"
  by (rule ofold_keys [where proj = "\<lambda>st. set (os_effects (snd (snd st)))"]) (rule outbox_record_effect)

lemma outbox_tombstones_effects:
  "ofold (outbox_tombstone n) xs st = Ok st' \<Longrightarrow>
     \<exists>es. map tombstone_effect xs = map Some es \<and> distinct es \<and> set es \<inter> set (os_effects (snd st)) = {} \<and>
       set (os_effects (snd st')) = set es \<union> set (os_effects (snd st))"
  by (rule ofold_keys [where proj = "\<lambda>st. set (os_effects (snd st))"]) (rule outbox_tombstone_effect)

text \<open>The effects of the outbox of a document: of what is pending, what is settled, and what is compacted.\<close>

definition outbox_effects :: "json \<Rightarrow> string option list" where
  "outbox_effects v =
     map outbox_effect (jflatten (jindex v ''pending_outbox_intents'')) @
     map outbox_effect (jflatten (jindex v ''terminal_outbox_records'')) @
     map tombstone_effect (jflatten (jindex v ''outbox_effect_tombstones''))"

lemma scan_outbox_distinct:
  assumes "scan_outbox v = Ok os"
  shows "distinct (outbox_effects v)"
proof -
  from assms obtain pending terminals tombstones n a1 b1 os1 a2 b2 os2 a3 where
    arrays: "jarray (jindex v ''pending_outbox_intents'') = Some pending"
      "jarray (jindex v ''terminal_outbox_records'') = Some terminals"
      "jarray (jindex v ''outbox_effect_tombstones'') = Some tombstones" and
    folds: "ofold (outbox_record v n True) pending
        (None, None, \<lparr>os_effects = [], os_outbox_sequences = [], os_terminal_sequences = []\<rparr>) = Ok (a1, b1, os1)"
      "ofold (outbox_record v n False) terminals (None, None, os1) = Ok (a2, b2, os2)"
      "ofold (outbox_tombstone n) tombstones (None, os2) = Ok (a3, os)"
    by (auto simp: scan_outbox_def obind_Ok_iff)
  from outbox_records_effects [OF folds(1)] obtain es1 where e1: "map outbox_effect pending = map Some es1" "distinct es1" "set (os_effects os1) = set es1" by auto
  from outbox_records_effects [OF folds(2)] obtain es2 where e2: "map outbox_effect terminals = map Some es2" "distinct es2"
      "set es2 \<inter> set es1 = {}" "set (os_effects os2) = set es2 \<union> set es1" by (auto simp: e1(3))
  from outbox_tombstones_effects [OF folds(3)]
  obtain es3 where e3: "map tombstone_effect tombstones = map Some es3" "distinct es3" "set es3 \<inter> (set es2 \<union> set es1) = {}"
    by (auto simp: e2(4))
  have "outbox_effects v = map Some (es1 @ es2 @ es3)"
    by (simp add: outbox_effects_def jflatten_def arrays e1(1) e2(1) e3(1))
  moreover have "distinct (es1 @ es2 @ es3)" using e1(2) e2(2,3) e3(2,3) by auto
  ultimately show ?thesis by (auto simp: distinct_map)
qed

lemma validated_effects_distinct: "validate_semantics C v = Ok () \<Longrightarrow> distinct (outbox_effects v)"
  by (auto simp: validate_semantics_def validate_emission_and_outbox_relationships_def obind_Ok_iff dest: scan_outbox_distinct)

section \<open>The outcome of an effect\<close>

definition effect_outcome :: "json \<Rightarrow> string \<Rightarrow> json option" where
  "effect_outcome v effect_id =
     (case find (has_effect effect_id) (jflatten (jindex v ''terminal_outbox_records'')) of
        Some rec \<Rightarrow> Some (jindex rec ''outcome'')
      | None \<Rightarrow> map_option (\<lambda>rec. jindex rec ''outcome'')
                 (find (has_tombstone_effect effect_id) (jflatten (jindex v ''outbox_effect_tombstones''))))"

definition settled_as :: "json \<Rightarrow> string \<Rightarrow> json \<Rightarrow> bool" where
  "settled_as v effect_id out \<longleftrightarrow>
     (\<exists>rec \<in> set (jflatten (jindex v ''terminal_outbox_records'')). has_effect effect_id rec \<and> jindex rec ''outcome'' = out) \<or>
     (\<exists>rec \<in> set (jflatten (jindex v ''outbox_effect_tombstones'')). has_tombstone_effect effect_id rec \<and> jindex rec ''outcome'' = out)"

lemma effect_outcome_settled: "effect_outcome v e = Some out \<Longrightarrow> settled_as v e out"
  unfolding effect_outcome_def settled_as_def
  by (auto simp: find_Some_iff split: option.split_asm)

lemma distinct_map_find:
  "distinct (map f xs) \<Longrightarrow> x \<in> set xs \<Longrightarrow> f x = y \<Longrightarrow> find (\<lambda>x. f x = y) xs = Some x"
  by (induction xs) (auto simp: image_iff)

lemma settled_effect_outcome:
  assumes "distinct (outbox_effects v)" "settled_as v e out"
  shows "effect_outcome v e = Some out"
proof -
  let ?ts = "jflatten (jindex v ''terminal_outbox_records'')" and ?cs = "jflatten (jindex v ''outbox_effect_tombstones'')"
  have d: "distinct (map outbox_effect ?ts)" "distinct (map tombstone_effect ?cs)"
      "outbox_effect ` set ?ts \<inter> tombstone_effect ` set ?cs = {}"
    using assms(1) by (auto simp: outbox_effects_def)
  have finds: "has_effect e = (\<lambda>x. outbox_effect x = Some e)" "has_tombstone_effect e = (\<lambda>x. tombstone_effect x = Some e)"
    by (auto simp: has_effect_def has_tombstone_effect_def fun_eq_iff)
  from assms(2) consider (terminal) rec where "rec \<in> set ?ts" "outbox_effect rec = Some e" "jindex rec ''outcome'' = out"
    | (tombstone) rec where "rec \<in> set ?cs" "tombstone_effect rec = Some e" "jindex rec ''outcome'' = out"
    by (auto simp: settled_as_def has_effect_def has_tombstone_effect_def)
  then show ?thesis
  proof cases
    case terminal
    then have "find (has_effect e) ?ts = Some rec" unfolding finds by (intro distinct_map_find d(1))
    with terminal show ?thesis by (simp add: effect_outcome_def)
  next
    case tombstone
    then have "find (has_tombstone_effect e) ?cs = Some rec" unfolding finds by (intro distinct_map_find d(2))
    moreover from tombstone(1,2) have "Some e \<in> tombstone_effect ` set ?cs" by force
    with d(3) have "Some e \<notin> outbox_effect ` set ?ts" by blast
    then have "find (has_effect e) ?ts = None" unfolding find_None_iff finds by force
    ultimately show ?thesis using tombstone by (simp add: effect_outcome_def)
  qed
qed

lemma effect_outcome_cong:
  "jindex v' ''terminal_outbox_records'' = jindex v ''terminal_outbox_records'' \<Longrightarrow>
   jindex v' ''outbox_effect_tombstones'' = jindex v ''outbox_effect_tombstones'' \<Longrightarrow> effect_outcome v' e = effect_outcome v e"
  unfolding effect_outcome_def by (simp only:)

subsection \<open>Settling and compacting\<close>

lemma find_eq_position: "find p xs = map_option ((!) xs) (position p xs)"
  by (induction xs) (auto simp: option.map_comp comp_def)

lemma set_remove_at: "i < length xs \<Longrightarrow> set xs = insert (xs ! i) (set (remove_at i xs))"
  unfolding remove_at_def by (metis id_take_nth_drop list.simps(15) set_append Un_insert_right)

lemma terminalize_pending_Ok:
  assumes "terminalize_pending C v e out = Ok v'"
  shows "\<exists>rec terminals. jarray (jindex v ''terminal_outbox_records'') = Some terminals \<and>
     jindex v' ''terminal_outbox_records'' = JArray (terminals @ [rec]) \<and> has_effect e rec \<and> jindex rec ''outcome'' = outcome_json out \<and>
     jindex v' ''outbox_effect_tombstones'' = jindex v ''outbox_effect_tombstones'' \<and> validate_semantics C v' = Ok ()"
proof -
  from assms obtain pending i v1 v3 s v4 where
    st: "jarray (jindex v ''pending_outbox_intents'') = Some pending" "position (has_effect e) pending = Some i"
      "next_revision v = Ok v1"
      "allocate_field (jput ''pending_outbox_intents'' (JArray (remove_at i pending)) v1) ''next_outbox_terminal_sequence'' = Ok (v3, s)"
      "push_member ''terminal_outbox_records'' (terminal_record s (jindex (pending ! i) ''intent'') (jindex v3 ''revision'') out) v3 = Ok v4"
      "seal_and_validate_checkpoint C v4 = Ok v'"
    by (auto simp: terminalize_pending_def obind_Ok_iff Let_def)
  have obj: "is_object v1" using st(3) by (auto simp: next_revision_Ok jcounter_object)
  have same: "jindex v3 k = jindex v k" if "k \<in> {''terminal_outbox_records'', ''outbox_effect_tombstones''}" for k
    using that allocate_field_frame [OF st(4), of k] next_revision_frame [OF st(3), of k] obj by auto
  from st(5) obtain terminals where t: "jarray (jindex v3 ''terminal_outbox_records'') = Some terminals"
      "v4 = jput ''terminal_outbox_records'' (JArray (terminals @ [terminal_record s (jindex (pending ! i) ''intent'') (jindex v3 ''revision'') out])) v3"
    by (auto simp: push_member_Ok)
  from st(6) have seal: "seal_checkpoint C v4 = Ok v'" "validate_semantics C v' = Ok ()" by (simp_all add: seal_and_validate_Ok)
  note frame = seal_frame [OF seal(1)]
  from position_SomeD [OF st(2)] have "has_effect e (pending ! i)" by simp
  then have rec: "has_effect e (terminal_record s (jindex (pending ! i) ''intent'') (jindex v3 ''revision'') out)"
      "jindex (terminal_record s (jindex (pending ! i) ''intent'') (jindex v3 ''revision'') out) ''outcome'' = outcome_json out"
    by (simp_all add: has_effect_def outbox_effect_def terminal_record_def)
  have "is_object v3" using t(1) by (rule jarray_object)
  then have "jindex v' ''terminal_outbox_records'' =
        JArray (terminals @ [terminal_record s (jindex (pending ! i) ''intent'') (jindex v3 ''revision'') out])"
      "jindex v' ''outbox_effect_tombstones'' = jindex v ''outbox_effect_tombstones''"
    using frame [of "''terminal_outbox_records''"] frame [of "''outbox_effect_tombstones''"] same t(2) by simp_all
  with rec t(1) same seal(2) show ?thesis by auto
qed

lemma compact_terminal_Ok:
  assumes "compact_terminal C cp cs e = Ok v'"
  shows "\<exists>terminals i d cs'. jarray (jindex (cp_value cp) ''terminal_outbox_records'') = Some terminals \<and>
     position (has_effect e) terminals = Some i \<and> jindex v' ''terminal_outbox_records'' = JArray (remove_at i terminals) \<and>
     jindex v' ''outbox_effect_tombstones'' = JArray cs' \<and> mset cs' = add_mset (effect_tombstone (terminals ! i) e d) (mset cs) \<and>
     validate_semantics C v' = Ok ()"
proof -
  let ?v = "cp_value cp"
  from assms obtain terminals i v1 intent r d cs' where
    st: "jarray (jindex ?v ''terminal_outbox_records'') = Some terminals" "position (has_effect e) terminals = Some i"
      "next_revision ?v = Ok v1"
      "sort_by_field (\<lambda>t. counter_field t ''terminal_sequence'') (cs @ [effect_tombstone (terminals ! i) e d]) = Ok cs'"
      "seal_and_validate_checkpoint C (jput ''outbox_effect_tombstones'' (JArray cs')
         (jput ''terminal_outbox_records'' (JArray (remove_at i terminals)) v1)) = Ok v'"
    by (auto simp: compact_terminal_def obind_Ok_iff Let_def)
  have "is_object v1" using st(3) by (auto simp: next_revision_Ok jcounter_object)
  moreover from st(5) have seal: "seal_checkpoint C (jput ''outbox_effect_tombstones'' (JArray cs')
         (jput ''terminal_outbox_records'' (JArray (remove_at i terminals)) v1)) = Ok v'" "validate_semantics C v' = Ok ()"
    by (simp_all add: seal_and_validate_Ok)
  moreover from sort_by_field_mset [OF st(4)]
  have "mset cs' = add_mset (effect_tombstone (terminals ! i) e d) (mset cs)" by simp
  ultimately show ?thesis
    using st(1,2) seal_frame [OF seal(1), of "''terminal_outbox_records''"] seal_frame [OF seal(1), of "''outbox_effect_tombstones''"]
    by auto
qed

subsection \<open>The other operations leave the settled effects alone\<close>

definition working_members :: "string set" where
  "working_members = {''operation_receipts'', ''next_operation_receipt_sequence'', ''pending_outbox_intents'',
     ''migration_audit_records'', ''execution_checkpoint_digest''}"

definition keeps :: "json \<Rightarrow> json \<Rightarrow> bool" where
  "keeps v v' \<longleftrightarrow> (\<forall>k. k \<notin> working_members \<longrightarrow> jindex v' k = jindex v k)"

lemma keeps_refl [simp]: "keeps v v"
  by (simp add: keeps_def)

lemma keeps_trans [trans]: "keeps v w \<Longrightarrow> keeps w u \<Longrightarrow> keeps v u"
  by (simp add: keeps_def)

lemma keeps_jput: "k \<in> working_members \<Longrightarrow> keeps v (jput k x v)"
  by (cases v) (auto simp: keeps_def jput_def jindex_def jget_def)

lemma keeps_step:
  "seal_checkpoint C v = Ok v' \<Longrightarrow> keeps v v'"
  "rewrite_producer_event_reference v e t = Ok v' \<Longrightarrow> keeps v v'"
  "synchronize_internal_mailbox_references v = Ok v' \<Longrightarrow> keeps v v'"
  "extend_audits audits v = Ok v' \<Longrightarrow> keeps v v'"
  by (auto simp: seal_checkpoint_def rewrite_producer_event_reference_def
        synchronize_internal_mailbox_references_def extend_audits_def obind_Ok_iff Let_def working_members_def
      intro!: keeps_jput keeps_trans [OF keeps_jput keeps_jput] split: if_split_asm)

lemma keeps_member:
  "allocate_field v k = Ok (v', s) \<Longrightarrow> k \<in> working_members \<Longrightarrow> keeps v v'"
  "push_member k x v = Ok v' \<Longrightarrow> k \<in> working_members \<Longrightarrow> keeps v v'"
  by (auto simp: allocate_field_Ok push_member_Ok intro: keeps_jput)

lemma working_membersI [simp]:
  "''operation_receipts'' \<in> working_members" "''next_operation_receipt_sequence'' \<in> working_members"
  "''pending_outbox_intents'' \<in> working_members"
  by (simp_all add: working_members_def)

text \<open>
  The operations work on a document through a few primitives.  A preorder on documents that these
  respect is respected by the work of every operation.
\<close>

locale document_preorder =
  fixes rel :: "json \<Rightarrow> json \<Rightarrow> bool"
  assumes rel_refl: "rel v v"
    and rel_trans: "rel v w \<Longrightarrow> rel w u \<Longrightarrow> rel v u"
    and rel_seal: "seal_checkpoint C v = Ok v' \<Longrightarrow> rel v v'"
    and rel_rewrite: "rewrite_producer_event_reference v e t = Ok v' \<Longrightarrow> rel v v'"
    and rel_synchronize: "synchronize_internal_mailbox_references v = Ok v' \<Longrightarrow> rel v v'"
    and rel_audits: "extend_audits audits v = Ok v' \<Longrightarrow> rel v v'"
    and rel_allocate: "allocate_field v ''next_operation_receipt_sequence'' = Ok (v', s) \<Longrightarrow> rel v v'"
    and rel_push: "push_member k x v = Ok v' \<Longrightarrow> k \<in> working_members \<Longrightarrow> rel v v'"
begin

lemma ofold_rel:
  assumes "ofold f xs s = Ok s'" "\<And>x s s'. f x s = Ok s' \<Longrightarrow> rel (g s) (g s')"
  shows "rel (g s) (g s')"
  using assms(1) by (induction xs arbitrary: s) (auto simp: obind_Ok_iff rel_refl dest: assms(2) intro: rel_trans)

lemma sequences_rel: "allocate_sequences n v = Ok (v', ss) \<Longrightarrow> rel v v'"
proof (induction n arbitrary: v ss)
  case (Suc n)
  then obtain v1 s ss' where "allocate_field v ''next_operation_receipt_sequence'' = Ok (v1, s)" "allocate_sequences n v1 = Ok (v', ss')"
    by (auto simp: obind_Ok_iff)
  with Suc.IH show ?case by (blast intro: rel_trans rel_allocate)
qed (simp add: rel_refl)

lemma emissions_rel:
  assumes "append_checkpoint_emissions v es ixs ls r = Ok (v', refs)"
  shows "rel v v'"
proof -
  have step: "rel (fst s) (fst s')" if "checkpoint_emission ls r x s = Ok s'" for x s s'
    using that by (cases x; cases s) (auto simp: checkpoint_emission_def obind_Ok_iff Let_def
        intro: rel_refl rel_push split: option.split_asm if_split_asm)
  from assms have "ofold (checkpoint_emission ls r) (zip es ixs) (v, []) = Ok (v', refs)"
    by (simp add: append_checkpoint_emissions_def split: if_split_asm)
  from ofold_rel [of _ _ _ _ fst, OF this step] show ?thesis by simp
qed

lemma lifecycle_rel: "settle_lifecycle core r ds v = Ok v' \<Longrightarrow> rel v v'"
  by (auto simp: settle_lifecycle_def obind_Ok_iff intro: rel_trans [OF rel_push rel_rewrite])

lemma producer_rel: "rewrite_producer_reference v causal t = Ok v' \<Longrightarrow> rel v v'"
  by (auto simp: rewrite_producer_reference_def obind_Ok_iff Let_def intro: rel_refl rel_rewrite split: if_split_asm)

lemma terminal_rel:
  assumes "settle_terminal C causal core r ixs v = Ok v'"
  shows "rel v v'"
proof -
  from assms obtain v1 s lifecycle v2 ss es v3 refs v4 v5 v6 where
    "allocate_field v ''next_operation_receipt_sequence'' = Ok (v1, s)" "allocate_sequences (length lifecycle) v1 = Ok (v2, ss)"
    "append_checkpoint_emissions v2 es ixs ss r = Ok (v3, refs)"
    "push_member ''operation_receipts'' (terminal_receipt_of causal core s r refs) v3 = Ok v4"
    "rewrite_producer_reference v4 causal s = Ok v5" "ofold (settle_lifecycle core r) (zip lifecycle ss) v5 = Ok v6"
    "seal_checkpoint C v6 = Ok v'"
    by (auto simp: settle_terminal_def obind_Ok_iff)
  moreover from this(6) have "rel v5 v6" by (rule ofold_rel [where g = "\<lambda>v. v"]) (rule lifecycle_rel)
  ultimately show ?thesis
    by (meson rel_trans rel_allocate rel_push sequences_rel emissions_rel producer_rel rel_seal working_membersI)
qed

lemma settled_rel:
  "synchronize_internal_mailbox_references w = Ok v \<Longrightarrow> seal_checkpoint C v = Ok v' \<or> settle_terminal C causal core r ixs v = Ok v' \<Longrightarrow> rel w v'"
  by (meson rel_trans rel_synchronize rel_seal terminal_rel)

lemma accepted_rel:
  assumes "ofold (record_accepted r) xs (w, members) = Ok (v, members')" "seal_checkpoint C v = Ok v'"
  shows "rel w v'"
proof -
  have step: "rel (fst s) (fst s')" if "record_accepted r x s = Ok s'" for x s s'
    using that by (cases x; cases s)
      (auto simp: record_accepted_def obind_Ok_iff Let_def intro: rel_trans [OF rel_allocate rel_push] split: prod.split_asm)
  from ofold_rel [of _ _ _ _ fst, OF assms(1) step] have "rel w v" by simp
  with assms(2) show ?thesis by (meson rel_trans rel_seal)
qed

lemma disposition_rel:
  "dispose_entry r d st entry v = Ok v' \<Longrightarrow> rel v v'" "dispose_migrated r a status disposition v = Ok v' \<Longrightarrow> rel v v'"
  by (auto simp: dispose_entry_def dispose_migrated_def obind_Ok_iff
      intro: rel_trans [OF rel_allocate rel_trans [OF rel_push rel_rewrite]])

lemma disposed_runtime_rel: "dispose_runtime_entries r d st x v = Ok v' \<Longrightarrow> rel v v'"
  by (auto simp: dispose_runtime_entries_def obind_Ok_iff
      intro: rel_trans ofold_rel [where g = "\<lambda>v. v", OF _ disposition_rel(1)])

lemma disposed_runtimes_rel: "ofold (dispose_runtime_entries r d st) rs v = Ok v' \<Longrightarrow> rel v v'"
  by (erule ofold_rel [where g = "\<lambda>v. v"]) (rule disposed_runtime_rel)

lemma disposed_rel: "ofold (dispose_migrated r a status) ds v = Ok v' \<Longrightarrow> rel v v'"
  by (erule ofold_rel [where g = "\<lambda>v. v"]) (rule disposition_rel(2))

lemma migration_rel:
  assumes "apply_transaction_migration C cp migrated = Ok v' \<or>
    apply_checkpoint_migration_v1 C cp migrated operation_id request_digest t = Ok v'"
  obtains r where "incremented (jindex (cp_value cp) ''revision'') = Ok r"
    "rel (put_aggregate (jindex migrated ''aggregate_state'') (jput ''revision'' r (cp_value cp))) v'"
proof -
  note rules = rel_trans disposed_rel rel_audits rel_synchronize rel_seal rel_allocate rel_push working_membersI
  have "\<exists>r. incremented (jindex (cp_value cp) ''revision'') = Ok r \<and>
      rel (put_aggregate (jindex migrated ''aggregate_state'') (jput ''revision'' r (cp_value cp))) v'"
    using assms
  proof
    assume "apply_transaction_migration C cp migrated = Ok v'"
    then show ?thesis
      by (clarsimp simp: apply_transaction_migration_def next_revision_def seal_and_validate_Ok obind_Ok_iff Let_def) (meson rules)
  next
    assume "apply_checkpoint_migration_v1 C cp migrated operation_id request_digest t = Ok v'"
    then show ?thesis
      by (clarsimp simp: apply_checkpoint_migration_v1_def next_revision_def seal_and_validate_Ok obind_Ok_iff Let_def) (meson rules)
  qed
  with that show thesis by blast
qed

end

interpretation keep: document_preorder keeps
proof
  show "push_member k x v = Ok v' \<Longrightarrow> k \<in> working_members \<Longrightarrow> keeps v v'" for k x v v' by (rule keeps_member)
qed (auto intro: keeps_trans keeps_step keeps_member(1))

lemmas keeps_terminal = keep.terminal_rel

text \<open>A commit: one revision more, and nothing of what is settled has changed.\<close>

definition next_of :: "json \<Rightarrow> json \<Rightarrow> bool" where
  "next_of v v' \<longleftrightarrow> (\<exists>c. jcounter (jindex v ''revision'') = Some c \<and> jcounter (jindex v' ''revision'') = Some (Suc c))"

definition same_settled :: "json \<Rightarrow> json \<Rightarrow> bool" where
  "same_settled v v' \<longleftrightarrow> jindex v' ''terminal_outbox_records'' = jindex v ''terminal_outbox_records'' \<and>
     jindex v' ''outbox_effect_tombstones'' = jindex v ''outbox_effect_tombstones'' \<and>
     jindex v' ''event_identity_tombstones'' = jindex v ''event_identity_tombstones''"

lemma keeps_same: "keeps v v' \<Longrightarrow> same_settled v v' \<and> jindex v' ''revision'' = jindex v ''revision''"
  by (simp add: keeps_def working_members_def same_settled_def)

lemma incremented_Ok:
  "incremented j = Ok r \<longleftrightarrow> (\<exists>c. jcounter j = Some c \<and> r = JString (canonical_decimal (Suc c)))"
  by (auto simp: incremented_def obind_Ok_iff jcounter_def bind_eq_Some_conv)

lemma incremented_object: "incremented (jindex v ''revision'') = Ok r \<Longrightarrow> is_object v"
  by (auto simp: incremented_Ok jcounter_object)

lemma revised:
  assumes "incremented (jindex v ''revision'') = Ok r" "keeps (put_aggregate state (jput ''revision'' r v)) v'"
  shows "next_of v v' \<and> same_settled v v'"
  using assms keeps_same [OF assms(2)] incremented_object [OF assms(1)]
  by (auto simp: incremented_Ok next_of_def put_aggregate_def same_settled_def)

lemma keeps_apply_step:
  assumes "apply_step_result C v causal core ixs = Ok v'" "jindex core ''disposition'' \<notin> {JString ''not_runnable'', JString ''rejected''}"
  shows "next_of v v' \<and> same_settled v v'"
proof -
  from assms obtain r v1 where r: "incremented (jindex v ''revision'') = Ok r"
      "synchronize_internal_mailbox_references (put_aggregate (jindex core ''state'') (jput ''revision'' r v)) = Ok v1"
      "seal_checkpoint C v1 = Ok v' \<or> settle_terminal C causal core r ixs v1 = Ok v'"
    by (auto simp: apply_step_result_def obind_Ok_iff split: if_split_asm)
  then have "keeps (put_aggregate (jindex core ''state'') (jput ''revision'' r v)) v'" using keep.settled_rel by blast
  with r(1) show ?thesis by (rule revised)
qed

lemma keeps_admission:
  assumes "admission_value C v members fresh core = Ok (v', members')"
  shows "next_of v v' \<and> same_settled v v'"
proof -
  from assms obtain r v1 where r: "incremented (jindex v ''revision'') = Ok r"
      "ofold (record_accepted r) (zip fresh (jflatten (jindex core ''accepted'')))
        (put_aggregate (jindex core ''state'') (jput ''revision'' r v), members) = Ok (v1, members')" "seal_checkpoint C v1 = Ok v'"
    by (auto simp: admission_value_def obind_Ok_iff)
  from r(1) keep.accepted_rel [OF r(2,3)] show ?thesis by (rule revised)
qed

lemma keeps_tombstone:
  assumes "tombstone_retained C v op = Ok v'"
  shows "next_of v v' \<and> same_settled v v'"
proof -
  from assms obtain r d st rs v1 v2 x where st: "next_revision v = Ok v1" "ofold (dispose_runtime_entries r d st) rs v1 = Ok v2"
      "seal_checkpoint C (jput ''root_record'' x v2) = Ok v'"
    by (auto simp: tombstone_retained_def seal_and_validate_Ok obind_Ok_iff Let_def)
  from st(2) have keep: "keeps v1 v2" by (rule keep.disposed_runtimes_rel)
  from st(3) have "is_object v2" using seal_checkpoint_Ok [OF st(3)] by (auto dest: jarray_object)
  with keeps_same [OF keep] keeps_same [OF keeps_step(1) [OF st(3)]] st(1) show ?thesis
    by (auto simp: next_revision_Ok next_of_def same_settled_def jcounter_object)
qed

lemma keeps_collapse:
  assumes "collapse_process_revision C cp v = Ok v'"
  shows "next_of (cp_value cp) v' \<and> same_settled v v'"
proof -
  from assms obtain r rs ps prior where st: "incremented (jindex (cp_value cp) ''revision'') = Ok r"
      "seal_checkpoint C (jput ''pending_outbox_intents'' ps (jput ''operation_receipts'' rs (jput ''revision'' r v))) = Ok v'"
    by (auto simp: collapse_process_revision_def seal_and_validate_Ok obind_Ok_iff Let_def)
  have obj: "is_object v" using seal_checkpoint_Ok [OF st(2)] by (auto dest: jarray_object)
  have "keeps (jput ''revision'' r v) (jput ''operation_receipts'' rs (jput ''revision'' r v))" by (simp add: keeps_jput)
  also have "keeps \<dots> (jput ''pending_outbox_intents'' ps \<dots>)" by (simp add: keeps_jput)
  also have "keeps \<dots> v'" using st(2) by (rule keeps_step)
  finally show ?thesis using keeps_same st(1) obj by (auto simp: incremented_Ok next_of_def same_settled_def)
qed

lemma keeps_migration:
  "apply_transaction_migration C cp migrated = Ok v' \<Longrightarrow> next_of (cp_value cp) v' \<and> same_settled (cp_value cp) v'"
  "apply_checkpoint_migration_v1 C cp migrated operation_id request_digest t = Ok v' \<Longrightarrow>
     next_of (cp_value cp) v' \<and> same_settled (cp_value cp) v'"
  by (erule keep.migration_rel [OF disjI1], erule (1) revised, erule keep.migration_rel [OF disjI2], erule (1) revised)

end
