(* ===== verification/Checkpoint_Effects.thy ===== *)
theory Checkpoint_Effects
  imports Checkpoint_Spec
begin

text \<open>
  The life of an effect over the operations of a checkpoint: once settled, its outcome is
  settled for good.  Commits of the operations take one revision each, and only with the expected
  revision and digest.
\<close>

section \<open>The steps of a checkpoint\<close>

text \<open>
  The documents that the operations commit, each from the document they are applied to.  Pruning
  is not among them: it drops the records of effects no retained receipt refers to.
\<close>

inductive advances :: "checkpoint_host \<Rightarrow> json \<Rightarrow> json \<Rightarrow> bool" for C where
  adv_update: "checkpoint_update_pending_outbox C cp e st r d = Ok v' \<Longrightarrow> advances C (cp_value cp) v'"
| adv_settle: "checkpoint_terminalize_outbox C cp e out r d = Ok v' \<Longrightarrow> advances C (cp_value cp) v'"
| adv_compact: "checkpoint_compact_outbox C cp e r d = Ok v' \<Longrightarrow> advances C (cp_value cp) v'"
| adv_tombstone: "checkpoint_tombstone_root C cp operation_id r d = Ok v' \<Longrightarrow> advances C (cp_value cp) v'"
| adv_admit: "admission_value C v members fresh core = Ok (v', members') \<Longrightarrow> advances C v v'"
| adv_step: "apply_step_result C v causal core indexes = Ok v' \<Longrightarrow>
    jindex core ''disposition'' \<notin> {JString ''not_runnable'', JString ''rejected''} \<Longrightarrow> advances C v v'"
| adv_collapse: "collapse_process_revision C cp v = Ok v' \<Longrightarrow> advances C v v'"
| adv_transaction: "apply_transaction_migration C cp migrated = Ok v' \<Longrightarrow> advances C (cp_value cp) v'"
| adv_maintenance: "apply_checkpoint_migration_v1 C cp migrated operation_id request_digest t = Ok v' \<Longrightarrow> advances C (cp_value cp) v'"

definition kept_outcome :: "string \<Rightarrow> json \<Rightarrow> json \<Rightarrow> bool" where
  "kept_outcome e out v \<longleftrightarrow> jarray (jindex v ''terminal_outbox_records'') \<noteq> None \<and> effect_outcome v e = Some out"

lemma kept_outcome_same: "same_settled v v' \<Longrightarrow> kept_outcome e out v \<Longrightarrow> kept_outcome e out v'"
  using effect_outcome_cong [of v' v e] by (simp add: kept_outcome_def same_settled_def)

lemma same_settled_refl [simp]: "same_settled v v"
  by (simp add: same_settled_def)

lemma jflatten_JArray [simp]: "jflatten (JArray xs) = xs"
  by (simp add: jflatten_def)

lemma jflatten_array: "jarray j = Some xs \<Longrightarrow> jflatten j = xs"
  by (simp add: jflatten_def)

lemma kept_outcome_settle:
  assumes "terminalize_pending C v e out = Ok v'"
  shows "kept_outcome e (outcome_json out) v'" and "kept_outcome e' out' v \<Longrightarrow> kept_outcome e' out' v'"
proof -
  from terminalize_pending_Ok [OF assms] obtain rec terminals where
    t: "jarray (jindex v ''terminal_outbox_records'') = Some terminals"
      "jindex v' ''terminal_outbox_records'' = JArray (terminals @ [rec])" "has_effect e rec" "jindex rec ''outcome'' = outcome_json out"
      "jindex v' ''outbox_effect_tombstones'' = jindex v ''outbox_effect_tombstones''" "validate_semantics C v' = Ok ()" by blast
  note settled = settled_effect_outcome [OF validated_effects_distinct [OF t(6)]]
  have "settled_as v' e (outcome_json out)" using t(2-4) by (auto simp: settled_as_def)
  with settled t(2) show "kept_outcome e (outcome_json out) v'" by (simp add: kept_outcome_def)
  show "kept_outcome e' out' v'" if "kept_outcome e' out' v"
  proof -
    from that have "settled_as v e' out'" by (simp add: kept_outcome_def effect_outcome_settled)
    then have "settled_as v' e' out'" using t(1,2,5) by (auto simp: settled_as_def jflatten_array)
    with settled t(2) show ?thesis by (simp add: kept_outcome_def)
  qed
qed

lemma kept_outcome_compact:
  assumes "compact_terminal C cp cs e = Ok v'" "jarray (jindex (cp_value cp) ''outbox_effect_tombstones'') = Some cs"
    "kept_outcome e' out' (cp_value cp)"
  shows "kept_outcome e' out' v'"
proof -
  from compact_terminal_Ok [OF assms(1)] obtain terminals i d cs' where
    t: "jarray (jindex (cp_value cp) ''terminal_outbox_records'') = Some terminals" "position (has_effect e) terminals = Some i"
      "jindex v' ''terminal_outbox_records'' = JArray (remove_at i terminals)" "jindex v' ''outbox_effect_tombstones'' = JArray cs'"
      "mset cs' = add_mset (effect_tombstone (terminals ! i) e d) (mset cs)" "validate_semantics C v' = Ok ()" by blast
  have i: "i < length terminals" "has_effect e (terminals ! i)" using position_SomeD [OF t(2)] by auto
  have cs': "set cs' = insert (effect_tombstone (terminals ! i) e d) (set cs)" using arg_cong [OF t(5), of set_mset] by simp
  have "settled_as v' e' out'"
  proof (cases "find (has_effect e') terminals")
    case None
    with assms(3) t(1) obtain rec where "find (has_tombstone_effect e') cs = Some rec" "jindex rec ''outcome'' = out'"
      by (auto simp: kept_outcome_def effect_outcome_def jflatten_array assms(2))
    then show ?thesis unfolding settled_as_def using t(4) cs' by (auto simp: find_Some_iff)
  next
    case (Some rec)
    with assms(3) t(1) have out': "jindex rec ''outcome'' = out'" by (simp add: kept_outcome_def effect_outcome_def jflatten_array)
    show ?thesis
    proof (cases "e' = e")
      case True
      with Some t(2) have "rec = terminals ! i" by (simp add: find_eq_position)
      with True out' show ?thesis unfolding settled_as_def using t(4) cs'
        by (auto simp: has_tombstone_effect_def tombstone_effect_def effect_tombstone_def)
    next
      case False
      with Some i have "rec \<noteq> terminals ! i" "rec \<in> set terminals" "has_effect e' rec" by (auto simp: find_Some_iff has_effect_def)
      with set_remove_at [OF i(1)] out' t(3) show ?thesis unfolding settled_as_def by auto
    qed
  qed
  from settled_effect_outcome [OF validated_effects_distinct [OF t(6)] this] t(3) show ?thesis by (simp add: kept_outcome_def)
qed

lemma update_pending_revised:
  assumes "checkpoint_update_pending_outbox C cp e st r d = Ok v'"
  shows "v' = cp_value cp \<or> checkpoint_guard cp r d = Ok () \<and> next_of (cp_value cp) v'" and "same_settled (cp_value cp) v'"
proof -
  from assms consider "v' = cp_value cp"
    | x v1 where "checkpoint_guard cp r d = Ok ()" "next_revision (cp_value cp) = Ok v1" "seal_checkpoint C (jput ''pending_outbox_intents'' x v1) = Ok v'"
    by (auto simp: checkpoint_update_pending_outbox_def seal_and_validate_Ok obind_Ok_iff split: if_split_asm)
  then have "(v' = cp_value cp \<or> checkpoint_guard cp r d = Ok () \<and> next_of (cp_value cp) v') \<and> same_settled (cp_value cp) v'"
  proof cases
    case 2
    then have "keeps v1 v'" by (meson keeps_trans keeps_step keeps_jput working_membersI)
    with 2 keeps_same [of v1 v'] show ?thesis by (auto simp: next_revision_Ok next_of_def same_settled_def jcounter_object)
  qed simp
  then show "v' = cp_value cp \<or> checkpoint_guard cp r d = Ok () \<and> next_of (cp_value cp) v'" "same_settled (cp_value cp) v'" by auto
qed

lemma advances_keeps_outcome:
  assumes "advances C v v'" "kept_outcome e out v"
  shows "kept_outcome e out v'"
  using assms
proof cases
  case (adv_update cp e' st r d)
  then have "same_settled v v'" using update_pending_revised by blast
  then show ?thesis using assms(2) by (rule kept_outcome_same)
next
  case (adv_settle cp e' out' r d)
  then have "v' = v \<or> terminalize_pending C v e' out' = Ok v'"
    by (auto simp: checkpoint_terminalize_outbox_def same_outcome_def obind_Ok_iff split: option.split_asm if_split_asm)
  then show ?thesis using assms(2) kept_outcome_settle(2) by blast
next
  case (adv_compact cp e' r d)
  then have "v' = v \<or> (\<exists>cs. compact_terminal C cp cs e' = Ok v' \<and> jarray (jindex (cp_value cp) ''outbox_effect_tombstones'') = Some cs)"
    by (auto simp: checkpoint_compact_outbox_def obind_Ok_iff split: if_split_asm)
  then show ?thesis using assms(2) adv_compact(1) kept_outcome_compact by blast
next
  case (adv_tombstone cp op r d)
  then have "v' = v \<or> tombstone_retained C v op = Ok v'"
    by (auto simp: checkpoint_tombstone_root_def obind_Ok_iff split: if_split_asm)
  then have "same_settled v v'" using keeps_tombstone same_settled_refl by blast
  then show ?thesis using assms(2) by (rule kept_outcome_same)
qed (use assms(2) in \<open>blast intro: kept_outcome_same dest: keeps_admission keeps_apply_step keeps_collapse keeps_migration\<close>)+

lemma advances_star_keeps_outcome: "(advances C)\<^sup>*\<^sup>* v v' \<Longrightarrow> kept_outcome e out v \<Longrightarrow> kept_outcome e out v'"
  by (induction rule: rtranclp_induct) (auto intro: advances_keeps_outcome)

lemma terminalize_outcome:
  assumes "checkpoint_terminalize_outbox C cp e out r d = Ok v"
  shows "kept_outcome e (outcome_json out) v"
proof -
  from assms obtain terminals where t: "jarray (jindex (cp_value cp) ''terminal_outbox_records'') = Some terminals"
    by (auto simp: checkpoint_terminalize_outbox_def obind_Ok_iff)
  consider (again) "v = cp_value cp" "effect_outcome (cp_value cp) e = Some (outcome_json out)"
    | (settled) "terminalize_pending C (cp_value cp) e out = Ok v"
  proof (cases "effect_outcome (cp_value cp) e")
    case None
    with t have "find (has_effect e) terminals = None"
        "find (has_tombstone_effect e) (jflatten (jindex (cp_value cp) ''outbox_effect_tombstones'')) = None"
      by (simp_all add: effect_outcome_def jflatten_array split: option.split_asm)
    with assms t show ?thesis by (intro settled) (auto simp: checkpoint_terminalize_outbox_def obind_Ok_iff jflatten_array)
  next
    case (Some out0)
    with assms t show ?thesis
      by (intro again) (auto simp: checkpoint_terminalize_outbox_def same_outcome_def obind_Ok_iff effect_outcome_def jflatten_array
        split: option.split_asm if_split_asm)
  qed
  then show ?thesis
  proof cases
    case again
    with t show ?thesis by (simp add: kept_outcome_def)
  qed (rule kept_outcome_settle(1))
qed

lemma outcome_json_inject [simp]: "outcome_json a = outcome_json b \<longleftrightarrow> a = b"
  by (cases a; cases b) (auto simp: tagged_reason_def jobj_def jmembers_def)

lemma terminalize_settled:
  assumes "kept_outcome e (outcome_json out) (cp_value cp)"
  shows "checkpoint_terminalize_outbox C cp e out' r d = (if out' = out then Ok (cp_value cp) else Err ''effect_id_conflict'')"
proof -
  from assms obtain terminals where t: "jarray (jindex (cp_value cp) ''terminal_outbox_records'') = Some terminals"
    by (auto simp: kept_outcome_def)
  show ?thesis
  proof (cases "find (has_effect e) terminals")
    case None
    with assms t obtain rec where c: "find (has_tombstone_effect e) (jflatten (jindex (cp_value cp) ''outbox_effect_tombstones'')) = Some rec"
        "jindex rec ''outcome'' = outcome_json out"
      by (auto simp: kept_outcome_def effect_outcome_def jflatten_array)
    then obtain cs where cs: "jarray (jindex (cp_value cp) ''outbox_effect_tombstones'') = Some cs"
      by (auto simp: jflatten_def split: option.split_asm)
    with c None t show ?thesis by (auto simp: checkpoint_terminalize_outbox_def need_array_def same_outcome_def jflatten_array)
  next
    case (Some rec)
    with assms t show ?thesis
      by (auto simp: checkpoint_terminalize_outbox_def need_array_def same_outcome_def kept_outcome_def effect_outcome_def jflatten_array)
  qed
qed

text \<open>
  C18: An effect is settled once and for all.  After it was settled with an outcome, whatever
  operations other than pruning the checkpoint goes through, settling it again with the same
  outcome returns the checkpoint unchanged and settling it with any other outcome is refused as
  a conflict.
\<close>

theorem effect_settled_for_good:
  assumes "checkpoint_terminalize_outbox C cp e out r d = Ok v" and "(advances C)\<^sup>*\<^sup>* v (cp_value cp')"
  shows "checkpoint_terminalize_outbox C cp' e out' r' d' = (if out' = out then Ok (cp_value cp') else Err ''effect_id_conflict'')"
  using terminalize_settled [OF advances_star_keeps_outcome [OF assms(2) terminalize_outcome [OF assms(1)]]] .

section \<open>Commits\<close>

text \<open>
  Documents that the operations of this and the earlier theories commit when the caller expects a
  revision and a digest; \<^verbatim>\<open>Host_Results\<close> adds batches and migrations.  Replays, which return the
  document or earlier evidence as it is, are no commits.
\<close>

inductive commits :: "checkpoint_host \<Rightarrow> execution_checkpoint \<Rightarrow> string option \<Rightarrow> string option \<Rightarrow> json \<Rightarrow> bool" for C cp r d where
  commit_update: "checkpoint_update_pending_outbox C cp e st r d = Ok v \<Longrightarrow> v \<noteq> cp_value cp \<Longrightarrow> commits C cp r d v"
| commit_settle: "checkpoint_terminalize_outbox C cp e out r d = Ok v \<Longrightarrow> v \<noteq> cp_value cp \<Longrightarrow> commits C cp r d v"
| commit_compact: "checkpoint_compact_outbox C cp e r d = Ok v \<Longrightarrow> v \<noteq> cp_value cp \<Longrightarrow> commits C cp r d v"
| commit_tombstone: "checkpoint_tombstone_root C cp operation_id r d = Ok v \<Longrightarrow> v \<noteq> cp_value cp \<Longrightarrow> commits C cp r d v"
| commit_prune: "checkpoint_prune_v1 C cp rq r d = Ok v \<Longrightarrow> v \<noteq> cp_value cp \<Longrightarrow> commits C cp r d v"
| commit_admission: "admit_new C B cp sc r d = Ok v \<Longrightarrow> is_checkpoint v \<Longrightarrow> commits C cp r d v"
| commit_step: "checkpoint_step_v1_with_core C n B cp rq r d = Ok (v, Some core) \<Longrightarrow>
    jindex core ''disposition'' \<notin> {JString ''not_runnable'', JString ''rejected''} \<Longrightarrow> commits C cp r d v"
| commit_process: "checkpoint_process_resolved C n B cp delivery mode r d R = Ok (v, Some core) \<Longrightarrow>
    jindex core ''disposition'' \<notin> {JString ''not_runnable'', JString ''rejected''} \<Longrightarrow> is_checkpoint v \<Longrightarrow> commits C cp r d v"

lemma seal_and_validate_revision:
  "seal_and_validate_checkpoint C v = Ok v' \<Longrightarrow> jindex v' ''revision'' = jindex v ''revision''"
  by (auto simp: seal_and_validate_Ok dest!: keeps_step(1) keeps_same)

lemma terminalize_pending_revised:
  assumes "terminalize_pending C v e out = Ok v'"
  shows "next_of v v'"
proof -
  from assms obtain x v1 v3 s t v4 where st: "next_revision v = Ok v1"
      "allocate_field (jput ''pending_outbox_intents'' x v1) ''next_outbox_terminal_sequence'' = Ok (v3, s)"
      "push_member ''terminal_outbox_records'' t v3 = Ok v4" "seal_and_validate_checkpoint C v4 = Ok v'"
    by (auto simp: terminalize_pending_def obind_Ok_iff Let_def)
  with seal_and_validate_revision [OF st(4)] push_member_frame [OF st(3), of "''revision''"] allocate_field_frame [OF st(2), of "''revision''"]
  show ?thesis by (auto simp: next_revision_Ok next_of_def jcounter_object)
qed

lemma compact_terminal_revised:
  assumes "compact_terminal C cp cs e = Ok v'"
  shows "next_of (cp_value cp) v'"
proof -
  from assms obtain x y v1 where st: "next_revision (cp_value cp) = Ok v1"
      "seal_and_validate_checkpoint C (jput ''outbox_effect_tombstones'' x (jput ''terminal_outbox_records'' y v1)) = Ok v'"
    by (auto simp: compact_terminal_def obind_Ok_iff Let_def)
  with seal_and_validate_revision [OF st(2)] show ?thesis by (auto simp: next_revision_Ok next_of_def jcounter_object)
qed

lemma prune_receipts_revised:
  assumes "prune_receipts C v rq receipts removable = Ok v'"
  shows "next_of v v'"
proof -
  from assms obtain a b c ts x v6 where st:
      "next_revision (jput ''replay_retention'' x (jput ''event_identity_tombstones'' ts (jput ''outbox_effect_tombstones'' c
         (jput ''terminal_outbox_records'' b (jput ''operation_receipts'' a v))))) = Ok v6"
      "seal_and_validate_checkpoint C v6 = Ok v'"
    by (auto simp: prune_receipts_def obind_Ok_iff Let_def)
  then have "is_object v" by (auto simp: next_revision_Ok dest: jcounter_object)
  with st seal_and_validate_revision [OF st(2)] show ?thesis by (auto simp: next_revision_Ok next_of_def)
qed

lemma batch_no_checkpoint [simp]: "\<not> is_checkpoint (batch_result v ms)"
  by (simp add: is_checkpoint_def batch_result_def)

lemma admission_result_checkpoint: "is_checkpoint (admission_result vm) \<Longrightarrow> admission_result vm = fst vm"
  by (auto simp: admission_result_def split: list.split_asm option.split_asm if_split_asm)

lemma process_admitted_revised:
  assumes "process_admitted C n B cp e R w = Ok (v, Some core)"
    "jindex core ''disposition'' \<notin> {JString ''not_runnable'', JString ''rejected''}" "is_checkpoint v"
  shows "next_of (cp_value cp) v"
proof -
  from assms(1) obtain stepped where "is_checkpoint stepped \<and> collapse_process_revision C cp stepped = Ok v \<or> \<not> is_checkpoint stepped \<and> v = stepped"
    by (auto simp: process_admitted_def obind_Ok_iff split: if_split_asm)
  with assms(3) show ?thesis using keeps_collapse by blast
qed

lemmas operation_defs = checkpoint_update_pending_outbox_def checkpoint_terminalize_outbox_def checkpoint_compact_outbox_def
  checkpoint_tombstone_root_def checkpoint_prune_v1_def admit_new_def checkpoint_step_v1_with_core_def checkpoint_process_resolved_def

lemma commits_revised:
  assumes "commits C cp r d v"
  shows "checkpoint_guard cp r d = Ok () \<and> next_of (cp_value cp) v"
  using assms
proof cases
  case (commit_update e st)
  then show ?thesis using update_pending_revised(1) by blast
next
  case (commit_settle e out)
  then have "checkpoint_guard cp r d = Ok () \<and> terminalize_pending C (cp_value cp) e out = Ok v"
    by (auto simp: operation_defs same_outcome_def obind_Ok_iff split: option.split_asm if_split_asm)
  then show ?thesis using terminalize_pending_revised by blast
next
  case (commit_compact e)
  then have "checkpoint_guard cp r d = Ok () \<and> (\<exists>cs. compact_terminal C cp cs e = Ok v)"
    by (auto simp: operation_defs obind_Ok_iff split: if_split_asm)
  then show ?thesis using compact_terminal_revised by blast
next
  case (commit_tombstone op)
  then have "checkpoint_guard cp r d = Ok () \<and> tombstone_retained C (cp_value cp) op = Ok v"
    by (auto simp: operation_defs obind_Ok_iff split: if_split_asm)
  then show ?thesis using keeps_tombstone by blast
next
  case (commit_prune rq)
  then have "checkpoint_guard cp r d = Ok () \<and> (\<exists>rs ds. prune_receipts C (cp_value cp) rq rs ds = Ok v)"
    by (auto simp: operation_defs Let_def obind_Ok_iff split: if_split_asm)
  then show ?thesis using prune_receipts_revised by blast
next
  case (commit_admission B sc)
  then obtain core vm where "checkpoint_guard cp r d = Ok ()" "admission_value C (cp_value cp) (sc_members sc) (sc_fresh sc) core = Ok vm"
      "v = admission_result vm"
    by (auto simp: operation_defs obind_Ok_iff split: if_split_asm)
  with commit_admission(2) admission_result_checkpoint [of vm] show ?thesis by (cases vm) (auto dest: keeps_admission)
next
  case (commit_step n B rq core)
  then have "checkpoint_guard cp r d = Ok () \<and> (\<exists>causal ixs. apply_step_result C (cp_value cp) causal core ixs = Ok v)"
    by (auto simp: operation_defs obind_Ok_iff split: option.split_asm if_split_asm)
  then show ?thesis using commit_step(2) keeps_apply_step by blast
next
  case (commit_process n B delivery mode R core)
  then have "checkpoint_guard cp r d = Ok () \<and> (\<exists>e w. process_admitted C n B cp e R w = Ok (v, Some core))"
    by (auto simp: operation_defs obind_Ok_iff split: option.split_asm if_split_asm)
  then show ?thesis using commit_process(2,3) process_admitted_revised by blast
qed

end
