(* ===== verification/Checkpoint_Events.thy ===== *)
theory Checkpoint_Events
  imports Checkpoint_Spec
begin

text \<open>
  The receipts of a checkpoint and what a step adds to them: the receipt of the event it settled,
  found again by the same request, and behind it those of the events it disposed of.
\<close>

section \<open>Receipts up to where their emissions are\<close>

lemma jindex_body [simp]: "k \<noteq> ''emission_references'' \<Longrightarrow> jindex (receipt_body r) k = jindex r k"
  by (cases r) (auto simp: receipt_body_def jremove_def jindex_def jget_def)

lemma body_put [simp]: "receipt_body (jput ''emission_references'' x r) = receipt_body r"
proof (cases r)
  case (JObject ms)
  have "bm_remove k (bm_insert k x ms) = bm_remove k ms" for k :: string
    by (induction ms) (auto simp: bm_remove_def)
  with JObject show ?thesis by (simp add: receipt_body_def jremove_def jput_def)
qed (simp_all add: receipt_body_def jremove_def jput_def)

definition bodies :: "json \<Rightarrow> json list option" where
  "bodies v = map_option (map receipt_body) (jarray (jindex v ''operation_receipts''))"

lemma bodies_cong: "jindex v' ''operation_receipts'' = jindex v ''operation_receipts'' \<Longrightarrow> bodies v' = bodies v"
  by (simp add: bodies_def)

lemma body_rewrite [simp]: "receipt_body (rewrite_references e t r) = receipt_body r"
  by (simp add: rewrite_references_def split: option.split)

lemma bodies_rewrite: "rewrite_producer_event_reference v e t = Ok v' \<Longrightarrow> bodies v' = bodies v"
  by (auto simp: rewrite_producer_event_reference_def obind_Ok_iff Let_def bodies_def jarray_object split: if_split_asm)

lemma bodies_producer: "rewrite_producer_reference v causal t = Ok v' \<Longrightarrow> bodies v' = bodies v"
  by (auto simp: rewrite_producer_reference_def obind_Ok_iff Let_def dest: bodies_rewrite split: if_split_asm)

lemma bodies_push: "push_member ''operation_receipts'' r v = Ok v' \<Longrightarrow> \<exists>bs. bodies v = Some bs \<and> bodies v' = Some (bs @ [receipt_body r])"
  by (auto simp: push_member_Ok bodies_def jarray_object)

lemma sync_receipt_body: "sync_receipt m r = Ok r' \<Longrightarrow> receipt_body r' = receipt_body r"
  by (auto simp: sync_receipt_def obind_Ok_iff split: option.split_asm)

lemma bodies_sync:
  assumes "synchronize_internal_mailbox_references v = Ok v'"
  shows "bodies v' = bodies v"
proof -
  from assms obtain m rs rs' where st: "jarray (jindex v ''operation_receipts'') = Some rs"
      "map (sync_receipt m) rs = map Ok rs'" "v' = jput ''operation_receipts'' (JArray rs') v"
    by (auto simp: synchronize_internal_mailbox_references_def obind_Ok_iff collect_outcome_Ok)
  from st(2) have "map receipt_body rs' = map receipt_body rs"
  proof (induction rs arbitrary: rs')
    case (Cons r rs)
    then show ?case by (cases rs') (auto dest: sync_receipt_body)
  qed simp
  with st show ?thesis by (simp add: bodies_def jarray_object)
qed

lemma emissions_receipts:
  assumes "append_checkpoint_emissions v es ixs ls r = Ok (v', refs)"
  shows "jindex v' ''operation_receipts'' = jindex v ''operation_receipts''"
proof -
  have step: "jindex (fst s') ''operation_receipts'' = jindex (fst s) ''operation_receipts''"
    if "checkpoint_emission ls r x s = Ok s'" for x s s'
    using that by (cases x; cases s) (auto simp: checkpoint_emission_def obind_Ok_iff Let_def push_member_frame
        split: option.split_asm if_split_asm)
  from assms have "ofold (checkpoint_emission ls r) (zip es ixs) (v, []) = Ok (v', refs)"
    by (simp add: append_checkpoint_emissions_def split: if_split_asm)
  from ofold_frame [where P = "\<lambda>s. jindex (fst s) ''operation_receipts''", OF step this] show ?thesis by simp
qed

lemma allocate_sequences_Ok:
  "allocate_sequences n v = Ok (v', ss) \<Longrightarrow> jcounter (jindex v ''next_operation_receipt_sequence'') = Some c \<Longrightarrow>
     ss = map canonical_decimal [c..<c + n] \<and> jindex v' ''operation_receipts'' = jindex v ''operation_receipts''"
proof (induction n arbitrary: v c ss)
  case (Suc n)
  then obtain v1 s ss' where st: "allocate_field v ''next_operation_receipt_sequence'' = Ok (v1, s)" "allocate_sequences n v1 = Ok (v', ss')" "ss = s # ss'"
    by (auto simp: obind_Ok_iff)
  have v1: "jcounter (jindex v1 ''next_operation_receipt_sequence'') = Some (Suc c)" "s = canonical_decimal c"
      "jindex v1 ''operation_receipts'' = jindex v ''operation_receipts''"
    using st(1) Suc.prems(2) jcounter_object [OF Suc.prems(2)] by (auto simp: allocate_field_Ok)
  have "[c..<c + Suc n] = c # [Suc c..<Suc c + n]" by (simp add: upt_conv_Cons del: upt_Suc)
  with Suc.IH [OF st(2) v1(1)] v1(2,3) st(3) show ?case by (simp del: upt_Suc)
qed simp

text \<open>In a list sorted by a key, the first that satisfies a condition is the one of least key.\<close>

lemma sort_by_field_in_order:
  assumes "sort_by_field key js = Ok js'" "2 \<le> length js"
  shows "sorted_wrt (\<lambda>x y. \<exists>a b. key x = Ok a \<and> key y = Ok b \<and> a \<le> b) js'"
proof -
  from assms obtain ks where ks: "map (\<lambda>j. obind (key j) (\<lambda>k. Ok (k, j))) js = map Ok ks" and js': "js' = map snd (sort_key fst ks)"
    by (auto simp: sort_by_field_def obind_Ok_iff collect_outcome_Ok)
  have keys: "key (snd k) = Ok (fst k)" if k: "k \<in> set ks" for k
  proof -
    from k have "Ok k \<in> (\<lambda>j. obind (key j) (\<lambda>k. Ok (k, j))) ` set js"
      using arg_cong [OF ks, of set] by auto
    then show ?thesis by (auto simp: obind_Ok_iff dest!: sym [of "Ok k"])
  qed
  have "sorted (map fst (sort_key fst ks))" by simp
  then have "sorted_wrt (\<lambda>x y. fst x \<le> fst y) (sort_key fst ks)" by (simp add: sorted_map)
  then have "sorted_wrt (\<lambda>x y. \<exists>a b. key (snd x) = Ok a \<and> key (snd y) = Ok b \<and> a \<le> b) (sort_key fst ks)"
    by (rule sorted_wrt_mono_rel [rotated]) (use keys in auto)
  then show ?thesis unfolding js' by (simp add: sorted_wrt_map)
qed

lemma sort_by_field_find:
  assumes sort: "sort_by_field key js = Ok js'" and x: "x \<in> set js" "p x"
    and least: "\<And>y. y \<in> set js \<Longrightarrow> p y \<Longrightarrow> y = x \<or> (\<exists>a b. key x = Ok a \<and> key y = Ok b \<and> a < b)"
  shows "find p js' = Some x"
proof -
  have set_eq: "set js' = set js" using arg_cong [OF sort_by_field_mset [OF sort], of set_mset] by simp
  obtain y where y: "find p js' = Some y" using x set_eq by (cases "find p js'") (auto simp: find_None_iff)
  then obtain j where j: "j < length js'" "p (js' ! j)" "y = js' ! j" "\<forall>i < j. \<not> p (js' ! i)" by (auto simp: find_Some_iff)
  show ?thesis
  proof (cases "y = x")
    case False
    have "y \<in> set js" using j set_eq by (metis nth_mem)
    with least [of y] j False obtain a b where ab: "key x = Ok a" "key y = Ok b" "a < b" by auto
    from x set_eq obtain i where i: "i < length js'" "js' ! i = x" by (metis in_set_conv_nth)
    with j x False have "j < i" by (metis linorder_neqE_nat)
    moreover have "length js' = length js" using sort_by_field_mset [OF sort] by (rule mset_eq_length)
    ultimately have "2 \<le> length js" using i(1) by linarith
    from sort_by_field_in_order [OF sort this] \<open>j < i\<close> i j have "\<exists>a b. key y = Ok a \<and> key x = Ok b \<and> a \<le> b"
      by (auto simp: sorted_wrt_iff_nth_less)
    with ab show ?thesis by auto
  qed (use y in simp)
qed

section \<open>An event is processed once\<close>

lemma is_terminal_of_body: "is_terminal_of e (receipt_body r) \<longleftrightarrow> is_terminal_of e r"
  by (simp add: is_terminal_of_def)

lemma lifecycle_bodies:
  "ofold (settle_lifecycle core r) (zip ds ss) v = Ok v' \<Longrightarrow> bodies v = Some bs \<Longrightarrow>
     \<exists>ls. bodies v' = Some (bs @ ls) \<and> (\<forall>l \<in> set ls. \<exists>s \<in> set ss. jindex l ''receipt_sequence'' = JString s)"
proof (induction ds ss arbitrary: v bs rule: list_induct2')
  case (4 d ds s ss)
  then obtain v1 where st: "settle_lifecycle core r (d, s) v = Ok v1" "ofold (settle_lifecycle core r) (zip ds ss) v1 = Ok v'"
    by (auto simp: obind_Ok_iff)
  then have "\<exists>w. push_member ''operation_receipts'' (lifecycle_receipt d s r (jindex (jindex core ''state'') ''aggregate_state_digest'')
       (jindex core ''status'')) v = Ok w \<and> bodies v1 = bodies w"
    by (auto simp: settle_lifecycle_def obind_Ok_iff dest: bodies_rewrite)
  with 4(3) obtain l where l: "bodies v1 = Some (bs @ [l])" "jindex l ''receipt_sequence'' = JString s"
    by (auto simp: lifecycle_receipt_def dest!: bodies_push)
  from 4(1) [OF st(2) l(1)] l(2) show ?case by fastforce
qed auto

text \<open>The receipts of a settled step: the earlier ones, the receipt of the event, and those of disposed events behind it.\<close>

lemma settle_terminal_receipts:
  assumes "settle_terminal C causal core r ixs v = Ok v'" "bodies v = Some bs"
  obtains w t ls c s refs where "seal_checkpoint C w = Ok v'" "bodies w = Some (bs @ t # ls)"
    "jcounter (jindex t ''receipt_sequence'') = Some c"
    "\<forall>l \<in> set ls. \<exists>c'. c < c' \<and> jcounter (jindex l ''receipt_sequence'') = Some c'"
    "t = receipt_body (terminal_receipt_of causal core s r refs)"
proof -
  from assms(1) obtain v1 s lifecycle v2 ss es v3 refs v4 v5 v6 where st:
    "allocate_field v ''next_operation_receipt_sequence'' = Ok (v1, s)" "allocate_sequences (length lifecycle) v1 = Ok (v2, ss)"
    "append_checkpoint_emissions v2 es ixs ss r = Ok (v3, refs)"
    "push_member ''operation_receipts'' (terminal_receipt_of causal core s r refs) v3 = Ok v4"
    "rewrite_producer_reference v4 causal s = Ok v5" "ofold (settle_lifecycle core r) (zip lifecycle ss) v5 = Ok v6"
    "seal_checkpoint C v6 = Ok v'"
    by (auto simp: settle_terminal_def obind_Ok_iff)
  from st(1) obtain c where c: "s = canonical_decimal c" "jcounter (jindex v1 ''next_operation_receipt_sequence'') = Some (Suc c)"
      "jindex v1 ''operation_receipts'' = jindex v ''operation_receipts''"
    by (auto simp: allocate_field_Ok jcounter_object)
  from allocate_sequences_Ok [OF st(2) c(2)] c(3) emissions_receipts [OF st(3)] assms(2)
  have ss: "ss = map canonical_decimal [Suc c..<Suc c + length lifecycle]" and b3: "bodies v3 = Some bs"
    by (simp_all add: bodies_def)
  from bodies_push [OF st(4)] b3 bodies_producer [OF st(5)]
  have b5: "bodies v5 = Some (bs @ [receipt_body (terminal_receipt_of causal core s r refs)])" by auto
  from lifecycle_bodies [OF st(6) b5] obtain ls where ls: "bodies v6 = Some (bs @ receipt_body (terminal_receipt_of causal core s r refs) # ls)"
      "\<forall>l \<in> set ls. \<exists>s \<in> set ss. jindex l ''receipt_sequence'' = JString s" by auto
  from ls(2) have "\<forall>l \<in> set ls. \<exists>c'. c < c' \<and> jcounter (jindex l ''receipt_sequence'') = Some c'"
    unfolding ss by (fastforce simp del: upt_Suc)
  moreover have "jcounter (jindex (receipt_body (terminal_receipt_of causal core s r refs)) ''receipt_sequence'') = Some c"
    by (simp add: terminal_receipt_of_def c(1))
  ultimately show thesis using that st(7) ls(1) by blast
qed

lemma jindex_body_cong: "receipt_body x = receipt_body y \<Longrightarrow> k \<noteq> ''emission_references'' \<Longrightarrow> jindex x k = jindex y k"
  by (metis jindex_body)

lemma settle_terminal_replay:
  assumes settle: "settle_terminal C causal core r ixs v = Ok v'" and b: "bodies v = Some bs"
    and new: "\<forall>b \<in> set bs. \<not> is_terminal_of e b" and e: "jstr (jindex (jindex causal ''envelope'') ''event_id'') = Some e"
  obtains rs t s refs where "jarray (jindex v' ''operation_receipts'') = Some rs" "find (is_terminal_of e) rs = Some t"
    "receipt_body t = receipt_body (terminal_receipt_of causal core s r refs)"
proof -
  obtain w t ls c s refs where
    w: "seal_checkpoint C w = Ok v'" "bodies w = Some (bs @ t # ls)" "jcounter (jindex t ''receipt_sequence'') = Some c"
      "\<forall>l \<in> set ls. \<exists>c'. c < c' \<and> jcounter (jindex l ''receipt_sequence'') = Some c'"
      "t = receipt_body (terminal_receipt_of causal core s r refs)"
    by (rule settle_terminal_receipts [OF settle b]) blast
  obtain us us' where us: "jarray (jindex w ''operation_receipts'') = Some us"
      "jarray (jindex v' ''operation_receipts'') = Some us'" "sort_by_field (\<lambda>r. counter_field r ''receipt_sequence'') us = Ok us'"
    by (rule seal_receipts [OF w(1)]) blast
  from w(2) us(1) have "map receipt_body us = bs @ t # ls" by (simp add: bodies_def)
  then obtain xs x ys where split: "us = xs @ x # ys" "map receipt_body xs = bs" "receipt_body x = t" "map receipt_body ys = ls"
    by (auto simp: map_eq_append_conv map_eq_Cons_conv)
  have "is_terminal_of e t" unfolding w(5) by (simp add: is_terminal_of_body is_terminal_of_def terminal_receipt_of_def e)
  then have px: "is_terminal_of e x" using split(3) is_terminal_of_body by blast
  have cx: "jcounter (jindex x ''receipt_sequence'') = Some c" using w(3) unfolding split(3) [symmetric] by simp
  have least: "y = x \<or> (\<exists>a b. counter_field x ''receipt_sequence'' = Ok a \<and> counter_field y ''receipt_sequence'' = Ok b \<and> a < b)"
    if y: "y \<in> set us" "is_terminal_of e y" for y
  proof -
    from y(1) split(1) consider "y \<in> set xs" | "y = x" | "y \<in> set ys" by auto
    then show ?thesis
    proof cases
      case 1
      then have "receipt_body y \<in> set bs" using split(2) by auto
      with new y(2) is_terminal_of_body show ?thesis by blast
    next
      case 3
      then have "receipt_body y \<in> set ls" using split(4) by auto
      with w(4) obtain c' where "c < c'" "jcounter (jindex (receipt_body y) ''receipt_sequence'') = Some c'" by blast
      with cx show ?thesis by (auto simp: counter_field_Ok)
    qed simp
  qed
  have "find (is_terminal_of e) us' = Some x"
    by (rule sort_by_field_find [where p = "is_terminal_of e", OF us(3) _ px]) (use split(1) least in auto)
  with us(2) split(3) w(5) that show thesis by blast
qed

lemma put_aggregate_receipts:
  "is_object v \<Longrightarrow> jindex (put_aggregate state (jput ''revision'' r v)) ''operation_receipts'' = jindex v ''operation_receipts''"
  by (simp add: put_aggregate_def)

lemma apply_step_replay:
  assumes step: "apply_step_result C v causal core ixs = Ok v'"
    and settled: "jindex core ''disposition'' \<notin> {JString ''not_runnable'', JString ''rejected'', JString ''deferred''}"
    and none: "jarray (jindex v ''operation_receipts'') = Some receipts" "find (is_terminal_of e) receipts = None"
    and e: "jstr (jindex (jindex causal ''envelope'') ''event_id'') = Some e"
  obtains rs t s refs where "jarray (jindex v' ''operation_receipts'') = Some rs" "find (is_terminal_of e) rs = Some t"
    "receipt_body t = receipt_body (terminal_receipt_of causal core s (jindex v' ''revision'') refs)"
proof -
  from step settled obtain r v1 where st: "incremented (jindex v ''revision'') = Ok r"
      "synchronize_internal_mailbox_references (put_aggregate (jindex core ''state'') (jput ''revision'' r v)) = Ok v1"
      "settle_terminal C causal core r ixs v1 = Ok v'"
    by (auto simp: apply_step_result_def obind_Ok_iff split: if_split_asm)
  have obj: "is_object v" using none(1) by (rule jarray_object)
  have b: "bodies v1 = Some (map receipt_body receipts)"
    using bodies_sync [OF st(2)] put_aggregate_receipts [OF obj] none(1) by (simp add: bodies_def)
  have new: "\<forall>b \<in> set (map receipt_body receipts). \<not> is_terminal_of e b"
    using none(2) by (auto simp: find_None_iff is_terminal_of_body)
  have "keeps (put_aggregate (jindex core ''state'') (jput ''revision'' r v)) v'"
    using keeps_trans [OF keeps_step(3) [OF st(2)] keeps_terminal [OF st(3)]] .
  with obj have "jindex v' ''revision'' = r" by (auto simp: put_aggregate_def dest!: keeps_same)
  with settle_terminal_replay [OF st(3) b new e] that show thesis by blast
qed

lemma step_recorded:
  assumes "checkpoint_step_v1_with_core C n B cp rq r d = Ok (v, Some core)"
    and "jindex core ''disposition'' \<notin> {JString ''not_runnable'', JString ''rejected'', JString ''deferred''}"
  obtains t where "\<And>cp'. cp_value cp' = v \<Longrightarrow> checkpoint_step_replay cp' rq = Ok (Some t)"
    "jindex t ''operation_kind'' = JString ''event_terminal''" "jindex t ''event_id'' = JString (pq_event_id rq)"
    "jindex t ''committed_revision'' = jindex v ''revision''"
    "jindex (jindex t ''outcome'') ''disposition'' = jindex core ''disposition''"
    "t \<in> set (jflatten (jindex v ''operation_receipts''))"
proof -
  from assms(1) obtain causal ixs where st: "checkpoint_step_replay cp rq = Ok None" "is_requested rq causal"
      "apply_step_result C (cp_value cp) causal core ixs = Ok v"
    by (auto simp: checkpoint_step_v1_with_core_def obind_Ok_iff split: option.split_asm if_split_asm)
  from st(1) obtain receipts where rs: "pq_processing_mode rq \<in> {''delayed'', ''foreground''}"
      "jarray (jindex (cp_value cp) ''operation_receipts'') = Some receipts" "find (is_terminal_of (pq_event_id rq)) receipts = None"
    by (auto simp: checkpoint_step_replay_def obind_Ok_iff split: option.split_asm if_split_asm)
  from st(2) have e: "jstr (jindex (jindex causal ''envelope'') ''event_id'') = Some (pq_event_id rq)" by (simp add: is_requested_def)
  obtain us t s refs where t: "jarray (jindex v ''operation_receipts'') = Some us" "find (is_terminal_of (pq_event_id rq)) us = Some t"
      "receipt_body t = receipt_body (terminal_receipt_of causal core s (jindex v ''revision'') refs)"
    by (rule apply_step_replay [OF st(3) assms(2) rs(2,3) e]) blast
  note same = jindex_body_cong [OF t(3)]
  have "checkpoint_step_replay cp' rq = Ok (Some t)" if "cp_value cp' = v" for cp'
    using t(1,2) rs(1) st(2) that same [of "''request_digest''"] same [of "''acceptance_sequence''"] same [of "''final_queue_sequence''"]
    by (simp add: checkpoint_step_replay_def need_array_def is_requested_def terminal_receipt_of_def)
  moreover have "jindex t ''operation_kind'' = JString ''event_terminal''" "jindex t ''event_id'' = JString (pq_event_id rq)"
      "jindex t ''committed_revision'' = jindex v ''revision''"
      "jindex (jindex t ''outcome'') ''disposition'' = jindex core ''disposition''"
    using same e by (simp_all add: terminal_receipt_of_def jstr_Some)
  moreover have "t \<in> set (jflatten (jindex v ''operation_receipts''))" using t(1,2) by (auto simp: jflatten_def find_Some_iff)
  ultimately show thesis by (rule that)
qed

end
