(* ===== verification/Checkpoint_Retention.thy ===== *)
theory Checkpoint_Retention
  imports Checkpoint_Effects Checkpoint_Events
begin

text \<open>
  What a checkpoint retains: the digest of every event identity through pruning, the numbering of
  receipts, and the receipts of the events a tombstoned root had queued.
\<close>

section \<open>Identities of a valid document\<close>

definition is_terminal :: "json \<Rightarrow> bool" where
  "is_terminal receipt \<longleftrightarrow> jindex receipt ''operation_kind'' = JString ''event_terminal''"

definition event_of :: "json \<Rightarrow> string option" where
  "event_of item = jstr (jindex item ''event_id'')"

abbreviation terminal_events :: "receipt_scan \<Rightarrow> string set" where
  "terminal_events st \<equiv> fst ` set (rs_terminal_by_event st)"

lemma bm_has_keys: "bm_has m k \<longleftrightarrow> k \<in> fst ` set m"
  by (simp add: bm_has_iff)

lemma scan_receipt_terminal:
  assumes "scan_receipt revision nxt r st = Ok st'"
  shows "if is_terminal r then \<exists>e. event_of r = Some e \<and> e \<notin> terminal_events st \<and> terminal_events st' = insert e (terminal_events st)
     else terminal_events st' = terminal_events st"
proof -
  from assms obtain sequence st1 effective where
    st: "scan_kind revision r (st\<lparr>rs_sequences := bs_insert sequence (rs_sequences st), rs_prior_sequence := Some sequence\<rparr>) = Ok (st1, effective)"
      "st' = st1\<lparr>rs_prior_revision := effective\<rparr>"
    by (auto simp: scan_receipt_def obind_Ok_iff)
  then show ?thesis
    by (auto simp: scan_kind_def obind_Ok_iff is_terminal_def event_of_def jstr_Some bm_has_keys split: if_split_asm)
qed

lemma scan_terminals:
  "ofold (scan_receipt revision nxt) rs st = Ok st' \<Longrightarrow>
     \<exists>es. map event_of (filter is_terminal rs) = map Some es \<and> distinct es \<and> set es \<inter> terminal_events st = {} \<and>
       terminal_events st' = set es \<union> terminal_events st"
proof (induction rs arbitrary: st)
  case (Cons r rs)
  then obtain st1 where st1: "scan_receipt revision nxt r st = Ok st1" "ofold (scan_receipt revision nxt) rs st1 = Ok st'"
    by (auto simp: obind_Ok_iff)
  from Cons.IH [OF st1(2)] obtain es where es: "map event_of (filter is_terminal rs) = map Some es" "distinct es"
      "set es \<inter> terminal_events st1 = {}" "terminal_events st' = set es \<union> terminal_events st1" by blast
  show ?case
  proof (cases "is_terminal r")
    case True
    with scan_receipt_terminal [OF st1(1)] obtain e where "event_of r = Some e" "e \<notin> terminal_events st"
        "terminal_events st1 = insert e (terminal_events st)" by auto
    with True es show ?thesis by (intro exI [of _ "e # es"]) auto
  next
    case False
    with scan_receipt_terminal [OF st1(1)] es show ?thesis by auto
  qed
qed auto

lemma check_tombstone_key:
  assumes "check_tombstone st mailboxes nxt t s = Ok s'"
  shows "\<exists>e. event_of t = Some e \<and> e \<notin> set (fst s) \<and> set (fst s') = insert e (set (fst s))" "\<exists>e. event_of t = Some e \<and> e \<notin> terminal_events st"
  using assms by (cases s, auto simp: check_tombstone_def Let_def obind_Ok_iff event_of_def bm_has_keys)+

lemma check_tombstones_keys:
  "ofold (check_tombstone st mailboxes nxt) ts s = Ok s' \<Longrightarrow>
     \<exists>ks. map event_of ts = map Some ks \<and> distinct ks \<and> set ks \<inter> set (fst s) = {} \<and> set (fst s') = set ks \<union> set (fst s)"
  by (rule ofold_keys [where proj = "\<lambda>s. set (fst s)" and f = "check_tombstone st mailboxes nxt"]) (rule check_tombstone_key(1))

lemma check_tombstones_terminal:
  "ofold (check_tombstone st mailboxes nxt) ts s = Ok s' \<Longrightarrow> t \<in> set ts \<Longrightarrow> \<exists>e. event_of t = Some e \<and> e \<notin> terminal_events st"
  by (induction ts arbitrary: s) (auto simp: obind_Ok_iff dest: check_tombstone_key(2))

text \<open>In a valid document no event has two tombstones, two terminal receipts, or one of each.\<close>

lemma validated_identities_distinct:
  assumes "validate_semantics C v = Ok ()"
  obtains rs ts where "jarray (jindex v ''operation_receipts'') = Some rs" "jarray (jindex v ''event_identity_tombstones'') = Some ts"
    "distinct (map event_of ts @ map event_of (filter is_terminal rs))"
proof -
  from assms obtain revision nxt rs st mailboxes where st: "jarray (jindex v ''operation_receipts'') = Some rs"
      "ofold (scan_receipt revision nxt) rs empty_scan = Ok st" "validate_identities v nxt st mailboxes = Ok ()"
    by (auto simp: validate_semantics_def obind_Ok_iff)
  from st(3) obtain ts s where ts: "jarray (jindex v ''event_identity_tombstones'') = Some ts"
      "ofold (check_tombstone st mailboxes nxt) ts ([], None) = Ok s"
    by (auto simp: validate_identities_def obind_Ok_iff)
  from scan_terminals [OF st(2)] obtain es where es: "map event_of (filter is_terminal rs) = map Some es" "distinct es" "terminal_events st = set es"
    by (auto simp: empty_scan_def)
  from check_tombstones_keys [OF ts(2)] obtain ks where ks: "map event_of ts = map Some ks" "distinct ks" by auto
  have "set ks \<inter> set es = {}"
  proof -
    have "e \<notin> set es" if "e \<in> set ks" for e
    proof -
      from that ks(1) have "Some e \<in> event_of ` set ts" by (metis image_eqI list.set_map)
      then obtain t where "t \<in> set ts" "event_of t = Some e" by auto
      with check_tombstones_terminal [OF ts(2)] es(3) show ?thesis by fastforce
    qed
    then show ?thesis by blast
  qed
  with ks es have "distinct (map event_of ts @ map event_of (filter is_terminal rs))" by (auto simp: distinct_map)
  with st(1) ts(1) that show thesis by blast
qed

section \<open>The digests of retained identities\<close>

definition digest_in :: "(string, retained_evidence) btree_map \<Rightarrow> string \<Rightarrow> string option" where
  "digest_in m e = map_option re_digest (bm_get m e)"

definition identity_pair :: "json \<Rightarrow> string \<times> string" where
  "identity_pair item = (the (event_of item), the (jstr (jindex item ''request_digest'')))"

lemma terminal_evidence_digests:
  "ofold (terminal_evidence acceptance) rs m = Ok m' \<Longrightarrow>
     digest_in m' e = (case map_of (rev (map identity_pair (filter is_terminal rs))) e of Some d \<Rightarrow> Some d | None \<Rightarrow> digest_in m e)"
proof (induction rs arbitrary: m)
  case (Cons r rs)
  then obtain m1 where m1: "terminal_evidence acceptance r m = Ok m1" "ofold (terminal_evidence acceptance) rs m1 = Ok m'"
    by (auto simp: obind_Ok_iff)
  from m1(1) have "digest_in m1 e = (if is_terminal r \<and> fst (identity_pair r) = e then Some (snd (identity_pair r)) else digest_in m e)"
    by (auto simp: terminal_evidence_def obind_Ok_iff is_terminal_def identity_pair_def event_of_def digest_in_def split: if_split_asm)
  with Cons.IH [OF m1(2)] show ?case by (cases "identity_pair r") (auto simp: map_add_def split: option.split)
qed simp

lemma tombstone_evidence_digests:
  "ofold tombstone_evidence ts m = Ok m' \<Longrightarrow>
     digest_in m' e = (case map_of (rev (map identity_pair ts)) e of Some d \<Rightarrow> Some d | None \<Rightarrow> digest_in m e)"
proof (induction ts arbitrary: m)
  case (Cons t ts)
  then obtain m1 where m1: "tombstone_evidence t m = Ok m1" "ofold tombstone_evidence ts m1 = Ok m'" by (auto simp: obind_Ok_iff)
  from m1(1) have "digest_in m1 e = (if fst (identity_pair t) = e then Some (snd (identity_pair t)) else digest_in m e)"
    by (auto simp: tombstone_evidence_def obind_Ok_iff identity_pair_def event_of_def digest_in_def)
  with Cons.IH [OF m1(2)] show ?case by (cases "identity_pair t") (auto simp: map_add_def split: option.split)
qed simp

lemma ofold_sim:
  assumes "\<And>x s s' t. R s t \<Longrightarrow> f x s = Ok s' \<Longrightarrow> \<exists>t'. g x t = Ok t' \<and> R s' t'"
  shows "R s t \<Longrightarrow> ofold f xs s = Ok s' \<Longrightarrow> \<exists>t'. ofold g xs t = Ok t' \<and> R s' t'"
proof (induction xs arbitrary: s t)
  case (Cons x xs)
  then obtain s1 where s1: "f x s = Ok s1" "ofold f xs s1 = Ok s'" by (auto simp: obind_Ok_iff)
  from assms [OF Cons.prems(1) s1(1)] obtain t1 where "g x t = Ok t1" "R s1 t1" by blast
  with Cons.IH [OF _ s1(2)] show ?case by auto
qed auto

definition same_digests :: "(string, retained_evidence) btree_map \<Rightarrow> (string, retained_evidence) btree_map \<Rightarrow> bool" where
  "same_digests m m' \<longleftrightarrow> (\<forall>e. digest_in m' e = digest_in m e)"

lemma entry_evidence_sim:
  "same_digests m m' \<Longrightarrow> entry_evidence acceptance location x m = Ok m1 \<Longrightarrow>
     \<exists>m1'. entry_evidence acceptance' location x m' = Ok m1' \<and> same_digests m1 m1'"
  by (auto simp: entry_evidence_def obind_Ok_iff same_digests_def digest_in_def string_field_def)

lemma entries_evidence_sim:
  "same_digests m m' \<Longrightarrow> ofold (entry_evidence acceptance location) xs m = Ok m1 \<Longrightarrow>
     \<exists>m1'. ofold (entry_evidence acceptance' location) xs m' = Ok m1' \<and> same_digests m1 m1'"
  by (rule ofold_sim [where R = same_digests and f = "entry_evidence acceptance location"]) (rule entry_evidence_sim)

lemma runtime_evidence_sim:
  assumes "same_digests m m'" "runtime_evidence acceptance x m = Ok m1"
  shows "\<exists>m1'. runtime_evidence acceptance' x m' = Ok m1' \<and> same_digests m1 m1'"
proof -
  note sim = entries_evidence_sim
  from assms(2) obtain ready deferred m2 where st: "jarray (jindex x ''ready_mailbox'') = Some ready"
      "ofold (entry_evidence acceptance ''ready'') ready m = Ok m2" "jarray (jindex x ''deferred_mailbox'') = Some deferred"
      "ofold (entry_evidence acceptance ''deferred'') deferred m2 = Ok m1"
    by (auto simp: runtime_evidence_def obind_Ok_iff)
  from sim [OF assms(1) st(2)] obtain m2' where m2': "ofold (entry_evidence acceptance' ''ready'') ready m' = Ok m2'" "same_digests m2 m2'" by blast
  from sim [OF m2'(2) st(4)] obtain m1' where "ofold (entry_evidence acceptance' ''deferred'') deferred m2' = Ok m1'" "same_digests m1 m1'" by blast
  with st m2' show ?thesis by (auto simp: runtime_evidence_def need_array_def)
qed

definition mailbox_evidence :: "json \<Rightarrow> (string, json) btree_map \<Rightarrow> ((string, retained_evidence) btree_map, string) outcome" where
  "mailbox_evidence v acceptance =
     (if is_retained v
      then obind (need_array (checkpoint_aggregate v) ''runtimes'') (\<lambda>rs. ofold (runtime_evidence acceptance) rs [])
      else Ok [])"

lemma mailbox_evidence_sim:
  assumes "mailbox_evidence v acceptance = Ok m" "jindex v' ''root_record'' = jindex v ''root_record''"
  shows "\<exists>m'. mailbox_evidence v' acceptance' = Ok m' \<and> same_digests m m'"
proof (cases "is_retained v")
  case True
  with assms(1) obtain rs where rs: "jarray (jindex (checkpoint_aggregate v) ''runtimes'') = Some rs" "ofold (runtime_evidence acceptance) rs [] = Ok m"
    by (auto simp: mailbox_evidence_def obind_Ok_iff)
  have "same_digests [] []" by (simp add: same_digests_def)
  then have "\<exists>m'. ofold (runtime_evidence acceptance') rs [] = Ok m' \<and> same_digests m m'"
    using rs(2) by (rule ofold_sim [where R = same_digests and f = "runtime_evidence acceptance", rotated]) (rule runtime_evidence_sim)
  with True rs(1) assms(2) show ?thesis by (simp add: mailbox_evidence_def is_retained_def checkpoint_aggregate_def need_array_def)
next
  case False
  with assms show ?thesis by (simp add: mailbox_evidence_def is_retained_def same_digests_def)
qed

definition identity_strings :: "json \<Rightarrow> bool" where
  "identity_strings item \<longleftrightarrow> event_of item \<noteq> None \<and> jstr (jindex item ''request_digest'') \<noteq> None"

lemma terminal_evidence_Ok:
  "(\<exists>m'. ofold (terminal_evidence acceptance) rs m = Ok m') \<longleftrightarrow>
     (\<forall>r \<in> set rs. is_terminal r \<longrightarrow> identity_strings r \<and> jstr (jindex r ''acceptance_sequence'') \<noteq> None)"
proof (induction rs arbitrary: m)
  case (Cons r rs)
  have "(\<exists>m1. terminal_evidence acceptance r m = Ok m1) \<longleftrightarrow>
      (is_terminal r \<longrightarrow> identity_strings r \<and> jstr (jindex r ''acceptance_sequence'') \<noteq> None)"
    by (auto simp: terminal_evidence_def is_terminal_def identity_strings_def event_of_def obind_Ok_iff)
  with Cons.IH show ?case by (auto simp: obind_Ok_iff)
qed simp

lemma tombstone_evidence_Ok: "(\<exists>m'. ofold tombstone_evidence ts m = Ok m') \<longleftrightarrow> (\<forall>t \<in> set ts. identity_strings t)"
proof (induction ts arbitrary: m)
  case (Cons t ts)
  have "(\<exists>m1. tombstone_evidence t m = Ok m1) \<longleftrightarrow> identity_strings t"
    by (auto simp: tombstone_evidence_def identity_strings_def event_of_def obind_Ok_iff)
  with Cons.IH show ?case by (auto simp: obind_Ok_iff)
qed simp

lemma acceptance_receipts_Ok:
  "(\<exists>m. acceptance_receipts rs = Ok m) \<longleftrightarrow>
     (\<forall>r \<in> set rs. jindex r ''operation_kind'' = JString ''acceptance'' \<longrightarrow> event_of r \<noteq> None)"
proof -
  have "(\<exists>ps. map (\<lambda>r. obind (string_field r ''event_id'') (\<lambda>e. Ok (e, r))) xs = map Ok ps) \<longleftrightarrow> (\<forall>r \<in> set xs. event_of r \<noteq> None)" for xs
  proof (induction xs)
    case (Cons x xs)
    have "(\<exists>p. obind (string_field x ''event_id'') (\<lambda>e. Ok (e, x)) = Ok p) \<longleftrightarrow> event_of x \<noteq> None"
      by (auto simp: obind_Ok_iff event_of_def)
    with Cons show ?case by (auto simp: map_eq_Cons_conv Cons_eq_map_conv)
  qed simp
  then show ?thesis by (auto simp: acceptance_receipts_def obind_Ok_iff collect_outcome_Ok)
qed

text \<open>The retained digest of an event: from its tombstone or terminal receipt, or else from its mailbox.\<close>

lemma retained_identity_digests:
  assumes "retained_identity v = Ok m"
  obtains rs ts acceptance m1 where "jarray (jindex v ''operation_receipts'') = Some rs"
    "jarray (jindex v ''event_identity_tombstones'') = Some ts" "acceptance_receipts rs = Ok acceptance"
    "mailbox_evidence v acceptance = Ok m1"
    "\<forall>r \<in> set rs. is_terminal r \<longrightarrow> identity_strings r \<and> jstr (jindex r ''acceptance_sequence'') \<noteq> None"
    "\<forall>t \<in> set ts. identity_strings t"
    "\<forall>e. digest_in m e = (case map_of (rev (map identity_pair ts) @ rev (map identity_pair (filter is_terminal rs))) e of
       Some d \<Rightarrow> Some d | None \<Rightarrow> digest_in m1 e)"
proof -
  from assms obtain rs ts acceptance m1 m2 where st: "jarray (jindex v ''operation_receipts'') = Some rs"
      "jarray (jindex v ''event_identity_tombstones'') = Some ts" "acceptance_receipts rs = Ok acceptance"
      "mailbox_evidence v acceptance = Ok m1" "ofold (terminal_evidence acceptance) rs m1 = Ok m2" "ofold tombstone_evidence ts m2 = Ok m"
    by (auto simp: retained_identity_def mailbox_evidence_def obind_Ok_iff)
  have "\<forall>r \<in> set rs. is_terminal r \<longrightarrow> identity_strings r \<and> jstr (jindex r ''acceptance_sequence'') \<noteq> None"
    using st(5) terminal_evidence_Ok by blast
  moreover have "\<forall>t \<in> set ts. identity_strings t" using st(6) tombstone_evidence_Ok by blast
  moreover have "digest_in m e = (case map_of (rev (map identity_pair ts) @ rev (map identity_pair (filter is_terminal rs))) e of
       Some d \<Rightarrow> Some d | None \<Rightarrow> digest_in m1 e)" for e
    using tombstone_evidence_digests [OF st(6), of e] terminal_evidence_digests [OF st(5), of e]
    by (auto simp: map_add_def split: option.split)
  ultimately show thesis using that st(1-4) by blast
qed

lemma retained_identity_total:
  assumes "jarray (jindex v ''operation_receipts'') = Some rs" "jarray (jindex v ''event_identity_tombstones'') = Some ts"
    "acceptance_receipts rs = Ok acceptance" "mailbox_evidence v acceptance = Ok m1"
    "\<forall>r \<in> set rs. is_terminal r \<longrightarrow> identity_strings r \<and> jstr (jindex r ''acceptance_sequence'') \<noteq> None"
    "\<forall>t \<in> set ts. identity_strings t"
  obtains m where "retained_identity v = Ok m"
proof -
  from assms(5) terminal_evidence_Ok obtain m2 where m2: "ofold (terminal_evidence acceptance) rs m1 = Ok m2" by blast
  moreover from assms(6) tombstone_evidence_Ok obtain m where "ofold tombstone_evidence ts m2 = Ok m" by blast
  moreover have "(if is_retained v
      then obind (need_array (checkpoint_aggregate v) ''runtimes'') (\<lambda>rs. ofold (runtime_evidence acceptance) rs [])
      else Ok []) = Ok m1" using assms(4) by (simp add: mailbox_evidence_def)
  ultimately have "retained_identity v = Ok m" using assms(1-3) by (simp add: retained_identity_def need_array_def)
  then show thesis by (rule that)
qed

lemma map_of_functional:
  assumes "distinct (map fst ys)" "set xs = set ys"
  shows "map_of xs k = map_of ys k"
proof (cases "map_of xs k")
  case None
  then show ?thesis using assms(2) by (metis map_of_eq_None_iff)
next
  case (Some v)
  then have "(k, v) \<in> set ys" using assms(2) map_of_SomeD by fastforce
  with assms(1) Some show ?thesis by simp
qed

section \<open>Pruning\<close>

lemma ofilter_Ok: "ofilter p xs = Ok ys \<Longrightarrow> ys = filter (\<lambda>x. p x = Ok True) xs \<and> (\<forall>x \<in> set xs. \<exists>b. p x = Ok b)"
  by (induction xs arbitrary: ys) (auto simp: obind_Ok_iff)

lemma receipt_removable_cong:
  "jindex r ''receipt_sequence'' = jindex r' ''receipt_sequence'' \<Longrightarrow> receipt_removable q r = receipt_removable q r'"
  by (simp add: receipt_removable_def counter_field_def)

lemma removed_sequences:
  "map (\<lambda>r. string_field r ''receipt_sequence'') xs = map Ok removed \<Longrightarrow>
     s \<in> set removed \<longleftrightarrow> (\<exists>y \<in> set xs. jindex y ''receipt_sequence'' = JString s)"
  by (induction xs arbitrary: removed) (auto simp: Cons_eq_map_conv jstr_Some)

lemma pruned_identity_pairs:
  assumes "set rs' = {r \<in> set rs. \<not> gone r}" "set ts' = set ts \<union> identity_tombstone ` set (filter is_terminal (filter gone rs))"
    and pair: "\<And>r. identity_pair (identity_tombstone r) = identity_pair r"
  shows "identity_pair ` (set ts \<union> set (filter is_terminal rs)) = identity_pair ` (set ts' \<union> set (filter is_terminal rs'))"
proof -
  have "identity_pair ` set ts' = identity_pair ` set ts \<union> identity_pair ` {r \<in> set rs. gone r \<and> is_terminal r}"
    by (auto simp: assms(2) image_Un image_image pair)
  moreover have "{r \<in> set rs. is_terminal r} = {r \<in> set rs. gone r \<and> is_terminal r} \<union> {r \<in> set rs. \<not> gone r \<and> is_terminal r}" by blast
  ultimately show ?thesis by (simp add: image_Un assms(1) Un_assoc)
qed

lemma prune_receipts_Ok:
  assumes "prune_receipts C v rq receipts removable = Ok v'" and "ofilter (receipt_removable requested) receipts = Ok removable"
    and "jarray (jindex v ''operation_receipts'') = Some receipts"
  obtains ts rs' ts' where "jarray (jindex v ''event_identity_tombstones'') = Some ts"
    "jarray (jindex v' ''operation_receipts'') = Some rs'" "mset rs' = mset (filter (\<lambda>r. receipt_removable requested r \<noteq> Ok True) receipts)"
    "jarray (jindex v' ''event_identity_tombstones'') = Some ts'"
    "mset ts' = mset ts + mset (map identity_tombstone (filter is_terminal removable))"
    "jindex v' ''root_record'' = jindex v ''root_record''" "validate_semantics C v' = Ok ()"
proof -
  from assms(1) obtain removed ts kept b c ts' x v6 where st:
      "map (\<lambda>r. string_field r ''receipt_sequence'') removable = map Ok removed"
      "jarray (jindex v ''event_identity_tombstones'') = Some ts"
      "ofilter (\<lambda>r. obind (string_field r ''receipt_sequence'') (\<lambda>s. Ok (s \<notin> set removed))) receipts = Ok kept"
      "sort_by_field (\<lambda>t. counter_field t ''terminal_receipt_sequence'')
         (ts @ map identity_tombstone (filter (\<lambda>r. jindex r ''operation_kind'' = JString ''event_terminal'') removable)) = Ok ts'"
      "next_revision (jput ''replay_retention'' x (jput ''event_identity_tombstones'' (JArray ts') (jput ''outbox_effect_tombstones'' c
         (jput ''terminal_outbox_records'' b (jput ''operation_receipts'' (JArray kept) v))))) = Ok v6"
      "seal_and_validate_checkpoint C v6 = Ok v'"
    by (auto simp: prune_receipts_def obind_Ok_iff Let_def collect_outcome_Ok)
  have obj: "is_object v" using assms(3) by (rule jarray_object)
  from st(6) have seal: "seal_checkpoint C v6 = Ok v'" "validate_semantics C v' = Ok ()" by (simp_all add: seal_and_validate_Ok)
  have removable: "removable = filter (\<lambda>r. receipt_removable requested r = Ok True) receipts" using ofilter_Ok [OF assms(2)] by blast
  have removed: "r \<in> set receipts \<Longrightarrow> jstr (jindex r ''receipt_sequence'') = Some s \<Longrightarrow>
      s \<in> set removed \<longleftrightarrow> receipt_removable requested r = Ok True" for r s
  proof -
    assume r: "r \<in> set receipts" "jstr (jindex r ''receipt_sequence'') = Some s"
    have "s \<in> set removed \<longleftrightarrow> (\<exists>y \<in> set removable. jindex y ''receipt_sequence'' = JString s)"
      using removed_sequences [OF st(1)] .
    also have "\<dots> \<longleftrightarrow> receipt_removable requested r = Ok True"
    proof
      assume "\<exists>y \<in> set removable. jindex y ''receipt_sequence'' = JString s"
      then obtain y where "y \<in> set removable" "jindex y ''receipt_sequence'' = JString s" by blast
      then show "receipt_removable requested r = Ok True"
        using r(2) receipt_removable_cong [of r y requested] by (simp add: removable jstr_Some)
    next
      assume "receipt_removable requested r = Ok True"
      then show "\<exists>y \<in> set removable. jindex y ''receipt_sequence'' = JString s"
        using r by (intro bexI [of _ r]) (simp_all add: removable jstr_Some)
    qed
    finally show ?thesis .
  qed
  have "kept = filter (\<lambda>r. receipt_removable requested r \<noteq> Ok True) receipts"
  proof -
    from ofilter_Ok [OF st(3)] have k: "kept = filter (\<lambda>r. obind (string_field r ''receipt_sequence'') (\<lambda>s. Ok (s \<notin> set removed)) = Ok True) receipts"
        "\<forall>r \<in> set receipts. \<exists>b. obind (string_field r ''receipt_sequence'') (\<lambda>s. Ok (s \<notin> set removed)) = Ok b" by auto
    show ?thesis unfolding k(1) by (rule filter_cong) (use k(2) removed in \<open>auto simp: obind_Ok_iff\<close>)
  qed
  moreover obtain us rs' where us: "jarray (jindex v6 ''operation_receipts'') = Some us" "jarray (jindex v' ''operation_receipts'') = Some rs'"
      "mset rs' = mset us" by (rule seal_receipts [OF seal(1)]) blast
  moreover have v6: "jindex v6 ''operation_receipts'' = JArray kept" "jindex v6 ''event_identity_tombstones'' = JArray ts'"
      "jindex v6 ''root_record'' = jindex v ''root_record''"
    using next_revision_frame [OF st(5)] obj by simp_all
  moreover from sort_by_field_mset [OF st(4)] have "mset ts' = mset ts + mset (map identity_tombstone (filter is_terminal removable))"
    by (simp add: is_terminal_def [abs_def])
  moreover have "jindex v' ''event_identity_tombstones'' = JArray ts'" "jindex v' ''root_record'' = jindex v ''root_record''"
    using seal_frame [OF seal(1), of "''event_identity_tombstones''"] seal_frame [OF seal(1), of "''root_record''"] v6 by simp_all
  ultimately show thesis using that st(2) seal(2) by simp
qed

lemma identity_tombstone_pair [simp]:
  "identity_pair (identity_tombstone r) = identity_pair r" "identity_strings (identity_tombstone r) \<longleftrightarrow> identity_strings r"
  by (simp_all add: identity_pair_def identity_strings_def event_of_def identity_tombstone_def)

lemma distinct_identity_pairs:
  assumes "distinct (map event_of xs)" "\<forall>x \<in> set xs. identity_strings x"
  shows "distinct (map fst (map identity_pair xs))"
  using assms
proof (induction xs)
  case (Cons x xs)
  have "fst (identity_pair x) \<noteq> fst (identity_pair y)" if "y \<in> set xs" for y
    using Cons.prems that by (auto simp: identity_pair_def identity_strings_def image_iff)
  with Cons show ?case by (auto simp: image_iff)
qed simp

text \<open>
  C21: Pruning forgets no event.  After receipts are pruned, the checkpoint retains the same event
  identities with the same digests as before, so a delivery of an event known before is still
  recognised as a replay or refused as a conflict.
\<close>

theorem prune_keeps_identities:
  assumes "checkpoint_prune_v1 C cp rq r d = Ok v" and "retained_identity (cp_value cp) = Ok m"
  shows "\<exists>m'. retained_identity v = Ok m' \<and>
    (\<forall>e. map_option re_digest (bm_get m' e) = map_option re_digest (bm_get m e))"
proof (cases "v = cp_value cp")
  case True
  with assms(2) show ?thesis by auto
next
  case False
  with assms(1) obtain requested receipts removable where st: "jarray (jindex (cp_value cp) ''operation_receipts'') = Some receipts"
      "ofilter (receipt_removable requested) receipts = Ok removable" "prune_receipts C (cp_value cp) rq receipts removable = Ok v"
    by (auto simp: checkpoint_prune_v1_def Let_def obind_Ok_iff split: if_split_asm)
  obtain ts rs' ts' where pr: "jarray (jindex (cp_value cp) ''event_identity_tombstones'') = Some ts"
      "jarray (jindex v ''operation_receipts'') = Some rs'" "mset rs' = mset (filter (\<lambda>r. receipt_removable requested r \<noteq> Ok True) receipts)"
      "jarray (jindex v ''event_identity_tombstones'') = Some ts'"
      "mset ts' = mset ts + mset (map identity_tombstone (filter is_terminal removable))"
      "jindex v ''root_record'' = jindex (cp_value cp) ''root_record''" "validate_semantics C v = Ok ()"
    by (rule prune_receipts_Ok [OF st(3,2,1)]) blast
  obtain acceptance m1 where old: "acceptance_receipts receipts = Ok acceptance" "mailbox_evidence (cp_value cp) acceptance = Ok m1"
      "\<forall>r \<in> set receipts. is_terminal r \<longrightarrow> identity_strings r \<and> jstr (jindex r ''acceptance_sequence'') \<noteq> None"
      "\<forall>t \<in> set ts. identity_strings t"
      "\<forall>e. digest_in m e = (case map_of (rev (map identity_pair ts) @ rev (map identity_pair (filter is_terminal receipts))) e of
         Some d \<Rightarrow> Some d | None \<Rightarrow> digest_in m1 e)"
    using st(1) pr(1) by (auto intro: retained_identity_digests [OF assms(2)])
  have removable: "removable = filter (\<lambda>r. receipt_removable requested r = Ok True) receipts" using ofilter_Ok [OF st(2)] by blast
  have rs': "set rs' = {r \<in> set receipts. receipt_removable requested r \<noteq> Ok True}" using arg_cong [OF pr(3), of set_mset] by simp
  have ts': "set ts' = set ts \<union> identity_tombstone ` set (filter is_terminal removable)" using arg_cong [OF pr(5), of set_mset] by simp
  have rs_ok: "\<forall>r \<in> set rs'. is_terminal r \<longrightarrow> identity_strings r \<and> jstr (jindex r ''acceptance_sequence'') \<noteq> None" using old(3) rs' by blast
  have ts_ok: "\<forall>t \<in> set ts'. identity_strings t" using old(3,4) by (auto simp: ts' removable)
  have "\<exists>acceptance'. acceptance_receipts rs' = Ok acceptance'"
    unfolding acceptance_receipts_Ok using old(1) acceptance_receipts_Ok [of receipts] rs' by auto
  then obtain acceptance' where acc': "acceptance_receipts rs' = Ok acceptance'" by blast
  from mailbox_evidence_sim [OF old(2) pr(6)] obtain m1' where m1': "mailbox_evidence v acceptance' = Ok m1'" "same_digests m1 m1'" by blast
  obtain m' where m': "retained_identity v = Ok m'" by (rule retained_identity_total [OF pr(2,4) acc' m1'(1) rs_ok ts_ok])
  have new: "\<forall>e. digest_in m' e = (case map_of (rev (map identity_pair ts') @ rev (map identity_pair (filter is_terminal rs'))) e of
         Some d \<Rightarrow> Some d | None \<Rightarrow> digest_in m1' e)"
    using pr(2,4) acc' m1'(1) by (auto intro: retained_identity_digests [OF m'])
  obtain rs2 ts2 where "jarray (jindex v ''operation_receipts'') = Some rs2" "jarray (jindex v ''event_identity_tombstones'') = Some ts2"
      "distinct (map event_of ts2 @ map event_of (filter is_terminal rs2))"
    by (rule validated_identities_distinct [OF pr(7)]) blast
  with pr(2,4) have dist: "distinct (map event_of (ts' @ filter is_terminal rs'))" by (simp only: option.inject map_append)
  have "set (map identity_pair ts @ map identity_pair (filter is_terminal receipts)) = set (map identity_pair (ts' @ filter is_terminal rs'))"
    using pruned_identity_pairs [OF rs', of ts' ts] ts' by (simp add: removable image_Un)
  then have "map_of (rev (map identity_pair ts) @ rev (map identity_pair (filter is_terminal receipts))) e =
      map_of (rev (map identity_pair ts') @ rev (map identity_pair (filter is_terminal rs'))) e" for e
    using distinct_identity_pairs [OF dist] rs_ok ts_ok by (intro map_of_functional) (auto simp: rev_map [symmetric])
  with new old(5) m1'(2) have "digest_in m' e = digest_in m e" for e by (simp add: same_digests_def cong: option.case_cong)
  with m' show ?thesis by (simp add: digest_in_def)
qed

end
