(* ===== verification/Checkpoint_Replay.thy ===== *)
theory Checkpoint_Replay
  imports Checkpoint_Retention
begin

text \<open>
  The life of a processed event over the operations of a checkpoint.  Its terminal receipt stays
  among the receipts, up to its revision and to where its emissions are, until it is pruned, and
  then its identity tombstone stays; so the event is never processed again.
\<close>

section \<open>Receipts are only added\<close>

text \<open>What a receipt says of its event.\<close>

definition event_core :: "json \<Rightarrow> json list" where
  "event_core r = map (jindex r) [''operation_kind'', ''event_id'', ''request_digest'', ''acceptance_sequence'',
     ''final_queue_sequence'', ''outcome'']"

lemma event_core_body [simp]: "event_core (receipt_body r) = event_core r"
  by (simp add: event_core_def)

definition event_cores :: "json \<Rightarrow> json list set" where
  "event_cores v = event_core ` set (jflatten (jindex v ''operation_receipts''))"

definition grows :: "json \<Rightarrow> json \<Rightarrow> bool" where
  "grows v v' \<longleftrightarrow> event_cores v \<subseteq> event_cores v'"

lemma grows_refl [simp]: "grows v v"
  by (simp add: grows_def)

lemma grows_trans: "grows v w \<Longrightarrow> grows w u \<Longrightarrow> grows v u"
  by (auto simp: grows_def)

lemma grows_same: "jindex v' ''operation_receipts'' = jindex v ''operation_receipts'' \<Longrightarrow> grows v v'"
  by (simp add: grows_def event_cores_def)

lemma grows_jput: "k \<noteq> ''operation_receipts'' \<Longrightarrow> grows v (jput k x v)"
  by (rule grows_same) (cases v; auto simp: jput_def jindex_def jget_def)

lemma event_cores_bodies: "event_cores v = (case bodies v of None \<Rightarrow> {} | Some bs \<Rightarrow> event_core ` set bs)"
proof (cases "jarray (jindex v ''operation_receipts'')")
  case (Some rs)
  then show ?thesis by (simp add: event_cores_def bodies_def jflatten_def image_image)
qed (simp add: event_cores_def bodies_def jflatten_def)

lemma grows_bodies: "bodies v' = bodies v \<Longrightarrow> grows v v'"
  by (simp add: grows_def event_cores_bodies)

lemma grows_push: "push_member k x v = Ok v' \<Longrightarrow> grows v v'"
  by (cases "k = ''operation_receipts''")
    (auto simp: push_member_Ok grows_def event_cores_def jflatten_array jarray_object intro: grows_jput [unfolded grows_def, THEN subsetD])

lemma grows_seal:
  assumes "seal_checkpoint C v = Ok v'"
  shows "grows v v'"
proof -
  obtain rs rs' where "jarray (jindex v ''operation_receipts'') = Some rs" "jarray (jindex v' ''operation_receipts'') = Some rs'"
      "mset rs' = mset rs" by (rule seal_receipts [OF assms]) blast
  then show ?thesis using mset_eq_setD by (fastforce simp: grows_def event_cores_def jflatten_array)
qed

interpretation grow: document_preorder grows
proof
  show "extend_audits audits v = Ok v' \<Longrightarrow> grows v v'" for audits v v'
    by (auto simp: extend_audits_def obind_Ok_iff intro: grows_jput)
  show "allocate_field v ''next_operation_receipt_sequence'' = Ok (v', s) \<Longrightarrow> grows v v'" for v v' s
    by (auto simp: allocate_field_Ok intro: grows_jput)
qed (auto intro: grows_trans grows_seal grows_push grows_bodies bodies_rewrite bodies_sync)

lemma grows_revised: "grows (put_aggregate state (jput ''revision'' r v)) v' \<Longrightarrow> grows v v'"
  by (rule grows_trans [of v "put_aggregate state (jput ''revision'' r v)"])
    (auto simp: put_aggregate_def intro: grows_trans [OF grows_jput grows_jput] grows_jput)

lemma collapse_receipt_core: "collapse_receipt nxt r x = Ok y \<Longrightarrow> event_core y = event_core x"
  by (cases "is_object x") (auto simp: collapse_receipt_def obind_Ok_iff event_core_def counter_at_Ok jcounter_object split: if_split_asm)

lemma grows_collapse:
  assumes "collapse_process_revision C cp v = Ok v'"
  shows "grows v v'"
proof -
  from assms obtain r nxt rs rs' ps where st: "jarray (jindex (jput ''revision'' r v) ''operation_receipts'') = Some rs"
      "map (collapse_receipt nxt r) rs = map Ok rs'"
      "seal_checkpoint C (jput ''pending_outbox_intents'' ps (jput ''operation_receipts'' (JArray rs') (jput ''revision'' r v))) = Ok v'"
    by (auto simp: collapse_process_revision_def seal_and_validate_Ok obind_Ok_iff Let_def collect_outcome_Ok)
  from st(2) have "map event_core rs' = map event_core rs"
  proof (induction rs arbitrary: rs')
    case (Cons x rs)
    then show ?case by (cases rs') (auto dest: collapse_receipt_core)
  qed simp
  then have "event_core ` set rs' = event_core ` set rs" by (metis list.set_map)
  moreover have "is_object v" using jarray_object [OF st(1)] by simp
  ultimately have "grows (jput ''revision'' r v) (jput ''operation_receipts'' (JArray rs') (jput ''revision'' r v))"
    using st(1) by (simp add: grows_def event_cores_def jflatten_array)
  moreover have "grows v (jput ''revision'' r v)"
      "grows (jput ''operation_receipts'' (JArray rs') (jput ''revision'' r v))
         (jput ''pending_outbox_intents'' ps (jput ''operation_receipts'' (JArray rs') (jput ''revision'' r v)))"
    by (auto intro!: grows_jput)
  ultimately show ?thesis using grows_seal [OF st(3)] by (meson grows_trans)
qed

lemma grows_revision: "next_revision v = Ok v' \<Longrightarrow> grows v v'"
  by (auto simp: next_revision_Ok intro: grows_jput)

lemma grows_outbox:
  "checkpoint_update_pending_outbox C cp e st r d = Ok v' \<Longrightarrow> grows (cp_value cp) v'"
  "terminalize_pending C v e out = Ok v' \<Longrightarrow> grows v v'"
  "compact_terminal C cp cs e = Ok v' \<Longrightarrow> grows (cp_value cp) v'"
proof -
  show "grows (cp_value cp) v'" if "checkpoint_update_pending_outbox C cp e st r d = Ok v'"
  proof -
    from that consider "v' = cp_value cp"
      | x v1 where "next_revision (cp_value cp) = Ok v1" "seal_checkpoint C (jput ''pending_outbox_intents'' x v1) = Ok v'"
      by (auto simp: checkpoint_update_pending_outbox_def seal_and_validate_Ok obind_Ok_iff split: if_split_asm)
    then show ?thesis
    proof cases
      case 2
      have "grows v1 (jput ''pending_outbox_intents'' x v1)" by (rule grows_jput) simp
      with 2 show ?thesis by (meson grows_trans grows_revision grows_seal)
    qed simp
  qed
  show "grows v v'" if "terminalize_pending C v e out = Ok v'"
  proof -
    from that obtain x v1 v3 s t v4 where st: "next_revision v = Ok v1"
        "allocate_field (jput ''pending_outbox_intents'' x v1) ''next_outbox_terminal_sequence'' = Ok (v3, s)"
        "push_member ''terminal_outbox_records'' t v3 = Ok v4" "seal_checkpoint C v4 = Ok v'"
      by (auto simp: terminalize_pending_def seal_and_validate_Ok obind_Ok_iff Let_def)
    then have "grows v1 v3" by (auto simp: allocate_field_Ok intro: grows_trans [OF grows_jput grows_jput])
    with st show ?thesis by (meson grows_trans grows_revision grows_push grows_seal)
  qed
  show "grows (cp_value cp) v'" if "compact_terminal C cp cs e = Ok v'"
  proof -
    from that obtain x y v1 where st: "next_revision (cp_value cp) = Ok v1"
        "seal_checkpoint C (jput ''outbox_effect_tombstones'' x (jput ''terminal_outbox_records'' y v1)) = Ok v'"
      by (auto simp: compact_terminal_def seal_and_validate_Ok obind_Ok_iff Let_def)
    have "grows v1 (jput ''outbox_effect_tombstones'' x (jput ''terminal_outbox_records'' y v1))"
      by (rule grows_trans [OF grows_jput grows_jput]) simp_all
    with st show ?thesis by (meson grows_trans grows_revision grows_seal)
  qed
qed

lemma outbox_tombstones_same:
  "terminalize_pending C v e out = Ok v' \<Longrightarrow> jindex v' ''event_identity_tombstones'' = jindex v ''event_identity_tombstones''"
  "compact_terminal C cp cs e = Ok v' \<Longrightarrow> jindex v' ''event_identity_tombstones'' = jindex (cp_value cp) ''event_identity_tombstones''"
proof -
  let ?k = "''event_identity_tombstones''"
  show "jindex v' ?k = jindex v ?k" if "terminalize_pending C v e out = Ok v'"
  proof -
    from that obtain x v1 v3 s t v4 where st: "next_revision v = Ok v1"
        "allocate_field (jput ''pending_outbox_intents'' x v1) ''next_outbox_terminal_sequence'' = Ok (v3, s)"
        "push_member ''terminal_outbox_records'' t v3 = Ok v4" "seal_checkpoint C v4 = Ok v'"
      by (auto simp: terminalize_pending_def seal_and_validate_Ok obind_Ok_iff Let_def)
    from st(1) have "is_object v1" by (auto simp: next_revision_Ok jcounter_object)
    with seal_frame [OF st(4), of ?k] push_member_frame [OF st(3), of ?k] allocate_field_frame [OF st(2), of ?k]
      next_revision_frame [OF st(1), of ?k] show ?thesis by simp
  qed
  show "jindex v' ?k = jindex (cp_value cp) ?k" if "compact_terminal C cp cs e = Ok v'"
  proof -
    from that obtain x y v1 where st: "next_revision (cp_value cp) = Ok v1"
        "seal_checkpoint C (jput ''outbox_effect_tombstones'' x (jput ''terminal_outbox_records'' y v1)) = Ok v'"
      by (auto simp: compact_terminal_def seal_and_validate_Ok obind_Ok_iff Let_def)
    from st(1) have "is_object v1" by (auto simp: next_revision_Ok jcounter_object)
    with seal_frame [OF st(2), of ?k] next_revision_frame [OF st(1), of ?k] show ?thesis by simp
  qed
qed

lemma advances_grows:
  assumes "advances C v v'"
  shows "grows v v' \<and> jindex v' ''event_identity_tombstones'' = jindex v ''event_identity_tombstones''"
  using assms
proof cases
  case (adv_update cp e st r d)
  then show ?thesis using grows_outbox(1) update_pending_revised(2) same_settled_def by blast
next
  case (adv_settle cp e out r d)
  then have "v' = v \<or> terminalize_pending C v e out = Ok v'"
    by (auto simp: checkpoint_terminalize_outbox_def same_outcome_def obind_Ok_iff split: option.split_asm if_split_asm)
  then show ?thesis using grows_outbox(2) outbox_tombstones_same(1) by auto
next
  case (adv_compact cp e r d)
  then have "v' = v \<or> (\<exists>cs. compact_terminal C cp cs e = Ok v')"
    by (auto simp: checkpoint_compact_outbox_def obind_Ok_iff split: if_split_asm)
  then show ?thesis using adv_compact(1) grows_outbox(3) outbox_tombstones_same(2) by auto
next
  case (adv_tombstone cp op r d)
  then have "v' = v \<or> tombstone_retained C v op = Ok v'"
    by (auto simp: checkpoint_tombstone_root_def obind_Ok_iff split: if_split_asm)
  then show ?thesis
  proof
    assume *: "tombstone_retained C v op = Ok v'"
    then obtain r d st rs v1 v2 x where st: "next_revision v = Ok v1" "ofold (dispose_runtime_entries r d st) rs v1 = Ok v2"
        "seal_checkpoint C (jput ''root_record'' x v2) = Ok v'"
      by (auto simp: tombstone_retained_def seal_and_validate_Ok obind_Ok_iff Let_def)
    have "grows v2 (jput ''root_record'' x v2)" by (rule grows_jput) simp
    then have "grows v v'" using st by (meson grows_trans grows_revision grow.disposed_runtimes_rel grows_seal)
    with keeps_tombstone [OF *] show ?thesis by (simp add: same_settled_def)
  qed simp
next
  case (adv_admit members fresh core members')
  then obtain r v1 where "ofold (record_accepted r) (zip fresh (jflatten (jindex core ''accepted'')))
        (put_aggregate (jindex core ''state'') (jput ''revision'' r v), members) = Ok (v1, members')" "seal_checkpoint C v1 = Ok v'"
    by (auto simp: admission_value_def obind_Ok_iff)
  with keeps_admission [OF adv_admit] show ?thesis
    using grows_revised [OF grow.accepted_rel] by (auto simp: same_settled_def)
next
  case (adv_step causal core ixs)
  then obtain r v1 where "synchronize_internal_mailbox_references (put_aggregate (jindex core ''state'') (jput ''revision'' r v)) = Ok v1"
      "seal_checkpoint C v1 = Ok v' \<or> settle_terminal C causal core r ixs v1 = Ok v'"
    by (auto simp: apply_step_result_def obind_Ok_iff split: if_split_asm)
  with keeps_apply_step [OF adv_step] show ?thesis
    using grows_revised [OF grow.settled_rel] by (auto simp: same_settled_def)
next
  case (adv_collapse cp)
  then show ?thesis using grows_collapse keeps_collapse same_settled_def by blast
next
  case (adv_transaction cp migrated)
  then have "grows v v'" by (auto elim: grow.migration_rel [OF disjI1] intro: grows_revised)
  with adv_transaction keeps_migration(1) show ?thesis by (auto simp: same_settled_def)
next
  case (adv_maintenance cp migrated op dg t)
  then have "grows v v'" by (auto elim: grow.migration_rel [OF disjI2] intro: grows_revised)
  with adv_maintenance keeps_migration(2) show ?thesis by (auto simp: same_settled_def)
qed

section \<open>Evidence of a processed event\<close>

text \<open>A terminal receipt of the requested event with a disposition, and its identity tombstone.\<close>

definition receipt_for :: "processing_request \<Rightarrow> json \<Rightarrow> json \<Rightarrow> bool" where
  "receipt_for rq disposition r \<longleftrightarrow> jindex r ''operation_kind'' = JString ''event_terminal'' \<and>
     jindex r ''event_id'' = JString (pq_event_id rq) \<and> jindex r ''request_digest'' = JString (pq_envelope_digest rq) \<and>
     jindex r ''acceptance_sequence'' = JString (pq_acceptance_sequence rq) \<and>
     jindex r ''final_queue_sequence'' = JString (pq_queue_sequence rq) \<and> jindex (jindex r ''outcome'') ''disposition'' = disposition"

definition tombstone_for :: "processing_request \<Rightarrow> json \<Rightarrow> json \<Rightarrow> bool" where
  "tombstone_for rq disposition t \<longleftrightarrow>
     jindex t ''event_id'' = JString (pq_event_id rq) \<and> jindex t ''request_digest'' = JString (pq_envelope_digest rq) \<and>
     jindex t ''acceptance_sequence'' = JString (pq_acceptance_sequence rq) \<and> jindex t ''terminal_disposition'' = disposition"

definition has_receipt :: "processing_request \<Rightarrow> json \<Rightarrow> json \<Rightarrow> bool" where
  "has_receipt rq disposition v \<longleftrightarrow> (\<exists>r \<in> set (jflatten (jindex v ''operation_receipts'')). receipt_for rq disposition r)"

definition has_tombstone :: "processing_request \<Rightarrow> json \<Rightarrow> json \<Rightarrow> bool" where
  "has_tombstone rq disposition v \<longleftrightarrow> (\<exists>t \<in> set (jflatten (jindex v ''event_identity_tombstones'')). tombstone_for rq disposition t)"

lemma receipt_for_core: "event_core r = event_core r' \<Longrightarrow> receipt_for rq disposition r = receipt_for rq disposition r'"
  by (simp add: event_core_def receipt_for_def)

lemma receipt_grows:
  assumes "grows v v'" "has_receipt rq disposition v"
  shows "has_receipt rq disposition v'"
proof -
  from assms(2) obtain r where r: "r \<in> set (jflatten (jindex v ''operation_receipts''))" "receipt_for rq disposition r"
    by (auto simp: has_receipt_def)
  then have "event_core r \<in> event_cores v'" using assms(1) by (auto simp: grows_def event_cores_def)
  then obtain r' where "r' \<in> set (jflatten (jindex v' ''operation_receipts''))" "event_core r' = event_core r"
    by (auto simp: event_cores_def)
  with r(2) show ?thesis unfolding has_receipt_def using receipt_for_core by blast
qed

lemma receipt_tombstone: "receipt_for rq disposition r \<Longrightarrow> tombstone_for rq disposition (identity_tombstone r)"
  by (simp add: receipt_for_def tombstone_for_def identity_tombstone_def)

text \<open>The documents that operations commit, pruning included.\<close>

definition evolves :: "checkpoint_host \<Rightarrow> json \<Rightarrow> json \<Rightarrow> bool" where
  "evolves C v v' \<longleftrightarrow> advances C v v' \<or> (\<exists>cp rq r d. v = cp_value cp \<and> checkpoint_prune_v1 C cp rq r d = Ok v')"

lemma prune_evidence:
  assumes "checkpoint_prune_v1 C cp prq r d = Ok v"
  shows "has_receipt rq disposition (cp_value cp) \<Longrightarrow> has_receipt rq disposition v \<or> has_tombstone rq disposition v"
    and "has_tombstone rq disposition (cp_value cp) \<Longrightarrow> has_tombstone rq disposition v"
proof -
  have "(has_receipt rq disposition (cp_value cp) \<longrightarrow> has_receipt rq disposition v \<or> has_tombstone rq disposition v) \<and>
      (has_tombstone rq disposition (cp_value cp) \<longrightarrow> has_tombstone rq disposition v)"
  proof (cases "v = cp_value cp")
    case False
    with assms obtain requested receipts removable where st: "jarray (jindex (cp_value cp) ''operation_receipts'') = Some receipts"
        "ofilter (receipt_removable requested) receipts = Ok removable" "prune_receipts C (cp_value cp) prq receipts removable = Ok v"
      by (auto simp: checkpoint_prune_v1_def Let_def obind_Ok_iff split: if_split_asm)
    obtain ts rs' ts' where pr: "jarray (jindex (cp_value cp) ''event_identity_tombstones'') = Some ts"
        "jarray (jindex v ''operation_receipts'') = Some rs'" "mset rs' = mset (filter (\<lambda>r. receipt_removable requested r \<noteq> Ok True) receipts)"
        "jarray (jindex v ''event_identity_tombstones'') = Some ts'"
        "mset ts' = mset ts + mset (map identity_tombstone (filter is_terminal removable))"
      by (rule prune_receipts_Ok [OF st(3,2,1)]) blast
    have sets: "set rs' = {r \<in> set receipts. receipt_removable requested r \<noteq> Ok True}"
        "set ts' = set ts \<union> identity_tombstone ` set (filter is_terminal removable)"
      using arg_cong [OF pr(3), of set_mset] arg_cong [OF pr(5), of set_mset] by simp_all
    have "removable = filter (\<lambda>r. receipt_removable requested r = Ok True) receipts" using ofilter_Ok [OF st(2)] by blast
    moreover have "is_terminal r" if "receipt_for rq disposition r" for r using that by (simp add: receipt_for_def is_terminal_def)
    ultimately have kept: "x \<in> set rs' \<or> tombstone_for rq disposition (identity_tombstone x) \<and> identity_tombstone x \<in> set ts'"
      if "x \<in> set receipts" "receipt_for rq disposition x" for x
      using that receipt_tombstone by (auto simp: sets)
    have "has_receipt rq disposition v \<or> has_tombstone rq disposition v" if "has_receipt rq disposition (cp_value cp)"
      using that kept unfolding has_receipt_def has_tombstone_def jflatten_array [OF pr(2)] jflatten_array [OF pr(4)] jflatten_array [OF st(1)]
      by blast
    moreover have "has_tombstone rq disposition v" if "has_tombstone rq disposition (cp_value cp)"
      using that sets(2) unfolding has_tombstone_def jflatten_array [OF pr(1)] jflatten_array [OF pr(4)] by blast
    ultimately show ?thesis by blast
  qed simp
  then show "has_receipt rq disposition (cp_value cp) \<Longrightarrow> has_receipt rq disposition v \<or> has_tombstone rq disposition v"
    "has_tombstone rq disposition (cp_value cp) \<Longrightarrow> has_tombstone rq disposition v" by blast+
qed

lemma evolves_evidence:
  assumes "(evolves C)\<^sup>*\<^sup>* v v'" "has_receipt rq disposition v \<or> has_tombstone rq disposition v"
  shows "has_receipt rq disposition v' \<or> has_tombstone rq disposition v'"
  using assms
proof (induction rule: rtranclp_induct)
  case (step v v')
  from step.hyps(2) consider "advances C v v'" | cp prq r d where "v = cp_value cp" "checkpoint_prune_v1 C cp prq r d = Ok v'"
    by (auto simp: evolves_def)
  then show ?case
  proof cases
    case 1
    with advances_grows have "grows v v'" "jindex v' ''event_identity_tombstones'' = jindex v ''event_identity_tombstones''" by blast+
    with step show ?thesis using receipt_grows by (auto simp: has_tombstone_def)
  next
    case 2
    with step show ?thesis using prune_evidence by blast
  qed
qed simp

lemma advances_receipt: "(advances C)\<^sup>*\<^sup>* v v' \<Longrightarrow> has_receipt rq disposition v \<Longrightarrow> has_receipt rq disposition v'"
  by (induction rule: rtranclp_induct) (auto intro: receipt_grows dest: advances_grows)

section \<open>An event is processed once\<close>

lemma find_unique:
  assumes "\<And>x. x \<in> set xs \<Longrightarrow> p x \<Longrightarrow> x = y" "y \<in> set xs" "p y"
  shows "find p xs = Some y"
proof (cases "find p xs")
  case None
  with assms(2,3) show ?thesis unfolding find_None_iff by blast
next
  case (Some z)
  from assms(1) [of z] find_SomeD [OF Some] Some show ?thesis by blast
qed

text \<open>In a valid document the evidence of an event is what its request is answered with.\<close>

lemma evidence_replayed:
  assumes "validate_semantics C (cp_value cp) = Ok ()" "pq_processing_mode rq \<in> {''delayed'', ''foreground''}"
  shows "has_receipt rq disposition (cp_value cp) \<Longrightarrow> \<exists>r. checkpoint_step_replay cp rq = Ok (Some r) \<and> receipt_for rq disposition r"
    and "has_tombstone rq disposition (cp_value cp) \<Longrightarrow> \<exists>t. checkpoint_step_replay cp rq = Ok (Some t) \<and> tombstone_for rq disposition t"
proof -
  obtain rs ts where st: "jarray (jindex (cp_value cp) ''operation_receipts'') = Some rs"
      "jarray (jindex (cp_value cp) ''event_identity_tombstones'') = Some ts" "distinct (map event_of ts @ map event_of (filter is_terminal rs))"
    by (rule validated_identities_distinct [OF assms(1)])
  have terminal: "is_terminal_of (pq_event_id rq) r \<longleftrightarrow> is_terminal r \<and> event_of r = Some (pq_event_id rq)" for r
    by (simp add: is_terminal_of_def is_terminal_def event_of_def)
  show "\<exists>r. checkpoint_step_replay cp rq = Ok (Some r) \<and> receipt_for rq disposition r" if "has_receipt rq disposition (cp_value cp)"
  proof -
    from that st(1) obtain r where r: "r \<in> set rs" "receipt_for rq disposition r" by (auto simp: has_receipt_def jflatten_array)
    then have t: "is_terminal_of (pq_event_id rq) r" by (simp add: is_terminal_of_def receipt_for_def)
    from st(3) have "inj_on event_of (set (filter is_terminal rs))" by (simp add: distinct_map)
    with r(1) t have "find (is_terminal_of (pq_event_id rq)) rs = Some r"
      by (intro find_unique) (auto simp: terminal inj_on_def)
    with st(1) assms(2) r(2) show ?thesis by (auto simp: checkpoint_step_replay_def need_array_def receipt_for_def)
  qed
  show "\<exists>t. checkpoint_step_replay cp rq = Ok (Some t) \<and> tombstone_for rq disposition t" if "has_tombstone rq disposition (cp_value cp)"
  proof -
    from that st(2) obtain t where t: "t \<in> set ts" "tombstone_for rq disposition t" by (auto simp: has_tombstone_def jflatten_array)
    then have e: "event_of t = Some (pq_event_id rq)" by (simp add: event_of_def tombstone_for_def)
    have "find (is_terminal_of (pq_event_id rq)) rs = None"
    proof -
      from st(3) have "event_of t \<notin> event_of ` set (filter is_terminal rs)" using t(1) by auto
      then show ?thesis unfolding find_None_iff terminal e by (metis (mono_tags, lifting) filter_set image_eqI mem_Collect_eq set_filter)
    qed
    moreover have "find (\<lambda>item. jstr (jindex item ''event_id'') = Some (pq_event_id rq)) ts = Some t"
      using distinct_map_find [of event_of ts t] st(3) t(1) e by (simp add: event_of_def)
    ultimately show ?thesis using st(1,2) assms(2) t(2) by (auto simp: checkpoint_step_replay_def need_array_def tombstone_for_def)
  qed
qed

lemma step_receipt:
  assumes "checkpoint_step_v1_with_core C n B cp rq r d = Ok (v, Some core)"
    and "jindex core ''disposition'' \<notin> {JString ''not_runnable'', JString ''rejected'', JString ''deferred''}"
  shows "has_receipt rq (jindex core ''disposition'') v"
proof -
  obtain t where t: "\<And>cp'. cp_value cp' = v \<Longrightarrow> checkpoint_step_replay cp' rq = Ok (Some t)"
      "t \<in> set (jflatten (jindex v ''operation_receipts''))" "jindex t ''operation_kind'' = JString ''event_terminal''"
      "jindex t ''event_id'' = JString (pq_event_id rq)" "jindex (jindex t ''outcome'') ''disposition'' = jindex core ''disposition''"
    by (rule step_recorded [OF assms]) blast
  from t(1) [of "\<lparr>cp_value = v, cp_aggregate = None\<rparr>"]
  have replay: "checkpoint_step_replay \<lparr>cp_value = v, cp_aggregate = None\<rparr> rq = Ok (Some t)" by simp
  then obtain rs where rs: "jarray (jindex v ''operation_receipts'') = Some rs"
    by (auto simp: checkpoint_step_replay_def obind_Ok_iff split: if_split_asm)
  have "is_terminal_of (pq_event_id rq) t" "t \<in> set rs" using t(2-4) rs by (simp_all add: is_terminal_of_def jflatten_array)
  then obtain u where u: "find (is_terminal_of (pq_event_id rq)) rs = Some u"
    by (cases "find (is_terminal_of (pq_event_id rq)) rs") (auto simp: find_None_iff)
  with replay rs have "jstr (jindex t ''request_digest'') = Some (pq_envelope_digest rq) \<and>
      jstr (jindex t ''acceptance_sequence'') = Some (pq_acceptance_sequence rq) \<and>
      jstr (jindex t ''final_queue_sequence'') = Some (pq_queue_sequence rq)"
    by (simp add: checkpoint_step_replay_def need_array_def split: if_split_asm)
  with t(2-5) show ?thesis unfolding has_receipt_def by (auto simp: receipt_for_def jstr_Some)
qed

text \<open>
  C19: An event is processed at most once.  After a step has settled an event, whatever operations
  its checkpoint goes through, pruning and migrations included, the same request on the checkpoint
  runs nothing, whatever bundle, revision or digest it comes with.  It is answered with the terminal
  receipt of the event, or, when the receipt was pruned, with the identity tombstone of the event,
  and both name the disposition of the step.
\<close>

theorem processed_event_replayed:
  assumes "checkpoint_step_v1_with_core C n B cp rq r d = Ok (v, Some core)"
    and "jindex core ''disposition'' \<notin> {JString ''not_runnable'', JString ''rejected'', JString ''deferred''}"
    and "(evolves C)\<^sup>*\<^sup>* v (cp_value cp')" and "validate_semantics C (cp_value cp') = Ok ()"
  shows "\<exists>evidence. checkpoint_step_v1_with_core C n' B' cp' rq r' d' = Ok (evidence, None) \<and>
    (receipt_for rq (jindex core ''disposition'') evidence \<or> tombstone_for rq (jindex core ''disposition'') evidence) \<and>
    ((advances C)\<^sup>*\<^sup>* v (cp_value cp') \<longrightarrow> receipt_for rq (jindex core ''disposition'') evidence)"
proof -
  let ?d = "jindex core ''disposition''"
  have mode: "pq_processing_mode rq \<in> {''delayed'', ''foreground''}"
    using assms(1) by (auto simp: checkpoint_step_v1_with_core_def checkpoint_step_replay_def obind_Ok_iff split: if_split_asm)
  have first: "has_receipt rq ?d v" by (rule step_receipt [OF assms(1,2)])
  have "\<exists>evidence. checkpoint_step_replay cp' rq = Ok (Some evidence) \<and> (receipt_for rq ?d evidence \<or> tombstone_for rq ?d evidence) \<and>
      ((advances C)\<^sup>*\<^sup>* v (cp_value cp') \<longrightarrow> receipt_for rq ?d evidence)"
  proof (cases "has_receipt rq ?d (cp_value cp')")
    case True
    from evidence_replayed(1) [OF assms(4) mode this] show ?thesis by blast
  next
    case False
    then have "has_tombstone rq ?d (cp_value cp')" "\<not> (advances C)\<^sup>*\<^sup>* v (cp_value cp')"
      using evolves_evidence [OF assms(3)] advances_receipt first by blast+
    with evidence_replayed(2) [OF assms(4) mode] show ?thesis by blast
  qed
  then show ?thesis by (auto simp: checkpoint_step_v1_with_core_def)
qed

end
