(* ===== verification/Host_Results.thy ===== *)
theory Host_Results
  imports Checkpoint_Host Checkpoint_Replay
begin

text \<open>
  What the operations on a checkpoint hand to the host for a commit: the checkpoint itself, or a
  document of the next revision that the expected revision and digest allowed.
\<close>

section \<open>Documents\<close>

lemma oand_Ok: "oand a b = Ok x \<longleftrightarrow> (a = Ok False \<and> \<not> x) \<or> (a = Ok True \<and> b = Ok x)"
  by (cases a) (auto simp: oand_def)

text \<open>
  The schema of a checkpoint fixes its format, and no receipt or tombstone in it looks like a
  checkpoint.
\<close>

definition documents_typed :: "checkpoint_host \<Rightarrow> bool" where
  "documents_typed C \<longleftrightarrow> (\<forall>v. ck_schema C v \<longrightarrow> is_checkpoint v \<and>
     (\<forall>r \<in> set (jflatten (jindex v ''operation_receipts'')) \<union> set (jflatten (jindex v ''event_identity_tombstones'')).
        commit_candidate r = None))"

text \<open>\<^verbatim>\<open>v\<close> succeeds a checkpoint: the guard let the operation pass, and the revision is the next.\<close>

definition succeeds :: "execution_checkpoint \<Rightarrow> mutation_guard \<Rightarrow> json \<Rightarrow> bool" where
  "succeeds cp g v \<longleftrightarrow>
     checkpoint_guard cp (Some (mg_expected_revision g)) (Some (mg_expected_checkpoint_digest g)) = Ok () \<and> next_of (cp_value cp) v"

definition settles :: "execution_checkpoint \<Rightarrow> mutation_guard \<Rightarrow> json \<Rightarrow> bool" where
  "settles cp g result \<longleftrightarrow> (\<forall>v. commit_candidate result = Some v \<longrightarrow> v = cp_value cp \<or> succeeds cp g v)"

lemma settlesI: "is_checkpoint result \<Longrightarrow> result = cp_value cp \<or> succeeds cp g result \<Longrightarrow> settles cp g result"
  by (auto simp: settles_def commit_candidate_def)

lemma settles_none: "commit_candidate result = None \<Longrightarrow> settles cp g result"
  by (simp add: settles_def)

lemma succeeds_commits:
  "commits C cp (Some (mg_expected_revision g)) (Some (mg_expected_checkpoint_digest g)) v \<Longrightarrow> succeeds cp g v"
  by (simp add: succeeds_def commits_revised)

section \<open>Outbox, pruning and removal\<close>

lemma sealed_results:
  "checkpoint_update_pending_outbox C cp e st r d = Ok v \<Longrightarrow> v = cp_value cp \<or> ck_schema C v"
  "checkpoint_terminalize_outbox C cp e out r d = Ok v \<Longrightarrow> v = cp_value cp \<or> ck_schema C v"
  "checkpoint_compact_outbox C cp e r d = Ok v \<Longrightarrow> v = cp_value cp \<or> ck_schema C v"
  "checkpoint_tombstone_root C cp operation_id r d = Ok v \<Longrightarrow> v = cp_value cp \<or> ck_schema C v"
  "checkpoint_prune_v1 C cp rq r d = Ok v \<Longrightarrow> v = cp_value cp \<or> ck_schema C v"
  subgoal by (auto simp: checkpoint_update_pending_outbox_def seal_and_validate_Ok obind_Ok_iff split: if_split_asm)
  subgoal by (auto simp: checkpoint_terminalize_outbox_def same_outcome_def terminalize_pending_def seal_and_validate_Ok obind_Ok_iff
        Let_def split: option.split_asm if_split_asm)
  subgoal by (auto simp: checkpoint_compact_outbox_def compact_terminal_def seal_and_validate_Ok obind_Ok_iff Let_def split: if_split_asm)
  subgoal by (auto simp: checkpoint_tombstone_root_def tombstone_retained_def seal_and_validate_Ok obind_Ok_iff Let_def split: if_split_asm)
  subgoal by (auto simp: checkpoint_prune_v1_def prune_receipts_def seal_and_validate_Ok obind_Ok_iff Let_def split: if_split_asm)
  done

lemma outbox_settles:
  assumes "documents_typed C" "ck_schema C (cp_value cp)"
  shows "checkpoint_update_pending_outbox C cp e st (Some (mg_expected_revision g)) (Some (mg_expected_checkpoint_digest g)) = Ok v \<Longrightarrow> settles cp g v"
    and "checkpoint_terminalize_outbox C cp e out (Some (mg_expected_revision g)) (Some (mg_expected_checkpoint_digest g)) = Ok v \<Longrightarrow> settles cp g v"
    and "checkpoint_compact_outbox C cp e (Some (mg_expected_revision g)) (Some (mg_expected_checkpoint_digest g)) = Ok v \<Longrightarrow> settles cp g v"
    and "checkpoint_tombstone_root C cp operation_id (Some (mg_expected_revision g)) (Some (mg_expected_checkpoint_digest g)) = Ok v \<Longrightarrow> settles cp g v"
    and "checkpoint_prune_v1 C cp rq (Some (mg_expected_revision g)) (Some (mg_expected_checkpoint_digest g)) = Ok v \<Longrightarrow> settles cp g v"
proof -
  have typed: "is_checkpoint v" if "v = cp_value cp \<or> ck_schema C v" for v
    using that assms by (auto simp: documents_typed_def)
  show "settles cp g v" if "checkpoint_update_pending_outbox C cp e st (Some (mg_expected_revision g)) (Some (mg_expected_checkpoint_digest g)) = Ok v"
    using that sealed_results(1) [OF that] by (blast intro: settlesI typed succeeds_commits commit_update)
  show "settles cp g v" if "checkpoint_terminalize_outbox C cp e out (Some (mg_expected_revision g)) (Some (mg_expected_checkpoint_digest g)) = Ok v"
    using that sealed_results(2) [OF that] by (blast intro: settlesI typed succeeds_commits commit_settle)
  show "settles cp g v" if "checkpoint_compact_outbox C cp e (Some (mg_expected_revision g)) (Some (mg_expected_checkpoint_digest g)) = Ok v"
    using that sealed_results(3) [OF that] by (blast intro: settlesI typed succeeds_commits commit_compact)
  show "settles cp g v" if "checkpoint_tombstone_root C cp operation_id (Some (mg_expected_revision g)) (Some (mg_expected_checkpoint_digest g)) = Ok v"
    using that sealed_results(4) [OF that] by (blast intro: settlesI typed succeeds_commits commit_tombstone)
  show "settles cp g v" if "checkpoint_prune_v1 C cp rq (Some (mg_expected_revision g)) (Some (mg_expected_checkpoint_digest g)) = Ok v"
    using that sealed_results(5) [OF that] by (blast intro: settlesI typed succeeds_commits commit_prune)
qed

section \<open>Steps\<close>

text \<open>A property of every value a computation may return, taken through its binds.\<close>

definition ensures :: "('a \<Rightarrow> bool) \<Rightarrow> ('a, 'e) outcome \<Rightarrow> bool" where
  "ensures P m \<longleftrightarrow> (\<forall>a. m = Ok a \<longrightarrow> P a)"

lemma ensures_simps [simp]:
  "ensures P (Ok a) \<longleftrightarrow> P a" "ensures P (Err e)" "ensures P Panic" "ensures P OutOfFuel"
  by (auto simp: ensures_def)

lemma ensures_obind: "(\<And>a. ensures P (f a)) \<Longrightarrow> ensures P (obind m f)"
  by (cases m) auto

lemma ensures_obind_from: "ensures Q m \<Longrightarrow> (\<And>a. Q a \<Longrightarrow> ensures P (f a)) \<Longrightarrow> ensures P (obind m f)"
  by (cases m) auto

lemma ensures_split:
  "(b \<Longrightarrow> ensures P x) \<Longrightarrow> (\<not> b \<Longrightarrow> ensures P y) \<Longrightarrow> ensures P (if b then x else y)"
  "(\<And>c d. ensures P (h c d)) \<Longrightarrow> ensures P (case p of (c, d) \<Rightarrow> h c d)"
  "ensures P x \<Longrightarrow> (\<And>k. ensures P (g k)) \<Longrightarrow> ensures P (case opt of None \<Rightarrow> x | Some k \<Rightarrow> g k)"
  "ensures P x \<Longrightarrow> (\<And>e es. ensures P (f e es)) \<Longrightarrow> ensures P (case xs of [] \<Rightarrow> x | e # es \<Rightarrow> f e es)"
  by (auto split: prod.split option.split list.split)

lemma core_step_no_candidate: "ensures (\<lambda>core. commit_candidate core = None) (core_step_result a disposition es ls f rj)"
  by (auto simp: core_step_result_def commit_candidate_def is_checkpoint_def intro!: ensures_obind)

lemmas core_result_rule = ensures_obind_from [OF core_step_no_candidate]

lemma deferred_no_candidate: "ensures (\<lambda>x. commit_candidate (fst x) = None) (deferred_step H B a rid r d e)"
  unfolding deferred_step_def by (rule core_result_rule ensures_split | rule ensures_obind | simp)+

lemma step_no_candidate: "ensures (\<lambda>x. commit_candidate (fst x) = None) (step_v1_impl H n B a rid)"
  unfolding step_v1_impl_def core_step_rejected_def
  by (rule core_result_rule deferred_no_candidate ensures_split | rule ensures_obind | simp)+

lemma core_no_candidate: "step_v1_impl H n B a rid = Ok (core, ixs) \<Longrightarrow> commit_candidate core = None"
  using step_no_candidate [of H n B a rid] by (simp add: ensures_def)

lemma revised_format:
  assumes "is_checkpoint v" "incremented (jindex v ''revision'') = Ok r" "keeps (put_aggregate state (jput ''revision'' r v)) v'"
  shows "is_checkpoint v'"
  using assms incremented_object [OF assms(2)] by (auto simp: is_checkpoint_def put_aggregate_def keeps_def working_members_def)

lemma apply_step_settles:
  assumes "apply_step_result C v causal core ixs = Ok v'" "is_checkpoint v" "commit_candidate core = None" "commit_candidate v' = Some w"
  shows "w = v' \<and> next_of v w \<and> is_checkpoint w"
proof (cases "jindex core ''disposition'' \<in> {JString ''not_runnable'', JString ''rejected''}")
  case False
  with assms(1) obtain r v1 where r: "incremented (jindex v ''revision'') = Ok r"
      "synchronize_internal_mailbox_references (put_aggregate (jindex core ''state'') (jput ''revision'' r v)) = Ok v1"
      "seal_checkpoint C v1 = Ok v' \<or> settle_terminal C causal core r ixs v1 = Ok v'"
    by (auto simp: apply_step_result_def obind_Ok_iff split: if_split_asm)
  then have "keeps (put_aggregate (jindex core ''state'') (jput ''revision'' r v)) v'"
    by (meson keeps_trans keeps_step keeps_terminal)
  with r(1) revised revised_format [OF assms(2)] assms(4) show ?thesis by (fastforce simp: commit_candidate_def)
qed (use assms in \<open>simp add: apply_step_result_def\<close>)

lemma step_settles:
  assumes "checkpoint_step_v1_with_core C n B cp rq (Some (mg_expected_revision g)) (Some (mg_expected_checkpoint_digest g)) = Ok (result, core)"
    "checkpoint_step_replay cp rq = Ok None" "is_checkpoint (cp_value cp)"
  shows "settles cp g result"
proof -
  from assms(1,2) obtain a causal c ixs where
      "checkpoint_guard cp (Some (mg_expected_revision g)) (Some (mg_expected_checkpoint_digest g)) = Ok ()"
      "step_v1_impl (ck_host C) n B a (pq_target_runtime_id rq) = Ok (c, ixs)" "apply_step_result C (cp_value cp) causal c ixs = Ok result"
    by (auto simp: checkpoint_step_v1_with_core_def obind_Ok_iff split: if_split_asm)
  with assms(3) core_no_candidate show ?thesis unfolding settles_def succeeds_def by (meson apply_step_settles)
qed

section \<open>Evidence of earlier deliveries\<close>

lemma ensures_ofold:
  "I b \<Longrightarrow> (\<And>x b. x \<in> set xs \<Longrightarrow> I b \<Longrightarrow> ensures I (f x b)) \<Longrightarrow> ensures I (ofold f xs b)"
  by (induction xs arbitrary: b) (auto intro: ensures_obind_from)

definition inert :: "(string, retained_evidence) btree_map \<Rightarrow> bool" where
  "inert m \<longleftrightarrow> (\<forall>e ev. bm_get m e = Some ev \<longrightarrow> commit_candidate (re_replay ev) = None)"

lemma inert_insert: "inert m \<Longrightarrow> commit_candidate (re_replay ev) = None \<Longrightarrow> inert (bm_insert e ev m)"
  by (simp add: inert_def)

lemma replay_no_candidate: "commit_candidate (jobj [(''result'', JString ''replay''), (''event_id'', a), (''acceptance_sequence'', b), (''location'', c)]) = None"
  by (simp add: commit_candidate_def is_checkpoint_def)

lemma acceptance_receipts_inert:
  assumes "acceptance_receipts receipts = Ok acceptance" "\<forall>r \<in> set receipts. commit_candidate r = None" "bm_get acceptance e = Some r"
  shows "commit_candidate r = None"
proof -
  from assms(1) obtain ps where ps: "map (\<lambda>r. obind (string_field r ''event_id'') (\<lambda>e. Ok (e, r)))
      (filter (\<lambda>r. jindex r ''operation_kind'' = JString ''acceptance'') receipts) = map Ok ps" "acceptance = bm_of ps []"
    by (auto simp: acceptance_receipts_def obind_Ok_iff collect_outcome_Ok)
  with assms(3) have "(e, r) \<in> set ps" by (auto simp: bm_get_bm_of dest: map_of_SomeD split: option.split_asm)
  then have "Ok (e, r) \<in> set (map Ok ps :: (string \<times> json, string) outcome list)" by simp
  then have "r \<in> set receipts" unfolding ps(1) [symmetric] by (auto simp: obind_Ok_iff dest: sym)
  with assms(2) show ?thesis by blast
qed

lemma evidence_inert:
  assumes acc: "\<And>e r. bm_get acceptance e = Some r \<Longrightarrow> commit_candidate r = None"
  shows "inert m \<Longrightarrow> ensures inert (entry_evidence acceptance l entry m)"
    and "inert m \<Longrightarrow> ensures inert (runtime_evidence acceptance rt m)"
    and "inert m \<Longrightarrow> commit_candidate receipt = None \<Longrightarrow> ensures inert (terminal_evidence acceptance receipt m)"
    and "inert m \<Longrightarrow> commit_candidate item = None \<Longrightarrow> ensures inert (tombstone_evidence item m)"
proof -
  show entry: "inert m \<Longrightarrow> ensures inert (entry_evidence acceptance l entry m)" for l entry m
    unfolding entry_evidence_def
    by (auto intro!: ensures_obind inert_insert simp: replay_no_candidate split: option.split) (rule acc)
  show "inert m \<Longrightarrow> ensures inert (runtime_evidence acceptance rt m)"
    unfolding runtime_evidence_def
    by (rule ensures_obind, rule ensures_obind_from [OF ensures_ofold [of inert]], assumption, erule entry,
        rule ensures_obind, erule ensures_ofold, erule entry)
  show "inert m \<Longrightarrow> commit_candidate receipt = None \<Longrightarrow> ensures inert (terminal_evidence acceptance receipt m)"
    unfolding terminal_evidence_def
    by (auto intro!: ensures_obind inert_insert split: option.split) (rule acc)
  show "inert m \<Longrightarrow> commit_candidate item = None \<Longrightarrow> ensures inert (tombstone_evidence item m)"
    unfolding tombstone_evidence_def by (auto intro!: ensures_obind inert_insert)
qed

lemma retained_inert:
  assumes "documents_typed C" "ck_schema C v" "retained_identity v = Ok m"
  shows "inert m"
proof -
  from assms(3) obtain receipts acceptance m1 m2 tombstones where st:
      "jarray (jindex v ''operation_receipts'') = Some receipts" "acceptance_receipts receipts = Ok acceptance"
      "(if is_retained v then obind (need_array (checkpoint_aggregate v) ''runtimes'') (\<lambda>rs. ofold (runtime_evidence acceptance) rs [])
        else Ok []) = Ok m1" "ofold (terminal_evidence acceptance) receipts m1 = Ok m2"
      "jarray (jindex v ''event_identity_tombstones'') = Some tombstones" "ofold tombstone_evidence tombstones m2 = Ok m"
    unfolding retained_identity_def obind_Ok_iff by auto
  have plain: "commit_candidate r = None" if "r \<in> set receipts \<or> r \<in> set tombstones" for r
    using assms(1,2) that st(1,5) by (auto simp: documents_typed_def jflatten_array)
  then have acc: "commit_candidate r = None" if "bm_get acceptance e = Some r" for e r
    using acceptance_receipts_inert [OF st(2) _ that] by blast
  have empty: "inert []" by (simp add: inert_def bm_get_def)
  have "ensures inert (if is_retained v then obind (need_array (checkpoint_aggregate v) ''runtimes'')
      (\<lambda>rs. ofold (runtime_evidence acceptance) rs []) else Ok [])"
    using empty by (auto intro!: ensures_obind ensures_ofold evidence_inert(2) [OF acc])
  with st(3) have "inert m1" by (simp add: ensures_def)
  then have "ensures inert (ofold (terminal_evidence acceptance) receipts m1)"
    by (rule ensures_ofold) (auto intro!: evidence_inert(3) [OF acc] plain)
  with st(4) have "inert m2" by (simp add: ensures_def)
  then have "ensures inert (ofold tombstone_evidence tombstones m2)"
    by (rule ensures_ofold) (auto intro!: evidence_inert(4) [OF acc] plain)
  with st(6) show ?thesis by (simp add: ensures_def)
qed

section \<open>Admission\<close>

lemma batch_candidate: "is_checkpoint v \<Longrightarrow> commit_candidate (batch_result v ms) = Some v"
  by (simp add: commit_candidate_def) (simp add: batch_result_def)

lemma admission_result_cases: "admission_result (v, ms) = v \<or> admission_result (v, ms) = batch_result v ms"
  by (auto simp: admission_result_def split: list.split option.split)

lemma admission_settles:
  assumes "admission_value C (cp_value cp) members fresh core = Ok vm" "is_checkpoint (cp_value cp)"
    "checkpoint_guard cp (Some (mg_expected_revision g)) (Some (mg_expected_checkpoint_digest g)) = Ok ()"
  shows "settles cp g (admission_result vm)"
proof -
  obtain v ms where vm: "vm = (v, ms)" by fastforce
  have "next_of (cp_value cp) v" using assms(1) keeps_admission vm by blast
  from assms(1) vm obtain r v1 where r: "incremented (jindex (cp_value cp) ''revision'') = Ok r"
      "ofold (record_accepted r) (zip fresh (jflatten (jindex core ''accepted'')))
        (put_aggregate (jindex core ''state'') (jput ''revision'' r (cp_value cp)), members) = Ok (v1, ms)" "seal_checkpoint C v1 = Ok v"
    by (auto simp: admission_value_def obind_Ok_iff)
  from r(1) keep.accepted_rel [OF r(2,3)] assms(2) have "is_checkpoint v" by (blast intro: revised_format)
  with \<open>next_of (cp_value cp) v\<close> assms(3) show ?thesis
    using admission_result_cases [of v ms] batch_candidate [of v ms]
    by (auto simp: settles_def succeeds_def vm commit_candidate_def)
qed

lemma member_evidence: "jindex (replay_member e x) ''evidence'' = x"
  by (simp add: replay_member_def)

definition replays_inert :: "json option list \<Rightarrow> bool" where
  "replays_inert ms \<longleftrightarrow> (\<forall>m. Some m \<in> set ms \<longrightarrow> commit_candidate (jindex m ''evidence'') = None)"

lemma classified_inert:
  assumes "inert retained" "replays_inert (sc_members sc)"
  shows "ensures (\<lambda>sc. replays_inert (sc_members sc)) (classify_delivery C i retained x sc)"
  using assms
  by (cases x) (auto simp: classify_delivery_def Let_def replays_inert_def inert_def member_evidence
      intro!: ensures_obind split: option.split dest!: set_update_subset_insert [THEN subsetD])

lemma scan_inert:
  assumes "inert retained" "ofold (classify_delivery C i retained) xs sc = Ok sc'" "replays_inert (sc_members sc)"
  shows "replays_inert (sc_members sc')"
proof -
  have "ensures (\<lambda>sc. replays_inert (sc_members sc)) (ofold (classify_delivery C i retained) xs sc)"
    using assms(3) by (rule ensures_ofold) (rule classified_inert [OF assms(1)])
  with assms(2) show ?thesis by (simp add: ensures_def)
qed

lemma ensures_obind_eq: "(\<And>a. m = Ok a \<Longrightarrow> ensures P (f a)) \<Longrightarrow> ensures P (obind m f)"
  by (cases m) auto

lemma admit_new_settles:
  assumes "is_checkpoint (cp_value cp)"
  shows "ensures (settles cp g) (admit_new C B cp sc (Some (mg_expected_revision g)) (Some (mg_expected_checkpoint_digest g)))"
  unfolding admit_new_def by (auto intro!: ensures_obind_eq admission_settles [OF _ assms])

lemma admit_settles:
  assumes typed: "documents_typed C" "ck_schema C (cp_value cp)"
  shows "ensures (settles cp g) (checkpoint_admit_v1_with_optional_bundle C B cp ds (Some (mg_expected_revision g))
    (Some (mg_expected_checkpoint_digest g)))"
proof -
  have cp: "is_checkpoint (cp_value cp)" using typed by (simp add: documents_typed_def)
  have final: "ensures (settles cp g) (if sc_fresh sc = [] \<and> length (sc_members sc) = 1
        then obind (expect (hd (sc_members sc))) (\<lambda>member. Ok (jindex member ''evidence''))
        else if sc_fresh sc = [] then Ok (batch_result (cp_value cp) (sc_members sc))
        else admit_new C B cp sc (Some (mg_expected_revision g)) (Some (mg_expected_checkpoint_digest g)))"
    if st: "retained_identity (cp_value cp) = Ok retained"
      "ofold (classify_delivery C i retained) xs \<lparr>sc_seen = [], sc_members = replicate (length ds) None, sc_fresh = []\<rparr> = Ok sc"
    for retained i xs sc
  proof (intro ensures_split admit_new_settles cp)
    have "replays_inert (sc_members sc)"
      using scan_inert [OF retained_inert [OF typed st(1)] st(2)] by (simp add: replays_inert_def)
    moreover assume "sc_fresh sc = [] \<and> length (sc_members sc) = 1"
    then have "Some m \<in> set (sc_members sc)" if "hd (sc_members sc) = Some m" for m
      using that by (cases "sc_members sc") auto
    ultimately show "ensures (settles cp g) (obind (expect (hd (sc_members sc))) (\<lambda>member. Ok (jindex member ''evidence'')))"
      by (auto simp: replays_inert_def expect_def intro!: settles_none ensures_obind_eq split: option.split_asm)
  next
    show "ensures (settles cp g) (Ok (batch_result (cp_value cp) (sc_members sc)))"
      using batch_candidate [OF cp] by (simp add: settles_def)
  qed
  show ?thesis unfolding checkpoint_admit_v1_with_optional_bundle_def
    by (rule ensures_split(1), simp, rule ensures_obind_eq, rule ensures_obind_eq, rule ensures_split(1), simp,
        rule ensures_obind_eq, rule ensures_obind_eq, rule final)
qed

section \<open>Processing and migration\<close>

abbreviation guard_passes :: "execution_checkpoint \<Rightarrow> mutation_guard \<Rightarrow> bool" where
  "guard_passes cp g \<equiv> checkpoint_guard cp (Some (mg_expected_revision g)) (Some (mg_expected_checkpoint_digest g)) = Ok ()"

lemma collapse_settles:
  assumes "documents_typed C" "guard_passes cp g"
  shows "ensures (settles cp g) (collapse_process_revision C cp v)"
proof -
  have "is_checkpoint v'" if "collapse_process_revision C cp v = Ok v'" for v'
    using that assms(1) by (auto simp: collapse_process_revision_def obind_Ok_iff seal_and_validate_Ok documents_typed_def Let_def)
  then show ?thesis using keeps_collapse assms(2) by (auto simp: ensures_def succeeds_def intro!: settlesI)
qed

lemma process_replay_settles:
  assumes "documents_typed C" "ck_schema C (cp_value cp)"
  shows "ensures (\<lambda>x. \<forall>v. x = Some v \<longrightarrow> settles cp g v) (checkpoint_process_replay C cp delivery mode)"
proof -
  have "settles cp g (case find p receipts of Some receipt \<Rightarrow> receipt | None \<Rightarrow> re_replay ev)"
    if "retained_identity (cp_value cp) = Ok retained" "bm_get retained e = Some ev" "need_array (cp_value cp) ''operation_receipts'' = Ok receipts"
    for p receipts ev e retained
  proof (rule settles_none, cases "find p receipts")
    case None
    with retained_inert [OF assms that(1)] that(2) show "commit_candidate (case find p receipts of Some receipt \<Rightarrow> receipt | None \<Rightarrow> re_replay ev) = None"
      by (simp add: inert_def)
  next
    case (Some r)
    then have "r \<in> set receipts" by (auto simp: find_Some_iff)
    with assms that(3) Some show "commit_candidate (case find p receipts of Some receipt \<Rightarrow> receipt | None \<Rightarrow> re_replay ev) = None"
      by (auto simp: documents_typed_def jflatten_array)
  qed
  then show ?thesis unfolding checkpoint_process_replay_def
    by (auto intro!: ensures_obind_eq simp: Let_def split: option.split)
qed

lemma process_admitted_settles:
  assumes "documents_typed C" "guard_passes cp g" "is_checkpoint w"
  shows "ensures (\<lambda>x. settles cp g (fst x)) (process_admitted C n B cp event_id R w)"
proof -
  have "settles cp g stepped" if "step_v1_impl H n B a rid = Ok (core, ixs)" "apply_step_result C w causal core ixs = Ok stepped"
      "\<not> is_checkpoint stepped" for H a rid core ixs causal stepped
    using apply_step_settles [OF that(2) assms(3) core_no_candidate [OF that(1)]] that(3)
    by (cases "commit_candidate stepped") (auto intro: settles_none)
  then show ?thesis unfolding process_admitted_def
    by (auto intro!: ensures_obind_eq ensures_obind_from [OF collapse_settles [OF assms(1,2)]])
qed

lemma process_settles:
  assumes typed: "documents_typed C" "ck_schema C (cp_value cp)"
  shows "ensures (\<lambda>x. settles cp g (fst x)) (checkpoint_process_resolved C n B cp delivery mode (Some (mg_expected_revision g))
    (Some (mg_expected_checkpoint_digest g)) R)"
proof -
  have admitted: "settles cp g v" if "checkpoint_admit_v1 C B cp [delivery] (Some (mg_expected_revision g)) (Some (mg_expected_checkpoint_digest g)) = Ok v" for v
    using admit_settles [OF typed, of g "Some B" "[delivery]"] that by (simp add: checkpoint_admit_v1_def ensures_def)
  have "ensures (\<lambda>x. settles cp g (fst x)) (if \<not> is_checkpoint v then Ok (v, None) else process_admitted C n B cp event_id R v)"
    if "checkpoint_admit_v1 C B cp [delivery] (Some (mg_expected_revision g)) (Some (mg_expected_checkpoint_digest g)) = Ok v"
      "guard_passes cp g" for v event_id
    using admitted [OF that(1)] process_admitted_settles [OF typed(1) that(2)] by simp
  then show ?thesis unfolding checkpoint_process_resolved_def
    by (auto intro!: ensures_obind_eq ensures_obind_from [OF process_replay_settles [OF typed]] split: option.split)
qed

lemma transactional_settles:
  assumes typed: "documents_typed C" "ck_schema C (cp_value cp)"
  shows "ensures (\<lambda>x. settles cp g (fst x)) (checkpoint_process_with_migration_with_core C A n cp request R limits delivery mode
    (Some (mg_expected_revision g)) (Some (mg_expected_checkpoint_digest g)))"
  unfolding checkpoint_process_with_migration_with_core_def
  by (rule ensures_obind_from [OF process_replay_settles [OF typed, of g]])
     (auto intro!: ensures_obind_eq dest: collapse_settles [OF typed(1), unfolded ensures_def, rule_format] split: option.split)

lemma maintenance_settles:
  assumes "documents_typed C" "guard_passes cp g"
  shows "ensures (settles cp g) (checkpoint_maintenance_migration_route C A cp request operation_id request_digest R limits None None)"
proof -
  have "settles cp g v" if "apply_checkpoint_migration_v1 C cp migrated operation_id request_digest t = Ok v" for migrated t v
  proof (rule settlesI)
    show "is_checkpoint v"
      using that assms(1) by (auto simp: apply_checkpoint_migration_v1_def obind_Ok_iff seal_and_validate_Ok documents_typed_def Let_def)
    show "v = cp_value cp \<or> succeeds cp g v" using keeps_migration(2) [OF that] assms(2) by (simp add: succeeds_def)
  qed
  then show ?thesis unfolding checkpoint_maintenance_migration_route_def
    by (intro ensures_obind_eq) (simp add: ensures_def)
qed

lemma maintenance_guard_passes: "maintenance_guard cp request = Ok () \<Longrightarrow> guard_passes cp (mm_guard request)"
  by (auto simp: maintenance_guard_def obind_Ok_iff oand_Ok cp_revision_def cp_digest_def checkpoint_guard_def split: if_split_asm)

section \<open>Every operation\<close>

text \<open>
  What the operations on a checkpoint return to a caller with an expected revision and digest:
  all operations of \<^verbatim>\<open>src/checkpoint/v1.rs\<close> that take a guard, with any result.
\<close>

inductive answers :: "checkpoint_host \<Rightarrow> execution_checkpoint \<Rightarrow> string \<Rightarrow> string \<Rightarrow> json \<Rightarrow> bool" for C cp r d where
  ans_admit: "checkpoint_admit_v1_with_optional_bundle C B cp deliveries (Some r) (Some d) = Ok v \<Longrightarrow> answers C cp r d v"
| ans_step: "checkpoint_step_v1_with_core C n B cp rq (Some r) (Some d) = Ok (v, core) \<Longrightarrow> answers C cp r d v"
| ans_process: "checkpoint_process_resolved C n B cp delivery mode (Some r) (Some d) R = Ok (v, core) \<Longrightarrow> answers C cp r d v"
| ans_transaction: "checkpoint_process_with_migration_with_core C A n cp request AR limits delivery mode (Some r) (Some d) = Ok (v, core) \<Longrightarrow>
    answers C cp r d v"
| ans_maintenance: "checkpoint_maintenance_migration_route C A cp request operation_id request_digest AR limits (Some r) (Some d) = Ok v \<Longrightarrow>
    answers C cp r d v"
| ans_update: "checkpoint_update_pending_outbox C cp e st (Some r) (Some d) = Ok v \<Longrightarrow> answers C cp r d v"
| ans_settle: "checkpoint_terminalize_outbox C cp e out (Some r) (Some d) = Ok v \<Longrightarrow> answers C cp r d v"
| ans_compact: "checkpoint_compact_outbox C cp e (Some r) (Some d) = Ok v \<Longrightarrow> answers C cp r d v"
| ans_tombstone: "checkpoint_tombstone_root C cp operation_id (Some r) (Some d) = Ok v \<Longrightarrow> answers C cp r d v"
| ans_prune: "checkpoint_prune_v1 C cp prq (Some r) (Some d) = Ok v \<Longrightarrow> answers C cp r d v"

lemma step_replay_settles:
  assumes "documents_typed C" "ck_schema C (cp_value cp)" "checkpoint_step_replay cp rq = Ok (Some t)"
  shows "settles cp g t"
proof (rule settles_none)
  from assms(3) obtain p rs where "find p rs = Some t"
      "rs = jflatten (jindex (cp_value cp) ''operation_receipts'') \<or> rs = jflatten (jindex (cp_value cp) ''event_identity_tombstones'')"
    by (auto simp: checkpoint_step_replay_def obind_Ok_iff jflatten_array split: if_split_asm option.split_asm)
  with assms(1,2) show "commit_candidate t = None" by (auto simp: documents_typed_def dest!: find_SomeD)
qed

lemma step_any_settles:
  assumes "documents_typed C" "ck_schema C (cp_value cp)"
    "checkpoint_step_v1_with_core C n B cp rq (Some (mg_expected_revision g)) (Some (mg_expected_checkpoint_digest g)) = Ok (v, core)"
  shows "settles cp g v"
proof -
  from assms(3) obtain replayed where r: "checkpoint_step_replay cp rq = Ok replayed"
    by (auto simp: checkpoint_step_v1_with_core_def obind_Ok_iff)
  show ?thesis
  proof (cases replayed)
    case None
    with r assms show ?thesis using step_settles by (auto simp: documents_typed_def)
  next
    case (Some t)
    with r assms(3) have "v = t" by (simp add: checkpoint_step_v1_with_core_def)
    with step_replay_settles [OF assms(1,2)] r Some show ?thesis by simp
  qed
qed

lemma answers_settle:
  assumes typed: "documents_typed C" "ck_schema C (cp_value cp)"
    and "answers C cp (mg_expected_revision g) (mg_expected_checkpoint_digest g) v"
  shows "settles cp g v"
  using assms(3)
proof cases
  case (ans_maintenance A request op dg AR limits)
  then have "guard_passes cp g" "checkpoint_maintenance_migration_route C A cp request op dg AR limits None None = Ok v"
    by (auto simp: checkpoint_maintenance_migration_route_def obind_Ok_iff checkpoint_guard_def split: if_split_asm)
  with maintenance_settles [OF typed(1)] show ?thesis unfolding ensures_def by blast
next
  case (ans_admit B deliveries)
  with admit_settles [OF typed] show ?thesis unfolding ensures_def by blast
next
  case (ans_process n B delivery mode R core)
  with process_settles [OF typed] show ?thesis unfolding ensures_def by fastforce
next
  case (ans_transaction A n request AR limits delivery mode core)
  with transactional_settles [OF typed] show ?thesis unfolding ensures_def by fastforce
qed (auto intro: step_any_settles [OF typed] outbox_settles [OF typed])

text \<open>
  C20: A commit is guarded and takes exactly one revision.  Whatever operation on a checkpoint
  returns a document to be committed, by itself or as the checkpoint of a batch, the document is
  the checkpoint as it was, or the caller expected the revision and digest of the checkpoint and
  the document has the next revision.  So a caller with a stale expectation changes nothing.
\<close>

theorem commit_guarded_one_revision:
  assumes "documents_typed C" and "ck_schema C (cp_value cp)"
    and "answers C cp r d result" and "commit_candidate result = Some v"
  shows "v = cp_value cp \<or> checkpoint_guard cp (Some r) (Some d) = Ok () \<and>
    (\<exists>c. jcounter (jindex (cp_value cp) ''revision'') = Some c \<and> jcounter (jindex v ''revision'') = Some (Suc c))"
proof -
  let ?g = "\<lparr>mg_expected_revision = r, mg_expected_checkpoint_digest = d\<rparr>"
  have "settles cp ?g result" by (rule answers_settle [OF assms(1,2)]) (use assms(3) in simp)
  with assms(4) show ?thesis by (auto simp: settles_def succeeds_def next_of_def)
qed

end
