(* ===== verification/Host_Spec.thy ===== *)
theory Host_Spec
  imports Host_Results
begin

text \<open>
  What the checkpoint host does to its store.  The contract of a store access is a locale, with
  the in-memory store as its instance; under it every operation either leaves the store alone or
  replaces the record it loaded by one that restores to a newer checkpoint.
\<close>

section \<open>Reading canonical text\<close>

text \<open>
  A parser may read a number of a canonical text in another representation, and nothing else:
  \<^verbatim>\<open>denumber\<close> forgets the numbers of a document.
\<close>

primrec denumber :: "json \<Rightarrow> json" where
  "denumber JNull = JNull"
| "denumber (JBool b) = JBool b"
| "denumber (JNumber n) = JNumber (PosInt 0)"
| "denumber (JString s) = JString s"
| "denumber (JArray js) = JArray (map denumber js)"
| "denumber (JObject ms) = JObject (map (map_prod id denumber) ms)"

definition text_faithful :: "checkpoint_host \<Rightarrow> bool" where
  "text_faithful C \<longleftrightarrow> (\<forall>v t w. ho_canonical_text (ck_host C) v = Some t \<longrightarrow> ck_parse C t = Some w \<longrightarrow>
     ho_canonical_text (ck_host C) w = Some t \<and> denumber w = denumber v)"

lemma denumber_string [simp]: "denumber v = JString s \<longleftrightarrow> v = JString s" "JString s = denumber v \<longleftrightarrow> v = JString s"
  by (cases v; auto)+

lemma denumber_array: "denumber v = JArray xs \<longleftrightarrow> (\<exists>ys. v = JArray ys \<and> xs = map denumber ys)"
  by (cases v) auto

lemma denumber_jindex: "denumber (jindex v k) = jindex (denumber v) k"
proof (cases v)
  case (JObject ms)
  have "bm_get (map (map_prod id denumber) ms) k = map_option denumber (bm_get ms k)" by (induction ms) (auto simp: bm_get_def)
  with JObject show ?thesis by (auto simp: jindex_def jget_def split: option.split)
qed (auto simp: jindex_def jget_def)

lemma denumber_jstr: "denumber v = denumber w \<Longrightarrow> jstr (jindex v k) = jstr (jindex w k)"
proof -
  assume "denumber v = denumber w"
  then have "denumber (jindex v k) = denumber (jindex w k)" by (simp add: denumber_jindex)
  then show ?thesis by (cases "jindex v k"; cases "jindex w k") (auto simp: jstr_def)
qed

lemma denumber_jcounter: "denumber v = denumber w \<Longrightarrow> jcounter (jindex v k) = jcounter (jindex w k)"
  using denumber_jstr [of v w k] by (simp add: jcounter_def)

section \<open>Calls\<close>

lemma hbind_elim:
  assumes "hbind f g s = (x, s')"
  obtains (returned) a s1 where "f s = (Ok a, s1)" "g a s1 = (x, s')"
  | (stop) y where "f s = (y, s')" "\<forall>a. y \<noteq> Ok a" "\<forall>a. x \<noteq> Ok a"
proof -
  obtain y s1 where "f s = (y, s1)" by fastforce
  with assms that show thesis by (cases y) (auto simp: hbind_def)
qed

lemma hlift_eq [simp]: "hlift y s = (x, s') \<longleftrightarrow> y = x \<and> s' = s"
  by (auto simp: hlift_def)

lemma hbind_hlift: "hbind (hlift y) g s = (case y of Ok a \<Rightarrow> g a s | Err e \<Rightarrow> (Err e, s) | Panic \<Rightarrow> (Panic, s) | OutOfFuel \<Rightarrow> (OutOfFuel, s))"
  by (simp add: hbind_def hlift_def)

lemma hbind_lift_Ok: "hbind f (\<lambda>a. hlift (Ok (h a))) s = (x, s') \<Longrightarrow> \<exists>y. f s = (y, s')"
  by (erule hbind_elim) auto

section \<open>The contract of a store access\<close>

text \<open>
  A load changes nothing.  A write that reports a conflict changes nothing; one that reports
  success has written; one that fails may have written, as when its response is lost.
\<close>

definition replaces :: "('s \<Rightarrow> string \<Rightarrow> store_record option) \<Rightarrow> string \<Rightarrow> string \<times> string \<Rightarrow> store_record \<Rightarrow> 's \<Rightarrow> 's \<Rightarrow> bool" where
  "replaces view i t r s s' \<longleftrightarrow>
     map_option token (view s i) = Some t \<and> sr_root_instance_id r = i \<and> view s' = (view s)(i \<mapsto> r)"

definition adds :: "('s \<Rightarrow> string \<Rightarrow> store_record option) \<Rightarrow> store_record \<Rightarrow> 's \<Rightarrow> 's \<Rightarrow> bool" where
  "adds view r s s' \<longleftrightarrow> view s (sr_root_instance_id r) = None \<and> view s' = (view s)(sr_root_instance_id r \<mapsto> r)"

locale host_store =
  fixes view :: "'s \<Rightarrow> string \<Rightarrow> store_record option"
    and acc :: "'s store_access"
  assumes load_law: "sa_load acc i s = (x, s') \<Longrightarrow> s' = s \<and> (\<forall>found. x = Ok found \<longrightarrow> found = view s i)"
    and insert_law: "sa_insert_if_absent acc r s = (w, s') \<Longrightarrow>
      (case w of Ok Committed \<Rightarrow> adds view r s s' | Ok (Conflict c) \<Rightarrow> view s' = view s
       | _ \<Rightarrow> view s' = view s \<or> adds view r s s')"
    and swap_law: "sa_compare_and_swap acc i rv d r s = (w, s') \<Longrightarrow>
      (case w of Ok Committed \<Rightarrow> replaces view i (rv, d) r s s' | Ok (Conflict c) \<Rightarrow> view s' = view s
       | _ \<Rightarrow> view s' = view s \<or> replaces view i (rv, d) r s s')"
begin

lemma load_cases:
  assumes "map_store_error (sa_load acc i) s = (x, s')"
  shows "s' = s \<and> (\<forall>found. x = Ok found \<longrightarrow> found = view s i)"
proof -
  obtain y where y: "sa_load acc i s = (y, s')" "x = v1_store_error y"
    using assms by (cases "sa_load acc i s") (auto simp: map_store_error_def)
  with load_law [OF y(1)] show ?thesis by (auto simp: v1_store_error_def split: outcome.splits)
qed

lemma swap_cases:
  assumes "map_store_error (sa_compare_and_swap acc i rv d r) s = (x, s')"
  shows "view s' = view s \<or> replaces view i (rv, d) r s s'"
proof -
  obtain y where y: "sa_compare_and_swap acc i rv d r s = (y, s')"
    using assms by (cases "sa_compare_and_swap acc i rv d r s") (auto simp: map_store_error_def)
  with swap_law [OF y(1)] show ?thesis by (auto split: outcome.split_asm store_write_result.split_asm)
qed

end

section \<open>Records\<close>

lemma restore_record_Ok:
  "restore_record_v1 X r = Ok cp \<longleftrightarrow>
     restore_execution_checkpoint (eh_checkpoint X) (sr_bytes r) (ar_definition (eh_resolver X)) = Ok cp \<and>
     jstr (jindex (cp_value cp) ''root_instance_id'') = Some (sr_root_instance_id r) \<and>
     jstr (jindex (cp_value cp) ''revision'') = Some (sr_revision r) \<and>
     jstr (jindex (cp_value cp) ''execution_checkpoint_digest'') = Some (sr_execution_checkpoint_digest r)"
  by (auto simp: restore_record_v1_def obind_Ok_iff oand_Ok cp_root_instance_id_def cp_revision_def cp_digest_def
      split: if_split_asm)

lemma record_from_checkpoint_Ok:
  "store_record_from_checkpoint C cp = Ok r \<longleftrightarrow>
     jstr (jindex (cp_value cp) ''root_instance_id'') = Some (sr_root_instance_id r) \<and>
     jstr (jindex (cp_value cp) ''revision'') = Some (sr_revision r) \<and>
     jstr (jindex (cp_value cp) ''execution_checkpoint_digest'') = Some (sr_execution_checkpoint_digest r) \<and>
     ho_canonical_text (ck_host C) (cp_value cp) = Some (sr_bytes r)"
  by (cases r) (auto simp: store_record_from_checkpoint_def canonical_bytes_def obind_Ok_iff cp_root_instance_id_def cp_revision_def
      cp_digest_def ok_or_def split: option.splits)

lemma restore_value_value: "restore_value C R v = Ok cp \<Longrightarrow> cp_value cp = v"
  by (auto simp: restore_value_def obind_Ok_iff split: if_split_asm)

lemma restored_text:
  assumes "text_faithful C" "canonical_bytes C v = Ok bytes" "restore_execution_checkpoint C bytes R = Ok cp"
  shows "ho_canonical_text (ck_host C) (cp_value cp) = Some bytes \<and> denumber (cp_value cp) = denumber v"
proof -
  from assms(3) obtain w where w: "ck_parse C bytes = Some w" "cp_value cp = w"
    by (auto simp: restore_execution_checkpoint_def obind_Ok_iff ok_or_def restore_value_value split: option.split_asm)
  moreover have "ho_canonical_text (ck_host C) v = Some bytes"
    using assms(2) by (auto simp: canonical_bytes_def ok_or_def split: option.split_asm)
  ultimately show ?thesis using assms(1) unfolding text_faithful_def by blast
qed

text \<open>A write of the host: the record it loaded gives way to one that restores to the new document.\<close>

definition host_write ::
  "('s \<Rightarrow> string \<Rightarrow> store_record option) \<Rightarrow> 's execution_host \<Rightarrow> string \<Rightarrow> execution_checkpoint \<Rightarrow> json \<Rightarrow> 's \<Rightarrow> 's \<Rightarrow> bool" where
  "host_write view X i cp v s s' \<longleftrightarrow>
     (\<exists>r r' cp'. view s i = Some r \<and> restore_record_v1 X r = Ok cp \<and> sr_root_instance_id r' = i \<and> view s' = (view s)(i \<mapsto> r') \<and>
        restore_record_v1 X r' = Ok cp' \<and> denumber (cp_value cp') = denumber v \<and> token r' \<noteq> token r)"

lemma host_write_view: "host_write view X i cp v s s' \<Longrightarrow> j \<noteq> i \<Longrightarrow> view s' j = view s j"
  by (auto simp: host_write_def)

context host_store
begin

lemma require_cases:
  assumes "eh_access X = acc" "require_checkpoint_v1_with_store X i s = (x, s')"
  shows "s' = s \<and> (\<forall>r cp. x = Ok (r, cp) \<longrightarrow> view s i = Some r \<and> restore_record_v1 X r = Ok cp)"
  using assms(2) unfolding require_checkpoint_v1_with_store_def assms(1)
proof (cases rule: hbind_elim)
  case (returned found s1)
  from load_cases [OF returned(1)] have "s1 = s" "found = view s i" by auto
  with returned(2) show ?thesis by (auto simp: hbind_hlift ok_or_def split: option.split_asm outcome.split_asm)
next
  case (stop y)
  with load_cases [OF stop(1)] show ?thesis by simp
qed

lemma swap_record_cases:
  assumes X: "eh_access X = acc"
    and call: "hbind (hlift (store_record_from_checkpoint (eh_checkpoint X) cp')) (commit_record_v1_with_store X r) s = (x, s')"
    and new: "restore_execution_checkpoint (eh_checkpoint X) bytes (ar_definition (eh_resolver X)) = Ok cp'"
      "ho_canonical_text (ck_host (eh_checkpoint X)) (cp_value cp') = Some bytes" "denumber (cp_value cp') = denumber v"
    and old: "view s i = Some r" "restore_record_v1 X r = Ok cp" "sr_root_instance_id r = i"
    and differs: "\<not> (jstr (jindex (cp_value cp') ''revision'') = Some (sr_revision r) \<and>
      jstr (jindex (cp_value cp') ''execution_checkpoint_digest'') = Some (sr_execution_checkpoint_digest r))"
  shows "view s' = view s \<or> host_write view X i cp v s s'"
  using call
proof (cases rule: hbind_elim)
  case (returned r' s1)
  then have r': "store_record_from_checkpoint (eh_checkpoint X) cp' = Ok r'" and "s1 = s" by auto
  from returned(2) obtain y where
    "map_store_error (sa_compare_and_swap acc i (sr_revision r) (sr_execution_checkpoint_digest r) r') s = (y, s')"
    unfolding commit_record_v1_with_store_def X old(3) \<open>s1 = s\<close> by (rule hbind_elim) auto
  from swap_cases [OF this] show ?thesis
  proof
    assume w: "replaces view i (sr_revision r, sr_execution_checkpoint_digest r) r' s s'"
    have "restore_record_v1 X r' = Ok cp'" using r' new by (auto simp: restore_record_Ok record_from_checkpoint_Ok)
    moreover have "token r' \<noteq> token r" using differs r' by (auto simp: token_def record_from_checkpoint_Ok)
    ultimately show ?thesis unfolding host_write_def using w old new(3) by (auto simp: replaces_def)
  qed simp
qed auto

lemma commit_cases:
  assumes X: "eh_access X = acc" "text_faithful (eh_checkpoint X)"
    and call: "commit_v1_result_with_store X r result s = (x, s')"
    and old: "view s i = Some r" "restore_record_v1 X r = Ok cp" "sr_root_instance_id r = i"
  shows "view s' = view s \<or> (\<exists>v. commit_candidate result = Some v \<and> host_write view X i cp v s s')"
proof (cases "commit_candidate result")
  case (Some v)
  from call [unfolded commit_v1_result_with_store_def Some option.case] show ?thesis
  proof (cases rule: hbind_elim)
    case (returned cp' s1)
    then obtain bytes where b: "canonical_bytes (eh_checkpoint X) v = Ok bytes"
        "restore_execution_checkpoint (eh_checkpoint X) bytes (ar_definition (eh_resolver X)) = Ok cp'" "s1 = s"
      by (auto simp: obind_Ok_iff)
    from returned(2) show ?thesis
    proof (cases rule: hbind_elim)
      case (returned same s2)
      then have same: "s2 = s" "same \<longleftrightarrow> jstr (jindex (cp_value cp') ''revision'') = Some (sr_revision r) \<and>
          jstr (jindex (cp_value cp') ''execution_checkpoint_digest'') = Some (sr_execution_checkpoint_digest r)"
        using b(3) by (auto simp: oand_Ok cp_revision_def cp_digest_def obind_Ok_iff)
      show ?thesis
      proof (cases same)
        case False
        with returned(2) have "hbind (hlift (store_record_from_checkpoint (eh_checkpoint X) cp')) (commit_record_v1_with_store X r) s = (x, s')"
          by (simp add: same(1))
        from swap_record_cases [OF X(1) this b(2) _ _ old] restored_text [OF X(2) b(1,2)] same(2) False Some show ?thesis by blast
      qed (use returned same(1) in auto)
    qed (use b(3) in auto)
  qed auto
qed (use call in \<open>simp add: commit_v1_result_with_store_def\<close>)

end

section \<open>Operations\<close>

definition keyed :: "('s \<Rightarrow> string \<Rightarrow> store_record option) \<Rightarrow> 's \<Rightarrow> bool" where
  "keyed view s \<longleftrightarrow> (\<forall>i r. view s i = Some r \<longrightarrow> sr_root_instance_id r = i)"

text \<open>What a guarded call may do to a store: nothing, or one write that succeeds the checkpoint it loaded.\<close>

definition guarded_effect ::
  "('s \<Rightarrow> string \<Rightarrow> store_record option) \<Rightarrow> 's execution_host \<Rightarrow> string \<Rightarrow> mutation_guard \<Rightarrow> 's \<Rightarrow> 's \<Rightarrow> bool" where
  "guarded_effect view X i g s s' \<longleftrightarrow> view s' = view s \<or> (\<exists>cp v. succeeds cp g v \<and> host_write view X i cp v s s')"

definition guarded_call ::
  "('s \<Rightarrow> string \<Rightarrow> store_record option) \<Rightarrow> 's execution_host \<Rightarrow> string \<Rightarrow> mutation_guard \<Rightarrow> ('s, 'a, 'e) store_call \<Rightarrow> bool" where
  "guarded_call view X i g f \<longleftrightarrow> (\<forall>s x s'. keyed view s \<longrightarrow> f s = (x, s') \<longrightarrow> guarded_effect view X i g s s')"

lemma guarded_same [simp]: "guarded_effect view X i g s s"
  by (simp add: guarded_effect_def)

lemma guarded_bind_pure:
  assumes "guarded_call view X i g f" "\<And>a s. snd (h a s) = s"
  shows "guarded_call view X i g (hbind f h)"
  unfolding guarded_call_def
proof (intro allI impI)
  fix s x s'
  assume "keyed view s" "hbind f h s = (x, s')"
  from this(2) show "guarded_effect view X i g s s'"
  proof (cases rule: hbind_elim)
    case (returned a s1)
    then have "s' = s1" using assms(2) [of a s1] by simp
    with returned \<open>keyed view s\<close> assms(1) show ?thesis unfolding guarded_call_def by blast
  next
    case (stop y)
    with \<open>keyed view s\<close> assms(1) show ?thesis unfolding guarded_call_def by blast
  qed
qed

lemma guarded_hmap: "guarded_call view X i g f \<Longrightarrow> guarded_call view X i g (hmap h f)"
  unfolding hmap_def by (erule guarded_bind_pure) (simp add: hlift_def)

lemma guarded_hlift_bind:
  assumes "\<And>a. y = Ok a \<Longrightarrow> guarded_call view X i g (h a)"
  shows "guarded_call view X i g (hbind (hlift y) h)"
  using assms by (auto simp: guarded_call_def hbind_hlift split: outcome.split_asm)

lemma guarded_hlift: "guarded_call view X i g (hlift y)"
  by (simp add: guarded_call_def)

lemma restored_schema: "restore_record_v1 X r = Ok cp \<Longrightarrow> ck_schema (eh_checkpoint X) (cp_value cp)"
  by (auto simp: restore_record_Ok restore_execution_checkpoint_def restore_value_def obind_Ok_iff split: if_split_asm)

lemma write_no_replay:
  assumes "host_write view X i cp v s s'"
  shows "v \<noteq> cp_value cp"
proof
  assume "v = cp_value cp"
  with assms obtain r r' cp' where "restore_record_v1 X r = Ok cp" "restore_record_v1 X r' = Ok cp'"
      "denumber (cp_value cp') = denumber (cp_value cp)" "token r' \<noteq> token r"
    unfolding host_write_def by blast
  moreover from this(3) have "jstr (jindex (cp_value cp') k) = jstr (jindex (cp_value cp) k)" for k by (rule denumber_jstr)
  ultimately show False by (simp add: restore_record_Ok token_def)
qed

context host_store
begin

lemma commit_guarded:
  assumes X: "eh_access X = acc" "text_faithful (eh_checkpoint X)"
    and s: "keyed view s" "view s i = Some r" "restore_record_v1 X r = Ok cp"
    and "settles cp g result" "commit_v1_result_with_store X r result s = (x, s')"
  shows "guarded_effect view X i g s s'"
proof -
  have "sr_root_instance_id r = i" using s by (simp add: keyed_def)
  from commit_cases [OF X assms(7) s(2,3) this] show ?thesis
    unfolding guarded_effect_def using assms(6) by (auto simp: settles_def dest: write_no_replay)
qed

text \<open>A call that loads the checkpoint and commits at most one result that settles it.\<close>

lemma guarded_require:
  assumes X: "eh_access X = acc"
    and body: "\<And>r cp s x s'. keyed view s \<Longrightarrow> view s i = Some r \<Longrightarrow> restore_record_v1 X r = Ok cp \<Longrightarrow> body r cp s = (x, s') \<Longrightarrow>
      guarded_effect view X i g s s'"
  shows "guarded_call view X i g (hbind (require_checkpoint_v1_with_store X i) (\<lambda>(r, cp). body r cp))"
  unfolding guarded_call_def
proof (intro allI impI)
  fix s x s'
  assume k: "keyed view s" "hbind (require_checkpoint_v1_with_store X i) (\<lambda>(r, cp). body r cp) s = (x, s')"
  from k(2) show "guarded_effect view X i g s s'"
  proof (cases rule: hbind_elim)
    case (returned a s1)
    obtain r cp where a: "a = (r, cp)" by fastforce
    from require_cases [OF X returned(1)] a returned(2) body [OF k(1)] show ?thesis by auto
  next
    case (stop y)
    from require_cases [OF X stop(1)] show ?thesis by simp
  qed
qed

lemma guarded_commit_bind:
  assumes X: "eh_access X = acc" "text_faithful (eh_checkpoint X)"
    and s: "keyed view s" "view s i = Some r" "restore_record_v1 X r = Ok cp"
    and "settles cp g result" and pure: "\<And>u s. snd (h u s) = s"
    and call: "hbind (commit_v1_result_with_store X r result) h s = (x, s')"
  shows "guarded_effect view X i g s s'"
proof -
  from call obtain y where "commit_v1_result_with_store X r result s = (y, s')"
  proof (cases rule: hbind_elim)
    case (returned u s1)
    then show ?thesis using pure [of u s1] that by simp
  qed (use that in blast)
  with assms(6) show ?thesis by (rule commit_guarded [OF X s])
qed

lemma guarded_commit_then:
  assumes X: "eh_access X = acc" "text_faithful (eh_checkpoint X)"
    and s: "keyed view s" "view s i = Some r" "restore_record_v1 X r = Ok cp"
    and "settles cp g result" "hbind (commit_v1_result_with_store X r result) (\<lambda>_. hlift z) s = (x, s')"
  shows "guarded_effect view X i g s s'"
  by (rule guarded_commit_bind [OF assms(1-6) _ assms(7)]) (simp add: hlift_def)

end

section \<open>The operations of the host\<close>

context host_store
begin

lemma guarded_mutate:
  assumes X: "eh_access X = acc" "text_faithful (eh_checkpoint X)"
    and op: "\<And>cp. ck_schema (eh_checkpoint X) (cp_value cp) \<Longrightarrow> ensures (settles cp g) (operation cp)"
  shows "guarded_call view X i g (mutate X i operation)"
  unfolding mutate_def
proof (rule guarded_require [OF X(1)])
  fix r cp s x s'
  assume s: "keyed view s" "view s i = Some r" "restore_record_v1 X r = Ok cp"
    and call: "hbind (hlift (operation cp)) (\<lambda>result. hbind (commit_v1_result_with_store X r result) (\<lambda>_. hlift (Ok result))) s = (x, s')"
  have "settles cp g result" if "operation cp = Ok result" for result
    using op [OF restored_schema [OF s(3)]] that by (simp add: ensures_def)
  with call show "guarded_effect view X i g s s'"
    by (auto simp: hbind_hlift split: outcome.split_asm intro: guarded_commit_then [OF X s])
qed

lemma guarded_admit:
  assumes X: "eh_access X = acc" "text_faithful (eh_checkpoint X)" "documents_typed (eh_checkpoint X)"
  shows "guarded_call view X i g (admit_checkpoint_with_store X i ds g)"
  unfolding admit_checkpoint_with_store_def
  by (rule guarded_mutate [OF X(1,2)], rule ensures_obind, rule admit_settles [OF X(3)])

lemma guarded_step:
  assumes X: "eh_access X = acc" "text_faithful (eh_checkpoint X)" "documents_typed (eh_checkpoint X)"
  shows "guarded_call view X i g (step_checkpoint_with_core X i request g)"
  unfolding step_checkpoint_with_core_def
proof (rule guarded_require [OF X(1)])
  fix r cp s x s'
  assume s: "keyed view s" "view s i = Some r" "restore_record_v1 X r = Ok cp"
    and call: "hbind (hlift (checkpoint_step_replay cp request)) (\<lambda>replayed. case replayed of
        Some replay \<Rightarrow> hlift (Ok (replay, None))
      | None \<Rightarrow> hbind (hlift (checkpoint_v1_bundle X cp)) (\<lambda>B. hbind (hlift (checkpoint_step_v1_with_core (eh_checkpoint X) (eh_fuel X) B cp
            request (Some (mg_expected_revision g)) (Some (mg_expected_checkpoint_digest g)))) (\<lambda>(result, core).
          hbind (commit_v1_result_with_store X r result) (\<lambda>_. hlift (Ok (result, core)))))) s = (x, s')"
  have cp: "is_checkpoint (cp_value cp)" using restored_schema [OF s(3)] X(3) by (simp add: documents_typed_def)
  from call show "guarded_effect view X i g s s'"
    by (auto simp: hbind_hlift split: outcome.split_asm option.split_asm prod.split_asm
        intro: guarded_commit_then [OF X(1,2) s step_settles [OF _ _ cp]])
qed

lemma guarded_process:
  assumes X: "eh_access X = acc" "text_faithful (eh_checkpoint X)" "documents_typed (eh_checkpoint X)"
  shows "guarded_call view X i g (process_checkpoint_with_store X i delivery mode g)"
  unfolding process_checkpoint_with_store_def
proof (rule guarded_require [OF X(1)], goal_cases)
  case (1 r cp s x s')
  have "settles cp g result" if "checkpoint_process (eh_checkpoint X) n B cp delivery mode (Some (mg_expected_revision g))
      (Some (mg_expected_checkpoint_digest g)) = Ok result" for n B result
    using process_settles [OF X(3) restored_schema [OF 1(3)], of g n B delivery mode "single_bundle_resolver B"] that
    by (auto simp: checkpoint_process_def checkpoint_process_with_core_def obind_Ok_iff ensures_def)
  with 1(4) show ?case
    by (auto simp: hbind_hlift split: outcome.split_asm option.split_asm intro: guarded_commit_then [OF X(1,2) 1(1-3)])
qed

lemma guarded_transactional:
  assumes X: "eh_access X = acc" "text_faithful (eh_checkpoint X)" "documents_typed (eh_checkpoint X)"
  shows "guarded_call view X i g (transactional_process_with_core X i request g)"
  unfolding transactional_process_with_core_def
proof (rule guarded_require [OF X(1)], goal_cases)
  case (1 r cp s x s')
  have settled: "settles cp g result" if "checkpoint_process_with_migration_with_core (eh_checkpoint X) A n cp m R limits d mode
      (Some (mg_expected_revision g)) (Some (mg_expected_checkpoint_digest g)) = Ok (result, core)" for A n m R limits d mode result core
    using transactional_settles [OF X(3) restored_schema [OF 1(3)], of g A n m R limits d mode] that by (simp add: ensures_def)
  from 1(4) show ?case
    by (auto simp: hbind_hlift split: outcome.split_asm prod.split_asm intro: guarded_commit_then [OF X(1,2) 1(1-3) settled])
qed

lemma guarded_migrate:
  assumes X: "eh_access X = acc" "text_faithful (eh_checkpoint X)" "documents_typed (eh_checkpoint X)"
    and s: "keyed view s" "view s i = Some r" "restore_record_v1 X r = Ok cp"
    and call: "migrate_and_commit X request request_digest r cp s = (x, s')"
  shows "guarded_effect view X i (mm_guard request) s s'"
proof -
  have settled: "settles cp (mm_guard request) result"
    if "maintenance_guard cp request = Ok ()" "checkpoint_maintenance_migration_route (eh_checkpoint X) A cp m oid d R limits None None = Ok result"
    for A m oid d R limits result
    using maintenance_settles [OF X(3) maintenance_guard_passes [OF that(1)]] that(2) by (auto simp: ensures_def)
  have "snd (hbind (hlift a) (\<lambda>b. hbind (hlift (c b)) (\<lambda>d. hlift (e d))) s) = s" for a c e s
    by (simp add: hbind_hlift hlift_def split: outcome.split)
  note pure = this
  from call [unfolded migrate_and_commit_def] show ?thesis
  proof (cases rule: hbind_elim)
    case (returned u s1)
    then have guard: "maintenance_guard cp request = Ok ()" and "s1 = s" by auto
    from returned(2) show ?thesis
    proof (cases rule: hbind_elim)
      case (returned result s2)
      with settled guard \<open>s1 = s\<close> have st: "settles cp (mm_guard request) result" and "s2 = s" by auto
      show ?thesis using returned(2) unfolding \<open>s2 = s\<close> by (rule guarded_commit_bind [OF X(1,2) s st pure])
    qed (use \<open>s1 = s\<close> in auto)
  qed auto
qed

lemma guarded_maintenance:
  assumes X: "eh_access X = acc" "text_faithful (eh_checkpoint X)" "documents_typed (eh_checkpoint X)"
  shows "guarded_call view X (mm_root_instance_id request) (mm_guard request) (maintenance_migration_with_store X request)"
  unfolding maintenance_migration_with_store_def
proof (clarsimp simp: guarded_hlift, rule guarded_hlift_bind, clarsimp simp: guarded_hlift, rule guarded_require [OF X(1)], goal_cases)
  case (1 digest r cp s x s')
  then show ?case
    by (auto simp: hbind_hlift split: outcome.split_asm option.split_asm intro: guarded_migrate [OF X])
qed

end

fun mutation_guard_of :: "host_mutation \<Rightarrow> mutation_guard option" where
  "mutation_guard_of (MutCreate B machine_id i creation_id b supplied retention) = None"
| "mutation_guard_of (MutAdmit i deliveries g) = Some g"
| "mutation_guard_of (MutStep i request g) = Some g"
| "mutation_guard_of (MutProcess i delivery mode g) = Some g"
| "mutation_guard_of (MutTransactionalProcess i request g) = Some g"
| "mutation_guard_of (MutPrune i request g) = Some g"
| "mutation_guard_of (MutMaintenanceMigration request) = Some (mm_guard request)"
| "mutation_guard_of (MutUpdatePendingOutbox i effect_id desired g) = Some g"
| "mutation_guard_of (MutTerminalizeOutbox i effect_id outcome g) = Some g"
| "mutation_guard_of (MutCompactOutbox i effect_id g) = Some g"
| "mutation_guard_of (MutTombstoneRoot i operation_id g) = Some g"

lemma ensuresI: "(\<And>a. m = Ok a \<Longrightarrow> P a) \<Longrightarrow> ensures P m"
  by (simp add: ensures_def)

context host_store
begin

lemma guarded_outbox:
  assumes X: "eh_access X = acc" "text_faithful (eh_checkpoint X)" "documents_typed (eh_checkpoint X)"
  shows "guarded_call view X i g (prune_checkpoint_with_store X i request g)"
    and "guarded_call view X i g (update_pending_outbox_with_store X i e st g)"
    and "guarded_call view X i g (terminalize_outbox_with_store X i e out g)"
    and "guarded_call view X i g (compact_outbox_with_store X i e g)"
    and "guarded_call view X i g (tombstone_root_with_store X i operation_id g)"
proof -
  note op = guarded_mutate [OF X(1,2)] and settle = outbox_settles [OF X(3)]
  have pure: "snd (hbind (hlift a) (\<lambda>b. hlift (c b)) s) = s" for a c s by (simp add: hbind_hlift hlift_def split: outcome.split)
  show "guarded_call view X i g (prune_checkpoint_with_store X i request g)"
    unfolding prune_checkpoint_with_store_def by (rule op, rule ensuresI, erule settle(5) [rotated])
  show "guarded_call view X i g (update_pending_outbox_with_store X i e st g)"
    unfolding update_pending_outbox_with_store_def
    by (rule guarded_bind_pure [OF op]) (auto intro!: ensuresI pure dest: settle(1) [rotated])
  show "guarded_call view X i g (terminalize_outbox_with_store X i e out g)"
    unfolding terminalize_outbox_with_store_def
    by (rule guarded_bind_pure [OF op]) (auto intro!: ensuresI pure dest: settle(2) [rotated])
  show "guarded_call view X i g (compact_outbox_with_store X i e g)"
    unfolding compact_outbox_with_store_def
    by (rule guarded_bind_pure [OF op]) (auto intro!: ensuresI pure dest: settle(3) [rotated])
  show "guarded_call view X i g (tombstone_root_with_store X i operation_id g)"
    unfolding tombstone_root_with_store_def
    by (rule guarded_bind_pure [OF op]) (auto intro!: ensuresI simp: hlift_def dest: settle(4) [rotated])
qed

lemma guarded_mutation:
  assumes X: "eh_access X = acc" "text_faithful (eh_checkpoint X)" "documents_typed (eh_checkpoint X)"
    and "mutation_guard_of m = Some g"
  shows "guarded_call view X (mutation_root m) g (run_mutation X m)"
  using assms(4) guarded_outbox [OF X] guarded_maintenance [OF X]
  by (cases m) (auto intro!: guarded_hmap guarded_admit [OF X] guarded_process [OF X]
      guarded_hmap [OF guarded_step [OF X], unfolded hmap_def] guarded_hmap [OF guarded_transactional [OF X], unfolded hmap_def]
      simp: step_checkpoint_with_store_def transactional_process_with_store_def)

end

section \<open>The in-memory store\<close>

definition memory_access :: "memory_execution_store store_access" where
  "memory_access = direct_store_access memory_load memory_insert_if_absent memory_compare_and_swap"

interpretation memory_host: host_store "\<lambda>st. bm_get (ms_records st)" memory_access
proof unfold_locales
  fix i s x s'
  assume "sa_load memory_access i s = (x, s')"
  then show "s' = s \<and> (\<forall>found. x = Ok found \<longrightarrow> found = bm_get (ms_records s) i)"
    by (auto simp: memory_access_def direct_store_access_def dest: memory_store.load_view)
next
  fix r s w s'
  assume "sa_insert_if_absent memory_access r s = (w, s')"
  then show "case w of Ok Committed \<Rightarrow> adds (\<lambda>st. bm_get (ms_records st)) r s s'
      | Ok (Conflict c) \<Rightarrow> bm_get (ms_records s') = bm_get (ms_records s)
      | _ \<Rightarrow> bm_get (ms_records s') = bm_get (ms_records s) \<or> adds (\<lambda>st. bm_get (ms_records st)) r s s'"
    by (auto simp: memory_access_def direct_store_access_def keep_on_error_def adds_def dest!: memory_store.ins_law
        split: outcome.split_asm option.split_asm prod.split_asm)
next
  fix i rv d r s w s'
  assume w: "sa_compare_and_swap memory_access i rv d r s = (w, s')"
  have "sr_root_instance_id r = i" if "memory_compare_and_swap s i rv d r = Ok x" for x
    using that by (auto simp: memory_compare_and_swap_def split: if_split_asm)
  with w show "case w of Ok Committed \<Rightarrow> replaces (\<lambda>st. bm_get (ms_records st)) i (rv, d) r s s'
      | Ok (Conflict c) \<Rightarrow> bm_get (ms_records s') = bm_get (ms_records s)
      | _ \<Rightarrow> bm_get (ms_records s') = bm_get (ms_records s) \<or> replaces (\<lambda>st. bm_get (ms_records st)) i (rv, d) r s s'"
    by (auto simp: memory_access_def direct_store_access_def keep_on_error_def replaces_def dest!: memory_store.cas_law
        split: outcome.split_asm option.split_asm prod.split_asm if_split_asm)
qed

end
