(* ===== verification/Host_Theorems.thy ===== *)
theory Host_Theorems
  imports Host_Spec
begin

text \<open>
  The theorems about the checkpoint host on the in-memory store: a write is the next revision of
  the checkpoint it was guarded by, and a committed step is answered from its receipt.
\<close>

abbreviation memory_view :: "memory_execution_store \<Rightarrow> string \<Rightarrow> store_record option" where
  "memory_view st \<equiv> bm_get (ms_records st)"

section \<open>Writes\<close>

lemma write_token:
  assumes "host_write view X i cp v s s'" "succeeds cp g v"
  shows "\<exists>r r' cp' c. view s i = Some r \<and> token r = (mg_expected_revision g, mg_expected_checkpoint_digest g) \<and>
    sr_revision r = canonical_decimal c \<and> sr_revision r' = canonical_decimal (Suc c) \<and>
    restore_record_v1 X r = Ok cp \<and> restore_record_v1 X r' = Ok cp' \<and> view s' = (view s)(i \<mapsto> r')"
proof -
  from assms(1) obtain r r' cp' where w: "view s i = Some r" "restore_record_v1 X r = Ok cp" "view s' = (view s)(i \<mapsto> r')"
      "restore_record_v1 X r' = Ok cp'" "denumber (cp_value cp') = denumber v"
    unfolding host_write_def by blast
  from assms(2) obtain c where c: "jcounter (jindex (cp_value cp) ''revision'') = Some c" "jcounter (jindex v ''revision'') = Some (Suc c)"
    by (auto simp: succeeds_def next_of_def)
  have "jcounter (jindex (cp_value cp') ''revision'') = Some (Suc c)" using c(2) denumber_jcounter [OF w(5)] by simp
  with c(1) w(2,4) have "sr_revision r = canonical_decimal c" "sr_revision r' = canonical_decimal (Suc c)"
    by (auto simp: restore_record_Ok jcounter_decimal jstr_Some)
  moreover have "token r = (mg_expected_revision g, mg_expected_checkpoint_digest g)"
    using assms(2) w(2) by (auto simp: succeeds_def checkpoint_guard_def restore_record_Ok token_def split: if_split_asm)
  ultimately show ?thesis using w(1-4) by blast
qed

text \<open>
  C22: The host writes only the next revision of what the caller expected.  An operation other than
  a creation either leaves the store as it is, whatever its result, or replaces one record, that of
  its root: the record had the revision and the digest of the caller's guard, the new record has the
  next revision, and both restore to checkpoints that agree with their records.
\<close>

theorem host_writes_next_revision:
  assumes "eh_access X = memory_access" "text_faithful (eh_checkpoint X)" "documents_typed (eh_checkpoint X)"
    and "keyed memory_view st" and "mutation_guard_of m = Some g" and "run_mutation X m st = (x, st')"
  shows "memory_view st' = memory_view st \<or>
    (\<exists>r r' cp cp' c. memory_view st (mutation_root m) = Some r \<and>
       token r = (mg_expected_revision g, mg_expected_checkpoint_digest g) \<and>
       sr_revision r = canonical_decimal c \<and> sr_revision r' = canonical_decimal (Suc c) \<and>
       restore_record_v1 X r = Ok cp \<and> restore_record_v1 X r' = Ok cp' \<and>
       memory_view st' = (memory_view st)(mutation_root m \<mapsto> r'))"
proof -
  from memory_host.guarded_mutation [OF assms(1-3,5)] assms(4,6)
  have "guarded_effect memory_view X (mutation_root m) g st st'" unfolding guarded_call_def by blast
  then consider "memory_view st' = memory_view st"
    | cp v where "succeeds cp g v" "host_write memory_view X (mutation_root m) cp v st st'"
    unfolding guarded_effect_def by blast
  then show ?thesis
  proof cases
    case 2
    from write_token [OF 2(2,1)] show ?thesis by blast
  qed simp
qed

section \<open>Replays\<close>

lemma denumber_field:
  assumes "denumber r = denumber r'"
  shows "jindex r k = JString s \<longleftrightarrow> jindex r' k = JString s"
proof -
  have "denumber (jindex r k) = denumber (jindex r' k)" using assms by (simp add: denumber_jindex)
  then show ?thesis using denumber_string(1) [of "jindex r k" s] denumber_string(1) [of "jindex r' k" s] by simp
qed

lemma find_denumber:
  assumes "map denumber rs = map denumber rs'" "\<And>r r'. denumber r = denumber r' \<Longrightarrow> p r \<longleftrightarrow> p r'"
  shows "map_option denumber (find p rs) = map_option denumber (find p rs')"
  using assms(1)
proof (induction rs arbitrary: rs')
  case (Cons r rs)
  then obtain r' us where rs': "rs' = r' # us" "denumber r = denumber r'" "map denumber rs = map denumber us" by (auto simp: map_eq_Cons_conv)
  with assms(2) [of r r'] Cons.IH [OF rs'(3)] show ?case by auto
qed simp

lemma denumber_array_field:
  assumes "denumber w = denumber v" "jarray (jindex v k) = Some xs"
  shows "\<exists>ys. jarray (jindex w k) = Some ys \<and> map denumber xs = map denumber ys"
proof -
  from assms(1) have "denumber (jindex w k) = denumber (jindex v k)" by (simp add: denumber_jindex)
  with assms(2) show ?thesis by (auto simp: jarray_Some denumber_array)
qed

lemma denumber_event:
  assumes "denumber r = denumber r'"
  shows "is_terminal_of e r \<longleftrightarrow> is_terminal_of e r'" and "jstr (jindex r ''event_id'') = Some e \<longleftrightarrow> jstr (jindex r' ''event_id'') = Some e"
  by (simp_all only: is_terminal_of_def denumber_field [OF assms] denumber_jstr [OF assms])

lemma step_replay_denumber:
  assumes replay: "checkpoint_step_replay cp rq = Ok (Some t)" and same: "denumber (cp_value cp') = denumber (cp_value cp)"
  shows "\<exists>t'. checkpoint_step_replay cp' rq = Ok (Some t') \<and> denumber t' = denumber t"
proof -
  from replay obtain rs where rs: "jarray (jindex (cp_value cp) ''operation_receipts'') = Some rs"
    by (auto simp: checkpoint_step_replay_def obind_Ok_iff split: if_split_asm)
  from denumber_array_field [OF same rs] obtain rs' where
    rs': "jarray (jindex (cp_value cp') ''operation_receipts'') = Some rs'" "map denumber rs = map denumber rs'" by blast
  have found: "map_option denumber (find (is_terminal_of (pq_event_id rq)) rs) = map_option denumber (find (is_terminal_of (pq_event_id rq)) rs')"
    using rs'(2) denumber_event(1) by (rule find_denumber)
  show ?thesis
  proof (cases "find (is_terminal_of (pq_event_id rq)) rs")
    case (Some u)
    with found obtain u' where u': "find (is_terminal_of (pq_event_id rq)) rs' = Some u'" "denumber u' = denumber u"
      by (cases "find (is_terminal_of (pq_event_id rq)) rs'") auto
    with replay rs rs'(1) Some show ?thesis
      by (auto simp: checkpoint_step_replay_def need_array_def denumber_jstr [OF u'(2)] split: if_split_asm)
  next
    case None
    let ?p = "\<lambda>item. jstr (jindex item ''event_id'') = Some (pq_event_id rq)"
    from None found have none: "find (is_terminal_of (pq_event_id rq)) rs' = None" by simp
    from replay None rs obtain ts where ts: "jarray (jindex (cp_value cp) ''event_identity_tombstones'') = Some ts" "find ?p ts = Some t"
      by (auto simp: checkpoint_step_replay_def need_array_def obind_Ok_iff split: if_split_asm option.split_asm)
    from denumber_array_field [OF same ts(1)] obtain ts' where
      ts': "jarray (jindex (cp_value cp') ''event_identity_tombstones'') = Some ts'" "map denumber ts = map denumber ts'" by blast
    have "map_option denumber (find ?p ts) = map_option denumber (find ?p ts')"
      using ts'(2) denumber_event(2) by (rule find_denumber)
    with ts(2) obtain t' where t': "find ?p ts' = Some t'" "denumber t' = denumber t" by (cases "find ?p ts'") auto
    with replay rs rs'(1) none None ts ts'(1) show ?thesis
      by (auto simp: checkpoint_step_replay_def need_array_def denumber_jstr [OF t'(2)] split: if_split_asm)
  qed
qed

section \<open>A committed step\<close>

context host_store
begin

lemma swap_returned:
  assumes X: "eh_access X = acc" and call: "commit_record_v1_with_store X r r' s = (Ok u, s')"
  shows "replaces view (sr_root_instance_id r) (sr_revision r, sr_execution_checkpoint_digest r) r' s s'"
  using call unfolding commit_record_v1_with_store_def X
proof (cases rule: hbind_elim)
  case (returned w s1)
  then have "w = Committed" "s1 = s'" by (auto split: store_write_result.split_asm)
  with returned(1) have "sa_compare_and_swap acc (sr_root_instance_id r) (sr_revision r) (sr_execution_checkpoint_digest r) r' s = (Ok Committed, s')"
    by (cases "sa_compare_and_swap acc (sr_root_instance_id r) (sr_revision r) (sr_execution_checkpoint_digest r) r' s")
       (auto simp: map_store_error_def v1_store_error_def split: outcome.split_asm)
  from swap_law [OF this] show ?thesis by simp
qed simp

lemma commit_returned:
  assumes X: "eh_access X = acc" "text_faithful (eh_checkpoint X)"
    and call: "commit_v1_result_with_store X r result s = (Ok u, s')"
    and old: "view s i = Some r" "restore_record_v1 X r = Ok cp" "sr_root_instance_id r = i"
    and new: "commit_candidate result = Some v" "next_of (cp_value cp) v"
  shows "host_write view X i cp v s s'"
proof -
  from call [unfolded commit_v1_result_with_store_def new(1) option.case] obtain bytes cp' same where st:
      "canonical_bytes (eh_checkpoint X) v = Ok bytes" "restore_execution_checkpoint (eh_checkpoint X) bytes (ar_definition (eh_resolver X)) = Ok cp'"
      "oand (obind (cp_revision cp') (\<lambda>k. Ok (k = sr_revision r)))
         (obind (cp_digest cp') (\<lambda>d. Ok (d = sr_execution_checkpoint_digest r))) = Ok same"
      "(if same then hlift (Ok ()) else hbind (hlift (store_record_from_checkpoint (eh_checkpoint X) cp')) (commit_record_v1_with_store X r)) s = (Ok u, s')"
    by (auto simp: hbind_hlift obind_Ok_iff split: outcome.split_asm)
  note read = restored_text [OF X(2) st(1,2)]
  from new(2) denumber_jcounter [of "cp_value cp'" v "''revision''"] read have
    "jstr (jindex (cp_value cp') ''revision'') \<noteq> jstr (jindex (cp_value cp) ''revision'')"
    by (auto simp: next_of_def jcounter_def bind_eq_Some_conv)
  with old(2) have differs: "jstr (jindex (cp_value cp') ''revision'') \<noteq> Some (sr_revision r)" by (simp add: restore_record_Ok)
  with st(3) have "\<not> same" by (auto simp: oand_Ok obind_Ok_iff cp_revision_def)
  with st(4) obtain r' where r': "store_record_from_checkpoint (eh_checkpoint X) cp' = Ok r'" "commit_record_v1_with_store X r r' s = (Ok u, s')"
    by (auto simp: hbind_hlift split: outcome.split_asm)
  from swap_returned [OF X(1) r'(2)] have w: "replaces view i (token r) r' s s'" by (simp add: old(3) token_def)
  have "restore_record_v1 X r' = Ok cp'" using r'(1) st(2) read by (auto simp: restore_record_Ok record_from_checkpoint_Ok)
  moreover have "token r' \<noteq> token r" using differs r'(1) by (auto simp: token_def record_from_checkpoint_Ok)
  ultimately show ?thesis unfolding host_write_def using w old read by (auto simp: replaces_def)
qed

end

lemma step_commits:
  assumes "checkpoint_step_v1_with_core C n B cp rq r d = Ok (v, Some core)" "is_checkpoint (cp_value cp)"
    "jindex core ''disposition'' \<notin> {JString ''not_runnable'', JString ''rejected''}"
  shows "is_checkpoint v \<and> next_of (cp_value cp) v"
proof -
  from assms(1) obtain causal ixs where "apply_step_result C (cp_value cp) causal core ixs = Ok v"
    by (auto simp: checkpoint_step_v1_with_core_def obind_Ok_iff split: option.split_asm if_split_asm)
  moreover from this assms(3) obtain k v1 where r: "incremented (jindex (cp_value cp) ''revision'') = Ok k"
      "synchronize_internal_mailbox_references (put_aggregate (jindex core ''state'') (jput ''revision'' k (cp_value cp))) = Ok v1"
      "seal_checkpoint C v1 = Ok v \<or> settle_terminal C causal core k ixs v1 = Ok v"
    by (auto simp: apply_step_result_def obind_Ok_iff split: if_split_asm)
  from r(2,3) have "keeps (put_aggregate (jindex core ''state'') (jput ''revision'' k (cp_value cp))) v"
    by (meson keeps_trans keeps_step keeps_terminal)
  with r(1) assms(2) have "is_checkpoint v" by (blast intro: revised_format)
  ultimately show ?thesis using keeps_apply_step assms(3) by blast
qed

context host_store
begin

lemma step_returned:
  assumes X: "eh_access X = acc" "text_faithful (eh_checkpoint X)" "documents_typed (eh_checkpoint X)" and "keyed view s"
    and call: "step_checkpoint_with_core X i rq g s = (Ok (v, Some core), s')"
    and settled: "jindex core ''disposition'' \<notin> {JString ''not_runnable'', JString ''rejected''}"
  obtains cp n B where "host_write view X i cp v s s'"
    "checkpoint_step_v1_with_core (eh_checkpoint X) n B cp rq (Some (mg_expected_revision g)) (Some (mg_expected_checkpoint_digest g)) = Ok (v, Some core)"
  using call unfolding step_checkpoint_with_core_def
proof (cases rule: hbind_elim)
  case (returned a s1)
  obtain r cp where a: "a = (r, cp)" by fastforce
  from require_cases [OF X(1) returned(1)] a have st: "s1 = s" "view s i = Some r" "restore_record_v1 X r = Ok cp" by auto
  from returned(2) a st(1) obtain B where B: "checkpoint_step_v1_with_core (eh_checkpoint X) (eh_fuel X) B cp rq (Some (mg_expected_revision g))
        (Some (mg_expected_checkpoint_digest g)) = Ok (v, Some core)"
      "commit_v1_result_with_store X r v s = (Ok (), s')"
    by (auto simp: hbind_hlift split: outcome.split_asm option.split_asm prod.split_asm elim!: hbind_elim)
  have "is_checkpoint (cp_value cp)" using restored_schema [OF st(3)] X(3) by (simp add: documents_typed_def)
  from step_commits [OF B(1) this settled] have "commit_candidate v = Some v" "next_of (cp_value cp) v" by (auto simp: commit_candidate_def)
  moreover have "sr_root_instance_id r = i" using assms(4) st(2) by (simp add: keyed_def)
  ultimately have "host_write view X i cp v s s'" by (intro commit_returned [OF X(1,2) B(2) st(2,3)])
  with B(1) that show thesis by blast
qed simp

lemma step_replayed:
  assumes X: "eh_access X = acc" "text_faithful (eh_checkpoint X)" "documents_typed (eh_checkpoint X)" and "keyed view s"
    and call: "step_checkpoint_with_core X i rq g s = (Ok (v, Some core), s')"
    and settled: "jindex core ''disposition'' \<notin> {JString ''not_runnable'', JString ''rejected'', JString ''deferred''}"
    and load: "sa_load acc i s' = (Ok found, s1)"
  shows "\<exists>t. step_checkpoint_with_core X i rq g' s' = (Ok (t, None), s') \<and> jindex t ''operation_kind'' = JString ''event_terminal'' \<and>
    jindex t ''event_id'' = JString (pq_event_id rq) \<and> jindex t ''committed_revision'' = jindex v ''revision''"
proof -
  obtain cp n B where w: "host_write view X i cp v s s'"
      "checkpoint_step_v1_with_core (eh_checkpoint X) n B cp rq (Some (mg_expected_revision g)) (Some (mg_expected_checkpoint_digest g)) = Ok (v, Some core)"
    by (rule step_returned [OF X assms(4) call]) (use settled in auto)
  from w(1) obtain r' cp' where r': "view s' i = Some r'" "restore_record_v1 X r' = Ok cp'" "denumber (cp_value cp') = denumber v"
    unfolding host_write_def by auto
  obtain t where t: "\<And>cp'. cp_value cp' = v \<Longrightarrow> checkpoint_step_replay cp' rq = Ok (Some t)"
      "jindex t ''operation_kind'' = JString ''event_terminal''" "jindex t ''event_id'' = JString (pq_event_id rq)"
      "jindex t ''committed_revision'' = jindex v ''revision''"
    by (rule step_recorded [OF w(2) settled]) blast
  from t(1) [of "\<lparr>cp_value = v, cp_aggregate = None\<rparr>"] r'(3) obtain t' where t': "checkpoint_step_replay cp' rq = Ok (Some t')" "denumber t' = denumber t"
    using step_replay_denumber [of "\<lparr>cp_value = v, cp_aggregate = None\<rparr>" rq t cp'] by auto
  have "require_checkpoint_v1_with_store X i s' = (Ok (r', cp'), s')"
    using load load_law [OF load] r'(1,2)
    by (simp add: require_checkpoint_v1_with_store_def X(1) hbind_def hlift_def map_store_error_def v1_store_error_def ok_or_def)
  then have "step_checkpoint_with_core X i rq g' s' = (Ok (t', None), s')"
    using t'(1) by (simp add: step_checkpoint_with_core_def hbind_def hlift_def)
  moreover obtain c where "jindex v ''revision'' = JString (canonical_decimal (Suc c))"
    using commits_revised [OF commit_step [OF w(2)]] settled by (auto simp: next_of_def jcounter_decimal)
  ultimately show ?thesis using t(2-4) by (intro exI [of _ t']) (simp add: denumber_field [OF t'(2)])
qed

end

text \<open>
  C23: A step of the host is carried out once.  When the host has returned the result of a step that
  settled its event, the store holds it, and repeating the call, with whatever guard, returns the
  receipt of that event, committed in that revision, runs nothing and leaves the store as it is.
\<close>

theorem host_step_once:
  assumes "eh_access X = memory_access" "text_faithful (eh_checkpoint X)" "documents_typed (eh_checkpoint X)"
    and "keyed memory_view st" and "step_checkpoint_with_core X i rq g st = (Ok (v, Some core), st')"
    and "jindex core ''disposition'' \<notin> {JString ''not_runnable'', JString ''rejected'', JString ''deferred''}"
    and "\<not> ms_poisoned st'"
  shows "\<exists>receipt. step_checkpoint_with_core X i rq g' st' = (Ok (receipt, None), st') \<and>
    jindex receipt ''operation_kind'' = JString ''event_terminal'' \<and> jindex receipt ''event_id'' = JString (pq_event_id rq) \<and>
    jindex receipt ''committed_revision'' = jindex v ''revision''"
proof -
  have "sa_load memory_access i st' = (Ok (memory_view st' i), st')"
    using assms(7) by (simp add: memory_access_def direct_store_access_def memory_load_def memory_lock_def)
  with assms(1-6) show ?thesis by (rule memory_host.step_replayed)
qed

section \<open>Executing operations\<close>

lemma creation_value_root:
  assumes "creation_value C i creation_id d retention created = Ok v"
  shows "jindex v ''root_instance_id'' = JString i"
proof -
  let ?v = "initial_checkpoint i (ag_document (ce_aggregate created)) retention"
  let ?xs = "ce_lifecycle_dispositions created"
  let ?f = "\<lambda>disposition sequence. lifecycle_receipt disposition sequence (JString ''0'')
      (jindex (ag_document (ce_aggregate created)) ''aggregate_state_digest'') (JString (ce_status created))"
  from assms obtain v1 ss v2 refs v3 v4 where st: "allocate_sequences (length ?xs) ?v = Ok (v1, ss)"
      "append_checkpoint_emissions v1 (ce_emissions created) (ce_emission_indexes created) ss (JString ''0'') = Ok (v2, refs)"
      "push_member ''operation_receipts'' (creation_receipt creation_id d created refs) v2 = Ok v3"
      "ofold (\<lambda>(disposition, sequence). push_member ''operation_receipts'' (?f disposition sequence)) (zip ?xs ss) v3 = Ok v4"
      "seal_checkpoint C v4 = Ok v"
    by (auto simp: creation_value_def obind_Ok_iff Let_def)
  have "keeps v3 v4" using st(4) by (rule keep.ofold_rel [where g = "\<lambda>v. v"]) (auto intro: keeps_member(2))
  with st have "keeps ?v v" by (meson keeps_trans keep.sequences_rel keep.emissions_rel keeps_member(2) keeps_step(1) working_membersI)
  then have "jindex v ''root_instance_id'' = jindex ?v ''root_instance_id''" by (simp add: keeps_def working_members_def)
  then show ?thesis by (simp add: initial_checkpoint_def)
qed

lemma created_root_id: "create_execution_checkpoint_v1 C n B machine_id i creation_id b supplied retention = Ok cp \<Longrightarrow>
  jindex (cp_value cp) ''root_instance_id'' = JString i"
  by (auto simp: create_execution_checkpoint_v1_def create_with_response_def obind_Ok_iff restore_value_value creation_value_root
      split: if_split_asm)

text \<open>What a call does to other roots: nothing.\<close>

definition local_effect :: "('s \<Rightarrow> string \<Rightarrow> store_record option) \<Rightarrow> string \<Rightarrow> 's \<Rightarrow> 's \<Rightarrow> bool" where
  "local_effect view i s s' \<longleftrightarrow> (\<forall>j. j \<noteq> i \<longrightarrow> view s' j = view s j)"

lemma guarded_local: "guarded_effect view X i g s s' \<Longrightarrow> local_effect view i s s'"
  by (auto simp: guarded_effect_def local_effect_def host_write_def)

text \<open>What a creation does: nothing, or one new record.\<close>

definition creates :: "('s \<Rightarrow> string \<Rightarrow> store_record option) \<Rightarrow> string \<Rightarrow> 's \<Rightarrow> 's \<Rightarrow> bool" where
  "creates view i s s' \<longleftrightarrow> view s' = view s \<or> (\<exists>r. sr_root_instance_id r = i \<and> adds view r s s')"

lemma creates_local: "creates view i s s' \<Longrightarrow> local_effect view i s s'"
  by (auto simp: creates_def local_effect_def adds_def)

fun op_guard_of :: "durable_checkpoint_operation \<Rightarrow> mutation_guard option" where
  "op_guard_of (OpCreate B machine_id i creation_id b supplied retention) = None"
| "op_guard_of (OpAdmit i sources g) = Some g"
| "op_guard_of (OpStep i request g) = Some g"
| "op_guard_of (OpUpdatePendingOutbox i effect_id desired g) = Some g"
| "op_guard_of (OpTerminalizeOutbox i effect_id outcome g) = Some g"
| "op_guard_of (OpCompactOutbox i effect_id g) = Some g"
| "op_guard_of (OpPrune i request g) = Some g"
| "op_guard_of (OpTombstone i operation_id g) = Some g"
| "op_guard_of (OpDeleteRetainedRecord i g) = Some g"

context host_store
begin

lemma insert_cases:
  assumes "map_store_error (sa_insert_if_absent acc r) s = (x, s')"
  shows "view s' = view s \<or> adds view r s s'"
proof -
  obtain y where y: "sa_insert_if_absent acc r s = (y, s')"
    using assms by (cases "sa_insert_if_absent acc r s") (auto simp: map_store_error_def)
  with insert_law [OF y(1)] show ?thesis by (auto split: outcome.split_asm store_write_result.split_asm)
qed

lemma insert_created:
  assumes X: "eh_access X = acc"
    and call: "hbind (hlift (portable_creation_error (create_execution_checkpoint_v1 (eh_checkpoint X) (eh_fuel X) B machine_id i creation_id b supplied retention)))
      (\<lambda>candidate. hbind (hlift (store_record_from_checkpoint (eh_checkpoint X) candidate)) (\<lambda>rec.
        hbind (map_store_error (sa_insert_if_absent (eh_access X) rec)) (\<lambda>written. hlift (h candidate written)))) s = (x, s')"
  shows "creates view i s s'"
  using call
proof (cases rule: hbind_elim)
  case (returned cp s1)
  then have cp: "create_execution_checkpoint_v1 (eh_checkpoint X) (eh_fuel X) B machine_id i creation_id b supplied retention = Ok cp" "s1 = s"
    by (auto simp: portable_creation_error_def split: outcome.split_asm)
  from returned(2) show ?thesis
  proof (cases rule: hbind_elim)
    case (returned r s2)
    then have r: "store_record_from_checkpoint (eh_checkpoint X) cp = Ok r" "s2 = s" using cp(2) by auto
    then have root: "sr_root_instance_id r = i" using created_root_id [OF cp(1)] by (auto simp: record_from_checkpoint_Ok jstr_def)
    from returned(2) obtain y where "map_store_error (sa_insert_if_absent acc r) s = (y, s')"
      unfolding X r(2) by (rule hbind_elim) auto
    from insert_cases [OF this] root show ?thesis by (auto simp: creates_def)
  qed (use cp(2) in \<open>auto simp: creates_def\<close>)
qed (auto simp: creates_def)

lemma create_creates:
  assumes X: "eh_access X = acc" and call: "create_checkpoint_with_store X B machine_id i creation_id b supplied retention s = (x, s')"
  shows "creates view i s s'"
  using call unfolding create_checkpoint_with_store_def
proof (cases rule: hbind_elim)
  case (returned digest s1)
  then have "s1 = s" by simp
  from returned(2) show ?thesis
  proof (cases rule: hbind_elim)
    case (returned found s2)
    then have "s2 = s" using load_cases X \<open>s1 = s\<close> by auto
    show ?thesis
    proof (cases found)
      case None
      with returned(2) \<open>s2 = s\<close> show ?thesis by (auto intro: insert_created [OF X])
    qed (use returned(2) \<open>s2 = s\<close> in \<open>auto simp: creates_def\<close>)
  next
    case (stop y)
    then show ?thesis using load_cases [of i s1 y s'] X \<open>s1 = s\<close> by (simp add: creates_def)
  qed
qed (auto simp: creates_def)

end

context host_store
begin

lemma guarded_delete:
  assumes "eh_access X = acc"
  shows "guarded_call view X i g (delete_retained_record X i g)"
  unfolding delete_retained_record_def
  by (rule guarded_require [OF assms]) (auto simp: hbind_hlift split: outcome.split_asm)

lemma guarded_operation:
  assumes X: "eh_access X = acc" "text_faithful (eh_checkpoint X)" "documents_typed (eh_checkpoint X)"
    and "op_guard_of operation = Some g"
  shows "guarded_call view X (op_root_instance_id operation) g (run_operation X operation)"
  using assms(4) guarded_outbox [OF X]
  by (cases operation) (auto simp: without_core_def admit_checkpoint_sources_def
      intro!: guarded_hmap guarded_hlift_bind guarded_admit [OF X] guarded_step [OF X] guarded_hmap [OF guarded_delete [OF X(1)], unfolded hmap_def])

lemma operation_local:
  assumes X: "eh_access X = acc" "text_faithful (eh_checkpoint X)" "documents_typed (eh_checkpoint X)"
    and s: "keyed view s" and call: "run_operation X operation s = (x, s')"
  shows "local_effect view (op_root_instance_id operation) s s'"
proof (cases "op_guard_of operation")
  case None
  then obtain B machine_id i creation_id b supplied retention where op: "operation = OpCreate B machine_id i creation_id b supplied retention"
    by (cases operation) auto
  from call op obtain y where "create_checkpoint_with_store X B machine_id i creation_id b supplied retention s = (y, s')"
    by (auto simp: without_core_def hmap_def elim: hbind_elim)
  from creates_local [OF create_creates [OF X(1) this]] op show ?thesis by simp
next
  case (Some g)
  from guarded_operation [OF X Some] s call show ?thesis unfolding guarded_call_def by (blast intro: guarded_local)
qed

text \<open>The report of an operation, when both loads around it are answered.\<close>

lemma executed_cases:
  assumes "eh_access X = acc" "execute_checkpoint_operation X operation s = (Ok ex, s')"
  shows "(s' = s \<and> (\<exists>m. ex = store_unavailable ''rejected'' 0 m)) \<or>
    (\<exists>x. run_operation X operation s = (x, s') \<and>
      ((\<exists>result. ex = summarize X operation (view s (op_root_instance_id operation)) result (view s' (op_root_instance_id operation))) \<or>
       (\<exists>e s1. sa_load acc (op_root_instance_id operation) s' = (Err e, s1))))"
proof -
  let ?i = "op_root_instance_id operation"
  obtain y s1 where y: "sa_load acc ?i s = (y, s1)" by fastforce
  from load_law [OF y] have s1: "s1 = s" by simp
  have conclude: "(\<exists>result. ex = summarize X operation before result (view s2 ?i)) \<and> s' = s2 \<or> (\<exists>e s3. sa_load acc ?i s2 = (Err e, s3)) \<and> s' = s2"
    if "conclude X operation before result s2 = (Ok ex, s')" for before result s2
  proof -
    obtain z s3 where z: "sa_load acc ?i s2 = (z, s3)" by fastforce
    from load_law [OF z] that z assms(1) show ?thesis by (auto simp: conclude_def split: outcome.split_asm)
  qed
  show ?thesis
  proof (cases y)
    case (Ok before)
    with load_law [OF y] have before: "before = view s ?i" by simp
    obtain x s2 where x: "run_operation X operation s = (x, s2)" by fastforce
    from assms y Ok s1 x obtain result where "conclude X operation before result s2 = (Ok ex, s')"
      by (auto simp: execute_checkpoint_operation_def split: outcome.split_asm)
    from conclude [OF this] before x show ?thesis by blast
  qed (use assms y s1 in \<open>auto simp: execute_checkpoint_operation_def\<close>)
qed

end

lemma summarize_mutation: "dh_mutation (de_result (summarize X operation before result after)) = (if before \<noteq> after then ''atomic'' else ''none'')"
  by (simp add: summarize_def Let_def)

lemma summarize_result:
  "dh_result (de_result (summarize X operation before result after)) = ''committed'' \<Longrightarrow> before \<noteq> after"
  "dh_result (de_result (summarize X operation before result after)) = ''replayed'' \<Longrightarrow> before = after"
  by (auto simp: summarize_def Let_def split: if_split_asm)

text \<open>
  C24: The host reports what it did.  On a store that answers, an operation touches no root but its
  own; the report says \<^verbatim>\<open>atomic\<close> exactly when the record of that root has changed, \<^verbatim>\<open>committed\<close> only when it
  has, and \<^verbatim>\<open>replayed\<close> only when the whole store is as it was.
\<close>

theorem host_reports_mutation:
  assumes "eh_access X = memory_access" "text_faithful (eh_checkpoint X)" "documents_typed (eh_checkpoint X)"
    and "keyed memory_view st" and "execute_checkpoint_operation X operation st = (Ok ex, st')" and "\<not> ms_poisoned st'"
  shows "(\<forall>j. j \<noteq> op_root_instance_id operation \<longrightarrow> memory_view st' j = memory_view st j) \<and>
    (dh_mutation (de_result ex) = ''atomic'' \<longleftrightarrow> memory_view st' \<noteq> memory_view st) \<and>
    (dh_result (de_result ex) = ''committed'' \<longrightarrow> memory_view st' \<noteq> memory_view st) \<and>
    (dh_result (de_result ex) = ''replayed'' \<longrightarrow> memory_view st' = memory_view st)"
proof -
  let ?i = "op_root_instance_id operation"
  have answers: "sa_load memory_access ?i st' \<noteq> (Err e, s1)" for e s1
    using assms(6) by (simp add: memory_access_def direct_store_access_def memory_load_def memory_lock_def)
  from memory_host.executed_cases [OF assms(1,5)] answers consider
      (unavailable) m where "st' = st" "ex = store_unavailable ''rejected'' 0 m"
    | (run) x result where "run_operation X operation st = (x, st')"
        "ex = summarize X operation (memory_view st ?i) result (memory_view st' ?i)" by blast
  then show ?thesis
  proof cases
    case unavailable
    then show ?thesis by (simp add: store_unavailable_def)
  next
    case run
    have away: "\<forall>j. j \<noteq> ?i \<longrightarrow> memory_view st' j = memory_view st j"
      using memory_host.operation_local [OF assms(1-4) run(1)] by (simp add: local_effect_def)
    then have "memory_view st' = memory_view st \<longleftrightarrow> memory_view st ?i = memory_view st' ?i"
      by (auto simp: fun_eq_iff) (metis)
    with away run(2) show ?thesis by (auto simp: summarize_mutation dest: summarize_result)
  qed
qed

section \<open>Writers in competition\<close>

text \<open>How far a root has got in a store: not created, or created and at a revision.\<close>

definition progress :: "('s \<Rightarrow> string \<Rightarrow> store_record option) \<Rightarrow> 's \<Rightarrow> string \<Rightarrow> nat" where
  "progress view s i =
     (case view s i of None \<Rightarrow> 0 | Some r \<Rightarrow> (case from_decimal (sr_revision r) of None \<Rightarrow> 1 | Some c \<Rightarrow> Suc c))"

definition progresses :: "('s \<Rightarrow> string \<Rightarrow> store_record option) \<Rightarrow> 's \<Rightarrow> 's \<Rightarrow> bool" where
  "progresses view s s' \<longleftrightarrow> (\<forall>i. view s' i = view s i \<or> progress view s i < progress view s' i)"

lemma progress_mono: "progresses view s s' \<Longrightarrow> progress view s i \<le> progress view s' i"
  unfolding progresses_def progress_def by (metis less_imp_le order_refl)

lemma progress_at: "view s i = Some r \<Longrightarrow> sr_revision r = canonical_decimal c \<Longrightarrow> progress view s i = Suc c"
  by (simp add: progress_def)

lemma write_progresses:
  assumes "host_write view X i cp v s s'" "succeeds cp g v"
  shows "progresses view s s'"
proof -
  from write_token [OF assms] obtain r r' c where "view s i = Some r" "sr_revision r = canonical_decimal c"
      "sr_revision r' = canonical_decimal (Suc c)" "view s' = (view s)(i \<mapsto> r')" by blast
  then show ?thesis by (simp add: progresses_def progress_def)
qed

context host_store
begin

lemma mutation_effects:
  assumes X: "eh_access X = acc" "text_faithful (eh_checkpoint X)" "documents_typed (eh_checkpoint X)"
    and s: "keyed view s" and call: "run_mutation X m s = (x, s')"
  shows "keyed view s' \<and> progresses view s s'"
proof (cases "mutation_guard_of m")
  case None
  then obtain B machine_id i creation_id b supplied retention where m: "m = MutCreate B machine_id i creation_id b supplied retention"
    by (cases m) auto
  from call m obtain y where "create_checkpoint_with_store X B machine_id i creation_id b supplied retention s = (y, s')"
    by (auto simp: hmap_def elim: hbind_elim)
  from create_creates [OF X(1) this] s show ?thesis
    by (auto simp: creates_def adds_def keyed_def progresses_def progress_def split: option.split if_split_asm)
next
  case (Some g)
  from guarded_mutation [OF X Some] s call have "guarded_effect view X (mutation_root m) g s s'" unfolding guarded_call_def by blast
  then show ?thesis unfolding guarded_effect_def
  proof
    assume "\<exists>cp v. succeeds cp g v \<and> host_write view X (mutation_root m) cp v s s'"
    then obtain cp v where w: "succeeds cp g v" "host_write view X (mutation_root m) cp v s s'" by blast
    from w(2) s have "keyed view s'" by (auto simp: host_write_def keyed_def split: if_split_asm)
    with write_progresses [OF w(2,1)] show ?thesis by blast
  qed (use s in \<open>simp add: keyed_def progresses_def\<close>)
qed

end

text \<open>The store after a sequence of operations, whatever their results.\<close>

fun run_mutations :: "'s execution_host \<Rightarrow> host_mutation list \<Rightarrow> 's \<Rightarrow> 's" where
  "run_mutations X [] s = s"
| "run_mutations X (m # ms) s = run_mutations X ms (snd (run_mutation X m s))"

context host_store
begin

lemma mutations_effects:
  assumes X: "eh_access X = acc" "text_faithful (eh_checkpoint X)" "documents_typed (eh_checkpoint X)"
  shows "keyed view s \<Longrightarrow> keyed view (run_mutations X ms s) \<and> progress view s i \<le> progress view (run_mutations X ms s) i"
proof (induction ms arbitrary: s)
  case (Cons m ms)
  have "keyed view (snd (run_mutation X m s)) \<and> progresses view s (snd (run_mutation X m s))"
    by (rule mutation_effects [OF X Cons.prems]) (rule surjective_pairing)
  with Cons.IH [of "snd (run_mutation X m s)"] progress_mono [of view s "snd (run_mutation X m s)" i] show ?case by auto
qed simp

lemma guard_wins_once:
  assumes X: "eh_access X = acc" "text_faithful (eh_checkpoint X)" "documents_typed (eh_checkpoint X)" and s: "keyed view s"
    and first: "mutation_guard_of m = Some g" "run_mutation X m s = (x, s1)" "view s1 \<noteq> view s"
    and second: "mutation_guard_of m' = Some g" "mutation_root m' = mutation_root m" "run_mutation X m' (run_mutations X ms s1) = (x', s2)"
  shows "view s2 = view (run_mutations X ms s1)"
proof (rule ccontr)
  let ?i = "mutation_root m" and ?s = "run_mutations X ms s1"
  assume changed: "view s2 \<noteq> view ?s"
  have written: "\<exists>r c r'. view t ?i = Some r \<and> sr_revision r = mg_expected_revision g \<and> sr_revision r = canonical_decimal c \<and>
      sr_revision r' = canonical_decimal (Suc c) \<and> view t' = (view t)(?i \<mapsto> r')"
    if "keyed view t" "mutation_guard_of n = Some g" "mutation_root n = ?i" "run_mutation X n t = (y, t')" "view t' \<noteq> view t" for n t y t'
  proof -
    from guarded_mutation [OF X that(2)] that(1,3-5) obtain cp v where "succeeds cp g v" "host_write view X ?i cp v t t'"
      unfolding guarded_call_def guarded_effect_def by metis
    from write_token [OF this(2,1)] show ?thesis by (auto simp: token_def)
  qed
  have s1: "keyed view s1" using mutation_effects [OF X s first(2)] by blast
  note later = mutations_effects [OF X s1, of ms ?i]
  from written [OF s first(1) refl first(2,3)] obtain r c r' where a: "sr_revision r = mg_expected_revision g"
      "sr_revision r = canonical_decimal c" "sr_revision r' = canonical_decimal (Suc c)" "view s1 = (view s)(?i \<mapsto> r')" "view s ?i = Some r"
    by blast
  from written [OF conjunct1 [OF later] second changed] obtain u where u: "view ?s ?i = Some u" "sr_revision u = mg_expected_revision g" by blast
  have "progress view s1 ?i = Suc (Suc c)" by (rule progress_at [of _ _ _ r']) (simp_all add: a(3,4))
  moreover have "progress view ?s ?i = Suc c" using progress_at [of view ?s ?i u c] u a(1,2) by simp
  ultimately show False using later by simp
qed

end

text \<open>
  C31: Of the callers that hold the same revision and digest of a root, at most one writes.  When an
  operation has changed the store under a guard, then after any other operations of any callers,
  creations included, no operation on that root under the same guard changes the store.
\<close>

theorem host_guard_wins_once:
  assumes "eh_access X = memory_access" "text_faithful (eh_checkpoint X)" "documents_typed (eh_checkpoint X)"
    and "keyed memory_view st"
    and "mutation_guard_of m = Some g" "run_mutation X m st = (x, st1)" "memory_view st1 \<noteq> memory_view st"
    and "mutation_guard_of m' = Some g" "mutation_root m' = mutation_root m"
      "run_mutation X m' (run_mutations X ms st1) = (x', st2)"
  shows "memory_view st2 = memory_view (run_mutations X ms st1)"
  using assms by (rule memory_host.guard_wins_once)

end
