(* ===== verification/Kernel_Steps.thy ===== *)
theory Kernel_Steps
  imports Kernel
begin

text \<open>
  An abstract specification of the step kernel: the relation \<open>ksteps\<close> lists what the code may
  do to a runtime and the step context, one rule per kind of change, and every operation of the
  kernel is shown to stay within it, whether it succeeds or fails.  The invariants of a step
  are then rule inductions over the relation, without the code of the kernel.
\<close>

named_theorems kernel_stays \<open>operations of the kernel that stay within the steps\<close>

section \<open>Steps of the core of a runtime\<close>

text \<open>
  A slot is typed when it holds a canonical value of its declared type; a reference variable
  may be empty.
\<close>

definition slot_typed :: "variable_slot \<Rightarrow> bool" where
  "slot_typed slot \<longleftrightarrow>
     vd_value_type (vs_declaration slot) = ''instance_reference'' \<and> vs_value slot = VNull \<or>
     matches_type (vs_value slot) (vd_value_type (vs_declaration slot)) \<and>
     is_canonical_portable (vs_value slot)"

definition core_typed :: "runtime_core \<Rightarrow> bool" where
  "core_typed c \<longleftrightarrow> (\<forall>slot \<in> set (bm_values (rc_variables c)). slot_typed slot)"

text \<open>What a step never changes in a runtime.\<close>

definition core_frame :: "runtime_core \<Rightarrow> runtime_core \<Rightarrow> bool" where
  "core_frame c c' \<longleftrightarrow>
     rc_runtime_id c' = rc_runtime_id c \<and> rc_identity_origin c' = rc_identity_origin c \<and>
     rc_target_identity c' = rc_target_identity c \<and>
     rc_current_definition c' = rc_current_definition c \<and>
     rc_origin_component_id c' = rc_origin_component_id c \<and>
     rc_machine_id c' = rc_machine_id c \<and> rc_machine_version c' = rc_machine_version c \<and>
     rc_definition c' = rc_definition c \<and> rc_fault c' = rc_fault c \<and>
     rc_relation c' = rc_relation c \<and> rc_ready_mailbox c' = rc_ready_mailbox c \<and>
     rc_deferred_mailbox c' = rc_deferred_mailbox c \<and>
     (rc_status c' = rc_status c \<or> rc_status c' = Completed) \<and>
     rc_next_spawn_sequence c \<le> rc_next_spawn_sequence c'"

definition core_step :: "runtime_core \<Rightarrow> runtime_core \<Rightarrow> bool" where
  "core_step c c' \<longleftrightarrow>
     core_frame c c' \<and>
     rc_next_component_activation_sequence c' = rc_next_component_activation_sequence c \<and>
     (core_typed c \<longrightarrow> core_typed c')"

lemma core_frame_refl [simp]: "core_frame c c"
  by (simp add: core_frame_def)

lemma core_frame_trans: "core_frame a b \<Longrightarrow> core_frame b c \<Longrightarrow> core_frame a c"
  by (auto simp: core_frame_def)

lemma core_step_refl [simp]: "core_step c c"
  by (simp add: core_step_def)

lemma core_step_trans: "core_step a b \<Longrightarrow> core_step b c \<Longrightarrow> core_step a c"
  by (auto simp: core_step_def intro: core_frame_trans)

section \<open>Steps of a runtime\<close>

text \<open>Emissions inside the aggregate carry an event identity, emissions to the outside a sequence number.\<close>

definition internal_emission :: "emission \<Rightarrow> bool" where
  "internal_emission em \<longleftrightarrow>
     em_event_id em \<noteq> None \<and> em_sequence em = None \<and> em_effect_id em = None \<and> em_cause_id em \<noteq> None"

definition external_emission :: "counter \<Rightarrow> emission \<Rightarrow> bool" where
  "external_emission seq em \<longleftrightarrow>
     em_target em = External \<and> em_sequence em = Some seq \<and> em_effect_id em \<noteq> None \<and>
     em_event_id em = None"

definition next_activation :: "runtime_core \<Rightarrow> string \<Rightarrow> counter" where
  "next_activation c pointer =
     (case bm_get (rc_next_component_activation_sequence c) pointer of None \<Rightarrow> counter_zero | Some q \<Rightarrow> q)"

definition component_allocated :: "runtime_core \<Rightarrow> string \<Rightarrow> runtime_core" where
  "component_allocated c pointer =
     c\<lparr>rc_next_component_activation_sequence :=
         bm_insert pointer (Suc (next_activation c pointer)) (rc_next_component_activation_sequence c)\<rparr>"

definition spawn_allocated :: "runtime_core \<Rightarrow> runtime_core" where
  "spawn_allocated c = c\<lparr>rc_next_spawn_sequence := Suc (rc_next_spawn_sequence c)\<rparr>"

text \<open>
  \<open>ksteps\<close>: the steps of a runtime; \<open>kinits\<close>: the initialisation of a child under its own
  cause, which either succeeds or is contained in the child.
\<close>

inductive ksteps :: "kst \<Rightarrow> kst \<Rightarrow> bool"
  and kinits :: "runtime_state \<Rightarrow> step_context \<Rightarrow> runtime_state \<Rightarrow> step_context \<Rightarrow> bool"
where
  steps_refl: "ksteps s s"
| steps_trans: "ksteps s t \<Longrightarrow> ksteps t u \<Longrightarrow> ksteps s u"
| steps_core: "core_step c c' \<Longrightarrow> ksteps (Runtime c cs ws, cx) (Runtime c' cs ws, cx)"
| steps_writes: "ksteps (r, cx) (r, cx\<lparr>cx_provider_writes := writes\<rparr>)"
| steps_internal: "internal_emission em \<Longrightarrow>
    ksteps (r, cx) (r, cx\<lparr>cx_emissions := cx_emissions cx @ [em]\<rparr>)"
| steps_external: "external_emission (cx_next_output_sequence cx) em \<Longrightarrow>
    ksteps (r, cx) (r, cx\<lparr>cx_emissions := cx_emissions cx @ [em],
                          cx_next_output_sequence := Suc (cx_next_output_sequence cx)\<rparr>)"
| steps_component: "i < length cs \<Longrightarrow> ksteps (cr_runtime (cs ! i), cx) (child, cx') \<Longrightarrow>
    ksteps (Runtime c cs ws, cx) (Runtime c (cs[i := set_cr_runtime child (cs ! i)]) ws, cx')"
| steps_owned: "i < length ws \<Longrightarrow> ksteps (or_runtime (ws ! i), cx) (child, cx') \<Longrightarrow>
    ksteps (Runtime c cs ws, cx) (Runtime c cs (ws[i := set_or_runtime child (ws ! i)]), cx')"
| steps_drop: "subseq cs' cs \<Longrightarrow> subseq ws' ws \<Longrightarrow>
    ksteps (Runtime c cs ws, cx) (Runtime c cs' ws', cx)"
| steps_new_component: "seq = next_activation c pointer \<Longrightarrow>
    child = new_runtime runtime_id m
      (RelComponent (rc_runtime_id c) (runtime_target (Runtime c cs ws)) path cid pointer index seq)
      (OriginComponent binding (rc_runtime_id c) pointer seq index)
      (ComponentPlacement root_instance_id (rc_runtime_id c) cid runtime_id seq) binding (Some cid) \<Longrightarrow>
    ksteps (Runtime c cs ws, cx)
      (Runtime (component_allocated c pointer) (cs @ [ComponentRuntime cid pointer index seq child]) ws, cx)"
| steps_init_component: "i < length cs \<Longrightarrow> kinits (cr_runtime (cs ! i)) cx child cx' \<Longrightarrow>
    ksteps (Runtime c cs ws, cx) (Runtime c (cs[i := set_cr_runtime child (cs ! i)]) ws, cx')"
| steps_spawn: "core_step (spawn_allocated c) c' \<Longrightarrow> seq = rc_next_spawn_sequence c \<Longrightarrow>
    kinits
      (new_runtime (ref_instance_id rf) m
        (RelSpawned (rc_runtime_id c) (runtime_target (Runtime c cs ws)) seq pointer rf hpath hpointer hseq)
        (OriginSpawned binding (rc_runtime_id c) pointer seq) (SpawnedTarget rf) binding None)
      cx child cx' \<Longrightarrow>
    ksteps (Runtime c cs ws, cx)
      (Runtime c' cs (if rt_status child = Completed then ws
                      else ws @ [OwnedRuntime seq hpath hpointer hseq rf child]), cx')"
| inits_ok: "ksteps (r, cx\<lparr>cx_cause_id := cause\<rparr>) (r', cx') \<Longrightarrow>
    kinits r cx r' (cx'\<lparr>cx_cause_id := cx_cause_id cx\<rparr>)"
| inits_contained: "ksteps (r, cx\<lparr>cx_cause_id := cause\<rparr>) (r', cx') \<Longrightarrow> list_all internal_emission ems \<Longrightarrow>
    fr_runtime_id record = rt_runtime_id r' \<Longrightarrow>
    kinits r cx (diagnostic_runtime r' record)
      (cx\<lparr>cx_emissions := cx_emissions cx @ ems, cx_provider_writes := writes\<rparr>)"

section \<open>Emissions of a step\<close>

text \<open>
  \<open>numbered n ems m\<close>: the outgoing emissions carry the numbers \<open>n, n + 1, \<dots>, m - 1\<close> in
  order, and the others carry none.
\<close>

primrec numbered :: "counter \<Rightarrow> emission list \<Rightarrow> counter \<Rightarrow> bool" where
  "numbered n [] m \<longleftrightarrow> m = n"
| "numbered n (em # ems) m \<longleftrightarrow>
     internal_emission em \<and> numbered n ems m \<or> external_emission n em \<and> numbered (Suc n) ems m"

definition context_grows :: "step_context \<Rightarrow> step_context \<Rightarrow> bool" where
  "context_grows cx cx' \<longleftrightarrow>
     cx_cause_id cx' = cx_cause_id cx \<and>
     (\<exists>new. cx_emissions cx' = cx_emissions cx @ new \<and>
            numbered (cx_next_output_sequence cx) new (cx_next_output_sequence cx'))"

lemma numbered_append: "numbered n (a @ b) m \<longleftrightarrow> (\<exists>k. numbered n a k \<and> numbered k b m)"
  by (induction a arbitrary: n) auto

lemma numbered_internal: "list_all internal_emission ems \<Longrightarrow> numbered n ems n"
  by (induction ems) auto

lemma context_grows_refl: "context_grows cx cx"
  by (simp add: context_grows_def)

lemma context_grows_trans:
  assumes "context_grows a b" and "context_grows b c"
  shows "context_grows a c"
proof -
  from assms obtain x y where "cx_emissions b = cx_emissions a @ x" "cx_emissions c = cx_emissions b @ y"
    "numbered (cx_next_output_sequence a) x (cx_next_output_sequence b)"
    "numbered (cx_next_output_sequence b) y (cx_next_output_sequence c)"
    unfolding context_grows_def by blast
  then have "cx_emissions c = cx_emissions a @ (x @ y) \<and>
      numbered (cx_next_output_sequence a) (x @ y) (cx_next_output_sequence c)"
    by (auto simp: numbered_append)
  moreover have "cx_cause_id c = cx_cause_id a" using assms by (simp add: context_grows_def)
  ultimately show ?thesis unfolding context_grows_def by blast
qed

lemma ksteps_context:
  "ksteps s t \<Longrightarrow> context_grows (snd s) (snd t)"
  "kinits r cx r' cx' \<Longrightarrow> context_grows cx cx'"
proof (induction rule: ksteps_kinits.inducts)
  case (steps_trans s t u)
  then show ?case by (blast intro: context_grows_trans)
next
  case (inits_contained r cx cause r' cx' ems rec writes)
  then show ?case by (auto simp: context_grows_def intro: numbered_internal)
qed (auto simp: context_grows_def)

section \<open>The frame of a step\<close>

lemma core_frame_allocated [simp]:
  "core_frame c (component_allocated c p)" "core_frame c (spawn_allocated c)"
  by (simp_all add: core_frame_def component_allocated_def spawn_allocated_def)

lemma ksteps_frame:
  "ksteps s t \<Longrightarrow> core_frame (rt_core (fst s)) (rt_core (fst t))"
  "kinits r cx r' cx' \<Longrightarrow> True"
proof (induction rule: ksteps_kinits.inducts)
  case (steps_spawn c c' seq rf m cs ws pointer hpath hpointer hseq binding cx child cx')
  then show ?case by (auto simp: core_step_def intro: core_frame_trans [OF core_frame_allocated(2)])
qed (auto simp: core_step_def intro: core_frame_trans)

lemma subseq_subset: "subseq xs ys \<Longrightarrow> x \<in> set xs \<Longrightarrow> x \<in> set ys"
  by (induction rule: list_emb.induct) auto

section \<open>Typed variables\<close>

primrec runtime_typed :: "runtime_state \<Rightarrow> bool"
  and component_typed :: "component_runtime \<Rightarrow> bool"
  and owned_typed :: "owned_runtime \<Rightarrow> bool"
where
  "runtime_typed (Runtime c cs ws) \<longleftrightarrow>
     core_typed c \<and> list_all (\<lambda>x. x) (map component_typed cs) \<and> list_all (\<lambda>x. x) (map owned_typed ws)"
| "component_typed (ComponentRuntime cid p i seq r) \<longleftrightarrow> runtime_typed r"
| "owned_typed (OwnedRuntime seq hp hptr ha rf r) \<longleftrightarrow> runtime_typed r"

lemma child_typed [simp]:
  "component_typed c = runtime_typed (cr_runtime c)" "owned_typed w = runtime_typed (or_runtime w)"
  by (cases c, simp) (cases w, simp)

lemma runtime_typed_iff [simp]:
  "runtime_typed (Runtime c cs ws) \<longleftrightarrow>
     core_typed c \<and> (\<forall>x \<in> set cs. runtime_typed (cr_runtime x)) \<and> (\<forall>x \<in> set ws. runtime_typed (or_runtime x))"
  by (auto simp: list_all_iff)

lemma new_runtime_typed [simp]: "runtime_typed (new_runtime i m rel og t b cid)"
  by (simp add: new_runtime_def core_typed_def del: runtime_typed.simps)

lemma diagnostic_runtime_typed [simp]: "runtime_typed (diagnostic_runtime r record)"
  by (simp add: diagnostic_runtime_def new_runtime_def with_core_def core_typed_def del: runtime_typed.simps)

lemma core_typed_allocated [simp]:
  "core_typed (component_allocated c p) = core_typed c" "core_typed (spawn_allocated c) = core_typed c"
  by (simp_all add: core_typed_def component_allocated_def spawn_allocated_def)

lemma ksteps_typed:
  "ksteps s t \<Longrightarrow> runtime_typed (fst s) \<Longrightarrow> runtime_typed (fst t)"
  "kinits r cx r' cx' \<Longrightarrow> runtime_typed r \<Longrightarrow> runtime_typed r'"
proof (induction rule: ksteps_kinits.inducts)
  case (steps_component i cs cx child cx' c ws)
  then show ?case by (auto dest!: set_update_subset_insert [THEN subsetD] simp del: runtime_typed.simps)
next
  case (steps_owned i ws cx child cx' c cs)
  then show ?case by (auto dest!: set_update_subset_insert [THEN subsetD] simp del: runtime_typed.simps)
next
  case (steps_init_component i cs cx child cx' c ws)
  then show ?case by (auto dest!: set_update_subset_insert [THEN subsetD] simp del: runtime_typed.simps)
next
  case (steps_drop cs' cs ws' ws c cx)
  then show ?case by (auto dest: subseq_subset simp del: runtime_typed.simps)
next
  case (steps_spawn c c' seq rf m cs ws pointer hpath hpointer hseq binding cx child cx')
  then show ?case by (auto simp: core_step_def simp del: runtime_typed.simps)
qed (auto simp: core_step_def simp del: runtime_typed.simps)

section \<open>Placements\<close>

lemma subseq_distinct: "subseq xs ys \<Longrightarrow> distinct ys \<Longrightarrow> distinct xs"
  by (induction rule: list_emb.induct) (auto dest: subseq_subset)

text \<open>Putting a child back where it was keeps what the lookups read of the list.\<close>

lemma map_update_same: "i < length xs \<Longrightarrow> f y = f (xs ! i) \<Longrightarrow> map f (xs[i := y]) = map f xs"
  by (simp add: map_update) (metis length_map list_update_id nth_map)

text \<open>
  The children of a runtime are told apart by their sequence numbers: those of instances are
  below the runtime's next one, those of components below the next one of their placement.
\<close>

definition placements_fresh :: "runtime_core \<Rightarrow> component_runtime list \<Rightarrow> owned_runtime list \<Rightarrow> bool" where
  "placements_fresh c cs ws \<longleftrightarrow>
     distinct (map or_spawn_sequence ws) \<and>
     (\<forall>w \<in> set ws. or_spawn_sequence w < rc_next_spawn_sequence c) \<and>
     distinct (map (\<lambda>x. (cr_pointer x, cr_activation_sequence x)) cs) \<and>
     (\<forall>x \<in> set cs. cr_activation_sequence x < next_activation c (cr_pointer x))"

primrec runtime_fresh :: "runtime_state \<Rightarrow> bool"
  and component_fresh :: "component_runtime \<Rightarrow> bool"
  and owned_fresh :: "owned_runtime \<Rightarrow> bool"
where
  "runtime_fresh (Runtime c cs ws) \<longleftrightarrow>
     placements_fresh c cs ws \<and> list_all (\<lambda>x. x) (map component_fresh cs) \<and>
     list_all (\<lambda>x. x) (map owned_fresh ws)"
| "component_fresh (ComponentRuntime cid p i seq r) \<longleftrightarrow> runtime_fresh r"
| "owned_fresh (OwnedRuntime seq hp hptr ha rf r) \<longleftrightarrow> runtime_fresh r"

lemma child_fresh [simp]:
  "component_fresh c = runtime_fresh (cr_runtime c)" "owned_fresh w = runtime_fresh (or_runtime w)"
  by (cases c, simp) (cases w, simp)

lemma runtime_fresh_iff [simp]:
  "runtime_fresh (Runtime c cs ws) \<longleftrightarrow>
     placements_fresh c cs ws \<and> (\<forall>x \<in> set cs. runtime_fresh (cr_runtime x)) \<and>
     (\<forall>x \<in> set ws. runtime_fresh (or_runtime x))"
  by (auto simp: list_all_iff)

declare runtime_typed.simps [simp del] runtime_fresh.simps [simp del]

lemma new_runtime_fresh [simp]: "runtime_fresh (new_runtime i m rel og t b cid)"
  by (simp add: new_runtime_def placements_fresh_def)

lemma diagnostic_runtime_fresh [simp]: "runtime_fresh (diagnostic_runtime r record)"
  by (simp add: diagnostic_runtime_def new_runtime_def with_core_def placements_fresh_def)

lemma next_activation_allocated:
  "next_activation (component_allocated c p) q = (if q = p then Suc (next_activation c p) else next_activation c q)"
  by (simp add: next_activation_def component_allocated_def)

lemma placements_fresh_core:
  "core_step c c' \<Longrightarrow> placements_fresh c cs ws \<Longrightarrow> placements_fresh c' cs ws"
  by (auto simp: placements_fresh_def core_step_def core_frame_def next_activation_def dest: less_le_trans)

lemma placements_fresh_children:
  "placements_fresh c cs ws \<Longrightarrow>
   map (\<lambda>x. (cr_pointer x, cr_activation_sequence x)) cs' = map (\<lambda>x. (cr_pointer x, cr_activation_sequence x)) cs \<Longrightarrow>
   map or_spawn_sequence ws' = map or_spawn_sequence ws \<Longrightarrow> placements_fresh c cs' ws'"
proof -
  assume p: "placements_fresh c cs ws"
    and c: "map (\<lambda>x. (cr_pointer x, cr_activation_sequence x)) cs' = map (\<lambda>x. (cr_pointer x, cr_activation_sequence x)) cs"
    and w: "map or_spawn_sequence ws' = map or_spawn_sequence ws"
  from w have "or_spawn_sequence ` set ws' = or_spawn_sequence ` set ws" by (metis set_map)
  moreover from c have "(\<lambda>x. (cr_pointer x, cr_activation_sequence x)) ` set cs' =
      (\<lambda>x. (cr_pointer x, cr_activation_sequence x)) ` set cs" by (metis set_map)
  ultimately show ?thesis using p c w unfolding placements_fresh_def
    by (auto simp: image_iff set_eq_iff) (metis Pair_inject)+
qed

lemma placements_fresh_drop:
  "placements_fresh c cs ws \<Longrightarrow> subseq cs' cs \<Longrightarrow> subseq ws' ws \<Longrightarrow> placements_fresh c cs' ws'"
  using subseq_map [of cs' cs "\<lambda>x. (cr_pointer x, cr_activation_sequence x)"]
    subseq_map [of ws' ws or_spawn_sequence]
  by (auto simp: placements_fresh_def dest: subseq_subset subseq_distinct)

lemma placements_fresh_component:
  "placements_fresh c cs ws \<Longrightarrow>
   placements_fresh (component_allocated c p) (cs @ [ComponentRuntime cid p i (next_activation c p) r]) ws"
  by (auto simp: placements_fresh_def next_activation_allocated less_SucI)
    (auto simp: component_allocated_def)

lemma placements_fresh_spawn:
  "placements_fresh c cs ws \<Longrightarrow>
   placements_fresh (spawn_allocated c) cs (ws @ [OwnedRuntime (rc_next_spawn_sequence c) hp hptr ha rf r])"
  by (auto simp: placements_fresh_def spawn_allocated_def next_activation_def less_SucI)

lemma ksteps_fresh:
  "ksteps s t \<Longrightarrow> runtime_fresh (fst s) \<Longrightarrow> runtime_fresh (fst t)"
  "kinits r cx r' cx' \<Longrightarrow> runtime_fresh r \<Longrightarrow> runtime_fresh r'"
proof (induction rule: ksteps_kinits.inducts)
  case (steps_core c c' cs ws cx)
  then show ?case by (auto intro: placements_fresh_core)
next
  case (steps_component i cs cx child cx' c ws)
  then show ?case
    by (auto dest!: set_update_subset_insert [THEN subsetD]
        elim!: placements_fresh_children intro!: map_update_same)
next
  case (steps_owned i ws cx child cx' c cs)
  then show ?case
    by (auto dest!: set_update_subset_insert [THEN subsetD] 
        elim!: placements_fresh_children intro!: map_update_same)
next
  case (steps_init_component i cs cx child cx' c ws)
  then show ?case
    by (auto dest!: set_update_subset_insert [THEN subsetD] 
        elim!: placements_fresh_children intro!: map_update_same)
next
  case (steps_drop cs' cs ws' ws c cx)
  then show ?case by (auto dest: subseq_subset intro: placements_fresh_drop)
next
  case (steps_new_component seq c pointer child runtime_id m cs ws path cid index binding root_instance_id cx)
  then show ?case by (auto intro: placements_fresh_component)
next
  case (steps_spawn c c' seq rf m cs ws pointer hpath hpointer hseq binding cx child cx')
  then have p: "placements_fresh c cs ws" by simp
  have "placements_fresh c' cs ws"
    by (rule placements_fresh_core [OF steps_spawn(1)])
      (use p in \<open>auto simp: placements_fresh_def spawn_allocated_def next_activation_def less_SucI\<close>)
  moreover have "placements_fresh c' cs (ws @ [OwnedRuntime seq hpath hpointer hseq rf child])"
    using placements_fresh_core [OF steps_spawn(1) placements_fresh_spawn [OF p]] steps_spawn(2) by simp
  ultimately show ?case using steps_spawn by auto
qed auto

section \<open>Operations within the steps\<close>

definition kstays :: "'a km \<Rightarrow> kst \<Rightarrow> bool" where
  "kstays m s \<longleftrightarrow> (\<forall>a t. m s = Ok (a, t) \<longrightarrow> ksteps s t) \<and> (\<forall>f t. m s = Err (f, t) \<longrightarrow> ksteps s t)"

lemma kstays_trivial [kernel_stays]:
  "kstays (kret a) s" "kstays (kfail f) s" "kstays (kreads g) s" "kstays kout_of_fuel s" "kstays kpanic s"
  by (auto simp: kstays_def kret_def kfail_def kreads_def kout_of_fuel_def kpanic_def intro: steps_refl)

lemma kstays_pure [kernel_stays]: "kstays (kpure g) s"
  by (auto simp: kstays_def kpure_def intro: steps_refl split: outcome.splits)

lemma kstays_bind:
  assumes "kstays m s" and "\<And>a t. m s = Ok (a, t) \<Longrightarrow> kstays (g a) t"
  shows "kstays (kbind m g) s"
  using assms unfolding kstays_def kbind_def
  by (cases "m s") (fastforce intro: steps_trans)+

lemma kstays_bind_all [kernel_stays]:
  "kstays m s \<Longrightarrow> (\<And>a t. kstays (g a) t) \<Longrightarrow> kstays (kbind m g) s"
  by (rule kstays_bind)

lemma kstays_seq [kernel_stays]: "kstays m s \<Longrightarrow> (\<And>t. kstays k t) \<Longrightarrow> kstays (kseq m k) s"
  by (simp add: kseq_def kstays_bind)

text \<open>Reading keeps the state, so what was read is known of it.\<close>

lemma kstays_bind_pure: "(\<And>a. g s = Ok a \<Longrightarrow> kstays (h a) s) \<Longrightarrow> kstays (kbind (kpure g) h) s"
  by (rule kstays_bind) (auto simp: kpure_def kernel_stays split: outcome.splits)

lemma kstays_bind_reads: "kstays (h (g s)) s \<Longrightarrow> kstays (kbind (kreads g) h) s"
  by (rule kstays_bind) (auto simp: kreads_def kernel_stays)

lemma kstays_context_then:
  "kstays (kmodify_context g) s \<Longrightarrow> kstays k (fst s, g (snd s)) \<Longrightarrow> kstays (kseq (kmodify_context g) k) s"
  unfolding kseq_def by (rule kstays_bind) (auto simp: kmodify_context_def)

lemma kstays_when [kernel_stays]: "kstays m s \<Longrightarrow> kstays (kwhen b m) s"
  by (simp add: kwhen_def kernel_stays)

lemma kstays_if [kernel_stays]:
  "kstays m s \<Longrightarrow> kstays k s \<Longrightarrow> kstays (if b then m else k) s"
  by simp

lemma kstays_option [kernel_stays]:
  "kstays m s \<Longrightarrow> (\<And>x. kstays (k x) s) \<Longrightarrow> kstays (case y of None \<Rightarrow> m | Some x \<Rightarrow> k x) s"
  by (cases y) auto

lemma kstays_unless_completed [kernel_stays]: "(\<And>t. kstays m t) \<Longrightarrow> kstays (kunless_completed m) s"
  by (simp add: kunless_completed_def kernel_stays)

lemma kstays_map_err [kernel_stays]: "kstays m s \<Longrightarrow> kstays (kmap_err h m) s"
  by (auto simp: kstays_def kmap_err_def split: outcome.splits)

lemma kstays_for [kernel_stays]: "(\<And>x t. kstays (g x) t) \<Longrightarrow> kstays (kfor g xs) s"
  by (induction xs arbitrary: s) (auto intro: kernel_stays)

lemma kstays_for_until [kernel_stays]: "(\<And>x t. kstays (g x) t) \<Longrightarrow> kstays (kfor_until g xs) s"
  by (induction xs arbitrary: s) (auto intro!: kernel_stays)

lemma kstays_core:
  "core_step (rt_core (fst s)) (g (rt_core (fst s))) \<Longrightarrow> kstays (kmodify_core g) s"
  by (cases s; cases "fst s") (auto simp: kstays_def kmodify_core_def with_core_def intro: steps_core)

lemma kstays_drop_components [kernel_stays]: "kstays (kmodify_components (filter p)) s"
  by (cases s; cases "fst s")
    (auto simp: kstays_def kmodify_components_def with_components_def intro: steps_drop)

lemma kstays_drop_owned:
  "subseq (g (rt_owned (fst s))) (rt_owned (fst s)) \<Longrightarrow> kstays (kmodify_owned g) s"
  by (cases s; cases "fst s")
    (auto simp: kstays_def kmodify_owned_def with_owned_def intro: steps_drop)

lemma kstays_filter_owned [kernel_stays]: "kstays (kmodify_owned (filter p)) s"
  by (rule kstays_drop_owned) simp

lemma kstays_writes [kernel_stays]:
  "kstays (kmodify_context (\<lambda>cx. cx\<lparr>cx_provider_writes := g cx\<rparr>)) s"
  by (cases s) (auto simp: kstays_def kmodify_context_def intro: steps_writes)

lemma kstays_on_component [kernel_stays]:
  assumes "\<And>t. kstays m t"
  shows "kstays (kon_component i m) s"
proof -
  obtain c cs ws cx where s: "s = (Runtime c cs ws, cx)" by (metis runtime_state.exhaust surj_pair)
  show ?thesis
    using assms [of "(cr_runtime (cs ! i), cx)"]
    by (auto simp: s kstays_def kon_component_def kon_def get_component_def put_component_def
        with_components_def intro: steps_component split: outcome.splits if_splits)
qed

lemma kstays_on_owned [kernel_stays]:
  assumes "\<And>t. kstays m t"
  shows "kstays (kon_owned i m) s"
proof -
  obtain c cs ws cx where s: "s = (Runtime c cs ws, cx)" by (metis runtime_state.exhaust surj_pair)
  show ?thesis
    using assms [of "(or_runtime (ws ! i), cx)"]
    by (auto simp: s kstays_def kon_owned_def kon_def get_owned_def put_owned_def
        with_owned_def intro: steps_owned split: outcome.splits if_splits)
qed

lemma kstays_emission:
  "internal_emission em \<Longrightarrow> kstays (push_emission em) s"
  by (cases s) (auto simp: kstays_def push_emission_def kmodify_context_def intro: steps_internal)

lemma internal_system_emission [simp]:
  "internal_emission (system_emission K r ev t payload locator ordinal cause)"
  "internal_emission (parallel_done G owner path cause seq rid)"
  by (simp_all add: internal_emission_def system_emission_def parallel_done_def)

lemma kstays_notifications [kernel_stays]:
  "kstays (push_system_emission K r ev t payload locator ordinal cause) s"
  "kstays (push_parallel_done K owner path cause) s"
  by (simp_all add: push_system_emission_def push_parallel_done_def kstays_emission)

lemma kstays_completion_notification [kernel_stays]: "kstays (emit_completion_notification K r) s"
  by (auto simp: emit_completion_notification_def intro!: kernel_stays split: runtime_relation.splits)

lemma kstays_failure_notification [kernel_stays]: "kstays (emit_failure_notification K r record) s"
  by (auto simp: emit_failure_notification_def intro!: kernel_stays split: runtime_relation.splits)

lemma allocated_simps [simp]:
  "rc_runtime_id (component_allocated c p) = rc_runtime_id c" "rc_runtime_id (spawn_allocated c) = rc_runtime_id c"
  "rc_target_identity (component_allocated c p) = rc_target_identity c"
  by (simp_all add: component_allocated_def spawn_allocated_def)

lemma expect_not_Err [simp]: "expect x \<noteq> Err e"
  by (cases x) auto

section \<open>Core steps of the code\<close>

lemma bm_values_insert: "x \<in> set (bm_values (bm_insert k v m)) \<Longrightarrow> x = v \<or> x \<in> set (bm_values m)"
  using set_bm_insert [of k v m] by auto

lemma core_step_simple [simp]:
  "core_step c (set_status Completed c)" "core_step c (drop_variables path c)"
  "core_step c (deactivate path c)" "core_step c (drop_activation path c)" "core_step c (activate path c)"
  by (auto simp: core_step_def core_frame_def core_typed_def set_status_def drop_variables_def
      deactivate_def drop_activation_def activate_def bm_retain_def Let_def)

lemma core_step_capture [simp]: "core_step c (capture_history r st c)"
  by (auto simp: core_step_def core_frame_def core_typed_def capture_history_def Let_def
      split: history_kind.splits)

lemma core_step_spawn_sequence [simp]: "core_step c (spawn_allocated c)"
  by (auto simp: core_step_def core_frame_def core_typed_def spawn_allocated_def)

text \<open>A slot keeps its declaration, so a value of the declared type keeps it typed.\<close>

definition value_typed :: "value \<Rightarrow> variable_declaration \<Rightarrow> bool" where
  "value_typed v d \<longleftrightarrow>
     vd_value_type d = ''instance_reference'' \<and> v = VNull \<or>
     matches_type v (vd_value_type d) \<and> is_canonical_portable v"

lemma slot_typed_value: "slot_typed slot \<longleftrightarrow> value_typed (vs_value slot) (vs_declaration slot)"
  by (simp add: slot_typed_def value_typed_def)

lemma normalized_value_typed: "normalize_for_type v (vd_value_type d) = Some w \<Longrightarrow> value_typed w d"
  using normalize_for_type_normal [of v "vd_value_type d" w] by (simp add: value_typed_def)

lemma null_value_typed: "vd_value_type d = ''instance_reference'' \<Longrightarrow> value_typed VNull d"
  by (simp add: value_typed_def)

lemma reference_value_typed: "vd_value_type d = ''instance_reference'' \<Longrightarrow> value_typed (VRef rf) d"
  by (simp add: value_typed_def matches_type_def)

lemma core_step_set_slot:
  assumes "\<And>slot. bm_get (rc_variables c) key = Some slot \<Longrightarrow> core_typed c \<Longrightarrow> value_typed v (vs_declaration slot)"
  shows "core_step c (set_slot_value key v c)"
proof (cases "bm_get (rc_variables c) key")
  case (Some slot)
  with assms have "core_typed c \<Longrightarrow> slot_typed (slot\<lparr>vs_value := v\<rparr>)" by (simp add: slot_typed_value)
  with Some show ?thesis
    by (auto simp: set_slot_value_def core_step_def core_frame_def core_typed_def
        simp del: set_map dest!: bm_values_insert)
qed (simp add: set_slot_value_def)

lemma core_step_insert_slot:
  "value_typed v (snd nd) \<Longrightarrow> core_step c (insert_slot st seq nd v c)"
  by (auto simp: insert_slot_def core_step_def core_frame_def core_typed_def slot_typed_value
      simp del: set_map dest!: bm_values_insert)

lemma initial_value_typed: "initial_value st b nd = Ok v \<Longrightarrow> value_typed v (snd nd)"
  by (auto simp: initial_value_def Let_def obind_Ok_iff value_typed_def
      dest: normalize_for_type_normal split: if_splits)

lemma instance_reference_from_value_ref: "instance_reference_from_value x = Some v \<Longrightarrow> \<exists>rf. v = VRef rf"
  unfolding instance_reference_from_value_def by (auto split: value_splits option.splits if_splits)

lemma decode_reference_typed:
  assumes "decode_typed fault True j = Ok v" and "vd_value_type d = ''instance_reference''"
  shows "value_typed v d"
proof -
  from assms(1) obtain t where "typed_to_value True t = Some v"
    by (auto simp: decode_typed_def obind_Ok_iff)
  then have "v = VNull \<or> (\<exists>x. instance_reference_from_value x = Some v)"
    by (auto simp: typed_to_value_def split: option.splits if_splits)
  then have "v = VNull \<or> (\<exists>rf. v = VRef rf)"
    using instance_reference_from_value_ref by blast
  with assms(2) show ?thesis by (auto simp: value_typed_def matches_type_def)
qed

section \<open>Operations that need no call\<close>

lemma kstays_allocate_spawn: "kstays allocate_spawn s"
  by (auto simp: allocate_spawn_def allocate_def spawn_allocated_def [symmetric]
      intro!: kernel_stays kstays_core)

lemma kstays_assign_variable [kernel_stays]: "kstays (assign_variable K scope e action variable expr) s"
  unfolding assign_variable_def Let_def
  by (auto intro!: kstays_bind_pure kstays_core core_step_set_slot kstays_trivial
      reference_value_typed null_value_typed split: if_splits value_splits)
    (blast intro: normalized_value_typed)+

lemma kstays_provider_assign [kernel_stays]: "kstays (provider_assign scope fault assign) s"
  unfolding provider_assign_def Let_def
  by (auto intro!: kstays_bind_pure kstays_bind_reads kstays_context_then kstays_writes kstays_core
      core_step_set_slot kstays_trivial simp: obind_Ok_iff split: if_splits)
    (blast intro: normalized_value_typed decode_reference_typed)+

lemma refresh_updates_typed:
  assumes "refresh_updates r scope p changed names = Ok updates" and "(key, v) \<in> set updates"
  shows "\<exists>slot. bm_get (rt_variables r) key = Some slot \<and> value_typed v (vs_declaration slot)"
  using assms
  by (induction r scope p changed names arbitrary: updates rule: refresh_updates.induct)
    (auto 0 4 simp: Let_def obind_Ok_iff intro: normalized_value_typed split: if_splits)

definition declarations_of :: "runtime_core \<Rightarrow> string \<Rightarrow> variable_declaration option" where
  "declarations_of c key = map_option vs_declaration (bm_get (rc_variables c) key)"

lemma kstays_set_slots:
  assumes "\<And>key v. (key, v) \<in> set updates \<Longrightarrow>
      \<exists>d. declarations_of (rt_core (fst s)) key = Some d \<and> value_typed v d"
  shows "kstays (kfor (\<lambda>(key, v). kmodify_core (set_slot_value key v)) updates) s"
  using assms
proof (induction updates arbitrary: s)
  case (Cons u updates)
  obtain key v where u: "u = (key, v)" by (cases u)
  let ?m = "kmodify_core (set_slot_value key v)"
  have "kstays ?m s"
    using Cons.prems [of key v]
    by (auto simp: u declarations_of_def intro!: kstays_core core_step_set_slot)
  moreover have "declarations_of (rt_core (fst t)) = declarations_of (rt_core (fst s))"
    if "?m s = Ok (a, t)" for a t
    using that by (auto simp: kmodify_core_def declarations_of_def set_slot_value_def split: option.splits)
  ultimately show ?case
    using Cons by (auto simp: u kseq_def intro!: kstays_bind)
qed (simp add: kernel_stays)

lemma kstays_refresh_variables [kernel_stays]: "kstays (refresh_variables scope e action only) s"
  unfolding refresh_variables_def Let_def
  by (auto intro!: kstays_bind_pure kstays_set_slots kstays_trivial simp: declarations_of_def
      dest!: refresh_updates_typed split: option.splits value_splits)

lemma kstays_initialize_variables [kernel_stays]: "kstays (initialize_state_variables st b seq) s"
  unfolding initialize_state_variables_def
  by (intro kstays_for kstays_bind_pure kstays_core core_step_insert_slot initial_value_typed)

lemma kstays_send_one: "kstays (send_one K event payload cid locator ot) s"
proof (cases "snd ot = External")
  case True
  have "external_emission (cx_next_output_sequence (snd s))
      (send_emission K (fst s) (snd s) event payload cid locator (fst ot) (snd ot))"
    by (simp add: send_emission_def external_emission_def True allocate_def)
  from steps_external [OF this, of "fst s"] show ?thesis
    by (simp add: kstays_def send_one_def kmodify_context_def True allocate_def)
next
  case False
  have "internal_emission (send_emission K (fst s) (snd s) event payload cid locator (fst ot) (snd ot))"
    by (simp add: send_emission_def internal_emission_def False)
  from steps_internal [OF this, of "fst s" "snd s"] False show ?thesis
    by (simp add: kstays_def send_one_def kmodify_context_def)
qed

lemma kstays_send_values [kernel_stays]:
  "kstays (execute_send_values K action event targets payload cid dynamic ordinals) s"
  unfolding execute_send_values_def
  by (intro kernel_stays kstays_send_one)

lemma kstays_send [kernel_stays]: "kstays (execute_send K scope e action event targets payload cid) s"
  unfolding execute_send_def by (intro kernel_stays)

lemma kstays_provider_send [kernel_stays]: "kstays (provider_send K action fault send ordinals) s"
  unfolding provider_send_def Let_def by (intro kernel_stays)

lemma kstays_provider_proposals [kernel_stays]:
  "kstays (provider_proposals K scope action fault proposals ordinals) s"
  by (induction proposals arbitrary: ordinals s) (auto intro!: kernel_stays split: option.splits)

lemma kstays_provider_actions [kernel_stays]:
  "kstays (execute_provider_actions K scope action binding e) s"
  unfolding execute_provider_actions_def Let_def by (intro kernel_stays)

lemma kstays_provider_writes [kernel_stays]:
  "kstays (validate_provider_writes source target local start) s"
  unfolding validate_provider_writes_def
  by (auto intro!: kernel_stays split: option.splits)

lemma kstays_allocate_component: "kstays (allocate_component K st c) s"
proof -
  obtain k cs ws cx where s: "s = (Runtime k cs ws, cx)" by (metis runtime_state.exhaust surj_pair)
  show ?thesis
    by (auto simp: s kstays_def allocate_component_def kbind_def kreads_def kseq_def kmodify_core_def
        kmodify_components_def kpure_def Let_def obind_Ok_iff allocate_def with_core_def with_components_def
        next_activation_def [symmetric] component_allocated_def [symmetric]
        runtime_target_def intro!: steps_new_component split: outcome.splits component_definition.splits)
qed

lemma failure_notification_appends:
  "\<exists>ems. list_all internal_emission ems \<and>
     (\<forall>s. emit_failure_notification K r rec s =
          Ok ((), (fst s, (snd s)\<lparr>cx_emissions := cx_emissions (snd s) @ ems\<rparr>)))"
proof (cases "rt_relation r")
  case RelRoot
  then show ?thesis
    by (intro exI [of _ "[]"]) (simp add: emit_failure_notification_def kret_def)
qed (force simp: emit_failure_notification_def push_system_emission_def push_emission_def
    kmodify_context_def intro!: exI [of _ "[_]"])+

section \<open>Operations that call back\<close>

text \<open>What the kernel relies on when it runs actions or initialises a child.\<close>

locale kernel_calls =
  fixes K :: kernel
  assumes run_stays [kernel_stays]: "kstays (kn_run K scope actions e) s"
    and init_stays: "kstays (kn_init K b) s"
begin

lemma cleanup_components_stays [kernel_stays]:
  "(\<And>t. kstays clean t) \<Longrightarrow> kstays (cleanup_components clean p) s"
  unfolding cleanup_components_def by (intro kernel_stays)

lemma cleanup_owned_stays [kernel_stays]:
  "(\<And>t. kstays clean t) \<Longrightarrow> kstays (cleanup_owned clean p) s"
  unfolding cleanup_owned_def by (intro kernel_stays)

lemma cleanup_children_stays [kernel_stays]:
  assumes "\<And>t. kstays clean t"
  shows "kstays (cleanup_state_children clean path) s" "kstays (cleanup_all_descendants clean) s"
  unfolding cleanup_state_children_def cleanup_all_descendants_def by (intro kernel_stays assms)+

lemma core_stays [kernel_stays]:
  "kstays (kmodify_core (set_status Completed)) s" "kstays (kmodify_core (drop_variables path)) s"
  "kstays (kmodify_core (deactivate path)) s" "kstays (kmodify_core (drop_activation path)) s"
  "kstays (kmodify_core (activate path)) s" "kstays (kmodify_core (capture_history r st)) s"
  by (simp_all add: kstays_core)

lemma cleanup_exit_stays [kernel_stays]: "kstays (cleanup_exit K path) s"
  unfolding cleanup_exit_def by (intro kernel_stays)

lemma cleanup_runtime_stays [kernel_stays]: "kstays (cleanup_runtime K n) s"
  by (induction n arbitrary: s) (auto intro!: kernel_stays)

lemma exit_state_stays [kernel_stays]: "kstays (exit_state K path) s"
  unfolding exit_state_def by (intro kernel_stays)

lemma complete_runtime_stays [kernel_stays]: "kstays (complete_runtime K) s"
  unfolding complete_runtime_def by (intro kernel_stays)

lemma cancel_owned_stays [kernel_stays]: "kstays (cancel_owned K rf n) s"
proof (induction n arbitrary: s)
  case (Suc n)
  have removed: "subseq (take i ws @ drop (Suc i) ws) ws" for i and ws :: "owned_runtime list"
    by (induction ws arbitrary: i) (auto simp: take_Cons drop_Cons split: nat.splits)
  show ?case
    by (auto intro!: kernel_stays Suc kstays_drop_owned removed split: option.splits)
qed (simp add: kernel_stays)

lemma cancel_instance_stays [kernel_stays]: "kstays (cancel_instance K scope e action expr) s"
  unfolding cancel_instance_def by (auto intro!: kernel_stays split: value_splits)

end

lemma contain_fault_record:
  assumes grows: "context_grows saved (cx\<lparr>cx_cause_id := cx_cause_id saved\<rparr>)"
  shows "\<exists>rec ems. contain_fault K cause saved r fault (owner, cx\<lparr>cx_cause_id := cx_cause_id saved\<rparr>) =
      Ok (diagnostic_runtime r rec,
          (owner, saved\<lparr>cx_emissions := cx_emissions saved @ ems, cx_provider_writes := cx_provider_writes cx\<rparr>)) \<and>
      list_all internal_emission ems \<and> fr_runtime_id rec = rt_runtime_id r \<and>
      fr_code rec = engine_fault_str (sf_code fault) \<and> fr_cause_id rec = cause"
proof -
  let ?rec = "fault_record_of K r cause fault"
  obtain ems where ems: "list_all internal_emission ems"
    "\<And>s. emit_failure_notification K (diagnostic_runtime r ?rec) ?rec s =
         Ok ((), (fst s, (snd s)\<lparr>cx_emissions := cx_emissions (snd s) @ ems\<rparr>))"
    using failure_notification_appends by metis
  from grows have keep: "take (length (cx_emissions saved)) (cx_emissions cx) = cx_emissions saved"
    by (auto simp: context_grows_def)
  have "contain_fault K cause saved r fault (owner, cx\<lparr>cx_cause_id := cx_cause_id saved\<rparr>) =
      Ok (diagnostic_runtime r ?rec,
          (owner, saved\<lparr>cx_emissions := cx_emissions saved @ ems, cx_provider_writes := cx_provider_writes cx\<rparr>))"
    using keep
    by (cases saved) (simp add: contain_fault_def Let_def kseq_def kbind_def kmodify_context_def kret_def ems)
  moreover have "fr_runtime_id ?rec = rt_runtime_id r" "fr_code ?rec = engine_fault_str (sf_code fault)"
    "fr_cause_id ?rec = cause" by (simp_all add: fault_record_of_def)
  ultimately show ?thesis using ems(1) by blast
qed

context kernel_calls
begin

text \<open>A child's initialisation never fails its owner, and touches nothing of it.\<close>

lemma initialize_child_result:
  "initialize_child K cause b child s \<noteq> Err x"
  "initialize_child K cause b child s = Ok (child', t) \<Longrightarrow> fst t = fst s \<and> kinits child (snd s) child' (snd t)"
proof -
  let ?saved = "snd s"
  let ?run = "kn_init K b (child, ?saved\<lparr>cx_cause_id := cause\<rparr>)"
  have steps: "ksteps (child, ?saved\<lparr>cx_cause_id := cause\<rparr>) (r, cx)"
    if "(\<exists>u. ?run = Ok (u, (r, cx))) \<or> (\<exists>f. ?run = Err (f, (r, cx)))" for r cx
    using that init_stays [of b "(child, ?saved\<lparr>cx_cause_id := cause\<rparr>)"] unfolding kstays_def by blast
  have grows: "context_grows ?saved (cx\<lparr>cx_cause_id := cx_cause_id ?saved\<rparr>)"
    if "ksteps (child, ?saved\<lparr>cx_cause_id := cause\<rparr>) (r, cx)" for r cx
    using ksteps_context(1) [OF that] by (simp add: context_grows_def)
  show "initialize_child K cause b child s \<noteq> Err x"
  proof (cases ?run)
    case (Err z)
    obtain f r cx where z: "z = (f, (r, cx))" by (metis surj_pair)
    with steps Err have st: "ksteps (child, ?saved\<lparr>cx_cause_id := cause\<rparr>) (r, cx)" by blast
    from contain_fault_record [OF grows [OF st], of K cause r f "fst s"] Err z
    show ?thesis by (auto simp: initialize_child_def Let_def)
  qed (auto simp: initialize_child_def Let_def)
  assume res: "initialize_child K cause b child s = Ok (child', t)"
  show "fst t = fst s \<and> kinits child ?saved child' (snd t)"
  proof (cases ?run)
    case (Ok z)
    obtain u r cx where z: "z = (u, (r, cx))" by (metis surj_pair)
    with res Ok show ?thesis using inits_ok [OF steps [of r cx]] by (auto simp: initialize_child_def Let_def)
  next
    case (Err z)
    obtain f r cx where z: "z = (f, (r, cx))" by (metis surj_pair)
    with steps Err have st: "ksteps (child, ?saved\<lparr>cx_cause_id := cause\<rparr>) (r, cx)" by blast
    from contain_fault_record [OF grows [OF st], of K cause r f "fst s"] res Err z
    show ?thesis using inits_contained [OF st] by (auto simp: initialize_child_def Let_def)
  qed (use res in \<open>auto simp: initialize_child_def Let_def\<close>)
qed

lemma initialize_component_child_stays:
  assumes "i < length (rt_components (fst s))" and child: "child = get_component i (fst s)"
    and "\<And>child' t. kstays (k child') t"
  shows "kstays (kbind (initialize_child K cause b child)
           (\<lambda>child'. kseq (kmodify_components (\<lambda>cs. cs[i := set_cr_runtime child' (cs ! i)])) (k child'))) s"
proof -
  obtain c cs ws cx where s: "s = (Runtime c cs ws, cx)" by (metis runtime_state.exhaust surj_pair)
  have "ksteps s u"
    if ok: "initialize_child K cause b child s = Ok (child', t)"
      and u: "u = (with_components (\<lambda>cs. cs[i := set_cr_runtime child' (cs ! i)]) (fst t), snd t)" for child' t u
  proof -
    from initialize_child_result(2) [OF ok] have "kinits (cr_runtime (cs ! i)) cx child' (snd t)" "fst t = Runtime c cs ws"
      using s child by (simp_all add: get_component_def)
    then show ?thesis using steps_init_component [of i cs cx child' "snd t" c ws] assms(1) s u
      by (simp add: with_components_def)
  qed
  then show ?thesis
    using assms(3) initialize_child_result(1) [of cause b child s]
    unfolding kstays_def kbind_def kseq_def kmodify_components_def
    by (cases "initialize_child K cause b child s") (fastforce intro: steps_trans)+
qed

lemma initialize_component_stays [kernel_stays]: "kstays (initialize_component K st snapshot c) s"
  unfolding initialize_component_def
  by (intro kstays_bind_pure kstays_bind_reads kstays_if initialize_component_child_stays kernel_stays)
    (auto dest: position_SomeD)

lemma components_stay [kernel_stays]:
  "kstays (allocate_components K st) s" "kstays (initialize_components K st) s"
  unfolding allocate_components_def initialize_components_def
  by (intro kernel_stays kstays_allocate_component)+

lemma enter_state_stays [kernel_stays]: "kstays (enter_state K path b) s"
  unfolding enter_state_def by (intro kernel_stays)

lemma enter_chain_stays [kernel_stays]: "kstays (enter_chain K p target) s"
  unfolding enter_chain_def by (intro kernel_stays)

lemma descend_initial_stays [kernel_stays]: "kstays (descend_initial K n path) s"
  by (induction n arbitrary: path s) (auto intro!: kernel_stays)

lemma enter_paths_stay [kernel_stays]:
  "kstays (enter_path_and_descend K target) s" "kstays (enter_leaf K leaf) s"
  unfolding enter_path_and_descend_def enter_leaf_def by (intro kernel_stays)+

lemma restore_history_stays [kernel_stays]: "kstays (restore_history K path) s"
  unfolding restore_history_def
  by (auto intro!: kernel_stays split: option.splits history_kind.splits list.splits)

lemma perform_transition_stays [kernel_stays]: "kstays (perform_transition K source target history local) s"
  unfolding perform_transition_def by (intro kernel_stays)

lemma resolve_choice_chain_stays [kernel_stays]: "kstays (resolve_choice_chain K e n t) s"
  by (induction n arbitrary: t s) (auto simp: Let_def intro!: kernel_stays split: option.splits)

lemma complete_if_final_stays [kernel_stays]: "kstays (complete_if_final K) s"
  unfolding complete_if_final_def by (intro kernel_stays)

lemma execute_transition_stays: "kstays (execute_transition K source_path t e) s"
  unfolding execute_transition_def
  by (auto intro!: kernel_stays split: option.splits)

lemma initialize_runtime_stays: "kstays (initialize_runtime K b) s"
  unfolding initialize_runtime_def by (intro kernel_stays)

end

section \<open>Spawning and the knot\<close>

text \<open>
  A spawn is one step: its sequence number is allocated before the child is initialised and
  used after it, so the operations in between are related to the state before the allocation.
\<close>

definition kstays_from :: "kst \<Rightarrow> 'a km \<Rightarrow> kst \<Rightarrow> bool" where
  "kstays_from s0 m s \<longleftrightarrow>
     (\<forall>a t. m s = Ok (a, t) \<longrightarrow> ksteps s0 t) \<and> (\<forall>f t. m s = Err (f, t) \<longrightarrow> ksteps s0 t)"

lemma kstays_from_bind:
  assumes "\<And>a t. m s = Ok (a, t) \<Longrightarrow> kstays_from s0 (g a) t" and "\<And>f t. m s = Err (f, t) \<Longrightarrow> ksteps s0 t"
  shows "kstays_from s0 (kbind m g) s"
  using assms unfolding kstays_from_def kbind_def by (cases "m s") fastforce+

lemma kstays_from_pure:
  "ksteps s0 s \<Longrightarrow> (\<And>a. g s = Ok a \<Longrightarrow> kstays_from s0 (h a) s) \<Longrightarrow> kstays_from s0 (kbind (kpure g) h) s"
  by (rule kstays_from_bind) (auto simp: kpure_def split: outcome.splits)

lemma kstays_from_reads: "kstays_from s0 (h (g s)) s \<Longrightarrow> kstays_from s0 (kbind (kreads g) h) s"
  by (rule kstays_from_bind) (auto simp: kreads_def)

lemma kstays_from_fail: "ksteps s0 s \<Longrightarrow> kstays_from s0 (kfail f) s"
  by (cases s) (simp add: kstays_from_def kfail_def)

lemma kstays_from_if: "kstays_from s0 m s \<Longrightarrow> kstays_from s0 k s \<Longrightarrow> kstays_from s0 (if c then m else k) s"
  by simp

lemma bind_holder_core:
  assumes "bind_holder scope action bind_to rf (Runtime c cs ws, cx) = Ok (h, t) \<or>
           bind_holder scope action bind_to rf (Runtime c cs ws, cx) = Err (f, t)"
  obtains c' where "t = (Runtime c' cs ws, cx)" "core_step c c'"
proof (cases bind_to)
  case None
  with assms that show thesis by (auto simp: bind_holder_def kret_def)
next
  case (Some variable)
  have bound: "core_step c (set_slot_value key (VRef rf) c)"
    if "bm_get (rc_variables c) key = Some slot" "vs_value slot = VNull" for key slot
  proof (rule core_step_set_slot)
    fix slot' assume "bm_get (rc_variables c) key = Some slot'" and t: "core_typed c"
    with that have "slot' = slot" "slot_typed slot"
      using bm_get_in [of "rc_variables c" key slot] by (auto simp: core_typed_def image_iff)
    with that(2) show "value_typed (VRef rf) (vs_declaration slot')"
      by (auto simp: slot_typed_def value_typed_def matches_type_def)
  qed
  from Some assms have "t = (Runtime c cs ws, cx) \<or>
      (\<exists>key slot. bm_get (rc_variables c) key = Some slot \<and> vs_value slot = VNull \<and>
                  t = (Runtime (set_slot_value key (VRef rf) c) cs ws, cx))"
    by (auto simp: bind_holder_def kbind_def kpure_def kseq_def kfail_def kret_def kmodify_core_def
        with_core_def obind_Ok_iff split: outcome.splits if_splits)
  with bound that show thesis by auto
qed

context kernel_calls
begin

lemma spawn_tail_stays:
  assumes core: "core_step (spawn_allocated c) c'"
    and child: "child = spawn_child K (Runtime c' cs ws) m pointer (rc_next_spawn_sequence c) rf holder"
  shows "kstays_from (Runtime c cs ws, cx)
     (kbind (initialize_child K cause b child) (\<lambda>child'.
        kwhen (rt_status child' \<noteq> Completed)
          (kmodify_owned (\<lambda>ws. ws @ [OwnedRuntime (rc_next_spawn_sequence c) (fst holder) (fst (snd holder))
             (snd (snd holder)) rf child'])))) (Runtime c' cs ws, cx)"
proof (rule kstays_from_bind)
  fix child' t
  assume "initialize_child K cause b child (Runtime c' cs ws, cx) = Ok (child', t)"
  from initialize_child_result(2) [OF this]
  have t: "fst t = Runtime c' cs ws" "kinits child cx child' (snd t)" by simp_all
  have "rc_runtime_id c' = rc_runtime_id c" "rc_target_identity c' = rc_target_identity c"
    using core by (simp_all add: core_step_def core_frame_def spawn_allocated_def)
  then have "child = new_runtime (ref_instance_id rf) m
      (RelSpawned (rc_runtime_id c) (runtime_target (Runtime c cs ws)) (rc_next_spawn_sequence c) pointer rf
         (fst holder) (fst (snd holder)) (snd (snd holder)))
      (OriginSpawned (definition_binding_of (kn_bundle K) m) (rc_runtime_id c) pointer (rc_next_spawn_sequence c))
      (SpawnedTarget rf) (definition_binding_of (kn_bundle K) m) None"
    by (simp add: child spawn_child_def Let_def runtime_target_def)
  from steps_spawn [OF core refl t(2) [unfolded this]] t(1)
  show "kstays_from (Runtime c cs ws, cx) (kwhen (rt_status child' \<noteq> Completed)
      (kmodify_owned (\<lambda>ws. ws @ [OwnedRuntime (rc_next_spawn_sequence c) (fst holder) (fst (snd holder))
             (snd (snd holder)) rf child']))) t"
    by (cases t) (auto simp: kstays_from_def kwhen_def kret_def kmodify_owned_def with_owned_def)
next
  fix f t
  assume "initialize_child K cause b child (Runtime c' cs ws, cx) = Err (f, t)"
  then show "ksteps (Runtime c cs ws, cx) t" using initialize_child_result(1) by blast
qed

lemma spawned_stays:
  assumes "\<And>holder t. bind_holder scope action bind_to rf (Runtime (spawn_allocated c) cs ws, cx) = Ok (holder, t) \<Longrightarrow>
      kstays_from (Runtime c cs ws, cx) (g holder) t"
  shows "kstays_from (Runtime c cs ws, cx) (kbind (bind_holder scope action bind_to rf) g)
     (Runtime (spawn_allocated c) cs ws, cx)"
proof (rule kstays_from_bind)
  fix f t
  assume "bind_holder scope action bind_to rf (Runtime (spawn_allocated c) cs ws, cx) = Err (f, t)"
  then obtain c' where "t = (Runtime c' cs ws, cx)" "core_step (spawn_allocated c) c'"
    by (metis bind_holder_core)
  then show "ksteps (Runtime c cs ws, cx) t"
    by (auto intro: steps_core core_step_trans core_step_spawn_sequence)
qed (rule assms)

lemma execute_spawn_stays [kernel_stays]:
  "kstays (execute_spawn K scope e action machine_id expressions bind_to) s"
proof -
  obtain c cs ws cx where s: "s = (Runtime c cs ws, cx)" by (metis runtime_state.exhaust surj_pair)
  have alloc: "allocate_spawn s = Ok (rc_next_spawn_sequence c, (Runtime (spawn_allocated c) cs ws, cx))"
    by (simp add: s allocate_spawn_def kbind_def kreads_def kseq_def kmodify_core_def kret_def allocate_def
        with_core_def spawn_allocated_def)
  have from_alloc: "kstays (kbind allocate_spawn g) s"
    if "kstays_from s (g (rc_next_spawn_sequence c)) (Runtime (spawn_allocated c) cs ws, cx)"
    for g :: "counter \<Rightarrow> unit km"
    using that by (simp add: kstays_def kstays_from_def kbind_def alloc)
  show ?thesis
    unfolding execute_spawn_def Let_def
    apply (intro kstays_bind_pure kstays_if kstays_trivial from_alloc)
    unfolding s
    apply (intro kstays_from_reads spawned_stays)
    apply (elim bind_holder_core [OF disjI1])
    apply hypsubst
    apply (intro kstays_from_reads kstays_from_pure kstays_from_if kstays_from_fail)
       apply (simp_all add: steps_core core_step_trans [OF core_step_spawn_sequence] del: split_paired_All)
    apply (rule spawn_tail_stays; simp)
    done
qed

lemma run_action_stays [kernel_stays]: "kstays (run_action K scope e action) s"
  unfolding run_action_def by (auto intro!: kernel_stays split: compiled_action_kind.splits)

lemma run_actions_stays: "kstays (run_actions K scope actions e) s"
  by (induction actions arbitrary: s) (auto intro!: kernel_stays)

end

lemma kernel_at_calls: "kernel_calls (kernel_at P n)"
proof (induction n)
  case 0
  show ?case by unfold_locales (simp_all add: kernel_stays)
next
  case (Suc n)
  then show ?case
    by unfold_locales (simp_all add: kernel_calls.run_actions_stays kernel_calls.initialize_runtime_stays)
qed

interpretation knot: kernel_calls "kernel_at P n" for P n
  by (rule kernel_at_calls)

section \<open>Containment of a child's failure\<close>

text \<open>
  C33: When the initialisation of a child fails, the failure is contained in the child: the
  owner is as it was, the owner's initialisation goes on with a child that is marked as
  faulted with the code of the failure, the output numbers the child used are given back,
  its emissions are dropped and only notifications to the owner take their place.
\<close>
theorem child_failure_contained:
  assumes "kn_init (kernel_at P n) b (child, (snd s)\<lparr>cx_cause_id := cause\<rparr>) = Err (fault, (r, cx))"
  shows "\<exists>record ems. initialize_child (kernel_at P n) cause b child s =
      Ok (diagnostic_runtime r record,
          (fst s, (snd s)\<lparr>cx_emissions := cx_emissions (snd s) @ ems,
                          cx_provider_writes := cx_provider_writes cx\<rparr>)) \<and>
      list_all internal_emission ems \<and> fr_runtime_id record = rt_runtime_id r \<and>
      fr_code record = engine_fault_str (sf_code fault) \<and> fr_cause_id record = cause"
proof -
  have "ksteps (child, (snd s)\<lparr>cx_cause_id := cause\<rparr>) (r, cx)"
    using knot.init_stays assms unfolding kstays_def by blast
  from ksteps_context(1) [OF this]
  have "context_grows (snd s) (cx\<lparr>cx_cause_id := cx_cause_id (snd s)\<rparr>)" by (simp add: context_grows_def)
  from contain_fault_record [OF this, of "kernel_at P n" cause r fault "fst s"] assms
  show ?thesis by (auto simp: initialize_child_def Let_def)
qed

end
