(* ===== verification/Aggregates.thy ===== *)
theory Aggregates
  imports Dispatch Kernel_Steps
begin

text \<open>
  What creating an aggregate and dispatching a delivery promise of the aggregate as a whole:
  the invariants of every reachable aggregate, the numbering of the outgoing emissions, the
  atomicity of faults and rejections, and the isolation of runtimes on other branches.
\<close>

section \<open>The three ways a dispatch ends\<close>

text \<open>A runtime that was found and is running gets the delivery.\<close>

definition delivered :: "compiled_bundle \<Rightarrow> native_aggregate \<Rightarrow> delivery option \<Rightarrow> runtime_address \<Rightarrow>
    runtime_state \<Rightarrow> envelope \<Rightarrow> bool" where
  "delivered B prior d addr r e \<longleftrightarrow>
     (\<exists>delivery. d = Some delivery \<and> accept_delivery B prior delivery = Ok (addr, r, e))"

lemma accept_delivery_runtime:
  "accept_delivery B prior d = Ok (addr, r, e) \<Longrightarrow>
   runtime_at (ag_root prior) addr = Some r \<and> rt_status r = Running \<and>
   resolve_delivery_target prior (env_target (snd (delivery_parts d))) = Inr addr \<and>
   validate_envelope B r (fst (delivery_parts d)) (snd (delivery_parts d)) = Ok e"
  unfolding accept_delivery_def Let_def
  by (auto simp: obind_Ok_iff split: prod.splits sum.splits option.splits if_splits)

lemma validate_envelope_event_id: "validate_envelope B r mode e = Ok e' \<Longrightarrow> env_event_id e' = env_event_id e"
  by (auto simp: validate_envelope_def split: if_splits option.splits
      dest!: validate_env_payload validate_lifecycle_payload validate_declared_payload)

lemma delivered_runtime:
  "delivered B prior d addr r e \<Longrightarrow> runtime_at (ag_root prior) addr = Some r \<and> rt_status r = Running"
  unfolding delivered_def using accept_delivery_runtime by blast

definition faulted_aggregate :: "native_aggregate \<Rightarrow> runtime_state \<Rightarrow> native_aggregate" where
  "faulted_aggregate prior root' =
     prior\<lparr>ag_root := root', ag_next_logical_step_sequence := Suc (ag_next_logical_step_sequence prior)\<rparr>"

lemma fault_dispatch_result:
  assumes "fault_dispatch G B prior addr e fault = Ok res"
  obtains r rec root' ems where
    "runtime_at (ag_root prior) addr = Some r" "runtime_at_mut addr (mark_faulted rec) (ag_root prior) = Some root'"
    "list_all internal_emission ems" "fr_runtime_id rec = rt_runtime_id r" "fr_cause_id rec = env_event_id e"
    "fr_code rec = engine_fault_str (sf_code fault)" "fr_step_sequence rec = ag_next_logical_step_sequence prior"
    "res = \<lparr>res_status = result_status_of (rt_status root'), res_disposition = Some DispFaulted,
            res_state = Some (faulted_aggregate prior root'), res_emissions = ems,
            res_fault = Some rec, res_rejection = None\<rparr>"
proof -
  from assms obtain r where r: "runtime_at (ag_root prior) addr = Some r"
    by (auto simp: fault_dispatch_def obind_Ok_iff)
  define rec where "rec = \<lparr>fr_definition_fingerprint = db_validated_bundle_fingerprint (rc_current_definition (rt_core r)),
              fr_runtime_id = rt_runtime_id r, fr_cause_id = env_event_id e,
              fr_code = engine_fault_str (sf_code fault),
              fr_step_sequence = ag_next_logical_step_sequence prior,
              fr_source_locator = sf_source_locator fault\<rparr>"
  obtain root' where root': "runtime_at_mut addr (mark_faulted rec) (ag_root prior) = Some root'"
    using tree.modify_Some [OF r] by metis
  obtain ems where ems: "list_all internal_emission ems"
    "\<And>s. emit_failure_notification (kernel_at (step_params_of G B prior) 0) (mark_faulted rec r) rec s =
         Ok ((), (fst s, (snd s)\<lparr>cx_emissions := cx_emissions (snd s) @ ems\<rparr>))"
    using failure_notification_appends by metis
  have keep: "prior\<lparr>ag_root := x, ag_next_logical_step_sequence := y,
      ag_next_output_sequence := ag_next_output_sequence prior\<rparr> =
      prior\<lparr>ag_root := x, ag_next_logical_step_sequence := y\<rparr>" for x y
    by simp
  from assms have "res = \<lparr>res_status = result_status_of (rt_status root'), res_disposition = Some DispFaulted,
            res_state = Some (faulted_aggregate prior root'),
            res_emissions = (if addr = [] then [] else ems),
            res_fault = Some rec, res_rejection = None\<rparr>"
    by (auto simp: fault_dispatch_def r root' rec_def [symmetric] Let_def ems step_context_of_def
        faulted_aggregate_def allocate_def keep simp del: kernel_at.simps)
  with r root' ems(1) that [of r rec root' "if addr = [] then [] else ems"] show thesis
    by (simp add: rec_def)
qed

lemma step_cases:
  assumes "step_native_aggregate G n B prior d = Ok res"
  obtains (unchanged) disp rej where "res = unchanged_result prior disp rej"
      "rej \<noteq> None \<longleftrightarrow> disp = Some DispRejected" "disp \<noteq> Some DispHandled" "disp \<noteq> Some DispFaulted"
  | (faulted) addr r e fault where "delivered B prior d addr r e"
      "fault_dispatch G B prior addr e fault = Ok res"
  | (handled) addr r e source_path t r' cx root' where "delivered B prior d addr r e"
      "execute_transition (kernel_at (step_params_of G B prior) n) source_path t e
         (r, step_context_of prior e) = Ok ((), (r', cx))"
      "runtime_at_mut addr (\<lambda>_. r') (ag_root prior) = Some root'"
      "res = handled_result G prior addr e root' cx" "select_handler G r e = Ok (Handled source_path t)"
proof -
  consider (quiet) "\<exists>disp rej. res = unchanged_result prior disp rej \<and> (rej \<noteq> None \<longleftrightarrow> disp = Some DispRejected) \<and>
        disp \<noteq> Some DispHandled \<and> disp \<noteq> Some DispFaulted"
    | (sel) addr r e where "delivered B prior d addr r e" "dispatch_selected G n B prior addr r e = Ok res"
    using assms unfolding step_native_aggregate_def rejected_dispatch_def delivered_def
    by (fastforce split: if_splits option.splits outcome.splits)
  then show thesis
  proof cases
    case quiet
    then show ?thesis using unchanged by blast
  next
    case sel
    have "(\<exists>disp. res = unchanged_result prior (Some disp) None \<and> disp \<in> {DispDeferred, DispUnhandled}) \<or>
        (\<exists>fault. fault_dispatch G B prior addr e fault = Ok res) \<or>
        (\<exists>source_path t. select_handler G r e = Ok (Handled source_path t) \<and>
           run_handler G n B prior addr r e source_path t = Ok res)"
      using sel(2) unfolding dispatch_selected_def
      by (auto split: outcome.splits handler_selection.splits if_splits)
    then consider "\<exists>disp. res = unchanged_result prior (Some disp) None \<and> disp \<in> {DispDeferred, DispUnhandled}"
      | fault where "fault_dispatch G B prior addr e fault = Ok res"
      | source_path t where "run_handler G n B prior addr r e source_path t = Ok res"
          "select_handler G r e = Ok (Handled source_path t)"
      by blast
    then show ?thesis
    proof cases
      case 1
      then show ?thesis using unchanged by auto
    next
      case 2
      then show ?thesis using faulted sel(1) by blast
    next
      case 3
      then show ?thesis using handled faulted sel(1) unfolding run_handler_def
        by (auto simp: obind_Ok_iff split: outcome.splits)
    qed
  qed
qed

section \<open>Invariants of the runtime tree\<close>

text \<open>
  An invariant of the tree is a condition on each runtime and the keys of its children.  When
  the steps of the kernel keep it, it holds of every reachable aggregate.
\<close>

inductive reachable :: "engine \<Rightarrow> compiled_bundle \<Rightarrow> native_aggregate \<Rightarrow> bool" for G B where
  reach_create: "create_native_aggregate G n B machine_id root_instance_id creation_id b = Ok res \<Longrightarrow>
    res_state res = Some a \<Longrightarrow> reachable G B a"
| reach_step: "reachable G B a \<Longrightarrow> step_native_aggregate G n B a d = Ok res \<Longrightarrow>
    res_state res = Some a' \<Longrightarrow> reachable G B a'"
| reach_capacity: "reachable G B a \<Longrightarrow> fault_deferred_capacity G B a e = Ok res \<Longrightarrow>
    res_state res = Some a' \<Longrightarrow> reachable G B a'"

definition component_key :: "component_runtime \<Rightarrow> string \<times> string \<times> counter" where
  "component_key x = (cr_component_id x, cr_pointer x, cr_activation_sequence x)"

lemma map_update_first: "(\<And>x. g (f x) = g x) \<Longrightarrow> map g (update_first p f xs) = map g xs"
  by (induction xs) auto

lemma set_update_first: "x \<in> set (update_first p f xs) \<Longrightarrow> x \<in> set xs \<or> (\<exists>y. find p xs = Some y \<and> x = f y)"
  by (induction xs) (auto split: if_splits)

lemma update_first_found: "find p xs = Some y \<Longrightarrow> f y = g y \<Longrightarrow> update_first p f xs = update_first p g xs"
  by (induction xs) (auto split: if_splits)

lemma dispose_spawn:
  "dispose_completed_spawned_at_path (SegSpawn seq # s # tail) r =
     (case find (is_spawn seq) (rt_owned r) of
        None \<Rightarrow> r
      | Some w \<Rightarrow> with_owned (update_first (is_spawn seq)
          (set_or_runtime (dispose_completed_spawned_at_path (s # tail) (or_runtime w)))) r)"
proof (cases "find (is_spawn seq) (rt_owned r)")
  case None
  then show ?thesis by (simp add: with_owned_def update_first_None)
next
  case (Some w)
  have "update_first (is_spawn seq) (\<lambda>x. set_or_runtime (dispose_completed_spawned_at_path (s # tail) (or_runtime x)) x) (rt_owned r) =
      update_first (is_spawn seq) (set_or_runtime (dispose_completed_spawned_at_path (s # tail) (or_runtime w))) (rt_owned r)"
    by (rule update_first_found [OF Some]) simp
  with Some show ?thesis by (simp add: with_owned_def)
qed

lemma dispose_component:
  "dispose_completed_spawned_at_path (SegComponent cid seq # tail) r =
     (case find (is_component cid seq) (rt_components r) of
        None \<Rightarrow> r
      | Some c \<Rightarrow> with_components (update_first (is_component cid seq)
          (set_cr_runtime (dispose_completed_spawned_at_path tail (cr_runtime c)))) r)"
proof (cases "find (is_component cid seq) (rt_components r)")
  case None
  then show ?thesis by (simp add: with_components_def update_first_None)
next
  case (Some w)
  have "update_first (is_component cid seq) (\<lambda>x. set_cr_runtime (dispose_completed_spawned_at_path tail (cr_runtime x)) x) (rt_components r) =
      update_first (is_component cid seq) (set_cr_runtime (dispose_completed_spawned_at_path tail (cr_runtime w))) (rt_components r)"
    by (rule update_first_found [OF Some]) simp
  with Some show ?thesis by (simp add: with_components_def)
qed

locale tree_invariant =
  fixes holds :: "runtime_state \<Rightarrow> bool"
    and here :: "runtime_core \<Rightarrow> component_runtime list \<Rightarrow> owned_runtime list \<Rightarrow> bool"
  assumes holds_iff: "holds (Runtime c cs ws) \<longleftrightarrow>
        here c cs ws \<and> (\<forall>x \<in> set cs. holds (cr_runtime x)) \<and> (\<forall>w \<in> set ws. holds (or_runtime w))"
    and here_replace: "here c cs ws \<Longrightarrow> map component_key cs' = map component_key cs \<Longrightarrow>
        map or_spawn_sequence ws' = map or_spawn_sequence ws \<Longrightarrow> here c cs' ws'"
    and here_drop: "here c cs ws \<Longrightarrow> subseq ws' ws \<Longrightarrow> here c cs ws'"
    and here_fault: "here c cs ws \<Longrightarrow> here (c\<lparr>rc_status := st, rc_fault := f\<rparr>) cs ws"
    and holds_new: "holds (new_runtime i m rel og t b cid)"
    and holds_diagnostic: "holds (diagnostic_runtime r rec)"
    and holds_steps: "ksteps s t' \<Longrightarrow> holds (fst s) \<Longrightarrow> holds (fst t')"
begin

lemma holds_at: "runtime_at r addr = Some x \<Longrightarrow> holds r \<Longrightarrow> holds x"
proof (induction r addr rule: runtime_at.induct)
  case (2 r cid seq tail)
  then show ?case by (cases r) (auto simp: holds_iff split: option.splits dest!: find_SomeD)
next
  case (3 r seq tail)
  then show ?case by (cases r) (auto simp: holds_iff split: option.splits dest!: find_SomeD)
qed simp

lemma holds_put_component:
  "holds r \<Longrightarrow> holds child \<Longrightarrow>
   holds (with_components (update_first (is_component cid seq) (set_cr_runtime child)) r)"
  by (cases r)
    (auto simp: holds_iff with_components_def component_key_def dest!: set_update_first
      elim!: here_replace intro!: map_update_first)

lemma holds_put_owned:
  "holds r \<Longrightarrow> holds child \<Longrightarrow> holds (with_owned (update_first (is_spawn seq) (set_or_runtime child)) r)"
  by (cases r)
    (auto simp: holds_iff with_owned_def dest!: set_update_first elim!: here_replace intro!: map_update_first)

lemma holds_modify:
  "runtime_at_mut addr f r = Some r' \<Longrightarrow> holds r \<Longrightarrow> (\<And>x. runtime_at r addr = Some x \<Longrightarrow> holds (f x)) \<Longrightarrow> holds r'"
proof (induction addr f r arbitrary: r' rule: runtime_at_mut.induct)
  case (2 cid seq tail f r)
  then obtain c r1 where c: "find (is_component cid seq) (rt_components r) = Some c"
    "runtime_at_mut tail f (cr_runtime c) = Some r1"
    "r' = with_components (update_first (is_component cid seq) (set_cr_runtime r1)) r"
    by (auto split: option.splits)
  moreover have "holds (cr_runtime c)"
    using "2.prems"(2) c(1) holds_at [of r "[SegComponent cid seq]"] by simp
  ultimately show ?case using 2 by (auto intro!: holds_put_component)
next
  case (3 seq tail f r)
  then obtain w r1 where c: "find (is_spawn seq) (rt_owned r) = Some w"
    "runtime_at_mut tail f (or_runtime w) = Some r1"
    "r' = with_owned (update_first (is_spawn seq) (set_or_runtime r1)) r"
    by (auto split: option.splits)
  moreover have "holds (or_runtime w)"
    using "3.prems"(2) c(1) holds_at [of r "[SegSpawn seq]"] by simp
  ultimately show ?case using 3 by (auto intro!: holds_put_owned)
qed simp

lemma holds_faulted: "holds r \<Longrightarrow> holds (mark_faulted rec r)"
  by (cases r) (simp add: mark_faulted_def with_core_def holds_iff here_fault)

end

context tree_invariant
begin

lemma holds_dispose: "holds r \<Longrightarrow> holds (dispose_completed_spawned_at_path addr r)"
proof (induction addr r rule: dispose_completed_spawned_at_path.induct)
  case (2 seq tail r)
  show ?case
  proof (cases tail)
    case Nil
    then show ?thesis
      using "2.prems" by (cases r) (auto simp: holds_iff with_owned_def intro: here_drop)
  next
    case (Cons s tail')
    have "holds (dispose_completed_spawned_at_path tail (or_runtime w))"
      if "find (is_spawn seq) (rt_owned r) = Some w" for w
      using "2.IH" Cons that holds_at [of r "[SegSpawn seq]" "or_runtime w"] "2.prems" by simp
    then show ?thesis
      using "2.prems" unfolding Cons dispose_spawn by (auto split: option.split intro!: holds_put_owned)
  qed
next
  case (3 cid seq tail r)
  have "holds (dispose_completed_spawned_at_path tail (cr_runtime c))"
    if "find (is_component cid seq) (rt_components r) = Some c" for c
    using "3.IH" that holds_at [of r "[SegComponent cid seq]" "cr_runtime c"] "3.prems" by simp
  then show ?case
    using "3.prems" unfolding dispose_component by (auto split: option.split intro!: holds_put_component)
qed simp

lemma holds_fault_dispatch:
  assumes "fault_dispatch G B prior addr e fault = Ok res" and "res_state res = Some a" and "holds (ag_root prior)"
  shows "holds (ag_root a)"
proof -
  from assms(1) obtain r rec root' where "runtime_at (ag_root prior) addr = Some r"
    "runtime_at_mut addr (mark_faulted rec) (ag_root prior) = Some root'"
    "res_state res = Some (faulted_aggregate prior root')"
    by (elim fault_dispatch_result) simp
  moreover from this assms(3) have "holds root'" by (metis holds_modify holds_faulted holds_at)
  ultimately show ?thesis using assms(2) by (auto simp: faulted_aggregate_def)
qed

lemma holds_step:
  assumes step: "step_native_aggregate G n B prior d = Ok res" and "res_state res = Some a"
    and prior: "holds (ag_root prior)"
  shows "holds (ag_root a)"
  using step
proof (cases rule: step_cases)
  case (unchanged disp rej)
  with assms show ?thesis by (simp add: unchanged_result_def)
next
  case (faulted addr r e fault)
  with assms show ?thesis by (blast intro: holds_fault_dispatch)
next
  case (handled addr r e source_path t r' cx root')
  have "ksteps (r, step_context_of prior e) (r', cx)"
    using knot.execute_transition_stays handled(2) unfolding kstays_def by blast
  moreover have "holds r" using delivered_runtime [OF handled(1)] holds_at prior by blast
  ultimately have "holds r'" using holds_steps by force
  with handled(3) prior have "holds root'" by (blast intro: holds_modify)
  then have "holds (dispose_completed_spawned_at_path addr root')" by (rule holds_dispose)
  with assms(2) handled(4) show ?thesis by (auto simp: handled_result_def Let_def)
qed

lemma holds_create:
  assumes "create_native_aggregate G n B mid rid cid b = Ok res" and "res_state res = Some a"
  shows "holds (ag_root a)"
proof -
  obtain m where m: "bm_get (b_machines B) mid = Some m"
    using assms by (auto simp: create_native_aggregate_def rejected_creation_def split: if_splits option.splits)
  define fresh where "fresh = new_runtime (root_runtime_identity G B m rid) m RelRoot
     (OriginRoot (definition_binding_of B m) rid) (RootTarget rid (root_runtime_identity G B m rid))
     (definition_binding_of B m) None"
  have "holds r" if "initialize_runtime (kernel_at P n) b (fresh, cx) = Ok (u, (r, cx'))" for P cx u r cx'
  proof -
    have "ksteps (fresh, cx) (r, cx')"
      using knot.initialize_runtime_stays that unfolding kstays_def by blast
    with holds_steps show ?thesis using holds_new by (force simp: fresh_def)
  qed
  moreover have "holds (with_core (\<lambda>c. c\<lparr>rc_history := [], rc_status := Faulted, rc_fault := Some rec\<rparr>)
      (new_runtime (rt_runtime_id r) m RelRoot (rc_identity_origin (rt_core r)) (rc_target_identity (rt_core r))
         (rc_current_definition (rt_core r)) (rc_origin_component_id (rt_core r))))" for rec r
    using holds_diagnostic [of "with_core (\<lambda>c. c\<lparr>rc_definition := m, rc_relation := RelRoot\<rparr>) r" rec]
    by (simp add: diagnostic_runtime_def)
  ultimately show ?thesis
    using assms unfolding create_native_aggregate_def
    by (auto simp: m Let_def fresh_def [symmetric] rejected_creation_def obind_Ok_iff
        split: if_splits outcome.splits)
qed

lemma holds_reachable: "reachable G B a \<Longrightarrow> holds (ag_root a)"
proof (induction rule: reachable.induct)
  case (reach_capacity a e res a')
  then show ?case
    by (auto simp: fault_deferred_capacity_def split: sum.splits intro: holds_fault_dispatch)
qed (blast intro: holds_create holds_step)+

end

interpretation typed: tree_invariant runtime_typed "\<lambda>c cs ws. core_typed c"
proof
  show "ksteps s t' \<Longrightarrow> runtime_typed (fst s) \<Longrightarrow> runtime_typed (fst t')" for s t'
    by (rule ksteps_typed(1))
qed (auto simp: core_typed_def)

interpretation fresh: tree_invariant runtime_fresh placements_fresh
proof
  show "ksteps s t' \<Longrightarrow> runtime_fresh (fst s) \<Longrightarrow> runtime_fresh (fst t')" for s t'
    by (rule ksteps_fresh(1))
  show "placements_fresh c cs' ws'" if "placements_fresh c cs ws" and "map component_key cs' = map component_key cs"
    and "map or_spawn_sequence ws' = map or_spawn_sequence ws" for c cs cs' ws ws'
    using that(1) _ that(3)
  proof (rule placements_fresh_children)
    from that(2) have "map snd (map component_key cs') = map snd (map component_key cs)" by simp
    then show "map (\<lambda>x. (cr_pointer x, cr_activation_sequence x)) cs' =
        map (\<lambda>x. (cr_pointer x, cr_activation_sequence x)) cs"
      by (simp add: component_key_def comp_def)
  qed
  show "placements_fresh c cs ws'" if "placements_fresh c cs ws" "subseq ws' ws" for c cs ws ws'
    using that by (auto intro: placements_fresh_drop)
qed (auto simp: placements_fresh_def next_activation_def)

section \<open>Rejections and unhandled deliveries\<close>

text \<open>
  C6: a dispatch either commits one logical step or nothing at all.  When the delivery was
  handled or faulted, exactly the next logical step number is used up; in every other case
  (rejected, deferred, unhandled, no delivery) the aggregate is the prior one and nothing is
  emitted.  A rejection code is given exactly for the rejected deliveries.
\<close>

theorem step_commits_or_nothing:
  assumes step: "step_native_aggregate G n B prior d = Ok res"
  shows "\<exists>a. res_state res = Some a \<and>
     (if res_disposition res \<in> {Some DispHandled, Some DispFaulted}
      then ag_next_logical_step_sequence a = Suc (ag_next_logical_step_sequence prior)
      else a = prior \<and> res_emissions res = []) \<and>
     (res_rejection res \<noteq> None \<longleftrightarrow> res_disposition res = Some DispRejected)"
  using step
proof (cases rule: step_cases)
  case (unchanged disp rej)
  then show ?thesis by (simp add: unchanged_result_def)
next
  case (faulted addr r e fault)
  from faulted(2) show ?thesis by (elim fault_dispatch_result) (simp add: faulted_aggregate_def)
next
  case (handled addr r e source_path t r' cx root')
  then show ?thesis by (simp add: handled_result_def Let_def allocate_def)
qed

section \<open>Output sequence numbers\<close>

lemma transition_context:
  assumes "execute_transition (kernel_at P n) source_path t e (r, cx) = Ok (u, (r', cx'))"
  shows "context_grows cx cx'" "core_frame (rt_core r) (rt_core r')"
proof -
  have "ksteps (r, cx) (r', cx')"
    using knot.execute_transition_stays assms unfolding kstays_def by blast
  from ksteps_context(1) [OF this] ksteps_frame(1) [OF this]
  show "context_grows cx cx'" "core_frame (rt_core r) (rt_core r')" by simp_all
qed

lemma parallel_done_emissions_internal: "list_all internal_emission (parallel_done_emissions G a addr cause seq)"
  by (auto simp: parallel_done_emissions_def
      split: option.splits address_segment.splits runtime_relation.splits)

text \<open>
  C2: the effects of a dispatch are numbered without gaps and without repetition: the
  emissions to the outside carry, in the order they are emitted, the numbers from the
  aggregate's next output sequence on, the aggregate afterwards continues behind the last of
  them, and all other emissions are events inside the aggregate with an identity of their own.
\<close>

theorem step_outputs_numbered:
  assumes step: "step_native_aggregate G n B prior d = Ok res"
  shows "\<exists>a. res_state res = Some a \<and>
     numbered (ag_next_output_sequence prior) (res_emissions res) (ag_next_output_sequence a)"
  using step
proof (cases rule: step_cases)
  case (unchanged disp rej)
  then show ?thesis by (simp add: unchanged_result_def)
next
  case (faulted addr r e fault)
  from faulted(2) show ?thesis
    by (elim fault_dispatch_result) (simp add: faulted_aggregate_def numbered_internal)
next
  case (handled addr r e source_path t r' cx root')
  from transition_context(1) [OF handled(2)]
  have "numbered (ag_next_output_sequence prior) (cx_emissions cx) (cx_next_output_sequence cx)"
    by (auto simp: context_grows_def step_context_of_def)
  with handled(4) show ?thesis
    by (auto simp: handled_result_def Let_def numbered_append
        intro: numbered_internal parallel_done_emissions_internal)
qed

section \<open>Replacing a child\<close>

lemma find_filter_other: "(\<And>x. p x \<Longrightarrow> q x) \<Longrightarrow> find p (filter q xs) = find p xs"
  by (induction xs) auto

lemma find_spawn_filter_other:
  "seq' \<noteq> seq \<Longrightarrow> find (is_spawn seq') (filter (\<lambda>w. or_spawn_sequence w = seq \<longrightarrow> q w) ws) = find (is_spawn seq') ws"
  by (rule find_filter_other) auto

lemma runtime_at_put_owned:
  assumes "find (is_spawn seq) (rt_owned r) = Some w"
  shows "runtime_at (with_owned (update_first (is_spawn seq) (set_or_runtime x)) r) (s # b) =
     (if s = SegSpawn seq then runtime_at x b else runtime_at r (s # b))"
proof (cases "s = SegSpawn seq")
  case False
  have "find (is_spawn seq') (update_first (is_spawn seq) (set_or_runtime x) (rt_owned r)) =
      find (is_spawn seq') (rt_owned r)" if "s = SegSpawn seq'" for seq'
    by (rule find_update_first_other) (use that False in auto)
  with False show ?thesis by (cases s) auto
qed (simp add: assms)

lemma runtime_at_put_component:
  assumes "find (is_component cid seq) (rt_components r) = Some c"
  shows "runtime_at (with_components (update_first (is_component cid seq) (set_cr_runtime x)) r) (s # b) =
     (if s = SegComponent cid seq then runtime_at x b else runtime_at r (s # b))"
proof (cases "s = SegComponent cid seq")
  case False
  have "find (is_component cid' seq') (update_first (is_component cid seq) (set_cr_runtime x) (rt_components r)) =
      find (is_component cid' seq') (rt_components r)" if "s = SegComponent cid' seq'" for cid' seq'
    by (rule find_update_first_other) (use that False in auto)
  with False show ?thesis by (cases s) auto
qed (simp add: assms)

section \<open>Faults\<close>

text \<open>
  The runtimes of a tree without their children.  Changing a runtime at an address without
  touching its children changes only what is read at that address.
\<close>

definition core_at :: "runtime_state \<Rightarrow> runtime_address \<Rightarrow> runtime_core option" where
  "core_at r b = map_option rt_core (runtime_at r b)"

lemma core_at_Cons:
  "core_at r (SegSpawn seq # b) = (case find (is_spawn seq) (rt_owned r) of None \<Rightarrow> None | Some w \<Rightarrow> core_at (or_runtime w) b)"
  "core_at r (SegComponent cid seq # b) =
     (case find (is_component cid seq) (rt_components r) of None \<Rightarrow> None | Some c \<Rightarrow> core_at (cr_runtime c) b)"
  by (simp_all add: core_at_def split: option.split)

lemma core_at_children:
  "rt_components r' = rt_components r \<Longrightarrow> rt_owned r' = rt_owned r \<Longrightarrow> b \<noteq> [] \<Longrightarrow> core_at r' b = core_at r b"
  by (cases b; cases "hd b") (simp_all add: core_at_Cons)

lemma core_at_put_owned:
  assumes "find (is_spawn seq) (rt_owned r) = Some w"
  shows "core_at (with_owned (update_first (is_spawn seq) (set_or_runtime x)) r) (s # b) =
     (if s = SegSpawn seq then core_at x b else core_at r (s # b))"
  by (simp add: core_at_def runtime_at_put_owned [OF assms])

lemma core_at_put_component:
  assumes "find (is_component cid seq) (rt_components r) = Some c"
  shows "core_at (with_components (update_first (is_component cid seq) (set_cr_runtime x)) r) (s # b) =
     (if s = SegComponent cid seq then core_at x b else core_at r (s # b))"
  by (simp add: core_at_def runtime_at_put_component [OF assms])

lemma modify_core_at:
  "runtime_at_mut addr f r = Some r' \<Longrightarrow> b \<noteq> addr \<Longrightarrow>
   strict_prefix b addr \<or> (\<forall>x. rt_components (f x) = rt_components x \<and> rt_owned (f x) = rt_owned x) \<Longrightarrow>
   core_at r' b = core_at r b"
proof (induction addr f r arbitrary: r' b rule: runtime_at_mut.induct)
  case (1 f r)
  then show ?case by (auto intro: core_at_children)
next
  case (2 cid seq tail f r)
  then obtain c r1 where c: "find (is_component cid seq) (rt_components r) = Some c"
    "runtime_at_mut tail f (cr_runtime c) = Some r1"
    "r' = with_components (update_first (is_component cid seq) (set_cr_runtime r1)) r"
    by (auto split: option.splits)
  show ?case
  proof (cases b)
    case (Cons s b')
    have "core_at r1 b' = core_at (cr_runtime c) b'" if "s = SegComponent cid seq"
      by (rule "2.IH" [OF c(1,2)]) (use that "2.prems" Cons in auto)
    then show ?thesis unfolding c(3) Cons core_at_put_component [OF c(1)] by (simp add: core_at_Cons c(1))
  qed (simp add: c(3) core_at_def)
next
  case (3 seq tail f r)
  then obtain w r1 where w: "find (is_spawn seq) (rt_owned r) = Some w"
    "runtime_at_mut tail f (or_runtime w) = Some r1"
    "r' = with_owned (update_first (is_spawn seq) (set_or_runtime r1)) r"
    by (auto split: option.splits)
  show ?case
  proof (cases b)
    case (Cons s b')
    have "core_at r1 b' = core_at (or_runtime w) b'" if "s = SegSpawn seq"
      by (rule "3.IH" [OF w(1,2)]) (use that "3.prems" Cons in auto)
    then show ?thesis unfolding w(3) Cons core_at_put_owned [OF w(1)] by (simp add: core_at_Cons w(1))
  qed (simp add: w(3) core_at_def)
qed

lemma mark_faulted_children [simp]:
  "rt_components (mark_faulted rec r) = rt_components r" "rt_owned (mark_faulted rec r) = rt_owned r"
  by (cases r; simp add: mark_faulted_def with_core_def)+

text \<open>
  C1: a fault is atomic.  Whatever the failed handler had done is gone: the aggregate is the
  prior one with the runtime the delivery resolves to marked as faulted, its record naming the
  runtime, the delivered event and the logical step, and that one step used up.  No other runtime
  is touched, whether it owns the faulted one, is owned by it or is on another branch; every other
  field is as before, the output sequence included, and only events inside the aggregate are
  emitted.
\<close>

theorem fault_atomic:
  assumes step: "step_native_aggregate G n B prior d = Ok res" and "res_disposition res = Some DispFaulted"
  shows "\<exists>delivery addr r rec root'. d = Some delivery \<and>
     resolve_delivery_target prior (env_target (snd (delivery_parts delivery))) = Inr addr \<and>
     runtime_at (ag_root prior) addr = Some r \<and> rt_status r = Running \<and>
     res_state res = Some (prior\<lparr>ag_root := root',
       ag_next_logical_step_sequence := Suc (ag_next_logical_step_sequence prior)\<rparr>) \<and>
     res_fault res = Some rec \<and> fr_runtime_id rec = rt_runtime_id r \<and>
     fr_cause_id rec = env_event_id (snd (delivery_parts delivery)) \<and>
     fr_step_sequence rec = ag_next_logical_step_sequence prior \<and>
     runtime_at root' addr = Some (mark_faulted rec r) \<and>
     (\<forall>b. b \<noteq> addr \<longrightarrow> core_at root' b = core_at (ag_root prior) b) \<and>
     (\<forall>b. addresses_apart addr b \<longrightarrow> runtime_at root' b = runtime_at (ag_root prior) b) \<and>
     list_all internal_emission (res_emissions res)"
  using step
proof (cases rule: step_cases)
  case (faulted addr r e fault)
  from faulted(1) obtain delivery where d: "d = Some delivery" "accept_delivery B prior delivery = Ok (addr, r, e)"
    by (auto simp: delivered_def)
  from faulted(2) obtain x rec root' ems where
    x: "runtime_at (ag_root prior) addr = Some x"
      "runtime_at_mut addr (mark_faulted rec) (ag_root prior) = Some root'"
      "list_all internal_emission ems" "fr_runtime_id rec = rt_runtime_id x" "fr_cause_id rec = env_event_id e"
      "fr_step_sequence rec = ag_next_logical_step_sequence prior"
      "res = \<lparr>res_status = result_status_of (rt_status root'), res_disposition = Some DispFaulted,
            res_state = Some (faulted_aggregate prior root'), res_emissions = ems,
            res_fault = Some rec, res_rejection = None\<rparr>"
    by (elim fault_dispatch_result) blast
  note target = accept_delivery_runtime [OF d(2)]
  then have "x = r" "fr_cause_id rec = env_event_id (snd (delivery_parts delivery))"
    using x(1,5) validate_envelope_event_id by auto
  moreover have "runtime_at root' addr = Some (mark_faulted rec x)" using tree.modify_read [OF x(2)] x(1) by simp
  moreover have "\<forall>b. b \<noteq> addr \<longrightarrow> core_at root' b = core_at (ag_root prior) b"
    using modify_core_at [OF x(2)] by simp
  moreover have "\<forall>b. addresses_apart addr b \<longrightarrow> runtime_at root' b = runtime_at (ag_root prior) b"
    using tree.read_apart [OF x(2)] by blast
  ultimately show ?thesis using x target d(1)
    by (intro exI [of _ delivery] exI [of _ addr] exI [of _ r] exI [of _ rec] exI [of _ root'])
      (simp add: faulted_aggregate_def)
qed (use assms(2) in \<open>auto simp: unchanged_result_def handled_result_def Let_def\<close>)

section \<open>Isolation of the other runtimes\<close>

lemma addresses_apart_Cons [simp]: "addresses_apart (s # a) (s' # b) \<longleftrightarrow> s \<noteq> s' \<or> addresses_apart a b"
  by (auto simp: addresses_apart_def)

lemma dispose_apart:
  "addresses_apart addr b \<Longrightarrow> runtime_at (dispose_completed_spawned_at_path addr r) b = runtime_at r b"
proof (induction addr r arbitrary: b rule: dispose_completed_spawned_at_path.induct)
  case (2 seq tail r)
  show ?case
  proof (cases b)
    case (Cons s b')
    show ?thesis
    proof (cases tail)
      case Nil
      with "2.prems" Cons have "s \<noteq> SegSpawn seq" by (auto simp: addresses_apart_def)
      then show ?thesis using Nil Cons
        by (cases s) (auto simp: find_spawn_filter_other)
    next
      case tail: (Cons s' tail')
      from "2.IH" tail have ih: "addresses_apart tail b \<Longrightarrow>
          runtime_at (dispose_completed_spawned_at_path tail (or_runtime w)) b = runtime_at (or_runtime w) b" for w b
        by blast
      show ?thesis
        using "2.prems" ih unfolding tail dispose_spawn Cons
        by (auto simp: runtime_at_put_owned split: option.split)
    qed
  qed (use "2.prems" in \<open>simp add: addresses_apart_def\<close>)
next
  case (3 cid seq tail r)
  show ?case
  proof (cases b)
    case (Cons s b')
    show ?thesis
      using "3.prems" "3.IH" unfolding dispose_component Cons
      by (auto simp: runtime_at_put_component split: option.split)
  qed (use "3.prems" in \<open>simp add: addresses_apart_def\<close>)
qed (simp add: addresses_apart_def)

text \<open>
  C5: a delivery works on the runtime it is addressed to and on nothing beside it: every
  runtime on another branch of the aggregate is as before, and so are the identity of the
  aggregate and its host-side counters.
\<close>

theorem step_isolated:
  assumes step: "step_native_aggregate G n B prior (Some delivery) = Ok res"
    and addr: "resolve_delivery_target prior (env_target (snd (delivery_parts delivery))) = Inr addr"
    and apart: "addresses_apart addr other"
  shows "\<exists>a. res_state res = Some a \<and> runtime_at (ag_root a) other = runtime_at (ag_root prior) other \<and>
     a = prior\<lparr>ag_root := ag_root a, ag_next_logical_step_sequence := ag_next_logical_step_sequence a,
               ag_next_output_sequence := ag_next_output_sequence a\<rparr>"
  using step
proof (cases rule: step_cases)
  case (unchanged disp rej)
  then show ?thesis by (simp add: unchanged_result_def)
next
  case (faulted x r e fault)
  with addr have "x = addr" unfolding delivered_def by (auto dest: accept_delivery_runtime)
  from faulted(2) show ?thesis
    by (elim fault_dispatch_result)
      (use apart \<open>x = addr\<close> tree.read_apart in \<open>auto simp: faulted_aggregate_def\<close>)
next
  case (handled x r e source_path t r' cx root')
  with addr have x: "x = addr" unfolding delivered_def by (auto dest: accept_delivery_runtime)
  have "runtime_at (dispose_completed_spawned_at_path x root') other = runtime_at (ag_root prior) other"
    using dispose_apart [of addr other root'] tree.read_apart [OF handled(3), of other] apart x by simp
  with handled(4) show ?thesis by (simp add: handled_result_def Let_def)
qed

section \<open>Reachable aggregates\<close>

text \<open>
  C3: in every reachable aggregate, every variable of every runtime, components and spawned
  instances included, holds a canonical value of its declared type; only an instance
  reference may be empty.
\<close>

theorem reachable_typed:
  assumes "reachable G B a" and "runtime_at (ag_root a) addr = Some r" and "(key, slot) \<in> set (rt_variables r)"
  shows "vd_value_type (vs_declaration slot) = ''instance_reference'' \<and> vs_value slot = VNull \<or>
     matches_type (vs_value slot) (vd_value_type (vs_declaration slot)) \<and> is_canonical_portable (vs_value slot)"
proof -
  have "runtime_typed r" using typed.holds_at [OF assms(2)] typed.holds_reachable [OF assms(1)] .
  then have "slot_typed slot"
    using assms(3) by (cases r) (auto simp: core_typed_def)
  then show ?thesis by (simp add: slot_typed_def)
qed

text \<open>
  C4: in every reachable aggregate, no two spawned instances of a runtime and no two
  components of one placement share a sequence number, and the numbers still to be allocated
  are above all numbers in use: an address never comes to mean another runtime.
\<close>

theorem reachable_sequences_fresh:
  assumes "reachable G B a" and "runtime_at (ag_root a) addr = Some r"
  shows "distinct (map or_spawn_sequence (rt_owned r)) \<and>
     (\<forall>w \<in> set (rt_owned r). or_spawn_sequence w < rc_next_spawn_sequence (rt_core r)) \<and>
     distinct (map (\<lambda>c. (cr_pointer c, cr_activation_sequence c)) (rt_components r)) \<and>
     (\<forall>c \<in> set (rt_components r). \<exists>q.
        bm_get (rc_next_component_activation_sequence (rt_core r)) (cr_pointer c) = Some q \<and>
        cr_activation_sequence c < q)"
proof -
  have "runtime_fresh r" using fresh.holds_at [OF assms(2)] fresh.holds_reachable [OF assms(1)] .
  then show ?thesis
    by (cases r) (auto simp: placements_fresh_def next_activation_def counter_zero_def split: option.splits)
qed

section \<open>The delivered runtime\<close>

lemma find_filter_found: "find p xs = Some x \<Longrightarrow> q x \<Longrightarrow> find p (filter q xs) = Some x"
  by (induction xs) (auto split: if_splits)

text \<open>An address of a spawned instance.\<close>

definition spawn_address :: "runtime_address \<Rightarrow> bool" where
  "spawn_address addr \<longleftrightarrow> (\<exists>owner seq. addr = owner @ [SegSpawn seq])"

lemma spawn_address_simps [simp]:
  "\<not> spawn_address []" "spawn_address [SegSpawn seq]" "spawn_address (s # s' # tail) = spawn_address (s' # tail)"
  "spawn_address (SegComponent cid seq # tail) = spawn_address tail"
  by (auto simp: spawn_address_def Cons_eq_append_conv)

lemma dispose_keeps:
  "runtime_at r addr = Some x \<Longrightarrow> rt_status x = Completed \<longrightarrow> \<not> spawn_address addr \<Longrightarrow>
   runtime_at (dispose_completed_spawned_at_path addr r) addr = Some x"
proof (induction addr r rule: dispose_completed_spawned_at_path.induct)
  case (2 seq tail r)
  then obtain w where w: "find (is_spawn seq) (rt_owned r) = Some w" "runtime_at (or_runtime w) tail = Some x"
    by (auto split: option.splits)
  show ?case
  proof (cases tail)
    case Nil
    with w "2.prems" show ?thesis using find_filter_found [OF w(1)] by simp
  next
    case (Cons s tail')
    then show ?thesis
      using w "2.IH" [of w] "2.prems"(2) unfolding Cons dispose_spawn by (simp add: runtime_at_put_owned)
  qed
next
  case (3 cid seq tail r)
  then obtain c where c: "find (is_component cid seq) (rt_components r) = Some c"
    "runtime_at (cr_runtime c) tail = Some x"
    by (auto split: option.splits)
  then show ?case
    using "3.IH" [of c] "3.prems"(2) unfolding dispose_component by (simp add: runtime_at_put_component)
qed simp

lemma dispose_owners: "strict_prefix b addr \<Longrightarrow> core_at (dispose_completed_spawned_at_path addr r) b = core_at r b"
proof (induction addr r arbitrary: b rule: dispose_completed_spawned_at_path.induct)
  case (2 seq tail r)
  show ?case
  proof (cases b)
    case (Cons s b')
    with "2.prems" obtain s' tail' where tail: "tail = s' # tail'" "s = SegSpawn seq" "strict_prefix b' tail" by (cases tail) auto
    with "2.IH" show ?thesis unfolding tail(1,2) Cons dispose_spawn
      by (cases "find (is_spawn seq) (rt_owned r)") (simp_all add: core_at_put_owned, simp add: core_at_Cons)
  qed (simp add: core_at_def)
next
  case (3 cid seq tail r)
  show ?case
  proof (cases b)
    case (Cons s b')
    with "3.prems" have tail: "s = SegComponent cid seq" "strict_prefix b' tail" by auto
    with "3.IH" show ?thesis unfolding tail(1) Cons dispose_component
      by (cases "find (is_component cid seq) (rt_components r)") (simp_all add: core_at_put_component, simp add: core_at_Cons)
  qed (simp add: core_at_def)
qed simp

lemma dispose_removes:
  "runtime_fresh r \<Longrightarrow> runtime_at r (addr @ [SegSpawn seq]) = Some x \<Longrightarrow> rt_status x = Completed \<Longrightarrow>
   runtime_at (dispose_completed_spawned_at_path (addr @ [SegSpawn seq]) r) (addr @ [SegSpawn seq]) = None"
proof (induction addr arbitrary: r)
  case Nil
  then obtain w where w: "find (is_spawn seq) (rt_owned r) = Some w" "or_runtime w = x"
    by (auto split: option.splits)
  have d: "distinct (map or_spawn_sequence (rt_owned r))"
    using Nil(1) by (cases r) (simp add: placements_fresh_def)
  have "v = w" if "v \<in> set (rt_owned r)" "or_spawn_sequence v = seq" for v
  proof -
    have "is_spawn seq = (\<lambda>y. or_spawn_sequence y = or_spawn_sequence v)" using that(2) by auto
    with find_distinct [OF d that(1)] w(1) show ?thesis by simp
  qed
  then have "find (is_spawn seq) (filter (\<lambda>v. or_spawn_sequence v \<noteq> seq \<or> rt_status (or_runtime v) \<noteq> Completed) (rt_owned r)) = None"
    using w Nil(3) by (auto simp: find_None_iff)
  then show ?case by simp
next
  case (Cons s addr)
  obtain s' tail where tail: "addr @ [SegSpawn seq] = s' # tail" by (cases "addr @ [SegSpawn seq]") auto
  show ?case
  proof (cases s)
    case (SegSpawn q)
    with Cons.prems obtain w where w: "find (is_spawn q) (rt_owned r) = Some w"
      "runtime_at (or_runtime w) (addr @ [SegSpawn seq]) = Some x" by (auto split: option.splits)
    moreover have "runtime_fresh (or_runtime w)"
      using fresh.holds_at [of r "[SegSpawn q]"] w(1) Cons.prems(1) by simp
    ultimately show ?thesis
      using Cons.IH Cons.prems(3) unfolding SegSpawn append_Cons tail dispose_spawn
      by (simp add: runtime_at_put_owned)
  next
    case (SegComponent cid q)
    with Cons.prems obtain c where c: "find (is_component cid q) (rt_components r) = Some c"
      "runtime_at (cr_runtime c) (addr @ [SegSpawn seq]) = Some x" by (auto split: option.splits)
    moreover have "runtime_fresh (cr_runtime c)"
      using fresh.holds_at [of r "[SegComponent cid q]"] c(1) Cons.prems(1) by simp
    ultimately show ?thesis
      using Cons.IH Cons.prems(3) unfolding SegComponent append_Cons dispose_component
      by (simp add: runtime_at_put_component)
  qed
qed

text \<open>
  C7: what a handled delivery does to the aggregate.  The running runtime the delivery resolves to
  executes the transition that its state selects for the event.  That keeps its identity,
  definition, relation and mailboxes and leaves it running or completed.  The outcome takes the
  place of the runtime, except that in a reachable aggregate a spawned instance that completed is
  gone.  The owners of the runtime are as they were, apart from this child.
\<close>

theorem handled_target_frame:
  assumes reach: "reachable G B prior" and step: "step_native_aggregate G n B prior d = Ok res"
    and handled: "res_disposition res = Some DispHandled"
  shows "\<exists>delivery addr r e source_path t r' cx a. d = Some delivery \<and>
     resolve_delivery_target prior (env_target (snd (delivery_parts delivery))) = Inr addr \<and>
     runtime_at (ag_root prior) addr = Some r \<and> rt_status r = Running \<and>
     validate_envelope B r (fst (delivery_parts delivery)) (snd (delivery_parts delivery)) = Ok e \<and>
     select_handler G r e = Ok (Handled source_path t) \<and>
     execute_transition (kernel_at (step_params_of G B prior) n) source_path t e (r, step_context_of prior e) = Ok ((), (r', cx)) \<and>
     core_frame (rt_core r) (rt_core r') \<and> rt_status r' \<in> {Running, Completed} \<and> res_state res = Some a \<and>
     runtime_at (ag_root a) addr = (if rt_status r' = Completed \<and> spawn_address addr then None else Some r') \<and>
     (\<forall>owner. strict_prefix owner addr \<longrightarrow> core_at (ag_root a) owner = core_at (ag_root prior) owner)"
  using step
proof (cases rule: step_cases)
  case (unchanged disp rej)
  with handled show ?thesis by (simp add: unchanged_result_def)
next
  case (faulted addr r e fault)
  from faulted(2) handled show ?thesis by (elim fault_dispatch_result) simp
next
  case (handled addr r e source_path t r' cx root')
  from handled(1) obtain delivery where d: "d = Some delivery" "accept_delivery B prior delivery = Ok (addr, r, e)"
    by (auto simp: delivered_def)
  note r = accept_delivery_runtime [OF d(2)]
  have frame: "core_frame (rt_core r) (rt_core r')" by (rule transition_context [OF handled(2)])
  then have st: "rt_status r' \<in> {Running, Completed}" using r by (auto simp: core_frame_def)
  have steps: "ksteps (r, step_context_of prior e) (r', cx)"
    using knot.execute_transition_stays handled(2) unfolding kstays_def by blast
  have fr: "runtime_fresh (ag_root prior)" using fresh.holds_reachable [OF reach] .
  have "runtime_fresh r'" using ksteps_fresh(1) [OF steps] fresh.holds_at [OF _ fr] r by auto
  then have "runtime_fresh root'" using fresh.holds_modify [OF handled(3) fr] by blast
  moreover have at: "runtime_at root' addr = Some r'" using tree.modify_read [OF handled(3)] r by simp
  ultimately have "runtime_at (dispose_completed_spawned_at_path addr root') addr =
      (if rt_status r' = Completed \<and> spawn_address addr then None else Some r')"
    using dispose_removes dispose_keeps [OF at] by (auto simp: spawn_address_def)
  moreover have "core_at (dispose_completed_spawned_at_path addr root') owner = core_at (ag_root prior) owner"
    if "strict_prefix owner addr" for owner
    using dispose_owners [OF that] modify_core_at [OF handled(3)] that by (metis prefix_order.less_irrefl)
  ultimately show ?thesis using r frame st handled(2,4,5) d(1)
    by (intro exI [of _ delivery] exI [of _ addr] exI [of _ r] exI [of _ e] exI [of _ source_path] exI [of _ t]
        exI [of _ r'] exI [of _ cx] exI [of _ "the (res_state res)"])
      (simp add: handled_result_def Let_def)
qed

section \<open>Identity of the root\<close>

lemma modify_below_core: "runtime_at_mut addr f r = Some r' \<Longrightarrow> addr \<noteq> [] \<Longrightarrow> rt_core r' = rt_core r"
  by (cases "(addr, f, r)" rule: runtime_at_mut.cases) (auto split: option.splits)

lemma dispose_core [simp]: "rt_core (dispose_completed_spawned_at_path addr r) = rt_core r"
  by (cases "(addr, r)" rule: dispose_completed_spawned_at_path.cases) auto

definition root_identity :: "native_aggregate \<Rightarrow>
    string \<times> identity_origin \<times> target \<times> runtime_relation \<times> definition_binding \<times> machine" where
  "root_identity a = (let c = rt_core (ag_root a) in
     (rc_runtime_id c, rc_identity_origin c, rc_target_identity c, rc_relation c, rc_current_definition c,
      rc_definition c))"

lemma root_identity_frame:
  "core_frame (rt_core (ag_root prior)) (rt_core (ag_root a)) \<Longrightarrow> root_identity a = root_identity prior"
  by (simp add: root_identity_def core_frame_def Let_def)

lemma fault_root_identity:
  assumes "fault_dispatch G B prior addr e fault = Ok res" and "res_state res = Some a"
  shows "root_identity a = root_identity prior \<and> ag_root_instance_id a = ag_root_instance_id prior \<and>
     ag_validated_bundle_fingerprint a = ag_validated_bundle_fingerprint prior \<and> ag_namespace a = ag_namespace prior \<and>
     ag_creation_id a = ag_creation_id prior"
  using assms
  by (elim fault_dispatch_result; cases "addr = []")
    (auto simp: root_identity_def faulted_aggregate_def mark_faulted_def Let_def dest: modify_below_core)

lemma step_root_identity:
  assumes step: "step_native_aggregate G n B prior d = Ok res" and a: "res_state res = Some a"
  shows "root_identity a = root_identity prior \<and> ag_root_instance_id a = ag_root_instance_id prior \<and>
     ag_validated_bundle_fingerprint a = ag_validated_bundle_fingerprint prior \<and> ag_namespace a = ag_namespace prior \<and>
     ag_creation_id a = ag_creation_id prior"
  using step
proof (cases rule: step_cases)
  case (unchanged disp rej)
  with a show ?thesis by (simp add: unchanged_result_def)
next
  case (faulted addr r e fault)
  show ?thesis by (rule fault_root_identity [OF faulted(2) a])
next
  case (handled addr r e source_path t r' cx root')
  have "core_frame (rt_core (ag_root prior)) (rt_core root')"
    using transition_context(2) [OF handled(2)] handled(3) delivered_runtime [OF handled(1)] modify_below_core [OF handled(3)]
    by (cases "addr = []") auto
  then show ?thesis using a handled(4)
    by (auto simp: handled_result_def Let_def intro!: root_identity_frame)
qed

lemma created_root:
  assumes "create_native_aggregate G n B mid rid cid b = Ok res" and "res_state res = Some a"
  obtains m where "bm_get (b_machines B) mid = Some m" "rid \<noteq> []" "cid \<noteq> []"
    "root_identity a = (root_runtime_identity G B m rid, OriginRoot (definition_binding_of B m) rid,
       RootTarget rid (root_runtime_identity G B m rid), RelRoot, definition_binding_of B m, m)"
    "ag_root_instance_id a = rid" "ag_creation_id a = cid"
    "ag_validated_bundle_fingerprint a = b_fingerprint B" "ag_namespace a = b_namespace B"
    "ag_next_logical_step_sequence a = 1"
    "numbered 0 (res_emissions res) (ag_next_output_sequence a)"
proof -
  from assms obtain m where m: "bm_get (b_machines B) mid = Some m" "rid \<noteq> []" "cid \<noteq> []"
    by (auto simp: create_native_aggregate_def rejected_creation_def split: if_splits option.splits)
  define fresh where "fresh = new_runtime (root_runtime_identity G B m rid) m RelRoot
     (OriginRoot (definition_binding_of B m) rid) (RootTarget rid (root_runtime_identity G B m rid))
     (definition_binding_of B m) None"
  define cx where "cx = \<lparr>cx_cause_id = initialization_cause G ''root_initialization'' rid
                     (root_runtime_identity G B m rid) (root_runtime_identity G B m rid) cid counter_zero (m_root_pointer m) counter_zero,
      cx_next_output_sequence = counter_zero, cx_emissions = [], cx_provider_writes = []\<rparr>"
  define P where "P = \<lparr>sp_engine = G, sp_bundle = B, sp_root_instance_id = rid, sp_step_sequence = counter_zero\<rparr>"
  let ?run = "initialize_runtime (kernel_at P n) b (fresh, cx)"
  have frame: "core_frame (rt_core fresh) (rt_core r) \<and> context_grows cx cx'"
    if "(\<exists>u. ?run = Ok (u, (r, cx'))) \<or> (\<exists>f. ?run = Err (f, (r, cx')))" for r cx'
  proof -
    have "ksteps (fresh, cx) (r, cx')"
      using knot.initialize_runtime_stays that unfolding kstays_def by blast
    from ksteps_frame(1) [OF this] ksteps_context(1) [OF this] show ?thesis by simp
  qed
  have fresh_core: "rc_runtime_id (rt_core fresh) = root_runtime_identity G B m rid"
    "rc_identity_origin (rt_core fresh) = OriginRoot (definition_binding_of B m) rid"
    "rc_target_identity (rt_core fresh) = RootTarget rid (root_runtime_identity G B m rid)"
    "rc_relation (rt_core fresh) = RelRoot" "rc_current_definition (rt_core fresh) = definition_binding_of B m"
    "rc_definition (rt_core fresh) = m"
    by (simp_all add: fresh_def new_runtime_def)
  define base where "base = \<lparr>ag_document = JNull, ag_validated_bundle_fingerprint = b_fingerprint B,
      ag_namespace = b_namespace B, ag_root_instance_id = rid, ag_creation_id = cid,
      ag_migration_sequence = counter_zero, ag_wire_runtime_order = [root_runtime_identity G B m rid],
      ag_root = fresh, ag_next_logical_step_sequence = counter_zero, ag_next_output_sequence = counter_zero,
      ag_next_acceptance_sequence = counter_zero, ag_next_queue_sequence = counter_zero\<rparr>"
  from assms m have init: "initialize_root_variables fresh b = (Ok True :: (bool, step_fault) outcome)"
    unfolding create_native_aggregate_def
    by (auto simp: Let_def fresh_def [symmetric] rejected_creation_def obind_Ok_iff split: if_splits)
  note unfolded = create_native_aggregate_def Let_def fresh_def [symmetric] cx_def [symmetric]
    P_def [symmetric] base_def [symmetric]
  show thesis
  proof (cases ?run)
    case (Ok z)
    obtain u r cx' where z: "z = (u, (r, cx'))" by (metis surj_pair)
    have f: "core_frame (rt_core fresh) (rt_core r)" "context_grows cx cx'" using frame Ok z by blast+
    from assms have "a = base\<lparr>ag_root := r, ag_next_logical_step_sequence := 1,
        ag_next_output_sequence := cx_next_output_sequence cx'\<rparr>" "res_emissions res = cx_emissions cx'"
      by (auto simp: unfolded m init Ok z)
    with f fresh_core m show thesis
      by (intro that [OF m])
        (simp_all add: root_identity_def core_frame_def context_grows_def counter_zero_def cx_def base_def Let_def)
  next
    case (Err z)
    obtain u r cx' where z: "z = (u, (r, cx'))" by (metis surj_pair)
    have f: "core_frame (rt_core fresh) (rt_core r)" using frame Err z by blast
    from assms obtain rec where "a = base\<lparr>ag_root :=
        with_core (\<lambda>c. c\<lparr>rc_history := [], rc_status := Faulted, rc_fault := Some rec\<rparr>)
          (new_runtime (rt_runtime_id r) m RelRoot (rc_identity_origin (rt_core r)) (rc_target_identity (rt_core r))
             (rc_current_definition (rt_core r)) (rc_origin_component_id (rt_core r))),
        ag_next_logical_step_sequence := 1, ag_next_output_sequence := counter_zero\<rparr>" "res_emissions res = []"
      by (auto simp: unfolded m init Err z)
    with f fresh_core m show thesis
      by (intro that [OF m])
        (simp_all add: root_identity_def core_frame_def counter_zero_def base_def Let_def new_runtime_def)
  qed (use assms m init in \<open>auto simp: unfolded\<close>)
qed

text \<open>
  C8: every reachable aggregate passes the identity checks that open the next step: it is bound
  to the bundle it was created from, its root has the root relation, and the identity of its
  root is the one derived from the bundle, the machine and the instance.
\<close>

theorem reachable_root_identity:
  assumes "reachable G B a"
  shows "validate_root_identity G a \<and> rt_relation (ag_root a) = RelRoot \<and>
     ag_root_instance_id a \<noteq> [] \<and> ag_creation_id a \<noteq> [] \<and>
     ag_validated_bundle_fingerprint a = b_fingerprint B \<and> ag_namespace a = b_namespace B \<and>
     (\<exists>i m. bm_get (b_machines B) i = Some m \<and> rt_definition (ag_root a) = m \<and>
            rt_runtime_id (ag_root a) = root_runtime_identity G B m (ag_root_instance_id a))"
  using assms
proof (induction rule: reachable.induct)
  case (reach_create n mid rid cid b res a)
  then show ?case
    by (elim created_root)
      (auto simp: root_identity_def validate_root_identity_def origin_runtime_id_def identity_texts_def
        root_runtime_identity_def root_runtime_identity_parts_def definition_binding_of_def Let_def)
next
  case (reach_step a n d res a')
  from step_root_identity [OF reach_step(2,3)] reach_step.IH show ?case
    by (auto simp: root_identity_def validate_root_identity_def Let_def split: identity_origin.splits)
next
  case (reach_capacity a e res a')
  then obtain addr f where "fault_dispatch G B a addr e f = Ok res"
    by (auto simp: fault_deferred_capacity_def split: sum.splits)
  from fault_root_identity [OF this reach_capacity(3)] reach_capacity.IH show ?case
    by (auto simp: root_identity_def validate_root_identity_def Let_def split: identity_origin.splits)
qed

text \<open>
  C35: creation either yields no aggregate and a rejection code, or an aggregate at logical step
  one whose effects are numbered from zero on; a root whose initialisation failed emits
  nothing.
\<close>

theorem creation_result:
  assumes created: "create_native_aggregate G n B machine_id root_instance_id creation_id b = Ok res"
  shows "(res_state res = None \<and> res_status res = StatusRejected \<and> res_rejection res \<noteq> None \<and>
          res_emissions res = []) \<or>
     (\<exists>a. res_state res = Some a \<and> res_rejection res = None \<and> ag_next_logical_step_sequence a = 1 \<and>
          numbered 0 (res_emissions res) (ag_next_output_sequence a) \<and>
          res_status res = result_status_of (rt_status (ag_root a)) \<and>
          (rt_status (ag_root a) = Faulted \<longrightarrow> res_emissions res = [] \<and> res_fault res \<noteq> None))"
proof (cases "res_state res")
  case None
  with created show ?thesis
    unfolding create_native_aggregate_def
    by (auto simp: rejected_creation_def Let_def obind_Ok_iff split: if_splits option.splits outcome.splits)
next
  case (Some a)
  have running: "rt_status r \<noteq> Faulted"
    if "initialize_runtime (kernel_at P n) b (new_runtime x1 x2 x3 x4 x5 x6 x7, cx) = Ok (u, (r, cx'))"
    for P x1 x2 x3 x4 x5 x6 x7 cx u r cx'
  proof -
    have "ksteps (new_runtime x1 x2 x3 x4 x5 x6 x7, cx) (r, cx')"
      using knot.initialize_runtime_stays that unfolding kstays_def by blast
    from ksteps_frame(1) [OF this] show ?thesis by (auto simp: core_frame_def new_runtime_def)
  qed
  have "res_rejection res = None \<and> res_status res = result_status_of (rt_status (ag_root a)) \<and>
      (rt_status (ag_root a) = Faulted \<longrightarrow> res_emissions res = [] \<and> res_fault res \<noteq> None)"
    using created Some unfolding create_native_aggregate_def
    by (auto simp: rejected_creation_def Let_def obind_Ok_iff
        split: if_splits option.splits outcome.splits) (use running in blast)+
  moreover have "ag_next_logical_step_sequence a = 1 \<and>
      numbered 0 (res_emissions res) (ag_next_output_sequence a)"
    by (rule created_root [OF created Some]) blast
  ultimately show ?thesis using Some by blast
qed

section \<open>Admission\<close>

text \<open>
  C34: admission and dispatch agree: a delivery that the mailbox admits to a valid aggregate is
  not rejected when it is dispatched to that aggregate, and it is dispatched to the runtime
  admission named.
\<close>

theorem admitted_not_rejected:
  assumes adm: "validate_delivery_for_admission B a d = Ok rid"
    and valid: "aggregate_is_valid_for_bundle G a B"
    and step: "step_native_aggregate G n B a (Some d) = Ok res"
  shows "res_rejection res = None \<and>
     (\<exists>addr r. runtime_at (ag_root a) addr = Some r \<and> rt_runtime_id r = rid \<and> rt_status r = Running \<and>
        resolve_delivery_target a (env_target (snd (delivery_parts d))) = Inr addr)"
proof -
  obtain mode e where d: "delivery_parts d = (mode, e)" by force
  from adm obtain addr r e' where acc: "accept_delivery B a d = Ok (addr, r, e')" and rid: "rt_runtime_id r = rid"
    unfolding validate_delivery_for_admission_def accept_delivery_def
    by (auto simp: d obind_Ok_iff split: if_splits sum.splits option.splits target.splits)
  have "res_rejection res = None"
    using step
  proof (cases rule: step_cases)
    case (unchanged disp rej)
    have "dispatch_selected G n B a addr r e' = Ok res"
      using step valid acc by (simp add: step_native_aggregate_def aggregate_is_valid_for_bundle_def)
    then show ?thesis unfolding dispatch_selected_def run_handler_def
      by (auto simp: unchanged_result_def handled_result_def obind_Ok_iff Let_def
          split: outcome.splits handler_selection.splits if_splits elim!: fault_dispatch_result)
  next
    case (faulted addr r e fault)
    from faulted(2) show ?thesis by (elim fault_dispatch_result) simp
  next
    case (handled addr r e source_path t r' cx root')
    then show ?thesis by (simp add: handled_result_def Let_def)
  qed
  with accept_delivery_runtime [OF acc] rid show ?thesis by blast
qed

end
