(* ===== verification/Kernel_Fuel.thy ===== *)
theory Kernel_Fuel
  imports Dispatch
begin

text \<open>
  The fuel of the kernel is no part of the program: a result obtained with some fuel is the
  result with any larger amount, so all amounts that suffice agree.  The kernel is compared
  with itself pointwise in the order in which running out of fuel is the least outcome.
\<close>

section \<open>The order\<close>

named_theorems kernel_grows

definition ole :: "('a, 'e) outcome \<Rightarrow> ('a, 'e) outcome \<Rightarrow> bool" where
  "ole x y \<longleftrightarrow> x = OutOfFuel \<or> x = y"

definition kle :: "'a km \<Rightarrow> 'a km \<Rightarrow> bool" where
  "kle m m' \<longleftrightarrow> (\<forall>s. ole (m s) (m' s))"

lemma ole_refl [simp]: "ole x x"
  by (simp add: ole_def)

lemma ole_trans: "ole x y \<Longrightarrow> ole y z \<Longrightarrow> ole x z"
  by (auto simp: ole_def)

lemma ole_bind: "ole x y \<Longrightarrow> (\<And>a. ole (f a) (g a)) \<Longrightarrow> ole (obind x f) (obind y g)"
  by (cases x; cases "x = OutOfFuel"; force simp: ole_def)

lemma ole_case:
  "ole x y \<Longrightarrow> ole (case x of Ok a \<Rightarrow> f a | Err e \<Rightarrow> g e | Panic \<Rightarrow> Panic | OutOfFuel \<Rightarrow> OutOfFuel)
     (case y of Ok a \<Rightarrow> f a | Err e \<Rightarrow> g e | Panic \<Rightarrow> Panic | OutOfFuel \<Rightarrow> OutOfFuel)"
  unfolding ole_def by (elim disjE) simp_all

lemma ole_result: "ole x y \<Longrightarrow> x \<noteq> OutOfFuel \<Longrightarrow> y = x"
  by (auto simp: ole_def)

lemma kle_refl [kernel_grows]: "kle m m"
  by (simp add: kle_def)

lemma kle_out_of_fuel [kernel_grows]: "kle kout_of_fuel m"
  by (simp add: kle_def ole_def kout_of_fuel_def)

lemma kle_bind [kernel_grows]: "kle m m' \<Longrightarrow> (\<And>a. kle (f a) (f' a)) \<Longrightarrow> kle (kbind m f) (kbind m' f')"
  unfolding kle_def kbind_def by (auto intro!: ole_bind)

lemma kle_seq [kernel_grows]: "kle m m' \<Longrightarrow> kle k k' \<Longrightarrow> kle (kseq m k) (kseq m' k')"
  unfolding kseq_def by (intro kernel_grows)

lemma kle_when [kernel_grows]: "kle m m' \<Longrightarrow> kle (kwhen b m) (kwhen b m')"
  by (simp add: kwhen_def kernel_grows)

lemma kle_if [kernel_grows]: "kle m m' \<Longrightarrow> kle k k' \<Longrightarrow> kle (if b then m else k) (if b then m' else k')"
  by simp

lemma kle_unless_completed [kernel_grows]: "kle m m' \<Longrightarrow> kle (kunless_completed m) (kunless_completed m')"
  unfolding kunless_completed_def by (intro kernel_grows)

lemma kle_map_err [kernel_grows]: "kle m m' \<Longrightarrow> kle (kmap_err h m) (kmap_err h m')"
  unfolding kle_def kmap_err_def by (blast intro: ole_case)

lemma kle_for [kernel_grows]: "(\<And>x. kle (g x) (g' x)) \<Longrightarrow> kle (kfor g xs) (kfor g' xs)"
  by (induction xs) (simp_all add: kernel_grows)

lemma kle_for_until [kernel_grows]: "(\<And>x. kle (g x) (g' x)) \<Longrightarrow> kle (kfor_until g xs) (kfor_until g' xs)"
  by (induction xs) (auto intro!: kernel_grows)

lemma kle_on: "kle m m' \<Longrightarrow> kle (kon get put m) (kon get put m')"
  unfolding kle_def kon_def by (blast intro: ole_case)

lemma kle_on_child [kernel_grows]:
  "kle m m' \<Longrightarrow> kle (kon_component i m) (kon_component i m')"
  "kle m m' \<Longrightarrow> kle (kon_owned i m) (kon_owned i m')"
  using kle_on unfolding kle_def kon_component_def kon_owned_def by fastforce+

section \<open>Two kernels\<close>

text \<open>
  \<open>K'\<close> computes at least what \<open>K\<close> computes: same parameters, more fuel for the loops, and
  larger results of the two recursive calls.
\<close>

locale kernel_extension =
  fixes K K' :: kernel
  assumes params [simp]: "kn_params K' = kn_params K"
    and fuel: "kn_fuel K \<le> kn_fuel K'"
    and run_grows [kernel_grows]: "kle (kn_run K path actions e) (kn_run K' path actions e)"
    and init_grows: "kle (kn_init K b) (kn_init K' b)"
begin

lemma cleanup_children_grow [kernel_grows]:
  "kle m m' \<Longrightarrow> kle (cleanup_state_children m path) (cleanup_state_children m' path)"
  "kle m m' \<Longrightarrow> kle (cleanup_all_descendants m) (cleanup_all_descendants m')"
  unfolding cleanup_state_children_def cleanup_all_descendants_def cleanup_components_def cleanup_owned_def
  by (intro kernel_grows; assumption)+

lemma cleanup_exit_grows [kernel_grows]: "kle (cleanup_exit K path) (cleanup_exit K' path)"
  unfolding cleanup_exit_def by (intro kernel_grows)

lemma cleanup_runtime_grows: "n \<le> m \<Longrightarrow> kle (cleanup_runtime K n) (cleanup_runtime K' m)"
proof (induction n arbitrary: m)
  case (Suc n)
  then obtain m' where "m = Suc m'" "n \<le> m'" by (cases m) auto
  with Suc.IH show ?case by (auto intro!: kernel_grows)
qed (simp add: kernel_grows)

lemma cleanup_grows [kernel_grows]: "kle (cleanup_runtime K (kn_fuel K)) (cleanup_runtime K' (kn_fuel K'))"
  by (rule cleanup_runtime_grows [OF fuel])

lemma exit_state_grows [kernel_grows]: "kle (exit_state K path) (exit_state K' path)"
  unfolding exit_state_def by (intro kernel_grows)

lemma emissions_same [simp]:
  "push_system_emission K' r event t payload locator ordinal cause =
     push_system_emission K r event t payload locator ordinal cause"
  "push_parallel_done K' r path cause = push_parallel_done K r path cause"
  by (simp_all add: push_system_emission_def system_emission_def push_parallel_done_def)

lemma notifications_same [simp]:
  "emit_completion_notification K' r = emit_completion_notification K r"
  "emit_failure_notification K' r record = emit_failure_notification K r record"
  by (simp_all add: emit_completion_notification_def emit_failure_notification_def cong: runtime_relation.case_cong)

lemma complete_runtime_grows [kernel_grows]: "kle (complete_runtime K) (complete_runtime K')"
  unfolding complete_runtime_def notifications_same by (intro kernel_grows)

lemma cancel_owned_grows: "n \<le> m \<Longrightarrow> kle (cancel_owned K rf n) (cancel_owned K' rf m)"
proof (induction n arbitrary: m)
  case (Suc n)
  then obtain m' where "m = Suc m'" "n \<le> m'" by (cases m) auto
  with Suc.IH show ?case by (auto intro!: kernel_grows split: option.splits)
qed (simp add: kernel_grows)

lemma contain_fault_same [simp]: "contain_fault K' cause saved r fault = contain_fault K cause saved r fault"
  by (simp add: contain_fault_def fault_record_of_def)

lemma initialize_child_grows [kernel_grows]:
  "kle (initialize_child K cause b child) (initialize_child K' cause b child)"
  unfolding kle_def
proof
  fix s :: kst
  have "ole (kn_init K b (child, (snd s)\<lparr>cx_cause_id := cause\<rparr>)) (kn_init K' b (child, (snd s)\<lparr>cx_cause_id := cause\<rparr>))"
    using init_grows by (simp add: kle_def)
  then show "ole (initialize_child K cause b child s) (initialize_child K' cause b child s)"
    unfolding initialize_child_def Let_def contain_fault_same by (rule ole_case)
qed

lemma initialize_component_grows [kernel_grows]:
  "kle (initialize_component K st snapshot c) (initialize_component K' st snapshot c)"
  unfolding initialize_component_def emissions_same params by (intro kernel_grows)

lemma initialize_components_grow [kernel_grows]: "kle (initialize_components K st) (initialize_components K' st)"
  unfolding initialize_components_def by (intro kernel_grows)

lemma allocate_components_same [simp]: "allocate_components K' st = allocate_components K st"
  unfolding allocate_components_def allocate_component_def [abs_def] params ..

lemma enter_state_grows [kernel_grows]: "kle (enter_state K path b) (enter_state K' path b)"
  unfolding enter_state_def allocate_components_same by (intro kernel_grows)

lemma enter_chain_grows [kernel_grows]: "kle (enter_chain K p target) (enter_chain K' p target)"
  unfolding enter_chain_def by (intro kernel_grows)

lemma descend_initial_grows_by: "n \<le> m \<Longrightarrow> kle (descend_initial K n path) (descend_initial K' m path)"
proof (induction n arbitrary: m path)
  case (Suc n)
  then obtain m' where "m = Suc m'" "n \<le> m'" by (cases m) auto
  with Suc.IH show ?case by (auto intro!: kernel_grows)
qed (simp add: kernel_grows)

lemma descend_initial_grows [kernel_grows]:
  "kle (descend_initial K (kn_fuel K) path) (descend_initial K' (kn_fuel K') path)"
  by (rule descend_initial_grows_by [OF fuel])

lemma enter_paths_grow [kernel_grows]:
  "kle (enter_path_and_descend K target) (enter_path_and_descend K' target)"
  "kle (enter_leaf K leaf) (enter_leaf K' leaf)"
  unfolding enter_path_and_descend_def enter_leaf_def by (intro kernel_grows)+

lemma restore_history_grows [kernel_grows]: "kle (restore_history K path) (restore_history K' path)"
  unfolding restore_history_def
  by (auto intro!: kernel_grows split: option.splits history_kind.splits list.splits)

lemma perform_transition_grows [kernel_grows]:
  "kle (perform_transition K source target history local) (perform_transition K' source target history local)"
  unfolding perform_transition_def by (intro kernel_grows)

lemma resolve_choice_chain_grows_by:
  "n \<le> m \<Longrightarrow> kle (resolve_choice_chain K e n t) (resolve_choice_chain K' e m t)"
proof (induction n arbitrary: m t)
  case (Suc n)
  then obtain m' where "m = Suc m'" "n \<le> m'" by (cases m) auto
  with Suc.IH show ?case by (auto simp: Let_def intro!: kernel_grows split: option.splits)
qed (simp add: kernel_grows)

lemma complete_if_final_grows [kernel_grows]: "kle (complete_if_final K) (complete_if_final K')"
  unfolding complete_if_final_def by (intro kernel_grows)

lemma execute_transition_grows: "kle (execute_transition K source_path t e) (execute_transition K' source_path t e)"
  unfolding execute_transition_def
  by (auto intro!: kernel_grows resolve_choice_chain_grows_by [OF fuel] split: option.splits)

lemma initialize_runtime_grows: "kle (initialize_runtime K b) (initialize_runtime K' b)"
  unfolding initialize_runtime_def by (intro kernel_grows)

lemma sends_same [simp]:
  "execute_send_values K' action event targets payload cid vs os =
     execute_send_values K action event targets payload cid vs os"
  "execute_send K' scope e action event targets expressions ce = execute_send K scope e action event targets expressions ce"
proof -
  have "send_one K' event payload cid locator = send_one K event payload cid locator" for event payload cid locator
    by (rule ext)+ (simp only: send_one_def send_emission_def params)
  then show "execute_send_values K' action event targets payload cid vs os =
      execute_send_values K action event targets payload cid vs os"
    for action event targets payload cid vs os
    by (simp only: execute_send_values_def params)
  then show "execute_send K' scope e action event targets expressions ce = execute_send K scope e action event targets expressions ce"
    by (simp only: execute_send_def params)
qed

lemma provider_actions_same [simp]:
  "execute_provider_actions K' scope action binding e = execute_provider_actions K scope action binding e"
proof -
  have "provider_proposals K' scope action fault ps os = provider_proposals K scope action fault ps os" for fault ps os
  proof (induction ps arbitrary: os)
    case (Cons p ps)
    have "provider_send K' action fault send os = provider_send K action fault send os" for send os
      by (simp only: provider_send_def params sends_same)
    with Cons show ?case by (simp only: provider_proposals.simps)
  qed simp
  then show ?thesis by (simp add: execute_provider_actions_def)
qed

lemma execute_spawn_grows [kernel_grows]:
  "kle (execute_spawn K scope e action mid expressions bind_to) (execute_spawn K' scope e action mid expressions bind_to)"
proof -
  have "spawn_child K' = spawn_child K" by (simp add: fun_eq_iff spawn_child_def)
  then show ?thesis unfolding execute_spawn_def params Let_def by (simp only:) (intro kernel_grows)
qed

lemma cancel_instance_grows [kernel_grows]:
  "kle (cancel_instance K scope e action expr) (cancel_instance K' scope e action expr)"
  unfolding cancel_instance_def params
  by (auto intro!: kernel_grows cancel_owned_grows [OF fuel] split: value_splits)

lemma run_action_grows [kernel_grows]: "kle (run_action K scope e action) (run_action K' scope e action)"
  unfolding run_action_def
  by (auto simp: assign_variable_def intro!: kernel_grows split: compiled_action_kind.splits)

lemma run_actions_grow: "kle (run_actions K scope actions e) (run_actions K' scope actions e)"
  by (induction actions) (auto intro!: kernel_grows)

end

lemma kernel_at_params [simp]: "kn_params (kernel_at P n) = P" "kn_fuel (kernel_at P n) = n"
  by (cases n; simp)+

lemma kernel_at_extension: "n \<le> m \<Longrightarrow> kernel_extension (kernel_at P n) (kernel_at P m)"
proof (induction n arbitrary: m)
  case 0
  have "kn_run (kernel_at P 0) = (\<lambda>_ _ _. kout_of_fuel)" "kn_init (kernel_at P 0) = (\<lambda>_. kout_of_fuel)"
    by simp_all
  then show ?case by unfold_locales (auto simp: kle_out_of_fuel simp del: kernel_at.simps)
next
  case (Suc n)
  then obtain m' where m: "m = Suc m'" "n \<le> m'" by (cases m) auto
  with Suc.IH have "kernel_extension (kernel_at P n) (kernel_at P m')" by blast
  with m show ?case
    by unfold_locales
      (simp_all add: kernel_extension.run_actions_grow kernel_extension.initialize_runtime_grows)
qed

interpretation deeper: kernel_extension "kernel_at P n" "kernel_at P (n + k)" for P n k
  by (rule kernel_at_extension) simp

section \<open>Creation and dispatch\<close>

lemma kernel_at_grows:
  assumes "n \<le> m"
  shows "ole (execute_transition (kernel_at P n) source_path t e s) (execute_transition (kernel_at P m) source_path t e s)"
    and "ole (initialize_runtime (kernel_at P n) b s) (initialize_runtime (kernel_at P m) b s)"
proof -
  from assms obtain k where m: "m = n + k" using le_Suc_ex by blast
  show "ole (execute_transition (kernel_at P n) source_path t e s) (execute_transition (kernel_at P m) source_path t e s)"
    using deeper.execute_transition_grows unfolding m kle_def by blast
  show "ole (initialize_runtime (kernel_at P n) b s) (initialize_runtime (kernel_at P m) b s)"
    using deeper.initialize_runtime_grows unfolding m kle_def by blast
qed

lemma step_grows:
  assumes "n \<le> m"
  shows "ole (step_native_aggregate G n B prior d) (step_native_aggregate G m B prior d)"
proof -
  have run: "ole (run_handler G n B prior addr r e p t) (run_handler G m B prior addr r e p t)" for addr r e p t
    unfolding run_handler_def by (rule ole_case [OF kernel_at_grows(1) [OF assms]])
  have "ole (dispatch_selected G n B prior addr r e) (dispatch_selected G m B prior addr r e)" for addr r e
    unfolding dispatch_selected_def by (auto simp: run split: outcome.splits handler_selection.splits)
  then show ?thesis
    unfolding step_native_aggregate_def by (auto split: option.splits outcome.splits)
qed

lemma create_grows:
  assumes "n \<le> m"
  shows "ole (create_native_aggregate G n B mid rid cid b) (create_native_aggregate G m B mid rid cid b)"
  unfolding create_native_aggregate_def Let_def
  by (auto intro!: ole_bind ole_case kernel_at_grows [OF assms] split: option.splits)

text \<open>
  The call depth that bounds the recursion of the kernel does not influence a dispatch:
  any two depths for which it returns, with a result or a panic, agree, and every larger
  depth agrees with a sufficient one.
\<close>
theorem step_fuel_irrelevant:
  assumes "step_native_aggregate G n B prior d \<noteq> OutOfFuel"
    and "n \<le> m \<or> step_native_aggregate G m B prior d \<noteq> OutOfFuel"
  shows "step_native_aggregate G m B prior d = step_native_aggregate G n B prior d"
  using assms step_grows [of n m] step_grows [of m n] ole_result by (metis nat_le_linear)

text \<open>The call depth does not influence the creation of an aggregate either.\<close>
theorem creation_fuel_irrelevant:
  assumes "create_native_aggregate G n B mid rid cid b \<noteq> OutOfFuel"
    and "n \<le> m \<or> create_native_aggregate G m B mid rid cid b \<noteq> OutOfFuel"
  shows "create_native_aggregate G m B mid rid cid b = create_native_aggregate G n B mid rid cid b"
  using assms create_grows [of n m] create_grows [of m n] ole_result by (metis nat_le_linear)

end
