(* ===== verification/Lamp.thy ===== *)
theory Lamp
  imports Aggregates Kernel_Fuel "HOL-Library.Code_Target_Numeral"
begin

text \<open>
  A concrete bundle and its aggregates, on which the theorems about the whole runtime are
  applied: a lamp that can be switched on and that spawns two bulbs, which can be switched
  on, burst (a fault) or stop.  The engine's digest is the end of the
  text, its expressions are literals.
\<close>

definition lamp_action :: "compiled_action_kind \<Rightarrow> string \<Rightarrow> compiled_action" where
  "lamp_action k p = \<lparr>ca_kind = k, ca_pointer = p\<rparr>"

definition lamp_engine :: engine where
  "lamp_engine = \<lparr>eng_cel_parse = (\<lambda>s. if s = ''true'' then Some (ELiteral (LBoolean True))
        else Some (ELiteral (LString s))),
     eng_format_double = (\<lambda>_. ''1''), eng_json_double = (\<lambda>_. ''1''),
     eng_sha256 = (\<lambda>s. filter (\<lambda>c. c \<noteq> CHR 0x22 \<and> c \<noteq> CHR '','' \<and> c \<noteq> CHR '']'') (rev (take 30 (rev s)))),
     eng_invoke_guard = (\<lambda>_ _ _. None), eng_invoke_actions = (\<lambda>_ _ _. None)\<rparr>"

definition lamp_handler :: "compiled_target option \<Rightarrow> compiled_action list \<Rightarrow> compiled_transition list" where
  "lamp_handler t actions = [\<lparr>ct_target = t, ct_guard = None, ct_guard_pointer = None, ct_action = actions,
     ct_local = False, ct_pointer = ''/t''\<rparr>]"

definition lamp_variable :: "string \<Rightarrow> value \<Rightarrow> variable_declaration" where
  "lamp_variable t v = \<lparr>vd_value_type = t, vd_init = Some (Some v), vd_input = False,
     vd_external = False, vd_nullable = Some True, vd_machine_id = None\<rparr>"

definition lamp_root :: "(string \<times> variable_declaration) list \<Rightarrow> string \<Rightarrow> string list \<Rightarrow> state" where
  "lamp_root vars target children = State ''root'' ''/r'' None KindComposite vars [] []
     (Some \<lparr>ci_target = target, ci_action = [], ci_pointer = ''/i''\<rparr>) children [] [] [] None HistoryNone None"

definition lamp_leaf :: "string \<Rightarrow> (string \<times> compiled_transition list) list \<Rightarrow> state" where
  "lamp_leaf path handlers = State path (CHR ''/'' # path) (Some ''root'') KindSimple [] [] [] None [] []
     handlers [] None HistoryNone None"

definition lamp_machine :: machine where
  "lamp_machine = Machine ''lamp'' 1 0 []
     [(''off'', lamp_leaf ''off''
         [(''fork'', lamp_handler None
            [lamp_action (Spawn ''bulb'' \<lparr>be_input = [], be_external = []\<rparr> (Some ''bulb'')) ''/s'',
             lamp_action (Spawn ''bulb'' \<lparr>be_input = [], be_external = []\<rparr> None) ''/u'']),
          (''press'', lamp_handler (Some (TargetState ''on''))
            [lamp_action (Assign ''lit'' ''true'') ''/a'',
             lamp_action (Send ''lit'' [ExternalTarget] [] (Some ''c'')) ''/b''])]),
      (''on'', lamp_leaf ''on'' []),
      (''root'', lamp_root [(''bulb'', lamp_variable ''instance_reference'' VNull),
                            (''lit'', lamp_variable ''bool'' (VBool False))] ''off'' [''off'', ''on''])]
     ''/r'' None None"

definition bulb_machine :: machine where
  "bulb_machine = Machine ''bulb'' 1 1 []
     [(''glow'', lamp_leaf ''glow''
         [(''burst'', lamp_handler None [lamp_action (Assign ''hot'' ''x'') ''/x'']),
          (''press'', lamp_handler None [lamp_action (Assign ''hot'' ''true'') ''/h'']),
          (''stop'', lamp_handler None [lamp_action Stop ''/q''])]),
      (''root'', lamp_root [(''hot'', lamp_variable ''bool'' (VBool False))] ''glow'' [''glow''])]
     ''/r'' None None"

definition lamp_event :: "event_direction \<Rightarrow> event_declaration" where
  "lamp_event d = \<lparr>ev_direction = d, ev_payload = [], ev_correlates_to = None\<rparr>"

definition lamp_bundle :: compiled_bundle where
  "lamp_bundle = \<lparr>b_namespace = ''n'',
     b_events = [(''burst'', lamp_event DirInput), (''fork'', lamp_event DirInput), (''lit'', lamp_event DirOutput),
                 (''press'', lamp_event DirInput), (''stop'', lamp_event DirInput)],
     b_machines = [(''bulb'', bulb_machine), (''lamp'', lamp_machine)],
     b_machine_order = [''lamp'', ''bulb''], b_fingerprint = ''f'', b_normalized = JNull, b_source_compilation = None\<rparr>"

section \<open>Aggregates of the lamp\<close>

definition lamp_slot :: "string \<Rightarrow> variable_declaration \<Rightarrow> value \<Rightarrow> string \<times> variable_slot" where
  "lamp_slot name d v = (variable_key ''root'' name,
     \<lparr>vs_name = name, vs_declaration_path = ''root'', vs_declaration_pointer = ''/r/variables/'' @ name,
      vs_declaration = d, vs_value = v, vs_state_activation_sequence = 0\<rparr>)"

definition lamp_binding :: "string \<Rightarrow> definition_binding" where
  "lamp_binding i = \<lparr>db_validated_bundle_fingerprint = ''f'',
     db_machine = \<lparr>mi_namespace = ''n'', mi_machine_id = i, mi_machine_version = 1,
                   mi_root_definition_pointer = ''/r''\<rparr>\<rparr>"

definition lamp_identity :: string where
  "lamp_identity = ''sha256:11fnlamp1i''"

definition lamp_target :: target where
  "lamp_target = RootTarget ''i'' lamp_identity"

definition bulb_reference :: "nat \<Rightarrow> instance_reference" where
  "bulb_reference n = \<lparr>ref_root_instance_id = ''i'',
     ref_instance_id = (if n = 0 then ''sha256:/s/spawn0nbulb1'' else ''sha256:/u/spawn1nbulb1''),
     ref_machine_id = ''bulb'', ref_machine_version = 1\<rparr>"

definition bulb :: "nat \<Rightarrow> bool \<Rightarrow> owned_runtime" where
  "bulb n hot =
     (let pointer = (if n = 0 then ''/s/spawn'' else ''/u/spawn'');
          hp = (if n = 0 then Some ''root'' else None);
          hptr = (if n = 0 then Some ''/r/variables/bulb'' else None) in
      OwnedRuntime n hp hptr 0 (bulb_reference n)
        (with_core (\<lambda>c. c\<lparr>rc_active := [''glow'', ''root''],
            rc_variables := [lamp_slot ''hot'' (lamp_variable ''bool'' (VBool False)) (VBool hot)],
            rc_next_state_activation_sequence := [(''glow'', 1), (''root'', 1)],
            rc_active_state_activation_sequence := [(''glow'', 0), (''root'', 0)]\<rparr>)
          (new_runtime (ref_instance_id (bulb_reference n)) bulb_machine
            (RelSpawned lamp_identity lamp_target n pointer (bulb_reference n) hp hptr 0)
            (OriginSpawned (lamp_binding ''bulb'') lamp_identity pointer n)
            (SpawnedTarget (bulb_reference n)) (lamp_binding ''bulb'') None)))"

definition lamp :: "string \<Rightarrow> value \<Rightarrow> owned_runtime list \<Rightarrow> native_aggregate" where
  "lamp rid held bulbs =
     \<lparr>ag_document = JNull, ag_validated_bundle_fingerprint = ''f'', ag_namespace = ''n'',
      ag_root_instance_id = ''i'', ag_creation_id = ''c'', ag_migration_sequence = 0,
      ag_wire_runtime_order = [rid],
      ag_root = with_owned (\<lambda>_. bulbs) (with_core (\<lambda>c. c\<lparr>rc_active := [''off'', ''root''],
          rc_variables := [lamp_slot ''bulb'' (lamp_variable ''instance_reference'' VNull) held,
                           lamp_slot ''lit'' (lamp_variable ''bool'' (VBool False)) (VBool False)],
          rc_next_spawn_sequence := (if held = VNull then 0 else 2),
          rc_next_state_activation_sequence := [(''off'', 1), (''root'', 1)],
          rc_active_state_activation_sequence := [(''off'', 0), (''root'', 0)]\<rparr>)
        (new_runtime rid lamp_machine RelRoot (OriginRoot (lamp_binding ''lamp'') ''i'')
          (RootTarget ''i'' rid) (lamp_binding ''lamp'') None)),
      ag_next_logical_step_sequence = (if held = VNull then 1 else 2), ag_next_output_sequence = 0,
      ag_next_acceptance_sequence = 0, ag_next_queue_sequence = 0\<rparr>"

definition lamp_new :: native_aggregate where
  "lamp_new = lamp lamp_identity VNull []"

definition lamp_forked :: native_aggregate where
  "lamp_forked = lamp lamp_identity (VRef (bulb_reference 0)) [bulb 0 False, bulb 1 False]"

definition lamp_input :: "string \<Rightarrow> target \<Rightarrow> delivery option" where
  "lamp_input event t = Some (Input \<lparr>env_event = event, env_event_id = ''e'', env_target = t,
     env_payload = [], env_correlation_id = None\<rparr>)"

definition result_of :: "(core_result, step_fault) outcome \<Rightarrow> core_result" where
  "result_of x = (case x of Ok res \<Rightarrow> res | _ \<Rightarrow> rejected_creation CreateInvalidRequest)"

text \<open>A bell, which sends an effect when it is pressed.\<close>

definition bell_engine :: engine where
  "bell_engine = lamp_engine\<lparr>eng_sha256 := (\<lambda>_. ''0'')\<rparr>"

definition bell_machine :: machine where
  "bell_machine = Machine ''bell'' 1 0 []
     [(''off'', lamp_leaf ''off'' [(''press'', lamp_handler None
         [lamp_action (Send ''lit'' [ExternalTarget] [] (Some ''c'')) ''/b''])]),
      (''root'', lamp_root [] ''off'' [''off''])] ''/r'' None None"

definition bell_bundle :: compiled_bundle where
  "bell_bundle = lamp_bundle\<lparr>b_machines := [(''bell'', bell_machine)], b_machine_order := [''bell'']\<rparr>"

definition bell :: native_aggregate where
  "bell =
     \<lparr>ag_document = JNull, ag_validated_bundle_fingerprint = ''f'', ag_namespace = ''n'',
      ag_root_instance_id = ''i'', ag_creation_id = ''c'', ag_migration_sequence = 0,
      ag_wire_runtime_order = [''sha256:0''],
      ag_root = with_core (\<lambda>c. c\<lparr>rc_active := [''off'', ''root''],
          rc_next_state_activation_sequence := [(''off'', 1), (''root'', 1)],
          rc_active_state_activation_sequence := [(''off'', 0), (''root'', 0)]\<rparr>)
        (new_runtime ''sha256:0'' bell_machine RelRoot (OriginRoot (lamp_binding ''bell'') ''i'')
          (RootTarget ''i'' ''sha256:0'') (lamp_binding ''bell'') None),
      ag_next_logical_step_sequence = 1, ag_next_output_sequence = 0,
      ag_next_acceptance_sequence = 0, ag_next_queue_sequence = 0\<rparr>"

definition bell_rings :: core_result where
  "bell_rings = result_of (step_native_aggregate bell_engine 5 bell_bundle bell
     (lamp_input ''press'' (RootTarget ''i'' ''sha256:0'')))"

definition lamp_step :: "native_aggregate \<Rightarrow> string \<Rightarrow> target \<Rightarrow> core_result" where
  "lamp_step a event t = result_of (step_native_aggregate lamp_engine 5 lamp_bundle a (lamp_input event t))"

lemma lamp_creates:
  "create_native_aggregate lamp_engine 5 lamp_bundle ''lamp'' ''i'' ''c'' bindings_default =
     Ok \<lparr>res_status = StatusRunning, res_disposition = None, res_state = Some lamp_new, res_emissions = [],
         res_fault = None, res_rejection = None\<rparr>"
  by code_simp

lemma lamp_forks:
  "step_native_aggregate lamp_engine 5 lamp_bundle lamp_new (lamp_input ''fork'' lamp_target) =
     Ok \<lparr>res_status = StatusRunning, res_disposition = Some DispHandled, res_state = Some lamp_forked,
         res_emissions = [], res_fault = None, res_rejection = None\<rparr>"
  by code_simp

lemma lamp_forked_reachable: "reachable lamp_engine lamp_bundle lamp_forked"
proof (rule reach_step [OF _ lamp_forks])
  show "reachable lamp_engine lamp_bundle lamp_new" by (rule reach_create [OF lamp_creates]) simp
qed simp

lemma lamp_step_Ok:
  assumes "case step_native_aggregate lamp_engine 5 lamp_bundle a (lamp_input event t) of
      Ok res \<Rightarrow> res_disposition res = d | _ \<Rightarrow> False"
  shows "step_native_aggregate lamp_engine 5 lamp_bundle a (lamp_input event t) = Ok (lamp_step a event t) \<and>
    res_disposition (lamp_step a event t) = d"
  using assms by (auto simp: lamp_step_def result_of_def split: outcome.splits)

abbreviation bulb_target :: target where
  "bulb_target \<equiv> SpawnedTarget (bulb_reference 0)"

lemma bell_presses:
  "step_native_aggregate bell_engine 5 bell_bundle bell
     (lamp_input ''press'' (RootTarget ''i'' ''sha256:0'')) = Ok bell_rings \<and>
   res_disposition bell_rings = Some DispHandled \<and> length (res_emissions bell_rings) = 1"
proof -
  have "case step_native_aggregate bell_engine 5 bell_bundle bell
      (lamp_input ''press'' (RootTarget ''i'' ''sha256:0'')) of
      Ok res \<Rightarrow> res_disposition res = Some DispHandled \<and> length (res_emissions res) = 1 | _ \<Rightarrow> False"
    by code_simp
  then show ?thesis by (auto simp: bell_rings_def result_of_def split: outcome.splits)
qed

lemma bulb_presses:
  "step_native_aggregate lamp_engine 5 lamp_bundle lamp_forked (lamp_input ''press'' bulb_target) =
     Ok (lamp_step lamp_forked ''press'' bulb_target) \<and>
   res_disposition (lamp_step lamp_forked ''press'' bulb_target) = Some DispHandled"
  by (rule lamp_step_Ok) code_simp

lemma bulb_bursts:
  "step_native_aggregate lamp_engine 5 lamp_bundle lamp_forked (lamp_input ''burst'' bulb_target) =
     Ok (lamp_step lamp_forked ''burst'' bulb_target) \<and>
   res_disposition (lamp_step lamp_forked ''burst'' bulb_target) = Some DispFaulted"
  by (rule lamp_step_Ok) code_simp

lemma bulb_stops:
  "step_native_aggregate lamp_engine 5 lamp_bundle lamp_forked (lamp_input ''stop'' bulb_target) =
     Ok (lamp_step lamp_forked ''stop'' bulb_target) \<and>
   res_disposition (lamp_step lamp_forked ''stop'' bulb_target) = Some DispHandled"
  by (rule lamp_step_Ok) code_simp

section \<open>The theorems at the lamp\<close>

theorem step_commits_or_nothing_witness:
  "\<exists>a. res_state bell_rings = Some a \<and> ag_next_logical_step_sequence a = 2"
  using step_commits_or_nothing [OF conjunct1 [OF bell_presses]] bell_presses
  by (auto simp: bell_def)

theorem step_outputs_numbered_witness:
  "\<exists>a. res_state bell_rings = Some a \<and> length (res_emissions bell_rings) = 1 \<and>
     numbered 0 (res_emissions bell_rings) (ag_next_output_sequence a)"
  using step_outputs_numbered [OF conjunct1 [OF bell_presses]] bell_presses
  by (simp add: bell_def)

lemma bulb_address: "resolve_delivery_target lamp_forked bulb_target = Inr [SegSpawn 0]"
  by code_simp

theorem fault_atomic_witness:
  "\<exists>r rec root'. runtime_at (ag_root lamp_forked) [SegSpawn 0] = Some r \<and>
     res_fault (lamp_step lamp_forked ''burst'' bulb_target) = Some rec \<and>
     runtime_at root' [SegSpawn 0] = Some (mark_faulted rec r) \<and>
     core_at root' [] = core_at (ag_root lamp_forked) [] \<and>
     res_state (lamp_step lamp_forked ''burst'' bulb_target) =
       Some (lamp_forked\<lparr>ag_root := root', ag_next_logical_step_sequence := 3\<rparr>)"
proof -
  have "ag_next_logical_step_sequence lamp_forked = 2" by (simp add: lamp_forked_def lamp_def)
  moreover have "addr = [SegSpawn 0]" if "lamp_input ''burst'' bulb_target = Some delivery"
    "resolve_delivery_target lamp_forked (env_target (snd (delivery_parts delivery))) = Inr addr" for delivery addr
    using that bulb_address by (auto simp: lamp_input_def)
  ultimately show ?thesis using fault_atomic [OF conjunct1 [OF bulb_bursts] conjunct2 [OF bulb_bursts]]
    by (simp del: runtime_at.simps) blast
qed

theorem step_isolated_witness:
  "\<exists>a. res_state (lamp_step lamp_forked ''press'' bulb_target) = Some a \<and>
     runtime_at (ag_root a) [SegSpawn 1] = Some (or_runtime (bulb 1 False))"
proof -
  have "\<exists>a. res_state (lamp_step lamp_forked ''press'' bulb_target) = Some a \<and>
      runtime_at (ag_root a) [SegSpawn 1] = runtime_at (ag_root lamp_forked) [SegSpawn 1] \<and>
      a = lamp_forked\<lparr>ag_root := ag_root a, ag_next_logical_step_sequence := ag_next_logical_step_sequence a,
        ag_next_output_sequence := ag_next_output_sequence a\<rparr>"
    by (rule step_isolated [OF conjunct1 [OF bulb_presses, unfolded lamp_input_def], of "[SegSpawn 0]"])
      (code_simp, simp add: addresses_apart_def)
  moreover have "runtime_at (ag_root lamp_forked) [SegSpawn 1] = Some (or_runtime (bulb 1 False))"
    by code_simp
  ultimately show ?thesis by auto
qed

theorem reachable_typed_witness:
  "matches_type (VBool False) ''bool'' \<and>
   (\<exists>key slot. (key, slot) \<in> set (rt_variables (or_runtime (bulb 0 False))) \<and> vs_value slot = VBool False)"
proof -
  have "runtime_at (ag_root lamp_forked) [SegSpawn 0] = Some (or_runtime (bulb 0 False))" by code_simp
  from reachable_typed [OF lamp_forked_reachable this, of "fst (hd (rt_variables (or_runtime (bulb 0 False))))"
      "snd (hd (rt_variables (or_runtime (bulb 0 False))))"]
  show ?thesis by (simp add: bulb_def Let_def lamp_slot_def lamp_variable_def)
qed

theorem reachable_sequences_fresh_witness:
  "distinct (map or_spawn_sequence (rt_owned (ag_root lamp_forked))) \<and>
   list_all (\<lambda>w. or_spawn_sequence w < 2) (rt_owned (ag_root lamp_forked))"
proof -
  have "rc_next_spawn_sequence (rt_core (ag_root lamp_forked)) = 2" by (simp add: lamp_forked_def lamp_def)
  with reachable_sequences_fresh [OF lamp_forked_reachable, of "[]" "ag_root lamp_forked"]
  show ?thesis by (simp add: list_all_iff)
qed

theorem handled_target_frame_witness:
  "\<exists>r r' a. runtime_at (ag_root lamp_forked) [SegSpawn 0] = Some r \<and> core_frame (rt_core r) (rt_core r') \<and>
     res_state (lamp_step lamp_forked ''stop'' bulb_target) = Some a \<and>
     core_at (ag_root a) [] = core_at (ag_root lamp_forked) [] \<and>
     runtime_at (ag_root a) [SegSpawn 0] = (if rt_status r' = Completed then None else Some r')"
proof -
  obtain delivery addr r r' a where st: "lamp_input ''stop'' bulb_target = Some delivery"
      "resolve_delivery_target lamp_forked (env_target (snd (delivery_parts delivery))) = Inr addr"
      "runtime_at (ag_root lamp_forked) addr = Some r" "core_frame (rt_core r) (rt_core r')"
      "res_state (lamp_step lamp_forked ''stop'' bulb_target) = Some a"
      "runtime_at (ag_root a) addr = (if rt_status r' = Completed \<and> spawn_address addr then None else Some r')"
      "\<forall>owner. strict_prefix owner addr \<longrightarrow> core_at (ag_root a) owner = core_at (ag_root lamp_forked) owner"
    using handled_target_frame [OF lamp_forked_reachable conjunct1 [OF bulb_stops] conjunct2 [OF bulb_stops]]
    by (elim exE conjE) (rule that)
  from st(1,2) bulb_address have "addr = [SegSpawn 0]" by (auto simp: lamp_input_def)
  with st(3-7) show ?thesis by (auto simp del: runtime_at.simps)
qed

theorem reachable_root_identity_witness: "validate_root_identity lamp_engine lamp_forked"
  using reachable_root_identity [OF lamp_forked_reachable] by simp

theorem creation_result_witness: "\<exists>k. numbered 0 [] k \<and> k = ag_next_output_sequence lamp_new"
  using creation_result [OF lamp_creates] by simp

theorem admitted_not_rejected_witness:
  "res_rejection (lamp_step lamp_forked ''press'' bulb_target) = None"
proof -
  have "validate_delivery_for_admission lamp_bundle lamp_forked (the (lamp_input ''press'' bulb_target)) =
      Ok ''sha256:/s/spawn0nbulb1''" by code_simp
  moreover have "aggregate_is_valid_for_bundle lamp_engine lamp_forked lamp_bundle" by code_simp
  moreover have "step_native_aggregate lamp_engine 5 lamp_bundle lamp_forked (Some (the (lamp_input ''press'' bulb_target))) =
      Ok (lamp_step lamp_forked ''press'' bulb_target)"
    using bulb_presses by (simp add: lamp_input_def)
  ultimately show ?thesis using admitted_not_rejected by blast
qed

text \<open>A fuse, whose initialisation fails.\<close>

definition fuse_machine :: machine where
  "fuse_machine = Machine ''fuse'' 1 1 []
     [(''root'', State ''root'' ''/r'' None KindComposite [(''hot'', lamp_variable ''bool'' (VBool False))]
         [lamp_action (Assign ''hot'' ''x'') ''/x''] [] (Some \<lparr>ci_target = ''off'', ci_action = [], ci_pointer = ''/i''\<rparr>)
         [''off''] [] [] [] None HistoryNone None),
      (''off'', lamp_leaf ''off'' [])] ''/r'' None None"

definition fuse_kernel :: kernel where
  "fuse_kernel = kernel_at (step_params_of bell_engine bell_bundle bell) 3"

definition fuse_runtime :: runtime_state where
  "fuse_runtime = new_runtime ''sha256:1'' fuse_machine RelRoot (OriginRoot (lamp_binding ''fuse'') ''i'')
     (RootTarget ''i'' ''sha256:1'') (lamp_binding ''fuse'') None"

definition fuse_context :: step_context where
  "fuse_context = \<lparr>cx_cause_id = ''e'', cx_next_output_sequence = 7, cx_emissions = [], cx_provider_writes = []\<rparr>"

theorem child_failure_contained_witness:
  "case initialize_child fuse_kernel ''k'' bindings_default fuse_runtime (ag_root bell, fuse_context) of
     Ok (child, (owner, cx)) \<Rightarrow> rt_status child = Faulted \<and> owner = ag_root bell \<and> cx_next_output_sequence cx = 7
   | _ \<Rightarrow> False"
proof -
  have "case kn_init fuse_kernel bindings_default (fuse_runtime, fuse_context\<lparr>cx_cause_id := ''k''\<rparr>) of
      Err (f, _) \<Rightarrow> sf_code f = ActionFault | _ \<Rightarrow> False" by code_simp
  then obtain f r cx where "kn_init fuse_kernel bindings_default (fuse_runtime, fuse_context\<lparr>cx_cause_id := ''k''\<rparr>) =
      Err (f, (r, cx))" by (auto split: outcome.splits)
  then have "kn_init (kernel_at (step_params_of bell_engine bell_bundle bell) 3) bindings_default
      (fuse_runtime, (snd (ag_root bell, fuse_context))\<lparr>cx_cause_id := ''k''\<rparr>) = Err (f, (r, cx))"
    by (simp add: fuse_kernel_def del: kernel_at.simps)
  from child_failure_contained [OF this] show ?thesis
    by (auto simp: fuse_kernel_def fuse_context_def diagnostic_runtime_def simp del: kernel_at.simps)
qed

theorem step_fuel_irrelevant_witness:
  "step_native_aggregate bell_engine 100 bell_bundle bell (lamp_input ''press'' (RootTarget ''i'' ''sha256:0'')) =
     Ok bell_rings"
  using step_fuel_irrelevant [of bell_engine 5 bell_bundle bell _ 100] bell_presses by simp

theorem creation_fuel_irrelevant_witness:
  "\<exists>res. create_native_aggregate lamp_engine 100 lamp_bundle ''lamp'' ''i'' ''c'' bindings_default = Ok res"
  using creation_fuel_irrelevant [of lamp_engine 5 lamp_bundle "''lamp''" "''i''" "''c''" bindings_default 100]
    lamp_creates by simp

end
