(* ===== verification/Mailbox_Queue.thy ===== *)
theory Mailbox_Queue
  imports Mailbox_Spec
begin

text \<open>
  Deferring the head of a ready mailbox and recalling deferred entries
  (\<^verbatim>\<open>src/format1/v1.rs\<close>) on the abstract state of the mailboxes: the invariant is kept, no
  entry is lost, and what moves gets a new queue number.
\<close>

section \<open>Deferral\<close>

definition requeued :: "counter \<Rightarrow> json \<Rightarrow> json" where
  "requeued q e = jput ''queue_sequence'' (JString (canonical_decimal q)) e"

lemma entry_object: "entry_key k e = Some n \<Longrightarrow> jobject e \<noteq> None"
  by (auto simp: entry_key_def bind_eq_Some_conv simp del: not_None_eq dest: jobject_of_field)

lemma requeued_keys:
  assumes "jobject e \<noteq> None"
  shows "entry_queue (requeued q e) = Some q" "entry_acceptance (requeued q e) = entry_acceptance e"
    "entry_id (requeued q e) = entry_id e" "digest_kept H inst (requeued q e) = digest_kept H inst e"
    "jobject (requeued q e) \<noteq> None"
  using assms by (simp_all add: requeued_def entry_key_def entry_id_def digest_kept_iff jindex_jput del: not_None_eq)

definition deferred_entry :: "counter \<Rightarrow> counter \<Rightarrow> json \<Rightarrow> json" where
  "deferred_entry q deferrals e = jput ''deferral_count'' (JString (canonical_decimal (Suc deferrals))) (requeued q e)"

lemma deferred_entry_keys:
  assumes "jobject e \<noteq> None"
  shows "entry_queue (deferred_entry q n e) = Some q" "entry_acceptance (deferred_entry q n e) = entry_acceptance e"
    "entry_id (deferred_entry q n e) = entry_id e" "digest_kept H inst (deferred_entry q n e) = digest_kept H inst e"
    "entry_key ''deferral_count'' (deferred_entry q n e) = Some (Suc n)"
  using requeued_keys [OF assms, where q = q]
  by (simp_all add: deferred_entry_def entry_key_def entry_id_def digest_kept_iff jindex_jput del: not_None_eq)

lemma renewed_same:
  "mset (map f new) = mset (map f old) \<Longrightarrow> distinct (map f old) \<Longrightarrow> renewed f old new es"
  unfolding renewed_def by (metis image_eqI list.set_map mset_eq_imp_distinct_iff mset_eq_setD)

lemma renewed_fresh:
  assumes "distinct (map f new)" "\<And>x. x \<in> set new \<Longrightarrow> x \<in> set old \<or> f x \<notin> f ` set es"
  shows "renewed f old new es"
  using assms unfolding renewed_def by blast

lemma mailbox_slot_box:
  "runtime_box r = Some (rid, ready, deferred) \<Longrightarrow> mailbox_slot ''ready_mailbox'' r = Ok ready"
  "runtime_box r = Some (rid, ready, deferred) \<Longrightarrow> mailbox_slot ''deferred_mailbox'' r = Ok deferred"
  by (auto simp: runtime_box_def bind_eq_Some_conv mailbox_slot_def jindex_def split: option.split_asm)

lemma remove_ready_head_box:
  assumes "remove_ready_head v rid = Ok (v', e)" "doc_mailboxes v = Some m"
  obtains ready deferred where "box_of m rid = Some (rid, e # ready, deferred)" "doc_mailboxes v' = Some (on_box rid drop_head m)"
proof -
  obtain r r' b where r: "runtime_box r = Some b" "fst b = rid" "jobject r \<noteq> None"
    "obind (mailbox_slot ''ready_mailbox'' r) (\<lambda>es. case es of [] \<Rightarrow> Err invalid_aggregate
         | e # rest \<Rightarrow> Ok (jput ''ready_mailbox'' (JArray rest) r, e)) = Ok (r', e)"
    "find (\<lambda>b. fst b = rid) (mb_boxes m) = Some b"
    "\<forall>b'. runtime_box r' = Some b' \<longrightarrow>
       doc_mailboxes v' = Some (m\<lparr>mb_boxes := update_first (\<lambda>b. fst b = rid) (\<lambda>_. b') (mb_boxes m)\<rparr>)"
    by (rule runtime_object_mut_box [OF assms(1) [unfolded remove_ready_head_def] assms(2)]) blast
  obtain ready deferred where b: "b = (rid, ready, deferred)" using r(2) by (cases b) auto
  from r(1,4) obtain rest where rest: "ready = e # rest" "r' = jput ''ready_mailbox'' (JArray rest) r"
    by (auto simp: b obind_Ok_iff mailbox_slot_box split: list.split_asm)
  have "runtime_box r' = Some (drop_head b)"
    using runtime_box_jput_ready [OF r(1) [unfolded b] r(3)] by (simp add: b rest)
  with r(6) have "doc_mailboxes v' = Some (on_box rid (\<lambda>_. drop_head b) m)" by (simp add: on_box_def)
  then show thesis using that on_box_found [of m rid b drop_head] r(5) by (simp add: box_of_def b rest)
qed

fun defer_box :: "counter \<Rightarrow> counter \<Rightarrow> box \<Rightarrow> box" where
  "defer_box q n (rid, ready, deferred) = (rid, tl ready, deferred @ [deferred_entry q n (hd ready)])"

lemma on_box_on_box:
  "(\<And>b. fst (g b) = fst b) \<Longrightarrow> on_box rid f (on_box rid g m) = on_box rid (\<lambda>b. f (g b)) m"
proof -
  assume g: "\<And>b. fst (g b) = fst b"
  have "update_first (\<lambda>b. fst b = rid) f (update_first (\<lambda>b. fst b = rid) g bs) =
      update_first (\<lambda>b. fst b = rid) (\<lambda>b. f (g b)) bs" for bs
    by (induction bs) (auto simp: g)
  then show ?thesis by (simp add: on_box_def)
qed

lemma push_slot_box:
  assumes "runtime_box r = Some b" "jobject r \<noteq> None"
  shows "push_slot ''ready_mailbox'' es r = Ok (r', x) \<Longrightarrow> runtime_box r' = Some (push_ready es b)"
    "push_slot ''deferred_mailbox'' es r = Ok (r', x) \<Longrightarrow> runtime_box r' = Some (push_deferred es b)"
proof -
  obtain rid ready deferred where b: "b = (rid, ready, deferred)" by (cases b) auto
  note arrays = mailbox_slot_box [OF assms(1) [unfolded b]]
  show "runtime_box r' = Some (push_ready es b)" if "push_slot ''ready_mailbox'' es r = Ok (r', x)"
    using that arrays runtime_box_jput_ready [OF assms(1) [unfolded b] assms(2)] by (auto simp: push_slot_def b)
  show "runtime_box r' = Some (push_deferred es b)" if "push_slot ''deferred_mailbox'' es r = Ok (r', x)"
    using that arrays runtime_box_jput_deferred [OF assms(1) [unfolded b] assms(2)] by (auto simp: push_slot_def b)
qed

lemmas push_slot_on_box =
  runtime_object_mut_on_box [OF _ _ push_slot_box(1)] runtime_object_mut_on_box [OF _ _ push_slot_box(2)]

lemma box_of_on_box:
  "box_of m rid = Some b \<Longrightarrow> fst (g b) = fst b \<Longrightarrow> box_of (on_box rid g m) rid = Some (g b)"
proof -
  have "find (\<lambda>b. fst b = rid) bs = Some b \<Longrightarrow> fst (g b) = fst b \<Longrightarrow>
      find (\<lambda>b. fst b = rid) (update_first (\<lambda>b. fst b = rid) g bs) = Some (g b)" for bs
    by (induction bs) (auto split: if_splits)
  then show "box_of m rid = Some b \<Longrightarrow> fst (g b) = fst b \<Longrightarrow> ?thesis" by (simp add: box_of_def on_box_def)
qed

lemma kept_defer:
  assumes "kept H m" "box_of m rid = Some (rid, e # ready, deferred)"
  shows "kept H (with_counters (mb_acceptance m) (Suc (mb_queue m)) (on_box rid (defer_box (mb_queue m) n) m))"
proof -
  let ?b = "(rid, e # ready, deferred)" and ?q = "mb_queue m"
  note box = kept_box [OF assms] and dist = kept_box_distinct [OF assms] and sub = box_entries_subset [OF assms(2)]
  have low: "the (entry_queue x) < ?q" if "x \<in> set (entries m)" for x
    using kept_entry [OF assms(1) that] by (auto simp: entry_kept_def)
  have e: "entry_kept H (mb_instance m) (mb_acceptance m) ?q e" using box by (simp add: box_kept_def box_entries_def)
  then have obj: "jobject e \<noteq> None" by (auto simp: entry_kept_def simp del: not_None_eq dest: entry_object)
  note keys = deferred_entry_keys [OF obj, where q = ?q and n = n]
  have new: "entry_kept H (mb_instance m) (mb_acceptance m) (Suc ?q) (deferred_entry ?q n e)"
    using e keys by (simp add: entry_kept_def)
  show ?thesis
  proof (rule kept_on_box [OF assms])
    show "box_kept H (mb_instance m) (mb_acceptance m) (Suc ?q) (defer_box ?q n ?b)"
      using box_kept_mono [OF box, of "mb_acceptance m" "Suc ?q"] new low sub keys(1)
      by (auto simp: box_kept_def box_entries_def ordered_def sorted_wrt_append)
    show "renewed (\<lambda>e. the (entry_id e)) (box_entries ?b) (box_entries (defer_box ?q n ?b)) (entries m)"
      by (rule renewed_same [OF _ dist(1)]) (simp add: box_entries_def keys(3))
    show "renewed (\<lambda>e. the (entry_acceptance e)) (box_entries ?b) (box_entries (defer_box ?q n ?b)) (entries m)"
      by (rule renewed_same [OF _ dist(2)]) (simp add: box_entries_def keys(2))
    show "renewed (\<lambda>e. the (entry_queue e)) (box_entries ?b) (box_entries (defer_box ?q n ?b)) (entries m)"
    proof (rule renewed_fresh)
      show "distinct (map (\<lambda>e. the (entry_queue e)) (box_entries (defer_box ?q n ?b)))"
        using dist(3) keys(1) low sub by (force simp: box_entries_def)
    next
      fix x
      assume "x \<in> set (box_entries (defer_box ?q n ?b))"
      then show "x \<in> set (box_entries ?b) \<or> the (entry_queue x) \<notin> (\<lambda>e. the (entry_queue e)) ` set (entries m)"
        using keys(1) low by (force simp: box_entries_def)
    qed
  qed simp_all
qed

lemma defer_head_refines:
  assumes "defer_head H a rid = Ok v" "doc_mailboxes (ag_document a) = Some m" "kept H m"
  obtains e ready deferred n where "box_of m rid = Some (rid, e # ready, deferred)" "entry_key ''deferral_count'' e = Some n"
    "doc_mailboxes v = Some (with_counters (mb_acceptance m) (Suc (mb_queue m)) (on_box rid (defer_box (mb_queue m) n) m))"
proof -
  from assms(1) obtain v1 e v2 queue n v3 x where s: "remove_ready_head (ag_document a) rid = Ok (v1, e)"
      "allocate_counter v1 ''next_queue_sequence'' = Ok (v2, queue)"
      "counter_value (requeued queue e) ''deferral_count'' = Ok n"
      "runtime_object_mut v2 rid (push_slot ''deferred_mailbox'' [deferred_entry queue n e]) = Ok (v3, x)"
      "seal_aggregate H v3 = Ok v"
    by (auto simp: defer_head_def obind_Ok_iff Let_def requeued_def deferred_entry_def)
  obtain ready deferred where b: "box_of m rid = Some (rid, e # ready, deferred)" "doc_mailboxes v1 = Some (on_box rid drop_head m)"
    by (rule remove_ready_head_box [OF s(1) assms(2)])
  from allocate_queue [OF b(2)] s(2) have q: "queue = mb_queue m"
      "doc_mailboxes v2 = Some (with_counters (mb_acceptance m) (Suc (mb_queue m)) (on_box rid drop_head m))"
    by (auto simp: with_counters_def)
  have "fst (drop_head b) = fst b" for b by (cases b) simp
  with push_slot_on_box(2) [OF s(4) q(2)] have
    "doc_mailboxes v3 = Some (with_counters (mb_acceptance m) (Suc (mb_queue m))
       (on_box rid (\<lambda>b. push_deferred [deferred_entry (mb_queue m) n e] (drop_head b)) m))"
    by (simp add: on_box_on_box q(1))
  also have "on_box rid (\<lambda>b. push_deferred [deferred_entry (mb_queue m) n e] (drop_head b)) m =
      on_box rid (defer_box (mb_queue m) n) m"
    using on_box_found [OF b(1), of "\<lambda>b. push_deferred [deferred_entry (mb_queue m) n e] (drop_head b)"]
      on_box_found [OF b(1), of "defer_box (mb_queue m) n"] by simp
  finally have v3: "doc_mailboxes v3 = Some (with_counters (mb_acceptance m) (Suc (mb_queue m)) (on_box rid (defer_box (mb_queue m) n) m))" .
  have "jobject e \<noteq> None"
    using kept_box [OF assms(3) b(1)]
    by (auto simp: box_kept_def box_entries_def entry_kept_def simp del: not_None_eq dest: entry_object)
  then have "entry_key ''deferral_count'' e = Some n"
    using s(3) by (simp add: counter_value_eq requeued_def entry_key_jput)
  with b(1) seal_mailboxes [OF s(5) v3 kept_defer [OF assms(3) b(1)]] that show thesis by blast
qed

text \<open>
  C13: deferring an event keeps the integrity of the mailboxes and loses nothing: the head of
  the ready mailbox becomes the last entry of the deferred mailbox of the same runtime, with
  the next queue number and one more deferral, and with the event identity, the acceptance
  number and the digest it had; every other mailbox is as it was.
\<close>

theorem deferral_moves_head:
  assumes "defer_head H a rid = Ok v" "validate_mailbox_integrity H (ag_document a) = Ok ()"
  shows "validate_mailbox_integrity H v = Ok () \<and>
    (\<exists>m e e' ready deferred n. doc_mailboxes (ag_document a) = Some m \<and> box_of m rid = Some (rid, e # ready, deferred) \<and>
       doc_mailboxes v = Some (with_counters (mb_acceptance m) (Suc (mb_queue m))
         (on_box rid (\<lambda>_. (rid, ready, deferred @ [e'])) m)) \<and>
       entry_id e' = entry_id e \<and> entry_acceptance e' = entry_acceptance e \<and>
       jindex e' ''envelope_digest'' = jindex e ''envelope_digest'' \<and> entry_queue e' = Some (mb_queue m) \<and>
       entry_key ''deferral_count'' e = Some n \<and> entry_key ''deferral_count'' e' = Some (Suc n))"
proof -
  from assms(2) obtain m where m: "doc_mailboxes (ag_document a) = Some m" "kept H m" by (auto simp: integrity_kept)
  obtain e ready deferred n where d: "box_of m rid = Some (rid, e # ready, deferred)" "entry_key ''deferral_count'' e = Some n"
    "doc_mailboxes v = Some (with_counters (mb_acceptance m) (Suc (mb_queue m)) (on_box rid (defer_box (mb_queue m) n) m))"
    by (rule defer_head_refines [OF assms(1) m])
  have obj: "jobject e \<noteq> None" using d(2) by (rule entry_object)
  have "validate_mailbox_integrity H v = Ok ()"
    using d(3) kept_defer [OF m(2) d(1)] integrity_kept by blast
  moreover have "on_box rid (defer_box (mb_queue m) n) m = on_box rid (\<lambda>_. (rid, ready, deferred @ [deferred_entry (mb_queue m) n e])) m"
    using on_box_found [OF d(1), of "defer_box (mb_queue m) n"] by simp
  moreover have "jindex (deferred_entry (mb_queue m) n e) ''envelope_digest'' = jindex e ''envelope_digest''"
    using obj by (simp add: deferred_entry_def requeued_def jindex_jput del: not_None_eq)
  ultimately show ?thesis
    using m(1) d deferred_entry_keys [OF obj, where q = "mb_queue m" and n = n]
    by (intro conjI exI [of _ m] exI [of _ e] exI [of _ "deferred_entry (mb_queue m) n e"] exI [of _ ready] exI [of _ deferred]
        exI [of _ n]) simp_all
qed

section \<open>Recall\<close>

definition recallable :: "runtime_state \<Rightarrow> json \<Rightarrow> bool" where
  "recallable r e \<longleftrightarrow> structural_recall_eligible r (the (jstr (jindex (jindex e ''envelope'') ''event''))) = (Ok True :: (bool, string) outcome)"

fun renumbered :: "counter \<Rightarrow> json list \<Rightarrow> json list" where
  "renumbered q [] = []"
| "renumbered q (e # es) = requeued q e # renumbered (Suc q) es"

fun recall_box :: "runtime_state \<Rightarrow> counter \<Rightarrow> box \<Rightarrow> box" where
  "recall_box r q (rid, ready, deferred) =
     (rid, ready @ renumbered q (filter (recallable r) deferred), filter (\<lambda>e. \<not> recallable r e) deferred)"

lemma recall_entries_refines:
  assumes "recall_entries r v es = Ok (v', retained, recalled)" "doc_mailboxes v = Some m"
  shows "doc_mailboxes v' = Some (with_counters (mb_acceptance m) (mb_queue m + length (filter (recallable r) es)) m) \<and>
    retained = filter (\<lambda>e. \<not> recallable r e) es \<and> recalled = renumbered (mb_queue m) (filter (recallable r) es)"
  using assms
proof (induction es arbitrary: v m retained recalled)
  case Nil
  then show ?case by (cases m) (simp add: with_counters_def)
next
  case (Cons e es)
  from Cons.prems(1) obtain event eligible where ev: "jstr (jindex (jindex e ''envelope'') ''event'') = Some event"
      "structural_recall_eligible r event = (Ok eligible :: (bool, string) outcome)"
    by (auto simp: obind_Ok_iff)
  show ?case
  proof (cases eligible)
    case True
    obtain v1 where v1: "allocate_counter v ''next_queue_sequence'' = Ok (v1, mb_queue m)"
        "doc_mailboxes v1 = Some (m\<lparr>mb_queue := Suc (mb_queue m)\<rparr>)"
      using allocate_queue [OF Cons.prems(2)] by blast
    from Cons.prems(1) ev v1(1) True obtain recalled' where
      "recall_entries r v1 es = Ok (v', retained, recalled')" "recalled = requeued (mb_queue m) e # recalled'"
      by (auto simp: obind_Ok_iff requeued_def)
    with Cons.IH [OF _ v1(2)] ev True show ?thesis by (auto simp: recallable_def with_counters_def)
  next
    case False
    with Cons.prems(1) ev obtain retained' where
      "recall_entries r v es = Ok (v', retained', recalled)" "retained = e # retained'"
      by (auto simp: obind_Ok_iff)
    with Cons.IH [OF _ Cons.prems(2)] ev False show ?thesis by (auto simp: recallable_def)
  qed
qed

definition recall_mailboxes :: "native_aggregate \<Rightarrow> string \<Rightarrow> mailboxes \<Rightarrow> mailboxes" where
  "recall_mailboxes a rid m =
     (case (runtime_by_id rid (ag_root a), box_of m rid) of
        (Some r, Some b) \<Rightarrow>
          if rt_status r \<noteq> Running then m
          else with_counters (mb_acceptance m) (mb_queue m + length (filter (recallable r) (snd (snd b))))
                 (on_box rid (recall_box r (mb_queue m)) m)
      | _ \<Rightarrow> m)"

lemma take_deferred_box:
  assumes "runtime_object_mut v rid (\<lambda>x. obind (mailbox_slot ''deferred_mailbox'' x) (\<lambda>es.
      Ok (jput ''deferred_mailbox'' (JArray []) x, es))) = Ok (v', es)" "doc_mailboxes v = Some m"
  obtains ready where "box_of m rid = Some (rid, ready, es)" "doc_mailboxes v' = Some (on_box rid (\<lambda>_. (rid, ready, [])) m)"
proof -
  obtain r r' b where r: "runtime_box r = Some b" "fst b = rid" "jobject r \<noteq> None"
    "obind (mailbox_slot ''deferred_mailbox'' r) (\<lambda>es. Ok (jput ''deferred_mailbox'' (JArray []) r, es)) = Ok (r', es)"
    "find (\<lambda>b. fst b = rid) (mb_boxes m) = Some b"
    "\<forall>b'. runtime_box r' = Some b' \<longrightarrow>
       doc_mailboxes v' = Some (m\<lparr>mb_boxes := update_first (\<lambda>b. fst b = rid) (\<lambda>_. b') (mb_boxes m)\<rparr>)"
    by (rule runtime_object_mut_box [OF assms]) blast
  obtain ready deferred where b: "b = (rid, ready, deferred)" using r(2) by (cases b) auto
  from r(1,4) have "deferred = es" "r' = jput ''deferred_mailbox'' (JArray []) r" by (auto simp: b mailbox_slot_box)
  with r(6) runtime_box_jput_deferred [OF r(1) [unfolded b] r(3)] that r(5) b show thesis
    by (simp add: on_box_def box_of_def)
qed

lemma set_deferred_on_box:
  assumes "runtime_object_mut v rid (\<lambda>x. Ok (jput ''deferred_mailbox'' (JArray es) x, ())) = Ok (v', u)" "doc_mailboxes v = Some m"
  shows "doc_mailboxes v' = Some (on_box rid (\<lambda>(i, ready, _). (i, ready, es)) m)"
proof -
  have "doc_mailboxes v' = Some (on_box rid (\<lambda>(i, ready, _). (i, ready, es)) m) \<and> box_of m rid \<noteq> None"
  proof (rule runtime_object_mut_on_box [OF assms])
    fix r r' b
    assume "runtime_box r = Some b" "jobject r \<noteq> None"
      "Ok (jput ''deferred_mailbox'' (JArray es) r, ()) = (Ok (r', u) :: (json \<times> unit, string) outcome)"
    then show "runtime_box r' = Some ((\<lambda>(i, ready, _). (i, ready, es)) b)"
      using runtime_box_jput_deferred by (cases b) auto
  qed
  then show ?thesis by blast
qed

lemma on_box_const: "fst c = rid \<Longrightarrow> on_box rid f (on_box rid (\<lambda>_. c) m) = on_box rid (\<lambda>_. f c) m"
proof -
  assume c: "fst c = rid"
  have "update_first (\<lambda>b. fst b = rid) f (update_first (\<lambda>b. fst b = rid) (\<lambda>_. c) bs) =
      update_first (\<lambda>b. fst b = rid) (\<lambda>_. f c) bs" for bs
    by (induction bs) (auto simp: c)
  then show ?thesis by (simp add: on_box_def)
qed

lemma recall_runtime_refines:
  assumes "recall_runtime a rid v = Ok v'" "doc_mailboxes v = Some m"
  shows "doc_mailboxes v' = Some (recall_mailboxes a rid m)"
proof (cases "runtime_by_id rid (ag_root a)")
  case (Some r)
  show ?thesis
  proof (cases "rt_status r = Running")
    case True
    with assms(1) Some obtain v1 frozen v2 retained recalled v3 u v4 where
      s: "runtime_object_mut v rid (\<lambda>x. obind (mailbox_slot ''deferred_mailbox'' x) (\<lambda>es.
           Ok (jput ''deferred_mailbox'' (JArray []) x, es))) = Ok (v1, frozen)"
        "recall_entries r v1 frozen = Ok (v2, retained, recalled)"
        "runtime_object_mut v2 rid (\<lambda>x. Ok (jput ''deferred_mailbox'' (JArray retained) x, ())) = Ok (v3, u)"
        "runtime_object_mut v3 rid (push_slot ''ready_mailbox'' recalled) = Ok (v', v4)"
      by (auto simp: recall_runtime_def obind_Ok_iff)
    obtain ready where b: "box_of m rid = Some (rid, ready, frozen)" "doc_mailboxes v1 = Some (on_box rid (\<lambda>_. (rid, ready, [])) m)"
      by (rule take_deferred_box [OF s(1) assms(2)])
    let ?n = "mb_queue m + length (filter (recallable r) frozen)"
    note re = recall_entries_refines [OF s(2) b(2)]
    then have "doc_mailboxes v2 = Some (with_counters (mb_acceptance m) ?n (on_box rid (\<lambda>_. (rid, ready, [])) m))" by simp
    from push_slot_on_box(1) [OF s(4) set_deferred_on_box [OF s(3) this]]
    have "doc_mailboxes v' = Some (with_counters (mb_acceptance m) ?n (on_box rid (push_ready recalled)
        (on_box rid (\<lambda>(i, ready, _). (i, ready, retained)) (on_box rid (\<lambda>_. (rid, ready, [])) m))))"
      by simp
    also have "on_box rid (push_ready recalled) (on_box rid (\<lambda>(i, ready, _). (i, ready, retained)) (on_box rid (\<lambda>_. (rid, ready, [])) m)) =
        on_box rid (recall_box r (mb_queue m)) m"
      using on_box_found [OF b(1), of "recall_box r (mb_queue m)"] re by (simp add: on_box_const)
    finally show ?thesis using Some True b(1) by (simp add: recall_mailboxes_def)
  qed (use assms Some in \<open>auto simp: recall_runtime_def recall_mailboxes_def split: option.splits\<close>)
qed (use assms in \<open>auto simp: recall_runtime_def recall_mailboxes_def\<close>)

lemma renumbered_keys:
  assumes "list_all (\<lambda>e. jobject e \<noteq> None) es"
  shows "map entry_id (renumbered q es) = map entry_id es"
    "map entry_acceptance (renumbered q es) = map entry_acceptance es"
    "map entry_queue (renumbered q es) = map Some [q..<q + length es]"
    "list_all (digest_kept H inst) (renumbered q es) = list_all (digest_kept H inst) es"
    "map (\<lambda>e. jindex e ''envelope'') (renumbered q es) = map (\<lambda>e. jindex e ''envelope'') es"
proof -
  have "map entry_id (renumbered q es) = map entry_id es \<and>
    map entry_acceptance (renumbered q es) = map entry_acceptance es \<and>
    map entry_queue (renumbered q es) = map Some [q..<q + length es] \<and>
    list_all (digest_kept H inst) (renumbered q es) = list_all (digest_kept H inst) es \<and>
    map (\<lambda>e. jindex e ''envelope'') (renumbered q es) = map (\<lambda>e. jindex e ''envelope'') es"
    using assms
  proof (induction es arbitrary: q)
    case (Cons e es)
    then have "jobject e \<noteq> None" by simp
    moreover have "[q..<q + length (e # es)] = q # [Suc q..<Suc q + length es]" by (simp add: upt_conv_Cons del: upt_Suc)
    ultimately show ?case
      using Cons requeued_keys [where e = e and q = q]
      by (simp add: requeued_def jindex_jput del: not_None_eq upt_Suc)
  qed simp
  then show "map entry_id (renumbered q es) = map entry_id es"
    "map entry_acceptance (renumbered q es) = map entry_acceptance es"
    "map entry_queue (renumbered q es) = map Some [q..<q + length es]"
    "list_all (digest_kept H inst) (renumbered q es) = list_all (digest_kept H inst) es"
    "map (\<lambda>e. jindex e ''envelope'') (renumbered q es) = map (\<lambda>e. jindex e ''envelope'') es"
    by blast+
qed

lemma map_the: "map f xs = map f ys \<Longrightarrow> map (\<lambda>x. the (f x)) xs = map (\<lambda>x. the (f x)) ys"
  by (metis (no_types, lifting) comp_apply list.map_comp map_eq_conv)

lemma renumbered_queues:
  assumes "list_all (\<lambda>e. jobject e \<noteq> None) es"
  shows "map (\<lambda>e. the (entry_queue e)) (renumbered q es) = [q..<q + length es]"
proof -
  have "map (\<lambda>e. the (entry_queue e)) (renumbered q es) = map the (map entry_queue (renumbered q es))" by simp
  also have "\<dots> = [q..<q + length es]" unfolding renumbered_keys(3) [OF assms] by (simp add: map_idI)
  finally show ?thesis .
qed

lemma entry_kept_object: "entry_kept H i na nq e \<Longrightarrow> jobject e \<noteq> None"
  by (auto simp: entry_kept_def simp del: not_None_eq dest: entry_object)

lemma renumbered_kept:
  assumes "list_all (entry_kept H inst na nq) es"
  shows "list_all (entry_kept H inst na (nq + length es)) (renumbered nq es)"
  using assms
proof (induction es arbitrary: nq)
  case (Cons e es)
  from Cons.prems have obj: "jobject e \<noteq> None" by (intro entry_kept_object [of H inst na nq]) simp
  from Cons.prems have "list_all (entry_kept H inst na (Suc nq)) es"
    by (auto simp: list_all_iff intro: entry_kept_mono)
  from Cons.IH [OF this] have "list_all (entry_kept H inst na (nq + length (e # es))) (renumbered (Suc nq) es)" by simp
  moreover have "entry_kept H inst na (nq + length (e # es)) (requeued nq e)"
    using Cons.prems requeued_keys [OF obj, where q = nq] by (auto simp: entry_kept_def)
  ultimately show ?case by simp
qed simp

lemma kept_recall:
  assumes "kept H m" "box_of m rid = Some (rid, ready, deferred)"
  shows "kept H (with_counters (mb_acceptance m) (mb_queue m + length (filter (recallable r) deferred))
     (on_box rid (recall_box r (mb_queue m)) m))"
proof -
  let ?b = "(rid, ready, deferred)" and ?q = "mb_queue m" and ?new = "filter (recallable r) deferred"
  let ?b' = "recall_box r ?q ?b"
  note box = kept_box [OF assms] and dist = kept_box_distinct [OF assms] and sub = box_entries_subset [OF assms(2)]
  have low: "the (entry_queue x) < ?q" if "x \<in> set (entries m)" for x
    using kept_entry [OF assms(1) that] by (auto simp: entry_kept_def)
  have kept: "list_all (entry_kept H (mb_instance m) (mb_acceptance m) ?q) ?new"
    using box by (auto simp: box_kept_def box_entries_def list_all_iff)
  then have obj: "list_all (\<lambda>e. jobject e \<noteq> None) ?new" by (auto simp: list_all_iff dest!: entry_kept_object)
  note queues = renumbered_queues [OF obj, of ?q]
  have high: "?q \<le> the (entry_queue x)" if "x \<in> set (renumbered ?q ?new)" for x
  proof -
    from that have "the (entry_queue x) \<in> set (map (\<lambda>e. the (entry_queue e)) (renumbered ?q ?new))" by simp
    then show ?thesis unfolding queues by simp
  qed
  have inc: "ordered (renumbered ?q ?new)"
  proof -
    have "sorted_wrt (<) (map (\<lambda>e. the (entry_queue e)) (renumbered ?q ?new))" unfolding queues by simp
    then show ?thesis by (simp add: ordered_def sorted_wrt_map)
  qed
  have same: "mset (map (\<lambda>e. f e) (box_entries ?b')) = mset (map f (box_entries ?b))"
    if "map f (renumbered ?q ?new) = map f ?new" for f :: "json \<Rightarrow> 'x"
    using that by (simp add: box_entries_def flip: mset_map) (metis add.commute add.left_commute image_mset_union mset_map multiset_partition mset_filter)
  show ?thesis
  proof (rule kept_on_box [OF assms])
    show "box_kept H (mb_instance m) (mb_acceptance m) (?q + length ?new) ?b'"
      using box_kept_mono [OF box, of "mb_acceptance m" "?q + length ?new"] renumbered_kept [OF kept] inc low high sub
      by (auto simp: box_kept_def box_entries_def ordered_def sorted_wrt_append sorted_wrt_filter list_all_iff) (meson le_less_trans less_le_trans subsetD)+
    show "renewed (\<lambda>e. the (entry_id e)) (box_entries ?b) (box_entries ?b') (entries m)"
      by (rule renewed_same [OF same [OF map_the [OF renumbered_keys(1) [OF obj]]] dist(1)])
    show "renewed (\<lambda>e. the (entry_acceptance e)) (box_entries ?b) (box_entries ?b') (entries m)"
      by (rule renewed_same [OF same [OF map_the [OF renumbered_keys(2) [OF obj]]] dist(2)])
    show "renewed (\<lambda>e. the (entry_queue e)) (box_entries ?b) (box_entries ?b') (entries m)"
    proof (rule renewed_fresh)
      show "distinct (map (\<lambda>e. the (entry_queue e)) (box_entries ?b'))"
        using dist(3) queues low high sub by (force simp: box_entries_def distinct_map_filter)
    next
      fix x
      assume "x \<in> set (box_entries ?b')"
      then show "x \<in> set (box_entries ?b) \<or> the (entry_queue x) \<notin> (\<lambda>e. the (entry_queue e)) ` set (entries m)"
        using low high by (force simp: box_entries_def)
    qed
  qed simp_all
qed

text \<open>What an entry keeps while it waits: its identity, acceptance number and content.\<close>

definition entry_content :: "json \<Rightarrow> string option \<times> counter option \<times> json" where
  "entry_content e = (entry_id e, entry_acceptance e, jindex e ''envelope'')"

definition box_content :: "box \<Rightarrow> string \<times> (string option \<times> counter option \<times> json) multiset" where
  "box_content b = (fst b, mset (map entry_content (box_entries b)))"

lemma recall_box_content:
  assumes "kept H m" "box_of m rid = Some b"
  shows "box_content (recall_box r (mb_queue m) b) = box_content b"
proof -
  obtain ready deferred where b: "b = (rid, ready, deferred)" using assms(2) by (cases b) (auto simp: box_of_def dest: find_SomeD)
  let ?new = "filter (recallable r) deferred"
  have "list_all (entry_kept H (mb_instance m) (mb_acceptance m) (mb_queue m)) ?new"
    using kept_box [OF assms] by (auto simp: b box_kept_def box_entries_def list_all_iff)
  then have obj: "list_all (\<lambda>e. jobject e \<noteq> None) ?new" by (auto simp: list_all_iff dest!: entry_kept_object)
  have "map entry_content (renumbered (mb_queue m) ?new) = map entry_content ?new"
    using renumbered_keys(1,2,5) [OF obj, of "mb_queue m"] by (auto simp: entry_content_def list_eq_iff_nth_eq)
  then show ?thesis
    by (simp add: b box_content_def box_entries_def flip: mset_map)
      (metis add.commute add.left_commute image_mset_union mset_map multiset_partition mset_filter)
qed

lemma box_contents_on_box:
  assumes "box_of m rid = Some b" "box_content (g b) = box_content b"
  shows "map box_content (mb_boxes (on_box rid g m)) = map box_content (mb_boxes m)"
proof -
  have "find p bs = Some b \<Longrightarrow> map box_content (update_first p g bs) = map box_content bs" for p bs
    by (induction bs) (use assms(2) in \<open>auto split: if_splits\<close>)
  with assms(1) show ?thesis by (simp add: box_of_def on_box_def)
qed

lemma recall_mailboxes_keeps:
  assumes "kept H m"
  shows "kept H (recall_mailboxes a rid m)" "map box_content (mb_boxes (recall_mailboxes a rid m)) = map box_content (mb_boxes m)"
proof -
  have "box_of m rid = Some b \<Longrightarrow> \<exists>ready deferred. b = (rid, ready, deferred)" for b
    by (cases b) (auto simp: box_of_def dest: find_SomeD)
  then show "kept H (recall_mailboxes a rid m)" "map box_content (mb_boxes (recall_mailboxes a rid m)) = map box_content (mb_boxes m)"
    using assms kept_recall [OF assms] recall_box_content [OF assms]
    by (fastforce simp: recall_mailboxes_def box_contents_on_box split: option.splits)+
qed

lemma box_of_recall_other: "rid \<noteq> rid' \<Longrightarrow> box_of (recall_mailboxes a rid m) rid' = box_of m rid'"
proof -
  assume "rid \<noteq> rid'"
  moreover have "fst (recall_box r q b) = fst b" for r q b by (cases b) simp
  ultimately have "find (\<lambda>b. fst b = rid') (update_first (\<lambda>b. fst b = rid) (recall_box r q) bs) = find (\<lambda>b. fst b = rid') bs" for r q bs
    by (induction bs) auto
  then show ?thesis by (auto simp: recall_mailboxes_def box_of_def on_box_def with_counters_def split: option.split)
qed

definition none_recallable :: "native_aggregate \<Rightarrow> string \<Rightarrow> mailboxes \<Rightarrow> bool" where
  "none_recallable a rid m \<longleftrightarrow>
     (case (runtime_by_id rid (ag_root a), box_of m rid) of
        (Some r, Some b) \<Rightarrow> rt_status r = Running \<longrightarrow> list_all (\<lambda>e. \<not> recallable r e) (snd (snd b))
      | _ \<Rightarrow> True)"

lemma recall_mailboxes_done: "none_recallable a rid (recall_mailboxes a rid m)"
proof (cases "runtime_by_id rid (ag_root a)"; cases "box_of m rid")
  fix r b
  assume rb: "runtime_by_id rid (ag_root a) = Some r" "box_of m rid = Some b"
  obtain i ready deferred where b: "b = (i, ready, deferred)" by (cases b) auto
  from rb box_of_on_box [OF rb(2), of "recall_box r (mb_queue m)"] show ?thesis
    by (auto simp: none_recallable_def recall_mailboxes_def b list_all_iff)
qed (auto simp: none_recallable_def recall_mailboxes_def)

lemma recall_fold:
  assumes "ofold (recall_runtime a) rids v = Ok v'" "doc_mailboxes v = Some m" "kept H m"
  shows "\<exists>m'. doc_mailboxes v' = Some m' \<and> kept H m' \<and> map box_content (mb_boxes m') = map box_content (mb_boxes m) \<and>
    (\<forall>rid. rid \<in> set rids \<or> none_recallable a rid m \<longrightarrow> none_recallable a rid m')"
  using assms
proof (induction rids arbitrary: v m)
  case (Cons rid rids)
  from Cons.prems(1) obtain v1 where v1: "recall_runtime a rid v = Ok v1" "ofold (recall_runtime a) rids v1 = Ok v'"
    by (auto simp: obind_Ok_iff)
  have "none_recallable a rid' (recall_mailboxes a rid m)" if "rid' = rid \<or> none_recallable a rid' m" for rid'
    using that recall_mailboxes_done [of a rid m] box_of_recall_other [of rid rid' a m]
    by (cases "rid' = rid") (auto simp: none_recallable_def)
  with Cons.IH [OF v1(2) recall_runtime_refines [OF v1(1) Cons.prems(2)] recall_mailboxes_keeps(1) [OF Cons.prems(3)]]
    recall_mailboxes_keeps(2) [OF Cons.prems(3)]
  show ?case by (metis set_ConsD)
qed auto

lemma map_filter_ids:
  "collect_option (map runtime_box rs) = Some bs \<Longrightarrow> List.map_filter (\<lambda>r. jstr (jindex r ''runtime_id'')) rs = map fst bs"
proof (induction rs arbitrary: bs)
  case (Cons r rs)
  then obtain b bs' where "bs = b # bs'" "runtime_box r = Some b" "collect_option (map runtime_box rs) = Some bs'"
    by (auto split: option.split_asm)
  moreover from this(2) have "jstr (jindex r ''runtime_id'') = Some (fst b)" by (auto simp: runtime_box_def bind_eq_Some_conv)
  ultimately show ?case using Cons.IH by (simp add: List.map_filter_simps)
qed (simp add: List.map_filter_simps)

text \<open>
  C14: recalling deferred events loses nothing and leaves nothing behind: the mailboxes keep
  their integrity, every runtime holds the same events with the same acceptance numbers and
  contents as before, and no running runtime has an event left in its deferred mailbox that
  its present state can handle.
\<close>

theorem recall_complete:
  assumes "recall_deferred v a = Ok v'" "validate_mailbox_integrity H v = Ok ()"
  shows "validate_mailbox_integrity H v' = Ok () \<and>
    (\<exists>m m'. doc_mailboxes v = Some m \<and> doc_mailboxes v' = Some m' \<and>
       map box_content (mb_boxes m') = map box_content (mb_boxes m) \<and>
       list_all (\<lambda>b. none_recallable a (fst b) m') (mb_boxes m'))"
proof -
  from assms(2) obtain m where m: "doc_mailboxes v = Some m" "kept H m" by (auto simp: integrity_kept)
  from m(1) obtain rs where rs: "jarray (jindex v ''runtimes'') = Some rs" "collect_option (map runtime_box rs) = Some (mb_boxes m)"
    by (auto simp: doc_mailboxes_def bind_eq_Some_conv)
  with assms(1) map_filter_ids have "ofold (recall_runtime a) (map fst (mb_boxes m)) v = Ok v'"
    by (simp add: recall_deferred_def runtimes_def)
  from recall_fold [OF this m] obtain m' where m': "doc_mailboxes v' = Some m'" "kept H m'"
      "map box_content (mb_boxes m') = map box_content (mb_boxes m)"
      "\<forall>rid. rid \<in> set (map fst (mb_boxes m)) \<or> none_recallable a rid m \<longrightarrow> none_recallable a rid m'"
    by blast
  have "map fst (mb_boxes m') = map fst (mb_boxes m)"
    using arg_cong [OF m'(3), of "map fst"] by (simp add: box_content_def comp_def)
  with m'(4) have "list_all (\<lambda>b. none_recallable a (fst b) m') (mb_boxes m')"
    by (auto simp: list_all_iff) (metis image_eqI list.set_map fst_conv)
  with m m' integrity_kept show ?thesis by blast
qed

end
