(* ===== verification/Lamp_Host.thy ===== *)
theory Lamp_Host
  imports Lamp Mailbox_Queue
begin

text \<open>
  The bell of the lamp in a document: it is created, encoded, restored and sent events through the mailbox
  host, and the theorems about documents and mailboxes are applied to it.
\<close>

definition bell_host :: host where
  "bell_host = \<lparr>ho_engine = bell_engine, ho_canonical_text = (\<lambda>_. Some []),
     ho_delivery_schema = (\<lambda>_. True), ho_aggregate_schema = (\<lambda>_. True), ho_check_bundle = (\<lambda>_. None)\<rparr>"

definition ok_else :: "'a \<Rightarrow> ('a, 'e) outcome \<Rightarrow> 'a" where
  "ok_else d x = (case x of Ok a \<Rightarrow> a | _ \<Rightarrow> d)"

lemma ok_elseI: "(case x of Ok a \<Rightarrow> P a | _ \<Rightarrow> False) \<Longrightarrow> x = Ok (ok_else d x) \<and> P (ok_else d x)"
  by (cases x) (simp_all add: ok_else_def)

definition bell_definition :: json where
  "bell_definition = jobj [(''validated_bundle_fingerprint'', JString ''f''),
     (''machine'', jobj [(''namespace'', JString ''n''), (''machine_id'', JString ''bell''),
        (''machine_version'', JString ''1''), (''root_definition_pointer'', JString ''/r'')])]"

definition bell_target :: json where
  "bell_target = jobj [(''root'', jobj [(''root_instance_id'', JString ''i''), (''root_runtime_id'', JString ''sha256:0'')])]"

definition bell_counter :: "string \<Rightarrow> string \<Rightarrow> string \<Rightarrow> string \<Rightarrow> json" where
  "bell_counter pointer_key number_key pointer number = jobj [(pointer_key, JString pointer), (number_key, JString number)]"

definition bell_record :: "json list \<Rightarrow> json list \<Rightarrow> json" where
  "bell_record ready deferred = jobj
     [(''runtime_id'', JString ''sha256:0''),
      (''identity_origin'', jobj [(''kind'', JString ''root''), (''definition'', bell_definition), (''root_instance_id'', JString ''i'')]),
      (''target_identity'', bell_target), (''current_definition'', bell_definition),
      (''relation'', jobj [(''kind'', JString ''root'')]), (''status'', JString ''running''),
      (''active_leaf_state_definition_pointers'', JArray [JString ''/off'']),
      (''active_state_activations'', JArray (map (\<lambda>p. bell_counter ''state_definition_pointer'' ''activation_sequence'' p ''0'') [''/off'', ''/r''])),
      (''variables'', JArray []), (''history'', JArray []), (''next_spawn_sequence'', JString ''0''),
      (''next_state_activation_sequences'', JArray (map (\<lambda>p. bell_counter ''definition_pointer'' ''next_sequence'' p ''1'') [''/off'', ''/r''])),
      (''next_component_activation_sequences'', JArray []), (''ready_mailbox'', JArray ready),
      (''deferred_mailbox'', JArray deferred), (''fault'', JNull)]"

definition bell_document :: "string \<Rightarrow> string \<Rightarrow> json list \<Rightarrow> json list \<Rightarrow> json" where
  "bell_document acceptance queue ready deferred = jobj
     [(''aggregate_state_format'', JString ''determa.aggregate_state''), (''aggregate_state_schema_version'', JNumber (PosInt 1)),
      (''machine_format'', JNumber (PosInt 1)), (''validated_bundle_fingerprint'', JString ''f''), (''namespace'', JString ''n''),
      (''root_machine_id'', JString ''bell''), (''root_machine_version'', JString ''1''), (''root_instance_id'', JString ''i''),
      (''creation_id'', JString ''c''), (''root_runtime_id'', JString ''sha256:0''), (''migration_sequence'', JString ''0''),
      (''next_logical_step_sequence'', JString ''1''), (''next_output_sequence'', JString ''0''),
      (''next_acceptance_sequence'', JString acceptance), (''next_queue_sequence'', JString queue),
      (''runtimes'', JArray [bell_record ready deferred]), (''aggregate_state_digest'', JString ''sha256:0'')]"

definition bell_stored :: native_aggregate where
  "bell_stored = bell\<lparr>ag_document := bell_document ''0'' ''0'' [] []\<rparr>"

lemma bell_creates: "create_v1 bell_host 5 bell_bundle ''bell'' ''i'' ''c'' bindings_default = Ok bell_stored"
  by code_simp

definition bell_envelope :: "string \<Rightarrow> string \<Rightarrow> queue_envelope" where
  "bell_envelope event event_id = \<lparr>qe_event = event, qe_event_id = event_id, qe_cause_id = event_id,
     qe_source = jobj [(''host'', JBool True)], qe_target = bell_target,
     qe_payload = TMap [], qe_correlation_id = None\<rparr>"

definition bell_delivery :: "string \<Rightarrow> string \<Rightarrow> admission_delivery" where
  "bell_delivery event event_id = \<lparr>ad_delivery_mode = ''input'', ad_envelope = bell_envelope event event_id,
     ad_envelope_digest = ''sha256:0''\<rparr>"

definition bell_batch :: "admission_delivery list" where
  "bell_batch = [bell_delivery ''press'' ''e1'', bell_delivery ''press'' ''e2'']"

definition bell_admission :: json where
  "bell_admission = ok_else JNull (admit_v1 bell_host bell_bundle bell_stored bell_batch)"

definition bell_entry :: "nat \<Rightarrow> nat \<Rightarrow> string \<Rightarrow> json" where
  "bell_entry a q event_id = mailbox_entry a q ''input'' (queue_envelope_json (bell_envelope ''press'' event_id)) ''sha256:0''"

definition bell_waiting :: native_aggregate where
  "bell_waiting = bell\<lparr>ag_document := bell_document ''2'' ''2'' [bell_entry 0 0 ''e1'', bell_entry 1 1 ''e2''] []\<rparr>"

definition bell_mailboxes :: mailboxes where
  "bell_mailboxes = \<lparr>mb_instance = Some ''i'', mb_acceptance = 2, mb_queue = 2,
     mb_boxes = [(''sha256:0'', [bell_entry 0 0 ''e1'', bell_entry 1 1 ''e2''], [])]\<rparr>"

definition bell_deferred :: json where
  "bell_deferred = ok_else JNull (defer_head bell_host bell_waiting ''sha256:0'')"

definition bell_resolver :: resolver where
  "bell_resolver f = (if f = ''f'' then Some \<lparr>rd_bundle = bell_bundle, rd_trusted = True\<rparr> else None)"

lemma bell_stored_integrity: "validate_mailbox_integrity bell_host (ag_document bell_stored) = Ok ()"
  by code_simp

lemma bell_admits:
  "admit_v1 bell_host bell_bundle bell_stored bell_batch = Ok bell_admission \<and>
   (jindex bell_admission ''result'' = JString ''accepted'' \<and> jindex bell_admission ''state'' = ag_document bell_waiting)"
  unfolding bell_admission_def by (rule ok_elseI) code_simp

lemma bell_batch_canonical: "list_all (\<lambda>d. canonical_typed (qe_payload (ad_envelope d))) bell_batch"
  by code_simp

lemma bell_waiting_integrity: "validate_mailbox_integrity bell_host (ag_document bell_waiting) = Ok ()"
  by code_simp

lemma bell_defers:
  "defer_head bell_host bell_waiting ''sha256:0'' = Ok bell_deferred \<and>
   validate_mailbox_integrity bell_host bell_deferred = Ok ()"
  unfolding bell_deferred_def by (rule ok_elseI) code_simp

section \<open>The theorems at the bell\<close>


theorem admission_exactly_once_witness:
  "\<exists>status l. admit_v1 bell_host bell_bundle bell_waiting [bell_delivery ''press'' ''e2''] =
     Ok (replay_result (ag_document bell_waiting) status ''e2'' l)"
proof -
  have "bell_delivery ''press'' ''e2'' \<in> set bell_batch" by (simp add: bell_batch_def)
  from admission_exactly_once [OF conjunct1 [OF bell_admits] _ bell_stored_integrity bell_batch_canonical this, of bell] bell_admits
  show ?thesis by (simp add: bell_waiting_def bell_delivery_def bell_envelope_def)
qed

theorem retained_identity_protected_witness:
  "\<exists>l. admit_v1 bell_host bell_bundle bell_waiting [bell_delivery ''press'' ''e1''] =
     Ok (replay_result (ag_document bell_waiting) ''running'' ''e1'' l)"
proof -
  have "doc_mailboxes (ag_document bell_waiting) = Some bell_mailboxes" by code_simp
  moreover have "bell_entry 0 0 ''e1'' \<in> set (entries bell_mailboxes)"
    by (simp add: bell_mailboxes_def entries_def box_entries_def)
  moreover have "entry_id (bell_entry 0 0 ''e1'') = Some (qe_event_id (ad_envelope (bell_delivery ''press'' ''e1'')))"
    by (simp add: bell_entry_def bell_delivery_def bell_envelope_def)
  moreover have "delivery_digest bell_host (mb_instance bell_mailboxes) (bell_delivery ''press'' ''e1'') = Ok ''sha256:0''"
    by code_simp
  moreover have "aggregate_status (ag_document bell_waiting) = Ok ''running''" by code_simp
  ultimately show ?thesis
    using retained_identity_protected [OF bell_waiting_integrity, of bell_mailboxes "bell_entry 0 0 ''e1''"
        "bell_delivery ''press'' ''e1''" bell_bundle "''sha256:0''" "''running''"]
    by (auto simp: bell_host_def bell_entry_def bell_delivery_def bell_envelope_def)
qed

theorem deferral_moves_head_witness:
  "\<exists>m. doc_mailboxes bell_deferred = Some m \<and> mb_acceptance m = 2 \<and> mb_queue m = 3"
proof -
  have "doc_mailboxes (ag_document bell_waiting) = Some bell_mailboxes" by code_simp
  with deferral_moves_head [OF conjunct1 [OF bell_defers] bell_waiting_integrity] show ?thesis
    by (auto simp: bell_mailboxes_def)
qed

definition bell_recalled :: json where
  "bell_recalled = ok_else JNull (recall_deferred bell_deferred bell)"

theorem recall_complete_witness:
  "\<exists>m. doc_mailboxes bell_recalled = Some m \<and> list_all (\<lambda>b. none_recallable bell (fst b) m) (mb_boxes m)"
proof -
  have "case recall_deferred bell_deferred bell of Ok _ \<Rightarrow> True | _ \<Rightarrow> False" by code_simp
  then have "recall_deferred bell_deferred bell = Ok bell_recalled" unfolding bell_recalled_def by (rule conjunct1 [OF ok_elseI])
  from recall_complete [OF this conjunct2 [OF bell_defers]] show ?thesis by blast
qed

definition bell_encoded :: aggregate_envelope where
  "bell_encoded = the (envelope_of (ag_document bell_waiting))"

theorem envelope_json_roundtrip_witness: "envelope_of (envelope_json bell_encoded) = Some bell_encoded"
  by (rule envelope_json_roundtrip) code_simp

theorem restore_keeps_records_witness:
  "\<exists>a. restore_envelope bell_engine bell_resolver bell_encoded = Ok a \<and>
     mset (map rc_ready_mailbox (tree_cores (ag_root a))) = {#[bell_entry 0 0 ''e1'', bell_entry 1 1 ''e2'']#}"
proof -
  have "case restore_envelope bell_engine bell_resolver bell_encoded of Ok _ \<Rightarrow> True | _ \<Rightarrow> False" by code_simp
  then obtain a where a: "restore_envelope bell_engine bell_resolver bell_encoded = Ok a" by (auto split: outcome.splits)
  have d: "distinct (map ww_runtime_id (ae_runtimes bell_encoded)) \<and>
      map ww_ready_mailbox (ae_runtimes bell_encoded) = [[bell_entry 0 0 ''e1'', bell_entry 1 1 ''e2'']]" by code_simp
  have "mset (map rc_ready_mailbox (tree_cores (ag_root a))) =
      image_mset (fst \<circ> snd \<circ> snd) (mset (map (\<lambda>c. (rc_runtime_id c, rc_status c, rc_ready_mailbox c, rc_deferred_mailbox c)) (tree_cores (ag_root a))))"
    by (simp add: image_mset.compositionality comp_def)
  also have "\<dots> = image_mset (fst \<circ> snd \<circ> snd) (mset (map (\<lambda>w. (ww_runtime_id w, ww_status w, ww_ready_mailbox w, ww_deferred_mailbox w)) (ae_runtimes bell_encoded)))"
    using restore_keeps_records [OF a] d by simp
  also have "\<dots> = mset (map ww_ready_mailbox (ae_runtimes bell_encoded))"
    by (simp add: image_mset.compositionality comp_def)
  finally show ?thesis using a d by simp
qed

end
