(* ===== verification/Bell_Checkpoint.thy ===== *)
theory Bell_Checkpoint
  imports Lamp_Host Checkpoint_Replay
begin

text \<open>
  The bell in an execution checkpoint: events are processed, effects settled and receipts pruned,
  and the theorems about checkpoints are applied to it.
\<close>

definition bell_checkpoint_host :: checkpoint_host where
  "bell_checkpoint_host = \<lparr>ck_host = bell_host, ck_schema = (\<lambda>_. True), ck_parse = (\<lambda>_. None)\<rparr>"

definition bell_retention :: json where
  "bell_retention = jobj [(''mode'', JString ''permanent''), (''permanent_replay_eligible'', JBool True)]"

definition bell_creation :: "json list \<Rightarrow> json" where
  "bell_creation references = jobj
     [(''operation_kind'', JString ''creation''), (''receipt_sequence'', JString ''0''), (''creation_id'', JString ''c''),
      (''request_digest'', JString ''sha256:0''), (''committed_revision'', JString ''0''),
      (''resulting_aggregate_state_digest'', JString ''sha256:0''), (''status'', JString ''running''), (''fault'', JNull),
      (''emission_references'', JArray references)]"

definition bell_accepted :: "string \<Rightarrow> string \<Rightarrow> string \<Rightarrow> json" where
  "bell_accepted sequence event_id acceptance = jobj
     [(''operation_kind'', JString ''acceptance''), (''receipt_sequence'', JString sequence), (''event_id'', JString event_id),
      (''request_digest'', JString ''sha256:0''), (''acceptance_sequence'', JString acceptance),
      (''accepted_revision'', JString ''1''), (''delivery_mode'', JString ''input'')]"

definition bell_ended :: "string \<Rightarrow> string \<Rightarrow> string \<Rightarrow> json" where
  "bell_ended sequence event_id acceptance = jobj
     [(''operation_kind'', JString ''event_terminal''), (''receipt_sequence'', JString sequence), (''event_id'', JString event_id),
      (''request_digest'', JString ''sha256:0''), (''acceptance_sequence'', JString acceptance),
      (''final_queue_sequence'', JString acceptance), (''committed_revision'', JString ''1''),
      (''resulting_aggregate_state_digest'', JString ''sha256:0''),
      (''outcome'', jobj [(''status'', JString ''running''), (''disposition'', JString ''ignored''), (''fault'', JNull), (''rejection'', JNull)]),
      (''emission_references'', JArray [])]"

definition bell_intent :: json where
  "bell_intent = outbox_intent_json \<lparr>oi_effect_id = ''x'', oi_sequence = 0, oi_event = ''rang'', oi_payload = TMap [],
     oi_correlation_id = None\<rparr>"

definition bell_effect :: json where
  "bell_effect = jobj [(''kind'', JString ''external_outbox''), (''emission_index'', JString ''0''), (''effect_id'', JString ''x'')]"

definition bell_execution :: "json \<Rightarrow> string \<Rightarrow> string \<Rightarrow> json list \<Rightarrow> json list \<Rightarrow> json" where
  "bell_execution aggregate revision next_receipt receipts pending = jobj
     [(''execution_checkpoint_format'', JString ''determa.execution_checkpoint''),
      (''execution_checkpoint_schema_version'', JNumber (PosInt 1)), (''root_instance_id'', JString ''i''),
      (''revision'', JString revision),
      (''root_record'', jobj [(''status'', JString ''retained''), (''aggregate_state'', aggregate)]),
      (''replay_retention'', bell_retention), (''next_operation_receipt_sequence'', JString next_receipt),
      (''operation_receipts'', JArray receipts), (''event_identity_tombstones'', JArray []),
      (''pending_outbox_intents'', JArray pending), (''next_outbox_terminal_sequence'', JString ''0''),
      (''terminal_outbox_records'', JArray []), (''outbox_effect_tombstones'', JArray []),
      (''migration_audit_records'', JArray []), (''execution_checkpoint_digest'', JString ''sha256:0'')]"

definition bell_emitted :: execution_checkpoint where
  "bell_emitted = \<lparr>cp_value = bell_execution (bell_document ''0'' ''0'' [] []) ''0'' ''1'' [bell_creation [bell_effect]]
       [pending_intent bell_intent (JString ''0'')],
     cp_aggregate = Some bell_stored\<rparr>"

definition bell_admitted :: execution_checkpoint where
  "bell_admitted = \<lparr>cp_value = bell_execution (ag_document bell_waiting) ''1'' ''3''
       [bell_creation [], bell_accepted ''1'' ''e1'' ''0'', bell_accepted ''2'' ''e2'' ''1''] [],
     cp_aggregate = Some bell_waiting\<rparr>"

definition bell_processed :: execution_checkpoint where
  "bell_processed = \<lparr>cp_value = bell_execution (bell_document ''2'' ''2'' [] []) ''1'' ''5''
       [bell_creation [], bell_accepted ''1'' ''e1'' ''0'', bell_accepted ''2'' ''e2'' ''1'',
        bell_ended ''3'' ''e1'' ''0'', bell_ended ''4'' ''e2'' ''1''] [],
     cp_aggregate = Some (bell\<lparr>ag_document := bell_document ''2'' ''2'' [] []\<rparr>)\<rparr>"

section \<open>The theorems at the bell\<close>

definition bell_settled :: json where
  "bell_settled = ok_else JNull (checkpoint_terminalize_outbox bell_checkpoint_host bell_emitted ''x'' Confirmed (Some ''0'') (Some ''sha256:0''))"

lemma bell_settles:
  "checkpoint_terminalize_outbox bell_checkpoint_host bell_emitted ''x'' Confirmed (Some ''0'') (Some ''sha256:0'') = Ok bell_settled \<and>
   bell_settled \<noteq> cp_value bell_emitted"
  unfolding bell_settled_def by (rule ok_elseI) code_simp

definition bell_compacted :: json where
  "bell_compacted = ok_else JNull (checkpoint_compact_outbox bell_checkpoint_host \<lparr>cp_value = bell_settled, cp_aggregate = None\<rparr> ''x'' None None)"

lemma bell_compacts:
  "checkpoint_compact_outbox bell_checkpoint_host \<lparr>cp_value = bell_settled, cp_aggregate = None\<rparr> ''x'' None None = Ok bell_compacted \<and>
   bell_compacted \<noteq> bell_settled"
  unfolding bell_compacted_def by (rule ok_elseI) code_simp

theorem effect_settled_for_good_witness:
  "checkpoint_terminalize_outbox bell_checkpoint_host \<lparr>cp_value = bell_compacted, cp_aggregate = None\<rparr> ''x'' (Discarded ''late'') None None =
     Err ''effect_id_conflict''"
proof -
  from adv_compact [OF conjunct1 [OF bell_compacts]] have "(advances bell_checkpoint_host)\<^sup>*\<^sup>* bell_settled bell_compacted" by simp
  then show ?thesis
    using effect_settled_for_good [OF conjunct1 [OF bell_settles],
        of "\<lparr>cp_value = bell_compacted, cp_aggregate = None\<rparr>" "Discarded ''late''" None None] by simp
qed

definition bell_request :: processing_request where
  "bell_request = \<lparr>pq_target_runtime_id = ''sha256:0'', pq_event_id = ''e1'', pq_envelope_digest = ''sha256:0'',
     pq_acceptance_sequence = ''0'', pq_queue_sequence = ''0'', pq_processing_mode = ''foreground''\<rparr>"

definition bell_prune :: prune_request where
  "bell_prune = \<lparr>pr_cutoff = ''4'', pr_target_mode = ''bounded'', pr_policy_identifier = Some ''p'',
     pr_dependency_receipts = [], pr_dependency_effects = []\<rparr>"

definition bell_pruned :: json where
  "bell_pruned = ok_else JNull (checkpoint_prune_v1 bell_checkpoint_host bell_processed bell_prune None None)"

lemma bell_prunes:
  "checkpoint_prune_v1 bell_checkpoint_host bell_processed bell_prune None None = Ok bell_pruned \<and>
   map (\<lambda>r. jindex r ''receipt_sequence'') (jflatten (jindex bell_pruned ''operation_receipts'')) = [JString ''0'']"
  unfolding bell_pruned_def by (rule ok_elseI) code_simp

theorem prune_keeps_identities_witness:
  "\<exists>m. retained_identity bell_pruned = Ok m \<and> map_option re_digest (bm_get m ''e1'') = Some ''sha256:0'' \<and> bm_get m ''e3'' = None"
proof -
  have "case retained_identity (cp_value bell_processed) of
      Ok m \<Rightarrow> map_option re_digest (bm_get m ''e1'') = Some ''sha256:0'' \<and> bm_get m ''e3'' = None | _ \<Rightarrow> False" by code_simp
  then obtain m where m: "retained_identity (cp_value bell_processed) = Ok m"
      "map_option re_digest (bm_get m ''e1'') = Some ''sha256:0''" "bm_get m ''e3'' = None" by (auto split: outcome.splits)
  from prune_keeps_identities [OF conjunct1 [OF bell_prunes] m(1)] obtain m' where m': "retained_identity bell_pruned = Ok m'"
      "\<forall>e. map_option re_digest (bm_get m' e) = map_option re_digest (bm_get m e)" by blast
  have "map_option re_digest (bm_get m' ''e1'') = Some ''sha256:0''" using m'(2) m(2) by metis
  moreover have "bm_get m' ''e3'' = None" using m'(2) m(3) by (metis option.map_disc_iff)
  ultimately show ?thesis using m'(1) by blast
qed

end
