(* ===== verification/Bell_Host.thy ===== *)
theory Bell_Host
  imports Host_Theorems Bell_Checkpoint
begin

text \<open>
  The bell behind a checkpoint host on the in-memory store: it is stepped, and the theorems about
  the host are applied to it.
\<close>

definition bell_rung :: json where
  "bell_rung = jput ''next_logical_step_sequence'' (JString ''2'') (jput ''next_output_sequence'' (JString ''1'')
     (bell_document ''2'' ''2'' [bell_entry 1 1 ''e2''] []))"

definition bell_lit :: json where
  "bell_lit = outbox_intent_json \<lparr>oi_effect_id = ''sha256:0'', oi_sequence = 0, oi_event = ''lit'', oi_payload = TMap [],
     oi_correlation_id = Some ''c''\<rparr>"

definition bell_handled :: json where
  "bell_handled = jput ''committed_revision'' (JString ''2'')
     (jput ''outcome'' (jobj [(''status'', JString ''running''), (''disposition'', JString ''handled''), (''fault'', JNull), (''rejection'', JNull)])
     (jput ''emission_references'' (JArray [jobj [(''kind'', JString ''external_outbox''), (''emission_index'', JString ''0''),
        (''effect_id'', JString ''sha256:0'')]]) (bell_ended ''3'' ''e1'' ''0'')))"

definition bell_after :: json where
  "bell_after = bell_execution bell_rung ''2'' ''4''
     [bell_creation [], bell_accepted ''1'' ''e1'' ''0'', bell_accepted ''2'' ''e2'' ''1'', bell_handled]
     [pending_intent bell_lit (JString ''2'')]"

text \<open>The texts of the four documents, and no text for any other.\<close>

definition bell_texts :: "(string \<times> json) list" where
  "bell_texts = [(''aggregate'', ag_document bell_waiting), (''checkpoint'', cp_value bell_admitted),
     (''aggregate rung'', bell_rung), (''checkpoint rung'', bell_after)]"

definition bell_print :: "json \<Rightarrow> string" where
  "bell_print v = (if jobject v = None then [] else case find (\<lambda>(t, w). w = v) bell_texts of None \<Rightarrow> [] | Some (t, _) \<Rightarrow> t)"

definition bell_schema :: "json \<Rightarrow> bool" where
  "bell_schema v \<longleftrightarrow> is_checkpoint v \<and>
     list_all (\<lambda>r. commit_candidate r = None) (jflatten (jindex v ''operation_receipts'') @ jflatten (jindex v ''event_identity_tombstones''))"

definition bell_reader :: checkpoint_host where
  "bell_reader = \<lparr>ck_host = bell_host\<lparr>ho_canonical_text := \<lambda>v. Some (bell_print v)\<rparr>, ck_schema = bell_schema,
     ck_parse = map_of bell_texts\<rparr>"

lemma bell_reader_typed: "documents_typed bell_reader"
  by (auto simp: documents_typed_def bell_reader_def bell_schema_def list_all_iff)

lemma bell_reader_faithful: "text_faithful bell_reader"
proof -
  have "w = v" if "map_of bell_texts (bell_print v) = Some w" for v w
    using that by (auto simp: bell_texts_def bell_print_def split: if_split_asm)
  then show ?thesis by (auto simp: text_faithful_def bell_reader_def)
qed

definition bell_artifacts :: artifact_resolver where
  "bell_artifacts = \<lparr>ar_definition = single_bundle_resolver bell_bundle, ar_descriptor = (\<lambda>_. None)\<rparr>"

definition bell_hosted :: "memory_execution_store execution_host" where
  "bell_hosted = \<lparr>eh_checkpoint = bell_reader, eh_codec = \<lparr>ac_parse = (\<lambda>_. None), ac_descriptor_schema = (\<lambda>_. False)\<rparr>,
     eh_resolver = bell_artifacts, eh_fuel = 5, eh_access = memory_access, eh_capabilities = memory_capabilities, eh_verified = None,
     eh_acknowledger = None\<rparr>"

definition bell_row :: store_record where
  "bell_row = \<lparr>sr_root_instance_id = ''i'', sr_revision = ''1'', sr_execution_checkpoint_digest = ''sha256:0'', sr_bytes = ''checkpoint''\<rparr>"

definition bell_store :: memory_execution_store where
  "bell_store = \<lparr>ms_records = [(''i'', bell_row)], ms_poisoned = False\<rparr>"

definition bell_guard :: mutation_guard where
  "bell_guard = \<lparr>mg_expected_revision = ''1'', mg_expected_checkpoint_digest = ''sha256:0''\<rparr>"

definition bell_store_after :: memory_execution_store where
  "bell_store_after = \<lparr>ms_records = [(''i'', \<lparr>sr_root_instance_id = ''i'', sr_revision = ''2'',
     sr_execution_checkpoint_digest = ''sha256:0'', sr_bytes = ''checkpoint rung''\<rparr>)], ms_poisoned = False\<rparr>"

lemma bell_hosted_simps [simp]:
  "eh_checkpoint bell_hosted = bell_reader" "eh_fuel bell_hosted = 5"
  "mg_expected_revision bell_guard = ''1''" "mg_expected_checkpoint_digest bell_guard = ''sha256:0''"
  by (simp_all add: bell_hosted_def bell_guard_def)

lemma bell_loads:
  "case restore_record_v1 bell_hosted bell_row of
     Ok cp \<Rightarrow> checkpoint_step_replay cp bell_request = Ok None \<and>
       (case checkpoint_v1_bundle bell_hosted cp of
          Ok B \<Rightarrow> (case checkpoint_step_v1_with_core bell_reader 5 B cp bell_request (Some ''1'') (Some ''sha256:0'') of
              Ok (v, Some core) \<Rightarrow> v = bell_after \<and> jindex core ''disposition'' = JString ''handled''
            | _ \<Rightarrow> False)
        | _ \<Rightarrow> False)
   | _ \<Rightarrow> False"
  by code_simp

lemma bell_commits: "commit_v1_result_with_store bell_hosted bell_row bell_after bell_store = (Ok (), bell_store_after)"
  by code_simp

lemma bell_host_steps:
  "\<exists>core. step_checkpoint_with_core bell_hosted ''i'' bell_request bell_guard bell_store = (Ok (bell_after, Some core), bell_store_after) \<and>
     jindex core ''disposition'' = JString ''handled''"
proof -
  have load: "map_store_error (sa_load (eh_access bell_hosted) ''i'') bell_store = (Ok (Some bell_row), bell_store)" by code_simp
  from bell_loads obtain cp B core where cp: "restore_record_v1 bell_hosted bell_row = Ok cp" "checkpoint_step_replay cp bell_request = Ok None"
      "checkpoint_v1_bundle bell_hosted cp = Ok B"
      "checkpoint_step_v1_with_core bell_reader 5 B cp bell_request (Some ''1'') (Some ''sha256:0'') = Ok (bell_after, Some core)"
      "jindex core ''disposition'' = JString ''handled''"
    by (auto split: outcome.split_asm option.split_asm prod.split_asm)
  then have "step_checkpoint_with_core bell_hosted ''i'' bell_request bell_guard bell_store = (Ok (bell_after, Some core), bell_store_after)"
    using load bell_commits
    by (simp add: step_checkpoint_with_core_def require_checkpoint_v1_with_store_def hbind_def hlift_def ok_or_def)
  with cp(5) show ?thesis by blast
qed

lemma bell_keyed: "keyed memory_view bell_store"
  by (auto simp: keyed_def bell_store_def bell_row_def bm_get_def split: if_split_asm)

lemmas bell_laws = bell_reader_faithful bell_reader_typed bell_keyed

lemma bell_accessed [simp]: "eh_access bell_hosted = memory_access"
  by (simp add: bell_hosted_def)

theorem host_writes_next_revision_witness:
  "\<exists>r'. memory_view bell_store_after = (memory_view bell_store)(''i'' \<mapsto> r') \<and> sr_revision r' = canonical_decimal 2"
proof -
  let ?m = "MutStep ''i'' bell_request bell_guard"
  obtain core where "step_checkpoint_with_core bell_hosted ''i'' bell_request bell_guard bell_store = (Ok (bell_after, Some core), bell_store_after)"
    using bell_host_steps by blast
  then have run: "run_mutation bell_hosted ?m bell_store = (Ok (ResultStep bell_after), bell_store_after)"
    by (simp add: step_checkpoint_with_store_def hmap_def hbind_def hlift_def)
  have changed: "memory_view bell_store_after \<noteq> memory_view bell_store"
    by (auto simp: fun_eq_iff bell_store_def bell_store_after_def bell_row_def bm_get_def intro!: exI [of _ "''i''"])
  have one: "c = 1" if "''1'' = canonical_decimal c" for c
  proof -
    have "canonical_decimal 1 = ''1''" by code_simp
    with that have "from_decimal (canonical_decimal c) = from_decimal (canonical_decimal 1)" by simp
    then show ?thesis by simp
  qed
  from host_writes_next_revision [OF _ _ _ bell_keyed _ run] changed obtain r r' c where
      "memory_view bell_store ''i'' = Some r" "sr_revision r = canonical_decimal c" "sr_revision r' = canonical_decimal (Suc c)"
      "memory_view bell_store_after = (memory_view bell_store)(''i'' \<mapsto> r')"
    by (auto simp: bell_laws)
  moreover from this(1,2) have "c = 1" by (intro one) (auto simp: bell_store_def bell_row_def bm_get_def)
  ultimately show ?thesis by (auto simp: numeral_2_eq_2)
qed

theorem commit_guarded_one_revision_witness:
  "\<exists>c. jcounter (jindex (cp_value bell_admitted) ''revision'') = Some c \<and> jcounter (jindex bell_after ''revision'') = Some (Suc c)"
proof -
  from bell_loads obtain cp B core where "restore_record_v1 bell_hosted bell_row = Ok cp"
      "checkpoint_step_v1_with_core bell_reader 5 B cp bell_request (Some ''1'') (Some ''sha256:0'') = Ok (bell_after, Some core)"
    by (auto split: outcome.split_asm option.split_asm prod.split_asm)
  moreover have "cp_value cp = cp_value bell_admitted" if "restore_record_v1 bell_hosted bell_row = Ok cp" for cp
    using that by (auto simp: restore_record_Ok restore_execution_checkpoint_def obind_Ok_iff bell_hosted_def bell_reader_def bell_row_def
        bell_texts_def ok_or_def dest: restore_value_value)
  moreover have "ck_schema bell_reader (cp_value bell_admitted)" "commit_candidate bell_after = Some bell_after"
      "bell_after \<noteq> cp_value bell_admitted" by code_simp+
  ultimately show ?thesis
    using commit_guarded_one_revision [OF bell_reader_typed _ ans_step, of cp 5 B bell_request "''1''" "''sha256:0''" bell_after "Some core" bell_after]
    by auto
qed

theorem host_guard_wins_once_witness:
  "memory_view (snd (run_mutation bell_hosted (MutPrune ''i'' bell_prune bell_guard) bell_store_after)) = memory_view bell_store_after"
proof -
  let ?m = "MutStep ''i'' bell_request bell_guard" and ?p = "MutPrune ''i'' bell_prune bell_guard"
  obtain core where "step_checkpoint_with_core bell_hosted ''i'' bell_request bell_guard bell_store = (Ok (bell_after, Some core), bell_store_after)"
    using bell_host_steps by blast
  then have run: "run_mutation bell_hosted ?m bell_store = (Ok (ResultStep bell_after), bell_store_after)"
    by (simp add: step_checkpoint_with_store_def hmap_def hbind_def hlift_def)
  have changed: "memory_view bell_store_after \<noteq> memory_view bell_store"
    by (auto simp: fun_eq_iff bell_store_def bell_store_after_def bell_row_def bm_get_def intro!: exI [of _ "''i''"])
  have "run_mutation bell_hosted ?p (run_mutations bell_hosted [] bell_store_after) =
      (fst (run_mutation bell_hosted ?p bell_store_after), snd (run_mutation bell_hosted ?p bell_store_after))"
    by (simp del: run_mutation.simps)
  from host_guard_wins_once [OF _ _ _ bell_keyed _ run changed _ _ this] show ?thesis
    by (simp add: bell_laws del: run_mutation.simps)
qed

lemma bell_after_valid: "validate_semantics bell_reader bell_after = Ok ()"
proof -
  have after: "commit_candidate bell_after = Some bell_after" "bell_print bell_after = ''checkpoint rung''"
      "map_of bell_texts ''checkpoint rung'' = Some bell_after" by code_simp+
  have "canonical_bytes bell_reader bell_after = Ok ''checkpoint rung''"
    using after(2) by (simp add: canonical_bytes_def bell_reader_def ok_or_def)
  with bell_commits after(1) obtain cp where
      "restore_execution_checkpoint bell_reader ''checkpoint rung'' (ar_definition (eh_resolver bell_hosted)) = Ok cp"
    by (auto simp: commit_v1_result_with_store_def hbind_def hlift_def split: outcome.split_asm)
  with after(3) show ?thesis
    by (auto simp: restore_execution_checkpoint_def restore_value_def obind_Ok_iff bell_reader_def ok_or_def split: if_split_asm)
qed

theorem processed_event_replayed_witness:
  "\<exists>receipt. checkpoint_step_v1_with_core bell_reader 5 bell_bundle \<lparr>cp_value = bell_after, cp_aggregate = None\<rparr> bell_request None None =
     Ok (receipt, None) \<and> jindex receipt ''operation_kind'' = JString ''event_terminal'' \<and> jindex receipt ''event_id'' = JString ''e1''"
proof -
  from bell_loads obtain cp B core where core:
      "checkpoint_step_v1_with_core bell_reader 5 B cp bell_request (Some ''1'') (Some ''sha256:0'') = Ok (bell_after, Some core)"
      "jindex core ''disposition'' = JString ''handled''"
    by (auto split: outcome.split_asm option.split_asm prod.split_asm)
  from processed_event_replayed [OF core(1), of "\<lparr>cp_value = bell_after, cp_aggregate = None\<rparr>" 5 bell_bundle None None]
  show ?thesis using core(2) bell_after_valid by (auto simp: bell_request_def receipt_for_def)
qed

theorem host_step_once_witness:
  "\<exists>receipt. step_checkpoint_with_core bell_hosted ''i'' bell_request bell_guard bell_store_after = (Ok (receipt, None), bell_store_after) \<and>
     jindex receipt ''event_id'' = JString ''e1''"
proof -
  obtain core where core: "step_checkpoint_with_core bell_hosted ''i'' bell_request bell_guard bell_store = (Ok (bell_after, Some core), bell_store_after)"
      "jindex core ''disposition'' = JString ''handled''" using bell_host_steps by blast
  have "\<not> ms_poisoned bell_store_after" by (simp add: bell_store_after_def)
  with core(2) host_step_once [OF _ _ _ bell_keyed core(1), of bell_guard] show ?thesis by (auto simp: bell_laws bell_request_def)
qed

theorem host_reports_mutation_witness:
  "\<exists>ex. execute_checkpoint_operation bell_hosted (OpStep ''i'' bell_request bell_guard) bell_store = (Ok ex, bell_store_after) \<and>
     dh_mutation (de_result ex) = ''atomic'' \<and> memory_view bell_store_after ''j'' = memory_view bell_store ''j''"
proof -
  let ?op = "OpStep ''i'' bell_request bell_guard"
  obtain core where "step_checkpoint_with_core bell_hosted ''i'' bell_request bell_guard bell_store = (Ok (bell_after, Some core), bell_store_after)"
    using bell_host_steps by blast
  moreover have "sa_load memory_access ''i'' bell_store = (Ok (Some bell_row), bell_store)" by code_simp
  moreover have after: "sa_load memory_access ''i'' bell_store_after = (Ok (memory_view bell_store_after ''i''), bell_store_after)" by code_simp
  ultimately have ex: "execute_checkpoint_operation bell_hosted ?op bell_store =
      (Ok (summarize bell_hosted ?op (Some bell_row) (Inl (bell_after, Some core)) (memory_view bell_store_after ''i'')), bell_store_after)"
    by (simp add: execute_checkpoint_operation_def conclude_def)
  have "memory_view bell_store_after \<noteq> memory_view bell_store"
    by (auto simp: fun_eq_iff bell_store_def bell_store_after_def bell_row_def bm_get_def intro!: exI [of _ "''i''"])
  moreover have "\<not> ms_poisoned bell_store_after" by (simp add: bell_store_after_def)
  ultimately show ?thesis using host_reports_mutation [OF _ _ _ bell_keyed ex] ex by (auto simp: bell_laws)
qed

end
