(* ===== verification/Migration_Spec.thy ===== *)
theory Migration_Spec
  imports Migration
begin

text \<open>
  What a migration promises: the variable rules split the source occurrences among them and each
  produces what it declares; a descriptor keeps the identity of every runtime; a route is a chain
  of distinct definitions whose audit records link up.
\<close>

section \<open>Variables\<close>

definition redeclare :: "string \<Rightarrow> wire_variable \<Rightarrow> wire_variable" where
  "redeclare pointer v = v\<lparr>wv_variable_declaration_pointer := pointer\<rparr>"

definition group_environment :: "wire_variable list \<Rightarrow> nat \<Rightarrow> cel_environment \<Rightarrow> cel_environment" where
  "group_environment vs k env =
     fold (\<lambda>(i, v). bm_insert (cel_source i) (the (typed_to_value False (wv_value v)))) (enumerate k vs) env"

text \<open>
  One transformation: the sources are one occurrence of each declared pointer, all of the
  activation of the first; the output is the value of the expression over them.
\<close>

definition transformed_group ::
  "engine \<Rightarrow> wire_runtime \<Rightarrow> json \<Rightarrow> string list \<Rightarrow> wire_variable \<Rightarrow> wire_variable list \<times> wire_variable \<Rightarrow> bool" where
  "transformed_group G w rule pointers first g \<longleftrightarrow>
     map wv_variable_declaration_pointer (fst g) = pointers \<and>
     (\<forall>v \<in> set (fst g). v \<in> set (ww_variables w) \<and> typed_to_value False (wv_value v) \<noteq> None \<and>
        wv_declaring_state_activation_sequence v = wv_declaring_state_activation_sequence first) \<and>
     rule_string rule ''target_declaration_pointer'' = Ok (wv_variable_declaration_pointer (snd g)) \<and>
     wv_declaring_state_activation_sequence (snd g) = wv_declaring_state_activation_sequence first \<and>
     (\<exists>expression maximum x work. rule_string rule ''expression'' = Ok expression \<and>
        evaluate_migration G expression (group_environment (fst g) 0 []) maximum = Inr (x, work) \<and>
        wv_value (snd g) = typed_from_value x)"

inductive variable_rule ::
  "engine \<Rightarrow> wire_runtime \<Rightarrow> wire_state_activation list \<Rightarrow> json \<Rightarrow> wire_variable list \<Rightarrow> wire_variable list \<Rightarrow> bool"
  for G w activations rule
where
  copied:
    "rule_string rule ''operation'' = Ok ''copy'' \<Longrightarrow> rule_string rule ''source_declaration_pointer'' = Ok p \<Longrightarrow>
     occurrences w p = [] \<or> rule_string rule ''target_declaration_pointer'' = Ok q \<Longrightarrow>
     variable_rule G w activations rule (occurrences w p) (map (redeclare q) (occurrences w p))"
| dropped:
    "rule_string rule ''operation'' = Ok ''drop'' \<Longrightarrow> rule_string rule ''source_declaration_pointer'' = Ok p \<Longrightarrow>
     variable_rule G w activations rule (occurrences w p) []"
| transformed:
    "rule_string rule ''operation'' = Ok ''transform'' \<Longrightarrow>
     jarray (jindex rule ''source_declaration_pointers'') = Some (JString p # sources) \<Longrightarrow>
     list_all2 (\<lambda>first g. \<exists>pointers. JString p # sources = map JString pointers \<and>
       transformed_group G w rule pointers first g) (occurrences w p) gs \<Longrightarrow>
     variable_rule G w activations rule (concat (map fst gs)) (map snd gs)"
| initialized:
    "rule_string rule ''operation'' = Ok ''initialize'' \<Longrightarrow>
     rule_string rule ''target_declaration_pointer'' = Ok (wv_variable_declaration_pointer v) \<Longrightarrow>
     filter (\<lambda>a. wa_state_definition_pointer a = before_text ''/variables/'' (wv_variable_declaration_pointer v)) activations = [a] \<Longrightarrow>
     wv_declaring_state_activation_sequence v = wa_activation_sequence a \<Longrightarrow>
     rule_string rule ''expression'' = Ok expression \<Longrightarrow>
     evaluate_migration G expression [] maximum = Inr (x, work) \<Longrightarrow> wv_value v = typed_from_value x \<Longrightarrow>
     variable_rule G w activations rule [] [v]"

lemma redeclare_eq:
  "redeclare q v = \<lparr>wv_variable_declaration_pointer = q,
     wv_declaring_state_activation_sequence = wv_declaring_state_activation_sequence v, wv_value = wv_value v\<rparr>"
  by (simp add: redeclare_def)

lemma single_case_Ok:
  "(case xs of [v] \<Rightarrow> f v | _ \<Rightarrow> Err e) = Ok r \<longleftrightarrow> (\<exists>v. xs = [v] \<and> f v = Ok r)"
  by (cases xs rule: remdups_adj.cases) simp_all

lemma nonempty_case_Ok:
  "(case xs of [] \<Rightarrow> Panic | x # ys \<Rightarrow> f x ys) = Ok r \<longleftrightarrow> (\<exists>x ys. xs = x # ys \<and> f x ys = Ok r)"
  by (cases xs) simp_all

lemma list_all2_right: "list_all2 P xs ys \<Longrightarrow> y \<in> set ys \<Longrightarrow> \<exists>x \<in> set xs. P x y"
  by (induction rule: list_all2_induct) auto

text \<open>The sets of the loop hold the occurrences consumed and produced so far.\<close>

definition tracks :: "variable_migration \<Rightarrow> wire_variable list \<Rightarrow> wire_variable list \<Rightarrow> bool" where
  "tracks st vs outs \<longleftrightarrow>
     distinct (map occurrence vs) \<and> mset (vm_consumed st) = mset (map occurrence vs) \<and>
     vm_output st = outs \<and> distinct (map occurrence outs) \<and> set (vm_produced st) = occurrence ` set outs"

lemma mset_bs_insert: "k \<notin> set s \<Longrightarrow> mset (bs_insert k s) = add_mset k (mset s)"
  by (induction k s rule: bs_insert.induct) auto

lemma tracks_consumed: "tracks st vs outs \<Longrightarrow> set (vm_consumed st) = occurrence ` set vs"
  unfolding tracks_def by (metis list.set_map set_mset_mset)

lemma consume_tracks:
  "consume v st = Ok st' \<Longrightarrow> tracks st vs outs \<Longrightarrow> tracks st' (vs @ [v]) outs \<and> vm_tracker st' = vm_tracker st"
  using tracks_consumed [of st vs outs]
  by (auto simp: consume_def tracks_def mset_bs_insert split: if_splits)

lemma produce_tracks:
  assumes "produce p a v st = Ok st'" "tracks st vs outs"
  shows "tracks st' vs (outs @ [\<lparr>wv_variable_declaration_pointer = p, wv_declaring_state_activation_sequence = a, wv_value = v\<rparr>])"
  using assms by (auto simp: produce_def tracks_def occurrence_def split: if_splits)

lemma tracks_tracker [simp]: "tracks (st\<lparr>vm_tracker := t\<rparr>) vs outs = tracks st vs outs"
  by (simp add: tracks_def)

lemma copies_track:
  "ofold (copy_variable rule) xs st = Ok st' \<Longrightarrow> tracks st vs outs \<Longrightarrow>
   \<exists>q. (xs = [] \<or> rule_string rule ''target_declaration_pointer'' = Ok q) \<and>
       tracks st' (vs @ xs) (outs @ map (redeclare q) xs)"
proof (induction xs arbitrary: st vs outs)
  case (Cons x xs)
  from Cons.prems(1) obtain st2 where "copy_variable rule x st = Ok st2" and rest: "ofold (copy_variable rule) xs st2 = Ok st'"
    by (auto simp: obind_Ok_iff)
  then obtain st1 q where c: "consume x st = Ok st1" and q: "rule_string rule ''target_declaration_pointer'' = Ok q"
    and p: "produce q (wv_declaring_state_activation_sequence x) (wv_value x) st1 = Ok st2"
    by (auto simp: copy_variable_def obind_Ok_iff)
  have "tracks st2 (vs @ [x]) (outs @ [redeclare q x])"
    using produce_tracks [OF p] consume_tracks [OF c Cons.prems(2)] by (simp add: redeclare_eq)
  from Cons.IH [OF rest this] q show ?case by auto
qed simp

lemma drops_track:
  "ofold consume xs st = Ok st' \<Longrightarrow> tracks st vs outs \<Longrightarrow> tracks st' (vs @ xs) outs"
proof (induction xs arbitrary: st vs)
  case (Cons x xs)
  then show ?case using consume_tracks [of x st _ vs outs] by (fastforce simp: obind_Ok_iff)
qed simp


lemma transform_sources_track:
  assumes "ofold (transform_source w activation) (enumerate k sources) (st, env) = Ok (st', env')" "tracks st vs outs"
  shows "\<exists>pointers us. sources = map JString pointers \<and> map wv_variable_declaration_pointer us = pointers \<and>
     (\<forall>v \<in> set us. v \<in> set (ww_variables w) \<and> typed_to_value False (wv_value v) \<noteq> None \<and>
        wv_declaring_state_activation_sequence v = activation) \<and>
     env' = group_environment us k env \<and> tracks st' (vs @ us) outs"
  using assms
proof (induction sources arbitrary: k st env vs)
  case Nil
  then show ?case by (simp add: group_environment_def)
next
  case (Cons x sources)
  from Cons.prems(1) obtain p st1 env1 where "transform_source w activation (k, x) (st, env) = Ok (st1, env1)"
    and rest: "ofold (transform_source w activation) (enumerate (Suc k) sources) (st1, env1) = Ok (st', env')"
    by (auto simp: obind_Ok_iff)
  then obtain p v y where x: "jstr x = Some p"
    and v: "filter (\<lambda>v. wv_declaring_state_activation_sequence v = activation) (occurrences w p) = [v]"
    and c: "consume v st = Ok st1" and y: "typed_to_value False (wv_value v) = Some y"
    and env1: "env1 = bm_insert (cel_source k) y env"
    by (auto simp: transform_source_def obind_Ok_iff single_case_Ok)
  from Cons.IH [OF rest] consume_tracks [OF c Cons.prems(2)] obtain us where
    us: "sources = map JString (map wv_variable_declaration_pointer us)"
      "\<forall>v \<in> set us. v \<in> set (ww_variables w) \<and> typed_to_value False (wv_value v) \<noteq> None \<and>
        wv_declaring_state_activation_sequence v = activation"
      "env' = group_environment us (Suc k) env1" "tracks st' ((vs @ [v]) @ us) outs"
    by blast
  have "v \<in> set (filter (\<lambda>v. wv_declaring_state_activation_sequence v = activation) (occurrences w p))" by (simp add: v)
  then have "v \<in> set (ww_variables w)" "wv_declaring_state_activation_sequence v = activation"
    "wv_variable_declaration_pointer v = p" by (simp_all add: occurrences_def)
  moreover have "x = JString p" using x by (simp add: jstr_def split: json.split_asm)
  ultimately show ?case
    using us y env1 by (intro exI [of _ "map wv_variable_declaration_pointer (v # us)"] exI [of _ "v # us"])
      (simp add: group_environment_def)
qed


lemma metered_value_Ok:
  assumes "metered_value H limits requirements rule env tracker = Ok (typed, tracker')"
  shows "\<exists>expression maximum x work. rule_string rule ''expression'' = Ok expression \<and>
    evaluate_migration (ho_engine H) expression env maximum = Inr (x, work) \<and> typed = typed_from_value x"
proof -
  from assms obtain expression maximum where e: "rule_string rule ''expression'' = Ok expression"
    and "(case evaluate_migration (ho_engine H) expression env maximum of
       Inl e \<Rightarrow> Err (classify_migration_evaluation e)
     | Inr (v, work) \<Rightarrow>
         Ok (typed_from_value v, tracker\<lparr>rt_cel_evaluation_steps := rt_cel_evaluation_steps tracker + work\<rparr>)) = Ok (typed, tracker')"
    unfolding metered_value_def obind_Ok_iff by blast
  then show ?thesis by (auto split: sum.split_asm)
qed

lemma transform_track:
  assumes "transform_variable H limits requirements w rule sources first st = Ok st'" "tracks st vs outs"
  shows "\<exists>pointers g. sources = map JString pointers \<and> transformed_group (ho_engine H) w rule pointers first g \<and>
     tracks st' (vs @ fst g) (outs @ [snd g])"
proof -
  from assms(1) obtain st1 env typed tracker tracker' q where
    src: "ofold (transform_source w (wv_declaring_state_activation_sequence first)) (enumerate 0 sources) (st, []) = Ok (st1, env)"
    and result: "metered_value H limits requirements rule env (vm_tracker st1) = Ok (typed, tracker)"
    and q: "rule_string rule ''target_declaration_pointer'' = Ok q"
    and p: "produce q (wv_declaring_state_activation_sequence first) typed (st1\<lparr>vm_tracker := tracker'\<rparr>) = Ok st'"
    by (auto simp: transform_variable_def Let_def obind_Ok_iff)
  from transform_sources_track [OF src assms(2)] obtain us where
    us: "sources = map JString (map wv_variable_declaration_pointer us)"
      "\<forall>v \<in> set us. v \<in> set (ww_variables w) \<and> typed_to_value False (wv_value v) \<noteq> None \<and>
        wv_declaring_state_activation_sequence v = wv_declaring_state_activation_sequence first"
      "env = group_environment us 0 []" "tracks st1 (vs @ us) outs"
    by blast
  from result obtain expression maximum x work where "rule_string rule ''expression'' = Ok expression"
    "evaluate_migration (ho_engine H) expression env maximum = Inr (x, work)" "typed = typed_from_value x"
    using metered_value_Ok by blast
  then show ?thesis
    using us q produce_tracks [OF p] unfolding transformed_group_def
    by (intro exI [of _ "map wv_variable_declaration_pointer us"]
        exI [of _ "(us, \<lparr>wv_variable_declaration_pointer = q,
          wv_declaring_state_activation_sequence = wv_declaring_state_activation_sequence first, wv_value = typed\<rparr>)"]) auto
qed

lemma transforms_track:
  "ofold (transform_variable H limits requirements w rule sources) xs st = Ok st' \<Longrightarrow> tracks st vs outs \<Longrightarrow>
   \<exists>gs. list_all2 (\<lambda>first g. \<exists>pointers. sources = map JString pointers \<and>
          transformed_group (ho_engine H) w rule pointers first g) xs gs \<and>
        tracks st' (vs @ concat (map fst gs)) (outs @ map snd gs)"
proof (induction xs arbitrary: st vs outs)
  case (Cons x xs)
  from Cons.prems(1) obtain st1 where x: "transform_variable H limits requirements w rule sources x st = Ok st1"
    and rest: "ofold (transform_variable H limits requirements w rule sources) xs st1 = Ok st'"
    by (auto simp: obind_Ok_iff)
  from transform_track [OF x Cons.prems(2)] obtain g where
    g: "\<exists>pointers. sources = map JString pointers \<and> transformed_group (ho_engine H) w rule pointers x g"
      "tracks st1 (vs @ fst g) (outs @ [snd g])" by blast
  from Cons.IH [OF rest g(2)] obtain gs where
    gs: "list_all2 (\<lambda>first g. \<exists>pointers. sources = map JString pointers \<and>
          transformed_group (ho_engine H) w rule pointers first g) xs gs"
      "tracks st' ((vs @ fst g) @ concat (map fst gs)) ((outs @ [snd g]) @ map snd gs)" by blast
  from g(1) gs show ?case by (intro exI [of _ "g # gs"]) simp
qed simp

lemma initialize_track:
  assumes "initialize_variable H limits requirements m activations rule st = Ok st'" "tracks st vs outs"
    and op: "rule_string rule ''operation'' = Ok ''initialize''"
  shows "\<exists>v. variable_rule (ho_engine H) w activations rule [] [v] \<and> tracks st' vs (outs @ [v])"
proof -
  from assms(1) obtain q a typed tracker tracker' where
    q: "rule_string rule ''target_declaration_pointer'' = Ok q"
    and a: "filter (\<lambda>a. wa_state_definition_pointer a = before_text ''/variables/'' q) activations = [a]"
    and result: "metered_value H limits requirements rule [] (vm_tracker st) = Ok (typed, tracker)"
    and p: "produce q (wa_activation_sequence a) typed (st\<lparr>vm_tracker := tracker'\<rparr>) = Ok st'"
    by (auto simp: initialize_variable_def obind_Ok_iff single_case_Ok split: if_split_asm prod.split_asm)
  from result obtain expression maximum x work where "rule_string rule ''expression'' = Ok expression"
    "evaluate_migration (ho_engine H) expression [] maximum = Inr (x, work)" "typed = typed_from_value x"
    using metered_value_Ok by blast
  then show ?thesis
    using produce_tracks [OF p] assms(2) op q a
    by (intro exI [of _ "\<lparr>wv_variable_declaration_pointer = q,
          wv_declaring_state_activation_sequence = wa_activation_sequence a, wv_value = typed\<rparr>"])
      (auto intro: variable_rule.initialized)
qed

lemma variable_rule_tracks:
  assumes "apply_variable_rule H limits requirements w activations m rule st = Ok st'" "tracks st vs outs"
  shows "\<exists>us os. variable_rule (ho_engine H) w activations rule us os \<and> tracks st' (vs @ us) (outs @ os)"
proof -
  from assms(1) obtain operation where op: "rule_string rule ''operation'' = Ok operation"
    by (auto simp: apply_variable_rule_def obind_Ok_iff)
  note run = assms(1) [unfolded apply_variable_rule_def op obind.simps]
  consider "operation = ''copy''" | "operation = ''drop''" | "operation = ''transform''" | "operation = ''initialize''"
    using run by (auto split: if_split_asm)
  then show ?thesis
  proof cases
    case 1
    with run obtain p where "rule_string rule ''source_declaration_pointer'' = Ok p"
      "ofold (copy_variable rule) (occurrences w p) st = Ok st'" by (auto simp: obind_Ok_iff)
    with op 1 copies_track [OF _ assms(2)] show ?thesis by (blast intro: variable_rule.copied)
  next
    case 2
    with run obtain p where "rule_string rule ''source_declaration_pointer'' = Ok p"
      "ofold consume (occurrences w p) st = Ok st'" by (auto simp: obind_Ok_iff)
    with op 2 drops_track [OF _ assms(2)] show ?thesis
      by (intro exI [of _ "occurrences w p"] exI [of _ "[]"]) (simp add: variable_rule.dropped)
  next
    case 3
    with run obtain p x sources where "jarray (jindex rule ''source_declaration_pointers'') = Some (x # sources)"
      "jstr x = Some p" and t: "ofold (transform_variable H limits requirements w rule (x # sources)) (occurrences w p) st = Ok st'"
      by (auto simp: obind_Ok_iff nonempty_case_Ok)
    moreover from this have "x = JString p" by (simp add: jstr_def split: json.split_asm)
    ultimately show ?thesis
      using op 3 transforms_track [OF t assms(2)] by (blast intro: variable_rule.transformed)
  next
    case 4
    then show ?thesis using run op initialize_track [OF _ assms(2), of H limits requirements m activations rule st' w]
      by fastforce
  qed
qed

lemma variable_rules_track:
  "ofold (apply_variable_rule H limits requirements w activations m) rules st = Ok st' \<Longrightarrow> tracks st vs outs \<Longrightarrow>
   \<exists>es. list_all2 (\<lambda>rule e. variable_rule (ho_engine H) w activations rule (fst e) (snd e)) rules es \<and>
        tracks st' (vs @ concat (map fst es)) (outs @ concat (map snd es))"
proof (induction rules arbitrary: st vs outs)
  case (Cons rule rules)
  from Cons.prems(1) obtain st1 where x: "apply_variable_rule H limits requirements w activations m rule st = Ok st1"
    and rest: "ofold (apply_variable_rule H limits requirements w activations m) rules st1 = Ok st'"
    by (auto simp: obind_Ok_iff)
  from variable_rule_tracks [OF x Cons.prems(2)] obtain us os where
    e: "variable_rule (ho_engine H) w activations rule us os" "tracks st1 (vs @ us) (outs @ os)" by blast
  from Cons.IH [OF rest e(2)] obtain es where
    "list_all2 (\<lambda>rule e. variable_rule (ho_engine H) w activations rule (fst e) (snd e)) rules es"
    "tracks st' ((vs @ us) @ concat (map fst es)) ((outs @ os) @ concat (map snd es))" by blast
  with e(1) show ?case by (intro exI [of _ "(us, os) # es"]) simp
qed simp

lemma rule_sources_in:
  assumes "variable_rule G w activations rule us os"
  shows "set us \<subseteq> set (ww_variables w)"
  using assms
proof cases
  case (transformed p sources gs)
  have "v \<in> set (ww_variables w)" if "g \<in> set gs" "v \<in> set (fst g)" for g v
    using list_all2_right [OF transformed(5) that(1)] that(2) by (auto simp: transformed_group_def)
  then show ?thesis using transformed by auto
qed (auto simp: occurrences_def)

lemma occurrences_covered:
  assumes "distinct (map occurrence vs)" "set vs \<subseteq> set ws" "length vs = length ws"
  shows "mset vs = mset ws" "distinct (map occurrence ws)"
proof -
  have "card (set vs) = length ws"
    using assms(1, 3) distinct_card [of vs] by (simp add: distinct_map)
  moreover have "card (set vs) \<le> card (set ws)" using assms(2) by (simp add: card_mono)
  ultimately have ws: "distinct ws" "set vs = set ws"
    using card_length [of ws] assms(2) by (auto simp: card_distinct card_subset_eq)
  then show "mset vs = mset ws" using assms(1) by (simp add: set_eq_iff_mset_eq_distinct distinct_map)
  then show "distinct (map occurrence ws)" using assms(1) ws by (simp add: distinct_map)
qed

text \<open>
  C26: the variables of a runtime that migrates are split among the rules of its descriptor: every
  source occurrence is taken by exactly one rule (no two source occurrences are the same), each rule
  contributes what its operation says (a copy keeps value and activation, a drop nothing, a
  transformation the value of its expression over sources of one activation, an initialisation a
  value for the one activation of the declaring state), and together they are exactly the migrated
  variables, which are distinct, in canonical order, and declared in the target machine.
\<close>

theorem migrated_variables_partition:
  assumes "migrate_variables H limits requirements w activations m rules tracker = Ok (out, tracker')"
  shows "\<exists>es. list_all2 (\<lambda>rule e. variable_rule (ho_engine H) w activations rule (fst e) (snd e)) rules es \<and>
      mset (concat (map fst es)) = mset (ww_variables w) \<and> distinct (map occurrence (ww_variables w)) \<and>
      mset (concat (map snd es)) = mset out \<and> distinct (map occurrence out) \<and>
      sorted (map occurrence_key out) \<and> list_all (migrated_variable_ok m) out"
proof -
  from assms obtain st where
    run: "ofold (apply_variable_rule H limits requirements w activations m) rules
       \<lparr>vm_consumed = [], vm_produced = [], vm_output = [], vm_tracker = tracker\<rparr> = Ok st"
    and n: "length (vm_consumed st) = length (ww_variables w)" and ok: "list_all (migrated_variable_ok m) (vm_output st)"
    and out: "out = sort_key occurrence_key (vm_output st)"
    by (auto simp: migrate_variables_def obind_Ok_iff split: if_split_asm)
  have "tracks \<lparr>vm_consumed = [], vm_produced = [], vm_output = [], vm_tracker = tracker\<rparr> [] []" by (simp add: tracks_def)
  from variable_rules_track [OF run this] obtain es where
    es: "list_all2 (\<lambda>rule e. variable_rule (ho_engine H) w activations rule (fst e) (snd e)) rules es"
    and t: "tracks st (concat (map fst es)) (concat (map snd es))" by auto
  have "set (concat (map fst es)) \<subseteq> set (ww_variables w)"
    using list_all2_right [OF es] rule_sources_in by fastforce
  moreover have "length (concat (map fst es)) = length (ww_variables w)"
    using t n unfolding tracks_def by (metis length_map mset_eq_length)
  ultimately have "mset (concat (map fst es)) = mset (ww_variables w)" "distinct (map occurrence (ww_variables w))"
    using occurrences_covered [of "concat (map fst es)" "ww_variables w"] t by (simp_all add: tracks_def)
  moreover have "mset out = mset (concat (map snd es))" "distinct (map occurrence out)" "sorted (map occurrence_key out)"
    using t out by (auto simp: tracks_def distinct_map)
  moreover have "list_all (migrated_variable_ok m) out" using ok out by (simp add: list_all_iff)
  ultimately show ?thesis using es by (intro exI [of _ es]) simp
qed


section \<open>Runtimes\<close>

text \<open>
  What a migration keeps of a runtime: its identities, its status, its place in the ownership tree,
  its activations, its spawn counter, its mailboxes and its fault.
\<close>

definition same_holder :: "wire_lifetime_holder \<Rightarrow> wire_lifetime_holder \<Rightarrow> bool" where
  "same_holder h h' \<longleftrightarrow> wl_holder_runtime_id h' = wl_holder_runtime_id h \<and>
     wl_holder_state_activation_sequence h' = wl_holder_state_activation_sequence h"

fun same_place :: "wire_relation \<Rightarrow> wire_relation \<Rightarrow> bool" where
  "same_place WireRelRoot WireRelRoot \<longleftrightarrow> True"
| "same_place (WireRelComponent owner _ _ activation index) (WireRelComponent owner' _ _ activation' index') \<longleftrightarrow>
     owner' = owner \<and> activation' = activation \<and> index' = index"
| "same_place (WireRelSpawned owner _ sequence holder) (WireRelSpawned owner' _ sequence' holder') \<longleftrightarrow>
     owner' = owner \<and> sequence' = sequence \<and> rel_option same_holder holder holder'"
| "same_place _ _ \<longleftrightarrow> False"

definition same_runtime :: "wire_runtime \<Rightarrow> wire_runtime \<Rightarrow> bool" where
  "same_runtime w w' \<longleftrightarrow>
     ww_runtime_id w' = ww_runtime_id w \<and> ww_identity_origin w' = ww_identity_origin w \<and>
     ww_target_identity w' = ww_target_identity w \<and> ww_status w' = ww_status w \<and>
     ww_next_spawn_sequence w' = ww_next_spawn_sequence w \<and> ww_ready_mailbox w' = ww_ready_mailbox w \<and>
     ww_deferred_mailbox w' = ww_deferred_mailbox w \<and> ww_fault w' = ww_fault w \<and>
     same_place (ww_relation w) (ww_relation w') \<and>
     mset (map wa_activation_sequence (ww_active_state_activations w')) =
       mset (map wa_activation_sequence (ww_active_state_activations w))"

lemma same_holder_simps [simp]: "same_holder h h" "same_holder h (h\<lparr>wl_variable_declaration_pointer := p\<rparr>)"
  by (simp_all add: same_holder_def)

lemma same_holder_trans: "same_holder a b \<Longrightarrow> same_holder b c \<Longrightarrow> same_holder a c"
  by (simp add: same_holder_def)

lemma same_place_refl [simp]: "same_place r r"
  by (cases r) (auto simp: option.rel_refl)

lemma same_place_trans: "same_place a b \<Longrightarrow> same_place b c \<Longrightarrow> same_place a c"
  by (cases a; cases b; cases c) (auto simp: option_rel_Some1 option_rel_Some2 same_holder_def elim!: option.rel_cases)

lemma same_runtime_refl [simp]: "same_runtime w w"
  by (simp add: same_runtime_def)

lemma same_runtime_trans: "same_runtime a b \<Longrightarrow> same_runtime b c \<Longrightarrow> same_runtime a c"
  by (auto simp: same_runtime_def intro: same_place_trans)

lemma migrate_relation_place: "migrate_relation mappings r = Ok r' \<Longrightarrow> same_place r r'"
  by (cases r) (auto simp: obind_Ok_iff migrate_holder_def split: option.split_asm)

lemma map_Ok_kept:
  assumes "map f xs = map Ok ys" and "\<And>x y. f x = Ok y \<Longrightarrow> g y = g x"
  shows "map g ys = map g xs"
  using assms(1)
proof (induction xs arbitrary: ys)
  case (Cons x xs)
  then show ?case using assms(2) by (cases ys) auto
qed simp

lemma map_activations_sequences:
  assumes "map_activations rules activations = Ok activations'"
  shows "image_mset wa_activation_sequence (mset activations') = image_mset wa_activation_sequence (mset activations)"
proof -
  from assms obtain mapped where out: "activations' = sort_key activation_key mapped"
    and m: "map (\<lambda>a. obind (map_counter_pointer rules (wa_state_definition_pointer a)) (\<lambda>p.
              Ok (a\<lparr>wa_state_definition_pointer := p\<rparr>))) activations = map Ok mapped"
    by (auto simp: map_activations_def obind_Ok_iff collect_outcome_Ok)
  have "map wa_activation_sequence mapped = map wa_activation_sequence activations"
    by (rule map_Ok_kept [OF m]) (auto simp: obind_Ok_iff)
  then show ?thesis unfolding out by (metis mset_map mset_sort)
qed

lemma transform_runtime_same:
  assumes "transform_runtime H limits requirements mappings B w tracker = Ok (w', tracker')"
  shows "same_runtime w w' \<and> wd_validated_bundle_fingerprint (ww_current_definition w') = b_fingerprint B"
proof -
  from assms obtain m leaves activations variables history state_counters component_counters relation where
    a: "(if ww_active_state_activations w = [] then Ok []
      else obind (rule_array mappings ''counters'') (\<lambda>rules. map_activations rules (ww_active_state_activations w))) = Ok activations"
    and r: "migrate_relation mappings (ww_relation w) = Ok relation"
    and w': "w' = w\<lparr>ww_current_definition := target_binding B m, ww_relation := relation,
              ww_active_leaf_state_definition_pointers := leaves, ww_active_state_activations := activations,
              ww_variables := variables, ww_history := history, ww_next_state_activation_sequences := state_counters,
              ww_next_component_activation_sequences := component_counters\<rparr>"
    by (auto simp: transform_runtime_def obind_Ok_iff simp del: split_paired_Ex if_split)
  from a have "image_mset wa_activation_sequence (mset activations) =
      image_mset wa_activation_sequence (mset (ww_active_state_activations w))"
    by (auto simp: obind_Ok_iff map_activations_sequences split: if_split_asm)
  with migrate_relation_place [OF r] w' show ?thesis by (simp add: same_runtime_def target_binding_def)
qed

text \<open>A runtime bound to the source definition is bound to the target, another one is left alone.\<close>

definition rebound :: "string \<Rightarrow> string \<Rightarrow> wire_runtime \<Rightarrow> wire_runtime \<Rightarrow> bool" where
  "rebound source target w w' \<longleftrightarrow>
     same_runtime w w' \<and>
     (if wd_validated_bundle_fingerprint (ww_current_definition w) = source
      then wd_validated_bundle_fingerprint (ww_current_definition w') = target
      else w' = w \<or> w' = rebind_runtime target w)"

lemma rebind_same [simp]:
  "same_runtime w (rebind_runtime f w)" "wd_validated_bundle_fingerprint (ww_current_definition (rebind_runtime f w)) = f"
  by (simp_all add: rebind_runtime_def same_runtime_def)

lemma transform_steps_rebound:
  "ofold (transform_step H limits requirements mappings B source) ws (out, tracker) = Ok (out', tracker') \<Longrightarrow>
   \<exists>ws'. out' = out @ ws' \<and> list_all2 (rebound source (b_fingerprint B)) ws ws'"
proof (induction ws arbitrary: out tracker)
  case (Cons w ws)
  then obtain out1 tracker1 where
    w: "transform_step H limits requirements mappings B source w (out, tracker) = Ok (out1, tracker1)"
    and rest: "ofold (transform_step H limits requirements mappings B source) ws (out1, tracker1) = Ok (out', tracker')"
    by (auto simp: obind_Ok_iff)
  from w obtain w' where "out1 = out @ [w']" "rebound source (b_fingerprint B) w w'"
    by (auto simp: transform_step_def rebound_def obind_Ok_iff dest!: transform_runtime_same split: if_split_asm)
  with Cons.IH [OF rest] show ?case by auto
qed simp

lemma migrated_runtimes_rebound:
  assumes "migrated_runtimes H limits descriptor B e = Ok ws"
  shows "list_all2 (rebound (ae_validated_bundle_fingerprint e) (b_fingerprint B)) (ae_runtimes e) ws"
proof -
  have "list_all2 (rebound f (b_fingerprint B)) us (map (rebind_runtime (b_fingerprint B)) us)" for f us
    by (induction us) (simp_all add: rebound_def)
  with assms show ?thesis
    by (auto simp: migrated_runtimes_def transform_runtimes_def obind_Ok_iff
        dest!: transform_steps_rebound split: if_split_asm)
qed

definition same_aggregate :: "aggregate_envelope \<Rightarrow> aggregate_envelope \<Rightarrow> bool" where
  "same_aggregate e e' \<longleftrightarrow>
     ae_root_instance_id e' = ae_root_instance_id e \<and> ae_creation_id e' = ae_creation_id e \<and>
     ae_root_runtime_id e' = ae_root_runtime_id e \<and> ae_next_logical_step_sequence e' = ae_next_logical_step_sequence e \<and>
     ae_next_output_sequence e' = ae_next_output_sequence e \<and> ae_next_acceptance_sequence e' = ae_next_acceptance_sequence e \<and>
     ae_next_queue_sequence e' = ae_next_queue_sequence e \<and> list_all2 same_runtime (ae_runtimes e) (ae_runtimes e')"

lemma apply_descriptor_Ok:
  assumes "apply_descriptor H limits descriptor B e = Ok e'"
  shows "same_aggregate e e'" "ae_validated_bundle_fingerprint e' = b_fingerprint B"
    "list_all2 (rebound (ae_validated_bundle_fingerprint e) (b_fingerprint B)) (ae_runtimes e) (ae_runtimes e')"
    "\<exists>n. from_decimal (ae_migration_sequence e) = Some n \<and> ae_migration_sequence e' = canonical_decimal (Suc n)"
proof -
  from assms obtain ws n where ws: "migrated_runtimes H limits descriptor B e = Ok ws" "ae_runtimes e' = ws"
    and n: "from_decimal (ae_migration_sequence e) = Some n" "ae_migration_sequence e' = canonical_decimal (Suc n)"
    and "ae_root_instance_id e' = ae_root_instance_id e" "ae_creation_id e' = ae_creation_id e"
      "ae_root_runtime_id e' = ae_root_runtime_id e" "ae_next_logical_step_sequence e' = ae_next_logical_step_sequence e"
      "ae_next_output_sequence e' = ae_next_output_sequence e" "ae_next_acceptance_sequence e' = ae_next_acceptance_sequence e"
      "ae_next_queue_sequence e' = ae_next_queue_sequence e" and f: "ae_validated_bundle_fingerprint e' = b_fingerprint B"
    by (auto simp: apply_descriptor_def Let_def obind_Ok_iff)
  moreover from migrated_runtimes_rebound [OF ws(1)] ws(2)
  show r: "list_all2 (rebound (ae_validated_bundle_fingerprint e) (b_fingerprint B)) (ae_runtimes e) (ae_runtimes e')"
    by simp
  moreover have "list_all2 same_runtime (ae_runtimes e) (ae_runtimes e')"
    by (rule list_all2_mono [OF r]) (simp add: rebound_def)
  ultimately show "same_aggregate e e'" by (simp add: same_aggregate_def)
  show "ae_validated_bundle_fingerprint e' = b_fingerprint B" by (rule f)
  show "\<exists>n. from_decimal (ae_migration_sequence e) = Some n \<and> ae_migration_sequence e' = canonical_decimal (Suc n)"
    using n by blast
qed

text \<open>
  C27: applying a descriptor keeps the identity of the aggregate and its host counters, advances its
  migration sequence by one and binds it to the target definition; record by record, every runtime
  keeps its identities, its status, its place in the ownership tree, its activations, its spawn
  counter, its mailboxes and its fault, and one bound to the source definition is bound to the target.
\<close>

theorem descriptor_keeps_runtimes:
  assumes "apply_descriptor H limits descriptor B e = Ok e'"
  shows "same_aggregate e e' \<and> ae_validated_bundle_fingerprint e' = b_fingerprint B \<and>
    list_all2 (rebound (ae_validated_bundle_fingerprint e) (b_fingerprint B)) (ae_runtimes e) (ae_runtimes e') \<and>
    map_option Suc (from_decimal (ae_migration_sequence e)) = from_decimal (ae_migration_sequence e')"
  using apply_descriptor_Ok [OF assms] by auto


section \<open>Routes\<close>

primrec route_linked :: "string \<Rightarrow> prepared_step list \<Rightarrow> bool" where
  "route_linked f [] \<longleftrightarrow> True"
| "route_linked f (s # ss) \<longleftrightarrow>
     rule_string (ps_descriptor s) ''source_validated_bundle_fingerprint'' = Ok f \<and>
     rule_string (ps_descriptor s) ''target_validated_bundle_fingerprint'' = Ok (b_fingerprint (ps_target s)) \<and>
     route_linked (b_fingerprint (ps_target s)) ss"

abbreviation step_targets :: "prepared_step list \<Rightarrow> string list" where
  "step_targets steps \<equiv> map (\<lambda>s. b_fingerprint (ps_target s)) steps"

lemma resolve_role_fingerprint: "resolve_role R f role = Ok B \<Longrightarrow> b_fingerprint B = f"
  by (auto simp: resolve_role_def obind_Ok_iff split: if_split_asm)

lemma prepare_route_Ok:
  "prepare_route H A R limits e wanted seen fingerprints B route = Ok steps \<Longrightarrow>
   route_linked (b_fingerprint B) steps \<and> map ps_digest steps = route \<and> distinct route \<and> set route \<inter> set seen = {} \<and>
   distinct (step_targets steps) \<and> set (step_targets steps) \<inter> set fingerprints = {} \<and>
   (route \<noteq> [] \<longrightarrow> last (step_targets steps) = wanted)"
proof (induction route arbitrary: seen fingerprints B steps)
  case (Cons digest route)
  from Cons.prems obtain descriptor target B' rest where
    ok: "digest \<notin> set seen" "rule_string descriptor ''source_validated_bundle_fingerprint'' = Ok (b_fingerprint B)"
      "rule_string descriptor ''target_validated_bundle_fingerprint'' = Ok target" "target \<notin> set fingerprints"
      "route = [] \<longrightarrow> target = wanted" "resolve_role R target TargetRole = Ok B'"
    and rest: "prepare_route H A R limits e wanted (digest # seen) (target # fingerprints) B' route = Ok rest"
    and steps: "steps = \<lparr>ps_digest = digest, ps_descriptor = descriptor, ps_target = B'\<rparr> # rest"
    by (auto simp: obind_Ok_iff split: if_split_asm)
  have "rest = [] \<longleftrightarrow> route = []" using Cons.IH [OF rest] by auto
  with Cons.IH [OF rest] ok resolve_role_fingerprint [OF ok(6)] steps show ?case by auto
qed simp

text \<open>
  The audit records of a route: each starts at the definition and the digest the one before ended
  at, and their sequence numbers are consecutive.
\<close>

primrec audit_chain :: "string \<Rightarrow> string \<Rightarrow> counter \<Rightarrow> migration_audit_record list \<Rightarrow> string \<Rightarrow> string \<Rightarrow> bool" where
  "audit_chain fingerprint digest n [] fingerprint' digest' \<longleftrightarrow> fingerprint' = fingerprint \<and> digest' = digest"
| "audit_chain fingerprint digest n (a # as) fingerprint' digest' \<longleftrightarrow>
     ma_source_fingerprint a = fingerprint \<and> ma_source_digest a = digest \<and>
     ma_migration_sequence a = canonical_decimal (Suc n) \<and>
     audit_chain (ma_target_fingerprint a) (ma_target_digest a) (Suc n) as fingerprint' digest'"

lemma audit_chain_last:
  "audit_chain f d n as f' d' \<Longrightarrow> as \<noteq> [] \<Longrightarrow> f' = last (map ma_target_fingerprint as)"
proof (induction as arbitrary: f d n)
  case (Cons a as)
  then show ?case by (cases "as = []") auto
qed simp

lemma same_aggregate_refl [simp]: "same_aggregate e e"
  by (simp add: same_aggregate_def list_all2_refl)

lemma same_aggregate_trans: "same_aggregate a b \<Longrightarrow> same_aggregate b c \<Longrightarrow> same_aggregate a c"
  using list_all2_trans [of same_runtime same_runtime same_runtime "ae_runtimes a" "ae_runtimes b" "ae_runtimes c", OF same_runtime_trans]
  unfolding same_aggregate_def by (elim conjE) (intro conjI; simp)

lemma apply_step_Ok:
  assumes "apply_step H R limits s (e, audits) = Ok (e', audits')" and "route_linked f [s]"
    and n: "from_decimal (ae_migration_sequence e) = Some n"
  shows "same_aggregate e e'" "ae_validated_bundle_fingerprint e' = b_fingerprint (ps_target s)"
    "ae_migration_sequence e' = canonical_decimal (Suc n)"
    "audits' = audits @ [audit_of e' f (b_fingerprint (ps_target s)) (ps_digest s) (ae_aggregate_state_digest e)]"
proof -
  from assms(1, 2) obtain e1 where e1: "apply_descriptor H limits (ps_descriptor s) (ps_target s) e = Ok e1"
    and e': "recompute_digest H e1 = Ok e'"
    and a: "audits' = audits @ [audit_of e' f (b_fingerprint (ps_target s)) (ps_digest s) (ae_aggregate_state_digest e)]"
    by (auto simp: apply_step_def obind_Ok_iff)
  from e' obtain d where d: "e' = e1\<lparr>ae_aggregate_state_digest := d\<rparr>" by (auto simp: recompute_digest_def obind_Ok_iff)
  from apply_descriptor_Ok [OF e1] d n show "same_aggregate e e'" "ae_validated_bundle_fingerprint e' = b_fingerprint (ps_target s)"
    "ae_migration_sequence e' = canonical_decimal (Suc n)" by (simp_all add: same_aggregate_def)
  show "audits' = audits @ [audit_of e' f (b_fingerprint (ps_target s)) (ps_digest s) (ae_aggregate_state_digest e)]" by (rule a)
qed

lemma apply_steps_Ok:
  assumes "ofold (apply_step H R limits) steps (e, audits) = Ok (e', audits')"
    and "route_linked (ae_validated_bundle_fingerprint e) steps" and "from_decimal (ae_migration_sequence e) = Some n"
  shows "\<exists>as. audits' = audits @ as \<and> same_aggregate e e' \<and>
    audit_chain (ae_validated_bundle_fingerprint e) (ae_aggregate_state_digest e) n as
      (ae_validated_bundle_fingerprint e') (ae_aggregate_state_digest e') \<and>
    map ma_descriptor_digest as = map ps_digest steps \<and> map ma_target_fingerprint as = step_targets steps \<and>
    (\<forall>a \<in> set as. ma_root_instance_id a = ae_root_instance_id e \<and> ma_root_runtime_id a = ae_root_runtime_id e)"
  using assms
proof (induction steps arbitrary: e audits n)
  case (Cons s steps)
  from Cons.prems(1) obtain e1 audits1 where s: "apply_step H R limits s (e, audits) = Ok (e1, audits1)"
    and rest: "ofold (apply_step H R limits) steps (e1, audits1) = Ok (e', audits')"
    by (auto simp: obind_Ok_iff)
  have "route_linked (ae_validated_bundle_fingerprint e) [s]" using Cons.prems(2) by simp
  note e1 = apply_step_Ok [OF s this Cons.prems(3)]
  have "route_linked (ae_validated_bundle_fingerprint e1) steps" "from_decimal (ae_migration_sequence e1) = Some (Suc n)"
    using Cons.prems(2) e1 by simp_all
  from Cons.IH [OF rest this] obtain as where as: "audits' = audits1 @ as" "same_aggregate e1 e'"
    "audit_chain (ae_validated_bundle_fingerprint e1) (ae_aggregate_state_digest e1) (Suc n) as
      (ae_validated_bundle_fingerprint e') (ae_aggregate_state_digest e')"
    "map ma_descriptor_digest as = map ps_digest steps" "map ma_target_fingerprint as = step_targets steps"
    "\<forall>a \<in> set as. ma_root_instance_id a = ae_root_instance_id e1 \<and> ma_root_runtime_id a = ae_root_runtime_id e1"
    by blast
  have "same_aggregate e e'" using e1(1) as(2) by (rule same_aggregate_trans)
  moreover have "ae_root_instance_id e1 = ae_root_instance_id e" "ae_root_runtime_id e1 = ae_root_runtime_id e"
    using e1(1) by (simp_all add: same_aggregate_def)
  ultimately show ?case
    using as e1 by (intro exI [of _ "audit_of e1 (ae_validated_bundle_fingerprint e) (b_fingerprint (ps_target s))
        (ps_digest s) (ae_aggregate_state_digest e) # as"]) (simp add: audit_of_def)
qed simp

lemma restored_aggregate_sequence:
  "restored_aggregate G e ds r = Ok a \<Longrightarrow> from_decimal (ae_migration_sequence e) = Some (ag_migration_sequence a)"
  unfolding restored_aggregate_def Let_def
  by (auto simp: obind_Ok_iff parse_counter_def split: option.split_asm if_split_asm)

lemma restore_envelope_sequence:
  "restore_envelope G R e = Ok a \<Longrightarrow> from_decimal (ae_migration_sequence e) = Some (ag_migration_sequence a)"
  unfolding restore_envelope_def Let_def
  by (auto simp: obind_Ok_iff split: option.split_asm if_split_asm dest!: restored_aggregate_sequence)

text \<open>
  C25: a successful migration follows its route exactly.  The audit records are one per descriptor of
  the route, in its order; they link the definition and the digest of the source document to those
  of the result, with consecutive migration sequences; no definition is visited twice; the result is
  bound to the requested definition, restores, and is still the same aggregate with the same
  runtimes, mailboxes, host counters and spawn counters.
\<close>

theorem migration_follows_route:
  assumes "migrate_aggregate H A R limits source request = Ok out"
  shows "\<exists>e v n. parse_aggregate_envelope H A source = Ok (e, v) \<and> from_decimal (ae_migration_sequence e) = Some n \<and>
    audit_chain (ae_validated_bundle_fingerprint e) (ae_aggregate_state_digest e) n (mo_audit_records out)
      (ae_validated_bundle_fingerprint (mo_envelope out)) (ae_aggregate_state_digest (mo_envelope out)) \<and>
    map ma_descriptor_digest (mo_audit_records out) = mr_migration_route request \<and> distinct (mr_migration_route request) \<and>
    distinct (ae_validated_bundle_fingerprint e # map ma_target_fingerprint (mo_audit_records out)) \<and>
    ae_validated_bundle_fingerprint (mo_envelope out) = mr_target_fingerprint request \<and>
    same_aggregate e (mo_envelope out) \<and>
    restore_envelope (ho_engine H) (ar_definition R) (mo_envelope out) = Ok (mo_aggregate out)"
proof -
  from assms obtain e v B restored where
    e: "parse_aggregate_envelope H A source = Ok (e, v)" "resolve_role R (ae_validated_bundle_fingerprint e) SourceRole = Ok B"
      "restore_envelope (ho_engine H) (ar_definition R) e = Ok restored"
    and cases: "mr_migration_route request = [] \<and> mr_target_fingerprint request = ae_validated_bundle_fingerprint e \<and>
        out = \<lparr>mo_aggregate = restored, mo_envelope = e, mo_audit_records = []\<rparr> \<or>
      mr_migration_route request \<noteq> [] \<and> (\<exists>steps e' audits aggregate.
        prepare_route H A R limits e (mr_target_fingerprint request) [] [ae_validated_bundle_fingerprint e] B
              (mr_migration_route request) = Ok steps \<and>
        ofold (apply_step H R limits) steps (e, []) = Ok (e', audits) \<and>
        restore_envelope (ho_engine H) (ar_definition R) e' = Ok aggregate \<and>
        out = \<lparr>mo_aggregate = aggregate, mo_envelope = e', mo_audit_records = audits\<rparr>)"
    by (auto simp: migrate_aggregate_def obind_Ok_iff split: if_split_asm)
  note n = restore_envelope_sequence [OF e(3)]
  show ?thesis
    using cases
  proof (elim disjE conjE exE, goal_cases)
    case 1
    then show ?case using e n by auto
  next
    case (2 steps e' audits aggregate)
    note route = prepare_route_Ok [OF 2(2)]
    have "route_linked (ae_validated_bundle_fingerprint e) steps" using route resolve_role_fingerprint [OF e(2)] by simp
    from apply_steps_Ok [OF 2(3) this n] obtain as where as: "audits = as" "same_aggregate e e'"
      "audit_chain (ae_validated_bundle_fingerprint e) (ae_aggregate_state_digest e) (ag_migration_sequence restored) as
        (ae_validated_bundle_fingerprint e') (ae_aggregate_state_digest e')"
      "map ma_descriptor_digest as = map ps_digest steps" "map ma_target_fingerprint as = step_targets steps" by auto
    have "as \<noteq> []" using as(4) route 2(1) by auto
    then have "ae_validated_bundle_fingerprint e' = last (map ma_target_fingerprint as)"
      using audit_chain_last [OF as(3)] by simp
    then show ?case using as route 2 e n by auto
  qed
qed


section \<open>Counters\<close>

text \<open>The merging rule of \<^verbatim>\<open>schema/migration-descriptor-v1.schema.json\<close>.\<close>

definition merge_maximum_rule :: "string list \<Rightarrow> string \<Rightarrow> json" where
  "merge_maximum_rule sources target =
     jobj [(''operation'', JString ''merge_maximum''), (''source_definition_pointers'', JArray (map JString sources)),
           (''target_definition_pointer'', JString target)]"

lemma merge_maximum_no_match: "jget (merge_maximum_rule sources target) ''source_definition_pointer'' = None"
  by (simp add: merge_maximum_rule_def jget_def jobj_def jmembers_def)

lemma unmapped_counter_refused:
  assumes "c \<in> set source" and "matching_rules rules ''source_definition_pointer'' (wn_definition_pointer c) = []"
  shows "migrate_counters source rules \<noteq> Ok out"
proof
  assume "migrate_counters source rules = Ok out"
  then obtain mapped where "map (migrate_counter rules) source = map Ok mapped"
    by (auto simp: migrate_counters_def obind_Ok_iff collect_outcome_Ok)
  moreover have "migrate_counter rules c = Err MigrationTotalityFailure"
    using assms(2) by (simp add: migrate_counter_def)
  ultimately show False using assms(1) by (metis (no_types, lifting) imageE image_set list.set_map outcome.distinct(1) imageI)
qed

text \<open>
  The counter rule \<^verbatim>\<open>merge_maximum\<close> that the descriptor schema allows is never applied: a
  runtime with a counter of a state that only such rules name does not migrate.
\<close>

theorem merge_maximum_refused:
  assumes "c \<in> set source" and "\<forall>rule \<in> set rules. \<exists>sources target. rule = merge_maximum_rule sources target"
  shows "migrate_counters source rules \<noteq> Ok out"
proof (rule unmapped_counter_refused [OF assms(1)])
  show "matching_rules rules ''source_definition_pointer'' (wn_definition_pointer c) = []"
    using assms(2) merge_maximum_no_match unfolding matching_rules_def by (fastforce intro: filter_False)
qed

theorem merge_maximum_refused_witness:
  "migrate_counters [\<lparr>wn_definition_pointer = ''/off'', wn_next_sequence = ''1''\<rparr>] [merge_maximum_rule [''/off''] ''/on''] \<noteq> Ok []"
  by (rule merge_maximum_refused [of "\<lparr>wn_definition_pointer = ''/off'', wn_next_sequence = ''1''\<rparr>"]) auto

end
