(* ===== verification/Bell_Migration.thy ===== *)
theory Bell_Migration
  imports Migration_Spec Lamp_Host
begin

text \<open>
  The bell migrates to another definition of itself: the theorems about migrations are applied to it.
\<close>

definition chime_bundle :: compiled_bundle where
  "chime_bundle = bell_bundle\<lparr>b_fingerprint := ''g''\<rparr>"

definition chime_definitions :: resolver where
  "chime_definitions f =
     (if f = ''f'' then Some \<lparr>rd_bundle = bell_bundle, rd_trusted = True\<rparr>
      else if f = ''g'' then Some \<lparr>rd_bundle = chime_bundle, rd_trusted = True\<rparr> else None)"

definition pointer_rule :: "string \<Rightarrow> json" where
  "pointer_rule p = jobj [(''operation'', JString ''map''), (''source_definition_pointer'', JString p),
     (''target_definition_pointer'', JString p)]"

definition chime_descriptor :: json where
  "chime_descriptor = jobj
     [(''migration_descriptor_format'', JString ''determa.aggregate_migration''),
      (''migration_descriptor_schema_version'', JNumber (PosInt 1)), (''mode'', JString ''transform''),
      (''migration_descriptor_digest'', JString ''sha256:0''),
      (''source_validated_bundle_fingerprint'', JString ''f''), (''target_validated_bundle_fingerprint'', JString ''g''),
      (''source_aggregate_shape_fingerprint'', JString ''sha256:0''), (''target_aggregate_shape_fingerprint'', JString ''sha256:0''),
      (''resource_requirements'', jobj (map (\<lambda>k. (k, JString ''100''))
         [''maximum_transformed_output_bytes'', ''maximum_cel_expression_length'', ''maximum_cel_ast_nodes'', ''maximum_cel_evaluation_steps''])),
      (''mappings'', jobj
         [(''machines'', JArray [pointer_rule ''/r'']),
          (''active_states'', JArray [jobj [(''source_leaf_state_definition_pointer'', JString ''/off''),
             (''target_leaf_state_definition_pointers'', JArray [JString ''/off''])]]),
          (''counters'', JArray [pointer_rule ''/off'', pointer_rule ''/r'']),
          (''variables'', JArray []), (''history'', JArray []), (''components'', JArray []),
          (''owned_runtimes'', JArray []), (''lifetime_holders'', JArray [])])]"

definition chime_codec :: artifact_codec where
  "chime_codec = \<lparr>ac_parse = (\<lambda>s. if s = ''bell'' then Some (bell_document ''0'' ''0'' [] [])
      else if s = ''chime'' then Some chime_descriptor else None), ac_descriptor_schema = (\<lambda>_. True)\<rparr>"

definition chime_artifacts :: artifact_resolver where
  "chime_artifacts = \<lparr>ar_definition = chime_definitions,
     ar_descriptor = (\<lambda>d. if d = ''sha256:0'' then Some \<lparr>rm_bytes = ''chime'', rm_trusted = True\<rparr> else None)\<rparr>"

definition chime_request :: migration_request where
  "chime_request = \<lparr>mr_migration_route = [''sha256:0''], mr_target_fingerprint = ''g'', mr_maintenance_mode = False\<rparr>"

definition bell_wire :: aggregate_envelope where
  "bell_wire = the (envelope_of (bell_document ''0'' ''0'' [] []))"

text \<open>Limits small enough to compute with unary numbers.\<close>

definition chime_limits :: resource_limits where
  "chime_limits = \<lparr>maximum_aggregate_bytes = 60, maximum_definition_bytes = 60,
     maximum_descriptor_bytes = 60, maximum_transformed_output_bytes = 60, maximum_json_nesting_depth = 60,
     maximum_runtimes = 60, maximum_active_states_per_runtime = 60, maximum_variables_per_runtime = 60,
     maximum_map_members = 60, maximum_list_members = 60, maximum_string_utf8_bytes = 60,
     maximum_chain_length = 60, maximum_descriptor_rules = 60, maximum_cel_expression_length = 60,
     maximum_cel_ast_nodes = 60, maximum_cel_evaluation_steps = 60\<rparr>"

definition chime_wire :: aggregate_envelope where
  "chime_wire = ok_else bell_wire (apply_descriptor bell_host chime_limits chime_descriptor chime_bundle bell_wire)"

lemma chime_applies:
  "apply_descriptor bell_host chime_limits chime_descriptor chime_bundle bell_wire = Ok chime_wire \<and>
   ae_migration_sequence chime_wire = ''1''"
  unfolding chime_wire_def by (rule ok_elseI) code_simp

definition chime_sealed :: aggregate_envelope where
  "chime_sealed = chime_wire\<lparr>ae_aggregate_state_digest := ''sha256:0''\<rparr>"

definition chime_step :: prepared_step where
  "chime_step = \<lparr>ps_digest = ''sha256:0'', ps_descriptor = chime_descriptor, ps_target = chime_bundle\<rparr>"

definition chime_audit :: migration_audit_record where
  "chime_audit = audit_of chime_sealed ''f'' ''g'' ''sha256:0'' ''sha256:0''"

definition bell_restored :: native_aggregate where
  "bell_restored = ok_else bell (restore_envelope bell_engine chime_definitions bell_wire)"

definition chime_restored :: native_aggregate where
  "chime_restored = ok_else bell (restore_envelope bell_engine chime_definitions chime_sealed)"

lemma chime_reads:
  "parse_aggregate_envelope bell_host chime_codec ''bell'' = Ok (bell_wire, bell_document ''0'' ''0'' [] [])"
  by code_simp

lemma chime_within:
  "enforce_aggregate_limits bell_wire chime_limits = Ok ()" "enforce_aggregate_limits chime_sealed chime_limits = Ok ()"
  "enforce_definition_limits bell_host bell_bundle chime_limits = Ok ()"
  "enforce_definition_limits bell_host chime_bundle chime_limits = Ok ()"
  "enforce_descriptor_rules chime_descriptor chime_limits = Ok ()"
  by code_simp+

lemma chime_resolves:
  "resolve_role chime_artifacts ''f'' SourceRole = Ok bell_bundle" "resolve_role chime_artifacts ''g'' TargetRole = Ok chime_bundle"
  by (simp_all add: resolve_role_def chime_artifacts_def chime_definitions_def chime_bundle_def bell_bundle_def lamp_bundle_def)

lemma chime_restores:
  "restore_envelope bell_engine chime_definitions bell_wire = Ok bell_restored \<and> True"
  "restore_envelope bell_engine chime_definitions chime_sealed = Ok chime_restored \<and> True"
  unfolding bell_restored_def chime_restored_def by (rule ok_elseI, code_simp)+

lemma chime_descriptor_reads:
  "resolve_descriptor bell_host chime_codec chime_artifacts ''sha256:0'' chime_limits = Ok chime_descriptor"
  "validate_descriptor_definitions bell_host chime_descriptor bell_bundle chime_bundle = Ok ()"
  "enforce_terminal_policy bell_wire chime_descriptor = Ok ()"
  "rule_string chime_descriptor ''source_validated_bundle_fingerprint'' = Ok ''f''"
  "rule_string chime_descriptor ''target_validated_bundle_fingerprint'' = Ok ''g''"
  by code_simp+

lemma chime_fingerprints:
  "b_fingerprint bell_bundle = ''f''" "ae_validated_bundle_fingerprint bell_wire = ''f''"
  "ae_aggregate_state_digest bell_wire = ''sha256:0''" "list_ex (\<lambda>w. ww_status w \<noteq> Running) (ae_runtimes bell_wire) = False"
  "recompute_digest bell_host chime_wire = Ok chime_sealed"
  by code_simp+

lemma chime_parts:
  "ho_engine bell_host = bell_engine" "ho_canonical_text bell_host j = Some []" "ar_definition chime_artifacts = chime_definitions"
  "maximum_aggregate_bytes chime_limits = 60" "maximum_chain_length chime_limits = 60"
  by (simp_all add: bell_host_def chime_artifacts_def chime_limits_def)

lemma chime_prepared:
  "prepare_route bell_host chime_codec chime_artifacts chime_limits bell_wire ''g'' [] [''f''] bell_bundle [''sha256:0''] = Ok [chime_step]"
  by (simp add: chime_descriptor_reads chime_fingerprints chime_resolves chime_within chime_step_def)

lemma chime_stepped:
  "apply_step bell_host chime_artifacts chime_limits chime_step (bell_wire, []) = Ok (chime_sealed, [chime_audit])"
  using chime_applies chime_restores
  by (simp add: apply_step_def chime_step_def chime_descriptor_reads chime_fingerprints chime_within as_totality_def
      chime_parts require_within_def chime_audit_def)

lemma chime_migrates:
  "migrate_aggregate bell_host chime_codec chime_artifacts chime_limits ''bell'' chime_request =
     Ok \<lparr>mo_aggregate = chime_restored, mo_envelope = chime_sealed, mo_audit_records = [chime_audit]\<rparr>"
  using chime_restores
  by (simp add: migrate_aggregate_def chime_reads chime_within chime_resolves chime_fingerprints chime_prepared chime_stepped
      chime_parts require_within_def chime_request_def del: prepare_route.simps)

text \<open>A runtime with two variables: one is copied under another name, one is dropped.\<close>

definition chime_variable :: "string \<Rightarrow> wire_variable" where
  "chime_variable pointer = \<lparr>wv_variable_declaration_pointer = pointer, wv_declaring_state_activation_sequence = ''0'', wv_value = TBoolean True\<rparr>"

definition chime_variables_runtime :: wire_runtime where
  "chime_variables_runtime = (hd (ae_runtimes bell_wire))\<lparr>ww_variables := [chime_variable ''/r/variables/a'', chime_variable ''/r/variables/b'']\<rparr>"

definition chime_rules :: "json list" where
  "chime_rules =
     [jobj [(''operation'', JString ''copy''), (''source_declaration_pointer'', JString ''/r/variables/a''),
            (''target_declaration_pointer'', JString ''/r/variables/hot'')],
      jobj [(''operation'', JString ''drop''), (''source_declaration_pointer'', JString ''/r/variables/b'')]]"

definition chime_requirements :: declared_limits where
  "chime_requirements = \<lparr>dl_transformed_output_bytes = 0, dl_cel_expression_length = 0, dl_cel_ast_nodes = 0, dl_cel_evaluation_steps = 0\<rparr>"

lemma chime_variables:
  "migrate_variables bell_host chime_limits chime_requirements chime_variables_runtime [] bulb_machine chime_rules
     \<lparr>rt_transformed_output_bytes = 0, rt_cel_evaluation_steps = 0\<rparr> =
   Ok ([chime_variable ''/r/variables/hot''], \<lparr>rt_transformed_output_bytes = 0, rt_cel_evaluation_steps = 0\<rparr>)"
  by code_simp

theorem migrated_variables_partition_witness:
  "\<exists>es. list_all2 (\<lambda>rule e. variable_rule (ho_engine bell_host) chime_variables_runtime [] rule (fst e) (snd e)) chime_rules es \<and>
      mset (concat (map fst es)) = mset (ww_variables chime_variables_runtime) \<and>
      mset (concat (map snd es)) = {#chime_variable ''/r/variables/hot''#}"
  using migrated_variables_partition [OF chime_variables] by auto

theorem descriptor_keeps_runtimes_witness:
  "same_aggregate bell_wire chime_wire \<and> ae_validated_bundle_fingerprint chime_wire = b_fingerprint chime_bundle"
  using descriptor_keeps_runtimes [OF conjunct1 [OF chime_applies]] by simp

theorem migration_follows_route_witness:
  "map ma_descriptor_digest [chime_audit] = mr_migration_route chime_request \<and>
   ae_validated_bundle_fingerprint chime_sealed = mr_target_fingerprint chime_request"
  using migration_follows_route [OF chime_migrates] by auto

end
