(* ===== verification/Spec2Isabelle.thy ===== *)
theory Spec2Isabelle
  imports Bell_Host Bell_Migration
begin

text \<open>
  \<^bold>\<open>Verification of the Determa state runtime.\<close>

  The program runs state machines that are written as documents, compiled to a bundle, and
  executed as an aggregate: a tree of runtimes made of a root, its components and the instances
  it spawned.  One delivery is one step of one runtime.  Around the step kernel a mailbox host
  keeps the aggregate with its queues as a JSON document, a checkpoint adds receipts, an outbox and
  revisions to that document, and a store keeps checkpoints under compare-and-swap.

  \<^bold>\<open>Theories and sources\<close> (paths below \<^verbatim>\<open>src/src/\<close>).

  \<^item> \<^verbatim>\<open>Prelude\<close>: ordered maps and sets (\<^verbatim>\<open>BTreeMap\<close>, \<^verbatim>\<open>BTreeSet\<close>) as
    sorted lists with the locale \<^verbatim>\<open>ordered_map\<close>, the outcome type (value, error, panic,
    out of fuel) and the JSON values of \<^verbatim>\<open>serde_json\<close>.
  \<^item> \<^verbatim>\<open>Counters\<close> (\<^verbatim>\<open>format1/counter.rs\<close>), \<^verbatim>\<open>Float64\<close>, \<^verbatim>\<open>Values\<close>
    (\<^verbatim>\<open>value.rs\<close>), \<^verbatim>\<open>Typed_Values\<close> (\<^verbatim>\<open>TypedValue\<close> of \<^verbatim>\<open>format1/native.rs\<close>),
    \<^verbatim>\<open>Cel\<close> and \<^verbatim>\<open>Cel_Types\<close> (\<^verbatim>\<open>format1/cel.rs\<close>, the evaluator
    and the static checker): counters are unbounded naturals as in the code, integers and doubles are
    64-bit words, doubles as their IEEE patterns.
  \<^item> \<^verbatim>\<open>Definitions\<close> (data of \<^verbatim>\<open>format1/model.rs\<close>, \<^verbatim>\<open>format1/compile.rs\<close>),
    \<^verbatim>\<open>Runtime_State\<close>, \<^verbatim>\<open>Identity\<close>, \<^verbatim>\<open>Envelopes\<close>, \<^verbatim>\<open>Selection\<close>,
    \<^verbatim>\<open>Kernel_Monad\<close>, \<^verbatim>\<open>Kernel\<close>, \<^verbatim>\<open>Validation\<close>, \<^verbatim>\<open>Dispatch\<close>
    (\<^verbatim>\<open>format1/runtime.rs\<close>): the runtime tree as a datatype over records, addresses into it,
    identities, admission of an envelope, the choice of a handler, every function that changes a
    runtime, the validation of a prior state and the two entry points.  The recursion from actions to
    the initialisation of children and back is cut by fuel (\<^verbatim>\<open>kernel_at\<close>).
  \<^item> \<^verbatim>\<open>Wire\<close>, \<^verbatim>\<open>Restore\<close> (\<^verbatim>\<open>format1/native.rs\<close>,
    \<^verbatim>\<open>format1/persistence.rs\<close>): the persisted envelope, its JSON form, and the reading of
    a runtime tree from its flat records.
  \<^item> \<^verbatim>\<open>Mailbox\<close>, \<^verbatim>\<open>Mailbox_Step\<close> (\<^verbatim>\<open>format1/v1.rs\<close>): the
    document with its mailboxes, admission, the step on a document with deferral, recall, disposal
    and emissions, creation, and the integrity of mailboxes.  \<^verbatim>\<open>Mailbox_Migration\<close>: the
    migration of a document with its mailboxes, queued events being disposed of by rule or checked
    against the target.
  \<^item> \<^verbatim>\<open>Migration\<close> (\<^verbatim>\<open>format1/migration.rs\<close>): requests, limits and
    descriptors, the shape of a bundle, the static checks of a descriptor, the mapping of every
    runtime record, and routes of descriptors with their audit records.
  \<^item> \<^verbatim>\<open>Store\<close>, \<^verbatim>\<open>Store_Policy\<close> (\<^verbatim>\<open>checkpoint/store.rs\<close>,
    \<^verbatim>\<open>checkpoint/adapter_policy.rs\<close>, \<^verbatim>\<open>checkpoint/adapters/memory.rs\<close>): the
    compare-and-swap store and its memory adapter, configuration text, registration of adapters, and
    the retention policy on replacements.
  \<^item> \<^verbatim>\<open>Checkpoint\<close>, \<^verbatim>\<open>Checkpoint_Semantics\<close>, \<^verbatim>\<open>Checkpoint_Outbox\<close>,
    \<^verbatim>\<open>Checkpoint_Step\<close> (\<^verbatim>\<open>checkpoint/v1.rs\<close>, \<^verbatim>\<open>checkpoint/types.rs\<close>):
    the checkpoint document, the whole semantic validation, the outbox operations, tombstoning and
    pruning, creation, admission, stepping and processing on a checkpoint, and what it records of a
    migration.  \<^verbatim>\<open>Checkpoint_Migration\<close>: processing and maintenance with a migration.
  \<^item> \<^verbatim>\<open>Checkpoint_Host\<close> (\<^verbatim>\<open>checkpoint/host.rs\<close>): the operations of the
    host over a store (record \<^verbatim>\<open>store_access\<close>), each of which loads a record, restores it,
    applies a checkpoint operation and commits by compare-and-swap; the execution of an operation with
    its report and the answer to the caller; the contract checks.  A call takes the state of the store
    and returns an outcome and the new state.

  \<^bold>\<open>What is shown.\<close>

  \<^item> Values and expressions: round trips of the JSON forms, canonicity of whatever is accepted or
    computed, exact integer arithmetic, type soundness of checked expressions, and the step budget of
    migration expressions.
  \<^item> The runtime tree: the locale \<^verbatim>\<open>addressed_store\<close> for reading and updating by
    address, soundness of target resolution, uniqueness of identities unless the hash collides on
    the two texts they are digests of.
  \<^item> The kernel: \<^verbatim>\<open>Kernel_Steps\<close> has a relation for what the functions of the
    kernel may change of a runtime and its context (locale \<^verbatim>\<open>kernel_calls\<close>), through
    which invariants are proved, \<^verbatim>\<open>Kernel_Fuel\<close> shows that fuel
    does not matter once it is enough (locale \<^verbatim>\<open>kernel_extension\<close>), and
    \<^verbatim>\<open>Aggregates\<close> lifts invariants of one runtime to all reachable aggregates (locale
    \<^verbatim>\<open>tree_invariant\<close>): typing, fresh sequence numbers, isolation of branches, what a
    fault and a handled delivery change of the tree, consecutive numbering of effects.
  \<^item> Documents: restoring loses and duplicates no record (locale
    \<^verbatim>\<open>restored_projection\<close>) and always ends; \<^verbatim>\<open>Mailbox_Spec\<close> and
    \<^verbatim>\<open>Mailbox_Queue\<close> relate admission, deferral and recall to an abstract state of
    queues, and the integrity check to an invariant of it.
  \<^item> Migration: \<^verbatim>\<open>Migration_Spec\<close> has a relation for each variable rule and shows that
    the rules split the variables of a runtime among them, that a descriptor keeps the identity of
    every runtime, and that a route is a chain of distinct definitions whose audit records link up.
  \<^item> Stores: no update is lost (locale \<^verbatim>\<open>cas_store\<close>); retention modes keep receipts and terminal records.
  \<^item> Checkpoints: \<^verbatim>\<open>Checkpoint_Spec\<close> has what each operation keeps (locale
    \<^verbatim>\<open>document_preorder\<close>, interpreted for the members an operation leaves alone and for
    the receipts it only adds to), \<^verbatim>\<open>Checkpoint_Effects\<close> that an effect is settled
    once, \<^verbatim>\<open>Checkpoint_Events\<close> what a step records,
    \<^verbatim>\<open>Checkpoint_Retention\<close> that pruning forgets no event identity,
    \<^verbatim>\<open>Checkpoint_Replay\<close> that a processed event is answered from its receipt or its
    tombstone and not run again, whatever operations come between.
  \<^item> The host: \<^verbatim>\<open>Host_Results\<close> has what each operation hands to the commit: a
    document that is guarded and takes one revision,
    \<^verbatim>\<open>Host_Spec\<close> the contract of a store as the host uses it (locale
    \<^verbatim>\<open>host_store\<close>, interpreted on the memory adapter), \<^verbatim>\<open>Host_Theorems\<close> that
    a write is the next revision of what the caller expected, that a guard is good for one write,
    that a step is carried out once, and that the report of an operation tells what happened to the
    store.
  \<^item> \<^verbatim>\<open>Lamp\<close>, \<^verbatim>\<open>Lamp_Host\<close>, \<^verbatim>\<open>Bell_Checkpoint\<close>,
    \<^verbatim>\<open>Bell_Migration\<close> and \<^verbatim>\<open>Bell_Host\<close> run a concrete bundle through the kernel,
    the mailbox host, a checkpoint, a migration and the checkpoint host, and apply the theorems to it.

  \<^bold>\<open>Parameters.\<close>  Code outside the repository is an argument: SHA-256, the CEL parser and
  the providers of the host (record \<^verbatim>\<open>engine\<close>), the canonical text of a document and the
  JSON-schema validators (\<^verbatim>\<open>host\<close>, \<^verbatim>\<open>checkpoint_host\<close>), and the reader of
  JSON text.  The theorems about the host assume of them that reading canonical text gives back the
  document up to the form of its numbers (\<^verbatim>\<open>text_faithful\<close>), and that what the checkpoint
  schema accepts is marked as a checkpoint and none of its receipts is (\<^verbatim>\<open>documents_typed\<close>);
  \<^verbatim>\<open>Bell_Host\<close> has an instance of both.  Error messages are dropped; error codes are kept.  Indexing and unwrapping that would
  panic yield the outcome \<^verbatim>\<open>Panic\<close>.

  \<^bold>\<open>Fuel.\<close>  Only the kernel takes fuel.  \<^verbatim>\<open>step_fuel_irrelevant\<close> shows that
  two amounts that suffice agree; a run needs one unit for each nested child initialisation and for
  each nested clean-up.

  \<^bold>\<open>Not modelled.\<close>  Compilation of authored documents and the static checks of
  \<^verbatim>\<open>format1/compile.rs\<close> and \<^verbatim>\<open>format1/source.rs\<close> (YAML and JSON-schema
  crates); of \<^verbatim>\<open>checkpoint/host.rs\<close> the durable processing over SQLite with its inbox and
  quarantine tables and the PostgreSQL transactions; inspection, packages, the registries of host-supplied closures
  in \<^verbatim>\<open>format1/providers\<close>; file and database adapters, the command line, extension
  processes and the public host protocol (I/O); the conformance driver.
\<close>

end
